(* ===== verification/Prelude.thy ===== *)
theory Prelude
  imports Complex_Main "HOL-Library.Char_ord" "HOL-Library.List_Lexorder" "HOL-Library.Product_Lexorder"
begin

text \<open>
  Shared vocabulary of the development: Python exceptions as values of one error type, the
  error-and-state monad in which the stateful operations of the control plane are written, JSON
  documents as a datatype (a Python dict is an association list in insertion order), string
  helpers with Python's behaviour on ASCII text, and the generic lemmas the component theories
  rely on.

  The collection \<open>run_simps\<close> holds the equations that run a monadic operation, \<open>keeps_intro\<close>
  the introduction rules that show an operation keeps a predicate of the state.
\<close>

named_theorems run_simps \<open>running operations of the error-and-state monad\<close>
named_theorems keeps_intro \<open>operations keep a predicate of the state\<close>

section \<open>Exceptions as values\<close>

datatype py_error =
    KeyError string
  | PermissionError string
  | LeaseConflictError string
  | ValueError string
  | TypeError string
  | IndexError string
  | OverflowError string
  | IntegrityError string
  | OperationalError string
  | FileNotFoundError string
  | OSError string
  | RuntimeError string
  | RoutePlanValidationError string
  | BackendResolutionError string
  | CapacityRegistryValidationError string
  | ControlPlaneRequestError string
  | HostAdapterInputError string

type_synonym 'a result = "py_error + 'a"

fun bind_result :: "'a result \<Rightarrow> ('a \<Rightarrow> 'b result) \<Rightarrow> 'b result" where
  "bind_result (Inl e) f = Inl e"
| "bind_result (Inr x) f = f x"

lemma bind_result_Inr_iff [simp]:
  "bind_result m f = Inr y \<longleftrightarrow> (\<exists>x. m = Inr x \<and> f x = Inr y)"
  by (cases m) auto

lemma bind_result_Inl_iff:
  "bind_result m f = Inl e \<longleftrightarrow> m = Inl e \<or> (\<exists>x. m = Inr x \<and> f x = Inl e)"
  by (cases m) auto

fun map_result :: "('a \<Rightarrow> 'b result) \<Rightarrow> 'a list \<Rightarrow> 'b list result" where
  "map_result f [] = Inr []"
| "map_result f (x # xs) =
     bind_result (f x) (\<lambda>y. bind_result (map_result f xs) (\<lambda>ys. Inr (y # ys)))"

lemma map_result_length: "map_result f xs = Inr ys \<Longrightarrow> length ys = length xs"
  by (induction xs arbitrary: ys) auto

lemma map_result_all2:
  "map_result f xs = Inr ys \<Longrightarrow> list_all2 (\<lambda>x y. f x = Inr y) xs ys"
  by (induction xs arbitrary: ys) auto

lemma map_result_set:
  assumes "map_result f xs = Inr ys" and "y \<in> set ys"
  shows "\<exists>x \<in> set xs. f x = Inr y"
  using assms by (induction xs arbitrary: ys) auto

section \<open>The error-and-state monad\<close>

text \<open>
  An operation runs on a state and yields a value or an exception together with the state it
  leaves: an exception does not undo the effects that came before it.
\<close>

type_synonym ('s, 'a) prog = "'s \<Rightarrow> 'a result \<times> 's"

definition ret :: "'a \<Rightarrow> ('s, 'a) prog" where
  "ret x = (\<lambda>s. (Inr x, s))"

definition raise :: "py_error \<Rightarrow> ('s, 'a) prog" where
  "raise e = (\<lambda>s. (Inl e, s))"

definition bnd :: "('s, 'a) prog \<Rightarrow> ('a \<Rightarrow> ('s, 'b) prog) \<Rightarrow> ('s, 'b) prog" where
  "bnd m f = (\<lambda>s. case m s of (Inl e, t) \<Rightarrow> (Inl e, t) | (Inr x, t) \<Rightarrow> f x t)"

definition seq :: "('s, 'a) prog \<Rightarrow> ('s, 'b) prog \<Rightarrow> ('s, 'b) prog" where
  "seq m n = bnd m (\<lambda>_. n)"

definition gets :: "('s \<Rightarrow> 'a) \<Rightarrow> ('s, 'a) prog" where
  "gets f = (\<lambda>s. (Inr (f s), s))"

definition modify :: "('s \<Rightarrow> 's) \<Rightarrow> ('s, unit) prog" where
  "modify f = (\<lambda>s. (Inr (), f s))"

definition of_result :: "'a result \<Rightarrow> ('s, 'a) prog" where
  "of_result r = (\<lambda>s. (r, s))"

definition require :: "bool \<Rightarrow> py_error \<Rightarrow> ('s, unit) prog" where
  "require b e = (if b then ret () else raise e)"

fun for_each :: "('a \<Rightarrow> ('s, unit) prog) \<Rightarrow> 'a list \<Rightarrow> ('s, unit) prog" where
  "for_each f [] = ret ()"
| "for_each f (x # xs) = seq (f x) (for_each f xs)"

lemma run_ret [run_simps, simp]: "ret x s = (Inr x, s)"
  by (simp add: ret_def)

lemma run_raise [run_simps, simp]: "raise e s = (Inl e, s)"
  by (simp add: raise_def)

lemma run_gets [run_simps, simp]: "gets f s = (Inr (f s), s)"
  by (simp add: gets_def)

lemma run_modify [run_simps, simp]: "modify f s = (Inr (), f s)"
  by (simp add: modify_def)

lemma run_of_result [run_simps, simp]: "of_result r s = (r, s)"
  by (simp add: of_result_def)

lemma run_require [run_simps, simp]:
  "require b e s = (if b then (Inr (), s) else (Inl e, s))"
  by (simp add: require_def)

lemma run_bnd [run_simps]:
  "bnd m f s = (case m s of (Inl e, t) \<Rightarrow> (Inl e, t) | (Inr x, t) \<Rightarrow> f x t)"
  by (simp add: bnd_def)

lemma run_seq [run_simps]:
  "seq m n s = (case m s of (Inl e, t) \<Rightarrow> (Inl e, t) | (Inr x, t) \<Rightarrow> n t)"
  by (simp add: seq_def bnd_def)

lemma bnd_ok_iff:
  "bnd m f s = (Inr y, t) \<longleftrightarrow> (\<exists>x u. m s = (Inr x, u) \<and> f x u = (Inr y, t))"
  by (auto simp: bnd_def split: prod.splits sum.splits)

lemma seq_ok_iff:
  "seq m n s = (Inr y, t) \<longleftrightarrow> (\<exists>x u. m s = (Inr x, u) \<and> n u = (Inr y, t))"
  by (auto simp: seq_def bnd_ok_iff)

lemma bnd_error_iff:
  "bnd m f s = (Inl e, t) \<longleftrightarrow>
     m s = (Inl e, t) \<or> (\<exists>x u. m s = (Inr x, u) \<and> f x u = (Inl e, t))"
  by (auto simp: bnd_def split: prod.splits sum.splits)

lemma seq_error_iff:
  "seq m n s = (Inl e, t) \<longleftrightarrow>
     m s = (Inl e, t) \<or> (\<exists>x u. m s = (Inr x, u) \<and> n u = (Inl e, t))"
  by (auto simp: seq_def bnd_error_iff)

text \<open>\<open>keeps I m\<close>: the operation keeps \<open>I\<close>, whether it returns or raises.\<close>

definition keeps :: "('s \<Rightarrow> bool) \<Rightarrow> ('s, 'a) prog \<Rightarrow> bool" where
  "keeps I m \<longleftrightarrow> (\<forall>s. I s \<longrightarrow> I (snd (m s)))"

lemma keepsD: "keeps I m \<Longrightarrow> I s \<Longrightarrow> m s = (r, t) \<Longrightarrow> I t"
  by (force simp: keeps_def)

lemma keeps_ret [keeps_intro]: "keeps I (ret x)"
  by (simp add: keeps_def)

lemma keeps_raise [keeps_intro]: "keeps I (raise e)"
  by (simp add: keeps_def)

lemma keeps_gets [keeps_intro]: "keeps I (gets f)"
  by (simp add: keeps_def)

lemma keeps_of_result [keeps_intro]: "keeps I (of_result r)"
  by (simp add: keeps_def)

lemma keeps_require [keeps_intro]: "keeps I (require b e)"
  by (simp add: keeps_def)

lemma keeps_modify: "(\<And>s. I s \<Longrightarrow> I (f s)) \<Longrightarrow> keeps I (modify f)"
  by (simp add: keeps_def)

lemma keeps_bnd [keeps_intro]: "keeps I m \<Longrightarrow> (\<And>x. keeps I (f x)) \<Longrightarrow> keeps I (bnd m f)"
  by (auto simp: keeps_def bnd_def split: prod.splits sum.splits)

lemma keeps_seq [keeps_intro]: "keeps I m \<Longrightarrow> keeps I n \<Longrightarrow> keeps I (seq m n)"
  by (simp add: seq_def keeps_bnd)

lemma keeps_if [keeps_intro]: "keeps I m \<Longrightarrow> keeps I n \<Longrightarrow> keeps I (if b then m else n)"
  by simp

lemma keeps_option [keeps_intro]:
  "keeps I m \<Longrightarrow> (\<And>x. keeps I (f x)) \<Longrightarrow> keeps I (case y of None \<Rightarrow> m | Some x \<Rightarrow> f x)"
  by (cases y) auto

lemma keeps_for_each [keeps_intro]: "(\<And>x. keeps I (f x)) \<Longrightarrow> keeps I (for_each f xs)"
  by (induction xs) (auto intro: keeps_intro)

lemma keeps_conj: "keeps I m \<Longrightarrow> keeps J m \<Longrightarrow> keeps (\<lambda>s. I s \<and> J s) m"
  by (simp add: keeps_def)

section \<open>JSON documents\<close>

text \<open>
  A finite binary64 number is a rational, so \<open>JFloat\<close> carries one. Object fields keep the order
  in which the code inserts them.
\<close>

datatype json =
    JNull
  | JBool bool
  | JInt int
  | JFloat rat
  | JStr string
  | JList "json list"
  | JObj "(string \<times> json) list"

type_synonym fields = "(string \<times> json) list"

lemma json_size_list [termination_simp]:
  "x \<in> set xs \<Longrightarrow> size x < Suc (size_list size xs)"
  by (induction xs) auto

lemma json_size_field [termination_simp]:
  "(k, v) \<in> set kvs \<Longrightarrow> size v < Suc (size_list (size_prod (\<lambda>_. 0) size) kvs)"
  by (induction kvs) auto

lemma json_induct [case_names Null Bool Int Float Str List Obj]:
  assumes "P JNull" and "\<And>b. P (JBool b)" and "\<And>i. P (JInt i)" and "\<And>q. P (JFloat q)"
    and "\<And>s. P (JStr s)"
    and "\<And>xs. (\<And>x. x \<in> set xs \<Longrightarrow> P x) \<Longrightarrow> P (JList xs)"
    and "\<And>kvs. (\<And>k v. (k, v) \<in> set kvs \<Longrightarrow> P v) \<Longrightarrow> P (JObj kvs)"
  shows "P j"
proof (induction j)
  case (JObj kvs)
  then have "\<And>k v. (k, v) \<in> set kvs \<Longrightarrow> P v" by force
  then show ?case by (rule assms(7))
qed (auto intro: assms)

text \<open>\<open>d.get(k)\<close> and \<open>d[k] = v\<close>: assigning to a key that is present keeps its position.\<close>

definition dget :: "('k \<times> 'v) list \<Rightarrow> 'k \<Rightarrow> 'v option" where
  "dget d k = map_of d k"

fun dput :: "'k \<Rightarrow> 'v \<Rightarrow> ('k \<times> 'v) list \<Rightarrow> ('k \<times> 'v) list" where
  "dput k v [] = [(k, v)]"
| "dput k v ((a, b) # d) = (if a = k then (k, v) # d else (a, b) # dput k v d)"

definition has_key :: "('k \<times> 'v) list \<Rightarrow> 'k \<Rightarrow> bool" where
  "has_key d k \<longleftrightarrow> dget d k \<noteq> None"

definition dget_or :: "'v \<Rightarrow> ('k \<times> 'v) list \<Rightarrow> 'k \<Rightarrow> 'v" where
  "dget_or v d k = (case dget d k of None \<Rightarrow> v | Some x \<Rightarrow> x)"

lemma dget_simps [simp]:
  "dget [] k = None"
  "dget ((a, b) # d) k = (if k = a then Some b else dget d k)"
  by (auto simp: dget_def)

lemma dget_dput [simp]: "dget (dput k v d) k' = (if k' = k then Some v else dget d k')"
  by (induction d) auto

lemma dget_in_set: "dget d k = Some v \<Longrightarrow> (k, v) \<in> set d"
  by (simp add: dget_def map_of_SomeD)

lemma keys_dput: "fst ` set (dput k v d) = insert k (fst ` set d)"
  by (induction k v d rule: dput.induct) auto

lemma distinct_dput: "distinct (map fst d) \<Longrightarrow> distinct (map fst (dput k v d))"
proof (induction d)
  case (Cons p d)
  obtain a b where "p = (a, b)" by (cases p)
  with Cons show ?case using keys_dput [of k v d] by (auto simp: image_iff)
qed simp

text \<open>Python's truth value of a JSON value.\<close>

fun truthy :: "json \<Rightarrow> bool" where
  "truthy JNull = False"
| "truthy (JBool b) = b"
| "truthy (JInt i) = (i \<noteq> 0)"
| "truthy (JFloat q) = (q \<noteq> 0)"
| "truthy (JStr s) = (s \<noteq> [])"
| "truthy (JList xs) = (xs \<noteq> [])"
| "truthy (JObj kvs) = (kvs \<noteq> [])"

definition truthy_at :: "fields \<Rightarrow> string \<Rightarrow> bool" where
  "truthy_at d k = (case dget d k of None \<Rightarrow> False | Some v \<Rightarrow> truthy v)"

fun json_of_option :: "('a \<Rightarrow> json) \<Rightarrow> 'a option \<Rightarrow> json" where
  "json_of_option f None = JNull"
| "json_of_option f (Some x) = f x"

section \<open>Strings\<close>

text \<open>
  Text is a list of characters; ASCII letters are lowered as Python lowers them, other bytes are
  left alone.
\<close>

definition ascii_lower :: "char \<Rightarrow> char" where
  "ascii_lower c = (if CHR ''A'' \<le> c \<and> c \<le> CHR ''Z'' then char_of (of_char c + (32::nat)) else c)"

definition lower :: "string \<Rightarrow> string" where
  "lower s = map ascii_lower s"

definition replace_char :: "char \<Rightarrow> char \<Rightarrow> string \<Rightarrow> string" where
  "replace_char a b s = map (\<lambda>c. if c = a then b else c) s"

fun starts_with :: "string \<Rightarrow> string \<Rightarrow> bool" where
  "starts_with [] s = True"
| "starts_with (p # ps) [] = False"
| "starts_with (p # ps) (c # s) = (p = c \<and> starts_with ps s)"

definition ends_with :: "string \<Rightarrow> string \<Rightarrow> bool" where
  "ends_with p s = starts_with (rev p) (rev s)"

text \<open>\<open>fragment in text\<close>\<close>

fun occurs_in :: "string \<Rightarrow> string \<Rightarrow> bool" where
  "occurs_in p [] = (p = [])"
| "occurs_in p (c # s) = (starts_with p (c # s) \<or> occurs_in p s)"

lemma starts_with_iff: "starts_with p s \<longleftrightarrow> (\<exists>t. s = p @ t)"
  by (induction p s rule: starts_with.induct) auto

lemma ends_with_iff: "ends_with p s \<longleftrightarrow> (\<exists>t. s = t @ p)"
proof -
  have "ends_with p s \<longleftrightarrow> (\<exists>t. rev s = rev p @ t)"
    by (simp add: ends_with_def starts_with_iff)
  also have "\<dots> \<longleftrightarrow> (\<exists>t. s = t @ p)"
    by (metis rev_append rev_rev_ident)
  finally show ?thesis .
qed

lemma occurs_in_iff: "occurs_in p s \<longleftrightarrow> (\<exists>u v. s = u @ p @ v)"
proof (induction p s rule: occurs_in.induct)
  case (2 p c s)
  show ?case
  proof
    assume "occurs_in p (c # s)"
    then consider t where "c # s = p @ t" | u v where "s = u @ p @ v"
      using "2" by (auto simp: starts_with_iff)
    then show "\<exists>u v. c # s = u @ p @ v"
      by cases (metis append_Nil, metis append_Cons)
  next
    assume "\<exists>u v. c # s = u @ p @ v"
    then obtain u v where "c # s = u @ p @ v" by blast
    then show "occurs_in p (c # s)"
    proof (cases u)
      case Nil
      with \<open>c # s = u @ p @ v\<close> have "starts_with p (c # s)" by (auto simp: starts_with_iff)
      then show ?thesis by simp
    next
      case (Cons a u')
      with \<open>c # s = u @ p @ v\<close> show ?thesis using "2" by auto
    qed
  qed
qed auto

lemma occurs_in_append: "occurs_in p s \<Longrightarrow> occurs_in p (u @ s @ v)"
  by (metis append.assoc occurs_in_iff)

section \<open>Decimal numerals\<close>

definition digit_char :: "nat \<Rightarrow> char" where
  "digit_char d = char_of (48 + d)"

fun pad :: "nat \<Rightarrow> nat \<Rightarrow> string" where
  "pad 0 n = []"
| "pad (Suc k) n = digit_char (n div 10 ^ k mod 10) # pad k (n mod 10 ^ k)"

fun show_nat :: "nat \<Rightarrow> string" where
  "show_nat n = (if n < 10 then [digit_char n] else show_nat (n div 10) @ [digit_char (n mod 10)])"

declare show_nat.simps [simp del]

definition show_int :: "int \<Rightarrow> string" where
  "show_int i = (if i < 0 then CHR ''-'' # show_nat (nat (- i)) else show_nat (nat i))"

lemma length_pad [simp]: "length (pad k n) = k"
  by (induction k arbitrary: n) auto

lemma digit_char_less: "a < 10 \<Longrightarrow> b < 10 \<Longrightarrow> digit_char a < digit_char b \<longleftrightarrow> a < b"
  by (simp add: digit_char_def less_char_def)

lemma digit_char_eq: "a < 10 \<Longrightarrow> b < 10 \<Longrightarrow> digit_char a = digit_char b \<longleftrightarrow> a = b"
  by (simp add: order.eq_iff digit_char_less flip: not_less)

end
