(* ===== verification/Timestamps.thy ===== *)
theory Timestamps
  imports Prelude
begin

text \<open>
  The clock values of the control plane (\<open>src/tokenbank/scheduler/lease.py\<close>): a UTC
  \<open>datetime\<close>, its text form \<open>utc_text\<close> (\<open>isoformat()\<close> with the offset written Z, which leaves out
  the fraction when the microseconds are zero), and \<open>datetime + timedelta(milliseconds)\<close>. SQLite
  compares these texts byte by byte, so the lemmas relate text order to time order.
\<close>

record datetime =
  year :: nat
  month :: nat
  day :: nat
  hour :: nat
  minute :: nat
  second :: nat
  microsecond :: nat

definition is_leap :: "nat \<Rightarrow> bool" where
  "is_leap y \<longleftrightarrow> y mod 4 = 0 \<and> (y mod 100 \<noteq> 0 \<or> y mod 400 = 0)"

definition days_in_month :: "nat \<Rightarrow> nat \<Rightarrow> nat" where
  "days_in_month y m =
     (if m = 2 then (if is_leap y then 29 else 28)
      else if m \<in> {4, 6, 9, 11} then 30 else 31)"

definition wf_datetime :: "datetime \<Rightarrow> bool" where
  "wf_datetime d \<longleftrightarrow>
     1 \<le> year d \<and> year d \<le> 9999 \<and> 1 \<le> month d \<and> month d \<le> 12 \<and>
     1 \<le> day d \<and> day d \<le> days_in_month (year d) (month d) \<and>
     hour d < 24 \<and> minute d < 60 \<and> second d < 60 \<and> microsecond d < 1000000"

section \<open>Text form\<close>

definition utc_seconds_text :: "datetime \<Rightarrow> string" where
  "utc_seconds_text d =
     pad 4 (year d) @ ''-'' @ pad 2 (month d) @ ''-'' @ pad 2 (day d) @ ''T'' @
     pad 2 (hour d) @ '':'' @ pad 2 (minute d) @ '':'' @ pad 2 (second d)"

definition utc_fraction_text :: "datetime \<Rightarrow> string" where
  "utc_fraction_text d = (if microsecond d = 0 then ''Z'' else ''.'' @ pad 6 (microsecond d) @ ''Z'')"

definition utc_text :: "datetime \<Rightarrow> string" where
  "utc_text d = utc_seconds_text d @ utc_fraction_text d"

section \<open>Adding a duration\<close>

type_synonym date = "nat \<times> nat \<times> nat"

fun next_day :: "date \<Rightarrow> date" where
  "next_day (y, m, d) =
     (if d < days_in_month y m then (y, m, d + 1)
      else if m < 12 then (y, m + 1, 1) else (y + 1, 1, 1))"

fun prev_day :: "date \<Rightarrow> date" where
  "prev_day (y, m, d) =
     (if 1 < d then (y, m, d - 1)
      else if 1 < m then (y, m - 1, days_in_month y (m - 1)) else (y - 1, 12, 31))"

definition us_of_day :: "datetime \<Rightarrow> nat" where
  "us_of_day d = ((hour d * 60 + minute d) * 60 + second d) * 1000000 + microsecond d"

abbreviation day_us :: "int" where
  "day_us \<equiv> 86400000000"

definition with_us_of_day :: "date \<Rightarrow> nat \<Rightarrow> datetime" where
  "with_us_of_day dt u =
     \<lparr>year = fst dt, month = fst (snd dt), day = snd (snd dt),
      hour = u div 3600000000, minute = u div 60000000 mod 60,
      second = u div 1000000 mod 60, microsecond = u mod 1000000\<rparr>"

definition add_milliseconds :: "datetime \<Rightarrow> int \<Rightarrow> datetime result" where
  "add_milliseconds d ms =
     (let total = int (us_of_day d) + 1000 * ms;
          carry = total div day_us;
          date0 = (year d, month d, day d);
          date1 = (if 0 \<le> carry then (next_day ^^ nat carry) date0
                   else (prev_day ^^ nat (- carry)) date0)
      in if 1 \<le> fst date1 \<and> fst date1 \<le> 9999
         then Inr (with_us_of_day date1 (nat (total mod day_us)))
         else Inl (OverflowError ''date value out of range''))"

section \<open>Text order against time order\<close>

abbreviation date_of :: "datetime \<Rightarrow> date" where
  "date_of d \<equiv> (year d, month d, day d)"

text \<open>The instant of a datetime, and the key by which its text form is ordered.\<close>

definition time_key :: "datetime \<Rightarrow> date \<times> nat" where
  "time_key d = (date_of d, us_of_day d)"

definition text_key :: "datetime \<Rightarrow> nat \<times> nat \<times> nat \<times> nat \<times> nat \<times> nat \<times> nat" where
  "text_key d = (year d, month d, day d, hour d, minute d, second d,
     if microsecond d = 0 then 1000000 else microsecond d)"

lemma append_less_iff:
  fixes u v :: "'a::linorder list"
  assumes "length u = length u'"
  shows "u @ v < u' @ v' \<longleftrightarrow> u < u' \<or> (u = u' \<and> v < v')"
  using assms by (induction u u' rule: list_induct2) auto

lemma pad_eq_iff: "n < 10 ^ k \<Longrightarrow> m < 10 ^ k \<Longrightarrow> pad k n = pad k m \<longleftrightarrow> n = m"
proof (induction k arbitrary: n m)
  case (Suc k)
  have dig: "x div 10 ^ k < 10" if "x < 10 ^ Suc k" for x :: nat
    using that by (simp add: less_mult_imp_div_less mult.commute)
  have "pad (Suc k) n = pad (Suc k) m \<longleftrightarrow> n div 10 ^ k = m div 10 ^ k \<and> n mod 10 ^ k = m mod 10 ^ k"
    using Suc.IH [of "n mod 10 ^ k" "m mod 10 ^ k"] dig [OF Suc.prems(1)] dig [OF Suc.prems(2)]
    by (simp add: digit_char_eq)
  also have "\<dots> \<longleftrightarrow> n = m"
    by (metis div_mult_mod_eq)
  finally show ?case .
qed simp

lemma div_mod_order:
  fixes n m b :: nat
  shows "n < m \<longleftrightarrow> n div b < m div b \<or> (n div b = m div b \<and> n mod b < m mod b)"
proof (cases "n div b = m div b")
  case True
  have "n = b * (n div b) + n mod b" and "m = b * (n div b) + m mod b"
    using True by (metis mult_div_mod_eq)+
  then show ?thesis using True by (metis nat_add_left_cancel_less less_irrefl)
next
  case False
  show ?thesis
  proof (cases "n < m")
    case True
    then have "n div b \<le> m div b" by (simp add: div_le_mono)
    with False True show ?thesis by simp
  next
    case not_less: False
    then have "m div b \<le> n div b" by (simp add: div_le_mono)
    with False not_less show ?thesis by simp
  qed
qed

lemma pair_less_iff:
  fixes a c :: "'a::linorder" and b d :: "'b::linorder"
  shows "(a, b) < (c, d) \<longleftrightarrow> a < c \<or> (a = c \<and> b < d)"
  by (auto simp: less_prod_simp)

lemma pad_less_iff: "n < 10 ^ k \<Longrightarrow> m < 10 ^ k \<Longrightarrow> pad k n < pad k m \<longleftrightarrow> n < m"
proof (induction k arbitrary: n m)
  case (Suc k)
  let ?b = "10 ^ k :: nat"
  have dig: "x div ?b < 10" if "x < 10 ^ Suc k" for x :: nat
    using that by (simp add: less_mult_imp_div_less mult.commute)
  have "pad (Suc k) n < pad (Suc k) m \<longleftrightarrow>
      n div ?b < m div ?b \<or> (n div ?b = m div ?b \<and> n mod ?b < m mod ?b)"
    using Suc.IH [of "n mod ?b" "m mod ?b"] dig [OF Suc.prems(1)] dig [OF Suc.prems(2)]
    by (simp add: digit_char_less digit_char_eq)
  also have "\<dots> \<longleftrightarrow> n < m"
    by (rule div_mod_order [symmetric])
  finally show ?case .
qed simp

lemma days_in_month_bound: "days_in_month y m \<le> 31"
  by (simp add: days_in_month_def)

text \<open>Each fixed-width field of the text, and the fraction, ordered as its number.\<close>

lemma field_order:
  assumes "n < 10 ^ k" and "m < 10 ^ k"
  shows "pad k n @ v < pad k m @ v' \<longleftrightarrow> n < m \<or> (n = m \<and> v < v')"
  using assms by (simp add: append_less_iff pad_less_iff pad_eq_iff)

lemma fraction_order:
  assumes "microsecond d < 1000000" and "microsecond e < 1000000"
  shows "utc_fraction_text d < utc_fraction_text e \<longleftrightarrow>
     (if microsecond d = 0 then 1000000 else microsecond d)
     < (if microsecond e = 0 then 1000000 else microsecond e)"
  using assms field_order [of "microsecond d" 6 "microsecond e" "''Z''" "''Z''"]
  by (auto simp: utc_fraction_text_def less_char_def)

lemma wf_datetime_fields:
  assumes "wf_datetime d"
  shows "year d < 10 ^ 4" "month d < 10 ^ 2" "day d < 10 ^ 2" "hour d < 10 ^ 2"
    "minute d < 10 ^ 2" "second d < 10 ^ 2" "microsecond d < 1000000"
  using assms days_in_month_bound [of "year d" "month d"] by (auto simp: wf_datetime_def)

text \<open>
  The exact order of the text forms: seconds first, and within one second a value with zero
  microseconds sorts after every other value of that second.
\<close>

lemma utc_text_less_iff:
  assumes "wf_datetime d" and "wf_datetime e"
  shows "utc_text d < utc_text e \<longleftrightarrow> text_key d < text_key e"
  using wf_datetime_fields [OF assms(1)] wf_datetime_fields [OF assms(2)]
  by (simp add: utc_text_def utc_seconds_text_def field_order fraction_order text_key_def
      pair_less_iff del: less_prod_simp)

section \<open>Instants\<close>

lemma positional_less:
  fixes a b c d k :: nat
  assumes "b < k" and "d < k"
  shows "a * k + b < c * k + d \<longleftrightarrow> a < c \<or> (a = c \<and> b < d)"
  using div_mod_order [of "a * k + b" "c * k + d" k] assms by auto

lemma us_of_day_less_iff:
  assumes "wf_datetime d" and "wf_datetime e"
  shows "us_of_day d < us_of_day e \<longleftrightarrow>
     (hour d, minute d, second d, microsecond d) < (hour e, minute e, second e, microsecond e)"
proof -
  have bounds: "minute d < 60" "second d < 60" "microsecond d < 1000000"
    "minute e < 60" "second e < 60" "microsecond e < 1000000"
    using assms by (auto simp: wf_datetime_def)
  show ?thesis
    unfolding us_of_day_def
    using bounds by (auto simp: positional_less pair_less_iff simp del: less_prod_simp)
qed

lemma us_of_day_bound: "wf_datetime d \<Longrightarrow> us_of_day d < 86400000000"
  by (simp add: wf_datetime_def us_of_day_def)

lemma us_of_day_with [simp]: "u < 86400000000 \<Longrightarrow> us_of_day (with_us_of_day dt u) = u"
proof -
  have 1: "u = u div 1000000 * 1000000 + u mod 1000000" by simp
  have 2: "u div 1000000 = u div 60000000 * 60 + u div 1000000 mod 60"
    using div_mult_mod_eq [of "u div 1000000" 60] by (simp add: div_mult2_eq [symmetric])
  have 3: "u div 60000000 = u div 3600000000 * 60 + u div 60000000 mod 60"
    using div_mult_mod_eq [of "u div 60000000" 60] by (simp add: div_mult2_eq [symmetric])
  show ?thesis
    unfolding us_of_day_def with_us_of_day_def using 1 2 3 by simp
qed

lemma date_of_with [simp]: "date_of (with_us_of_day dt u) = dt"
  by (simp add: with_us_of_day_def)

definition wf_date :: "date \<Rightarrow> bool" where
  "wf_date = (\<lambda>(y, m, d). 1 \<le> m \<and> m \<le> 12 \<and> 1 \<le> d \<and> d \<le> days_in_month y m)"

lemma days_in_month_pos: "Suc 0 \<le> days_in_month y m"
  by (simp add: days_in_month_def)

lemma wf_next_day: "wf_date dt \<Longrightarrow> wf_date (next_day dt)"
  by (cases dt) (auto simp: wf_date_def days_in_month_pos)

lemma next_day_less: "wf_date dt \<Longrightarrow> dt < next_day dt"
  by (cases dt) (auto simp: wf_date_def)

lemma wf_next_days: "wf_date dt \<Longrightarrow> wf_date ((next_day ^^ n) dt)"
  by (induction n) (auto intro: wf_next_day)

lemma next_days_le: "wf_date dt \<Longrightarrow> dt \<le> (next_day ^^ n) dt"
proof (induction n)
  case (Suc n)
  then have "(next_day ^^ n) dt < next_day ((next_day ^^ n) dt)"
    by (intro next_day_less wf_next_days)
  with Suc show ?case by simp
qed simp

lemma next_days_less:
  assumes "wf_date dt" and "0 < n"
  shows "dt < (next_day ^^ n) dt"
proof -
  obtain m where "n = Suc m" using assms(2) by (cases n) auto
  moreover have "dt \<le> (next_day ^^ m) dt" using assms(1) by (rule next_days_le)
  moreover have "(next_day ^^ m) dt < next_day ((next_day ^^ m) dt)"
    using assms(1) by (intro next_day_less wf_next_days)
  ultimately show ?thesis by simp
qed

lemma wf_date_of: "wf_datetime d \<Longrightarrow> wf_date (date_of d)"
  by (simp add: wf_datetime_def wf_date_def)

lemma wf_with_us_of_day:
  assumes "wf_date dt" and "1 \<le> fst dt" and "fst dt \<le> 9999" and "u < 86400000000"
  shows "wf_datetime (with_us_of_day dt u)"
  using assms by (cases dt) (auto simp: wf_datetime_def with_us_of_day_def wf_date_def)

text \<open>A positive duration moves to a strictly later instant, and to a well-formed one.\<close>

lemma add_milliseconds_later:
  assumes wf: "wf_datetime d" and ms: "0 < ms" and add: "add_milliseconds d ms = Inr e"
  shows "wf_datetime e \<and> time_key d < time_key e"
proof -
  let ?total = "int (us_of_day d) + 1000 * ms"
  let ?n = "nat (?total div day_us)"
  let ?dt = "(next_day ^^ ?n) (date_of d)"
  let ?u = "nat (?total mod day_us)"
  have carry: "0 \<le> ?total div day_us" using ms by (simp add: pos_imp_zdiv_nonneg_iff)
  then have e: "e = with_us_of_day ?dt ?u" and yr: "1 \<le> fst ?dt" "fst ?dt \<le> 9999"
    using add by (auto simp: add_milliseconds_def Let_def split: if_splits)
  have u: "?u < 86400000000" by simp
  have "wf_datetime e"
    unfolding e using wf_next_days [OF wf_date_of [OF wf]] yr u by (rule wf_with_us_of_day)
  moreover have "time_key d < time_key e"
  proof (cases "?n = 0")
    case True
    then have "?total div day_us = 0" using carry by simp
    then have "?total < day_us" using ms by (simp add: zdiv_eq_0_iff)
    then have "us_of_day d < ?u" using ms by simp
    with True show ?thesis by (simp add: e time_key_def pair_less_iff u del: less_prod_simp)
  next
    case False
    then have "date_of d < ?dt" using next_days_less [OF wf_date_of [OF wf]] by blast
    then show ?thesis by (simp add: e time_key_def pair_less_iff [of "date_of d"] del: less_prod_simp)
  qed
  ultimately show ?thesis ..
qed

text \<open>Text order is time order between two values that both carry a fraction.\<close>

lemma utc_text_order:
  assumes "wf_datetime d" and "wf_datetime e" and "microsecond d \<noteq> 0" and "microsecond e \<noteq> 0"
  shows "utc_text d < utc_text e \<longleftrightarrow> time_key d < time_key e"
  using assms(3,4)
  by (simp add: utc_text_less_iff [OF assms(1,2)] text_key_def time_key_def
      us_of_day_less_iff [OF assms(1,2)] pair_less_iff del: less_prod_simp) auto

end
