(* ===== verification/Canonical.thy ===== *)
theory Canonical
  imports Prelude "HOL-Library.Multiset"
begin

text \<open>
  Canonical serialisation and hashing (\<open>src/tokenbank/core/canonical.py\<close>,
  \<open>src/tokenbank/core/tokens.py\<close>, \<open>src/tokenbank/scheduler/idempotency.py\<close>):
  \<open>json.dumps\<close> with sorted keys, compact separators and \<open>ensure_ascii=False\<close>, and the
  domain-separated hashes over it. The digest (\<open>hashlib.sha256(...).hexdigest()\<close>) and the shortest
  decimal form of a float are services of the platform: arguments \<open>sha\<close> and \<open>frepr\<close>.
\<close>

section \<open>Serialisation\<close>

definition hex_char :: "nat \<Rightarrow> char" where
  "hex_char d = (if d < 10 then char_of (48 + d) else char_of (87 + d))"

definition escape_char :: "char \<Rightarrow> string" where
  "escape_char c =
     (let n = (of_char c :: nat) in
      if n = 34 then [CHR 0x5C, CHR 0x22]
      else if n = 92 then [CHR 0x5C, CHR 0x5C]
      else if n = 10 then [CHR 0x5C, CHR ''n'']
      else if n = 13 then [CHR 0x5C, CHR ''r'']
      else if n = 9 then [CHR 0x5C, CHR ''t'']
      else if n = 8 then [CHR 0x5C, CHR ''b'']
      else if n = 12 then [CHR 0x5C, CHR ''f'']
      else if n < 32 then [CHR 0x5C, CHR ''u'', CHR ''0'', CHR ''0'', hex_char (n div 16), hex_char (n mod 16)]
      else [c])"

definition quote :: "string \<Rightarrow> string" where
  "quote s = [CHR 0x22] @ concat (map escape_char s) @ [CHR 0x22]"

fun join :: "string \<Rightarrow> string list \<Rightarrow> string" where
  "join sep [] = []"
| "join sep [s] = s"
| "join sep (s # t # ts) = s @ sep @ join sep (t # ts)"

fun canonical_json_dumps :: "(rat \<Rightarrow> string) \<Rightarrow> json \<Rightarrow> string" where
  "canonical_json_dumps frepr JNull = ''null''"
| "canonical_json_dumps frepr (JBool b) = (if b then ''true'' else ''false'')"
| "canonical_json_dumps frepr (JInt i) = show_int i"
| "canonical_json_dumps frepr (JFloat q) = frepr q"
| "canonical_json_dumps frepr (JStr s) = quote s"
| "canonical_json_dumps frepr (JList xs) =
     ''['' @ join '','' (map (canonical_json_dumps frepr) xs) @ '']''"
| "canonical_json_dumps frepr (JObj kvs) =
     ''{'' @ join '',''
       (map (\<lambda>(k, v). quote k @ '':'' @ canonical_json_dumps frepr v) (sort_key fst kvs)) @ ''}''"

section \<open>Hashes\<close>

definition canonical_json_hash :: "(string \<Rightarrow> string) \<Rightarrow> (rat \<Rightarrow> string) \<Rightarrow> json \<Rightarrow> string" where
  "canonical_json_hash sha frepr v = sha (canonical_json_dumps frepr v)"

definition hash_bytes :: "(string \<Rightarrow> string) \<Rightarrow> string \<Rightarrow> string \<Rightarrow> string" where
  "hash_bytes sha domain payload = sha (domain @ [CHR 0x00] @ payload)"

definition artifact_hash :: "(string \<Rightarrow> string) \<Rightarrow> string \<Rightarrow> string" where
  "artifact_hash sha payload = hash_bytes sha ''tokenbank.artifact.v1'' payload"

definition dataset_hash :: "(string \<Rightarrow> string) \<Rightarrow> (rat \<Rightarrow> string) \<Rightarrow> json list \<Rightarrow> string" where
  "dataset_hash sha frepr items =
     canonical_json_hash sha frepr
       (JObj [(''dataset'', JList items), (''kind'', JStr ''tokenbank.dataset.v1'')])"

definition output_hash :: "(string \<Rightarrow> string) \<Rightarrow> (rat \<Rightarrow> string) \<Rightarrow> json \<Rightarrow> string" where
  "output_hash sha frepr out =
     canonical_json_hash sha frepr
       (JObj [(''kind'', JStr ''tokenbank.output.v1''), (''output'', out)])"

definition result_hash :: "(string \<Rightarrow> string) \<Rightarrow> (rat \<Rightarrow> string) \<Rightarrow> json \<Rightarrow> string" where
  "result_hash sha frepr res =
     canonical_json_hash sha frepr
       (JObj [(''kind'', JStr ''tokenbank.result.v1''), (''result'', res)])"

definition assignment_lease_token_hash :: "(string \<Rightarrow> string) \<Rightarrow> string \<Rightarrow> string" where
  "assignment_lease_token_hash sha raw_token =
     sha (''tokenbank.assignment.lease.v1'' @ [CHR 0x00] @ raw_token)"

definition idempotency_key :: "(string \<Rightarrow> string) \<Rightarrow> (rat \<Rightarrow> string) \<Rightarrow> fields \<Rightarrow> string" where
  "idempotency_key sha frepr parts =
     ''idem_'' @ take 32 (canonical_json_hash sha frepr (JObj parts))"

section \<open>Field order does not matter\<close>

text \<open>The document with the fields of every object sorted, which the text denotes.\<close>

fun canonical :: "json \<Rightarrow> json" where
  "canonical (JList xs) = JList (map canonical xs)"
| "canonical (JObj kvs) = JObj (map (\<lambda>(k, v). (k, canonical v)) (sort_key fst kvs))"
| "canonical v = v"

lemma sort_key_map_snd:
  "sort_key fst (map (\<lambda>(k, v). (k, f v)) kvs) = map (\<lambda>(k, v). (k, f v)) (sort_key fst kvs)"
proof -
  have ins: "insort_key fst (a, f b) (map (\<lambda>(k, v). (k, f v)) ys)
      = map (\<lambda>(k, v). (k, f v)) (insort_key fst (a, b) ys)" for a b ys
    by (induction ys) auto
  show ?thesis
  proof (induction kvs)
    case (Cons p kvs)
    then show ?case using ins by (cases p) (simp add: sort_key_def)
  qed simp
qed

lemma dumps_canonical: "canonical_json_dumps frepr (canonical v) = canonical_json_dumps frepr v"
proof (induction v rule: json_induct)
  case (List xs)
  then show ?case by (simp cong: map_cong)
next
  case (Obj kvs)
  have "sort_key fst (map (\<lambda>(k, v). (k, canonical v)) (sort_key fst kvs))
      = map (\<lambda>(k, v). (k, canonical v)) (sort_key fst kvs)"
    by (simp add: sort_key_map_snd sort_key_id_if_sorted)
  then show ?case using Obj by (auto simp: case_prod_unfold intro!: arg_cong2 [where f = join] map_cong)
qed auto

lemma sort_key_perm:
  fixes xs ys :: "(string \<times> 'a) list"
  assumes "mset xs = mset ys" and "distinct (map fst xs)"
  shows "sort_key fst xs = sort_key fst ys"
proof (rule map_sorted_distinct_set_unique)
  have sets: "set xs = set ys" using assms(1) by (metis set_mset_mset)
  show "inj_on fst (set (sort_key fst xs) \<union> set (sort_key fst ys))"
    using assms(2) sets by (simp add: distinct_map)
  have "mset (map fst (sort_key fst xs)) = mset (map fst xs)"
    and "mset (map fst (sort_key fst ys)) = mset (map fst xs)"
    using assms(1) by (simp_all add: mset_map)
  then show "distinct (map fst (sort_key fst xs))" and "distinct (map fst (sort_key fst ys))"
    using assms(2) mset_eq_imp_distinct_iff by blast+
  show "set (sort_key fst xs) = set (sort_key fst ys)" using sets by simp
qed simp_all

lemma dumps_perm:
  assumes "mset xs = mset ys" and "distinct (map fst xs)"
  shows "canonical_json_dumps frepr (JObj xs) = canonical_json_dumps frepr (JObj ys)"
  by (simp add: sort_key_perm [OF assms])

text \<open>The two documents a digest is taken of carry different kinds, so their texts differ.\<close>

lemma output_result_texts_differ:
  "canonical_json_dumps frepr (JObj [(''kind'', JStr ''tokenbank.output.v1''), (''output'', out)])
   \<noteq> canonical_json_dumps frepr (JObj [(''kind'', JStr ''tokenbank.result.v1''), (''result'', res)])"
  by (simp add: quote_def escape_char_def Let_def sort_key_def)

text \<open>Two documents that differ only in the order of the fields of their objects, at any depth.\<close>

inductive reordered :: "json \<Rightarrow> json \<Rightarrow> bool" where
  same: "reordered v v"
| lists: "list_all2 reordered xs ys \<Longrightarrow> reordered (JList xs) (JList ys)"
| objects: "list_all2 (rel_prod (=) reordered) xs zs \<Longrightarrow> mset zs = mset ys \<Longrightarrow> distinct (map fst xs) \<Longrightarrow>
    reordered (JObj xs) (JObj ys)"

lemma dumps_fields:
  assumes "map (\<lambda>(k, v). (k, canonical_json_dumps frepr v)) xs = map (\<lambda>(k, v). (k, canonical_json_dumps frepr v)) ys"
  shows "canonical_json_dumps frepr (JObj xs) = canonical_json_dumps frepr (JObj ys)"
proof -
  have "map (\<lambda>(k, v). quote k @ '':'' @ canonical_json_dumps frepr v) (sort_key fst kvs) =
      map (\<lambda>(k, s). quote k @ '':'' @ s) (sort_key fst (map (\<lambda>(k, v). (k, canonical_json_dumps frepr v)) kvs))" for kvs
    unfolding sort_key_map_snd by (simp add: comp_def case_prod_unfold)
  then show ?thesis using assms by simp
qed

lemma reordered_dumps: "reordered u v \<Longrightarrow> canonical_json_dumps frepr u = canonical_json_dumps frepr v"
proof (induction rule: reordered.induct)
  case (lists xs ys)
  then have "map (canonical_json_dumps frepr) xs = map (canonical_json_dumps frepr) ys"
    by (induction rule: list_all2_induct) auto
  then show ?case by simp
next
  case (objects xs zs ys)
  from objects.IH have fields: "map (\<lambda>(k, v). (k, canonical_json_dumps frepr v)) xs = map (\<lambda>(k, v). (k, canonical_json_dumps frepr v)) zs \<and>
      map fst xs = map fst zs"
    by (induction rule: list_all2_induct) auto
  then have "canonical_json_dumps frepr (JObj xs) = canonical_json_dumps frepr (JObj zs)" by (blast intro: dumps_fields)
  also have "\<dots> = canonical_json_dumps frepr (JObj ys)"
    using fields objects.hyps by (intro dumps_perm) auto
  finally show ?case .
qed simp

text \<open>C31. The canonical text of a document does not depend on the order in which the fields of its objects were
  inserted, at any depth: two documents that differ only in that order, with distinct keys in every object, have the
  same text, and so the same hash.\<close>

theorem canonical_hash_field_order:
  assumes "reordered u v"
  shows "canonical_json_dumps frepr u = canonical_json_dumps frepr v \<and> canonical_json_hash sha frepr u = canonical_json_hash sha frepr v"
  using reordered_dumps [OF assms] by (simp add: canonical_json_hash_def)

theorem canonical_hash_field_order_witness:
  "canonical_json_hash id (\<lambda>_. ''0.5'') (JList [JObj [(''b'', JObj [(''y'', JInt 1), (''x'', JNull)]), (''a'', JNull)]]) =
   canonical_json_hash id (\<lambda>_. ''0.5'') (JList [JObj [(''a'', JNull), (''b'', JObj [(''x'', JNull), (''y'', JInt 1)])]])"
proof -
  have inner: "reordered (JObj [(''y'', JInt 1), (''x'', JNull)]) (JObj [(''x'', JNull), (''y'', JInt 1)])"
    by (rule reordered.objects [where zs = "[(''y'', JInt 1), (''x'', JNull)]"]) (simp_all add: reordered.same)
  have "reordered (JObj [(''b'', JObj [(''y'', JInt 1), (''x'', JNull)]), (''a'', JNull)])
      (JObj [(''a'', JNull), (''b'', JObj [(''x'', JNull), (''y'', JInt 1)])])"
    by (rule reordered.objects [where zs = "[(''b'', JObj [(''x'', JNull), (''y'', JInt 1)]), (''a'', JNull)]"])
      (simp_all add: inner reordered.same)
  then have "reordered (JList [JObj [(''b'', JObj [(''y'', JInt 1), (''x'', JNull)]), (''a'', JNull)]])
      (JList [JObj [(''a'', JNull), (''b'', JObj [(''x'', JNull), (''y'', JInt 1)])]])"
    by (intro reordered.lists) simp
  then show ?thesis by (rule canonical_hash_field_order [THEN conjunct2])
qed

end
