(* ===== verification/Redaction.thy ===== *)
theory Redaction
  imports Prelude
begin

text \<open>
  Redaction of secrets (\<open>src/tokenbank/core/redaction.py\<close>). The regular expressions of the module
  are sequences of character classes, each matched once, any number of times or at least once. The
  language of such a sequence (\<open>lang\<close>) is the specification; \<open>match_at\<close> is the greedy scan and
  \<open>re_sub\<close> the leftmost, non-overlapping substitution of Python's \<open>re.sub\<close>. The main results: after
  redaction no string of a document contains a match of any of the secret patterns, and redacting
  twice changes nothing.
\<close>

section \<open>Patterns\<close>

datatype piece =
    One "char \<Rightarrow> bool"
  | Many0 "char \<Rightarrow> bool"
  | Many1 "char \<Rightarrow> bool"

type_synonym pattern = "piece list"

definition in_range :: "char \<Rightarrow> char \<Rightarrow> char \<Rightarrow> bool" where
  "in_range a b c \<longleftrightarrow> a \<le> c \<and> c \<le> b"

definition alnum :: "char \<Rightarrow> bool" where
  "alnum c \<longleftrightarrow> in_range CHR ''A'' CHR ''Z'' c \<or> in_range CHR ''a'' CHR ''z'' c
     \<or> in_range CHR ''0'' CHR ''9'' c"

definition word_char :: "char \<Rightarrow> bool" where
  "word_char c \<longleftrightarrow> alnum c \<or> c = CHR ''_''"

definition word_dash_char :: "char \<Rightarrow> bool" where
  "word_dash_char c \<longleftrightarrow> word_char c \<or> c = CHR ''-''"

definition bearer_char :: "char \<Rightarrow> bool" where
  "bearer_char c \<longleftrightarrow> alnum c \<or> c \<in> set ''._~+/=-''"

definition space_char :: "char \<Rightarrow> bool" where
  "space_char c \<longleftrightarrow> of_char c \<in> {9, 10, 11, 12, 13, 28, 29, 30, 31, 32 :: nat}"

definition literal :: "string \<Rightarrow> pattern" where
  "literal s = map (\<lambda>c. One (\<lambda>x. x = c)) s"

definition literal_nocase :: "string \<Rightarrow> pattern" where
  "literal_nocase s = map (\<lambda>c. One (\<lambda>x. ascii_lower x = c)) s"

text \<open>The language of a pattern.\<close>

fun lang :: "pattern \<Rightarrow> string \<Rightarrow> bool" where
  "lang [] w \<longleftrightarrow> w = []"
| "lang (One c # ps) w \<longleftrightarrow> (\<exists>x w'. w = x # w' \<and> c x \<and> lang ps w')"
| "lang (Many0 c # ps) w \<longleftrightarrow> (\<exists>r w'. w = r @ w' \<and> list_all c r \<and> lang ps w')"
| "lang (Many1 c # ps) w \<longleftrightarrow> (\<exists>r w'. w = r @ w' \<and> r \<noteq> [] \<and> list_all c r \<and> lang ps w')"

section \<open>Matching and substitution\<close>

text \<open>The length of the greedy match at the head of the text.\<close>

fun match_at :: "pattern \<Rightarrow> string \<Rightarrow> nat option" where
  "match_at [] s = Some 0"
| "match_at (One c # ps) [] = None"
| "match_at (One c # ps) (x # s) = (if c x then map_option Suc (match_at ps s) else None)"
| "match_at (Many0 c # ps) s =
     (let n = length (takeWhile c s) in map_option ((+) n) (match_at ps (drop n s)))"
| "match_at (Many1 c # ps) s =
     (let n = length (takeWhile c s) in
      if n = 0 then None else map_option ((+) n) (match_at ps (drop n s)))"

function re_sub :: "pattern \<Rightarrow> string \<Rightarrow> string \<Rightarrow> string" where
  "re_sub p rep [] = []"
| "re_sub p rep (c # s) =
     (case match_at p (c # s) of
        None \<Rightarrow> c # re_sub p rep s
      | Some n \<Rightarrow> rep @ re_sub p rep (drop (n - 1) s))"
  by pat_completeness auto
termination
  by (relation "measure (\<lambda>(p, rep, s). length s)") auto

fun re_search :: "pattern \<Rightarrow> string \<Rightarrow> bool" where
  "re_search p [] = (match_at p [] \<noteq> None)"
| "re_search p (c # s) = (match_at p (c # s) \<noteq> None \<or> re_search p s)"

section \<open>The redaction module\<close>

definition default_token_prefix_patterns :: "pattern list" where
  "default_token_prefix_patterns =
     [literal ''tbk_h_'' @ [Many1 word_char],
      literal ''tbk_w_'' @ [Many1 word_char],
      literal ''tbk_i_'' @ [Many1 word_char]]"

definition secret_key_fragments :: "string list" where
  "secret_key_fragments =
     [''api_key'', ''apikey'', ''bearer'', ''cookie'', ''credential'', ''oauth'',
      ''provider_secret'', ''provider_token'', ''refresh_token'', ''secret'', ''token'']"

definition secret_value_patterns :: "pattern list" where
  "secret_value_patterns =
     [literal ''sk-'' @ [Many1 word_dash_char],
      literal_nocase ''bearer'' @ [Many1 space_char, Many1 bearer_char],
      literal ''tbk_h_'' @ [Many1 word_char],
      literal ''tbk_w_'' @ [Many1 word_char],
      literal ''tbk_i_'' @ [Many1 word_char],
      literal ''tbk_l_'' @ [Many1 word_dash_char]]"

definition redacted_secret :: string where
  "redacted_secret = ''[REDACTED_SECRET]''"

definition re_sub_all :: "pattern list \<Rightarrow> string \<Rightarrow> string \<Rightarrow> string" where
  "re_sub_all ps rep s = fold (\<lambda>p t. re_sub p rep t) ps s"

definition redact_token_prefixes :: "string \<Rightarrow> string" where
  "redact_token_prefixes s = re_sub_all default_token_prefix_patterns ''[REDACTED_TOKEN]'' s"

definition redact_text :: "string \<Rightarrow> string" where
  "redact_text s = re_sub_all secret_value_patterns redacted_secret s"

definition normalized_secret_key :: "string \<Rightarrow> string" where
  "normalized_secret_key k = replace_char CHR ''-'' CHR ''_'' (lower k)"

definition secret_key :: "string \<Rightarrow> bool" where
  "secret_key k \<longleftrightarrow> (\<exists>f \<in> set secret_key_fragments. occurs_in f (normalized_secret_key k))"

fun redact_sensitive_value :: "json \<Rightarrow> json" where
  "redact_sensitive_value (JObj kvs) =
     JObj (map (\<lambda>(k, v). (k, if secret_key k then JStr redacted_secret
                              else redact_sensitive_value v)) kvs)"
| "redact_sensitive_value (JList xs) = JList (map redact_sensitive_value xs)"
| "redact_sensitive_value (JStr s) = JStr (redact_text s)"
| "redact_sensitive_value v = v"

section \<open>Greedy matching decides the language\<close>

text \<open>
  A pattern is deterministic when no character can both continue a repeated piece and start what
  follows it; the greedy scan then needs no backtracking.
\<close>

fun can_start :: "pattern \<Rightarrow> char \<Rightarrow> bool" where
  "can_start [] x = False"
| "can_start (One c # ps) x = c x"
| "can_start (Many0 c # ps) x = (c x \<or> can_start ps x)"
| "can_start (Many1 c # ps) x = c x"

fun nullable :: "pattern \<Rightarrow> bool" where
  "nullable [] = True"
| "nullable (Many0 c # ps) = nullable ps"
| "nullable (p # ps) = False"

fun deterministic :: "pattern \<Rightarrow> bool" where
  "deterministic [] = True"
| "deterministic (One c # ps) = deterministic ps"
| "deterministic (Many0 c # ps) =
     (deterministic ps \<and> (ps \<noteq> [] \<longrightarrow> \<not> nullable ps) \<and> (\<forall>x. c x \<longrightarrow> \<not> can_start ps x))"
| "deterministic (Many1 c # ps) =
     (deterministic ps \<and> (ps \<noteq> [] \<longrightarrow> \<not> nullable ps) \<and> (\<forall>x. c x \<longrightarrow> \<not> can_start ps x))"

lemma lang_start: "lang ps w \<Longrightarrow> w \<noteq> [] \<Longrightarrow> can_start ps (hd w)"
proof (induction ps w rule: lang.induct)
  case (3 c ps w)
  then obtain r w' where "w = r @ w'" "list_all c r" "lang ps w'" by auto
  with "3" show ?case by (cases r) auto
next
  case (4 c ps w)
  then obtain r w' where "w = r @ w'" "r \<noteq> []" "list_all c r" by auto
  then show ?case by (cases r) auto
qed auto

lemma lang_Nil: "lang ps [] \<longleftrightarrow> nullable ps"
  by (induction ps rule: nullable.induct) auto

lemma list_all_takeWhile: "list_all c (takeWhile c s)"
  by (auto simp: list_all_iff dest: set_takeWhileD)

lemma take_greedy_run:
  "take (length (takeWhile c s) + m) s = takeWhile c s @ take m (drop (length (takeWhile c s)) s)"
  by (metis take_add takeWhile_eq_take)

lemma match_at_sound: "match_at ps s = Some n \<Longrightarrow> n \<le> length s \<and> lang ps (take n s)"
proof (induction ps s arbitrary: n rule: match_at.induct)
  case (4 c ps s)
  let ?n = "length (takeWhile c s)"
  from "4.prems" obtain m where m: "match_at ps (drop ?n s) = Some m" and n: "n = ?n + m"
    by (auto simp: Let_def)
  have IH: "m \<le> length (drop ?n s) \<and> lang ps (take m (drop ?n s))"
    using "4.IH" m by (simp add: Let_def)
  have "take n s = takeWhile c s @ take m (drop ?n s)"
    by (simp add: n take_greedy_run)
  moreover have "list_all c (takeWhile c s)" by (rule list_all_takeWhile)
  ultimately show ?case using IH n length_takeWhile_le [of c s] by auto
next
  case (5 c ps s)
  let ?n = "length (takeWhile c s)"
  from "5.prems" obtain m where m: "match_at ps (drop ?n s) = Some m" and n: "n = ?n + m"
    and pos: "?n \<noteq> 0"
    by (auto simp: Let_def split: if_splits)
  have IH: "m \<le> length (drop ?n s) \<and> lang ps (take m (drop ?n s))"
    using "5.IH" m pos by (simp add: Let_def)
  have "take n s = takeWhile c s @ take m (drop ?n s)"
    by (simp add: n take_greedy_run)
  moreover have "list_all c (takeWhile c s)" by (rule list_all_takeWhile)
  ultimately show ?case using IH n pos length_takeWhile_le [of c s] by auto
qed (auto split: if_splits)

text \<open>After a repeated piece the greedy run is exactly the run of the word, unless it is last.\<close>

lemma greedy_run:
  assumes "list_all c r" and "lang ps w" and "w \<noteq> []" and "\<forall>x. c x \<longrightarrow> \<not> can_start ps x"
  shows "takeWhile c (r @ w @ v) = r"
proof -
  have "\<not> c (hd w)" using assms lang_start by blast
  then show ?thesis using assms(1,3) by (cases w) (auto simp: list_all_iff takeWhile_append2)
qed

lemma match_at_complete: "deterministic ps \<Longrightarrow> lang ps w \<Longrightarrow> match_at ps (w @ v) \<noteq> None"
proof (induction ps arbitrary: w)
  case (Cons p ps)
  show ?case
  proof (cases p)
    case (One c)
    with Cons show ?thesis by auto
  next
    case (Many0 c)
    with Cons.prems obtain r w' where w: "w = r @ w'" "list_all c r" "lang ps w'" by auto
    show ?thesis
    proof (cases "ps = []")
      case False
      with Many0 Cons.prems w have "w' \<noteq> []" by (auto simp: lang_Nil)
      then have "takeWhile c (w @ v) = r" using greedy_run [of c r ps w' v] Many0 Cons.prems w by simp
      moreover have "match_at ps (w' @ v) \<noteq> None" using Cons Many0 w by auto
      ultimately show ?thesis using Many0 w by (simp add: Let_def)
    qed (use Many0 in \<open>simp add: Let_def\<close>)
  next
    case (Many1 c)
    with Cons.prems obtain r w' where w: "w = r @ w'" "r \<noteq> []" "list_all c r" "lang ps w'" by auto
    show ?thesis
    proof (cases "ps = []")
      case True
      have "takeWhile c (w @ v) \<noteq> []" using w by (cases r) auto
      then show ?thesis using True Many1 by (simp add: Let_def)
    next
      case False
      with Many1 Cons.prems w have "w' \<noteq> []" by (auto simp: lang_Nil)
      then have "takeWhile c (w @ v) = r" using greedy_run [of c r ps w' v] Many1 Cons.prems w by simp
      moreover have "match_at ps (w' @ v) \<noteq> None" using Cons Many1 w by auto
      ultimately show ?thesis using Many1 w by (simp add: Let_def)
    qed
  qed
qed simp

lemma match_at_iff:
  assumes "deterministic p"
  shows "match_at p s \<noteq> None \<longleftrightarrow> (\<exists>w v. s = w @ v \<and> lang p w)"
proof
  assume "match_at p s \<noteq> None"
  then obtain n where "match_at p s = Some n" by blast
  then have "lang p (take n s)" by (simp add: match_at_sound)
  then show "\<exists>w v. s = w @ v \<and> lang p w" by (metis append_take_drop_id)
next
  assume "\<exists>w v. s = w @ v \<and> lang p w"
  then show "match_at p s \<noteq> None" using match_at_complete [OF assms] by blast
qed

text \<open>\<open>re.search\<close> finds a match exactly when a word of the language occurs in the text.\<close>

lemma re_search_iff:
  assumes "deterministic p"
  shows "re_search p s \<longleftrightarrow> (\<exists>w. lang p w \<and> occurs_in w s)"
proof (induction s)
  case Nil
  show ?case using match_at_iff [OF assms, of "[]"] by (auto simp: occurs_in_iff)
next
  case (Cons c s)
  have "match_at p (c # s) \<noteq> None \<longleftrightarrow> (\<exists>w. lang p w \<and> starts_with w (c # s))"
    using match_at_iff [OF assms, of "c # s"] by (auto simp: starts_with_iff)
  then show ?case using Cons.IH by auto
qed

section \<open>Substituting a bracketed marker\<close>

fun piece_class :: "piece \<Rightarrow> char \<Rightarrow> bool" where
  "piece_class (One c) = c"
| "piece_class (Many0 c) = c"
| "piece_class (Many1 c) = c"

definition avoids_brackets :: "pattern \<Rightarrow> bool" where
  "avoids_brackets p \<longleftrightarrow>
     (\<forall>pc \<in> set p. \<not> piece_class pc CHR ''['' \<and> \<not> piece_class pc CHR '']'')"

definition plain :: "string \<Rightarrow> bool" where
  "plain w \<longleftrightarrow> CHR ''['' \<notin> set w \<and> CHR '']'' \<notin> set w"

lemma lang_plain: "avoids_brackets p \<Longrightarrow> lang p w \<Longrightarrow> plain w"
proof (induction p w rule: lang.induct)
  case (2 c ps w)
  then show ?case by (auto simp: avoids_brackets_def plain_def)
next
  case (3 c ps w)
  then show ?case by (force simp: avoids_brackets_def plain_def list_all_iff)
next
  case (4 c ps w)
  then show ?case by (force simp: avoids_brackets_def plain_def list_all_iff)
qed (simp add: plain_def)

text \<open>A word that avoids a character cannot straddle it.\<close>

lemma starts_with_split:
  "b \<notin> set w \<Longrightarrow> starts_with w (u @ b # v) \<Longrightarrow> starts_with w u"
  by (induction w u rule: starts_with.induct) auto

lemma occurs_in_split:
  "b \<notin> set w \<Longrightarrow> occurs_in w (u @ b # v) \<Longrightarrow> occurs_in w u \<or> occurs_in w v"
proof (induction u)
  case Nil
  then show ?case using starts_with_split [of b w "[]" v] by (cases w) auto
next
  case (Cons c u)
  then show ?case using starts_with_split [of b w "c # u" v] by auto
qed

locale bracketed_redactor =
  fixes patterns :: "pattern list" and core :: string
  assumes pattern_deterministic: "p \<in> set patterns \<Longrightarrow> deterministic p"
    and pattern_avoids: "p \<in> set patterns \<Longrightarrow> avoids_brackets p"
    and pattern_not_nullable: "p \<in> set patterns \<Longrightarrow> \<not> nullable p"
    and core_plain: "plain core"
    and core_inert: "p \<in> set patterns \<Longrightarrow> \<not> re_search p core"
begin

abbreviation marker :: string where
  "marker \<equiv> CHR ''['' # core @ [CHR '']'']"

definition clean :: "string \<Rightarrow> bool" where
  "clean s \<longleftrightarrow> (\<forall>p \<in> set patterns. \<not> re_search p s)"

lemma word_shape:
  assumes "p \<in> set patterns" and "lang p w"
  shows "plain w" and "w \<noteq> []"
  using assms lang_plain pattern_avoids pattern_not_nullable lang_Nil by blast+

lemma starts_with_sub: "plain w \<Longrightarrow> starts_with w (re_sub p marker s) \<Longrightarrow> starts_with w s"
proof (induction p "marker" s arbitrary: w rule: re_sub.induct)
  case (2 p c s)
  show ?case
  proof (cases "match_at p (c # s)")
    case None
    then have "starts_with w (c # re_sub p marker s)" using "2.prems" by simp
    then show ?thesis using "2.hyps"(1) [OF None] "2.prems"(1) by (cases w) (auto simp: plain_def)
  next
    case (Some n)
    then show ?thesis using "2.prems" by (cases w) (auto simp: plain_def)
  qed
qed simp

lemma occurs_in_marker:
  assumes "plain w" and "w \<noteq> []" and "occurs_in w (marker @ t)"
  shows "occurs_in w core \<or> occurs_in w t"
proof -
  have "occurs_in w (core @ CHR '']'' # t)"
    using assms by (cases w) (auto simp: plain_def)
  then show ?thesis using assms(1) occurs_in_split by (auto simp: plain_def)
qed

lemma occurs_in_drop: "occurs_in w (drop n s) \<Longrightarrow> occurs_in w (c # s)"
  by (metis append_Nil2 append_take_drop_id occurs_in_append occurs_in.simps(2))

lemma occurs_in_sub:
  "plain w \<Longrightarrow> w \<noteq> [] \<Longrightarrow> occurs_in w (re_sub p marker s) \<Longrightarrow> occurs_in w core \<or> occurs_in w s"
proof (induction p "marker" s rule: re_sub.induct)
  case (2 p c s)
  show ?case
  proof (cases "match_at p (c # s)")
    case None
    then consider "starts_with w (re_sub p marker (c # s))" | "occurs_in w (re_sub p marker s)"
      using "2.prems"(3) by auto
    then show ?thesis
      using starts_with_sub [OF "2.prems"(1), of p "c # s"] "2.hyps"(1) [OF None] "2.prems"
      by cases auto
  next
    case (Some n)
    then have "occurs_in w core \<or> occurs_in w (re_sub p marker (drop (n - 1) s))"
      using "2.prems" occurs_in_marker [of w "re_sub p marker (drop (n - 1) s)"] by simp
    then show ?thesis using "2.hyps"(2) [OF Some] "2.prems" occurs_in_drop by metis
  qed
qed simp

lemma word_not_in_core: "p \<in> set patterns \<Longrightarrow> lang p w \<Longrightarrow> \<not> occurs_in w core"
  using core_inert re_search_iff pattern_deterministic by blast

lemma sub_removes_word:
  "p \<in> set patterns \<Longrightarrow> lang p w \<Longrightarrow> \<not> occurs_in w (re_sub p marker s)"
proof (induction p "marker" s rule: re_sub.induct)
  case (1 p)
  then show ?case using word_shape by simp
next
  case (2 p c s)
  note shape = word_shape [OF "2.prems"]
  show ?case
  proof (cases "match_at p (c # s)")
    case None
    have "\<not> starts_with w (c # s)"
      using None match_at_iff [OF pattern_deterministic [OF "2.prems"(1)]] "2.prems"(2)
      by (metis starts_with_iff)
    then have "\<not> starts_with w (re_sub p marker (c # s))"
      using starts_with_sub [OF shape(1)] by blast
    then show ?thesis using None "2.hyps"(1) [OF None] "2.prems" by auto
  next
    case (Some n)
    then show ?thesis
      using occurs_in_marker [OF shape] word_not_in_core [OF "2.prems"] "2.hyps"(2) [OF Some] "2.prems"
      by fastforce
  qed
qed

lemma sub_removes: "p \<in> set patterns \<Longrightarrow> \<not> re_search p (re_sub p marker s)"
  using sub_removes_word re_search_iff pattern_deterministic by blast

lemma sub_keeps_absent:
  assumes "q \<in> set patterns" and "\<not> re_search q s"
  shows "\<not> re_search q (re_sub p marker s)"
  using assms occurs_in_sub word_shape word_not_in_core re_search_iff pattern_deterministic by metis

lemma sub_all_removes:
  assumes "set ps \<subseteq> set patterns" and "\<forall>q \<in> D. q \<in> set patterns \<and> \<not> re_search q s"
  shows "\<forall>q \<in> D \<union> set ps. \<not> re_search q (re_sub_all ps marker s)"
  using assms
proof (induction ps arbitrary: D s)
  case (Cons p ps)
  let ?s = "re_sub p marker s"
  have "\<forall>q \<in> insert p D. q \<in> set patterns \<and> \<not> re_search q ?s"
    using Cons.prems sub_removes sub_keeps_absent by auto
  then show ?case using Cons.IH [of "insert p D" ?s] Cons.prems(1) by (auto simp: re_sub_all_def)
qed (simp add: re_sub_all_def)

text \<open>Substituting every pattern in turn leaves no match of any of them.\<close>

lemma sub_all_clean: "clean (re_sub_all patterns marker s)"
  using sub_all_removes [of patterns "{}" s] by (simp add: clean_def)

lemma sub_absent_id: "\<not> re_search p s \<Longrightarrow> re_sub p marker s = s"
  by (induction s) auto

lemma sub_all_clean_id: "clean s \<Longrightarrow> re_sub_all patterns marker s = s"
proof -
  have "re_sub_all ps marker s = s" if "\<forall>p \<in> set ps. \<not> re_search p s" for ps
    using that by (induction ps) (auto simp: re_sub_all_def sub_absent_id)
  then show "clean s \<Longrightarrow> re_sub_all patterns marker s = s" by (simp add: clean_def)
qed

lemma sub_all_idem: "re_sub_all patterns marker (re_sub_all patterns marker s) = re_sub_all patterns marker s"
  by (rule sub_all_clean_id) (rule sub_all_clean)

end

section \<open>The module's patterns\<close>

lemmas char_class_defs = in_range_def alnum_def word_char_def word_dash_char_def bearer_char_def
  space_char_def ascii_lower_def literal_def literal_nocase_def less_eq_char_def

lemma deterministic_literal:
  "deterministic (literal w @ ps) = deterministic ps"
  "deterministic (literal_nocase w @ ps) = deterministic ps"
  by (induction w) (auto simp: literal_def literal_nocase_def)

lemma nullable_literal:
  "nullable (literal (c # w) @ ps) = False"
  "nullable (literal_nocase (c # w) @ ps) = False"
  by (auto simp: literal_def literal_nocase_def)

lemma space_not_bearer: "space_char x \<Longrightarrow> \<not> bearer_char x"
  by (auto simp: char_class_defs)

lemma patterns_deterministic:
  "p \<in> set secret_value_patterns \<Longrightarrow> deterministic p"
  "p \<in> set default_token_prefix_patterns \<Longrightarrow> deterministic p"
  by (auto simp: secret_value_patterns_def default_token_prefix_patterns_def
      deterministic_literal space_not_bearer)

lemma patterns_avoid_brackets:
  "p \<in> set secret_value_patterns \<Longrightarrow> avoids_brackets p"
  "p \<in> set default_token_prefix_patterns \<Longrightarrow> avoids_brackets p"
  by (auto simp: secret_value_patterns_def default_token_prefix_patterns_def avoids_brackets_def
      char_class_defs)

lemma patterns_not_nullable:
  "p \<in> set secret_value_patterns \<Longrightarrow> \<not> nullable p"
  "p \<in> set default_token_prefix_patterns \<Longrightarrow> \<not> nullable p"
  by (auto simp: secret_value_patterns_def default_token_prefix_patterns_def nullable_literal)

interpretation secret: bracketed_redactor secret_value_patterns "''REDACTED_SECRET''"
  by unfold_locales
    (auto simp: patterns_deterministic patterns_avoid_brackets patterns_not_nullable plain_def
      secret_value_patterns_def char_class_defs)

interpretation token: bracketed_redactor default_token_prefix_patterns "''REDACTED_TOKEN''"
  by unfold_locales
    (auto simp: patterns_deterministic patterns_avoid_brackets patterns_not_nullable plain_def
      default_token_prefix_patterns_def char_class_defs)

lemma redact_text_eq: "redact_text s = re_sub_all secret_value_patterns secret.marker s"
  by (simp add: redact_text_def redacted_secret_def)

section \<open>Redacted documents\<close>

text \<open>
  No string below an ordinary key contains a match of a secret pattern, and what stands below a
  credential-like key is the marker.
\<close>

fun redacted :: "json \<Rightarrow> bool" where
  "redacted (JObj kvs) \<longleftrightarrow>
     (\<forall>(k, v) \<in> set kvs. if secret_key k then v = JStr redacted_secret else redacted v)"
| "redacted (JList xs) \<longleftrightarrow> (\<forall>x \<in> set xs. redacted x)"
| "redacted (JStr s) \<longleftrightarrow> (\<forall>p \<in> set secret_value_patterns. \<not> re_search p s)"
| "redacted v \<longleftrightarrow> True"

lemma redacted_redact: "redacted (redact_sensitive_value v)"
proof (induction v rule: json_induct)
  case (Str s)
  show ?case using secret.sub_all_clean [of s] by (simp add: redact_text_eq secret.clean_def)
qed auto

lemma redact_redacted: "redacted v \<Longrightarrow> redact_sensitive_value v = v"
proof (induction v rule: json_induct)
  case (Str s)
  then show ?case using secret.sub_all_clean_id [of s] by (simp add: redact_text_eq secret.clean_def)
next
  case (List xs)
  then show ?case by (simp add: map_idI)
next
  case (Obj kvs)
  then show ?case by (fastforce intro!: map_idI split: if_splits)
qed auto

text \<open>C30. After \<open>redact_sensitive_value\<close> no string value that stays in a document contains a
  match of any secret pattern (\<open>re.search\<close> fails for each of them), and every value stored under a
  credential-like key is the redaction marker.\<close>

theorem redaction_removes_secrets: "redacted (redact_sensitive_value v)"
  by (rule redacted_redact)

text \<open>Redaction is idempotent: redacting a redacted document changes nothing.\<close>

theorem redaction_idempotent:
  "redact_sensitive_value (redact_sensitive_value v) = redact_sensitive_value v"
  by (rule redact_redacted) (rule redacted_redact)

text \<open>\<open>redact_token_prefixes\<close> leaves no host, worker or internal token in a log line, and
  running it again changes nothing.\<close>

theorem token_prefixes_removed:
  "list_all (\<lambda>p. \<not> re_search p (redact_token_prefixes s)) default_token_prefix_patterns
   \<and> redact_token_prefixes (redact_token_prefixes s) = redact_token_prefixes s"
  using token.sub_all_clean [of s] token.sub_all_idem [of s]
  by (simp add: redact_token_prefixes_def token.clean_def list_all_iff)

end
