(* ===== verification/Database.thy ===== *)
theory Database
  imports Timestamps Canonical Redaction
begin

text \<open>
  The control-plane database (\<open>src/tokenbank/db/connection.py\<close>, \<open>db/transactions.py\<close> and the
  tables of \<open>db/migrations\<close> that the modelled components write). A table is the list of its rows
  in insertion order; a connection holds the committed tables, the tables as the connection sees
  them and whether a transaction is open. Data-changing statements open a transaction implicitly,
  as Python's \<open>sqlite3\<close> does in its default isolation level. There is one connection per process
  (\<open>app.state.db\<close>), so lock contention with other connections is outside the model.

  Columns that hold canonical JSON text are kept as the document that text denotes, with the
  fields of every object in sorted order.
\<close>

section \<open>Platform services\<close>

text \<open>
  What the code takes from its platform: the SHA-256 digest, the shortest text of a float, and the
  \<open>n\<close>-th value drawn from \<open>uuid.uuid4().hex\<close>, \<open>secrets.token_urlsafe(24)\<close> and the UTC clock.
\<close>

record platform =
  sha256 :: "string \<Rightarrow> string"
  float_repr :: "rat \<Rightarrow> string"
  uuid4_hex :: "nat \<Rightarrow> string"
  token_urlsafe :: "nat \<Rightarrow> string"
  utc_clock :: "nat \<Rightarrow> datetime"

section \<open>Status values\<close>

datatype work_unit_status =
    WU_submitted | WU_routing | WU_queued | WU_assigned | WU_running
  | WU_succeeded | WU_failed | WU_quarantined | WU_cancelled

datatype attempt_status =
    Att_created | Att_scheduled | Att_assigned | Att_running
  | Att_succeeded | Att_failed | Att_quarantined | Att_cancelled

datatype assignment_status =
    Asg_created | Asg_accepted | Asg_running | Asg_completed | Asg_rejected
  | Asg_quarantined | Asg_expired | Asg_cancelled | Asg_failed

datatype result_status = Res_succeeded | Res_failed | Res_quarantined

datatype event_status = Ev_pending | Ev_written | Ev_failed

fun work_unit_status_text :: "work_unit_status \<Rightarrow> string" where
  "work_unit_status_text WU_submitted = ''submitted''"
| "work_unit_status_text WU_routing = ''routing''"
| "work_unit_status_text WU_queued = ''queued''"
| "work_unit_status_text WU_assigned = ''assigned''"
| "work_unit_status_text WU_running = ''running''"
| "work_unit_status_text WU_succeeded = ''succeeded''"
| "work_unit_status_text WU_failed = ''failed''"
| "work_unit_status_text WU_quarantined = ''quarantined''"
| "work_unit_status_text WU_cancelled = ''cancelled''"

fun attempt_status_text :: "attempt_status \<Rightarrow> string" where
  "attempt_status_text Att_created = ''created''"
| "attempt_status_text Att_scheduled = ''scheduled''"
| "attempt_status_text Att_assigned = ''assigned''"
| "attempt_status_text Att_running = ''running''"
| "attempt_status_text Att_succeeded = ''succeeded''"
| "attempt_status_text Att_failed = ''failed''"
| "attempt_status_text Att_quarantined = ''quarantined''"
| "attempt_status_text Att_cancelled = ''cancelled''"

fun assignment_status_text :: "assignment_status \<Rightarrow> string" where
  "assignment_status_text Asg_created = ''created''"
| "assignment_status_text Asg_accepted = ''accepted''"
| "assignment_status_text Asg_running = ''running''"
| "assignment_status_text Asg_completed = ''completed''"
| "assignment_status_text Asg_rejected = ''rejected''"
| "assignment_status_text Asg_quarantined = ''quarantined''"
| "assignment_status_text Asg_expired = ''expired''"
| "assignment_status_text Asg_cancelled = ''cancelled''"
| "assignment_status_text Asg_failed = ''failed''"

fun result_status_text :: "result_status \<Rightarrow> string" where
  "result_status_text Res_succeeded = ''succeeded''"
| "result_status_text Res_failed = ''failed''"
| "result_status_text Res_quarantined = ''quarantined''"

section \<open>Rows\<close>

record work_unit_row =
  wu_id :: string
  wu_run_id :: string
  wu_status :: work_unit_status
  wu_task_type :: string
  wu_task_level :: string
  wu_body :: json
  wu_created_at :: string
  wu_updated_at :: string

record route_plan_row =
  rp_id :: string
  rp_work_unit_id :: string
  rp_status :: string
  rp_body :: json
  rp_created_at :: string

record policy_decision_row =
  pd_id :: string
  pd_work_unit_id :: string
  pd_route_plan_id :: string
  pd_decision :: string
  pd_body :: json
  pd_created_at :: string

record attempt_row =
  att_id :: string
  att_work_unit_id :: string
  att_route_plan_id :: string
  att_policy_decision_id :: string
  att_status :: attempt_status
  att_body :: json
  att_created_at :: string
  att_number :: int
  att_started_at :: "string option"
  att_completed_at :: "string option"

record assignment_row =
  asg_id :: string
  asg_attempt_id :: string
  asg_work_unit_id :: string
  asg_worker_id :: string
  asg_status :: assignment_status
  asg_body :: json
  asg_created_at :: string
  asg_capacity_node_id :: "string option"
  asg_backend_id :: "string option"
  asg_lease_token_hash :: "string option"
  asg_lease_token_prefix :: "string option"
  asg_lease_version :: int
  asg_effective_constraints :: json
  asg_assigned_at :: "string option"
  asg_lease_expires_at :: "string option"
  asg_accepted_at :: "string option"
  asg_completed_at :: "string option"
  asg_updated_at :: "string option"

record result_row =
  res_id :: string
  res_work_unit_id :: string
  res_attempt_id :: string
  res_assignment_id :: string
  res_status :: result_status
  res_output_hash :: string
  res_result_hash :: string
  res_body :: json
  res_created_at :: string

record quarantine_row =
  quar_id :: string
  quar_result_envelope_id :: "string option"
  quar_work_unit_id :: string
  quar_attempt_id :: string
  quar_assignment_id :: string
  quar_reason :: string
  quar_body :: json
  quar_created_at :: string

record worker_manifest_row =
  wm_worker_id :: string
  wm_manifest_hash :: string
  wm_body :: json
  wm_created_at :: string
  wm_updated_at :: string

record worker_health_row =
  whs_id :: string
  whs_worker_id :: string
  whs_status :: string
  whs_body :: json
  whs_captured_at :: string

record capacity_node_row =
  cn_id :: string
  cn_node_type :: string
  cn_status :: string
  cn_worker_id :: "string option"
  cn_backend_id :: "string option"
  cn_backend_class :: "string option"
  cn_execution_location :: string
  cn_trust_level :: string
  cn_allowed_task_types :: "string list"
  cn_allowed_privacy_levels :: "string list"
  cn_allowed_data_labels :: "string list"
  cn_backend_ids :: "string list"
  cn_manifest_hash :: string
  cn_health_summary :: json
  cn_body :: json
  cn_created_at :: string
  cn_updated_at :: string

record capacity_health_row =
  chs_id :: string
  chs_capacity_node_id :: string
  chs_worker_id :: "string option"
  chs_backend_id :: "string option"
  chs_status :: string
  chs_health :: json
  chs_captured_at :: string
  chs_body :: json

record backend_registry_row =
  brr_backend_id :: string
  brr_backend_class :: string
  brr_status :: string
  brr_body :: json
  brr_created_at :: string
  brr_updated_at :: string

record backend_manifest_row =
  bmr_backend_id :: string
  bmr_backend_class :: string
  bmr_capacity_node_id :: string
  bmr_manifest_hash :: string
  bmr_body :: json
  bmr_created_at :: string
  bmr_updated_at :: string

record event_row =
  ev_id :: string
  ev_source :: string
  ev_type :: string
  ev_subject :: string
  ev_run_id :: "string option"
  ev_work_unit_id :: "string option"
  ev_attempt_id :: "string option"
  ev_assignment_id :: "string option"
  ev_trace_id :: string
  ev_span_id :: "string option"
  ev_status :: event_status
  ev_sequence :: int
  ev_body :: json
  ev_created_at :: string
  ev_written_at :: "string option"
  ev_failure_count :: int
  ev_last_error :: "string option"

record verifier_report_row =
  vrr_id :: string
  vrr_work_unit_id :: string
  vrr_result_envelope_id :: string
  vrr_status :: string
  vrr_recommendation :: string
  vrr_body :: json
  vrr_created_at :: string

record account_snapshot_row =
  acr_id :: string
  acr_provider :: string
  acr_account_label :: string
  acr_status :: string
  acr_secret_ref :: "string option"
  acr_snapshot_hash :: string
  acr_body :: json
  acr_created_at :: string
  acr_updated_at :: string

record usage_ledger_row =
  ulr_id :: string
  ulr_work_unit_id :: string
  ulr_run_id :: string
  ulr_route_plan_id :: string
  ulr_result_envelope_id :: string
  ulr_verifier_report_id :: "string option"
  ulr_account_snapshot_id :: "string option"
  ulr_usage_source :: string
  ulr_cost_source :: string
  ulr_billable_cost_micros :: int
  ulr_entry_hash :: string
  ulr_body :: json
  ulr_created_at :: string

record audit_receipt_row =
  arr_id :: string
  arr_work_unit_id :: string
  arr_run_id :: string
  arr_route_plan_id :: string
  arr_result_envelope_id :: string
  arr_verifier_report_id :: string
  arr_usage_ledger_entry_id :: "string option"
  arr_receipt_hash :: string
  arr_previous_receipt_hash :: "string option"
  arr_body :: json
  arr_created_at :: string

record run_row =
  rn_id :: string
  rn_status :: string
  rn_body :: json
  rn_created_at :: string
  rn_updated_at :: string

record verifier_check_row =
  vcr_id :: string
  vcr_verifier_report_id :: string
  vcr_status :: string
  vcr_body :: json
  vcr_created_at :: string

record host_summary_row =
  hsr_id :: string
  hsr_work_unit_id :: string
  hsr_run_id :: string
  hsr_body :: json
  hsr_created_at :: string

record tables =
  runs :: "run_row list"
  work_units :: "work_unit_row list"
  route_plans :: "route_plan_row list"
  policy_decisions :: "policy_decision_row list"
  execution_attempts :: "attempt_row list"
  assignments :: "assignment_row list"
  result_envelopes :: "result_row list"
  result_quarantine :: "quarantine_row list"
  worker_manifests :: "worker_manifest_row list"
  worker_health_snapshots :: "worker_health_row list"
  capacity_nodes :: "capacity_node_row list"
  capacity_node_health_snapshots :: "capacity_health_row list"
  backend_registry :: "backend_registry_row list"
  backend_manifests :: "backend_manifest_row list"
  verifier_reports :: "verifier_report_row list"
  verifier_check_results :: "verifier_check_row list"
  host_result_summaries :: "host_summary_row list"
  account_snapshots :: "account_snapshot_row list"
  usage_ledger_entries :: "usage_ledger_row list"
  audit_receipts :: "audit_receipt_row list"
  event_outbox :: "event_row list"

record world =
  plat :: platform
  committed :: tables
  current :: tables
  in_tx :: bool
  uuid_draws :: nat
  token_draws :: nat
  clock_draws :: nat

type_synonym 'a op = "(world, 'a) prog"

section \<open>Keyed tables\<close>

definition find_row :: "('r \<Rightarrow> string) \<Rightarrow> 'r list \<Rightarrow> string \<Rightarrow> 'r option" where
  "find_row key t k = find (\<lambda>r. key r = k) t"

definition insert_row :: "('r \<Rightarrow> string) \<Rightarrow> 'r \<Rightarrow> 'r list \<Rightarrow> 'r list result" where
  "insert_row key r t =
     (if key r \<in> key ` set t then Inl (IntegrityError ''UNIQUE constraint failed'')
      else Inr (t @ [r]))"

definition update_row :: "('r \<Rightarrow> string) \<Rightarrow> string \<Rightarrow> ('r \<Rightarrow> 'r) \<Rightarrow> 'r list \<Rightarrow> 'r list" where
  "update_row key k f t = map (\<lambda>r. if key r = k then f r else r) t"

text \<open>\<open>INSERT ... ON CONFLICT(key) DO UPDATE\<close>\<close>

definition upsert_row :: "('r \<Rightarrow> string) \<Rightarrow> ('r \<Rightarrow> 'r) \<Rightarrow> 'r \<Rightarrow> 'r list \<Rightarrow> 'r list" where
  "upsert_row key merge r t =
     (if key r \<in> key ` set t then update_row key (key r) merge t else t @ [r])"

definition has_row :: "('r \<Rightarrow> string) \<Rightarrow> 'r list \<Rightarrow> string \<Rightarrow> bool" where
  "has_row key t k \<longleftrightarrow> k \<in> key ` set t"

definition pk_unique :: "('r \<Rightarrow> string) \<Rightarrow> 'r list \<Rightarrow> bool" where
  "pk_unique key t \<longleftrightarrow> distinct (map key t)"

text \<open>\<open>PRAGMA foreign_keys = ON\<close>: a statement that leaves a dangling reference fails.\<close>

definition fk_check :: "bool \<Rightarrow> 'a \<Rightarrow> 'a result" where
  "fk_check ok x = (if ok then Inr x else Inl (IntegrityError ''FOREIGN KEY constraint failed''))"

text \<open>
  \<open>ORDER BY c DESC\<close>, rows with equal keys in the order of the table, and \<open>LIMIT 1\<close> of it. SQL leaves the
  order of equal keys open; no result below depends on it.
\<close>

definition sort_desc :: "('r \<Rightarrow> 'k :: linorder) \<Rightarrow> 'r list \<Rightarrow> 'r list" where
  "sort_desc f t = rev (sort_key f (rev t))"

definition newest :: "('r \<Rightarrow> 'k :: linorder) \<Rightarrow> 'r list \<Rightarrow> 'r option" where
  "newest f t = (case sort_desc f t of [] \<Rightarrow> None | r # _ \<Rightarrow> Some r)"

lemma set_sort_desc [simp]: "set (sort_desc f t) = set t"
  by (simp add: sort_desc_def)

lemma newest_Nil [simp]: "newest f [] = None"
  by (simp add: newest_def sort_desc_def)

lemma newest_None_iff: "newest f t = None \<longleftrightarrow> t = []"
proof -
  have "sort_desc f t = [] \<longleftrightarrow> t = []" by (metis set_sort_desc set_empty)
  then show ?thesis by (cases "sort_desc f t") (auto simp: newest_def)
qed

lemma newest_SomeD:
  assumes "newest f t = Some r"
  shows "r \<in> set t" and "\<forall>x \<in> set t. f x \<le> f r"
proof -
  obtain rest where split: "sort_desc f t = r # rest"
    using assms by (auto simp: newest_def split: list.splits)
  then have eq: "sort_key f (rev t) = rev rest @ [r]" by (simp add: sort_desc_def rev_eq_Cons_iff)
  show "r \<in> set t" using split set_sort_desc [of f t] by (metis list.set_intros(1))
  have "sorted (map f (rev rest @ [r]))" using sorted_sort_key [of f "rev t"] eq by simp
  moreover have "set t = set (rev rest @ [r])" using arg_cong [OF eq, of set] by simp
  ultimately show "\<forall>x \<in> set t. f x \<le> f r" by (auto simp: sorted_append)
qed

text \<open>The contract of a table with a primary key.\<close>

locale row_store =
  fixes key :: "'r \<Rightarrow> string"
    and insert :: "'r \<Rightarrow> 't \<Rightarrow> 't result"
    and lookup :: "'t \<Rightarrow> string \<Rightarrow> 'r option"
    and update :: "string \<Rightarrow> ('r \<Rightarrow> 'r) \<Rightarrow> 't \<Rightarrow> 't"
    and invar :: "'t \<Rightarrow> bool"
  assumes lookup_key: "lookup t k = Some r \<Longrightarrow> key r = k"
    and insert_ok: "invar t \<Longrightarrow> lookup t (key r) = None \<Longrightarrow> \<exists>t'. insert r t = Inr t'"
    and insert_dup: "lookup t (key r) \<noteq> None \<Longrightarrow> \<exists>e. insert r t = Inl e"
    and lookup_insert:
      "invar t \<Longrightarrow> insert r t = Inr t' \<Longrightarrow>
       lookup t' k = (if k = key r then Some r else lookup t k)"
    and lookup_update:
      "(\<And>x. key x = k \<Longrightarrow> key (f x) = k) \<Longrightarrow>
       lookup (update k f t) k' = (if k' = k then map_option f (lookup t k) else lookup t k')"
    and invar_insert: "invar t \<Longrightarrow> insert r t = Inr t' \<Longrightarrow> invar t'"
    and invar_update: "invar t \<Longrightarrow> (\<And>x. key x = k \<Longrightarrow> key (f x) = k) \<Longrightarrow> invar (update k f t)"
begin

lemma insert_iff_fresh: "invar t \<Longrightarrow> (\<exists>t'. insert r t = Inr t') \<longleftrightarrow> lookup t (key r) = None"
  using insert_ok insert_dup by (metis Inl_Inr_False)

lemma insert_then_update:
  assumes "invar t" and "insert r t = Inr t'" and "\<And>x. key x = key r \<Longrightarrow> key (f x) = key r"
  shows "lookup (update (key r) f t') (key r) = Some (f r)"
  using assms by (simp add: lookup_update lookup_insert)

lemma update_frame:
  assumes "\<And>x. key x = k \<Longrightarrow> key (f x) = k" and "k' \<noteq> k"
  shows "lookup (update k f t) k' = lookup t k'"
  using assms by (simp add: lookup_update)

end

lemma find_row_Some_iff:
  assumes "pk_unique key t"
  shows "find_row key t k = Some r \<longleftrightarrow> r \<in> set t \<and> key r = k"
  using assms
  by (induction t) (auto simp: find_row_def pk_unique_def)

lemma find_row_None_iff: "find_row key t k = None \<longleftrightarrow> k \<notin> key ` set t"
  by (auto simp: find_row_def find_None_iff)

lemma find_row_SomeD: "find_row key t k = Some r \<Longrightarrow> r \<in> set t \<and> key r = k"
  by (auto simp: find_row_def find_Some_iff)

lemma has_row_find: "has_row key t k \<longleftrightarrow> find_row key t k \<noteq> None"
  using find_row_None_iff [of key t k] by (auto simp: has_row_def)

lemma find_row_append:
  "find_row key (t @ [r]) k = (case find_row key t k of None \<Rightarrow> if key r = k then Some r else None
     | Some x \<Rightarrow> Some x)"
  by (induction t) (auto simp: find_row_def)

lemma find_row_update:
  "(\<And>x. key x = k \<Longrightarrow> key (f x) = k) \<Longrightarrow>
   find_row key (update_row key k f t) k'
   = (if k' = k then map_option f (find_row key t k) else find_row key t k')"
  by (induction t) (auto simp: find_row_def update_row_def)

lemma keys_update_row:
  "(\<And>x. key x = k \<Longrightarrow> key (f x) = k) \<Longrightarrow> map key (update_row key k f t) = map key t"
  by (induction t) (auto simp: update_row_def)

lemma find_row_upsert:
  assumes "\<And>x. key x = key r \<Longrightarrow> key (f x) = key r"
  shows "find_row key (upsert_row key f r t) k =
    (if k = key r then Some (case find_row key t k of None \<Rightarrow> r | Some old \<Rightarrow> f old) else find_row key t k)"
proof (cases "key r \<in> key ` set t")
  case True
  then obtain old where "find_row key t (key r) = Some old" using find_row_None_iff [of key t "key r"] by auto
  with True assms show ?thesis by (simp add: upsert_row_def find_row_update)
next
  case False
  then show ?thesis
    using find_row_None_iff [of key t "key r"] by (auto simp: upsert_row_def find_row_append split: option.splits)
qed

lemma pk_unique_upsert:
  assumes "\<And>x. key x = key r \<Longrightarrow> key (f x) = key r" and "pk_unique key t"
  shows "pk_unique key (upsert_row key f r t)"
  using assms keys_update_row [of key "key r" f t] by (auto simp: upsert_row_def pk_unique_def)

text \<open>Every table of the database, whatever its key column, meets the contract.\<close>

lemma list_row_store:
  "row_store key (insert_row key) (find_row key) (update_row key) (pk_unique key)"
proof
  show "find_row key t k = Some r \<Longrightarrow> key r = k" for t k r
    by (auto dest: find_row_SomeD)
  show "pk_unique key t \<Longrightarrow> find_row key t (key r) = None \<Longrightarrow> \<exists>t'. insert_row key r t = Inr t'" for t r
    by (simp add: find_row_None_iff insert_row_def)
  show "find_row key t (key r) \<noteq> None \<Longrightarrow> \<exists>e. insert_row key r t = Inl e" for t r
    by (auto simp: find_row_None_iff insert_row_def)
  show "find_row key t' k = (if k = key r then Some r else find_row key t k)"
    if "insert_row key r t = Inr t'" for t r t' k
    using that find_row_None_iff [of key t "key r"]
    by (auto simp: insert_row_def find_row_append split: if_splits option.splits)
  show "find_row key (update_row key k f t) k'
      = (if k' = k then map_option f (find_row key t k) else find_row key t k')"
    if "\<And>x. key x = k \<Longrightarrow> key (f x) = k" for k f t k'
    using that by (rule find_row_update)
  show "pk_unique key t'" if "pk_unique key t" and "insert_row key r t = Inr t'" for t r t'
    using that by (auto simp: insert_row_def pk_unique_def split: if_splits)
  show "pk_unique key (update_row key k f t)"
    if "pk_unique key t" and "\<And>x. key x = k \<Longrightarrow> key (f x) = k" for t k f
    using that keys_update_row [of key k f t] by (simp add: pk_unique_def)
qed

interpretation wu: row_store wu_id "insert_row wu_id" "find_row wu_id" "update_row wu_id" "pk_unique wu_id"
  by (rule list_row_store)

interpretation att: row_store att_id "insert_row att_id" "find_row att_id" "update_row att_id"
  "pk_unique att_id"
  by (rule list_row_store)

interpretation asg: row_store asg_id "insert_row asg_id" "find_row asg_id" "update_row asg_id"
  "pk_unique asg_id"
  by (rule list_row_store)

interpretation res: row_store res_id "insert_row res_id" "find_row res_id" "update_row res_id"
  "pk_unique res_id"
  by (rule list_row_store)

interpretation ev: row_store ev_id "insert_row ev_id" "find_row ev_id" "update_row ev_id" "pk_unique ev_id"
  by (rule list_row_store)

end
