(* ===== verification/Transactions.thy ===== *)
theory Transactions
  imports Database
begin

text \<open>
  Statements, transactions and the sources of fresh values of one database connection
  (\<open>src/tokenbank/db/transactions.py\<close>, \<open>db/connection.py\<close>). A transaction is all or
  nothing, stated once for any transactional scope (locale \<open>atomic_scope\<close>) and interpreted on the
  connection.
\<close>

section \<open>Statements\<close>

definition execute :: "(tables \<Rightarrow> tables result) \<Rightarrow> unit op" where
  "execute f = (\<lambda>w. case f (current w) of
       Inl e \<Rightarrow> (Inl e, w\<lparr>in_tx := True\<rparr>)
     | Inr t \<Rightarrow> (Inr (), w\<lparr>in_tx := True, current := t\<rparr>))"

definition select :: "(tables \<Rightarrow> 'a) \<Rightarrow> 'a op" where
  "select q = gets (\<lambda>w. q (current w))"

definition begin_immediate :: "unit op" where
  "begin_immediate = (\<lambda>w.
     if in_tx w then (Inl (OperationalError ''cannot start a transaction within a transaction''), w)
     else (Inr (), w\<lparr>in_tx := True\<rparr>))"

definition commit :: "world \<Rightarrow> world" where
  "commit w = w\<lparr>committed := current w, in_tx := False\<rparr>"

definition rollback :: "world \<Rightarrow> world" where
  "rollback w = w\<lparr>current := committed w, in_tx := False\<rparr>"

text \<open>\<open>with transaction(conn): ...\<close>\<close>

definition transaction :: "'a op \<Rightarrow> 'a op" where
  "transaction body = bnd begin_immediate (\<lambda>_ w.
     case body w of
       (Inl e, w') \<Rightarrow> (Inl e, rollback w')
     | (Inr x, w') \<Rightarrow> (Inr x, commit w'))"

definition draw_uuid :: "string op" where
  "draw_uuid = (\<lambda>w. (Inr (uuid4_hex (plat w) (uuid_draws w)), w\<lparr>uuid_draws := Suc (uuid_draws w)\<rparr>))"

definition draw_token :: "string op" where
  "draw_token =
     (\<lambda>w. (Inr (token_urlsafe (plat w) (token_draws w)), w\<lparr>token_draws := Suc (token_draws w)\<rparr>))"

definition utc_now :: "datetime op" where
  "utc_now = (\<lambda>w. (Inr (utc_clock (plat w) (clock_draws w)), w\<lparr>clock_draws := Suc (clock_draws w)\<rparr>))"

definition utc_text_now :: "string op" where
  "utc_text_now = bnd utc_now (\<lambda>d. ret (utc_text d))"

lemma run_execute [run_simps]:
  "execute f w = (case f (current w) of
       Inl e \<Rightarrow> (Inl e, w\<lparr>in_tx := True\<rparr>)
     | Inr t \<Rightarrow> (Inr (), w\<lparr>in_tx := True, current := t\<rparr>))"
  by (simp add: execute_def)

lemma run_select [run_simps, simp]: "select q w = (Inr (q (current w)), w)"
  by (simp add: select_def)

lemma run_draw_uuid [run_simps, simp]:
  "draw_uuid w = (Inr (uuid4_hex (plat w) (uuid_draws w)), w\<lparr>uuid_draws := Suc (uuid_draws w)\<rparr>)"
  by (simp add: draw_uuid_def)

lemma run_draw_token [run_simps, simp]:
  "draw_token w = (Inr (token_urlsafe (plat w) (token_draws w)), w\<lparr>token_draws := Suc (token_draws w)\<rparr>)"
  by (simp add: draw_token_def)

lemma run_utc_now [run_simps, simp]:
  "utc_now w = (Inr (utc_clock (plat w) (clock_draws w)), w\<lparr>clock_draws := Suc (clock_draws w)\<rparr>)"
  by (simp add: utc_now_def)

lemma run_utc_text_now [run_simps, simp]:
  "utc_text_now w =
     (Inr (utc_text (utc_clock (plat w) (clock_draws w))), w\<lparr>clock_draws := Suc (clock_draws w)\<rparr>)"
  by (simp add: utc_text_now_def run_bnd)

section \<open>What statements keep\<close>

text \<open>A predicate of the current tables, and the committed tables themselves.\<close>

abbreviation on_current :: "(tables \<Rightarrow> bool) \<Rightarrow> world \<Rightarrow> bool" where
  "on_current I \<equiv> \<lambda>w. I (current w)"

abbreviation durable_is :: "tables \<Rightarrow> world \<Rightarrow> bool" where
  "durable_is c \<equiv> \<lambda>w. committed w = c"

lemma keeps_select [keeps_intro]: "keeps I (select q)"
  by (simp add: keeps_def)

lemma keeps_execute_current:
  "(\<And>t t'. I t \<Longrightarrow> f t = Inr t' \<Longrightarrow> I t') \<Longrightarrow> keeps (on_current I) (execute f)"
  by (auto simp: keeps_def execute_def split: sum.splits)

lemma keeps_draws [keeps_intro]:
  "keeps (on_current I) draw_uuid" "keeps (on_current I) draw_token" "keeps (on_current I) utc_now"
  "keeps (on_current I) utc_text_now"
  "keeps (durable_is c) draw_uuid" "keeps (durable_is c) draw_token" "keeps (durable_is c) utc_now"
  "keeps (durable_is c) utc_text_now"
  by (simp_all add: keeps_def)

lemma keeps_execute_durable [keeps_intro]: "keeps (durable_is c) (execute f)"
  by (auto simp: keeps_def execute_def split: sum.splits)

section \<open>Transactions are all or nothing\<close>

definition idle :: "world \<Rightarrow> bool" where
  "idle w \<longleftrightarrow> \<not> in_tx w \<and> current w = committed w"

text \<open>The contract of a transactional scope over a store.\<close>

locale atomic_scope =
  fixes tx :: "('s, 'a) prog \<Rightarrow> ('s, 'a) prog"
    and quiet :: "'s \<Rightarrow> bool"
    and stored :: "'s \<Rightarrow> 'd"
    and seen :: "'s \<Rightarrow> 'd"
    and opened :: "'s \<Rightarrow> 's"
  assumes opened_seen: "quiet s \<Longrightarrow> seen (opened s) = stored s"
    and tx_ok:
      "quiet s \<Longrightarrow> tx m s = (Inr x, t) \<Longrightarrow>
       \<exists>u. m (opened s) = (Inr x, u) \<and> quiet t \<and> stored t = seen u"
    and tx_error:
      "quiet s \<Longrightarrow> (\<And>c. keeps (\<lambda>s. stored s = c) m) \<Longrightarrow> tx m s = (Inl e, t) \<Longrightarrow>
       quiet t \<and> stored t = stored s"
begin

lemma tx_keeps:
  assumes cur: "keeps (\<lambda>s. I (seen s)) m" and dur: "\<And>c. keeps (\<lambda>s. stored s = c) m"
  shows "keeps (\<lambda>s. quiet s \<and> I (stored s)) (tx m)"
  unfolding keeps_def
proof (intro allI impI)
  fix s
  assume s: "quiet s \<and> I (stored s)"
  obtain r t where rt: "tx m s = (r, t)" by fastforce
  show "quiet (snd (tx m s)) \<and> I (stored (snd (tx m s)))"
  proof (cases r)
    case (Inl e)
    then show ?thesis using tx_error [OF _ dur, of s e t] s rt by simp
  next
    case (Inr x)
    then obtain u where u: "m (opened s) = (Inr x, u)" "quiet t" "stored t = seen u"
      using tx_ok [of s m x t] s rt by auto
    have "I (seen (opened s))" using s opened_seen by simp
    then have "I (seen u)" using cur u(1) by (metis keepsD)
    then show ?thesis using u rt by simp
  qed
qed

end

lemma transaction_ok_iff:
  "idle w \<Longrightarrow> transaction m w = (Inr x, w') \<longleftrightarrow>
     (\<exists>u. m (w\<lparr>in_tx := True\<rparr>) = (Inr x, u) \<and> w' = commit u)"
  by (auto simp: transaction_def begin_immediate_def run_bnd idle_def split: prod.splits sum.splits)

lemma transaction_error_iff:
  "idle w \<Longrightarrow> transaction m w = (Inl e, w') \<longleftrightarrow>
     (\<exists>u. m (w\<lparr>in_tx := True\<rparr>) = (Inl e, u) \<and> w' = rollback u)"
  by (auto simp: transaction_def begin_immediate_def run_bnd idle_def split: prod.splits sum.splits)

interpretation conn: atomic_scope transaction idle committed current "\<lambda>w. w\<lparr>in_tx := True\<rparr>"
proof
  show "current (w\<lparr>in_tx := True\<rparr>) = committed w" if "idle w" for w
    using that by (simp add: idle_def)
  show "\<exists>u. m (w\<lparr>in_tx := True\<rparr>) = (Inr x, u) \<and> idle t \<and> committed t = current u"
    if "idle w" and "transaction m w = (Inr x, t)" for w t and m :: "'a op" and x
    using that by (auto simp: transaction_ok_iff commit_def idle_def)
  show "idle t \<and> committed t = committed w"
    if quiet: "idle w" and dur: "\<And>c. keeps (durable_is c) m" and err: "transaction m w = (Inl e, t)"
    for w t and m :: "'a op" and e
  proof -
    obtain u where u: "m (w\<lparr>in_tx := True\<rparr>) = (Inl e, u)" "t = rollback u"
      using quiet err by (auto simp: transaction_error_iff)
    have "committed u = committed w" using keepsD [OF dur _ u(1)] by simp
    then show ?thesis using u(2) by (simp add: rollback_def idle_def)
  qed
qed

lemma keeps_transaction_idle:
  "(\<And>c. keeps (durable_is c) m) \<Longrightarrow> keeps idle (transaction m)"
  using conn.tx_keeps [of "\<lambda>_. True" m] by (simp add: keeps_def)

section \<open>An empty database\<close>

definition empty_tables :: tables where
  "empty_tables =
     \<lparr>runs = [], work_units = [], route_plans = [], policy_decisions = [], execution_attempts = [], assignments = [],
      result_envelopes = [], result_quarantine = [], worker_manifests = [], worker_health_snapshots = [],
      capacity_nodes = [], capacity_node_health_snapshots = [], backend_registry = [], backend_manifests = [], verifier_reports = [], verifier_check_results = [], host_result_summaries = [],
      account_snapshots = [], usage_ledger_entries = [], audit_receipts = [],
      event_outbox = []\<rparr>"

text \<open>A connection to it, on a platform with a fixed clock and distinct identifiers.\<close>

definition empty_world :: world where
  "empty_world =
     \<lparr>plat = \<lparr>sha256 = (\<lambda>_. ''h''), float_repr = (\<lambda>_. []), uuid4_hex = (\<lambda>n. replicate n (CHR ''u'')),
        token_urlsafe = (\<lambda>_. []),
        utc_clock = (\<lambda>_. \<lparr>year = 2026, month = 1, day = 1, hour = 0, minute = 0, second = 0, microsecond = 0\<rparr>)\<rparr>,
      committed = empty_tables, current = empty_tables, in_tx = False, uuid_draws = 0, token_draws = 0, clock_draws = 0\<rparr>"

lemma empty_world_simps [simp]:
  "idle empty_world" "committed empty_world = empty_tables" "current empty_world = empty_tables"
  "in_tx empty_world = False"
  by (simp_all add: idle_def empty_world_def)

end
