(* ===== verification/Outbox.thy ===== *)
theory Outbox
  imports Transactions
begin

text \<open>
  The event outbox (\<open>src/tokenbank/events/outbox.py\<close>, \<open>events/flusher.py\<close>, \<open>events/jsonl.py\<close>)
  and \<open>write_business_change_with_event\<close> of \<open>db/transactions.py\<close>. Sequence numbers are gapless
  and follow insertion order, every stored event body is redacted, and a flush appends each
  pending event at most once, in sequence order.
\<close>

section \<open>Enqueueing\<close>

record outbox_event_input =
  in_source :: string
  in_type :: string
  in_subject :: string
  in_body :: json
  in_run_id :: "string option"
  in_work_unit_id :: "string option"
  in_attempt_id :: "string option"
  in_assignment_id :: "string option"
  in_trace_id :: string
  in_span_id :: "string option"
  in_event_id :: string

text \<open>The dataclass constructor: fresh trace and event identifiers, in field order.\<close>

definition outbox_event ::
  "string \<Rightarrow> string \<Rightarrow> string \<Rightarrow> json \<Rightarrow> string option \<Rightarrow> string option \<Rightarrow> string option
   \<Rightarrow> string option \<Rightarrow> outbox_event_input op" where
  "outbox_event src ty subj bod run wu att asg =
     bnd draw_uuid (\<lambda>trace. bnd draw_uuid (\<lambda>u.
     ret \<lparr>in_source = src, in_type = ty, in_subject = subj, in_body = bod, in_run_id = run,
          in_work_unit_id = wu, in_attempt_id = att, in_assignment_id = asg,
          in_trace_id = trace, in_span_id = None, in_event_id = ''evt_'' @ u\<rparr>))"

text \<open>\<open>SELECT COALESCE(MAX(sequence), 0) + 1\<close>\<close>

fun coalesce_max :: "int list \<Rightarrow> int" where
  "coalesce_max [] = 0"
| "coalesce_max (x # xs) = fold max xs x"

definition next_sequence :: "tables \<Rightarrow> int" where
  "next_sequence t = coalesce_max (map ev_sequence (event_outbox t)) + 1"

definition event_row_of :: "outbox_event_input \<Rightarrow> int \<Rightarrow> string \<Rightarrow> event_row" where
  "event_row_of e sq now =
     \<lparr>ev_id = in_event_id e, ev_source = in_source e, ev_type = in_type e,
      ev_subject = in_subject e, ev_run_id = in_run_id e, ev_work_unit_id = in_work_unit_id e,
      ev_attempt_id = in_attempt_id e, ev_assignment_id = in_assignment_id e,
      ev_trace_id = in_trace_id e, ev_span_id = in_span_id e, ev_status = Ev_pending,
      ev_sequence = sq, ev_body = canonical (redact_sensitive_value (in_body e)),
      ev_created_at = now, ev_written_at = None, ev_failure_count = 0, ev_last_error = None\<rparr>"

text \<open>The insert fails on a repeated event id or on a repeated sequence number.\<close>

definition insert_event :: "event_row \<Rightarrow> tables \<Rightarrow> tables result" where
  "insert_event r t =
     (if ev_sequence r \<in> ev_sequence ` set (event_outbox t)
      then Inl (IntegrityError ''UNIQUE constraint failed'')
      else bind_result (insert_row ev_id r (event_outbox t))
             (\<lambda>rows. Inr (t\<lparr>event_outbox := rows\<rparr>)))"

definition enqueue_event :: "outbox_event_input \<Rightarrow> string op" where
  "enqueue_event e =
     bnd (select next_sequence) (\<lambda>sq. bnd utc_text_now (\<lambda>now.
     seq (execute (insert_event (event_row_of e sq now)))
     (ret (in_event_id e))))"

definition write_business_change_with_event ::
  "'a op \<Rightarrow> outbox_event_input \<Rightarrow> ('a \<times> string) op" where
  "write_business_change_with_event business_writer e =
     transaction (bnd business_writer (\<lambda>r. bnd (enqueue_event e) (\<lambda>event_id. ret (r, event_id))))"

section \<open>Flushing\<close>

definition pending_events :: "nat \<Rightarrow> event_row list op" where
  "pending_events limit =
     select (\<lambda>t. take limit (sort_key ev_sequence
       (filter (\<lambda>r. ev_status r = Ev_pending) (event_outbox t))))"

definition mark_written :: "string \<Rightarrow> unit op" where
  "mark_written event_id =
     bnd utc_text_now (\<lambda>now.
     seq (execute (\<lambda>t. Inr (t\<lparr>event_outbox := update_row ev_id event_id
            (\<lambda>r. r\<lparr>ev_status := Ev_written, ev_written_at := Some now, ev_last_error := None\<rparr>)
            (event_outbox t)\<rparr>)))
     (modify commit))"

definition mark_failed :: "string \<Rightarrow> string \<Rightarrow> unit op" where
  "mark_failed event_id err =
     seq (execute (\<lambda>t. Inr (t\<lparr>event_outbox := update_row ev_id event_id
            (\<lambda>r. r\<lparr>ev_status := Ev_failed, ev_failure_count := ev_failure_count r + 1,
                   ev_last_error := Some err\<rparr>)
            (event_outbox t)\<rparr>)))
     (modify commit)"

definition opt_str :: "string option \<Rightarrow> json" where
  "opt_str x = json_of_option JStr x"

definition event_row_to_document :: "event_row \<Rightarrow> json" where
  "event_row_to_document r = JObj
     [(''event_id'', JStr (ev_id r)), (''source'', JStr (ev_source r)),
      (''type'', JStr (ev_type r)), (''subject'', JStr (ev_subject r)),
      (''run_id'', opt_str (ev_run_id r)), (''work_unit_id'', opt_str (ev_work_unit_id r)),
      (''attempt_id'', opt_str (ev_attempt_id r)),
      (''assignment_id'', opt_str (ev_assignment_id r)), (''trace_id'', JStr (ev_trace_id r)),
      (''span_id'', opt_str (ev_span_id r)), (''sequence'', JInt (ev_sequence r)),
      (''body'', ev_body r), (''created_at'', JStr (ev_created_at r))]"

text \<open>
  The file system is an argument: appending a line to the file gives the new file or an
  \<open>OSError\<close> with its message, and what the file then holds.
\<close>

type_synonym append_line = "string list \<Rightarrow> string \<Rightarrow> string option \<times> string list"

definition append_event_jsonl ::
  "append_line \<Rightarrow> (rat \<Rightarrow> string) \<Rightarrow> event_row \<Rightarrow> string list \<Rightarrow> string option \<times> string list" where
  "append_event_jsonl fs frepr r file =
     fs file (canonical_json_dumps frepr (event_row_to_document r))"

record flush_result =
  fl_written :: nat
  fl_failed :: nat

fun flush_rows ::
  "append_line \<Rightarrow> event_row list \<Rightarrow> string list \<Rightarrow> nat \<Rightarrow> nat \<Rightarrow> (flush_result \<times> string list) op" where
  "flush_rows fs [] file written failed =
     ret (\<lparr>fl_written = written, fl_failed = failed\<rparr>, file)"
| "flush_rows fs (r # rs) file written failed =
     bnd (gets (\<lambda>w. float_repr (plat w))) (\<lambda>frepr.
     case append_event_jsonl fs frepr r file of
       (Some err, file') \<Rightarrow>
         seq (mark_failed (ev_id r) err) (flush_rows fs rs file' written (failed + 1))
     | (None, file') \<Rightarrow>
         seq (mark_written (ev_id r)) (flush_rows fs rs file' (written + 1) failed))"

definition flush_pending_events ::
  "append_line \<Rightarrow> nat \<Rightarrow> string list \<Rightarrow> (flush_result \<times> string list) op" where
  "flush_pending_events fs limit file =
     bnd (pending_events limit) (\<lambda>rows. flush_rows fs rows file 0 0)"

section \<open>The outbox invariant\<close>

definition outbox_ok :: "tables \<Rightarrow> bool" where
  "outbox_ok t \<longleftrightarrow>
     map ev_sequence (event_outbox t) = [1..int (length (event_outbox t))] \<and>
     pk_unique ev_id (event_outbox t) \<and>
     (\<forall>r \<in> set (event_outbox t). redacted (ev_body r))"

lemma coalesce_max_upto: "coalesce_max [1..int n] = int n"
proof (cases n)
  case (Suc m)
  have "fold max [i..int k] (i - 1) = max (i - 1) (int k)" if "i \<le> int k + 1" for i :: int and k
    using that
  proof (induction "nat (int k + 1 - i)" arbitrary: i)
    case 0
    then show ?case by simp
  next
    case (Suc d)
    have "fold max [i + 1..int k] i = max i (int k)"
      using Suc.hyps(1) [of "i + 1"] Suc.hyps(2) Suc.prems by auto
    then show ?case using Suc.prems Suc.hyps(2) by (simp add: upto_rec1)
  qed
  from this [of 2 n] show ?thesis using Suc by (simp add: upto_rec1)
qed simp

lemma next_sequence_ok: "outbox_ok t \<Longrightarrow> next_sequence t = int (length (event_outbox t)) + 1"
  by (simp add: next_sequence_def outbox_ok_def coalesce_max_upto)

lemma redacted_canonical: "redacted v \<Longrightarrow> redacted (canonical v)"
proof (induction v rule: json_induct)
  case (Obj kvs)
  then show ?case by (fastforce split: if_splits)
qed auto

lemma insert_event_Inr:
  "insert_event r t = Inr t' \<longleftrightarrow>
     ev_sequence r \<notin> ev_sequence ` set (event_outbox t) \<and> ev_id r \<notin> ev_id ` set (event_outbox t) \<and>
     t' = t\<lparr>event_outbox := event_outbox t @ [r]\<rparr>"
  by (auto simp: insert_event_def insert_row_def)

lemma outbox_ok_append:
  assumes "outbox_ok t" and "ev_id r \<notin> ev_id ` set (event_outbox t)"
    and "ev_sequence r = next_sequence t" and "redacted (ev_body r)"
  shows "outbox_ok (t\<lparr>event_outbox := event_outbox t @ [r]\<rparr>)"
proof -
  have "map ev_sequence (event_outbox t @ [r]) = [1..int (length (event_outbox t @ [r]))]"
    using assms(1,3) by (simp add: next_sequence_ok outbox_ok_def upto_rec2)
  then show ?thesis using assms by (auto simp: outbox_ok_def pk_unique_def)
qed

text \<open>
  \<open>enqueue_event\<close> appends exactly one row, with the next sequence number, and touches nothing else
  of the tables.
\<close>

lemma enqueue_event_ok:
  assumes "enqueue_event e w = (Inr x, w')"
  shows "\<exists>now. current w' = (current w)\<lparr>event_outbox := event_outbox (current w) @
           [event_row_of e (next_sequence (current w)) now]\<rparr> \<and>
         in_event_id e \<notin> ev_id ` set (event_outbox (current w)) \<and> x = in_event_id e \<and>
         committed w' = committed w \<and> in_tx w'"
  using assms
  by (auto simp: enqueue_event_def bnd_ok_iff seq_ok_iff run_execute insert_event_Inr event_row_of_def
      split: sum.splits)

lemma keeps_outbox_ok_enqueue: "keeps (on_current outbox_ok) (enqueue_event e)"
  unfolding keeps_def
proof (intro allI impI)
  fix w :: world
  assume ok: "outbox_ok (current w)"
  obtain r w' where eq: "enqueue_event e w = (r, w')" by fastforce
  show "outbox_ok (current (snd (enqueue_event e w)))"
  proof (cases r)
    case (Inl err)
    then have "current w' = current w"
      using eq by (auto simp: enqueue_event_def bnd_error_iff seq_error_iff run_execute split: sum.splits)
    then show ?thesis using ok eq by simp
  next
    case (Inr x)
    then obtain now where t: "current w' = (current w)\<lparr>event_outbox := event_outbox (current w) @
        [event_row_of e (next_sequence (current w)) now]\<rparr>"
      and fresh: "in_event_id e \<notin> ev_id ` set (event_outbox (current w))"
      using enqueue_event_ok [of e w x w'] eq by auto
    have "redacted (canonical (redact_sensitive_value (in_body e)))"
      by (intro redacted_canonical redacted_redact)
    then show ?thesis
      using outbox_ok_append [OF ok, of "event_row_of e (next_sequence (current w)) now"] fresh t eq
      by (simp add: event_row_of_def)
  qed
qed

lemma keeps_durable_enqueue [keeps_intro]: "keeps (durable_is c) (enqueue_event e)"
  unfolding enqueue_event_def by (intro keeps_intro)

lemma keeps_outbox_event [keeps_intro]:
  "keeps (on_current I) (outbox_event src ty subj bod run wu att asg)"
  "keeps (durable_is c) (outbox_event src ty subj bod run wu att asg)"
  unfolding outbox_event_def by (intro keeps_intro)+

section \<open>A change and its event\<close>

text \<open>
  The repositories of accounts, usage and receipts share one shape: a statement and one event inside
  \<open>with transaction(conn)\<close>.
\<close>

definition change_with_event :: "(tables \<Rightarrow> tables result) \<Rightarrow> outbox_event_input op \<Rightarrow> unit op" where
  "change_with_event statement event =
     transaction (seq (execute statement) (bnd event (\<lambda>e. seq (enqueue_event e) (ret ()))))"

definition event_of :: "string \<Rightarrow> string \<Rightarrow> string \<Rightarrow> json \<Rightarrow> event_row \<Rightarrow> bool" where
  "event_of src ty subj bod r \<longleftrightarrow>
     ev_source r = src \<and> ev_type r = ty \<and> ev_subject r = subj \<and> ev_status r = Ev_pending \<and>
     ev_body r = canonical (redact_sensitive_value bod)"

lemma change_with_event_ok:
  assumes "idle w" and "change_with_event f (outbox_event src ty subj bod run wu att asg) w = (Inr x, w')"
  shows "\<exists>t r. f (committed w) = Inr t \<and> event_of src ty subj bod r \<and> ev_sequence r = next_sequence t \<and>
    committed w' = t\<lparr>event_outbox := event_outbox t @ [r]\<rparr> \<and> idle w' \<and> plat w' = plat w \<and>
    uuid_draws w' = Suc (Suc (uuid_draws w)) \<and> ev_id r = ''evt_'' @ uuid4_hex (plat w) (Suc (uuid_draws w)) \<and>
    ev_id r \<notin> ev_id ` set (event_outbox t)"
proof -
  let ?body = "seq (execute f) (bnd (outbox_event src ty subj bod run wu att asg) (\<lambda>e. seq (enqueue_event e) (ret ())))"
  obtain u where u: "?body (w\<lparr>in_tx := True\<rparr>) = (Inr x, u)" "w' = commit u"
    using assms unfolding change_with_event_def by (auto simp: transaction_ok_iff)
  obtain t where t: "f (committed w) = Inr t"
    using u(1) assms(1) by (auto simp: run_seq run_execute idle_def split: sum.splits)
  define v where "v = w\<lparr>in_tx := True, current := t\<rparr>"
  have "bnd (outbox_event src ty subj bod run wu att asg) (\<lambda>e. seq (enqueue_event e) (ret ())) v = (Inr x, u)"
    using u(1) t assms(1) by (simp add: run_seq run_execute idle_def v_def)
  then obtain e v' where v': "outbox_event src ty subj bod run wu att asg v = (Inr e, v')"
    and e: "enqueue_event e v' = (Inr (in_event_id e), u)"
    by (fastforce simp: bnd_ok_iff seq_ok_iff dest: enqueue_event_ok)
  have inp: "in_source e = src" "in_type e = ty" "in_subject e = subj" "in_body e = bod" "current v' = t"
    "plat v' = plat w" "uuid_draws v' = Suc (Suc (uuid_draws w))"
    "in_event_id e = ''evt_'' @ uuid4_hex (plat w) (Suc (uuid_draws w))"
    using v' by (auto simp: outbox_event_def bnd_ok_iff v_def)
  obtain now where "current u = t\<lparr>event_outbox := event_outbox t @ [event_row_of e (next_sequence t) now]\<rparr>"
    "in_event_id e \<notin> ev_id ` set (event_outbox t)"
    using enqueue_event_ok [OF e] inp(5) by auto
  moreover have "plat u = plat v'" "uuid_draws u = uuid_draws v'"
    using e by (auto simp: enqueue_event_def bnd_ok_iff seq_ok_iff run_execute split: sum.splits)
  ultimately show ?thesis
    using t u(2) inp
    by (intro exI [of _ t] exI [of _ "event_row_of e (next_sequence t) now"])
      (simp add: event_of_def event_row_of_def commit_def idle_def)
qed

lemma change_with_event_error:
  assumes "idle w" and "change_with_event f (outbox_event src ty subj bod run wu att asg) w = (Inl e, w')"
  shows "committed w' = committed w \<and> idle w'"
proof -
  have "keeps (durable_is c) (seq (execute f) (bnd (outbox_event src ty subj bod run wu att asg)
      (\<lambda>e. seq (enqueue_event e) (ret ()))))" for c
    by (intro keeps_intro)
  from conn.tx_error [OF assms(1) this, of e w'] show ?thesis
    using assms(2) unfolding change_with_event_def by auto
qed

lemma change_with_event_outbox_ok:
  assumes "idle w" and "change_with_event f (outbox_event src ty subj bod run wu att asg) w = (Inr x, w')"
    and "\<And>t. f (committed w) = Inr t \<Longrightarrow> outbox_ok t"
  shows "outbox_ok (committed w')"
proof -
  obtain t r where t: "f (committed w) = Inr t" "event_of src ty subj bod r" "ev_sequence r = next_sequence t"
    "committed w' = t\<lparr>event_outbox := event_outbox t @ [r]\<rparr>" "ev_id r \<notin> ev_id ` set (event_outbox t)"
    using change_with_event_ok [OF assms(1,2)] by blast
  have "redacted (ev_body r)" using t(2) by (simp add: event_of_def redacted_canonical redacted_redact)
  then show ?thesis using outbox_ok_append [OF assms(3) [OF t(1)] t(5,3)] t(4) by simp
qed

text \<open>With a fresh event id the change goes through exactly when its statement does.\<close>

definition fresh_event_id :: "world \<Rightarrow> bool" where
  "fresh_event_id w \<longleftrightarrow> ''evt_'' @ uuid4_hex (plat w) (Suc (uuid_draws w)) \<notin> ev_id ` set (event_outbox (current w))"

lemma change_with_event_succeeds:
  assumes "idle w" and "f (committed w) = Inr t" and "outbox_ok t" and "event_outbox t = event_outbox (committed w)"
    and "fresh_event_id w"
  shows "\<exists>w'. change_with_event f (outbox_event src ty subj bod run wu att asg) w = (Inr (), w')"
proof -
  have "next_sequence t \<notin> ev_sequence ` set (event_outbox t)"
  proof -
    have "set (map ev_sequence (event_outbox t)) = {1..int (length (event_outbox t))}"
      using assms(3) by (metis outbox_ok_def set_upto)
    then show ?thesis using next_sequence_ok [OF assms(3)] by auto
  qed
  then show ?thesis
    using assms
    by (simp add: change_with_event_def transaction_ok_iff run_seq run_bnd run_execute idle_def outbox_event_def
        enqueue_event_def insert_event_def insert_row_def event_row_of_def fresh_event_id_def)
qed

end
