(* ===== verification/Lease.thy ===== *)
theory Lease
  imports Outbox
begin

text \<open>
  Lease tokens and the conditional update of an assignment (\<open>src/tokenbank/scheduler/lease.py\<close>),
  ownership of the work unit status (\<open>scheduler/lifecycle.py\<close>), the attempt counter
  (\<open>scheduler/retry_fallback.py\<close>) and the sweeper of expired leases (\<open>scheduler/sweeper.py\<close>).
\<close>

section \<open>Tokens\<close>

definition new_lease_token :: "string op" where
  "new_lease_token = bnd draw_token (\<lambda>t. ret (''tbk_l_'' @ t))"

definition lease_token_hash :: "string \<Rightarrow> string op" where
  "lease_token_hash raw_token =
     gets (\<lambda>w. assignment_lease_token_hash (sha256 (plat w)) raw_token)"

definition lease_token_prefix :: "string \<Rightarrow> string" where
  "lease_token_prefix raw_token = take 16 raw_token"

definition lease_expiry :: "int \<Rightarrow> string op" where
  "lease_expiry milliseconds =
     bnd utc_now (\<lambda>d. bnd (of_result (add_milliseconds d milliseconds)) (\<lambda>e. ret (utc_text e)))"

definition verify_lease_token :: "string option \<Rightarrow> string option \<Rightarrow> unit op" where
  "verify_lease_token stored_hash raw_token =
     (case (stored_hash, raw_token) of
        (Some h, Some r) \<Rightarrow>
          bnd (lease_token_hash r) (\<lambda>x.
          require (h \<noteq> [] \<and> r \<noteq> [] \<and> x = h) (PermissionError ''invalid assignment lease token''))
      | _ \<Rightarrow> raise (PermissionError ''invalid assignment lease token''))"

definition verify_lease_token_hash :: "string option \<Rightarrow> string option \<Rightarrow> unit op" where
  "verify_lease_token_hash stored_hash provided_hash =
     require (stored_hash \<noteq> None \<and> stored_hash \<noteq> Some [] \<and> provided_hash \<noteq> None
        \<and> provided_hash \<noteq> Some [] \<and> provided_hash = stored_hash)
       (PermissionError ''invalid assignment lease token hash'')"

section \<open>The conditional update\<close>

fun coalesce :: "'a option \<Rightarrow> 'a option \<Rightarrow> 'a option" where
  "coalesce None old = old"
| "coalesce (Some x) old = Some x"

definition lease_update ::
  "assignment_status \<Rightarrow> int \<Rightarrow> string option \<Rightarrow> string option \<Rightarrow> string option \<Rightarrow> string option
   \<Rightarrow> string option \<Rightarrow> string \<Rightarrow> assignment_row \<Rightarrow> assignment_row" where
  "lease_update st version expires tok_hash tok_prefix accepted_at completed_at now a =
     a\<lparr>asg_status := st, asg_lease_version := version, asg_lease_expires_at := expires,
       asg_lease_token_hash := coalesce tok_hash (asg_lease_token_hash a),
       asg_lease_token_prefix := coalesce tok_prefix (asg_lease_token_prefix a),
       asg_accepted_at := coalesce accepted_at (asg_accepted_at a),
       asg_completed_at := coalesce completed_at (asg_completed_at a),
       asg_updated_at := Some now\<rparr>"

definition conditional_assignment_update ::
  "string \<Rightarrow> int \<Rightarrow> assignment_status \<Rightarrow> string option \<Rightarrow> string option \<Rightarrow> string option
   \<Rightarrow> string option \<Rightarrow> string option \<Rightarrow> assignment_row op" where
  "conditional_assignment_update assignment_id expected_lease_version st expires tok_hash tok_prefix
     accepted_at completed_at =
     bnd (select (\<lambda>t. find_row asg_id (assignments t) assignment_id)) (\<lambda>cur.
     case cur of
       None \<Rightarrow> raise (KeyError (''assignment not found: '' @ assignment_id))
     | Some r \<Rightarrow>
         bnd utc_text_now (\<lambda>now.
         bnd (select (\<lambda>t. length (filter
               (\<lambda>a. asg_id a = assignment_id \<and> asg_lease_version a = expected_lease_version)
               (assignments t)))) (\<lambda>rowcount.
         seq (execute (\<lambda>t. Inr (t\<lparr>assignments := map
               (\<lambda>a. if asg_id a = assignment_id \<and> asg_lease_version a = expected_lease_version
                    then lease_update st (asg_lease_version r + 1) expires tok_hash tok_prefix
                           accepted_at completed_at now a
                    else a) (assignments t)\<rparr>)))
         (seq (require (rowcount \<noteq> 0) (LeaseConflictError ''assignment lease_version conflict''))
         (bnd (select (\<lambda>t. find_row asg_id (assignments t) assignment_id)) (\<lambda>updated.
          case updated of
            None \<Rightarrow> raise (KeyError (''assignment not found: '' @ assignment_id))
          | Some u \<Rightarrow> ret u))))))"

section \<open>Work unit status\<close>

definition work_unit_status_writers :: "string list" where
  "work_unit_status_writers = [''scheduler'', ''verifier_consumer'']"

definition update_work_unit_status ::
  "string \<Rightarrow> work_unit_status \<Rightarrow> string \<Rightarrow> string option \<Rightarrow> unit op" where
  "update_work_unit_status work_unit_id st actor event_type =
     seq (require (actor \<in> set work_unit_status_writers)
           (PermissionError ''worker/backend/host cannot update WorkUnit directly''))
     (bnd (select (\<lambda>t. find_row wu_id (work_units t) work_unit_id)) (\<lambda>row.
      case row of
        None \<Rightarrow> raise (KeyError (''work_unit not found: '' @ work_unit_id))
      | Some _ \<Rightarrow>
          bnd utc_text_now (\<lambda>now.
          seq (execute (\<lambda>t. Inr (t\<lparr>work_units := update_row wu_id work_unit_id
                (\<lambda>u. u\<lparr>wu_status := st, wu_updated_at := now\<rparr>) (work_units t)\<rparr>)))
          (bnd (outbox_event ''tokenbank.scheduler.lifecycle''
                 (case event_type of None \<Rightarrow> ''work_unit.'' @ work_unit_status_text st
                                   | Some ty \<Rightarrow> if ty = [] then ''work_unit.'' @ work_unit_status_text st else ty)
                 (''work_units/'' @ work_unit_id)
                 (JObj [(''work_unit_id'', JStr work_unit_id),
                        (''status'', JStr (work_unit_status_text st)), (''actor'', JStr actor)])
                 None (Some work_unit_id) None None) (\<lambda>e.
           seq (enqueue_event e) (ret ()))))))"

definition verifier_mutate_assignment_forbidden :: "unit op" where
  "verifier_mutate_assignment_forbidden =
     raise (PermissionError ''VerifierReport writer cannot mutate Assignment'')"

definition scheduler_mutate_verifier_report_forbidden :: "unit op" where
  "scheduler_mutate_verifier_report_forbidden =
     raise (PermissionError ''Scheduler cannot mutate VerifierReport'')"

section \<open>Attempt numbers\<close>

definition next_attempt_number :: "tables \<Rightarrow> string \<Rightarrow> int" where
  "next_attempt_number t work_unit_id =
     coalesce_max (map att_number
       (filter (\<lambda>a. att_work_unit_id a = work_unit_id) (execution_attempts t))) + 1"

section \<open>The sweeper\<close>

definition lease_expired :: "string \<Rightarrow> assignment_row \<Rightarrow> bool" where
  "lease_expired now a \<longleftrightarrow>
     asg_status a \<in> {Asg_accepted, Asg_running} \<and>
     (case asg_lease_expires_at a of None \<Rightarrow> False | Some x \<Rightarrow> x < now)"

definition expire_assignment :: "assignment_row \<Rightarrow> unit op" where
  "expire_assignment row =
     bnd utc_text_now (\<lambda>now.
     seq (execute (\<lambda>t. Inr (t\<lparr>assignments := update_row asg_id (asg_id row)
           (\<lambda>a. a\<lparr>asg_status := Asg_expired, asg_updated_at := Some now\<rparr>) (assignments t)\<rparr>)))
     (bnd (outbox_event ''tokenbank.scheduler.sweeper'' ''assignment.expired''
            (''assignments/'' @ asg_id row)
            (JObj [(''assignment_id'', JStr (asg_id row)), (''status'', JStr ''expired'')])
            None (Some (asg_work_unit_id row)) (Some (asg_attempt_id row)) (Some (asg_id row))) (\<lambda>e.
      seq (enqueue_event e) (ret ()))))"

definition sweep_expired_leases :: "nat op" where
  "sweep_expired_leases =
     bnd utc_text_now (\<lambda>now.
     bnd (select (\<lambda>t. filter (lease_expired now) (assignments t))) (\<lambda>rows.
     seq (for_each expire_assignment rows)
     (seq (modify commit) (ret (length rows)))))"

section \<open>Laws of the building blocks\<close>

lemma run_new_lease_token [run_simps, simp]:
  "new_lease_token w = (Inr (''tbk_l_'' @ token_urlsafe (plat w) (token_draws w)),
     w\<lparr>token_draws := Suc (token_draws w)\<rparr>)"
  by (simp add: new_lease_token_def run_bnd)

lemma run_lease_token_hash [run_simps, simp]:
  "lease_token_hash r w = (Inr (assignment_lease_token_hash (sha256 (plat w)) r), w)"
  by (simp add: lease_token_hash_def)

lemma verify_lease_token_ok_iff:
  "verify_lease_token stored raw w = (Inr (), w') \<longleftrightarrow>
     w' = w \<and> (\<exists>r. raw = Some r \<and> r \<noteq> [] \<and>
       stored = Some (assignment_lease_token_hash (sha256 (plat w)) r) \<and>
       assignment_lease_token_hash (sha256 (plat w)) r \<noteq> [])"
  by (auto simp: verify_lease_token_def bnd_ok_iff split: option.splits if_splits)

lemma verify_lease_token_hash_ok_iff:
  "verify_lease_token_hash stored provided w = (Inr (), w') \<longleftrightarrow>
     w' = w \<and> (\<exists>h. h \<noteq> [] \<and> stored = Some h \<and> provided = Some h)"
  by (auto simp: verify_lease_token_hash_def split: if_splits)

lemma verify_lease_token_state [simp]: "snd (verify_lease_token stored raw w) = w"
  by (auto simp: verify_lease_token_def run_bnd split: option.splits)

lemma verify_lease_token_hash_state [simp]: "snd (verify_lease_token_hash stored provided w) = w"
  by (auto simp: verify_lease_token_hash_def)

lemma keeps_verify [keeps_intro]:
  "keeps I (verify_lease_token stored raw)" "keeps I (verify_lease_token_hash stored provided)"
  by (simp_all add: keeps_def)

lemma keeps_lease_tokens [keeps_intro]:
  "keeps (on_current I) new_lease_token" "keeps (durable_is c) new_lease_token"
  "keeps J (lease_token_hash r)"
  "keeps (on_current I) (lease_expiry ms)" "keeps (durable_is c) (lease_expiry ms)"
  unfolding new_lease_token_def lease_token_hash_def lease_expiry_def by (intro keeps_intro)+

lemma lease_expiry_state:
  "lease_expiry ms w = (r, w') \<Longrightarrow> current w' = current w \<and> committed w' = committed w \<and> in_tx w' = in_tx w
     \<and> plat w' = plat w"
  by (auto simp: lease_expiry_def run_bnd split: sum.splits)

end
