(* ===== verification/Models.thy ===== *)
theory Models
  imports Database
begin

text \<open>
  The data-transfer objects the modelled components exchange
  (\<open>src/tokenbank/models/*.py\<close>): result envelopes with their usage records and errors, backend
  manifests, capacity nodes, route plans, work units, policy decisions and verifier checks, each
  as a record with the fields of its class, and \<open>model_dump(mode="json")\<close> of those the code
  serialises. Field validation by pydantic is outside \<open>src/\<close>: where the code calls
  \<open>model_validate\<close>, the model takes the validator as an argument. Timestamps are kept in their
  text form. Also here: the key guard \<open>_reject_forbidden_keys\<close> of \<open>models/base.py\<close>.
\<close>

section \<open>Forbidden keys\<close>

text \<open>\<open>d.get(k)\<close>\<close>

definition get_null :: "fields \<Rightarrow> string \<Rightarrow> json" where
  "get_null d k = dget_or JNull d k"

definition forbidden_field_key_fragments :: "string list" where
  "forbidden_field_key_fragments =
     [''seller'', ''buyer'', ''marketplace'', ''payment'', ''payout'', ''settlement'', ''yield'',
      ''credit_trading'', ''account_pool'', ''oauth'', ''cookie'', ''api_key'', ''api_key_sharing'']"

definition forbidden_exact_field_keys :: "string list" where
  "forbidden_exact_field_keys = [''apr'']"

definition normalized_key :: "string \<Rightarrow> string" where
  "normalized_key k = replace_char CHR '' '' CHR ''_'' (replace_char CHR ''-'' CHR ''_'' (lower k))"

definition forbidden_key :: "string \<Rightarrow> bool" where
  "forbidden_key k \<longleftrightarrow>
     normalized_key k \<in> set forbidden_exact_field_keys \<or>
     (\<exists>f \<in> set forbidden_field_key_fragments. occurs_in f (normalized_key k))"

fun reject_forbidden_keys :: "json \<Rightarrow> string \<Rightarrow> unit result"
  and reject_fields :: "fields \<Rightarrow> string \<Rightarrow> unit result"
  and reject_items :: "json list \<Rightarrow> nat \<Rightarrow> string \<Rightarrow> unit result" where
  "reject_forbidden_keys (JObj kvs) path = reject_fields kvs path"
| "reject_forbidden_keys (JList xs) path = reject_items xs 0 path"
| "reject_forbidden_keys v path = Inr ()"
| "reject_fields [] path = Inr ()"
| "reject_fields ((k, v) # kvs) path =
     (if forbidden_key k
      then Inl (ValueError (''Forbidden Phase 0 field at '' @ path @ ''.'' @ k))
      else bind_result (reject_forbidden_keys v (path @ ''.'' @ k)) (\<lambda>_. reject_fields kvs path))"
| "reject_items [] i path = Inr ()"
| "reject_items (x # xs) i path =
     bind_result (reject_forbidden_keys x (path @ ''['' @ show_nat i @ '']''))
       (\<lambda>_. reject_items xs (i + 1) path)"

text \<open>A document is accepted exactly when no object in it, at any depth, has a forbidden key.\<close>

fun keys_allowed :: "json \<Rightarrow> bool" where
  "keys_allowed (JObj kvs) \<longleftrightarrow> (\<forall>(k, v) \<in> set kvs. \<not> forbidden_key k \<and> keys_allowed v)"
| "keys_allowed (JList xs) \<longleftrightarrow> (\<forall>x \<in> set xs. keys_allowed x)"
| "keys_allowed v \<longleftrightarrow> True"

lemma reject_forbidden_keys_iff:
  "reject_forbidden_keys v path = Inr () \<longleftrightarrow> keys_allowed v"
  "reject_fields kvs path = Inr () \<longleftrightarrow> (\<forall>(k, v) \<in> set kvs. \<not> forbidden_key k \<and> keys_allowed v)"
  "reject_items xs i path = Inr () \<longleftrightarrow> (\<forall>x \<in> set xs. keys_allowed x)"
  by (induction v path and kvs path and xs i path rule: reject_forbidden_keys_reject_fields_reject_items.induct)
    auto

section \<open>Shared DTOs\<close>

record artifact_ref =
  ar_artifact_id :: string
  ar_uri :: string
  ar_media_type :: string
  ar_artifact_hash :: string
  ar_metadata :: fields

record cost_model =
  cm_unit :: string
  cm_estimated_cost_micros :: int
  cm_cost_source :: string

datatype verifier_status = VS_passed | VS_failed | VS_needs_review | VS_skipped

record verifier_check_result =
  vc_name :: string
  vc_status :: verifier_status
  vc_message :: string
  vc_observed_hash :: "string option"
  vc_metadata :: fields

section \<open>Backends\<close>

record backend_health =
  bh_backend_id :: string
  bh_status :: string
  bh_checked_at :: string
  bh_latency_ms :: "int option"
  bh_message :: "string option"

record backend_manifest =
  bm_backend_id :: string
  bm_backend_class :: string
  bm_capacity_node_id :: string
  bm_display_name :: string
  bm_version :: string
  bm_supported_task_types :: "string list"
  bm_allowed_privacy_levels :: "string list"
  bm_execution_location :: string
  bm_manifest_hash :: string
  bm_health :: "backend_health option"
  bm_cost_model :: cost_model
  bm_policy_constraints :: fields

record usage_record =
  ur_usage_record_id :: string
  ur_work_unit_id :: string
  ur_attempt_id :: string
  ur_backend_id :: string
  ur_input_units :: int
  ur_output_units :: int
  ur_estimated_cost_micros :: int
  ur_actual_cost_micros :: int
  ur_cost_source :: string
  ur_cost_confidence :: string
  ur_recorded_at :: string

record backend_error =
  be_error_code :: string
  be_error_message :: string
  be_retryable :: bool
  be_fallbackable :: bool
  be_redacted_details :: fields
  be_occurred_at :: string

section \<open>Result envelopes\<close>

record result_envelope =
  env_result_envelope_id :: string
  env_work_unit_id :: string
  env_run_id :: string
  env_attempt_id :: string
  env_assignment_id :: string
  env_status :: result_status
  env_backend_id :: "string option"
  env_backend_class :: "string option"
  env_provider_id :: "string option"
  env_model_id :: "string option"
  env_worker_id :: "string option"
  env_capacity_node_id :: "string option"
  env_output :: fields
  env_output_hash :: string
  env_result_hash :: string
  env_artifact_refs :: "artifact_ref list"
  env_usage_records :: "usage_record list"
  env_cost_estimate_micros :: int
  env_actual_cost_micros :: int
  env_cost_source :: string
  env_cost_confidence :: string
  env_redacted_logs :: "string list"
  env_errors :: "backend_error list"
  env_backend_error :: "backend_error option"
  env_started_at :: "string option"
  env_completed_at :: string
  env_duration_ms :: "int option"

abbreviation str_opt :: "string option \<Rightarrow> json" where
  "str_opt x \<equiv> json_of_option JStr x"

abbreviation int_opt :: "int option \<Rightarrow> json" where
  "int_opt x \<equiv> json_of_option JInt x"

abbreviation schema_version :: "string \<times> json" where
  "schema_version \<equiv> (''schema_version'', JStr ''p0.v1'')"

definition dump_artifact_ref :: "artifact_ref \<Rightarrow> json" where
  "dump_artifact_ref a = JObj
     [schema_version, (''artifact_id'', JStr (ar_artifact_id a)), (''uri'', JStr (ar_uri a)),
      (''media_type'', JStr (ar_media_type a)), (''artifact_hash'', JStr (ar_artifact_hash a)),
      (''metadata'', JObj (ar_metadata a))]"

definition dump_usage_record :: "usage_record \<Rightarrow> json" where
  "dump_usage_record u = JObj
     [schema_version, (''usage_record_id'', JStr (ur_usage_record_id u)),
      (''work_unit_id'', JStr (ur_work_unit_id u)), (''attempt_id'', JStr (ur_attempt_id u)),
      (''backend_id'', JStr (ur_backend_id u)), (''input_units'', JInt (ur_input_units u)),
      (''output_units'', JInt (ur_output_units u)),
      (''estimated_cost_micros'', JInt (ur_estimated_cost_micros u)),
      (''actual_cost_micros'', JInt (ur_actual_cost_micros u)),
      (''cost_source'', JStr (ur_cost_source u)),
      (''cost_confidence'', JStr (ur_cost_confidence u)),
      (''recorded_at'', JStr (ur_recorded_at u))]"

definition dump_backend_error :: "backend_error \<Rightarrow> json" where
  "dump_backend_error e = JObj
     [schema_version, (''error_code'', JStr (be_error_code e)),
      (''error_message'', JStr (be_error_message e)), (''retryable'', JBool (be_retryable e)),
      (''fallbackable'', JBool (be_fallbackable e)),
      (''redacted_details'', JObj (be_redacted_details e)),
      (''occurred_at'', JStr (be_occurred_at e))]"

definition dump_envelope :: "result_envelope \<Rightarrow> fields" where
  "dump_envelope e =
     [schema_version, (''result_envelope_id'', JStr (env_result_envelope_id e)),
      (''work_unit_id'', JStr (env_work_unit_id e)), (''run_id'', JStr (env_run_id e)),
      (''attempt_id'', JStr (env_attempt_id e)), (''assignment_id'', JStr (env_assignment_id e)),
      (''status'', JStr (result_status_text (env_status e))),
      (''backend_id'', str_opt (env_backend_id e)),
      (''backend_class'', str_opt (env_backend_class e)),
      (''provider_id'', str_opt (env_provider_id e)), (''model_id'', str_opt (env_model_id e)),
      (''worker_id'', str_opt (env_worker_id e)),
      (''capacity_node_id'', str_opt (env_capacity_node_id e)),
      (''output'', JObj (env_output e)), (''output_hash'', JStr (env_output_hash e)),
      (''result_hash'', JStr (env_result_hash e)),
      (''artifact_refs'', JList (map dump_artifact_ref (env_artifact_refs e))),
      (''usage_records'', JList (map dump_usage_record (env_usage_records e))),
      (''cost_estimate_micros'', JInt (env_cost_estimate_micros e)),
      (''actual_cost_micros'', JInt (env_actual_cost_micros e)),
      (''cost_source'', JStr (env_cost_source e)),
      (''cost_confidence'', JStr (env_cost_confidence e)),
      (''redacted_logs'', JList (map JStr (env_redacted_logs e))),
      (''errors'', JList (map dump_backend_error (env_errors e))),
      (''backend_error'', json_of_option dump_backend_error (env_backend_error e)),
      (''started_at'', str_opt (env_started_at e)),
      (''completed_at'', JStr (env_completed_at e)),
      (''duration_ms'', int_opt (env_duration_ms e))]"

end
