(* ===== verification/Scheduler.thy ===== *)
theory Scheduler
  imports Lease Models "HOL-Library.Option_ord"
begin

text \<open>
  The scheduler (\<open>src/tokenbank/scheduler/scheduler.py\<close>): the state machine of attempts,
  assignments and work units over the database, one definition per method of \<open>class Scheduler\<close>.
  This theory holds the operations; \<open>Scheduler_Proofs\<close> holds what they keep and do.
\<close>

abbreviation default_lease_duration_ms :: int where
  "default_lease_duration_ms \<equiv> 30000"

section \<open>Reading rows\<close>

definition assignment_for_worker :: "string \<Rightarrow> string \<Rightarrow> assignment_row op" where
  "assignment_for_worker assignment_id worker_id =
     bnd (select (\<lambda>t. find_row asg_id (assignments t) assignment_id)) (\<lambda>row.
     case row of
       None \<Rightarrow> raise (KeyError (''assignment not found: '' @ assignment_id))
     | Some a \<Rightarrow>
         if asg_worker_id a \<noteq> worker_id
         then raise (PermissionError ''worker can only access own assignment'')
         else ret a)"

definition attempt_by_id :: "string \<Rightarrow> attempt_row op" where
  "attempt_by_id attempt_id =
     bnd (select (\<lambda>t. find_row att_id (execution_attempts t) attempt_id)) (\<lambda>row.
     case row of
       None \<Rightarrow> raise (KeyError (''attempt not found: '' @ attempt_id))
     | Some a \<Rightarrow> ret a)"

definition newer_attempt_exists :: "tables \<Rightarrow> string \<Rightarrow> int \<Rightarrow> bool" where
  "newer_attempt_exists t work_unit_id attempt_number \<longleftrightarrow>
     (\<exists>a \<in> set (execution_attempts t).
        att_work_unit_id a = work_unit_id \<and> attempt_number < att_number a)"

fun decode_json_object :: "json \<Rightarrow> fields" where
  "decode_json_object (JObj kvs) = kvs"
| "decode_json_object v = []"

section \<open>Statements\<close>

definition insert_attempt :: "attempt_row \<Rightarrow> tables \<Rightarrow> tables result" where
  "insert_attempt r t =
     bind_result (insert_row att_id r (execution_attempts t)) (\<lambda>rows.
     fk_check (has_row wu_id (work_units t) (att_work_unit_id r)
        \<and> has_row rp_id (route_plans t) (att_route_plan_id r)
        \<and> has_row pd_id (policy_decisions t) (att_policy_decision_id r))
       (t\<lparr>execution_attempts := rows\<rparr>))"

definition insert_assignment :: "assignment_row \<Rightarrow> tables \<Rightarrow> tables result" where
  "insert_assignment r t =
     bind_result (insert_row asg_id r (assignments t)) (\<lambda>rows.
     fk_check (has_row att_id (execution_attempts t) (asg_attempt_id r)
        \<and> has_row wu_id (work_units t) (asg_work_unit_id r))
       (t\<lparr>assignments := rows\<rparr>))"

definition insert_result :: "result_row \<Rightarrow> tables \<Rightarrow> tables result" where
  "insert_result r t =
     bind_result (insert_row res_id r (result_envelopes t)) (\<lambda>rows.
     fk_check (has_row wu_id (work_units t) (res_work_unit_id r)
        \<and> has_row asg_id (assignments t) (res_assignment_id r))
       (t\<lparr>result_envelopes := rows\<rparr>))"

definition insert_quarantine :: "quarantine_row \<Rightarrow> tables \<Rightarrow> tables result" where
  "insert_quarantine r t =
     bind_result (insert_row quar_id r (result_quarantine t)) (\<lambda>rows.
     fk_check (has_row wu_id (work_units t) (quar_work_unit_id r)
        \<and> has_row att_id (execution_attempts t) (quar_attempt_id r)
        \<and> has_row asg_id (assignments t) (quar_assignment_id r))
       (t\<lparr>result_quarantine := rows\<rparr>))"

definition insert_worker_health :: "worker_health_row \<Rightarrow> tables \<Rightarrow> tables result" where
  "insert_worker_health r t =
     bind_result (insert_row whs_id r (worker_health_snapshots t)) (\<lambda>rows.
     fk_check (has_row wm_worker_id (worker_manifests t) (whs_worker_id r))
       (t\<lparr>worker_health_snapshots := rows\<rparr>))"

definition update_attempt :: "string \<Rightarrow> (attempt_row \<Rightarrow> attempt_row) \<Rightarrow> unit op" where
  "update_attempt attempt_id f =
     execute (\<lambda>t. Inr (t\<lparr>execution_attempts := update_row att_id attempt_id f (execution_attempts t)\<rparr>))"

definition update_assignment :: "string \<Rightarrow> (assignment_row \<Rightarrow> assignment_row) \<Rightarrow> unit op" where
  "update_assignment assignment_id f =
     execute (\<lambda>t. Inr (t\<lparr>assignments := update_row asg_id assignment_id f (assignments t)\<rparr>))"

definition emit ::
  "string \<Rightarrow> string \<Rightarrow> json \<Rightarrow> string option \<Rightarrow> string option \<Rightarrow> string option \<Rightarrow> unit op" where
  "emit ty subj bod wu att asg =
     bnd (outbox_event ''tokenbank.scheduler'' ty subj bod None wu att asg) (\<lambda>e.
     seq (enqueue_event e) (ret ()))"

section \<open>Attempts\<close>

definition create_attempt ::
  "string \<Rightarrow> string \<Rightarrow> string \<Rightarrow> attempt_status \<Rightarrow> string \<Rightarrow> string op" where
  "create_attempt work_unit_id route_plan_id policy_decision_id st event_type =
     bnd draw_uuid (\<lambda>u. let attempt_id = ''att_'' @ u in
     bnd (select (\<lambda>t. next_attempt_number t work_unit_id)) (\<lambda>attempt_number.
     bnd utc_text_now (\<lambda>now.
     let bod = JObj [(''attempt_id'', JStr attempt_id), (''work_unit_id'', JStr work_unit_id),
                      (''route_plan_id'', JStr route_plan_id),
                      (''policy_decision_id'', JStr policy_decision_id),
                      (''attempt_number'', JInt attempt_number),
                      (''status'', JStr (attempt_status_text st)), (''created_at'', JStr now)] in
     seq (transaction
       (seq (execute (insert_attempt
              \<lparr>att_id = attempt_id, att_work_unit_id = work_unit_id,
               att_route_plan_id = route_plan_id, att_policy_decision_id = policy_decision_id,
               att_status = st, att_body = canonical bod, att_created_at = now,
               att_number = attempt_number, att_started_at = None, att_completed_at = None\<rparr>))
       (emit event_type (''attempts/'' @ attempt_id) bod (Some work_unit_id) (Some attempt_id) None)))
     (ret attempt_id))))"

definition schedule_retry :: "string \<Rightarrow> string op" where
  "schedule_retry attempt_id =
     bnd (attempt_by_id attempt_id) (\<lambda>a.
     create_attempt (att_work_unit_id a) (att_route_plan_id a) (att_policy_decision_id a)
       Att_scheduled ''scheduler.retry_scheduled'')"

definition schedule_fallback :: "string \<Rightarrow> string op" where
  "schedule_fallback attempt_id =
     bnd (attempt_by_id attempt_id) (\<lambda>a.
     create_attempt (att_work_unit_id a) (att_route_plan_id a) (att_policy_decision_id a)
       Att_scheduled ''scheduler.fallback_scheduled'')"

section \<open>Assignments\<close>

definition create_assignment ::
  "string \<Rightarrow> string \<Rightarrow> string \<Rightarrow> string \<Rightarrow> string option \<Rightarrow> fields option \<Rightarrow> string op" where
  "create_assignment attempt_id worker_id capacity_node_id backend_id backend_class effective_constraints =
     bnd (attempt_by_id attempt_id) (\<lambda>a.
     bnd draw_uuid (\<lambda>u. let assignment_id = ''asg_'' @ u in
     bnd utc_text_now (\<lambda>now.
     let constraints = JObj (case effective_constraints of None \<Rightarrow> [] | Some c \<Rightarrow> c);
         bod = JObj [(''assignment_id'', JStr assignment_id), (''attempt_id'', JStr attempt_id),
                      (''work_unit_id'', JStr (att_work_unit_id a)), (''worker_id'', JStr worker_id),
                      (''capacity_node_id'', JStr capacity_node_id), (''backend_id'', JStr backend_id),
                      (''backend_class'', str_opt backend_class), (''status'', JStr ''created''),
                      (''lease_version'', JInt 0), (''effective_constraints'', constraints),
                      (''assigned_at'', JStr now)] in
     seq (transaction
       (seq (execute (insert_assignment
              \<lparr>asg_id = assignment_id, asg_attempt_id = attempt_id,
               asg_work_unit_id = att_work_unit_id a, asg_worker_id = worker_id,
               asg_status = Asg_created, asg_body = canonical bod, asg_created_at = now,
               asg_capacity_node_id = Some capacity_node_id, asg_backend_id = Some backend_id,
               asg_lease_token_hash = None, asg_lease_token_prefix = None, asg_lease_version = 0,
               asg_effective_constraints = canonical constraints, asg_assigned_at = Some now,
               asg_lease_expires_at = None, asg_accepted_at = None, asg_completed_at = None,
               asg_updated_at = Some now\<rparr>))
       (seq (update_attempt attempt_id (\<lambda>r. r\<lparr>att_status := Att_assigned\<rparr>))
       (seq (update_work_unit_status (att_work_unit_id a) WU_assigned ''scheduler''
               (Some ''work_unit.assigned''))
       (emit ''assignment.created'' (''assignments/'' @ assignment_id) bod
          (Some (att_work_unit_id a)) (Some attempt_id) (Some assignment_id))))))
     (ret assignment_id))))"

definition first_by :: "('a \<Rightarrow> 'k::linorder) \<Rightarrow> 'a list \<Rightarrow> 'a option" where
  "first_by k xs = (case sort_key k xs of [] \<Rightarrow> None | x # _ \<Rightarrow> Some x)"

definition assign_next_work :: "string \<Rightarrow> string option op" where
  "assign_next_work worker_id =
     bnd (select (\<lambda>t. first_by cn_id
           (filter (\<lambda>n. cn_worker_id n = Some worker_id) (capacity_nodes t)))) (\<lambda>node.
     case node of
       None \<Rightarrow> ret None
     | Some n \<Rightarrow>
         bnd (select (\<lambda>t. first_by (\<lambda>a. (att_created_at a, att_number a))
               (filter (\<lambda>a. att_status a \<in> {Att_created, Att_scheduled}) (execution_attempts t)))) (\<lambda>att.
         case att of
           None \<Rightarrow> ret None
         | Some a \<Rightarrow>
             (case cn_backend_ids n of
                [] \<Rightarrow> ret None
              | b # _ \<Rightarrow>
                  bnd (create_assignment (att_id a) worker_id (cn_id n) b None None)
                    (\<lambda>x. ret (Some x)))))"

record polled_assignment =
  po_row :: assignment_row
  po_body :: fields
  po_effective_constraints :: fields
  po_backend_class :: "json option"

definition poll_next_assignment :: "string \<Rightarrow> polled_assignment option op" where
  "poll_next_assignment worker_id =
     bnd (select (\<lambda>t. first_by (\<lambda>a. (asg_assigned_at a, asg_created_at a))
           (filter (\<lambda>a. asg_worker_id a = worker_id \<and> asg_status a = Asg_created) (assignments t)))) (\<lambda>row.
     ret (map_option (\<lambda>a.
       \<lparr>po_row = a, po_body = decode_json_object (asg_body a),
        po_effective_constraints = decode_json_object (asg_effective_constraints a),
        po_backend_class = dget (decode_json_object (asg_body a)) ''backend_class''\<rparr>) row))"

record accepted_lease =
  al_assignment_id :: string
  al_lease_token :: string
  al_lease_version :: int
  al_lease_expires_at :: string

definition accept_assignment :: "string \<Rightarrow> string \<Rightarrow> int \<Rightarrow> int \<Rightarrow> accepted_lease op" where
  "accept_assignment assignment_id worker_id expected_lease_version lease_duration_ms =
     bnd (assignment_for_worker assignment_id worker_id) (\<lambda>a.
     seq (require (asg_status a = Asg_created)
            (LeaseConflictError ''assignment is not in created status''))
     (bnd new_lease_token (\<lambda>raw_token.
     bnd (lease_token_hash raw_token) (\<lambda>token_hash.
     bnd (lease_expiry lease_duration_ms) (\<lambda>expires_at.
     bnd utc_text_now (\<lambda>now.
     bnd (transaction
       (bnd (conditional_assignment_update assignment_id expected_lease_version Asg_accepted
               (Some expires_at) (Some token_hash) (Some (lease_token_prefix raw_token)) (Some now) None)
         (\<lambda>updated.
       seq (update_attempt (asg_attempt_id a)
              (\<lambda>r. r\<lparr>att_status := Att_running,
                    att_started_at := coalesce (att_started_at r) (Some now)\<rparr>))
       (seq (update_work_unit_status (asg_work_unit_id a) WU_running ''scheduler''
               (Some ''work_unit.running''))
       (seq (emit ''assignment.accepted'' (''assignments/'' @ assignment_id)
              (JObj [(''assignment_id'', JStr assignment_id), (''worker_id'', JStr worker_id),
                     (''lease_version'', JInt (asg_lease_version updated)),
                     (''lease_token_prefix'', JStr (lease_token_prefix raw_token))])
              (Some (asg_work_unit_id a)) (Some (asg_attempt_id a)) (Some assignment_id))
       (ret updated)))))) (\<lambda>updated.
     ret \<lparr>al_assignment_id = assignment_id, al_lease_token = raw_token,
          al_lease_version = asg_lease_version updated, al_lease_expires_at = expires_at\<rparr>)))))))"

definition reject_assignment :: "string \<Rightarrow> string \<Rightarrow> unit op" where
  "reject_assignment assignment_id worker_id =
     bnd (assignment_for_worker assignment_id worker_id) (\<lambda>a.
     bnd utc_text_now (\<lambda>now.
     transaction
       (seq (update_assignment assignment_id
              (\<lambda>r. r\<lparr>asg_status := Asg_rejected, asg_updated_at := Some now\<rparr>))
       (seq (update_attempt (asg_attempt_id a)
              (\<lambda>r. r\<lparr>att_status := Att_failed, att_completed_at := Some now\<rparr>))
       (emit ''assignment.rejected'' (''assignments/'' @ assignment_id)
          (JObj [(''assignment_id'', JStr assignment_id), (''worker_id'', JStr worker_id)])
          (Some (asg_work_unit_id a)) (Some (asg_attempt_id a)) (Some assignment_id))))))"

record progressed_lease =
  pl_assignment_id :: string
  pl_lease_version :: int
  pl_lease_expires_at :: string

definition progress_assignment ::
  "string \<Rightarrow> string \<Rightarrow> string option \<Rightarrow> int \<Rightarrow> int \<Rightarrow> progressed_lease op" where
  "progress_assignment assignment_id worker_id lease_token expected_lease_version lease_duration_ms =
     bnd (assignment_for_worker assignment_id worker_id) (\<lambda>a.
     seq (verify_lease_token (asg_lease_token_hash a) lease_token)
     (bnd (lease_expiry lease_duration_ms) (\<lambda>expires_at.
     bnd (transaction
       (bnd (conditional_assignment_update assignment_id expected_lease_version Asg_running
               (Some expires_at) None None None None) (\<lambda>updated.
       seq (emit ''assignment.progress'' (''assignments/'' @ assignment_id)
              (JObj [(''assignment_id'', JStr assignment_id), (''worker_id'', JStr worker_id),
                     (''lease_version'', JInt (asg_lease_version updated))])
              (Some (asg_work_unit_id a)) (Some (asg_attempt_id a)) (Some assignment_id))
       (ret updated)))) (\<lambda>updated.
     ret \<lparr>pl_assignment_id = assignment_id, pl_lease_version = asg_lease_version updated,
          pl_lease_expires_at = expires_at\<rparr>))))"

definition record_worker_heartbeat :: "string \<Rightarrow> string \<Rightarrow> unit op" where
  "record_worker_heartbeat worker_id st =
     bnd utc_text_now (\<lambda>now.
     transaction
       (bnd draw_uuid (\<lambda>u.
       let bod = JObj [(''worker_id'', JStr worker_id), (''status'', JStr st)] in
       seq (execute (insert_worker_health
              \<lparr>whs_id = ''whs_'' @ u, whs_worker_id = worker_id, whs_status = st,
               whs_body = canonical bod, whs_captured_at = now\<rparr>))
       (emit ''worker.heartbeat'' (''workers/'' @ worker_id) bod None None None))))"

section \<open>Results\<close>

datatype envelope_arg = No_envelope | Raw_envelope json | Dto_envelope result_envelope

type_synonym validator = "json \<Rightarrow> result_envelope result"

fun coerce_result_envelope :: "validator \<Rightarrow> envelope_arg \<Rightarrow> result_envelope option result" where
  "coerce_result_envelope validate No_envelope = Inr None"
| "coerce_result_envelope validate (Dto_envelope e) = Inr (Some e)"
| "coerce_result_envelope validate (Raw_envelope v) = bind_result (validate v) (\<lambda>e. Inr (Some e))"

definition validate_result_envelope_for_assignment ::
  "result_envelope \<Rightarrow> assignment_row \<Rightarrow> unit result" where
  "validate_result_envelope_for_assignment e a =
     (if (env_work_unit_id e, env_attempt_id e, env_assignment_id e)
         \<noteq> (asg_work_unit_id a, asg_attempt_id a, asg_id a)
      then Inl (PermissionError ''result envelope does not match assignment lease'')
      else if env_worker_id e \<noteq> None \<and> env_worker_id e \<noteq> Some (asg_worker_id a)
      then Inl (PermissionError ''result envelope worker_id does not match assignment'')
      else Inr ())"

record result_parts =
  rpt_id :: string
  rpt_status :: result_status
  rpt_output_hash :: string
  rpt_result_hash :: string
  rpt_body :: fields

definition result_from_envelope :: "bool \<Rightarrow> result_envelope \<Rightarrow> result_parts" where
  "result_from_envelope late e =
     \<lparr>rpt_id = env_result_envelope_id e,
      rpt_status = (if late then Res_quarantined else env_status e),
      rpt_output_hash = env_output_hash e, rpt_result_hash = env_result_hash e,
      rpt_body = (if late then dput ''status'' (JStr ''quarantined'') (dump_envelope e)
                  else dump_envelope e)\<rparr>"

definition result_from_output :: "bool \<Rightarrow> assignment_row \<Rightarrow> json \<Rightarrow> result_parts op" where
  "result_from_output late a out =
     bnd (gets (\<lambda>w. output_hash (sha256 (plat w)) (float_repr (plat w)) out)) (\<lambda>out_hash.
     let st = (if late then Res_quarantined else Res_succeeded) in
     bnd (gets (\<lambda>w. result_hash (sha256 (plat w)) (float_repr (plat w))
           (JObj [(''attempt_id'', JStr (asg_attempt_id a)), (''assignment_id'', JStr (asg_id a)),
                  (''backend_id'', str_opt (asg_backend_id a)), (''output_hash'', JStr out_hash),
                  (''status'', JStr (result_status_text st)), (''usage_summary'', JObj [])]))) (\<lambda>res_hash.
     bnd draw_uuid (\<lambda>u.
     ret \<lparr>rpt_id = ''res_'' @ u, rpt_status = st, rpt_output_hash = out_hash,
          rpt_result_hash = res_hash,
          rpt_body = [(''result_envelope_id'', JStr (''res_'' @ u)),
                      (''work_unit_id'', JStr (asg_work_unit_id a)),
                      (''attempt_id'', JStr (asg_attempt_id a)), (''assignment_id'', JStr (asg_id a)),
                      (''status'', JStr (result_status_text st)), (''output'', out),
                      (''output_hash'', JStr out_hash), (''result_hash'', JStr res_hash)]\<rparr>)))"

definition quarantine_late_result :: "assignment_row \<Rightarrow> string \<Rightarrow> json \<Rightarrow> unit op" where
  "quarantine_late_result a result_envelope_id bod =
     bnd utc_text_now (\<lambda>now.
     seq (update_assignment (asg_id a)
            (\<lambda>r. r\<lparr>asg_status := Asg_quarantined, asg_completed_at := Some now, asg_updated_at := Some now\<rparr>))
     (seq (update_attempt (asg_attempt_id a)
            (\<lambda>r. r\<lparr>att_status := Att_quarantined, att_completed_at := Some now\<rparr>))
     (bnd draw_uuid (\<lambda>u.
      execute (insert_quarantine
        \<lparr>quar_id = ''quar_'' @ u, quar_result_envelope_id = Some result_envelope_id,
         quar_work_unit_id = asg_work_unit_id a, quar_attempt_id = asg_attempt_id a,
         quar_assignment_id = asg_id a, quar_reason = ''newer_attempt_exists'',
         quar_body = canonical bod, quar_created_at = now\<rparr>)))))"

definition complete_assignment :: "assignment_row \<Rightarrow> string \<Rightarrow> unit op" where
  "complete_assignment a now =
     seq (update_assignment (asg_id a)
            (\<lambda>r. r\<lparr>asg_status := Asg_completed, asg_completed_at := Some now, asg_updated_at := Some now\<rparr>))
     (seq (update_attempt (asg_attempt_id a)
            (\<lambda>r. r\<lparr>att_status := Att_succeeded, att_completed_at := Some now\<rparr>))
     (seq (update_work_unit_status (asg_work_unit_id a) WU_succeeded ''scheduler''
             (Some ''work_unit.succeeded''))
     (emit ''assignment.completed'' (''assignments/'' @ asg_id a)
        (JObj [(''assignment_id'', JStr (asg_id a)), (''status'', JStr ''completed'')])
        (Some (asg_work_unit_id a)) (Some (asg_attempt_id a)) (Some (asg_id a)))))"

record submitted_result =
  sr_status :: result_status
  sr_result_envelope_id :: string
  sr_output_hash :: string
  sr_result_hash :: string

definition submit_result ::
  "validator \<Rightarrow> string \<Rightarrow> string \<Rightarrow> string option \<Rightarrow> string option \<Rightarrow> json \<Rightarrow> envelope_arg
   \<Rightarrow> submitted_result op" where
  "submit_result validate assignment_id worker_id lease_token lease_token_hash_value out envelope_value =
     bnd (assignment_for_worker assignment_id worker_id) (\<lambda>a.
     seq (case lease_token_hash_value of
            Some h \<Rightarrow> verify_lease_token_hash (asg_lease_token_hash a) (Some h)
          | None \<Rightarrow> verify_lease_token (asg_lease_token_hash a) lease_token)
     (bnd (attempt_by_id (asg_attempt_id a)) (\<lambda>att.
     bnd (select (\<lambda>t. newer_attempt_exists t (att_work_unit_id att) (att_number att))) (\<lambda>late.
     bnd (of_result (coerce_result_envelope validate envelope_value)) (\<lambda>envelope.
     bnd (case envelope of
            Some e \<Rightarrow> seq (of_result (validate_result_envelope_for_assignment e a))
                        (ret (result_from_envelope late e))
          | None \<Rightarrow> result_from_output late a out) (\<lambda>parts.
     bnd utc_text_now (\<lambda>now.
     seq (transaction
       (seq (execute (insert_result
              \<lparr>res_id = rpt_id parts, res_work_unit_id = asg_work_unit_id a,
               res_attempt_id = asg_attempt_id a, res_assignment_id = asg_id a,
               res_status = rpt_status parts, res_output_hash = rpt_output_hash parts,
               res_result_hash = rpt_result_hash parts,
               res_body = canonical (JObj (rpt_body parts)), res_created_at = now\<rparr>))
       (seq (if late then quarantine_late_result a (rpt_id parts) (JObj (rpt_body parts))
             else complete_assignment a now)
       (emit (if late then ''result.quarantined'' else ''result.submitted'')
          (''results/'' @ rpt_id parts) (JObj (rpt_body parts))
          (Some (asg_work_unit_id a)) (Some (asg_attempt_id a)) (Some (asg_id a))))))
     (ret \<lparr>sr_status = rpt_status parts, sr_result_envelope_id = rpt_id parts,
           sr_output_hash = rpt_output_hash parts, sr_result_hash = rpt_result_hash parts\<rparr>))))))))"

end
