(* ===== verification/Scheduler_Proofs.thy ===== *)
theory Scheduler_Proofs
  imports Scheduler
begin

text \<open>
  What the scheduler's operations keep and do. First the invariant of the tables: primary keys and
  foreign keys hold, attempts of a work unit carry distinct numbers, events are gapless and
  redacted, and the lease columns of an assignment agree with its status. Then the behaviour of
  each operation, and the state machine whose steps are the operations.
\<close>

section \<open>Links between tables\<close>

text \<open>The key columns of a row, which no update statement of the scheduler changes.\<close>

definition att_links :: "attempt_row \<Rightarrow> string \<times> string \<times> string \<times> string \<times> int" where
  "att_links a =
     (att_id a, att_work_unit_id a, att_route_plan_id a, att_policy_decision_id a, att_number a)"

definition asg_links :: "assignment_row \<Rightarrow> string \<times> string \<times> string \<times> string" where
  "asg_links a = (asg_id a, asg_attempt_id a, asg_work_unit_id a, asg_worker_id a)"

definition refs_ok :: "tables \<Rightarrow> bool" where
  "refs_ok t \<longleftrightarrow>
     pk_unique wu_id (work_units t) \<and> pk_unique att_id (execution_attempts t) \<and>
     pk_unique asg_id (assignments t) \<and> pk_unique res_id (result_envelopes t) \<and>
     pk_unique quar_id (result_quarantine t) \<and>
     (\<forall>a \<in> set (execution_attempts t). has_row wu_id (work_units t) (att_work_unit_id a)
        \<and> has_row rp_id (route_plans t) (att_route_plan_id a)
        \<and> has_row pd_id (policy_decisions t) (att_policy_decision_id a)) \<and>
     (\<forall>a \<in> set (assignments t). has_row att_id (execution_attempts t) (asg_attempt_id a)
        \<and> has_row wu_id (work_units t) (asg_work_unit_id a)) \<and>
     (\<forall>r \<in> set (result_envelopes t). has_row wu_id (work_units t) (res_work_unit_id r)
        \<and> has_row asg_id (assignments t) (res_assignment_id r)) \<and>
     (\<forall>q \<in> set (result_quarantine t). has_row wu_id (work_units t) (quar_work_unit_id q)
        \<and> has_row att_id (execution_attempts t) (quar_attempt_id q)
        \<and> has_row asg_id (assignments t) (quar_assignment_id q))"

lemma links_transfer:
  assumes "map f xs' = map f xs" and "x \<in> set xs'"
  shows "\<exists>y \<in> set xs. f y = f x"
  using assms by (metis image_eqI image_iff set_map)

lemma keys_of_links:
  assumes "map att_links xs' = map att_links xs"
  shows "map att_id xs' = map att_id xs"
    and "has_row att_id xs' k = has_row att_id xs k"
proof -
  have "map (fst \<circ> att_links) xs' = map (fst \<circ> att_links) xs"
    using assms by (metis map_map)
  then show *: "map att_id xs' = map att_id xs" by (simp add: comp_def att_links_def)
  show "has_row att_id xs' k = has_row att_id xs k"
    using * by (metis has_row_def set_map)
qed

lemma keys_of_asg_links:
  assumes "map asg_links xs' = map asg_links xs"
  shows "map asg_id xs' = map asg_id xs"
    and "has_row asg_id xs' k = has_row asg_id xs k"
proof -
  have "map (fst \<circ> asg_links) xs' = map (fst \<circ> asg_links) xs"
    using assms by (metis map_map)
  then show *: "map asg_id xs' = map asg_id xs" by (simp add: comp_def asg_links_def)
  show "has_row asg_id xs' k = has_row asg_id xs k"
    using * by (metis has_row_def set_map)
qed

lemma has_row_keys: "map key xs' = map key xs \<Longrightarrow> has_row key xs' k = has_row key xs k"
  by (metis has_row_def set_map)

lemma refs_ok_events [simp]: "refs_ok (t\<lparr>event_outbox := es\<rparr>) = refs_ok t"
  by (simp add: refs_ok_def)

lemma refs_ok_health [simp]: "refs_ok (t\<lparr>worker_health_snapshots := hs\<rparr>) = refs_ok t"
  by (simp add: refs_ok_def)

lemma refs_ok_work_units:
  assumes "refs_ok t" and "map wu_id us = map wu_id (work_units t)"
  shows "refs_ok (t\<lparr>work_units := us\<rparr>)"
  using assms by (simp add: refs_ok_def pk_unique_def has_row_keys [OF assms(2)])

lemma refs_ok_attempts:
  assumes ok: "refs_ok t" and links: "map att_links as = map att_links (execution_attempts t)"
  shows "refs_ok (t\<lparr>execution_attempts := as\<rparr>)"
proof -
  have "has_row wu_id (work_units t) (att_work_unit_id a)
      \<and> has_row rp_id (route_plans t) (att_route_plan_id a)
      \<and> has_row pd_id (policy_decisions t) (att_policy_decision_id a)" if a: "a \<in> set as" for a
  proof -
    obtain b where "b \<in> set (execution_attempts t)" "att_links b = att_links a"
      using links_transfer [OF links a] by blast
    then show ?thesis using ok by (auto simp: refs_ok_def att_links_def)
  qed
  then show ?thesis
    using ok keys_of_links [OF links] by (simp add: refs_ok_def pk_unique_def)
qed

lemma refs_ok_assignments:
  assumes ok: "refs_ok t" and links: "map asg_links as = map asg_links (assignments t)"
  shows "refs_ok (t\<lparr>assignments := as\<rparr>)"
proof -
  have "has_row att_id (execution_attempts t) (asg_attempt_id a)
      \<and> has_row wu_id (work_units t) (asg_work_unit_id a)" if a: "a \<in> set as" for a
  proof -
    obtain b where "b \<in> set (assignments t)" "asg_links b = asg_links a"
      using links_transfer [OF links a] by blast
    then show ?thesis using ok by (auto simp: refs_ok_def asg_links_def)
  qed
  then show ?thesis
    using ok keys_of_asg_links [OF links] by (simp add: refs_ok_def pk_unique_def)
qed

lemma links_update_row:
  "(\<And>x. g (f x) = g x) \<Longrightarrow> map g (update_row key k f xs) = map g xs"
  by (simp add: update_row_def)

section \<open>Attempt numbers\<close>

definition attempts_numbered :: "tables \<Rightarrow> bool" where
  "attempts_numbered t \<longleftrightarrow>
     distinct (map (\<lambda>a. (att_work_unit_id a, att_number a)) (execution_attempts t)) \<and>
     (\<forall>a \<in> set (execution_attempts t). 1 \<le> att_number a)"

lemma attempts_numbered_links:
  assumes "map att_links as = map att_links (execution_attempts t)" and "attempts_numbered t"
  shows "attempts_numbered (t\<lparr>execution_attempts := as\<rparr>)"
proof -
  have "map (\<lambda>(i, w, r, p, n). (w, n)) (map att_links as)
      = map (\<lambda>(i, w, r, p, n). (w, n)) (map att_links (execution_attempts t))"
    using assms(1) by simp
  then have "map (\<lambda>a. (att_work_unit_id a, att_number a)) as
      = map (\<lambda>a. (att_work_unit_id a, att_number a)) (execution_attempts t)"
    by (simp add: comp_def att_links_def)
  moreover have "1 \<le> att_number a" if a: "a \<in> set as" for a
  proof -
    obtain b where "b \<in> set (execution_attempts t)" "att_links b = att_links a"
      using links_transfer [OF assms(1) a] by blast
    then show ?thesis using assms(2) by (auto simp: attempts_numbered_def att_links_def)
  qed
  ultimately show ?thesis using assms(2) by (simp add: attempts_numbered_def)
qed

lemma coalesce_max_ge: "x \<in> set xs \<Longrightarrow> x \<le> coalesce_max xs"
proof (cases xs)
  case (Cons y ys)
  then have "coalesce_max xs = Max (set xs)" by (metis Max.set_eq_fold coalesce_max.simps(2))
  then show "x \<in> set xs \<Longrightarrow> x \<le> coalesce_max xs" by simp
qed simp

lemma next_attempt_number_above:
  assumes "a \<in> set (execution_attempts t)" and "att_work_unit_id a = w"
  shows "att_number a < next_attempt_number t w"
  using coalesce_max_ge [of "att_number a" "map att_number (filter (\<lambda>a. att_work_unit_id a = w) (execution_attempts t))"]
    assms by (auto simp: next_attempt_number_def)

lemma next_attempt_number_pos:
  assumes "attempts_numbered t"
  shows "1 \<le> next_attempt_number t w"
proof (cases "filter (\<lambda>a. att_work_unit_id a = w) (execution_attempts t)")
  case (Cons a as)
  then have "a \<in> set (filter (\<lambda>a. att_work_unit_id a = w) (execution_attempts t))" by simp
  then have "a \<in> set (execution_attempts t)" "att_work_unit_id a = w" by simp_all
  then show ?thesis
    using next_attempt_number_above [of a t w] assms by (auto simp: attempts_numbered_def)
qed (simp add: next_attempt_number_def)

lemma attempts_numbered_insert:
  assumes "attempts_numbered t" and "att_number r = next_attempt_number t (att_work_unit_id r)"
  shows "attempts_numbered (t\<lparr>execution_attempts := execution_attempts t @ [r]\<rparr>)"
  using assms next_attempt_number_above [of _ t "att_work_unit_id r"] next_attempt_number_pos [OF assms(1)]
  by (fastforce simp: attempts_numbered_def)

section \<open>Leases\<close>

definition lease_ok :: "assignment_row \<Rightarrow> bool" where
  "lease_ok a \<longleftrightarrow>
     0 \<le> asg_lease_version a \<and>
     (asg_status a = Asg_created \<longrightarrow> asg_lease_version a = 0 \<and> asg_lease_token_hash a = None) \<and>
     (asg_status a \<in> {Asg_accepted, Asg_running, Asg_completed, Asg_quarantined, Asg_expired}
        \<longrightarrow> asg_lease_token_hash a \<noteq> None)"

definition leases_ok :: "tables \<Rightarrow> bool" where
  "leases_ok t \<longleftrightarrow> (\<forall>a \<in> set (assignments t). lease_ok a)"

text \<open>The assignment has been leased: a token hash is stored, and no statement clears it.\<close>

definition leased :: "string \<Rightarrow> tables \<Rightarrow> bool" where
  "leased i t \<longleftrightarrow> (\<forall>a \<in> set (assignments t). asg_id a = i \<longrightarrow> asg_lease_token_hash a \<noteq> None)"

definition sched_ok :: "tables \<Rightarrow> bool" where
  "sched_ok t \<longleftrightarrow> refs_ok t \<and> attempts_numbered t \<and> leases_ok t \<and> outbox_ok t"

lemmas sched_ok_defs = sched_ok_def leases_ok_def

text \<open>Statements that leave the columns of a part of the invariant alone keep it.\<close>

lemma frame_events [simp]:
  "attempts_numbered (t\<lparr>event_outbox := es\<rparr>) = attempts_numbered t"
  "leases_ok (t\<lparr>event_outbox := es\<rparr>) = leases_ok t"
  "leased i (t\<lparr>event_outbox := es\<rparr>) = leased i t"
  by (simp_all add: attempts_numbered_def leases_ok_def leased_def)

lemma frame_work_units [simp]:
  "attempts_numbered (t\<lparr>work_units := us\<rparr>) = attempts_numbered t"
  "leases_ok (t\<lparr>work_units := us\<rparr>) = leases_ok t"
  "leased i (t\<lparr>work_units := us\<rparr>) = leased i t"
  "outbox_ok (t\<lparr>work_units := us\<rparr>) = outbox_ok t"
  by (simp_all add: attempts_numbered_def leases_ok_def leased_def outbox_ok_def)

lemma frame_attempts [simp]:
  "leases_ok (t\<lparr>execution_attempts := as\<rparr>) = leases_ok t"
  "leased i (t\<lparr>execution_attempts := as\<rparr>) = leased i t"
  "outbox_ok (t\<lparr>execution_attempts := as\<rparr>) = outbox_ok t"
  by (simp_all add: leases_ok_def leased_def outbox_ok_def)

lemma frame_assignments [simp]:
  "attempts_numbered (t\<lparr>assignments := as\<rparr>) = attempts_numbered t"
  "outbox_ok (t\<lparr>assignments := as\<rparr>) = outbox_ok t"
  by (simp_all add: attempts_numbered_def outbox_ok_def)

lemma frame_results [simp]:
  "attempts_numbered (t\<lparr>result_envelopes := rs\<rparr>) = attempts_numbered t"
  "leases_ok (t\<lparr>result_envelopes := rs\<rparr>) = leases_ok t"
  "leased i (t\<lparr>result_envelopes := rs\<rparr>) = leased i t"
  "outbox_ok (t\<lparr>result_envelopes := rs\<rparr>) = outbox_ok t"
  by (simp_all add: attempts_numbered_def leases_ok_def leased_def outbox_ok_def)

lemma frame_quarantine [simp]:
  "attempts_numbered (t\<lparr>result_quarantine := qs\<rparr>) = attempts_numbered t"
  "leases_ok (t\<lparr>result_quarantine := qs\<rparr>) = leases_ok t"
  "leased i (t\<lparr>result_quarantine := qs\<rparr>) = leased i t"
  "outbox_ok (t\<lparr>result_quarantine := qs\<rparr>) = outbox_ok t"
  by (simp_all add: attempts_numbered_def leases_ok_def leased_def outbox_ok_def)

lemma frame_health [simp]:
  "attempts_numbered (t\<lparr>worker_health_snapshots := hs\<rparr>) = attempts_numbered t"
  "leases_ok (t\<lparr>worker_health_snapshots := hs\<rparr>) = leases_ok t"
  "leased i (t\<lparr>worker_health_snapshots := hs\<rparr>) = leased i t"
  "outbox_ok (t\<lparr>worker_health_snapshots := hs\<rparr>) = outbox_ok t"
  by (simp_all add: attempts_numbered_def leases_ok_def leased_def outbox_ok_def)

section \<open>Statements keep the invariant\<close>

text \<open>
  The invariant together with a set of assignments known to be leased: what an operation has read
  before its transaction stays true while the transaction runs.
\<close>

definition sched_inv :: "string set \<Rightarrow> tables \<Rightarrow> bool" where
  "sched_inv L t \<longleftrightarrow> sched_ok t \<and> (\<forall>i \<in> L. leased i t)"

lemma keeps_sched_enqueue [keeps_intro]: "keeps (on_current (sched_inv L)) (enqueue_event e)"
proof -
  have "sched_inv L (current (snd (enqueue_event e w)))" if inv: "sched_inv L (current w)" for w
  proof -
    obtain r w' where eq: "enqueue_event e w = (r, w')" by fastforce
    have "outbox_ok (current w')"
      using keepsD [OF keeps_outbox_ok_enqueue _ eq] inv by (simp add: sched_inv_def sched_ok_def)
    moreover have "\<exists>es. current w' = (current w)\<lparr>event_outbox := es\<rparr>"
    proof (cases r)
      case (Inl err)
      then have "current w' = current w"
        using eq by (auto simp: enqueue_event_def bnd_error_iff seq_error_iff run_execute split: sum.splits)
      then show ?thesis by (intro exI [of _ "event_outbox (current w)"]) simp
    next
      case (Inr x)
      then show ?thesis using enqueue_event_ok [of e w x w'] eq by auto
    qed
    ultimately show ?thesis using inv eq by (auto simp: sched_inv_def sched_ok_def)
  qed
  then show ?thesis by (simp add: keeps_def)
qed

lemma keeps_sched_emit [keeps_intro]:
  "keeps (on_current (sched_inv L)) (emit ty subj bod wu att asg)"
  "keeps (durable_is c) (emit ty subj bod wu att asg)"
  unfolding emit_def by (intro keeps_intro)+

lemma keeps_sched_work_unit_status [keeps_intro]:
  "keeps (on_current (sched_inv L)) (update_work_unit_status i st actor ty)"
proof -
  have wu: "keeps (on_current (sched_inv L)) (execute (\<lambda>t. Inr (t\<lparr>work_units := update_row wu_id i
      (\<lambda>u. u\<lparr>wu_status := st, wu_updated_at := now\<rparr>) (work_units t)\<rparr>)))" for now
    by (rule keeps_execute_current)
      (auto simp: sched_inv_def sched_ok_def intro!: refs_ok_work_units keys_update_row)
  show ?thesis unfolding update_work_unit_status_def by (intro keeps_intro wu)
qed

lemma keeps_durable_work_unit_status [keeps_intro]:
  "keeps (durable_is c) (update_work_unit_status i st actor ty)"
  unfolding update_work_unit_status_def by (intro keeps_intro)

lemma keeps_sched_update_attempt:
  assumes "\<And>x. att_links (f x) = att_links x"
  shows "keeps (on_current (sched_inv L)) (update_attempt i f)"
  unfolding update_attempt_def
  by (rule keeps_execute_current)
    (auto simp: sched_inv_def sched_ok_def assms links_update_row
      intro!: refs_ok_attempts attempts_numbered_links)

lemma keeps_durable_update [keeps_intro]:
  "keeps (durable_is c) (update_attempt i f)" "keeps (durable_is c) (update_assignment i g)"
  unfolding update_attempt_def update_assignment_def by (intro keeps_intro)+

text \<open>An update of assignment rows, applied where a condition holds.\<close>

lemma sched_inv_assignments:
  assumes inv: "sched_inv L t"
    and links: "\<And>x. asg_links (g x) = asg_links x"
    and hash: "\<And>x. asg_lease_token_hash x \<noteq> None \<Longrightarrow> asg_lease_token_hash (g x) \<noteq> None"
    and lease: "\<And>x. x \<in> set (assignments t) \<Longrightarrow> lease_ok x \<Longrightarrow>
                  (asg_id x \<in> L \<longrightarrow> asg_lease_token_hash x \<noteq> None) \<Longrightarrow> lease_ok (g x)"
  shows "sched_inv L (t\<lparr>assignments := map g (assignments t)\<rparr>)"
proof -
  have "refs_ok (t\<lparr>assignments := map g (assignments t)\<rparr>)"
    using inv links by (intro refs_ok_assignments) (auto simp: sched_inv_def sched_ok_def)
  moreover have "leases_ok (t\<lparr>assignments := map g (assignments t)\<rparr>)"
    using inv lease by (auto simp: sched_inv_def sched_ok_def leases_ok_def leased_def)
  moreover have "leased i (t\<lparr>assignments := map g (assignments t)\<rparr>)" if "i \<in> L" for i
  proof -
    have id: "asg_id (g x) = asg_id x" for x using links [of x] by (simp add: asg_links_def)
    show ?thesis using inv that hash by (auto simp: sched_inv_def leased_def id)
  qed
  ultimately show ?thesis using inv by (auto simp: sched_inv_def sched_ok_def)
qed

lemma keeps_sched_update_assignment:
  assumes "\<And>x. asg_links (f x) = asg_links x"
    and "\<And>x. asg_lease_token_hash (f x) = asg_lease_token_hash x"
    and "\<And>x. asg_id x = i \<Longrightarrow> lease_ok x \<Longrightarrow> (i \<in> L \<longrightarrow> asg_lease_token_hash x \<noteq> None) \<Longrightarrow> lease_ok (f x)"
  shows "keeps (on_current (sched_inv L)) (update_assignment i f)"
  unfolding update_assignment_def update_row_def
  by (rule keeps_execute_current) (auto intro!: sched_inv_assignments assms(3) simp: assms(1,2))

lemma lease_update_simps [simp]:
  "asg_links (lease_update st v x h p a c now r) = asg_links r"
  "asg_id (lease_update st v x h p a c now r) = asg_id r"
  "asg_status (lease_update st v x h p a c now r) = st"
  "asg_lease_version (lease_update st v x h p a c now r) = v"
  "asg_lease_token_hash (lease_update st v x h p a c now r) = coalesce h (asg_lease_token_hash r)"
  by (simp_all add: lease_update_def asg_links_def)

lemma coalesce_None_iff [simp]: "coalesce a b = None \<longleftrightarrow> a = None \<and> b = None"
  by (cases a) auto

lemma coalesce_keeps_Some [simp]: "\<exists>y. coalesce a (Some x) = Some y"
  by (cases a) auto

text \<open>
  The conditional update keeps the invariant when it moves to a leased status and either stores a
  token or works on an assignment that is leased already.
\<close>

definition conditional_rows ::
  "string \<Rightarrow> int \<Rightarrow> (assignment_row \<Rightarrow> assignment_row) \<Rightarrow> tables \<Rightarrow> tables" where
  "conditional_rows i v f t =
     t\<lparr>assignments := map (\<lambda>a. if asg_id a = i \<and> asg_lease_version a = v then f a else a) (assignments t)\<rparr>"

lemma run_conditional_update:
  "conditional_assignment_update i v st x h p a c w =
     (case find_row asg_id (assignments (current w)) i of
        None \<Rightarrow> (Inl (KeyError (''assignment not found: '' @ i)), w)
      | Some r \<Rightarrow>
          let now = utc_text (utc_clock (plat w) (clock_draws w));
              f = lease_update st (asg_lease_version r + 1) x h p a c now;
              w' = w\<lparr>clock_draws := Suc (clock_draws w), in_tx := True,
                     current := conditional_rows i v f (current w)\<rparr>
          in if filter (\<lambda>a. asg_id a = i \<and> asg_lease_version a = v) (assignments (current w)) = []
             then (Inl (LeaseConflictError ''assignment lease_version conflict''), w')
             else (case find_row asg_id (assignments (current w')) i of
                     None \<Rightarrow> (Inl (KeyError (''assignment not found: '' @ i)), w')
                   | Some u \<Rightarrow> (Inr u, w')))"
  by (simp add: conditional_assignment_update_def run_bnd run_seq run_execute Let_def conditional_rows_def
      split: option.split)

lemma keeps_sched_conditional_update:
  assumes st: "st \<in> {Asg_accepted, Asg_running}" and tok: "h \<noteq> None \<or> i \<in> L"
  shows "keeps (on_current (sched_inv L)) (conditional_assignment_update i v st x h p a c)"
proof -
  have upd: "sched_inv L (conditional_rows i v (lease_update st (asg_lease_version r + 1) x h p a c now) t)"
    if "sched_inv L t" and "find_row asg_id (assignments t) i = Some r" for r now t
  proof -
    have "0 \<le> asg_lease_version r"
      using that by (auto dest!: find_row_SomeD simp: sched_inv_def sched_ok_def leases_ok_def lease_ok_def)
    then show ?thesis
      unfolding conditional_rows_def using that(1) st tok
      by (auto simp: lease_ok_def intro!: sched_inv_assignments split: if_splits)
  qed
  show ?thesis
    unfolding keeps_def
    by (auto simp: run_conditional_update Let_def upd split: option.split)
qed

lemma keeps_durable_conditional_update [keeps_intro]:
  "keeps (durable_is c) (conditional_assignment_update i v st x h p a d)"
  unfolding conditional_assignment_update_def by (intro keeps_intro)

section \<open>Inserts keep the invariant\<close>

lemma insert_row_Inr:
  "insert_row key r t = Inr t' \<longleftrightarrow> key r \<notin> key ` set t \<and> t' = t @ [r]"
  by (auto simp: insert_row_def)

lemma fk_check_Inr [simp]: "fk_check ok x = Inr y \<longleftrightarrow> ok \<and> y = x"
  by (auto simp: fk_check_def)

lemma has_row_snoc [simp]: "has_row key (t @ [r]) k \<longleftrightarrow> has_row key t k \<or> k = key r"
  by (auto simp: has_row_def)

lemma pk_unique_snoc [simp]: "pk_unique key (t @ [r]) \<longleftrightarrow> pk_unique key t \<and> \<not> has_row key t (key r)"
  by (auto simp: pk_unique_def has_row_def)

lemma sched_inv_insert_assignment:
  assumes "insert_assignment r t = Inr t'" and "sched_inv L t"
    and "lease_ok r" and "asg_id r \<notin> L \<or> asg_lease_token_hash r \<noteq> None"
  shows "sched_inv L t'"
  using assms
  by (auto simp: insert_assignment_def insert_row_Inr sched_inv_def sched_ok_def leases_ok_def leased_def
      refs_ok_def has_row_def)

lemma keeps_sched_insert_result [keeps_intro]:
  "keeps (on_current (sched_inv L)) (execute (insert_result r))"
  by (rule keeps_execute_current)
    (auto simp: insert_result_def insert_row_Inr sched_inv_def sched_ok_def refs_ok_def has_row_def)

lemma keeps_sched_insert_quarantine [keeps_intro]:
  "keeps (on_current (sched_inv L)) (execute (insert_quarantine r))"
  by (rule keeps_execute_current)
    (auto simp: insert_quarantine_def insert_row_Inr sched_inv_def sched_ok_def refs_ok_def has_row_def)

lemma keeps_sched_insert_health [keeps_intro]:
  "keeps (on_current (sched_inv L)) (execute (insert_worker_health r))"
  by (rule keeps_execute_current)
    (auto simp: insert_worker_health_def insert_row_Inr sched_inv_def sched_ok_def)

lemma sched_inv_insert_attempt:
  assumes "insert_attempt r t = Inr t'" and "sched_inv L t"
    and "att_number r = next_attempt_number t (att_work_unit_id r)"
  shows "sched_inv L t'"
proof -
  have t': "t' = t\<lparr>execution_attempts := execution_attempts t @ [r]\<rparr>"
    and "refs_ok t'"
    using assms
    by (auto simp: insert_attempt_def insert_row_Inr sched_inv_def sched_ok_def refs_ok_def has_row_def)
  then show ?thesis
    using assms attempts_numbered_insert [of t r] by (simp add: sched_inv_def sched_ok_def)
qed

section \<open>Operations keep the invariant\<close>

text \<open>Between operations the connection is idle and the committed tables satisfy the invariant.\<close>

definition quiet_inv :: "string set \<Rightarrow> world \<Rightarrow> bool" where
  "quiet_inv L w \<longleftrightarrow> idle w \<and> sched_inv L (committed w)"

abbreviation quiet_ok :: "world \<Rightarrow> bool" where
  "quiet_ok \<equiv> quiet_inv {}"

lemma quiet_ok_iff: "quiet_ok w \<longleftrightarrow> idle w \<and> sched_ok (committed w)"
  by (simp add: quiet_inv_def sched_inv_def)

lemma quiet_inv_weaken: "quiet_inv L w \<Longrightarrow> quiet_ok w"
  by (simp add: quiet_inv_def sched_inv_def)

lemma keeps_quiet_transaction:
  assumes "keeps (on_current (sched_inv L)) m" and "\<And>c. keeps (durable_is c) m"
  shows "keeps (quiet_inv L) (transaction m)"
  using conn.tx_keeps [OF assms] by (simp add: keeps_def quiet_inv_def)

lemma keeps_quiet_draws [keeps_intro]:
  "keeps (quiet_inv L) draw_uuid" "keeps (quiet_inv L) draw_token" "keeps (quiet_inv L) utc_now"
  "keeps (quiet_inv L) utc_text_now" "keeps (quiet_inv L) new_lease_token"
  "keeps (quiet_inv L) (lease_expiry ms)"
proof -
  show "keeps (quiet_inv L) utc_now" by (simp add: keeps_def quiet_inv_def idle_def)
  then show "keeps (quiet_inv L) (lease_expiry ms)" unfolding lease_expiry_def by (intro keeps_intro)
qed (simp_all add: keeps_def quiet_inv_def idle_def)

lemma quiet_inv_current: "quiet_inv L w \<Longrightarrow> current w = committed w"
  by (simp add: quiet_inv_def idle_def)

text \<open>What an operation learns from a read holds in what follows.\<close>

definition leads :: "('s \<Rightarrow> bool) \<Rightarrow> ('s, 'a) prog \<Rightarrow> ('s \<Rightarrow> bool) \<Rightarrow> bool" where
  "leads P m Q \<longleftrightarrow> (\<forall>s. P s \<longrightarrow> Q (snd (m s)))"

lemma keeps_leads: "keeps I m \<longleftrightarrow> leads I m I"
  by (simp add: keeps_def leads_def)

lemma leads_keeps: "keeps I m \<Longrightarrow> (\<And>s. P s \<Longrightarrow> I s) \<Longrightarrow> (\<And>s. I s \<Longrightarrow> Q s) \<Longrightarrow> leads P m Q"
  by (simp add: keeps_def leads_def)

lemma leads_bnd:
  assumes "\<And>s x t. P s \<Longrightarrow> m s = (Inr x, t) \<Longrightarrow> R x t" and "\<And>s e t. P s \<Longrightarrow> m s = (Inl e, t) \<Longrightarrow> Q t"
    and "\<And>x. leads (R x) (f x) Q"
  shows "leads P (bnd m f) Q"
  unfolding leads_def
proof (intro allI impI)
  fix s
  assume P: "P s"
  obtain r t where rt: "m s = (r, t)" by fastforce
  show "Q (snd (bnd m f s))"
    using assms P rt by (cases r) (auto simp: run_bnd leads_def)
qed

lemma leads_seq:
  assumes "\<And>s x t. P s \<Longrightarrow> m s = (Inr x, t) \<Longrightarrow> R t" and "\<And>s e t. P s \<Longrightarrow> m s = (Inl e, t) \<Longrightarrow> Q t"
    and "leads R n Q"
  shows "leads P (seq m n) Q"
  unfolding seq_def using assms by (intro leads_bnd [where R = "\<lambda>_. R"])

lemma assignment_for_worker_ok_iff:
  "assignment_for_worker i w s = (Inr a, s') \<longleftrightarrow>
     s' = s \<and> find_row asg_id (assignments (current s)) i = Some a \<and> asg_worker_id a = w"
  by (auto simp: assignment_for_worker_def bnd_ok_iff split: option.splits if_splits)

lemma assignment_for_worker_state [simp]: "snd (assignment_for_worker i w s) = s"
  by (auto simp: assignment_for_worker_def run_bnd split: option.splits)

lemma attempt_by_id_ok_iff:
  "attempt_by_id i s = (Inr a, s') \<longleftrightarrow> s' = s \<and> find_row att_id (execution_attempts (current s)) i = Some a"
  by (auto simp: attempt_by_id_def bnd_ok_iff split: option.splits)

lemma attempt_by_id_state [simp]: "snd (attempt_by_id i s) = s"
  by (auto simp: attempt_by_id_def run_bnd split: option.splits)

lemma keeps_reads [keeps_intro]: "keeps I (assignment_for_worker i w)" "keeps J (attempt_by_id k)"
  by (simp_all add: keeps_def)

lemma quiet_inv_leased:
  assumes "quiet_ok w" and "find_row asg_id (assignments (current w)) i = Some a"
    and "asg_lease_token_hash a \<noteq> None"
  shows "quiet_inv {i} w"
proof -
  have pk: "pk_unique asg_id (assignments (committed w))"
    using assms(1) by (simp add: quiet_ok_iff sched_ok_def refs_ok_def)
  have "b = a" if "b \<in> set (assignments (committed w))" "asg_id b = i" for b
  proof -
    have "find_row asg_id (assignments (committed w)) i = Some b"
      using that find_row_Some_iff [OF pk] by blast
    then show ?thesis using assms(2) quiet_inv_current [OF assms(1)] by simp
  qed
  then have "leased i (committed w)" using assms(3) by (auto simp: leased_def)
  then show ?thesis using assms(1) by (simp add: quiet_inv_def sched_inv_def)
qed

text \<open>Stepping through an operation: reads are remembered, steps that keep the assertion pass.\<close>

lemma leads_bnd_keep:
  "keeps P m \<Longrightarrow> (\<And>s. P s \<Longrightarrow> Q s) \<Longrightarrow> (\<And>x. leads P (f x) Q) \<Longrightarrow> leads P (bnd m f) Q"
  by (rule leads_bnd [where R = "\<lambda>_. P"]) (auto dest: keepsD)

lemma leads_seq_keep:
  "keeps P m \<Longrightarrow> (\<And>s. P s \<Longrightarrow> Q s) \<Longrightarrow> leads P n Q \<Longrightarrow> leads P (seq m n) Q"
  unfolding seq_def by (rule leads_bnd_keep)

lemma leads_select:
  "(\<And>x. leads (\<lambda>s. P s \<and> q (current s) = x) (f x) Q) \<Longrightarrow> leads P (bnd (select q) f) Q"
  by (auto simp: leads_def run_bnd)

lemma leads_read_assignment:
  assumes "\<And>a. leads (\<lambda>s. P s \<and> find_row asg_id (assignments (current s)) i = Some a \<and> asg_worker_id a = v) (f a) Q"
    and "\<And>s. P s \<Longrightarrow> Q s"
  shows "leads P (bnd (assignment_for_worker i v) f) Q"
  by (rule leads_bnd [where R = "\<lambda>a s. P s \<and> find_row asg_id (assignments (current s)) i = Some a
        \<and> asg_worker_id a = v"])
    (use assms in \<open>auto simp: assignment_for_worker_ok_iff\<close>, metis assignment_for_worker_state snd_conv)

lemma leads_ret: "(\<And>s. P s \<Longrightarrow> Q s) \<Longrightarrow> leads P (ret x) Q"
  by (simp add: leads_def)

lemma snd_seq_ret [simp]: "snd (seq m (ret x) s) = snd (m s)" "snd (bnd m (\<lambda>y. ret (g y)) s) = snd (m s)"
  by (simp_all add: run_seq run_bnd split: prod.split sum.split)

lemma leads_seq_ret: "leads P m Q \<Longrightarrow> leads P (seq m (ret x)) Q"
  by (simp add: leads_def)

lemma leads_bnd_ret: "leads P m Q \<Longrightarrow> leads P (bnd m (\<lambda>x. ret (g x))) Q"
  by (simp add: leads_def)

lemma leads_transaction:
  assumes idle: "\<And>s. P s \<Longrightarrow> quiet_inv L s"
    and body: "\<And>s. P s \<Longrightarrow> sched_inv L (current (snd (m (s\<lparr>in_tx := True\<rparr>))))"
    and dur: "\<And>c. keeps (durable_is c) m"
  shows "leads P (transaction m) (quiet_inv L)"
  unfolding leads_def
proof (intro allI impI)
  fix s
  assume P: "P s"
  obtain x t where xt: "transaction m s = (x, t)" by fastforce
  have quiet: "Transactions.idle s" "sched_inv L (committed s)"
    using idle [OF P] by (auto simp: quiet_inv_def)
  show "quiet_inv L (snd (transaction m s))"
  proof (cases x)
    case (Inl e)
    then show ?thesis using conn.tx_error [OF quiet(1) dur, of e t] quiet xt by (simp add: quiet_inv_def)
  next
    case (Inr y)
    then obtain u where "m (s\<lparr>in_tx := True\<rparr>) = (Inr y, u)" "Transactions.idle t" "committed t = current u"
      using conn.tx_ok [OF quiet(1), of m y t] xt by auto
    then show ?thesis using body [OF P] xt by (simp add: quiet_inv_def)
  qed
qed

text \<open>A statement whose outcome is known, followed by statements that keep the invariant.\<close>

lemma inv_after_execute:
  assumes "\<And>t. f (current w) = Inr t \<Longrightarrow> sched_inv L t" and "sched_inv L (current w)"
    and "keeps (on_current (sched_inv L)) n"
  shows "sched_inv L (current (snd (seq (execute f) n w)))"
  using assms by (auto simp: run_seq run_execute keeps_def split: sum.splits)

lemma keeps_quiet_create_attempt: "keeps quiet_ok (create_attempt w r p st ty)"
proof -
  have tx: "leads (\<lambda>s. quiet_ok s \<and> next_attempt_number (current s) w = n)
      (transaction (seq (execute (insert_attempt row)) (emit ty subj bod a b c))) quiet_ok"
    if "att_work_unit_id row = w" "att_number row = n" for n row subj bod a b c
    using that sched_inv_insert_attempt [of row _ _ "{}"]
    by (intro leads_transaction inv_after_execute keeps_intro)
      (auto simp: quiet_inv_def idle_def)
  show ?thesis
    unfolding keeps_leads create_attempt_def Let_def
    by (intro leads_bnd_keep leads_select leads_seq_ret tx keeps_intro)
      (auto simp: keeps_def quiet_inv_def idle_def)
qed

lemma keeps_quiet_retry: "keeps quiet_ok (schedule_retry i)" "keeps quiet_ok (schedule_fallback i)"
  unfolding schedule_retry_def schedule_fallback_def
  by (intro keeps_intro keeps_quiet_create_attempt)+

lemma keeps_quiet_create_assignment: "keeps quiet_ok (create_assignment i v n b bc ec)"
proof -
  have ins: "keeps (on_current (sched_inv {})) (execute (insert_assignment row))"
    if "lease_ok row" for row
    using that by (auto intro!: keeps_execute_current dest: sched_inv_insert_assignment)
  show ?thesis
    unfolding create_assignment_def Let_def
    by (intro keeps_intro keeps_quiet_transaction ins keeps_sched_update_attempt)
      (auto simp: lease_ok_def att_links_def)
qed

lemma keeps_quiet_assign_next_work: "keeps quiet_ok (assign_next_work v)"
proof -
  have "keeps quiet_ok (case xs of [] \<Rightarrow> ret None
      | b # bs \<Rightarrow> bnd (create_assignment i v n b None None) (\<lambda>x. ret (Some x)))" for xs i n
    by (cases xs) (auto intro: keeps_intro keeps_quiet_create_assignment)
  then show ?thesis unfolding assign_next_work_def by (intro keeps_intro)
qed

lemma keeps_quiet_accept: "keeps quiet_ok (accept_assignment i v e ms)"
  unfolding accept_assignment_def
  by (intro keeps_intro keeps_quiet_transaction keeps_sched_conditional_update
      keeps_sched_update_attempt) (auto simp: att_links_def)

lemma keeps_quiet_reject: "keeps quiet_ok (reject_assignment i v)"
  unfolding reject_assignment_def
  by (intro keeps_intro keeps_quiet_transaction keeps_sched_update_assignment
      keeps_sched_update_attempt) (auto simp: att_links_def asg_links_def lease_ok_def)

lemma keeps_quiet_heartbeat: "keeps quiet_ok (record_worker_heartbeat v st)"
  unfolding record_worker_heartbeat_def Let_def
  by (intro keeps_intro keeps_quiet_transaction)

text \<open>A verified token means the assignment is leased.\<close>

lemma verified_leased:
  assumes "quiet_ok s" and "find_row asg_id (assignments (current s)) i = Some a"
    and "verify_lease_token (asg_lease_token_hash a) tok s = (Inr x, t)
      \<or> verify_lease_token_hash (asg_lease_token_hash a) tok s = (Inr x, t)"
  shows "quiet_inv {i} t"
  using assms quiet_inv_leased [of s i a]
  by (auto simp: verify_lease_token_ok_iff verify_lease_token_hash_ok_iff)

lemma verify_error_state:
  "verify_lease_token h tok s = (Inl e, t) \<Longrightarrow> t = s"
  "verify_lease_token_hash h tok s = (Inl e, t) \<Longrightarrow> t = s"
  by (metis verify_lease_token_state snd_conv, metis verify_lease_token_hash_state snd_conv)

lemma keeps_quiet_progress: "keeps quiet_ok (progress_assignment i v tok e ms)"
  unfolding keeps_leads progress_assignment_def
proof (rule leads_read_assignment, goal_cases)
  case (1 a)
  show ?case
  proof (rule leads_seq [where R = "quiet_inv {i}"], goal_cases)
    case (1 s x t)
    then show ?case using verified_leased by blast
  next
    case (2 s err t)
    then show ?case using verify_error_state by blast
  next
    case 3
    show ?case
      by (intro leads_keeps [where I = "quiet_inv {i}"] keeps_intro keeps_quiet_transaction
          keeps_sched_conditional_update) (auto intro: quiet_inv_weaken)
  qed
qed

lemma keeps_sched_quarantine:
  "asg_id a \<in> L \<Longrightarrow> keeps (on_current (sched_inv L)) (quarantine_late_result a r bod)"
  unfolding quarantine_late_result_def
  by (intro keeps_intro keeps_sched_update_assignment keeps_sched_update_attempt)
    (auto simp: att_links_def asg_links_def lease_ok_def)

lemma keeps_sched_complete:
  "asg_id a \<in> L \<Longrightarrow> keeps (on_current (sched_inv L)) (complete_assignment a now)"
  unfolding complete_assignment_def
  by (intro keeps_intro keeps_sched_update_assignment keeps_sched_update_attempt)
    (auto simp: att_links_def asg_links_def lease_ok_def)

lemma keeps_durable_results [keeps_intro]:
  "keeps (durable_is c) (quarantine_late_result a r bod)" "keeps (durable_is c) (complete_assignment a now)"
  unfolding quarantine_late_result_def complete_assignment_def by (intro keeps_intro)+

lemma keeps_quiet_result_from_output [keeps_intro]:
  "keeps (quiet_inv L) (result_from_output late a out)"
  unfolding result_from_output_def Let_def by (intro keeps_intro)

lemma keeps_quiet_submit: "keeps quiet_ok (submit_result validate i v tok th out env)"
  unfolding keeps_leads submit_result_def
proof (rule leads_read_assignment, goal_cases)
  case (1 a)
  show ?case
  proof (rule leads_seq [where R = "quiet_inv {asg_id a}"], goal_cases)
    case (1 s x t)
    then have "asg_id a = i" by (auto dest: find_row_SomeD)
    then show ?case
      by (cases th) (use 1 verified_leased [of s i a tok x t] verified_leased [of s i a th x t] in auto)
  next
    case (2 s err t)
    then show ?case by (auto split: option.splits dest!: verify_error_state)
  next
    case 3
    show ?case
      by (intro leads_keeps [where I = "quiet_inv {asg_id a}"] keeps_intro keeps_quiet_transaction
          keeps_sched_quarantine keeps_sched_complete) (auto intro: quiet_inv_weaken)
  qed
qed

section \<open>The sweeper keeps the invariant\<close>

lemma keeps_sched_expire:
  "asg_id a \<in> L \<Longrightarrow> keeps (on_current (sched_inv L)) (expire_assignment a)"
proof -
  have "keeps (on_current (sched_inv L)) (update_assignment (asg_id a)
      (\<lambda>r. r\<lparr>asg_status := Asg_expired, asg_updated_at := Some now\<rparr>))" if "asg_id a \<in> L" for now
    using that by (intro keeps_sched_update_assignment) (auto simp: asg_links_def lease_ok_def)
  then show "asg_id a \<in> L \<Longrightarrow> keeps (on_current (sched_inv L)) (expire_assignment a)"
    unfolding expire_assignment_def update_assignment_def [symmetric] by (intro keeps_intro)
qed

lemma keeps_for_each_in:
  "(\<And>x. x \<in> set xs \<Longrightarrow> keeps I (f x)) \<Longrightarrow> keeps I (for_each f xs)"
  by (induction xs) (auto intro: keeps_intro)

lemma sweep_keeps_quiet:
  assumes q: "quiet_ok w" and run: "sweep_expired_leases w = (Inr n, w')"
  shows "quiet_ok w'"
proof -
  let ?now = "utc_text (utc_clock (plat w) (clock_draws w))"
  let ?rows = "filter (lease_expired ?now) (assignments (current w))"
  let ?w = "w\<lparr>clock_draws := Suc (clock_draws w)\<rparr>"
  let ?L = "asg_id ` set ?rows"
  obtain u where u: "for_each expire_assignment ?rows ?w = (Inr (), u)" "w' = commit u"
    using run by (auto simp: sweep_expired_leases_def bnd_ok_iff seq_ok_iff)
  have each: "keeps (on_current (sched_inv ?L)) (for_each expire_assignment ?rows)"
    by (rule keeps_for_each_in) (auto intro: keeps_sched_expire)
  have "leased (asg_id a) (committed w)" if a: "a \<in> set ?rows" for a
  proof -
    have "asg_lease_token_hash a \<noteq> None"
      using a q by (auto simp: lease_expired_def quiet_ok_iff sched_ok_def leases_ok_def lease_ok_def idle_def)
    moreover have "find_row asg_id (assignments (current w)) (asg_id a) = Some a"
      using a q find_row_Some_iff [of asg_id "assignments (current w)" "asg_id a" a]
      by (auto simp: quiet_ok_iff sched_ok_def refs_ok_def idle_def)
    ultimately show ?thesis using quiet_inv_leased [OF q] by (simp add: quiet_inv_def sched_inv_def)
  qed
  then have "sched_inv ?L (current ?w)" using q by (auto simp: quiet_ok_iff sched_inv_def idle_def)
  then have "sched_inv ?L (current u)"
    using keepsD [OF each _ u(1)] by simp
  then show ?thesis using u(2) by (simp add: quiet_ok_iff sched_inv_def commit_def idle_def)
qed

end
