(* ===== verification/Scheduler_Machine.thy ===== *)
theory Scheduler_Machine
  imports Scheduler_Proofs
begin

text \<open>
  The scheduler as a state machine. A command is one call of a public method of \<open>class Scheduler\<close>
  (\<open>src/tokenbank/scheduler/scheduler.py\<close>), a step is a command or a run of the sweeper, whether it
  returns or raises. Every command is atomic. A run of the sweeper is not: one that raises leaves its transaction
  open with the updates so far, and no command writes until a later run of the sweeper commits. In every reachable
  state the committed tables and the tables that the connection sees satisfy the invariant of \<open>Scheduler_Proofs\<close>,
  and both are a history: the scheduler and the sweeper remove no row, lease versions and attempt numbers never
  go back, and they rewrite no result and no event.
\<close>

section \<open>Commands and steps\<close>

datatype sched_command =
    Create_attempt string string string attempt_status string
  | Schedule_retry string
  | Schedule_fallback string
  | Create_assignment string string string string "string option" "fields option"
  | Assign_next_work string
  | Poll_next_assignment string
  | Accept_assignment string string int int
  | Reject_assignment string string
  | Progress_assignment string string "string option" int int
  | Record_worker_heartbeat string string
  | Submit_result string string "string option" "string option" json envelope_arg

definition discard :: "'a op \<Rightarrow> unit op" where
  "discard m = bnd m (\<lambda>_. ret ())"

fun run_command :: "validator \<Rightarrow> sched_command \<Rightarrow> unit op" where
  "run_command validate (Create_attempt w r p st ty) = discard (create_attempt w r p st ty)"
| "run_command validate (Schedule_retry i) = discard (schedule_retry i)"
| "run_command validate (Schedule_fallback i) = discard (schedule_fallback i)"
| "run_command validate (Create_assignment i v n b bc ec) = discard (create_assignment i v n b bc ec)"
| "run_command validate (Assign_next_work v) = discard (assign_next_work v)"
| "run_command validate (Poll_next_assignment v) = discard (poll_next_assignment v)"
| "run_command validate (Accept_assignment i v e ms) = discard (accept_assignment i v e ms)"
| "run_command validate (Reject_assignment i v) = reject_assignment i v"
| "run_command validate (Progress_assignment i v tok e ms) = discard (progress_assignment i v tok e ms)"
| "run_command validate (Record_worker_heartbeat v st) = record_worker_heartbeat v st"
| "run_command validate (Submit_result i v tok th out env) = discard (submit_result validate i v tok th out env)"

inductive sched_step :: "validator \<Rightarrow> world \<Rightarrow> world \<Rightarrow> bool" for validate where
  command: "run_command validate c w = (r, w') \<Longrightarrow> sched_step validate w w'"
| sweep: "sweep_expired_leases w = (q, w') \<Longrightarrow> sched_step validate w w'"

inductive sched_reach :: "validator \<Rightarrow> world \<Rightarrow> world \<Rightarrow> bool" for validate and w0 where
  start: "sched_reach validate w0 w0"
| step: "sched_reach validate w0 w \<Longrightarrow> sched_step validate w w' \<Longrightarrow> sched_reach validate w0 w'"

inductive_cases sched_stepE: "sched_step validate w w'"

section \<open>Growth of the tables\<close>

definition rows_grow :: "('r \<Rightarrow> 'r \<Rightarrow> bool) \<Rightarrow> 'r list \<Rightarrow> 'r list \<Rightarrow> bool" where
  "rows_grow R xs ys \<longleftrightarrow> list_all2 R xs (take (length xs) ys)"

definition attempt_grows :: "attempt_row \<Rightarrow> attempt_row \<Rightarrow> bool" where
  "attempt_grows a b \<longleftrightarrow>
     att_links b = att_links a \<and> att_body b = att_body a \<and> att_created_at b = att_created_at a"

definition assignment_grows :: "assignment_row \<Rightarrow> assignment_row \<Rightarrow> bool" where
  "assignment_grows a b \<longleftrightarrow>
     asg_links b = asg_links a \<and> asg_lease_version a \<le> asg_lease_version b \<and>
     (asg_lease_token_hash a \<noteq> None \<longrightarrow> asg_lease_token_hash b \<noteq> None)"

definition tables_grow :: "tables \<Rightarrow> tables \<Rightarrow> bool" where
  "tables_grow t t' \<longleftrightarrow>
     map wu_id (work_units t') = map wu_id (work_units t) \<and>
     rows_grow attempt_grows (execution_attempts t) (execution_attempts t') \<and>
     rows_grow assignment_grows (assignments t) (assignments t') \<and>
     rows_grow (=) (result_envelopes t) (result_envelopes t') \<and>
     rows_grow (=) (result_quarantine t) (result_quarantine t') \<and>
     rows_grow (=) (event_outbox t) (event_outbox t')"

text \<open>An assertion that holds between operations, of the committed tables of an idle connection.\<close>

definition settled :: "(tables \<Rightarrow> bool) \<Rightarrow> world \<Rightarrow> bool" where
  "settled J w \<longleftrightarrow> idle w \<and> J (committed w)"

definition atomic :: "'a op \<Rightarrow> bool" where
  "atomic m \<longleftrightarrow> (\<forall>w r w'. idle w \<longrightarrow> m w = (r, w') \<longrightarrow>
     idle w' \<and> (\<forall>e. r = Inl e \<longrightarrow> committed w' = committed w))"

definition grown_from :: "tables \<Rightarrow> tables \<Rightarrow> bool" where
  "grown_from c t \<longleftrightarrow> pk_unique asg_id (assignments t) \<and> tables_grow c t"

section \<open>Atomicity of commands\<close>

lemma keeps_settled_draws [keeps_intro]:
  "keeps (settled J) draw_uuid" "keeps (settled J) draw_token" "keeps (settled J) utc_now"
  "keeps (settled J) utc_text_now" "keeps (settled J) new_lease_token"
  "keeps (settled J) (lease_expiry ms)"
proof -
  show "keeps (settled J) utc_now" by (simp add: keeps_def settled_def idle_def)
  then show "keeps (settled J) (lease_expiry ms)" unfolding lease_expiry_def by (intro keeps_intro)
qed (simp_all add: keeps_def settled_def idle_def)

lemma keeps_settled_transaction:
  assumes "keeps (on_current J) m" and "\<And>c. keeps (durable_is c) m"
  shows "keeps (settled J) (transaction m)"
  using conn.tx_keeps [OF assms] by (simp add: keeps_def settled_def)

lemma keeps_result_from_output [keeps_intro]: "keeps (settled J) (result_from_output late a out)"
  unfolding result_from_output_def Let_def by (intro keeps_intro)

lemma atomic_bnd:
  assumes read: "\<And>c. keeps (settled (\<lambda>t. t = c)) m" and rest: "\<And>x. atomic (f x)"
  shows "atomic (bnd m f)"
  unfolding atomic_def
proof (intro allI impI)
  fix w r w'
  assume w: "idle w" and run: "bnd m f w = (r, w')"
  obtain q u where m: "m w = (q, u)" by fastforce
  have u: "idle u" "committed u = committed w"
    using keepsD [OF read [of "committed w"] _ m] w by (auto simp: settled_def)
  show "idle w' \<and> (\<forall>e. r = Inl e \<longrightarrow> committed w' = committed w)"
    using run m u rest by (cases q) (auto simp: run_bnd atomic_def)
qed

lemma atomic_seq:
  "(\<And>c. keeps (settled (\<lambda>t. t = c)) m) \<Longrightarrow> atomic n \<Longrightarrow> atomic (seq m n)"
  unfolding seq_def by (rule atomic_bnd)

lemma atomic_read: "(\<And>c. keeps (settled (\<lambda>t. t = c)) m) \<Longrightarrow> atomic m"
  unfolding atomic_def settled_def keeps_def by (metis snd_conv)

lemma atomic_transaction: "(\<And>c. keeps (durable_is c) m) \<Longrightarrow> atomic (transaction m)"
  unfolding atomic_def
proof (intro allI impI)
  fix w r w'
  assume dur: "\<And>c. keeps (durable_is c) m" and w: "idle w" and run: "transaction m w = (r, w')"
  show "idle w' \<and> (\<forall>e. r = Inl e \<longrightarrow> committed w' = committed w)"
    using conn.tx_error [OF w dur, of _ w'] conn.tx_ok [OF w, of m _ w'] run by (cases r) auto
qed

lemma bnd_ret_run:
  "bnd m (\<lambda>x. ret (g x)) w = (r, w') \<longleftrightarrow> (\<exists>q. m w = (q, w') \<and> r = map_sum id g q)"
  by (cases "m w"; cases "fst (m w)") (auto simp: run_bnd)

lemma atomic_bnd_ret: "atomic m \<Longrightarrow> atomic (bnd m (\<lambda>x. ret (g x)))"
  unfolding atomic_def bnd_ret_run by (metis id_apply isl_map_sum map_sum.simps(1) sum.collapse(1) sum.disc(1) sum.sel(1))

lemma atomic_seq_ret: "atomic m \<Longrightarrow> atomic (seq m (ret x))"
  unfolding seq_def by (rule atomic_bnd_ret)

lemma atomic_discard: "atomic m \<Longrightarrow> atomic (discard m)"
  unfolding discard_def by (rule atomic_bnd_ret)

lemmas atomic_tail = atomic_transaction atomic_bnd_ret [OF atomic_transaction] atomic_seq_ret [OF atomic_transaction]
lemmas atomic_head = atomic_bnd atomic_seq

lemma atomic_create_attempt: "atomic (create_attempt w r p st ty)"
  unfolding create_attempt_def Let_def
  by (rule atomic_head, intro keeps_intro)+ (rule atomic_tail, intro keeps_intro)

lemma atomic_schedule: "atomic (schedule_retry i)" "atomic (schedule_fallback i)"
  unfolding schedule_retry_def schedule_fallback_def
  by (intro atomic_bnd atomic_create_attempt keeps_intro)+

lemma keeps_durable_insert_steps [keeps_intro]:
  "keeps (durable_is c) (quarantine_late_result a i b)" "keeps (durable_is c) (complete_assignment a now)"
  unfolding quarantine_late_result_def complete_assignment_def by (intro keeps_intro)+

lemma atomic_create_assignment: "atomic (create_assignment i v n b bc ec)"
  unfolding create_assignment_def Let_def
  by (rule atomic_head, intro keeps_intro)+ (rule atomic_tail, intro keeps_intro)

lemma atomic_assign_next_work: "atomic (assign_next_work v)"
proof -
  have rd: "atomic (ret x)" for x :: "string option" by (rule atomic_read) (rule keeps_intro)
  have "atomic (case xs of [] \<Rightarrow> ret None
      | b # bs \<Rightarrow> bnd (create_assignment i v n b None None) (\<lambda>x. ret (Some x)))" for xs i n
    by (cases xs) (auto intro: rd atomic_bnd_ret atomic_create_assignment)
  then show ?thesis unfolding assign_next_work_def
    by (intro atomic_bnd keeps_intro) (auto intro!: rd atomic_bnd keeps_intro split: option.splits)
qed

lemma atomic_accept: "atomic (accept_assignment i v e ms)"
  unfolding accept_assignment_def
  by (rule atomic_head, intro keeps_intro)+ (rule atomic_tail, intro keeps_intro)

lemma atomic_reject: "atomic (reject_assignment i v)"
  unfolding reject_assignment_def
  by (rule atomic_head, intro keeps_intro)+ (rule atomic_tail, intro keeps_intro)

lemma atomic_progress: "atomic (progress_assignment i v tok e ms)"
  unfolding progress_assignment_def
  by (rule atomic_head, intro keeps_intro)+ (rule atomic_tail, intro keeps_intro)

lemma atomic_heartbeat: "atomic (record_worker_heartbeat v st)"
  unfolding record_worker_heartbeat_def Let_def
  by (rule atomic_head, intro keeps_intro)+ (rule atomic_tail, intro keeps_intro)

lemma atomic_submit: "atomic (submit_result validate i v tok th out env)"
  unfolding submit_result_def
  by (rule atomic_head, intro keeps_intro)+ (rule atomic_tail, intro keeps_intro)

lemma atomic_poll: "atomic (poll_next_assignment v)"
  unfolding poll_next_assignment_def by (rule atomic_read) (intro keeps_intro)

lemmas atomic_operations = atomic_create_attempt atomic_schedule atomic_create_assignment
  atomic_assign_next_work atomic_accept atomic_reject atomic_progress atomic_heartbeat atomic_submit
  atomic_poll

lemma atomic_command: "atomic (run_command validate c)"
  by (cases c) (auto intro: atomic_discard atomic_operations)

section \<open>Every command keeps the invariant\<close>

lemma keeps_quiet_poll: "keeps quiet_ok (poll_next_assignment v)"
  unfolding poll_next_assignment_def by (intro keeps_intro)

lemma keeps_discard: "keeps I m \<Longrightarrow> keeps I (discard m)"
  unfolding discard_def by (intro keeps_intro)

lemmas keeps_quiet_operations = keeps_quiet_create_attempt keeps_quiet_retry
  keeps_quiet_create_assignment keeps_quiet_assign_next_work keeps_quiet_accept keeps_quiet_reject
  keeps_quiet_progress keeps_quiet_heartbeat keeps_quiet_submit keeps_quiet_poll

lemma keeps_quiet_command: "keeps quiet_ok (run_command validate c)"
  by (cases c) (auto intro: keeps_discard keeps_quiet_operations)

section \<open>An open transaction\<close>

text \<open>What holds between operations when a transaction may be open: of the committed tables and of those the connection sees.\<close>

definition coherent :: "(tables \<Rightarrow> bool) \<Rightarrow> world \<Rightarrow> bool" where
  "coherent J w \<longleftrightarrow> J (committed w) \<and> J (current w) \<and> (in_tx w \<or> current w = committed w)"

definition held_open :: "tables \<Rightarrow> tables \<Rightarrow> world \<Rightarrow> bool" where
  "held_open c d w \<longleftrightarrow> in_tx w \<and> committed w = c \<and> current w = d"

lemma settled_coherent: "settled J w \<longleftrightarrow> coherent J w \<and> \<not> in_tx w"
  by (auto simp: settled_def coherent_def idle_def)

lemma quiet_settled: "quiet_ok = settled (sched_inv {})"
  by (auto simp: fun_eq_iff quiet_inv_def settled_def)

lemma keeps_held_open [keeps_intro]:
  "keeps (held_open c d) (transaction m)" "keeps (held_open c d) draw_uuid" "keeps (held_open c d) utc_now"
  "keeps (held_open c d) draw_token" "keeps (held_open c d) utc_text_now" "keeps (held_open c d) new_lease_token"
  by (simp_all add: keeps_def held_open_def transaction_def begin_immediate_def run_bnd)

lemma keeps_held_open_steps [keeps_intro]:
  "keeps (held_open c d) (lease_expiry ms)" "keeps (held_open c d) (lease_token_hash t)"
  "keeps (held_open c d) (result_from_output late a out)"
  unfolding lease_expiry_def lease_token_hash_def result_from_output_def Let_def by (intro keeps_intro)+

lemma held_open_create_attempt [keeps_intro]: "keeps (held_open c d) (create_attempt w r p st ty)"
  unfolding create_attempt_def Let_def by (intro keeps_intro)

lemma held_open_create_assignment [keeps_intro]: "keeps (held_open c d) (create_assignment i v n b bc ec)"
  unfolding create_assignment_def Let_def by (intro keeps_intro)

lemma held_open_assign_next_work [keeps_intro]: "keeps (held_open c d) (assign_next_work v)"
proof -
  have "keeps (held_open c d) (case xs of [] \<Rightarrow> ret None
      | b # bs \<Rightarrow> bnd (create_assignment i v n b None None) (\<lambda>x. ret (Some x)))" for xs i n
    by (cases xs) (auto intro: keeps_intro)
  then show ?thesis unfolding assign_next_work_def by (intro keeps_intro)
qed

lemma held_open_operations:
  "keeps (held_open c d) (schedule_retry i)" "keeps (held_open c d) (schedule_fallback i)"
  "keeps (held_open c d) (accept_assignment i v e ms)" "keeps (held_open c d) (reject_assignment i v)"
  "keeps (held_open c d) (progress_assignment i v tok e ms)" "keeps (held_open c d) (poll_next_assignment v)"
  "keeps (held_open c d) (record_worker_heartbeat v st)" "keeps (held_open c d) (submit_result validate i v tok th out env)"
  unfolding schedule_retry_def schedule_fallback_def accept_assignment_def reject_assignment_def progress_assignment_def
    poll_next_assignment_def record_worker_heartbeat_def submit_result_def Let_def
  by (intro keeps_intro)+

lemma held_open_command: "keeps (held_open c d) (run_command validate cmd)"
  by (cases cmd) (auto intro: keeps_discard keeps_intro held_open_operations)

lemma coherent_command:
  assumes keeps: "keeps (settled J) (run_command validate c)" and run: "run_command validate c w = (r, w')"
    and w: "coherent J w"
  shows "coherent J w'" and "in_tx w' \<Longrightarrow> in_tx w"
proof -
  have "coherent J w' \<and> (in_tx w' \<longrightarrow> in_tx w)"
  proof (cases "in_tx w")
    case True
    then have "held_open (committed w) (current w) w'"
      using keepsD [OF held_open_command _ run] by (simp add: held_open_def)
    then show ?thesis using True w by (simp add: coherent_def held_open_def)
  next
    case False
    then have "settled J w'" using keepsD [OF keeps _ run] w by (simp add: settled_coherent)
    then show ?thesis by (simp add: settled_coherent)
  qed
  then show "coherent J w'" and "in_tx w' \<Longrightarrow> in_tx w" by blast+
qed

text \<open>Writing without a transaction of one's own.\<close>

definition writes_seen :: "world \<Rightarrow> bool" where
  "writes_seen w \<longleftrightarrow> in_tx w \<or> current w = committed w"

lemma keeps_writes_seen [keeps_intro]:
  "keeps writes_seen (execute f)" "keeps writes_seen draw_uuid" "keeps writes_seen utc_now" "keeps writes_seen utc_text_now"
  by (auto simp: keeps_def writes_seen_def execute_def split: sum.splits)

lemma keeps_writes_seen_expire: "keeps writes_seen (for_each expire_assignment rows)"
  unfolding expire_assignment_def outbox_event_def enqueue_event_def by (intro keeps_intro)

lemma coherent_sweep:
  assumes rows: "keeps (on_current K) (for_each expire_assignment (filter (lease_expired now) (assignments (current w))))"
    and now: "now = utc_text (utc_clock (plat w) (clock_draws w))"
    and run: "sweep_expired_leases w = (q, w')" and w: "coherent J w" and K: "K (current w)" "\<And>t. K t \<Longrightarrow> J t"
  shows "coherent J w'"
proof -
  let ?w = "w\<lparr>clock_draws := Suc (clock_draws w)\<rparr>"
  let ?sweep = "for_each expire_assignment (filter (lease_expired now) (assignments (current w)))"
  obtain e u where u: "?sweep ?w = (e, u)" by fastforce
  have dur: "keeps (durable_is (committed w)) ?sweep"
    unfolding expire_assignment_def outbox_event_def enqueue_event_def by (intro keeps_intro)
  have com: "committed u = committed w" by (rule keepsD [OF dur _ u]) simp
  have "K (current u)" by (rule keepsD [OF rows _ u]) (simp add: K)
  then have cur: "J (current u)" by (rule K)
  have seen: "writes_seen u"
    by (rule keepsD [OF keeps_writes_seen_expire _ u]) (use w in \<open>simp add: coherent_def writes_seen_def\<close>)
  have w': "case e of Inl x \<Rightarrow> q = Inl x \<and> w' = u | Inr y \<Rightarrow> isl q = False \<and> w' = commit u"
    using run u now by (cases e) (auto simp: sweep_expired_leases_def run_simps)
  show "coherent J w'"
    using w' com cur seen w by (auto simp: coherent_def writes_seen_def commit_def split: sum.splits)
qed

lemma sweep_returns_idle: "sweep_expired_leases w = (Inr n, w') \<Longrightarrow> \<not> in_tx w'"
  by (auto simp: sweep_expired_leases_def bnd_ok_iff seq_ok_iff commit_def)

text \<open>The invariant of the scheduler, with the connection at rest or with a transaction open.\<close>

abbreviation sched_coherent :: "world \<Rightarrow> bool" where
  "sched_coherent \<equiv> coherent (sched_inv {})"

lemma quiet_coherent: "quiet_ok w \<longleftrightarrow> sched_coherent w \<and> \<not> in_tx w"
  by (auto simp: quiet_inv_def coherent_def idle_def)

lemma sweep_keeps_coherent:
  assumes w: "sched_coherent w" and run: "sweep_expired_leases w = (q, w')"
  shows "sched_coherent w'"
proof -
  let ?now = "utc_text (utc_clock (plat w) (clock_draws w))"
  let ?rows = "filter (lease_expired ?now) (assignments (current w))"
  let ?L = "asg_id ` set ?rows"
  let ?v = "w\<lparr>in_tx := False, committed := current w\<rparr>"
  have q: "quiet_ok ?v" using w by (simp add: quiet_inv_def coherent_def idle_def)
  have "leased (asg_id a) (current w)" if a: "a \<in> set ?rows" for a
  proof -
    have "asg_lease_token_hash a \<noteq> None" "find_row asg_id (assignments (current w)) (asg_id a) = Some a"
      using a q find_row_Some_iff [of asg_id "assignments (current w)" "asg_id a" a]
      by (auto simp: lease_expired_def quiet_ok_iff sched_ok_def leases_ok_def lease_ok_def refs_ok_def)
    then show ?thesis using quiet_inv_leased [OF q] by (simp add: quiet_inv_def sched_inv_def)
  qed
  then have L: "sched_inv ?L (current w)" using w by (auto simp: coherent_def sched_inv_def)
  have "keeps (on_current (sched_inv ?L)) (for_each expire_assignment ?rows)"
    by (rule keeps_for_each_in) (auto intro: keeps_sched_expire)
  from coherent_sweep [OF this refl run w L] show ?thesis by (simp add: sched_inv_def)
qed

section \<open>Writes behind an open transaction\<close>

text \<open>An operation that cannot succeed, nor commit anything, while a transaction is open.\<close>

definition blocked :: "'a op \<Rightarrow> bool" where
  "blocked m \<longleftrightarrow> (\<forall>w r w'. in_tx w \<longrightarrow> m w = (r, w') \<longrightarrow>
     \<not> (\<exists>x. r = Inr x) \<and> in_tx w' \<and> committed w' = committed w)"

definition stuck :: "tables \<Rightarrow> world \<Rightarrow> bool" where
  "stuck c w \<longleftrightarrow> in_tx w \<and> committed w = c"

lemma blocked_transaction: "blocked (transaction m)"
  by (simp add: blocked_def transaction_def begin_immediate_def run_bnd)

lemma blocked_later:
  assumes m: "\<And>c. keeps (stuck c) m" and f: "\<And>x. blocked (f x)"
  shows "blocked (bnd m f)"
  unfolding blocked_def
proof (intro allI impI)
  fix w r w'
  assume w: "in_tx w" and run: "bnd m f w = (r, w')"
  obtain q u where q: "m w = (q, u)" by fastforce
  have u: "in_tx u" "committed u = committed w"
    using keepsD [OF m [of "committed w"] _ q] w by (simp_all add: stuck_def)
  show "\<not> (\<exists>x. r = Inr x) \<and> in_tx w' \<and> committed w' = committed w"
    using run q u f by (cases q) (auto simp: run_bnd blocked_def)
qed

lemma blocked_now:
  assumes "blocked m"
  shows "blocked (bnd m f)"
  unfolding blocked_def
proof (intro allI impI)
  fix w r w'
  assume w: "in_tx w" and run: "bnd m f w = (r, w')"
  obtain q u where q: "m w = (q, u)" by fastforce
  then obtain e where "q = Inl e" "in_tx u" "committed u = committed w"
    using assms w unfolding blocked_def by (cases q) blast+
  then show "\<not> (\<exists>x. r = Inr x) \<and> in_tx w' \<and> committed w' = committed w" using run q by (auto simp: run_bnd)
qed

lemma blocked_seq: "(\<And>c. keeps (stuck c) m) \<Longrightarrow> blocked n \<Longrightarrow> blocked (seq m n)" "blocked m \<Longrightarrow> blocked (seq m n)"
  unfolding seq_def by (rule blocked_later, assumption+) (rule blocked_now)

lemma blocked_raise: "blocked (raise e)"
  by (simp add: blocked_def)

lemma blockedD:
  "blocked m \<Longrightarrow> in_tx w \<Longrightarrow> m w = (r, w') \<Longrightarrow> (\<exists>e. r = Inl e) \<and> in_tx w' \<and> committed w' = committed w"
  unfolding blocked_def by (metis obj_sumE)

lemma keeps_stuck [keeps_intro]:
  "keeps (stuck c) draw_uuid" "keeps (stuck c) utc_now" "keeps (stuck c) utc_text_now" "keeps (stuck c) new_lease_token"
  by (simp_all add: keeps_def stuck_def)

lemma keeps_stuck_steps [keeps_intro]:
  "keeps (stuck c) (lease_expiry ms)" "keeps (stuck c) (lease_token_hash t)" "keeps (stuck c) (result_from_output late a out)"
  unfolding lease_expiry_def lease_token_hash_def result_from_output_def Let_def by (intro keeps_intro)+

lemma blocked_operations:
  "blocked (record_worker_heartbeat v st)" "blocked (accept_assignment i v n ms)" "blocked (reject_assignment i v)"
  "blocked (progress_assignment i v tok n ms)" "blocked (submit_result validate i v tok th out env)"
  unfolding record_worker_heartbeat_def accept_assignment_def reject_assignment_def progress_assignment_def submit_result_def
  by (intro blocked_later blocked_seq(1) blocked_transaction blocked_now [OF blocked_transaction]
      blocked_seq(2) [OF blocked_transaction] keeps_intro)+

section \<open>Reachable states\<close>

lemma step_keeps_coherent: "sched_step validate w w' \<Longrightarrow> sched_coherent w \<Longrightarrow> sched_coherent w'"
proof (erule sched_stepE)
  fix c r
  assume run: "run_command validate c w = (r, w')" and w: "sched_coherent w"
  have "keeps (settled (sched_inv {})) (run_command validate c)"
    using keeps_quiet_command by (simp add: quiet_settled)
  from coherent_command(1) [OF this run w] show ?thesis .
qed (rule sweep_keeps_coherent)

lemma reach_keeps_coherent: "sched_reach validate w0 w \<Longrightarrow> quiet_ok w0 \<Longrightarrow> sched_coherent w"
  by (induction rule: sched_reach.induct) (auto simp: quiet_coherent intro: step_keeps_coherent)

lemma reach_trans: "sched_reach validate w1 w2 \<Longrightarrow> sched_reach validate w0 w1 \<Longrightarrow> sched_reach validate w0 w2"
  by (induction rule: sched_reach.induct) (auto intro: sched_reach.step)

text \<open>A transaction is open in a reachable state only because a run of the sweeper raised before.\<close>

lemma reach_open:
  assumes "sched_reach validate w0 w" and "quiet_ok w0" and "in_tx w"
  shows "\<exists>u u' e. sched_reach validate w0 u \<and> sweep_expired_leases u = (Inl e, u') \<and> sched_reach validate u' w"
  using assms
proof (induction rule: sched_reach.induct)
  case start
  then show ?case by (simp add: quiet_coherent)
next
  case (step w w')
  have w: "sched_coherent w" using reach_keeps_coherent step.hyps(1) step.prems(1) by blast
  show ?case
  proof (cases "in_tx w")
    case True
    then show ?thesis using step.IH step.prems(1) step.hyps(2) sched_reach.step by blast
  next
    case False
    from step.hyps(2) show ?thesis
    proof (cases rule: sched_step.cases)
      case (command c r)
      have "settled (sched_inv {}) w" using w False by (simp add: settled_coherent)
      then have "idle w'" using atomic_command command by (auto simp: atomic_def settled_def)
      then show ?thesis using step.prems by (simp add: idle_def)
    next
      case (sweep q)
      then obtain e where "sweep_expired_leases w = (Inl e, w')"
        using sweep_returns_idle [OF _] step.prems(2) by (cases q) auto
      then show ?thesis using step.hyps(1) sched_reach.start by blast
    qed
  qed
qed

section \<open>Statements only add to the history\<close>

lemma rows_grow_refl [simp]: "(\<And>x. R x x) \<Longrightarrow> rows_grow R xs xs"
  by (simp add: rows_grow_def list_all2_same)

lemma rows_grow_length: "rows_grow R xs ys \<Longrightarrow> length xs \<le> length ys"
  unfolding rows_grow_def by (drule list_all2_lengthD) simp

lemma rows_grow_append [simp]: "rows_grow R xs ys \<Longrightarrow> rows_grow R xs (ys @ zs)"
  using rows_grow_length [of R xs ys] by (simp add: rows_grow_def)

lemma rows_grow_map:
  assumes "rows_grow R xs ys" and "\<And>x y. y \<in> set ys \<Longrightarrow> R x y \<Longrightarrow> R x (g y)"
  shows "rows_grow R xs (map g ys)"
proof -
  have "R (xs ! i) (g (ys ! i))" if "i < length xs" for i
    using that assms rows_grow_length [OF assms(1)]
    by (auto simp: rows_grow_def list_all2_conv_all_nth)
  then show ?thesis
    using rows_grow_length [OF assms(1)] by (simp add: rows_grow_def list_all2_conv_all_nth)
qed

lemma rows_grow_trans:
  assumes "rows_grow R xs ys" and "rows_grow R ys zs" and "\<And>x y z. R x y \<Longrightarrow> R y z \<Longrightarrow> R x z"
  shows "rows_grow R xs zs"
  using assms unfolding rows_grow_def list_all2_conv_all_nth by fastforce

lemma tables_grow_refl [simp]: "tables_grow t t"
  by (simp add: tables_grow_def attempt_grows_def assignment_grows_def)

lemma tables_grow_trans: "tables_grow t u \<Longrightarrow> tables_grow u v \<Longrightarrow> tables_grow t v"
  unfolding tables_grow_def
  by (auto intro: rows_grow_trans [where R = attempt_grows] rows_grow_trans [where R = assignment_grows]
      rows_grow_trans [where R = "(=)"] simp: attempt_grows_def assignment_grows_def)

lemma keeps_grown_enqueue [keeps_intro]: "keeps (on_current (grown_from c)) (enqueue_event e)"
  unfolding enqueue_event_def
  by (intro keeps_intro keeps_execute_current) (auto simp: insert_event_Inr grown_from_def tables_grow_def)

lemma keeps_grown_emit [keeps_intro]: "keeps (on_current (grown_from c)) (emit ty subj bod wu att asg)"
  unfolding emit_def by (intro keeps_intro)

lemma keeps_grown_work_unit_status [keeps_intro]:
  "keeps (on_current (grown_from c)) (update_work_unit_status i st actor ty)"
  unfolding update_work_unit_status_def
  by (intro keeps_intro keeps_execute_current) (auto simp: grown_from_def tables_grow_def keys_update_row)

lemma keeps_grown_update_attempt:
  "(\<And>x. attempt_grows x (f x)) \<Longrightarrow> keeps (on_current (grown_from c)) (update_attempt i f)"
  unfolding update_attempt_def update_row_def
  by (rule keeps_execute_current)
    (auto simp: grown_from_def tables_grow_def attempt_grows_def intro!: rows_grow_map)

lemma grown_from_assignments:
  assumes "grown_from c t" and grows: "\<And>x. x \<in> set (assignments t) \<Longrightarrow> assignment_grows x (g x)"
  shows "grown_from c (t\<lparr>assignments := map g (assignments t)\<rparr>)"
proof -
  have "map asg_id (map g (assignments t)) = map asg_id (assignments t)"
    using grows by (auto simp: assignment_grows_def asg_links_def)
  then have "pk_unique asg_id (map g (assignments t))"
    using assms(1) unfolding grown_from_def pk_unique_def by metis
  moreover have "rows_grow assignment_grows (assignments c) (map g (assignments t))"
    by (rule rows_grow_map) (use assms in \<open>force simp: grown_from_def tables_grow_def assignment_grows_def\<close>)+
  ultimately show ?thesis using assms(1) by (auto simp: grown_from_def tables_grow_def)
qed

lemma keeps_grown_update_assignment:
  "(\<And>x. assignment_grows x (f x)) \<Longrightarrow> keeps (on_current (grown_from c)) (update_assignment i f)"
  unfolding update_assignment_def update_row_def
  by (rule keeps_execute_current)
    (auto simp: assignment_grows_def intro!: grown_from_assignments)

lemma keeps_grown_conditional_update:
  "keeps (on_current (grown_from c)) (conditional_assignment_update i v st x h p a d)"
proof -
  have "grown_from c (conditional_rows i v (lease_update st (asg_lease_version r + 1) x h p a d now) t)"
    if t: "grown_from c t" and r: "find_row asg_id (assignments t) i = Some r" for r now t
  proof -
    have same: "b = r" if "b \<in> set (assignments t)" "asg_id b = i" for b
      using that r t find_row_Some_iff [of asg_id "assignments t" i b] by (auto simp: grown_from_def)
    show ?thesis
      unfolding conditional_rows_def
      by (rule grown_from_assignments [OF t]) (auto simp: assignment_grows_def dest!: same)
  qed
  then show ?thesis by (auto simp: keeps_def run_conditional_update Let_def split: option.split)
qed

lemma keeps_grown_inserts [keeps_intro]:
  "keeps (on_current (grown_from c)) (execute (insert_attempt r1))"
  "keeps (on_current (grown_from c)) (execute (insert_assignment r2))"
  "keeps (on_current (grown_from c)) (execute (insert_result r3))"
  "keeps (on_current (grown_from c)) (execute (insert_quarantine r4))"
  "keeps (on_current (grown_from c)) (execute (insert_worker_health r5))"
  by (rule keeps_execute_current, auto simp: insert_attempt_def insert_assignment_def insert_result_def
      insert_quarantine_def insert_worker_health_def insert_row_Inr grown_from_def tables_grow_def
      has_row_def)+

section \<open>Every command only adds to the history\<close>

lemmas grown_rules = keeps_settled_transaction keeps_grown_update_attempt keeps_grown_update_assignment
  keeps_grown_conditional_update
lemmas grows_defs = attempt_grows_def assignment_grows_def att_links_def asg_links_def

lemma keeps_grown_create_attempt [keeps_intro]:
  "keeps (settled (grown_from c)) (create_attempt w r p st ty)"
  unfolding create_attempt_def Let_def by (intro keeps_intro grown_rules)

lemma keeps_grown_schedule:
  "keeps (settled (grown_from c)) (schedule_retry i)" "keeps (settled (grown_from c)) (schedule_fallback i)"
  unfolding schedule_retry_def schedule_fallback_def by (intro keeps_intro)+

lemma keeps_grown_create_assignment [keeps_intro]:
  "keeps (settled (grown_from c)) (create_assignment i v n b bc ec)"
  unfolding create_assignment_def Let_def
  by (intro keeps_intro grown_rules) (simp_all add: grows_defs)

lemma keeps_grown_assign_next_work: "keeps (settled (grown_from c)) (assign_next_work v)"
proof -
  have "keeps (settled (grown_from c)) (case xs of [] \<Rightarrow> ret None
      | b # bs \<Rightarrow> bnd (create_assignment i v n b None None) (\<lambda>x. ret (Some x)))" for xs i n
    by (cases xs) (auto intro: keeps_intro)
  then show ?thesis unfolding assign_next_work_def by (intro keeps_intro)
qed

lemma keeps_grown_lease:
  "keeps (settled (grown_from c)) (accept_assignment i v e ms)"
  "keeps (settled (grown_from c)) (reject_assignment i v)"
  "keeps (settled (grown_from c)) (progress_assignment i v tok e ms)"
  unfolding accept_assignment_def reject_assignment_def progress_assignment_def
  by (intro keeps_intro grown_rules; simp add: grows_defs)+

lemma keeps_grown_submit:
  "keeps (settled (grown_from c)) (submit_result validate i v tok th out env)"
  unfolding submit_result_def quarantine_late_result_def complete_assignment_def
  by (intro keeps_intro grown_rules) (simp_all add: grows_defs)

lemma keeps_grown_reads:
  "keeps (settled (grown_from c)) (poll_next_assignment v)"
  "keeps (settled (grown_from c)) (record_worker_heartbeat v st)"
  unfolding poll_next_assignment_def record_worker_heartbeat_def Let_def
  by (intro keeps_intro grown_rules)+

lemmas keeps_grown_operations = keeps_grown_create_attempt keeps_grown_schedule
  keeps_grown_create_assignment keeps_grown_assign_next_work keeps_grown_lease keeps_grown_submit
  keeps_grown_reads

lemma keeps_grown_command: "keeps (settled (grown_from c)) (run_command validate cmd)"
  by (cases cmd) (auto intro: keeps_discard keeps_grown_operations)

lemma keeps_grown_expire: "keeps (on_current (grown_from c)) (expire_assignment a)"
  unfolding expire_assignment_def update_assignment_def [symmetric]
  by (intro keeps_intro grown_rules) (simp add: grows_defs)

lemma sweep_grown:
  assumes "sweep_expired_leases w = (q, w')" and "coherent (grown_from c) w"
  shows "coherent (grown_from c) w'"
proof -
  have "keeps (on_current (grown_from c)) (for_each expire_assignment rows)" for rows
    by (intro keeps_intro keeps_grown_expire)
  from coherent_sweep [OF this refl assms] show ?thesis using assms(2) by (simp add: coherent_def)
qed

lemma reach_grown:
  "sched_reach validate w0 w \<Longrightarrow> settled (grown_from c) w0 \<Longrightarrow> coherent (grown_from c) w"
  by (induction rule: sched_reach.induct)
    (auto simp: settled_coherent elim!: sched_stepE intro: coherent_command(1) [OF keeps_grown_command] sweep_grown)

end
