(* ===== verification/Scheduler_Behaviour.thy ===== *)
theory Scheduler_Behaviour
  imports Scheduler_Machine
begin

text \<open>
  What the operations of the scheduler (\<open>src/tokenbank/scheduler/scheduler.py\<close>,
  \<open>scheduler/sweeper.py\<close>) do to the committed tables on each branch: who may act on an assignment,
  how a lease is granted, extended, refused and expired, when a result completes its work unit and
  when it is quarantined.
\<close>

section \<open>Reading the committed tables\<close>

abbreviation assignment_at :: "tables \<Rightarrow> string \<Rightarrow> assignment_row option" where
  "assignment_at t \<equiv> find_row asg_id (assignments t)"

abbreviation attempt_at :: "tables \<Rightarrow> string \<Rightarrow> attempt_row option" where
  "attempt_at t \<equiv> find_row att_id (execution_attempts t)"

abbreviation work_unit_at :: "tables \<Rightarrow> string \<Rightarrow> work_unit_row option" where
  "work_unit_at t \<equiv> find_row wu_id (work_units t)"

definition events_added :: "string list \<Rightarrow> tables \<Rightarrow> tables \<Rightarrow> bool" where
  "events_added tys t t' \<longleftrightarrow>
     (\<exists>es. event_outbox t' = event_outbox t @ es \<and> map ev_type es = tys)"

section \<open>Effects of the statements\<close>

lemma outbox_event_ok:
  "outbox_event src ty subj bod run wu att asg w = (Inr e, w') \<Longrightarrow>
     in_type e = ty \<and> in_assignment_id e = asg \<and> current w' = current w \<and> plat w' = plat w"
  by (auto simp: outbox_event_def bnd_ok_iff)

lemma enqueue_plat: "enqueue_event e w = (Inr x, w') \<Longrightarrow> plat w' = plat w"
  by (auto simp: enqueue_event_def bnd_ok_iff seq_ok_iff run_execute split: sum.splits)

lemma log_event_ok:
  assumes "bnd (outbox_event src ty subj bod run wu att asg) (\<lambda>e. seq (enqueue_event e) (ret ())) w = (Inr x, w')"
  shows "\<exists>r. ev_type r = ty \<and> ev_assignment_id r = asg \<and> plat w' = plat w \<and>
     current w' = (current w)\<lparr>event_outbox := event_outbox (current w) @ [r]\<rparr>"
proof -
  obtain e s y where e: "outbox_event src ty subj bod run wu att asg w = (Inr e, s)"
    and s: "enqueue_event e s = (Inr y, w')"
    using assms by (auto simp: bnd_ok_iff seq_ok_iff)
  obtain now where "current w' = (current s)\<lparr>event_outbox := event_outbox (current s) @
      [event_row_of e (next_sequence (current s)) now]\<rparr>"
    using enqueue_event_ok [OF s] by blast
  then show ?thesis
    using outbox_event_ok [OF e] enqueue_plat [OF s]
    by (intro exI [of _ "event_row_of e (next_sequence (current s)) now"]) (simp add: event_row_of_def)
qed

lemma emit_ok:
  assumes "emit ty subj bod wu att asg w = (Inr x, w')"
  shows "\<exists>r. ev_type r = ty \<and> ev_assignment_id r = asg \<and> plat w' = plat w \<and>
     current w' = (current w)\<lparr>event_outbox := event_outbox (current w) @ [r]\<rparr>"
  using log_event_ok assms unfolding emit_def by blast

lemma update_work_unit_status_ok:
  assumes "update_work_unit_status i st actor (Some ty) w = (Inr x, w')" and "ty \<noteq> []"
  shows "\<exists>now r. ev_type r = ty \<and> plat w' = plat w \<and> current w' = (current w)\<lparr>work_units := update_row wu_id i
           (\<lambda>u. u\<lparr>wu_status := st, wu_updated_at := now\<rparr>) (work_units (current w)),
           event_outbox := event_outbox (current w) @ [r]\<rparr>"
proof -
  define t where "t = utc_text (utc_clock (plat w) (clock_draws w))"
  let ?us = "update_row wu_id i (\<lambda>u. u\<lparr>wu_status := st, wu_updated_at := t\<rparr>) (work_units (current w))"
  let ?w = "w\<lparr>clock_draws := Suc (clock_draws w), in_tx := True, current := (current w)\<lparr>work_units := ?us\<rparr>\<rparr>"
  obtain subj bod where "bnd (outbox_event ''tokenbank.scheduler.lifecycle'' ty subj bod None (Some i) None None)
      (\<lambda>e. seq (enqueue_event e) (ret ())) ?w = (Inr x, w')"
    using assms by (auto simp: update_work_unit_status_def run_bnd run_seq run_execute t_def
        split: option.splits if_splits)
  from log_event_ok [OF this] show ?thesis by auto
qed

lemma conditional_update_ok:
  assumes run: "conditional_assignment_update i v st x h p a c w = (Inr u, w')"
    and pk: "pk_unique asg_id (assignments (current w))"
  shows "\<exists>r now. assignment_at (current w) i = Some r \<and> asg_lease_version r = v \<and>
     u = lease_update st (v + 1) x h p a c now r \<and> plat w' = plat w \<and>
     current w' = (current w)\<lparr>assignments := update_row asg_id i (\<lambda>_. u) (assignments (current w))\<rparr>"
proof -
  obtain r where r: "assignment_at (current w) i = Some r"
    using run by (auto simp: run_conditional_update split: option.splits)
  define now where "now = utc_text (utc_clock (plat w) (clock_draws w))"
  let ?f = "lease_update st (asg_lease_version r + 1) x h p a c now"
  have w': "w' = w\<lparr>clock_draws := Suc (clock_draws w), in_tx := True,
      current := conditional_rows i v ?f (current w)\<rparr>"
    and u: "assignment_at (conditional_rows i v ?f (current w)) i = Some u"
    and some: "filter (\<lambda>a. asg_id a = i \<and> asg_lease_version a = v) (assignments (current w)) \<noteq> []"
    using run r by (auto simp: run_conditional_update Let_def now_def split: option.splits if_splits)
  have only: "b = r" if "b \<in> set (assignments (current w))" "asg_id b = i" for b
    using that r find_row_Some_iff [OF pk, of i b] by simp
  have v: "asg_lease_version r = v" using some only by (auto simp: filter_empty_conv)
  have rows: "conditional_rows i v ?f (current w)
      = (current w)\<lparr>assignments := update_row asg_id i (\<lambda>_. ?f r) (assignments (current w))\<rparr>"
    using only v by (auto simp: conditional_rows_def update_row_def)
  have "asg_id r = i" using r by (auto dest: find_row_SomeD)
  then have "u = ?f r" using u r by (simp add: rows find_row_update)
  then show ?thesis using r v w' rows by auto
qed

lemma update_statement_run:
  "update_attempt i f w = (Inr (), w\<lparr>in_tx := True, current := (current w)\<lparr>execution_attempts :=
     update_row att_id i f (execution_attempts (current w))\<rparr>\<rparr>)"
  "update_assignment i g w = (Inr (), w\<lparr>in_tx := True, current := (current w)\<lparr>assignments :=
     update_row asg_id i g (assignments (current w))\<rparr>\<rparr>)"
  by (simp_all add: update_attempt_def update_assignment_def run_execute)

lemma sched_ok_parts:
  assumes "sched_ok t"
  shows "pk_unique asg_id (assignments t)" "pk_unique att_id (execution_attempts t)"
    and "assignment_at t i = Some a \<Longrightarrow> attempt_at t (asg_attempt_id a) \<noteq> None"
    and "assignment_at t i = Some a \<Longrightarrow> work_unit_at t (asg_work_unit_id a) \<noteq> None"
  using assms by (auto simp: sched_ok_def refs_ok_def has_row_find dest!: find_row_SomeD)

lemma lease_expiry_ok_iff:
  "lease_expiry ms w = (Inr x, w') \<longleftrightarrow>
     w' = w\<lparr>clock_draws := Suc (clock_draws w)\<rparr> \<and>
     (\<exists>d. add_milliseconds (utc_clock (plat w) (clock_draws w)) ms = Inr d \<and> x = utc_text d)"
  by (auto simp: lease_expiry_def bnd_ok_iff)

lemma idle_draws [simp]:
  "idle (w\<lparr>clock_draws := n\<rparr>) = idle w" "idle (w\<lparr>token_draws := n\<rparr>) = idle w"
  "idle (w\<lparr>uuid_draws := n\<rparr>) = idle w"
  by (simp_all add: idle_def)

section \<open>Granting a lease\<close>

lemma accept_ok:
  assumes quiet: "quiet_ok w" and run: "accept_assignment i v e ms w = (Inr l, w')"
  shows "\<exists>a b. assignment_at (committed w) i = Some a \<and> asg_worker_id a = v \<and>
      asg_status a = Asg_created \<and> asg_lease_version a = e \<and> asg_lease_token_hash a = None \<and>
      assignment_at (committed w') i = Some b \<and> asg_status b = Asg_accepted \<and>
      asg_links b = asg_links a \<and> asg_lease_version b = e + 1 \<and> al_lease_version l = e + 1 \<and>
      asg_lease_token_hash b = Some (assignment_lease_token_hash (sha256 (plat w)) (al_lease_token l)) \<and>
      asg_lease_expires_at b = Some (al_lease_expires_at l) \<and>
      map_option att_status (attempt_at (committed w') (asg_attempt_id a)) = Some Att_running \<and>
      map_option wu_status (work_unit_at (committed w') (asg_work_unit_id a)) = Some WU_running \<and>
      events_added [''work_unit.running'', ''assignment.accepted''] (committed w) (committed w')"
proof -
  note ok = quiet [unfolded quiet_ok_iff]
  have cur: "current w = committed w" using ok by (simp add: idle_def)
  obtain a where a: "assignment_at (committed w) i = Some a" "asg_worker_id a = v" "asg_status a = Asg_created"
    using run cur by (auto simp: accept_assignment_def bnd_ok_iff seq_ok_iff assignment_for_worker_ok_iff
        split: if_splits)
  have links: "asg_id a = i" "asg_lease_token_hash a = None"
      "attempt_at (committed w) (asg_attempt_id a) \<noteq> None"
      "work_unit_at (committed w) (asg_work_unit_id a) \<noteq> None"
    using sched_ok_parts(3,4) [of "committed w" i a] ok a
    by (auto simp: sched_ok_def leases_ok_def lease_ok_def dest!: find_row_SomeD)
  show ?thesis
    using run ok a links cur
    apply (clarsimp simp: accept_assignment_def bnd_ok_iff seq_ok_iff assignment_for_worker_ok_iff
       lease_expiry_ok_iff transaction_ok_iff update_statement_run split: if_splits)
    apply (drule conditional_update_ok, simp add: sched_ok_parts)
    apply (drule update_work_unit_status_ok, simp)
    apply (drule emit_ok)
    apply (auto simp: find_row_update commit_def events_added_def lease_update_def asg_links_def)
    done
qed

lemma accept_not_created:
  assumes "assignment_at (current w) i = Some a" and "asg_worker_id a = v" and "asg_status a \<noteq> Asg_created"
  shows "accept_assignment i v e ms w = (Inl (LeaseConflictError ''assignment is not in created status''), w)"
  using assms by (simp add: accept_assignment_def assignment_for_worker_def run_bnd run_seq)

section \<open>Extending a lease\<close>

lemma progress_ok:
  assumes quiet: "quiet_ok w" and run: "progress_assignment i v tok e ms w = (Inr l, w')"
  shows "\<exists>a b raw. assignment_at (committed w) i = Some a \<and> asg_worker_id a = v \<and>
      tok = Some raw \<and> asg_lease_token_hash a = Some (assignment_lease_token_hash (sha256 (plat w)) raw) \<and>
      asg_lease_version a = e \<and>
      assignment_at (committed w') i = Some b \<and> asg_status b = Asg_running \<and> asg_lease_version b = e + 1 \<and>
      asg_lease_token_hash b = asg_lease_token_hash a \<and>
      pl_lease_version l = e + 1 \<and> asg_lease_expires_at b = Some (pl_lease_expires_at l) \<and>
      work_units (committed w') = work_units (committed w) \<and>
      execution_attempts (committed w') = execution_attempts (committed w) \<and>
      events_added [''assignment.progress''] (committed w) (committed w')"
proof -
  note ok = quiet [unfolded quiet_ok_iff]
  have cur: "current w = committed w" using ok by (simp add: idle_def)
  obtain a where a: "assignment_at (committed w) i = Some a" "asg_worker_id a = v" "asg_id a = i"
    using run cur by (auto simp: progress_assignment_def bnd_ok_iff seq_ok_iff assignment_for_worker_ok_iff
        dest: find_row_SomeD)
  show ?thesis
    using run ok a cur
    apply (clarsimp simp: progress_assignment_def bnd_ok_iff seq_ok_iff assignment_for_worker_ok_iff
       verify_lease_token_ok_iff lease_expiry_ok_iff transaction_ok_iff)
    apply (drule conditional_update_ok, simp add: sched_ok_parts)
    apply (drule emit_ok)
    apply (auto simp: find_row_update commit_def events_added_def lease_update_def)
    done
qed

text \<open>A version other than the stored one conflicts, whatever else is right about the request.\<close>

lemma conditional_update_stale:
  assumes "assignment_at (current w) i = Some a" and "pk_unique asg_id (assignments (current w))"
    and "asg_lease_version a \<noteq> v"
  shows "fst (conditional_assignment_update i v st x h p ac c w)
           = Inl (LeaseConflictError ''assignment lease_version conflict'')"
proof -
  have "b = a" if "b \<in> set (assignments (current w))" "asg_id b = i" for b
    using that assms(1) find_row_Some_iff [OF assms(2), of i b] by simp
  then have "filter (\<lambda>a. asg_id a = i \<and> asg_lease_version a = v) (assignments (current w)) = []"
    using assms(3) by (auto simp: filter_empty_conv)
  then show ?thesis using assms(1) by (simp add: run_conditional_update Let_def)
qed

lemma progress_stale:
  assumes quiet: "quiet_ok w"
    and a: "assignment_at (committed w) i = Some a" "asg_worker_id a = v" "asg_lease_version a \<noteq> e"
    and tok: "asg_lease_token_hash a = Some (assignment_lease_token_hash (sha256 (plat w)) raw)" "raw \<noteq> []"
      "assignment_lease_token_hash (sha256 (plat w)) raw \<noteq> []"
    and ms: "add_milliseconds (utc_clock (plat w) (clock_draws w)) ms = Inr d"
  shows "fst (progress_assignment i v (Some raw) e ms w)
           = Inl (LeaseConflictError ''assignment lease_version conflict'')"
proof -
  note ok = quiet [unfolded quiet_ok_iff]
  have cur: "current w = committed w" "idle w" using ok by (simp_all add: idle_def)
  let ?w = "w\<lparr>clock_draws := Suc (clock_draws w)\<rparr>"
  have v: "verify_lease_token (asg_lease_token_hash a) (Some raw) w = (Inr (), w)"
    using tok by (simp add: verify_lease_token_ok_iff)
  have x: "lease_expiry ms w = (Inr (utc_text d), ?w)" using ms by (simp add: lease_expiry_ok_iff)
  have c: "fst (conditional_assignment_update i e Asg_running (Some (utc_text d)) None None None None
      (?w\<lparr>in_tx := True\<rparr>)) = Inl (LeaseConflictError ''assignment lease_version conflict'')"
    using a cur ok by (intro conditional_update_stale) (auto simp: sched_ok_parts)
  obtain s where s: "conditional_assignment_update i e Asg_running (Some (utc_text d)) None None None None
      (?w\<lparr>in_tx := True\<rparr>) = (Inl (LeaseConflictError ''assignment lease_version conflict''), s)"
    using c by (metis fst_conv surj_pair)
  show ?thesis
    using a cur v x s
    by (simp add: progress_assignment_def assignment_for_worker_def run_bnd run_seq transaction_def
        begin_immediate_def idle_def)
qed

section \<open>Rejecting an assignment\<close>

lemma reject_ok:
  assumes quiet: "quiet_ok w" and run: "reject_assignment i v w = (Inr x, w')"
  shows "\<exists>a b. assignment_at (committed w) i = Some a \<and> asg_worker_id a = v \<and>
      assignment_at (committed w') i = Some b \<and> asg_status b = Asg_rejected \<and>
      asg_lease_version b = asg_lease_version a \<and>
      map_option att_status (attempt_at (committed w') (asg_attempt_id a)) = Some Att_failed \<and>
      work_units (committed w') = work_units (committed w) \<and>
      events_added [''assignment.rejected''] (committed w) (committed w')"
proof -
  note ok = quiet [unfolded quiet_ok_iff]
  have cur: "current w = committed w" using ok by (simp add: idle_def)
  obtain a where a: "assignment_at (committed w) i = Some a" "asg_worker_id a = v"
    using run cur by (auto simp: reject_assignment_def bnd_ok_iff seq_ok_iff assignment_for_worker_ok_iff)
  have links: "attempt_at (committed w) (asg_attempt_id a) \<noteq> None"
    using sched_ok_parts(3) [of "committed w" i a] ok a by auto
  show ?thesis
    using run ok a cur links
    apply (clarsimp simp: reject_assignment_def bnd_ok_iff seq_ok_iff assignment_for_worker_ok_iff
       transaction_ok_iff update_statement_run)
    apply (drule emit_ok)
    apply (auto simp: find_row_update commit_def events_added_def)
    done
qed

section \<open>New attempts\<close>

lemma create_attempt_ok:
  assumes quiet: "quiet_ok w" and run: "create_attempt wu rp pd st ty w = (Inr i, w')"
  shows "\<exists>a. execution_attempts (committed w') = execution_attempts (committed w) @ [a] \<and>
      att_id a = i \<and> att_work_unit_id a = wu \<and> att_route_plan_id a = rp \<and> att_policy_decision_id a = pd \<and>
      att_status a = st \<and> att_number a = next_attempt_number (committed w) wu \<and>
      attempt_at (committed w) i = None \<and> assignments (committed w') = assignments (committed w) \<and>
      result_envelopes (committed w') = result_envelopes (committed w) \<and>
      result_quarantine (committed w') = result_quarantine (committed w) \<and> plat w' = plat w \<and>
      events_added [ty] (committed w) (committed w')"
proof -
  note ok = quiet [unfolded quiet_ok_iff]
  have cur: "current w = committed w" using ok by (simp add: idle_def)
  show ?thesis
    using run ok cur
    apply (clarsimp simp: create_attempt_def Let_def bnd_ok_iff seq_ok_iff transaction_ok_iff run_execute
       insert_attempt_def insert_row_Inr split: sum.splits)
    apply (drule emit_ok)
    apply (auto simp: commit_def events_added_def find_row_None_iff)
    done
qed

section \<open>Results\<close>

text \<open>
  The part of a submission before its transaction: the assignment belongs to the worker, the lease
  token is right, and the result to store was built. It changes no table.
\<close>

definition submission_checked ::
  "validator \<Rightarrow> string \<Rightarrow> string \<Rightarrow> string option \<Rightarrow> string option \<Rightarrow> json \<Rightarrow> envelope_arg
   \<Rightarrow> world \<Rightarrow> assignment_row \<Rightarrow> bool \<Rightarrow> bool" where
  "submission_checked validate i v tok th out env w a late \<longleftrightarrow>
     assignment_at (committed w) i = Some a \<and> asg_worker_id a = v \<and>
     (case th of
        Some h \<Rightarrow> h \<noteq> [] \<and> asg_lease_token_hash a = Some h
      | None \<Rightarrow> \<exists>raw. tok = Some raw \<and>
          asg_lease_token_hash a = Some (assignment_lease_token_hash (sha256 (plat w)) raw)) \<and>
     (\<exists>att. attempt_at (committed w) (asg_attempt_id a) = Some att \<and>
        late = newer_attempt_exists (committed w) (att_work_unit_id att) (att_number att))"

lemma result_from_output_ok:
  "result_from_output late a out w = (Inr parts, w') \<Longrightarrow>
     w' = w\<lparr>uuid_draws := Suc (uuid_draws w)\<rparr> \<and> rpt_status parts = (if late then Res_quarantined else Res_succeeded)"
  by (auto simp: result_from_output_def Let_def bnd_ok_iff)

lemma quarantine_ok:
  assumes "quarantine_late_result a rid bod w = (Inr x, w')"
  shows "work_units (current w') = work_units (current w) \<and>
     result_envelopes (current w') = result_envelopes (current w) \<and>
     event_outbox (current w') = event_outbox (current w) \<and>
     (\<exists>now. assignments (current w') = update_row asg_id (asg_id a)
         (\<lambda>r. r\<lparr>asg_status := Asg_quarantined, asg_completed_at := Some now, asg_updated_at := Some now\<rparr>)
         (assignments (current w))) \<and>
     (\<exists>now. execution_attempts (current w') = update_row att_id (asg_attempt_id a)
         (\<lambda>r. r\<lparr>att_status := Att_quarantined, att_completed_at := Some now\<rparr>)
         (execution_attempts (current w))) \<and>
     (\<exists>q. result_quarantine (current w') = result_quarantine (current w) @ [q] \<and>
         quar_result_envelope_id q = Some rid \<and> quar_assignment_id q = asg_id a \<and>
         quar_reason q = ''newer_attempt_exists'')"
  using assms
  by (auto simp: quarantine_late_result_def bnd_ok_iff seq_ok_iff update_statement_run run_execute
      insert_quarantine_def insert_row_Inr split: sum.splits)

lemma complete_ok:
  assumes "complete_assignment a now w = (Inr x, w')"
  shows "result_quarantine (current w') = result_quarantine (current w) \<and>
     result_envelopes (current w') = result_envelopes (current w) \<and>
     assignments (current w') = update_row asg_id (asg_id a)
         (\<lambda>r. r\<lparr>asg_status := Asg_completed, asg_completed_at := Some now, asg_updated_at := Some now\<rparr>)
         (assignments (current w)) \<and>
     execution_attempts (current w') = update_row att_id (asg_attempt_id a)
         (\<lambda>r. r\<lparr>att_status := Att_succeeded, att_completed_at := Some now\<rparr>)
         (execution_attempts (current w)) \<and>
     (\<exists>upd. work_units (current w') = update_row wu_id (asg_work_unit_id a)
         (\<lambda>u. u\<lparr>wu_status := WU_succeeded, wu_updated_at := upd\<rparr>) (work_units (current w))) \<and>
     events_added [''work_unit.succeeded'', ''assignment.completed''] (current w) (current w')"
  using assms
  apply (clarsimp simp: complete_assignment_def seq_ok_iff update_statement_run)
  apply (drule update_work_unit_status_ok, simp)
  apply (drule emit_ok)
  apply (auto simp: events_added_def)
  done

lemma built_result_ok:
  "(case envelope of
      None \<Rightarrow> result_from_output late a out
    | Some e \<Rightarrow> seq (of_result (validate_result_envelope_for_assignment e a)) (ret (result_from_envelope late e))) w
    = (Inr parts, w') \<Longrightarrow>
   (\<exists>n. w' = w\<lparr>uuid_draws := n\<rparr>) \<and> (late \<longrightarrow> rpt_status parts = Res_quarantined)"
  by (cases envelope)
    (auto simp: seq_ok_iff result_from_envelope_def dest!: result_from_output_ok intro: exI [of _ "uuid_draws w"])

lemma lease_checked_ok:
  "(case th of
      None \<Rightarrow> verify_lease_token (asg_lease_token_hash a) tok
    | Some h \<Rightarrow> verify_lease_token_hash (asg_lease_token_hash a) (Some h)) w = (Inr x, w') \<Longrightarrow>
   w' = w \<and> (case th of
        Some h \<Rightarrow> h \<noteq> [] \<and> asg_lease_token_hash a = Some h
      | None \<Rightarrow> \<exists>raw. tok = Some raw \<and>
          asg_lease_token_hash a = Some (assignment_lease_token_hash (sha256 (plat w)) raw))"
  by (auto simp: verify_lease_token_ok_iff verify_lease_token_hash_ok_iff split: option.splits)

lemma insert_result_run_ok:
  "execute (insert_result r) w = (Inr x, w') \<longleftrightarrow>
     w' = w\<lparr>in_tx := True, current := (current w)\<lparr>result_envelopes := result_envelopes (current w) @ [r]\<rparr>\<rparr> \<and>
     res_id r \<notin> res_id ` set (result_envelopes (current w)) \<and>
     has_row wu_id (work_units (current w)) (res_work_unit_id r) \<and>
     has_row asg_id (assignments (current w)) (res_assignment_id r)"
  by (auto simp: run_execute insert_result_def insert_row_Inr split: sum.splits)
    (auto simp: insert_row_def fk_check_def split: if_splits)

lemma submit_ok:
  assumes quiet: "quiet_ok w" and run: "submit_result validate i v tok th out env w = (Inr s, w')"
  shows "\<exists>a late r.
     submission_checked validate i v tok th out env w a late \<and>
     result_envelopes (committed w') = result_envelopes (committed w) @ [r] \<and>
     res_id r = sr_result_envelope_id s \<and> res_assignment_id r = i \<and> res_status r = sr_status s \<and>
     res_output_hash r = sr_output_hash s \<and> res_result_hash r = sr_result_hash s \<and>
     (if late then
        sr_status s = Res_quarantined \<and>
        map_option asg_status (assignment_at (committed w') i) = Some Asg_quarantined \<and>
        map_option att_status (attempt_at (committed w') (asg_attempt_id a)) = Some Att_quarantined \<and>
        work_units (committed w') = work_units (committed w) \<and>
        (\<exists>q. result_quarantine (committed w') = result_quarantine (committed w) @ [q] \<and>
           quar_result_envelope_id q = Some (sr_result_envelope_id s) \<and> quar_assignment_id q = i \<and>
           quar_reason q = ''newer_attempt_exists'') \<and>
        events_added [''result.quarantined''] (committed w) (committed w')
      else
        map_option asg_status (assignment_at (committed w') i) = Some Asg_completed \<and>
        map_option att_status (attempt_at (committed w') (asg_attempt_id a)) = Some Att_succeeded \<and>
        map_option wu_status (work_unit_at (committed w') (asg_work_unit_id a)) = Some WU_succeeded \<and>
        result_quarantine (committed w') = result_quarantine (committed w) \<and>
        events_added [''work_unit.succeeded'', ''assignment.completed'', ''result.submitted'']
          (committed w) (committed w'))"
proof -
  note ok = quiet [unfolded quiet_ok_iff]
  have cur: "current w = committed w" "idle w" using ok by (simp_all add: idle_def)
  obtain a where a: "assignment_at (committed w) i = Some a" "asg_id a = i"
    using run cur by (auto simp: submit_result_def bnd_ok_iff assignment_for_worker_ok_iff dest: find_row_SomeD)
  have links: "attempt_at (committed w) (asg_attempt_id a) \<noteq> None"
      "work_unit_at (committed w) (asg_work_unit_id a) \<noteq> None"
    using sched_ok_parts(3,4) [of "committed w" i a] ok a by auto
  show ?thesis
    using run cur a links
    apply (clarsimp simp: submit_result_def bnd_ok_iff seq_ok_iff assignment_for_worker_ok_iff
        attempt_by_id_ok_iff)
    apply (drule lease_checked_ok)
    apply (clarsimp)
    apply (drule built_result_ok)
    apply (clarsimp simp: transaction_ok_iff seq_ok_iff insert_result_run_ok)
    apply (drule emit_ok)
    apply (clarsimp split: if_splits)
    apply (drule quarantine_ok)
    apply (fastforce simp: submission_checked_def find_row_update commit_def events_added_def)
    apply (drule complete_ok)
    apply (fastforce simp: submission_checked_def find_row_update commit_def events_added_def)
    done
qed

section \<open>The sweeper\<close>

definition expired_row :: "bool \<Rightarrow> assignment_row \<Rightarrow> assignment_row \<Rightarrow> bool" where
  "expired_row late a b \<longleftrightarrow>
     (if late then \<exists>now. b = a\<lparr>asg_status := Asg_expired, asg_updated_at := Some now\<rparr> else b = a)"

lemma expire_ok:
  assumes "expire_assignment a w = (Inr x, w')"
  shows "\<exists>now r. ev_type r = ''assignment.expired'' \<and> ev_assignment_id r = Some (asg_id a) \<and>
     current w' = (current w)\<lparr>assignments := update_row asg_id (asg_id a)
       (\<lambda>b. b\<lparr>asg_status := Asg_expired, asg_updated_at := Some now\<rparr>) (assignments (current w)),
       event_outbox := event_outbox (current w) @ [r]\<rparr>"
proof -
  define t where "t = utc_text (utc_clock (plat w) (clock_draws w))"
  let ?rows = "update_row asg_id (asg_id a) (\<lambda>b. b\<lparr>asg_status := Asg_expired, asg_updated_at := Some t\<rparr>)
    (assignments (current w))"
  let ?w = "w\<lparr>clock_draws := Suc (clock_draws w), in_tx := True, current := (current w)\<lparr>assignments := ?rows\<rparr>\<rparr>"
  obtain subj bod where "bnd (outbox_event ''tokenbank.scheduler.sweeper'' ''assignment.expired'' subj bod None
      (Some (asg_work_unit_id a)) (Some (asg_attempt_id a)) (Some (asg_id a)))
      (\<lambda>e. seq (enqueue_event e) (ret ())) ?w = (Inr x, w')"
    using assms by (auto simp: expire_assignment_def run_bnd run_seq run_execute t_def)
  from log_event_ok [OF this] show ?thesis by auto
qed

lemma expire_all_ok:
  assumes "for_each expire_assignment rows w = (Inr x, w')"
  shows "list_all2 (\<lambda>a b. expired_row (asg_id a \<in> asg_id ` set rows) a b)
           (assignments (current w)) (assignments (current w')) \<and>
         (\<exists>es. event_outbox (current w') = event_outbox (current w) @ es \<and>
           map ev_type es = replicate (length rows) ''assignment.expired'' \<and>
           map ev_assignment_id es = map (\<lambda>a. Some (asg_id a)) rows) \<and>
         work_units (current w') = work_units (current w) \<and>
         execution_attempts (current w') = execution_attempts (current w)"
  using assms
proof (induction rows arbitrary: w)
  case Nil
  then show ?case by (simp add: expired_row_def list_all2_same)
next
  case (Cons a rows)
  then obtain y u where u: "expire_assignment a w = (Inr y, u)" "for_each expire_assignment rows u = (Inr x, w')"
    by (auto simp: seq_ok_iff)
  obtain now r where r: "ev_type r = ''assignment.expired''" "ev_assignment_id r = Some (asg_id a)"
    and cu: "current u = (current w)\<lparr>assignments := update_row asg_id (asg_id a)
       (\<lambda>b. b\<lparr>asg_status := Asg_expired, asg_updated_at := Some now\<rparr>) (assignments (current w)),
       event_outbox := event_outbox (current w) @ [r]\<rparr>"
    using expire_ok [OF u(1)] by blast
  have one: "list_all2 (\<lambda>b c. expired_row (asg_id b = asg_id a) b c) (assignments (current w)) (assignments (current u))"
    by (auto simp: cu update_row_def list_all2_map2 list_all2_same expired_row_def)
  have join: "expired_row (asg_id b \<in> insert (asg_id a) (asg_id ` set rows)) b d"
    if "expired_row (asg_id b = asg_id a) b c" "expired_row (asg_id c \<in> asg_id ` set rows) c d" for b c d
    using that by (auto simp: expired_row_def split: if_splits)
  have "list_all2 (\<lambda>a' b. expired_row (asg_id a' \<in> asg_id ` set (a # rows)) a' b)
      (assignments (current w)) (assignments (current w'))"
    using list_all2_trans [OF _ one conjunct1 [OF Cons.IH [OF u(2)]]] join by simp
  moreover obtain es where "event_outbox (current w') = event_outbox (current u) @ es"
      "map ev_type es = replicate (length rows) ''assignment.expired''"
      "map ev_assignment_id es = map (\<lambda>a. Some (asg_id a)) rows"
    using Cons.IH [OF u(2)] by blast
  ultimately show ?case using Cons.IH [OF u(2)] r cu by (intro conjI exI [of _ "r # es"]) simp_all
qed

lemma sweep_ok:
  assumes quiet: "quiet_ok w" and run: "sweep_expired_leases w = (Inr n, w')"
  defines "now \<equiv> utc_text (utc_clock (plat w) (clock_draws w))"
  shows "n = length (filter (lease_expired now) (assignments (committed w)))"
    and "list_all2 (\<lambda>a b. expired_row (lease_expired now a) a b) (assignments (committed w)) (assignments (committed w'))"
    and "events_added (replicate n ''assignment.expired'') (committed w) (committed w')"
    and "work_units (committed w') = work_units (committed w)"
    and "execution_attempts (committed w') = execution_attempts (committed w)"
proof -
  let ?rows = "filter (lease_expired now) (assignments (committed w))"
  have cur: "current w = committed w" using quiet by (simp add: quiet_ok_iff idle_def)
  obtain x u where u: "for_each expire_assignment ?rows (w\<lparr>clock_draws := Suc (clock_draws w)\<rparr>) = (Inr x, u)"
    "w' = commit u" "n = length ?rows"
    using run cur by (auto simp: sweep_expired_leases_def bnd_ok_iff seq_ok_iff now_def)
  show "n = length ?rows" by (rule u(3))
  note all = expire_all_ok [OF u(1), simplified, unfolded cur]
  have pk: "pk_unique asg_id (assignments (committed w))"
    using quiet by (simp add: quiet_ok_iff sched_ok_parts)
  have hit: "asg_id a \<in> asg_id ` set ?rows \<longleftrightarrow> lease_expired now a" if "a \<in> set (assignments (committed w))" for a
    using that inj_on_image_mem_iff [of asg_id "set (assignments (committed w))" a "set ?rows"] pk
    by (simp add: pk_unique_def distinct_map)
  show "list_all2 (\<lambda>a b. expired_row (lease_expired now a) a b) (assignments (committed w)) (assignments (committed w'))"
    using all u(2) hit by (auto simp: commit_def elim!: list.rel_mono_strong)
  show "events_added (replicate n ''assignment.expired'') (committed w) (committed w')"
    using all u(2,3) by (auto simp: commit_def events_added_def)
  show "work_units (committed w') = work_units (committed w)"
    "execution_attempts (committed w') = execution_attempts (committed w)"
    using all u(2) by (simp_all add: commit_def)
qed

end
