(* ===== verification/Scheduler_Liveness.thy ===== *)
theory Scheduler_Liveness
  imports Scheduler_Behaviour
begin

text \<open>
  When the operations of the scheduler succeed. Apart from the guards of the code, an operation can
  only fail on an identifier that is already in use; \<open>fresh_ids\<close> says that the identifiers still to
  be drawn from \<open>uuid.uuid4()\<close> are distinct and name no event of the outbox. Under it each
  operation returns exactly when its guards hold.
\<close>

section \<open>Fresh identifiers\<close>

definition fresh_ids :: "world \<Rightarrow> bool" where
  "fresh_ids w \<longleftrightarrow> inj (uuid4_hex (plat w)) \<and>
     (\<forall>k r. uuid_draws w \<le> k \<longrightarrow> r \<in> set (event_outbox (current w)) \<longrightarrow>
        ev_id r \<noteq> ''evt_'' @ uuid4_hex (plat w) k)"

lemma fresh_ids_frame [simp]:
  "fresh_ids (w\<lparr>clock_draws := n\<rparr>) = fresh_ids w" "fresh_ids (w\<lparr>token_draws := n\<rparr>) = fresh_ids w"
  "fresh_ids (w\<lparr>in_tx := b\<rparr>) = fresh_ids w"
  "fresh_ids (w\<lparr>current := (current w)\<lparr>assignments := as\<rparr>\<rparr>) = fresh_ids w"
  "fresh_ids (w\<lparr>current := (current w)\<lparr>execution_attempts := ts\<rparr>\<rparr>) = fresh_ids w"
  "fresh_ids (w\<lparr>current := (current w)\<lparr>work_units := us\<rparr>\<rparr>) = fresh_ids w"
  "fresh_ids (w\<lparr>current := (current w)\<lparr>result_envelopes := rs\<rparr>\<rparr>) = fresh_ids w"
  "fresh_ids (w\<lparr>current := (current w)\<lparr>result_quarantine := qs\<rparr>\<rparr>) = fresh_ids w"
  by (simp_all add: fresh_ids_def)

lemma fresh_ids_draw: "fresh_ids w \<Longrightarrow> fresh_ids (w\<lparr>uuid_draws := Suc (uuid_draws w)\<rparr>)"
  by (auto simp: fresh_ids_def)

lemma next_sequence_fresh: "next_sequence t \<notin> ev_sequence ` set (event_outbox t)"
proof
  assume "next_sequence t \<in> ev_sequence ` set (event_outbox t)"
  then have "next_sequence t \<in> set (map ev_sequence (event_outbox t))" by simp
  from coalesce_max_ge [OF this] show False by (simp add: next_sequence_def)
qed

definition logs :: "unit op \<Rightarrow> bool" where
  "logs m \<longleftrightarrow> (\<forall>w. fresh_ids w \<longrightarrow> (\<exists>w' r. m w = (Inr (), w') \<and> fresh_ids w' \<and> plat w' = plat w \<and>
     current w' = (current w)\<lparr>event_outbox := event_outbox (current w) @ [r]\<rparr>))"

lemma logs_event:
  "logs (bnd (outbox_event src ty subj bod run wu att asg) (\<lambda>e. seq (enqueue_event e) (ret ())))"
  unfolding logs_def
proof (intro allI impI)
  fix w
  assume fresh: "fresh_ids w"
  let ?k = "uuid_draws w"
  let ?e = "\<lparr>in_source = src, in_type = ty, in_subject = subj, in_body = bod, in_run_id = run,
    in_work_unit_id = wu, in_attempt_id = att, in_assignment_id = asg,
    in_trace_id = uuid4_hex (plat w) ?k, in_span_id = None, in_event_id = ''evt_'' @ uuid4_hex (plat w) (Suc ?k)\<rparr>"
  let ?r = "event_row_of ?e (next_sequence (current w)) (utc_text (utc_clock (plat w) (clock_draws w)))"
  let ?w = "w\<lparr>uuid_draws := Suc (Suc ?k), clock_draws := Suc (clock_draws w), in_tx := True,
    current := (current w)\<lparr>event_outbox := event_outbox (current w) @ [?r]\<rparr>\<rparr>"
  have ins: "insert_event ?r (current w) = Inr ((current w)\<lparr>event_outbox := event_outbox (current w) @ [?r]\<rparr>)"
  proof -
    have "''evt_'' @ uuid4_hex (plat w) (Suc ?k) \<notin> ev_id ` set (event_outbox (current w))"
    proof
      assume "''evt_'' @ uuid4_hex (plat w) (Suc ?k) \<in> ev_id ` set (event_outbox (current w))"
      then obtain r where "r \<in> set (event_outbox (current w))"
          "ev_id r = ''evt_'' @ uuid4_hex (plat w) (Suc ?k)"
        by (elim imageE) (rule that, assumption, rule sym, assumption)
      moreover have "?k \<le> Suc ?k" by simp
      ultimately show False using fresh unfolding fresh_ids_def by blast
    qed
    then show ?thesis
      using next_sequence_fresh [of "current w"] by (simp add: insert_event_Inr event_row_of_def)
  qed
  have "bnd (outbox_event src ty subj bod run wu att asg) (\<lambda>e. seq (enqueue_event e) (ret ())) w = (Inr (), ?w)"
    using ins by (simp add: outbox_event_def enqueue_event_def run_bnd run_seq run_execute)
  moreover have "fresh_ids ?w"
    using fresh by (auto simp: fresh_ids_def event_row_of_def inj_eq)
  ultimately show "\<exists>w' r. bnd (outbox_event src ty subj bod run wu att asg) (\<lambda>e. seq (enqueue_event e) (ret ())) w
      = (Inr (), w') \<and> fresh_ids w' \<and> plat w' = plat w \<and>
     current w' = (current w)\<lparr>event_outbox := event_outbox (current w) @ [r]\<rparr>"
    by (intro exI [of _ ?w] exI [of _ ?r]) simp
qed

lemma logs_emit: "logs (emit ty subj bod wu att asg)"
  unfolding emit_def by (rule logs_event)

lemma logsD:
  assumes "logs m" and "fresh_ids w"
  obtains w' r where "m w = (Inr (), w')" "fresh_ids w'" "plat w' = plat w"
    "current w' = (current w)\<lparr>event_outbox := event_outbox (current w) @ [r]\<rparr>"
  using assms unfolding logs_def by blast

lemma update_work_unit_status_succeeds:
  assumes "fresh_ids w" and "work_unit_at (current w) i \<noteq> None"
  obtains w' us es where "update_work_unit_status i st ''scheduler'' ty w = (Inr (), w')" "fresh_ids w'"
    "plat w' = plat w" "current w' = (current w)\<lparr>work_units := us, event_outbox := es\<rparr>"
    "map wu_id us = map wu_id (work_units (current w))"
proof -
  let ?now = "utc_text (utc_clock (plat w) (clock_draws w))"
  let ?us = "update_row wu_id i (\<lambda>u. u\<lparr>wu_status := st, wu_updated_at := ?now\<rparr>) (work_units (current w))"
  let ?w = "w\<lparr>clock_draws := Suc (clock_draws w), in_tx := True, current := (current w)\<lparr>work_units := ?us\<rparr>\<rparr>"
  let ?log = "bnd (outbox_event ''tokenbank.scheduler.lifecycle''
      (case ty of None \<Rightarrow> ''work_unit.'' @ work_unit_status_text st
        | Some ty \<Rightarrow> if ty = [] then ''work_unit.'' @ work_unit_status_text st else ty)
      (''work_units/'' @ i)
      (JObj [(''work_unit_id'', JStr i), (''status'', JStr (work_unit_status_text st)),
             (''actor'', JStr ''scheduler'')]) None (Some i) None None) (\<lambda>e. seq (enqueue_event e) (ret ()))"
  have "fresh_ids ?w" using assms(1) by (simp add: fresh_ids_def)
  from logsD [OF logs_event this] obtain w' r where w': "?log ?w = (Inr (), w')" "fresh_ids w'" "plat w' = plat ?w"
      "current w' = (current ?w)\<lparr>event_outbox := event_outbox (current ?w) @ [r]\<rparr>"
    by blast
  have "update_work_unit_status i st ''scheduler'' ty w = ?log ?w"
    using assms(2) unfolding update_work_unit_status_def
    by (auto simp: run_bnd run_seq run_execute work_unit_status_writers_def)
  then show thesis using that w' by (simp add: keys_update_row)
qed

section \<open>Leases\<close>

lemma conditional_update_succeeds:
  assumes "assignment_at (current w) i = Some a" and "asg_lease_version a = v"
  obtains u w' rows where "conditional_assignment_update i v st x h p ac c w = (Inr u, w')"
    "w' = w\<lparr>clock_draws := Suc (clock_draws w), in_tx := True, current := (current w)\<lparr>assignments := rows\<rparr>\<rparr>"
    "map asg_id rows = map asg_id (assignments (current w))"
proof -
  let ?f = "lease_update st (asg_lease_version a + 1) x h p ac c (utc_text (utc_clock (plat w) (clock_draws w)))"
  let ?rows = "map (\<lambda>a. if asg_id a = i \<and> asg_lease_version a = v then ?f a else a) (assignments (current w))"
  have keys: "map asg_id ?rows = map asg_id (assignments (current w))" by simp
  have "a \<in> set (assignments (current w))" "asg_id a = i" using assms(1) by (auto dest: find_row_SomeD)
  then have hit: "filter (\<lambda>a. asg_id a = i \<and> asg_lease_version a = v) (assignments (current w)) \<noteq> []"
    using assms(2) by (auto simp: filter_empty_conv)
  have "has_row asg_id ?rows i"
    using assms(1) has_row_keys [OF keys, of i] by (simp add: has_row_find)
  then obtain u where "find_row asg_id ?rows i = Some u" by (auto simp: has_row_find)
  then show thesis
    using that [OF _ refl keys] hit assms(1) by (simp add: run_conditional_update Let_def conditional_rows_def)
qed

lemma transaction_succeeds:
  "idle w \<Longrightarrow> m (w\<lparr>in_tx := True\<rparr>) = (Inr x, u) \<Longrightarrow> transaction m w = (Inr x, commit u)"
  by (simp add: transaction_ok_iff)

lemma accept_succeeds:
  assumes quiet: "quiet_ok w" and fresh: "fresh_ids w"
    and a: "assignment_at (committed w) i = Some a" "asg_worker_id a = v" "asg_status a = Asg_created"
      "asg_lease_version a = e"
    and ms: "add_milliseconds (utc_clock (plat w) (clock_draws w)) ms = Inr d"
  shows "\<exists>l w'. accept_assignment i v e ms w = (Inr l, w')"
proof -
  note ok = quiet [unfolded quiet_ok_iff]
  have cur: "current w = committed w" "idle w" using ok by (simp_all add: idle_def)
  define raw where "raw = ''tbk_l_'' @ token_urlsafe (plat w) (token_draws w)"
  define h where "h = assignment_lease_token_hash (sha256 (plat w)) raw"
  let ?s = "w\<lparr>token_draws := Suc (token_draws w), clock_draws := Suc (Suc (clock_draws w))\<rparr>"
  let ?now = "utc_text (utc_clock (plat w) (Suc (clock_draws w)))"
  obtain u s1 rows where s1: "conditional_assignment_update i e Asg_accepted (Some (utc_text d)) (Some h)
      (Some (lease_token_prefix raw)) (Some ?now) None (?s\<lparr>in_tx := True\<rparr>) = (Inr u, s1)"
    "s1 = (?s\<lparr>in_tx := True\<rparr>)\<lparr>clock_draws := Suc (clock_draws ?s), in_tx := True,
       current := (current w)\<lparr>assignments := rows\<rparr>\<rparr>"
    by (rule conditional_update_succeeds [of "?s\<lparr>in_tx := True\<rparr>" i a e]) (use a cur in auto)
  define s2 where "s2 = snd (update_attempt (asg_attempt_id a)
      (\<lambda>r. r\<lparr>att_status := Att_running, att_started_at := coalesce (att_started_at r) (Some ?now)\<rparr>) s1)"
  have s2: "fresh_ids s2" "work_unit_at (current s2) (asg_work_unit_id a) \<noteq> None"
    using fresh sched_ok_parts(4) [of "committed w" i a] ok a cur
    by (auto simp: s2_def s1(2) update_statement_run fresh_ids_def)
  obtain s3 where s3: "update_work_unit_status (asg_work_unit_id a) WU_running ''scheduler''
      (Some ''work_unit.running'') s2 = (Inr (), s3)" "fresh_ids s3"
    using update_work_unit_status_succeeds [OF s2] by metis
  obtain s4 where s4: "emit ''assignment.accepted'' (''assignments/'' @ i)
      (JObj [(''assignment_id'', JStr i), (''worker_id'', JStr v), (''lease_version'', JInt (asg_lease_version u)),
             (''lease_token_prefix'', JStr (lease_token_prefix raw))])
      (Some (asg_work_unit_id a)) (Some (asg_attempt_id a)) (Some i) s3 = (Inr (), s4)"
    using logsD [OF logs_emit s3(2)] by metis
  have x: "lease_expiry ms (w\<lparr>token_draws := Suc (token_draws w)\<rparr>)
      = (Inr (utc_text d), w\<lparr>token_draws := Suc (token_draws w), clock_draws := Suc (clock_draws w)\<rparr>)"
    using ms by (simp add: lease_expiry_ok_iff)
  show ?thesis
    using a cur x s1(1) s3(1) s4
    by (simp add: accept_assignment_def assignment_for_worker_def run_bnd run_seq transaction_def
        begin_immediate_def idle_def raw_def h_def s2_def update_statement_run)
qed

lemma progress_succeeds:
  assumes quiet: "quiet_ok w" and fresh: "fresh_ids w"
    and a: "assignment_at (committed w) i = Some a" "asg_worker_id a = v" "asg_lease_version a = e"
    and tok: "asg_lease_token_hash a = Some (assignment_lease_token_hash (sha256 (plat w)) raw)" "raw \<noteq> []"
      "assignment_lease_token_hash (sha256 (plat w)) raw \<noteq> []"
    and ms: "add_milliseconds (utc_clock (plat w) (clock_draws w)) ms = Inr d"
  shows "\<exists>l w'. progress_assignment i v (Some raw) e ms w = (Inr l, w')"
proof -
  note ok = quiet [unfolded quiet_ok_iff]
  have cur: "current w = committed w" "idle w" using ok by (simp_all add: idle_def)
  let ?s = "w\<lparr>clock_draws := Suc (clock_draws w)\<rparr>"
  obtain u s1 rows where s1: "conditional_assignment_update i e Asg_running (Some (utc_text d)) None
      None None None (?s\<lparr>in_tx := True\<rparr>) = (Inr u, s1)"
    "s1 = (?s\<lparr>in_tx := True\<rparr>)\<lparr>clock_draws := Suc (clock_draws ?s), in_tx := True,
       current := (current w)\<lparr>assignments := rows\<rparr>\<rparr>"
    by (rule conditional_update_succeeds [of "?s\<lparr>in_tx := True\<rparr>" i a e]) (use a cur in auto)
  have "fresh_ids s1" using fresh by (simp add: s1(2) fresh_ids_def)
  then obtain s2 where s2: "emit ''assignment.progress'' (''assignments/'' @ i)
      (JObj [(''assignment_id'', JStr i), (''worker_id'', JStr v), (''lease_version'', JInt (asg_lease_version u))])
      (Some (asg_work_unit_id a)) (Some (asg_attempt_id a)) (Some i) s1 = (Inr (), s2)"
    using logsD [OF logs_emit] by metis
  have v: "verify_lease_token (asg_lease_token_hash a) (Some raw) w = (Inr (), w)"
    using tok by (simp add: verify_lease_token_ok_iff)
  have x: "lease_expiry ms w = (Inr (utc_text d), ?s)"
    using ms by (simp add: lease_expiry_ok_iff)
  show ?thesis
    using a cur x v s1(1) s2
    by (simp add: progress_assignment_def assignment_for_worker_def run_bnd run_seq transaction_def
        begin_immediate_def idle_def)
qed

section \<open>Attempts\<close>

lemma create_attempt_succeeds:
  assumes quiet: "quiet_ok w" and fresh: "fresh_ids w"
    and id: "attempt_at (committed w) (''att_'' @ uuid4_hex (plat w) (uuid_draws w)) = None"
    and refs: "has_row wu_id (work_units (committed w)) wu" "has_row rp_id (route_plans (committed w)) rp"
      "has_row pd_id (policy_decisions (committed w)) pd"
  shows "\<exists>i w'. create_attempt wu rp pd st ty w = (Inr i, w') \<and> fresh_ids w'"
proof -
  have cur: "current w = committed w" "idle w" using quiet by (simp_all add: quiet_ok_iff idle_def)
  let ?i = "''att_'' @ uuid4_hex (plat w) (uuid_draws w)"
  let ?n = "next_attempt_number (committed w) wu"
  let ?now = "utc_text (utc_clock (plat w) (clock_draws w))"
  define bod where "bod = JObj [(''attempt_id'', JStr ?i), (''work_unit_id'', JStr wu),
    (''route_plan_id'', JStr rp), (''policy_decision_id'', JStr pd), (''attempt_number'', JInt ?n),
    (''status'', JStr (attempt_status_text st)), (''created_at'', JStr ?now)]"
  define row where "row = \<lparr>att_id = ?i, att_work_unit_id = wu, att_route_plan_id = rp,
    att_policy_decision_id = pd, att_status = st, att_body = canonical bod, att_created_at = ?now,
    att_number = ?n, att_started_at = None, att_completed_at = None\<rparr>"
  let ?s = "w\<lparr>uuid_draws := Suc (uuid_draws w), clock_draws := Suc (clock_draws w), in_tx := True\<rparr>"
  let ?t = "(committed w)\<lparr>execution_attempts := execution_attempts (committed w) @ [row]\<rparr>"
  have ins: "insert_attempt row (committed w) = Inr ?t"
    using id refs by (simp add: insert_attempt_def insert_row_def fk_check_def row_def find_row_None_iff)
  have "fresh_ids (?s\<lparr>current := ?t\<rparr>)" using fresh cur by (simp add: fresh_ids_def)
  then obtain s2 where "emit ty (''attempts/'' @ ?i) bod (Some wu) (Some ?i) None (?s\<lparr>current := ?t\<rparr>) = (Inr (), s2)"
      "fresh_ids s2"
    using logsD [OF logs_emit] by metis
  moreover from this have "fresh_ids (commit s2)" by (simp add: fresh_ids_def commit_def)
  ultimately show ?thesis
    using ins cur unfolding row_def bod_def
    by (simp add: create_attempt_def Let_def run_bnd run_seq transaction_def begin_immediate_def idle_def run_execute)
qed

section \<open>The sweeper\<close>

lemma expire_succeeds:
  assumes "fresh_ids w"
  obtains w' where "expire_assignment a w = (Inr (), w')" "fresh_ids w'"
proof -
  let ?rows = "update_row asg_id (asg_id a) (\<lambda>b. b\<lparr>asg_status := Asg_expired,
    asg_updated_at := Some (utc_text (utc_clock (plat w) (clock_draws w)))\<rparr>) (assignments (current w))"
  let ?w = "w\<lparr>clock_draws := Suc (clock_draws w), in_tx := True, current := (current w)\<lparr>assignments := ?rows\<rparr>\<rparr>"
  let ?log = "bnd (outbox_event ''tokenbank.scheduler.sweeper'' ''assignment.expired''
      (''assignments/'' @ asg_id a) (JObj [(''assignment_id'', JStr (asg_id a)), (''status'', JStr ''expired'')])
      None (Some (asg_work_unit_id a)) (Some (asg_attempt_id a)) (Some (asg_id a)))
      (\<lambda>e. seq (enqueue_event e) (ret ()))"
  have "fresh_ids ?w" using assms by (simp add: fresh_ids_def)
  then obtain w' where "?log ?w = (Inr (), w')" "fresh_ids w'" using logsD [OF logs_event] by metis
  moreover have "expire_assignment a w = ?log ?w"
    unfolding expire_assignment_def by (auto simp: run_bnd run_seq run_execute)
  ultimately show thesis using that by simp
qed

lemma expire_all_succeeds: "fresh_ids w \<Longrightarrow> \<exists>w'. for_each expire_assignment rows w = (Inr (), w')"
proof (induction rows arbitrary: w)
  case (Cons a rows)
  obtain u where "expire_assignment a w = (Inr (), u)" "fresh_ids u" by (rule expire_succeeds [OF Cons.prems])
  then show ?case using Cons.IH [of u] by (auto simp: run_seq)
qed simp

lemma sweep_succeeds:
  assumes "fresh_ids w"
  shows "\<exists>n w'. sweep_expired_leases w = (Inr n, w')"
proof -
  let ?rows = "filter (lease_expired (utc_text (utc_clock (plat w) (clock_draws w)))) (assignments (current w))"
  obtain u where "for_each expire_assignment ?rows (w\<lparr>clock_draws := Suc (clock_draws w)\<rparr>) = (Inr (), u)"
    using expire_all_succeeds [of "w\<lparr>clock_draws := Suc (clock_draws w)\<rparr>" ?rows] assms by auto
  then show ?thesis by (simp add: sweep_expired_leases_def run_bnd run_seq)
qed

section \<open>Results\<close>

lemma complete_succeeds:
  assumes "fresh_ids w" and "work_unit_at (current w) (asg_work_unit_id a) \<noteq> None"
  obtains w' where "complete_assignment a now w = (Inr (), w')" "fresh_ids w'"
proof -
  define s1 where "s1 = snd (update_attempt (asg_attempt_id a)
    (\<lambda>r. r\<lparr>att_status := Att_succeeded, att_completed_at := Some now\<rparr>)
    (snd (update_assignment (asg_id a) (\<lambda>r. r\<lparr>asg_status := Asg_completed, asg_completed_at := Some now,
       asg_updated_at := Some now\<rparr>) w)))"
  have s1: "fresh_ids s1" "work_unit_at (current s1) (asg_work_unit_id a) \<noteq> None"
    using assms by (auto simp: s1_def update_statement_run fresh_ids_def)
  obtain s2 where s2: "update_work_unit_status (asg_work_unit_id a) WU_succeeded ''scheduler''
      (Some ''work_unit.succeeded'') s1 = (Inr (), s2)" "fresh_ids s2"
    using update_work_unit_status_succeeds [OF s1] by metis
  obtain s3 where s3: "emit ''assignment.completed'' (''assignments/'' @ asg_id a)
      (JObj [(''assignment_id'', JStr (asg_id a)), (''status'', JStr ''completed'')])
      (Some (asg_work_unit_id a)) (Some (asg_attempt_id a)) (Some (asg_id a)) s2 = (Inr (), s3)" "fresh_ids s3"
    using logsD [OF logs_emit s2(2)] by metis
  show thesis
    by (rule that [of s3])
      (use s2 s3 in \<open>simp_all add: complete_assignment_def run_seq update_statement_run s1_def\<close>)
qed

lemma quarantine_succeeds:
  assumes "fresh_ids w" and "has_row wu_id (work_units (current w)) (asg_work_unit_id a)"
    and "has_row att_id (execution_attempts (current w)) (asg_attempt_id a)"
    and "has_row asg_id (assignments (current w)) (asg_id a)"
    and "find_row quar_id (result_quarantine (current w)) (''quar_'' @ uuid4_hex (plat w) (uuid_draws w)) = None"
  obtains w' where "quarantine_late_result a rid bod w = (Inr (), w')" "fresh_ids w'"
proof -
  let ?now = "utc_text (utc_clock (plat w) (clock_draws w))"
  have keys: "has_row asg_id (update_row asg_id (asg_id a) (\<lambda>r. r\<lparr>asg_status := Asg_quarantined,
      asg_completed_at := Some ?now, asg_updated_at := Some ?now\<rparr>) (assignments (current w))) (asg_id a)"
    "has_row att_id (update_row att_id (asg_attempt_id a) (\<lambda>r. r\<lparr>att_status := Att_quarantined,
      att_completed_at := Some ?now\<rparr>) (execution_attempts (current w))) (asg_attempt_id a)"
    using assms(3,4) by (auto simp: has_row_find find_row_update)
  have "\<exists>w'. quarantine_late_result a rid bod w = (Inr (), w') \<and> fresh_ids w'"
    using assms keys
    by (simp add: quarantine_late_result_def run_bnd run_seq update_statement_run run_execute
        insert_quarantine_def insert_row_def fk_check_def find_row_None_iff fresh_ids_def)
  then show thesis using that by blast
qed

text \<open>Submitting for a leased assignment with the right token, an envelope of its own or a plain output.\<close>

definition parts_of :: "result_envelope option \<Rightarrow> bool \<Rightarrow> assignment_row \<Rightarrow> json \<Rightarrow> result_parts op" where
  "parts_of envelope late a out =
     (case envelope of
        Some e \<Rightarrow> seq (of_result (validate_result_envelope_for_assignment e a)) (ret (result_from_envelope late e))
      | None \<Rightarrow> result_from_output late a out)"

lemma submit_parts_succeed:
  assumes quiet: "quiet_ok w" and fresh: "fresh_ids w"
    and a: "assignment_at (committed w) i = Some a" "asg_worker_id a = v"
    and tok: "asg_lease_token_hash a = Some (assignment_lease_token_hash (sha256 (plat w)) raw)" "raw \<noteq> []"
      "assignment_lease_token_hash (sha256 (plat w)) raw \<noteq> []"
    and envelope: "coerce_result_envelope validate given = Inr envelope"
    and parts_ok: "\<And>late. \<exists>parts. parts_of envelope late a out w = (Inr parts, w\<lparr>uuid_draws := k\<rparr>) \<and>
      find_row res_id (result_envelopes (committed w)) (rpt_id parts) = None"
    and k: "uuid_draws w \<le> k"
    and quar: "find_row quar_id (result_quarantine (committed w)) (''quar_'' @ uuid4_hex (plat w) k) = None"
  shows "\<exists>s w'. submit_result validate i v (Some raw) None out given w = (Inr s, w')"
proof -
  note ok = quiet [unfolded quiet_ok_iff]
  have cur: "current w = committed w" "idle w" using ok by (simp_all add: idle_def)
  have id: "asg_id a = i" using a by (auto dest: find_row_SomeD)
  obtain att where att: "attempt_at (committed w) (asg_attempt_id a) = Some att"
    and wu: "work_unit_at (committed w) (asg_work_unit_id a) \<noteq> None"
    using sched_ok_parts(3,4) [of "committed w" i a] ok a by auto
  define late where "late = newer_attempt_exists (committed w) (att_work_unit_id att) (att_number att)"
  have v: "verify_lease_token (asg_lease_token_hash a) (Some raw) w = (Inr (), w)"
    using tok by (simp add: verify_lease_token_ok_iff)
  let ?u = "w\<lparr>uuid_draws := k\<rparr>"
  obtain parts where parts: "parts_of envelope late a out w = (Inr parts, ?u)"
      "find_row res_id (result_envelopes (committed w)) (rpt_id parts) = None"
    using parts_ok by blast
  let ?now = "utc_text (utc_clock (plat w) (clock_draws w))"
  let ?s = "?u\<lparr>clock_draws := Suc (clock_draws w), in_tx := True\<rparr>"
  define row where "row = \<lparr>res_id = rpt_id parts, res_work_unit_id = asg_work_unit_id a,
    res_attempt_id = asg_attempt_id a, res_assignment_id = asg_id a,
    res_status = rpt_status parts, res_output_hash = rpt_output_hash parts,
    res_result_hash = rpt_result_hash parts, res_body = canonical (JObj (rpt_body parts)), res_created_at = ?now\<rparr>"
  let ?s1 = "?s\<lparr>current := (committed w)\<lparr>result_envelopes := result_envelopes (committed w) @ [row]\<rparr>\<rparr>"
  have s1: "execute (insert_result row) ?s = (Inr (), ?s1)"
    using a wu id parts(2) cur
    by (simp add: insert_result_run_ok row_def has_row_find find_row_None_iff)
  have f1: "fresh_ids ?s1" using fresh cur k by (auto simp: fresh_ids_def)
  obtain s2 where s2: "(if late then quarantine_late_result a (rpt_id parts) (JObj (rpt_body parts))
      else complete_assignment a ?now) ?s1 = (Inr (), s2)" "fresh_ids s2"
  proof (cases late)
    case True
    show thesis
      by (rule quarantine_succeeds [OF f1, of a]) (use that True a att wu id quar in \<open>auto simp: has_row_find\<close>)
  next
    case False
    show thesis
      by (rule complete_succeeds [OF f1, of a]) (use that False wu in auto)
  qed
  obtain s3 where s3: "emit (if late then ''result.quarantined'' else ''result.submitted'')
      (''results/'' @ rpt_id parts) (JObj (rpt_body parts))
      (Some (asg_work_unit_id a)) (Some (asg_attempt_id a)) (Some (asg_id a)) s2 = (Inr (), s3)"
    using logsD [OF logs_emit s2(2)] by metis
  show ?thesis
    using a cur v att envelope parts(1) s1 s2(1) s3
    by (cases late) (simp_all add: submit_result_def assignment_for_worker_def attempt_by_id_def run_bnd run_seq
        transaction_def begin_immediate_def idle_def row_def late_def [symmetric] parts_of_def [symmetric])
qed

lemma submit_succeeds:
  assumes quiet: "quiet_ok w" and fresh: "fresh_ids w"
    and a: "assignment_at (committed w) i = Some a" "asg_worker_id a = v"
    and tok: "asg_lease_token_hash a = Some (assignment_lease_token_hash (sha256 (plat w)) raw)" "raw \<noteq> []"
      "assignment_lease_token_hash (sha256 (plat w)) raw \<noteq> []"
    and res: "find_row res_id (result_envelopes (committed w)) (''res_'' @ uuid4_hex (plat w) (uuid_draws w)) = None"
    and quar: "find_row quar_id (result_quarantine (committed w))
      (''quar_'' @ uuid4_hex (plat w) (Suc (uuid_draws w))) = None"
  shows "\<exists>s w'. submit_result validate i v (Some raw) None out No_envelope w = (Inr s, w')"
proof (rule submit_parts_succeed [OF quiet fresh a tok, where k = "Suc (uuid_draws w)" and envelope = None])
  fix late
  show "\<exists>parts. parts_of None late a out w = (Inr parts, w\<lparr>uuid_draws := Suc (uuid_draws w)\<rparr>) \<and>
      find_row res_id (result_envelopes (committed w)) (rpt_id parts) = None"
    using res by (auto simp: parts_of_def result_from_output_def Let_def run_bnd)
qed (use quar in simp_all)

text \<open>An envelope of the assignment is taken with the identifier it carries.\<close>

lemma submit_envelope_succeeds:
  assumes quiet: "quiet_ok w" and fresh: "fresh_ids w"
    and a: "assignment_at (committed w) i = Some a" "asg_worker_id a = v"
    and tok: "asg_lease_token_hash a = Some (assignment_lease_token_hash (sha256 (plat w)) raw)" "raw \<noteq> []"
      "assignment_lease_token_hash (sha256 (plat w)) raw \<noteq> []"
    and e: "validate given = Inr e" "validate_result_envelope_for_assignment e a = Inr ()"
    and res: "find_row res_id (result_envelopes (committed w)) (env_result_envelope_id e) = None"
    and quar: "find_row quar_id (result_quarantine (committed w)) (''quar_'' @ uuid4_hex (plat w) (uuid_draws w)) = None"
  shows "\<exists>s w'. submit_result validate i v (Some raw) None out (Raw_envelope given) w = (Inr s, w')"
proof (rule submit_parts_succeed [OF quiet fresh a tok, where k = "uuid_draws w" and envelope = "Some e"])
  fix late
  show "\<exists>parts. parts_of (Some e) late a out w = (Inr parts, w\<lparr>uuid_draws := uuid_draws w\<rparr>) \<and>
      find_row res_id (result_envelopes (committed w)) (rpt_id parts) = None"
    using e(2) res by (auto simp: parts_of_def result_from_envelope_def run_simps)
qed (use e quar in simp_all)

end
