(* ===== verification/Scheduler_Properties.thy ===== *)
theory Scheduler_Properties
  imports Scheduler_Liveness
begin

text \<open>
  The properties of the scheduler (\<open>src/tokenbank/scheduler/\<close>) over the whole system, each with a
  witness. The witnesses live in a sample world: one routed work unit with an old and a new
  attempt, one assignment still to be accepted and two that are leased.
\<close>

section \<open>A sample world\<close>

definition sample_platform :: platform where
  "sample_platform =
     \<lparr>sha256 = (\<lambda>s. CHR ''h'' # s), float_repr = (\<lambda>_. ''1.5''), uuid4_hex = (\<lambda>n. replicate n (CHR ''u'')),
      token_urlsafe = (\<lambda>n. replicate n (CHR ''t'')),
      utc_clock = (\<lambda>n. \<lparr>year = 2026, month = 1, day = 1, hour = 0, minute = 0, second = 0,
                        microsecond = 1\<rparr>)\<rparr>"

definition sample_attempt :: "string \<Rightarrow> int \<Rightarrow> attempt_row" where
  "sample_attempt i n =
     \<lparr>att_id = i, att_work_unit_id = ''wu_1'', att_route_plan_id = ''rp_1'',
      att_policy_decision_id = ''pd_1'', att_status = Att_assigned, att_body = JNull,
      att_created_at = ''t'', att_number = n, att_started_at = None, att_completed_at = None\<rparr>"

definition sample_assignment ::
  "string \<Rightarrow> string \<Rightarrow> assignment_status \<Rightarrow> int \<Rightarrow> string option \<Rightarrow> string option \<Rightarrow> assignment_row" where
  "sample_assignment i att st v h x =
     \<lparr>asg_id = i, asg_attempt_id = att, asg_work_unit_id = ''wu_1'', asg_worker_id = ''wrk_1'',
      asg_status = st, asg_body = JNull, asg_created_at = ''t'', asg_capacity_node_id = None,
      asg_backend_id = None, asg_lease_token_hash = h, asg_lease_token_prefix = None,
      asg_lease_version = v, asg_effective_constraints = JNull, asg_assigned_at = None,
      asg_lease_expires_at = x, asg_accepted_at = None, asg_completed_at = None,
      asg_updated_at = None\<rparr>"

definition sample_hash :: string where
  "sample_hash = assignment_lease_token_hash (sha256 sample_platform) ''tbk_l_x''"

definition sample_tables :: tables where
  "sample_tables =
     \<lparr>runs = [], work_units = [\<lparr>wu_id = ''wu_1'', wu_run_id = ''run_1'', wu_status = WU_queued,
        wu_task_type = ''url_check'', wu_task_level = ''L1'', wu_body = JNull,
        wu_created_at = ''t'', wu_updated_at = ''t''\<rparr>],
      route_plans = [\<lparr>rp_id = ''rp_1'', rp_work_unit_id = ''wu_1'', rp_status = ''planned'',
        rp_body = JNull, rp_created_at = ''t''\<rparr>],
      policy_decisions = [\<lparr>pd_id = ''pd_1'', pd_work_unit_id = ''wu_1'', pd_route_plan_id = ''rp_1'',
        pd_decision = ''approved'', pd_body = JNull, pd_created_at = ''t''\<rparr>],
      execution_attempts = [sample_attempt ''old'' 1, sample_attempt ''new'' 2],
      assignments =
        [sample_assignment ''open'' ''new'' Asg_created 0 None None,
         sample_assignment ''late'' ''old'' Asg_accepted 1 (Some sample_hash) (Some ''2025''),
         sample_assignment ''live'' ''new'' Asg_running 2 (Some sample_hash) (Some ''2027'')],
      result_envelopes = [], result_quarantine = [], worker_manifests = [],
      worker_health_snapshots = [], capacity_nodes = [], capacity_node_health_snapshots = [],
      backend_registry = [], backend_manifests = [], verifier_reports = [],
      verifier_check_results = [], host_result_summaries = [],
      account_snapshots = [], usage_ledger_entries = [], audit_receipts = [], event_outbox = []\<rparr>"

definition sample_world :: world where
  "sample_world =
     \<lparr>plat = sample_platform, committed = sample_tables, current = sample_tables, in_tx = False,
      uuid_draws = 0, token_draws = 0, clock_draws = 0\<rparr>"

lemmas sample_defs = sample_world_def sample_tables_def sample_assignment_def sample_attempt_def

lemma sample_quiet: "quiet_ok sample_world"
  by (simp add: quiet_ok_iff sample_defs idle_def sched_ok_def refs_ok_def pk_unique_def has_row_def
      attempts_numbered_def leases_ok_def lease_ok_def outbox_ok_def)

lemma sample_idle: "idle sample_world" "sched_ok (committed sample_world)"
  using sample_quiet by (simp_all add: quiet_ok_iff)

lemma sample_fresh: "fresh_ids sample_world"
  by (simp add: fresh_ids_def sample_defs sample_platform_def inj_def)

lemma sample_rows [simp]:
  "assignment_at (committed sample_world) ''open'' = Some (sample_assignment ''open'' ''new'' Asg_created 0 None None)"
  "assignment_at (committed sample_world) ''late''
     = Some (sample_assignment ''late'' ''old'' Asg_accepted 1 (Some sample_hash) (Some ''2025''))"
  "assignment_at (committed sample_world) ''live''
     = Some (sample_assignment ''live'' ''new'' Asg_running 2 (Some sample_hash) (Some ''2027''))"
  "current sample_world = committed sample_world"
  by (simp_all add: sample_defs find_row_def)

lemmas sample_current = sample_rows(1-3) [folded sample_rows(4)]

lemma sample_lease_time:
  "add_milliseconds (utc_clock (plat sample_world) (clock_draws sample_world)) 30000
   = Inr \<lparr>year = 2026, month = 1, day = 1, hour = 0, minute = 0, second = 30, microsecond = 1\<rparr>"
  by (simp add: sample_world_def sample_platform_def add_milliseconds_def us_of_day_def with_us_of_day_def)

section \<open>The invariant\<close>

text \<open>C1. In every state the scheduler can reach, by any sequence of its operations and runs of the sweeper, whether
  they return or raise, the committed tables and the tables the connection sees satisfy the invariant: keys are
  unique, every reference resolves, the attempts of a work unit carry distinct positive numbers, every assignment's
  lease columns agree with its status, and the outbox is gapless and redacted. The connection is idle, unless a run of
  the sweeper, which has no transaction of its own, has raised before.\<close>

theorem reachable_invariant:
  assumes "idle w0" and "sched_ok (committed w0)" and "sched_reach validate w0 w"
  shows "sched_ok (committed w) \<and> sched_ok (current w) \<and>
    (idle w \<or> (\<exists>u u' e. sched_reach validate w0 u \<and> sweep_expired_leases u = (Inl e, u') \<and> sched_reach validate u' w))"
proof -
  have quiet: "quiet_ok w0" using assms(1,2) by (simp add: quiet_ok_iff)
  from reach_keeps_coherent [OF assms(3) quiet] reach_open [OF assms(3) quiet] show ?thesis
    by (auto simp: coherent_def idle_def sched_inv_def)
qed

lemma reach_one: "run_command validate c w = (r, w') \<Longrightarrow> sched_reach validate w w'"
  by (blast intro: sched_reach.intros sched_step.intros)

text \<open>A validator of result envelopes that accepts none, for the witnesses.\<close>

definition no_envelopes :: validator where
  "no_envelopes v = Inl (ValueError ''invalid envelope'')"

theorem reachable_invariant_witness:
  "\<exists>w. sched_reach no_envelopes sample_world w \<and> sched_ok (committed w) \<and> sched_ok (current w)"
  using reachable_invariant [OF sample_idle]
    reach_one [of no_envelopes "Reject_assignment ''open'' ''wrk_1''" sample_world] by (metis surj_pair)



text \<open>C5. Every command of the scheduler is atomic: when it raises, whatever the exception and wherever it is
  raised, the connection is left idle with the committed tables unchanged.\<close>

theorem failed_command_changes_nothing:
  assumes "idle w" and "run_command validate c w = (Inl e, w')"
  shows "idle w' \<and> committed w' = committed w"
  using atomic_command [of validate c] assms unfolding atomic_def by blast

theorem failed_command_changes_nothing_witness:
  "\<exists>e w'. run_command no_envelopes (Accept_assignment ''late'' ''wrk_1'' 0 30000) sample_world
      = (Inl e, w') \<and> idle w' \<and> committed w' = committed sample_world"
proof -
  have "accept_assignment ''late'' ''wrk_1'' 0 30000 sample_world
      = (Inl (LeaseConflictError ''assignment is not in created status''), sample_world)"
    by (rule accept_not_created [OF sample_current(2)]) (simp_all add: sample_assignment_def)
  then have run: "run_command no_envelopes (Accept_assignment ''late'' ''wrk_1'' 0 30000) sample_world
      = (Inl (LeaseConflictError ''assignment is not in created status''), sample_world)"
    by (simp add: discard_def run_bnd)
  from failed_command_changes_nothing [OF sample_idle(1) run] run show ?thesis by blast
qed

section \<open>Only the assigned worker acts on an assignment\<close>

text \<open>C29. A worker that does not own an assignment can neither accept, reject, extend nor complete it:
  each of the four operations raises PermissionError and leaves the whole state unchanged.\<close>

theorem foreign_worker_refused:
  assumes "assignment_at (current w) i = Some a" and "asg_worker_id a \<noteq> v"
  shows "(accept_assignment i v e ms w, reject_assignment i v w, progress_assignment i v tok e ms w,
      submit_result validate i v tok th out env w)
    = ((Inl (PermissionError ''worker can only access own assignment''), w),
       (Inl (PermissionError ''worker can only access own assignment''), w),
       (Inl (PermissionError ''worker can only access own assignment''), w),
       (Inl (PermissionError ''worker can only access own assignment''), w))"
  using assms
  by (simp add: accept_assignment_def reject_assignment_def progress_assignment_def submit_result_def
      assignment_for_worker_def run_bnd)

theorem foreign_worker_refused_witness:
  "reject_assignment ''open'' ''wrk_2'' sample_world
     = (Inl (PermissionError ''worker can only access own assignment''), sample_world)"
  using foreign_worker_refused [of sample_world "''open''" _ "''wrk_2''"]
  by (simp add: sample_assignment_def)

section \<open>Leases\<close>

text \<open>C14. Exactly when accept_assignment succeeds. With fresh identifiers and a lease duration inside the
  calendar, a worker's accept returns a lease if and only if the assignment exists, belongs to the worker, is
  still in created status and carries the lease version the worker expects.\<close>

theorem accept_succeeds_iff:
  assumes "idle w" and "sched_ok (committed w)" and "fresh_ids w"
    and "add_milliseconds (utc_clock (plat w) (clock_draws w)) ms = Inr d"
  shows "(\<exists>l w'. accept_assignment i v e ms w = (Inr l, w')) \<longleftrightarrow>
    (\<exists>a. assignment_at (committed w) i = Some a \<and> asg_worker_id a = v \<and> asg_status a = Asg_created \<and>
       asg_lease_version a = e)"
  using accept_ok [of w i v e ms] accept_succeeds [of w i _ v e ms d] assms
  by (auto simp: quiet_ok_iff)

theorem accept_succeeds_iff_witness:
  "\<exists>l w'. accept_assignment ''open'' ''wrk_1'' 0 30000 sample_world = (Inr l, w')"
  using accept_succeeds_iff [OF sample_idle sample_fresh sample_lease_time, of "''open''" "''wrk_1''" 0]
  by (simp add: sample_assignment_def)

text \<open>C26. What a granted lease is. The assignment moves from created to accepted with its version increased by
  one, the hash of the returned token and the returned expiry are stored with it, its attempt and its work unit
  are running, and exactly the two events work_unit.running and assignment.accepted were appended.\<close>

theorem accept_grants_lease:
  assumes "idle w" and "sched_ok (committed w)" and "accept_assignment i v e ms w = (Inr l, w')"
  shows "\<exists>a b. assignment_at (committed w) i = Some a \<and> asg_status a = Asg_created \<and>
      assignment_at (committed w') i = Some b \<and> asg_status b = Asg_accepted \<and>
      asg_links b = asg_links a \<and> asg_lease_version b = asg_lease_version a + 1 \<and>
      al_lease_version l = asg_lease_version b \<and>
      asg_lease_token_hash b = Some (assignment_lease_token_hash (sha256 (plat w)) (al_lease_token l)) \<and>
      asg_lease_expires_at b = Some (al_lease_expires_at l) \<and>
      map_option att_status (attempt_at (committed w') (asg_attempt_id a)) = Some Att_running \<and>
      map_option wu_status (work_unit_at (committed w') (asg_work_unit_id a)) = Some WU_running \<and>
      events_added [''work_unit.running'', ''assignment.accepted''] (committed w) (committed w')"
proof -
  have "quiet_ok w" using assms by (simp add: quiet_ok_iff)
  from accept_ok [OF this assms(3)] show ?thesis by (elim exE conjE) (intro exI conjI, simp_all)
qed

lemma sample_accept:
  "\<exists>l w'. accept_assignment ''open'' ''wrk_1'' 0 30000 sample_world = (Inr l, w')"
  by (rule accept_succeeds [OF sample_quiet sample_fresh sample_rows(1) _ _ _ sample_lease_time])
    (simp_all add: sample_assignment_def)

theorem accept_grants_lease_witness:
  "\<exists>l w'. accept_assignment ''open'' ''wrk_1'' 0 30000 sample_world = (Inr l, w') \<and>
     map_option wu_status (work_unit_at (committed w') ''wu_1'') = Some WU_running"
proof -
  obtain l w' where run: "accept_assignment ''open'' ''wrk_1'' 0 30000 sample_world = (Inr l, w')"
    using sample_accept by blast
  from accept_grants_lease [OF sample_idle run] run show ?thesis by (auto simp: sample_assignment_def)
qed

text \<open>Rows survive: what a row keeps when the tables grow.\<close>

lemma rows_grow_find:
  assumes "rows_grow R xs ys" and "find_row key xs k = Some x" and "pk_unique key ys"
    and "\<And>x y. R x y \<Longrightarrow> key y = key x"
  shows "\<exists>y. find_row key ys k = Some y \<and> R x y"
proof -
  obtain n where n: "n < length xs" "xs ! n = x" "key x = k"
    using find_row_SomeD [OF assms(2)] by (auto simp: in_set_conv_nth)
  then have R: "R x (ys ! n)" "n < length ys"
    using assms(1) rows_grow_length [OF assms(1)] by (auto simp: rows_grow_def list_all2_conv_all_nth)
  then have "find_row key ys k = Some (ys ! n)"
    using find_row_Some_iff [OF assms(3), of k "ys ! n"] assms(4) [OF R(1)] n by simp
  then show ?thesis using R by blast
qed

lemma later_assignment:
  assumes "quiet_ok w" and "sched_reach validate w w2" and "assignment_at (committed w) i = Some a"
  shows "\<exists>b. assignment_at (committed w2) i = Some b \<and> assignment_grows a b"
proof -
  have "settled (grown_from (committed w)) w"
    using assms(1) by (simp add: quiet_ok_iff settled_def grown_from_def sched_ok_parts)
  from reach_grown [OF assms(2) this]
  have "rows_grow assignment_grows (assignments (committed w)) (assignments (committed w2))"
    "pk_unique asg_id (assignments (committed w2))"
    by (simp_all add: coherent_def grown_from_def tables_grow_def)
  then show ?thesis
    using rows_grow_find [of assignment_grows _ _ asg_id i a] assms(3)
    by (auto simp: assignment_grows_def asg_links_def)
qed

lemma later_attempt:
  assumes "quiet_ok w" and "sched_reach validate w w2" and "attempt_at (committed w) i = Some a"
  shows "\<exists>b. attempt_at (committed w2) i = Some b \<and> attempt_grows a b"
proof -
  have "settled (grown_from (committed w)) w"
    using assms(1) by (simp add: quiet_ok_iff settled_def grown_from_def sched_ok_parts)
  from reach_grown [OF assms(2) this]
  have "rows_grow attempt_grows (execution_attempts (committed w)) (execution_attempts (committed w2))"
    by (simp add: coherent_def grown_from_def tables_grow_def)
  moreover have "pk_unique att_id (execution_attempts (committed w2))"
    using reach_keeps_coherent [OF assms(2,1)] by (simp add: coherent_def sched_inv_def sched_ok_parts)
  ultimately show ?thesis
    using rows_grow_find [of attempt_grows _ _ att_id i a] assms(3)
    by (auto simp: attempt_grows_def att_links_def)
qed

text \<open>An operation that writes returns only when no transaction was open.\<close>

lemma reach_writable:
  assumes "sched_reach validate w w2" and "quiet_ok w" and "blocked m" and "m w2 = (Inr x, w3)"
  shows "quiet_ok w2"
proof -
  have "\<not> in_tx w2" using blockedD [OF assms(3) _ assms(4)] by auto
  then show ?thesis using reach_keeps_coherent [OF assms(1,2)] by (simp add: quiet_coherent)
qed

text \<open>C3. A lease is granted at most once. After an accept has succeeded, no accept of the same assignment
  succeeds in any later state, whatever worker asks with whatever version and whatever happened in between.\<close>

theorem lease_granted_once:
  assumes "idle w" and "sched_ok (committed w)" and "accept_assignment i v e ms w = (Inr l, w')"
    and "sched_reach validate w' w2"
  shows "accept_assignment i v2 e2 ms2 w2 \<noteq> (Inr l2, w3)"
proof
  assume again: "accept_assignment i v2 e2 ms2 w2 = (Inr l2, w3)"
  have quiet: "quiet_ok w" using assms by (simp add: quiet_ok_iff)
  have quiet': "quiet_ok w'" by (rule keepsD [OF keeps_quiet_accept quiet assms(3)])
  obtain b where b: "assignment_at (committed w') i = Some b" "asg_lease_token_hash b \<noteq> None"
    using accept_ok [OF quiet assms(3)] by auto
  then obtain c where "assignment_at (committed w2) i = Some c" "asg_lease_token_hash c \<noteq> None"
    using later_assignment [OF quiet' assms(4) b(1)] by (auto simp: assignment_grows_def)
  moreover have "quiet_ok w2" by (rule reach_writable [OF assms(4) quiet' blocked_operations(2) again])
  ultimately show False using accept_ok [OF _ again] by auto
qed

theorem lease_granted_once_witness:
  "\<exists>l w'. accept_assignment ''open'' ''wrk_1'' 0 30000 sample_world = (Inr l, w') \<and>
     accept_assignment ''open'' ''wrk_1'' 1 30000 w' \<noteq> (Inr l, w')"
proof -
  obtain l w' where run: "accept_assignment ''open'' ''wrk_1'' 0 30000 sample_world = (Inr l, w')"
    using sample_accept by blast
  from lease_granted_once [OF sample_idle run sched_reach.start [of no_envelopes]] run show ?thesis by blast
qed

text \<open>What progress_assignment checks and does. A progress report that succeeds came from the owner with the
  token whose hash is stored and with the current lease version; it puts the assignment into running status,
  raises the version by exactly one, moves the expiry, keeps the token, and changes neither attempts nor work
  units.\<close>

theorem progress_extends_lease:
  assumes "idle w" and "sched_ok (committed w)" and "progress_assignment i v tok e ms w = (Inr l, w')"
  shows "\<exists>a b raw. assignment_at (committed w) i = Some a \<and> asg_worker_id a = v \<and> tok = Some raw \<and>
      asg_lease_token_hash a = Some (assignment_lease_token_hash (sha256 (plat w)) raw) \<and>
      asg_lease_version a = e \<and> assignment_at (committed w') i = Some b \<and> asg_status b = Asg_running \<and>
      asg_lease_version b = e + 1 \<and> asg_lease_token_hash b = asg_lease_token_hash a \<and>
      pl_lease_version l = e + 1 \<and> asg_lease_expires_at b = Some (pl_lease_expires_at l) \<and>
      work_units (committed w') = work_units (committed w) \<and>
      execution_attempts (committed w') = execution_attempts (committed w) \<and>
      events_added [''assignment.progress''] (committed w) (committed w')"
  using progress_ok [OF _ assms(3)] assms(1,2) by (simp add: quiet_ok_iff)

lemma sample_token_ok:
  "asg_lease_token_hash (sample_assignment i att st v (Some sample_hash) x)
     = Some (assignment_lease_token_hash (sha256 (plat sample_world)) ''tbk_l_x'')"
  "assignment_lease_token_hash (sha256 (plat sample_world)) ''tbk_l_x'' \<noteq> []"
  by (simp_all add: sample_assignment_def sample_hash_def sample_world_def sample_platform_def
      assignment_lease_token_hash_def)

theorem progress_extends_lease_witness:
  "\<exists>l w'. progress_assignment ''live'' ''wrk_1'' (Some ''tbk_l_x'') 2 30000 sample_world = (Inr l, w') \<and>
     pl_lease_version l = 3"
proof -
  have "\<exists>l w'. progress_assignment ''live'' ''wrk_1'' (Some ''tbk_l_x'') 2 30000 sample_world = (Inr l, w')"
    by (rule progress_succeeds [OF sample_quiet sample_fresh sample_rows(3) _ _ sample_token_ok(1) _
          sample_token_ok(2) sample_lease_time]) (simp_all add: sample_assignment_def)
  then obtain l w' where run:
    "progress_assignment ''live'' ''wrk_1'' (Some ''tbk_l_x'') 2 30000 sample_world = (Inr l, w')" by blast
  from progress_extends_lease [OF sample_idle run] run show ?thesis by auto
qed

text \<open>Optimistic concurrency: a progress report with the right owner and the right token but a version
  other than the stored one raises LeaseConflictError, and nothing is committed.\<close>

theorem stale_version_conflicts:
  assumes "idle w" and "sched_ok (committed w)"
    and "assignment_at (committed w) i = Some a" and "asg_worker_id a = v" and "asg_lease_version a \<noteq> e"
    and "asg_lease_token_hash a = Some (assignment_lease_token_hash (sha256 (plat w)) raw)" and "raw \<noteq> []"
    and "assignment_lease_token_hash (sha256 (plat w)) raw \<noteq> []"
    and "add_milliseconds (utc_clock (plat w) (clock_draws w)) ms = Inr d"
  shows "fst (progress_assignment i v (Some raw) e ms w)
      = Inl (LeaseConflictError ''assignment lease_version conflict'') \<and>
    committed (snd (progress_assignment i v (Some raw) e ms w)) = committed w"
proof -
  have quiet: "quiet_ok w" using assms(1,2) by (simp add: quiet_ok_iff)
  have res: "fst (progress_assignment i v (Some raw) e ms w)
      = Inl (LeaseConflictError ''assignment lease_version conflict'')"
    by (rule progress_stale [OF quiet assms(3-)])
  have "atomic (progress_assignment i v (Some raw) e ms)" by (rule atomic_progress)
  then show ?thesis using assms(1) res unfolding atomic_def by (metis prod.collapse)
qed

theorem stale_version_conflicts_witness:
  "fst (progress_assignment ''live'' ''wrk_1'' (Some ''tbk_l_x'') 1 30000 sample_world)
     = Inl (LeaseConflictError ''assignment lease_version conflict'')"
  using stale_version_conflicts [OF sample_idle sample_rows(3) _ _ sample_token_ok(1) _ sample_token_ok(2)
      sample_lease_time, of "''wrk_1''" 1]
  by (simp add: sample_assignment_def)

section \<open>Results\<close>

text \<open>C27. A timely result completes its work. When a submission succeeds and no newer attempt of the work unit
  exists, the worker owned the assignment and proved its lease, one result row was added, the assignment is
  completed, its attempt and its work unit are succeeded, nothing was quarantined, and exactly the events
  work_unit.succeeded, assignment.completed and result.submitted were appended.\<close>

theorem timely_result_completes:
  assumes "idle w" and "sched_ok (committed w)"
    and "submit_result validate i v tok th out env w = (Inr s, w')"
    and "assignment_at (committed w) i = Some a" and "attempt_at (committed w) (asg_attempt_id a) = Some att"
    and "\<not> newer_attempt_exists (committed w) (att_work_unit_id att) (att_number att)"
  shows "submission_checked validate i v tok th out env w a False \<and>
     (\<exists>r. result_envelopes (committed w') = result_envelopes (committed w) @ [r] \<and>
        res_id r = sr_result_envelope_id s \<and> res_assignment_id r = i \<and> res_status r = sr_status s) \<and>
     map_option asg_status (assignment_at (committed w') i) = Some Asg_completed \<and>
     map_option att_status (attempt_at (committed w') (asg_attempt_id a)) = Some Att_succeeded \<and>
     map_option wu_status (work_unit_at (committed w') (asg_work_unit_id a)) = Some WU_succeeded \<and>
     result_quarantine (committed w') = result_quarantine (committed w) \<and>
     events_added [''work_unit.succeeded'', ''assignment.completed'', ''result.submitted'']
       (committed w) (committed w')"
proof -
  have "quiet_ok w" using assms(1,2) by (simp add: quiet_ok_iff)
  from submit_ok [OF this assms(3)] assms(4-6) show ?thesis
    by (auto simp: submission_checked_def split: if_splits)
qed

lemma sample_submit:
  assumes "i \<in> {''late'', ''live''}"
  shows "\<exists>s w'. submit_result validate i ''wrk_1'' (Some ''tbk_l_x'') None (JObj []) No_envelope sample_world = (Inr s, w')"
proof -
  have none: "find_row res_id (result_envelopes (committed sample_world)) x = None"
    "find_row quar_id (result_quarantine (committed sample_world)) y = None" for x y
    by (simp_all add: sample_defs find_row_def)
  have late: "\<exists>s w'. submit_result validate ''late'' ''wrk_1'' (Some ''tbk_l_x'') None (JObj []) No_envelope sample_world = (Inr s, w')"
    by (rule submit_succeeds [OF sample_quiet sample_fresh sample_rows(2) _ sample_token_ok(1) _ sample_token_ok(2) none])
      (simp_all add: sample_assignment_def)
  have live: "\<exists>s w'. submit_result validate ''live'' ''wrk_1'' (Some ''tbk_l_x'') None (JObj []) No_envelope sample_world = (Inr s, w')"
    by (rule submit_succeeds [OF sample_quiet sample_fresh sample_rows(3) _ sample_token_ok(1) _ sample_token_ok(2) none])
      (simp_all add: sample_assignment_def)
  show ?thesis using assms late live by auto
qed

lemma sample_attempts:
  "attempt_at (committed sample_world) ''old'' = Some (sample_attempt ''old'' 1)"
  "attempt_at (committed sample_world) ''new'' = Some (sample_attempt ''new'' 2)"
  "newer_attempt_exists (committed sample_world) ''wu_1'' 1"
  "\<not> newer_attempt_exists (committed sample_world) ''wu_1'' 2"
  by (simp_all add: sample_defs find_row_def newer_attempt_exists_def)

theorem timely_result_completes_witness:
  "\<exists>s w'. submit_result no_envelopes ''live'' ''wrk_1'' (Some ''tbk_l_x'') None (JObj []) No_envelope sample_world
       = (Inr s, w') \<and> map_option wu_status (work_unit_at (committed w') ''wu_1'') = Some WU_succeeded"
proof -
  obtain s w' where run: "submit_result no_envelopes ''live'' ''wrk_1'' (Some ''tbk_l_x'') None (JObj []) No_envelope
      sample_world = (Inr s, w')"
    using sample_submit [of "''live''"] by blast
  from timely_result_completes [OF sample_idle run sample_rows(3)] run sample_attempts show ?thesis
    by (auto simp: sample_assignment_def sample_attempt_def)
qed

text \<open>A late result is quarantined and never reaches the work unit. When a submission succeeds although a
  newer attempt of the work unit exists, the returned and the stored status are quarantined, the assignment
  and its attempt are quarantined, one quarantine record naming the result is added, no work unit changes, and
  exactly the event result.quarantined was appended.\<close>

theorem late_result_quarantined:
  assumes "idle w" and "sched_ok (committed w)"
    and "submit_result validate i v tok th out env w = (Inr s, w')"
    and "assignment_at (committed w) i = Some a" and "attempt_at (committed w) (asg_attempt_id a) = Some att"
    and "newer_attempt_exists (committed w) (att_work_unit_id att) (att_number att)"
  shows "sr_status s = Res_quarantined \<and> work_units (committed w') = work_units (committed w) \<and>
     (\<exists>r. result_envelopes (committed w') = result_envelopes (committed w) @ [r] \<and>
        res_id r = sr_result_envelope_id s \<and> res_status r = Res_quarantined) \<and>
     map_option asg_status (assignment_at (committed w') i) = Some Asg_quarantined \<and>
     map_option att_status (attempt_at (committed w') (asg_attempt_id a)) = Some Att_quarantined \<and>
     (\<exists>q. result_quarantine (committed w') = result_quarantine (committed w) @ [q] \<and>
        quar_result_envelope_id q = Some (sr_result_envelope_id s) \<and> quar_assignment_id q = i \<and>
        quar_reason q = ''newer_attempt_exists'') \<and>
     events_added [''result.quarantined''] (committed w) (committed w')"
proof -
  have "quiet_ok w" using assms(1,2) by (simp add: quiet_ok_iff)
  from submit_ok [OF this assms(3)] assms(4-6) show ?thesis
    by (auto simp: submission_checked_def split: if_splits)
qed

theorem late_result_quarantined_witness:
  "\<exists>s w'. submit_result no_envelopes ''late'' ''wrk_1'' (Some ''tbk_l_x'') None (JObj []) No_envelope sample_world
       = (Inr s, w') \<and> sr_status s = Res_quarantined \<and> work_units (committed w') = work_units (committed sample_world)"
proof -
  obtain s w' where run: "submit_result no_envelopes ''late'' ''wrk_1'' (Some ''tbk_l_x'') None (JObj []) No_envelope
      sample_world = (Inr s, w')"
    using sample_submit [of "''late''"] by blast
  from late_result_quarantined [OF sample_idle run sample_rows(2)] run sample_attempts show ?thesis
    by (auto simp: sample_assignment_def sample_attempt_def)
qed

text \<open>C2. A superseded attempt can never complete its work unit. Once a retry of an attempt has been scheduled,
  every later successful submission for an assignment of the old attempt, in any reachable state, is quarantined
  and leaves all work units as they were.\<close>

theorem superseded_attempt_never_completes:
  assumes "idle w" and "sched_ok (committed w)" and "schedule_retry old w = (Inr new, w')"
    and "sched_reach validate w' w2" and "assignment_at (committed w2) i = Some a" and "asg_attempt_id a = old"
    and "submit_result validate2 i v tok th out env w2 = (Inr s, w3)"
  shows "sr_status s = Res_quarantined \<and> work_units (committed w3) = work_units (committed w2)"
proof -
  have quiet: "quiet_ok w" using assms by (simp add: quiet_ok_iff)
  have quiet': "quiet_ok w'" by (rule keepsD [OF keeps_quiet_retry(1) quiet assms(3)])
  have quiet2: "quiet_ok w2" by (rule reach_writable [OF assms(4) quiet' blocked_operations(5) assms(7)])
  have cur: "current w = committed w" using assms(1) by (simp add: idle_def)
  obtain x where x: "attempt_at (committed w) old = Some x"
    and run: "create_attempt (att_work_unit_id x) (att_route_plan_id x) (att_policy_decision_id x)
      Att_scheduled ''scheduler.retry_scheduled'' w = (Inr new, w')"
    using assms(3) cur by (auto simp: schedule_retry_def bnd_ok_iff attempt_by_id_ok_iff)
  obtain y where y: "execution_attempts (committed w') = execution_attempts (committed w) @ [y]"
    "att_id y = new" "att_work_unit_id y = att_work_unit_id x"
    "att_number y = next_attempt_number (committed w) (att_work_unit_id x)" "attempt_at (committed w) new = None"
    using create_attempt_ok [OF quiet run] by blast
  have less: "att_number x < att_number y"
    using next_attempt_number_above [of x "committed w"] x y(4) by (auto dest: find_row_SomeD)
  have "attempt_at (committed w') old = Some x" "attempt_at (committed w') new = Some y"
    using x y by (auto simp: find_row_append)
  then obtain x2 y2 where x2: "attempt_at (committed w2) old = Some x2" "attempt_grows x x2"
    and y2: "attempt_at (committed w2) new = Some y2" "attempt_grows y y2"
    using later_attempt [OF quiet' assms(4)] by metis
  have "newer_attempt_exists (committed w2) (att_work_unit_id x2) (att_number x2)"
    using x2 y2 less y(3) find_row_SomeD [OF y2(1)]
    by (auto simp: newer_attempt_exists_def attempt_grows_def att_links_def)
  with submit_ok [OF quiet2 assms(7)] assms(5,6) x2 show ?thesis
    by (auto simp: submission_checked_def split: if_splits)
qed

theorem superseded_attempt_never_completes_witness:
  "\<exists>new w' s w3. schedule_retry ''old'' sample_world = (Inr new, w') \<and>
     submit_result no_envelopes ''late'' ''wrk_1'' (Some ''tbk_l_x'') None (JObj []) No_envelope w' = (Inr s, w3) \<and>
     sr_status s = Res_quarantined \<and> work_units (committed w3) = work_units (committed w')"
proof -
  have "\<exists>new w'. create_attempt ''wu_1'' ''rp_1'' ''pd_1'' Att_scheduled ''scheduler.retry_scheduled'' sample_world
      = (Inr new, w') \<and> fresh_ids w'"
    by (rule create_attempt_succeeds [OF sample_quiet sample_fresh])
      (simp_all add: sample_defs sample_platform_def find_row_def has_row_def)
  then obtain new w' where created: "create_attempt ''wu_1'' ''rp_1'' ''pd_1'' Att_scheduled
      ''scheduler.retry_scheduled'' sample_world = (Inr new, w')" and fresh: "fresh_ids w'"
    by blast
  then have retry: "schedule_retry ''old'' sample_world = (Inr new, w')"
    using sample_attempts(1) by (simp add: schedule_retry_def attempt_by_id_def run_bnd sample_attempt_def)
  have quiet: "quiet_ok w'" by (rule keepsD [OF keeps_quiet_retry(1) sample_quiet retry])
  have same: "assignments (committed w') = assignments (committed sample_world)" "plat w' = plat sample_world"
    "result_envelopes (committed w') = []" "result_quarantine (committed w') = []"
    using create_attempt_ok [OF sample_quiet created] by (auto simp: sample_defs)
  have row: "assignment_at (committed w') ''late''
      = Some (sample_assignment ''late'' ''old'' Asg_accepted 1 (Some sample_hash) (Some ''2025''))"
    using sample_rows(2) by (simp add: same)
  have "\<exists>s w3. submit_result no_envelopes ''late'' ''wrk_1'' (Some ''tbk_l_x'') None (JObj []) No_envelope w' = (Inr s, w3)"
    by (rule submit_succeeds [OF quiet fresh row]) (use sample_token_ok in \<open>simp_all add: same find_row_def sample_assignment_def\<close>)
  then obtain s w3 where sub: "submit_result no_envelopes ''late'' ''wrk_1'' (Some ''tbk_l_x'') None (JObj []) No_envelope w'
      = (Inr s, w3)" by blast
  have "sr_status s = Res_quarantined \<and> work_units (committed w3) = work_units (committed w')"
    by (rule superseded_attempt_never_completes [OF sample_idle retry sched_reach.start [of no_envelopes] row _ sub])
      (simp add: sample_assignment_def)
  then show ?thesis using retry sub by blast
qed

section \<open>The sweeper\<close>

text \<open>C28. The sweeper expires exactly the leases whose expiry text is below the text of the current time. With fresh
  identifiers a sweep returns; it counts the accepted and running assignments whose expiry text is below that text,
  puts exactly those into expired status, leaves every other assignment, every attempt and every work unit as it was,
  and appends one assignment.expired event for each. The order of the texts is the order in time when neither time
  falls on a whole second, whose text has no microseconds.\<close>

theorem sweep_expires_exactly:
  assumes "idle w" and "sched_ok (committed w)" and "fresh_ids w"
    and "now = utc_text (utc_clock (plat w) (clock_draws w))"
  shows "(\<exists>n w'. sweep_expired_leases w = (Inr n, w') \<and>
    n = length (filter (lease_expired now) (assignments (committed w))) \<and>
    list_all2 (\<lambda>a b. expired_row (lease_expired now a) a b) (assignments (committed w)) (assignments (committed w')) \<and>
    events_added (replicate n ''assignment.expired'') (committed w) (committed w') \<and>
    work_units (committed w') = work_units (committed w) \<and>
    execution_attempts (committed w') = execution_attempts (committed w)) \<and>
    (\<forall>a d. let c = utc_clock (plat w) (clock_draws w) in
       asg_status a \<in> {Asg_accepted, Asg_running} \<and> asg_lease_expires_at a = Some (utc_text d) \<and>
       wf_datetime c \<and> wf_datetime d \<and> microsecond c \<noteq> 0 \<and> microsecond d \<noteq> 0 \<longrightarrow>
       (lease_expired now a \<longleftrightarrow> time_key d < time_key c))"
proof -
  obtain n w' where run: "sweep_expired_leases w = (Inr n, w')" using sweep_succeeds [OF assms(3)] by blast
  have "quiet_ok w" using assms(1,2) by (simp add: quiet_ok_iff)
  note sweep_ok [OF this run, folded assms(4)]
  moreover have "lease_expired now a \<longleftrightarrow> time_key d < time_key (utc_clock (plat w) (clock_draws w))"
    if "asg_status a \<in> {Asg_accepted, Asg_running}" "asg_lease_expires_at a = Some (utc_text d)"
      "wf_datetime (utc_clock (plat w) (clock_draws w))" "wf_datetime d" "microsecond (utc_clock (plat w) (clock_draws w)) \<noteq> 0"
      "microsecond d \<noteq> 0" for a d
    unfolding assms(4) using that(1,2) utc_text_order [OF that(4,3,6,5)] by (simp add: lease_expired_def)
  ultimately show ?thesis using run unfolding Let_def by blast
qed

lemma sample_now:
  "\<exists>rest. utc_text (utc_clock (plat sample_world) (clock_draws sample_world)) = ''2026'' @ rest"
proof -
  have pad: "pad 4 n = [digit_char (n div 10 ^ 3 mod 10), digit_char (n mod 10 ^ 3 div 10 ^ 2 mod 10),
      digit_char (n mod 10 ^ 3 mod 10 ^ 2 div 10 ^ 1 mod 10),
      digit_char (n mod 10 ^ 3 mod 10 ^ 2 mod 10 ^ 1 div 10 ^ 0 mod 10)]" for n
    using pad.simps(2) [of 3 n] pad.simps(2) [of 2 "n mod 10 ^ 3"] pad.simps(2) [of 1 "n mod 10 ^ 3 mod 10 ^ 2"]
      pad.simps(2) [of 0 "n mod 10 ^ 3 mod 10 ^ 2 mod 10 ^ 1"] pad.simps(1)
    by (simp only: eval_nat_numeral BitM.simps One_nat_def)
  have digits: "digit_char 2 = CHR ''2''" "digit_char 0 = CHR ''0''" "digit_char 6 = CHR ''6''"
    by code_simp+
  show ?thesis
    by (simp add: sample_world_def sample_platform_def utc_text_def utc_seconds_text_def pad digits)
qed

theorem sweep_expires_exactly_witness:
  "\<exists>n w'. sweep_expired_leases sample_world = (Inr n, w') \<and> n = 1"
proof -
  obtain rest where now: "utc_text (utc_clock (plat sample_world) (clock_draws sample_world)) = ''2026'' @ rest"
    using sample_now by blast
  have "length (filter (lease_expired (''2026'' @ rest)) (assignments (committed sample_world))) = 1"
    by (simp add: sample_defs lease_expired_def less_char_def)
  then show ?thesis using sweep_expires_exactly [OF sample_idle sample_fresh now [symmetric]] by auto
qed

end
