(* ===== verification/Policy.thy ===== *)
theory Policy
  imports Models
begin

text \<open>
  The deterministic policy checks (\<open>src/tokenbank/policy/checks.py\<close>), the extension linter
  (\<open>policy/extensions.py\<close>) and the views of the policy bundle (\<open>policy/bundle.py\<close>). A decision is
  approved exactly when all nine checks pass, so every check is necessary for approval.

  Python's \<open>str\<close> of floats and containers is an argument \<open>repr\<close>; \<open>set[str]\<close> documents whose
  elements are not strings are refused with TypeError.
\<close>

section \<open>Texts of values\<close>

fun py_str :: "(json \<Rightarrow> string) \<Rightarrow> json \<Rightarrow> string" where
  "py_str repr (JStr s) = s"
| "py_str repr JNull = ''None''"
| "py_str repr (JBool b) = (if b then ''True'' else ''False'')"
| "py_str repr (JInt i) = show_int i"
| "py_str repr v = repr v"

text \<open>\<open>NonEmptyStr\<close> under \<open>str_strip_whitespace\<close>\<close>

definition blank :: "char \<Rightarrow> bool" where
  "blank c \<longleftrightarrow> c \<in> {CHR '' '', CHR 0x09, CHR 0x0A, CHR 0x0B, CHR 0x0C, CHR 0x0D}"

definition strip :: "string \<Rightarrow> string" where
  "strip s = rev (dropWhile blank (rev (dropWhile blank s)))"

definition non_empty_str :: "string \<Rightarrow> string result" where
  "non_empty_str s =
     (if strip s = [] then Inl (ValueError ''String should have at least 1 character'') else Inr (strip s))"

section \<open>Extension keys\<close>

definition forbidden_extension_key_fragments :: "string list" where
  "forbidden_extension_key_fragments =
     [''seller'', ''marketplace'', ''payment'', ''payout'', ''settlement'', ''yield'', ''apr'',
      ''credit_trading'', ''account_pool'', ''oauth_proxy'', ''credential_broker'']"

record extension_lint_issue =
  li_path :: string
  li_key :: string
  li_reason :: string

definition normalize_key :: "string \<Rightarrow> string" where
  "normalize_key k = replace_char CHR '' '' CHR ''_'' (replace_char CHR ''-'' CHR ''_'' (lower k))"

text \<open>
  The fragments are a \<open>frozenset\<close>: the order in which they are tried is an argument.
\<close>

definition key_issue :: "string list \<Rightarrow> string \<Rightarrow> string \<Rightarrow> extension_lint_issue list" where
  "key_issue fragments path key_text =
     (case find (\<lambda>f. occurs_in f (normalize_key key_text)) fragments of
        None \<Rightarrow> []
      | Some f \<Rightarrow> [\<lparr>li_path = path @ ''.'' @ key_text, li_key = key_text,
                    li_reason = ''forbidden extension key fragment: '' @ f\<rparr>])"

fun lint_extension_keys :: "string list \<Rightarrow> json \<Rightarrow> string \<Rightarrow> extension_lint_issue list"
  and lint_fields :: "string list \<Rightarrow> fields \<Rightarrow> string \<Rightarrow> extension_lint_issue list"
  and lint_items :: "string list \<Rightarrow> json list \<Rightarrow> nat \<Rightarrow> string \<Rightarrow> extension_lint_issue list" where
  "lint_extension_keys fr (JObj kvs) path = lint_fields fr kvs path"
| "lint_extension_keys fr (JList xs) path = lint_items fr xs 0 path"
| "lint_extension_keys fr v path = []"
| "lint_fields fr [] path = []"
| "lint_fields fr ((k, v) # kvs) path =
     key_issue fr path k @ lint_extension_keys fr v (path @ ''.'' @ k) @ lint_fields fr kvs path"
| "lint_items fr [] i path = []"
| "lint_items fr (x # xs) i path =
     lint_extension_keys fr x (path @ ''['' @ show_nat i @ '']'') @ lint_items fr xs (i + 1) path"

section \<open>The policy bundle\<close>

record policy_bundle =
  pb_provider_policy :: fields
  pb_data_policy :: fields
  pb_sandbox_profile :: fields
  pb_egress_policy :: fields
  pb_backend_policy :: fields
  pb_redaction_policy :: fields
  pb_runtime :: fields
  pb_content_hashes :: "(string \<times> string) list"

fun as_string :: "json \<Rightarrow> string result" where
  "as_string (JStr s) = Inr s"
| "as_string v = Inl (TypeError ''expected str'')"

fun as_dict :: "json \<Rightarrow> fields result" where
  "as_dict (JObj kvs) = Inr kvs"
| "as_dict v = Inl (TypeError ''expected dict'')"

fun as_list :: "json \<Rightarrow> json list result" where
  "as_list (JList xs) = Inr xs"
| "as_list v = Inl (TypeError ''expected list'')"

fun as_field :: "(json \<Rightarrow> 'a result) \<Rightarrow> string \<times> json \<Rightarrow> (string \<times> 'a) result" where
  "as_field conv (k, v) = bind_result (conv v) (\<lambda>x. Inr (k, x))"

fun item :: "fields \<Rightarrow> string \<Rightarrow> json result" where
  "item d k = (case dget d k of None \<Rightarrow> Inl (KeyError k) | Some v \<Rightarrow> Inr v)"

text \<open>Iterating over a JSON value.\<close>

fun py_iter :: "json \<Rightarrow> json list result" where
  "py_iter (JList xs) = Inr xs"
| "py_iter (JObj kvs) = Inr (map (\<lambda>(k, v). JStr k) kvs)"
| "py_iter (JStr s) = Inr (map (\<lambda>c. JStr [c]) s)"
| "py_iter v = Inl (TypeError ''object is not iterable'')"

fun hashable :: "json \<Rightarrow> bool" where
  "hashable (JList xs) = False"
| "hashable (JObj kvs) = False"
| "hashable v = True"

text \<open>A set built of a policy entry: its members are what iterating over the entry gives, so a text contributes
  its characters. The two allowlists are also written into the decision, whose fields hold texts only; the
  members of the other set are only compared with a text.\<close>

definition policy_members :: "policy_bundle \<Rightarrow> string \<Rightarrow> json list result" where
  "policy_members b key =
     (case dget_or (JObj []) (pb_backend_policy b) ''backend_policy'' of
        JObj policy \<Rightarrow>
          bind_result (py_iter (dget_or (JList []) policy key)) (\<lambda>xs.
          if list_all hashable xs then Inr xs else Inl (TypeError ''unhashable type''))
      | v \<Rightarrow> Inl (TypeError ''expected dict''))"

definition policy_string_set :: "policy_bundle \<Rightarrow> string \<Rightarrow> string list result" where
  "policy_string_set b key = bind_result (policy_members b key) (map_result as_string)"

definition allowed_backend_ids :: "policy_bundle \<Rightarrow> string list result" where
  "allowed_backend_ids b = policy_string_set b ''allowed_backend_ids''"

definition allowed_backend_classes :: "policy_bundle \<Rightarrow> string list result" where
  "allowed_backend_classes b = policy_string_set b ''allowed_backend_classes''"

definition forbidden_backend_classes :: "policy_bundle \<Rightarrow> string list result" where
  "forbidden_backend_classes b =
     bind_result (policy_members b ''forbidden_backend_classes'') (\<lambda>xs. Inr [s. JStr s \<leftarrow> xs])"

fun doc :: "(string \<times> fields) list \<Rightarrow> string \<Rightarrow> fields result" where
  "doc docs k = (case dget docs k of None \<Rightarrow> Inl (KeyError k) | Some d \<Rightarrow> Inr d)"

definition compile_policy_bundle ::
  "(string \<times> fields) list \<Rightarrow> (string \<times> string) list \<Rightarrow> policy_bundle result" where
  "compile_policy_bundle docs content_hashes =
     bind_result (doc docs ''provider_policy'') (\<lambda>provider.
     bind_result (doc docs ''data_policy'') (\<lambda>data.
     bind_result (doc docs ''sandbox_profile'') (\<lambda>sandbox.
     bind_result (doc docs ''egress_policy'') (\<lambda>egress.
     bind_result (doc docs ''backend_policy'') (\<lambda>backend.
     bind_result (doc docs ''redaction_policy'') (\<lambda>redaction.
     bind_result (doc docs ''runtime'') (\<lambda>runtime.
     Inr \<lparr>pb_provider_policy = provider, pb_data_policy = data, pb_sandbox_profile = sandbox,
          pb_egress_policy = egress, pb_backend_policy = backend, pb_redaction_policy = redaction,
          pb_runtime = runtime, pb_content_hashes = content_hashes\<rparr>)))))))"

section \<open>Policy checks\<close>

abbreviation control_plane_gateway_worker_id :: string where
  "control_plane_gateway_worker_id \<equiv> ''wrk_control_plane_gateway''"

record policy_check =
  pc_name :: string
  pc_passed :: bool
  pc_reason :: string

definition policy_check_dict :: "policy_check \<Rightarrow> json" where
  "policy_check_dict c =
     JObj [(''name'', JStr (pc_name c)), (''passed'', JBool (pc_passed c)), (''reason'', JStr (pc_reason c))]"

record policy_decision =
  dec_policy_decision_id :: string
  dec_work_unit_id :: string
  dec_route_plan_id :: string
  dec_decision :: string
  dec_reasons :: "string list"
  dec_checks :: "policy_check list"
  dec_allowed_backend_ids :: "string list"
  dec_allowed_backend_classes :: "string list"
  dec_decided_at :: string

definition or_json :: "json \<Rightarrow> json \<Rightarrow> json" where
  "or_json a b = (if truthy a then a else b)"

fun contains_bad_micros :: "json \<Rightarrow> bool" where
  "contains_bad_micros (JObj kvs) \<longleftrightarrow>
     (\<exists>(k, v) \<in> set kvs.
        ends_with ''_micros'' k \<and> (case v of JInt _ \<Rightarrow> False | _ \<Rightarrow> True) \<or> contains_bad_micros v)"
| "contains_bad_micros (JList xs) \<longleftrightarrow> (\<exists>x \<in> set xs. contains_bad_micros x)"
| "contains_bad_micros v \<longleftrightarrow> False"

definition policy_backend_id :: "(json \<Rightarrow> string) \<Rightarrow> fields \<Rightarrow> fields \<Rightarrow> string" where
  "policy_backend_id repr route_plan manifest =
     py_str repr (or_json (dget_or JNull route_plan ''backend_id'') (dget_or JNull manifest ''backend_id''))"

definition policy_backend_class :: "(json \<Rightarrow> string) \<Rightarrow> fields \<Rightarrow> fields \<Rightarrow> string" where
  "policy_backend_class repr route_plan manifest =
     py_str repr (or_json (dget_or JNull route_plan ''backend_class'') (dget_or JNull manifest ''backend_class''))"

definition policy_checks ::
  "(json \<Rightarrow> string) \<Rightarrow> fields \<Rightarrow> fields \<Rightarrow> fields \<Rightarrow> fields \<Rightarrow> string list \<Rightarrow> string list \<Rightarrow> string list
   \<Rightarrow> policy_check list" where
  "policy_checks repr work_unit route_plan worker_manifest manifest ids classes forbidden =
     (let backend_id = policy_backend_id repr route_plan manifest;
          backend_class = policy_backend_class repr route_plan manifest;
          worker_id = py_str repr (dget_or (JStr []) worker_manifest ''worker_id'');
          task_level = py_str repr (dget_or (JStr []) work_unit ''task_level'');
          direct_api_worker = backend_class \<in> {''api_model_gateway'', ''primary_model_gateway''}
            \<and> worker_id \<noteq> control_plane_gateway_worker_id;
          extension_issues =
            lint_extension_keys forbidden_extension_key_fragments
              (dget_or (JObj []) work_unit ''extensions'') ''$.work_unit.extensions'' @
            lint_extension_keys forbidden_extension_key_fragments
              (dget_or (JObj []) route_plan ''extensions'') ''$.route_plan.extensions'' @
            lint_extension_keys forbidden_extension_key_fragments
              (dget_or (JObj []) manifest ''extensions'') ''$.backend_manifest.extensions''
      in [\<lparr>pc_name = ''default_deny_inputs_present'',
           pc_passed = work_unit \<noteq> [] \<and> route_plan \<noteq> [] \<and> manifest \<noteq> [],
           pc_reason = ''work unit, route plan, and backend manifest are required''\<rparr>,
          \<lparr>pc_name = ''needs_review_denied'',
           pc_passed = \<not> (truthy_at work_unit ''needs_review'' \<or> truthy_at route_plan ''needs_review''),
           pc_reason = ''needs_review is denied in Phase 0''\<rparr>,
          \<lparr>pc_name = ''backend_allowlist'', pc_passed = backend_id \<in> set ids,
           pc_reason = ''backend_id '' @ backend_id @ '' must be allowed''\<rparr>,
          \<lparr>pc_name = ''backend_class_allowlist'', pc_passed = backend_class \<in> set classes,
           pc_reason = ''backend_class '' @ backend_class @ '' must be allowed''\<rparr>,
          \<lparr>pc_name = ''forbidden_backend_class'', pc_passed = backend_class \<notin> set forbidden,
           pc_reason = ''backend_class '' @ backend_class @ '' must not be forbidden''\<rparr>,
          \<lparr>pc_name = ''worker_direct_api_model_denied'', pc_passed = \<not> direct_api_worker,
           pc_reason = ''API model gateway execution must stay on the control plane gateway''\<rparr>,
          \<lparr>pc_name = ''l1_l2_verifier_required'',
           pc_passed = task_level \<notin> {''L1'', ''L2''} \<or> truthy_at route_plan ''verifier_recipe_id'',
           pc_reason = ''L1/L2 routes require verifier_recipe_id''\<rparr>,
          \<lparr>pc_name = ''forbidden_extension_keys'', pc_passed = extension_issues = [],
           pc_reason = ''seller/marketplace/payment/payout/settlement/yield-like keys are denied''\<rparr>,
          \<lparr>pc_name = ''micros_fields_integer'',
           pc_passed = \<not> contains_bad_micros (JList [JObj work_unit, JObj route_plan, JObj manifest]),
           pc_reason = ''cost/currency fields ending in _micros must be integers''\<rparr>])"

definition evaluate_policy ::
  "platform \<Rightarrow> (json \<Rightarrow> string) \<Rightarrow> string \<Rightarrow> fields \<Rightarrow> fields \<Rightarrow> fields \<Rightarrow> fields \<Rightarrow> policy_bundle
   \<Rightarrow> policy_decision result" where
  "evaluate_policy p repr now work_unit route_plan worker_manifest manifest bundle =
     bind_result (allowed_backend_ids bundle) (\<lambda>ids.
     bind_result (allowed_backend_classes bundle) (\<lambda>classes.
     bind_result (forbidden_backend_classes bundle) (\<lambda>forbidden.
     let checks = policy_checks repr work_unit route_plan worker_manifest manifest ids classes forbidden;
         passed = list_all pc_passed checks;
         failed = map pc_reason (filter (\<lambda>c. \<not> pc_passed c) checks);
         reasons = (if failed = [] then [''all deterministic WP3 policy checks passed''] else failed);
         work_unit_id = py_str repr (dget_or (JStr ''unknown_work_unit'') work_unit ''work_unit_id'');
         route_plan_id = py_str repr (dget_or (JStr ''unknown_route_plan'') route_plan ''route_plan_id'');
         h = canonical_json_hash (sha256 p) (float_repr p)
               (JObj [(''work_unit_id'', JStr work_unit_id), (''route_plan_id'', JStr route_plan_id),
                      (''checks'', JList (map policy_check_dict checks))])
     in bind_result (non_empty_str work_unit_id) (\<lambda>wu.
        bind_result (non_empty_str route_plan_id) (\<lambda>rp.
        Inr \<lparr>dec_policy_decision_id = ''pd_'' @ take 24 h, dec_work_unit_id = wu, dec_route_plan_id = rp,
             dec_decision = (if passed then ''approved'' else ''denied''), dec_reasons = reasons,
             dec_checks = checks, dec_allowed_backend_ids = sort (remdups ids),
             dec_allowed_backend_classes = sort (remdups classes), dec_decided_at = now\<rparr>)))))"

section \<open>What the checks mean\<close>

text \<open>Every field of every object of a document, at any depth.\<close>

fun all_fields :: "json \<Rightarrow> (string \<times> json) list" where
  "all_fields (JObj kvs) = kvs @ concat (map (\<lambda>(k, v). all_fields v) kvs)"
| "all_fields (JList xs) = concat (map all_fields xs)"
| "all_fields v = []"

text \<open>Every string value of a document, and every object of it, at any depth.\<close>

fun all_strings :: "json \<Rightarrow> string list" where
  "all_strings (JStr s) = [s]"
| "all_strings (JList xs) = concat (map all_strings xs)"
| "all_strings (JObj kvs) = concat (map (\<lambda>(k, v). all_strings v) kvs)"
| "all_strings v = []"

fun all_objects :: "json \<Rightarrow> fields list" where
  "all_objects (JObj kvs) = kvs # concat (map (\<lambda>(k, v). all_objects v) kvs)"
| "all_objects (JList xs) = concat (map all_objects xs)"
| "all_objects v = []"

definition extension_key_ok :: "string list \<Rightarrow> string \<Rightarrow> bool" where
  "extension_key_ok fragments k \<longleftrightarrow> list_all (\<lambda>f. \<not> occurs_in f (normalize_key k)) fragments"

lemma key_issue_Nil [simp]: "key_issue fr path k = [] \<longleftrightarrow> extension_key_ok fr k"
  by (auto simp: key_issue_def extension_key_ok_def list_all_iff find_None_iff split: option.splits)
    (metis find_None_iff option.distinct(1))+

lemma lint_Nil_iff:
  "lint_extension_keys fr v path = [] \<longleftrightarrow> list_all (extension_key_ok fr) (map fst (all_fields v))"
  "lint_fields fr kvs path = [] \<longleftrightarrow>
     (\<forall>(k, v) \<in> set kvs. extension_key_ok fr k \<and> list_all (extension_key_ok fr) (map fst (all_fields v)))"
  "lint_items fr xs i path = [] \<longleftrightarrow> (\<forall>x \<in> set xs. list_all (extension_key_ok fr) (map fst (all_fields x)))"
  by (induction fr v path and fr kvs path and fr xs i path rule: lint_extension_keys_lint_fields_lint_items.induct)
    (auto simp: list_all_iff split_beta)

lemma key_issue_order:
  assumes "set fr = set fr'"
  shows "map (\<lambda>i. (li_path i, li_key i)) (key_issue fr path k) = map (\<lambda>i. (li_path i, li_key i)) (key_issue fr' path k)"
proof -
  have "find P fr = None \<longleftrightarrow> find P fr' = None" for P
    using assms by (auto simp: find_None_iff)
  from this [of "\<lambda>f. occurs_in f (normalize_key k)"] show ?thesis
    by (cases "find (\<lambda>f. occurs_in f (normalize_key k)) fr"; cases "find (\<lambda>f. occurs_in f (normalize_key k)) fr'")
      (simp_all add: key_issue_def)
qed

lemma lint_order:
  assumes "set fr = set fr'"
  shows "map (\<lambda>i. (li_path i, li_key i)) (lint_extension_keys fr v path)
      = map (\<lambda>i. (li_path i, li_key i)) (lint_extension_keys fr' v path)"
    and "map (\<lambda>i. (li_path i, li_key i)) (lint_fields fr kvs path)
      = map (\<lambda>i. (li_path i, li_key i)) (lint_fields fr' kvs path)"
    and "map (\<lambda>i. (li_path i, li_key i)) (lint_items fr xs n path)
      = map (\<lambda>i. (li_path i, li_key i)) (lint_items fr' xs n path)"
  using assms
proof (induction fr v path and fr kvs path and fr xs n path
    rule: lint_extension_keys_lint_fields_lint_items.induct, goal_cases)
  case (9 fr k v kvs path)
  then show ?case using key_issue_order [OF 9(3), of path k] by simp
qed simp_all

fun is_json_int :: "json \<Rightarrow> bool" where
  "is_json_int (JInt i) = True"
| "is_json_int v = False"

lemma list_ex_fields: "list_ex P (kvs @ concat (map g kvs)) \<longleftrightarrow> (\<exists>f \<in> set kvs. P f \<or> list_ex P (g f))"
  by (auto simp: list_ex_iff)

lemma bad_micros_iff:
  "contains_bad_micros v \<longleftrightarrow> list_ex (\<lambda>(k, x). ends_with ''_micros'' k \<and> \<not> is_json_int x) (all_fields v)"
proof (induction v rule: json_induct)
  case (Obj kvs)
  have int: "(case v of JInt _ \<Rightarrow> False | _ \<Rightarrow> True) = (\<not> is_json_int v)" for v by (cases v) auto
  have IH: "contains_bad_micros (snd f) \<longleftrightarrow>
      list_ex (\<lambda>(k, x). ends_with ''_micros'' k \<and> \<not> is_json_int x) (all_fields (snd f))" if "f \<in> set kvs" for f
    using Obj [of "fst f" "snd f"] that by simp
  have "(\<exists>(k, v) \<in> set kvs. ends_with ''_micros'' k \<and> \<not> is_json_int v \<or> contains_bad_micros v) \<longleftrightarrow>
      (\<exists>(k, v) \<in> set kvs. ends_with ''_micros'' k \<and> \<not> is_json_int v \<or>
        list_ex (\<lambda>(k, x). ends_with ''_micros'' k \<and> \<not> is_json_int x) (all_fields v))"
    by (simp only: split_beta IH cong: bex_cong)
  also have "\<dots> \<longleftrightarrow> list_ex (\<lambda>(k, x). ends_with ''_micros'' k \<and> \<not> is_json_int x) (all_fields (JObj kvs))"
    unfolding all_fields.simps list_ex_fields by (simp only: case_prod_unfold)
  finally show ?case by (simp only: contains_bad_micros.simps int)
qed (auto simp: list_ex_iff)

definition extensions_of :: "fields \<Rightarrow> json" where
  "extensions_of d = dget_or (JObj []) d ''extensions''"

text \<open>The rules a policy decision enforces, one conjunct per rule.\<close>

definition policy_allows ::
  "(json \<Rightarrow> string) \<Rightarrow> fields \<Rightarrow> fields \<Rightarrow> fields \<Rightarrow> fields \<Rightarrow> string list \<Rightarrow> string list \<Rightarrow> string list \<Rightarrow> bool" where
  "policy_allows repr work_unit route_plan worker_manifest manifest ids classes forbidden \<longleftrightarrow>
     work_unit \<noteq> [] \<and> route_plan \<noteq> [] \<and> manifest \<noteq> [] \<and>
     \<not> truthy_at work_unit ''needs_review'' \<and> \<not> truthy_at route_plan ''needs_review'' \<and>
     policy_backend_id repr route_plan manifest \<in> set ids \<and>
     policy_backend_class repr route_plan manifest \<in> set classes - set forbidden \<and>
     (policy_backend_class repr route_plan manifest \<in> {''api_model_gateway'', ''primary_model_gateway''} \<longrightarrow>
        py_str repr (dget_or (JStr []) worker_manifest ''worker_id'') = control_plane_gateway_worker_id) \<and>
     (py_str repr (dget_or (JStr []) work_unit ''task_level'') \<in> {''L1'', ''L2''} \<longrightarrow>
        truthy_at route_plan ''verifier_recipe_id'') \<and>
     (\<forall>d \<in> {work_unit, route_plan, manifest}.
        list_all (extension_key_ok forbidden_extension_key_fragments) (map fst (all_fields (extensions_of d)))) \<and>
     (\<forall>d \<in> {work_unit, route_plan, manifest}.
        list_all (\<lambda>(k, x). ends_with ''_micros'' k \<longrightarrow> is_json_int x) (all_fields (JObj d)))"

lemma bad_micros_three:
  "contains_bad_micros (JList [JObj a, JObj b, JObj c]) \<longleftrightarrow>
     \<not> (\<forall>d \<in> {a, b, c}. list_all (\<lambda>(k, x). ends_with ''_micros'' k \<longrightarrow> is_json_int x) (all_fields (JObj d)))"
proof -
  have "contains_bad_micros (JList [JObj a, JObj b, JObj c]) \<longleftrightarrow>
      contains_bad_micros (JObj a) \<or> contains_bad_micros (JObj b) \<or> contains_bad_micros (JObj c)"
    by (simp only: contains_bad_micros.simps(2) list.set bex_simps) blast
  moreover have "contains_bad_micros (JObj d) \<longleftrightarrow>
      \<not> list_all (\<lambda>(k, x). ends_with ''_micros'' k \<longrightarrow> is_json_int x) (all_fields (JObj d))" for d
    by (simp only: bad_micros_iff list_ex_iff list_all_iff split_beta) blast
  ultimately show ?thesis by blast
qed

lemma checks_pass_iff:
  "list_all pc_passed (policy_checks repr work_unit route_plan worker_manifest manifest ids classes forbidden) \<longleftrightarrow>
     policy_allows repr work_unit route_plan worker_manifest manifest ids classes forbidden"
  unfolding policy_checks_def policy_allows_def Let_def
  by (simp only: list.pred_inject policy_check.select_convs append_is_Nil_conv lint_Nil_iff(1)
      bad_micros_three extensions_of_def) auto

lemma evaluate_policy_ok:
  assumes "evaluate_policy p repr now work_unit route_plan worker_manifest manifest bundle = Inr d"
  obtains ids classes forbidden where
    "allowed_backend_ids bundle = Inr ids" "allowed_backend_classes bundle = Inr classes"
    "forbidden_backend_classes bundle = Inr forbidden"
    "dec_checks d = policy_checks repr work_unit route_plan worker_manifest manifest ids classes forbidden"
    "dec_decision d = (if list_all pc_passed (dec_checks d) then ''approved'' else ''denied'')"
    "dec_reasons d = (if list_all pc_passed (dec_checks d) then [''all deterministic WP3 policy checks passed'']
       else map pc_reason (filter (\<lambda>c. \<not> pc_passed c) (dec_checks d)))"
  using assms
  by (auto simp: evaluate_policy_def Let_def filter_empty_conv list_all_iff)

section \<open>Properties\<close>

text \<open>C33. Policy is default deny. A decision is either approved or denied, and it is approved exactly when every
  rule holds: all inputs present, no review flag, backend id on the allowlist, backend class allowed and not
  forbidden, API and primary model gateways only for the control plane gateway worker, a verifier recipe on L1
  and L2 routes, no forbidden extension key at any depth, and every field ending in _micros an integer. A
  denial lists exactly the reasons of the failed checks, and there is at least one.\<close>

theorem policy_default_deny:
  assumes "evaluate_policy p repr now work_unit route_plan worker_manifest manifest bundle = Inr d"
    and "allowed_backend_ids bundle = Inr ids" and "allowed_backend_classes bundle = Inr classes"
    and "forbidden_backend_classes bundle = Inr forbidden"
  shows "dec_decision d = (if policy_allows repr work_unit route_plan worker_manifest manifest ids classes forbidden
           then ''approved'' else ''denied'') \<and>
         (dec_decision d = ''denied'' \<longrightarrow> dec_reasons d \<noteq> [] \<and>
            dec_reasons d = map pc_reason (filter (\<lambda>c. \<not> pc_passed c) (dec_checks d)))"
proof -
  have d: "dec_checks d = policy_checks repr work_unit route_plan worker_manifest manifest ids classes forbidden"
    "dec_decision d = (if list_all pc_passed (dec_checks d) then ''approved'' else ''denied'')"
    "dec_reasons d = (if list_all pc_passed (dec_checks d) then [''all deterministic WP3 policy checks passed'']
       else map pc_reason (filter (\<lambda>c. \<not> pc_passed c) (dec_checks d)))"
    by (rule evaluate_policy_ok [OF assms(1)]; use assms(2-4) in simp)+
  have "filter (\<lambda>c. \<not> pc_passed c) cs \<noteq> []" if "\<not> list_all pc_passed cs" for cs
    using that by (auto simp: list_all_iff filter_empty_conv)
  from this [of "dec_checks d"] show ?thesis using d by (auto simp: checks_pass_iff split: if_splits)
qed

definition sample_bundle :: policy_bundle where
  "sample_bundle =
     \<lparr>pb_provider_policy = [], pb_data_policy = [], pb_sandbox_profile = [], pb_egress_policy = [],
      pb_backend_policy = [(''backend_policy'', JObj [(''allowed_backend_ids'', JList [JStr ''be_1'']),
        (''allowed_backend_classes'', JList [JStr ''local_tool''])])],
      pb_redaction_policy = [], pb_runtime = [], pb_content_hashes = []\<rparr>"

theorem policy_default_deny_witness:
  "\<exists>d. evaluate_policy \<lparr>sha256 = id, float_repr = (\<lambda>_. []), uuid4_hex = (\<lambda>_. []), token_urlsafe = (\<lambda>_. []),
          utc_clock = (\<lambda>_. \<lparr>year = 2026, month = 1, day = 1, hour = 0, minute = 0, second = 0, microsecond = 0\<rparr>)\<rparr>
        (\<lambda>_. []) ''t'' [(''work_unit_id'', JStr ''w'')] [(''route_plan_id'', JStr ''r'')] []
        [(''backend_id'', JStr ''be_2''), (''backend_class'', JStr ''local_tool'')] sample_bundle = Inr d
      \<and> dec_decision d = ''denied''"
proof -
  let ?run = "evaluate_policy \<lparr>sha256 = id, float_repr = (\<lambda>_. []), uuid4_hex = (\<lambda>_. []), token_urlsafe = (\<lambda>_. []),
      utc_clock = (\<lambda>_. \<lparr>year = 2026, month = 1, day = 1, hour = 0, minute = 0, second = 0, microsecond = 0\<rparr>)\<rparr>
    (\<lambda>_. []) ''t'' [(''work_unit_id'', JStr ''w'')] [(''route_plan_id'', JStr ''r'')] []
    [(''backend_id'', JStr ''be_2''), (''backend_class'', JStr ''local_tool'')] sample_bundle"
  have sets: "allowed_backend_ids sample_bundle = Inr [''be_1'']"
      "allowed_backend_classes sample_bundle = Inr [''local_tool'']" "forbidden_backend_classes sample_bundle = Inr []"
    by (simp_all add: allowed_backend_ids_def allowed_backend_classes_def forbidden_backend_classes_def
        policy_string_set_def policy_members_def sample_bundle_def dget_or_def)
  obtain d where run: "?run = Inr d"
    by (simp add: evaluate_policy_def sets Let_def non_empty_str_def strip_def blank_def dget_or_def)
  have "\<not> policy_allows (\<lambda>_. []) [(''work_unit_id'', JStr ''w'')] [(''route_plan_id'', JStr ''r'')] []
      [(''backend_id'', JStr ''be_2''), (''backend_class'', JStr ''local_tool'')] [''be_1''] [''local_tool''] []"
    by (simp add: policy_allows_def policy_backend_id_def dget_or_def or_json_def)
  with policy_default_deny [OF run sets] run show ?thesis by auto
qed

text \<open>The extension linter is complete and its verdict does not depend on the iteration order of the
  fragment set: it reports nothing exactly when no key of any object at any depth contains a forbidden fragment
  after normalisation, and for any two orders of the same fragments it reports the same paths and keys in the
  same order.\<close>

theorem lint_extension_keys_exact:
  assumes "set fr = set forbidden_extension_key_fragments"
  shows "(lint_extension_keys fr v path = []
      \<longleftrightarrow> list_all (extension_key_ok forbidden_extension_key_fragments) (map fst (all_fields v))) \<and>
   map (\<lambda>i. (li_path i, li_key i)) (lint_extension_keys fr v path)
     = map (\<lambda>i. (li_path i, li_key i)) (lint_extension_keys forbidden_extension_key_fragments v path)"
proof -
  note same = lint_order(1) [OF assms, of v path]
  then have "lint_extension_keys fr v path = [] \<longleftrightarrow> lint_extension_keys forbidden_extension_key_fragments v path = []"
    by (cases "lint_extension_keys fr v path"; cases "lint_extension_keys forbidden_extension_key_fragments v path")
      simp_all
  then show ?thesis using same by (simp only: lint_Nil_iff(1))
qed

theorem lint_extension_keys_exact_witness:
  "map (\<lambda>i. (li_path i, li_key i)) (lint_extension_keys (rev forbidden_extension_key_fragments)
     (JObj [(''my-payment'', JNull)]) ''$'') =
   map (\<lambda>i. (li_path i, li_key i)) (lint_extension_keys forbidden_extension_key_fragments
     (JObj [(''my-payment'', JNull)]) ''$'')"
  by (rule conjunct2 [OF lint_extension_keys_exact]) simp

end
