(* ===== verification/Accounts.thy ===== *)
theory Accounts
  imports Policy Outbox
begin

text \<open>
  Account snapshots (\<open>src/tokenbank/accounts/registry.py\<close>, \<open>models/account_snapshot.py\<close>): the registry stores
  what is known about a provider account without its credentials. A reference to a secret must have a local
  prefix and must not look like a credential itself.
\<close>

section \<open>Raw credentials\<close>

text \<open>
  The seven expressions share one form: an optional word boundary, a head, a run of characters of one class of
  bounded length, a literal tail, and an optional word boundary. Unlike the redaction patterns they need
  backtracking, so the search tries every start and every length of the run.
\<close>

record secret_shape =
  sh_lead_boundary :: bool
  sh_head :: pattern
  sh_class :: "char \<Rightarrow> bool"
  sh_min :: nat
  sh_max :: "nat option"
  sh_tail :: string
  sh_end_boundary :: bool

definition is_word_at :: "string \<Rightarrow> nat \<Rightarrow> bool" where
  "is_word_at s i \<longleftrightarrow> i < length s \<and> word_char (s ! i)"

definition boundary_at :: "string \<Rightarrow> nat \<Rightarrow> bool" where
  "boundary_at s i \<longleftrightarrow> (0 < i \<and> is_word_at s (i - 1)) \<noteq> is_word_at s i"

definition shape_matches_at :: "secret_shape \<Rightarrow> string \<Rightarrow> nat \<Rightarrow> bool" where
  "shape_matches_at sh s i \<longleftrightarrow>
     (sh_lead_boundary sh \<longrightarrow> boundary_at s i) \<and>
     (case match_at (sh_head sh) (drop i s) of
        None \<Rightarrow> False
      | Some m \<Rightarrow>
          list_ex (\<lambda>n. sh_min sh \<le> n \<and> (case sh_max sh of None \<Rightarrow> True | Some k \<Rightarrow> n \<le> k) \<and>
              starts_with (sh_tail sh) (drop (i + m + n) s) \<and>
              (sh_end_boundary sh \<longrightarrow> boundary_at s (i + m + n + length (sh_tail sh))))
            [0..<Suc (length (takeWhile (sh_class sh) (drop (i + m) s)))])"

definition shape_search :: "secret_shape \<Rightarrow> string \<Rightarrow> bool" where
  "shape_search sh s \<longleftrightarrow> list_ex (shape_matches_at sh s) [0..<Suc (length s)]"

definition bounded_shape :: "pattern \<Rightarrow> (char \<Rightarrow> bool) \<Rightarrow> nat \<Rightarrow> nat option \<Rightarrow> secret_shape" where
  "bounded_shape head cls lo hi =
     \<lparr>sh_lead_boundary = True, sh_head = head, sh_class = cls, sh_min = lo, sh_max = hi, sh_tail = [],
      sh_end_boundary = True\<rparr>"

definition raw_secret_value_patterns :: "secret_shape list" where
  "raw_secret_value_patterns =
     [bounded_shape (literal ''sk-'') word_dash_char 8 None,
      (bounded_shape (literal_nocase ''bearer'' @ [Many1 space_char]) bearer_char 8 None)\<lparr>sh_end_boundary := False\<rparr>,
      bounded_shape (literal ''tbk_'' @ [One (in_range CHR ''a'' CHR ''z'')] @ literal ''_'') word_dash_char 8 None,
      bounded_shape (literal ''xox'' @ [One (\<lambda>c. c \<in> set ''abpr'')] @ literal ''-'')
        (\<lambda>c. alnum c \<or> c = CHR ''-'') 8 None,
      bounded_shape (literal ''gh'' @ [One (\<lambda>c. c \<in> set ''pousr'')] @ literal ''_'') word_char 12 None,
      bounded_shape (literal ''AKIA'') (\<lambda>c. in_range CHR ''0'' CHR ''9'' c \<or> in_range CHR ''A'' CHR ''Z'' c) 16 (Some 16),
      \<lparr>sh_lead_boundary = False, sh_head = literal ''-----BEGIN '',
       sh_class = (\<lambda>c. in_range CHR ''A'' CHR ''Z'' c \<or> c = CHR '' ''), sh_min = 0, sh_max = None,
       sh_tail = ''PRIVATE KEY-----'', sh_end_boundary = False\<rparr>]"

definition allowed_secret_ref_prefixes :: "string list" where
  "allowed_secret_ref_prefixes = [''keychain:'', ''env:'', ''vault:'', ''manual:'', ''none:'']"

definition validate_secret_ref :: "string \<Rightarrow> unit result" where
  "validate_secret_ref secret_ref =
     (if secret_ref = [] then Inl (ValueError ''secret_ref must be non-empty when provided'')
      else if \<not> list_ex (\<lambda>p. starts_with p secret_ref) allowed_secret_ref_prefixes
      then Inl (ValueError ''secret_ref must use a local reference prefix'')
      else if list_ex (\<lambda>sh. shape_search sh secret_ref) raw_secret_value_patterns
      then Inl (ValueError ''secret_ref looks like a raw credential'')
      else Inr ())"

section \<open>Snapshots\<close>

record balance_snapshot =
  bal_source :: string
  bal_available_micros :: "int option"
  bal_monthly_spend_micros :: "int option"
  bal_monthly_budget_micros :: "int option"
  bal_confidence :: rat
  bal_captured_at :: string

record rate_limit_snapshot =
  rls_requests_per_minute :: "int option"
  rls_tokens_per_minute :: "int option"
  rls_concurrent_requests :: "int option"
  rls_source :: string
  rls_captured_at :: string

record account_snapshot =
  acc_account_snapshot_id :: string
  acc_provider :: string
  acc_account_label :: string
  acc_status :: string
  acc_secret_ref :: "string option"
  acc_secret_ref_status :: string
  acc_raw_secret_present :: bool
  acc_balance :: "balance_snapshot option"
  acc_rate_limits :: "rate_limit_snapshot option"
  acc_visible_models :: "string list"
  acc_evidence_hash :: "string option"
  acc_reason_codes :: "string list"
  acc_captured_at :: string

definition dump_balance :: "balance_snapshot \<Rightarrow> json" where
  "dump_balance b = JObj
     [schema_version, (''source'', JStr (bal_source b)), (''available_micros'', int_opt (bal_available_micros b)),
      (''monthly_spend_micros'', int_opt (bal_monthly_spend_micros b)),
      (''monthly_budget_micros'', int_opt (bal_monthly_budget_micros b)),
      (''confidence'', JFloat (bal_confidence b)), (''captured_at'', JStr (bal_captured_at b))]"

definition dump_rate_limits :: "rate_limit_snapshot \<Rightarrow> json" where
  "dump_rate_limits l = JObj
     [schema_version, (''requests_per_minute'', int_opt (rls_requests_per_minute l)),
      (''tokens_per_minute'', int_opt (rls_tokens_per_minute l)),
      (''concurrent_requests'', int_opt (rls_concurrent_requests l)), (''source'', JStr (rls_source l)),
      (''captured_at'', JStr (rls_captured_at l))]"

definition dump_account_snapshot :: "account_snapshot \<Rightarrow> json" where
  "dump_account_snapshot a = JObj
     [schema_version, (''account_snapshot_id'', JStr (acc_account_snapshot_id a)),
      (''provider'', JStr (acc_provider a)), (''account_label'', JStr (acc_account_label a)),
      (''status'', JStr (acc_status a)), (''secret_ref'', str_opt (acc_secret_ref a)),
      (''secret_ref_status'', JStr (acc_secret_ref_status a)),
      (''raw_secret_present'', JBool (acc_raw_secret_present a)),
      (''balance'', json_of_option dump_balance (acc_balance a)),
      (''rate_limits'', json_of_option dump_rate_limits (acc_rate_limits a)),
      (''visible_models'', JList (map JStr (acc_visible_models a))),
      (''evidence_hash'', str_opt (acc_evidence_hash a)),
      (''reason_codes'', JList (map JStr (acc_reason_codes a))), (''captured_at'', JStr (acc_captured_at a))]"

definition balance_sources :: "string list" where
  "balance_sources = [''provider_api'', ''tokenbank_ledger'', ''manual'']"

definition account_statuses :: "string list" where
  "account_statuses = [''configured'', ''unconfigured'', ''error'', ''unknown'']"

definition require_ok :: "bool \<Rightarrow> string \<Rightarrow> unit result" where
  "require_ok ok field = (if ok then Inr () else Inl (ValueError field))"

definition non_negative_opt :: "int option \<Rightarrow> bool" where
  "non_negative_opt x \<longleftrightarrow> (case x of None \<Rightarrow> True | Some i \<Rightarrow> 0 \<le> i)"

fun opt_non_empty :: "string option \<Rightarrow> string option result" where
  "opt_non_empty None = Inr None"
| "opt_non_empty (Some s) = bind_result (non_empty_str s) (\<lambda>t. Inr (Some t))"

definition make_balance_snapshot :: "balance_snapshot \<Rightarrow> balance_snapshot result" where
  "make_balance_snapshot b =
     bind_result (require_ok (bal_source b \<in> set balance_sources) ''source'') (\<lambda>_.
     bind_result (require_ok (non_negative_opt (bal_available_micros b) \<and> non_negative_opt (bal_monthly_spend_micros b)
        \<and> non_negative_opt (bal_monthly_budget_micros b)) ''micros'') (\<lambda>_.
     bind_result (require_ok (0 \<le> bal_confidence b \<and> bal_confidence b \<le> 1) ''confidence'') (\<lambda>_. Inr b)))"

definition make_rate_limit_snapshot :: "rate_limit_snapshot \<Rightarrow> rate_limit_snapshot result" where
  "make_rate_limit_snapshot l =
     bind_result (require_ok (non_negative_opt (rls_requests_per_minute l) \<and> non_negative_opt (rls_tokens_per_minute l)
        \<and> non_negative_opt (rls_concurrent_requests l)) ''limits'') (\<lambda>_.
     bind_result (require_ok (rls_source l \<in> set balance_sources) ''source'') (\<lambda>_. Inr l))"

definition make_account_snapshot :: "account_snapshot \<Rightarrow> account_snapshot result" where
  "make_account_snapshot a =
     bind_result (non_empty_str (acc_account_snapshot_id a)) (\<lambda>i.
     bind_result (non_empty_str (acc_provider a)) (\<lambda>provider.
     bind_result (non_empty_str (acc_account_label a)) (\<lambda>label.
     bind_result (require_ok (acc_status a \<in> set account_statuses) ''status'') (\<lambda>_.
     bind_result (opt_non_empty (acc_secret_ref a)) (\<lambda>secret_ref.
     bind_result (require_ok (acc_secret_ref_status a \<in> {''present'', ''missing'', ''unknown''}) ''secret_ref_status'') (\<lambda>_.
     bind_result (map_result non_empty_str (acc_visible_models a)) (\<lambda>models.
     bind_result (opt_non_empty (acc_evidence_hash a)) (\<lambda>evidence.
     bind_result (map_result non_empty_str (acc_reason_codes a)) (\<lambda>codes.
     bind_result (require_ok (\<not> acc_raw_secret_present a) ''AccountSnapshot cannot contain a raw secret'') (\<lambda>_.
     bind_result (case secret_ref of None \<Rightarrow> Inr () | Some r \<Rightarrow> validate_secret_ref r) (\<lambda>_.
     Inr (a\<lparr>acc_account_snapshot_id := i, acc_provider := provider, acc_account_label := label,
            acc_secret_ref := secret_ref, acc_visible_models := models, acc_evidence_hash := evidence,
            acc_reason_codes := codes\<rparr>))))))))))))"

section \<open>Registry\<close>

definition hash_json :: "json \<Rightarrow> string op" where
  "hash_json v = gets (\<lambda>w. canonical_json_hash (sha256 (plat w)) (float_repr (plat w)) v)"

definition account_row_of :: "account_snapshot \<Rightarrow> string \<Rightarrow> account_snapshot_row" where
  "account_row_of a h =
     \<lparr>acr_id = acc_account_snapshot_id a, acr_provider = acc_provider a, acr_account_label = acc_account_label a,
      acr_status = acc_status a, acr_secret_ref = acc_secret_ref a, acr_snapshot_hash = h,
      acr_body = canonical (dump_account_snapshot a), acr_created_at = acc_captured_at a,
      acr_updated_at = acc_captured_at a\<rparr>"

definition account_event_body :: "account_snapshot \<Rightarrow> string \<Rightarrow> json" where
  "account_event_body a h = JObj
     [(''account_snapshot_id'', JStr (acc_account_snapshot_id a)), (''provider'', JStr (acc_provider a)),
      (''account_label'', JStr (acc_account_label a)), (''status'', JStr (acc_status a)),
      (''secret_ref_status'', JStr (acc_secret_ref_status a)), (''snapshot_hash'', JStr h)]"

definition upsert_account_snapshot :: "account_snapshot \<Rightarrow> json op" where
  "upsert_account_snapshot a =
     bnd (hash_json (dump_account_snapshot a)) (\<lambda>h.
     seq (change_with_event
        (\<lambda>t. Inr (t\<lparr>account_snapshots := upsert_row acr_id
           (\<lambda>old. (account_row_of a h)\<lparr>acr_created_at := acr_created_at old\<rparr>) (account_row_of a h)
           (account_snapshots t)\<rparr>))
        (outbox_event ''tokenbank.accounts'' ''account_snapshot.upserted''
           (''account_snapshots/'' @ acc_account_snapshot_id a) (account_event_body a h) None None None None))
     (ret (JObj [(''account_snapshot'', dump_account_snapshot a), (''snapshot_hash'', JStr h)])))"

definition snapshot_response :: "account_snapshot_row \<Rightarrow> json" where
  "snapshot_response r = JObj
     [(''account_snapshot'', acr_body r), (''snapshot_hash'', JStr (acr_snapshot_hash r)),
      (''created_at'', JStr (acr_created_at r)), (''updated_at'', JStr (acr_updated_at r))]"

definition get_snapshot :: "string \<Rightarrow> json option op" where
  "get_snapshot i = select (\<lambda>t. map_option snapshot_response (find_row acr_id (account_snapshots t) i))"

text \<open>A filter applies when its argument is given and not empty.\<close>

definition wanted :: "string option \<Rightarrow> string \<Rightarrow> bool" where
  "wanted arg v \<longleftrightarrow> arg = None \<or> arg = Some [] \<or> arg = Some v"

definition list_snapshots :: "string option \<Rightarrow> string option \<Rightarrow> json list op" where
  "list_snapshots provider status =
     select (\<lambda>t. map snapshot_response
       (sort_key (\<lambda>r. (acr_provider r, acr_account_label r)) (sort_desc acr_updated_at
          (filter (\<lambda>r. wanted provider (acr_provider r) \<and> wanted status (acr_status r)) (account_snapshots t)))))"

definition refresh_local :: "json op" where
  "refresh_local =
     bnd (list_snapshots None None) (\<lambda>snapshots.
     ret (JObj [(''status'', JStr ''ok''), (''provider_calls_executed'', JBool False),
        (''snapshot_count'', JInt (int (length snapshots))), (''snapshots'', JList snapshots),
        (''caveats'', JList [JStr ''WP-LEDGER1 refresh is local-only; provider API balance sync is deferred.''])]))"

definition build_manual_account_snapshot ::
  "string \<Rightarrow> string \<Rightarrow> string option \<Rightarrow> string \<Rightarrow> string \<Rightarrow> int option \<Rightarrow> int option \<Rightarrow> int option \<Rightarrow> int option
   \<Rightarrow> int option \<Rightarrow> string list option \<Rightarrow> account_snapshot op" where
  "build_manual_account_snapshot provider label secret_ref status balance_source available spend budget rpm tpm models =
     bnd (hash_json (JObj [(''provider'', JStr provider), (''account_label'', JStr label),
        (''secret_ref'', JStr (if secret_ref \<in> {None, Some []} then ''none:'' else the secret_ref))])) (\<lambda>h.
     bnd (if available \<noteq> None \<or> spend \<noteq> None \<or> budget \<noteq> None
          then bnd utc_text_now (\<lambda>now. of_result (map_sum id Some (make_balance_snapshot
             \<lparr>bal_source = balance_source, bal_available_micros = available, bal_monthly_spend_micros = spend,
              bal_monthly_budget_micros = budget,
              bal_confidence = (if balance_source = ''manual'' then 7 / 10 else 8 / 10), bal_captured_at = now\<rparr>)))
          else ret None) (\<lambda>balance.
     bnd (if rpm \<noteq> None \<or> tpm \<noteq> None
          then bnd utc_text_now (\<lambda>now. of_result (map_sum id Some (make_rate_limit_snapshot
             \<lparr>rls_requests_per_minute = rpm, rls_tokens_per_minute = tpm, rls_concurrent_requests = None,
              rls_source = ''manual'', rls_captured_at = now\<rparr>)))
          else ret None) (\<lambda>limits.
     bnd utc_text_now (\<lambda>now.
     of_result (make_account_snapshot
       \<lparr>acc_account_snapshot_id = ''acct_'' @ take 24 h, acc_provider = provider, acc_account_label = label,
        acc_status = status, acc_secret_ref = secret_ref,
        acc_secret_ref_status = (if secret_ref \<in> {None, Some []} then ''missing'' else ''present''),
        acc_raw_secret_present = False, acc_balance = balance, acc_rate_limits = limits,
        acc_visible_models = (case models of None \<Rightarrow> [] | Some ms \<Rightarrow> ms), acc_evidence_hash = None,
        acc_reason_codes = [''manual_local_snapshot''], acc_captured_at = now\<rparr>)))))"

section \<open>What the registry keeps\<close>

lemma require_ok_Inr [simp]: "require_ok ok f = Inr x \<longleftrightarrow> ok"
  by (cases x) (simp add: require_ok_def)

definition safe_secret_ref :: "string \<Rightarrow> bool" where
  "safe_secret_ref s \<longleftrightarrow>
     (\<exists>p \<in> set allowed_secret_ref_prefixes. starts_with p s) \<and>
     (\<forall>sh \<in> set raw_secret_value_patterns. \<not> shape_search sh s)"

lemma validate_secret_ref_ok: "validate_secret_ref s = Inr x \<longleftrightarrow> s \<noteq> [] \<and> safe_secret_ref s"
  by (cases x) (auto simp: validate_secret_ref_def safe_secret_ref_def list_ex_iff)

definition account_ok :: "account_snapshot \<Rightarrow> bool" where
  "account_ok a \<longleftrightarrow>
     acc_account_snapshot_id a \<noteq> [] \<and> acc_provider a \<noteq> [] \<and> acc_account_label a \<noteq> [] \<and>
     acc_status a \<in> set account_statuses \<and> \<not> acc_raw_secret_present a \<and>
     (\<forall>s. acc_secret_ref a = Some s \<longrightarrow> safe_secret_ref s)"

lemma non_empty_str_ok: "non_empty_str s = Inr t \<longleftrightarrow> t = strip s \<and> t \<noteq> []"
  by (auto simp: non_empty_str_def)

lemma make_account_snapshot_ok: "make_account_snapshot a = Inr b \<Longrightarrow> account_ok b"
  unfolding make_account_snapshot_def account_ok_def
  by (auto simp: non_empty_str_ok validate_secret_ref_ok split: option.splits)

lemma build_account_ok:
  assumes "build_manual_account_snapshot p l s st src av sp bu rpm tpm ms w = (Inr a, w')"
  shows "account_ok a" and "committed w' = committed w" and "idle w \<Longrightarrow> idle w'"
proof -
  show "account_ok a"
    using assms unfolding build_manual_account_snapshot_def
    by (auto simp: bnd_ok_iff dest: make_account_snapshot_ok)
  show "committed w' = committed w" "idle w \<Longrightarrow> idle w'"
    using assms unfolding build_manual_account_snapshot_def hash_json_def
    by (auto simp: bnd_ok_iff idle_def split: if_splits)
qed

lemma upsert_account_ok:
  assumes "idle w" and "pk_unique acr_id (account_snapshots (committed w))"
    and "upsert_account_snapshot a w = (Inr out, w')"
  defines "h \<equiv> canonical_json_hash (sha256 (plat w)) (float_repr (plat w)) (dump_account_snapshot a)"
  shows "idle w' \<and> pk_unique acr_id (account_snapshots (committed w')) \<and>
    out = JObj [(''account_snapshot'', dump_account_snapshot a), (''snapshot_hash'', JStr h)] \<and>
    (\<forall>i. find_row acr_id (account_snapshots (committed w')) i =
       (if i = acc_account_snapshot_id a
        then Some (case find_row acr_id (account_snapshots (committed w)) i of
               None \<Rightarrow> account_row_of a h
             | Some old \<Rightarrow> (account_row_of a h)\<lparr>acr_created_at := acr_created_at old\<rparr>)
        else find_row acr_id (account_snapshots (committed w)) i)) \<and>
    (\<exists>r. event_outbox (committed w') = event_outbox (committed w) @ [r] \<and>
       event_of ''tokenbank.accounts'' ''account_snapshot.upserted'' (''account_snapshots/'' @ acc_account_snapshot_id a)
         (account_event_body a h) r)"
proof -
  let ?f = "\<lambda>old. (account_row_of a h)\<lparr>acr_created_at := acr_created_at old\<rparr>"
  let ?rows = "upsert_row acr_id ?f (account_row_of a h) (account_snapshots (committed w))"
  have key: "acr_id (account_row_of a h) = acc_account_snapshot_id a" by (simp add: account_row_of_def)
  have run: "change_with_event (\<lambda>t. Inr (t\<lparr>account_snapshots := upsert_row acr_id ?f (account_row_of a h) (account_snapshots t)\<rparr>))
      (outbox_event ''tokenbank.accounts'' ''account_snapshot.upserted'' (''account_snapshots/'' @ acc_account_snapshot_id a)
         (account_event_body a h) None None None None) w = (Inr (), w')"
    and out: "out = JObj [(''account_snapshot'', dump_account_snapshot a), (''snapshot_hash'', JStr h)]"
    using assms(3) by (auto simp: upsert_account_snapshot_def hash_json_def bnd_ok_iff seq_ok_iff h_def)
  obtain r where r: "event_of ''tokenbank.accounts'' ''account_snapshot.upserted''
      (''account_snapshots/'' @ acc_account_snapshot_id a) (account_event_body a h) r" "idle w'"
    "account_snapshots (committed w') = ?rows" "event_outbox (committed w') = event_outbox (committed w) @ [r]"
    using change_with_event_ok [OF assms(1) run] by auto
  have "pk_unique acr_id ?rows" by (rule pk_unique_upsert) (simp_all add: key assms(2))
  moreover have "find_row acr_id ?rows i = (if i = acc_account_snapshot_id a
      then Some (case find_row acr_id (account_snapshots (committed w)) i of None \<Rightarrow> account_row_of a h | Some old \<Rightarrow> ?f old)
      else find_row acr_id (account_snapshots (committed w)) i)" for i
    by (subst find_row_upsert) (simp_all add: key)
  ultimately show ?thesis using r out by simp
qed

text \<open>A manually registered account is readable and holds no credential. When a snapshot is built and
  stored, reading it back returns its document, its hash and its capture time; its secret reference, if any,
  starts with one of the local prefixes and matches no credential pattern; every other account is untouched; and
  one redacted event records the change.\<close>

theorem account_stored_without_secret:
  assumes "idle w" and "pk_unique acr_id (account_snapshots (committed w))"
    and "build_manual_account_snapshot p l s st src av sp bu rpm tpm ms w = (Inr a, w1)"
    and "upsert_account_snapshot a w1 = (Inr out, w2)"
  shows "(\<exists>r. find_row acr_id (account_snapshots (committed w2)) (acc_account_snapshot_id a) = Some r \<and>
      get_snapshot (acc_account_snapshot_id a) w2 = (Inr (Some (snapshot_response r)), w2) \<and>
      acr_body r = canonical (dump_account_snapshot a) \<and> acr_updated_at r = acc_captured_at a \<and>
      acr_snapshot_hash r = canonical_json_hash (sha256 (plat w1)) (float_repr (plat w1)) (dump_account_snapshot a) \<and>
      (\<forall>ref. acr_secret_ref r = Some ref \<longrightarrow> safe_secret_ref ref)) \<and>
    (\<forall>i. i \<noteq> acc_account_snapshot_id a \<longrightarrow>
      find_row acr_id (account_snapshots (committed w2)) i = find_row acr_id (account_snapshots (committed w)) i) \<and>
    (\<exists>ev. event_outbox (committed w2) = event_outbox (committed w) @ [ev] \<and> redacted (ev_body ev))"
proof -
  have built: "account_ok a" "committed w1 = committed w" "idle w1"
    using build_account_ok [OF assms(3)] assms(1) by auto
  then have pk: "pk_unique acr_id (account_snapshots (committed w1))" using assms(2) by simp
  note stored = upsert_account_ok [OF built(3) pk assms(4)]
  have "redacted (ev_body r)" if "event_of src ty subj bod r" for src ty subj bod r
    using that by (simp add: event_of_def redacted_canonical redacted_redact)
  then show ?thesis
    using stored built
    by (auto simp: get_snapshot_def select_def idle_def account_row_of_def account_ok_def split: option.splits)
qed

text \<open>
  The key \<open>secret_ref_status\<close> contains the fragment \<open>secret\<close>: the outbox never records the status itself.
\<close>

lemma event_loses_secret_status:
  "\<exists>kvs. redact_sensitive_value (account_event_body a h) = JObj kvs \<and>
     dget kvs ''secret_ref_status'' = Some (JStr redacted_secret)"
proof -
  have "secret_key ''secret_ref_status''" by code_simp
  moreover have "\<not> secret_key k" if "k \<in> {''account_snapshot_id'', ''provider'', ''account_label'', ''status'', ''snapshot_hash''}" for k
    using that by auto code_simp+
  ultimately show ?thesis by (simp add: account_event_body_def)
qed

lemma outbox_ok_empty [simp]: "outbox_ok empty_tables"
  by (simp add: outbox_ok_def empty_tables_def pk_unique_def)

theorem account_stored_without_secret_witness:
  "\<exists>a w1 out w2. build_manual_account_snapshot ''p'' ''l'' (Some ''env:KEY'') ''configured'' ''manual'' None None None None None
       None empty_world = (Inr a, w1) \<and>
     upsert_account_snapshot a w1 = (Inr out, w2) \<and> acc_secret_ref a = Some ''env:KEY'' \<and>
     (\<exists>r. get_snapshot (acc_account_snapshot_id a) w2 = (Inr (Some (snapshot_response r)), w2) \<and>
        acr_body r = canonical (dump_account_snapshot a))"
proof -
  have ref: "validate_secret_ref ''env:KEY'' = Inr ()" by code_simp
  obtain a w1 where built: "build_manual_account_snapshot ''p'' ''l'' (Some ''env:KEY'') ''configured'' ''manual'' None None None
      None None None empty_world = (Inr a, w1)" "acc_secret_ref a = Some ''env:KEY''" "fresh_event_id w1"
    by (simp add: build_manual_account_snapshot_def run_bnd hash_json_def empty_world_def canonical_json_hash_def
        make_account_snapshot_def non_empty_str_def strip_def blank_def ref require_ok_def account_statuses_def
        fresh_event_id_def empty_tables_def)
  have w1: "idle w1" "committed w1 = empty_tables" using build_account_ok [OF built(1)] by simp_all
  have pk: "pk_unique acr_id (account_snapshots (committed empty_world))" by (simp add: empty_tables_def pk_unique_def)
  define h where "h = canonical_json_hash (sha256 (plat w1)) (float_repr (plat w1)) (dump_account_snapshot a)"
  obtain w2 where "change_with_event
      (\<lambda>t. Inr (t\<lparr>account_snapshots := upsert_row acr_id
           (\<lambda>old. (account_row_of a h)\<lparr>acr_created_at := acr_created_at old\<rparr>) (account_row_of a h) (account_snapshots t)\<rparr>))
      (outbox_event ''tokenbank.accounts'' ''account_snapshot.upserted'' (''account_snapshots/'' @ acc_account_snapshot_id a)
         (account_event_body a h) None None None None) w1 = (Inr (), w2)"
    using change_with_event_succeeds [OF w1(1) _ _ _ built(3)] w1(2) by (fastforce simp: outbox_ok_def empty_tables_def pk_unique_def)
  then obtain out where "upsert_account_snapshot a w1 = (Inr out, w2)"
    by (simp add: upsert_account_snapshot_def run_bnd run_seq hash_json_def h_def)
  with account_stored_without_secret [OF empty_world_simps(1) pk built(1) this] built show ?thesis by blast
qed

end
