(* ===== verification/Routebook.thy ===== *)
theory Routebook
  imports Policy
begin

text \<open>
  The routebooks: loading (\<open>src/tokenbank/routebook/loader.py\<close>, \<open>v1_loader.py\<close>), the views of a loaded
  routebook and the task level classifier (\<open>task_level_classifier.py\<close>). Reading and parsing a YAML file is
  an argument of the loaders: a missing file is None.

  A view of a document whose shape is not the annotated one is a TypeError here; the code would raise at the
  first use of the malformed entry. Keys of YAML mappings are strings.
\<close>

section \<open>Loading\<close>

type_synonym yaml_dir = "string \<Rightarrow> json option"

definition load_yaml_file :: "string \<Rightarrow> json \<Rightarrow> fields result" where
  "load_yaml_file path v =
     (case (if truthy v then v else JObj []) of
        JObj d \<Rightarrow> Inr d
      | _ \<Rightarrow> Inl (ValueError (''Routebook file must contain a mapping: '' @ path)))"

definition load_documents :: "string \<Rightarrow> string \<Rightarrow> yaml_dir \<Rightarrow> string list \<Rightarrow> (string \<times> fields) list result" where
  "load_documents missing dir files stems =
     map_result (\<lambda>stem. case files (stem @ ''.yaml'') of
        None \<Rightarrow> Inl (FileNotFoundError (missing @ dir @ ''/'' @ stem @ ''.yaml''))
      | Some v \<Rightarrow> bind_result (load_yaml_file (dir @ ''/'' @ stem @ ''.yaml'') v) (\<lambda>d. Inr (stem, d))) stems"

definition document_hashes :: "platform \<Rightarrow> (string \<times> fields) list \<Rightarrow> (string \<times> string) list" where
  "document_hashes p docs =
     map (\<lambda>(stem, d). (stem @ ''.yaml'', canonical_json_hash (sha256 p) (float_repr p) (JObj d))) docs"

definition required_routebook_files :: "string list" where
  "required_routebook_files =
     [''task_types'', ''task_levels'', ''backend_classes'', ''verifier_mapping'', ''fallback_rules'', ''policy_hints'',
      ''forbidden_routes'']"

record loaded_routebook =
  rb_root :: string
  rb_documents :: "(string \<times> fields) list"
  rb_content_hashes :: "(string \<times> string) list"

definition load_routebook_dir :: "platform \<Rightarrow> string \<Rightarrow> yaml_dir \<Rightarrow> loaded_routebook result" where
  "load_routebook_dir p dir files =
     bind_result (load_documents ''Missing required routebook file: '' dir files required_routebook_files) (\<lambda>docs.
     Inr \<lparr>rb_root = dir, rb_documents = docs, rb_content_hashes = document_hashes p docs\<rparr>)"

section \<open>Views\<close>

definition rb_view :: "json \<Rightarrow> loaded_routebook \<Rightarrow> string \<Rightarrow> string \<Rightarrow> json result" where
  "rb_view dflt rb name key = bind_result (doc (rb_documents rb) name) (\<lambda>d. Inr (dget_or dflt d key))"

definition task_types :: "loaded_routebook \<Rightarrow> fields list result" where
  "task_types rb = bind_result (rb_view (JList []) rb ''task_types'' ''task_types'') (\<lambda>v.
     bind_result (as_list v) (map_result as_dict))"

definition task_levels :: "loaded_routebook \<Rightarrow> (string \<times> fields) list result" where
  "task_levels rb = bind_result (rb_view (JObj []) rb ''task_levels'' ''task_levels'') (\<lambda>v.
     bind_result (as_dict v) (map_result (as_field as_dict)))"

definition candidate_rules :: "loaded_routebook \<Rightarrow> fields list result" where
  "candidate_rules rb = bind_result (rb_view (JList []) rb ''backend_classes'' ''candidate_rules'') (\<lambda>v.
     bind_result (as_list v) (map_result as_dict))"

definition verifier_mapping :: "loaded_routebook \<Rightarrow> (string \<times> string) list result" where
  "verifier_mapping rb = bind_result (rb_view (JObj []) rb ''verifier_mapping'' ''verifier_mapping'') (\<lambda>v.
     bind_result (as_dict v) (map_result (as_field as_string)))"

definition policy_hints :: "loaded_routebook \<Rightarrow> (string \<times> string list) list result" where
  "policy_hints rb = bind_result (rb_view (JObj []) rb ''policy_hints'' ''policy_hints'') (\<lambda>v.
     bind_result (as_dict v)
       (map_result (as_field (\<lambda>h. bind_result (as_list h) (map_result as_string)))))"

definition forbidden_routes :: "loaded_routebook \<Rightarrow> fields result" where
  "forbidden_routes rb = bind_result (rb_view (JObj []) rb ''forbidden_routes'' ''forbidden_routes'') as_dict"

definition task_type_entry :: "loaded_routebook \<Rightarrow> string \<Rightarrow> fields result" where
  "task_type_entry rb task_type =
     bind_result (task_types rb) (\<lambda>entries.
     case find (\<lambda>e. dget_or JNull e ''task_type'' = JStr task_type) entries of
       Some e \<Rightarrow> Inr e
     | None \<Rightarrow> Inl (KeyError (''unknown task_type: '' @ task_type)))"

definition classify_task_level :: "(json \<Rightarrow> string) \<Rightarrow> fields \<Rightarrow> loaded_routebook \<Rightarrow> string result" where
  "classify_task_level repr work_unit rb =
     (let explicit_level = dget_or JNull work_unit ''task_level'' in
      if truthy explicit_level then Inr (py_str repr explicit_level)
      else bind_result (item work_unit ''task_type'') (\<lambda>ty.
           bind_result (task_type_entry rb (py_str repr ty)) (\<lambda>e.
           bind_result (item e ''default_task_level'') (\<lambda>l. Inr (py_str repr l)))))"


lemmas view_defs = rb_view_def task_types_def task_levels_def candidate_rules_def verifier_mapping_def policy_hints_def
  forbidden_routes_def task_type_entry_def

section \<open>Routebook V1\<close>

record loaded_routebook_v1 =
  v1_root :: string
  v1_manifest :: fields
  v1_ontology :: fields
  v1_documents :: "(string \<times> fields) list"
  v1_content_hashes :: "(string \<times> string) list"

definition required_routebook_v1_files :: "string list" where
  "required_routebook_v1_files = [''routebook'', ''ontology'', ''scoring'']"

definition non_empty_text_at :: "fields \<Rightarrow> string \<Rightarrow> bool" where
  "non_empty_text_at d k \<longleftrightarrow> (case dget d k of Some (JStr s) \<Rightarrow> s \<noteq> [] | _ \<Rightarrow> False)"

definition non_empty_dict_at :: "fields \<Rightarrow> string \<Rightarrow> bool" where
  "non_empty_dict_at d k \<longleftrightarrow> (case dget d k of Some (JObj kvs) \<Rightarrow> kvs \<noteq> [] | _ \<Rightarrow> False)"

definition check_keys :: "(string \<Rightarrow> bool) \<Rightarrow> string \<Rightarrow> string list \<Rightarrow> unit result" where
  "check_keys ok message ks =
     (case find (\<lambda>k. \<not> ok k) ks of None \<Rightarrow> Inr () | Some k \<Rightarrow> Inl (ValueError (message @ k)))"

definition validate_manifest :: "fields \<Rightarrow> unit result" where
  "validate_manifest manifest =
     check_keys (non_empty_text_at manifest) ''Routebook V1 manifest requires non-empty ''
       [''routebook_id'', ''version'', ''ontology_version'']"

definition validate_ontology :: "fields \<Rightarrow> unit result" where
  "validate_ontology ontology =
     check_keys (non_empty_dict_at ontology) ''Routebook V1 ontology requires non-empty ''
       [''task_families'', ''capability_tags'', ''quality_tiers'']"

text \<open>\<open>isinstance(weight, int | float)\<close> holds of booleans.\<close>

fun weight_value :: "json \<Rightarrow> rat option" where
  "weight_value (JInt i) = Some (of_int i)"
| "weight_value (JFloat q) = Some q"
| "weight_value (JBool b) = Some (if b then 1 else 0)"
| "weight_value v = None"

definition weight_ok :: "json \<Rightarrow> bool" where
  "weight_ok v \<longleftrightarrow> (case weight_value v of Some q \<Rightarrow> 0 \<le> q | None \<Rightarrow> False)"

fun check_weights :: "fields \<Rightarrow> unit result" where
  "check_weights [] = Inr ()"
| "check_weights ((component, weight) # ws) =
     (if component = [] then Inl (ValueError ''Routebook V1 scoring component names must be strings'')
      else if \<not> weight_ok weight then Inl (ValueError ''Routebook V1 scoring weights must be non-negative'')
      else check_weights ws)"

definition validate_scoring :: "fields \<Rightarrow> unit result" where
  "validate_scoring scoring =
     bind_result (check_keys (non_empty_text_at scoring) ''Routebook V1 scoring requires non-empty ''
       [''scorer_id'', ''version'', ''selection_policy'']) (\<lambda>_.
     case dget scoring ''score_weights'' of
       Some (JObj ws) \<Rightarrow>
         if ws = [] then Inl (ValueError ''Routebook V1 scoring requires non-empty score_weights'')
         else bind_result (check_weights ws) (\<lambda>_.
              case dget scoring ''hard_filters'' of
                Some (JList xs) \<Rightarrow> if xs = [] then Inl (ValueError ''Routebook V1 scoring requires hard_filters'') else Inr ()
              | _ \<Rightarrow> Inl (ValueError ''Routebook V1 scoring requires hard_filters''))
     | _ \<Rightarrow> Inl (ValueError ''Routebook V1 scoring requires non-empty score_weights''))"

definition load_routebook_v1_dir :: "platform \<Rightarrow> string \<Rightarrow> yaml_dir \<Rightarrow> loaded_routebook_v1 result" where
  "load_routebook_v1_dir p dir files =
     bind_result (load_documents ''Missing required Routebook V1 file: '' dir files required_routebook_v1_files) (\<lambda>docs.
     bind_result (doc docs ''routebook'') (\<lambda>manifest.
     bind_result (doc docs ''ontology'') (\<lambda>ontology.
     bind_result (doc docs ''scoring'') (\<lambda>scoring.
     bind_result (validate_manifest manifest) (\<lambda>_.
     bind_result (validate_ontology ontology) (\<lambda>_.
     bind_result (validate_scoring scoring) (\<lambda>_.
     Inr \<lparr>v1_root = dir, v1_manifest = manifest, v1_ontology = ontology, v1_documents = docs,
          v1_content_hashes = document_hashes p docs\<rparr>)))))))"

definition v1_routebook_id :: "(json \<Rightarrow> string) \<Rightarrow> loaded_routebook_v1 \<Rightarrow> string result" where
  "v1_routebook_id repr rb = bind_result (item (v1_manifest rb) ''routebook_id'') (\<lambda>v. Inr (py_str repr v))"

definition v1_version :: "(json \<Rightarrow> string) \<Rightarrow> loaded_routebook_v1 \<Rightarrow> string result" where
  "v1_version repr rb = bind_result (item (v1_manifest rb) ''version'') (\<lambda>v. Inr (py_str repr v))"

definition v1_capability_tags :: "loaded_routebook_v1 \<Rightarrow> fields result" where
  "v1_capability_tags rb = as_dict (dget_or (JObj []) (v1_ontology rb) ''capability_tags'')"

definition v1_task_families :: "loaded_routebook_v1 \<Rightarrow> fields result" where
  "v1_task_families rb = as_dict (dget_or (JObj []) (v1_ontology rb) ''task_families'')"

definition v1_scoring :: "loaded_routebook_v1 \<Rightarrow> fields result" where
  "v1_scoring rb = doc (v1_documents rb) ''scoring''"

end
