(* ===== verification/Verifier.thy ===== *)
theory Verifier
  imports Policy
begin

text \<open>
  The deterministic verifier (\<open>src/tokenbank/verifier/\<close>): the common checks
  (\<open>checks/common.py\<close>), the checks of each recipe (\<open>checks/task_specific.py\<close>), the runner with
  its recommendation table (\<open>runner.py\<close>) and the report (\<open>report_builder.py\<close>). The JSON Schema
  validator is an argument: for a schema and an output it gives \<open>None\<close> or the path of the error.
  Recipes are read from YAML outside the model.
\<close>

section \<open>Values\<close>

text \<open>Python's \<open>==\<close> on JSON values: booleans are integers, and numbers compare by value.\<close>

fun json_number :: "json \<Rightarrow> rat option" where
  "json_number (JBool b) = Some (if b then 1 else 0)"
| "json_number (JInt i) = Some (of_int i)"
| "json_number (JFloat q) = Some q"
| "json_number v = None"

function py_eq :: "json \<Rightarrow> json \<Rightarrow> bool" where
  "py_eq (JList xs) (JList ys) \<longleftrightarrow> length xs = length ys \<and> list_all (\<lambda>(x, y). py_eq x y) (zip xs ys)"
| "py_eq (JObj a) (JObj b) \<longleftrightarrow>
     length a = length b \<and>
     list_all (\<lambda>(k, v). case dget b k of None \<Rightarrow> False | Some w \<Rightarrow> py_eq v w) a"
| "py_eq JNull v \<longleftrightarrow> v = JNull"
| "py_eq (JStr s) v \<longleftrightarrow> v = JStr s"
| "py_eq (JBool b) v \<longleftrightarrow> json_number v = json_number (JBool b)"
| "py_eq (JInt i) v \<longleftrightarrow> json_number v = json_number (JInt i)"
| "py_eq (JFloat q) v \<longleftrightarrow> json_number v = json_number (JFloat q)"
| "py_eq (JList xs) JNull = False" | "py_eq (JList xs) (JStr s) = False" | "py_eq (JList xs) (JBool b) = False"
| "py_eq (JList xs) (JInt i) = False" | "py_eq (JList xs) (JFloat q) = False" | "py_eq (JList xs) (JObj b) = False"
| "py_eq (JObj a) JNull = False" | "py_eq (JObj a) (JStr s) = False" | "py_eq (JObj a) (JBool b) = False"
| "py_eq (JObj a) (JInt i) = False" | "py_eq (JObj a) (JFloat q) = False" | "py_eq (JObj a) (JList ys) = False"
  by pat_completeness auto
termination
  by (relation "measure (\<lambda>(a, b). size a)")
    (auto dest!: set_zip_leftD intro: json_size_list json_size_field)

text \<open>\<open>isinstance(x, int)\<close>, which holds of booleans too.\<close>

fun py_int_value :: "json \<Rightarrow> int option" where
  "py_int_value (JInt i) = Some i"
| "py_int_value (JBool b) = Some (if b then 1 else 0)"
| "py_int_value v = None"

text \<open>\<open>isinstance(x, int | float) and not isinstance(x, bool)\<close>\<close>

fun confidence_value :: "json \<Rightarrow> rat option" where
  "confidence_value (JInt i) = Some (of_int i)"
| "confidence_value (JFloat q) = Some q"
| "confidence_value v = None"

definition confidence_in_range :: "json \<Rightarrow> bool" where
  "confidence_in_range v \<longleftrightarrow> (case confidence_value v of None \<Rightarrow> False | Some q \<Rightarrow> 0 \<le> q \<and> q \<le> 1)"

section \<open>Common checks\<close>

definition verifier_secret_patterns :: "pattern list" where
  "verifier_secret_patterns =
     [literal ''sk-'' @ [Many1 word_dash_char],
      literal ''tbk_'' @ [One (\<lambda>c. c \<in> set ''hwil'')] @ literal ''_'' @ [Many1 word_dash_char],
      literal_nocase ''authorization:'' @ [Many0 space_char] @ literal_nocase ''bearer'' @
        [Many1 space_char, Many1 (\<lambda>c. \<not> space_char c)]]"

definition passed_check :: "string \<Rightarrow> string \<Rightarrow> fields \<Rightarrow> verifier_check_result" where
  "passed_check nm msg meta =
     \<lparr>vc_name = nm, vc_status = VS_passed, vc_message = (if msg = [] then ''passed'' else msg),
      vc_observed_hash = None, vc_metadata = meta\<rparr>"

definition failed_check :: "string \<Rightarrow> string \<Rightarrow> string option \<Rightarrow> fields \<Rightarrow> verifier_check_result" where
  "failed_check nm msg h meta =
     \<lparr>vc_name = nm, vc_status = VS_failed, vc_message = msg, vc_observed_hash = h, vc_metadata = meta\<rparr>"

definition warning_check :: "string \<Rightarrow> string \<Rightarrow> verifier_check_result" where
  "warning_check nm msg =
     \<lparr>vc_name = nm, vc_status = VS_needs_review, vc_message = msg, vc_observed_hash = None, vc_metadata = []\<rparr>"

definition skipped_check :: "string \<Rightarrow> string \<Rightarrow> verifier_check_result" where
  "skipped_check nm msg =
     \<lparr>vc_name = nm, vc_status = VS_skipped, vc_message = msg, vc_observed_hash = None, vc_metadata = []\<rparr>"

definition check_envelope_integrity :: "result_envelope \<Rightarrow> verifier_check_result list" where
  "check_envelope_integrity e =
     (let required = [(''result_envelope_id'', env_result_envelope_id e),
                      (''work_unit_id'', env_work_unit_id e), (''attempt_id'', env_attempt_id e),
                      (''assignment_id'', env_assignment_id e)];
          missing = map fst (filter (\<lambda>(k, v). v = []) required)
      in if missing \<noteq> []
         then [failed_check ''result_envelope_integrity'' ''result envelope is missing required identifiers''
                 None [(''missing'', JList (map JStr missing))]]
         else [passed_check ''result_envelope_integrity'' [] []])"

definition expected_envelope_result_hash :: "platform \<Rightarrow> result_envelope \<Rightarrow> string" where
  "expected_envelope_result_hash p e =
     result_hash (sha256 p) (float_repr p)
       (JObj [(''work_unit_id'', JStr (env_work_unit_id e)), (''attempt_id'', JStr (env_attempt_id e)),
              (''assignment_id'', JStr (env_assignment_id e)), (''backend_id'', str_opt (env_backend_id e)),
              (''backend_class'', str_opt (env_backend_class e)), (''output_hash'', JStr (env_output_hash e)),
              (''status'', JStr (result_status_text (env_status e))),
              (''usage_record_ids'', JList (map (\<lambda>r. JStr (ur_usage_record_id r)) (env_usage_records e))),
              (''error_codes'', JList (map (\<lambda>r. JStr (be_error_code r)) (env_errors e)))])"

definition check_hashes :: "platform \<Rightarrow> result_envelope \<Rightarrow> verifier_check_result list" where
  "check_hashes p e =
     (if env_output_hash e = [] then [failed_check ''output_hash_present'' ''output_hash is missing'' None []]
      else
        (let out = output_hash (sha256 p) (float_repr p) (JObj (env_output e));
             res = expected_envelope_result_hash p e
         in [if out \<noteq> env_output_hash e
             then failed_check ''output_hash_valid'' ''output_hash does not match output'' (Some out) []
             else passed_check ''output_hash_valid'' [] [(''observed_hash'', JStr out)],
             if res \<noteq> env_result_hash e
             then failed_check ''result_hash_valid'' ''result_hash does not match result envelope'' (Some res) []
             else passed_check ''result_hash_valid'' [] [(''observed_hash'', JStr res)]]))"

definition check_policy_linkage ::
  "result_envelope \<Rightarrow> fields option \<Rightarrow> verifier_check_result list" where
  "check_policy_linkage e policy =
     (case policy of
        None \<Rightarrow> [skipped_check ''policy_linkage'' ''policy decision linkage not provided to verifier runner'']
      | Some d \<Rightarrow>
          if dget_or JNull d ''work_unit_id'' \<noteq> JStr (env_work_unit_id e)
          then [failed_check ''policy_linkage'' ''policy decision work_unit_id does not match result envelope'' None []]
          else if dget_or JNull d ''decision'' \<noteq> JStr ''approved''
          then [failed_check ''policy_linkage'' ''policy decision is not approved'' None []]
          else [passed_check ''policy_linkage'' [] []])"

fun secret_paths :: "json \<Rightarrow> string \<Rightarrow> string list"
  and secret_field_paths :: "fields \<Rightarrow> string \<Rightarrow> string list"
  and secret_item_paths :: "json list \<Rightarrow> nat \<Rightarrow> string \<Rightarrow> string list" where
  "secret_paths (JObj kvs) path = secret_field_paths kvs path"
| "secret_paths (JList xs) path = secret_item_paths xs 0 path"
| "secret_paths (JStr s) path =
     (if list_ex (\<lambda>p. re_search p s) verifier_secret_patterns then [path] else [])"
| "secret_paths v path = []"
| "secret_field_paths [] path = []"
| "secret_field_paths ((k, v) # kvs) path = secret_paths v (path @ ''.'' @ k) @ secret_field_paths kvs path"
| "secret_item_paths [] i path = []"
| "secret_item_paths (x # xs) i path =
     secret_paths x (path @ ''['' @ show_nat i @ '']'') @ secret_item_paths xs (i + 1) path"

definition check_secret_redaction :: "result_envelope \<Rightarrow> verifier_check_result list" where
  "check_secret_redaction e =
     (let leaks = secret_paths (JObj (dump_envelope e)) ''$'' in
      if leaks \<noteq> []
      then [failed_check ''secret_redaction'' ''result envelope contains unredacted secret-like values'' None
              [(''leaks'', JList (map JStr leaks))]]
      else [passed_check ''secret_redaction'' [] []])"

record verifier_recipe =
  rcp_verifier_recipe_id :: string
  rcp_task_type :: string
  rcp_output_schema :: fields
  rcp_recommendations :: fields
  rcp_sampled_audit_rate_bps :: int

type_synonym schema_validator = "fields \<Rightarrow> fields \<Rightarrow> json list option"

definition configured_schema :: "verifier_recipe \<Rightarrow> fields option \<Rightarrow> fields" where
  "configured_schema recipe work_unit =
     (let schema = (case work_unit of
                      None \<Rightarrow> []
                    | Some wu \<Rightarrow> (case dget wu ''output_schema'' of Some (JObj s) \<Rightarrow> s | _ \<Rightarrow> []))
      in if schema = [] then rcp_output_schema recipe else schema)"

definition check_output_schema ::
  "schema_validator \<Rightarrow> result_envelope \<Rightarrow> verifier_recipe \<Rightarrow> fields option \<Rightarrow> verifier_check_result list" where
  "check_output_schema validate e recipe work_unit =
     (let schema = configured_schema recipe work_unit in
      if schema = [] then [skipped_check ''output_schema'' ''no output schema configured'']
      else (case validate schema (env_output e) of
              Some path \<Rightarrow> [failed_check ''output_schema'' ''output does not validate against configured schema''
                             None [(''error_path'', JList path)]]
            | None \<Rightarrow> [passed_check ''output_schema'' [] []]))"

section \<open>Task checks\<close>

definition allowed_claim_types_const :: "string list" where
  "allowed_claim_types_const = [''factual'', ''metric'', ''policy'', ''product'', ''other'']"

definition url_check :: "fields \<Rightarrow> verifier_check_result list" where
  "url_check out =
     (if truthy_at out ''private_ip_denied'' \<or> truthy_at out ''redirect_denied''
      then [failed_check ''url_policy_safety'' ''private IP or redirect denial must quarantine'' None []]
      else if truthy_at out ''timed_out'' then [failed_check ''url_timeout'' ''url_check timed out'' None []]
      else
        (let status_code = dget_or JNull out ''status_code'' in
         if status_code = JNull \<and> dget_or JNull out ''ok'' = JBool True
         then [passed_check ''url_status'' ''url_check output marked ok'' []]
         else (case py_int_value status_code of
                 Some n \<Rightarrow>
                   if 200 \<le> n \<and> n < 300 then [passed_check ''url_status'' (''HTTP '' @ show_int n) []]
                   else if 400 \<le> n \<and> n < 500 then [warning_check ''url_status'' (''HTTP '' @ show_int n)]
                   else [failed_check ''url_status'' ''url_check status is not acceptable'' None []]
               | None \<Rightarrow> [failed_check ''url_status'' ''url_check status is not acceptable'' None []])))"

definition dedup :: "fields \<Rightarrow> verifier_check_result list" where
  "dedup out =
     (if truthy_at out ''overmerge_detected''
      then [warning_check ''dedup_overmerge'' ''dedup overmerge was detected'']
      else if has_key out ''unique_items'' \<and> py_int_value (dget_or JNull out ''duplicate_count'') \<noteq> None
      then [passed_check ''dedup_exact'' [] []]
      else [failed_check ''dedup_exact'' ''dedup output is missing required fields'' None []])"

text \<open>The literal 0.65 as a binary64 number.\<close>

definition low_confidence_limit :: rat where
  "low_confidence_limit = 5854679515581645 / 9007199254740992"

definition topic_classification :: "fields \<Rightarrow> verifier_check_result list" where
  "topic_classification out =
     (let label = dget_or JNull out ''label'';
          conf = dget_or JNull out ''confidence'';
          off_list = (case dget_or JNull out ''allowed_labels'' of
                        JList ls \<Rightarrow> \<not> list_ex (py_eq label) ls
                      | _ \<Rightarrow> False)
      in if off_list
         then [failed_check ''topic_label_enum'' ''topic label is not in allowed label enum'' None []]
         else if \<not> confidence_in_range conf
         then [failed_check ''topic_confidence_range'' ''topic confidence must be numeric and between 0 and 1'' None []]
         else if the (confidence_value conf) < low_confidence_limit
         then [warning_check ''topic_confidence'' ''topic confidence is low'']
         else [passed_check ''topic_classification'' [] []])"

definition nonempty_strings :: "json list \<Rightarrow> string list" where
  "nonempty_strings xs = concat (map (\<lambda>x. case x of JStr s \<Rightarrow> if s = [] then [] else [s] | _ \<Rightarrow> []) xs)"

definition allowed_claim_types :: "fields \<Rightarrow> string list" where
  "allowed_claim_types out =
     (case dget_or JNull out ''allowed_claim_types'' of
        JList xs \<Rightarrow>
          (let allowed = filter (\<lambda>s. s \<in> set allowed_claim_types_const) (nonempty_strings xs)
           in if allowed = [] then allowed_claim_types_const else allowed)
      | _ \<Rightarrow> allowed_claim_types_const)"

definition claim_source_ids :: "fields \<Rightarrow> string list" where
  "claim_source_ids out =
     (case dget_or JNull out ''source_ids'' of JList xs \<Rightarrow> nonempty_strings xs | _ \<Rightarrow> [])"

definition claim_source_refs :: "fields \<Rightarrow> string list" where
  "claim_source_refs claim =
     (let refs = (case dget_or JNull claim ''source_post_refs'' of JList xs \<Rightarrow> nonempty_strings xs | _ \<Rightarrow> [])
      in if refs \<noteq> [] then refs else nonempty_strings [dget_or JNull claim ''source_ref''])"

definition source_refs_allowed :: "string list \<Rightarrow> string list \<Rightarrow> bool" where
  "source_refs_allowed refs ids \<longleftrightarrow>
     (if ids \<noteq> [] then list_all (\<lambda>r. r \<in> set ids) refs
      else list_all (\<lambda>r. starts_with ''src_'' r \<or> starts_with ''fixture_'' r) refs)"

definition is_nonempty_str :: "json \<Rightarrow> bool" where
  "is_nonempty_str v \<longleftrightarrow> (case v of JStr s \<Rightarrow> s \<noteq> [] | _ \<Rightarrow> False)"

fun check_claim :: "fields \<Rightarrow> json \<Rightarrow> verifier_check_result list" where
  "check_claim out (JObj claim) =
     (if \<not> is_nonempty_str (or_json (dget_or JNull claim ''claim_text'') (dget_or JNull claim ''text''))
      then [failed_check ''claim_text'' ''claim is missing claim_text'' None []] else []) @
     (if \<not> truthy_at claim ''entity''
      then [failed_check ''claim_entity'' ''claim is missing entity'' None []] else []) @
     (if \<not> list_ex (\<lambda>t. dget_or JNull claim ''claim_type'' = JStr t) (allowed_claim_types out)
      then [failed_check ''claim_type_enum'' ''claim_type is not allowed'' None []] else []) @
     (if \<not> confidence_in_range (dget_or JNull claim ''confidence'')
      then [failed_check ''claim_confidence_range'' ''claim confidence must be numeric and between 0 and 1'' None []]
      else []) @
     (if claim_source_refs claim = []
      then [failed_check ''claim_source_ref'' ''claim is missing source_post_refs'' None []]
      else if \<not> source_refs_allowed (claim_source_refs claim) (claim_source_ids out)
      then [failed_check ''claim_source_ref'' ''claim source_post_refs are not in input source ids'' None []]
      else []) @
     (if \<not> is_nonempty_str (dget_or JNull claim ''evidence_hint'')
      then [failed_check ''claim_evidence_hint'' ''claim is missing evidence_hint'' None []] else [])"
| "check_claim out v = [failed_check ''claim_entity'' ''claim entry is not an object'' None []]"

definition claim_extraction :: "fields \<Rightarrow> verifier_check_result list" where
  "claim_extraction out =
     (case dget_or JNull out ''claims'' of
        JList (c # cs) \<Rightarrow>
          (let failures = concat (map (check_claim out) (c # cs))
           in if failures = [] then [passed_check ''claim_extraction'' [] []] else failures)
      | _ \<Rightarrow> [failed_check ''claim_entity'' ''claim extraction produced no claims'' None []])"

definition webpage_extraction :: "fields \<Rightarrow> verifier_check_result list" where
  "webpage_extraction out =
     (case dget_or JNull out ''extracted'' of
        JObj (f # fs) \<Rightarrow>
          if truthy_at out ''prompt_injection_detected''
          then [warning_check ''webpage_prompt_injection'' ''prompt injection marker detected in untrusted content'']
          else [passed_check ''webpage_extraction'' [] []]
      | _ \<Rightarrow> [failed_check ''webpage_empty'' ''webpage extraction output is empty'' None []])"

definition run_task_specific_checks :: "string \<Rightarrow> result_envelope \<Rightarrow> verifier_check_result list" where
  "run_task_specific_checks recipe_id e =
     (if recipe_id = ''url_check_v0'' then url_check (env_output e)
      else if recipe_id = ''dedup_v0'' then dedup (env_output e)
      else if recipe_id = ''topic_classification_v0'' then topic_classification (env_output e)
      else if recipe_id = ''claim_extraction_v0'' then claim_extraction (env_output e)
      else if recipe_id = ''webpage_extraction_v0'' then webpage_extraction (env_output e)
      else [failed_check ''recipe_known'' (''unknown verifier recipe: '' @ recipe_id) None []])"

end
