(* ===== verification/Ledger.thy ===== *)
theory Ledger
  imports Accounts Routebook Verifier
begin

text \<open>
  The usage ledger (\<open>src/tokenbank/ledger/usage.py\<close>, \<open>models/usage_ledger.py\<close>): one entry per result, derived
  from the stored work unit, route plan, result envelope and verifier report, with an identifier and a seal
  computed from its content.
\<close>

section \<open>Entries\<close>

record usage_ledger_entry =
  ule_usage_ledger_entry_id :: string
  ule_work_unit_id :: string
  ule_run_id :: string
  ule_route_plan_id :: string
  ule_result_envelope_id :: string
  ule_verifier_report_id :: "string option"
  ule_account_snapshot_id :: "string option"
  ule_routebook_id :: string
  ule_routebook_version :: string
  ule_capacity_node_id :: "string option"
  ule_capacity_profile_id :: "string option"
  ule_backend_id :: "string option"
  ule_provider_id :: "string option"
  ule_model_id :: "string option"
  ule_estimated_input_tokens :: int
  ule_estimated_output_tokens :: int
  ule_estimated_total_tokens :: int
  ule_reported_input_tokens :: "int option"
  ule_reported_output_tokens :: "int option"
  ule_reported_total_tokens :: "int option"
  ule_estimated_cost_micros :: int
  ule_reported_cost_micros :: "int option"
  ule_billable_cost_micros :: int
  ule_usage_source :: string
  ule_cost_source :: string
  ule_verifier_recommendation :: "string option"
  ule_entry_hash :: string
  ule_created_at :: string

text \<open>The fields that the seal covers, and the dumped entry.\<close>

definition entry_payload :: "usage_ledger_entry \<Rightarrow> fields" where
  "entry_payload e =
     [(''usage_ledger_entry_id'', JStr (ule_usage_ledger_entry_id e)), (''work_unit_id'', JStr (ule_work_unit_id e)),
      (''run_id'', JStr (ule_run_id e)), (''route_plan_id'', JStr (ule_route_plan_id e)),
      (''result_envelope_id'', JStr (ule_result_envelope_id e)),
      (''verifier_report_id'', str_opt (ule_verifier_report_id e)),
      (''account_snapshot_id'', str_opt (ule_account_snapshot_id e)), (''routebook_id'', JStr (ule_routebook_id e)),
      (''routebook_version'', JStr (ule_routebook_version e)), (''capacity_node_id'', str_opt (ule_capacity_node_id e)),
      (''capacity_profile_id'', str_opt (ule_capacity_profile_id e)), (''backend_id'', str_opt (ule_backend_id e)),
      (''provider_id'', str_opt (ule_provider_id e)), (''model_id'', str_opt (ule_model_id e)),
      (''estimated_input_tokens'', JInt (ule_estimated_input_tokens e)),
      (''estimated_output_tokens'', JInt (ule_estimated_output_tokens e)),
      (''estimated_total_tokens'', JInt (ule_estimated_total_tokens e)),
      (''reported_input_tokens'', int_opt (ule_reported_input_tokens e)),
      (''reported_output_tokens'', int_opt (ule_reported_output_tokens e)),
      (''reported_total_tokens'', int_opt (ule_reported_total_tokens e)),
      (''estimated_cost_micros'', JInt (ule_estimated_cost_micros e)),
      (''reported_cost_micros'', int_opt (ule_reported_cost_micros e)),
      (''billable_cost_micros'', JInt (ule_billable_cost_micros e)), (''usage_source'', JStr (ule_usage_source e)),
      (''cost_source'', JStr (ule_cost_source e)),
      (''verifier_recommendation'', str_opt (ule_verifier_recommendation e))]"

definition dump_usage_entry :: "usage_ledger_entry \<Rightarrow> json" where
  "dump_usage_entry e = JObj (schema_version # entry_payload e @
     [(''entry_hash'', JStr (ule_entry_hash e)), (''created_at'', JStr (ule_created_at e))])"

text \<open>Field coercion of the classes: texts are stripped, integers are not negative.\<close>

fun text_of :: "json \<Rightarrow> string result" where
  "text_of (JStr s) = non_empty_str s"
| "text_of v = Inl (ValueError ''Input should be a valid string'')"

fun opt_text_of :: "json \<Rightarrow> string option result" where
  "opt_text_of JNull = Inr None"
| "opt_text_of v = bind_result (text_of v) (\<lambda>s. Inr (Some s))"

fun opt_str_of :: "json \<Rightarrow> string option result" where
  "opt_str_of JNull = Inr None"
| "opt_str_of (JStr s) = Inr (Some (strip s))"
| "opt_str_of v = Inl (ValueError ''Input should be a valid string'')"

fun opt_recommendation :: "json \<Rightarrow> string option result" where
  "opt_recommendation JNull = Inr None"
| "opt_recommendation (JStr s) =
     (if s \<in> {''accept'', ''accept_with_warning'', ''retry'', ''fallback'', ''reject'', ''quarantine'', ''escalate'', ''review''}
      then Inr (Some s) else Inl (ValueError ''verifier_recommendation''))"
| "opt_recommendation v = Inl (ValueError ''verifier_recommendation'')"

section \<open>Building an entry\<close>

record usage_context =
  cx_work_unit_body :: fields
  cx_route_row :: route_plan_row
  cx_route_body :: fields
  cx_result_row :: result_row
  cx_result_body :: fields
  cx_verifier_row :: "verifier_report_row option"

fun non_negative_int :: "json \<Rightarrow> int" where
  "non_negative_int (JInt i) = (if 0 \<le> i then i else 0)"
| "non_negative_int v = 0"

definition usage_records_of :: "fields \<Rightarrow> fields list result" where
  "usage_records_of result_body =
     bind_result (py_iter (dget_or (JList []) result_body ''usage_records'')) (\<lambda>xs.
     Inr (List.map_filter (\<lambda>x. case x of JObj d \<Rightarrow> Some d | _ \<Rightarrow> None) xs))"

definition sum_field :: "string \<Rightarrow> fields list \<Rightarrow> int" where
  "sum_field k items = sum_list (map (\<lambda>d. non_negative_int (dget_or JNull d k)) items)"

fun selected_candidate :: "json \<Rightarrow> json list \<Rightarrow> fields option" where
  "selected_candidate selected_id [] = None"
| "selected_candidate selected_id (JObj c # cs) =
     (if py_eq (dget_or JNull c ''route_candidate_id'') selected_id then Some c else selected_candidate selected_id cs)"
| "selected_candidate selected_id (c # cs) = selected_candidate selected_id cs"

fun non_empty_json_str :: "json \<Rightarrow> bool" where
  "non_empty_json_str (JStr s) \<longleftrightarrow> s \<noteq> []"
| "non_empty_json_str v \<longleftrightarrow> False"

definition capacity_profile_id :: "platform \<Rightarrow> fields \<Rightarrow> fields \<Rightarrow> json result" where
  "capacity_profile_id p result_body route_body =
     (let node = dget_or JNull result_body ''capacity_node_id'';
          backend_id = dget_or JNull result_body ''backend_id''
      in bind_result
           (if non_empty_json_str node then Inr node
            else bind_result (py_iter (dget_or (JList []) route_body ''candidates'')) (\<lambda>cs.
                 Inr (case selected_candidate (dget_or JNull route_body ''selected_candidate_id'') cs of
                        None \<Rightarrow> node
                      | Some c \<Rightarrow> dget_or JNull c ''capacity_node_id''))) (\<lambda>capacity_node_id.
         Inr (if non_empty_json_str backend_id
              then JStr (''cp_'' @ take 24 (canonical_json_hash (sha256 p) (float_repr p)
                     (JObj [(''capacity_node_id'', capacity_node_id), (''backend_id'', backend_id)])))
              else JNull)))"

definition usage_entry_id :: "platform \<Rightarrow> json \<Rightarrow> string \<Rightarrow> string option \<Rightarrow> string option \<Rightarrow> string" where
  "usage_entry_id p work_unit_id result_envelope_id verifier_report_id account_snapshot_id =
     ''ule_'' @ take 24 (canonical_json_hash (sha256 p) (float_repr p)
       (JObj [(''work_unit_id'', work_unit_id), (''result_envelope_id'', JStr result_envelope_id),
              (''verifier_report_id'', str_opt verifier_report_id),
              (''account_snapshot_id'', str_opt account_snapshot_id)]))"

definition verifier_recommendation_of :: "verifier_report_row option \<Rightarrow> json" where
  "verifier_recommendation_of row =
     (case row of
        None \<Rightarrow> JNull
      | Some r \<Rightarrow> (case vrr_body r of JObj d \<Rightarrow> dget_or JNull d ''recommendation'' | _ \<Rightarrow> JNull))"

record usage_amounts =
  am_input :: int
  am_output :: int
  am_estimated :: int
  am_actual :: int
  am_provider_reported :: bool

definition usage_amounts_of :: "fields \<Rightarrow> fields list \<Rightarrow> usage_amounts" where
  "usage_amounts_of result_body items =
     (let actual = max (non_negative_int (dget_or JNull result_body ''actual_cost_micros''))
                       (sum_field ''actual_cost_micros'' items)
      in \<lparr>am_input = sum_field ''input_units'' items, am_output = sum_field ''output_units'' items,
          am_estimated = max (non_negative_int (dget_or JNull result_body ''cost_estimate_micros''))
                             (sum_field ''estimated_cost_micros'' items),
          am_actual = actual,
          am_provider_reported =
            0 < actual \<or> list_ex (\<lambda>d. dget_or JNull d ''cost_source'' = JStr ''measured'') items\<rparr>)"

definition usage_payload ::
  "platform \<Rightarrow> usage_context \<Rightarrow> string option \<Rightarrow> string \<Rightarrow> string \<Rightarrow> fields result" where
  "usage_payload p cx account_snapshot_id routebook_id routebook_version =
     (let rb = cx_result_body cx;
          result_envelope_id = res_id (cx_result_row cx);
          verifier_report_id = map_option vrr_id (cx_verifier_row cx)
      in bind_result (usage_records_of rb) (\<lambda>items.
         let am = usage_amounts_of rb items;
             when_reported = (\<lambda>i. if am_provider_reported am then JInt i else JNull)
         in bind_result (item (cx_work_unit_body cx) ''work_unit_id'') (\<lambda>work_unit_id.
         bind_result (item (cx_work_unit_body cx) ''run_id'') (\<lambda>run_id.
         bind_result (capacity_profile_id p rb (cx_route_body cx)) (\<lambda>profile_id.
         Inr [(''usage_ledger_entry_id'',
                JStr (usage_entry_id p work_unit_id result_envelope_id verifier_report_id account_snapshot_id)),
              (''work_unit_id'', work_unit_id), (''run_id'', run_id),
              (''route_plan_id'', JStr (rp_id (cx_route_row cx))), (''result_envelope_id'', JStr result_envelope_id),
              (''verifier_report_id'', str_opt verifier_report_id),
              (''account_snapshot_id'', str_opt account_snapshot_id), (''routebook_id'', JStr routebook_id),
              (''routebook_version'', JStr routebook_version),
              (''capacity_node_id'', dget_or JNull rb ''capacity_node_id''),
              (''capacity_profile_id'', profile_id), (''backend_id'', dget_or JNull rb ''backend_id''),
              (''provider_id'', dget_or JNull rb ''provider_id''), (''model_id'', dget_or JNull rb ''model_id''),
              (''estimated_input_tokens'', JInt (am_input am)), (''estimated_output_tokens'', JInt (am_output am)),
              (''estimated_total_tokens'', JInt (am_input am + am_output am)),
              (''reported_input_tokens'', when_reported (am_input am)),
              (''reported_output_tokens'', when_reported (am_output am)),
              (''reported_total_tokens'', when_reported (am_input am + am_output am)),
              (''estimated_cost_micros'', JInt (am_estimated am)),
              (''reported_cost_micros'', when_reported (am_actual am)),
              (''billable_cost_micros'', JInt (if am_provider_reported am then am_actual am else am_estimated am)),
              (''usage_source'', JStr (if am_provider_reported am then ''provider_response'' else ''estimate'')),
              (''cost_source'', JStr (if am_provider_reported am then ''provider_reported''
                 else if 0 < am_estimated am then ''estimated'' else ''not_applicable'')),
              (''verifier_recommendation'', verifier_recommendation_of (cx_verifier_row cx))])))))"

fun natural_of :: "json \<Rightarrow> int result" where
  "natural_of (JInt i) = (if 0 \<le> i then Inr i else Inl (ValueError ''Input should be greater than or equal to 0''))"
| "natural_of v = Inl (ValueError ''Input should be a valid integer'')"

fun opt_natural_of :: "json \<Rightarrow> int option result" where
  "opt_natural_of JNull = Inr None"
| "opt_natural_of v = bind_result (natural_of v) (\<lambda>i. Inr (Some i))"

definition make_usage_entry :: "fields \<Rightarrow> string \<Rightarrow> string \<Rightarrow> usage_ledger_entry result" where
  "make_usage_entry payload entry_hash now =
     (let fld = dget_or JNull payload in
      bind_result (text_of (fld ''usage_ledger_entry_id'')) (\<lambda>entry_id.
      bind_result (text_of (fld ''work_unit_id'')) (\<lambda>work_unit_id.
      bind_result (text_of (fld ''run_id'')) (\<lambda>run_id.
      bind_result (text_of (fld ''route_plan_id'')) (\<lambda>route_plan_id.
      bind_result (text_of (fld ''result_envelope_id'')) (\<lambda>result_envelope_id.
      bind_result (opt_text_of (fld ''verifier_report_id'')) (\<lambda>verifier_report_id.
      bind_result (opt_text_of (fld ''account_snapshot_id'')) (\<lambda>account_snapshot_id.
      bind_result (text_of (fld ''routebook_id'')) (\<lambda>routebook_id.
      bind_result (text_of (fld ''routebook_version'')) (\<lambda>routebook_version.
      bind_result (opt_text_of (fld ''capacity_node_id'')) (\<lambda>capacity_node_id.
      bind_result (opt_text_of (fld ''capacity_profile_id'')) (\<lambda>profile_id.
      bind_result (opt_text_of (fld ''backend_id'')) (\<lambda>backend_id.
      bind_result (opt_str_of (fld ''provider_id'')) (\<lambda>provider_id.
      bind_result (opt_str_of (fld ''model_id'')) (\<lambda>model_id.
      bind_result (natural_of (fld ''estimated_input_tokens'')) (\<lambda>est_in.
      bind_result (natural_of (fld ''estimated_output_tokens'')) (\<lambda>est_out.
      bind_result (natural_of (fld ''estimated_total_tokens'')) (\<lambda>est_total.
      bind_result (opt_natural_of (fld ''reported_input_tokens'')) (\<lambda>rep_in.
      bind_result (opt_natural_of (fld ''reported_output_tokens'')) (\<lambda>rep_out.
      bind_result (opt_natural_of (fld ''reported_total_tokens'')) (\<lambda>rep_total.
      bind_result (natural_of (fld ''estimated_cost_micros'')) (\<lambda>est_cost.
      bind_result (opt_natural_of (fld ''reported_cost_micros'')) (\<lambda>rep_cost.
      bind_result (natural_of (fld ''billable_cost_micros'')) (\<lambda>billable.
      bind_result (text_of (fld ''usage_source'')) (\<lambda>usage_source.
      bind_result (text_of (fld ''cost_source'')) (\<lambda>cost_source.
      bind_result (opt_recommendation (fld ''verifier_recommendation'')) (\<lambda>recommendation.
      bind_result (non_empty_str entry_hash) (\<lambda>seal.
      Inr \<lparr>ule_usage_ledger_entry_id = entry_id, ule_work_unit_id = work_unit_id, ule_run_id = run_id,
           ule_route_plan_id = route_plan_id, ule_result_envelope_id = result_envelope_id,
           ule_verifier_report_id = verifier_report_id, ule_account_snapshot_id = account_snapshot_id,
           ule_routebook_id = routebook_id, ule_routebook_version = routebook_version,
           ule_capacity_node_id = capacity_node_id, ule_capacity_profile_id = profile_id, ule_backend_id = backend_id,
           ule_provider_id = provider_id, ule_model_id = model_id, ule_estimated_input_tokens = est_in,
           ule_estimated_output_tokens = est_out, ule_estimated_total_tokens = est_total,
           ule_reported_input_tokens = rep_in, ule_reported_output_tokens = rep_out,
           ule_reported_total_tokens = rep_total, ule_estimated_cost_micros = est_cost,
           ule_reported_cost_micros = rep_cost, ule_billable_cost_micros = billable,
           ule_usage_source = usage_source, ule_cost_source = cost_source,
           ule_verifier_recommendation = recommendation, ule_entry_hash = seal, ule_created_at = now\<rparr>
      ))))))))))))))))))))))))))))"

definition build_usage_entry ::
  "platform \<Rightarrow> string \<Rightarrow> usage_context \<Rightarrow> string option \<Rightarrow> string \<Rightarrow> string \<Rightarrow> usage_ledger_entry result" where
  "build_usage_entry p now cx account_snapshot_id routebook_id routebook_version =
     bind_result (usage_payload p cx account_snapshot_id routebook_id routebook_version) (\<lambda>payload.
     make_usage_entry payload (canonical_json_hash (sha256 p) (float_repr p) (JObj payload)) now)"

section \<open>Repository\<close>

definition required_row :: "'r option \<Rightarrow> string \<Rightarrow> 'r op" where
  "required_row row message = (case row of None \<Rightarrow> raise (KeyError message) | Some r \<Rightarrow> ret r)"

definition succeeded_result :: "tables \<Rightarrow> string \<Rightarrow> result_row option" where
  "succeeded_result t work_unit_id =
     newest res_created_at (filter (\<lambda>r. res_work_unit_id r = work_unit_id \<and> res_status r = Res_succeeded) (result_envelopes t))"

definition latest_route_plan :: "tables \<Rightarrow> string \<Rightarrow> route_plan_row option" where
  "latest_route_plan t work_unit_id = newest rp_created_at (filter (\<lambda>r. rp_work_unit_id r = work_unit_id) (route_plans t))"

definition latest_verifier_report :: "tables \<Rightarrow> string \<Rightarrow> verifier_report_row option" where
  "latest_verifier_report t result_envelope_id =
     newest vrr_created_at (filter (\<lambda>r. vrr_result_envelope_id r = result_envelope_id) (verifier_reports t))"

definition completed_context :: "string \<Rightarrow> usage_context op" where
  "completed_context work_unit_id =
     bnd (select (\<lambda>t. t)) (\<lambda>t.
     bnd (required_row (find_row wu_id (work_units t) work_unit_id) (''work_unit not found: '' @ work_unit_id)) (\<lambda>wu.
     bnd (required_row (succeeded_result t work_unit_id) (''succeeded result not found for work_unit: '' @ work_unit_id)) (\<lambda>res.
     bnd (required_row (latest_route_plan t work_unit_id) (''route_plan not found for work_unit: '' @ work_unit_id)) (\<lambda>rp.
     bnd (of_result (as_dict (wu_body wu))) (\<lambda>work_unit_body.
     bnd (of_result (as_dict (rp_body rp))) (\<lambda>route_body.
     bnd (of_result (as_dict (res_body res))) (\<lambda>result_body.
     ret \<lparr>cx_work_unit_body = work_unit_body, cx_route_row = rp, cx_route_body = route_body, cx_result_row = res,
          cx_result_body = result_body, cx_verifier_row = latest_verifier_report t (res_id res)\<rparr>)))))))"

definition usage_row_of :: "usage_ledger_entry \<Rightarrow> usage_ledger_row" where
  "usage_row_of e =
     \<lparr>ulr_id = ule_usage_ledger_entry_id e, ulr_work_unit_id = ule_work_unit_id e, ulr_run_id = ule_run_id e,
      ulr_route_plan_id = ule_route_plan_id e, ulr_result_envelope_id = ule_result_envelope_id e,
      ulr_verifier_report_id = ule_verifier_report_id e, ulr_account_snapshot_id = ule_account_snapshot_id e,
      ulr_usage_source = ule_usage_source e, ulr_cost_source = ule_cost_source e,
      ulr_billable_cost_micros = ule_billable_cost_micros e, ulr_entry_hash = ule_entry_hash e,
      ulr_body = canonical (dump_usage_entry e), ulr_created_at = ule_created_at e\<rparr>"

text \<open>\<open>ON CONFLICT ... DO UPDATE SET\<close> keeps the columns it does not name.\<close>

definition usage_row_merge :: "usage_ledger_entry \<Rightarrow> usage_ledger_row \<Rightarrow> usage_ledger_row" where
  "usage_row_merge e old =
     old\<lparr>ulr_verifier_report_id := ule_verifier_report_id e, ulr_account_snapshot_id := ule_account_snapshot_id e,
         ulr_usage_source := ule_usage_source e, ulr_cost_source := ule_cost_source e,
         ulr_billable_cost_micros := ule_billable_cost_micros e, ulr_entry_hash := ule_entry_hash e,
         ulr_body := canonical (dump_usage_entry e)\<rparr>"

definition opt_reference :: "(string \<Rightarrow> bool) \<Rightarrow> string option \<Rightarrow> bool" where
  "opt_reference exists x \<longleftrightarrow> (case x of None \<Rightarrow> True | Some i \<Rightarrow> exists i)"

definition upsert_usage_row :: "usage_ledger_entry \<Rightarrow> tables \<Rightarrow> tables result" where
  "upsert_usage_row e t =
     fk_check
       ((has_row ulr_id (usage_ledger_entries t) (ule_usage_ledger_entry_id e) \<or>
           has_row wu_id (work_units t) (ule_work_unit_id e) \<and> has_row rp_id (route_plans t) (ule_route_plan_id e) \<and>
           has_row res_id (result_envelopes t) (ule_result_envelope_id e)) \<and>
        opt_reference (has_row vrr_id (verifier_reports t)) (ule_verifier_report_id e) \<and>
        opt_reference (has_row acr_id (account_snapshots t)) (ule_account_snapshot_id e))
       (t\<lparr>usage_ledger_entries := upsert_row ulr_id (usage_row_merge e) (usage_row_of e) (usage_ledger_entries t)\<rparr>)"

definition usage_event_body :: "usage_ledger_entry \<Rightarrow> json" where
  "usage_event_body e = JObj
     [(''usage_ledger_entry_id'', JStr (ule_usage_ledger_entry_id e)), (''work_unit_id'', JStr (ule_work_unit_id e)),
      (''run_id'', JStr (ule_run_id e)), (''route_plan_id'', JStr (ule_route_plan_id e)),
      (''result_envelope_id'', JStr (ule_result_envelope_id e)), (''usage_source'', JStr (ule_usage_source e)),
      (''cost_source'', JStr (ule_cost_source e)), (''billable_cost_micros'', JInt (ule_billable_cost_micros e)),
      (''entry_hash'', JStr (ule_entry_hash e))]"

definition upsert_entry :: "usage_ledger_entry \<Rightarrow> json op" where
  "upsert_entry e =
     seq (change_with_event (upsert_usage_row e)
       (outbox_event ''tokenbank.ledger'' ''usage_ledger_entry.recorded''
          (''usage_ledger_entries/'' @ ule_usage_ledger_entry_id e) (usage_event_body e)
          (Some (ule_run_id e)) (Some (ule_work_unit_id e)) None None))
     (ret (JObj [(''usage_ledger_entry'', dump_usage_entry e), (''entry_hash'', JStr (ule_entry_hash e))]))"

definition record_for_work_unit ::
  "(json \<Rightarrow> string) \<Rightarrow> yaml_dir \<Rightarrow> string \<Rightarrow> string option \<Rightarrow> string \<Rightarrow> json op" where
  "record_for_work_unit repr files work_unit_id account_snapshot_id routebook_v1_dir =
     bnd (completed_context work_unit_id) (\<lambda>cx.
     bnd (gets plat) (\<lambda>p.
     bnd (of_result (load_routebook_v1_dir p routebook_v1_dir files)) (\<lambda>rb.
     bnd (of_result (v1_routebook_id repr rb)) (\<lambda>routebook_id.
     bnd (of_result (v1_version repr rb)) (\<lambda>routebook_version.
     bnd utc_text_now (\<lambda>now.
     bnd (of_result (build_usage_entry p now cx account_snapshot_id routebook_id routebook_version)) upsert_entry))))))"

definition usage_response :: "usage_ledger_row \<Rightarrow> json" where
  "usage_response r = JObj
     [(''usage_ledger_entry'', ulr_body r), (''entry_hash'', JStr (ulr_entry_hash r)),
      (''created_at'', JStr (ulr_created_at r))]"

definition list_entries :: "string option \<Rightarrow> string option \<Rightarrow> json list op" where
  "list_entries work_unit_id run_id =
     select (\<lambda>t. map usage_response (sort_desc ulr_created_at (sort_key ulr_id
       (filter (\<lambda>r. wanted work_unit_id (ulr_work_unit_id r) \<and> wanted run_id (ulr_run_id r)) (usage_ledger_entries t)))))"

definition get_entry :: "string \<Rightarrow> json option op" where
  "get_entry i = select (\<lambda>t. map_option usage_response (find_row ulr_id (usage_ledger_entries t) i))"

section \<open>Amounts\<close>

lemma non_negative_int_nonneg [simp]: "0 \<le> non_negative_int v"
  by (cases v) auto

lemma max_non_negative_int [simp]: "0 \<le> max (non_negative_int v) x"
  by (simp add: le_max_iff_disj)

lemma sum_field_nonneg [simp]: "0 \<le> sum_field k items"
  unfolding sum_field_def by (rule sum_list_nonneg) auto

lemma sum_field_upper: "d \<in> set items \<Longrightarrow> non_negative_int (dget_or JNull d k) \<le> sum_field k items"
  unfolding sum_field_def by (rule member_le_sum_list) auto

lemma make_usage_entry_fields:
  assumes "make_usage_entry payload h now = Inr e"
  shows "text_of (dget_or JNull payload ''usage_ledger_entry_id'') = Inr (ule_usage_ledger_entry_id e)"
    "text_of (dget_or JNull payload ''work_unit_id'') = Inr (ule_work_unit_id e)"
    "text_of (dget_or JNull payload ''run_id'') = Inr (ule_run_id e)"
    "text_of (dget_or JNull payload ''route_plan_id'') = Inr (ule_route_plan_id e)"
    "text_of (dget_or JNull payload ''result_envelope_id'') = Inr (ule_result_envelope_id e)"
    "opt_text_of (dget_or JNull payload ''verifier_report_id'') = Inr (ule_verifier_report_id e)"
    "opt_text_of (dget_or JNull payload ''account_snapshot_id'') = Inr (ule_account_snapshot_id e)"
    "text_of (dget_or JNull payload ''routebook_id'') = Inr (ule_routebook_id e)"
    "text_of (dget_or JNull payload ''routebook_version'') = Inr (ule_routebook_version e)"
    "opt_text_of (dget_or JNull payload ''capacity_node_id'') = Inr (ule_capacity_node_id e)"
    "opt_text_of (dget_or JNull payload ''capacity_profile_id'') = Inr (ule_capacity_profile_id e)"
    "opt_text_of (dget_or JNull payload ''backend_id'') = Inr (ule_backend_id e)"
    "opt_str_of (dget_or JNull payload ''provider_id'') = Inr (ule_provider_id e)"
    "opt_str_of (dget_or JNull payload ''model_id'') = Inr (ule_model_id e)"
    "natural_of (dget_or JNull payload ''estimated_input_tokens'') = Inr (ule_estimated_input_tokens e)"
    "natural_of (dget_or JNull payload ''estimated_output_tokens'') = Inr (ule_estimated_output_tokens e)"
    "natural_of (dget_or JNull payload ''estimated_total_tokens'') = Inr (ule_estimated_total_tokens e)"
    "opt_natural_of (dget_or JNull payload ''reported_input_tokens'') = Inr (ule_reported_input_tokens e)"
    "opt_natural_of (dget_or JNull payload ''reported_output_tokens'') = Inr (ule_reported_output_tokens e)"
    "opt_natural_of (dget_or JNull payload ''reported_total_tokens'') = Inr (ule_reported_total_tokens e)"
    "natural_of (dget_or JNull payload ''estimated_cost_micros'') = Inr (ule_estimated_cost_micros e)"
    "opt_natural_of (dget_or JNull payload ''reported_cost_micros'') = Inr (ule_reported_cost_micros e)"
    "natural_of (dget_or JNull payload ''billable_cost_micros'') = Inr (ule_billable_cost_micros e)"
    "text_of (dget_or JNull payload ''usage_source'') = Inr (ule_usage_source e)"
    "text_of (dget_or JNull payload ''cost_source'') = Inr (ule_cost_source e)"
    "opt_recommendation (dget_or JNull payload ''verifier_recommendation'') = Inr (ule_verifier_recommendation e)"
    "non_empty_str h = Inr (ule_entry_hash e)" "ule_created_at e = now"
  using assms unfolding make_usage_entry_def Let_def by auto

lemma make_usage_entry_now:
  "make_usage_entry payload h now = Inr e \<Longrightarrow> make_usage_entry payload h now' = Inr (e\<lparr>ule_created_at := now'\<rparr>)"
  unfolding make_usage_entry_def Let_def by auto

lemma build_usage_entry_now:
  "build_usage_entry p now cx acct rid ver = Inr e \<Longrightarrow>
   build_usage_entry p now' cx acct rid ver = Inr (e\<lparr>ule_created_at := now'\<rparr>)"
  by (auto simp: build_usage_entry_def intro: make_usage_entry_now)

lemma usage_amounts_nonneg [simp]:
  "0 \<le> am_input (usage_amounts_of rb items)" "0 \<le> am_output (usage_amounts_of rb items)"
  "0 \<le> am_estimated (usage_amounts_of rb items)" "0 \<le> am_actual (usage_amounts_of rb items)"
  by (simp_all add: usage_amounts_of_def Let_def le_max_iff_disj)

definition entry_amounts :: "usage_ledger_entry \<Rightarrow> usage_amounts \<Rightarrow> bool" where
  "entry_amounts e am \<longleftrightarrow>
     ule_estimated_input_tokens e = am_input am \<and> ule_estimated_output_tokens e = am_output am \<and>
     ule_estimated_total_tokens e = am_input am + am_output am \<and> ule_estimated_cost_micros e = am_estimated am \<and>
     ule_billable_cost_micros e = (if am_provider_reported am then am_actual am else am_estimated am) \<and>
     ule_reported_total_tokens e = (if am_provider_reported am then Some (am_input am + am_output am) else None) \<and>
     ule_reported_cost_micros e = (if am_provider_reported am then Some (am_actual am) else None) \<and>
     ule_usage_source e = (if am_provider_reported am then ''provider_response'' else ''estimate'')"

lemma text_of_source: "text_of (JStr (if b then ''provider_response'' else ''estimate''))
    = Inr (if b then ''provider_response'' else ''estimate'')"
  by (simp add: non_empty_str_def strip_def blank_def)

lemma build_usage_amounts:
  assumes "build_usage_entry p now cx acct rid ver = Inr e"
  shows "\<exists>items. usage_records_of (cx_result_body cx) = Inr items \<and>
    entry_amounts e (usage_amounts_of (cx_result_body cx) items)"
proof -
  obtain payload where payload: "usage_payload p cx acct rid ver = Inr payload"
    and entry: "make_usage_entry payload (canonical_json_hash (sha256 p) (float_repr p) (JObj payload)) now = Inr e"
    using assms by (auto simp: build_usage_entry_def)
  obtain items where items: "usage_records_of (cx_result_body cx) = Inr items"
    using payload by (auto simp: usage_payload_def Let_def)
  define am where "am = usage_amounts_of (cx_result_body cx) items"
  have nonneg: "0 \<le> am_input am" "0 \<le> am_output am" "0 \<le> am_estimated am" "0 \<le> am_actual am"
    by (simp_all add: am_def)
  have "dget_or JNull payload ''estimated_input_tokens'' = JInt (am_input am)"
    "dget_or JNull payload ''estimated_output_tokens'' = JInt (am_output am)"
    "dget_or JNull payload ''estimated_total_tokens'' = JInt (am_input am + am_output am)"
    "dget_or JNull payload ''estimated_cost_micros'' = JInt (am_estimated am)"
    "dget_or JNull payload ''billable_cost_micros'' = JInt (if am_provider_reported am then am_actual am else am_estimated am)"
    "dget_or JNull payload ''reported_total_tokens'' = (if am_provider_reported am then JInt (am_input am + am_output am) else JNull)"
    "dget_or JNull payload ''reported_cost_micros'' = (if am_provider_reported am then JInt (am_actual am) else JNull)"
    "dget_or JNull payload ''usage_source'' = JStr (if am_provider_reported am then ''provider_response'' else ''estimate'')"
    using payload items by (auto simp: usage_payload_def Let_def dget_or_def am_def)
  with make_usage_entry_fields [OF entry] nonneg have "entry_amounts e am"
    by (simp add: entry_amounts_def text_of_source del: text_of.simps split: if_splits)
  with items show ?thesis by (auto simp: am_def)
qed

text \<open>C37. A ledger entry accounts for every usage record. Token totals are the sums over the usage records of the
  result, the total is input plus output, and no amount is negative. What is billed is the reported cost when the
  provider reported one and the estimate otherwise, and the reported figures are present exactly in the first case.
  Neither cost is ever below the figure of the envelope or of any single usage record.\<close>

theorem usage_entry_accounts:
  assumes "build_usage_entry p now cx acct rid ver = Inr e"
  shows "\<exists>items. usage_records_of (cx_result_body cx) = Inr items \<and>
    ule_estimated_input_tokens e = sum_field ''input_units'' items \<and>
    ule_estimated_output_tokens e = sum_field ''output_units'' items \<and>
    ule_estimated_total_tokens e = ule_estimated_input_tokens e + ule_estimated_output_tokens e \<and>
    0 \<le> ule_estimated_input_tokens e \<and> 0 \<le> ule_estimated_output_tokens e \<and> 0 \<le> ule_billable_cost_micros e \<and>
    (case ule_reported_cost_micros e of
       Some c \<Rightarrow> ule_billable_cost_micros e = c \<and> ule_usage_source e = ''provider_response'' \<and>
         ule_reported_total_tokens e = Some (ule_estimated_total_tokens e) \<and>
         (\<forall>d \<in> set items. non_negative_int (dget_or JNull d ''actual_cost_micros'') \<le> c)
     | None \<Rightarrow> ule_billable_cost_micros e = ule_estimated_cost_micros e \<and> ule_usage_source e = ''estimate'' \<and>
         ule_reported_total_tokens e = None \<and>
         (\<forall>d \<in> set items. dget_or JNull d ''cost_source'' \<noteq> JStr ''measured'' \<and>
            non_negative_int (dget_or JNull d ''actual_cost_micros'') = 0)) \<and>
    non_negative_int (dget_or JNull (cx_result_body cx) ''cost_estimate_micros'') \<le> ule_estimated_cost_micros e \<and>
    (\<forall>d \<in> set items. non_negative_int (dget_or JNull d ''estimated_cost_micros'') \<le> ule_estimated_cost_micros e)"
proof -
  obtain items where items: "usage_records_of (cx_result_body cx) = Inr items"
    and am: "entry_amounts e (usage_amounts_of (cx_result_body cx) items)"
    using build_usage_amounts [OF assms] by blast
  have upper: "d \<in> set items \<Longrightarrow> non_negative_int (dget_or JNull d k) \<le> max x (sum_field k items)" for d k x
    using sum_field_upper [of d items k] by (simp add: le_max_iff_disj)
  have unreported: "non_negative_int (dget_or JNull d ''actual_cost_micros'') = 0"
    if "d \<in> set items" "\<not> am_provider_reported (usage_amounts_of (cx_result_body cx) items)" for d
    using that(2) upper [OF that(1), of "''actual_cost_micros''" "non_negative_int (dget_or JNull (cx_result_body cx) ''actual_cost_micros'')"]
    by (intro antisym non_negative_int_nonneg) (auto simp: usage_amounts_of_def Let_def)
  show ?thesis
    using items am upper unreported
    by (intro exI [of _ items]) (auto simp: entry_amounts_def usage_amounts_of_def Let_def list_ex_iff)
qed

section \<open>The seal\<close>

text \<open>The texts of a document have no surrounding blanks.\<close>

definition trimmed :: "json \<Rightarrow> bool" where
  "trimmed v \<longleftrightarrow> list_all (\<lambda>s. strip s = s) (all_strings v)"

lemma text_of_trimmed: "text_of v = Inr s \<Longrightarrow> trimmed v \<Longrightarrow> JStr s = v"
  by (cases v) (auto simp: trimmed_def non_empty_str_ok)

lemma opt_text_of_trimmed: "opt_text_of v = Inr x \<Longrightarrow> trimmed v \<Longrightarrow> str_opt x = v"
  by (cases v) (auto simp: trimmed_def non_empty_str_ok)

lemma opt_str_of_trimmed: "opt_str_of v = Inr x \<Longrightarrow> trimmed v \<Longrightarrow> str_opt x = v"
  by (cases v) (auto simp: trimmed_def)

lemma opt_recommendation_exact: "opt_recommendation v = Inr x \<Longrightarrow> str_opt x = v"
  by (cases v) (auto split: if_splits)

lemma natural_of_exact: "natural_of v = Inr i \<Longrightarrow> JInt i = v"
  by (cases v) (auto split: if_splits)

lemma opt_natural_of_exact: "opt_natural_of v = Inr x \<Longrightarrow> int_opt x = v"
  by (cases v) (auto split: if_splits)

lemma trimmed_field: "trimmed (JObj kvs) \<Longrightarrow> dget kvs k = Some v \<Longrightarrow> trimmed v"
  by (force simp: trimmed_def list_all_iff dest: dget_in_set)

lemma trimmed_field_or: "trimmed (JObj kvs) \<Longrightarrow> trimmed (dget_or JNull kvs k)"
  by (auto simp: dget_or_def trimmed_def [of JNull] split: option.splits dest: trimmed_field)

lemmas entry_field_exact = text_of_trimmed opt_text_of_trimmed opt_str_of_trimmed opt_recommendation_exact
  natural_of_exact opt_natural_of_exact

lemma entry_payload_fields:
  assumes "make_usage_entry payload h now = Inr e" and "trimmed (JObj payload)"
  shows "entry_payload e = map (\<lambda>k. (k, dget_or JNull payload k)) (map fst (entry_payload e))"
proof -
  note fields = make_usage_entry_fields [OF assms(1)]
  note texts = fields(1-5,8,9,24,25) [THEN text_of_trimmed, OF trimmed_field_or [OF assms(2)]]
  note opts = fields(6,7,10-12) [THEN opt_text_of_trimmed, OF trimmed_field_or [OF assms(2)]]
  note strs = fields(13,14) [THEN opt_str_of_trimmed, OF trimmed_field_or [OF assms(2)]]
  note ints = fields(15-17,21,23) [THEN natural_of_exact] fields(18-20,22) [THEN opt_natural_of_exact]
    fields(26) [THEN opt_recommendation_exact]
  show ?thesis unfolding entry_payload_def by (simp add: texts opts strs ints)
qed

lemma usage_payload_keys:
  assumes "usage_payload p cx acct rid ver = Inr payload"
  shows "map fst payload = map fst (entry_payload e)" and "map (\<lambda>k. (k, dget_or JNull payload k)) (map fst payload) = payload"
  using assms by (auto simp: usage_payload_def Let_def entry_payload_def dget_or_def)

text \<open>C33. The seal of an entry can be checked from the entry alone. Hashing the stored fields of the entry, without
  its seal and its creation time, gives the seal, so that a change to any of them would need a collision of the hash
  function. Texts must have no surrounding blanks, which the data classes would strip after the seal is computed.\<close>

theorem usage_entry_sealed:
  assumes "build_usage_entry p now cx acct rid ver = Inr e" and "usage_payload p cx acct rid ver = Inr payload"
    and "trimmed (JObj payload)" and "sha256 p (canonical_json_dumps (float_repr p) (JObj payload)) = h" and "strip h = h"
  shows "ule_entry_hash e = canonical_json_hash (sha256 p) (float_repr p) (JObj (entry_payload e)) \<and>
    (\<exists>kvs. dump_usage_entry e = JObj kvs \<and>
       filter (\<lambda>(k, v). k \<notin> {''schema_version'', ''entry_hash'', ''created_at''}) kvs = payload)"
proof -
  have entry: "make_usage_entry payload (canonical_json_hash (sha256 p) (float_repr p) (JObj payload)) now = Inr e"
    using assms(1,2) by (auto simp: build_usage_entry_def)
  have same: "entry_payload e = payload"
    using entry_payload_fields [OF entry assms(3)] usage_payload_keys(1) [OF assms(2), of e]
      usage_payload_keys(2) [OF assms(2)] by simp
  have "ule_entry_hash e = h"
    using make_usage_entry_fields(27) [OF entry] assms(4,5) by (simp add: non_empty_str_ok canonical_json_hash_def)
  moreover have "filter (\<lambda>(k, v). k \<notin> {''schema_version'', ''entry_hash'', ''created_at''}) (entry_payload e) = entry_payload e"
    by (simp add: entry_payload_def)
  ultimately show ?thesis using same assms(4) by (simp add: dump_usage_entry_def canonical_json_hash_def)
qed

section \<open>Recording\<close>

lemma run_required_row: "required_row row m w = (case row of None \<Rightarrow> (Inl (KeyError m), w) | Some r \<Rightarrow> (Inr r, w))"
  by (simp add: required_row_def split: option.splits)

lemma completed_context_pure: "snd (completed_context i w) = w"
  by (simp add: completed_context_def run_bnd run_select run_required_row split: option.splits sum.splits)

lemma completed_context_cong:
  assumes "work_units (current w') = work_units (current w)" and "route_plans (current w') = route_plans (current w)"
    and "result_envelopes (current w') = result_envelopes (current w)"
    and "verifier_reports (current w') = verifier_reports (current w)"
  shows "fst (completed_context i w') = fst (completed_context i w)"
  using assms
  by (simp add: completed_context_def run_bnd run_select run_required_row succeeded_result_def latest_route_plan_def
      latest_verifier_report_def split: option.splits sum.splits)

definition same_sources :: "tables \<Rightarrow> tables \<Rightarrow> bool" where
  "same_sources t t' \<longleftrightarrow> work_units t' = work_units t \<and> route_plans t' = route_plans t \<and>
     result_envelopes t' = result_envelopes t \<and> verifier_reports t' = verifier_reports t \<and>
     assignments t' = assignments t \<and> account_snapshots t' = account_snapshots t \<and> audit_receipts t' = audit_receipts t"

lemma upsert_entry_ok:
  assumes "idle w" and "pk_unique ulr_id (usage_ledger_entries (committed w))" and "upsert_entry e w = (Inr out, w')"
  shows "idle w' \<and> plat w' = plat w \<and> same_sources (committed w) (committed w') \<and>
    pk_unique ulr_id (usage_ledger_entries (committed w')) \<and>
    out = JObj [(''usage_ledger_entry'', dump_usage_entry e), (''entry_hash'', JStr (ule_entry_hash e))] \<and>
    map ulr_id (usage_ledger_entries (committed w')) =
      (if has_row ulr_id (usage_ledger_entries (committed w)) (ule_usage_ledger_entry_id e)
       then map ulr_id (usage_ledger_entries (committed w))
       else map ulr_id (usage_ledger_entries (committed w)) @ [ule_usage_ledger_entry_id e]) \<and>
    (\<forall>i. find_row ulr_id (usage_ledger_entries (committed w')) i =
      (if i = ule_usage_ledger_entry_id e
       then Some (case find_row ulr_id (usage_ledger_entries (committed w)) i of
              None \<Rightarrow> usage_row_of e | Some old \<Rightarrow> usage_row_merge e old)
       else find_row ulr_id (usage_ledger_entries (committed w)) i)) \<and>
    (\<exists>r. event_outbox (committed w') = event_outbox (committed w) @ [r] \<and>
       event_of ''tokenbank.ledger'' ''usage_ledger_entry.recorded''
         (''usage_ledger_entries/'' @ ule_usage_ledger_entry_id e) (usage_event_body e) r)"
proof -
  let ?rows = "upsert_row ulr_id (usage_row_merge e) (usage_row_of e) (usage_ledger_entries (committed w))"
  have key: "ulr_id (usage_row_of e) = ule_usage_ledger_entry_id e" by (simp add: usage_row_of_def)
  have merge: "ulr_id (usage_row_merge e x) = ulr_id x" for x by (simp add: usage_row_merge_def)
  have run: "change_with_event (upsert_usage_row e) (outbox_event ''tokenbank.ledger'' ''usage_ledger_entry.recorded''
        (''usage_ledger_entries/'' @ ule_usage_ledger_entry_id e) (usage_event_body e)
        (Some (ule_run_id e)) (Some (ule_work_unit_id e)) None None) w = (Inr (), w')"
    and out: "out = JObj [(''usage_ledger_entry'', dump_usage_entry e), (''entry_hash'', JStr (ule_entry_hash e))]"
    using assms(3) by (auto simp: upsert_entry_def seq_ok_iff)
  obtain t r where t: "upsert_usage_row e (committed w) = Inr t"
    and r: "event_of ''tokenbank.ledger'' ''usage_ledger_entry.recorded''
      (''usage_ledger_entries/'' @ ule_usage_ledger_entry_id e) (usage_event_body e) r"
      "committed w' = t\<lparr>event_outbox := event_outbox t @ [r]\<rparr>" "idle w'" "plat w' = plat w"
    using change_with_event_ok [OF assms(1) run] by blast
  have t': "t = (committed w)\<lparr>usage_ledger_entries := ?rows\<rparr>"
    using t by (auto simp: upsert_usage_row_def fk_check_def split: if_splits)
  have "pk_unique ulr_id ?rows" by (rule pk_unique_upsert) (simp_all add: key merge assms(2))
  moreover have "find_row ulr_id ?rows i = (if i = ule_usage_ledger_entry_id e
      then Some (case find_row ulr_id (usage_ledger_entries (committed w)) i of None \<Rightarrow> usage_row_of e
             | Some old \<Rightarrow> usage_row_merge e old)
      else find_row ulr_id (usage_ledger_entries (committed w)) i)" for i
    by (subst find_row_upsert) (simp_all add: key merge)
  moreover have "map ulr_id ?rows = (if has_row ulr_id (usage_ledger_entries (committed w)) (ule_usage_ledger_entry_id e)
      then map ulr_id (usage_ledger_entries (committed w))
      else map ulr_id (usage_ledger_entries (committed w)) @ [ule_usage_ledger_entry_id e])"
    by (simp add: upsert_row_def has_row_def key keys_update_row merge)
  ultimately show ?thesis using r t' out by (simp add: same_sources_def)
qed

lemma record_for_work_unit_ok:
  assumes "idle w" and "record_for_work_unit repr files i acct dir w = (Inr out, w')"
  obtains cx rid ver now e w1 rb where "completed_context i w = (Inr cx, w)"
    "load_routebook_v1_dir (plat w) dir files = Inr rb" "v1_routebook_id repr rb = Inr rid" "v1_version repr rb = Inr ver"
    "build_usage_entry (plat w) now cx acct rid ver = Inr e" "upsert_entry e w1 = (Inr out, w')"
    "idle w1" "committed w1 = committed w" "plat w1 = plat w"
proof -
  obtain r where cx: "completed_context i w = (r, w)" using completed_context_pure [of i w] by (metis surjective_pairing)
  show thesis
    using assms that cx unfolding record_for_work_unit_def
    by (auto simp: bnd_ok_iff idle_def)
qed

text \<open>Usage is recorded once. Recording the usage of a work unit a second time, with nothing else in between,
  updates the entry of the first time: no entry is added, the entry keeps its identifier, its seal and the billed
  amount, and all other entries are untouched.\<close>

theorem usage_recorded_once:
  assumes "idle w" and "pk_unique ulr_id (usage_ledger_entries (committed w))"
    and "record_for_work_unit repr files i acct dir w = (Inr out1, w1)"
    and "record_for_work_unit repr files i acct dir w1 = (Inr out2, w2)"
  shows "map ulr_id (usage_ledger_entries (committed w2)) = map ulr_id (usage_ledger_entries (committed w1)) \<and>
    (\<forall>k r1. find_row ulr_id (usage_ledger_entries (committed w1)) k = Some r1 \<longrightarrow>
       (\<exists>r2. find_row ulr_id (usage_ledger_entries (committed w2)) k = Some r2 \<and>
          r2\<lparr>ulr_body := ulr_body r1\<rparr> = r1))"
proof -
  obtain cx rid ver now e v rb where 1: "completed_context i w = (Inr cx, w)" "load_routebook_v1_dir (plat w) dir files = Inr rb"
    "v1_routebook_id repr rb = Inr rid" "v1_version repr rb = Inr ver"
    "build_usage_entry (plat w) now cx acct rid ver = Inr e" "upsert_entry e v = (Inr out1, w1)"
    "idle v" "committed v = committed w" "plat v = plat w"
    using record_for_work_unit_ok [OF assms(1,3)] by metis
  have pk: "pk_unique ulr_id (usage_ledger_entries (committed v))" using assms(2) 1(8) by simp
  note first = upsert_entry_ok [OF 1(7) pk 1(6)]
  then have w1: "idle w1" "plat w1 = plat w" "pk_unique ulr_id (usage_ledger_entries (committed w1))" using 1(9) by auto
  obtain cx' rid' ver' now' e' v' rb' where 2: "completed_context i w1 = (Inr cx', w1)"
    "load_routebook_v1_dir (plat w1) dir files = Inr rb'" "v1_routebook_id repr rb' = Inr rid'" "v1_version repr rb' = Inr ver'"
    "build_usage_entry (plat w1) now' cx' acct rid' ver' = Inr e'" "upsert_entry e' v' = (Inr out2, w2)"
    "idle v'" "committed v' = committed w1" "plat v' = plat w1"
    using record_for_work_unit_ok [OF w1(1) assms(4)] by metis
  have "current w1 = committed w1" "current w = committed w" using w1(1) assms(1) by (simp_all add: idle_def)
  then have "fst (completed_context i w1) = fst (completed_context i w)"
    using first 1(8) by (intro completed_context_cong) (auto simp: same_sources_def)
  then have "cx' = cx" "rid' = rid" "ver' = ver" using 1 2 w1(2) by simp_all
  then have e': "e' = e\<lparr>ule_created_at := now'\<rparr>"
    using build_usage_entry_now [OF 1(5), of now'] 2(5) w1(2) by simp
  have pk': "pk_unique ulr_id (usage_ledger_entries (committed v'))" using w1(3) 2(8) by simp
  note second = upsert_entry_ok [OF 2(7) pk' 2(6)]
  have stored: "\<exists>r. find_row ulr_id (usage_ledger_entries (committed w1)) (ule_usage_ledger_entry_id e) = Some r \<and>
      ulr_verifier_report_id r = ule_verifier_report_id e \<and> ulr_account_snapshot_id r = ule_account_snapshot_id e \<and>
      ulr_usage_source r = ule_usage_source e \<and> ulr_cost_source r = ule_cost_source e \<and>
      ulr_billable_cost_micros r = ule_billable_cost_micros e \<and> ulr_entry_hash r = ule_entry_hash e"
    using first by (simp add: usage_row_of_def usage_row_merge_def split: option.splits)
  then have "has_row ulr_id (usage_ledger_entries (committed w1)) (ule_usage_ledger_entry_id e)"
    by (auto simp: has_row_find)
  moreover have "\<exists>r2. find_row ulr_id (usage_ledger_entries (committed w2)) k = Some r2 \<and> r2\<lparr>ulr_body := ulr_body r1\<rparr> = r1"
    if "find_row ulr_id (usage_ledger_entries (committed w1)) k = Some r1" for k r1
    using that second stored 2(8) e' by (auto simp: usage_row_merge_def)
  ultimately show ?thesis using second 2(8) e' by simp
qed

end
