(* ===== verification/Ledger_Sample.thy ===== *)
theory Ledger_Sample
  imports Ledger
begin

text \<open>
  A small database with one completed work unit, on which the results about the usage ledger and the audit
  receipts are instantiated.
\<close>

definition completed_unit :: work_unit_row where
  "completed_unit =
     \<lparr>wu_id = ''wu_1'', wu_run_id = ''run_1'', wu_status = WU_succeeded, wu_task_type = ''dedup'', wu_task_level = ''L1'',
      wu_body = JObj [(''work_unit_id'', JStr ''wu_1''), (''run_id'', JStr ''run_1'')], wu_created_at = ''t'', wu_updated_at = ''t''\<rparr>"

definition completed_route :: route_plan_row where
  "completed_route =
     \<lparr>rp_id = ''rp_1'', rp_work_unit_id = ''wu_1'', rp_status = ''planned'',
      rp_body = JObj [(''route_plan_id'', JStr ''rp_1'')], rp_created_at = ''t''\<rparr>"

abbreviation completed_usage :: fields where
  "completed_usage \<equiv>
     [(''input_units'', JInt 3), (''output_units'', JInt 4), (''estimated_cost_micros'', JInt 10), (''actual_cost_micros'', JInt 7)]"

abbreviation completed_body :: fields where
  "completed_body \<equiv>
     [(''result_envelope_id'', JStr ''res_1''), (''result_hash'', JStr ''rh''), (''backend_id'', JStr ''b''),
      (''usage_records'', JList [JObj completed_usage])]"

definition completed_result :: result_row where
  "completed_result =
     \<lparr>res_id = ''res_1'', res_work_unit_id = ''wu_1'', res_attempt_id = ''att_1'', res_assignment_id = ''asg_1'',
      res_status = Res_succeeded, res_output_hash = ''oh'', res_result_hash = ''rh'', res_body = JObj completed_body,
      res_created_at = ''t''\<rparr>"

definition completed_report :: verifier_report_row where
  "completed_report =
     \<lparr>vrr_id = ''vr_1'', vrr_work_unit_id = ''wu_1'', vrr_result_envelope_id = ''res_1'', vrr_status = ''passed'',
      vrr_recommendation = ''accept'',
      vrr_body = JObj [(''verifier_report_id'', JStr ''vr_1''), (''recommendation'', JStr ''accept'')], vrr_created_at = ''t''\<rparr>"

definition completed_assignment :: assignment_row where
  "completed_assignment =
     \<lparr>asg_id = ''asg_1'', asg_attempt_id = ''att_1'', asg_work_unit_id = ''wu_1'', asg_worker_id = ''wrk_1'',
      asg_status = Asg_completed, asg_body = JObj [(''assignment_id'', JStr ''asg_1'')], asg_created_at = ''t'',
      asg_capacity_node_id = None, asg_backend_id = None, asg_lease_token_hash = None, asg_lease_token_prefix = None,
      asg_lease_version = 0, asg_effective_constraints = JNull, asg_assigned_at = None, asg_lease_expires_at = None,
      asg_accepted_at = None, asg_completed_at = None, asg_updated_at = None\<rparr>"

definition completed_tables :: tables where
  "completed_tables = empty_tables\<lparr>work_units := [completed_unit], route_plans := [completed_route],
     result_envelopes := [completed_result], verifier_reports := [completed_report], assignments := [completed_assignment]\<rparr>"

definition completed_world :: world where
  "completed_world = empty_world\<lparr>committed := completed_tables, current := completed_tables\<rparr>"

definition completed_context_value :: usage_context where
  "completed_context_value =
     \<lparr>cx_work_unit_body = [(''work_unit_id'', JStr ''wu_1''), (''run_id'', JStr ''run_1'')], cx_route_row = completed_route,
      cx_route_body = [(''route_plan_id'', JStr ''rp_1'')], cx_result_row = completed_result,
      cx_result_body = completed_body, cx_verifier_row = Some completed_report\<rparr>"

definition sample_yaml :: yaml_dir where
  "sample_yaml f =
     (if f = ''routebook.yaml'' then Some (JObj [(''routebook_id'', JStr ''tb''), (''version'', JStr ''1''), (''ontology_version'', JStr ''1'')])
      else if f = ''ontology.yaml'' then Some (JObj (map (\<lambda>k. (k, JObj [(''x'', JNull)])) [''task_families'', ''capability_tags'', ''quality_tiers'']))
      else if f = ''scoring.yaml'' then Some (JObj [(''scorer_id'', JStr ''s''), (''version'', JStr ''1''), (''selection_policy'', JStr ''p''),
        (''score_weights'', JObj [(''cost'', JInt 1)]), (''hard_filters'', JList [JStr ''f''])])
      else None)"

lemmas completed_row_defs = completed_unit_def completed_route_def completed_result_def completed_report_def completed_assignment_def

lemma newest_single [simp]: "newest f [x] = Some x"
  by (simp add: newest_def sort_desc_def)

lemma completed_world_simps [simp]:
  "idle completed_world" "committed completed_world = completed_tables" "current completed_world = completed_tables"
  "plat completed_world = plat empty_world" "outbox_ok completed_tables" "fresh_event_id completed_world"
  "usage_ledger_entries completed_tables = []"  "audit_receipts completed_tables = []"
  by (simp_all add: completed_world_def idle_def completed_tables_def outbox_ok_def empty_tables_def pk_unique_def
      fresh_event_id_def)

lemma sample_context: "completed_context ''wu_1'' completed_world = (Inr completed_context_value, completed_world)"
  by (simp add: completed_context_def run_bnd run_select run_required_row find_row_def succeeded_result_def
      latest_route_plan_def latest_verifier_report_def completed_tables_def completed_row_defs completed_context_value_def)

lemma sample_routebook_v1:
  "\<exists>rb. load_routebook_v1_dir p dir sample_yaml = Inr rb \<and> v1_routebook_id repr rb = Inr ''tb'' \<and> v1_version repr rb = Inr ''1''"
  by (simp add: load_routebook_v1_dir_def load_documents_def required_routebook_v1_files_def sample_yaml_def load_yaml_file_def
      validate_manifest_def validate_ontology_def validate_scoring_def check_keys_def non_empty_text_at_def non_empty_dict_at_def
      weight_ok_def v1_routebook_id_def v1_version_def)

definition sample_entry :: "string \<Rightarrow> usage_ledger_entry" where
  "sample_entry now =
     \<lparr>ule_usage_ledger_entry_id = ''ule_h'', ule_work_unit_id = ''wu_1'', ule_run_id = ''run_1'', ule_route_plan_id = ''rp_1'',
      ule_result_envelope_id = ''res_1'', ule_verifier_report_id = Some ''vr_1'', ule_account_snapshot_id = None,
      ule_routebook_id = ''tb'', ule_routebook_version = ''1'', ule_capacity_node_id = None,
      ule_capacity_profile_id = Some ''cp_h'', ule_backend_id = Some ''b'', ule_provider_id = None, ule_model_id = None,
      ule_estimated_input_tokens = 3, ule_estimated_output_tokens = 4, ule_estimated_total_tokens = 7,
      ule_reported_input_tokens = Some 3, ule_reported_output_tokens = Some 4, ule_reported_total_tokens = Some 7,
      ule_estimated_cost_micros = 10, ule_reported_cost_micros = Some 7, ule_billable_cost_micros = 7,
      ule_usage_source = ''provider_response'', ule_cost_source = ''provider_reported'',
      ule_verifier_recommendation = Some ''accept'', ule_entry_hash = ''h'', ule_created_at = now\<rparr>"

lemma sample_amounts:
  "usage_records_of completed_body = Inr [completed_usage]"
  "usage_amounts_of completed_body [completed_usage] =
     \<lparr>am_input = 3, am_output = 4, am_estimated = 10, am_actual = 7, am_provider_reported = True\<rparr>"
  by (simp_all add: usage_records_of_def dget_or_def List.map_filter_def usage_amounts_of_def sum_field_def)

lemma sha_empty_world: "sha256 (plat empty_world) x = ''h''"
  by (simp add: empty_world_def)

lemma sample_payload:
  "usage_payload (plat empty_world) completed_context_value None ''tb'' ''1'' = Inr (entry_payload (sample_entry now))"
  by (simp add: usage_payload_def completed_context_value_def sample_amounts completed_row_defs capacity_profile_id_def
      usage_entry_id_def canonical_json_hash_def sha_empty_world verifier_recommendation_of_def dget_or_def Let_def
      entry_payload_def sample_entry_def)

lemma sample_build:
  "build_usage_entry (plat empty_world) now completed_context_value None ''tb'' ''1'' = Inr (sample_entry now)"
  by (simp add: build_usage_entry_def sample_payload [of now] canonical_json_hash_def sha_empty_world make_usage_entry_def
      entry_payload_def sample_entry_def dget_or_def non_empty_str_def strip_def blank_def)

section \<open>The ledger on the sample\<close>

theorem usage_entry_accounts_witness:
  "\<exists>e. build_usage_entry (plat empty_world) ''t'' completed_context_value None ''tb'' ''1'' = Inr e \<and>
     ule_estimated_total_tokens e = ule_estimated_input_tokens e + ule_estimated_output_tokens e \<and>
     ule_billable_cost_micros e = 7"
  using usage_entry_accounts [OF sample_build [of "''t''"]] sample_build [of "''t''"] by (auto simp: sample_entry_def)

theorem usage_entry_sealed_witness:
  "ule_entry_hash (sample_entry ''t'') =
     canonical_json_hash (sha256 (plat empty_world)) (float_repr (plat empty_world)) (JObj (entry_payload (sample_entry ''t'')))"
proof -
  have "trimmed (JObj (entry_payload (sample_entry ''t'')))"
    by (simp add: trimmed_def entry_payload_def sample_entry_def strip_def blank_def)
  moreover have "strip ''h'' = ''h''" by (simp add: strip_def blank_def)
  ultimately show ?thesis
    using usage_entry_sealed [OF sample_build sample_payload] sha_empty_world by simp
qed

lemma upsert_entry_succeeds:
  assumes "idle w" and "upsert_usage_row e (committed w) = Inr t" and "outbox_ok (committed w)" and "fresh_event_id w"
  shows "\<exists>w'. upsert_entry e w = (Inr (JObj [(''usage_ledger_entry'', dump_usage_entry e), (''entry_hash'', JStr (ule_entry_hash e))]), w')"
proof -
  have "event_outbox t = event_outbox (committed w)" using assms(2) by (auto simp: upsert_usage_row_def fk_check_def split: if_splits)
  moreover from this have "outbox_ok t" using assms(3) by (simp add: outbox_ok_def)
  ultimately obtain w' where "change_with_event (upsert_usage_row e)
       (outbox_event ''tokenbank.ledger'' ''usage_ledger_entry.recorded''
          (''usage_ledger_entries/'' @ ule_usage_ledger_entry_id e) (usage_event_body e)
          (Some (ule_run_id e)) (Some (ule_work_unit_id e)) None None) w = (Inr (), w')"
    using change_with_event_succeeds [of w "upsert_usage_row e" t] assms by blast
  then show ?thesis by (simp add: upsert_entry_def run_seq)
qed

lemma record_succeeds:
  assumes "completed_context i w = (Inr cx, w)" and "load_routebook_v1_dir (plat w) dir files = Inr rb"
    and "v1_routebook_id repr rb = Inr rid" and "v1_version repr rb = Inr ver"
    and "\<And>now. build_usage_entry (plat w) now cx acct rid ver = Inr (e now)"
    and "\<And>now. \<exists>t. upsert_usage_row (e now) (committed w) = Inr t"
    and "idle w" and "outbox_ok (committed w)" and "fresh_event_id w"
  shows "\<exists>out w' now w0. record_for_work_unit repr files i acct dir w = (Inr out, w') \<and> upsert_entry (e now) w0 = (Inr out, w') \<and>
    idle w0 \<and> committed w0 = committed w \<and> plat w0 = plat w \<and> uuid_draws w0 = uuid_draws w"
proof -
  let ?w = "w\<lparr>clock_draws := Suc (clock_draws w)\<rparr>" and ?now = "utc_text (utc_clock (plat w) (clock_draws w))"
  have w: "idle ?w" "outbox_ok (committed ?w)" "fresh_event_id ?w" using assms(7-9) by (simp_all add: idle_def fresh_event_id_def)
  obtain t where "upsert_usage_row (e ?now) (committed ?w) = Inr t" using assms(6) by auto
  from upsert_entry_succeeds [OF w(1) this w(2,3)] obtain out w' where run: "upsert_entry (e ?now) ?w = (Inr out, w')" by blast
  then have "record_for_work_unit repr files i acct dir w = (Inr out, w')"
    using assms(1-5) by (simp add: record_for_work_unit_def run_bnd)
  with run w(1) show ?thesis by (intro exI [of _ out] exI [of _ w'] exI [of _ ?now] exI [of _ ?w]) simp
qed

lemma sample_upsert: "\<exists>t. upsert_usage_row (sample_entry now) t0 = Inr t" if "same_sources completed_tables t0"
  using that
  by (simp add: upsert_usage_row_def fk_check_def has_row_def sample_entry_def opt_reference_def same_sources_def
      completed_tables_def completed_row_defs)

lemma sample_record:
  assumes "idle w" and "same_sources completed_tables (committed w)" and "plat w = plat empty_world" and "outbox_ok (committed w)"
    and "fresh_event_id w"
  shows "\<exists>out w' now w0. record_for_work_unit repr sample_yaml ''wu_1'' None dir w = (Inr out, w') \<and>
    upsert_entry (sample_entry now) w0 = (Inr out, w') \<and> idle w0 \<and> committed w0 = committed w \<and> plat w0 = plat w \<and>
    uuid_draws w0 = uuid_draws w"
proof -
  obtain rb where rb: "load_routebook_v1_dir (plat w) dir sample_yaml = Inr rb" "v1_routebook_id repr rb = Inr ''tb''"
    "v1_version repr rb = Inr ''1''" using sample_routebook_v1 by blast
  have "current w = committed w" using assms(1) by (simp add: idle_def)
  then have "fst (completed_context ''wu_1'' w) = fst (completed_context ''wu_1'' completed_world)"
    using assms(2) by (intro completed_context_cong) (simp_all add: same_sources_def)
  then have "completed_context ''wu_1'' w = (Inr completed_context_value, w)"
    using sample_context completed_context_pure [of "''wu_1''" w] by (metis fst_conv surjective_pairing)
  from record_succeeds [OF this rb, of None sample_entry] show ?thesis
    using sample_build sample_upsert [OF assms(2)] assms by simp
qed

theorem usage_recorded_once_witness:
  "\<exists>out1 w1 out2 w2. record_for_work_unit (\<lambda>_. []) sample_yaml ''wu_1'' None ''d'' completed_world = (Inr out1, w1) \<and>
     record_for_work_unit (\<lambda>_. []) sample_yaml ''wu_1'' None ''d'' w1 = (Inr out2, w2) \<and>
     length (usage_ledger_entries (committed w2)) = 1"
proof -
  have same: "same_sources completed_tables (committed completed_world)" by (simp add: same_sources_def)
  have draws: "uuid_draws completed_world = 0" by (simp add: completed_world_def empty_world_def)
  obtain out1 w1 now w0 where 1: "record_for_work_unit (\<lambda>_. []) sample_yaml ''wu_1'' None ''d'' completed_world = (Inr out1, w1)"
    "upsert_entry (sample_entry now) w0 = (Inr out1, w1)" "idle w0" "committed w0 = completed_tables" "plat w0 = plat empty_world"
    "uuid_draws w0 = 0"
    using sample_record [of completed_world "\<lambda>_. []" "''d''"] same draws by auto
  have pk: "pk_unique ulr_id (usage_ledger_entries (committed w0))" by (simp add: 1(4) pk_unique_def)
  note stored = upsert_entry_ok [OF 1(3) pk 1(2)]
  have run: "change_with_event (upsert_usage_row (sample_entry now)) (outbox_event ''tokenbank.ledger'' ''usage_ledger_entry.recorded''
        (''usage_ledger_entries/'' @ ule_usage_ledger_entry_id (sample_entry now)) (usage_event_body (sample_entry now))
        (Some (ule_run_id (sample_entry now))) (Some (ule_work_unit_id (sample_entry now))) None None) w0 = (Inr (), w1)"
    using 1(2) by (auto simp: upsert_entry_def seq_ok_iff)
  have ok: "outbox_ok (committed w1)"
    by (rule change_with_event_outbox_ok [OF 1(3) run])
      (auto simp: 1(4) upsert_usage_row_def fk_check_def outbox_ok_def completed_tables_def empty_tables_def pk_unique_def
        split: if_splits)
  have "uuid_draws w1 = 2" "map ev_id (event_outbox (committed w1)) = [''evt_u'']"
    using change_with_event_ok [OF 1(3) run] 1(4-6)
    by (auto simp: upsert_usage_row_def fk_check_def completed_tables_def empty_tables_def empty_world_def split: if_splits)
  then have fresh: "fresh_event_id w1"
    using stored 1(5) by (auto simp: fresh_event_id_def idle_def empty_world_def numeral_3_eq_3)
  obtain out2 w2 where 2: "record_for_work_unit (\<lambda>_. []) sample_yaml ''wu_1'' None ''d'' w1 = (Inr out2, w2)"
    using sample_record [of w1 "\<lambda>_. []" "''d''"] stored 1(4,5) ok fresh by fastforce
  have "pk_unique ulr_id (usage_ledger_entries (committed completed_world))" by (simp add: pk_unique_def)
  from usage_recorded_once [OF completed_world_simps(1) this 1(1) 2]
  have "length (usage_ledger_entries (committed w2)) = length (usage_ledger_entries (committed w1))"
    using length_map by metis
  moreover have "map ulr_id (usage_ledger_entries (committed w1)) = [''ule_h'']"
    using stored 1(4) by (simp add: has_row_def sample_entry_def)
  then have "length (usage_ledger_entries (committed w1)) = 1" by (metis length_map length_Cons list.size(3) One_nat_def)
  ultimately show ?thesis using 1(1) 2 by auto
qed

end
