(* ===== verification/Receipts.thy ===== *)
theory Receipts
  imports Ledger_Sample
begin

text \<open>
  Audit receipts (\<open>src/tokenbank/audit/receipts.py\<close>, \<open>models/audit_receipt.py\<close>): for an accepted result, a
  receipt holds the hashes of the work unit, route plan, assignment, result, verifier report and usage entry, its
  own seal, and the seal of the receipt before it.
\<close>

section \<open>Receipts\<close>

record audit_receipt =
  rcp_audit_receipt_id :: string
  rcp_work_unit_id :: string
  rcp_run_id :: string
  rcp_route_plan_id :: string
  rcp_assignment_id :: string
  rcp_result_envelope_id :: string
  rcp_verifier_report_id :: string
  rcp_usage_ledger_entry_id :: "string option"
  rcp_routebook_id :: string
  rcp_routebook_version :: string
  rcp_status :: string
  rcp_work_unit_hash :: string
  rcp_route_plan_hash :: string
  rcp_assignment_hash :: string
  rcp_result_hash :: string
  rcp_result_envelope_hash :: string
  rcp_verifier_report_hash :: string
  rcp_usage_ledger_entry_hash :: "string option"
  rcp_previous_receipt_hash :: "string option"
  rcp_receipt_hash :: string
  rcp_created_at :: string

definition receipt_reason_codes :: json where
  "receipt_reason_codes =
     JList [JStr ''hash_chain_work_unit_to_verifier_report'', JStr ''raw_input_output_and_credentials_excluded'']"

text \<open>The sealed fields in the order of the payload, and the dumped receipt.\<close>

definition receipt_payload :: "audit_receipt \<Rightarrow> fields" where
  "receipt_payload r =
     [(''audit_receipt_id'', JStr (rcp_audit_receipt_id r)), (''work_unit_id'', JStr (rcp_work_unit_id r)),
      (''run_id'', JStr (rcp_run_id r)), (''route_plan_id'', JStr (rcp_route_plan_id r)),
      (''assignment_id'', JStr (rcp_assignment_id r)), (''result_envelope_id'', JStr (rcp_result_envelope_id r)),
      (''verifier_report_id'', JStr (rcp_verifier_report_id r)),
      (''usage_ledger_entry_id'', str_opt (rcp_usage_ledger_entry_id r)), (''routebook_id'', JStr (rcp_routebook_id r)),
      (''routebook_version'', JStr (rcp_routebook_version r)), (''status'', JStr (rcp_status r)),
      (''work_unit_hash'', JStr (rcp_work_unit_hash r)), (''route_plan_hash'', JStr (rcp_route_plan_hash r)),
      (''assignment_hash'', JStr (rcp_assignment_hash r)), (''result_hash'', JStr (rcp_result_hash r)),
      (''result_envelope_hash'', JStr (rcp_result_envelope_hash r)),
      (''verifier_report_hash'', JStr (rcp_verifier_report_hash r)),
      (''usage_ledger_entry_hash'', str_opt (rcp_usage_ledger_entry_hash r)), (''task_analysis_hash'', JNull),
      (''task_profile_hash'', JNull), (''previous_receipt_hash'', str_opt (rcp_previous_receipt_hash r)),
      (''redaction_profile'', JStr ''ids_and_hashes_only''), (''reason_codes'', receipt_reason_codes)]"

definition dump_audit_receipt :: "audit_receipt \<Rightarrow> json" where
  "dump_audit_receipt r = JObj (schema_version # take 21 (receipt_payload r) @
     [(''receipt_hash'', JStr (rcp_receipt_hash r))] @ drop 21 (receipt_payload r) @
     [(''created_at'', JStr (rcp_created_at r))])"

definition make_audit_receipt :: "fields \<Rightarrow> string \<Rightarrow> string \<Rightarrow> audit_receipt result" where
  "make_audit_receipt payload receipt_hash now =
     (let fld = dget_or JNull payload in
      bind_result (text_of (fld ''audit_receipt_id'')) (\<lambda>receipt_id.
      bind_result (text_of (fld ''work_unit_id'')) (\<lambda>work_unit_id.
      bind_result (text_of (fld ''run_id'')) (\<lambda>run_id.
      bind_result (text_of (fld ''route_plan_id'')) (\<lambda>route_plan_id.
      bind_result (text_of (fld ''assignment_id'')) (\<lambda>assignment_id.
      bind_result (text_of (fld ''result_envelope_id'')) (\<lambda>result_envelope_id.
      bind_result (text_of (fld ''verifier_report_id'')) (\<lambda>verifier_report_id.
      bind_result (opt_text_of (fld ''usage_ledger_entry_id'')) (\<lambda>usage_id.
      bind_result (text_of (fld ''routebook_id'')) (\<lambda>routebook_id.
      bind_result (text_of (fld ''routebook_version'')) (\<lambda>routebook_version.
      bind_result (text_of (fld ''status'')) (\<lambda>status.
      bind_result (text_of (fld ''work_unit_hash'')) (\<lambda>work_unit_hash.
      bind_result (text_of (fld ''route_plan_hash'')) (\<lambda>route_plan_hash.
      bind_result (text_of (fld ''assignment_hash'')) (\<lambda>assignment_hash.
      bind_result (text_of (fld ''result_hash'')) (\<lambda>result_hash.
      bind_result (text_of (fld ''result_envelope_hash'')) (\<lambda>envelope_hash.
      bind_result (text_of (fld ''verifier_report_hash'')) (\<lambda>report_hash.
      bind_result (opt_text_of (fld ''usage_ledger_entry_hash'')) (\<lambda>usage_hash.
      bind_result (opt_text_of (fld ''previous_receipt_hash'')) (\<lambda>previous.
      bind_result (non_empty_str receipt_hash) (\<lambda>seal.
      Inr \<lparr>rcp_audit_receipt_id = receipt_id, rcp_work_unit_id = work_unit_id, rcp_run_id = run_id,
           rcp_route_plan_id = route_plan_id, rcp_assignment_id = assignment_id,
           rcp_result_envelope_id = result_envelope_id, rcp_verifier_report_id = verifier_report_id,
           rcp_usage_ledger_entry_id = usage_id, rcp_routebook_id = routebook_id,
           rcp_routebook_version = routebook_version, rcp_status = status, rcp_work_unit_hash = work_unit_hash,
           rcp_route_plan_hash = route_plan_hash, rcp_assignment_hash = assignment_hash,
           rcp_result_hash = result_hash, rcp_result_envelope_hash = envelope_hash,
           rcp_verifier_report_hash = report_hash, rcp_usage_ledger_entry_hash = usage_hash,
           rcp_previous_receipt_hash = previous, rcp_receipt_hash = seal, rcp_created_at = now\<rparr>
      )))))))))))))))))))))"

section \<open>Context\<close>

record audit_context =
  ax_work_unit_body :: fields
  ax_route_body :: fields
  ax_assignment_body :: fields
  ax_result_row :: result_row
  ax_result_body :: fields
  ax_verifier_body :: fields

definition accepted_recommendations :: "json list" where
  "accepted_recommendations = [JStr ''accept'', JStr ''accept_with_warning'']"

definition accepted_context :: "string \<Rightarrow> audit_context op" where
  "accepted_context work_unit_id =
     bnd (select (\<lambda>t. t)) (\<lambda>t.
     bnd (required_row (find_row wu_id (work_units t) work_unit_id) (''work_unit not found: '' @ work_unit_id)) (\<lambda>wu.
     bnd (required_row (succeeded_result t work_unit_id) (''succeeded result not found for work_unit: '' @ work_unit_id)) (\<lambda>res.
     bnd (required_row (latest_verifier_report t (res_id res)) (''verifier report not found for work_unit: '' @ work_unit_id)) (\<lambda>vr.
     bnd (of_result (as_dict (vrr_body vr))) (\<lambda>verifier_body.
     seq (require (hashable (dget_or JNull verifier_body ''recommendation'')) (TypeError ''unhashable type''))
     (seq (require (dget_or JNull verifier_body ''recommendation'' \<in> set accepted_recommendations)
        (ValueError ''audit receipt requires verifier recommendation accept or accept_with_warning''))
     (bnd (required_row (latest_route_plan t work_unit_id) (''route_plan not found for work_unit: '' @ work_unit_id)) (\<lambda>rp.
     bnd (required_row (find_row asg_id (assignments t) (res_assignment_id res))
        (''assignment not found for work_unit: '' @ work_unit_id)) (\<lambda>asg.
     bnd (of_result (as_dict (wu_body wu))) (\<lambda>work_unit_body.
     bnd (of_result (as_dict (rp_body rp))) (\<lambda>route_body.
     bnd (of_result (as_dict (asg_body asg))) (\<lambda>assignment_body.
     bnd (of_result (as_dict (res_body res))) (\<lambda>result_body.
     ret \<lparr>ax_work_unit_body = work_unit_body, ax_route_body = route_body, ax_assignment_body = assignment_body,
          ax_result_row = res, ax_result_body = result_body, ax_verifier_body = verifier_body\<rparr>)))))))))))))"

text \<open>The field \<open>usage_ledger_entry\<close> of a response of the ledger.\<close>

definition usage_body_of :: "json \<Rightarrow> fields result" where
  "usage_body_of response =
     bind_result (as_dict response) (\<lambda>d. bind_result (item d ''usage_ledger_entry'') as_dict)"

definition ensure_usage_entry ::
  "(json \<Rightarrow> string) \<Rightarrow> yaml_dir \<Rightarrow> string \<Rightarrow> string option \<Rightarrow> string option \<Rightarrow> string \<Rightarrow> json op" where
  "ensure_usage_entry repr files work_unit_id usage_ledger_entry_id account_snapshot_id dir =
     (case usage_ledger_entry_id of
        Some i \<Rightarrow> bnd (get_entry i) (\<lambda>entry. required_row entry (''usage ledger entry not found: '' @ i))
      | None \<Rightarrow>
          bnd (list_entries (Some work_unit_id) None) (\<lambda>entries.
          case entries of
            [] \<Rightarrow> record_for_work_unit repr files work_unit_id account_snapshot_id dir
          | latest # _ \<Rightarrow>
              bnd (of_result (usage_body_of latest)) (\<lambda>body.
              if account_snapshot_id = None \<or> dget_or JNull body ''account_snapshot_id'' = str_opt account_snapshot_id
              then ret latest
              else record_for_work_unit repr files work_unit_id account_snapshot_id dir)))"

section \<open>Building and storing\<close>

definition receipt_id :: "platform \<Rightarrow> json \<Rightarrow> json \<Rightarrow> string" where
  "receipt_id p result_envelope_id usage_ledger_entry_id =
     ''ar_'' @ take 24 (canonical_json_hash (sha256 p) (float_repr p)
       (JObj [(''result_envelope_id'', result_envelope_id), (''usage_ledger_entry_id'', usage_ledger_entry_id)]))"

definition receipt_payload_of ::
  "platform \<Rightarrow> audit_context \<Rightarrow> fields \<Rightarrow> string option \<Rightarrow> string \<Rightarrow> string \<Rightarrow> fields result" where
  "receipt_payload_of p cx usage_body previous routebook_id routebook_version =
     (let h = (\<lambda>d. JStr (canonical_json_hash (sha256 p) (float_repr p) (JObj d))) in
      bind_result (item (ax_result_body cx) ''result_envelope_id'') (\<lambda>result_envelope_id.
      bind_result (item usage_body ''usage_ledger_entry_id'') (\<lambda>usage_id.
      bind_result (item (ax_verifier_body cx) ''recommendation'') (\<lambda>recommendation.
      bind_result (item (ax_work_unit_body cx) ''work_unit_id'') (\<lambda>work_unit_id.
      bind_result (item (ax_work_unit_body cx) ''run_id'') (\<lambda>run_id.
      bind_result (item (ax_route_body cx) ''route_plan_id'') (\<lambda>route_plan_id.
      bind_result (item (ax_assignment_body cx) ''assignment_id'') (\<lambda>assignment_id.
      bind_result (item (ax_verifier_body cx) ''verifier_report_id'') (\<lambda>verifier_report_id.
      bind_result (item (ax_result_body cx) ''result_hash'') (\<lambda>result_hash.
      bind_result (item usage_body ''entry_hash'') (\<lambda>usage_hash.
      Inr [(''audit_receipt_id'', JStr (receipt_id p result_envelope_id usage_id)),
           (''work_unit_id'', work_unit_id), (''run_id'', run_id), (''route_plan_id'', route_plan_id),
           (''assignment_id'', assignment_id), (''result_envelope_id'', result_envelope_id),
           (''verifier_report_id'', verifier_report_id), (''usage_ledger_entry_id'', usage_id),
           (''routebook_id'', JStr routebook_id), (''routebook_version'', JStr routebook_version),
           (''status'', JStr (if recommendation = JStr ''accept'' then ''accepted'' else ''accepted_with_warning'')),
           (''work_unit_hash'', h (ax_work_unit_body cx)), (''route_plan_hash'', h (ax_route_body cx)),
           (''assignment_hash'', h (ax_assignment_body cx)), (''result_hash'', result_hash),
           (''result_envelope_hash'', h (ax_result_body cx)), (''verifier_report_hash'', h (ax_verifier_body cx)),
           (''usage_ledger_entry_hash'', usage_hash), (''task_analysis_hash'', JNull), (''task_profile_hash'', JNull),
           (''previous_receipt_hash'', str_opt previous), (''redaction_profile'', JStr ''ids_and_hashes_only''),
           (''reason_codes'', receipt_reason_codes)])))))))))))"

definition build_receipt ::
  "platform \<Rightarrow> string \<Rightarrow> audit_context \<Rightarrow> fields \<Rightarrow> string option \<Rightarrow> string \<Rightarrow> string \<Rightarrow> audit_receipt result" where
  "build_receipt p now cx usage_body previous routebook_id routebook_version =
     bind_result (receipt_payload_of p cx usage_body previous routebook_id routebook_version) (\<lambda>payload.
     make_audit_receipt payload (canonical_json_hash (sha256 p) (float_repr p) (JObj payload)) now)"

definition receipt_row_of :: "audit_receipt \<Rightarrow> audit_receipt_row" where
  "receipt_row_of r =
     \<lparr>arr_id = rcp_audit_receipt_id r, arr_work_unit_id = rcp_work_unit_id r, arr_run_id = rcp_run_id r,
      arr_route_plan_id = rcp_route_plan_id r, arr_result_envelope_id = rcp_result_envelope_id r,
      arr_verifier_report_id = rcp_verifier_report_id r, arr_usage_ledger_entry_id = rcp_usage_ledger_entry_id r,
      arr_receipt_hash = rcp_receipt_hash r, arr_previous_receipt_hash = rcp_previous_receipt_hash r,
      arr_body = canonical (dump_audit_receipt r), arr_created_at = rcp_created_at r\<rparr>"

definition insert_receipt_row :: "audit_receipt \<Rightarrow> tables \<Rightarrow> tables result" where
  "insert_receipt_row r t =
     bind_result (insert_row arr_id (receipt_row_of r) (audit_receipts t)) (\<lambda>rows.
     if rcp_receipt_hash r \<in> arr_receipt_hash ` set (audit_receipts t)
     then Inl (IntegrityError ''UNIQUE constraint failed'')
     else fk_check
       (has_row wu_id (work_units t) (rcp_work_unit_id r) \<and> has_row rp_id (route_plans t) (rcp_route_plan_id r) \<and>
        has_row res_id (result_envelopes t) (rcp_result_envelope_id r) \<and>
        has_row vrr_id (verifier_reports t) (rcp_verifier_report_id r) \<and>
        opt_reference (has_row ulr_id (usage_ledger_entries t)) (rcp_usage_ledger_entry_id r))
       (t\<lparr>audit_receipts := rows\<rparr>))"

definition receipt_event_body :: "audit_receipt \<Rightarrow> json" where
  "receipt_event_body r = JObj
     [(''audit_receipt_id'', JStr (rcp_audit_receipt_id r)), (''work_unit_id'', JStr (rcp_work_unit_id r)),
      (''run_id'', JStr (rcp_run_id r)), (''route_plan_id'', JStr (rcp_route_plan_id r)),
      (''result_envelope_id'', JStr (rcp_result_envelope_id r)), (''verifier_report_id'', JStr (rcp_verifier_report_id r)),
      (''usage_ledger_entry_id'', str_opt (rcp_usage_ledger_entry_id r)), (''receipt_hash'', JStr (rcp_receipt_hash r)),
      (''previous_receipt_hash'', str_opt (rcp_previous_receipt_hash r)),
      (''redaction_profile'', JStr ''ids_and_hashes_only'')]"

definition insert_receipt :: "audit_receipt \<Rightarrow> json op" where
  "insert_receipt r =
     seq (change_with_event (insert_receipt_row r)
       (outbox_event ''tokenbank.audit'' ''audit_receipt.created'' (''audit_receipts/'' @ rcp_audit_receipt_id r)
          (receipt_event_body r) (Some (rcp_run_id r)) (Some (rcp_work_unit_id r)) None (Some (rcp_assignment_id r))))
     (ret (JObj [(''audit_receipt'', dump_audit_receipt r), (''receipt_hash'', JStr (rcp_receipt_hash r))]))"

definition receipt_response :: "audit_receipt_row \<Rightarrow> json" where
  "receipt_response r = JObj
     [(''audit_receipt'', arr_body r), (''receipt_hash'', JStr (arr_receipt_hash r)), (''created_at'', JStr (arr_created_at r))]"

definition get_receipt :: "string \<Rightarrow> json option op" where
  "get_receipt i = select (\<lambda>t. map_option receipt_response (find_row arr_id (audit_receipts t) i))"

definition list_receipts :: "string option \<Rightarrow> string option \<Rightarrow> json list op" where
  "list_receipts work_unit_id run_id =
     select (\<lambda>t. map receipt_response (sort_desc arr_created_at (sort_key arr_id
       (filter (\<lambda>r. wanted work_unit_id (arr_work_unit_id r) \<and> wanted run_id (arr_run_id r)) (audit_receipts t)))))"

definition previous_receipt_hash :: "string \<Rightarrow> string option op" where
  "previous_receipt_hash result_envelope_id =
     select (\<lambda>t. map_option arr_receipt_hash
       (newest arr_created_at (filter (\<lambda>r. arr_result_envelope_id r \<noteq> result_envelope_id) (audit_receipts t))))"

definition issue_receipt ::
  "(json \<Rightarrow> string) \<Rightarrow> yaml_dir \<Rightarrow> string \<Rightarrow> audit_context \<Rightarrow> json \<Rightarrow> json op" where
  "issue_receipt repr files dir cx usage_entry =
     bnd (gets plat) (\<lambda>p.
     bnd (of_result (load_routebook_v1_dir p dir files)) (\<lambda>rb.
     bnd (of_result (usage_body_of usage_entry)) (\<lambda>usage_body.
     bnd (of_result (item usage_body ''usage_ledger_entry_id'')) (\<lambda>usage_id.
     bnd (get_receipt (receipt_id p (JStr (res_id (ax_result_row cx))) usage_id)) (\<lambda>existing.
     case existing of
       Some receipt \<Rightarrow> ret receipt
     | None \<Rightarrow>
         bnd (previous_receipt_hash (res_id (ax_result_row cx))) (\<lambda>previous.
         bnd (of_result (v1_routebook_id repr rb)) (\<lambda>routebook_id.
         bnd (of_result (v1_version repr rb)) (\<lambda>routebook_version.
         bnd utc_text_now (\<lambda>now.
         bnd (of_result (build_receipt p now cx usage_body previous routebook_id routebook_version))
           insert_receipt)))))))))"

definition create_for_work_unit ::
  "(json \<Rightarrow> string) \<Rightarrow> yaml_dir \<Rightarrow> string \<Rightarrow> string option \<Rightarrow> string option \<Rightarrow> string \<Rightarrow> json op" where
  "create_for_work_unit repr files work_unit_id usage_ledger_entry_id account_snapshot_id dir =
     bnd (accepted_context work_unit_id) (\<lambda>cx.
     bnd (ensure_usage_entry repr files work_unit_id usage_ledger_entry_id account_snapshot_id dir) (\<lambda>usage_entry.
     issue_receipt repr files dir cx usage_entry))"

section \<open>What a receipt commits to\<close>

definition digest :: "platform \<Rightarrow> json \<Rightarrow> string" where
  "digest p v = canonical_json_hash (sha256 p) (float_repr p) v"

text \<open>\<open>hexdigest()\<close> returns a text without blanks.\<close>

definition hex_digest :: "platform \<Rightarrow> bool" where
  "hex_digest p \<longleftrightarrow> (\<forall>x. sha256 p x \<noteq> [] \<and> list_all (\<lambda>c. \<not> blank c) (sha256 p x))"

lemma strip_no_blank: "list_all (\<lambda>c. \<not> blank c) s \<Longrightarrow> strip s = s"
proof -
  have "dropWhile blank t = t" if "list_all (\<lambda>c. \<not> blank c) t" for t
    using that by (cases t) simp_all
  then show "list_all (\<lambda>c. \<not> blank c) s \<Longrightarrow> strip s = s" by (simp add: strip_def list_all_rev)
qed

lemma digest_text: "hex_digest p \<Longrightarrow> text_of (JStr (digest p v)) = Inr (digest p v)"
  by (simp add: hex_digest_def digest_def canonical_json_hash_def non_empty_str_def strip_no_blank)

lemma make_audit_receipt_fields:
  assumes "make_audit_receipt payload h now = Inr r"
  shows "text_of (dget_or JNull payload ''audit_receipt_id'') = Inr (rcp_audit_receipt_id r)"
    "text_of (dget_or JNull payload ''work_unit_id'') = Inr (rcp_work_unit_id r)"
    "text_of (dget_or JNull payload ''run_id'') = Inr (rcp_run_id r)"
    "text_of (dget_or JNull payload ''route_plan_id'') = Inr (rcp_route_plan_id r)"
    "text_of (dget_or JNull payload ''assignment_id'') = Inr (rcp_assignment_id r)"
    "text_of (dget_or JNull payload ''result_envelope_id'') = Inr (rcp_result_envelope_id r)"
    "text_of (dget_or JNull payload ''verifier_report_id'') = Inr (rcp_verifier_report_id r)"
    "opt_text_of (dget_or JNull payload ''usage_ledger_entry_id'') = Inr (rcp_usage_ledger_entry_id r)"
    "text_of (dget_or JNull payload ''routebook_id'') = Inr (rcp_routebook_id r)"
    "text_of (dget_or JNull payload ''routebook_version'') = Inr (rcp_routebook_version r)"
    "text_of (dget_or JNull payload ''status'') = Inr (rcp_status r)"
    "text_of (dget_or JNull payload ''work_unit_hash'') = Inr (rcp_work_unit_hash r)"
    "text_of (dget_or JNull payload ''route_plan_hash'') = Inr (rcp_route_plan_hash r)"
    "text_of (dget_or JNull payload ''assignment_hash'') = Inr (rcp_assignment_hash r)"
    "text_of (dget_or JNull payload ''result_hash'') = Inr (rcp_result_hash r)"
    "text_of (dget_or JNull payload ''result_envelope_hash'') = Inr (rcp_result_envelope_hash r)"
    "text_of (dget_or JNull payload ''verifier_report_hash'') = Inr (rcp_verifier_report_hash r)"
    "opt_text_of (dget_or JNull payload ''usage_ledger_entry_hash'') = Inr (rcp_usage_ledger_entry_hash r)"
    "opt_text_of (dget_or JNull payload ''previous_receipt_hash'') = Inr (rcp_previous_receipt_hash r)"
    "non_empty_str h = Inr (rcp_receipt_hash r)"
  using assms unfolding make_audit_receipt_def Let_def by auto

definition context_of :: "tables \<Rightarrow> string \<Rightarrow> audit_context \<Rightarrow> bool" where
  "context_of t i cx \<longleftrightarrow>
     (\<exists>wu vr rp asg. find_row wu_id (work_units t) i = Some wu \<and> succeeded_result t i = Some (ax_result_row cx) \<and>
        latest_verifier_report t (res_id (ax_result_row cx)) = Some vr \<and> latest_route_plan t i = Some rp \<and>
        find_row asg_id (assignments t) (res_assignment_id (ax_result_row cx)) = Some asg \<and>
        wu_body wu = JObj (ax_work_unit_body cx) \<and> rp_body rp = JObj (ax_route_body cx) \<and>
        asg_body asg = JObj (ax_assignment_body cx) \<and> res_body (ax_result_row cx) = JObj (ax_result_body cx) \<and>
        vrr_body vr = JObj (ax_verifier_body cx) \<and>
        dget_or JNull (ax_verifier_body cx) ''recommendation'' \<in> {JStr ''accept'', JStr ''accept_with_warning''})"

lemma as_dict_ok [simp]: "as_dict v = Inr d \<longleftrightarrow> v = JObj d"
  by (cases v) auto

lemma required_row_ok [simp]: "required_row row m w = (Inr r, w') \<longleftrightarrow> row = Some r \<and> w' = w"
  by (auto simp: required_row_def split: option.splits)

lemma accepted_context_ok:
  "accepted_context i w = (Inr cx, w') \<Longrightarrow> w' = w \<and> context_of (current w) i cx"
  by (auto simp: accepted_context_def bnd_ok_iff seq_ok_iff run_select context_of_def accepted_recommendations_def
      split: if_splits)

definition receipt_commits :: "platform \<Rightarrow> tables \<Rightarrow> string \<Rightarrow> audit_receipt \<Rightarrow> bool" where
  "receipt_commits p t i rc \<longleftrightarrow>
     (\<exists>cx. context_of t i cx \<and>
        rcp_status rc = (if dget_or JNull (ax_verifier_body cx) ''recommendation'' = JStr ''accept''
                         then ''accepted'' else ''accepted_with_warning'') \<and>
        rcp_work_unit_hash rc = digest p (JObj (ax_work_unit_body cx)) \<and>
        rcp_route_plan_hash rc = digest p (JObj (ax_route_body cx)) \<and>
        rcp_assignment_hash rc = digest p (JObj (ax_assignment_body cx)) \<and>
        rcp_result_envelope_hash rc = digest p (JObj (ax_result_body cx)) \<and>
        rcp_verifier_report_hash rc = digest p (JObj (ax_verifier_body cx)) \<and>
        rcp_previous_receipt_hash rc = map_option (\<lambda>r. strip (arr_receipt_hash r))
          (newest arr_created_at (filter (\<lambda>r. arr_result_envelope_id r \<noteq> res_id (ax_result_row cx)) (audit_receipts t))))"

lemma item_ok [simp]: "item d k = Inr v \<longleftrightarrow> dget d k = Some v"
  by (simp split: option.splits)

lemma receipt_payload_of_fields:
  assumes "receipt_payload_of p cx usage previous rid ver = Inr payload"
  shows "dget_or JNull payload ''work_unit_hash'' = JStr (digest p (JObj (ax_work_unit_body cx)))"
    "dget_or JNull payload ''route_plan_hash'' = JStr (digest p (JObj (ax_route_body cx)))"
    "dget_or JNull payload ''assignment_hash'' = JStr (digest p (JObj (ax_assignment_body cx)))"
    "dget_or JNull payload ''result_envelope_hash'' = JStr (digest p (JObj (ax_result_body cx)))"
    "dget_or JNull payload ''verifier_report_hash'' = JStr (digest p (JObj (ax_verifier_body cx)))"
    "dget_or JNull payload ''previous_receipt_hash'' = str_opt previous"
    "dget_or JNull payload ''status'' = JStr (if dget_or JNull (ax_verifier_body cx) ''recommendation'' = JStr ''accept''
       then ''accepted'' else ''accepted_with_warning'')"
    "\<exists>rid uid. dget (ax_result_body cx) ''result_envelope_id'' = Some rid \<and> dget usage ''usage_ledger_entry_id'' = Some uid \<and>
       dget_or JNull payload ''audit_receipt_id'' = JStr (receipt_id p rid uid)"
  using assms
  by (auto simp: receipt_payload_of_def Let_def dget_or_def digest_def simp del: item.simps)

lemma status_text: "text_of (JStr (if b then ''accepted'' else ''accepted_with_warning'')) =
    Inr (if b then ''accepted'' else ''accepted_with_warning'')"
  by (simp add: non_empty_str_def strip_def blank_def)

lemma opt_text_of_str_opt: "opt_text_of (str_opt x) = Inr y \<Longrightarrow> y = map_option strip x"
  by (cases x) (auto simp: non_empty_str_ok)

lemma build_receipt_commits:
  assumes "hex_digest p" and "build_receipt p now cx usage previous rid ver = Inr rc" and "context_of t i cx"
    and "previous = map_option arr_receipt_hash
      (newest arr_created_at (filter (\<lambda>r. arr_result_envelope_id r \<noteq> res_id (ax_result_row cx)) (audit_receipts t)))"
  shows "receipt_commits p t i rc"
proof -
  obtain payload where payload: "receipt_payload_of p cx usage previous rid ver = Inr payload"
    and rc: "make_audit_receipt payload (digest p (JObj payload)) now = Inr rc"
    using assms(2) by (auto simp: build_receipt_def digest_def)
  note fields = make_audit_receipt_fields [OF rc] and vals = receipt_payload_of_fields [OF payload]
  have "rcp_previous_receipt_hash rc = map_option strip previous"
    using fields(19) unfolding vals(6) by (rule opt_text_of_str_opt)
  moreover have "rcp_work_unit_hash rc = digest p (JObj (ax_work_unit_body cx))"
    "rcp_route_plan_hash rc = digest p (JObj (ax_route_body cx))"
    "rcp_assignment_hash rc = digest p (JObj (ax_assignment_body cx))"
    "rcp_result_envelope_hash rc = digest p (JObj (ax_result_body cx))"
    "rcp_verifier_report_hash rc = digest p (JObj (ax_verifier_body cx))"
    using fields(12-17) unfolding vals digest_text [OF assms(1)] by simp_all
  moreover have "rcp_status rc = (if dget_or JNull (ax_verifier_body cx) ''recommendation'' = JStr ''accept''
      then ''accepted'' else ''accepted_with_warning'')"
    using fields(11) unfolding vals status_text by simp
  ultimately show ?thesis
    unfolding receipt_commits_def using assms(3,4) by (intro exI [of _ cx]) (simp add: option.map_comp comp_def)
qed

lemma ensure_usage_entry_ok:
  assumes "idle w" and "pk_unique ulr_id (usage_ledger_entries (committed w))"
    and "ensure_usage_entry repr files i u acct dir w = (Inr entry, w')"
  shows "idle w' \<and> plat w' = plat w \<and> same_sources (committed w) (committed w')"
proof -
  have recorded: "idle w' \<and> plat w' = plat w \<and> same_sources (committed w) (committed w')"
    if run: "record_for_work_unit repr files i acct dir w = (Inr entry, w')"
  proof -
    obtain e v where v: "upsert_entry e v = (Inr entry, w')" "idle v" "committed v = committed w" "plat v = plat w"
      using record_for_work_unit_ok [OF assms(1) run] by metis
    then have "pk_unique ulr_id (usage_ledger_entries (committed v))" using assms(2) by simp
    from upsert_entry_ok [OF v(2) this v(1)] v show ?thesis by simp
  qed
  have "same_sources t t" for t by (simp add: same_sources_def)
  then show ?thesis
    using assms(1,3) recorded
    by (auto simp: ensure_usage_entry_def bnd_ok_iff get_entry_def list_entries_def run_select
        split: option.splits list.splits if_splits)
qed

lemma insert_receipt_ok:
  assumes "idle w" and "insert_receipt rc w = (Inr out, w')"
  shows "audit_receipts (committed w') = audit_receipts (committed w) @ [receipt_row_of rc] \<and> idle w' \<and> plat w' = plat w \<and>
    out = JObj [(''audit_receipt'', dump_audit_receipt rc), (''receipt_hash'', JStr (rcp_receipt_hash rc))] \<and>
    rcp_receipt_hash rc \<notin> arr_receipt_hash ` set (audit_receipts (committed w)) \<and>
    rcp_audit_receipt_id rc \<notin> arr_id ` set (audit_receipts (committed w)) \<and>
    usage_ledger_entries (committed w') = usage_ledger_entries (committed w) \<and>
    same_sources (committed w) ((committed w')\<lparr>audit_receipts := audit_receipts (committed w)\<rparr>)"
proof -
  have run: "change_with_event (insert_receipt_row rc)
       (outbox_event ''tokenbank.audit'' ''audit_receipt.created'' (''audit_receipts/'' @ rcp_audit_receipt_id rc)
          (receipt_event_body rc) (Some (rcp_run_id rc)) (Some (rcp_work_unit_id rc)) None (Some (rcp_assignment_id rc))) w
       = (Inr (), w')"
    and out: "out = JObj [(''audit_receipt'', dump_audit_receipt rc), (''receipt_hash'', JStr (rcp_receipt_hash rc))]"
    using assms(2) by (auto simp: insert_receipt_def seq_ok_iff)
  obtain t r where t: "insert_receipt_row rc (committed w) = Inr t" "committed w' = t\<lparr>event_outbox := event_outbox t @ [r]\<rparr>"
    "idle w'" "plat w' = plat w"
    using change_with_event_ok [OF assms(1) run] by blast
  have t': "t = (committed w)\<lparr>audit_receipts := audit_receipts (committed w) @ [receipt_row_of rc]\<rparr>"
    "rcp_receipt_hash rc \<notin> arr_receipt_hash ` set (audit_receipts (committed w))"
    "rcp_audit_receipt_id rc \<notin> arr_id ` set (audit_receipts (committed w))"
    using t(1) by (auto simp: insert_receipt_row_def insert_row_def fk_check_def receipt_row_of_def split: if_splits)
  then show ?thesis using t(2-4) out by (simp add: same_sources_def)
qed

lemma context_of_cong: "same_sources t t' \<Longrightarrow> context_of t' i cx = context_of t i cx"
  by (simp add: context_of_def same_sources_def succeeded_result_def latest_route_plan_def latest_verifier_report_def)

lemma receipt_commits_cong: "same_sources t t' \<Longrightarrow> receipt_commits p t' i rc = receipt_commits p t i rc"
  using context_of_cong [of t t' i] by (simp add: receipt_commits_def same_sources_def)

lemma issue_receipt_ok:
  assumes "idle w" and "hex_digest (plat w)" and "context_of (committed w) i cx"
    and "issue_receipt repr files dir cx entry w = (Inr out, w')"
  shows "(\<exists>r \<in> set (audit_receipts (committed w)). out = receipt_response r \<and>
        audit_receipts (committed w') = audit_receipts (committed w)) \<or>
     (\<exists>rc. audit_receipts (committed w') = audit_receipts (committed w) @ [receipt_row_of rc] \<and>
        receipt_commits (plat w) (committed w) i rc \<and>
        rcp_receipt_hash rc \<notin> arr_receipt_hash ` set (audit_receipts (committed w)) \<and>
        rcp_audit_receipt_id rc \<notin> arr_id ` set (audit_receipts (committed w)) \<and>
        out = JObj [(''audit_receipt'', dump_audit_receipt rc), (''receipt_hash'', JStr (rcp_receipt_hash rc))])"
proof -
  have tables: "current w = committed w" using assms(1) by (simp add: idle_def)
  let ?previous = "map_option arr_receipt_hash (newest arr_created_at
      (filter (\<lambda>r. arr_result_envelope_id r \<noteq> res_id (ax_result_row cx)) (audit_receipts (committed w))))"
  consider r where "r \<in> set (audit_receipts (committed w))" "out = receipt_response r" "w' = w"
    | ub rid ver now rc where "build_receipt (plat w) now cx ub ?previous rid ver = Inr rc"
      "insert_receipt rc (w\<lparr>clock_draws := Suc (clock_draws w)\<rparr>) = (Inr out, w')"
    using assms(4) tables
    by (fastforce simp: issue_receipt_def bnd_ok_iff get_receipt_def previous_receipt_hash_def run_select
        dest: find_row_SomeD split: option.splits simp del: item.simps)
  then show ?thesis
  proof cases
    case (2 ub rid ver now rc)
    have "idle (w\<lparr>clock_draws := Suc (clock_draws w)\<rparr>)" using assms(1) by (simp add: idle_def)
    from insert_receipt_ok [OF this 2(2)] build_receipt_commits [OF assms(2) 2(1) assms(3) refl] show ?thesis by auto
  qed auto
qed

text \<open>C36. A receipt is issued only for an accepted result and commits to everything it names. Whenever a receipt
  is returned, the newest verifier report of the newest successful result of the work unit recommends acceptance.
  Either the receipt was stored before and no receipt is added, or exactly one is appended: it holds the hashes of
  the stored work unit, route plan, assignment, result envelope and verifier report, the status that the
  recommendation calls for, and the seal of the newest receipt of another result; its own seal and identifier are new.\<close>

theorem receipt_commits_to_rows:
  assumes "idle w" and "pk_unique ulr_id (usage_ledger_entries (committed w))" and "hex_digest (plat w)"
    and "create_for_work_unit repr files i u acct dir w = (Inr out, w')"
  shows "(\<exists>cx. context_of (committed w) i cx) \<and>
    ((\<exists>r \<in> set (audit_receipts (committed w)). out = receipt_response r \<and>
        audit_receipts (committed w') = audit_receipts (committed w)) \<or>
     (\<exists>rc. audit_receipts (committed w') = audit_receipts (committed w) @ [receipt_row_of rc] \<and>
        receipt_commits (plat w) (committed w) i rc \<and>
        rcp_receipt_hash rc \<notin> arr_receipt_hash ` set (audit_receipts (committed w)) \<and>
        rcp_audit_receipt_id rc \<notin> arr_id ` set (audit_receipts (committed w)) \<and>
        out = JObj [(''audit_receipt'', dump_audit_receipt rc), (''receipt_hash'', JStr (rcp_receipt_hash rc))]))"
proof -
  obtain cx entry w1 where cx: "accepted_context i w = (Inr cx, w)" "context_of (current w) i cx"
    and entry: "ensure_usage_entry repr files i u acct dir w = (Inr entry, w1)"
    and run: "issue_receipt repr files dir cx entry w1 = (Inr out, w')"
    using assms(4) accepted_context_ok by (fastforce simp: create_for_work_unit_def bnd_ok_iff)
  have w1: "idle w1" "plat w1 = plat w" "same_sources (committed w) (committed w1)"
    using ensure_usage_entry_ok [OF assms(1,2) entry] by auto
  have ctx: "context_of (committed w) i cx" using cx(2) assms(1) by (simp add: idle_def)
  then have context1: "context_of (committed w1) i cx" using context_of_cong [OF w1(3)] by simp
  have receipts: "audit_receipts (committed w1) = audit_receipts (committed w)" using w1(3) by (simp add: same_sources_def)
  show ?thesis
    using issue_receipt_ok [OF w1(1) _ context1 run] assms(3) w1(2) receipts receipt_commits_cong [OF w1(3)] ctx
    by auto
qed

section \<open>The seal of a receipt\<close>

lemma receipt_payload_fields:
  assumes "make_audit_receipt payload h now = Inr rc" and "trimmed (JObj payload)"
  shows "map (\<lambda>k. (k, dget_or JNull payload k)) (map fst (receipt_payload rc)) =
    receipt_payload rc \<longleftrightarrow> dget_or JNull payload ''task_analysis_hash'' = JNull \<and>
      dget_or JNull payload ''task_profile_hash'' = JNull \<and>
      dget_or JNull payload ''redaction_profile'' = JStr ''ids_and_hashes_only'' \<and>
      dget_or JNull payload ''reason_codes'' = receipt_reason_codes"
proof -
  note fields = make_audit_receipt_fields [OF assms(1)]
  note texts = fields(1-7,9-17) [THEN text_of_trimmed, OF trimmed_field_or [OF assms(2)]]
  note opts = fields(8,18,19) [THEN opt_text_of_trimmed, OF trimmed_field_or [OF assms(2)]]
  show ?thesis unfolding receipt_payload_def by (simp add: texts opts)
qed

lemma receipt_payload_of_keys:
  assumes "receipt_payload_of p cx usage previous rid ver = Inr payload"
  shows "map fst payload = map fst (receipt_payload rc)" and "map (\<lambda>k. (k, dget_or JNull payload k)) (map fst payload) = payload"
    and "dget_or JNull payload ''task_analysis_hash'' = JNull" "dget_or JNull payload ''task_profile_hash'' = JNull"
      "dget_or JNull payload ''redaction_profile'' = JStr ''ids_and_hashes_only''"
      "dget_or JNull payload ''reason_codes'' = receipt_reason_codes"
  using assms by (auto simp: receipt_payload_of_def Let_def receipt_payload_def dget_or_def simp del: item.simps)

text \<open>The seal of a receipt can be checked from the receipt alone: hashing its fields other than the seal and
  the creation time gives the seal, whatever their order.\<close>

theorem receipt_sealed:
  assumes "hex_digest p" and "build_receipt p now cx usage previous rid ver = Inr rc"
    and "receipt_payload_of p cx usage previous rid ver = Inr payload" and "trimmed (JObj payload)"
    and "mset kvs = mset (receipt_payload rc)"
  shows "rcp_receipt_hash rc = digest p (JObj kvs)"
proof -
  have rc: "make_audit_receipt payload (digest p (JObj payload)) now = Inr rc"
    using assms(2,3) by (auto simp: build_receipt_def digest_def)
  have same: "receipt_payload rc = payload"
    using receipt_payload_fields [OF rc assms(4)] receipt_payload_of_keys(3-6) [OF assms(3)]
      receipt_payload_of_keys(1) [OF assms(3), of rc] receipt_payload_of_keys(2) [OF assms(3)] by simp
  have "rcp_receipt_hash rc = digest p (JObj payload)"
    using make_audit_receipt_fields(20) [OF rc] assms(1)
    by (simp add: non_empty_str_ok strip_no_blank hex_digest_def digest_def canonical_json_hash_def)
  moreover have "canonical_json_dumps (float_repr p) (JObj kvs) = canonical_json_dumps (float_repr p) (JObj payload)"
  proof -
    have "distinct (map fst payload)" using receipt_payload_of_keys(1) [OF assms(3), of rc] by (simp add: receipt_payload_def)
    then show ?thesis using dumps_perm [of payload kvs "float_repr p"] assms(5) same by simp
  qed
  ultimately show ?thesis by (simp add: digest_def canonical_json_hash_def)
qed

section \<open>Issued once\<close>

lemma receipt_id_text: "hex_digest p \<Longrightarrow> text_of (JStr (receipt_id p a b)) = Inr (receipt_id p a b)"
proof -
  assume hex: "hex_digest p"
  have "list_all (\<lambda>c. \<not> blank c) (receipt_id p a b)"
    using hex by (auto simp: receipt_id_def hex_digest_def canonical_json_hash_def list_all_iff blank_def dest!: in_set_takeD)
  then show ?thesis by (simp add: non_empty_str_def strip_no_blank) (simp add: receipt_id_def)
qed

text \<open>A call with a usage entry: where the entry and the receipt are looked up.\<close>

lemma create_with_entry:
  assumes "idle w" and "create_for_work_unit repr files i (Some u) acct dir w = (Inr out, w')"
  obtains cx ur ub uid rb where "context_of (committed w) i cx" "find_row ulr_id (usage_ledger_entries (committed w)) u = Some ur"
    "ulr_body ur = JObj ub" "dget ub ''usage_ledger_entry_id'' = Some uid" "load_routebook_v1_dir (plat w) dir files = Inr rb"
    "(\<exists>r. find_row arr_id (audit_receipts (committed w)) (receipt_id (plat w) (JStr (res_id (ax_result_row cx))) uid) = Some r \<and>
        out = receipt_response r \<and> w' = w) \<or>
     (\<exists>now previous rid ver rc. find_row arr_id (audit_receipts (committed w)) (receipt_id (plat w) (JStr (res_id (ax_result_row cx))) uid) = None \<and>
        build_receipt (plat w) now cx ub previous rid ver = Inr rc \<and>
        insert_receipt rc (w\<lparr>clock_draws := Suc (clock_draws w)\<rparr>) = (Inr out, w'))"
proof -
  obtain cx entry w1 where cx: "context_of (current w) i cx"
    and entry: "ensure_usage_entry repr files i (Some u) acct dir w = (Inr entry, w1)"
    and run: "issue_receipt repr files dir cx entry w1 = (Inr out, w')"
    using assms(2) accepted_context_ok by (fastforce simp: create_for_work_unit_def bnd_ok_iff)
  have tables: "current w = committed w" using assms(1) by (simp add: idle_def)
  obtain ur where ur: "find_row ulr_id (usage_ledger_entries (committed w)) u = Some ur" "entry = usage_response ur" "w1 = w"
    using entry tables by (auto simp: ensure_usage_entry_def bnd_ok_iff get_entry_def run_select)
  obtain ub uid rb where ub: "ulr_body ur = JObj ub" "dget ub ''usage_ledger_entry_id'' = Some uid"
    "load_routebook_v1_dir (plat w) dir files = Inr rb"
    using run ur(2,3) by (auto simp: issue_receipt_def bnd_ok_iff usage_body_of_def usage_response_def simp del: item.simps)
  show thesis
  proof (cases "find_row arr_id (audit_receipts (committed w)) (receipt_id (plat w) (JStr (res_id (ax_result_row cx))) uid)")
    case (Some r)
    then have "out = receipt_response r \<and> w' = w"
      using run ur ub tables by (auto simp: issue_receipt_def bnd_ok_iff usage_body_of_def usage_response_def get_receipt_def run_select)
    then show thesis using that [OF _ ur(1) ub] cx tables Some by auto
  next
    case None
    then have "\<exists>now previous rid ver rc. build_receipt (plat w) now cx ub previous rid ver = Inr rc \<and>
        insert_receipt rc (w\<lparr>clock_draws := Suc (clock_draws w)\<rparr>) = (Inr out, w')"
      using run ur ub tables
      by (fastforce simp: issue_receipt_def bnd_ok_iff usage_body_of_def usage_response_def get_receipt_def run_select
          previous_receipt_hash_def)
    then show thesis using that [OF _ ur(1) ub] cx tables None by auto
  qed
qed

lemma accepted_context_run:
  assumes "context_of (current w) i cx"
  shows "accepted_context i w = (Inr cx, w)"
proof -
  have "hashable (JStr x)" for x by simp
  then show ?thesis using assms
    by (auto simp: accepted_context_def context_of_def run_bnd run_seq run_select run_required_row accepted_recommendations_def)
qed

lemma create_existing:
  assumes "idle w" and "context_of (committed w) i cx" and "find_row ulr_id (usage_ledger_entries (committed w)) u = Some ur"
    and "ulr_body ur = JObj ub" and "dget ub ''usage_ledger_entry_id'' = Some uid" and "load_routebook_v1_dir (plat w) dir files = Inr rb"
    and "find_row arr_id (audit_receipts (committed w)) (receipt_id (plat w) (JStr (res_id (ax_result_row cx))) uid) = Some r"
  shows "create_for_work_unit repr files i (Some u) acct dir w = (Inr (receipt_response r), w)"
proof -
  have tables: "current w = committed w" using assms(1) by (simp add: idle_def)
  have "accepted_context i w = (Inr cx, w)" using accepted_context_run assms(2) tables by simp
  moreover have "ensure_usage_entry repr files i (Some u) acct dir w = (Inr (usage_response ur), w)"
    using assms(3) tables by (simp add: ensure_usage_entry_def run_bnd get_entry_def run_select run_required_row)
  moreover have "issue_receipt repr files dir cx (usage_response ur) w = (Inr (receipt_response r), w)"
    using assms(4-7) tables
    by (simp add: issue_receipt_def run_bnd usage_body_of_def usage_response_def get_receipt_def run_select)
  ultimately show ?thesis by (simp add: create_for_work_unit_def run_bnd)
qed

text \<open>A receipt is issued once. After a call that returned, asking again for the receipt of the same work unit
  and usage entry returns the receipt of the first call and writes nothing, provided that the result's document carries
  the identifier of its row and digests are hexadecimal texts.\<close>

theorem receipt_issued_once:
  assumes "idle w" and "hex_digest (plat w)"
    and "\<And>cx. context_of (committed w) i cx \<Longrightarrow> dget (ax_result_body cx) ''result_envelope_id'' = Some (JStr (res_id (ax_result_row cx)))"
    and "create_for_work_unit repr files i (Some u) acct dir w = (Inr out, w')"
  shows "\<exists>r \<in> set (audit_receipts (committed w')).
    create_for_work_unit repr files i (Some u) acct dir w' = (Inr (receipt_response r), w') \<and>
    (out = receipt_response r \<and> w' = w \<or> audit_receipts (committed w') = audit_receipts (committed w) @ [r])"
proof -
  obtain cx ur ub uid rb where 1: "context_of (committed w) i cx" "find_row ulr_id (usage_ledger_entries (committed w)) u = Some ur"
    "ulr_body ur = JObj ub" "dget ub ''usage_ledger_entry_id'' = Some uid" "load_routebook_v1_dir (plat w) dir files = Inr rb"
    and first:
    "(\<exists>r. find_row arr_id (audit_receipts (committed w)) (receipt_id (plat w) (JStr (res_id (ax_result_row cx))) uid) = Some r \<and>
        out = receipt_response r \<and> w' = w) \<or>
     (\<exists>now previous rid ver rc. find_row arr_id (audit_receipts (committed w)) (receipt_id (plat w) (JStr (res_id (ax_result_row cx))) uid) = None \<and>
        build_receipt (plat w) now cx ub previous rid ver = Inr rc \<and>
        insert_receipt rc (w\<lparr>clock_draws := Suc (clock_draws w)\<rparr>) = (Inr out, w'))"
    using create_with_entry [OF assms(1,4)] by metis
  show ?thesis using first
  proof (elim disjE exE conjE)
    fix r
    assume r: "find_row arr_id (audit_receipts (committed w)) (receipt_id (plat w) (JStr (res_id (ax_result_row cx))) uid) = Some r"
      "out = receipt_response r" "w' = w"
    then show ?thesis using create_existing [OF assms(1) 1 r(1)] find_row_SomeD [OF r(1)] by auto
  next
    fix now previous rid ver rc
    assume absent: "find_row arr_id (audit_receipts (committed w)) (receipt_id (plat w) (JStr (res_id (ax_result_row cx))) uid) = None"
      and rc: "build_receipt (plat w) now cx ub previous rid ver = Inr rc"
      and ins: "insert_receipt rc (w\<lparr>clock_draws := Suc (clock_draws w)\<rparr>) = (Inr out, w')"
    have "idle (w\<lparr>clock_draws := Suc (clock_draws w)\<rparr>)" using assms(1) by (simp add: idle_def)
    note added = insert_receipt_ok [OF this ins]
    obtain payload where payload: "receipt_payload_of (plat w) cx ub previous rid ver = Inr payload"
      and mk: "make_audit_receipt payload (digest (plat w) (JObj payload)) now = Inr rc"
      using rc by (auto simp: build_receipt_def digest_def)
    have "rcp_audit_receipt_id rc = receipt_id (plat w) (JStr (res_id (ax_result_row cx))) uid"
      using receipt_payload_of_fields(8) [OF payload] make_audit_receipt_fields(1) [OF mk] receipt_id_text [OF assms(2)]
        assms(3) [OF 1(1)] 1(4) by auto
    then have found: "find_row arr_id (audit_receipts (committed w')) (receipt_id (plat w') (JStr (res_id (ax_result_row cx))) uid) =
        Some (receipt_row_of rc)"
      using added absent by (simp add: find_row_append receipt_row_of_def)
    have ctx: "context_of (committed w') i cx"
      using added 1(1) context_of_cong [of "committed w" "(committed w')\<lparr>audit_receipts := audit_receipts (committed w)\<rparr>" i cx]
      by (simp add: context_of_def succeeded_result_def latest_route_plan_def latest_verifier_report_def)
    have "create_for_work_unit repr files i (Some u) acct dir w' = (Inr (receipt_response (receipt_row_of rc)), w')"
      by (rule create_existing [OF _ ctx _ 1(3,4) _ found]) (use added 1 in simp_all)
    then show ?thesis using added by auto
  qed
qed

section \<open>Receipts on the sample database\<close>

definition sample_audit_context :: audit_context where
  "sample_audit_context =
     \<lparr>ax_work_unit_body = [(''work_unit_id'', JStr ''wu_1''), (''run_id'', JStr ''run_1'')],
      ax_route_body = [(''route_plan_id'', JStr ''rp_1'')], ax_assignment_body = [(''assignment_id'', JStr ''asg_1'')],
      ax_result_row = completed_result, ax_result_body = completed_body,
      ax_verifier_body = [(''verifier_report_id'', JStr ''vr_1''), (''recommendation'', JStr ''accept'')]\<rparr>"

definition sample_receipt :: "string \<Rightarrow> audit_receipt" where
  "sample_receipt now =
     \<lparr>rcp_audit_receipt_id = ''ar_h'', rcp_work_unit_id = ''wu_1'', rcp_run_id = ''run_1'', rcp_route_plan_id = ''rp_1'',
      rcp_assignment_id = ''asg_1'', rcp_result_envelope_id = ''res_1'', rcp_verifier_report_id = ''vr_1'',
      rcp_usage_ledger_entry_id = Some ''ule_h'', rcp_routebook_id = ''tb'', rcp_routebook_version = ''1'',
      rcp_status = ''accepted'', rcp_work_unit_hash = ''h'', rcp_route_plan_hash = ''h'', rcp_assignment_hash = ''h'',
      rcp_result_hash = ''rh'', rcp_result_envelope_hash = ''h'', rcp_verifier_report_hash = ''h'',
      rcp_usage_ledger_entry_hash = Some ''h'', rcp_previous_receipt_hash = None, rcp_receipt_hash = ''h'',
      rcp_created_at = now\<rparr>"

definition recorded_tables :: tables where
  "recorded_tables = completed_tables\<lparr>usage_ledger_entries := [usage_row_of (sample_entry ''t'')]\<rparr>"

definition recorded_world :: world where
  "recorded_world = completed_world\<lparr>committed := recorded_tables, current := recorded_tables\<rparr>"

abbreviation sample_usage :: fields where
  "sample_usage \<equiv> [(''usage_ledger_entry_id'', JStr ''ule_h''), (''entry_hash'', JStr ''h'')]"

lemma sample_hex: "hex_digest (plat empty_world)"
  by (simp add: hex_digest_def sha_empty_world blank_def)

lemma sample_receipt_payload:
  assumes "dget usage ''usage_ledger_entry_id'' = Some (JStr ''ule_h'')" and "dget usage ''entry_hash'' = Some (JStr ''h'')"
  shows "receipt_payload_of (plat empty_world) sample_audit_context usage None ''tb'' ''1'' = Inr (receipt_payload (sample_receipt now))"
  using assms
  by (simp add: receipt_payload_of_def Let_def sample_audit_context_def canonical_json_hash_def sha_empty_world receipt_id_def
      receipt_payload_def sample_receipt_def)

lemma sample_receipt_build:
  assumes "dget usage ''usage_ledger_entry_id'' = Some (JStr ''ule_h'')" and "dget usage ''entry_hash'' = Some (JStr ''h'')"
  shows "build_receipt (plat empty_world) now sample_audit_context usage None ''tb'' ''1'' = Inr (sample_receipt now)"
  unfolding build_receipt_def sample_receipt_payload [OF assms, of now]
  by (simp add: canonical_json_hash_def sha_empty_world make_audit_receipt_def receipt_payload_def sample_receipt_def dget_or_def
      non_empty_str_def strip_def blank_def)

theorem receipt_sealed_witness:
  "rcp_receipt_hash (sample_receipt ''t'') = digest (plat empty_world) (JObj (rev (receipt_payload (sample_receipt ''t''))))"
proof -
  have "trimmed (JObj (receipt_payload (sample_receipt ''t'')))"
    by (simp add: trimmed_def receipt_payload_def sample_receipt_def receipt_reason_codes_def strip_def blank_def)
  from receipt_sealed [OF sample_hex sample_receipt_build [of sample_usage] sample_receipt_payload [of sample_usage] this,
    of "rev (receipt_payload (sample_receipt ''t''))"]
  show ?thesis by simp
qed

lemma recorded_world_simps [simp]:
  "idle recorded_world" "committed recorded_world = recorded_tables" "current recorded_world = recorded_tables"
  "plat recorded_world = plat empty_world" "fresh_event_id recorded_world" "audit_receipts recorded_tables = []"
  "usage_ledger_entries recorded_tables = [usage_row_of (sample_entry ''t'')]" "outbox_ok recorded_tables"
  "event_outbox recorded_tables = []"
  by (simp_all add: recorded_world_def recorded_tables_def idle_def completed_world_def fresh_event_id_def completed_tables_def
      empty_tables_def outbox_ok_def pk_unique_def)

lemma context_of_unique: "context_of t i cx \<Longrightarrow> context_of t i cx' \<Longrightarrow> cx = cx'"
  by (auto simp: context_of_def intro: audit_context.equality)

lemma recorded_context: "context_of recorded_tables ''wu_1'' sample_audit_context"
  by (simp add: context_of_def recorded_tables_def completed_tables_def completed_row_defs find_row_def succeeded_result_def
      latest_route_plan_def latest_verifier_report_def sample_audit_context_def dget_or_def)

lemma recorded_usage_body:
  obtains ub where "canonical (dump_usage_entry (sample_entry now)) = JObj ub"
    "dget ub ''usage_ledger_entry_id'' = Some (JStr ''ule_h'')" "dget ub ''entry_hash'' = Some (JStr ''h'')"
  by (rule that, simp add: dump_usage_entry_def) (simp_all add: entry_payload_def sample_entry_def)

lemma insert_receipt_succeeds:
  assumes "idle w" and "insert_receipt_row rc (committed w) = Inr t" and "outbox_ok (committed w)" and "fresh_event_id w"
  shows "\<exists>out w'. insert_receipt rc w = (Inr out, w')"
proof -
  have "event_outbox t = event_outbox (committed w)"
    using assms(2) by (auto simp: insert_receipt_row_def fk_check_def split: if_splits)
  moreover from this have "outbox_ok t" using assms(3) by (simp add: outbox_ok_def)
  ultimately obtain w' where "change_with_event (insert_receipt_row rc)
       (outbox_event ''tokenbank.audit'' ''audit_receipt.created'' (''audit_receipts/'' @ rcp_audit_receipt_id rc)
          (receipt_event_body rc) (Some (rcp_run_id rc)) (Some (rcp_work_unit_id rc)) None (Some (rcp_assignment_id rc))) w = (Inr (), w')"
    using change_with_event_succeeds [of w "insert_receipt_row rc" t] assms by blast
  then show ?thesis by (simp add: insert_receipt_def run_seq)
qed

lemma sample_insert_row: "\<exists>t. insert_receipt_row (sample_receipt now) recorded_tables = Inr t"
  by (simp add: insert_receipt_row_def insert_row_def fk_check_def has_row_def opt_reference_def usage_row_of_def sample_entry_def)
    (simp add: has_row_def sample_receipt_def recorded_tables_def completed_tables_def completed_row_defs)

lemma sample_create:
  "\<exists>out w'. create_for_work_unit repr sample_yaml ''wu_1'' (Some ''ule_h'') acct dir recorded_world = (Inr out, w')"
proof -
  let ?w = "recorded_world\<lparr>clock_draws := Suc (clock_draws recorded_world)\<rparr>"
    and ?now = "utc_text (utc_clock (plat recorded_world) (clock_draws recorded_world))"
  have w: "idle ?w" "outbox_ok (committed ?w)" "fresh_event_id ?w" "committed ?w = recorded_tables"
    using recorded_world_simps(1,5) by (simp_all add: idle_def fresh_event_id_def)
  obtain t where "insert_receipt_row (sample_receipt ?now) (committed ?w) = Inr t" using sample_insert_row w(4) by auto
  from insert_receipt_succeeds [OF w(1) this w(2,3)]
  obtain out w' where ins: "insert_receipt (sample_receipt ?now) ?w = (Inr out, w')" by blast
  obtain rb where rb: "load_routebook_v1_dir (plat empty_world) dir sample_yaml = Inr rb" "v1_routebook_id repr rb = Inr ''tb''"
    "v1_version repr rb = Inr ''1''" using sample_routebook_v1 by blast
  obtain ub where ub: "ulr_body (usage_row_of (sample_entry ''t'')) = JObj ub"
    "dget ub ''usage_ledger_entry_id'' = Some (JStr ''ule_h'')" "dget ub ''entry_hash'' = Some (JStr ''h'')"
    using recorded_usage_body [of "''t''"] by (metis usage_row_of_def usage_ledger_row.select_convs(12))
  have ctx: "accepted_context ''wu_1'' recorded_world = (Inr sample_audit_context, recorded_world)"
    using accepted_context_run recorded_context by simp
  have usage: "ensure_usage_entry repr sample_yaml ''wu_1'' (Some ''ule_h'') acct dir recorded_world =
      (Inr (usage_response (usage_row_of (sample_entry ''t''))), recorded_world)"
    by (simp add: ensure_usage_entry_def run_bnd get_entry_def run_select run_required_row find_row_def)
      (simp add: usage_row_of_def sample_entry_def)
  have "issue_receipt repr sample_yaml dir sample_audit_context (usage_response (usage_row_of (sample_entry ''t''))) recorded_world =
      (Inr out, w')"
    using rb ub ins sample_receipt_build [OF ub(2,3)]
    by (simp add: issue_receipt_def run_bnd usage_body_of_def usage_response_def get_receipt_def run_select find_row_def
        previous_receipt_hash_def newest_def sort_desc_def)
  then show ?thesis using ctx usage by (simp add: create_for_work_unit_def run_bnd)
qed

theorem receipt_commits_to_rows_witness:
  "\<exists>out w'. create_for_work_unit (\<lambda>_. []) sample_yaml ''wu_1'' (Some ''ule_h'') None ''d'' recorded_world = (Inr out, w') \<and>
     length (audit_receipts (committed w')) = 1"
proof -
  obtain out w' where run: "create_for_work_unit (\<lambda>_. []) sample_yaml ''wu_1'' (Some ''ule_h'') None ''d'' recorded_world = (Inr out, w')"
    using sample_create by blast
  have pk: "pk_unique ulr_id (usage_ledger_entries (committed recorded_world))" by (simp add: pk_unique_def)
  show ?thesis using receipt_commits_to_rows [OF recorded_world_simps(1) pk _ run] sample_hex run by auto
qed

theorem receipt_issued_once_witness:
  "\<exists>out w' out'. create_for_work_unit (\<lambda>_. []) sample_yaml ''wu_1'' (Some ''ule_h'') None ''d'' recorded_world = (Inr out, w') \<and>
     create_for_work_unit (\<lambda>_. []) sample_yaml ''wu_1'' (Some ''ule_h'') None ''d'' w' = (Inr out', w')"
proof -
  obtain out w' where run: "create_for_work_unit (\<lambda>_. []) sample_yaml ''wu_1'' (Some ''ule_h'') None ''d'' recorded_world = (Inr out, w')"
    using sample_create by blast
  have ids: "dget (ax_result_body cx) ''result_envelope_id'' = Some (JStr (res_id (ax_result_row cx)))"
    if "context_of (committed recorded_world) ''wu_1'' cx" for cx
    using context_of_unique [OF recorded_context, of cx] that by (auto simp: sample_audit_context_def completed_result_def)
  show ?thesis using receipt_issued_once [OF recorded_world_simps(1) _ ids run] sample_hex run by auto
qed

end
