(* ===== verification/Capacity.thy ===== *)
theory Capacity
  imports Policy Transactions
begin

text \<open>
  The capacity registry (\<open>src/tokenbank/capacity/registry.py\<close>, \<open>capacity/validators.py\<close>,
  \<open>capacity/discovery.py\<close>): worker and backend manifests are validated as pairs and projected into
  the \<open>capacity_nodes\<close> table in one transaction.
\<close>

section \<open>Manifests and nodes\<close>

record worker_manifest =
  wkm_worker_id :: string
  wkm_identity :: string
  wkm_capabilities :: "string list"
  wkm_allowed_task_types :: "string list"
  wkm_allowed_data_labels :: "string list"
  wkm_allowed_privacy_levels :: "string list"
  wkm_execution_location :: string
  wkm_trust_level :: string
  wkm_backend_ids :: "string list"
  wkm_backend_classes :: "string list"
  wkm_health_status :: string
  wkm_manifest_hash :: "string option"
  wkm_created_at :: string
  wkm_updated_at :: string

record capacity_node_health =
  cnh_capacity_node_id :: string
  cnh_status :: string
  cnh_checked_at :: string
  cnh_latency_ms :: "int option"
  cnh_active_assignments :: int
  cnh_message :: "string option"

record capacity_node =
  nod_capacity_node_id :: string
  nod_node_type :: string
  nod_identity :: string
  nod_capabilities :: "string list"
  nod_trust_level :: string
  nod_allowed_task_types :: "string list"
  nod_allowed_data_labels :: "string list"
  nod_allowed_privacy_levels :: "string list"
  nod_execution_location :: string
  nod_cost_model :: cost_model
  nod_health :: capacity_node_health
  nod_policy_constraints :: fields
  nod_backend_ids :: "string list"
  nod_backend_classes :: "string list"
  nod_backend_id :: "string option"
  nod_worker_id :: "string option"
  nod_provider_id :: "string option"
  nod_model_id :: "string option"
  nod_manifest_hash :: string
  nod_created_at :: string
  nod_updated_at :: string

abbreviation str_list :: "string list \<Rightarrow> json" where
  "str_list xs \<equiv> JList (map JStr xs)"

definition dump_worker_manifest :: "worker_manifest \<Rightarrow> json" where
  "dump_worker_manifest m = JObj
     [schema_version, (''worker_id'', JStr (wkm_worker_id m)), (''identity'', JStr (wkm_identity m)),
      (''capabilities'', str_list (wkm_capabilities m)),
      (''allowed_task_types'', str_list (wkm_allowed_task_types m)),
      (''allowed_data_labels'', str_list (wkm_allowed_data_labels m)),
      (''allowed_privacy_levels'', str_list (wkm_allowed_privacy_levels m)),
      (''execution_location'', JStr (wkm_execution_location m)), (''trust_level'', JStr (wkm_trust_level m)),
      (''backend_ids'', str_list (wkm_backend_ids m)), (''backend_classes'', str_list (wkm_backend_classes m)),
      (''health_status'', JStr (wkm_health_status m)), (''manifest_hash'', str_opt (wkm_manifest_hash m)),
      (''created_at'', JStr (wkm_created_at m)), (''updated_at'', JStr (wkm_updated_at m))]"

definition dump_cost_model :: "cost_model \<Rightarrow> json" where
  "dump_cost_model c = JObj
     [schema_version, (''unit'', JStr (cm_unit c)), (''estimated_cost_micros'', JInt (cm_estimated_cost_micros c)),
      (''cost_source'', JStr (cm_cost_source c))]"

definition dump_capacity_health :: "capacity_node_health \<Rightarrow> json" where
  "dump_capacity_health h = JObj
     [schema_version, (''capacity_node_id'', JStr (cnh_capacity_node_id h)), (''status'', JStr (cnh_status h)),
      (''checked_at'', JStr (cnh_checked_at h)), (''latency_ms'', int_opt (cnh_latency_ms h)),
      (''active_assignments'', JInt (cnh_active_assignments h)), (''message'', str_opt (cnh_message h))]"

definition dump_capacity_node :: "capacity_node \<Rightarrow> json" where
  "dump_capacity_node n = JObj
     [schema_version, (''capacity_node_id'', JStr (nod_capacity_node_id n)), (''node_type'', JStr (nod_node_type n)),
      (''identity'', JStr (nod_identity n)), (''capabilities'', str_list (nod_capabilities n)),
      (''trust_level'', JStr (nod_trust_level n)),
      (''allowed_task_types'', str_list (nod_allowed_task_types n)),
      (''allowed_data_labels'', str_list (nod_allowed_data_labels n)),
      (''allowed_privacy_levels'', str_list (nod_allowed_privacy_levels n)),
      (''execution_location'', JStr (nod_execution_location n)), (''cost_model'', dump_cost_model (nod_cost_model n)),
      (''health'', dump_capacity_health (nod_health n)),
      (''policy_constraints'', JObj (nod_policy_constraints n)), (''backend_ids'', str_list (nod_backend_ids n)),
      (''backend_classes'', str_list (nod_backend_classes n)), (''backend_id'', str_opt (nod_backend_id n)),
      (''worker_id'', str_opt (nod_worker_id n)), (''provider_id'', str_opt (nod_provider_id n)),
      (''model_id'', str_opt (nod_model_id n)), (''manifest_hash'', JStr (nod_manifest_hash n)),
      (''created_at'', JStr (nod_created_at n)), (''updated_at'', JStr (nod_updated_at n))]"

section \<open>Validators\<close>

definition api_gateway_backend_classes :: "string list" where
  "api_gateway_backend_classes = [''api_model_gateway'', ''primary_model_gateway'']"

definition worker_local_backend_classes :: "string list" where
  "worker_local_backend_classes = [''browser_fetch'', ''local_script'', ''local_tool'']"

definition check :: "bool \<Rightarrow> py_error \<Rightarrow> unit result" where
  "check ok e = (if ok then Inr () else Inl e)"

definition validate_backend_execution_location :: "backend_manifest \<Rightarrow> unit result" where
  "validate_backend_execution_location b =
     bind_result (check (\<not> (bm_backend_class b \<in> set api_gateway_backend_classes
          \<and> bm_execution_location b \<noteq> ''mac_control_plane''))
        (CapacityRegistryValidationError ''API gateway backends must execute on mac_control_plane'')) (\<lambda>_.
     check (\<not> (bm_backend_class b \<in> set worker_local_backend_classes
          \<and> bm_execution_location b \<notin> {''local_machine'', ''windows_worker''}))
        (CapacityRegistryValidationError ''worker-local backends must execute on local_machine or windows_worker''))"

definition validate_worker_local_backend :: "worker_manifest \<Rightarrow> backend_manifest \<Rightarrow> unit result" where
  "validate_worker_local_backend w b =
     bind_result (validate_backend_execution_location b) (\<lambda>_.
     if bm_backend_class b \<in> set api_gateway_backend_classes
     then check (wkm_worker_id w = control_plane_gateway_worker_id)
            (CapacityRegistryValidationError ''worker direct API model path is denied'')
     else
     bind_result (check (bm_backend_class b \<in> set worker_local_backend_classes)
        (CapacityRegistryValidationError (''unsupported worker-local backend_class: '' @ bm_backend_class b))) (\<lambda>_.
     bind_result (check (bm_backend_id b \<in> set (wkm_backend_ids w))
        (CapacityRegistryValidationError
          (''worker '' @ wkm_worker_id w @ '' does not allow backend_id '' @ bm_backend_id b))) (\<lambda>_.
     check (bm_backend_class b \<in> set (wkm_backend_classes w))
        (CapacityRegistryValidationError
          (''worker manifest does not allow backend_class '' @ bm_backend_class b)))))"

definition validate_gateway_worker :: "worker_manifest \<Rightarrow> backend_manifest \<Rightarrow> unit result" where
  "validate_gateway_worker w b =
     bind_result (validate_backend_execution_location b) (\<lambda>_.
     bind_result (check (wkm_worker_id w = control_plane_gateway_worker_id)
        (CapacityRegistryValidationError ''API model gateway must resolve to wrk_control_plane_gateway'')) (\<lambda>_.
     bind_result (check (bm_backend_id b \<in> set (wkm_backend_ids w))
        (CapacityRegistryValidationError
          (''control-plane gateway worker manifest is missing backend_id '' @ bm_backend_id b))) (\<lambda>_.
     check (bm_backend_class b \<in> set (wkm_backend_classes w))
        (CapacityRegistryValidationError
          (''control-plane gateway worker manifest is missing backend_class '' @ bm_backend_class b)))))"

text \<open>The dictionary of backends by identifier: a later manifest replaces an earlier one.\<close>

definition backends_by_id :: "backend_manifest list \<Rightarrow> (string \<times> backend_manifest) list" where
  "backends_by_id bs = fold (\<lambda>b d. dput (bm_backend_id b) b d) bs []"

definition validate_pair :: "backend_manifest list \<Rightarrow> worker_manifest \<Rightarrow> string \<Rightarrow> unit result" where
  "validate_pair bs w backend_id =
     (case dget (backends_by_id bs) backend_id of
        None \<Rightarrow> Inl (ValueError
          (''worker '' @ wkm_worker_id w @ '' references unknown backend_id: '' @ backend_id))
      | Some b \<Rightarrow>
          if bm_backend_class b \<in> set api_gateway_backend_classes
          then validate_gateway_worker w b else validate_worker_local_backend w b)"

definition validate_registry_pairing ::
  "worker_manifest list \<Rightarrow> backend_manifest list \<Rightarrow> unit result" where
  "validate_registry_pairing ws bs =
     bind_result (map_result validate_backend_execution_location bs) (\<lambda>_.
     if bs = [] then Inr ()
     else bind_result (map_result (\<lambda>w. map_result (validate_pair bs w) (wkm_backend_ids w)) ws) (\<lambda>_. Inr ()))"

section \<open>Projection\<close>

definition manifest_hash_of :: "worker_manifest \<Rightarrow> string op" where
  "manifest_hash_of m =
     (case wkm_manifest_hash m of
        Some (c # h) \<Rightarrow> ret (c # h)
      | _ \<Rightarrow> gets (\<lambda>w. canonical_json_hash (sha256 (plat w)) (float_repr (plat w)) (dump_worker_manifest m)))"

definition worker_node_id :: "string \<Rightarrow> string" where
  "worker_node_id worker_id = ''capnode:worker:'' @ worker_id"

definition project_worker_manifest :: "worker_manifest \<Rightarrow> capacity_node op" where
  "project_worker_manifest m =
     bnd (manifest_hash_of m) (\<lambda>h.
     bnd utc_text_now (\<lambda>now.
     ret \<lparr>nod_capacity_node_id = worker_node_id (wkm_worker_id m), nod_node_type = ''windows_worker'',
          nod_identity = wkm_identity m, nod_capabilities = wkm_capabilities m,
          nod_trust_level = wkm_trust_level m, nod_allowed_task_types = wkm_allowed_task_types m,
          nod_allowed_data_labels = wkm_allowed_data_labels m,
          nod_allowed_privacy_levels = wkm_allowed_privacy_levels m,
          nod_execution_location = wkm_execution_location m,
          nod_cost_model = \<lparr>cm_unit = ''work_unit'', cm_estimated_cost_micros = 0, cm_cost_source = ''policy_default''\<rparr>,
          nod_health = \<lparr>cnh_capacity_node_id = worker_node_id (wkm_worker_id m), cnh_status = wkm_health_status m,
            cnh_checked_at = now, cnh_latency_ms = None, cnh_active_assignments = 0, cnh_message = None\<rparr>,
          nod_policy_constraints = [], nod_backend_ids = wkm_backend_ids m,
          nod_backend_classes = wkm_backend_classes m, nod_backend_id = None,
          nod_worker_id = Some (wkm_worker_id m), nod_provider_id = None, nod_model_id = None,
          nod_manifest_hash = h, nod_created_at = wkm_created_at m, nod_updated_at = wkm_updated_at m\<rparr>))"

definition execution_locations :: "string list" where
  "execution_locations = [''mac_control_plane'', ''windows_worker'', ''local_machine'']"

definition project_backend_manifest :: "backend_manifest \<Rightarrow> capacity_node op" where
  "project_backend_manifest m =
     bnd utc_text_now (\<lambda>now.
     let st = (case bm_health m of None \<Rightarrow> ''unknown'' | Some h \<Rightarrow> bh_status h);
         checked = (case bm_health m of None \<Rightarrow> now | Some h \<Rightarrow> bh_checked_at h)
     in
     seq (require (bm_execution_location m \<in> set execution_locations)
            (ValueError ''execution_location: Input should be a valid location''))
     (bnd utc_text_now (\<lambda>created.
     bnd utc_text_now (\<lambda>updated.
     ret \<lparr>nod_capacity_node_id = bm_capacity_node_id m, nod_node_type = bm_backend_class m,
          nod_identity = bm_display_name m, nod_capabilities = bm_supported_task_types m,
          nod_trust_level = ''trusted_private'', nod_allowed_task_types = bm_supported_task_types m,
          nod_allowed_data_labels = [], nod_allowed_privacy_levels = bm_allowed_privacy_levels m,
          nod_execution_location = bm_execution_location m, nod_cost_model = bm_cost_model m,
          nod_health = \<lparr>cnh_capacity_node_id = bm_capacity_node_id m, cnh_status = st, cnh_checked_at = checked,
            cnh_latency_ms = None, cnh_active_assignments = 0, cnh_message = None\<rparr>,
          nod_policy_constraints = bm_policy_constraints m, nod_backend_ids = [bm_backend_id m],
          nod_backend_classes = [bm_backend_class m], nod_backend_id = Some (bm_backend_id m),
          nod_worker_id = None, nod_provider_id = None, nod_model_id = None,
          nod_manifest_hash = bm_manifest_hash m, nod_created_at = created, nod_updated_at = updated\<rparr>))))"

fun only_element :: "'a list \<Rightarrow> 'a option" where
  "only_element [x] = Some x"
| "only_element xs = None"

definition capacity_row_of :: "capacity_node \<Rightarrow> capacity_node_row" where
  "capacity_row_of n =
     \<lparr>cn_id = nod_capacity_node_id n, cn_node_type = nod_node_type n, cn_status = cnh_status (nod_health n),
      cn_worker_id = nod_worker_id n, cn_backend_id = only_element (nod_backend_ids n),
      cn_backend_class = only_element (nod_backend_classes n),
      cn_execution_location = nod_execution_location n, cn_trust_level = nod_trust_level n,
      cn_allowed_task_types = nod_allowed_task_types n,
      cn_allowed_privacy_levels = nod_allowed_privacy_levels n,
      cn_allowed_data_labels = nod_allowed_data_labels n, cn_backend_ids = nod_backend_ids n,
      cn_manifest_hash = nod_manifest_hash n,
      cn_health_summary = canonical (dump_capacity_health (nod_health n)),
      cn_body = canonical (dump_capacity_node n), cn_created_at = nod_created_at n,
      cn_updated_at = nod_updated_at n\<rparr>"

definition upsert_capacity_node :: "capacity_node \<Rightarrow> unit op" where
  "upsert_capacity_node n =
     execute (\<lambda>t. Inr (t\<lparr>capacity_nodes := upsert_row cn_id
       (\<lambda>old. (capacity_row_of n)\<lparr>cn_created_at := cn_created_at old\<rparr>) (capacity_row_of n) (capacity_nodes t)\<rparr>))"

definition insert_health_snapshot :: "capacity_node \<Rightarrow> unit op" where
  "insert_health_snapshot n =
     bnd draw_uuid (\<lambda>u.
     bnd utc_text_now (\<lambda>now.
     execute (\<lambda>t.
       bind_result (insert_row chs_id
         \<lparr>chs_id = ''caphealth_'' @ u, chs_capacity_node_id = nod_capacity_node_id n,
          chs_worker_id = nod_worker_id n, chs_backend_id = only_element (nod_backend_ids n),
          chs_status = cnh_status (nod_health n), chs_health = canonical (dump_capacity_health (nod_health n)),
          chs_captured_at = now, chs_body = canonical (dump_capacity_health (nod_health n))\<rparr>
         (capacity_node_health_snapshots t)) (\<lambda>rows.
       fk_check (has_row cn_id (capacity_nodes t) (nod_capacity_node_id n))
         (t\<lparr>capacity_node_health_snapshots := rows\<rparr>)))))"

text \<open>\<open>DELETE ... NOT IN\<close>, with the snapshots of the deleted nodes removed by ON DELETE CASCADE.\<close>

definition delete_other_nodes :: "string list \<Rightarrow> unit op" where
  "delete_other_nodes ids =
     execute (\<lambda>t. Inr (t\<lparr>
       capacity_nodes := filter (\<lambda>r. cn_id r \<in> set ids) (capacity_nodes t),
       capacity_node_health_snapshots :=
         filter (\<lambda>s. \<not> (chs_capacity_node_id s \<in> cn_id ` set (capacity_nodes t) \<and> chs_capacity_node_id s \<notin> set ids))
           (capacity_node_health_snapshots t)\<rparr>))"

fun map_op :: "('a \<Rightarrow> 'b op) \<Rightarrow> 'a list \<Rightarrow> 'b list op" where
  "map_op f [] = ret []"
| "map_op f (x # xs) = bnd (f x) (\<lambda>y. bnd (map_op f xs) (\<lambda>ys. ret (y # ys)))"

text \<open>A manifest is passed as an object or as a dictionary, which is validated first.\<close>

datatype 'a manifest_arg = Dto 'a | Raw json

fun coerce_manifest :: "(json \<Rightarrow> 'a result) \<Rightarrow> 'a manifest_arg \<Rightarrow> 'a result" where
  "coerce_manifest validate (Dto m) = Inr m"
| "coerce_manifest validate (Raw v) = validate v"

definition rebuild_capacity_nodes ::
  "(json \<Rightarrow> worker_manifest result) \<Rightarrow> (json \<Rightarrow> backend_manifest result)
   \<Rightarrow> worker_manifest manifest_arg list \<Rightarrow> backend_manifest manifest_arg list \<Rightarrow> capacity_node list op" where
  "rebuild_capacity_nodes validate_worker validate_backend worker_args backend_args =
     bnd (of_result (map_result (coerce_manifest validate_worker) worker_args)) (\<lambda>ws.
     bnd (of_result (map_result (coerce_manifest validate_backend) backend_args)) (\<lambda>bs.
     seq (of_result (validate_registry_pairing ws bs))
     (bnd (map_op project_worker_manifest ws) (\<lambda>worker_nodes.
     bnd (map_op project_backend_manifest bs) (\<lambda>backend_nodes.
     let nodes = worker_nodes @ backend_nodes in
     seq (transaction
       (seq (delete_other_nodes (map nod_capacity_node_id nodes))
          (for_each (\<lambda>n. seq (upsert_capacity_node n) (insert_health_snapshot n)) nodes)))
     (ret nodes))))))"

section \<open>Discovery\<close>

definition discover_capacity_nodes :: "json list op" where
  "discover_capacity_nodes =
     select (\<lambda>t. map (\<lambda>r. JObj
       [(''capacity_node_id'', JStr (cn_id r)), (''node_type'', JStr (cn_node_type r)),
        (''status'', JStr (cn_status r)), (''task_types'', str_list (cn_allowed_task_types r)),
        (''backend_classes'', str_list (case cn_backend_class r of None \<Rightarrow> [] | Some c \<Rightarrow> [c])),
        (''health'', cn_health_summary r), (''worker_id'', str_opt (cn_worker_id r)),
        (''backend_id'', str_opt (cn_backend_id r)), (''manifest_hash'', JStr (cn_manifest_hash r))])
       (sort_key cn_id (capacity_nodes t)))"

section \<open>Pairing\<close>

lemma check_ok [simp]: "check ok e = Inr x \<longleftrightarrow> ok"
  by (cases x) (simp add: check_def)

lemma bind_ok_iff: "bind_result m f = Inr y \<longleftrightarrow> (\<exists>x. m = Inr x \<and> f x = Inr y)"
  by (cases m) auto

lemma map_result_ok_iff: "(\<exists>ys. map_result f xs = Inr ys) \<longleftrightarrow> (\<forall>x \<in> set xs. \<exists>y. f x = Inr y)"
  by (induction xs) (auto simp: bind_ok_iff)

lemma execution_location_ok:
  "validate_backend_execution_location b = Inr x \<longleftrightarrow>
     (bm_backend_class b \<in> set api_gateway_backend_classes \<longrightarrow> bm_execution_location b = ''mac_control_plane'') \<and>
     (bm_backend_class b \<in> set worker_local_backend_classes \<longrightarrow>
        bm_execution_location b \<in> {''local_machine'', ''windows_worker''})"
  by (cases x) (auto simp: validate_backend_execution_location_def bind_ok_iff)

text \<open>A worker may offer a backend.\<close>

definition may_offer :: "worker_manifest \<Rightarrow> backend_manifest \<Rightarrow> bool" where
  "may_offer w b \<longleftrightarrow>
     (if bm_backend_class b \<in> set api_gateway_backend_classes
      then wkm_worker_id w = control_plane_gateway_worker_id \<and> bm_execution_location b = ''mac_control_plane''
      else bm_backend_class b \<in> set worker_local_backend_classes \<and>
           bm_execution_location b \<in> {''local_machine'', ''windows_worker''}) \<and>
     bm_backend_id b \<in> set (wkm_backend_ids w) \<and> bm_backend_class b \<in> set (wkm_backend_classes w)"

lemma local_not_gateway:
  "c \<in> set api_gateway_backend_classes \<Longrightarrow> c \<notin> set worker_local_backend_classes"
  by (auto simp: api_gateway_backend_classes_def worker_local_backend_classes_def)

lemma validate_pair_ok:
  "validate_pair bs w i = Inr x \<longleftrightarrow> (\<exists>b. dget (backends_by_id bs) i = Some b \<and> may_offer w b)"
  using local_not_gateway
  by (cases x) (auto simp: validate_pair_def validate_gateway_worker_def validate_worker_local_backend_def bind_ok_iff
      execution_location_ok may_offer_def split: option.splits)

lemma backends_by_id_snoc: "backends_by_id (bs @ [b]) = dput (bm_backend_id b) b (backends_by_id bs)"
  by (simp add: backends_by_id_def)

lemma backends_by_id_id: "dget (backends_by_id bs) i = Some b \<Longrightarrow> b \<in> set bs \<and> bm_backend_id b = i"
  by (induction bs rule: rev_induct) (auto simp: backends_by_id_snoc backends_by_id_def split: if_splits)

lemma pairing_ok_iff:
  assumes "bs \<noteq> []"
  shows "validate_registry_pairing ws bs = Inr x \<longleftrightarrow>
     (\<forall>b \<in> set bs. \<exists>y. validate_backend_execution_location b = Inr y) \<and>
     (\<forall>w \<in> set ws. \<forall>i \<in> set (wkm_backend_ids w). \<exists>b. dget (backends_by_id bs) i = Some b \<and> may_offer w b)"
proof -
  have "validate_registry_pairing ws bs = Inr x \<longleftrightarrow>
      (\<exists>ys. map_result validate_backend_execution_location bs = Inr ys) \<and>
      (\<exists>ys. map_result (\<lambda>w. map_result (validate_pair bs w) (wkm_backend_ids w)) ws = Inr ys)"
    using assms by (cases x) (auto simp: validate_registry_pairing_def bind_ok_iff)
  then show ?thesis by (simp only: map_result_ok_iff validate_pair_ok simp_thms)
qed

text \<open>Pairing keeps model gateways off ordinary workers. A registry of workers and backends is accepted
  exactly when every backend executes where its class belongs and every backend a worker names is known, of a
  class the worker lists, and, when it is an API or primary model gateway, offered by the control plane gateway
  worker on the control plane only; classes that are neither gateway nor worker-local are never accepted.\<close>

theorem registry_pairing_exact:
  assumes "bs \<noteq> []"
  shows "validate_registry_pairing ws bs = Inr () \<longleftrightarrow>
     list_all (\<lambda>b. (bm_backend_class b \<in> set api_gateway_backend_classes \<longrightarrow>
                      bm_execution_location b = ''mac_control_plane'') \<and>
                   (bm_backend_class b \<in> set worker_local_backend_classes \<longrightarrow>
                      bm_execution_location b \<in> {''local_machine'', ''windows_worker''})) bs \<and>
     list_all (\<lambda>w. list_all (\<lambda>i. \<exists>b \<in> set bs. bm_backend_id b = i \<and> dget (backends_by_id bs) i = Some b \<and>
                                  may_offer w b) (wkm_backend_ids w)) ws"
proof -
  have "(\<exists>b \<in> set bs. bm_backend_id b = i \<and> dget (backends_by_id bs) i = Some b \<and> may_offer w b) \<longleftrightarrow>
      (\<exists>b. dget (backends_by_id bs) i = Some b \<and> may_offer w b)" for i w
    using backends_by_id_id [of bs i] by blast
  then show ?thesis by (simp only: pairing_ok_iff [OF assms] execution_location_ok list_all_iff simp_thms)
qed

definition sample_backend :: "string \<Rightarrow> string \<Rightarrow> string \<Rightarrow> backend_manifest" where
  "sample_backend i cls loc =
     \<lparr>bm_backend_id = i, bm_backend_class = cls, bm_capacity_node_id = ''capnode:'' @ i, bm_display_name = i,
      bm_version = ''v0'', bm_supported_task_types = [''dedup''], bm_allowed_privacy_levels = [''private''],
      bm_execution_location = loc, bm_manifest_hash = ''m'', bm_health = None,
      bm_cost_model = \<lparr>cm_unit = ''work_unit'', cm_estimated_cost_micros = 0, cm_cost_source = ''policy_default''\<rparr>,
      bm_policy_constraints = []\<rparr>"

definition sample_worker :: "string \<Rightarrow> string list \<Rightarrow> string list \<Rightarrow> worker_manifest" where
  "sample_worker i ids classes =
     \<lparr>wkm_worker_id = i, wkm_identity = i, wkm_capabilities = [], wkm_allowed_task_types = [''dedup''],
      wkm_allowed_data_labels = [], wkm_allowed_privacy_levels = [''private''],
      wkm_execution_location = ''windows_worker'', wkm_trust_level = ''trusted_private'', wkm_backend_ids = ids,
      wkm_backend_classes = classes, wkm_health_status = ''healthy'', wkm_manifest_hash = Some ''m'',
      wkm_created_at = ''t'', wkm_updated_at = ''t''\<rparr>"

theorem registry_pairing_exact_witness:
  "validate_registry_pairing [sample_worker ''wrk_1'' [''b''] [''api_model_gateway'']]
     [sample_backend ''b'' ''api_model_gateway'' ''mac_control_plane''] \<noteq> Inr ()"
  using registry_pairing_exact [of "[sample_backend ''b'' ''api_model_gateway'' ''mac_control_plane'']"
      "[sample_worker ''wrk_1'' [''b''] [''api_model_gateway'']]"]
  by (auto simp: sample_worker_def sample_backend_def may_offer_def api_gateway_backend_classes_def)

section \<open>The projection is what the table holds\<close>

definition upserted :: "capacity_node \<Rightarrow> capacity_node_row list \<Rightarrow> capacity_node_row list" where
  "upserted n t = upsert_row cn_id (\<lambda>old. (capacity_row_of n)\<lparr>cn_created_at := cn_created_at old\<rparr>) (capacity_row_of n) t"

text \<open>A row holds the columns of a node; only the creation time may come from an older row.\<close>

definition row_holds :: "capacity_node \<Rightarrow> capacity_node_row \<Rightarrow> bool" where
  "row_holds n r \<longleftrightarrow> r\<lparr>cn_created_at := nod_created_at n\<rparr> = capacity_row_of n"

lemma capacity_row_id [simp]: "cn_id (capacity_row_of n) = nod_capacity_node_id n"
  by (simp add: capacity_row_of_def)

lemma upserted_keys:
  "cn_id ` set (upserted n t) = insert (nod_capacity_node_id n) (cn_id ` set t)"
  "pk_unique cn_id t \<Longrightarrow> pk_unique cn_id (upserted n t)"
proof -
  have keys: "map cn_id (update_row cn_id (nod_capacity_node_id n)
      (\<lambda>old. (capacity_row_of n)\<lparr>cn_created_at := cn_created_at old\<rparr>) t) = map cn_id t"
    by (rule keys_update_row) simp
  show "cn_id ` set (upserted n t) = insert (nod_capacity_node_id n) (cn_id ` set t)"
    using keys by (auto simp: upserted_def upsert_row_def simp flip: set_map)
  show "pk_unique cn_id t \<Longrightarrow> pk_unique cn_id (upserted n t)"
    using keys by (auto simp: upserted_def upsert_row_def pk_unique_def)
qed

lemma upserted_find:
  "find_row cn_id (upserted n t) (nod_capacity_node_id n) = Some r \<Longrightarrow> row_holds n r"
  "k \<noteq> nod_capacity_node_id n \<Longrightarrow> find_row cn_id (upserted n t) k = find_row cn_id t k"
proof -
  show "row_holds n r" if "find_row cn_id (upserted n t) (nod_capacity_node_id n) = Some r"
  proof (cases "nod_capacity_node_id n \<in> cn_id ` set t")
    case True
    then show ?thesis
      using that by (auto simp: upserted_def upsert_row_def find_row_update row_holds_def capacity_row_of_def)
  next
    case False
    then have "find_row cn_id t (nod_capacity_node_id n) = None" by (simp add: find_row_None_iff)
    then show ?thesis
      using that False by (auto simp: upserted_def upsert_row_def find_row_append row_holds_def capacity_row_of_def)
  qed
qed (auto simp: upserted_def upsert_row_def find_row_update find_row_append split: option.splits)

lemma upserted_present: "\<exists>r. find_row cn_id (upserted n t) (nod_capacity_node_id n) = Some r"
  using upserted_keys(1) [of n t] find_row_None_iff [of cn_id "upserted n t" "nod_capacity_node_id n"] by auto

definition store_nodes :: "capacity_node list \<Rightarrow> capacity_node_row list \<Rightarrow> capacity_node_row list" where
  "store_nodes ns t = fold upserted ns t"

lemma store_nodes_keys:
  "cn_id ` set (store_nodes ns t) = nod_capacity_node_id ` set ns \<union> cn_id ` set t"
  "pk_unique cn_id t \<Longrightarrow> pk_unique cn_id (store_nodes ns t)"
  by (induction ns arbitrary: t) (auto simp: store_nodes_def upserted_keys)

lemma store_nodes_other:
  "k \<notin> nod_capacity_node_id ` set ns \<Longrightarrow> find_row cn_id (store_nodes ns t) k = find_row cn_id t k"
  by (induction ns arbitrary: t) (auto simp: store_nodes_def upserted_find)

lemma store_nodes_holds:
  assumes "distinct (map nod_capacity_node_id ns)" and "n \<in> set ns"
  shows "\<exists>r. find_row cn_id (store_nodes ns t) (nod_capacity_node_id n) = Some r \<and> row_holds n r"
  using assms
proof (induction ns arbitrary: t)
  case (Cons m ns)
  show ?case
  proof (cases "n = m")
    case True
    then have "find_row cn_id (store_nodes (m # ns) t) (nod_capacity_node_id n) = find_row cn_id (upserted n t) (nod_capacity_node_id n)"
      using Cons.prems(1) store_nodes_other [of "nod_capacity_node_id m" ns "upserted m t"] by (simp add: store_nodes_def)
    then show ?thesis using upserted_present [of n t] upserted_find(1) by auto
  next
    case False
    then show ?thesis using Cons by (auto simp: store_nodes_def)
  qed
qed simp

lemma store_all_ok:
  assumes "for_each (\<lambda>n. seq (upsert_capacity_node n) (insert_health_snapshot n)) ns w = (Inr x, w')"
  shows "capacity_nodes (current w') = store_nodes ns (capacity_nodes (current w))"
  using assms
proof (induction ns arbitrary: w)
  case (Cons n ns)
  obtain y u where u: "seq (upsert_capacity_node n) (insert_health_snapshot n) w = (Inr y, u)"
    "for_each (\<lambda>n. seq (upsert_capacity_node n) (insert_health_snapshot n)) ns u = (Inr x, w')"
    using Cons.prems by (auto simp: seq_ok_iff)
  have "capacity_nodes (current u) = upserted n (capacity_nodes (current w))"
    using u(1) by (auto simp: seq_ok_iff bnd_ok_iff upsert_capacity_node_def insert_health_snapshot_def run_execute
        bind_ok_iff fk_check_def upserted_def split: sum.splits if_splits)
  then show ?case using Cons.IH [OF u(2)] by (simp add: store_nodes_def)
qed (simp add: store_nodes_def)

lemma keeps_map_op: "(\<And>x. keeps I (f x)) \<Longrightarrow> keeps I (map_op f xs)"
  by (induction xs) (auto intro: keeps_intro)

definition still :: "tables \<Rightarrow> world \<Rightarrow> bool" where
  "still c w \<longleftrightarrow> idle w \<and> committed w = c"

lemma keeps_still_draws: "keeps (still c) utc_text_now"
  by (simp add: keeps_def still_def idle_def)

lemma keeps_still_projections: "keeps (still c) (project_worker_manifest m)" "keeps (still c) (project_backend_manifest b)"
proof -
  have "keeps (still c) (manifest_hash_of m)"
    by (cases "wkm_manifest_hash m"; cases "the (wkm_manifest_hash m)")
      (simp_all add: manifest_hash_of_def keeps_def)
  then show "keeps (still c) (project_worker_manifest m)"
    unfolding project_worker_manifest_def by (intro keeps_intro keeps_still_draws)
  show "keeps (still c) (project_backend_manifest b)"
    unfolding project_backend_manifest_def Let_def by (intro keeps_intro keeps_still_draws)
qed

lemma map_op_ok:
  assumes "map_op f xs w = (Inr ys, w')" and "\<And>x y u u'. I u \<Longrightarrow> f x u = (Inr y, u') \<Longrightarrow> I u' \<and> R x y" and "I w"
  shows "list_all2 R xs ys"
  using assms(1,3) assms(2)
proof (induction xs arbitrary: w ys)
  case (Cons x xs)
  obtain y u zs where step: "f x w = (Inr y, u)" "map_op f xs u = (Inr zs, w')" "ys = y # zs"
    using Cons.prems(1) by (auto simp: bnd_ok_iff)
  have "I u" "R x y" using Cons.prems(3) [OF Cons.prems(2) step(1)] by simp_all
  then show ?case using Cons.IH [OF step(2) _ Cons.prems(3)] step(3) by simp
qed simp

text \<open>The columns that a row of a worker or of a backend has, read off the manifest.\<close>

definition describes_worker :: "platform \<Rightarrow> worker_manifest \<Rightarrow> capacity_node_row \<Rightarrow> bool" where
  "describes_worker p m r \<longleftrightarrow>
     cn_id r = ''capnode:worker:'' @ wkm_worker_id m \<and> cn_node_type r = ''windows_worker'' \<and>
     cn_status r = wkm_health_status m \<and> cn_worker_id r = Some (wkm_worker_id m) \<and>
     cn_backend_ids r = wkm_backend_ids m \<and>
     cn_backend_id r = (if length (wkm_backend_ids m) = 1 then Some (hd (wkm_backend_ids m)) else None) \<and>
     cn_backend_class r = (if length (wkm_backend_classes m) = 1 then Some (hd (wkm_backend_classes m)) else None) \<and>
     cn_execution_location r = wkm_execution_location m \<and> cn_trust_level r = wkm_trust_level m \<and>
     cn_allowed_task_types r = wkm_allowed_task_types m \<and>
     cn_allowed_privacy_levels r = wkm_allowed_privacy_levels m \<and>
     cn_allowed_data_labels r = wkm_allowed_data_labels m \<and>
     cn_manifest_hash r = (if wkm_manifest_hash m \<in> {None, Some []}
       then canonical_json_hash (sha256 p) (float_repr p) (dump_worker_manifest m) else the (wkm_manifest_hash m)) \<and>
     cn_updated_at r = wkm_updated_at m"

definition describes_backend :: "backend_manifest \<Rightarrow> capacity_node_row \<Rightarrow> bool" where
  "describes_backend m r \<longleftrightarrow>
     cn_id r = bm_capacity_node_id m \<and> cn_node_type r = bm_backend_class m \<and>
     cn_status r = (if bm_health m = None then ''unknown'' else bh_status (the (bm_health m))) \<and>
     cn_worker_id r = None \<and> cn_backend_ids r = [bm_backend_id m] \<and> cn_backend_id r = Some (bm_backend_id m) \<and>
     cn_backend_class r = Some (bm_backend_class m) \<and> cn_execution_location r = bm_execution_location m \<and>
     cn_trust_level r = ''trusted_private'' \<and> cn_allowed_task_types r = bm_supported_task_types m \<and>
     cn_allowed_privacy_levels r = bm_allowed_privacy_levels m \<and> cn_allowed_data_labels r = [] \<and>
     cn_manifest_hash r = bm_manifest_hash m"

lemma only_element_alt: "only_element xs = (if length xs = 1 then Some (hd xs) else None)"
  by (cases xs rule: only_element.cases) simp_all

lemma row_holds_columns:
  assumes "row_holds n r"
  shows "\<exists>t. r = (capacity_row_of n)\<lparr>cn_created_at := t\<rparr>"
  using assms by (intro exI [of _ "cn_created_at r"]) (cases r, auto simp: row_holds_def capacity_row_of_def)

lemma manifest_hash_ok:
  assumes "manifest_hash_of m w = (Inr h, w')"
  shows "plat w' = plat w \<and> h = (if wkm_manifest_hash m \<in> {None, Some []}
    then canonical_json_hash (sha256 (plat w)) (float_repr (plat w)) (dump_worker_manifest m) else the (wkm_manifest_hash m))"
  using assms by (auto simp: manifest_hash_of_def split: option.splits list.splits)

lemma project_worker_ok:
  assumes "project_worker_manifest m w = (Inr n, w')"
  shows "plat w' = plat w \<and> nod_capacity_node_id n = worker_node_id (wkm_worker_id m) \<and>
    (\<forall>r. row_holds n r \<longrightarrow> describes_worker (plat w) m r)"
  using assms
  by (auto simp: project_worker_manifest_def bnd_ok_iff describes_worker_def capacity_row_of_def
      only_element_alt worker_node_id_def dest!: row_holds_columns manifest_hash_ok split del: if_split)

lemma project_backend_ok:
  assumes "project_backend_manifest m w = (Inr n, w')"
  shows "plat w' = plat w \<and> nod_capacity_node_id n = bm_capacity_node_id m \<and>
    (\<forall>r. row_holds n r \<longrightarrow> describes_backend m r)"
  using assms
  by (auto simp: project_backend_manifest_def Let_def bnd_ok_iff seq_ok_iff describes_backend_def capacity_row_of_def
      dest!: row_holds_columns split: option.splits if_splits)

text \<open>What a rebuild that returns has done: it projected the workers and then the backends, and stored the nodes
  in one transaction.\<close>

lemma rebuild_stores_nodes:
  assumes idle: "idle w"
    and run: "rebuild_capacity_nodes validate_worker validate_backend wargs bargs w = (Inr nodes, w')"
    and ws: "map_result (coerce_manifest validate_worker) wargs = Inr ws"
    and bs: "map_result (coerce_manifest validate_backend) bargs = Inr bs"
  shows "list_all2 (\<lambda>m n. nod_capacity_node_id n = worker_node_id (wkm_worker_id m) \<and>
      (\<forall>r. row_holds n r \<longrightarrow> describes_worker (plat w) m r)) ws (take (length ws) nodes)"
    and "list_all2 (\<lambda>m n. nod_capacity_node_id n = bm_capacity_node_id m \<and>
      (\<forall>r. row_holds n r \<longrightarrow> describes_backend m r)) bs (drop (length ws) nodes)"
    and "capacity_nodes (committed w') = store_nodes nodes
      (filter (\<lambda>r. cn_id r \<in> nod_capacity_node_id ` set nodes) (capacity_nodes (committed w)))"
proof -
  obtain ns1 ns2 s1 s2 x where s1: "map_op project_worker_manifest ws w = (Inr ns1, s1)"
    and s2: "map_op project_backend_manifest bs s1 = (Inr ns2, s2)" and nodes: "nodes = ns1 @ ns2"
    and tx: "transaction (seq (delete_other_nodes (map nod_capacity_node_id nodes))
          (for_each (\<lambda>n. seq (upsert_capacity_node n) (insert_health_snapshot n)) nodes)) s2 = (Inr x, w')"
    using run ws bs by (auto simp: rebuild_capacity_nodes_def Let_def bnd_ok_iff seq_ok_iff)
  have workers: "list_all2 (\<lambda>m n. nod_capacity_node_id n = worker_node_id (wkm_worker_id m) \<and>
      (\<forall>r. row_holds n r \<longrightarrow> describes_worker (plat w) m r)) ws ns1"
    by (rule map_op_ok [OF s1, where I = "\<lambda>u. plat u = plat w"]) (use project_worker_ok in metis)+
  then show "list_all2 (\<lambda>m n. nod_capacity_node_id n = worker_node_id (wkm_worker_id m) \<and>
      (\<forall>r. row_holds n r \<longrightarrow> describes_worker (plat w) m r)) ws (take (length ws) nodes)"
    using list_all2_lengthD [OF workers] by (simp add: nodes)
  have "list_all2 (\<lambda>m n. nod_capacity_node_id n = bm_capacity_node_id m \<and>
      (\<forall>r. row_holds n r \<longrightarrow> describes_backend m r)) bs ns2"
    by (rule map_op_ok [OF s2, where I = "\<lambda>_. True"]) (use project_backend_ok in auto)
  then show "list_all2 (\<lambda>m n. nod_capacity_node_id n = bm_capacity_node_id m \<and>
      (\<forall>r. row_holds n r \<longrightarrow> describes_backend m r)) bs (drop (length ws) nodes)"
    using list_all2_lengthD [OF workers] by (simp add: nodes)
  have "still (committed w) s2"
    using idle keepsD [OF keeps_map_op [OF keeps_still_projections(1)] _ s1, of "committed w"]
      keepsD [OF keeps_map_op [OF keeps_still_projections(2)] _ s2, of "committed w"]
    by (simp add: still_def)
  then have s2': "Transactions.idle s2" "current s2 = committed w" "committed s2 = committed w"
    by (simp_all add: still_def idle_def)
  obtain u where u: "for_each (\<lambda>n. seq (upsert_capacity_node n) (insert_health_snapshot n)) nodes
      (snd (delete_other_nodes (map nod_capacity_node_id nodes) (s2\<lparr>in_tx := True\<rparr>))) = (Inr x, u)" "w' = commit u"
    using tx s2'(1) by (auto simp: transaction_ok_iff seq_ok_iff delete_other_nodes_def run_execute)
  show "capacity_nodes (committed w') = store_nodes nodes
      (filter (\<lambda>r. cn_id r \<in> nod_capacity_node_id ` set nodes) (capacity_nodes (committed w)))"
    using store_all_ok [OF u(1)] u(2) s2'(2) by (simp add: delete_other_nodes_def run_execute commit_def)
qed

lemma list_all2_partner: "list_all2 P xs ys \<Longrightarrow> x \<in> set xs \<Longrightarrow> \<exists>y \<in> set ys. P x y"
  by (induction rule: list_all2_induct) auto

text \<open>C35. After a rebuild the capacity table is the projection of the manifests. When rebuild_capacity_nodes
  returns on an idle connection, and no two of the manifests give the same node identifier, the committed table
  holds exactly one row per manifest and no other row, whatever it held before: for every worker manifest the row
  capnode:worker:<id> with its health status, task types, labels, privacy levels, location, trust level,
  backends (the single one in its own column) and its hash, which is computed when the manifest has none; for
  every backend manifest the row of its node identifier, of its class, with the status of its health or
  unknown, no labels, and its own identifier, class, location, task types and hash. The nodes are returned in
  the order of the manifests, workers first, and every row holds all columns of its node but the creation time,
  which is that of the row it replaced, if any.\<close>

theorem rebuild_is_projection:
  assumes idle: "idle w" and pk: "pk_unique cn_id (capacity_nodes (committed w))"
    and run: "rebuild_capacity_nodes validate_worker validate_backend wargs bargs w = (Inr nodes, w')"
    and ws: "map_result (coerce_manifest validate_worker) wargs = Inr ws"
    and bs: "map_result (coerce_manifest validate_backend) bargs = Inr bs"
    and ids: "ids = map (\<lambda>m. ''capnode:worker:'' @ wkm_worker_id m) ws @ map bm_capacity_node_id bs" "distinct ids"
    and rows: "rows = capacity_nodes (committed w')"
  shows "cn_id ` set rows = set ids \<and> length rows = length ids \<and>
    list_all (\<lambda>m. \<exists>r \<in> set rows. describes_worker (plat w) m r) ws \<and>
    list_all (\<lambda>m. \<exists>r \<in> set rows. describes_backend m r) bs \<and>
    map nod_capacity_node_id nodes = ids \<and> list_all (\<lambda>n. \<exists>r \<in> set rows. row_holds n r) nodes"
proof -
  note stored = rebuild_stores_nodes [OF idle run ws bs]
  have "map nod_capacity_node_id (take (length ws) nodes) = map (\<lambda>m. ''capnode:worker:'' @ wkm_worker_id m) ws"
    "map nod_capacity_node_id (drop (length ws) nodes) = map bm_capacity_node_id bs"
    using stored(1,2) by (auto simp: list_all2_conv_all_nth worker_node_id_def intro!: nth_equalityI)
  then have "map nod_capacity_node_id (take (length ws) nodes @ drop (length ws) nodes) = ids"
    by (simp only: map_append ids(1))
  then have nodes: "map nod_capacity_node_id nodes = ids" by simp
  let ?kept = "filter (\<lambda>r. cn_id r \<in> nod_capacity_node_id ` set nodes) (capacity_nodes (committed w))"
  have "pk_unique cn_id ?kept" using pk by (simp add: pk_unique_def distinct_map_filter)
  then have keys: "cn_id ` set rows = set ids" "distinct (map cn_id rows)"
    using store_nodes_keys [where ns = nodes and t = ?kept]
    by (auto simp: rows stored(3) pk_unique_def simp flip: nodes)
  have held: "\<exists>r \<in> set rows. row_holds n r" if "n \<in> set nodes" for n
    using store_nodes_holds [of nodes n ?kept] that ids(2) find_row_SomeD
    by (fastforce simp: rows stored(3) nodes)
  have "length rows = card (cn_id ` set rows)" using keys(2) by (metis distinct_card length_map set_map)
  then have "length rows = length ids" using keys(1) ids(2) by (simp add: distinct_card)
  moreover have "list_all (\<lambda>m. \<exists>r \<in> set rows. describes_worker (plat w) m r) ws"
    using list_all2_partner [OF stored(1)] held by (auto simp: list_all_iff) (meson in_set_takeD)
  moreover have "list_all (\<lambda>m. \<exists>r \<in> set rows. describes_backend m r) bs"
    using list_all2_partner [OF stored(2)] held by (auto simp: list_all_iff) (meson in_set_dropD)
  ultimately show ?thesis using keys(1) nodes held by (auto simp: list_all_iff)
qed

theorem rebuild_is_projection_witness:
  "\<exists>ns w'. rebuild_capacity_nodes (\<lambda>_. Inl (ValueError [])) (\<lambda>_. Inl (ValueError []))
       [Dto (sample_worker ''wrk_1'' [''b''] [''local_tool''])] [Dto (sample_backend ''b'' ''local_tool'' ''windows_worker'')]
       empty_world = (Inr ns, w') \<and>
     cn_id ` set (capacity_nodes (committed w')) = {''capnode:worker:wrk_1'', ''capnode:b''} \<and>
     (\<exists>r \<in> set (capacity_nodes (committed w')). describes_backend (sample_backend ''b'' ''local_tool'' ''windows_worker'') r)"
proof -
  let ?wm = "sample_worker ''wrk_1'' [''b''] [''local_tool'']"
  let ?bm = "sample_backend ''b'' ''local_tool'' ''windows_worker''"
  have pairing: "validate_registry_pairing [?wm] [?bm] = Inr ()"
    by (simp add: pairing_ok_iff execution_location_ok backends_by_id_def may_offer_def sample_worker_def sample_backend_def
        api_gateway_backend_classes_def worker_local_backend_classes_def)
  have hash: "wkm_manifest_hash ?wm = Some ''m''" "bm_health ?bm = None" "wkm_worker_id ?wm = ''wrk_1''"
    "bm_capacity_node_id ?bm = ''capnode:b''" "bm_execution_location ?bm = ''windows_worker''"
    by (simp_all add: sample_worker_def sample_backend_def)
  have "\<exists>ns w'. rebuild_capacity_nodes (\<lambda>_. Inl (ValueError [])) (\<lambda>_. Inl (ValueError []))
       [Dto ?wm] [Dto ?bm] empty_world = (Inr ns, w')"
    by (simp add: rebuild_capacity_nodes_def pairing run_bnd run_seq project_worker_manifest_def manifest_hash_of_def
        project_backend_manifest_def execution_locations_def worker_node_id_def
        hash Let_def transaction_def begin_immediate_def empty_world_def delete_other_nodes_def run_execute
        upsert_capacity_node_def insert_health_snapshot_def insert_row_def fk_check_def has_row_def upsert_row_def
        empty_tables_def)
  then obtain ns w' where run: "rebuild_capacity_nodes (\<lambda>_. Inl (ValueError [])) (\<lambda>_. Inl (ValueError []))
       [Dto ?wm] [Dto ?bm] empty_world = (Inr ns, w')" by blast
  have "idle empty_world" "pk_unique cn_id (capacity_nodes (committed empty_world))"
    by (simp_all add: idle_def empty_world_def empty_tables_def pk_unique_def)
  from rebuild_is_projection [OF this run _ _ refl _ refl, of "[?wm]" "[?bm]"] run show ?thesis
    by (auto simp: hash)
qed

end
