(* ===== verification/Backends.thy ===== *)
theory Backends
  imports Capacity
begin

text \<open>
  The backend registry and its SQLite repository (\<open>src/tokenbank/backends/registry.py\<close>) and the
  resolver from a route candidate to executable capacity (\<open>backends/resolver.py\<close>). Python's
  \<open>str\<close> of a KeyError is the \<open>repr\<close> of its message, so the resolver's messages use that argument.
\<close>

section \<open>Registry\<close>

type_synonym backend_registry = "backend_manifest list"

definition registry_get :: "backend_registry \<Rightarrow> string \<Rightarrow> backend_manifest result" where
  "registry_get reg backend_id =
     (case find (\<lambda>m. bm_backend_id m = backend_id) reg of
        Some m \<Rightarrow> Inr m
      | None \<Rightarrow> Inl (KeyError (''unknown backend_id: '' @ backend_id)))"

definition by_class :: "backend_registry \<Rightarrow> string \<Rightarrow> backend_manifest list" where
  "by_class reg backend_class = filter (\<lambda>m. bm_backend_class m = backend_class) reg"

definition resolve_by_class :: "backend_registry \<Rightarrow> string \<Rightarrow> string option \<Rightarrow> backend_manifest result" where
  "resolve_by_class reg backend_class task_type =
     (let found = (case task_type of
                     None \<Rightarrow> by_class reg backend_class
                   | Some ty \<Rightarrow> filter (\<lambda>m. ty \<in> set (bm_supported_task_types m)) (by_class reg backend_class))
      in case sort_key bm_backend_id found of
           [] \<Rightarrow> Inl (KeyError (''unknown backend_class: '' @ backend_class))
         | m # _ \<Rightarrow> Inr m)"

section \<open>Repository\<close>

definition dump_backend_health :: "backend_health \<Rightarrow> json" where
  "dump_backend_health h = JObj
     [schema_version, (''backend_id'', JStr (bh_backend_id h)), (''status'', JStr (bh_status h)),
      (''checked_at'', JStr (bh_checked_at h)), (''latency_ms'', int_opt (bh_latency_ms h)),
      (''message'', str_opt (bh_message h))]"

definition dump_backend_manifest :: "backend_manifest \<Rightarrow> json" where
  "dump_backend_manifest m = JObj
     [schema_version, (''backend_id'', JStr (bm_backend_id m)), (''backend_class'', JStr (bm_backend_class m)),
      (''capacity_node_id'', JStr (bm_capacity_node_id m)), (''display_name'', JStr (bm_display_name m)),
      (''version'', JStr (bm_version m)), (''supported_task_types'', str_list (bm_supported_task_types m)),
      (''allowed_privacy_levels'', str_list (bm_allowed_privacy_levels m)),
      (''execution_location'', JStr (bm_execution_location m)), (''manifest_hash'', JStr (bm_manifest_hash m)),
      (''health'', json_of_option dump_backend_health (bm_health m)),
      (''cost_model'', dump_cost_model (bm_cost_model m)),
      (''policy_constraints'', JObj (bm_policy_constraints m))]"

definition registry_row_of :: "string \<Rightarrow> backend_manifest \<Rightarrow> backend_registry_row" where
  "registry_row_of now m =
     \<lparr>brr_backend_id = bm_backend_id m, brr_backend_class = bm_backend_class m,
      brr_status = (case bm_health m of Some h \<Rightarrow> bh_status h | None \<Rightarrow> ''unknown''),
      brr_body = canonical (dump_backend_manifest m), brr_created_at = now, brr_updated_at = now\<rparr>"

definition manifest_row_of :: "string \<Rightarrow> backend_manifest \<Rightarrow> backend_manifest_row" where
  "manifest_row_of now m =
     \<lparr>bmr_backend_id = bm_backend_id m, bmr_backend_class = bm_backend_class m,
      bmr_capacity_node_id = bm_capacity_node_id m, bmr_manifest_hash = bm_manifest_hash m,
      bmr_body = canonical (dump_backend_manifest m), bmr_created_at = now, bmr_updated_at = now\<rparr>"

definition upsert_manifest :: "string \<Rightarrow> backend_manifest \<Rightarrow> unit op" where
  "upsert_manifest now m =
     seq (execute (\<lambda>t. Inr (t\<lparr>backend_registry := upsert_row brr_backend_id
            (\<lambda>old. (registry_row_of now m)\<lparr>brr_created_at := brr_created_at old\<rparr>) (registry_row_of now m)
            (backend_registry t)\<rparr>)))
     (execute (\<lambda>t. Inr (t\<lparr>backend_manifests := upsert_row bmr_backend_id
            (\<lambda>old. (manifest_row_of now m)\<lparr>bmr_created_at := bmr_created_at old\<rparr>) (manifest_row_of now m)
            (backend_manifests t)\<rparr>)))"

definition upsert_manifests :: "backend_manifest list \<Rightarrow> unit op" where
  "upsert_manifests ms = bnd utc_text_now (\<lambda>now. transaction (for_each (upsert_manifest now) ms))"

definition list_manifests :: "(json \<Rightarrow> backend_manifest result) \<Rightarrow> backend_manifest list op" where
  "list_manifests validate =
     bnd (select (\<lambda>t. map bmr_body (sort_key bmr_backend_id (backend_manifests t)))) (\<lambda>bodies.
     of_result (map_result validate bodies))"

section \<open>Resolver\<close>

record resolver =
  rsv_registry :: backend_registry
  rsv_workers :: "(string \<times> worker_manifest) list"
  rsv_allowed_backend_ids :: "string list"
  rsv_allowed_backend_classes :: "string list"

definition make_resolver ::
  "backend_registry \<Rightarrow> worker_manifest list \<Rightarrow> string list \<Rightarrow> string list \<Rightarrow> resolver" where
  "make_resolver reg ws ids classes =
     \<lparr>rsv_registry = reg, rsv_workers = fold (\<lambda>w d. dput (wkm_worker_id w) w d) ws [],
      rsv_allowed_backend_ids = ids, rsv_allowed_backend_classes = classes\<rparr>"

record backend_resolution =
  rs_backend_id :: string
  rs_backend_class :: string
  rs_capacity_node_id :: string
  rs_worker_id :: "string option"
  rs_execution_location :: string
  rs_supported_task_types :: "string list"
  rs_manifest_hash :: string

fun key_error_as_resolution :: "(json \<Rightarrow> string) \<Rightarrow> 'a result \<Rightarrow> 'a result" where
  "key_error_as_resolution repr (Inl (KeyError m)) = Inl (BackendResolutionError (repr (JStr m)))"
| "key_error_as_resolution repr r = r"

definition resolve_backend_manifest ::
  "(json \<Rightarrow> string) \<Rightarrow> resolver \<Rightarrow> fields \<Rightarrow> backend_manifest result" where
  "resolve_backend_manifest repr rv cand =
     (let backend_id = dget_or JNull cand ''backend_id'';
          backend_class = dget_or JNull cand ''backend_class'';
          task_type = dget_or JNull cand ''task_type''
      in if truthy backend_id then
           bind_result (key_error_as_resolution repr (registry_get (rsv_registry rv) (py_str repr backend_id))) (\<lambda>b.
           if truthy backend_class \<and> bm_backend_class b \<noteq> py_str repr backend_class
           then Inl (BackendResolutionError ''route candidate backend_class does not match backend_id'')
           else Inr b)
         else if \<not> truthy backend_class
         then Inl (BackendResolutionError ''route candidate must include backend_id or class'')
         else key_error_as_resolution repr
                (resolve_by_class (rsv_registry rv) (py_str repr backend_class)
                  (if task_type = JNull then None else Some (py_str repr task_type))))"

definition enforce_policy :: "resolver \<Rightarrow> backend_manifest \<Rightarrow> unit result" where
  "enforce_policy rv b =
     bind_result (check (\<not> (rsv_allowed_backend_ids rv \<noteq> [] \<and> bm_backend_id b \<notin> set (rsv_allowed_backend_ids rv)))
        (BackendResolutionError (''backend_id is not allowed by backend_policy: '' @ bm_backend_id b))) (\<lambda>_.
     check (\<not> (rsv_allowed_backend_classes rv \<noteq> [] \<and>
                bm_backend_class b \<notin> set (rsv_allowed_backend_classes rv)))
        (BackendResolutionError (''backend_class is not allowed by backend_policy: '' @ bm_backend_class b)))"

definition worker_of :: "resolver \<Rightarrow> string \<Rightarrow> worker_manifest result" where
  "worker_of rv worker_id =
     (case dget (rsv_workers rv) worker_id of
        None \<Rightarrow> Inl (BackendResolutionError (''unknown worker_id: '' @ worker_id))
      | Some w \<Rightarrow> Inr w)"

definition first_worker_for_backend :: "resolver \<Rightarrow> backend_manifest \<Rightarrow> worker_manifest result" where
  "first_worker_for_backend rv b =
     (case find (\<lambda>w. wkm_worker_id w \<noteq> control_plane_gateway_worker_id \<and>
                     bm_backend_id b \<in> set (wkm_backend_ids w) \<and> bm_backend_class b \<in> set (wkm_backend_classes w))
             (sort_key wkm_worker_id (map snd (rsv_workers rv))) of
        None \<Rightarrow> Inl (BackendResolutionError (''no worker manifest supports backend_id: '' @ bm_backend_id b))
      | Some w \<Rightarrow> Inr w)"

definition resolution_of :: "backend_manifest \<Rightarrow> worker_manifest \<Rightarrow> backend_resolution" where
  "resolution_of b w =
     \<lparr>rs_backend_id = bm_backend_id b, rs_backend_class = bm_backend_class b,
      rs_capacity_node_id = ''capnode:worker:'' @ wkm_worker_id w, rs_worker_id = Some (wkm_worker_id w),
      rs_execution_location = wkm_execution_location w, rs_supported_task_types = bm_supported_task_types b,
      rs_manifest_hash = bm_manifest_hash b\<rparr>"

definition resolve_worker_local ::
  "(json \<Rightarrow> string) \<Rightarrow> resolver \<Rightarrow> backend_manifest \<Rightarrow> fields \<Rightarrow> string option \<Rightarrow> backend_resolution result" where
  "resolve_worker_local repr rv b cand worker_id =
     (let target = or_json (str_opt worker_id) (dget_or JNull cand ''worker_id'') in
      bind_result (if truthy target then worker_of rv (py_str repr target) else first_worker_for_backend rv b) (\<lambda>w.
      bind_result (validate_worker_local_backend w b) (\<lambda>_. Inr (resolution_of b w))))"

definition resolve_gateway :: "resolver \<Rightarrow> backend_manifest \<Rightarrow> backend_resolution result" where
  "resolve_gateway rv b =
     bind_result (worker_of rv control_plane_gateway_worker_id) (\<lambda>w.
     bind_result (validate_gateway_worker w b) (\<lambda>_. Inr (resolution_of b w)))"

definition resolve ::
  "(json \<Rightarrow> string) \<Rightarrow> resolver \<Rightarrow> fields \<Rightarrow> string option \<Rightarrow> backend_resolution result" where
  "resolve repr rv cand worker_id =
     bind_result (resolve_backend_manifest repr rv cand) (\<lambda>b.
     bind_result (enforce_policy rv b) (\<lambda>_.
     if bm_backend_class b \<in> set api_gateway_backend_classes then
       (if worker_id \<notin> {None, Some control_plane_gateway_worker_id}
        then Inl (BackendResolutionError ''worker direct API model path is denied'')
        else resolve_gateway rv b)
     else if bm_backend_class b \<in> set worker_local_backend_classes
     then resolve_worker_local repr rv b cand worker_id
     else Inl (BackendResolutionError (''unknown backend_class for resolver: '' @ bm_backend_class b))))"

section \<open>What a resolution guarantees\<close>

lemma registry_get_ok: "registry_get reg i = Inr b \<Longrightarrow> b \<in> set reg \<and> bm_backend_id b = i"
  by (auto simp: registry_get_def find_Some_iff split: option.splits)

lemma resolve_by_class_ok: "resolve_by_class reg c ty = Inr b \<Longrightarrow> b \<in> set reg \<and> bm_backend_class b = c"
proof -
  assume ok: "resolve_by_class reg c ty = Inr b"
  let ?found = "case ty of None \<Rightarrow> by_class reg c
    | Some ty \<Rightarrow> filter (\<lambda>m. ty \<in> set (bm_supported_task_types m)) (by_class reg c)"
  obtain rest where "sort_key bm_backend_id ?found = b # rest"
    using ok by (auto simp: resolve_by_class_def Let_def split: list.splits)
  then have "b \<in> set (sort_key bm_backend_id ?found)"
    by (simp only: list.set_intros)
  then show ?thesis by (auto simp: by_class_def split: option.splits)
qed

lemma key_error_ok [simp]: "key_error_as_resolution repr r = Inr x \<longleftrightarrow> r = Inr x"
  by (cases "(repr, r)" rule: key_error_as_resolution.cases) auto

lemma resolve_backend_manifest_ok:
  "resolve_backend_manifest repr rv cand = Inr b \<Longrightarrow> b \<in> set (rsv_registry rv)"
  by (auto simp: resolve_backend_manifest_def Let_def bind_ok_iff dest: registry_get_ok resolve_by_class_ok
      split: if_splits)

lemma worker_of_ok: "worker_of rv i = Inr w \<Longrightarrow> (i, w) \<in> set (rsv_workers rv)"
  by (auto simp: worker_of_def dest: dget_in_set split: option.splits)

lemma find_in_set: "List.find P xs = Some x \<Longrightarrow> x \<in> set xs"
  by (auto simp: find_Some_iff)

lemma first_worker_ok:
  assumes "first_worker_for_backend rv b = Inr w"
  shows "w \<in> snd ` set (rsv_workers rv)"
proof -
  have "w \<in> set (sort_key wkm_worker_id (map snd (rsv_workers rv)))"
    using assms by (auto simp: first_worker_for_backend_def simp del: set_sort dest: find_in_set split: option.splits)
  then show ?thesis by simp
qed

lemma validate_worker_local_ok:
  "validate_worker_local_backend w b = Inr x \<Longrightarrow> bm_backend_class b \<in> set worker_local_backend_classes \<Longrightarrow> may_offer w b"
  using local_not_gateway
  by (cases x) (auto simp: validate_worker_local_backend_def bind_ok_iff execution_location_ok may_offer_def split: if_splits)

lemma validate_gateway_ok:
  "validate_gateway_worker w b = Inr x \<Longrightarrow> bm_backend_class b \<in> set api_gateway_backend_classes \<Longrightarrow> may_offer w b"
  by (cases x) (auto simp: validate_gateway_worker_def bind_ok_iff execution_location_ok may_offer_def)

lemma resolve_ok:
  assumes "resolve repr rv cand worker_id = Inr r"
  shows "\<exists>b w. b \<in> set (rsv_registry rv) \<and> w \<in> snd ` set (rsv_workers rv) \<and> may_offer w b \<and> r = resolution_of b w \<and>
    (rsv_allowed_backend_ids rv = [] \<or> bm_backend_id b \<in> set (rsv_allowed_backend_ids rv)) \<and>
    (rsv_allowed_backend_classes rv = [] \<or> bm_backend_class b \<in> set (rsv_allowed_backend_classes rv))"
proof -
  obtain b where b: "resolve_backend_manifest repr rv cand = Inr b" "enforce_policy rv b = Inr ()"
    and r: "if bm_backend_class b \<in> set api_gateway_backend_classes
      then resolve_gateway rv b = Inr r
      else bm_backend_class b \<in> set worker_local_backend_classes \<and> resolve_worker_local repr rv b cand worker_id = Inr r"
    using assms by (auto simp: resolve_def bind_ok_iff split: if_splits)
  have "\<exists>w \<in> snd ` set (rsv_workers rv). may_offer w b \<and> r = resolution_of b w"
  proof (cases "bm_backend_class b \<in> set api_gateway_backend_classes")
    case True
    then obtain w where w: "worker_of rv control_plane_gateway_worker_id = Inr w" "validate_gateway_worker w b = Inr ()"
      "r = resolution_of b w"
      using r by (auto simp: resolve_gateway_def bind_ok_iff)
    have "w \<in> snd ` set (rsv_workers rv)" using worker_of_ok [OF w(1)] by (rule rev_image_eqI) simp
    then show ?thesis using validate_gateway_ok [OF w(2) True] w(3) by blast
  next
    case False
    then have local: "bm_backend_class b \<in> set worker_local_backend_classes" using r by simp
    obtain w where w: "(\<exists>i. worker_of rv i = Inr w) \<or> first_worker_for_backend rv b = Inr w"
      "validate_worker_local_backend w b = Inr ()" "r = resolution_of b w"
      using r False by (auto simp: resolve_worker_local_def Let_def bind_ok_iff split: if_splits)
    have "w \<in> snd ` set (rsv_workers rv)"
      using w(1) by (auto dest: worker_of_ok intro: rev_image_eqI first_worker_ok)
    then show ?thesis using validate_worker_local_ok [OF w(2) local] w(3) by blast
  qed
  then show ?thesis
    using resolve_backend_manifest_ok [OF b(1)] b(2) by (auto simp: enforce_policy_def bind_ok_iff)
qed

text \<open>A resolution is executable and permitted. Whatever a route candidate asks for, a successful resolve
  names a backend of the registry and a known worker that may offer it: API and primary model gateways only on
  the control plane gateway worker, worker-local classes only on a worker whose manifest lists the backend and
  its class, and always within the allowlists of the backend policy.\<close>

theorem resolution_executable:
  assumes "resolve repr rv cand worker_id = Inr r"
  shows "\<exists>b w. b \<in> set (rsv_registry rv) \<and> w \<in> snd ` set (rsv_workers rv) \<and> may_offer w b \<and>
    rs_backend_id r = bm_backend_id b \<and> rs_backend_class r = bm_backend_class b \<and>
    rs_worker_id r = Some (wkm_worker_id w) \<and> rs_capacity_node_id r = worker_node_id (wkm_worker_id w) \<and>
    (rsv_allowed_backend_ids rv = [] \<or> rs_backend_id r \<in> set (rsv_allowed_backend_ids rv)) \<and>
    (rsv_allowed_backend_classes rv = [] \<or> rs_backend_class r \<in> set (rsv_allowed_backend_classes rv)) \<and>
    (rs_backend_class r \<in> set api_gateway_backend_classes \<longrightarrow> rs_worker_id r = Some control_plane_gateway_worker_id)"
proof -
  obtain b w where bw: "b \<in> set (rsv_registry rv)" "w \<in> snd ` set (rsv_workers rv)" "may_offer w b"
    "r = resolution_of b w"
    "rsv_allowed_backend_ids rv = [] \<or> bm_backend_id b \<in> set (rsv_allowed_backend_ids rv)"
    "rsv_allowed_backend_classes rv = [] \<or> bm_backend_class b \<in> set (rsv_allowed_backend_classes rv)"
    using resolve_ok [OF assms] by metis
  have "bm_backend_class b \<in> set api_gateway_backend_classes \<Longrightarrow> wkm_worker_id w = control_plane_gateway_worker_id"
    using bw(3) by (simp add: may_offer_def)
  then have "rs_backend_class r \<in> set api_gateway_backend_classes \<longrightarrow> rs_worker_id r = Some control_plane_gateway_worker_id"
    using bw(4) by (simp add: resolution_of_def)
  then show ?thesis
    using bw by (intro exI [of _ b] exI [of _ w]) (simp add: resolution_of_def worker_node_id_def)
qed

definition sample_resolver :: resolver where
  "sample_resolver = make_resolver [sample_backend ''b'' ''local_tool'' ''local_machine'']
     [sample_worker ''wrk_1'' [''b''] [''local_tool'']] [] []"

lemma sample_resolution:
  assumes "dget cand ''backend_id'' = Some (JStr ''b'')" and "dget cand ''worker_id'' = None"
    and "dget cand ''backend_class'' \<in> {None, Some (JStr ''local_tool'')}"
  shows "resolve repr sample_resolver cand None
     = Inr (resolution_of (sample_backend ''b'' ''local_tool'' ''local_machine'') (sample_worker ''wrk_1'' [''b''] [''local_tool'']))"
proof -
  let ?b = "sample_backend ''b'' ''local_tool'' ''local_machine''"
  let ?w = "sample_worker ''wrk_1'' [''b''] [''local_tool'']"
  have rv: "rsv_registry sample_resolver = [?b]" "rsv_workers sample_resolver = [(''wrk_1'', ?w)]"
    "rsv_allowed_backend_ids sample_resolver = []" "rsv_allowed_backend_classes sample_resolver = []"
    by (simp_all add: sample_resolver_def make_resolver_def sample_worker_def)
  have b: "bm_backend_id ?b = ''b''" "bm_backend_class ?b = ''local_tool''" "bm_execution_location ?b = ''local_machine''"
    by (simp_all add: sample_backend_def)
  have w: "wkm_worker_id ?w = ''wrk_1''" "wkm_backend_ids ?w = [''b'']" "wkm_backend_classes ?w = [''local_tool'']"
    by (simp_all add: sample_worker_def)
  have 1: "resolve_backend_manifest repr sample_resolver cand = Inr ?b"
    using assms by (auto simp: resolve_backend_manifest_def registry_get_def rv b dget_or_def)
  have 2: "enforce_policy sample_resolver ?b = Inr ()"
    by (simp add: enforce_policy_def rv check_def)
  have 3: "validate_worker_local_backend ?w ?b = Inr ()"
    by (simp add: validate_worker_local_backend_def validate_backend_execution_location_def check_def b w
        api_gateway_backend_classes_def worker_local_backend_classes_def)
  have 4: "first_worker_for_backend sample_resolver ?b = Inr ?w"
    by (simp add: first_worker_for_backend_def rv b w)
  show ?thesis
    by (simp add: resolve_def 1 2 b api_gateway_backend_classes_def worker_local_backend_classes_def
        resolve_worker_local_def 3 4 or_json_def dget_or_def Let_def assms)
qed

theorem resolution_executable_witness:
  "\<exists>r. resolve (\<lambda>_. []) sample_resolver [(''backend_id'', JStr ''b'')] None = Inr r \<and>
     rs_worker_id r = Some ''wrk_1''"
proof -
  have "resolve (\<lambda>_. []) sample_resolver [(''backend_id'', JStr ''b'')] None
     = Inr (resolution_of (sample_backend ''b'' ''local_tool'' ''local_machine'') (sample_worker ''wrk_1'' [''b''] [''local_tool'']))"
    by (rule sample_resolution) simp_all
  with resolution_executable [OF this] show ?thesis by (auto simp: resolution_of_def sample_worker_def)
qed

end
