(* ===== verification/Router.thy ===== *)
theory Router
  imports Backends Routebook Verifier "HOL-Library.Multiset"
begin

text \<open>
  The deterministic router: candidate generation, normalisation and validation of route plans
  (\<open>src/tokenbank/router/*.py\<close>), the part of \<open>RouterService.plan_route\<close> before the scored re-selection, and
  the storing of plans.

  Messages of pydantic's errors are not modelled.
\<close>

section \<open>Route plans\<close>

record route_candidate =
  cand_route_candidate_id :: string
  cand_capacity_node_id :: string
  cand_backend_class :: string
  cand_backend_id :: string
  cand_worker_selector :: fields
  cand_priority :: int
  cand_estimated_cost_micros :: int
  cand_verifier_recipe_id :: "string option"
  cand_policy_hints :: "string list"

record route_plan =
  plan_route_plan_id :: string
  plan_work_unit_id :: string
  plan_task_type :: string
  plan_task_level :: string
  plan_candidates :: "route_candidate list"
  plan_selected_candidate_id :: string
  plan_verifier_recipe_id :: string
  plan_risk_level :: string
  plan_policy_hints :: "string list"
  plan_created_at :: string
  plan_validated_at :: "string option"

definition dump_route_candidate :: "route_candidate \<Rightarrow> json" where
  "dump_route_candidate c = JObj
     [schema_version, (''route_candidate_id'', JStr (cand_route_candidate_id c)),
      (''capacity_node_id'', JStr (cand_capacity_node_id c)), (''backend_class'', JStr (cand_backend_class c)),
      (''backend_id'', JStr (cand_backend_id c)), (''worker_selector'', JObj (cand_worker_selector c)),
      (''priority'', JInt (cand_priority c)), (''estimated_cost_micros'', JInt (cand_estimated_cost_micros c)),
      (''verifier_recipe_id'', str_opt (cand_verifier_recipe_id c)),
      (''policy_hints'', str_list (cand_policy_hints c))]"

definition dump_route_plan :: "route_plan \<Rightarrow> json" where
  "dump_route_plan p = JObj
     [schema_version, (''route_plan_id'', JStr (plan_route_plan_id p)),
      (''work_unit_id'', JStr (plan_work_unit_id p)), (''task_type'', JStr (plan_task_type p)),
      (''task_level'', JStr (plan_task_level p)),
      (''candidates'', JList (map dump_route_candidate (plan_candidates p))),
      (''selected_candidate_id'', JStr (plan_selected_candidate_id p)),
      (''verifier_recipe_id'', JStr (plan_verifier_recipe_id p)), (''risk_level'', JStr (plan_risk_level p)),
      (''policy_hints'', str_list (plan_policy_hints p)), (''created_at'', JStr (plan_created_at p)),
      (''validated_at'', str_opt (plan_validated_at p))]"

definition task_levels_const :: "string list" where
  "task_levels_const = [''L0'', ''L1'', ''L2'', ''L3'']"

definition backend_classes_const :: "string list" where
  "backend_classes_const =
     [''local_tool'', ''local_script'', ''browser_fetch'', ''local_model'', ''api_model_gateway'',
      ''primary_model_gateway'']"

definition route_risk_levels :: "string list" where
  "route_risk_levels = [''low'', ''medium'', ''high'']"

text \<open>The field constraints of the two classes, with \<open>str_strip_whitespace\<close>.\<close>

definition make_route_candidate :: "route_candidate \<Rightarrow> route_candidate result" where
  "make_route_candidate c =
     bind_result (non_empty_str (cand_route_candidate_id c)) (\<lambda>rid.
     bind_result (non_empty_str (cand_capacity_node_id c)) (\<lambda>nid.
     bind_result (check (cand_backend_class c \<in> set backend_classes_const) (ValueError ''backend_class'')) (\<lambda>_.
     bind_result (non_empty_str (cand_backend_id c)) (\<lambda>bid.
     bind_result (check (1 \<le> cand_priority c) (ValueError ''priority'')) (\<lambda>_.
     bind_result (check (0 \<le> cand_estimated_cost_micros c) (ValueError ''estimated_cost_micros'')) (\<lambda>_.
     bind_result (map_result non_empty_str (cand_policy_hints c)) (\<lambda>hints.
     Inr (c\<lparr>cand_route_candidate_id := rid, cand_capacity_node_id := nid, cand_backend_id := bid,
            cand_verifier_recipe_id := map_option strip (cand_verifier_recipe_id c),
            cand_policy_hints := hints\<rparr>))))))))"

definition make_route_plan :: "route_plan \<Rightarrow> route_plan result" where
  "make_route_plan p =
     bind_result (non_empty_str (plan_route_plan_id p)) (\<lambda>pid.
     bind_result (non_empty_str (plan_work_unit_id p)) (\<lambda>wid.
     bind_result (non_empty_str (plan_task_type p)) (\<lambda>ty.
     bind_result (check (plan_task_level p \<in> set task_levels_const) (ValueError ''task_level'')) (\<lambda>_.
     bind_result (check (plan_candidates p \<noteq> []) (ValueError ''candidates'')) (\<lambda>_.
     bind_result (non_empty_str (plan_selected_candidate_id p)) (\<lambda>sid.
     bind_result (non_empty_str (plan_verifier_recipe_id p)) (\<lambda>vid.
     bind_result (check (plan_risk_level p \<in> set route_risk_levels) (ValueError ''risk_level'')) (\<lambda>_.
     bind_result (map_result non_empty_str (plan_policy_hints p)) (\<lambda>hints.
     Inr (p\<lparr>plan_route_plan_id := pid, plan_work_unit_id := wid, plan_task_type := ty,
            plan_selected_candidate_id := sid, plan_verifier_recipe_id := vid,
            plan_policy_hints := hints\<rparr>))))))))))"

section \<open>Candidates\<close>

text \<open>\<open>int(x)\<close>: numbers truncate, text is an optional sign and digits with single underscores between.\<close>

definition is_digit :: "char \<Rightarrow> bool" where
  "is_digit c \<longleftrightarrow> CHR ''0'' \<le> c \<and> c \<le> CHR ''9''"

fun parse_digits :: "int \<Rightarrow> string \<Rightarrow> int option" where
  "parse_digits acc [] = None"
| "parse_digits acc [c] = (if is_digit c then Some (10 * acc + (of_char c - 48)) else None)"
| "parse_digits acc (c # d # cs) =
     (if \<not> is_digit c then None
      else if d = CHR ''_'' then parse_digits (10 * acc + (of_char c - 48)) cs
      else parse_digits (10 * acc + (of_char c - 48)) (d # cs))"

definition int_blank :: "char \<Rightarrow> bool" where
  "int_blank c \<longleftrightarrow> blank c \<or> c \<in> {CHR 0x1C, CHR 0x1D, CHR 0x1E, CHR 0x1F}"

definition parse_int :: "string \<Rightarrow> int option" where
  "parse_int s =
     (case rev (dropWhile int_blank (rev (dropWhile int_blank s))) of
        [] \<Rightarrow> None
      | c # cs \<Rightarrow> if c = CHR ''-'' then map_option uminus (parse_digits 0 cs)
                  else if c = CHR ''+'' then parse_digits 0 cs
                  else parse_digits 0 (c # cs))"

fun py_int :: "json \<Rightarrow> int result" where
  "py_int (JInt i) = Inr i"
| "py_int (JBool b) = Inr (if b then 1 else 0)"
| "py_int (JFloat q) = Inr (if q < 0 then - \<lfloor>- q\<rfloor> else \<lfloor>q\<rfloor>)"
| "py_int (JStr s) = (case parse_int s of Some i \<Rightarrow> Inr i | None \<Rightarrow> Inl (ValueError ''invalid literal for int()''))"
| "py_int v = Inl (TypeError ''int() argument must be a string or a number'')"

definition rule_priority :: "fields \<Rightarrow> int result" where
  "rule_priority rule = py_int (dget_or (JInt 1) rule ''priority'')"

definition matching_candidate_rules ::
  "(json \<Rightarrow> string) \<Rightarrow> loaded_routebook \<Rightarrow> string \<Rightarrow> fields list result" where
  "matching_candidate_rules repr rb task_type =
     bind_result (candidate_rules rb) (\<lambda>rules.
     bind_result (map_result (\<lambda>rule. bind_result (rule_priority rule) (\<lambda>p. Inr (p, rule)))
        (filter (\<lambda>rule. dget_or JNull rule ''task_type'' = JStr task_type) rules)) (\<lambda>keyed.
     Inr (map snd (sort_key (\<lambda>(p, rule). (p, py_str repr (dget_or JNull rule ''rule_id''))) keyed))))"

definition worker_selector :: "string option \<Rightarrow> fields" where
  "worker_selector worker_id =
     (case worker_id of
        None \<Rightarrow> [(''selector_type'', JStr ''registry'')]
      | Some w \<Rightarrow> [(''selector_type'', JStr ''worker_id''), (''worker_id'', JStr w)])"

definition generate_candidate ::
  "(json \<Rightarrow> string) \<Rightarrow> resolver \<Rightarrow> string \<Rightarrow> string option \<Rightarrow> string list \<Rightarrow> fields \<Rightarrow> route_candidate result" where
  "generate_candidate repr rv task_level verifier_recipe_id hints rule =
     bind_result (resolve repr rv (dput ''task_level'' (JStr task_level) rule) None) (\<lambda>r.
     bind_result (item rule ''rule_id'') (\<lambda>rule_id.
     bind_result (rule_priority rule) (\<lambda>priority.
     bind_result (registry_get (rsv_registry rv) (rs_backend_id r)) (\<lambda>b.
     make_route_candidate
       \<lparr>cand_route_candidate_id = py_str repr rule_id, cand_capacity_node_id = rs_capacity_node_id r,
        cand_backend_class = rs_backend_class r, cand_backend_id = rs_backend_id r,
        cand_worker_selector = worker_selector (rs_worker_id r), cand_priority = priority,
        cand_estimated_cost_micros = cm_estimated_cost_micros (bm_cost_model b),
        cand_verifier_recipe_id = verifier_recipe_id, cand_policy_hints = hints\<rparr>))))"

definition generate_candidates ::
  "(json \<Rightarrow> string) \<Rightarrow> loaded_routebook \<Rightarrow> resolver \<Rightarrow> fields \<Rightarrow> string \<Rightarrow> route_candidate list result" where
  "generate_candidates repr rb rv work_unit task_level =
     bind_result (item work_unit ''task_type'') (\<lambda>ty.
     let task_type = py_str repr ty in
     bind_result (verifier_mapping rb) (\<lambda>mapping.
     bind_result (policy_hints rb) (\<lambda>hints.
     bind_result (matching_candidate_rules repr rb task_type)
       (map_result (generate_candidate repr rv task_level (dget mapping task_type) (dget_or [] hints task_type))))))"

section \<open>Normaliser\<close>

definition candidate_key :: "route_candidate \<Rightarrow> int \<times> string \<times> string" where
  "candidate_key c = (cand_priority c, cand_backend_id c, cand_route_candidate_id c)"

definition normalize_candidate :: "route_candidate \<Rightarrow> route_candidate" where
  "normalize_candidate c = c\<lparr>cand_worker_selector := sort_key fst (cand_worker_selector c)\<rparr>"

definition normalize :: "route_plan \<Rightarrow> route_plan result" where
  "normalize p =
     (case sort_key candidate_key (plan_candidates p) of
        [] \<Rightarrow> Inl (IndexError ''list index out of range'')
      | c # cs \<Rightarrow> Inr (p\<lparr>plan_candidates := map normalize_candidate (c # cs),
                            plan_selected_candidate_id := cand_route_candidate_id c\<rparr>))"

section \<open>Validator\<close>

record scan_rules =
  field_fragments :: "string list"
  path_fragments :: "string list"
  backend_id_fragments :: "string list"

definition fragments_at :: "(json \<Rightarrow> string) \<Rightarrow> fields \<Rightarrow> string \<Rightarrow> string list result" where
  "fragments_at repr forbidden key =
     bind_result (py_iter (dget_or (JList []) forbidden key)) (\<lambda>xs. Inr (map (py_str repr) xs))"

definition route_key :: "string \<Rightarrow> string" where
  "route_key k = replace_char CHR ''-'' CHR ''_'' (lower k)"

definition any_in :: "string list \<Rightarrow> string \<Rightarrow> bool" where
  "any_in fragments s \<longleftrightarrow> list_ex (\<lambda>f. occurs_in f s) fragments"

definition check_domains_source :: "fields \<Rightarrow> unit result" where
  "check_domains_source kvs =
     (let source = dget_or JNull kvs ''allowed_domains_source'' in
      if \<not> hashable source then Inl (TypeError ''unhashable type'')
      else check (source \<notin> {JStr ''fetched_content'', JStr ''llm''})
             (RoutePlanValidationError ''LLM/fetched-content generated allowed_domains are denied''))"

definition check_field :: "(json \<Rightarrow> string) \<Rightarrow> scan_rules \<Rightarrow> string \<Rightarrow> string \<Rightarrow> json \<Rightarrow> unit result" where
  "check_field repr sr path k v =
     bind_result (check (\<not> any_in (field_fragments sr) (route_key k))
        (RoutePlanValidationError (''forbidden route field at '' @ path @ ''.'' @ k))) (\<lambda>_.
     check (\<not> (route_key k = ''backend_id'' \<and> any_in (backend_id_fragments sr) (py_str repr v)))
        (RoutePlanValidationError ''OpenAI-compatible proxy route''))"

fun scan :: "(json \<Rightarrow> string) \<Rightarrow> scan_rules \<Rightarrow> json \<Rightarrow> string \<Rightarrow> unit result"
  and scan_fields :: "(json \<Rightarrow> string) \<Rightarrow> scan_rules \<Rightarrow> fields \<Rightarrow> string \<Rightarrow> unit result"
  and scan_items :: "(json \<Rightarrow> string) \<Rightarrow> scan_rules \<Rightarrow> json list \<Rightarrow> nat \<Rightarrow> string \<Rightarrow> unit result" where
  "scan repr sr (JObj kvs) path =
     bind_result (check_domains_source kvs) (\<lambda>_. scan_fields repr sr kvs path)"
| "scan repr sr (JList xs) path = scan_items repr sr xs 0 path"
| "scan repr sr (JStr s) path =
     check (\<not> any_in (path_fragments sr) s) (RoutePlanValidationError ''OpenAI-compatible proxy route'')"
| "scan repr sr v path = Inr ()"
| "scan_fields repr sr [] path = Inr ()"
| "scan_fields repr sr ((k, v) # kvs) path =
     bind_result (check_field repr sr path k v) (\<lambda>_.
     bind_result (scan repr sr v (path @ ''.'' @ k)) (\<lambda>_. scan_fields repr sr kvs path))"
| "scan_items repr sr [] i path = Inr ()"
| "scan_items repr sr (x # xs) i path =
     bind_result (scan repr sr x (path @ ''['' @ show_nat i @ '']'')) (\<lambda>_. scan_items repr sr xs (i + 1) path)"

definition reject_forbidden_shape :: "(json \<Rightarrow> string) \<Rightarrow> loaded_routebook \<Rightarrow> json \<Rightarrow> unit result" where
  "reject_forbidden_shape repr rb payload =
     bind_result (forbidden_routes rb) (\<lambda>forbidden.
     bind_result (fragments_at repr forbidden ''forbidden_field_fragments'') (\<lambda>ff.
     bind_result (fragments_at repr forbidden ''forbidden_path_fragments'') (\<lambda>pf.
     bind_result (fragments_at repr forbidden ''forbidden_backend_id_fragments'') (\<lambda>bf.
     scan repr \<lparr>field_fragments = ff, path_fragments = pf, backend_id_fragments = bf\<rparr> payload ''$''))))"

definition requires_verifier :: "(string \<times> fields) list \<Rightarrow> string \<Rightarrow> bool" where
  "requires_verifier levels level =
     truthy (dget_or (JBool (level \<in> {''L1'', ''L2'', ''L3''})) (dget_or [] levels level) ''requires_verifier_recipe_id'')"

definition validate_verifier :: "loaded_routebook \<Rightarrow> route_plan \<Rightarrow> unit result" where
  "validate_verifier rb p =
     bind_result (task_levels rb) (\<lambda>levels.
     let required = requires_verifier levels (plan_task_level p) in
     bind_result (check (\<not> (required \<and> plan_verifier_recipe_id p = []))
        (RoutePlanValidationError ''L1/L2/L3 RoutePlan requires verifier_recipe_id'')) (\<lambda>_.
     bind_result (verifier_mapping rb) (\<lambda>mapping.
     bind_result (check (\<not> (required \<and> Some (plan_verifier_recipe_id p) \<noteq> dget mapping (plan_task_type p)))
        (RoutePlanValidationError ''RoutePlan verifier_recipe_id does not match routebook'')) (\<lambda>_.
     check (\<not> (required \<and> list_ex (\<lambda>c. cand_verifier_recipe_id c \<in> {None, Some []}) (plan_candidates p)))
        (RoutePlanValidationError ''L1/L2/L3 RouteCandidate requires verifier_recipe_id'')))))"

fun unknown_backend :: "'a result \<Rightarrow> 'a result" where
  "unknown_backend (Inl (KeyError m)) = Inl (RoutePlanValidationError ''unknown backend_id'')"
| "unknown_backend r = r"

definition validate_candidate :: "backend_registry \<Rightarrow> json list \<Rightarrow> route_candidate \<Rightarrow> unit result" where
  "validate_candidate reg forbidden_classes c =
     bind_result (unknown_backend (registry_get reg (cand_backend_id c))) (\<lambda>b.
     bind_result (check (cand_backend_class c = bm_backend_class b)
        (RoutePlanValidationError ''candidate backend_class does not match backend_id'')) (\<lambda>_.
     bind_result (check (JStr (cand_backend_class c) \<notin> set forbidden_classes)
        (RoutePlanValidationError ''forbidden backend_class'')) (\<lambda>_.
     if cand_backend_class c \<in> set api_gateway_backend_classes then
       bind_result (check (dget_or JNull (cand_worker_selector c) ''worker_id'' = JStr control_plane_gateway_worker_id)
          (RoutePlanValidationError ''worker direct API model route is denied'')) (\<lambda>_.
       check (cand_capacity_node_id c = ''capnode:worker:'' @ control_plane_gateway_worker_id)
          (RoutePlanValidationError ''API model gateway route must use control-plane gateway''))
     else Inr ())))"

definition validate_candidates :: "loaded_routebook \<Rightarrow> backend_registry \<Rightarrow> route_plan \<Rightarrow> unit result" where
  "validate_candidates rb reg p =
     bind_result (check (plan_selected_candidate_id p \<in> set (map cand_route_candidate_id (plan_candidates p)))
        (RoutePlanValidationError ''selected_candidate_id is not a candidate'')) (\<lambda>_.
     bind_result (forbidden_routes rb) (\<lambda>forbidden.
     bind_result (py_iter (dget_or (JList []) forbidden ''forbidden_backend_classes'')) (\<lambda>classes.
     if \<not> list_all hashable classes then Inl (TypeError ''unhashable type'')
     else bind_result (map_result (validate_candidate reg classes) (plan_candidates p)) (\<lambda>_. Inr ()))))"

definition validate_route_plan ::
  "(json \<Rightarrow> string) \<Rightarrow> loaded_routebook \<Rightarrow> backend_registry \<Rightarrow> route_plan \<Rightarrow> route_plan result" where
  "validate_route_plan repr rb reg p =
     bind_result (reject_forbidden_shape repr rb (dump_route_plan p)) (\<lambda>_.
     bind_result (validate_verifier rb p) (\<lambda>_.
     bind_result (validate_candidates rb reg p) (\<lambda>_. Inr p)))"

text \<open>\<open>validate_payload\<close>, with pydantic's \<open>model_validate\<close> as an argument.\<close>

definition validate_payload ::
  "(json \<Rightarrow> route_plan result) \<Rightarrow> (json \<Rightarrow> string) \<Rightarrow> loaded_routebook \<Rightarrow> backend_registry \<Rightarrow> fields
   \<Rightarrow> route_plan result" where
  "validate_payload model_validate repr rb reg payload =
     bind_result (reject_forbidden_shape repr rb (JObj payload)) (\<lambda>_.
     bind_result (model_validate (JObj payload)) (validate_route_plan repr rb reg))"

section \<open>Service\<close>

definition route_plan_row_of :: "route_plan \<Rightarrow> route_plan_row" where
  "route_plan_row_of p =
     \<lparr>rp_id = plan_route_plan_id p, rp_work_unit_id = plan_work_unit_id p, rp_status = ''planned'',
      rp_body = canonical (dump_route_plan p), rp_created_at = plan_created_at p\<rparr>"

definition persist_route_plan :: "route_plan \<Rightarrow> unit op" where
  "persist_route_plan p =
     seq (execute (\<lambda>t.
        fk_check (has_row rp_id (route_plans t) (plan_route_plan_id p) \<or> has_row wu_id (work_units t) (plan_work_unit_id p))
          (t\<lparr>route_plans := upsert_row rp_id
             (\<lambda>old. old\<lparr>rp_status := ''planned'', rp_body := canonical (dump_route_plan p)\<rparr>)
             (route_plan_row_of p) (route_plans t)\<rparr>)))
     (modify commit)"

definition risk_level_of :: "(json \<Rightarrow> string) \<Rightarrow> loaded_routebook \<Rightarrow> string \<Rightarrow> string result" where
  "risk_level_of repr rb level =
     bind_result (task_levels rb) (\<lambda>levels.
     Inr (py_str repr (dget_or (JStr ''low'') (dget_or [] levels level) ''risk_level'')))"

definition draft_route_plan ::
  "(json \<Rightarrow> string) \<Rightarrow> loaded_routebook \<Rightarrow> resolver \<Rightarrow> fields \<Rightarrow> string \<Rightarrow> route_plan result" where
  "draft_route_plan repr rb rv work_unit now =
     bind_result (classify_task_level repr work_unit rb) (\<lambda>level.
     bind_result (generate_candidates repr rb rv work_unit level) (\<lambda>candidates.
     bind_result (item work_unit ''task_type'') (\<lambda>ty.
     let task_type = py_str repr ty in
     bind_result (check (candidates \<noteq> []) (ValueError (''no route candidates for task_type: '' @ task_type))) (\<lambda>_.
     bind_result (item work_unit ''work_unit_id'') (\<lambda>wid.
     bind_result (verifier_mapping rb) (\<lambda>mapping.
     bind_result (case dget mapping task_type of None \<Rightarrow> Inl (KeyError task_type) | Some v \<Rightarrow> Inr v) (\<lambda>recipe.
     bind_result (risk_level_of repr rb level) (\<lambda>risk.
     bind_result (policy_hints rb) (\<lambda>hints.
     make_route_plan
       \<lparr>plan_route_plan_id = ''rp_'' @ py_str repr wid @ ''_'' @ task_type, plan_work_unit_id = py_str repr wid,
        plan_task_type = task_type, plan_task_level = level, plan_candidates = candidates,
        plan_selected_candidate_id = cand_route_candidate_id (hd candidates), plan_verifier_recipe_id = recipe,
        plan_risk_level = risk, plan_policy_hints = dget_or [] hints task_type,
        plan_created_at = now, plan_validated_at = None\<rparr>)))))))))"

definition validated_route_plan ::
  "(json \<Rightarrow> string) \<Rightarrow> loaded_routebook \<Rightarrow> resolver \<Rightarrow> fields \<Rightarrow> string \<Rightarrow> route_plan result" where
  "validated_route_plan repr rb rv work_unit now =
     bind_result (draft_route_plan repr rb rv work_unit now) (\<lambda>draft.
     bind_result (normalize draft) (validate_route_plan repr rb (rsv_registry rv)))"

section \<open>The scan is exact\<close>

definition field_ok :: "(json \<Rightarrow> string) \<Rightarrow> scan_rules \<Rightarrow> string \<Rightarrow> json \<Rightarrow> bool" where
  "field_ok repr sr k v \<longleftrightarrow>
     \<not> any_in (field_fragments sr) (route_key k) \<and>
     \<not> (route_key k = ''backend_id'' \<and> any_in (backend_id_fragments sr) (py_str repr v))"

definition source_ok :: "fields \<Rightarrow> bool" where
  "source_ok kvs \<longleftrightarrow>
     hashable (dget_or JNull kvs ''allowed_domains_source'') \<and>
     dget_or JNull kvs ''allowed_domains_source'' \<notin> {JStr ''fetched_content'', JStr ''llm''}"

definition shape_ok :: "(json \<Rightarrow> string) \<Rightarrow> scan_rules \<Rightarrow> json \<Rightarrow> bool" where
  "shape_ok repr sr v \<longleftrightarrow>
     (\<forall>kvs \<in> set (all_objects v). source_ok kvs) \<and>
     (\<forall>(k, x) \<in> set (all_fields v). field_ok repr sr k x) \<and>
     (\<forall>s \<in> set (all_strings v). \<not> any_in (path_fragments sr) s)"

lemma check_field_ok: "check_field repr sr path k v = Inr x \<longleftrightarrow> field_ok repr sr k v"
  by (cases x) (simp add: check_field_def field_ok_def bind_ok_iff)

lemma check_domains_source_ok: "check_domains_source kvs = Inr x \<longleftrightarrow> source_ok kvs"
  by (cases x) (simp add: check_domains_source_def source_ok_def Let_def)

lemma shape_ok_simps [simp]:
  "shape_ok repr sr (JObj kvs) \<longleftrightarrow> source_ok kvs \<and>
     (\<forall>f \<in> set kvs. field_ok repr sr (fst f) (snd f) \<and> shape_ok repr sr (snd f))"
  "shape_ok repr sr (JList xs) \<longleftrightarrow> (\<forall>v \<in> set xs. shape_ok repr sr v)"
  "shape_ok repr sr (JStr s) \<longleftrightarrow> \<not> any_in (path_fragments sr) s"
  "shape_ok repr sr JNull" "shape_ok repr sr (JBool b)" "shape_ok repr sr (JInt i)" "shape_ok repr sr (JFloat q)"
proof -
  show "shape_ok repr sr (JObj kvs) \<longleftrightarrow> source_ok kvs \<and>
     (\<forall>f \<in> set kvs. field_ok repr sr (fst f) (snd f) \<and> shape_ok repr sr (snd f))"
    unfolding shape_ok_def by (simp add: split_beta ball_Un) blast
  show "shape_ok repr sr (JList xs) \<longleftrightarrow> (\<forall>v \<in> set xs. shape_ok repr sr v)"
    unfolding shape_ok_def by (simp add: split_beta) blast
qed (simp_all add: shape_ok_def)

lemma scan_ok_iff:
  "scan repr sr v path = Inr x \<longleftrightarrow> shape_ok repr sr v"
  "scan_fields repr sr kvs path = Inr x \<longleftrightarrow>
     (\<forall>f \<in> set kvs. field_ok repr sr (fst f) (snd f) \<and> shape_ok repr sr (snd f))"
  "scan_items repr sr xs i path = Inr x \<longleftrightarrow> (\<forall>v \<in> set xs. shape_ok repr sr v)"
  by (induction repr sr v path and repr sr kvs path and repr sr xs i path rule: scan_scan_fields_scan_items.induct)
    (auto simp: bind_ok_iff check_field_ok check_domains_source_ok)

section \<open>What the validator accepts\<close>

definition candidate_ok :: "backend_registry \<Rightarrow> json list \<Rightarrow> route_candidate \<Rightarrow> bool" where
  "candidate_ok reg forbidden_classes c \<longleftrightarrow>
     (\<exists>b. registry_get reg (cand_backend_id c) = Inr b \<and> cand_backend_class c = bm_backend_class b) \<and>
     JStr (cand_backend_class c) \<notin> set forbidden_classes \<and>
     (cand_backend_class c \<in> set api_gateway_backend_classes \<longrightarrow>
        dget_or JNull (cand_worker_selector c) ''worker_id'' = JStr control_plane_gateway_worker_id \<and>
        cand_capacity_node_id c = worker_node_id control_plane_gateway_worker_id)"

definition verifier_ok :: "(string \<times> fields) list \<Rightarrow> (string \<times> string) list \<Rightarrow> route_plan \<Rightarrow> bool" where
  "verifier_ok levels mapping p \<longleftrightarrow>
     (requires_verifier levels (plan_task_level p) \<longrightarrow>
        plan_verifier_recipe_id p \<noteq> [] \<and> dget mapping (plan_task_type p) = Some (plan_verifier_recipe_id p) \<and>
        (\<forall>c \<in> set (plan_candidates p). \<exists>v. cand_verifier_recipe_id c = Some v \<and> v \<noteq> []))"

definition guardrails :: "(json \<Rightarrow> string) \<Rightarrow> loaded_routebook \<Rightarrow> backend_registry \<Rightarrow> route_plan \<Rightarrow> bool" where
  "guardrails repr rb reg p \<longleftrightarrow>
     (\<exists>forbidden ff pf bf classes levels mapping.
        forbidden_routes rb = Inr forbidden \<and>
        fragments_at repr forbidden ''forbidden_field_fragments'' = Inr ff \<and>
        fragments_at repr forbidden ''forbidden_path_fragments'' = Inr pf \<and>
        fragments_at repr forbidden ''forbidden_backend_id_fragments'' = Inr bf \<and>
        py_iter (dget_or (JList []) forbidden ''forbidden_backend_classes'') = Inr classes \<and> list_all hashable classes \<and>
        task_levels rb = Inr levels \<and> verifier_mapping rb = Inr mapping \<and>
        shape_ok repr \<lparr>field_fragments = ff, path_fragments = pf, backend_id_fragments = bf\<rparr> (dump_route_plan p) \<and>
        verifier_ok levels mapping p \<and>
        plan_selected_candidate_id p \<in> cand_route_candidate_id ` set (plan_candidates p) \<and>
        (\<forall>c \<in> set (plan_candidates p). candidate_ok reg classes c))"

lemma unknown_backend_ok [simp]: "unknown_backend r = Inr x \<longleftrightarrow> r = Inr x"
  by (cases r rule: unknown_backend.cases) auto

lemma validate_candidate_ok: "validate_candidate reg classes c = Inr x \<longleftrightarrow> candidate_ok reg classes c"
  by (cases x) (auto simp: validate_candidate_def candidate_ok_def bind_ok_iff worker_node_id_def)

lemma validate_candidates_ok:
  "validate_candidates rb reg p = Inr x \<longleftrightarrow>
     plan_selected_candidate_id p \<in> cand_route_candidate_id ` set (plan_candidates p) \<and>
     (\<exists>forbidden classes. forbidden_routes rb = Inr forbidden \<and>
        py_iter (dget_or (JList []) forbidden ''forbidden_backend_classes'') = Inr classes \<and> list_all hashable classes \<and>
        (\<forall>c \<in> set (plan_candidates p). candidate_ok reg classes c))"
proof -
  have *: "(\<exists>ys. map_result (validate_candidate reg classes) cs = Inr ys) \<longleftrightarrow> (\<forall>c \<in> set cs. candidate_ok reg classes c)"
    for classes cs by (simp add: map_result_ok_iff validate_candidate_ok)
  show ?thesis by (cases x) (auto simp: validate_candidates_def bind_ok_iff * split: if_splits)
qed

lemma validate_verifier_ok:
  "validate_verifier rb p = Inr x \<longleftrightarrow>
     (\<exists>levels mapping. task_levels rb = Inr levels \<and> verifier_mapping rb = Inr mapping \<and> verifier_ok levels mapping p)"
proof -
  have *: "(\<forall>c \<in> set cs. cand_verifier_recipe_id c \<noteq> None \<and> cand_verifier_recipe_id c \<noteq> Some []) \<longleftrightarrow>
     (\<forall>c \<in> set cs. \<exists>v. cand_verifier_recipe_id c = Some v \<and> v \<noteq> [])" for cs
    by (metis not_None_eq option.inject)
  show ?thesis
    by (cases x) (auto simp: validate_verifier_def bind_ok_iff Let_def verifier_ok_def list_ex_iff * [symmetric])
qed

lemma reject_forbidden_shape_ok:
  "reject_forbidden_shape repr rb v = Inr x \<longleftrightarrow>
     (\<exists>forbidden ff pf bf. forbidden_routes rb = Inr forbidden \<and>
        fragments_at repr forbidden ''forbidden_field_fragments'' = Inr ff \<and>
        fragments_at repr forbidden ''forbidden_path_fragments'' = Inr pf \<and>
        fragments_at repr forbidden ''forbidden_backend_id_fragments'' = Inr bf \<and>
        shape_ok repr \<lparr>field_fragments = ff, path_fragments = pf, backend_id_fragments = bf\<rparr> v)"
  by (simp add: reject_forbidden_shape_def bind_ok_iff scan_ok_iff)

lemma validate_ok_iff: "validate_route_plan repr rb reg p = Inr q \<longleftrightarrow> q = p \<and> guardrails repr rb reg p"
proof -
  have "validate_route_plan repr rb reg p = Inr q \<longleftrightarrow> q = p \<and> reject_forbidden_shape repr rb (dump_route_plan p) = Inr () \<and>
     validate_verifier rb p = Inr () \<and> validate_candidates rb reg p = Inr ()"
    by (auto simp: validate_route_plan_def bind_ok_iff)
  then show ?thesis
    unfolding reject_forbidden_shape_ok validate_verifier_ok validate_candidates_ok guardrails_def
    by (metis (no_types, lifting) Inr_inject)
qed

section \<open>The normaliser\<close>

lemma normalize_ok:
  assumes "normalize p = Inr q"
  shows "plan_candidates q = map normalize_candidate (sort_key candidate_key (plan_candidates p))"
    and "plan_candidates q \<noteq> []"
    and "plan_selected_candidate_id q = cand_route_candidate_id (hd (plan_candidates q))"
    and "q = p\<lparr>plan_candidates := plan_candidates q, plan_selected_candidate_id := plan_selected_candidate_id q\<rparr>"
  using assms by (auto simp: normalize_def normalize_candidate_def split: list.splits)

lemma candidate_key_normalize [simp]: "candidate_key (normalize_candidate c) = candidate_key c"
  by (simp add: candidate_key_def normalize_candidate_def)

lemma normalize_candidate_idem [simp]: "normalize_candidate (normalize_candidate c) = normalize_candidate c"
  by (simp add: normalize_candidate_def sort_key_id_if_sorted)

lemma normalize_sorted:
  assumes "normalize p = Inr q"
  shows "sorted (map candidate_key (plan_candidates q))"
  using normalize_ok(1) [OF assms] by (simp add: o_def)

lemma normalize_again:
  assumes "normalize p = Inr q"
  shows "normalize q = Inr q"
proof -
  have "sort_key candidate_key (plan_candidates q) = plan_candidates q"
    by (rule sort_key_id_if_sorted) (rule normalize_sorted [OF assms])
  moreover have "map normalize_candidate (plan_candidates q) = plan_candidates q"
    using normalize_ok(1) [OF assms] by simp
  ultimately show ?thesis
    using normalize_ok(2,3) [OF assms]
    by (cases "plan_candidates q") (simp_all add: normalize_def)
qed

lemma normalize_order:
  assumes "mset (plan_candidates p') = mset (plan_candidates p)" and "inj_on candidate_key (set (plan_candidates p))"
  shows "sort_key candidate_key (plan_candidates p') = sort_key candidate_key (plan_candidates p)"
proof (rule sort_key_inj_key_eq)
  show "mset (plan_candidates p') = mset (sort_key candidate_key (plan_candidates p))" using assms(1) by simp
  show "inj_on candidate_key (set (plan_candidates p'))" using assms mset_eq_setD by metis
qed simp

text \<open>C29. The normal form of a plan is canonical. It has the plan's candidates up to order, in the order of
  priority, backend and candidate id; the selected candidate is the first of them; normalising again changes
  nothing; and a plan that lists the same candidates in another order has the same normal form, as long as no
  two of them agree in all three keys.\<close>

theorem normal_form_canonical:
  assumes "normalize p = Inr q"
  shows "mset (plan_candidates q) = mset (map normalize_candidate (plan_candidates p)) \<and>
    sorted (map candidate_key (plan_candidates q)) \<and>
    plan_selected_candidate_id q = cand_route_candidate_id (hd (plan_candidates q)) \<and>
    normalize q = Inr q \<and>
    (\<forall>cs selected. inj_on candidate_key (set (plan_candidates p)) \<longrightarrow> mset cs = mset (plan_candidates p) \<longrightarrow>
       normalize (p\<lparr>plan_candidates := cs, plan_selected_candidate_id := selected\<rparr>) = Inr q)"
proof -
  have "normalize (p\<lparr>plan_candidates := cs, plan_selected_candidate_id := selected\<rparr>) = Inr q"
    if "inj_on candidate_key (set (plan_candidates p))" "mset cs = mset (plan_candidates p)" for cs selected
    using normalize_order [of "p\<lparr>plan_candidates := cs, plan_selected_candidate_id := selected\<rparr>" p] that assms
    by (auto simp: normalize_def split: list.splits)
  then show ?thesis
    using normalize_ok [OF assms] normalize_sorted [OF assms] normalize_again [OF assms] by simp
qed

definition sample_candidate :: "string \<Rightarrow> int \<Rightarrow> route_candidate" where
  "sample_candidate i priority =
     \<lparr>cand_route_candidate_id = i, cand_capacity_node_id = ''capnode:worker:wrk_1'',
      cand_backend_class = ''local_tool'', cand_backend_id = ''b'',
      cand_worker_selector = [(''selector_type'', JStr ''worker_id''), (''worker_id'', JStr ''wrk_1'')],
      cand_priority = priority, cand_estimated_cost_micros = 0, cand_verifier_recipe_id = Some ''v'',
      cand_policy_hints = []\<rparr>"

definition sample_plan :: "route_candidate list \<Rightarrow> route_plan" where
  "sample_plan cs =
     \<lparr>plan_route_plan_id = ''rp_1'', plan_work_unit_id = ''wu_1'', plan_task_type = ''dedup'',
      plan_task_level = ''L1'', plan_candidates = cs, plan_selected_candidate_id = ''r1'',
      plan_verifier_recipe_id = ''v'', plan_risk_level = ''low'', plan_policy_hints = [],
      plan_created_at = ''t'', plan_validated_at = None\<rparr>"

lemma sample_normalize:
  "normalize (sample_plan [sample_candidate ''r2'' 2, sample_candidate ''r1'' 1])
     = Inr (sample_plan [sample_candidate ''r1'' 1, sample_candidate ''r2'' 2])"
  by (simp add: normalize_def sample_plan_def sample_candidate_def normalize_candidate_def candidate_key_def
      less_eq_char_def less_char_def)

theorem normal_form_canonical_witness:
  "normalize (sample_plan [sample_candidate ''r1'' 1, sample_candidate ''r2'' 2])
     = Inr (sample_plan [sample_candidate ''r1'' 1, sample_candidate ''r2'' 2])"
  using normal_form_canonical [OF sample_normalize] by blast

section \<open>Planned routes\<close>

lemma make_route_candidate_ok:
  assumes "make_route_candidate c = Inr d"
  shows "cand_backend_class d = cand_backend_class c" "cand_backend_id d = strip (cand_backend_id c)"
    "cand_capacity_node_id d = strip (cand_capacity_node_id c)"
    "cand_worker_selector d = cand_worker_selector c" "1 \<le> cand_priority d" "cand_priority d = cand_priority c"
  using assms by (auto simp: make_route_candidate_def bind_ok_iff non_empty_str_def split: if_splits)

lemma make_route_plan_ok: "make_route_plan p = Inr q \<Longrightarrow> plan_candidates q = plan_candidates p"
  by (auto simp: make_route_plan_def bind_ok_iff)

definition candidate_of :: "resolver \<Rightarrow> route_candidate \<Rightarrow> bool" where
  "candidate_of rv c \<longleftrightarrow>
     (\<exists>b \<in> set (rsv_registry rv). \<exists>m \<in> snd ` set (rsv_workers rv).
        may_offer m b \<and> cand_backend_class c = bm_backend_class b \<and> cand_backend_id c = strip (bm_backend_id b) \<and>
        cand_capacity_node_id c = strip (worker_node_id (wkm_worker_id m)) \<and>
        cand_worker_selector c = worker_selector (Some (wkm_worker_id m)) \<and>
        (rsv_allowed_backend_ids rv = [] \<or> bm_backend_id b \<in> set (rsv_allowed_backend_ids rv)) \<and>
        (rsv_allowed_backend_classes rv = [] \<or> bm_backend_class b \<in> set (rsv_allowed_backend_classes rv)) \<and>
        1 \<le> cand_priority c)"

lemma generate_candidate_ok:
  assumes "generate_candidate repr rv level v hints rule = Inr c"
  shows "candidate_of rv c"
proof -
  obtain r rule_id priority and b0 :: backend_manifest where r: "resolve repr rv (dput ''task_level'' (JStr level) rule) None = Inr r"
    and mk: "make_route_candidate
       \<lparr>cand_route_candidate_id = py_str repr rule_id, cand_capacity_node_id = rs_capacity_node_id r,
        cand_backend_class = rs_backend_class r, cand_backend_id = rs_backend_id r,
        cand_worker_selector = worker_selector (rs_worker_id r), cand_priority = priority,
        cand_estimated_cost_micros = cm_estimated_cost_micros (bm_cost_model b0),
        cand_verifier_recipe_id = v, cand_policy_hints = hints\<rparr> = Inr c"
    using assms by (auto simp only: generate_candidate_def bind_ok_iff)
  obtain b m where bm: "b \<in> set (rsv_registry rv)" "m \<in> snd ` set (rsv_workers rv)" "may_offer m b" "r = resolution_of b m"
    "rsv_allowed_backend_ids rv = [] \<or> bm_backend_id b \<in> set (rsv_allowed_backend_ids rv)"
    "rsv_allowed_backend_classes rv = [] \<or> bm_backend_class b \<in> set (rsv_allowed_backend_classes rv)"
    using resolve_ok [OF r] by metis
  then show ?thesis
    unfolding candidate_of_def
    using make_route_candidate_ok [OF mk]
    by (intro bexI [OF _ bm(1)] bexI [OF _ bm(2)]) (simp add: resolution_of_def worker_node_id_def)
qed

lemma generate_candidates_ok:
  "generate_candidates repr rb rv work_unit level = Inr cs \<Longrightarrow> c \<in> set cs \<Longrightarrow> candidate_of rv c"
  by (auto simp: generate_candidates_def bind_ok_iff Let_def dest!: map_result_set dest: generate_candidate_ok)

lemma draft_ok:
  "draft_route_plan repr rb rv work_unit now = Inr p \<Longrightarrow> c \<in> set (plan_candidates p) \<Longrightarrow> candidate_of rv c"
  by (auto simp: draft_route_plan_def bind_ok_iff Let_def dest!: make_route_plan_ok intro: generate_candidates_ok)

lemma worker_selector_sorted: "sort_key fst (worker_selector x) = worker_selector x"
  by (cases x) (simp_all add: worker_selector_def less_eq_char_def less_char_def)

lemma candidate_of_normalize:
  assumes "candidate_of rv c"
  shows "candidate_of rv (normalize_candidate c)"
proof -
  obtain x where "cand_worker_selector c = worker_selector x"
    using assms by (auto simp: candidate_of_def)
  then have "normalize_candidate c = c" by (simp add: normalize_candidate_def worker_selector_sorted)
  with assms show ?thesis by simp
qed

lemma validated_route_plan_ok:
  assumes "validated_route_plan repr rb rv work_unit now = Inr p"
  shows "plan_candidates p \<noteq> [] \<and>
    plan_selected_candidate_id p = cand_route_candidate_id (hd (plan_candidates p)) \<and>
    sorted (map candidate_key (plan_candidates p)) \<and>
    (\<forall>c \<in> set (plan_candidates p). candidate_of rv c) \<and>
    guardrails repr rb (rsv_registry rv) p"
proof -
  obtain draft where d: "draft_route_plan repr rb rv work_unit now = Inr draft" "normalize draft = Inr p"
    "validate_route_plan repr rb (rsv_registry rv) p = Inr p"
    using assms by (auto simp: validated_route_plan_def bind_ok_iff validate_ok_iff)
  have "\<forall>c \<in> set (plan_candidates p). candidate_of rv c"
    using normalize_ok(1) [OF d(2)] draft_ok [OF d(1)] candidate_of_normalize by auto
  then show ?thesis
    using normalize_ok(2,3) [OF d(2)] normalize_sorted [OF d(2)] d(3) by (simp add: validate_ok_iff)
qed

definition sample_routebook :: loaded_routebook where
  "sample_routebook =
     \<lparr>rb_root = ''routebook'', rb_documents =
        [(''task_types'', [(''task_types'', JList [JObj [(''task_type'', JStr ''dedup''), (''default_task_level'', JStr ''L1'')]])]),
         (''task_levels'', []),
         (''backend_classes'', [(''candidate_rules'', JList [JObj [(''rule_id'', JStr ''r1''), (''task_type'', JStr ''dedup''),
            (''backend_class'', JStr ''local_tool''), (''backend_id'', JStr ''b''), (''priority'', JInt 1)]])]),
         (''verifier_mapping'', [(''verifier_mapping'', JObj [(''dedup'', JStr ''v'')])]),
         (''policy_hints'', []),
         (''forbidden_routes'', [(''forbidden_routes'', JObj [(''forbidden_path_fragments'', JList [JStr ''/v1/responses''])])])],
      rb_content_hashes = []\<rparr>"

abbreviation sample_route_request :: fields where
  "sample_route_request \<equiv> [(''work_unit_id'', JStr ''wu_1''), (''task_type'', JStr ''dedup'')]"

abbreviation sample_rule :: fields where
  "sample_rule \<equiv> [(''rule_id'', JStr ''r1''), (''task_type'', JStr ''dedup''), (''backend_class'', JStr ''local_tool''),
     (''backend_id'', JStr ''b''), (''priority'', JInt 1)]"

lemma sample_views:
  "task_types sample_routebook = Inr [[(''task_type'', JStr ''dedup''), (''default_task_level'', JStr ''L1'')]]"
  "task_levels sample_routebook = Inr []" "candidate_rules sample_routebook = Inr [sample_rule]"
  "verifier_mapping sample_routebook = Inr [(''dedup'', ''v'')]" "policy_hints sample_routebook = Inr []"
  "forbidden_routes sample_routebook = Inr [(''forbidden_path_fragments'', JList [JStr ''/v1/responses''])]"
  by (simp_all add: view_defs sample_routebook_def dget_or_def)

lemma sample_generated:
  "generate_candidates repr sample_routebook sample_resolver sample_route_request ''L1'' = Inr [sample_candidate ''r1'' 1]"
proof -
  have "matching_candidate_rules repr sample_routebook ''dedup'' = Inr [sample_rule]"
    by (simp add: matching_candidate_rules_def sample_views rule_priority_def dget_or_def)
  moreover have "resolve repr sample_resolver (dput ''task_level'' (JStr ''L1'') sample_rule) None = Inr
      (resolution_of (sample_backend ''b'' ''local_tool'' ''local_machine'') (sample_worker ''wrk_1'' [''b''] [''local_tool'']))"
    by (rule sample_resolution) simp_all
  moreover have "registry_get (rsv_registry sample_resolver) ''b'' = Inr (sample_backend ''b'' ''local_tool'' ''local_machine'')"
    by (simp add: registry_get_def sample_resolver_def make_resolver_def sample_backend_def)
  ultimately have "generate_candidate repr sample_resolver ''L1'' (Some ''v'') [] sample_rule = Inr (sample_candidate ''r1'' 1)"
    by (simp add: generate_candidate_def rule_priority_def dget_or_def make_route_candidate_def non_empty_str_def
        strip_def blank_def check_def backend_classes_const_def resolution_of_def sample_backend_def sample_worker_def
        worker_selector_def sample_candidate_def)
  with \<open>matching_candidate_rules _ _ _ = _\<close> show ?thesis
    by (simp add: generate_candidates_def sample_views dget_or_def)
qed

lemma sample_candidate_id: "cand_route_candidate_id (sample_candidate i n) = i"
  by (simp add: sample_candidate_def)

lemma sample_drafted:
  "draft_route_plan repr sample_routebook sample_resolver sample_route_request now
     = Inr (sample_plan [sample_candidate ''r1'' 1]\<lparr>plan_route_plan_id := ''rp_wu_1_dedup'', plan_created_at := now\<rparr>)"
  by (simp add: draft_route_plan_def classify_task_level_def task_type_entry_def sample_views dget_or_def sample_generated
      risk_level_of_def make_route_plan_def non_empty_str_def strip_def blank_def check_def task_levels_const_def
      route_risk_levels_def sample_plan_def sample_candidate_id Let_def)

lemma sample_validated:
  "validated_route_plan repr sample_routebook sample_resolver sample_route_request ''2026-01-01T00:00:00Z'' =
     Inr (sample_plan [sample_candidate ''r1'' 1]\<lparr>plan_route_plan_id := ''rp_wu_1_dedup'',
       plan_created_at := ''2026-01-01T00:00:00Z''\<rparr>)"
  (is "_ = Inr ?p")
proof -
  have "normalize ?p = Inr ?p"
    by (simp add: normalize_def sample_plan_def sample_candidate_def normalize_candidate_def less_eq_char_def less_char_def)
  moreover have "reject_forbidden_shape repr sample_routebook (dump_route_plan ?p) = Inr ()"
    by (simp add: reject_forbidden_shape_def sample_views fragments_at_def dget_or_def dump_route_plan_def
        dump_route_candidate_def sample_plan_def sample_candidate_def check_domains_source_def check_field_def check_def
        any_in_def)
  moreover have "validate_verifier sample_routebook ?p = Inr ()"
    by (simp add: validate_verifier_def sample_views sample_plan_def sample_candidate_def check_def)
  moreover have "validate_candidates sample_routebook (rsv_registry sample_resolver) ?p = Inr ()"
    by (simp add: validate_candidates_def sample_views sample_plan_def sample_candidate_def check_def validate_candidate_def
        registry_get_def sample_resolver_def make_resolver_def sample_backend_def api_gateway_backend_classes_def dget_or_def)
  ultimately show ?thesis
    by (simp add: validated_route_plan_def sample_drafted validate_route_plan_def)
qed

text \<open>C26. The validator accepts exactly the plans inside the guardrails: no object, field or string of the
  dumped plan at any depth has a forbidden shape, the verifier recipe is the routebook's wherever the task level
  asks for one, the selected candidate is one of the candidates, and every candidate names a known backend of
  its own class that is not forbidden, with model gateways only on the control plane's own worker and node. It
  returns the plan it was given.\<close>

theorem validator_exact: "validate_route_plan repr rb reg p = Inr q \<longleftrightarrow> q = p \<and> guardrails repr rb reg p"
  by (rule validate_ok_iff)

text \<open>Persisting a plan is an upsert. It succeeds exactly when the plan is already stored or its work unit
  exists; then the committed table holds the plan's body under its id as planned, keeps the creation time and the
  work unit of an earlier version, and every other plan and the key's uniqueness are kept. Otherwise nothing is
  committed.\<close>

theorem persist_is_upsert:
  assumes "idle w" and "pk_unique rp_id (route_plans (committed w))" and "persist_route_plan p w = (r, w')"
  shows "(r = Inr () \<longleftrightarrow> has_row rp_id (route_plans (committed w)) (plan_route_plan_id p) \<or>
            has_row wu_id (work_units (committed w)) (plan_work_unit_id p)) \<and>
    (if r = Inr () then idle w' \<and> pk_unique rp_id (route_plans (committed w')) \<and>
       (\<forall>i. find_row rp_id (route_plans (committed w')) i =
          (if i = plan_route_plan_id p
           then Some (case find_row rp_id (route_plans (committed w)) i of
                  None \<Rightarrow> route_plan_row_of p
                | Some old \<Rightarrow> old\<lparr>rp_status := ''planned'', rp_body := canonical (dump_route_plan p)\<rparr>)
           else find_row rp_id (route_plans (committed w)) i))
     else committed w' = committed w)"
proof (cases "has_row rp_id (route_plans (committed w)) (plan_route_plan_id p) \<or>
    has_row wu_id (work_units (committed w)) (plan_work_unit_id p)")
  case True
  let ?f = "\<lambda>old. old\<lparr>rp_status := ''planned'', rp_body := canonical (dump_route_plan p)\<rparr>"
  let ?t = "upsert_row rp_id ?f (route_plan_row_of p) (route_plans (committed w))"
  have "r = Inr ()" "idle w'" "route_plans (committed w') = ?t"
    using assms(1,3) True
    by (auto simp: persist_route_plan_def run_seq run_execute fk_check_def idle_def commit_def)
  moreover have "pk_unique rp_id ?t" by (rule pk_unique_upsert) (simp_all add: assms(2))
  moreover have "rp_id (route_plan_row_of p) = plan_route_plan_id p" by (simp add: route_plan_row_of_def)
  ultimately show ?thesis using True by (simp add: find_row_upsert)
next
  case False
  then show ?thesis
    using assms(1,3) by (auto simp: persist_route_plan_def run_seq run_execute fk_check_def idle_def)
qed

definition stored_unit :: world where
  "stored_unit =
     (let t = empty_tables\<lparr>work_units := [\<lparr>wu_id = ''wu_1'', wu_run_id = ''run_1'', wu_status = WU_submitted,
            wu_task_type = ''dedup'', wu_task_level = ''L1'', wu_body = JNull, wu_created_at = ''t'', wu_updated_at = ''t''\<rparr>]\<rparr>
      in empty_world\<lparr>committed := t, current := t\<rparr>)"

theorem persist_is_upsert_witness:
  "case persist_route_plan (sample_plan []) stored_unit of (r, w') \<Rightarrow>
     r = Inr () \<and> idle w' \<and>
     find_row rp_id (route_plans (committed w')) ''rp_1'' = Some (route_plan_row_of (sample_plan []))"
proof -
  obtain r w' where run: "persist_route_plan (sample_plan []) stored_unit = (r, w')" by fastforce
  have "idle stored_unit" "pk_unique rp_id (route_plans (committed stored_unit))"
    by (simp_all add: idle_def stored_unit_def Let_def pk_unique_def empty_world_def empty_tables_def)
  note stored = persist_is_upsert [OF this run]
  have "plan_route_plan_id (sample_plan []) = ''rp_1''" "plan_work_unit_id (sample_plan []) = ''wu_1''"
    by (simp_all add: sample_plan_def)
  moreover have "route_plans (committed stored_unit) = []" "has_row wu_id (work_units (committed stored_unit)) ''wu_1''"
    "find_row rp_id ([] :: route_plan_row list) ''rp_1'' = None"
    by (simp_all add: stored_unit_def empty_tables_def Let_def has_row_def find_row_def)
  ultimately show ?thesis using stored by (simp add: run)
qed

end
