(* ===== verification/Config.thy ===== *)
theory Config
  imports Router
begin

text \<open>
  The configuration (\<open>src/tokenbank/config_runtime/loader.py\<close>, \<open>runtime_mode.py\<close>, \<open>validator.py\<close>) and what is
  built from it: backend manifests, the backend registry and the resolver (\<open>backends/registry.py\<close>,
  \<open>backends/resolver.py\<close>), worker manifests (\<open>app/bootstrap.py\<close>).

  Parsed YAML files are an argument. Pydantic's constructors are arguments too: \<open>mk\<close> receives the keyword
  arguments as a JSON object, the nested models as nested objects. A value whose shape is not the annotated one is
  refused with TypeError; sets have string elements.
\<close>

section \<open>Loading\<close>

record loaded_config =
  cfg_root :: string
  cfg_documents :: "(string \<times> fields) list"
  cfg_content_hashes :: "(string \<times> string) list"

definition required_config_files :: "string list" where
  "required_config_files =
     [''provider_policy'', ''data_policy'', ''sandbox_profile'', ''egress_policy'', ''backend_policy'',
      ''redaction_policy'', ''backend_registry'', ''capacity_registry'', ''runtime'']"

definition config_yaml_file :: "string \<Rightarrow> json \<Rightarrow> fields result" where
  "config_yaml_file path v =
     (case (if truthy v then v else JObj []) of
        JObj d \<Rightarrow> Inr d
      | _ \<Rightarrow> Inl (ValueError (''Config file must contain a mapping: '' @ path)))"

definition load_config_documents :: "string \<Rightarrow> yaml_dir \<Rightarrow> (string \<times> fields) list result" where
  "load_config_documents dir files =
     map_result (\<lambda>stem. let path = dir @ ''/'' @ stem @ ''.yaml'' in
       case files (stem @ ''.yaml'') of
         None \<Rightarrow> Inl (FileNotFoundError (''Missing required config file: '' @ path))
       | Some v \<Rightarrow> bind_result (config_yaml_file path v) (\<lambda>d. Inr (stem, d))) required_config_files"

text \<open>\<open>pricing\<close> holds the files of the directory \<open>pricing\<close>, none when it does not exist.\<close>

definition load_config_dir :: "platform \<Rightarrow> string \<Rightarrow> yaml_dir \<Rightarrow> (string \<times> json) list \<Rightarrow> loaded_config result" where
  "load_config_dir p dir files pricing =
     bind_result (load_config_documents dir files) (\<lambda>docs.
     bind_result (map_result (\<lambda>(name, v).
         bind_result (config_yaml_file (dir @ ''/pricing/'' @ name) v) (\<lambda>d. Inr (name, d))) (sort_key fst pricing)) (\<lambda>prices.
     Inr \<lparr>cfg_root = dir,
          cfg_documents = docs @ [(''pricing'', [(''documents'', JList (map (\<lambda>(_, d). JObj d) prices))])],
          cfg_content_hashes = document_hashes p docs @
            map (\<lambda>(name, d). (''pricing/'' @ name, canonical_json_hash (sha256 p) (float_repr p) (JObj d))) prices\<rparr>))"

section \<open>Runtime modes\<close>

datatype runtime_mode = Demo | Internal_secure | Alpha

fun runtime_mode_of :: "json \<Rightarrow> runtime_mode result" where
  "runtime_mode_of (JStr s) =
     (if s = ''demo'' then Inr Demo else if s = ''internal_secure'' then Inr Internal_secure
      else if s = ''alpha'' then Inr Alpha else Inl (ValueError ''not a valid RuntimeMode''))"
| "runtime_mode_of v = Inl (ValueError ''not a valid RuntimeMode'')"

fun runtime_mode_defaults :: "runtime_mode \<Rightarrow> (string \<times> bool) list" where
  "runtime_mode_defaults Demo =
     [(''localhost_lan_only'', True), (''static_tokens_allowed'', True), (''foreground_worker'', True),
      (''strict_report_redaction'', False)]"
| "runtime_mode_defaults Internal_secure =
     [(''localhost_lan_only'', True), (''static_tokens_allowed'', False), (''foreground_worker'', True),
      (''strict_report_redaction'', True)]"
| "runtime_mode_defaults Alpha =
     [(''localhost_lan_only'', False), (''static_tokens_allowed'', False), (''foreground_worker'', False),
      (''strict_report_redaction'', True)]"

section \<open>Views\<close>

definition section_of :: "loaded_config \<Rightarrow> string \<Rightarrow> string \<Rightarrow> fields result" where
  "section_of cfg file key = bind_result (doc (cfg_documents cfg) file) (\<lambda>d. as_dict (dget_or (JObj []) d key))"

definition dict_list :: "fields \<Rightarrow> string \<Rightarrow> fields list result" where
  "dict_list d key = bind_result (py_iter (dget_or (JList []) d key)) (map_result as_dict)"

definition str_set :: "fields \<Rightarrow> string \<Rightarrow> string list result" where
  "str_set d key = bind_result (py_iter (dget_or (JList []) d key)) (map_result as_string)"

definition config_runtime_mode :: "loaded_config \<Rightarrow> runtime_mode result" where
  "config_runtime_mode cfg = bind_result (section_of cfg ''runtime'' ''runtime'') (\<lambda>d.
     runtime_mode_of (dget_or (JStr ''demo'') d ''runtime_mode''))"

definition registry_entries :: "loaded_config \<Rightarrow> fields list result" where
  "registry_entries cfg = bind_result (section_of cfg ''backend_registry'' ''backend_registry'') (\<lambda>d. dict_list d ''backends'')"

definition verifier_recipe_entries :: "loaded_config \<Rightarrow> fields list result" where
  "verifier_recipe_entries cfg = bind_result (doc (cfg_documents cfg) ''runtime'') (\<lambda>d. dict_list d ''verifier_recipes'')"

definition pricing_entries :: "loaded_config \<Rightarrow> fields list result" where
  "pricing_entries cfg =
     bind_result (doc (cfg_documents cfg) ''pricing'') (\<lambda>d.
     bind_result (dict_list d ''documents'') (\<lambda>docs.
     bind_result (map_result (\<lambda>doc. bind_result (as_dict (dget_or (JObj []) doc ''pricing'')) (\<lambda>p. dict_list p ''backend_prices'')) docs)
       (\<lambda>prices. Inr (concat prices))))"

section \<open>Manifests from the configuration\<close>

text \<open>The keyword arguments of \<open>BackendManifest\<close>; \<open>health\<close> gives those of \<open>BackendHealth\<close>.\<close>

definition manifest_arguments :: "(json \<Rightarrow> string) \<Rightarrow> (fields \<Rightarrow> string \<Rightarrow> fields result) \<Rightarrow> fields \<Rightarrow> fields result" where
  "manifest_arguments repr health payload =
     bind_result (item payload ''backend_id'') (\<lambda>bid. let backend_id = py_str repr bid in
     bind_result (item payload ''backend_class'') (\<lambda>backend_class.
     bind_result (item payload ''capacity_node_id'') (\<lambda>node_id.
     bind_result (item payload ''execution_location'') (\<lambda>location.
     bind_result (item payload ''manifest_hash'') (\<lambda>hash.
     bind_result (health payload backend_id) (\<lambda>health_arguments.
     bind_result (as_dict (dget_or (JObj []) payload ''cost_model'')) (\<lambda>cost_model.
     bind_result (py_int (dget_or (JInt 0) cost_model ''estimated_cost_micros'')) (\<lambda>cost.
     Inr [(''backend_id'', JStr backend_id), (''backend_class'', backend_class), (''capacity_node_id'', node_id),
          (''display_name'', dget_or (JStr backend_id) payload ''display_name''),
          (''version'', dget_or (JStr ''v0'') payload ''version''),
          (''supported_task_types'', dget_or (JList []) payload ''supported_task_types''),
          (''allowed_privacy_levels'', dget_or (JList [JStr ''private'']) payload ''allowed_privacy_levels''),
          (''execution_location'', location), (''manifest_hash'', hash), (''health'', JObj health_arguments),
          (''cost_model'', JObj [(''estimated_cost_micros'', JInt cost),
             (''cost_source'', dget_or (JStr ''policy_default'') cost_model ''cost_source'')]),
          (''policy_constraints'', dget_or (JObj []) payload ''policy_constraints'')]))))))))"

definition validation_health :: "fields \<Rightarrow> string \<Rightarrow> fields result" where
  "validation_health payload backend_id =
     Inr [(''backend_id'', JStr backend_id), (''status'', dget_or (JStr ''healthy'') payload ''health_status'')]"

definition registry_health :: "fields \<Rightarrow> string \<Rightarrow> fields result" where
  "registry_health payload backend_id =
     bind_result (as_dict (dget_or (JObj []) payload ''health'')) (\<lambda>h.
     Inr [(''backend_id'', JStr backend_id),
          (''status'', dget_or (dget_or (JStr ''healthy'') payload ''health_status'') h ''status''),
          (''latency_ms'', dget_or JNull h ''latency_ms''), (''message'', dget_or JNull h ''message'')])"

type_synonym backend_constructor = "fields \<Rightarrow> backend_manifest result"

definition backend_manifest_from_config ::
  "(json \<Rightarrow> string) \<Rightarrow> backend_constructor \<Rightarrow> fields \<Rightarrow> backend_manifest result" where
  "backend_manifest_from_config repr mk payload =
     bind_result (manifest_arguments repr registry_health payload) mk"

definition backend_manifest_for_validation ::
  "(json \<Rightarrow> string) \<Rightarrow> backend_constructor \<Rightarrow> fields \<Rightarrow> backend_manifest result" where
  "backend_manifest_for_validation repr mk payload =
     bind_result (manifest_arguments repr validation_health payload) mk"

definition load_backend_manifests ::
  "(json \<Rightarrow> string) \<Rightarrow> backend_constructor \<Rightarrow> loaded_config \<Rightarrow> backend_manifest list result" where
  "load_backend_manifests repr mk cfg =
     bind_result (registry_entries cfg) (map_result (backend_manifest_from_config repr mk))"

definition worker_arguments :: "fields \<Rightarrow> fields result" where
  "worker_arguments worker =
     bind_result (item worker ''worker_id'') (\<lambda>worker_id.
     Inr [(''worker_id'', worker_id), (''identity'', dget_or worker_id worker ''identity''),
          (''capabilities'', dget_or (JList []) worker ''allowed_task_types''),
          (''allowed_task_types'', dget_or (JList []) worker ''allowed_task_types''),
          (''allowed_data_labels'', dget_or (JList [JStr ''public_url'']) worker ''allowed_data_labels''),
          (''allowed_privacy_levels'', dget_or (JList [JStr ''private'']) worker ''allowed_privacy_levels''),
          (''execution_location'', dget_or (JStr ''windows_worker'') worker ''execution_location''),
          (''trust_level'', dget_or (JStr ''trusted_private'') worker ''trust_level''),
          (''backend_ids'', dget_or (JList []) worker ''backend_ids''),
          (''backend_classes'', dget_or (JList [JStr ''local_tool'']) worker ''backend_classes''),
          (''health_status'', dget_or (JStr ''healthy'') worker ''health_status''),
          (''manifest_hash'', dget_or JNull worker ''manifest_hash'')])"

definition worker_manifests_from_config ::
  "(fields \<Rightarrow> worker_manifest result) \<Rightarrow> loaded_config \<Rightarrow> worker_manifest list result" where
  "worker_manifests_from_config mk cfg =
     bind_result (section_of cfg ''capacity_registry'' ''capacity_registry'') (\<lambda>d.
     bind_result (dict_list d ''worker_manifests'')
       (map_result (\<lambda>w. bind_result (worker_arguments w) mk)))"

definition resolver_from_config ::
  "(json \<Rightarrow> string) \<Rightarrow> backend_constructor \<Rightarrow> (fields \<Rightarrow> worker_manifest result) \<Rightarrow> loaded_config \<Rightarrow> resolver result" where
  "resolver_from_config repr backend worker cfg =
     bind_result (section_of cfg ''backend_policy'' ''backend_policy'') (\<lambda>policy.
     bind_result (load_backend_manifests repr backend cfg) (\<lambda>reg.
     bind_result (worker_manifests_from_config worker cfg) (\<lambda>workers.
     bind_result (str_set policy ''allowed_backend_ids'') (\<lambda>ids.
     bind_result (str_set policy ''allowed_backend_classes'') (\<lambda>classes.
     Inr (make_resolver reg workers ids classes))))))"

section \<open>The validator\<close>

record validation_issue =
  iss_code :: string
  iss_message :: string

record validation_result =
  val_ok :: bool
  val_issues :: "validation_issue list"
  val_content_hashes :: "(string \<times> string) list"

definition issue_if :: "bool \<Rightarrow> string \<Rightarrow> string \<Rightarrow> validation_issue list" where
  "issue_if b code message = (if b then [\<lparr>iss_code = code, iss_message = message\<rparr>] else [])"

definition str_at :: "(json \<Rightarrow> string) \<Rightarrow> fields \<Rightarrow> string \<Rightarrow> string" where
  "str_at repr d k = py_str repr (dget_or JNull d k)"

definition validate_runtime_mode :: "(json \<Rightarrow> string) \<Rightarrow> loaded_config \<Rightarrow> validation_issue list result" where
  "validate_runtime_mode repr cfg =
     bind_result (section_of cfg ''runtime'' ''runtime'') (\<lambda>d.
     let mode = dget_or JNull d ''runtime_mode'' in
     Inr (issue_if (case runtime_mode_of mode of Inl _ \<Rightarrow> True | Inr _ \<Rightarrow> False) ''runtime_mode.invalid''
       (''runtime_mode must be demo, internal_secure, or alpha: '' @ py_str repr mode)))"

definition candidate_rule_issues ::
  "(json \<Rightarrow> string) \<Rightarrow> string list \<Rightarrow> string list \<Rightarrow> string list \<Rightarrow> string list \<Rightarrow> fields \<Rightarrow> validation_issue list" where
  "candidate_rule_issues repr backend_ids backend_classes forbidden recipe_ids rule =
     (let rule_id = py_str repr (dget_or (JStr ''<unknown>'') rule ''rule_id'');
          backend_class = str_at repr rule ''backend_class'';
          backend_id = str_at repr rule ''backend_id'';
          recipe_id = str_at repr rule ''verifier_recipe_id'' in
      issue_if (backend_class \<notin> set backend_classes) ''routebook.rule_backend_class_missing''
        (''candidate rule '' @ rule_id @ '' backend_class is not registered: '' @ backend_class) @
      issue_if (backend_class \<in> set forbidden) ''routebook.forbidden_backend_class''
        (''candidate rule '' @ rule_id @ '' uses forbidden backend_class: '' @ backend_class) @
      issue_if (backend_id \<notin> set backend_ids) ''routebook.rule_backend_id_missing''
        (''candidate rule '' @ rule_id @ '' backend_id is not registered: '' @ backend_id) @
      issue_if (recipe_id \<notin> set recipe_ids) ''routebook.verifier_recipe_missing''
        (''candidate rule '' @ rule_id @ '' verifier_recipe_id is missing: '' @ recipe_id))"

text \<open>\<open>except (CapacityRegistryValidationError, ValueError)\<close>: both are values of ValueError.\<close>

fun value_error_text :: "'a result \<Rightarrow> string option result" where
  "value_error_text (Inl (ValueError m)) = Inr (Some m)"
| "value_error_text (Inl (CapacityRegistryValidationError m)) = Inr (Some m)"
| "value_error_text (Inl e) = Inl e"
| "value_error_text (Inr x) = Inr None"

definition registry_entry_issues ::
  "(json \<Rightarrow> string) \<Rightarrow> backend_constructor \<Rightarrow> string list \<Rightarrow> string list \<Rightarrow> string list \<Rightarrow> fields \<Rightarrow> validation_issue list result" where
  "registry_entry_issues repr mk allowed_ids api_classes priced backend =
     (let backend_id = str_at repr backend ''backend_id''; backend_class = str_at repr backend ''backend_class'' in
      bind_result (value_error_text (bind_result (backend_manifest_for_validation repr mk backend)
        validate_backend_execution_location)) (\<lambda>failure.
      Inr ((case failure of None \<Rightarrow> [] | Some m \<Rightarrow> issue_if True ''backend_registry.execution_location_invalid''
              (''backend '' @ backend_id @ '' execution_location invalid: '' @ m)) @
        issue_if (allowed_ids \<noteq> [] \<and> backend_id \<notin> set allowed_ids) ''backend_policy.backend_id_not_allowed''
          (''backend_registry backend_id not allowed by backend_policy: '' @ backend_id) @
        issue_if (backend_class \<in> set api_classes \<and> backend_id \<notin> set priced) ''pricing.api_backend_missing''
          (''pricing table must cover API backend: '' @ backend_id))))"

definition in_str_set :: "json \<Rightarrow> string list \<Rightarrow> bool result" where
  "in_str_set v xs = (if hashable v then Inr (case v of JStr s \<Rightarrow> s \<in> set xs | _ \<Rightarrow> False) else Inl (TypeError ''unhashable type''))"

definition recipe_issues :: "(json \<Rightarrow> string) \<Rightarrow> string list \<Rightarrow> fields \<Rightarrow> validation_issue list result" where
  "recipe_issues repr known recipe =
     bind_result (in_str_set (dget_or JNull recipe ''task_type'') known) (\<lambda>ok.
     Inr (issue_if (\<not> ok) ''verifier_recipe.task_type_unknown''
       (''verifier recipe '' @ str_at repr recipe ''verifier_recipe_id'' @ '' maps to unknown task_type: '' @
        str_at repr recipe ''task_type'')))"

text \<open>\<open>sorted(a - b)\<close> of two sets of texts.\<close>

definition sorted_difference :: "string list \<Rightarrow> string list \<Rightarrow> string list" where
  "sorted_difference a b = sort (remdups (filter (\<lambda>x. x \<notin> set b) a))"

definition validate_routebook_and_backend_registry ::
  "(json \<Rightarrow> string) \<Rightarrow> backend_constructor \<Rightarrow> loaded_config \<Rightarrow> validation_issue list result" where
  "validate_routebook_and_backend_registry repr mk cfg =
     bind_result (registry_entries cfg) (\<lambda>backends.
     let backend_ids = map (\<lambda>b. str_at repr b ''backend_id'') backends;
         backend_classes = map (\<lambda>b. str_at repr b ''backend_class'') backends in
     bind_result (section_of cfg ''backend_policy'' ''backend_policy'') (\<lambda>policy.
     bind_result (str_set policy ''allowed_backend_ids'') (\<lambda>allowed_ids.
     bind_result (str_set policy ''forbidden_backend_classes'') (\<lambda>forbidden.
     bind_result (str_set policy ''api_backend_classes'') (\<lambda>api_classes.
     bind_result (section_of cfg ''runtime'' ''routebook'') (\<lambda>routebook.
     bind_result (str_set routebook ''backend_classes'') (\<lambda>routebook_classes.
     bind_result (dict_list routebook ''candidate_rules'') (\<lambda>rules.
     bind_result (verifier_recipe_entries cfg) (\<lambda>recipes.
     bind_result (str_set routebook ''task_types'') (\<lambda>task_types.
     bind_result (pricing_entries cfg) (\<lambda>prices.
     let priced = map (\<lambda>price. py_str repr (dget_or (JStr []) price ''backend_id'')) prices;
         recipe_ids = map (\<lambda>r. str_at repr r ''verifier_recipe_id'') recipes;
         missing = sorted_difference routebook_classes backend_classes in
     bind_result (map_result (registry_entry_issues repr mk allowed_ids api_classes priced) backends) (\<lambda>entry_issues.
     bind_result (map_result (recipe_issues repr task_types) recipes) (\<lambda>recipe_problems.
     Inr (issue_if (missing \<noteq> []) ''routebook.backend_class_missing''
            (''routebook backend_classes missing from backend_registry: '' @ py_str repr (str_list missing)) @
          concat (map (candidate_rule_issues repr backend_ids backend_classes forbidden recipe_ids) rules) @
          concat entry_issues @
          concat (map (\<lambda>i. issue_if (i \<notin> set backend_ids) ''backend_policy.allowed_backend_missing''
             (''allowed_backend_id missing from backend_registry: '' @ i)) (sort (remdups allowed_ids))) @
          concat recipe_problems))))))))))))))"

definition dict_by :: "(json \<Rightarrow> string) \<Rightarrow> string \<Rightarrow> fields list \<Rightarrow> (string \<times> fields) list" where
  "dict_by repr key entries = fold (\<lambda>e d. dput (str_at repr e key) e d) entries []"

definition worker_backend_issues ::
  "(json \<Rightarrow> string) \<Rightarrow> (string \<times> fields) list \<Rightarrow> string \<Rightarrow> json \<Rightarrow> validation_issue list result" where
  "worker_backend_issues repr backend_by_id worker_id backend_id =
     bind_result (in_str_set backend_id (map fst backend_by_id)) (\<lambda>known.
     if \<not> known then Inr (issue_if True ''worker_manifest.backend_id_missing''
       (''worker '' @ worker_id @ '' references unknown backend_id: '' @ py_str repr backend_id))
     else
       let backend_class = str_at repr (dget_or [] backend_by_id (py_str repr backend_id)) ''backend_class'' in
       Inr (issue_if (backend_class \<in> set api_gateway_backend_classes \<and> worker_id \<noteq> control_plane_gateway_worker_id)
         ''worker_manifest.api_backend_direct_denied''
         (''worker direct API model backend path is denied: '' @ worker_id @ '' -> '' @ py_str repr backend_id)))"

definition worker_issues ::
  "(json \<Rightarrow> string) \<Rightarrow> (string \<times> fields) list \<Rightarrow> fields \<Rightarrow> validation_issue list result" where
  "worker_issues repr backend_by_id worker =
     bind_result (py_iter (dget_or (JList []) worker ''backend_ids'')) (\<lambda>ids.
     bind_result (map_result (worker_backend_issues repr backend_by_id (str_at repr worker ''worker_id'')) ids) (\<lambda>issues.
     Inr (concat issues)))"

definition node_issues ::
  "(json \<Rightarrow> string) \<Rightarrow> (string \<times> fields) list \<Rightarrow> (string \<times> fields) list \<Rightarrow> fields \<Rightarrow> validation_issue list" where
  "node_issues repr workers_by_id backend_by_id node =
     (let source = dget_or JNull node ''source''; worker_id = str_at repr node ''worker_id'';
          backend_id = str_at repr node ''backend_id''; hash = dget_or JNull node ''manifest_hash'' in
      if source = JStr ''worker_manifest'' then
        (case dget workers_by_id worker_id of
           None \<Rightarrow> issue_if True ''capacity_node.worker_missing'' (''capacity node references unknown worker_id: '' @ worker_id)
         | Some worker \<Rightarrow> issue_if (hash \<noteq> dget_or JNull worker ''manifest_hash'')
             ''capacity_node.worker_manifest_hash_mismatch'' (''capacity node worker manifest_hash drift: '' @ worker_id))
      else if source = JStr ''backend_manifest'' then
        (case dget backend_by_id backend_id of
           None \<Rightarrow> issue_if True ''capacity_node.backend_missing'' (''capacity node references unknown backend_id: '' @ backend_id)
         | Some backend \<Rightarrow> issue_if (hash \<noteq> dget_or JNull backend ''manifest_hash'')
             ''capacity_node.backend_manifest_hash_mismatch'' (''capacity node backend manifest_hash drift: '' @ backend_id))
      else issue_if True ''capacity_node.source_unknown''
        (''capacity node source must be worker_manifest or backend_manifest: '' @ py_str repr source))"

definition validate_capacity_registry :: "(json \<Rightarrow> string) \<Rightarrow> loaded_config \<Rightarrow> validation_issue list result" where
  "validate_capacity_registry repr cfg =
     bind_result (registry_entries cfg) (\<lambda>backends.
     bind_result (section_of cfg ''capacity_registry'' ''capacity_registry'') (\<lambda>capacity.
     bind_result (dict_list capacity ''worker_manifests'') (\<lambda>workers.
     bind_result (dict_list capacity ''capacity_nodes'') (\<lambda>nodes.
     let backend_by_id = dict_by repr ''backend_id'' backends;
         workers_by_id = dict_by repr ''worker_id'' workers;
         expected = map (\<lambda>(i, _). worker_node_id i) workers_by_id @ map (\<lambda>b. str_at repr b ''capacity_node_id'') backends;
         declared = map (\<lambda>n. str_at repr n ''capacity_node_id'') nodes;
         missing = sorted_difference expected declared;
         extra = sorted_difference declared expected in
     bind_result (map_result (worker_issues repr backend_by_id) workers) (\<lambda>worker_problems.
     Inr (issue_if (missing \<noteq> []) ''capacity_node.projection_missing''
            (''capacity registry is missing projected capacity nodes: '' @ py_str repr (str_list missing)) @
          issue_if (extra \<noteq> []) ''capacity_node.projection_extra''
            (''capacity registry declares nodes outside worker/backend manifests: '' @ py_str repr (str_list extra)) @
          concat worker_problems @
          concat (map (node_issues repr workers_by_id backend_by_id) nodes)))))))"

definition lint_document :: "loaded_config \<Rightarrow> string \<Rightarrow> validation_issue list result" where
  "lint_document cfg name =
     bind_result (doc (cfg_documents cfg) name) (\<lambda>d.
     Inr (map (\<lambda>i. \<lparr>iss_code = ''extensions.forbidden_key'', iss_message = li_path i @ '': '' @ li_reason i\<rparr>)
       (lint_extension_keys forbidden_extension_key_fragments (JObj d) (''$.'' @ name))))"

definition validate_policy_shape :: "loaded_config \<Rightarrow> validation_issue list result" where
  "validate_policy_shape cfg =
     bind_result (map_result (lint_document cfg) [''runtime'', ''backend_registry'', ''capacity_registry'']) (\<lambda>lints.
     bind_result (section_of cfg ''backend_policy'' ''backend_policy'') (\<lambda>policy.
     Inr (concat lints @
       concat (map (\<lambda>key. issue_if (case dget_or (JList []) policy key of JList _ \<Rightarrow> False | _ \<Rightarrow> True)
         ''backend_policy.invalid_shape'' (''backend_policy.'' @ key @ '' must be a list''))
         [''allowed_backend_ids'', ''allowed_backend_classes'']))))"

definition validate_loaded_config ::
  "(json \<Rightarrow> string) \<Rightarrow> backend_constructor \<Rightarrow> loaded_config \<Rightarrow> validation_result result" where
  "validate_loaded_config repr mk cfg =
     bind_result (validate_runtime_mode repr cfg) (\<lambda>a.
     bind_result (validate_routebook_and_backend_registry repr mk cfg) (\<lambda>b.
     bind_result (validate_capacity_registry repr cfg) (\<lambda>c.
     bind_result (validate_policy_shape cfg) (\<lambda>d.
     Inr \<lparr>val_ok = (a @ b @ c @ d = []), val_issues = a @ b @ c @ d, val_content_hashes = cfg_content_hashes cfg\<rparr>))))"

definition validate_config_dir ::
  "(json \<Rightarrow> string) \<Rightarrow> backend_constructor \<Rightarrow> platform \<Rightarrow> string \<Rightarrow> yaml_dir \<Rightarrow> (string \<times> json) list \<Rightarrow> validation_result result" where
  "validate_config_dir repr mk p dir files pricing =
     bind_result (load_config_dir p dir files pricing) (validate_loaded_config repr mk)"

section \<open>What an accepted configuration guarantees\<close>

lemma issue_if_Nil [simp]: "issue_if b code m = [] \<longleftrightarrow> \<not> b"
  by (simp add: issue_if_def)

lemma sorted_difference_Nil [simp]: "sorted_difference a b = [] \<longleftrightarrow> set a \<subseteq> set b"
  by (auto simp: sorted_difference_def simp flip: set_empty)

lemma concat_map_Nil: "concat (map f xs) = [] \<longleftrightarrow> (\<forall>x \<in> set xs. f x = [])"
  by simp

lemma concat_results_Nil: "map_result f xs = Inr yss \<Longrightarrow> concat yss = [] \<longleftrightarrow> (\<forall>x \<in> set xs. f x = Inr [])"
  by (induction xs arbitrary: yss) auto

lemma value_error_text_ok: "value_error_text r = Inr f \<Longrightarrow> f = None \<longleftrightarrow> (\<exists>x. r = Inr x)"
  by (cases r; cases "projl r") auto

text \<open>A candidate rule names a registered backend of a registered class that is not forbidden, and a declared recipe.\<close>

definition rule_consistent :: "(json \<Rightarrow> string) \<Rightarrow> fields list \<Rightarrow> string list \<Rightarrow> fields list \<Rightarrow> fields \<Rightarrow> bool" where
  "rule_consistent repr backends forbidden recipes rule \<longleftrightarrow>
     (\<exists>b \<in> set backends. str_at repr b ''backend_class'' = str_at repr rule ''backend_class'') \<and>
     str_at repr rule ''backend_class'' \<notin> set forbidden \<and>
     (\<exists>b \<in> set backends. str_at repr b ''backend_id'' = str_at repr rule ''backend_id'') \<and>
     (\<exists>r \<in> set recipes. str_at repr r ''verifier_recipe_id'' = str_at repr rule ''verifier_recipe_id'')"

text \<open>A registered backend is a well-formed manifest that runs where its class may run, is allowed, and is priced when
  its class is an API class.\<close>

definition backend_consistent ::
  "(json \<Rightarrow> string) \<Rightarrow> backend_constructor \<Rightarrow> string list \<Rightarrow> string list \<Rightarrow> fields list \<Rightarrow> fields \<Rightarrow> bool" where
  "backend_consistent repr mk allowed api_classes prices b \<longleftrightarrow>
     (\<exists>m. backend_manifest_for_validation repr mk b = Inr m \<and> validate_backend_execution_location m = Inr ()) \<and>
     (allowed \<noteq> [] \<longrightarrow> str_at repr b ''backend_id'' \<in> set allowed) \<and>
     (str_at repr b ''backend_class'' \<in> set api_classes \<longrightarrow>
        (\<exists>price \<in> set prices. py_str repr (dget_or (JStr []) price ''backend_id'') = str_at repr b ''backend_id''))"

definition registry_consistent :: "(json \<Rightarrow> string) \<Rightarrow> backend_constructor \<Rightarrow> loaded_config \<Rightarrow> bool" where
  "registry_consistent repr mk cfg \<longleftrightarrow>
     (\<exists>backends policy allowed forbidden api routebook classes rules recipes types prices.
        registry_entries cfg = Inr backends \<and> section_of cfg ''backend_policy'' ''backend_policy'' = Inr policy \<and>
        str_set policy ''allowed_backend_ids'' = Inr allowed \<and> str_set policy ''forbidden_backend_classes'' = Inr forbidden \<and>
        str_set policy ''api_backend_classes'' = Inr api \<and> section_of cfg ''runtime'' ''routebook'' = Inr routebook \<and>
        str_set routebook ''backend_classes'' = Inr classes \<and> dict_list routebook ''candidate_rules'' = Inr rules \<and>
        verifier_recipe_entries cfg = Inr recipes \<and> str_set routebook ''task_types'' = Inr types \<and>
        pricing_entries cfg = Inr prices \<and>
        (\<forall>c \<in> set classes. \<exists>b \<in> set backends. str_at repr b ''backend_class'' = c) \<and>
        (\<forall>rule \<in> set rules. rule_consistent repr backends forbidden recipes rule) \<and>
        (\<forall>b \<in> set backends. backend_consistent repr mk allowed api prices b) \<and>
        (\<forall>i \<in> set allowed. \<exists>b \<in> set backends. str_at repr b ''backend_id'' = i) \<and>
        (\<forall>r \<in> set recipes. \<exists>ty \<in> set types. dget_or JNull r ''task_type'' = JStr ty))"

lemma rule_issues_Nil:
  "candidate_rule_issues repr (map (\<lambda>b. str_at repr b ''backend_id'') backends) (map (\<lambda>b. str_at repr b ''backend_class'') backends)
     forbidden (map (\<lambda>r. str_at repr r ''verifier_recipe_id'') recipes) rule = [] \<longleftrightarrow>
   rule_consistent repr backends forbidden recipes rule"
  by (auto simp: candidate_rule_issues_def Let_def rule_consistent_def image_iff) metis+

lemma entry_issues_Nil:
  "registry_entry_issues repr mk allowed api (map (\<lambda>price. py_str repr (dget_or (JStr []) price ''backend_id'')) prices) b = Inr [] \<longleftrightarrow>
   backend_consistent repr mk allowed api prices b"
proof -
  let ?r = "bind_result (backend_manifest_for_validation repr mk b) validate_backend_execution_location"
  have "value_error_text ?r = Inr None \<longleftrightarrow>
      (\<exists>m. backend_manifest_for_validation repr mk b = Inr m \<and> validate_backend_execution_location m = Inr ())"
    by (cases ?r; cases "projl ?r") auto
  then show ?thesis
    by (auto simp: registry_entry_issues_def Let_def backend_consistent_def image_iff split: option.splits) metis+
qed

lemma recipe_issues_Nil:
  "recipe_issues repr types r = Inr [] \<longleftrightarrow> (\<exists>ty \<in> set types. dget_or JNull r ''task_type'' = JStr ty)"
  by (cases "dget_or JNull r ''task_type''") (auto simp: recipe_issues_def in_str_set_def)

lemma registry_issues_Nil:
  assumes "validate_routebook_and_backend_registry repr mk cfg = Inr issues"
  shows "issues = [] \<longleftrightarrow> registry_consistent repr mk cfg"
proof -
  obtain backends policy allowed forbidden api routebook classes rules recipes types prices entries problems where views:
    "registry_entries cfg = Inr backends" "section_of cfg ''backend_policy'' ''backend_policy'' = Inr policy"
    "str_set policy ''allowed_backend_ids'' = Inr allowed" "str_set policy ''forbidden_backend_classes'' = Inr forbidden"
    "str_set policy ''api_backend_classes'' = Inr api" "section_of cfg ''runtime'' ''routebook'' = Inr routebook"
    "str_set routebook ''backend_classes'' = Inr classes" "dict_list routebook ''candidate_rules'' = Inr rules"
    "verifier_recipe_entries cfg = Inr recipes" "str_set routebook ''task_types'' = Inr types"
    "pricing_entries cfg = Inr prices"
    and entries: "map_result (registry_entry_issues repr mk allowed api
        (map (\<lambda>price. py_str repr (dget_or (JStr []) price ''backend_id'')) prices)) backends = Inr entries"
    and problems: "map_result (recipe_issues repr types) recipes = Inr problems"
    and issues: "issues = issue_if (sorted_difference classes (map (\<lambda>b. str_at repr b ''backend_class'') backends) \<noteq> [])
          ''routebook.backend_class_missing'' (''routebook backend_classes missing from backend_registry: '' @
            py_str repr (str_list (sorted_difference classes (map (\<lambda>b. str_at repr b ''backend_class'') backends)))) @
        concat (map (candidate_rule_issues repr (map (\<lambda>b. str_at repr b ''backend_id'') backends)
          (map (\<lambda>b. str_at repr b ''backend_class'') backends) forbidden
          (map (\<lambda>r. str_at repr r ''verifier_recipe_id'') recipes)) rules) @
        concat entries @
        concat (map (\<lambda>i. issue_if (i \<notin> set (map (\<lambda>b. str_at repr b ''backend_id'') backends)) ''backend_policy.allowed_backend_missing''
          (''allowed_backend_id missing from backend_registry: '' @ i)) (sort (remdups allowed))) @ concat problems"
    using assms unfolding validate_routebook_and_backend_registry_def Let_def by auto
  have "issues = [] \<longleftrightarrow>
      (\<forall>c \<in> set classes. \<exists>b \<in> set backends. str_at repr b ''backend_class'' = c) \<and>
      (\<forall>rule \<in> set rules. rule_consistent repr backends forbidden recipes rule) \<and>
      (\<forall>b \<in> set backends. backend_consistent repr mk allowed api prices b) \<and>
      (\<forall>i \<in> set allowed. \<exists>b \<in> set backends. str_at repr b ''backend_id'' = i) \<and>
      (\<forall>r \<in> set recipes. \<exists>ty \<in> set types. dget_or JNull r ''task_type'' = JStr ty)"
    unfolding issues append_is_Nil_conv concat_results_Nil [OF entries] concat_results_Nil [OF problems] concat_map_Nil
      rule_issues_Nil entry_issues_Nil recipe_issues_Nil
    by (auto simp: subset_iff image_iff)
  then show ?thesis unfolding registry_consistent_def using views by simp
qed

text \<open>A worker lists known backends only, and API gateway backends only when it is the control-plane gateway.\<close>

definition worker_consistent :: "(json \<Rightarrow> string) \<Rightarrow> (string \<times> fields) list \<Rightarrow> fields \<Rightarrow> bool" where
  "worker_consistent repr backend_by_id worker \<longleftrightarrow>
     (\<exists>ids. py_iter (dget_or (JList []) worker ''backend_ids'') = Inr ids \<and>
       (\<forall>v \<in> set ids. \<exists>i b. v = JStr i \<and> dget backend_by_id i = Some b \<and>
          (str_at repr b ''backend_class'' \<in> set api_gateway_backend_classes \<longrightarrow>
             str_at repr worker ''worker_id'' = control_plane_gateway_worker_id)))"

text \<open>A declared node repeats the manifest hash of the worker or backend it stands for.\<close>

definition node_consistent ::
  "(json \<Rightarrow> string) \<Rightarrow> (string \<times> fields) list \<Rightarrow> (string \<times> fields) list \<Rightarrow> fields \<Rightarrow> bool" where
  "node_consistent repr workers_by_id backend_by_id node \<longleftrightarrow>
     (\<exists>m. (dget_or JNull node ''source'' = JStr ''worker_manifest'' \<and> dget workers_by_id (str_at repr node ''worker_id'') = Some m \<or>
           dget_or JNull node ''source'' = JStr ''backend_manifest'' \<and> dget backend_by_id (str_at repr node ''backend_id'') = Some m) \<and>
          dget_or JNull node ''manifest_hash'' = dget_or JNull m ''manifest_hash'')"

definition capacity_consistent :: "(json \<Rightarrow> string) \<Rightarrow> loaded_config \<Rightarrow> bool" where
  "capacity_consistent repr cfg \<longleftrightarrow>
     (\<exists>backends capacity workers nodes.
        registry_entries cfg = Inr backends \<and> section_of cfg ''capacity_registry'' ''capacity_registry'' = Inr capacity \<and>
        dict_list capacity ''worker_manifests'' = Inr workers \<and> dict_list capacity ''capacity_nodes'' = Inr nodes \<and>
        (\<lambda>n. str_at repr n ''capacity_node_id'') ` set nodes =
          (\<lambda>w. worker_node_id (str_at repr w ''worker_id'')) ` set workers \<union>
          (\<lambda>b. str_at repr b ''capacity_node_id'') ` set backends \<and>
        (\<forall>w \<in> set workers. worker_consistent repr (dict_by repr ''backend_id'' backends) w) \<and>
        (\<forall>n \<in> set nodes. node_consistent repr (dict_by repr ''worker_id'' workers) (dict_by repr ''backend_id'' backends) n))"

lemma dict_by_keys: "fst ` set (dict_by repr key entries) = (\<lambda>e. str_at repr e key) ` set entries"
proof -
  have "fst ` set (fold (\<lambda>e d. dput (str_at repr e key) e d) es d) = fst ` set d \<union> (\<lambda>e. str_at repr e key) ` set es" for es d
    by (induction es arbitrary: d) (auto simp: keys_dput)
  then show ?thesis by (simp add: dict_by_def)
qed

lemma dget_key: "k \<in> fst ` set d \<longleftrightarrow> (\<exists>v. dget d k = Some v)"
  by (metis dget_def domD domI dom_map_of_conv_image_fst)

lemma worker_backend_issues_Nil:
  "worker_backend_issues repr d wid v = Inr [] \<longleftrightarrow> (\<exists>i b. v = JStr i \<and> dget d i = Some b \<and>
     (str_at repr b ''backend_class'' \<in> set api_gateway_backend_classes \<longrightarrow> wid = control_plane_gateway_worker_id))"
  by (cases v) (auto simp: worker_backend_issues_def in_str_set_def Let_def dget_key dget_or_def split: if_splits)

lemma worker_issues_Nil: "worker_issues repr d w = Inr [] \<longleftrightarrow> worker_consistent repr d w"
proof -
  have "map_result f xs = Inr yss \<and> concat yss = [] \<longleftrightarrow> map_result f xs = Inr yss \<and> (\<forall>x \<in> set xs. f x = Inr [])"
    for f :: "json \<Rightarrow> validation_issue list result" and xs yss
    using concat_results_Nil by blast
  moreover have "\<exists>yss. map_result f xs = Inr yss" if "\<forall>x \<in> set xs. f x = Inr []"
    for f :: "json \<Rightarrow> validation_issue list result" and xs
    using that by (induction xs) auto
  ultimately have each: "(\<exists>yss. map_result f xs = Inr yss \<and> concat yss = []) \<longleftrightarrow> (\<forall>x \<in> set xs. f x = Inr [])"
    for f :: "json \<Rightarrow> validation_issue list result" and xs by blast
  show ?thesis
    by (simp add: worker_issues_def worker_consistent_def each worker_backend_issues_Nil del: concat_eq_Nil_conv)
qed

lemma node_issues_Nil: "node_issues repr ws bs n = [] \<longleftrightarrow> node_consistent repr ws bs n"
  by (auto simp: node_issues_def Let_def node_consistent_def split: option.splits)

lemma capacity_issues_Nil:
  assumes "validate_capacity_registry repr cfg = Inr issues"
  shows "issues = [] \<longleftrightarrow> capacity_consistent repr cfg"
proof -
  obtain backends capacity workers nodes problems where views:
    "registry_entries cfg = Inr backends" "section_of cfg ''capacity_registry'' ''capacity_registry'' = Inr capacity"
    "dict_list capacity ''worker_manifests'' = Inr workers" "dict_list capacity ''capacity_nodes'' = Inr nodes"
    and problems: "map_result (worker_issues repr (dict_by repr ''backend_id'' backends)) workers = Inr problems"
    and issues: "issues =
      issue_if (sorted_difference (map (\<lambda>(i, _). worker_node_id i) (dict_by repr ''worker_id'' workers) @
            map (\<lambda>b. str_at repr b ''capacity_node_id'') backends) (map (\<lambda>n. str_at repr n ''capacity_node_id'') nodes) \<noteq> [])
        ''capacity_node.projection_missing'' (''capacity registry is missing projected capacity nodes: '' @
          py_str repr (str_list (sorted_difference (map (\<lambda>(i, _). worker_node_id i) (dict_by repr ''worker_id'' workers) @ map (\<lambda>b. str_at repr b ''capacity_node_id'') backends)
            (map (\<lambda>n. str_at repr n ''capacity_node_id'') nodes)))) @
      issue_if (sorted_difference (map (\<lambda>n. str_at repr n ''capacity_node_id'') nodes)
            (map (\<lambda>(i, _). worker_node_id i) (dict_by repr ''worker_id'' workers) @ map (\<lambda>b. str_at repr b ''capacity_node_id'') backends) \<noteq> [])
        ''capacity_node.projection_extra'' (''capacity registry declares nodes outside worker/backend manifests: '' @
          py_str repr (str_list (sorted_difference (map (\<lambda>n. str_at repr n ''capacity_node_id'') nodes)
            (map (\<lambda>(i, _). worker_node_id i) (dict_by repr ''worker_id'' workers) @ map (\<lambda>b. str_at repr b ''capacity_node_id'') backends)))) @
      concat problems @
      concat (map (node_issues repr (dict_by repr ''worker_id'' workers) (dict_by repr ''backend_id'' backends)) nodes)"
    using assms unfolding validate_capacity_registry_def Let_def by auto
  have ids: "set (map (\<lambda>(i, _). worker_node_id i) (dict_by repr ''worker_id'' workers)) =
      (\<lambda>w. worker_node_id (str_at repr w ''worker_id'')) ` set workers"
    using arg_cong [OF dict_by_keys, of "image worker_node_id" repr "''worker_id''" workers]
    by (simp add: image_image case_prod_beta)
  have "issues = [] \<longleftrightarrow>
      (\<lambda>n. str_at repr n ''capacity_node_id'') ` set nodes =
        (\<lambda>w. worker_node_id (str_at repr w ''worker_id'')) ` set workers \<union> (\<lambda>b. str_at repr b ''capacity_node_id'') ` set backends \<and>
      (\<forall>w \<in> set workers. worker_consistent repr (dict_by repr ''backend_id'' backends) w) \<and>
      (\<forall>n \<in> set nodes. node_consistent repr (dict_by repr ''worker_id'' workers) (dict_by repr ''backend_id'' backends) n)"
  proof -
    have "issues = [] \<longleftrightarrow>
        set (map (\<lambda>n. str_at repr n ''capacity_node_id'') nodes) =
          set (map (\<lambda>(i, _). worker_node_id i) (dict_by repr ''worker_id'' workers)) \<union>
          set (map (\<lambda>b. str_at repr b ''capacity_node_id'') backends) \<and> concat problems = [] \<and>
        concat (map (node_issues repr (dict_by repr ''worker_id'' workers) (dict_by repr ''backend_id'' backends)) nodes) = []"
      unfolding issues append_is_Nil_conv issue_if_Nil sorted_difference_Nil not_not set_append by blast
    then show ?thesis
      unfolding concat_results_Nil [OF problems] worker_issues_Nil concat_map_Nil node_issues_Nil ids by (simp only: set_map)
  qed
  then show ?thesis unfolding capacity_consistent_def using views by simp
qed

text \<open>No extension key is forbidden, and the allowlists are lists.\<close>

definition shape_consistent :: "loaded_config \<Rightarrow> bool" where
  "shape_consistent cfg \<longleftrightarrow>
     (\<forall>name \<in> {''runtime'', ''backend_registry'', ''capacity_registry''}.
        \<exists>d. doc (cfg_documents cfg) name = Inr d \<and>
          list_all (extension_key_ok forbidden_extension_key_fragments) (map fst (all_fields (JObj d)))) \<and>
     (\<exists>policy. section_of cfg ''backend_policy'' ''backend_policy'' = Inr policy \<and>
        (\<forall>key \<in> {''allowed_backend_ids'', ''allowed_backend_classes''}. \<exists>xs. dget_or (JList []) policy key = JList xs))"

lemma shape_issues_Nil:
  assumes "validate_policy_shape cfg = Inr issues"
  shows "issues = [] \<longleftrightarrow> shape_consistent cfg"
proof -
  obtain lints policy where lints: "map_result (lint_document cfg) [''runtime'', ''backend_registry'', ''capacity_registry''] = Inr lints"
    and policy: "section_of cfg ''backend_policy'' ''backend_policy'' = Inr policy"
    and issues: "issues = concat lints @
       concat (map (\<lambda>key. issue_if (case dget_or (JList []) policy key of JList _ \<Rightarrow> False | _ \<Rightarrow> True)
         ''backend_policy.invalid_shape'' (''backend_policy.'' @ key @ '' must be a list''))
         [''allowed_backend_ids'', ''allowed_backend_classes''])"
    using assms unfolding validate_policy_shape_def by (auto simp del: map_result.simps list.map concat.simps)
  have list: "(case v of JList _ \<Rightarrow> False | _ \<Rightarrow> True) \<longleftrightarrow> \<not> (\<exists>xs. v = JList xs)" for v by (cases v) auto
  have lint: "lint_document cfg name = Inr [] \<longleftrightarrow> (\<exists>d. doc (cfg_documents cfg) name = Inr d \<and>
      list_all (extension_key_ok forbidden_extension_key_fragments) (map fst (all_fields (JObj d))))" for name
    by (simp add: lint_document_def lint_Nil_iff(1) del: lint_extension_keys.simps doc.simps all_fields.simps)
  show ?thesis
    unfolding issues append_is_Nil_conv concat_results_Nil [OF lints] concat_map_Nil issue_if_Nil list lint shape_consistent_def
      policy by simp
qed

text \<open>The configuration validator is exact. When it returns, it accepts exactly the consistent configurations: the
  runtime mode is one of the three modes; every class and candidate rule of the routebook names registered, permitted
  backends and declared verifier recipes; every backend is a well-formed manifest that may run where it says, is
  allowed and, when it is an API backend, priced; the declared capacity nodes are the projection of the workers and
  backends with unchanged hashes; no worker lists an unknown backend, and none but the control-plane gateway lists an
  API backend; and no extension key is forbidden.\<close>

theorem config_validator_exact:
  assumes "validate_loaded_config repr mk cfg = Inr r"
  shows "val_ok r \<longleftrightarrow>
    (\<exists>d mode. section_of cfg ''runtime'' ''runtime'' = Inr d \<and> runtime_mode_of (dget_or JNull d ''runtime_mode'') = Inr mode) \<and>
    registry_consistent repr mk cfg \<and> capacity_consistent repr cfg \<and> shape_consistent cfg"
proof -
  obtain a b c d where parts: "validate_runtime_mode repr cfg = Inr a" "validate_routebook_and_backend_registry repr mk cfg = Inr b"
    "validate_capacity_registry repr cfg = Inr c" "validate_policy_shape cfg = Inr d" and r: "val_ok r \<longleftrightarrow> a @ b @ c @ d = []"
    using assms unfolding validate_loaded_config_def by auto
  have "a = [] \<longleftrightarrow> (\<exists>d mode. section_of cfg ''runtime'' ''runtime'' = Inr d \<and> runtime_mode_of (dget_or JNull d ''runtime_mode'') = Inr mode)"
    using parts(1) by (cases "section_of cfg ''runtime'' ''runtime''") (auto simp: validate_runtime_mode_def Let_def issue_if_def split: sum.splits)
  then show ?thesis
    unfolding r append_is_Nil_conv registry_issues_Nil [OF parts(2)] capacity_issues_Nil [OF parts(3)] shape_issues_Nil [OF parts(4)]
    by simp
qed

section \<open>A sample configuration\<close>

definition sample_config :: loaded_config where
  "sample_config =
     \<lparr>cfg_root = ''config'',
      cfg_documents =
        [(''backend_policy'', [(''backend_policy'', JObj [(''allowed_backend_ids'', JList [JStr ''b1''])])]),
         (''backend_registry'', [(''backend_registry'', JObj [(''backends'', JList [JObj
            [(''backend_id'', JStr ''b1''), (''backend_class'', JStr ''local_tool''), (''capacity_node_id'', JStr ''n1''),
             (''execution_location'', JStr ''local_machine''), (''manifest_hash'', JStr ''h1'')]])])]),
         (''capacity_registry'', [(''capacity_registry'', JObj
            [(''worker_manifests'', JList [JObj [(''worker_id'', JStr ''w1''), (''backend_ids'', JList [JStr ''b1''])]]),
             (''capacity_nodes'', JList
               [JObj [(''capacity_node_id'', JStr ''n1''), (''source'', JStr ''backend_manifest''), (''backend_id'', JStr ''b1''),
                      (''manifest_hash'', JStr ''h1'')],
                JObj [(''capacity_node_id'', JStr ''capnode:worker:w1''), (''source'', JStr ''worker_manifest''),
                      (''worker_id'', JStr ''w1'')]])])]),
         (''runtime'',
            [(''runtime'', JObj [(''runtime_mode'', JStr ''demo'')]),
             (''routebook'', JObj [(''backend_classes'', JList [JStr ''local_tool'']), (''task_types'', JList [JStr ''dedup'']),
                (''candidate_rules'', JList [JObj [(''rule_id'', JStr ''r1''), (''backend_class'', JStr ''local_tool''),
                   (''backend_id'', JStr ''b1''), (''verifier_recipe_id'', JStr ''v1'')]])]),
             (''verifier_recipes'', JList [JObj [(''verifier_recipe_id'', JStr ''v1''), (''task_type'', JStr ''dedup'')]])]),
         (''pricing'', [(''documents'', JList [])])],
      cfg_content_hashes = []\<rparr>"

definition sample_constructor :: backend_constructor where
  "sample_constructor arguments =
     bind_result (bind_result (item arguments ''backend_id'') as_string) (\<lambda>i.
     bind_result (bind_result (item arguments ''backend_class'') as_string) (\<lambda>c.
     bind_result (bind_result (item arguments ''execution_location'') as_string) (\<lambda>l.
     Inr \<lparr>bm_backend_id = i, bm_backend_class = c, bm_capacity_node_id = ''n1'', bm_display_name = i, bm_version = ''v0'',
          bm_supported_task_types = [''dedup''], bm_allowed_privacy_levels = [''private''], bm_execution_location = l,
          bm_manifest_hash = ''h1'', bm_health = None,
          bm_cost_model = \<lparr>cm_unit = ''work_unit'', cm_estimated_cost_micros = 0, cm_cost_source = ''policy_default''\<rparr>,
          bm_policy_constraints = []\<rparr>)))"

lemma sample_config_valid:
  "validate_loaded_config (\<lambda>_. []) sample_constructor sample_config = Inr \<lparr>val_ok = True, val_issues = [], val_content_hashes = []\<rparr>"
  by code_simp

theorem config_validator_exact_witness:
  "registry_consistent (\<lambda>_. []) sample_constructor sample_config \<and> capacity_consistent (\<lambda>_. []) sample_config \<and>
   shape_consistent sample_config"
  using config_validator_exact [OF sample_config_valid] by simp

end
