(* ===== verification/Routebook_Validator.thy ===== *)
theory Routebook_Validator
  imports Config
begin

text \<open>
  The routebook validator (\<open>src/tokenbank/routebook/validator.py\<close>): the issues of a loaded routebook against the
  backend registry, and what their absence means.
\<close>

definition p0_task_types :: "string list" where
  "p0_task_types = [''claim_extraction'', ''dedup'', ''topic_classification'', ''url_check'', ''webpage_extraction'']"

definition verifier_recipes :: "loaded_routebook \<Rightarrow> fields list result" where
  "verifier_recipes rb = bind_result (rb_view (JList []) rb ''verifier_mapping'' ''verifier_recipes'') (\<lambda>v.
     bind_result (as_list v) (map_result as_dict))"

definition p0_task_issues ::
  "(string \<times> string) list \<Rightarrow> string list \<Rightarrow> string list \<Rightarrow> string \<Rightarrow> validation_issue list" where
  "p0_task_issues mapping recipe_ids recipe_task_types task_type =
     (case dget_or [] mapping task_type of
        [] \<Rightarrow> issue_if True ''routebook.verifier_missing'' (''missing verifier mapping for task_type: '' @ task_type)
      | c # i \<Rightarrow> issue_if (c # i \<notin> set recipe_ids) ''routebook.verifier_recipe_unknown''
          (''verifier recipe id is not declared: '' @ (c # i))) @
     issue_if (task_type \<notin> set recipe_task_types) ''routebook.verifier_task_missing''
       (''missing verifier recipe for task_type: '' @ task_type)"

definition routebook_rule_issues ::
  "(json \<Rightarrow> string) \<Rightarrow> string list \<Rightarrow> backend_registry \<Rightarrow> fields \<Rightarrow> validation_issue list" where
  "routebook_rule_issues repr known reg rule =
     (let rule_id = py_str repr (dget_or (JStr ''<unknown>'') rule ''rule_id'');
          task_type = str_at repr rule ''task_type''; backend_class = str_at repr rule ''backend_class'';
          backend_id = str_at repr rule ''backend_id'' in
      issue_if (task_type \<notin> set known) ''routebook.rule_task_unknown''
        (''rule '' @ rule_id @ '' task_type is unknown: '' @ task_type) @
      issue_if (backend_class \<notin> bm_backend_class ` set reg) ''routebook.backend_class_unknown''
        (''rule '' @ rule_id @ '' backend_class is unknown: '' @ backend_class) @
      issue_if (backend_id \<notin> bm_backend_id ` set reg) ''routebook.backend_id_unknown''
        (''rule '' @ rule_id @ '' backend_id is unknown: '' @ backend_id))"

text \<open>\<open>task_type_entry\<close> is looked up with \<open>except KeyError: continue\<close>.\<close>

definition level_issues ::
  "(json \<Rightarrow> string) \<Rightarrow> loaded_routebook \<Rightarrow> (string \<times> fields) list \<Rightarrow> string \<times> string \<Rightarrow> validation_issue list result" where
  "level_issues repr rb levels entry =
     (case task_type_entry rb (fst entry) of
        Inl (KeyError _) \<Rightarrow> Inr []
      | Inl e \<Rightarrow> Inl e
      | Inr e \<Rightarrow>
          let level = str_at repr e ''default_task_level'';
              required = dget_or (JBool (level \<in> {''L1'', ''L2'', ''L3''})) (dget_or [] levels level) ''requires_verifier_recipe_id'' in
          Inr (issue_if (truthy required \<and> snd entry = []) ''routebook.level_requires_verifier''
            (level @ '' task_type requires verifier_recipe_id: '' @ fst entry)))"

definition validate_routebook :: "(json \<Rightarrow> string) \<Rightarrow> loaded_routebook \<Rightarrow> backend_registry \<Rightarrow> validation_result result" where
  "validate_routebook repr rb reg =
     bind_result (Routebook.task_types rb) (\<lambda>entries.
     let known = map (\<lambda>e. str_at repr e ''task_type'') entries; missing = sorted_difference p0_task_types known in
     bind_result (verifier_mapping rb) (\<lambda>mapping.
     bind_result (verifier_recipes rb) (\<lambda>recipes.
     bind_result (task_levels rb) (\<lambda>levels.
     bind_result (candidate_rules rb) (\<lambda>rules.
     bind_result (map_result (level_issues repr rb levels) mapping) (\<lambda>level_problems.
     let issues = issue_if (missing \<noteq> []) ''routebook.p0_task_missing'' (''missing P0 tasks: '' @ py_str repr (str_list missing)) @
           concat (map (p0_task_issues mapping (map (\<lambda>r. str_at repr r ''verifier_recipe_id'') recipes)
             (map (\<lambda>r. str_at repr r ''task_type'') recipes)) (sort p0_task_types)) @
           concat (map (routebook_rule_issues repr known reg) rules) @ concat level_problems in
     Inr \<lparr>val_ok = (issues = []), val_issues = issues, val_content_hashes = rb_content_hashes rb\<rparr>))))))"

section \<open>What a valid routebook guarantees\<close>

lemma p0_task_issues_Nil:
  "p0_task_issues mapping recipe_ids types ty = [] \<longleftrightarrow>
     (\<exists>i. dget mapping ty = Some i \<and> i \<noteq> [] \<and> i \<in> set recipe_ids) \<and> ty \<in> set types"
  by (cases "dget mapping ty") (auto simp: p0_task_issues_def dget_or_def split: list.splits)

lemma routebook_rule_issues_Nil:
  "routebook_rule_issues repr known reg rule = [] \<longleftrightarrow>
     str_at repr rule ''task_type'' \<in> set known \<and>
     (\<exists>b \<in> set reg. bm_backend_class b = str_at repr rule ''backend_class'') \<and>
     (\<exists>b \<in> set reg. bm_backend_id b = str_at repr rule ''backend_id'')"
  by (auto simp: routebook_rule_issues_def Let_def image_iff) metis+

text \<open>A valid routebook covers the five task types, each with a declared verifier recipe, and every candidate rule
  names a known task type, class and backend.\<close>

lemma valid_routebook:
  assumes "validate_routebook repr rb reg = Inr r" and "val_ok r"
  shows "\<exists>entries mapping recipes rules.
    Routebook.task_types rb = Inr entries \<and> verifier_mapping rb = Inr mapping \<and> verifier_recipes rb = Inr recipes \<and>
    candidate_rules rb = Inr rules \<and>
    (\<forall>ty \<in> set p0_task_types. (\<exists>e \<in> set entries. str_at repr e ''task_type'' = ty) \<and>
       (\<exists>i. dget mapping ty = Some i \<and> i \<noteq> [] \<and> (\<exists>c \<in> set recipes. str_at repr c ''verifier_recipe_id'' = i)) \<and>
       (\<exists>c \<in> set recipes. str_at repr c ''task_type'' = ty)) \<and>
    (\<forall>rule \<in> set rules. (\<exists>e \<in> set entries. str_at repr e ''task_type'' = str_at repr rule ''task_type'') \<and>
       (\<exists>b \<in> set reg. bm_backend_class b = str_at repr rule ''backend_class'') \<and>
       (\<exists>b \<in> set reg. bm_backend_id b = str_at repr rule ''backend_id''))"
proof -
  obtain entries mapping recipes rules where views: "Routebook.task_types rb = Inr entries" "verifier_mapping rb = Inr mapping"
    "verifier_recipes rb = Inr recipes" "candidate_rules rb = Inr rules"
    and known: "set p0_task_types \<subseteq> set (map (\<lambda>e. str_at repr e ''task_type'') entries)"
    and tasks: "concat (map (p0_task_issues mapping (map (\<lambda>r. str_at repr r ''verifier_recipe_id'') recipes)
        (map (\<lambda>r. str_at repr r ''task_type'') recipes)) (sort p0_task_types)) = []"
    and rules: "concat (map (routebook_rule_issues repr (map (\<lambda>e. str_at repr e ''task_type'') entries) reg) rules) = []"
    using assms unfolding validate_routebook_def Let_def by (auto simp del: concat_eq_Nil_conv set_map)
  show ?thesis
    using known tasks rules unfolding concat_map_Nil p0_task_issues_Nil routebook_rule_issues_Nil set_map set_sort
    by (fastforce simp: views image_iff subset_iff)
qed

end
