(* ===== verification/Privacy.thy ===== *)
theory Privacy
  imports Redaction Policy
begin

text \<open>
  The privacy preflight (\<open>src/tokenbank/router/privacy_preflight.py\<close>). Its expressions are sequences of bounded
  repetitions of character classes and word boundaries. \<open>re_match\<close> is Python's backtracking match, which prefers
  the longest repetition, \<open>count_matches\<close> the number of leftmost non-overlapping matches (\<open>findall\<close>), and \<open>spells\<close> says
  what a match is. The scan is exact: a signal is reported exactly when some text of the input contains a match.
\<close>

section \<open>Expressions with bounded repetition\<close>

datatype atom =
    Rep "char \<Rightarrow> bool" nat "nat option"
  | Boundary

definition at_boundary :: "char option \<Rightarrow> string \<Rightarrow> bool" where
  "at_boundary prev s \<longleftrightarrow>
     (case prev of None \<Rightarrow> False | Some c \<Rightarrow> word_char c) \<noteq> (case s of [] \<Rightarrow> False | c # _ \<Rightarrow> word_char c)"

definition last_char :: "char option \<Rightarrow> string \<Rightarrow> char option" where
  "last_char prev u = (if u = [] then prev else Some (last u))"

fun first_some :: "('a \<Rightarrow> 'b option) \<Rightarrow> 'a list \<Rightarrow> 'b option" where
  "first_some f [] = None"
| "first_some f (x # xs) = (case f x of Some y \<Rightarrow> Some y | None \<Rightarrow> first_some f xs)"

definition upto_max :: "nat option \<Rightarrow> nat \<Rightarrow> bool" where
  "upto_max hi n \<longleftrightarrow> (case hi of None \<Rightarrow> True | Some k \<Rightarrow> n \<le> k)"

text \<open>The length of the match at the head of the text; \<open>prev\<close> is the character before it.\<close>

fun re_match :: "atom list \<Rightarrow> char option \<Rightarrow> string \<Rightarrow> nat option" where
  "re_match [] prev s = Some 0"
| "re_match (Boundary # ps) prev s = (if at_boundary prev s then re_match ps prev s else None)"
| "re_match (Rep c lo hi # ps) prev s =
     first_some (\<lambda>k. map_option ((+) k) (re_match ps (last_char prev (take k s)) (drop k s)))
       (rev (filter (upto_max hi) [lo..<Suc (length (takeWhile c s))]))"

function count_matches :: "atom list \<Rightarrow> char option \<Rightarrow> string \<Rightarrow> nat" where
  "count_matches ps prev [] = 0"
| "count_matches ps prev (c # s) =
     (case re_match ps prev (c # s) of
        None \<Rightarrow> count_matches ps (Some c) s
      | Some n \<Rightarrow> Suc (count_matches ps (last_char prev (take n (c # s))) (drop (n - 1) s)))"
  by pat_completeness auto
termination
  by (relation "measure (\<lambda>(ps, prev, s). length s)") auto

text \<open>\<open>spells ps prev w r\<close>: the text \<open>w\<close>, after \<open>prev\<close> and before \<open>r\<close>, is a match.\<close>

fun spells :: "atom list \<Rightarrow> char option \<Rightarrow> string \<Rightarrow> string \<Rightarrow> bool" where
  "spells [] prev w r \<longleftrightarrow> w = []"
| "spells (Boundary # ps) prev w r \<longleftrightarrow> at_boundary prev (w @ r) \<and> spells ps prev w r"
| "spells (Rep c lo hi # ps) prev w r \<longleftrightarrow>
     (\<exists>u v. w = u @ v \<and> list_all c u \<and> lo \<le> length u \<and> upto_max hi (length u) \<and> spells ps (last_char prev u) v r)"

lemma first_some_SomeD: "first_some f xs = Some y \<Longrightarrow> \<exists>x \<in> set xs. f x = Some y"
  by (induction xs) (auto split: option.splits)

lemma first_some_None_iff: "first_some f xs = None \<longleftrightarrow> (\<forall>x \<in> set xs. f x = None)"
  by (induction xs) (auto split: option.splits)

lemma list_all_take_run: "n \<le> length (takeWhile c s) \<Longrightarrow> list_all c (take n s)"
  by (metis list_all_takeWhile takeWhile_eq_take take_take min.absorb1 append_take_drop_id list_all_append)

lemma run_covers: "list_all c u \<Longrightarrow> length u \<le> length (takeWhile c (u @ v))"
  by (induction u) auto

lemma re_match_sound: "re_match ps prev s = Some n \<Longrightarrow> n \<le> length s \<and> spells ps prev (take n s) (drop n s)"
proof (induction ps prev s arbitrary: n rule: re_match.induct)
  case (3 c lo hi ps prev s)
  obtain k m where k: "lo \<le> k" "k \<le> length (takeWhile c s)" "upto_max hi k" and n: "n = k + m"
    and rest: "re_match ps (last_char prev (take k s)) (drop k s) = Some m"
    using first_some_SomeD [OF 3(2) [unfolded re_match.simps]] by auto
  have "k \<le> length s" using k(2) length_takeWhile_le le_trans by blast
  moreover have "m \<le> length (drop k s)" "spells ps (last_char prev (take k s)) (take m (drop k s)) (drop m (drop k s))"
    using 3(1) [OF rest] by auto
  moreover have "take n s = take k s @ take m (drop k s)" by (simp add: n take_add)
  ultimately have "n \<le> length s \<and> take n s = take k s @ take m (drop k s) \<and> list_all c (take k s) \<and>
      lo \<le> length (take k s) \<and> upto_max hi (length (take k s)) \<and>
      spells ps (last_char prev (take k s)) (take m (drop k s)) (drop n s)"
    using k list_all_take_run [OF k(2)] n by (simp add: add.commute)
  then show ?case unfolding spells.simps by blast
qed (auto split: if_splits)

lemma re_match_complete: "spells ps prev w r \<Longrightarrow> re_match ps prev (w @ r) \<noteq> None"
proof (induction ps prev w r rule: spells.induct)
  case (3 c lo hi ps prev w r)
  then obtain u v where uv: "w = u @ v" "list_all c u" "lo \<le> length u" "upto_max hi (length u)" "spells ps (last_char prev u) v r"
    by auto
  have "length u \<in> set (rev (filter (upto_max hi) [lo..<Suc (length (takeWhile c (w @ r)))]))"
    using uv run_covers [of c u "v @ r"] by (simp only: set_rev set_filter) (auto simp del: upt_Suc)
  moreover have "re_match ps (last_char prev (take (length u) (w @ r))) (drop (length u) (w @ r)) \<noteq> None"
    using 3(1) [OF uv(5)] uv by simp
  ultimately show ?case
    unfolding re_match.simps first_some_None_iff by (metis (no_types, lifting) option.map_disc_iff)
qed auto

text \<open>An expression occurs in a text.\<close>

definition occurs :: "atom list \<Rightarrow> string \<Rightarrow> bool" where
  "occurs ps s \<longleftrightarrow> (\<exists>u w r. s = u @ w @ r \<and> spells ps (last_char None u) w r)"

fun min_length :: "atom list \<Rightarrow> nat" where
  "min_length [] = 0"
| "min_length (Boundary # ps) = min_length ps"
| "min_length (Rep c lo hi # ps) = lo + min_length ps"

lemma spells_length: "spells ps prev w r \<Longrightarrow> min_length ps \<le> length w"
  by (induction ps prev w r rule: spells.induct) fastforce+

lemma last_char_append [simp]: "last_char (last_char prev u) v = last_char prev (u @ v)"
  by (simp add: last_char_def)

lemma last_char_Cons: "last_char (Some c) u = last_char prev (c # u)"
  by (simp add: last_char_def)

lemma count_matches_zero:
  assumes "0 < min_length ps"
  shows "count_matches ps prev s = 0 \<longleftrightarrow> (\<forall>u w r. s = u @ w @ r \<longrightarrow> \<not> spells ps (last_char prev u) w r)"
proof (induction s arbitrary: prev)
  case Nil
  then show ?case using assms spells_length by fastforce
next
  case (Cons c s)
  show ?case
  proof (cases "re_match ps prev (c # s)")
    case (Some n)
    then have "spells ps prev (take n (c # s)) (drop n (c # s))" using re_match_sound by blast
    then have "\<exists>u w r. c # s = u @ w @ r \<and> spells ps (last_char prev u) w r"
      by (intro exI [of _ "[]"] exI [of _ "take n (c # s)"] exI [of _ "drop n (c # s)"]) (simp add: last_char_def)
    then show ?thesis using Some by auto
  next
    case None
    have head: "\<not> spells ps prev w r" if "c # s = w @ r" for w r
      using re_match_complete [of ps prev w r] None that by auto
    have "(\<forall>u w r. c # s = u @ w @ r \<longrightarrow> \<not> spells ps (last_char prev u) w r) \<longleftrightarrow>
        (\<forall>u w r. s = u @ w @ r \<longrightarrow> \<not> spells ps (last_char (Some c) u) w r)"
    proof (intro iffI allI impI)
      fix u w r
      assume tail: "\<forall>u w r. s = u @ w @ r \<longrightarrow> \<not> spells ps (last_char (Some c) u) w r" and eq: "c # s = u @ w @ r"
      show "\<not> spells ps (last_char prev u) w r"
      proof (cases u)
        case Nil
        then show ?thesis using head eq by (simp add: last_char_def)
      next
        case (Cons a u')
        then have "s = u' @ w @ r" "last_char prev u = last_char (Some c) u'"
          using eq by (simp_all add: last_char_Cons [of _ _ prev])
        then show ?thesis using tail by simp
      qed
    next
      fix u w r
      assume "\<forall>u w r. c # s = u @ w @ r \<longrightarrow> \<not> spells ps (last_char prev u) w r" and "s = u @ w @ r"
      then show "\<not> spells ps (last_char (Some c) u) w r"
        by (metis append_Cons last_char_Cons)
    qed
    then show ?thesis using None Cons.IH by simp
  qed
qed

lemma count_matches_pos: "0 < min_length ps \<Longrightarrow> 0 < count_matches ps None s \<longleftrightarrow> occurs ps s"
  using count_matches_zero [of ps None s] by (auto simp: occurs_def)

section \<open>The expressions of the preflight\<close>

definition digit :: "char \<Rightarrow> bool" where
  "digit c \<longleftrightarrow> in_range CHR ''0'' CHR ''9'' c"

definition upper_letter :: "char \<Rightarrow> bool" where
  "upper_letter c \<longleftrightarrow> in_range CHR ''A'' CHR ''Z'' c"

definition letter :: "char \<Rightarrow> bool" where
  "letter c \<longleftrightarrow> upper_letter c \<or> in_range CHR ''a'' CHR ''z'' c"

definition exact :: "string \<Rightarrow> atom list" where
  "exact s = map (\<lambda>c. Rep (\<lambda>x. x = c) 1 (Some 1)) s"

definition one_of :: "string \<Rightarrow> atom" where
  "one_of cs = Rep (\<lambda>c. c \<in> set cs) 1 (Some 1)"

definition raw_secret_patterns :: "(string \<times> atom list) list" where
  "raw_secret_patterns =
     [(''openai_key_shape'', Boundary # exact ''sk-'' @ [Rep word_dash_char 12 None, Boundary]),
      (''github_token_shape'', Boundary # exact ''gh'' @ [one_of ''pousr''] @ exact ''_'' @ [Rep word_char 20 None, Boundary]),
      (''aws_access_key_shape'', Boundary # exact ''AKIA'' @ [Rep (\<lambda>c. digit c \<or> upper_letter c) 16 (Some 16), Boundary]),
      (''slack_token_shape'', Boundary # exact ''xox'' @ [one_of ''baprs''] @ exact ''-'' @
         [Rep (\<lambda>c. alnum c \<or> c = CHR ''-'') 20 None, Boundary]),
      (''private_key_block'', exact ''-----BEGIN '' @ [Rep (\<lambda>c. upper_letter c \<or> c = CHR '' '') 0 None] @ exact ''PRIVATE KEY-----'')]"

definition private_data_patterns :: "(string \<times> atom list) list" where
  "private_data_patterns =
     [(''email_address'', [Boundary, Rep (\<lambda>c. alnum c \<or> c \<in> set ''._%+-'') 1 None] @ exact ''@'' @
         [Rep (\<lambda>c. alnum c \<or> c \<in> set ''.-'') 1 None] @ exact ''.'' @ [Rep letter 2 None, Boundary]),
      (''us_ssn_shape'', [Boundary, Rep digit 3 (Some 3)] @ exact ''-'' @ [Rep digit 2 (Some 2)] @ exact ''-'' @
         [Rep digit 4 (Some 4), Boundary]),
      (''phone_number_shape'', [Boundary, Rep (\<lambda>c. c = CHR ''+'') 0 (Some 1), Rep digit 1 (Some 1),
         Rep (\<lambda>c. digit c \<or> c \<in> set '' .()-'') 8 None, Rep digit 1 (Some 1), Boundary])]"

definition possible_secret_keywords :: "string list" where
  "possible_secret_keywords = [''secret'', ''token'', ''password'', ''bearer'', ''credential'']"

text \<open>\<open>^[A-Za-z0-9_./+=-]{32,}$\<close>; the end anchor also matches before a final line feed.\<close>

definition opaque_char :: "char \<Rightarrow> bool" where
  "opaque_char c \<longleftrightarrow> alnum c \<or> c \<in> set ''_./+=-''"

definition long_opaque_value :: "string \<Rightarrow> bool" where
  "long_opaque_value s \<longleftrightarrow>
     (let t = (if s \<noteq> [] \<and> last s = CHR 0x0A then butlast s else s) in 32 \<le> length t \<and> list_all opaque_char t)"

section \<open>The scan\<close>

record privacy_scan =
  ps_raw_secret_detected :: bool
  ps_possible_secret_detected :: bool
  ps_private_data_detected :: bool
  ps_remote_eligible :: bool
  ps_matched_signal_counts :: "(string \<times> nat) list"
  ps_reason_codes :: "string list"

definition pattern_counts :: "string list \<Rightarrow> (string \<times> atom list) list \<Rightarrow> (string \<times> nat) list" where
  "pattern_counts texts patterns = map (\<lambda>(name, p). (name, sum_list (map (count_matches p None) texts))) patterns"

fun is_str :: "json \<Rightarrow> bool" where
  "is_str (JStr s) = True"
| "is_str v = False"

definition possible_secret_key :: "string \<Rightarrow> bool" where
  "possible_secret_key k \<longleftrightarrow>
     list_ex (\<lambda>w. occurs_in w (replace_char CHR ''-'' CHR ''_'' (lower k))) possible_secret_keywords"

fun possible_secret_count :: "json \<Rightarrow> nat" where
  "possible_secret_count (JObj kvs) =
     sum_list (map (\<lambda>(k, v). (if is_str v \<and> possible_secret_key k then 1 else 0) + possible_secret_count v) kvs)"
| "possible_secret_count (JList xs) = sum_list (map possible_secret_count xs)"
| "possible_secret_count (JStr s) = (if long_opaque_value s then 1 else 0)"
| "possible_secret_count v = 0"

text \<open>\<open>_string_values\<close> is \<^const>\<open>all_strings\<close>.\<close>

definition scan_privacy :: "json \<Rightarrow> privacy_scan" where
  "scan_privacy v =
     (let texts = all_strings v;
          raw_counts = pattern_counts texts raw_secret_patterns;
          private_counts = pattern_counts texts private_data_patterns;
          possible = possible_secret_count v;
          raw = list_ex (\<lambda>(_, n). 0 < n) raw_counts;
          possible_detected = (raw \<or> 0 < possible);
          private = list_ex (\<lambda>(_, n). 0 < n) private_counts;
          reasons = (if raw then [''raw_secret_shape_detected''] else []) @
            (if possible_detected then [''possible_secret_detected''] else []) @
            (if private then [''private_data_detected''] else [])
      in \<lparr>ps_raw_secret_detected = raw, ps_possible_secret_detected = possible_detected,
          ps_private_data_detected = private, ps_remote_eligible = (\<not> raw \<and> \<not> private),
          ps_matched_signal_counts = filter (\<lambda>(_, n). 0 < n)
            (raw_counts @ private_counts @ (if 0 < possible then [(''possible_secret_shape'', possible)] else [])),
          ps_reason_codes = (if reasons = [] then [''no_privacy_signal_detected''] else reasons)\<rparr>)"

section \<open>The scan is exact\<close>

definition holds_match :: "(string \<times> atom list) list \<Rightarrow> json \<Rightarrow> bool" where
  "holds_match patterns v \<longleftrightarrow> (\<exists>s \<in> set (all_strings v). \<exists>(name, p) \<in> set patterns. occurs p s)"

lemma sum_list_pos: "0 < sum_list (ns :: nat list) \<longleftrightarrow> (\<exists>n \<in> set ns. 0 < n)"
  by (metis gr_zeroI not_gr_zero sum_list_eq_0_iff)

lemma pattern_counts_pos:
  assumes "\<forall>(name, p) \<in> set patterns. 0 < min_length p"
  shows "list_ex (\<lambda>(_, n). 0 < n) (pattern_counts (all_strings v) patterns) \<longleftrightarrow> holds_match patterns v"
proof -
  have each: "0 < sum_list (map (count_matches p None) ss) \<longleftrightarrow> (\<exists>s \<in> set ss. occurs p s)" if "0 < min_length p" for p ss
    by (simp add: sum_list_pos count_matches_pos [OF that])
  have "(\<exists>(name, p) \<in> set patterns. 0 < sum_list (map (count_matches p None) (all_strings v))) \<longleftrightarrow>
      (\<exists>(name, p) \<in> set patterns. \<exists>s \<in> set (all_strings v). occurs p s)"
    by (intro bex_cong refl) (use assms each in blast)
  moreover have "list_ex (\<lambda>(_, n). 0 < n) (pattern_counts (all_strings v) patterns) \<longleftrightarrow>
      (\<exists>(name, p) \<in> set patterns. 0 < sum_list (map (count_matches p None) (all_strings v)))"
    by (force simp: list_ex_iff pattern_counts_def)
  ultimately show ?thesis unfolding holds_match_def by blast
qed

lemma patterns_consume:
  "\<forall>(name, p) \<in> set raw_secret_patterns. 0 < min_length p" "\<forall>(name, p) \<in> set private_data_patterns. 0 < min_length p"
  by (simp_all add: raw_secret_patterns_def private_data_patterns_def exact_def one_of_def)

lemma scan_exact:
  "ps_raw_secret_detected (scan_privacy v) = holds_match raw_secret_patterns v"
  "ps_private_data_detected (scan_privacy v) = holds_match private_data_patterns v"
  using pattern_counts_pos patterns_consume by (simp_all add: scan_privacy_def Let_def)

text \<open>C38. The privacy preflight is exact. It reports a raw secret exactly when some text of the input contains a
  match of one of the credential expressions, and private data exactly when some text contains a match of one of the
  expressions for personal data; the input may leave the machine exactly when neither is the case. A reported
  count is never zero, and when nothing is found the scan says so.\<close>

theorem scan_privacy_exact:
  "ps_raw_secret_detected (scan_privacy v) = holds_match raw_secret_patterns v \<and>
   ps_private_data_detected (scan_privacy v) = holds_match private_data_patterns v \<and>
   ps_remote_eligible (scan_privacy v) = (\<not> holds_match raw_secret_patterns v \<and> \<not> holds_match private_data_patterns v) \<and>
   0 \<notin> snd ` set (ps_matched_signal_counts (scan_privacy v)) \<and>
   (ps_matched_signal_counts (scan_privacy v) = [] \<longleftrightarrow> ps_reason_codes (scan_privacy v) = [''no_privacy_signal_detected''])"
proof -
  have raw: "list_ex (\<lambda>(_, n). 0 < n) (pattern_counts (all_strings v) raw_secret_patterns) = holds_match raw_secret_patterns v"
    and priv: "list_ex (\<lambda>(_, n). 0 < n) (pattern_counts (all_strings v) private_data_patterns) = holds_match private_data_patterns v"
    using pattern_counts_pos patterns_consume by blast+
  have empty: "filter (\<lambda>(_, n). 0 < n) xs = [] \<longleftrightarrow> \<not> list_ex (\<lambda>(_, n). 0 < n) xs" for xs :: "(string \<times> nat) list"
    by (auto simp: list_ex_iff filter_empty_conv)
  show ?thesis
    by (auto simp: scan_privacy_def Let_def raw priv empty)
qed

end
