(* ===== verification/Floats.thy ===== *)
theory Floats
  imports Prelude
begin

text \<open>
  Python floats: a finite binary64 number is a rational, and \<open>fl\<close> rounds an exact result to the nearest one, ties
  to even (IEEE 754), with subnormal numbers. \<open>round4\<close> is \<open>round(x, 4)\<close>, which rounds the exact value of its
  argument to four decimals, ties to even, and then to binary64. The results used by the scorer are monotonicity and
  the numbers that are kept.

  Overflow to infinity does not occur in the modelled code, except where an integer is converted
  (\<open>float_of_int\<close>), which raises.
\<close>

section \<open>Rounding to an integer\<close>

definition half_even :: "rat \<Rightarrow> int" where
  "half_even x =
     (let n = \<lfloor>x\<rfloor>; r = x - of_int n in if r < 1 / 2 \<or> r = 1 / 2 \<and> even n then n else n + 1)"

lemma half_even_of_int [simp]: "half_even (of_int n) = n"
  by (simp add: half_even_def)

lemma half_even_bounds: "\<lfloor>x\<rfloor> \<le> half_even x" "half_even x \<le> \<lfloor>x\<rfloor> + 1"
  by (simp_all add: half_even_def Let_def)

lemma half_even_mono: "x \<le> y \<Longrightarrow> half_even x \<le> half_even y"
proof -
  assume le: "x \<le> y"
  then consider "\<lfloor>x\<rfloor> = \<lfloor>y\<rfloor>" | "\<lfloor>x\<rfloor> + 1 \<le> \<lfloor>y\<rfloor>" using floor_mono [OF le] by linarith
  then show ?thesis
  proof cases
    case 1
    then show ?thesis using le by (auto simp: half_even_def Let_def)
  next
    case 2
    then show ?thesis using half_even_bounds [of x] half_even_bounds [of y] by linarith
  qed
qed

lemma half_even_le: "x \<le> of_int n \<Longrightarrow> half_even x \<le> n"
  using half_even_mono [of x "of_int n"] by simp

lemma half_even_ge: "of_int n \<le> x \<Longrightarrow> n \<le> half_even x"
  using half_even_mono [of "of_int n" x] by simp

section \<open>The binary exponent\<close>

function bits :: "int \<Rightarrow> nat" where
  "bits n = (if n \<le> 0 then 0 else Suc (bits (n div 2)))"
  by pat_completeness auto
termination by (relation "measure nat") auto

declare bits.simps [simp del]

lemma bits_bounds: "0 < n \<Longrightarrow> 2 ^ (bits n - 1) \<le> n \<and> n < 2 ^ bits n \<and> 0 < bits n"
proof (induction n rule: bits.induct)
  case (1 n)
  show ?case
  proof (cases "n = 1")
    case True
    then show ?thesis by (simp add: bits.simps)
  next
    case False
    then have half: "0 < n div 2" using 1(2) by linarith
    then have ih: "2 ^ (bits (n div 2) - 1) \<le> n div 2" "n div 2 < 2 ^ bits (n div 2)" "0 < bits (n div 2)"
      using 1 by auto
    have step: "bits n = Suc (bits (n div 2))" using 1(2) by (simp add: bits.simps)
    obtain k where k: "bits (n div 2) = Suc k" using ih(3) by (cases "bits (n div 2)") auto
    then show ?thesis using ih step by simp linarith
  qed
qed

text \<open>\<open>binexp q\<close> is the exponent of the leading bit of a positive number.\<close>

definition binexp :: "rat \<Rightarrow> int" where
  "binexp q = (let (a, b) = quotient_of q; k = int (bits a) - int (bits b)
     in if power_int 2 k \<le> q then k else k - 1)"

lemma binexp_bounds:
  assumes "0 < q"
  shows "power_int 2 (binexp q) \<le> q \<and> q < power_int 2 (binexp q + 1)"
proof -
  obtain a b where ab: "quotient_of q = (a, b)" by (cases "quotient_of q")
  have b: "0 < b" and q: "q = of_int a / of_int b" using ab quotient_of_denom_pos quotient_of_div by blast+
  have a: "0 < a" using assms b unfolding q by (simp add: zero_less_divide_iff)
  define m n where "m = bits a" and "n = bits b"
  have bound: "power_int 2 (int (bits i) - 1) \<le> (of_int i :: rat) \<and> of_int i < (power_int 2 (int (bits i)) :: rat)"
    if "0 < i" for i :: int
  proof -
    have nb: "2 ^ (bits i - 1) \<le> i" "i < 2 ^ bits i" "0 < bits i" using bits_bounds [OF that] by auto
    have "(2::rat) ^ (bits i - 1) \<le> of_int i" using nb(1) by (metis of_int_le_iff of_int_numeral of_int_power)
    moreover have "of_int i < (2::rat) ^ bits i" using nb(2) by (metis of_int_less_iff of_int_numeral of_int_power)
    moreover have "int (bits i) - 1 = int (bits i - 1)" using nb(3) by simp
    ultimately show ?thesis by (simp only: power_int_of_nat)
  qed
  let ?k = "int m - int n"
  have lo: "power_int 2 (?k - 1) \<le> q"
  proof -
    have "power_int 2 (int m - 1) / power_int 2 (int n) \<le> (of_int a / of_int b :: rat)"
      using bound [OF a] bound [OF b] a b unfolding m_def n_def by (intro frac_le) auto
    moreover have "power_int 2 (int m - 1 - int n) = power_int 2 (int m - 1) / (power_int 2 (int n) :: rat)"
      by (rule power_int_diff) simp
    moreover have "int m - 1 - int n = ?k - 1" by simp
    ultimately show ?thesis unfolding q by simp
  qed
  have hi: "q < power_int 2 (?k + 1)"
  proof -
    have "(of_int a / of_int b :: rat) < power_int 2 (int m) / power_int 2 (int n - 1)"
      using bound [OF a] bound [OF b] a b unfolding m_def n_def by (intro frac_less) auto
    moreover have "power_int 2 (int m - (int n - 1)) = power_int 2 (int m) / (power_int 2 (int n - 1) :: rat)"
      by (rule power_int_diff) simp
    moreover have "int m - (int n - 1) = ?k + 1" by simp
    ultimately show ?thesis unfolding q by simp
  qed
  show ?thesis using lo hi by (auto simp: binexp_def ab Let_def m_def n_def)
qed

lemma binexp_mono: "0 < x \<Longrightarrow> x \<le> y \<Longrightarrow> binexp x \<le> binexp y"
proof (rule ccontr)
  assume "0 < x" "x \<le> y" "\<not> binexp x \<le> binexp y"
  then have "power_int 2 (binexp y + 1) \<le> (power_int 2 (binexp x) :: rat)" by (intro power_int_increasing) auto
  then show False using binexp_bounds [of x] binexp_bounds [of y] \<open>0 < x\<close> \<open>x \<le> y\<close> by auto
qed

section \<open>Binary64\<close>

definition ulp_exp :: "rat \<Rightarrow> int" where
  "ulp_exp q = max (binexp q - 52) (- 1074)"

definition round_pos :: "rat \<Rightarrow> rat" where
  "round_pos q = of_int (half_even (q / power_int 2 (ulp_exp q))) * power_int 2 (ulp_exp q)"

definition fl :: "rat \<Rightarrow> rat" where
  "fl q = (if q = 0 then 0 else if q < 0 then - round_pos (- q) else round_pos q)"

lemma power_int_pos [simp]: "0 < (power_int 2 e :: rat)"
  by simp

lemma power_of_two_int:
  assumes "a \<le> b"
  shows "\<exists>n. power_int 2 b = of_int n * (power_int 2 a :: rat)"
proof
  have "(power_int 2 b :: rat) = power_int 2 (b - a) * power_int 2 a" by (simp flip: power_int_add)
  also have "(power_int 2 (b - a) :: rat) = of_int (2 ^ nat (b - a))"
    using assms by (simp add: power_int_def)
  finally show "power_int 2 b = of_int (2 ^ nat (b - a)) * (power_int 2 a :: rat)" .
qed

text \<open>A power of two that is not below the unit in the last place bounds the rounded number.\<close>

lemma round_pos_le_power: "ulp_exp q \<le> e \<Longrightarrow> q \<le> power_int 2 e \<Longrightarrow> round_pos q \<le> power_int 2 e"
proof -
  assume "ulp_exp q \<le> e" and le: "q \<le> power_int 2 e"
  then obtain n where n: "power_int 2 e = of_int n * (power_int 2 (ulp_exp q) :: rat)" using power_of_two_int by blast
  then have "half_even (q / power_int 2 (ulp_exp q)) \<le> n" using le by (intro half_even_le) (simp add: field_simps)
  then show ?thesis unfolding round_pos_def n by (intro mult_right_mono) auto
qed

lemma round_pos_ge_power: "ulp_exp q \<le> e \<Longrightarrow> power_int 2 e \<le> q \<Longrightarrow> power_int 2 e \<le> round_pos q"
proof -
  assume "ulp_exp q \<le> e" and ge: "power_int 2 e \<le> q"
  then obtain n where n: "power_int 2 e = of_int n * (power_int 2 (ulp_exp q) :: rat)" using power_of_two_int by blast
  then have "n \<le> half_even (q / power_int 2 (ulp_exp q))" using ge by (intro half_even_ge) (simp add: field_simps)
  then show ?thesis unfolding round_pos_def n by (intro mult_right_mono) auto
qed

lemma round_pos_mono:
  assumes "0 < x" "x \<le> y"
  shows "round_pos x \<le> round_pos y"
proof (cases "ulp_exp x = ulp_exp y")
  case True
  then show ?thesis
    unfolding round_pos_def True using assms by (intro mult_right_mono) (auto intro!: half_even_mono divide_right_mono)
next
  case False
  then have less: "ulp_exp x < ulp_exp y" using binexp_mono [OF assms] by (auto simp: ulp_exp_def)
  then have ey: "ulp_exp y = binexp y - 52" and ex: "binexp x + 1 \<le> binexp y" by (auto simp: ulp_exp_def)
  have "x \<le> power_int 2 (binexp y)"
    using binexp_bounds [OF assms(1)] power_int_increasing [OF ex, of "2::rat"] by linarith
  then have "round_pos x \<le> power_int 2 (binexp y)" using less ey by (intro round_pos_le_power) auto
  also have "\<dots> \<le> round_pos y"
    using binexp_bounds [of y] assms ey by (intro round_pos_ge_power) auto
  finally show ?thesis .
qed

lemma round_pos_nonneg: "0 < q \<Longrightarrow> 0 \<le> round_pos q"
  unfolding round_pos_def by (intro mult_nonneg_nonneg) (auto intro!: half_even_ge)

lemma fl_mono: "x \<le> y \<Longrightarrow> fl x \<le> fl y"
proof -
  assume le: "x \<le> y"
  consider "0 < x" | "x \<le> 0" "0 \<le> y" | "y < 0" by linarith
  then show ?thesis
  proof cases
    case 2
    have "fl x \<le> 0" using 2(1) round_pos_nonneg [of "- x"] by (auto simp: fl_def)
    also have "0 \<le> fl y" using 2(2) round_pos_nonneg [of y] by (auto simp: fl_def)
    finally show ?thesis .
  qed (use le round_pos_mono [of x y] round_pos_mono [of "- y" "- x"] in \<open>auto simp: fl_def\<close>)
qed

lemma fl_zero [simp]: "fl 0 = 0"
  by (simp add: fl_def)

lemma round_pos_exact: "q = of_int n \<Longrightarrow> ulp_exp q \<le> 0 \<Longrightarrow> round_pos q = q"
proof -
  assume q: "q = of_int n" and e: "ulp_exp q \<le> 0"
  obtain m where m: "(1::rat) = of_int m * power_int 2 (ulp_exp q)" using power_of_two_int [OF e] by auto
  then have "q / power_int 2 (ulp_exp q) = of_int (n * m)" using q by (simp add: field_simps)
  then have "half_even (q / power_int 2 (ulp_exp q)) = n * m" using half_even_of_int by metis
  then show ?thesis unfolding round_pos_def using m q by simp
qed

lemma ulp_exp_small: "0 < q \<Longrightarrow> q < 2 ^ 53 \<Longrightarrow> ulp_exp q \<le> 0"
proof (rule ccontr)
  assume "0 < q" "q < 2 ^ 53" "\<not> ulp_exp q \<le> 0"
  then have "53 \<le> binexp q" by (simp add: ulp_exp_def)
  then have "power_int 2 53 \<le> (power_int 2 (binexp q) :: rat)" by (intro power_int_increasing) auto
  then show False using binexp_bounds [OF \<open>0 < q\<close>] \<open>q < 2 ^ 53\<close> by simp
qed

lemma fl_small_int: "\<bar>n\<bar> < 2 ^ 53 \<Longrightarrow> fl (of_int n) = of_int n"
proof -
  have pos: "round_pos (of_int m) = of_int m" if "0 < m" "m < 2 ^ 53" for m :: int
  proof -
    have "(of_int m :: rat) < of_int (2 ^ 53)" using that(2) by (simp only: of_int_less_iff)
    then have "ulp_exp (of_int m) \<le> 0" using that(1) by (intro ulp_exp_small) simp_all
    then show ?thesis by (intro round_pos_exact) simp
  qed
  assume "\<bar>n\<bar> < 2 ^ 53"
  then show ?thesis using pos [of n] pos [of "- n"] by (auto simp: fl_def)
qed

lemma fl_one [simp]: "fl 1 = 1"
  using fl_small_int [of 1] by simp

lemma fl_nonneg: "0 \<le> x \<Longrightarrow> 0 \<le> fl x"
  using fl_mono [of 0 x] by simp

lemma fl_le_one: "x \<le> 1 \<Longrightarrow> fl x \<le> 1"
  using fl_mono [of x 1] by simp

lemma binexp_nonneg: "1 \<le> x \<Longrightarrow> 0 \<le> binexp x"
proof (rule ccontr)
  assume x: "1 \<le> x" and "\<not> 0 \<le> binexp x"
  then have "power_int 2 (binexp x + 1) \<le> (power_int 2 0 :: rat)" by (intro power_int_increasing) auto
  then show False using binexp_bounds [of x] x by simp
qed

lemma fl_below_power:
  assumes "0 < x" and "x \<le> power_int 2 e" and "0 \<le> e"
  shows "fl x \<le> power_int 2 e"
proof -
  have "binexp x \<le> e"
  proof (rule ccontr)
    assume "\<not> binexp x \<le> e"
    then have "power_int 2 e < (power_int 2 (binexp x) :: rat)" by (intro power_int_strict_increasing) auto
    then show False using binexp_bounds [of x] assms by simp
  qed
  then have "round_pos x \<le> power_int 2 e" using assms by (intro round_pos_le_power) (auto simp: ulp_exp_def)
  then show ?thesis using assms(1) by (simp add: fl_def)
qed

section \<open>Operations\<close>

definition fadd :: "rat \<Rightarrow> rat \<Rightarrow> rat" where "fadd x y = fl (x + y)"
definition fsub :: "rat \<Rightarrow> rat \<Rightarrow> rat" where "fsub x y = fl (x - y)"
definition fmul :: "rat \<Rightarrow> rat \<Rightarrow> rat" where "fmul x y = fl (x * y)"
definition fdiv :: "rat \<Rightarrow> rat \<Rightarrow> rat" where "fdiv x y = fl (x / y)"

text \<open>\<open>float(n)\<close> raises when the rounded value is beyond the largest finite number.\<close>

definition float_of_int :: "int \<Rightarrow> rat result" where
  "float_of_int n =
     (if 2 ^ 1024 \<le> \<bar>fl (of_int n)\<bar> then Inl (OverflowError ''int too large to convert to float'') else Inr (fl (of_int n)))"

definition round4 :: "rat \<Rightarrow> rat" where
  "round4 x = fl (of_int (half_even (x * 10000)) / 10000)"

lemma round4_mono: "x \<le> y \<Longrightarrow> round4 x \<le> round4 y"
  unfolding round4_def by (intro fl_mono divide_right_mono) (auto intro!: half_even_mono)

lemma round4_unit: "0 \<le> x \<Longrightarrow> x \<le> 1 \<Longrightarrow> 0 \<le> round4 x \<and> round4 x \<le> 1"
proof -
  have "round4 0 = 0" "round4 1 = 1"
    using half_even_of_int [of 0] half_even_of_int [of 10000] by (simp_all add: round4_def)
  then show "0 \<le> x \<Longrightarrow> x \<le> 1 \<Longrightarrow> ?thesis" using round4_mono [of 0 x] round4_mono [of x 1] by simp
qed

lemma fmul_unit: "0 \<le> x \<Longrightarrow> x \<le> 1 \<Longrightarrow> 0 \<le> y \<Longrightarrow> y \<le> 1 \<Longrightarrow> 0 \<le> fmul x y \<and> fmul x y \<le> 1"
  unfolding fmul_def using mult_le_one [of x y] by (auto intro!: fl_nonneg fl_le_one)

lemma fmul_nonneg: "0 \<le> x \<Longrightarrow> 0 \<le> y \<Longrightarrow> 0 \<le> fmul x y"
  unfolding fmul_def by (intro fl_nonneg) simp

lemma fadd_nonneg: "0 \<le> x \<Longrightarrow> 0 \<le> y \<Longrightarrow> 0 \<le> fadd x y"
  unfolding fadd_def by (intro fl_nonneg) simp

text \<open>Half of a rounded number does not exceed the number.\<close>

lemma half_fl_le: "1 \<le> x \<Longrightarrow> fmul (fl x) (1 / 2) \<le> x"
proof -
  assume x: "1 \<le> x"
  let ?e = "binexp x"
  have b: "power_int 2 ?e \<le> x" "x < power_int 2 (?e + 1)" using binexp_bounds [of x] x by auto
  have "fl x \<le> power_int 2 (?e + 1)" using fl_below_power [of x "?e + 1"] b x binexp_nonneg [OF x] by simp
  then have "fl x * (1 / 2) \<le> power_int 2 ?e" by (simp add: power_int_add)
  moreover have "1 \<le> fl x" using fl_mono [OF x] by simp
  ultimately have "fl (fl x * (1 / 2)) \<le> power_int 2 ?e" using binexp_nonneg [OF x] by (intro fl_below_power) auto
  then show ?thesis unfolding fmul_def using b by simp
qed

end
