(* ===== verification/Task_Analysis.thy ===== *)
theory Task_Analysis
  imports Config Privacy Floats
begin

text \<open>
  The deterministic task analysis (\<open>src/tokenbank/router/token_estimator.py\<close>, \<open>task_analyzer.py\<close>, with
  \<open>models/task_analysis.py\<close> and \<open>models/work_unit.py\<close>): the shape of the input, token and cost estimates, the
  difficulty, and the effective task and privacy levels. The analysis never lowers a level and refuses exactly the
  inputs that hold a raw secret or ask for a scan of the workspace.
\<close>

section \<open>Work units\<close>

record work_unit =
  wun_work_unit_id :: string
  wun_run_id :: string
  wun_task_type :: string
  wun_task_level :: string
  wun_status :: string
  wun_privacy_level :: string
  wun_data_labels :: "string list"
  wun_input_refs :: "artifact_ref list"
  wun_inline_input :: fields
  wun_output_schema_ref :: "string option"
  wun_max_cost_micros :: "int option"
  wun_deadline_ms :: "int option"
  wun_created_at :: string
  wun_updated_at :: string

section \<open>Tokens\<close>

record token_estimate =
  te_tokenizer_profile_id :: string
  te_input_tokens :: int
  te_output_tokens :: int
  te_total_tokens :: int
  te_confidence :: rat
  te_method :: string

definition tokenizer_profile_id :: string where
  "tokenizer_profile_id = ''heuristic:cl100k_like:v0''"

definition default_output_tokens :: "(string \<times> int) list" where
  "default_output_tokens =
     [(''url_check'', 64), (''dedup'', 128), (''webpage_extraction'', 512), (''topic_classification'', 96),
      (''claim_extraction'', 512)]"

text \<open>\<open>ceil(n / d)\<close> with a float quotient\<close>

definition ceil_quotient :: "nat \<Rightarrow> rat \<Rightarrow> int" where
  "ceil_quotient n d = \<lceil>fdiv (of_nat n) d\<rceil>"

definition estimate_text_tokens :: "string \<Rightarrow> int" where
  "estimate_text_tokens s = (if s = [] then 0 else max 1 (ceil_quotient (length s) 4))"

definition estimated_output_tokens :: "string \<Rightarrow> fields \<Rightarrow> int" where
  "estimated_output_tokens task_type inline_input =
     (let dflt = dget_or 256 default_output_tokens task_type;
          field = dget_or JNull inline_input;
          page = (if truthy (field ''text'') then field ''text'' else field ''html'') in
      if task_type = ''dedup'' then
        (case field ''items'' of JList xs \<Rightarrow> max dflt (int (length xs) * 12) | _ \<Rightarrow> dflt)
      else if task_type = ''claim_extraction'' then
        (case field ''text'' of JStr s \<Rightarrow> max dflt (min 2048 (ceil_quotient (length s) 12)) | _ \<Rightarrow> dflt)
      else if task_type = ''webpage_extraction'' then
        (case page of JStr s \<Rightarrow> max dflt (min 2048 (ceil_quotient (length s) 16)) | _ \<Rightarrow> dflt)
      else dflt)"

definition estimate_tokens :: "(rat \<Rightarrow> string) \<Rightarrow> string \<Rightarrow> fields \<Rightarrow> token_estimate" where
  "estimate_tokens frepr task_type inline_input =
     (let input = estimate_text_tokens (canonical_json_dumps frepr (JObj inline_input));
          out = estimated_output_tokens task_type inline_input in
      \<lparr>te_tokenizer_profile_id = tokenizer_profile_id, te_input_tokens = input, te_output_tokens = out,
       te_total_tokens = input + out, te_confidence = fl (62 / 100),
       te_method = ''chars_div_4_plus_task_default_output''\<rparr>)"

section \<open>The shape of the input\<close>

record input_shape =
  is_explicit_refs_count :: nat
  is_explicit_urls_count :: nat
  is_file_refs_count :: nat
  is_inline_chars :: nat
  is_inline_bytes :: nat
  is_json_depth :: nat
  is_list_items_count :: nat
  is_workspace_scan_requested :: bool

text \<open>\<open>text.count(part)\<close> for a non-empty part.\<close>

function count_part :: "string \<Rightarrow> string \<Rightarrow> nat" where
  "count_part p [] = 0"
| "count_part p (c # s) =
     (if starts_with p (c # s) then Suc (count_part p (drop (length p - 1) s)) else count_part p s)"
  by pat_completeness auto
termination
  by (relation "measure (\<lambda>(p, s). length s)") auto

fun count_urls :: "json \<Rightarrow> nat" where
  "count_urls (JObj kvs) = sum_list (map (\<lambda>(k, v). count_urls v) kvs)"
| "count_urls (JList xs) = sum_list (map count_urls xs)"
| "count_urls (JStr s) = count_part ''http://'' s + count_part ''https://'' s"
| "count_urls v = 0"

definition file_key :: "string \<Rightarrow> bool" where
  "file_key k \<longleftrightarrow>
     ends_with ''_path'' (lower k) \<or> ends_with ''_file'' (lower k) \<or> lower k \<in> {''path'', ''file''}"

fun count_file_refs :: "json \<Rightarrow> nat" where
  "count_file_refs (JObj kvs) =
     sum_list (map (\<lambda>(k, v). (if is_str v \<and> file_key k then 1 else 0) + count_file_refs v) kvs)"
| "count_file_refs (JList xs) = sum_list (map count_file_refs xs)"
| "count_file_refs v = 0"

fun json_depth :: "json \<Rightarrow> nat" where
  "json_depth (JObj kvs) = 1 + fold max (map (\<lambda>(k, v). json_depth v) kvs) 0"
| "json_depth (JList xs) = 1 + fold max (map json_depth xs) 0"
| "json_depth v = 1"

fun list_items_count :: "json \<Rightarrow> nat" where
  "list_items_count (JObj kvs) = sum_list (map (\<lambda>(k, v). list_items_count v) kvs)"
| "list_items_count (JList xs) = length xs + sum_list (map list_items_count xs)"
| "list_items_count v = 0"

definition scan_key :: "string \<Rightarrow> json \<Rightarrow> bool" where
  "scan_key k v \<longleftrightarrow>
     (let t = replace_char CHR ''-'' CHR ''_'' (lower k) in
      occurs_in ''workspace'' t \<and> occurs_in ''scan'' t \<or> t \<in> {''recursive'', ''recursive_scan''} \<and> truthy v)"

fun workspace_scan_requested :: "json \<Rightarrow> bool" where
  "workspace_scan_requested (JObj kvs) = list_ex (\<lambda>(k, v). scan_key k v \<or> workspace_scan_requested v) kvs"
| "workspace_scan_requested (JList xs) = list_ex workspace_scan_requested xs"
| "workspace_scan_requested v = False"

definition utf8_length :: "string \<Rightarrow> nat" where
  "utf8_length s = sum_list (map (\<lambda>c. if of_char c < (128 :: nat) then 1 else 2) s)"

definition input_shape_for_work_unit :: "(rat \<Rightarrow> string) \<Rightarrow> work_unit \<Rightarrow> input_shape" where
  "input_shape_for_work_unit frepr wu =
     (let v = JObj (wun_inline_input wu); serialized = canonical_json_dumps frepr v in
      \<lparr>is_explicit_refs_count = length (wun_input_refs wu), is_explicit_urls_count = count_urls v,
       is_file_refs_count = count_file_refs v, is_inline_chars = length serialized,
       is_inline_bytes = utf8_length serialized, is_json_depth = json_depth v,
       is_list_items_count = list_items_count v, is_workspace_scan_requested = workspace_scan_requested v\<rparr>)"

section \<open>Orders of levels\<close>

definition task_level_order :: "(string \<times> int) list" where
  "task_level_order = [(''L0'', 0), (''L1'', 1), (''L2'', 2), (''L3'', 3)]"

definition privacy_order :: "(string \<times> int) list" where
  "privacy_order = [(''private'', 0), (''internal'', 1), (''sensitive'', 2)]"

definition difficulty_order :: "(string \<times> int) list" where
  "difficulty_order = [(''trivial'', 0), (''easy'', 1), (''medium'', 2), (''high'', 3), (''expert'', 4)]"

definition rank_in :: "(string \<times> int) list \<Rightarrow> string \<Rightarrow> int result" where
  "rank_in order k = (case dget order k of None \<Rightarrow> Inl (KeyError k) | Some n \<Rightarrow> Inr n)"

definition max_by_order :: "(string \<times> int) list \<Rightarrow> string \<Rightarrow> string \<Rightarrow> string result" where
  "max_by_order order cur target =
     bind_result (rank_in order target) (\<lambda>t.
     bind_result (rank_in order cur) (\<lambda>c.
     Inr (if c < t then target else cur)))"

definition raised_privacy_level :: "string \<Rightarrow> bool \<Rightarrow> bool \<Rightarrow> string result" where
  "raised_privacy_level cur raw_secret private_data =
     max_by_order privacy_order cur (if raw_secret \<or> private_data then ''sensitive'' else cur)"

definition raised_task_level :: "string \<Rightarrow> string \<Rightarrow> bool \<Rightarrow> bool \<Rightarrow> string result" where
  "raised_task_level cur difficulty raw_secret private_data =
     max_by_order task_level_order cur
       (if raw_secret then ''L2'' else if private_data then ''L1''
        else if difficulty \<in> {''high'', ''expert''} then ''L2'' else cur)"

definition raise_difficulty :: "string \<Rightarrow> int \<Rightarrow> nat \<Rightarrow> string result" where
  "raise_difficulty base token_total depth =
     (let target = (if 32000 \<le> token_total then ''expert'' else if 16000 \<le> token_total then ''high''
                    else if 6 \<le> depth then ''medium'' else base) in
      bind_result (rank_in difficulty_order target) (\<lambda>t.
      Inr (if dget_or 2 difficulty_order base < t then target else base)))"

section \<open>Complexity\<close>

record complexity_estimate =
  ce_difficulty :: string
  ce_estimated_attempts :: rat
  ce_requires_strong_reasoning :: bool
  ce_requires_long_context :: bool
  ce_requires_tools :: bool
  ce_reason_codes :: "string list"

definition estimated_attempts :: "string \<Rightarrow> rat" where
  "estimated_attempts difficulty =
     dget_or (fl (12 / 10))
       [(''trivial'', 1), (''easy'', 1), (''medium'', fl (12 / 10)), (''high'', fl (15 / 10)), (''expert'', 2)] difficulty"

definition make_complexity_estimate :: "complexity_estimate \<Rightarrow> complexity_estimate result" where
  "make_complexity_estimate c =
     bind_result (check (ce_difficulty c \<in> set (map fst difficulty_order)) (ValueError ''difficulty'')) (\<lambda>_.
     bind_result (map_result non_empty_str (ce_reason_codes c)) (\<lambda>codes.
     Inr (c\<lparr>ce_reason_codes := codes\<rparr>)))"

definition gateway_class :: "string \<Rightarrow> bool" where
  "gateway_class c \<longleftrightarrow> c \<in> {''api_model_gateway'', ''primary_model_gateway''}"

definition complexity_estimate_of ::
  "(json \<Rightarrow> string) \<Rightarrow> fields \<Rightarrow> input_shape \<Rightarrow> int \<Rightarrow> route_plan option \<Rightarrow> complexity_estimate result" where
  "complexity_estimate_of repr task_defaults shape token_total plan =
     (let base = py_str repr (dget_or (JStr ''medium'') task_defaults ''difficulty'');
          family = py_str repr (dget_or (JStr ''simple_transform'') task_defaults ''task_family'');
          tools = (case plan of None \<Rightarrow> False
                   | Some p \<Rightarrow> list_ex (\<lambda>c. \<not> gateway_class (cand_backend_class c)) (plan_candidates p)) in
      bind_result (raise_difficulty base token_total (is_json_depth shape)) (\<lambda>difficulty.
      make_complexity_estimate
        \<lparr>ce_difficulty = difficulty, ce_estimated_attempts = estimated_attempts difficulty,
         ce_requires_strong_reasoning = (difficulty \<in> {''high'', ''expert''} \<or> family = ''strong_reasoning''),
         ce_requires_long_context = (16000 \<le> token_total), ce_requires_tools = tools,
         ce_reason_codes = [''default_difficulty:'' @ base, ''task_family:'' @ family] @
           (if difficulty \<noteq> base then [''difficulty_raised:'' @ difficulty] else []) @
           (if 16000 \<le> token_total then [''long_context_estimate''] else []) @
           (if tools then [''route_requires_tool_backend''] else [])\<rparr>))"

section \<open>Costs\<close>

record backend_price =
  bp_cost_profile_id :: string
  bp_input_unit_micros :: int
  bp_output_unit_micros :: int

record cost_estimate =
  co_cost_profile_id :: string
  co_min_cost_micros :: int
  co_expected_cost_micros :: int
  co_max_cost_micros :: int
  co_confidence :: rat
  co_cost_source :: string

definition price_for_backend :: "loaded_config \<Rightarrow> string option \<Rightarrow> backend_price result" where
  "price_for_backend cfg backend_id =
     (case backend_id of
        None \<Rightarrow> Inr \<lparr>bp_cost_profile_id = ''pricing:none'', bp_input_unit_micros = 0, bp_output_unit_micros = 0\<rparr>
      | Some i \<Rightarrow>
          bind_result (pricing_entries cfg) (\<lambda>prices.
          case find (\<lambda>price. dget_or JNull price ''backend_id'' = JStr i) prices of
            None \<Rightarrow> Inr \<lparr>bp_cost_profile_id = ''backend_cost_model:'' @ i, bp_input_unit_micros = 0, bp_output_unit_micros = 0\<rparr>
          | Some price \<Rightarrow>
              bind_result (py_int (dget_or (JInt 0) price ''input_unit_micros'')) (\<lambda>input.
              bind_result (py_int (dget_or (JInt 0) price ''output_unit_micros'')) (\<lambda>out.
              Inr \<lparr>bp_cost_profile_id = ''pricing:'' @ i, bp_input_unit_micros = input, bp_output_unit_micros = out\<rparr>))))"

definition selected_route_candidate :: "route_plan option \<Rightarrow> route_candidate option" where
  "selected_route_candidate plan =
     (case plan of None \<Rightarrow> None
      | Some p \<Rightarrow> find (\<lambda>c. cand_route_candidate_id c = plan_selected_candidate_id p) (plan_candidates p))"

definition make_cost_estimate :: "cost_estimate \<Rightarrow> cost_estimate result" where
  "make_cost_estimate c =
     bind_result (non_empty_str (co_cost_profile_id c)) (\<lambda>i.
     bind_result (check (0 \<le> co_min_cost_micros c) (ValueError ''min_cost_micros'')) (\<lambda>_.
     bind_result (check (0 \<le> co_expected_cost_micros c) (ValueError ''expected_cost_micros'')) (\<lambda>_.
     bind_result (check (0 \<le> co_max_cost_micros c) (ValueError ''max_cost_micros'')) (\<lambda>_.
     Inr (c\<lparr>co_cost_profile_id := i\<rparr>)))))"

definition min_cost :: "int \<Rightarrow> int result" where
  "min_cost expected =
     (if expected = 0 then Inr 0
      else bind_result (float_of_int expected) (\<lambda>x. Inr (max 1 \<lceil>fmul x (1 / 2)\<rceil>)))"

definition cost_estimate_of :: "loaded_config \<Rightarrow> token_estimate \<Rightarrow> route_plan option \<Rightarrow> cost_estimate result" where
  "cost_estimate_of cfg tokens plan =
     (let selected = selected_route_candidate plan;
          base = (case selected of None \<Rightarrow> 0 | Some c \<Rightarrow> cand_estimated_cost_micros c) in
      bind_result (price_for_backend cfg (map_option cand_backend_id selected)) (\<lambda>price.
      let token_cost = te_input_tokens tokens * bp_input_unit_micros price + te_output_tokens tokens * bp_output_unit_micros price;
          expected = max base token_cost in
      bind_result (min_cost expected) (\<lambda>low.
      make_cost_estimate
        \<lparr>co_cost_profile_id = bp_cost_profile_id price, co_min_cost_micros = low, co_expected_cost_micros = expected,
         co_max_cost_micros = (if expected = 0 then expected else max expected (expected * 2)),
         co_confidence = (if selected \<noteq> None then fl (80 / 100) else fl (55 / 100)),
         co_cost_source = (if token_cost \<noteq> 0 then ''pricing_table_estimate'' else ''backend_estimate'')\<rparr>)))"

section \<open>The report\<close>

record task_analysis_report =
  tar_task_analysis_id :: string
  tar_work_unit_id :: string
  tar_source :: string
  tar_routebook_id :: string
  tar_routebook_version :: string
  tar_task_type :: string
  tar_input_shape :: input_shape
  tar_token_estimate :: token_estimate
  tar_cost_estimate :: cost_estimate
  tar_privacy_scan :: privacy_scan
  tar_complexity :: complexity_estimate
  tar_effective_task_level :: string
  tar_effective_privacy_level :: string
  tar_preflight_decision :: string
  tar_confidence :: rat
  tar_reason_codes :: "string list"

definition task_type_defaults :: "loaded_routebook_v1 \<Rightarrow> string \<Rightarrow> fields" where
  "task_type_defaults rb task_type =
     (case dget_or (JObj []) (v1_ontology rb) ''task_type_defaults'' of
        JObj defaults \<Rightarrow> (case dget_or JNull defaults task_type of JObj d \<Rightarrow> d | _ \<Rightarrow> [])
      | _ \<Rightarrow> [])"

definition analysis_confidence :: "input_shape \<Rightarrow> bool \<Rightarrow> rat" where
  "analysis_confidence shape raw_secret =
     (if raw_secret then fl (90 / 100) else if 20000 < is_inline_chars shape then fl (70 / 100) else fl (82 / 100))"

definition make_task_analysis_report :: "task_analysis_report \<Rightarrow> task_analysis_report result" where
  "make_task_analysis_report r =
     bind_result (non_empty_str (tar_task_analysis_id r)) (\<lambda>i.
     bind_result (non_empty_str (tar_work_unit_id r)) (\<lambda>wid.
     bind_result (non_empty_str (tar_routebook_id r)) (\<lambda>rid.
     bind_result (non_empty_str (tar_routebook_version r)) (\<lambda>ver.
     bind_result (non_empty_str (tar_task_type r)) (\<lambda>ty.
     bind_result (check (tar_effective_task_level r \<in> set task_levels_const) (ValueError ''effective_task_level'')) (\<lambda>_.
     bind_result (check (tar_effective_privacy_level r \<in> set (map fst privacy_order)) (ValueError ''effective_privacy_level'')) (\<lambda>_.
     bind_result (map_result non_empty_str (tar_reason_codes r)) (\<lambda>codes.
     Inr (r\<lparr>tar_task_analysis_id := i, tar_work_unit_id := wid, tar_routebook_id := rid, tar_routebook_version := ver,
            tar_task_type := ty, tar_reason_codes := codes\<rparr>)))))))))"

definition analyze ::
  "platform \<Rightarrow> (json \<Rightarrow> string) \<Rightarrow> loaded_routebook_v1 \<Rightarrow> loaded_config \<Rightarrow> work_unit \<Rightarrow> route_plan option \<Rightarrow> task_analysis_report result" where
  "analyze p repr rb cfg wu plan =
     (let shape = input_shape_for_work_unit (float_repr p) wu;
          tokens = estimate_tokens (float_repr p) (wun_task_type wu) (wun_inline_input wu);
          scan = scan_privacy (JObj (wun_inline_input wu));
          raw = ps_raw_secret_detected scan; private_data = ps_private_data_detected scan in
      bind_result (complexity_estimate_of repr (task_type_defaults rb (wun_task_type wu)) shape (te_total_tokens tokens) plan)
        (\<lambda>complexity.
      bind_result (raised_privacy_level (wun_privacy_level wu) raw private_data) (\<lambda>privacy.
      bind_result (raised_task_level (wun_task_level wu) (ce_difficulty complexity) raw private_data) (\<lambda>level.
      bind_result (rank_in task_level_order level) (\<lambda>raised.
      bind_result (rank_in task_level_order (wun_task_level wu)) (\<lambda>declared.
      bind_result (v1_routebook_id repr rb) (\<lambda>rid.
      bind_result (v1_version repr rb) (\<lambda>ver.
      bind_result (cost_estimate_of cfg tokens plan) (\<lambda>costs.
      make_task_analysis_report
        \<lparr>tar_task_analysis_id = ''ta_'' @ wun_work_unit_id wu @ ''_'' @ wun_task_type wu,
         tar_work_unit_id = wun_work_unit_id wu, tar_source = ''deterministic_preflight'', tar_routebook_id = rid,
         tar_routebook_version = ver, tar_task_type = wun_task_type wu, tar_input_shape = shape,
         tar_token_estimate = tokens, tar_cost_estimate = costs, tar_privacy_scan = scan, tar_complexity = complexity,
         tar_effective_task_level = level, tar_effective_privacy_level = privacy,
         tar_preflight_decision = (if raw \<or> is_workspace_scan_requested shape then ''deny'' else ''allow''),
         tar_confidence = analysis_confidence shape raw,
         tar_reason_codes = [''deterministic_wp_rb2_preflight'', ''task_type:'' @ wun_task_type wu,
             ''tokenizer:'' @ te_tokenizer_profile_id tokens] @
           (if is_workspace_scan_requested shape then [''workspace_scan_requested_denied''] else []) @
           (if raw then [''preflight_deny_raw_secret''] else []) @
           (if private_data then [''privacy_level_raised''] else []) @
           (if declared < raised then [''task_level_raised''] else [])\<rparr>)))))))))"

section \<open>What the analysis promises\<close>

lemma max_by_order_ok:
  assumes "max_by_order order cur target = Inr r"
  shows "\<exists>c t. rank_in order cur = Inr c \<and> rank_in order target = Inr t \<and> rank_in order r = Inr (max c t)"
proof -
  obtain c t where "rank_in order cur = Inr c" "rank_in order target = Inr t" "r = (if c < t then target else cur)"
    using assms by (auto simp: max_by_order_def)
  then show ?thesis by (intro exI [of _ c] exI [of _ t]) (simp add: max_def)
qed

lemma min_cost_ok: "min_cost e = Inr m \<Longrightarrow> 0 \<le> e \<Longrightarrow> 0 \<le> m \<and> m \<le> e"
proof (cases "e = 0")
  case False
  assume m: "min_cost e = Inr m" and "0 \<le> e"
  then have e: "1 \<le> (of_int e :: rat)" using False by simp
  have "m = max 1 \<lceil>fmul (fl (of_int e)) (1 / 2)\<rceil>"
    using m False by (auto simp: min_cost_def float_of_int_def split: if_splits)
  moreover have "fmul (fl (of_int e)) (1 / 2) \<le> of_int e" using half_fl_le [OF e] .
  ultimately show ?thesis using e by (auto simp: ceiling_le_iff)
qed (simp add: min_cost_def)

lemma cost_estimate_ok:
  assumes "cost_estimate_of cfg tokens plan = Inr c"
    and "\<And>p x. plan = Some p \<Longrightarrow> x \<in> set (plan_candidates p) \<Longrightarrow> 0 \<le> cand_estimated_cost_micros x"
  shows "0 \<le> co_min_cost_micros c \<and> co_min_cost_micros c \<le> co_expected_cost_micros c \<and>
    co_expected_cost_micros c \<le> co_max_cost_micros c"
proof -
  let ?base = "case selected_route_candidate plan of None \<Rightarrow> 0 | Some c \<Rightarrow> cand_estimated_cost_micros c"
  have base: "0 \<le> ?base"
    using assms(2) by (auto simp: selected_route_candidate_def find_Some_iff split: option.splits)
  obtain token_cost low where "min_cost (max ?base token_cost) = Inr low"
    and c: "co_min_cost_micros c = low" "co_expected_cost_micros c = max ?base token_cost"
      "co_max_cost_micros c = (if max ?base token_cost = 0 then max ?base token_cost
        else max (max ?base token_cost) (max ?base token_cost * 2))"
    using assms(1) unfolding cost_estimate_of_def Let_def bind_result_Inr_iff
    by - (elim exE conjE, rule that, assumption, auto simp: make_cost_estimate_def)
  then show ?thesis using min_cost_ok [of "co_expected_cost_micros c" low] base by auto
qed

lemma make_task_analysis_report_ok:
  "make_task_analysis_report x = Inr r \<Longrightarrow>
     tar_token_estimate r = tar_token_estimate x \<and> tar_cost_estimate r = tar_cost_estimate x \<and>
     tar_effective_task_level r = tar_effective_task_level x \<and> tar_effective_privacy_level r = tar_effective_privacy_level x \<and>
     tar_preflight_decision r = tar_preflight_decision x \<and> tar_confidence r = tar_confidence x \<and>
     tar_privacy_scan r = tar_privacy_scan x"
  by (auto simp: make_task_analysis_report_def)

text \<open>The task analysis raises levels and never lowers them, and it refuses exactly the forbidden inputs. Whenever
  an analysis is returned, the effective task and privacy levels are at least the declared ones, with an input that
  holds a credential or personal data the privacy level is sensitive, and with a credential the task level is at least
  L2. The decision is deny exactly when some text of the input matches a credential expression or a scan of the
  workspace is requested, at any depth. The token total is the sum of its parts, and the cost bounds enclose the
  expected cost.\<close>

theorem analysis_never_lowers:
  assumes "analyze p repr rb cfg wu plan = Inr r"
    and "\<And>q x. plan = Some q \<Longrightarrow> x \<in> set (plan_candidates q) \<Longrightarrow> 0 \<le> cand_estimated_cost_micros x"
  shows "(\<exists>c n. rank_in task_level_order (wun_task_level wu) = Inr c \<and> rank_in task_level_order (tar_effective_task_level r) = Inr n \<and>
      c \<le> n \<and> (holds_match raw_secret_patterns (JObj (wun_inline_input wu)) \<longrightarrow> 2 \<le> n)) \<and>
    (\<exists>c n. rank_in privacy_order (wun_privacy_level wu) = Inr c \<and> rank_in privacy_order (tar_effective_privacy_level r) = Inr n \<and>
      c \<le> n \<and> (holds_match raw_secret_patterns (JObj (wun_inline_input wu)) \<or>
        holds_match private_data_patterns (JObj (wun_inline_input wu)) \<longrightarrow> n = 2)) \<and>
    (tar_preflight_decision r = ''deny'' \<longleftrightarrow> holds_match raw_secret_patterns (JObj (wun_inline_input wu)) \<or>
      workspace_scan_requested (JObj (wun_inline_input wu))) \<and>
    te_total_tokens (tar_token_estimate r) = te_input_tokens (tar_token_estimate r) + te_output_tokens (tar_token_estimate r) \<and>
    0 \<le> co_min_cost_micros (tar_cost_estimate r) \<and>
    co_min_cost_micros (tar_cost_estimate r) \<le> co_expected_cost_micros (tar_cost_estimate r) \<and>
    co_expected_cost_micros (tar_cost_estimate r) \<le> co_max_cost_micros (tar_cost_estimate r)"
proof -
  let ?v = "JObj (wun_inline_input wu)"
  let ?raw = "holds_match raw_secret_patterns ?v" and ?priv = "holds_match private_data_patterns ?v"
  have scan: "ps_raw_secret_detected (scan_privacy ?v) = ?raw" "ps_private_data_detected (scan_privacy ?v) = ?priv"
    using scan_exact by blast+
  have shape: "is_workspace_scan_requested (input_shape_for_work_unit f wu) = workspace_scan_requested ?v" for f
    by (simp add: input_shape_for_work_unit_def Let_def)
  obtain difficulty privacy level costs x where x: "make_task_analysis_report x = Inr r"
    and parts: "raised_privacy_level (wun_privacy_level wu) ?raw ?priv = Inr privacy"
    "raised_task_level (wun_task_level wu) difficulty ?raw ?priv = Inr level"
    "cost_estimate_of cfg (estimate_tokens (float_repr p) (wun_task_type wu) (wun_inline_input wu)) plan = Inr costs"
    "tar_token_estimate x = estimate_tokens (float_repr p) (wun_task_type wu) (wun_inline_input wu)" "tar_cost_estimate x = costs"
    "tar_effective_task_level x = level" "tar_effective_privacy_level x = privacy"
    "tar_preflight_decision x = (if ?raw \<or> workspace_scan_requested ?v then ''deny'' else ''allow'')"
    using assms(1) unfolding analyze_def Let_def scan shape bind_result_Inr_iff
    by - (elim exE conjE, rule that, assumption, assumption, assumption, assumption, simp_all only: task_analysis_report.select_convs)
  note kept = make_task_analysis_report_ok [OF x]
  note level = parts(2) [folded parts(6)] and privacy = parts(1) [folded parts(7)]
  have costs: "cost_estimate_of cfg (tar_token_estimate r) plan = Inr (tar_cost_estimate r)" using parts(3-5) kept by simp
  obtain c t where l: "rank_in task_level_order (wun_task_level wu) = Inr c"
    "rank_in task_level_order (if ?raw then ''L2'' else if ?priv then ''L1''
       else if difficulty \<in> {''high'', ''expert''} then ''L2'' else wun_task_level wu) = Inr t"
    "rank_in task_level_order (tar_effective_task_level r) = Inr (max c t)"
    using max_by_order_ok [OF level [unfolded raised_task_level_def]] kept by fastforce
  obtain c' t' where q: "rank_in privacy_order (wun_privacy_level wu) = Inr c'"
    "rank_in privacy_order (if ?raw \<or> ?priv then ''sensitive'' else wun_privacy_level wu) = Inr t'"
    "rank_in privacy_order (tar_effective_privacy_level r) = Inr (max c' t')"
    using max_by_order_ok [OF privacy [unfolded raised_privacy_level_def]] kept by fastforce
  have "t = 2" if ?raw using l(2) that by (simp add: rank_in_def task_level_order_def)
  moreover have "t' = 2" if "?raw \<or> ?priv" using q(2) that by (simp add: rank_in_def privacy_order_def)
  moreover have "c' \<le> 2" using q(1) by (auto simp: rank_in_def privacy_order_def split: if_splits option.splits)
  ultimately show ?thesis
    using l(1,3) q(1,3) parts(4,8) kept cost_estimate_ok [OF costs assms(2)] by (auto simp: estimate_tokens_def Let_def)
qed

text \<open>Personal data hides the raise of a hard task: without it the level becomes L2, with it only L1.\<close>

lemma private_data_weakens_raise:
  "raised_task_level ''L0'' ''expert'' False False = Inr ''L2'' \<and> raised_task_level ''L0'' ''expert'' False True = Inr ''L1''"
  by (simp add: raised_task_level_def max_by_order_def rank_in_def task_level_order_def)

section \<open>An analysed work unit\<close>

definition sample_work_unit :: "fields \<Rightarrow> work_unit" where
  "sample_work_unit input =
     \<lparr>wun_work_unit_id = ''wu_1'', wun_run_id = ''run_1'', wun_task_type = ''dedup'', wun_task_level = ''L0'',
      wun_status = ''submitted'', wun_privacy_level = ''private'', wun_data_labels = [], wun_input_refs = [],
      wun_inline_input = input, wun_output_schema_ref = None, wun_max_cost_micros = None, wun_deadline_ms = None,
      wun_created_at = ''t'', wun_updated_at = ''t''\<rparr>"

definition sample_v1 :: loaded_routebook_v1 where
  "sample_v1 =
     \<lparr>v1_root = ''d'', v1_manifest = [(''routebook_id'', JStr ''tb''), (''version'', JStr ''1''), (''ontology_version'', JStr ''1'')],
      v1_ontology = [(''task_families'', JObj [(''simple_transform'', JNull)]), (''quality_tiers'', JObj [(''standard'', JNull)]),
        (''capability_tags'', JObj [(''deterministic_local'', JNull)]),
        (''task_type_defaults'', JObj [(''dedup'', JObj [(''difficulty'', JStr ''easy''),
           (''required_capabilities'', JList [JStr ''deterministic_local''])])])],
      v1_documents = [(''scoring'', [(''scorer_id'', JStr ''s''), (''version'', JStr ''1''),
         (''selection_policy'', JStr ''p''), (''hard_filters'', JList [JStr ''preflight_allow'']),
         (''score_weights'', JObj [(''capability_fit'', JInt 1), (''policy_fit'', JInt 1), (''quality_fit'', JInt 0),
            (''cost_fit'', JInt 1), (''latency_fit'', JInt 0), (''trust_fit'', JInt 1)])])],
      v1_content_hashes = []\<rparr>"

definition analysis_platform :: platform where
  "analysis_platform = plat empty_world"

lemma sample_analysis:
  "(case analyze analysis_platform (\<lambda>_. []) sample_v1 sample_config (sample_work_unit [(''ssn'', JStr ''123-45-6789'')]) None of
      Inl _ \<Rightarrow> False | Inr r \<Rightarrow> tar_effective_privacy_level r = ''sensitive'')"
  by code_simp

theorem analysis_never_lowers_witness:
  "\<exists>r. analyze analysis_platform (\<lambda>_. []) sample_v1 sample_config (sample_work_unit [(''ssn'', JStr ''123-45-6789'')]) None = Inr r \<and>
     tar_effective_privacy_level r = ''sensitive'' \<and>
     co_min_cost_micros (tar_cost_estimate r) \<le> co_max_cost_micros (tar_cost_estimate r)"
proof -
  obtain r where r: "analyze analysis_platform (\<lambda>_. []) sample_v1 sample_config (sample_work_unit [(''ssn'', JStr ''123-45-6789'')]) None = Inr r"
    and "tar_effective_privacy_level r = ''sensitive''"
    using sample_analysis by (auto split: sum.splits)
  moreover have "co_min_cost_micros (tar_cost_estimate r) \<le> co_max_cost_micros (tar_cost_estimate r)"
    using analysis_never_lowers [OF r] by simp
  ultimately show ?thesis by blast
qed

end
