(* ===== verification/Profiles.thy ===== *)
theory Profiles
  imports Task_Analysis
begin

text \<open>
  Capacity profiles of route candidates (\<open>src/tokenbank/router/capacity_profiles.py\<close>, \<open>models/capacity_profile.py\<close>)
  and task profiles (\<open>router/task_profiler.py\<close>, \<open>models/task_profile.py\<close>), the two inputs of the scorer.
\<close>

section \<open>Capacity profiles\<close>

record model_profile =
  mp_provider_id :: string
  mp_model_id :: string
  mp_model_tier :: string
  mp_context_window_class :: string
  mp_supports_structured_output :: bool
  mp_supports_tool_calling :: bool
  mp_wire_quirks_profile_id :: "string option"

record capacity_capability =
  cap_score :: rat
  cap_evidence :: string

record verified_for_task =
  vft_task_type :: string
  vft_verifier_recipe_id :: string
  vft_status :: string

record quality_memory =
  qm_verifier_pass_rate :: "rat option"
  qm_accepted_result_rate :: "rat option"
  qm_sample_size :: int

record capacity_profile =
  cpr_capacity_profile_id :: string
  cpr_capacity_node_id :: string
  cpr_backend_id :: string
  cpr_backend_class :: string
  cpr_ownership_scope :: string
  cpr_execution_boundary :: string
  cpr_availability_state :: string
  cpr_model_profile :: "model_profile option"
  cpr_capabilities :: "(string \<times> capacity_capability) list"
  cpr_estimated_cost_micros :: int
  cpr_cost_tier :: string
  cpr_p50_ms :: "int option"
  cpr_p95_ms :: "int option"
  cpr_quality_memory :: quality_memory
  cpr_verified_for :: "verified_for_task list"

definition backend_capabilities :: "backend_manifest \<Rightarrow> route_candidate \<Rightarrow> string list" where
  "backend_capabilities b c =
     (let types = set (bm_supported_task_types b);
          found =
            (if cand_backend_class c \<in> {''local_tool'', ''local_script''} then [''deterministic_local'', ''low_cost''] else []) @
            (if cand_backend_class c = ''browser_fetch'' then [''browser_fetch'', ''data_extraction''] else []) @
            (if gateway_class (cand_backend_class c) then [''structured_output'', ''fast_reasoning''] else []) @
            (if ''claim_extraction'' \<in> types then [''strong_reasoning'', ''structured_output'', ''data_extraction''] else []) @
            (if ''topic_classification'' \<in> types then [''structured_output'', ''fast_reasoning''] else []) @
            (if ''url_check'' \<in> types then [''browser_fetch'', ''deterministic_local''] else []) @
            (if ''dedup'' \<in> types then [''deterministic_local'', ''data_extraction''] else []) @
            (if ''webpage_extraction'' \<in> types then [''browser_fetch'', ''data_extraction'', ''structured_output''] else [])
      in sort (remdups (if found = [] then [''private_data_safe''] else found)))"

definition safe_id :: "string \<Rightarrow> string" where
  "safe_id s = replace_char CHR ''.'' CHR ''_'' (replace_char CHR ''/'' CHR ''_'' (replace_char CHR '':'' CHR ''_'' s))"

definition model_tier :: "backend_manifest \<Rightarrow> string" where
  "model_tier b =
     (if bm_backend_class b = ''primary_model_gateway'' then ''frontier''
      else if ''claim_extraction'' \<in> set (bm_supported_task_types b) then ''strong'' else ''standard'')"

definition model_profile_of :: "backend_manifest \<Rightarrow> model_profile option" where
  "model_profile_of b =
     (if \<not> gateway_class (bm_backend_class b) then None
      else Some \<lparr>mp_provider_id = ''control_plane_gateway'', mp_model_id = bm_backend_id b, mp_model_tier = model_tier b,
                 mp_context_window_class = ''unknown'', mp_supports_structured_output = True,
                 mp_supports_tool_calling = False, mp_wire_quirks_profile_id = None\<rparr>)"

definition cost_tier :: "int \<Rightarrow> string" where
  "cost_tier cost =
     (if cost = 0 then ''free'' else if cost \<le> 10000 then ''low'' else if cost \<le> 100000 then ''medium'' else ''high'')"

definition availability :: "string \<Rightarrow> string" where
  "availability status =
     (if status = ''healthy'' then ''available'' else if status = ''degraded'' then ''degraded''
      else if status = ''unhealthy'' then ''unavailable'' else ''unknown'')"

definition capacity_profile_for_candidate :: "backend_registry \<Rightarrow> route_candidate \<Rightarrow> capacity_profile result" where
  "capacity_profile_for_candidate reg c =
     bind_result (registry_get reg (cand_backend_id c)) (\<lambda>b.
     Inr \<lparr>cpr_capacity_profile_id = ''cp_'' @ safe_id (cand_backend_id c),
          cpr_capacity_node_id = cand_capacity_node_id c, cpr_backend_id = cand_backend_id c,
          cpr_backend_class = cand_backend_class c, cpr_ownership_scope = ''user_local'',
          cpr_execution_boundary = bm_execution_location b,
          cpr_availability_state = (case bm_health b of None \<Rightarrow> ''available'' | Some h \<Rightarrow> availability (bh_status h)),
          cpr_model_profile = model_profile_of b,
          cpr_capabilities = map (\<lambda>k. (k, \<lparr>cap_score = fl (80 / 100), cap_evidence = ''declared''\<rparr>)) (backend_capabilities b c),
          cpr_estimated_cost_micros = cand_estimated_cost_micros c, cpr_cost_tier = cost_tier (cand_estimated_cost_micros c),
          cpr_p50_ms = (case bm_health b of None \<Rightarrow> None | Some h \<Rightarrow> bh_latency_ms h), cpr_p95_ms = None,
          cpr_quality_memory = \<lparr>qm_verifier_pass_rate = None, qm_accepted_result_rate = None, qm_sample_size = 0\<rparr>,
          cpr_verified_for = (case cand_verifier_recipe_id c of None \<Rightarrow> []
            | Some r \<Rightarrow> map (\<lambda>ty. \<lparr>vft_task_type = ty, vft_verifier_recipe_id = (if r = [] then ''none'' else r),
                vft_status = ''declared''\<rparr>) (bm_supported_task_types b))\<rparr>)"

definition capacity_profiles_for_candidates :: "backend_registry \<Rightarrow> route_candidate list \<Rightarrow> capacity_profile list result" where
  "capacity_profiles_for_candidates reg cs = map_result (capacity_profile_for_candidate reg) cs"

section \<open>Task profiles\<close>

record required_capability =
  rc_capability :: string
  rc_min_score :: rat
  rc_importance :: string

record task_profile =
  tp_task_profile_id :: string
  tp_work_unit_id :: string
  tp_routebook_id :: string
  tp_routebook_version :: string
  tp_source :: string
  tp_task_family :: string
  tp_task_type :: string
  tp_difficulty :: string
  tp_risk_level :: string
  tp_privacy_level :: string
  tp_context_size :: string
  tp_latency_preference :: string
  tp_cost_preference :: string
  tp_required_capabilities :: "required_capability list"
  tp_forbidden_capabilities :: "string list"
  tp_requires_tools :: "string list"
  tp_requires_verifier_recipe_id :: bool
  tp_success_criteria :: "string list"
  tp_ambiguity_status :: string
  tp_confidence :: rat
  tp_profile_reason_codes :: "string list"

definition context_size :: "(json \<Rightarrow> string) \<Rightarrow> fields \<Rightarrow> string" where
  "context_size repr inline_input =
     (let n = length (py_str repr (JObj inline_input)) in
      if n < 1000 then ''small'' else if n < 20000 then ''medium'' else ''large'')"

fun texts_of :: "json list \<Rightarrow> string list" where
  "texts_of [] = []"
| "texts_of (JStr s # vs) = s # texts_of vs"
| "texts_of (v # vs) = texts_of vs"

definition required_capabilities :: "loaded_routebook_v1 \<Rightarrow> fields \<Rightarrow> required_capability list result" where
  "required_capabilities rb task_defaults =
     bind_result (v1_capability_tags rb) (\<lambda>known.
     bind_result (py_iter (dget_or (JList []) task_defaults ''required_capabilities'')) (\<lambda>vs.
     map_result (\<lambda>k. bind_result (non_empty_str k) (\<lambda>name.
         Inr \<lparr>rc_capability = name, rc_min_score = fl (75 / 100), rc_importance = ''required''\<rparr>))
       (filter (\<lambda>k. k \<in> fst ` set known) (texts_of vs))))"

definition requires_tools :: "route_plan \<Rightarrow> string list" where
  "requires_tools plan = sort (remdups (filter (\<lambda>c. \<not> gateway_class c) (map cand_backend_class (plan_candidates plan))))"

definition make_task_profile :: "task_profile \<Rightarrow> task_profile result" where
  "make_task_profile t =
     bind_result (non_empty_str (tp_task_profile_id t)) (\<lambda>i.
     bind_result (non_empty_str (tp_work_unit_id t)) (\<lambda>wid.
     bind_result (non_empty_str (tp_routebook_id t)) (\<lambda>rid.
     bind_result (non_empty_str (tp_routebook_version t)) (\<lambda>ver.
     bind_result (non_empty_str (tp_task_family t)) (\<lambda>family.
     bind_result (non_empty_str (tp_task_type t)) (\<lambda>ty.
     bind_result (check (tp_difficulty t \<in> set (map fst difficulty_order)) (ValueError ''difficulty'')) (\<lambda>_.
     bind_result (check (tp_risk_level t \<in> set task_levels_const) (ValueError ''risk_level'')) (\<lambda>_.
     bind_result (map_result non_empty_str (tp_requires_tools t)) (\<lambda>tools.
     bind_result (map_result non_empty_str (tp_success_criteria t)) (\<lambda>criteria.
     bind_result (map_result non_empty_str (tp_profile_reason_codes t)) (\<lambda>codes.
     Inr (t\<lparr>tp_task_profile_id := i, tp_work_unit_id := wid, tp_routebook_id := rid, tp_routebook_version := ver,
            tp_task_family := family, tp_task_type := ty, tp_requires_tools := tools, tp_success_criteria := criteria,
            tp_profile_reason_codes := codes\<rparr>))))))))))))"

definition task_profile_of ::
  "(json \<Rightarrow> string) \<Rightarrow> loaded_routebook \<Rightarrow> loaded_routebook_v1 \<Rightarrow> work_unit \<Rightarrow> route_plan \<Rightarrow> task_profile result" where
  "task_profile_of repr rb v1 wu plan =
     (let defaults = task_type_defaults v1 (wun_task_type wu) in
      bind_result (task_type_entry rb (wun_task_type wu)) (\<lambda>entry.
      bind_result (v1_routebook_id repr v1) (\<lambda>rid.
      bind_result (v1_version repr v1) (\<lambda>ver.
      bind_result (required_capabilities v1 defaults) (\<lambda>required.
      bind_result (py_iter (dget_or (JList []) defaults ''success_criteria'')) (\<lambda>criteria.
      make_task_profile
        \<lparr>tp_task_profile_id = ''tp_'' @ wun_work_unit_id wu @ ''_'' @ wun_task_type wu, tp_work_unit_id = wun_work_unit_id wu,
         tp_routebook_id = rid, tp_routebook_version = ver, tp_source = ''deterministic'',
         tp_task_family = py_str repr (dget_or (JStr ''simple_transform'') defaults ''task_family''),
         tp_task_type = wun_task_type wu, tp_difficulty = py_str repr (dget_or (JStr ''medium'') defaults ''difficulty''),
         tp_risk_level = plan_task_level plan, tp_privacy_level = wun_privacy_level wu,
         tp_context_size = context_size repr (wun_inline_input wu), tp_latency_preference = ''normal'',
         tp_cost_preference = ''balanced'', tp_required_capabilities = required, tp_forbidden_capabilities = [],
         tp_requires_tools = requires_tools plan,
         tp_requires_verifier_recipe_id = (plan_verifier_recipe_id plan \<noteq> []),
         tp_success_criteria = texts_of criteria, tp_ambiguity_status = ''low'', tp_confidence = fl (82 / 100),
         tp_profile_reason_codes = [''routebook_task_type:'' @ wun_task_type wu,
           ''default_task_level:'' @ str_at repr entry ''default_task_level'', ''deterministic_wp_rb1_profile'']\<rparr>))))))"

end
