(* ===== verification/Scoring.thy ===== *)
theory Scoring
  imports Profiles
begin

text \<open>
  The route scorer (\<open>src/tokenbank/router/route_scorer.py\<close>, \<open>models/route_decision.py\<close>): hard filters, weighted
  scores in binary64 arithmetic, ranking and selection. The sum of a list of floats is the argument \<open>fsum\<close>: Python
  3.11 adds from left to right, later versions compensate the rounding error.
\<close>

section \<open>Weights\<close>

record components =
  w_capability :: rat
  w_policy :: rat
  w_quality :: rat
  w_cost :: rat
  w_latency :: rat
  w_trust :: rat

definition component_list :: "components \<Rightarrow> rat list" where
  "component_list w = [w_capability w, w_policy w, w_quality w, w_cost w, w_latency w, w_trust w]"

definition map_components :: "(rat \<Rightarrow> rat) \<Rightarrow> components \<Rightarrow> components" where
  "map_components f w =
     \<lparr>w_capability = f (w_capability w), w_policy = f (w_policy w), w_quality = f (w_quality w), w_cost = f (w_cost w),
      w_latency = f (w_latency w), w_trust = f (w_trust w)\<rparr>"

definition default_score_weights :: components where
  "default_score_weights =
     \<lparr>w_capability = fl (30 / 100), w_policy = fl (25 / 100), w_quality = fl (20 / 100), w_cost = fl (10 / 100),
      w_latency = fl (5 / 100), w_trust = fl (10 / 100)\<rparr>"

text \<open>\<open>float(value)\<close>; the loader has refused weights that are not numbers.\<close>

fun float_of :: "json \<Rightarrow> rat result" where
  "float_of (JInt i) = float_of_int i"
| "float_of (JFloat q) = Inr q"
| "float_of (JBool b) = Inr (if b then 1 else 0)"
| "float_of v = Inl (TypeError ''float() argument must be a number'')"

definition weight_at :: "fields \<Rightarrow> string \<Rightarrow> rat \<Rightarrow> rat result" where
  "weight_at weights name dflt = (case dget weights name of None \<Rightarrow> Inr dflt | Some v \<Rightarrow> float_of v)"

definition score_weights :: "(rat list \<Rightarrow> rat) \<Rightarrow> loaded_routebook_v1 \<Rightarrow> components result" where
  "score_weights fsum rb =
     bind_result (v1_scoring rb) (\<lambda>scoring.
     bind_result (as_dict (dget_or (JObj []) scoring ''score_weights'')) (\<lambda>weights.
     let d = default_score_weights in
     bind_result (weight_at weights ''capability_fit'' (w_capability d)) (\<lambda>a.
     bind_result (weight_at weights ''policy_fit'' (w_policy d)) (\<lambda>b.
     bind_result (weight_at weights ''quality_fit'' (w_quality d)) (\<lambda>c.
     bind_result (weight_at weights ''cost_fit'' (w_cost d)) (\<lambda>e.
     bind_result (weight_at weights ''latency_fit'' (w_latency d)) (\<lambda>f.
     bind_result (weight_at weights ''trust_fit'' (w_trust d)) (\<lambda>g.
     let w = \<lparr>w_capability = a, w_policy = b, w_quality = c, w_cost = e, w_latency = f, w_trust = g\<rparr>;
         total = fsum (component_list w) in
     Inr (if total \<le> 0 then d else map_components (\<lambda>x. round4 (fdiv x total)) w)))))))))"

section \<open>Hard filters\<close>

definition passing_hard_filter_statuses :: "string list" where
  "passing_hard_filter_statuses = [''pass'', ''not_required'', ''pending_policy_decision'']"

definition pass_if :: "bool \<Rightarrow> string" where
  "pass_if b = (if b then ''pass'' else ''fail'')"

definition api_gateway_boundary_result :: "route_candidate \<Rightarrow> string" where
  "api_gateway_boundary_result c =
     pass_if (cand_backend_class c \<notin> set api_gateway_backend_classes \<or>
       dget_or JNull (cand_worker_selector c) ''worker_id'' = JStr control_plane_gateway_worker_id)"

definition hard_filter_results ::
  "loaded_routebook \<Rightarrow> work_unit \<Rightarrow> route_plan \<Rightarrow> route_candidate \<Rightarrow> capacity_profile \<Rightarrow> backend_manifest \<Rightarrow> task_analysis_report
   \<Rightarrow> (string \<times> string) list result" where
  "hard_filter_results rb wu plan c profile b report =
     (let level = tar_effective_task_level report in
      bind_result (forbidden_routes rb) (\<lambda>routes.
      bind_result (str_set routes ''forbidden_backend_classes'') (\<lambda>forbidden.
      bind_result (rank_in task_level_order (plan_task_level plan)) (\<lambda>planned.
      bind_result (rank_in task_level_order level) (\<lambda>effective.
      Inr [(''preflight_allow'', pass_if (tar_preflight_decision report = ''allow'')),
           (''task_type_supported'', pass_if (wun_task_type wu \<in> set (bm_supported_task_types b))),
           (''privacy_boundary_allowed'', pass_if (tar_effective_privacy_level report \<in> set (bm_allowed_privacy_levels b))),
           (''verifier_available_for_L1_L2_L3'', pass_if (level \<notin> {''L1'', ''L2'', ''L3''} \<or>
              (case cand_verifier_recipe_id c of None \<Rightarrow> False | Some r \<Rightarrow> r \<noteq> []))),
           (''backend_class_allowed'', pass_if (cand_backend_class c \<notin> set forbidden)),
           (''worker_direct_api_model_forbidden'', api_gateway_boundary_result c),
           (''credential_boundary_valid'', pass_if (\<not> ps_raw_secret_detected (tar_privacy_scan report))),
           (''capacity_health_not_quarantined'', pass_if (cpr_availability_state profile \<noteq> ''unavailable'')),
           (''task_level_not_downgraded'', pass_if (effective \<le> planned)),
           (''peer_negotiation_complete_for_peer_capacity'',
              if cpr_ownership_scope profile \<noteq> ''peer'' then ''not_required'' else ''fail'')])))))"

definition hard_filters_pass :: "(string \<times> string) list \<Rightarrow> bool" where
  "hard_filters_pass results \<longleftrightarrow> list_all (\<lambda>(_, status). status \<in> set passing_hard_filter_statuses) results"

section \<open>Scores\<close>

definition capability_fit :: "(rat list \<Rightarrow> rat) \<Rightarrow> task_profile \<Rightarrow> capacity_profile \<Rightarrow> rat" where
  "capability_fit fsum t profile =
     (if tp_required_capabilities t = [] then 1
      else fdiv (fsum (map (\<lambda>r. case dget (cpr_capabilities profile) (rc_capability r) of
             None \<Rightarrow> 0 | Some c \<Rightarrow> min 1 (fdiv (cap_score c) (max (rc_min_score r) (fl (1 / 100)))))
           (tp_required_capabilities t))) (of_nat (length (tp_required_capabilities t))))"

definition model_tier_order :: "(string \<times> int) list" where
  "model_tier_order = [(''weak_general'', 0), (''standard'', 1), (''strong'', 2), (''frontier'', 3), (''specialist'', 3)]"

definition model_or_backend_tier_fit :: "task_profile \<Rightarrow> capacity_profile \<Rightarrow> rat" where
  "model_or_backend_tier_fit t profile =
     (let difficulty = dget_or 2 difficulty_order (tp_difficulty t) in
      case cpr_model_profile profile of
        None \<Rightarrow>
          if difficulty \<le> 1 \<and> ''deterministic_local'' \<in> fst ` set (cpr_capabilities profile) then fl (95 / 100)
          else if difficulty \<le> 2 \<and> cpr_backend_class profile = ''browser_fetch'' then fl (80 / 100) else fl (45 / 100)
      | Some m \<Rightarrow>
          let tier = dget_or 1 model_tier_order (mp_model_tier m);
              required = (if difficulty \<le> 1 then 0 else if difficulty \<le> 2 then 1 else 2) in
          if required \<le> tier then min 1 (fadd (fl (82 / 100)) (fmul (of_int (tier - required)) (fl (7 / 100))))
          else max (fl (25 / 100)) (fsub (fl (72 / 100)) (fmul (of_int (required - tier)) (fl (18 / 100)))))"

definition quality_fit :: "task_profile \<Rightarrow> capacity_profile \<Rightarrow> rat" where
  "quality_fit t profile =
     (let tier_fit = model_or_backend_tier_fit t profile;
          verifier_fit = (if list_ex (\<lambda>v. vft_task_type v = tp_task_type t) (cpr_verified_for profile) then fl (85 / 100) else fl (55 / 100));
          memory = cpr_quality_memory profile;
          memory_fit = (if 0 < qm_sample_size memory then (case qm_verifier_pass_rate memory of None \<Rightarrow> fl (70 / 100) | Some x \<Rightarrow> x)
                        else fl (70 / 100)) in
      fadd (fadd (fmul (fl (55 / 100)) tier_fit) (fmul (fl (25 / 100)) verifier_fit)) (fmul (fl (20 / 100)) memory_fit))"

definition cost_fit :: "route_candidate \<Rightarrow> task_profile \<Rightarrow> rat" where
  "cost_fit c t =
     (let cost = cand_estimated_cost_micros c;
          base = (if cost \<le> 1000 then fl (80 / 100) else if cost \<le> 10000 then fl (65 / 100)
                  else if cost \<le> 100000 then fl (45 / 100) else fl (25 / 100)) in
      if cost = 0 then 1
      else if tp_cost_preference t = ''cost_first'' then max 0 (fsub base (fl (10 / 100)))
      else if tp_cost_preference t = ''quality_first'' then min 1 (fadd base (fl (5 / 100)))
      else base)"

definition latency_fit :: "capacity_profile \<Rightarrow> task_profile \<Rightarrow> rat" where
  "latency_fit profile t =
     (if cpr_availability_state profile = ''degraded'' then fl (45 / 100)
      else case cpr_p50_ms profile of
        None \<Rightarrow> if tp_latency_preference t = ''high'' then fl (58 / 100) else fl (65 / 100)
      | Some ms \<Rightarrow> if ms \<le> 500 then fl (95 / 100) else if ms \<le> 2000 then fl (75 / 100) else fl (45 / 100))"

definition trust_fit :: "capacity_profile \<Rightarrow> rat" where
  "trust_fit profile =
     (if cpr_ownership_scope profile = ''user_local'' then 1
      else if cpr_ownership_scope profile = ''system'' then fl (90 / 100)
      else if cpr_ownership_scope profile = ''team_local'' then fl (85 / 100) else fl (40 / 100))"

definition uncertainty_penalty :: "capacity_profile \<Rightarrow> task_analysis_report \<Rightarrow> (string \<times> string) list \<Rightarrow> rat" where
  "uncertainty_penalty profile report results =
     (let p0 = fadd (fl (3 / 100)) (fmul (max 0 (fsub 1 (tar_confidence report))) (fl (12 / 100)));
          p1 = (if cpr_p50_ms profile = None then fadd p0 (fl (3 / 100)) else p0);
          p2 = (if qm_sample_size (cpr_quality_memory profile) = 0 then fadd p1 (fl (4 / 100)) else p1);
          p3 = (if list_ex (\<lambda>(_, status). status = ''pending_policy_decision'') results then fadd p2 (fl (3 / 100)) else p2) in
      min (fl (25 / 100)) p3)"

record candidate_score =
  cs_total :: rat
  cs_capability_fit :: rat
  cs_policy_fit :: rat
  cs_quality_fit :: rat
  cs_cost_fit :: rat
  cs_latency_fit :: rat
  cs_trust_fit :: rat
  cs_uncertainty_penalty :: rat

definition in_unit :: "rat \<Rightarrow> bool" where
  "in_unit x \<longleftrightarrow> 0 \<le> x \<and> x \<le> 1"

definition make_candidate_score :: "candidate_score \<Rightarrow> candidate_score result" where
  "make_candidate_score s =
     bind_result (check (list_all in_unit [cs_total s, cs_capability_fit s, cs_policy_fit s, cs_quality_fit s, cs_cost_fit s,
        cs_latency_fit s, cs_trust_fit s, cs_uncertainty_penalty s]) (ValueError ''CandidateScore'')) (\<lambda>_. Inr s)"

definition priority_penalty :: "route_candidate \<Rightarrow> rat result" where
  "priority_penalty c =
     bind_result (float_of_int (cand_priority c - 1)) (\<lambda>x. Inr (min (fl (8 / 100)) (fmul x (fl (4 / 100)))))"

definition candidate_score_of ::
  "(rat list \<Rightarrow> rat) \<Rightarrow> route_candidate \<Rightarrow> bool \<Rightarrow> (string \<times> string) list \<Rightarrow> task_profile \<Rightarrow> capacity_profile \<Rightarrow> task_analysis_report
   \<Rightarrow> components \<Rightarrow> (candidate_score \<times> components) result" where
  "candidate_score_of fsum c passed results t profile report weights =
     (let capability = capability_fit fsum t profile; policy = (if passed then 1 else 0); quality = quality_fit t profile;
          cost = cost_fit c t; latency = latency_fit profile t; trust = trust_fit profile;
          uncertainty = uncertainty_penalty profile report results;
          weighted = \<lparr>w_capability = round4 (fmul capability (w_capability weights)),
            w_policy = round4 (fmul policy (w_policy weights)), w_quality = round4 (fmul quality (w_quality weights)),
            w_cost = round4 (fmul cost (w_cost weights)), w_latency = round4 (fmul latency (w_latency weights)),
            w_trust = round4 (fmul trust (w_trust weights))\<rparr> in
      bind_result (priority_penalty c) (\<lambda>penalty.
      let clipped = max 0 (min 1 (fsub (fsub (fsum (component_list weighted)) uncertainty) penalty));
          total = (if passed then clipped else 0) in
      bind_result (make_candidate_score
        \<lparr>cs_total = round4 total, cs_capability_fit = round4 capability, cs_policy_fit = policy,
         cs_quality_fit = round4 quality, cs_cost_fit = round4 cost, cs_latency_fit = round4 latency,
         cs_trust_fit = round4 trust, cs_uncertainty_penalty = round4 uncertainty\<rparr>) (\<lambda>s.
      Inr (s, weighted))))"

section \<open>Ranking and selection\<close>

record candidate_score_trace =
  tr_candidate_id :: string
  tr_score :: candidate_score
  tr_rank :: "nat option"
  tr_passed :: bool
  tr_hard_filter_results :: "(string \<times> string) list"
  tr_weighted_components :: components
  tr_reason_codes :: "string list"

definition missing_required_capabilities :: "task_profile \<Rightarrow> capacity_profile \<Rightarrow> string list" where
  "missing_required_capabilities t profile =
     filter (\<lambda>k. k \<notin> fst ` set (cpr_capabilities profile)) (map rc_capability (tp_required_capabilities t))"

definition failed_filters :: "(string \<times> string) list \<Rightarrow> string list" where
  "failed_filters results = map fst (filter (\<lambda>(_, status). status \<notin> set passing_hard_filter_statuses) results)"

definition candidate_reason_codes ::
  "route_candidate \<Rightarrow> (string \<times> string) list \<Rightarrow> bool \<Rightarrow> task_profile \<Rightarrow> capacity_profile \<Rightarrow> task_analysis_report \<Rightarrow> string list" where
  "candidate_reason_codes c results passed t profile report =
     (let missing = missing_required_capabilities t profile in
      [''scorer:wp_rb3'', ''backend_class:'' @ cand_backend_class c, ''priority:'' @ show_int (cand_priority c),
       ''hard_filters:'' @ pass_if passed] @
      (case cand_verifier_recipe_id c of None \<Rightarrow> [] | Some r \<Rightarrow> if r = [] then [] else [''verifier_recipe_available'']) @
      (if missing \<noteq> [] then map (\<lambda>k. ''missing_capability:'' @ k) missing else [''matches_required_capabilities'']) @
      (if ce_requires_strong_reasoning (tar_complexity report) then [''strong_reasoning_required''] else []) @
      (if cand_estimated_cost_micros c = 0 then [''zero_internal_cost_estimate''] else []) @
      map (\<lambda>name. ''hard_filter_failed:'' @ name) (failed_filters results))"

record score_inputs =
  si_routebook :: loaded_routebook
  si_registry :: backend_registry
  si_work_unit :: work_unit
  si_plan :: route_plan
  si_task_profile :: task_profile
  si_profiles :: "(string \<times> capacity_profile) list"
  si_report :: task_analysis_report
  si_weights :: components

definition score_candidate :: "(rat list \<Rightarrow> rat) \<Rightarrow> score_inputs \<Rightarrow> route_candidate \<Rightarrow> candidate_score_trace result" where
  "score_candidate fsum si c =
     bind_result (registry_get (si_registry si) (cand_backend_id c)) (\<lambda>b.
     bind_result (case dget (si_profiles si) (cand_backend_id c) of
        None \<Rightarrow> Inl (KeyError (cand_backend_id c)) | Some profile \<Rightarrow> Inr profile) (\<lambda>profile.
     bind_result (hard_filter_results (si_routebook si) (si_work_unit si) (si_plan si) c profile b (si_report si)) (\<lambda>results.
     let passed = hard_filters_pass results in
     bind_result (candidate_score_of fsum c passed results (si_task_profile si) profile (si_report si) (si_weights si))
       (\<lambda>(s, weighted).
     Inr \<lparr>tr_candidate_id = cand_route_candidate_id c, tr_score = s, tr_rank = None, tr_passed = passed,
          tr_hard_filter_results = results, tr_weighted_components = weighted,
          tr_reason_codes = candidate_reason_codes c results passed (si_task_profile si) profile (si_report si)\<rparr>))))"

definition by_key :: "('a \<Rightarrow> 'k) \<Rightarrow> 'a list \<Rightarrow> ('k \<times> 'a) list" where
  "by_key key xs = fold (\<lambda>x d. dput (key x) x d) xs []"

type_synonym rank_key = "nat \<times> rat \<times> int \<times> int \<times> string"

definition score_key :: "(string \<times> route_candidate) list \<Rightarrow> candidate_score_trace \<Rightarrow> rank_key result" where
  "score_key candidates s =
     (case dget candidates (tr_candidate_id s) of
        None \<Rightarrow> Inl (KeyError (tr_candidate_id s))
      | Some c \<Rightarrow> Inr (if tr_passed s then 0 else 1, - cs_total (tr_score s), cand_priority c,
                       cand_estimated_cost_micros c, tr_candidate_id s))"

definition ranked_scores ::
  "(string \<times> route_candidate) list \<Rightarrow> candidate_score_trace list \<Rightarrow> candidate_score_trace list result" where
  "ranked_scores candidates scores =
     bind_result (map_result (\<lambda>s. bind_result (score_key candidates s) (\<lambda>k. Inr (k, s))) scores) (\<lambda>keyed.
     Inr (map snd (sort_key fst keyed)))"

definition with_ranks :: "candidate_score_trace list \<Rightarrow> candidate_score_trace list" where
  "with_ranks ranked = map (\<lambda>(rank, s). s\<lparr>tr_rank := Some rank\<rparr>) (zip [1..<Suc (length ranked)] ranked)"

record rejected_candidate =
  rj_candidate_id :: string
  rj_reason_codes :: "string list"

definition rejected_candidates :: "string \<Rightarrow> candidate_score_trace list \<Rightarrow> rejected_candidate list" where
  "rejected_candidates selected scores =
     map (\<lambda>s. \<lparr>rj_candidate_id = tr_candidate_id s,
               rj_reason_codes = (if tr_passed s then ''lower_score_than_selected'' else ''hard_filter_failed'') #
                 filter (starts_with ''hard_filter_failed:'') (tr_reason_codes s)\<rparr>)
       (filter (\<lambda>s. tr_candidate_id s \<noteq> selected) scores)"

record route_scoring_report =
  rsr_route_scoring_id :: string
  rsr_route_plan_id :: string
  rsr_work_unit_id :: string
  rsr_routebook_id :: string
  rsr_routebook_version :: string
  rsr_scorer_id :: string
  rsr_scorer_version :: string
  rsr_baseline_selected_candidate_id :: string
  rsr_selected_candidate_id :: string
  rsr_selection_status :: string
  rsr_score_weights :: components
  rsr_candidate_scores :: "candidate_score_trace list"
  rsr_rejected_candidates :: "rejected_candidate list"
  rsr_reason_codes :: "string list"

definition select_candidate :: "route_plan \<Rightarrow> candidate_score_trace list \<Rightarrow> string \<times> string \<times> string list" where
  "select_candidate plan ranked =
     (case filter tr_passed ranked of
        s # _ \<Rightarrow> (tr_candidate_id s, ''selected_highest_scoring_candidate'',
                  [''wp_rb3_route_scorer_applied'', ''selected_highest_scoring_passing_candidate''])
      | [] \<Rightarrow> (plan_selected_candidate_id plan, ''no_passing_candidate_keep_existing_selection'',
                [''wp_rb3_route_scorer_applied'', ''no_passing_candidate'', ''kept_existing_route_plan_selection'']))"

definition score ::
  "(rat list \<Rightarrow> rat) \<Rightarrow> (json \<Rightarrow> string) \<Rightarrow> loaded_routebook \<Rightarrow> loaded_routebook_v1 \<Rightarrow> backend_registry \<Rightarrow> work_unit \<Rightarrow> route_plan
   \<Rightarrow> task_profile \<Rightarrow> capacity_profile list \<Rightarrow> task_analysis_report \<Rightarrow> route_scoring_report result" where
  "score fsum repr rb v1 reg wu plan t profiles report =
     bind_result (score_weights fsum v1) (\<lambda>weights.
     let si = \<lparr>si_routebook = rb, si_registry = reg, si_work_unit = wu, si_plan = plan, si_task_profile = t,
               si_profiles = by_key cpr_backend_id profiles, si_report = report, si_weights = weights\<rparr> in
     bind_result (map_result (score_candidate fsum si) (plan_candidates plan)) (\<lambda>scores.
     bind_result (ranked_scores (by_key cand_route_candidate_id (plan_candidates plan)) scores) (\<lambda>ranked.
     let by_id = by_key tr_candidate_id (with_ranks ranked);
         final = map (\<lambda>s. dget_or s by_id (tr_candidate_id s)) scores;
         (selected, status, codes) = select_candidate plan ranked in
     bind_result (v1_routebook_id repr v1) (\<lambda>rid.
     bind_result (v1_version repr v1) (\<lambda>ver.
     bind_result (v1_scoring v1) (\<lambda>scoring.
     bind_result (item scoring ''scorer_id'') (\<lambda>scorer.
     bind_result (item scoring ''version'') (\<lambda>scorer_version.
     bind_result (non_empty_str (py_str repr scorer)) (\<lambda>scorer_id.
     bind_result (non_empty_str (py_str repr scorer_version)) (\<lambda>scorer_ver.
     bind_result (non_empty_str rid) (\<lambda>routebook_id.
     bind_result (non_empty_str ver) (\<lambda>routebook_version.
     Inr \<lparr>rsr_route_scoring_id = ''rs_'' @ plan_route_plan_id plan, rsr_route_plan_id = plan_route_plan_id plan,
          rsr_work_unit_id = wun_work_unit_id wu, rsr_routebook_id = routebook_id, rsr_routebook_version = routebook_version,
          rsr_scorer_id = scorer_id, rsr_scorer_version = scorer_ver,
          rsr_baseline_selected_candidate_id = plan_selected_candidate_id plan, rsr_selected_candidate_id = selected,
          rsr_selection_status = status, rsr_score_weights = weights, rsr_candidate_scores = final,
          rsr_rejected_candidates = rejected_candidates selected final, rsr_reason_codes = codes\<rparr>))))))))))))"

definition apply_scored_selection :: "route_plan \<Rightarrow> route_scoring_report \<Rightarrow> route_plan" where
  "apply_scored_selection plan report = plan\<lparr>plan_selected_candidate_id := rsr_selected_candidate_id report\<rparr>"

section \<open>The scorer selects the best eligible candidate\<close>

text \<open>What the hard filters ask of a candidate.\<close>

definition eligible ::
  "loaded_routebook \<Rightarrow> backend_registry \<Rightarrow> work_unit \<Rightarrow> route_plan \<Rightarrow> capacity_profile list \<Rightarrow> task_analysis_report \<Rightarrow> route_candidate \<Rightarrow> bool" where
  "eligible rb reg wu plan profiles report c \<longleftrightarrow>
     (\<exists>b profile routes forbidden planned effective.
        registry_get reg (cand_backend_id c) = Inr b \<and> dget (by_key cpr_backend_id profiles) (cand_backend_id c) = Some profile \<and>
        forbidden_routes rb = Inr routes \<and> str_set routes ''forbidden_backend_classes'' = Inr forbidden \<and>
        rank_in task_level_order (plan_task_level plan) = Inr planned \<and>
        rank_in task_level_order (tar_effective_task_level report) = Inr effective \<and>
        tar_preflight_decision report = ''allow'' \<and> \<not> ps_raw_secret_detected (tar_privacy_scan report) \<and>
        wun_task_type wu \<in> set (bm_supported_task_types b) \<and>
        tar_effective_privacy_level report \<in> set (bm_allowed_privacy_levels b) \<and>
        (tar_effective_task_level report \<in> {''L1'', ''L2'', ''L3''} \<longrightarrow> (\<exists>recipe. cand_verifier_recipe_id c = Some recipe \<and> recipe \<noteq> [])) \<and>
        cand_backend_class c \<notin> set forbidden \<and>
        (cand_backend_class c \<in> set api_gateway_backend_classes \<longrightarrow>
           dget_or JNull (cand_worker_selector c) ''worker_id'' = JStr control_plane_gateway_worker_id) \<and>
        cpr_availability_state profile \<noteq> ''unavailable'' \<and> cpr_ownership_scope profile \<noteq> ''peer'' \<and> effective \<le> planned)"

lemma pass_if_passes [simp]: "pass_if b \<in> set passing_hard_filter_statuses \<longleftrightarrow> b"
  by (simp add: pass_if_def passing_hard_filter_statuses_def)

lemma hard_filters_exact:
  assumes "registry_get reg (cand_backend_id c) = Inr b" and "dget (by_key cpr_backend_id profiles) (cand_backend_id c) = Some profile"
    and "hard_filter_results rb wu plan c profile b report = Inr results"
  shows "hard_filters_pass results \<longleftrightarrow> eligible rb reg wu plan profiles report c"
proof -
  have peer: "''not_required'' \<in> set passing_hard_filter_statuses" "''fail'' \<notin> set passing_hard_filter_statuses"
    by (simp_all add: passing_hard_filter_statuses_def)
  have recipe: "(case r of None \<Rightarrow> False | Some x \<Rightarrow> x \<noteq> []) \<longleftrightarrow> (\<exists>x. r = Some x \<and> x \<noteq> [])" for r :: "string option"
    by (cases r) auto
  obtain routes forbidden planned effective where views: "forbidden_routes rb = Inr routes"
    "str_set routes ''forbidden_backend_classes'' = Inr forbidden" "rank_in task_level_order (plan_task_level plan) = Inr planned"
    "rank_in task_level_order (tar_effective_task_level report) = Inr effective"
    using assms(3) by (auto simp: hard_filter_results_def Let_def)
  show ?thesis
    using assms(3) unfolding hard_filter_results_def Let_def eligible_def
    by (auto simp: views assms(1,2) hard_filters_pass_def api_gateway_boundary_result_def peer recipe)
qed

lemma candidate_score_ok:
  assumes "candidate_score_of fsum c passed results t profile report weights = Inr (s, w)"
  shows "in_unit (cs_total s) \<and> (\<not> passed \<longrightarrow> cs_total s = 0)"
proof -
  have "round4 0 = 0" using round4_unit [of 0] half_even_of_int [of 0] by (simp add: round4_def)
  then show ?thesis using assms by (auto simp: candidate_score_of_def Let_def make_candidate_score_def)
qed

lemma score_candidate_ok:
  assumes "score_candidate fsum si c = Inr s" and "si_profiles si = by_key cpr_backend_id profiles"
  shows "tr_candidate_id s = cand_route_candidate_id c \<and>
    (tr_passed s \<longleftrightarrow> eligible (si_routebook si) (si_registry si) (si_work_unit si) (si_plan si) profiles (si_report si) c) \<and>
    in_unit (cs_total (tr_score s)) \<and> (\<not> tr_passed s \<longrightarrow> cs_total (tr_score s) = 0)"
proof -
  obtain b profile results x w where b: "registry_get (si_registry si) (cand_backend_id c) = Inr b"
    and profile: "dget (by_key cpr_backend_id profiles) (cand_backend_id c) = Some profile"
    and results: "hard_filter_results (si_routebook si) (si_work_unit si) (si_plan si) c profile b (si_report si) = Inr results"
    and x: "candidate_score_of fsum c (hard_filters_pass results) results (si_task_profile si) profile (si_report si) (si_weights si) = Inr (x, w)"
    and s: "tr_candidate_id s = cand_route_candidate_id c" "tr_score s = x" "tr_passed s = hard_filters_pass results"
    using assms by (auto simp: score_candidate_def Let_def split: option.splits prod.splits)
  show ?thesis using hard_filters_exact [OF b profile results] candidate_score_ok [OF x] s by simp
qed

lemma dget_fold_dput_other:
  "k \<notin> key ` set xs \<Longrightarrow> dget (fold (\<lambda>x d. dput (key x) x d) xs d) k = dget d k"
  by (induction xs arbitrary: d) auto

lemma dget_by_key:
  assumes "distinct (map key xs)" and "x \<in> set xs"
  shows "dget (by_key key xs) (key x) = Some x"
proof -
  have "dget (fold (\<lambda>x d. dput (key x) x d) xs d) (key x) = Some x" for d
    using assms by (induction xs arbitrary: d) (auto simp: dget_fold_dput_other)
  then show ?thesis by (simp add: by_key_def)
qed

definition ranked_before :: "(string \<times> route_candidate) list \<Rightarrow> candidate_score_trace \<Rightarrow> candidate_score_trace \<Rightarrow> bool" where
  "ranked_before candidates s s' \<longleftrightarrow> (\<exists>k k'. score_key candidates s = Inr k \<and> score_key candidates s' = Inr k' \<and> k \<le> k')"

lemma ranked_scores_sorted:
  assumes "ranked_scores candidates scores = Inr ranked"
  shows "mset ranked = mset scores \<and> sorted_wrt (ranked_before candidates) ranked"
proof -
  obtain keyed where keyed: "map_result (\<lambda>s. bind_result (score_key candidates s) (\<lambda>k. Inr (k, s))) scores = Inr keyed"
    and ranked: "ranked = map snd (sort_key fst keyed)"
    using assms by (auto simp: ranked_scores_def)
  have "map snd keyed = scores"
    using keyed by (induction scores arbitrary: keyed) auto
  then have "mset ranked = mset scores" by (auto simp: ranked)
  moreover have keys: "score_key candidates (snd e) = Inr (fst e)" if "e \<in> set keyed" for e
    using map_result_set [OF keyed that] by auto
  have "sorted_wrt (\<lambda>e e'. fst e \<le> fst e') (sort_key fst keyed)"
    using sorted_sort_key [of fst keyed] by (simp add: sorted_wrt_map)
  then have "sorted_wrt (\<lambda>e e'. ranked_before candidates (snd e) (snd e')) (sort_key fst keyed)"
    by (rule sorted_wrt_mono_rel [rotated]) (auto simp: ranked_before_def keys)
  ultimately show ?thesis by (simp add: ranked sorted_wrt_map)
qed

lemma first_passing:
  assumes sorted: "sorted_wrt (ranked_before candidates) ranked" and first: "filter tr_passed ranked = s # rest"
    and other: "s' \<in> set ranked" "tr_passed s'"
  shows "s' = s \<or> ranked_before candidates s s'"
proof -
  have "s' \<in> set (filter tr_passed ranked)" using other by simp
  then show ?thesis using sorted_wrt_filter [OF sorted, of tr_passed] by (auto simp: first)
qed

text \<open>The passing traces come first, so that the first of them has rank one.\<close>

lemma first_passing_is_first:
  assumes "sorted_wrt (ranked_before candidates) ranked" and "filter tr_passed ranked = s # rest"
  shows "\<exists>tail. ranked = s # tail"
proof (cases ranked)
  case (Cons x tail)
  show ?thesis
  proof (cases "tr_passed x")
    case True then show ?thesis using assms(2) Cons by simp
  next
    case False
    then have "s \<in> set tail" "tr_passed s" using assms(2) Cons by (auto simp: filter_eq_Cons_iff)
    then have "ranked_before candidates x s" using assms(1) Cons by simp
    then show ?thesis using False \<open>tr_passed s\<close> by (auto simp: ranked_before_def score_key_def split: option.splits)
  qed
qed (use assms in simp)

lemma with_ranks_trace:
  assumes "distinct (map tr_candidate_id ranked)" and "s \<in> set ranked"
  shows "\<exists>n. dget (by_key tr_candidate_id (with_ranks ranked)) (tr_candidate_id s) = Some (s\<lparr>tr_rank := Some n\<rparr>) \<and>
    1 \<le> n \<and> n \<le> length ranked \<and> ranked ! (n - 1) = s"
proof -
  obtain i where i: "i < length ranked" "ranked ! i = s" using assms(2) by (auto simp: in_set_conv_nth)
  have ids: "map tr_candidate_id (with_ranks ranked) = map tr_candidate_id ranked"
    by (rule nth_equalityI) (auto simp: with_ranks_def simp del: upt_Suc)
  have "with_ranks ranked ! i = s\<lparr>tr_rank := Some (Suc i)\<rparr>" "i < length (with_ranks ranked)"
    using i by (simp_all add: with_ranks_def del: upt_Suc)
  then have member: "s\<lparr>tr_rank := Some (Suc i)\<rparr> \<in> set (with_ranks ranked)" by (metis nth_mem)
  show ?thesis
    using dget_by_key [OF _ member, of tr_candidate_id] i assms(1) by (intro exI [of _ "Suc i"]) (simp add: ids)
qed

definition scored ::
  "loaded_routebook \<Rightarrow> backend_registry \<Rightarrow> work_unit \<Rightarrow> route_plan \<Rightarrow> capacity_profile list \<Rightarrow> task_analysis_report
   \<Rightarrow> route_candidate \<Rightarrow> candidate_score_trace \<Rightarrow> bool" where
  "scored rb reg wu plan profiles report c s \<longleftrightarrow>
     tr_candidate_id s = cand_route_candidate_id c \<and> (tr_passed s \<longleftrightarrow> eligible rb reg wu plan profiles report c) \<and>
     in_unit (cs_total (tr_score s)) \<and> (\<not> tr_passed s \<longrightarrow> cs_total (tr_score s) = 0)"

lemma score_parts:
  assumes "score fsum repr rb v1 reg wu plan t profiles report = Inr r"
  shows "\<exists>scores ranked. list_all2 (scored rb reg wu plan profiles report) (plan_candidates plan) scores \<and>
    ranked_scores (by_key cand_route_candidate_id (plan_candidates plan)) scores = Inr ranked \<and>
    rsr_candidate_scores r = map (\<lambda>s. dget_or s (by_key tr_candidate_id (with_ranks ranked)) (tr_candidate_id s)) scores \<and>
    rsr_selected_candidate_id r = fst (select_candidate plan ranked)"
proof -
  obtain weights scores ranked
    where scores: "map_result (score_candidate fsum \<lparr>si_routebook = rb, si_registry = reg, si_work_unit = wu, si_plan = plan,
        si_task_profile = t, si_profiles = by_key cpr_backend_id profiles, si_report = report, si_weights = weights\<rparr>)
        (plan_candidates plan) = Inr scores"
    and rest: "ranked_scores (by_key cand_route_candidate_id (plan_candidates plan)) scores = Inr ranked"
      "rsr_candidate_scores r = map (\<lambda>s. dget_or s (by_key tr_candidate_id (with_ranks ranked)) (tr_candidate_id s)) scores"
      "rsr_selected_candidate_id r = fst (select_candidate plan ranked)"
    using assms by (auto simp: score_def Let_def case_prod_beta)
  have "list_all2 (scored rb reg wu plan profiles report) (plan_candidates plan) scores"
    using map_result_all2 [OF scores] by (rule list.rel_mono_strong) (auto simp: scored_def dest: score_candidate_ok)
  then show ?thesis using rest by blast
qed

lemma scored_rank [simp]:
  "scored rb reg wu plan profiles report c (s\<lparr>tr_rank := n\<rparr>) \<longleftrightarrow> scored rb reg wu plan profiles report c s"
  by (simp add: scored_def)

lemma scored_ids:
  "list_all2 (scored rb reg wu plan profiles report) cs ss \<Longrightarrow> map tr_candidate_id ss = map cand_route_candidate_id cs"
  by (induction rule: list_all2_induct) (auto simp: scored_def)

lemma ranked_before_better:
  assumes "ranked_before candidates s s'" and "tr_passed s" and "tr_passed s'"
    and "dget candidates (tr_candidate_id s) = Some c" and "dget candidates (tr_candidate_id s') = Some c'"
  shows "cs_total (tr_score s') < cs_total (tr_score s) \<or>
    cs_total (tr_score s') = cs_total (tr_score s) \<and> cand_priority c \<le> cand_priority c'"
  using assms by (auto simp: ranked_before_def score_key_def less_eq_prod_def)

text \<open>The selection as the report shows it, over the pairs of candidates and traces.\<close>

definition best_selected ::
  "loaded_routebook \<Rightarrow> backend_registry \<Rightarrow> work_unit \<Rightarrow> route_plan \<Rightarrow> capacity_profile list \<Rightarrow> task_analysis_report
   \<Rightarrow> route_scoring_report \<Rightarrow> route_candidate \<Rightarrow> candidate_score_trace \<Rightarrow> bool" where
  "best_selected rb reg wu plan profiles report r c s \<longleftrightarrow>
     eligible rb reg wu plan profiles report c \<and> rsr_selected_candidate_id r = cand_route_candidate_id c \<and> tr_rank s = Some 1 \<and>
     (\<forall>(c', s') \<in> set (zip (plan_candidates plan) (rsr_candidate_scores r)). eligible rb reg wu plan profiles report c' \<longrightarrow>
        cs_total (tr_score s') < cs_total (tr_score s) \<or>
        cs_total (tr_score s') = cs_total (tr_score s) \<and> cand_priority c \<le> cand_priority c')"

lemma final_trace:
  assumes scores: "list_all2 (scored rb reg wu plan profiles report) (plan_candidates plan) scores"
    and ranked: "mset ranked = mset scores" and ids: "distinct (map cand_route_candidate_id (plan_candidates plan))"
    and i: "i < length scores"
  shows "\<exists>n. dget_or (scores ! i) (by_key tr_candidate_id (with_ranks ranked)) (tr_candidate_id (scores ! i)) =
      (scores ! i)\<lparr>tr_rank := Some n\<rparr> \<and> (\<forall>tail. ranked = scores ! i # tail \<longrightarrow> n = 1)"
proof -
  have "mset (map tr_candidate_id ranked) = mset (map cand_route_candidate_id (plan_candidates plan))"
    using scored_ids [OF scores] by (metis mset_map ranked)
  then have distinct: "distinct (map tr_candidate_id ranked)" using ids mset_eq_imp_distinct_iff by blast
  have "scores ! i \<in> set ranked" using i mset_eq_setD [OF ranked] by simp
  then obtain n where n: "dget (by_key tr_candidate_id (with_ranks ranked)) (tr_candidate_id (scores ! i)) = Some ((scores ! i)\<lparr>tr_rank := Some n\<rparr>)"
    "1 \<le> n" "n \<le> length ranked" "ranked ! (n - 1) = scores ! i"
    using with_ranks_trace [OF distinct] by blast
  have "n = 1" if "ranked = scores ! i # tail" for tail
  proof -
    have "distinct ranked" using distinct by (simp add: distinct_map)
    then have "n - 1 = 0" using n that nth_eq_iff_index_eq [of ranked "n - 1" 0] by simp
    then show ?thesis using n(2) by simp
  qed
  then show ?thesis using n(1) by (auto simp: dget_or_def)
qed

definition scored_choice ::
  "loaded_routebook \<Rightarrow> backend_registry \<Rightarrow> work_unit \<Rightarrow> route_plan \<Rightarrow> capacity_profile list \<Rightarrow> task_analysis_report \<Rightarrow> route_scoring_report \<Rightarrow> bool" where
  "scored_choice rb reg wu plan profiles report r \<longleftrightarrow>
     (if \<exists>c \<in> set (plan_candidates plan). eligible rb reg wu plan profiles report c
      then \<exists>(c, s) \<in> set (zip (plan_candidates plan) (rsr_candidate_scores r)). best_selected rb reg wu plan profiles report r c s
      else rsr_selected_candidate_id r = plan_selected_candidate_id plan)"

lemma scorer_choice:
  assumes "score fsum repr rb v1 reg wu plan t profiles report = Inr r"
    and ids: "distinct (map cand_route_candidate_id (plan_candidates plan))"
  shows "list_all2 (scored rb reg wu plan profiles report) (plan_candidates plan) (rsr_candidate_scores r) \<and>
    scored_choice rb reg wu plan profiles report r"
proof -
  let ?cs = "plan_candidates plan" and ?final = "rsr_candidate_scores r"
  obtain scores ranked where scores: "list_all2 (scored rb reg wu plan profiles report) ?cs scores"
    and ranked: "ranked_scores (by_key cand_route_candidate_id ?cs) scores = Inr ranked"
    and final: "?final = map (\<lambda>s. dget_or s (by_key tr_candidate_id (with_ranks ranked)) (tr_candidate_id s)) scores"
    and selected: "rsr_selected_candidate_id r = fst (select_candidate plan ranked)"
    using score_parts [OF assms(1)] by blast
  have sorted: "mset ranked = mset scores" "sorted_wrt (ranked_before (by_key cand_route_candidate_id ?cs)) ranked"
    using ranked_scores_sorted [OF ranked] by auto
  have len: "length ?cs = length scores" "length ?final = length scores" using scores by (auto simp: final dest: list_all2_lengthD)
  have trace: "scored rb reg wu plan profiles report (?cs ! i) (scores ! i)"
    "\<exists>n. ?final ! i = (scores ! i)\<lparr>tr_rank := Some n\<rparr> \<and> (\<forall>tail. ranked = scores ! i # tail \<longrightarrow> n = 1)" if "i < length scores" for i
    using that list_all2_nthD2 [OF scores that] final_trace [OF scores sorted(1) ids that] by (simp_all add: final)
  have all: "list_all2 (scored rb reg wu plan profiles report) ?cs ?final"
    unfolding list_all2_conv_all_nth using trace len by (metis scored_rank)
  show ?thesis
  proof (cases "filter tr_passed ranked")
    case Nil
    then have "\<not> eligible rb reg wu plan profiles report c" if "c \<in> set ?cs" for c
      using that trace(1) len mset_eq_setD [OF sorted(1)] by (metis scored_def filter_empty_conv in_set_conv_nth nth_mem)
    then show ?thesis using all Nil by (auto simp: selected select_candidate_def scored_choice_def)
  next
    case (Cons s rest)
    let ?by_id = "by_key cand_route_candidate_id ?cs"
    obtain tail where tail: "ranked = s # tail" using first_passing_is_first [OF sorted(2) Cons] by blast
    have "s \<in> set scores" "tr_passed s" using Cons mset_eq_setD [OF sorted(1)] by (auto simp: filter_eq_Cons_iff)
    then obtain i where i: "i < length scores" "scores ! i = s" by (auto simp: in_set_conv_nth)
    have id: "dget ?by_id (tr_candidate_id (scores ! j)) = Some (?cs ! j)" if "j < length scores" for j
      using trace(1) [OF that] that len dget_by_key [OF ids, of "?cs ! j"] by (simp add: scored_def)
    have best: "cs_total (tr_score (scores ! j)) < cs_total (tr_score s) \<or>
        cs_total (tr_score (scores ! j)) = cs_total (tr_score s) \<and> cand_priority (?cs ! i) \<le> cand_priority (?cs ! j)"
      if "j < length scores" "eligible rb reg wu plan profiles report (?cs ! j)" for j
    proof -
      have "tr_passed (scores ! j)" "scores ! j \<in> set ranked"
        using that trace(1) [of j] mset_eq_setD [OF sorted(1)] by (auto simp: scored_def)
      then have "scores ! j = s \<or> ranked_before ?by_id s (scores ! j)" using first_passing [OF sorted(2) Cons] by blast
      then show ?thesis
        using ranked_before_better [of ?by_id s "scores ! j" "?cs ! i" "?cs ! j"] id [OF that(1)] id [OF i(1)] i(2)
          \<open>tr_passed s\<close> \<open>tr_passed (scores ! j)\<close> by auto
    qed
    have "best_selected rb reg wu plan profiles report r (?cs ! i) (?final ! i)"
    proof -
      have "tr_rank (?final ! i) = Some 1" "rsr_selected_candidate_id r = cand_route_candidate_id (?cs ! i)"
        using trace [OF i(1)] i(2) tail Cons by (auto simp: selected select_candidate_def scored_def)
      moreover have score: "tr_score (?final ! j) = tr_score (scores ! j)" if "j < length scores" for j
        using trace(2) [OF that] by auto
      have "\<forall>(c', s') \<in> set (zip ?cs ?final). eligible rb reg wu plan profiles report c' \<longrightarrow>
          cs_total (tr_score s') < cs_total (tr_score (?final ! i)) \<or>
          cs_total (tr_score s') = cs_total (tr_score (?final ! i)) \<and> cand_priority (?cs ! i) \<le> cand_priority c'"
        using best score len i by (fastforce simp: set_zip)
      ultimately show ?thesis
        using trace(1) [OF i(1)] i(2) \<open>tr_passed s\<close> by (simp add: best_selected_def scored_def)
    qed
    moreover have "(?cs ! i, ?final ! i) \<in> set (zip ?cs ?final)" using i len by (auto simp: set_zip)
    moreover have "eligible rb reg wu plan profiles report (?cs ! i)" "?cs ! i \<in> set ?cs"
      using trace(1) [OF i(1)] i \<open>tr_passed s\<close> len by (auto simp: scored_def)
    ultimately show ?thesis using all by (auto simp: scored_choice_def)
  qed
qed

text \<open>C40. The route scorer, on a plan whose candidate ids are distinct, when it returns a report. There is one trace per
  candidate, in the plan's order; its total lies between 0 and 1, and is 0 for a candidate that fails a hard filter;
  its decision is "pass" exactly for the eligible candidates: an allowing preflight without a raw secret, a backend that
  supports the task type and the effective privacy level, a verifier recipe from level L1 on, a backend class that is not
  forbidden, the gateway worker for the gateway classes, capacity that is available and not a peer's, and an effective task level
  that is not above the planned one. When some candidate is eligible, the selected one is eligible, has rank one, and
  every other eligible candidate has a smaller total, or the same total and no smaller priority number. When none is,
  the plan's own selection is kept.\<close>

theorem scorer_selects_best:
  assumes "score fsum repr rb v1 reg wu plan t profiles report = Inr r"
    and "distinct (map cand_route_candidate_id (plan_candidates plan))"
  shows "list_all2 (scored rb reg wu plan profiles report) (plan_candidates plan) (rsr_candidate_scores r) \<and>
    (if \<exists>c \<in> set (plan_candidates plan). eligible rb reg wu plan profiles report c
     then \<exists>(c, s) \<in> set (zip (plan_candidates plan) (rsr_candidate_scores r)). best_selected rb reg wu plan profiles report r c s
     else rsr_selected_candidate_id r = plan_selected_candidate_id plan)"
  using scorer_choice [OF assms] unfolding scored_choice_def .

section \<open>A scored plan\<close>

definition sample_weights :: components where
  "sample_weights = \<lparr>w_capability = 1 / 4, w_policy = 1 / 4, w_quality = 0, w_cost = 1 / 4, w_latency = 0, w_trust = 1 / 4\<rparr>"
definition sample_capacity :: capacity_profile where
  "sample_capacity =
     \<lparr>cpr_capacity_profile_id = ''cp_b'', cpr_capacity_node_id = ''capnode:worker:wrk_1'', cpr_backend_id = ''b'',
      cpr_backend_class = ''local_tool'', cpr_ownership_scope = ''user_local'', cpr_execution_boundary = ''local_machine'',
      cpr_availability_state = ''available'', cpr_model_profile = None, cpr_capabilities = [], cpr_estimated_cost_micros = 0,
      cpr_cost_tier = ''free'', cpr_p50_ms = Some 100, cpr_p95_ms = None,
      cpr_quality_memory = \<lparr>qm_verifier_pass_rate = None, qm_accepted_result_rate = None, qm_sample_size = 0\<rparr>,
      cpr_verified_for = []\<rparr>"
definition sample_task_profile :: task_profile where
  "sample_task_profile =
     \<lparr>tp_task_profile_id = ''tp_1'', tp_work_unit_id = ''wu_1'', tp_routebook_id = ''tb'', tp_routebook_version = ''1'',
      tp_source = ''deterministic'', tp_task_family = ''simple_transform'', tp_task_type = ''dedup'', tp_difficulty = ''easy'',
      tp_risk_level = ''L1'', tp_privacy_level = ''private'', tp_context_size = ''small'', tp_latency_preference = ''normal'',
      tp_cost_preference = ''balanced'', tp_required_capabilities = [], tp_forbidden_capabilities = [], tp_requires_tools = [],
      tp_requires_verifier_recipe_id = True, tp_success_criteria = [], tp_ambiguity_status = ''low'', tp_confidence = 1,
      tp_profile_reason_codes = []\<rparr>"

lemma sample_score_weights: "score_weights (foldl fadd 0) sample_v1 = Inr sample_weights"
proof -
  have i: "float_of_int 1 = Inr 1" "float_of_int 0 = Inr 0" by code_simp+
  have t: "foldl fadd 0 [1, 1, 0, 1, 0, 1] = 4" by code_simp
  have r: "round4 (fdiv 1 4) = 1 / 4" "round4 (fdiv 0 4) = 0" by code_simp+
  show ?thesis
    by (simp add: score_weights_def v1_scoring_def sample_v1_def dget_or_def weight_at_def i
      component_list_def map_components_def r sample_weights_def t Let_def del: foldl_Cons)
qed

lemma sample_task_analysis:
  "case analyze analysis_platform (\<lambda>_. []) sample_v1 sample_config (sample_work_unit []) None of
      Inl _ \<Rightarrow> False | Inr r \<Rightarrow> tar_effective_task_level r = ''L0'' \<and> tar_effective_privacy_level r = ''private'' \<and>
        tar_preflight_decision r = ''allow'' \<and> tar_confidence r = fl (82/100) \<and> \<not> ps_raw_secret_detected (tar_privacy_scan r)"
  by code_simp

definition sample_filters :: "(string \<times> string) list" where
  "sample_filters =
     [(''preflight_allow'', ''pass''), (''task_type_supported'', ''pass''), (''privacy_boundary_allowed'', ''pass''),
      (''verifier_available_for_L1_L2_L3'', ''pass''), (''backend_class_allowed'', ''pass''),
      (''worker_direct_api_model_forbidden'', ''pass''), (''credential_boundary_valid'', ''pass''),
      (''capacity_health_not_quarantined'', ''pass''), (''task_level_not_downgraded'', ''pass''),
      (''peer_negotiation_complete_for_peer_capacity'', ''not_required'')]"

lemma sample_fits:
  "in_unit (round4 (capability_fit (foldl fadd 0) sample_task_profile sample_capacity))"
  "in_unit (round4 (quality_fit sample_task_profile sample_capacity))"
  "in_unit (round4 (cost_fit (sample_candidate i n) sample_task_profile))"
  "in_unit (round4 (latency_fit sample_capacity sample_task_profile))" "in_unit (round4 (trust_fit sample_capacity))"
  unfolding quality_fit_def model_or_backend_tier_fit_def cost_fit_def Let_def by code_simp+

lemma sample_candidate_scored:
  assumes "tar_confidence report = fl (82 / 100)"
  shows "\<exists>s w. candidate_score_of (foldl fadd 0) (sample_candidate i 1) True sample_filters sample_task_profile sample_capacity
    report sample_weights = Inr (s, w)"
proof -
  have "in_unit (round4 (uncertainty_penalty sample_capacity report sample_filters))"
    unfolding uncertainty_penalty_def Let_def assms by code_simp
  moreover have "in_unit (round4 (max 0 (min 1 x)))" for x
    using round4_unit [of "max 0 (min 1 x)"] by (simp add: in_unit_def)
  moreover have "priority_penalty (sample_candidate i 1) = Inr 0" by code_simp
  ultimately show ?thesis
    using sample_fits by (simp add: candidate_score_of_def Let_def make_candidate_score_def in_unit_def check_def)
qed

lemma sample_filtered:
  assumes "tar_effective_task_level report = ''L0''" "tar_effective_privacy_level report = ''private''"
    "tar_preflight_decision report = ''allow''" "\<not> ps_raw_secret_detected (tar_privacy_scan report)"
  shows "hard_filter_results sample_routebook (sample_work_unit []) (sample_plan cs) (sample_candidate i 1) sample_capacity
    (sample_backend ''b'' ''local_tool'' ''local_machine'') report = Inr sample_filters"
  using assms
  by (simp add: hard_filter_results_def Let_def sample_views str_set_def dget_or_def rank_in_def task_level_order_def sample_plan_def
      sample_candidate_def sample_backend_def sample_capacity_def sample_work_unit_def sample_filters_def pass_if_def
      api_gateway_boundary_result_def api_gateway_backend_classes_def)

lemma sample_scored:
  assumes "tar_effective_task_level report = ''L0''" "tar_effective_privacy_level report = ''private''"
    "tar_preflight_decision report = ''allow''" "\<not> ps_raw_secret_detected (tar_privacy_scan report)"
    "tar_confidence report = fl (82 / 100)"
  shows "\<exists>r. score (foldl fadd 0) (\<lambda>_. []) sample_routebook sample_v1 (rsv_registry sample_resolver) (sample_work_unit [])
    (sample_plan [sample_candidate ''r1'' 1]) sample_task_profile [sample_capacity] report = Inr r"
proof -
  obtain s w where s: "candidate_score_of (foldl fadd 0) (sample_candidate ''r1'' 1) True sample_filters sample_task_profile
      sample_capacity report sample_weights = Inr (s, w)"
    using sample_candidate_scored [OF assms(5)] by blast
  have profiles: "by_key cpr_backend_id [sample_capacity] = [(''b'', sample_capacity)]"
    by (simp add: by_key_def sample_capacity_def)
  have passed: "hard_filters_pass sample_filters"
    by (simp add: hard_filters_pass_def sample_filters_def passing_hard_filter_statuses_def)
  have b: "registry_get (rsv_registry sample_resolver) ''b'' = Inr (sample_backend ''b'' ''local_tool'' ''local_machine'')"
    by (simp add: registry_get_def sample_resolver_def make_resolver_def sample_backend_def)
  have c: "cand_backend_id (sample_candidate ''r1'' 1) = ''b''" "plan_candidates (sample_plan cs) = cs" for cs
    by (simp_all add: sample_candidate_def sample_plan_def)
  have v1: "v1_routebook_id (\<lambda>_. []) sample_v1 = Inr ''tb''" "v1_version (\<lambda>_. []) sample_v1 = Inr ''1''"
    "bind_result (v1_scoring sample_v1) (\<lambda>d. item d ''scorer_id'') = Inr (JStr ''s'')"
    "bind_result (v1_scoring sample_v1) (\<lambda>d. item d ''version'') = Inr (JStr ''1'')" by code_simp+
  have texts: "non_empty_str ''tb'' = Inr ''tb''" "non_empty_str ''1'' = Inr ''1''" "non_empty_str ''s'' = Inr ''s''" by code_simp+
  have candidates: "by_key cand_route_candidate_id [sample_candidate ''r1'' 1] = [(''r1'', sample_candidate ''r1'' 1)]"
    by (simp add: by_key_def sample_candidate_def)
  have "\<exists>t. score_candidate (foldl fadd 0) \<lparr>si_routebook = sample_routebook, si_registry = rsv_registry sample_resolver,
      si_work_unit = sample_work_unit [], si_plan = sample_plan [sample_candidate ''r1'' 1], si_task_profile = sample_task_profile,
      si_profiles = by_key cpr_backend_id [sample_capacity], si_report = report, si_weights = sample_weights\<rparr>
      (sample_candidate ''r1'' 1) = Inr t \<and> tr_candidate_id t = ''r1''"
    by (simp add: score_candidate_def Let_def profiles c b sample_filtered [OF assms(1-4)] passed s sample_candidate_id)
  then obtain t where t: "score_candidate (foldl fadd 0) \<lparr>si_routebook = sample_routebook, si_registry = rsv_registry sample_resolver,
      si_work_unit = sample_work_unit [], si_plan = sample_plan [sample_candidate ''r1'' 1], si_task_profile = sample_task_profile,
      si_profiles = by_key cpr_backend_id [sample_capacity], si_report = report, si_weights = sample_weights\<rparr>
      (sample_candidate ''r1'' 1) = Inr t" "tr_candidate_id t = ''r1''" by blast
  show ?thesis
    using v1(3,4)
    by (auto simp: score_def Let_def sample_score_weights t c candidates ranked_scores_def score_key_def case_prod_beta v1(1,2) texts)
qed

lemma sample_scored_report:
  "\<exists>report. analyze analysis_platform (\<lambda>_. []) sample_v1 sample_config (sample_work_unit []) None = Inr report \<and>
     tar_effective_task_level report = ''L0'' \<and> tar_effective_privacy_level report = ''private'' \<and>
     tar_preflight_decision report = ''allow'' \<and> tar_confidence report = fl (82 / 100) \<and>
     \<not> ps_raw_secret_detected (tar_privacy_scan report)"
  using sample_task_analysis by (auto split: sum.splits)

theorem scorer_selects_best_witness:
  "\<exists>report r. score (foldl fadd 0) (\<lambda>_. []) sample_routebook sample_v1 (rsv_registry sample_resolver) (sample_work_unit [])
     (sample_plan [sample_candidate ''r1'' 1]) sample_task_profile [sample_capacity] report = Inr r \<and>
     length (rsr_candidate_scores r) = 1 \<and> rsr_selected_candidate_id r = ''r1''"
proof -
  obtain report r where r: "score (foldl fadd 0) (\<lambda>_. []) sample_routebook sample_v1 (rsv_registry sample_resolver)
      (sample_work_unit []) (sample_plan [sample_candidate ''r1'' 1]) sample_task_profile [sample_capacity] report = Inr r"
    using sample_scored_report sample_scored by meson
  have plan: "plan_candidates (sample_plan [c]) = [c]" "plan_selected_candidate_id (sample_plan [c]) = ''r1''" for c
    by (simp_all add: sample_plan_def)
  have "list_all2 (scored sample_routebook (rsv_registry sample_resolver) (sample_work_unit []) (sample_plan [sample_candidate ''r1'' 1])
      [sample_capacity] report) [sample_candidate ''r1'' 1] (rsr_candidate_scores r) \<and> rsr_selected_candidate_id r = ''r1''"
    using scorer_selects_best [OF r] by (auto simp: plan sample_candidate_id best_selected_def split: if_splits dest: set_zip_leftD)
  moreover from this have "length (rsr_candidate_scores r) = 1" by (auto dest: list_all2_lengthD)
  ultimately show ?thesis using r by blast
qed

end
