(* ===== verification/Route_Service.thy ===== *)
theory Route_Service
  imports Scoring
begin

text \<open>
  The router service (\<open>src/tokenbank/router/service.py\<close>): a validated plan, re-selected by the route scorer when the
  service has a V1 routebook, and stored on demand.

  The scored selection reads the configuration and the V1 routebook from their directories again; \<open>route_files\<close> is what
  it reads. \<open>WorkUnit.model_validate\<close> is the argument \<open>model_validate\<close>.
\<close>

section \<open>The service\<close>

record route_files =
  rf_yaml :: "string \<Rightarrow> yaml_dir"
  rf_pricing :: "string \<Rightarrow> (string \<times> json) list"
  rf_exists :: "string \<Rightarrow> bool"

record router_service =
  svc_routebook :: loaded_routebook
  svc_backend_resolver :: resolver
  svc_routebook_v1 :: "loaded_routebook_v1 option"
  svc_loaded_config_root :: "string option"

record route_environment =
  env_platform :: platform
  env_repr :: "json \<Rightarrow> string"
  env_fsum :: "rat list \<Rightarrow> rat"
  env_model_validate :: "fields \<Rightarrow> work_unit result"
  env_backend :: backend_constructor
  env_worker :: "fields \<Rightarrow> worker_manifest result"
  env_files :: route_files

definition task_analyzer_from_dirs :: "route_environment \<Rightarrow> string \<Rightarrow> string \<Rightarrow> (loaded_routebook_v1 \<times> loaded_config) result" where
  "task_analyzer_from_dirs env config_dir v1_dir =
     bind_result (load_routebook_v1_dir (env_platform env) v1_dir (rf_yaml (env_files env) v1_dir)) (\<lambda>v1.
     bind_result (load_config_dir (env_platform env) config_dir (rf_yaml (env_files env) config_dir)
        (rf_pricing (env_files env) config_dir)) (\<lambda>cfg.
     Inr (v1, cfg)))"

definition scored_work_unit :: "fields \<Rightarrow> string \<Rightarrow> fields" where
  "scored_work_unit work_unit level =
     dput ''inline_input'' (dget_or (JObj []) work_unit ''inline_input'') (dput ''task_level'' (JStr level) work_unit)"

definition scored_selection :: "route_environment \<Rightarrow> router_service \<Rightarrow> fields \<Rightarrow> string \<Rightarrow> route_plan \<Rightarrow> route_plan result" where
  "scored_selection env svc work_unit level plan =
     (case (svc_routebook_v1 svc, svc_loaded_config_root svc) of
        (Some v1, Some config_root) \<Rightarrow>
          let rb = svc_routebook svc; reg = rsv_registry (svc_backend_resolver svc); repr = env_repr env in
          bind_result (env_model_validate env (scored_work_unit work_unit level)) (\<lambda>wu.
          bind_result (task_analyzer_from_dirs env config_root (v1_root v1)) (\<lambda>(analyzer_v1, cfg).
          bind_result (analyze (env_platform env) repr analyzer_v1 cfg wu (Some plan)) (\<lambda>report.
          bind_result (task_profile_of repr rb v1 wu plan) (\<lambda>t.
          bind_result (capacity_profiles_for_candidates reg (plan_candidates plan)) (\<lambda>profiles.
          bind_result (score (env_fsum env) repr rb v1 reg wu plan t profiles report) (\<lambda>r.
          validate_route_plan repr rb reg (apply_scored_selection plan r)))))))
      | _ \<Rightarrow> Inr plan)"

definition plan_route :: "route_environment \<Rightarrow> router_service \<Rightarrow> fields \<Rightarrow> bool \<Rightarrow> route_plan op" where
  "plan_route env svc work_unit persist =
     bnd utc_text_now (\<lambda>now.
     bnd (of_result (bind_result (validated_route_plan (env_repr env) (svc_routebook svc) (svc_backend_resolver svc) work_unit now)
        (\<lambda>plan. scored_selection env svc work_unit (plan_task_level plan) plan))) (\<lambda>plan.
     seq (if persist then persist_route_plan plan else ret ()) (ret plan)))"

text \<open>Paths are texts with single slashes, as \<open>pathlib\<close> normalises them.\<close>

definition path_join :: "string \<Rightarrow> string \<Rightarrow> string" where
  "path_join a b = (if a = ''.'' then b else if ends_with ''/'' a then a @ b else a @ ''/'' @ b)"

definition path_parent :: "string \<Rightarrow> string" where
  "path_parent p =
     (let up = rev (dropWhile (\<lambda>c. c \<noteq> CHR ''/'') (rev p)) in
      if up = [] then ''.'' else if up = ''/'' then up else butlast up)"

definition router_service_from_dirs ::
  "route_environment \<Rightarrow> string \<Rightarrow> string \<Rightarrow> string option \<Rightarrow> router_service result" where
  "router_service_from_dirs env config_dir routebook_dir routebook_v1_dir =
     (let p = env_platform env; files = env_files env in
      bind_result (load_config_dir p config_dir (rf_yaml files config_dir) (rf_pricing files config_dir)) (\<lambda>cfg.
      let v1_dir = (case routebook_v1_dir of Some d \<Rightarrow> d
            | None \<Rightarrow> path_join (path_parent (cfg_root cfg)) ''packs/base-routing/routebook'') in
      bind_result (load_routebook_dir p routebook_dir (rf_yaml files routebook_dir)) (\<lambda>rb.
      bind_result (resolver_from_config (env_repr env) (env_backend env) (env_worker env) cfg) (\<lambda>rv.
      bind_result (if rf_exists files v1_dir
           then bind_result (load_routebook_v1_dir p v1_dir (rf_yaml files v1_dir)) (\<lambda>v1. Inr (Some v1)) else Inr None) (\<lambda>v1.
      Inr \<lparr>svc_routebook = rb, svc_backend_resolver = rv, svc_routebook_v1 = v1,
           svc_loaded_config_root = Some (cfg_root cfg)\<rparr>)))))"

section \<open>Planned routes\<close>

lemma apply_scored_selection_ok [simp]:
  "plan_candidates (apply_scored_selection plan r) = plan_candidates plan"
  "plan_selected_candidate_id (apply_scored_selection plan r) = rsr_selected_candidate_id r"
  by (simp_all add: apply_scored_selection_def)

lemma scored_selection_ok:
  assumes "scored_selection env svc work_unit level plan = Inr p" and "svc_routebook_v1 svc = Some v1" and "svc_loaded_config_root svc = Some config_root"
  shows "\<exists>wu report profiles t r.
      score (env_fsum env) (env_repr env) (svc_routebook svc) v1 (rsv_registry (svc_backend_resolver svc)) wu plan t profiles report = Inr r \<and>
      p = apply_scored_selection plan r \<and> guardrails (env_repr env) (svc_routebook svc) (rsv_registry (svc_backend_resolver svc)) p"
  using assms by (auto simp: scored_selection_def Let_def validate_ok_iff split: prod.splits) blast

lemma plan_route_ok:
  assumes "plan_route env svc work_unit persist w = (Inr p, w')"
  shows "\<exists>now plan. validated_route_plan (env_repr env) (svc_routebook svc) (svc_backend_resolver svc) work_unit now = Inr plan \<and>
    scored_selection env svc work_unit (plan_task_level plan) plan = Inr p"
  using assms by (auto simp: plan_route_def bnd_ok_iff seq_ok_iff)

text \<open>C32. A planned route is executable and inside the guardrails. The candidates of a plan that plan_route
  returns are in the order of their keys; each of them names a registered backend and a known worker that may offer it,
  inside the allowlists of the backend policy, and selects exactly that worker; and the plan satisfies every guardrail of
  the validator. A service without a V1 routebook selects the first candidate. A service with one selects what the
  scorer reports: with distinct candidate ids, the best eligible candidate, or the first candidate when none is
  eligible.\<close>

theorem planned_route_executable:
  assumes "plan_route env svc work_unit persist w = (Inr p, w')"
  shows "plan_candidates p \<noteq> [] \<and> sorted (map candidate_key (plan_candidates p)) \<and>
    (\<forall>c \<in> set (plan_candidates p). candidate_of (svc_backend_resolver svc) c) \<and>
    guardrails (env_repr env) (svc_routebook svc) (rsv_registry (svc_backend_resolver svc)) p \<and>
    (\<exists>plan. plan_candidates plan = plan_candidates p \<and>
       plan_selected_candidate_id plan = cand_route_candidate_id (hd (plan_candidates p)) \<and>
       (case (svc_routebook_v1 svc, svc_loaded_config_root svc) of
          (Some v1, Some config_root) \<Rightarrow> \<exists>wu report profiles t r.
            score (env_fsum env) (env_repr env) (svc_routebook svc) v1 (rsv_registry (svc_backend_resolver svc)) wu plan t profiles report = Inr r \<and>
            p = apply_scored_selection plan r \<and>
            (distinct (map cand_route_candidate_id (plan_candidates p)) \<longrightarrow>
               scored_choice (svc_routebook svc) (rsv_registry (svc_backend_resolver svc)) wu plan profiles report r)
        | _ \<Rightarrow> p = plan))"
proof -
  obtain now plan where plan: "validated_route_plan (env_repr env) (svc_routebook svc) (svc_backend_resolver svc) work_unit now = Inr plan"
    and p: "scored_selection env svc work_unit (plan_task_level plan) plan = Inr p"
    using plan_route_ok [OF assms] by blast
  note ok = validated_route_plan_ok [OF plan]
  show ?thesis
  proof (cases "svc_routebook_v1 svc = None \<or> svc_loaded_config_root svc = None")
    case True
    then have "p = plan" using p by (auto simp: scored_selection_def split: option.splits)
    then show ?thesis using ok True by (intro conjI exI [of _ plan]) (auto split: option.splits)
  next
    case False
    then obtain v1 config_root where set: "svc_routebook_v1 svc = Some v1" "svc_loaded_config_root svc = Some config_root" by auto
    obtain wu report profiles t r where r: "score (env_fsum env) (env_repr env) (svc_routebook svc) v1
        (rsv_registry (svc_backend_resolver svc)) wu plan t profiles report = Inr r"
      and "p = apply_scored_selection plan r" "guardrails (env_repr env) (svc_routebook svc) (rsv_registry (svc_backend_resolver svc)) p"
      using scored_selection_ok [OF p set] by blast
    then show ?thesis
      using ok scorer_choice [OF r] set
      by (intro conjI exI [of _ plan]) (simp_all, metis)
  qed
qed

section \<open>A planned route\<close>

definition sample_environment :: route_environment where
  "sample_environment =
     \<lparr>env_platform = plat empty_world, env_repr = (\<lambda>_. []), env_fsum = foldl fadd 0,
      env_model_validate = (\<lambda>d. Inr (sample_work_unit [])),
      env_backend = (\<lambda>_. Inl (ValueError ''BackendManifest'')), env_worker = (\<lambda>_. Inl (ValueError ''WorkerManifest'')),
      env_files = \<lparr>rf_yaml = (\<lambda>_ _. None), rf_pricing = (\<lambda>_. []), rf_exists = (\<lambda>_. False)\<rparr>\<rparr>"

definition sample_service :: router_service where
  "sample_service =
     \<lparr>svc_routebook = sample_routebook, svc_backend_resolver = sample_resolver, svc_routebook_v1 = None,
      svc_loaded_config_root = Some ''config''\<rparr>"

lemma sample_planned:
  "\<exists>p w'. plan_route sample_environment sample_service sample_route_request False empty_world = (Inr p, w')"
proof -
  have now: "utc_text (utc_clock (plat empty_world) (clock_draws empty_world)) = ''2026-01-01T00:00:00Z''"
    by (simp add: empty_world_def) code_simp
  show ?thesis
    by (simp add: plan_route_def run_bnd run_seq now sample_service_def sample_environment_def sample_validated scored_selection_def)
qed

theorem planned_route_executable_witness:
  "\<exists>p w'. plan_route sample_environment sample_service sample_route_request False empty_world = (Inr p, w') \<and>
     plan_candidates p \<noteq> [] \<and> guardrails (\<lambda>_. []) sample_routebook (rsv_registry sample_resolver) p"
proof -
  obtain p w' where p: "plan_route sample_environment sample_service sample_route_request False empty_world = (Inr p, w')"
    using sample_planned by blast
  show ?thesis
    using planned_route_executable [OF p] p by (simp add: sample_service_def sample_environment_def)
qed

end
