(* ===== verification/Verifier_Runner.thy ===== *)
theory Verifier_Runner
  imports Verifier
begin

text \<open>
  The runner, its recommendation table (\<open>src/tokenbank/verifier/runner.py\<close>) and the report
  (\<open>verifier/report_builder.py\<close>), and what an acceptance by the verifier guarantees.
\<close>

section \<open>Recommendation\<close>

definition failed_names :: "verifier_check_result list \<Rightarrow> string list" where
  "failed_names checks = map vc_name (filter (\<lambda>c. vc_status c = VS_failed) checks)"

definition warning_names :: "verifier_check_result list \<Rightarrow> string list" where
  "warning_names checks = map vc_name (filter (\<lambda>c. vc_status c = VS_needs_review) checks)"

definition recipe_recommendation :: "(json \<Rightarrow> string) \<Rightarrow> verifier_recipe \<Rightarrow> string \<Rightarrow> string \<Rightarrow> string" where
  "recipe_recommendation repr recipe key dflt =
     py_str repr (dget_or (JStr dflt) (rcp_recommendations recipe) key)"

definition task_recommendation ::
  "(json \<Rightarrow> string) \<Rightarrow> verifier_recipe \<Rightarrow> string list \<Rightarrow> string list \<Rightarrow> string option" where
  "task_recommendation repr recipe failed warned =
     (let rec = (\<lambda>key dflt. Some (recipe_recommendation repr recipe key dflt)) in
      if ''url_policy_safety'' \<in> set failed then rec ''private_ip_or_redirect'' ''quarantine''
      else if ''url_timeout'' \<in> set failed then rec ''timeout'' ''retry''
      else if ''url_status'' \<in> set warned then rec ''http_4xx'' ''accept_with_warning''
      else if ''url_status'' \<in> set failed then rec ''default_failure'' ''reject''
      else if ''dedup_overmerge'' \<in> set warned then rec ''overmerge'' ''accept_with_warning''
      else if ''dedup_exact'' \<in> set failed then rec ''default_failure'' ''reject''
      else if ''topic_label_enum'' \<in> set failed then rec ''label_not_enum'' ''retry''
      else if ''topic_confidence_range'' \<in> set failed then rec ''schema_invalid'' ''retry''
      else if ''topic_confidence'' \<in> set warned then rec ''low_confidence'' ''accept_with_warning''
      else if ''claim_source_ref'' \<in> set failed then rec ''missing_source_ref'' ''fallback''
      else if ''claim_entity'' \<in> set failed then rec ''missing_entity'' ''retry''
      else if list_ex (\<lambda>n. n \<in> set failed)
          [''claim_text'', ''claim_type_enum'', ''claim_confidence_range'', ''claim_evidence_hint'']
      then rec ''schema_invalid'' ''retry''
      else if ''webpage_empty'' \<in> set failed then rec ''empty'' ''fallback''
      else if ''webpage_prompt_injection'' \<in> set warned then rec ''prompt_injection'' ''accept_with_warning''
      else None)"

definition recommendation ::
  "(json \<Rightarrow> string) \<Rightarrow> verifier_recipe \<Rightarrow> verifier_check_result list \<Rightarrow> string" where
  "recommendation repr recipe checks =
     (let failed = failed_names checks; warned = warning_names checks in
      if ''secret_redaction'' \<in> set failed then recipe_recommendation repr recipe ''secret_detected'' ''quarantine''
      else if ''output_hash_present'' \<in> set failed
      then recipe_recommendation repr recipe ''output_hash_missing'' ''reject''
      else if ''output_hash_valid'' \<in> set failed \<or> ''result_hash_valid'' \<in> set failed
      then recipe_recommendation repr recipe ''hash_mismatch'' ''quarantine''
      else if ''output_schema'' \<in> set failed then recipe_recommendation repr recipe ''schema_invalid'' ''retry''
      else if ''policy_linkage'' \<in> set failed then ''quarantine''
      else (case task_recommendation repr recipe failed warned of Some r \<Rightarrow> r | None \<Rightarrow> ''accept''))"

section \<open>The report\<close>

definition aggregate_status :: "verifier_check_result list \<Rightarrow> string" where
  "aggregate_status checks =
     (if checks = [] then ''skipped''
      else if list_ex (\<lambda>c. vc_status c = VS_failed) checks then ''failed''
      else if list_ex (\<lambda>c. vc_status c = VS_needs_review) checks then ''needs_review''
      else if list_all (\<lambda>c. vc_status c = VS_skipped) checks then ''skipped''
      else ''passed'')"

definition status_for_group :: "verifier_check_result list \<Rightarrow> string list \<Rightarrow> string" where
  "status_for_group checks names = aggregate_status (filter (\<lambda>c. vc_name c \<in> set names) checks)"

definition report_metadata ::
  "verifier_recipe \<Rightarrow> verifier_check_result list \<Rightarrow> verifier_check_result list \<Rightarrow> string \<Rightarrow> fields" where
  "report_metadata recipe checks deterministic_checks rec =
     [(''safety_status'', JStr (status_for_group checks [''secret_redaction''])),
      (''schema_status'', JStr (status_for_group checks [''output_schema''])),
      (''policy_status'', JStr (status_for_group checks [''policy_linkage''])),
      (''deterministic_status'', JStr (aggregate_status deterministic_checks)),
      (''blocking_failures'', JList (map JStr (failed_names checks))),
      (''warning_failures'', JList (map JStr (warning_names checks))),
      (''sampled_audit_required'', JBool False),
      (''sampled_audit_rate_bps'', JInt (rcp_sampled_audit_rate_bps recipe)),
      (''llm_judge_used'', JBool False), (''quarantine_auto_fallback'', JBool False),
      (''recommendation'', JStr rec)]"

record verifier_report =
  vr_verifier_report_id :: string
  vr_work_unit_id :: string
  vr_result_envelope_id :: string
  vr_verifier_recipe_id :: string
  vr_status :: verifier_status
  vr_recommendation :: string
  vr_checks :: "verifier_check_result list"
  vr_output_hash :: string
  vr_result_hash :: string
  vr_metadata :: fields
  vr_created_at :: string

definition verifier_recommendations :: "string list" where
  "verifier_recommendations =
     [''accept'', ''accept_with_warning'', ''retry'', ''fallback'', ''reject'', ''quarantine'', ''escalate'', ''review'']"

definition status_for_recommendation :: "string \<Rightarrow> verifier_status" where
  "status_for_recommendation r =
     (if r = ''accept'' then VS_passed else if r = ''accept_with_warning'' then VS_needs_review else VS_failed)"

definition build_verifier_report ::
  "platform \<Rightarrow> string \<Rightarrow> string \<Rightarrow> result_envelope \<Rightarrow> verifier_check_result list \<Rightarrow> string \<Rightarrow> fields
   \<Rightarrow> verifier_report result" where
  "build_verifier_report p now recipe_id e checks rec meta =
     (let h = canonical_json_hash (sha256 p) (float_repr p)
                (JObj [(''recipe_id'', JStr recipe_id), (''result_envelope_id'', JStr (env_result_envelope_id e)),
                       (''recommendation'', JStr rec), (''check_names'', JList (map (\<lambda>c. JStr (vc_name c)) checks))])
      in bind_result (non_empty_str (env_work_unit_id e)) (\<lambda>wu.
         bind_result (non_empty_str (env_result_envelope_id e)) (\<lambda>re.
         bind_result (non_empty_str recipe_id) (\<lambda>ri.
         if rec \<notin> set verifier_recommendations then Inl (ValueError ''invalid recommendation'')
         else
         bind_result (non_empty_str (if env_output_hash e = [] then ''missing_output_hash'' else env_output_hash e)) (\<lambda>oh.
         bind_result (non_empty_str (if env_result_hash e = [] then ''missing_result_hash'' else env_result_hash e)) (\<lambda>rh.
         Inr \<lparr>vr_verifier_report_id = ''vr_'' @ take 24 h, vr_work_unit_id = wu, vr_result_envelope_id = re,
              vr_verifier_recipe_id = ri, vr_status = status_for_recommendation rec,
              vr_recommendation = rec, vr_checks = checks, vr_output_hash = oh, vr_result_hash = rh,
              vr_metadata = meta, vr_created_at = now\<rparr>))))))"

definition common_checks ::
  "platform \<Rightarrow> schema_validator \<Rightarrow> verifier_recipe \<Rightarrow> result_envelope \<Rightarrow> fields option \<Rightarrow> fields option
   \<Rightarrow> verifier_check_result list" where
  "common_checks p validate recipe e work_unit policy =
     check_envelope_integrity e @ check_hashes p e @ check_policy_linkage e policy @
     check_secret_redaction e @ check_output_schema validate e recipe work_unit"

definition run_verifier ::
  "platform \<Rightarrow> (json \<Rightarrow> string) \<Rightarrow> schema_validator \<Rightarrow> string \<Rightarrow> verifier_recipe \<Rightarrow> result_envelope
   \<Rightarrow> fields option \<Rightarrow> fields option \<Rightarrow> verifier_report result" where
  "run_verifier p repr validate now recipe e work_unit policy =
     (let deterministic_checks = run_task_specific_checks (rcp_verifier_recipe_id recipe) e;
          checks = common_checks p validate recipe e work_unit policy @ deterministic_checks;
          rec = recommendation repr recipe checks
      in build_verifier_report p now (rcp_verifier_recipe_id recipe) e checks rec
           (report_metadata recipe checks deterministic_checks rec))"

section \<open>What an acceptance means\<close>

text \<open>The entries of the recommendation table that the runner may consult, with their defaults.\<close>

definition recommendation_entries :: "(string \<times> string) list" where
  "recommendation_entries =
     [(''secret_detected'', ''quarantine''), (''output_hash_missing'', ''reject''), (''hash_mismatch'', ''quarantine''),
      (''schema_invalid'', ''retry''), (''private_ip_or_redirect'', ''quarantine''), (''timeout'', ''retry''),
      (''http_4xx'', ''accept_with_warning''), (''default_failure'', ''reject''),
      (''overmerge'', ''accept_with_warning''), (''label_not_enum'', ''retry''),
      (''low_confidence'', ''accept_with_warning''), (''missing_source_ref'', ''fallback''),
      (''missing_entity'', ''retry''), (''empty'', ''fallback''), (''prompt_injection'', ''accept_with_warning'')]"

text \<open>A recipe that does not turn a failure into an acceptance.\<close>

definition strict_recipe :: "(json \<Rightarrow> string) \<Rightarrow> verifier_recipe \<Rightarrow> bool" where
  "strict_recipe repr recipe \<longleftrightarrow>
     list_all (\<lambda>(k, d). recipe_recommendation repr recipe k d \<noteq> ''accept'') recommendation_entries"

definition known_recipes :: "string list" where
  "known_recipes = [''url_check_v0'', ''dedup_v0'', ''topic_classification_v0'', ''claim_extraction_v0'',
     ''webpage_extraction_v0'']"

definition task_failure_names :: "string list" where
  "task_failure_names =
     [''url_policy_safety'', ''url_timeout'', ''url_status'', ''dedup_exact'', ''topic_label_enum'',
      ''topic_confidence_range'', ''claim_source_ref'', ''claim_entity'', ''claim_text'', ''claim_type_enum'',
      ''claim_confidence_range'', ''claim_evidence_hint'', ''webpage_empty'']"

definition task_warning_names :: "string list" where
  "task_warning_names =
     [''url_status'', ''dedup_overmerge'', ''topic_confidence'', ''webpage_prompt_injection'']"

definition no_secret :: "string \<Rightarrow> bool" where
  "no_secret s \<longleftrightarrow> list_all (\<lambda>p. \<not> re_search p s) verifier_secret_patterns"

lemma secret_paths_Nil:
  "secret_paths v path = [] \<longleftrightarrow> list_all no_secret (all_strings v)"
  "secret_field_paths kvs path = [] \<longleftrightarrow> (\<forall>(k, v) \<in> set kvs. list_all no_secret (all_strings v))"
  "secret_item_paths xs i path = [] \<longleftrightarrow> (\<forall>x \<in> set xs. list_all no_secret (all_strings x))"
  by (induction v path and kvs path and xs i path
      rule: secret_paths_secret_field_paths_secret_item_paths.induct)
    (auto simp: list_all_iff list_ex_iff no_secret_def split_beta)

section \<open>Names of the checks\<close>

lemmas check_defs = passed_check_def failed_check_def warning_check_def skipped_check_def
lemmas common_check_defs = check_envelope_integrity_def check_hashes_def check_policy_linkage_def
  check_secret_redaction_def check_output_schema_def Let_def

text \<open>A task check either passed or has a status and a name that the recommendation table knows.\<close>

definition task_check_covered :: "verifier_check_result \<Rightarrow> bool" where
  "task_check_covered c \<longleftrightarrow>
     vc_status c = VS_passed \<or>
     (vc_status c = VS_failed \<and> vc_name c \<in> set task_failure_names) \<or>
     (vc_status c = VS_needs_review \<and> vc_name c \<in> set task_warning_names)"

lemmas covered_defs = task_check_covered_def task_failure_names_def task_warning_names_def check_defs

lemma check_claim_covered: "list_all task_check_covered (check_claim out v)"
  by (cases v) (simp_all add: covered_defs)

lemma claim_extraction_covered: "list_all task_check_covered (claim_extraction out)"
proof -
  have "list_all task_check_covered (concat (map (check_claim out) cs))" for cs
    using check_claim_covered by (auto simp: list_all_iff)
  then show ?thesis
    unfolding claim_extraction_def Let_def
    using check_claim_covered by (auto simp: covered_defs split: json.splits list.splits)
qed

lemma task_checks_covered:
  assumes "rid \<in> set known_recipes"
  shows "list_all task_check_covered (run_task_specific_checks rid e)"
proof -
  have "list_all task_check_covered (url_check out)" "list_all task_check_covered (dedup out)"
    "list_all task_check_covered (topic_classification out)" "list_all task_check_covered (webpage_extraction out)" for out
    by (auto simp: url_check_def dedup_def topic_classification_def webpage_extraction_def Let_def covered_defs
        split: option.splits json.splits list.splits)
  then show ?thesis
    using assms claim_extraction_covered by (auto simp: known_recipes_def run_task_specific_checks_def)
qed

lemma task_recommendation_accept:
  assumes "strict_recipe repr recipe"
    and "(case task_recommendation repr recipe failed warned of Some r \<Rightarrow> r | None \<Rightarrow> ''accept'') = ''accept''"
  shows "list_all (\<lambda>n. n \<notin> set failed) task_failure_names" "list_all (\<lambda>n. n \<notin> set warned) task_warning_names"
  using assms
  by (auto simp: task_recommendation_def Let_def strict_recipe_def recommendation_entries_def
      task_failure_names_def task_warning_names_def split: if_splits)

lemma recommendation_accept:
  assumes "strict_recipe repr recipe" and "recommendation repr recipe checks = ''accept''"
  shows "''secret_redaction'' \<notin> set (failed_names checks)" "''output_hash_present'' \<notin> set (failed_names checks)"
    "''output_hash_valid'' \<notin> set (failed_names checks)" "''result_hash_valid'' \<notin> set (failed_names checks)"
    "''output_schema'' \<notin> set (failed_names checks)" "''policy_linkage'' \<notin> set (failed_names checks)"
    "(case task_recommendation repr recipe (failed_names checks) (warning_names checks) of
        Some r \<Rightarrow> r | None \<Rightarrow> ''accept'') = ''accept''"
  using assms
  by (auto simp: recommendation_def Let_def strict_recipe_def recommendation_entries_def split: if_splits)

section \<open>Soundness of acceptance\<close>

lemma mem_failed_names: "n \<in> set (failed_names cs) \<longleftrightarrow> (\<exists>c \<in> set cs. vc_status c = VS_failed \<and> vc_name c = n)"
  by (auto simp: failed_names_def)

lemma mem_warning_names: "n \<in> set (warning_names cs) \<longleftrightarrow> (\<exists>c \<in> set cs. vc_status c = VS_needs_review \<and> vc_name c = n)"
  by (auto simp: warning_names_def)

lemma hashes_ok:
  assumes "set (check_hashes p e) \<subseteq> set cs" and "''output_hash_present'' \<notin> set (failed_names cs)"
    "''output_hash_valid'' \<notin> set (failed_names cs)" "''result_hash_valid'' \<notin> set (failed_names cs)"
  shows "env_output_hash e \<noteq> [] \<and> env_output_hash e = output_hash (sha256 p) (float_repr p) (JObj (env_output e)) \<and>
    env_result_hash e = expected_envelope_result_hash p e"
proof -
  have "list_all (\<lambda>c. \<not> (vc_status c = VS_failed \<and>
      vc_name c \<in> {''output_hash_present'', ''output_hash_valid'', ''result_hash_valid''})) (check_hashes p e)"
    using assms by (auto simp: mem_failed_names list_all_iff)
  then show ?thesis
    by (auto simp: check_hashes_def Let_def check_defs split: if_splits)
qed

lemma run_verifier_ok:
  assumes "run_verifier p repr validate now recipe e work_unit policy = Inr r"
  shows "vr_checks r = common_checks p validate recipe e work_unit policy @
           run_task_specific_checks (rcp_verifier_recipe_id recipe) e \<and>
         vr_recommendation r = recommendation repr recipe (vr_checks r) \<and>
         vr_status r = status_for_recommendation (vr_recommendation r) \<and>
         vr_recommendation r \<in> set verifier_recommendations"
  using assms by (auto simp: run_verifier_def build_verifier_report_def Let_def split: if_splits)

text \<open>C34. An accepted result is sound. With a known recipe that maps no failure to accept, a report that
  recommends accept means: the output hash is present and is the hash of the output, the result hash is that of
  the envelope, no string anywhere in the envelope matches a secret pattern, the output satisfies the configured
  schema if there is one, the policy decision if given is an approval of this work unit, and every task check
  passed without warning. Nothing is said of the integrity check: the recommendation does not depend on it.\<close>

theorem accepted_result_sound:
  assumes run: "run_verifier p repr validate now recipe e work_unit policy = Inr r"
    and acc: "vr_recommendation r = ''accept''" and strict: "strict_recipe repr recipe"
    and known: "rcp_verifier_recipe_id recipe \<in> set known_recipes"
  shows "env_output_hash e = output_hash (sha256 p) (float_repr p) (JObj (env_output e)) \<and> env_output_hash e \<noteq> [] \<and>
    env_result_hash e = expected_envelope_result_hash p e \<and>
    list_all no_secret (all_strings (JObj (dump_envelope e))) \<and>
    (configured_schema recipe work_unit = [] \<or> validate (configured_schema recipe work_unit) (env_output e) = None) \<and>
    (case policy of None \<Rightarrow> True
     | Some d \<Rightarrow> dget_or JNull d ''work_unit_id'' = JStr (env_work_unit_id e) \<and>
                 dget_or JNull d ''decision'' = JStr ''approved'') \<and>
    list_all (\<lambda>c. vc_status c = VS_passed) (run_task_specific_checks (rcp_verifier_recipe_id recipe) e)"
proof -
  let ?cs = "vr_checks r" and ?task = "run_task_specific_checks (rcp_verifier_recipe_id recipe) e"
  have cs: "?cs = common_checks p validate recipe e work_unit policy @ ?task"
    and "recommendation repr recipe ?cs = ''accept''"
    using run_verifier_ok [OF run] acc by auto
  note rec = recommendation_accept [OF strict this(2)]
  have hashes: "env_output_hash e \<noteq> [] \<and> env_output_hash e = output_hash (sha256 p) (float_repr p) (JObj (env_output e)) \<and>
      env_result_hash e = expected_envelope_result_hash p e"
    by (rule hashes_ok [OF _ rec(2-4)]) (auto simp: cs common_checks_def)
  have secrets: "secret_paths (JObj (dump_envelope e)) ''$'' = []"
    using rec(1) by (auto simp: cs common_checks_def mem_failed_names check_secret_redaction_def Let_def check_defs split: if_splits)
  have schema: "configured_schema recipe work_unit = [] \<or> validate (configured_schema recipe work_unit) (env_output e) = None"
    using rec(5) by (auto simp: cs common_checks_def mem_failed_names check_output_schema_def check_defs Let_def
        split: if_splits option.splits)
  have policy: "case policy of None \<Rightarrow> True
     | Some d \<Rightarrow> dget_or JNull d ''work_unit_id'' = JStr (env_work_unit_id e) \<and>
                 dget_or JNull d ''decision'' = JStr ''approved''"
    using rec(6) by (auto simp: cs common_checks_def mem_failed_names check_policy_linkage_def check_defs
        split: if_splits option.splits)
  have "vc_status c = VS_passed" if c: "c \<in> set ?task" for c
  proof -
    have "vc_status c \<noteq> VS_failed \<or> vc_name c \<notin> set task_failure_names"
      "vc_status c \<noteq> VS_needs_review \<or> vc_name c \<notin> set task_warning_names"
      using task_recommendation_accept [OF strict rec(7)] c
      by (auto simp: cs list_all_iff mem_failed_names mem_warning_names)
    then show ?thesis
      using task_checks_covered [OF known] c by (auto simp: list_all_iff task_check_covered_def)
  qed
  then have "list_all (\<lambda>c. vc_status c = VS_passed) ?task" by (simp add: list_all_iff)
  then show ?thesis
    using hashes schema policy secrets [unfolded secret_paths_Nil(1)] by (elim conjE) (intro conjI, assumption+)
qed

section \<open>Priority of safety findings\<close>

lemma aggregate_failed: "c \<in> set cs \<Longrightarrow> vc_status c = VS_failed \<Longrightarrow> aggregate_status cs = ''failed''"
  by (auto simp: aggregate_status_def list_ex_iff)

lemma leak_check:
  assumes "\<not> list_all no_secret (all_strings (JObj (dump_envelope e)))"
  obtains leaks where "failed_check ''secret_redaction'' ''result envelope contains unredacted secret-like values'' None
      leaks \<in> set (common_checks p validate recipe e work_unit policy @ cs)"
proof -
  have "secret_paths (JObj (dump_envelope e)) ''$'' \<noteq> []" using assms by (simp only: secret_paths_Nil(1) not_False_eq_True)
  then have "failed_check ''secret_redaction'' ''result envelope contains unredacted secret-like values'' None
      [(''leaks'', JList (map JStr (secret_paths (JObj (dump_envelope e)) ''$'')))] \<in> set (check_secret_redaction e)"
    by (simp add: check_secret_redaction_def Let_def del: secret_paths.simps)
  then show thesis using that by (auto simp: common_checks_def)
qed

lemma leak_fails:
  assumes "\<not> list_all no_secret (all_strings (JObj (dump_envelope e)))"
  shows "''secret_redaction'' \<in> set (failed_names (common_checks p validate recipe e work_unit policy @ cs))"
proof -
  obtain leaks where "failed_check ''secret_redaction'' ''result envelope contains unredacted secret-like values'' None
      leaks \<in> set (common_checks p validate recipe e work_unit policy @ cs)"
    by (rule leak_check [OF assms])
  then show ?thesis unfolding mem_failed_names by (rule bexI [rotated]) (simp add: failed_check_def)
qed

text \<open>A leaked secret overrides everything. If any string of the envelope matches a secret pattern, the
  recommendation is the recipe's entry for secret_detected, quarantine by default, whatever the other checks
  say, and the report's safety status is failed.\<close>

theorem leaked_secret_decides:
  assumes run: "run_verifier p repr validate now recipe e work_unit policy = Inr r"
    and leak: "\<not> list_all no_secret (all_strings (JObj (dump_envelope e)))"
  shows "vr_recommendation r = recipe_recommendation repr recipe ''secret_detected'' ''quarantine'' \<and>
    status_for_group (vr_checks r) [''secret_redaction''] = ''failed''"
proof -
  note ok = run_verifier_ok [OF run]
  obtain leaks where "failed_check ''secret_redaction'' ''result envelope contains unredacted secret-like values'' None
      leaks \<in> set (vr_checks r)"
    using leak_check [OF leak] ok by metis
  then have "status_for_group (vr_checks r) [''secret_redaction''] = ''failed''"
    unfolding status_for_group_def by (intro aggregate_failed) (auto simp: failed_check_def)
  moreover have "''secret_redaction'' \<in> set (failed_names (vr_checks r))" using leak_fails [OF leak] ok by metis
  ultimately show ?thesis using ok by (simp add: recommendation_def)
qed

section \<open>Witnesses\<close>

definition plain_platform :: platform where
  "plain_platform =
     \<lparr>sha256 = (\<lambda>_. ''h''), float_repr = (\<lambda>_. []), uuid4_hex = (\<lambda>_. []), token_urlsafe = (\<lambda>_. []),
      utc_clock = (\<lambda>_. \<lparr>year = 2026, month = 1, day = 1, hour = 0, minute = 0, second = 0, microsecond = 0\<rparr>)\<rparr>"

definition dedup_recipe :: verifier_recipe where
  "dedup_recipe =
     \<lparr>rcp_verifier_recipe_id = ''dedup_v0'', rcp_task_type = ''dedup'', rcp_output_schema = [],
      rcp_recommendations = [], rcp_sampled_audit_rate_bps = 0\<rparr>"

definition sample_envelope :: "fields \<Rightarrow> result_envelope" where
  "sample_envelope out =
     \<lparr>env_result_envelope_id = ''res'', env_work_unit_id = ''wu'', env_run_id = ''run'', env_attempt_id = ''att'',
      env_assignment_id = ''asg'', env_status = Res_succeeded, env_backend_id = None, env_backend_class = None,
      env_provider_id = None, env_model_id = None, env_worker_id = None, env_capacity_node_id = None,
      env_output = out, env_output_hash = ''h'', env_result_hash = ''h'', env_artifact_refs = [],
      env_usage_records = [], env_cost_estimate_micros = 0, env_actual_cost_micros = 0, env_cost_source = ''none'',
      env_cost_confidence = ''low'', env_redacted_logs = [], env_errors = [], env_backend_error = None,
      env_started_at = None, env_completed_at = ''t'', env_duration_ms = None\<rparr>"

lemma dedup_strict: "strict_recipe repr dedup_recipe"
  by (simp add: strict_recipe_def recommendation_entries_def recipe_recommendation_def dedup_recipe_def dget_or_def)

abbreviation clean_output :: fields where
  "clean_output \<equiv> [(''unique_items'', JList []), (''duplicate_count'', JInt 0)]"

abbreviation leaky_output :: fields where
  "leaky_output \<equiv> [(''note'', JStr ''sk-a'')]"

lemma sample_strings:
  "list_all no_secret (all_strings (JObj (dump_envelope (sample_envelope clean_output))))"
  "\<not> list_all no_secret (all_strings (JObj (dump_envelope (sample_envelope leaky_output))))"
  by code_simp+

lemma sample_secret_check:
  "check_secret_redaction (sample_envelope clean_output) = [passed_check ''secret_redaction'' [] []]"
proof -
  have "secret_paths (JObj (dump_envelope (sample_envelope clean_output))) ''$'' = []"
    using sample_strings(1) by (simp only: secret_paths_Nil(1))
  then show ?thesis by (simp add: check_secret_redaction_def del: secret_paths.simps)
qed

lemma sample_selectors:
  "env_output (sample_envelope out) = out" "env_output_hash (sample_envelope out) = ''h''"
  "env_result_hash (sample_envelope out) = ''h''" "env_result_envelope_id (sample_envelope out) = ''res''"
  "env_work_unit_id (sample_envelope out) = ''wu''" "env_attempt_id (sample_envelope out) = ''att''"
  "env_assignment_id (sample_envelope out) = ''asg''" "rcp_verifier_recipe_id dedup_recipe = ''dedup_v0''"
  "rcp_output_schema dedup_recipe = []"
  by (simp_all add: sample_envelope_def dedup_recipe_def)

lemma sample_hashes:
  "output_hash (sha256 plain_platform) (float_repr plain_platform) v = ''h''"
  "expected_envelope_result_hash plain_platform (sample_envelope out) = ''h''"
  by (simp_all add: plain_platform_def output_hash_def result_hash_def canonical_json_hash_def hash_bytes_def
      expected_envelope_result_hash_def)

lemma sample_clean_checks:
  "common_checks plain_platform validate dedup_recipe (sample_envelope clean_output) None None @
     run_task_specific_checks ''dedup_v0'' (sample_envelope clean_output)
   = [passed_check ''result_envelope_integrity'' [] [],
      passed_check ''output_hash_valid'' [] [(''observed_hash'', JStr ''h'')],
      passed_check ''result_hash_valid'' [] [(''observed_hash'', JStr ''h'')],
      skipped_check ''policy_linkage'' ''policy decision linkage not provided to verifier runner'',
      passed_check ''secret_redaction'' [] [], skipped_check ''output_schema'' ''no output schema configured'',
      passed_check ''dedup_exact'' [] []]"
  unfolding common_checks_def sample_secret_check
  by (simp add: check_envelope_integrity_def check_hashes_def check_policy_linkage_def check_output_schema_def
      configured_schema_def run_task_specific_checks_def dedup_def sample_hashes sample_selectors Let_def
      truthy_at_def has_key_def dget_or_def)

lemma sample_report:
  "\<exists>r. run_verifier plain_platform repr validate ''t'' dedup_recipe (sample_envelope out) None None = Inr r"
  if "recommendation repr dedup_recipe (common_checks plain_platform validate dedup_recipe (sample_envelope out) None None @
     run_task_specific_checks ''dedup_v0'' (sample_envelope out)) \<in> set verifier_recommendations"
proof -
  have "non_empty_str ''wu'' = Inr ''wu''" "non_empty_str ''res'' = Inr ''res''" "non_empty_str ''h'' = Inr ''h''"
    "non_empty_str ''dedup_v0'' = Inr ''dedup_v0''"
    by (simp_all add: non_empty_str_def strip_def blank_def)
  then show ?thesis using that by (simp add: run_verifier_def build_verifier_report_def Let_def sample_selectors)
qed

theorem accepted_result_sound_witness:
  "\<exists>r. run_verifier plain_platform (\<lambda>_. []) (\<lambda>_ _. None) ''t'' dedup_recipe (sample_envelope clean_output) None None
       = Inr r \<and> vr_recommendation r = ''accept'' \<and>
     env_result_hash (sample_envelope clean_output)
       = expected_envelope_result_hash plain_platform (sample_envelope clean_output)"
proof -
  have rec: "recommendation (\<lambda>_. []) dedup_recipe (common_checks plain_platform (\<lambda>_ _. None) dedup_recipe
      (sample_envelope clean_output) None None @ run_task_specific_checks ''dedup_v0'' (sample_envelope clean_output))
      = ''accept''"
    unfolding sample_clean_checks
    by (simp add: recommendation_def failed_names_def warning_names_def check_defs task_recommendation_def)
  then obtain r where run: "run_verifier plain_platform (\<lambda>_. []) (\<lambda>_ _. None) ''t'' dedup_recipe
      (sample_envelope clean_output) None None = Inr r"
    using sample_report [of "\<lambda>_. []" "\<lambda>_ _. None" clean_output] by (auto simp: verifier_recommendations_def)
  have acc: "vr_recommendation r = ''accept''"
    using run_verifier_ok [OF run] rec by (simp add: dedup_recipe_def)
  have "rcp_verifier_recipe_id dedup_recipe \<in> set known_recipes" by (simp add: dedup_recipe_def known_recipes_def)
  from accepted_result_sound [OF run acc dedup_strict this] run acc show ?thesis by blast
qed

theorem leaked_secret_decides_witness:
  "\<exists>r. run_verifier plain_platform (\<lambda>_. []) (\<lambda>_ _. None) ''t'' dedup_recipe (sample_envelope leaky_output) None None
       = Inr r \<and> vr_recommendation r = ''quarantine''"
proof -
  have quar: "recipe_recommendation (\<lambda>_. []) dedup_recipe ''secret_detected'' ''quarantine'' = ''quarantine''"
    by (simp add: recipe_recommendation_def dedup_recipe_def dget_or_def)
  have "recommendation (\<lambda>_. []) dedup_recipe (common_checks plain_platform (\<lambda>_ _. None) dedup_recipe
      (sample_envelope leaky_output) None None @ run_task_specific_checks ''dedup_v0'' (sample_envelope leaky_output))
      = ''quarantine''"
    using leak_fails [OF sample_strings(2)] quar by (simp add: recommendation_def)
  then obtain r where run: "run_verifier plain_platform (\<lambda>_. []) (\<lambda>_ _. None) ''t'' dedup_recipe
      (sample_envelope leaky_output) None None = Inr r"
    using sample_report [of "\<lambda>_. []" "\<lambda>_ _. None" leaky_output] by (auto simp: verifier_recommendations_def)
  from leaked_secret_decides [OF run sample_strings(2)] run quar show ?thesis by simp
qed

section \<open>Failures the table does not know\<close>

text \<open>The recommendation table has no entry for a failed integrity check or an unknown recipe.\<close>

lemma ignored_failures:
  "recommendation repr recipe [failed_check ''recipe_known'' msg h meta] = ''accept''"
  "recommendation repr recipe [failed_check ''result_envelope_integrity'' msg h meta] = ''accept''"
  by (simp_all add: recommendation_def task_recommendation_def failed_names_def warning_names_def failed_check_def)

end
