(* ===== verification/Host.thy ===== *)
theory Host
  imports Route_Service Policy Verifier_Runner Scheduler_Behaviour
begin

text \<open>
  The host commands (\<open>src/tokenbank/host/url_check.py\<close>): a client's request becomes a run and a work unit, a stored route
  plan, a stored policy decision, and, when the decision approves, an attempt and an assignment.
\<close>

section \<open>Demo tasks\<close>

record demo_task =
  dt_phase :: string
  dt_run_prefix :: string
  dt_work_unit_prefix :: string
  dt_task_level :: string
  dt_verifier_recipe_id :: string

definition supported_demo_tasks :: "(string \<times> demo_task) list" where
  "supported_demo_tasks =
     [(''url_check'', \<lparr>dt_phase = ''VS0'', dt_run_prefix = ''run_vs0'', dt_work_unit_prefix = ''wu_vs0'',
        dt_task_level = ''L0'', dt_verifier_recipe_id = ''url_check_v0''\<rparr>),
      (''dedup'', \<lparr>dt_phase = ''VS1a'', dt_run_prefix = ''run_vs1a'', dt_work_unit_prefix = ''wu_vs1a'',
        dt_task_level = ''L1'', dt_verifier_recipe_id = ''dedup_v0''\<rparr>),
      (''webpage_extraction'', \<lparr>dt_phase = ''VS1b'', dt_run_prefix = ''run_vs1b'', dt_work_unit_prefix = ''wu_vs1b'',
        dt_task_level = ''L1'', dt_verifier_recipe_id = ''webpage_extraction_v0''\<rparr>),
      (''topic_classification'', \<lparr>dt_phase = ''VS1c'', dt_run_prefix = ''run_vs1c'', dt_work_unit_prefix = ''wu_vs1c'',
        dt_task_level = ''L1'', dt_verifier_recipe_id = ''topic_classification_v0''\<rparr>),
      (''claim_extraction'', \<lparr>dt_phase = ''VS1d'', dt_run_prefix = ''run_vs1d'', dt_work_unit_prefix = ''wu_vs1d'',
        dt_task_level = ''L2'', dt_verifier_recipe_id = ''claim_extraction_v0''\<rparr>)]"

section \<open>Work units\<close>

definition dump_work_unit :: "work_unit \<Rightarrow> fields" where
  "dump_work_unit wu =
     [schema_version, (''work_unit_id'', JStr (wun_work_unit_id wu)), (''run_id'', JStr (wun_run_id wu)),
      (''task_type'', JStr (wun_task_type wu)), (''task_level'', JStr (wun_task_level wu)), (''status'', JStr (wun_status wu)),
      (''privacy_level'', JStr (wun_privacy_level wu)), (''data_labels'', JList (map JStr (wun_data_labels wu))),
      (''input_refs'', JList (map dump_artifact_ref (wun_input_refs wu))), (''inline_input'', JObj (wun_inline_input wu)),
      (''output_schema_ref'', str_opt (wun_output_schema_ref wu)), (''max_cost_micros'', int_opt (wun_max_cost_micros wu)),
      (''deadline_ms'', int_opt (wun_deadline_ms wu)), (''created_at'', JStr (wun_created_at wu)),
      (''updated_at'', JStr (wun_updated_at wu))]"

text \<open>\<open>WorkUnit(...)\<close> rejects forbidden keys anywhere in its arguments; the identifiers are never empty.\<close>

definition demo_work_unit :: "demo_task \<Rightarrow> string \<Rightarrow> string \<Rightarrow> string \<Rightarrow> fields \<Rightarrow> string \<Rightarrow> work_unit result" where
  "demo_work_unit task run_id work_unit_id task_type inline_input now =
     bind_result (reject_forbidden_keys (JObj inline_input) ''$.inline_input'') (\<lambda>_.
     Inr \<lparr>wun_work_unit_id = work_unit_id, wun_run_id = run_id, wun_task_type = task_type,
          wun_task_level = dt_task_level task, wun_status = ''submitted'', wun_privacy_level = ''private'',
          wun_data_labels = [''public_url''], wun_input_refs = [], wun_inline_input = inline_input,
          wun_output_schema_ref = None, wun_max_cost_micros = Some 0, wun_deadline_ms = None,
          wun_created_at = now, wun_updated_at = now\<rparr>)"

section \<open>Stored rows and their events\<close>

definition work_unit_row_of :: "work_unit \<Rightarrow> work_unit_row" where
  "work_unit_row_of wu =
     \<lparr>wu_id = wun_work_unit_id wu, wu_run_id = wun_run_id wu, wu_status = WU_submitted, wu_task_type = wun_task_type wu,
      wu_task_level = wun_task_level wu, wu_body = canonical (JObj (dump_work_unit wu)),
      wu_created_at = wun_created_at wu, wu_updated_at = wun_created_at wu\<rparr>"

definition run_body_of :: "work_unit \<Rightarrow> string \<Rightarrow> json" where
  "run_body_of wu phase =
     JObj [(''run_id'', JStr (wun_run_id wu)), (''source'', JStr (''host.'' @ wun_task_type wu)),
           (''task_type'', JStr (wun_task_type wu)), (''phase'', JStr phase)]"

definition insert_run :: "run_row \<Rightarrow> tables \<Rightarrow> tables result" where
  "insert_run r t = bind_result (insert_row rn_id r (runs t)) (\<lambda>rows. Inr (t\<lparr>runs := rows\<rparr>))"

definition insert_work_unit :: "work_unit_row \<Rightarrow> tables \<Rightarrow> tables result" where
  "insert_work_unit r t =
     bind_result (insert_row wu_id r (work_units t)) (\<lambda>rows.
     fk_check (has_row rn_id (runs t) (wu_run_id r)) (t\<lparr>work_units := rows\<rparr>))"

definition host_event :: "string \<Rightarrow> string \<Rightarrow> string \<Rightarrow> json \<Rightarrow> string option \<Rightarrow> string option \<Rightarrow> unit op" where
  "host_event src ty subj body run wu =
     bnd (outbox_event src ty subj body run wu None None) (\<lambda>e. seq (enqueue_event e) (ret ()))"

definition persist_run_and_work_unit :: "work_unit \<Rightarrow> string \<Rightarrow> unit op" where
  "persist_run_and_work_unit wu phase =
     transaction
       (seq (execute (insert_run \<lparr>rn_id = wun_run_id wu, rn_status = ''submitted'', rn_body = canonical (run_body_of wu phase),
               rn_created_at = wun_created_at wu, rn_updated_at = wun_created_at wu\<rparr>))
       (seq (execute (insert_work_unit (work_unit_row_of wu)))
       (seq (host_event ''tokenbank.host'' ''run.created'' (''runs/'' @ wun_run_id wu) (run_body_of wu phase)
               (Some (wun_run_id wu)) None)
       (host_event ''tokenbank.host'' ''work_unit.created'' (''work_units/'' @ wun_work_unit_id wu)
          (JObj (dump_work_unit wu)) (Some (wun_run_id wu)) (Some (wun_work_unit_id wu))))))"

definition upsert_route_plan :: "route_plan \<Rightarrow> tables \<Rightarrow> tables result" where
  "upsert_route_plan p t =
     fk_check (has_row rp_id (route_plans t) (plan_route_plan_id p) \<or> has_row wu_id (work_units t) (plan_work_unit_id p))
       (t\<lparr>route_plans := upsert_row rp_id
          (\<lambda>old. old\<lparr>rp_status := ''planned'', rp_body := canonical (dump_route_plan p)\<rparr>)
          (route_plan_row_of p) (route_plans t)\<rparr>)"

definition store_route_plan :: "route_plan \<Rightarrow> unit op" where
  "store_route_plan p =
     change_with_event (upsert_route_plan p)
       (outbox_event ''tokenbank.router'' ''route_plan.created'' (''route_plans/'' @ plan_route_plan_id p)
          (dump_route_plan p) None (Some (plan_work_unit_id p)) None None)"

definition effective_constraints_of :: "policy_decision \<Rightarrow> fields" where
  "effective_constraints_of d =
     [(''allowed_backend_ids'', JList (map JStr (dec_allowed_backend_ids d))),
      (''allowed_backend_classes'', JList (map JStr (dec_allowed_backend_classes d)))]"

definition dump_policy_decision :: "policy_decision \<Rightarrow> fields" where
  "dump_policy_decision d =
     [schema_version, (''policy_decision_id'', JStr (dec_policy_decision_id d)),
      (''work_unit_id'', JStr (dec_work_unit_id d)), (''route_plan_id'', JStr (dec_route_plan_id d)),
      (''decision'', JStr (dec_decision d)), (''reasons'', JList (map JStr (dec_reasons d))),
      (''checks'', JList (map policy_check_dict (dec_checks d))),
      (''effective_constraints'', JObj (effective_constraints_of d)), (''decided_at'', JStr (dec_decided_at d))]"

definition policy_decision_row_of :: "policy_decision \<Rightarrow> policy_decision_row" where
  "policy_decision_row_of d =
     \<lparr>pd_id = dec_policy_decision_id d, pd_work_unit_id = dec_work_unit_id d, pd_route_plan_id = dec_route_plan_id d,
      pd_decision = dec_decision d, pd_body = canonical (JObj (dump_policy_decision d)), pd_created_at = dec_decided_at d\<rparr>"

definition upsert_policy_decision :: "policy_decision \<Rightarrow> tables \<Rightarrow> tables result" where
  "upsert_policy_decision d t =
     fk_check (has_row pd_id (policy_decisions t) (dec_policy_decision_id d) \<or>
         has_row wu_id (work_units t) (dec_work_unit_id d) \<and> has_row rp_id (route_plans t) (dec_route_plan_id d))
       (t\<lparr>policy_decisions := upsert_row pd_id
          (\<lambda>old. old\<lparr>pd_decision := dec_decision d, pd_body := canonical (JObj (dump_policy_decision d))\<rparr>)
          (policy_decision_row_of d) (policy_decisions t)\<rparr>)"

definition store_policy_decision :: "policy_decision \<Rightarrow> unit op" where
  "store_policy_decision d =
     change_with_event (upsert_policy_decision d)
       (outbox_event ''tokenbank.policy'' ''policy_decision.created'' (''policy_decisions/'' @ dec_policy_decision_id d)
          (JObj (dump_policy_decision d)) None (Some (dec_work_unit_id d)) None None)"

section \<open>Submission\<close>

text \<open>What the host path takes from the models: the validators of the documents it reads back. A validator gives
  the model, or for a policy decision and a host summary its document, or the error it raises.\<close>

record host_environment =
  he_route :: route_environment
  he_worker_json :: "json \<Rightarrow> worker_manifest result"
  he_recipe :: "string \<Rightarrow> verifier_recipe result"
  he_schema :: schema_validator
  he_envelope :: validator
  he_summary :: "json \<Rightarrow> json result"
  he_work_unit :: "fields \<Rightarrow> work_unit result"
  he_route_plan :: "fields \<Rightarrow> route_plan result"
  he_policy_decision :: "fields \<Rightarrow> fields result"

definition on_platform :: "host_environment \<Rightarrow> platform \<Rightarrow> route_environment" where
  "on_platform he p = (he_route he)\<lparr>env_platform := p\<rparr>"

definition selected_candidate_of :: "route_plan \<Rightarrow> route_candidate result" where
  "selected_candidate_of plan =
     (case find (\<lambda>c. cand_route_candidate_id c = plan_selected_candidate_id plan) (plan_candidates plan) of
        None \<Rightarrow> Inl (ValueError ''RoutePlan selected candidate is missing'')
      | Some c \<Rightarrow> Inr c)"

definition candidate_worker_id :: "route_candidate \<Rightarrow> string result" where
  "candidate_worker_id c =
     (case dget (cand_worker_selector c) ''worker_id'' of
        Some (JStr w) \<Rightarrow> if w = [] then Inl (ValueError ''demo task route requires a concrete worker_id'') else Inr w
      | _ \<Rightarrow> Inl (ValueError ''demo task route requires a concrete worker_id''))"

definition stored_worker_manifests :: "host_environment \<Rightarrow> tables \<Rightarrow> worker_manifest list result" where
  "stored_worker_manifests he t =
     map_result (\<lambda>r. he_worker_json he (wm_body r)) (sort_key wm_worker_id (worker_manifests t))"

definition demo_worker_manifest :: "host_environment \<Rightarrow> loaded_config \<Rightarrow> tables \<Rightarrow> string \<Rightarrow> worker_manifest result" where
  "demo_worker_manifest he cfg t worker_id =
     bind_result (worker_manifests_from_config (env_worker (he_route he)) cfg) (\<lambda>configured.
     bind_result (stored_worker_manifests he t) (\<lambda>stored.
     case dget (by_key wkm_worker_id (configured @ stored)) worker_id of
       None \<Rightarrow> Inl (ValueError (''unknown worker_id for demo route: '' @ worker_id))
     | Some m \<Rightarrow> Inr m))"

fun json_fields :: "json \<Rightarrow> fields" where
  "json_fields (JObj kvs) = kvs"
| "json_fields v = []"

definition policy_route_payload :: "route_plan \<Rightarrow> route_candidate \<Rightarrow> fields" where
  "policy_route_payload plan c =
     dput ''backend_class'' (JStr (cand_backend_class c))
       (dput ''backend_id'' (JStr (cand_backend_id c)) (json_fields (dump_route_plan plan)))"

definition evaluate_demo_policy ::
  "host_environment \<Rightarrow> platform \<Rightarrow> loaded_config \<Rightarrow> tables \<Rightarrow> string \<Rightarrow> work_unit \<Rightarrow> route_plan \<Rightarrow> route_candidate
   \<Rightarrow> policy_decision result" where
  "evaluate_demo_policy he p cfg t now wu plan c =
     (let env = he_route he in
      bind_result (bind_result (load_backend_manifests (env_repr env) (env_backend env) cfg)
        (\<lambda>reg. registry_get reg (cand_backend_id c))) (\<lambda>manifest.
      bind_result (candidate_worker_id c) (\<lambda>worker_id.
      bind_result (demo_worker_manifest he cfg t worker_id) (\<lambda>worker.
      bind_result (compile_policy_bundle (cfg_documents cfg) (cfg_content_hashes cfg)) (\<lambda>bundle.
      evaluate_policy p (env_repr env) now (dump_work_unit wu) (policy_route_payload plan c)
        (json_fields (dump_worker_manifest worker)) (json_fields (dump_backend_manifest manifest)) bundle)))))"

record submitted_work_unit =
  sw_run_id :: string
  sw_work_unit_id :: string
  sw_route_plan_id :: string
  sw_policy_decision_id :: string
  sw_attempt_id :: string
  sw_assignment_id :: string
  sw_worker_id :: string
  sw_capacity_node_id :: string
  sw_backend_id :: string
  sw_backend_class :: string
  sw_verifier_recipe_id :: string

definition assignment_constraints :: "work_unit \<Rightarrow> route_plan \<Rightarrow> route_candidate \<Rightarrow> policy_decision \<Rightarrow> fields" where
  "assignment_constraints wu plan c d =
     [(''input'', JObj (wun_inline_input wu)), (''run_id'', JStr (wun_run_id wu)), (''task_type'', JStr (wun_task_type wu)),
      (''task_level'', JStr (wun_task_level wu)), (''backend_class'', JStr (cand_backend_class c)),
      (''route_plan_id'', JStr (plan_route_plan_id plan)), (''policy_decision_id'', JStr (dec_policy_decision_id d)),
      (''verifier_recipe_id'', JStr (plan_verifier_recipe_id plan)), (''policy'', JObj (effective_constraints_of d))]"

text \<open>The part of a submission that follows an approval, and the parts before it.\<close>

definition schedule_approved :: "work_unit \<Rightarrow> route_plan \<Rightarrow> route_candidate \<Rightarrow> policy_decision \<Rightarrow> submitted_work_unit op" where
  "schedule_approved wu plan c d =
     bnd (of_result (candidate_worker_id c)) (\<lambda>worker_id.
     bnd (create_attempt (wun_work_unit_id wu) (plan_route_plan_id plan) (dec_policy_decision_id d) Att_created ''attempt.created'')
       (\<lambda>attempt_id.
     bnd (create_assignment attempt_id worker_id (cand_capacity_node_id c) (cand_backend_id c) (Some (cand_backend_class c))
            (Some (assignment_constraints wu plan c d))) (\<lambda>assignment_id.
     ret \<lparr>sw_run_id = wun_run_id wu, sw_work_unit_id = wun_work_unit_id wu, sw_route_plan_id = plan_route_plan_id plan,
          sw_policy_decision_id = dec_policy_decision_id d, sw_attempt_id = attempt_id, sw_assignment_id = assignment_id,
          sw_worker_id = worker_id, sw_capacity_node_id = cand_capacity_node_id c, sw_backend_id = cand_backend_id c,
          sw_backend_class = cand_backend_class c, sw_verifier_recipe_id = plan_verifier_recipe_id plan\<rparr>)))"

definition decide_and_schedule ::
  "host_environment \<Rightarrow> loaded_config \<Rightarrow> work_unit \<Rightarrow> route_plan \<Rightarrow> submitted_work_unit op" where
  "decide_and_schedule he cfg wu plan =
     bnd (of_result (selected_candidate_of plan)) (\<lambda>c.
     bnd (gets plat) (\<lambda>p. bnd (select (\<lambda>t. t)) (\<lambda>t. bnd utc_text_now (\<lambda>now.
     bnd (of_result (evaluate_demo_policy he p cfg t now wu plan c)) (\<lambda>d.
     seq (store_policy_decision d)
     (if dec_decision d \<noteq> ''approved'' then raise (ValueError (wun_task_type wu @ '' WorkUnit denied by policy''))
      else schedule_approved wu plan c d))))))"

definition routebook_root_of :: "loaded_config \<Rightarrow> string option \<Rightarrow> string" where
  "routebook_root_of cfg routebook_dir =
     (let beside = path_join (path_parent (cfg_root cfg)) ''routebook'' in
      case routebook_dir of None \<Rightarrow> beside | Some d \<Rightarrow> if d = [] then beside else d)"

definition submit_demo_work_unit ::
  "host_environment \<Rightarrow> loaded_config \<Rightarrow> string \<Rightarrow> fields \<Rightarrow> string option \<Rightarrow> submitted_work_unit op" where
  "submit_demo_work_unit he cfg task_type inline_input routebook_dir =
     (case dget supported_demo_tasks task_type of
        None \<Rightarrow> raise (KeyError task_type)
      | Some task \<Rightarrow>
          bnd utc_text_now (\<lambda>now.
          bnd draw_uuid (\<lambda>u. let run_id = dt_run_prefix task @ ''_'' @ u in
          bnd draw_uuid (\<lambda>v. let work_unit_id = dt_work_unit_prefix task @ ''_'' @ v in
          bnd (of_result (demo_work_unit task run_id work_unit_id task_type inline_input now)) (\<lambda>wu.
          seq (persist_run_and_work_unit wu (dt_phase task))
          (bnd (gets (\<lambda>w. on_platform he (plat w))) (\<lambda>env.
          bnd (of_result (router_service_from_dirs env (cfg_root cfg) (routebook_root_of cfg routebook_dir) None)) (\<lambda>svc.
          bnd (plan_route env svc (dump_work_unit wu) False) (\<lambda>plan.
          seq (store_route_plan plan) (decide_and_schedule he cfg wu plan))))))))))"

definition submit_url_check_work_unit :: "host_environment \<Rightarrow> loaded_config \<Rightarrow> string \<Rightarrow> string option \<Rightarrow> submitted_work_unit op" where
  "submit_url_check_work_unit he cfg url dir = submit_demo_work_unit he cfg ''url_check'' [(''url'', JStr url)] dir"

definition submit_dedup_work_unit :: "host_environment \<Rightarrow> loaded_config \<Rightarrow> json list \<Rightarrow> string option \<Rightarrow> submitted_work_unit op" where
  "submit_dedup_work_unit he cfg items dir = submit_demo_work_unit he cfg ''dedup'' [(''items'', JList items)] dir"

definition given_str :: "string \<Rightarrow> string option \<Rightarrow> fields" where
  "given_str k v = (case v of None \<Rightarrow> [] | Some s \<Rightarrow> [(k, JStr s)])"

definition submit_webpage_extraction_work_unit ::
  "host_environment \<Rightarrow> loaded_config \<Rightarrow> string \<Rightarrow> string option \<Rightarrow> string option \<Rightarrow> string option \<Rightarrow> string option
   \<Rightarrow> submitted_work_unit op" where
  "submit_webpage_extraction_work_unit he cfg url html body title dir =
     submit_demo_work_unit he cfg ''webpage_extraction''
       ((''url'', JStr url) # given_str ''html'' html @ given_str ''text'' body @ given_str ''title'' title) dir"

definition or_labels :: "string list option \<Rightarrow> string list \<Rightarrow> json" where
  "or_labels given dflt = JList (map JStr (case given of None \<Rightarrow> dflt | Some ls \<Rightarrow> if ls = [] then dflt else ls))"

definition submit_topic_classification_work_unit ::
  "host_environment \<Rightarrow> loaded_config \<Rightarrow> string \<Rightarrow> string list option \<Rightarrow> string option \<Rightarrow> submitted_work_unit op" where
  "submit_topic_classification_work_unit he cfg body allowed_labels dir =
     submit_demo_work_unit he cfg ''topic_classification''
       [(''text'', JStr body),
        (''allowed_labels'', or_labels allowed_labels [''engineering'', ''finance'', ''policy'', ''science'', ''general''])] dir"

definition submit_claim_extraction_work_unit ::
  "host_environment \<Rightarrow> loaded_config \<Rightarrow> string \<Rightarrow> string \<Rightarrow> string option \<Rightarrow> string list option \<Rightarrow> string option
   \<Rightarrow> submitted_work_unit op" where
  "submit_claim_extraction_work_unit he cfg body source_id entity claim_types dir =
     submit_demo_work_unit he cfg ''claim_extraction''
       ([(''text'', JStr body), (''source_id'', JStr source_id),
         (''sources'', JList [JObj [(''source_id'', JStr source_id), (''text'', JStr body)]]),
         (''allowed_claim_types'', or_labels claim_types [''factual'', ''metric'', ''policy'', ''product'', ''other''])] @
        given_str ''entity'' entity) dir"

end
