(* ===== verification/Host_Proofs.thy ===== *)
theory Host_Proofs
  imports Host Scheduler_Liveness
begin

text \<open>
  What the steps of a submission (\<open>Host\<close>) do to the database: outcomes before the approval, the rows of an approved
  schedule, and when a submission returns.
\<close>

section \<open>Outcomes of an operation\<close>

text \<open>\<open>ends I m Q\<close>: from a state with \<open>I\<close>, every outcome of the operation, with the state it leaves, satisfies \<open>Q\<close>.\<close>

definition ends :: "('s \<Rightarrow> bool) \<Rightarrow> ('s, 'a) prog \<Rightarrow> ('a result \<Rightarrow> 's \<Rightarrow> bool) \<Rightarrow> bool" where
  "ends I m Q \<longleftrightarrow> (\<forall>s r t. I s \<longrightarrow> m s = (r, t) \<longrightarrow> Q r t)"

lemma ends_bnd:
  assumes "keeps I m" and "\<And>e s. I s \<Longrightarrow> Q (Inl e) s" and "\<And>x. ends I (f x) Q"
  shows "ends I (bnd m f) Q"
  unfolding ends_def
proof (intro allI impI)
  fix s r t
  assume s: "I s" and run: "bnd m f s = (r, t)"
  obtain q u where m: "m s = (q, u)" by fastforce
  have "I u" using keepsD [OF assms(1) s m] .
  then show "Q r t" using run m assms(2,3) by (cases q) (auto simp: run_bnd ends_def)
qed

lemma ends_seq:
  "keeps I m \<Longrightarrow> (\<And>e s. I s \<Longrightarrow> Q (Inl e) s) \<Longrightarrow> ends I n Q \<Longrightarrow> ends I (seq m n) Q"
  unfolding seq_def by (rule ends_bnd)

lemma ends_raise: "(\<And>s. I s \<Longrightarrow> Q (Inl e) s) \<Longrightarrow> ends I (raise e) Q"
  by (auto simp: ends_def raise_def)

section \<open>Before the approval\<close>

definition waiting :: "tables \<Rightarrow> tables \<Rightarrow> bool" where
  "waiting c t \<longleftrightarrow> sched_inv {} t \<and> execution_attempts t = execution_attempts c \<and> assignments t = assignments c \<and>
     worker_manifests t = worker_manifests c"

lemma keeps_waiting_event:
  "keeps (on_current (waiting c)) (bnd (outbox_event src ty subj bod run wu att asg) (\<lambda>e. seq (enqueue_event e) (ret ())))"
proof -
  let ?same = "\<lambda>t. execution_attempts t = execution_attempts c \<and> assignments t = assignments c \<and>
     worker_manifests t = worker_manifests c"
  have "keeps (on_current ?same) (execute (insert_event r))" for r
    by (rule keeps_execute_current) (auto simp: insert_event_def split: if_splits)
  then have "keeps (on_current ?same) (enqueue_event e)" for e unfolding enqueue_event_def by (intro keeps_intro)
  then have "keeps (on_current (waiting c)) (enqueue_event e)" for e
    unfolding waiting_def by (rule keeps_conj [OF keeps_sched_enqueue])
  then show ?thesis by (intro keeps_intro)
qed

lemma keeps_waiting_host_event [keeps_intro]:
  "keeps (on_current (waiting c)) (host_event src ty subj body run wu)" "keeps (durable_is d) (host_event src ty subj body run wu)"
  unfolding host_event_def by (intro keeps_waiting_event) (intro keeps_intro)

lemmas waiting_defs = waiting_def sched_inv_def sched_ok_def refs_ok_def attempts_numbered_def leases_ok_def outbox_ok_def

lemma waiting_insert_run: "insert_run r t = Inr t' \<Longrightarrow> waiting c t \<Longrightarrow> waiting c t'"
  by (auto simp: insert_run_def waiting_defs)

lemma waiting_insert_work_unit: "insert_work_unit r t = Inr t' \<Longrightarrow> waiting c t \<Longrightarrow> waiting c t'"
  by (auto simp: insert_work_unit_def insert_row_Inr waiting_def sched_inv_def sched_ok_def refs_ok_def has_row_def)

lemma has_row_upsert: "has_row key rows k \<Longrightarrow> (\<And>x. key (merge x) = key x) \<Longrightarrow> has_row key (upsert_row key merge row rows) k"
  by (simp add: has_row_find find_row_upsert)

lemma waiting_upsert_route_plan: "upsert_route_plan p t = Inr t' \<Longrightarrow> waiting c t \<Longrightarrow> waiting c t'"
  by (auto simp: upsert_route_plan_def waiting_defs has_row_upsert)

lemma waiting_upsert_policy_decision: "upsert_policy_decision d t = Inr t' \<Longrightarrow> waiting c t \<Longrightarrow> waiting c t'"
  by (auto simp: upsert_policy_decision_def waiting_defs has_row_upsert)

lemma keeps_waiting_change:
  assumes "\<And>t t'. f t = Inr t' \<Longrightarrow> waiting c t \<Longrightarrow> waiting c t'"
  shows "keeps (settled (waiting c)) (change_with_event f (outbox_event src ty subj bod run wu att asg))"
proof -
  have "keeps (on_current (waiting c)) (execute f)" using assms by (intro keeps_execute_current) blast
  then show ?thesis
    unfolding change_with_event_def
    by (intro keeps_settled_transaction) (intro keeps_seq keeps_waiting_event, assumption, intro keeps_intro)
qed

lemma keeps_waiting_steps:
  "keeps (settled (waiting c)) (persist_run_and_work_unit wu phase)" "keeps (settled (waiting c)) (store_route_plan p)"
  "keeps (settled (waiting c)) (store_policy_decision d)"
proof -
  have runs: "keeps (on_current (waiting c)) (execute (insert_run r))" "keeps (on_current (waiting c)) (execute (insert_work_unit u))"
    for r u using waiting_insert_run waiting_insert_work_unit by (intro keeps_execute_current; blast)+
  show "keeps (settled (waiting c)) (persist_run_and_work_unit wu phase)"
    unfolding persist_run_and_work_unit_def by (intro keeps_settled_transaction keeps_intro runs)
  show "keeps (settled (waiting c)) (store_route_plan p)"
    unfolding store_route_plan_def by (rule keeps_waiting_change) (rule waiting_upsert_route_plan)
  show "keeps (settled (waiting c)) (store_policy_decision d)"
    unfolding store_policy_decision_def by (rule keeps_waiting_change) (rule waiting_upsert_policy_decision)
qed

lemma keeps_plan_route: "keeps (settled J) (plan_route env svc request False)"
  unfolding plan_route_def by (auto intro!: keeps_intro)

section \<open>The approval\<close>

definition decided :: "string \<Rightarrow> string \<Rightarrow> tables \<Rightarrow> bool" where
  "decided verdict i t \<longleftrightarrow> has_row pd_id (policy_decisions t) i \<and>
     (\<forall>d \<in> set (policy_decisions t). pd_id d = i \<longrightarrow> pd_decision d = verdict)"

definition scheduled_under_approval :: "tables \<Rightarrow> tables \<Rightarrow> bool" where
  "scheduled_under_approval c t \<longleftrightarrow> (\<exists>as bs.
     execution_attempts t = execution_attempts c @ as \<and> assignments t = assignments c @ bs \<and>
     (\<forall>a \<in> set as. decided ''approved'' (att_policy_decision_id a) t) \<and>
     (\<forall>b \<in> set bs. asg_status b = Asg_created \<and> asg_attempt_id b \<in> att_id ` set as))"

lemma decided_upsert:
  "upsert_policy_decision d t = Inr t' \<Longrightarrow> decided (dec_decision d) (dec_policy_decision_id d) t'"
proof -
  assume t': "upsert_policy_decision d t = Inr t'"
  let ?b = "canonical (JObj (dump_policy_decision d))"
  have "decided (dec_decision d) (dec_policy_decision_id d) (t\<lparr>policy_decisions := upsert_row pd_id
      (\<lambda>old. old\<lparr>pd_decision := dec_decision d, pd_body := b\<rparr>)
      \<lparr>pd_id = dec_policy_decision_id d, pd_work_unit_id = wu, pd_route_plan_id = rp, pd_decision = dec_decision d,
       pd_body = b, pd_created_at = now\<rparr> (policy_decisions t)\<rparr>)" for b wu rp now
  proof -
    let ?old = "policy_decisions t"
    let ?new = "\<lparr>pd_id = dec_policy_decision_id d, pd_work_unit_id = wu, pd_route_plan_id = rp, pd_decision = dec_decision d,
       pd_body = b, pd_created_at = now\<rparr>"
    have "has_row pd_id (upsert_row pd_id (\<lambda>old. old\<lparr>pd_decision := dec_decision d, pd_body := b\<rparr>) ?new ?old)
        (dec_policy_decision_id d)" by (simp add: has_row_find find_row_upsert)
    moreover have "pd_decision x = dec_decision d" if "x \<in> set (upsert_row pd_id
        (\<lambda>old. old\<lparr>pd_decision := dec_decision d, pd_body := b\<rparr>) ?new ?old)" "pd_id x = dec_policy_decision_id d" for x
      using that by (auto simp: upsert_row_def update_row_def split: if_splits) (metis imageI)
    ultimately show ?thesis by (simp add: decided_def)
  qed
  from this [of ?b] show ?thesis
    using t' by (simp only: upsert_policy_decision_def policy_decision_row_of_def fk_check_Inr)
qed

lemma store_policy_decision_ok:
  assumes "idle w" and "store_policy_decision d w = (Inr x, w')"
  shows "\<exists>t r. upsert_policy_decision d (committed w) = Inr t \<and> ev_type r = ''policy_decision.created'' \<and>
    committed w' = t\<lparr>event_outbox := event_outbox t @ [r]\<rparr> \<and> idle w' \<and> plat w' = plat w"
  using change_with_event_ok [OF assms(1) assms(2) [unfolded store_policy_decision_def]] by (auto simp: event_of_def)

section \<open>The schedule\<close>

lemma create_attempt_frame:
  assumes quiet: "quiet_ok w" and run: "create_attempt wu rp pd st ty w = (Inr i, w')"
  shows "work_units (committed w') = work_units (committed w) \<and> route_plans (committed w') = route_plans (committed w) \<and>
      policy_decisions (committed w') = policy_decisions (committed w) \<and> runs (committed w') = runs (committed w)"
proof -
  have cur: "current w = committed w" "idle w" using quiet by (simp_all add: quiet_ok_iff idle_def)
  show ?thesis
    using run cur
    apply (clarsimp simp: create_attempt_def Let_def bnd_ok_iff seq_ok_iff transaction_ok_iff run_execute
       insert_attempt_def insert_row_Inr split: sum.splits)
    apply (drule emit_ok)
    apply (auto simp: commit_def)
    done
qed

lemma execute_ok_iff:
  "execute f w = (Inr x, w') \<longleftrightarrow> (\<exists>t. f (current w) = Inr t \<and> w' = w\<lparr>in_tx := True, current := t\<rparr>)"
  by (auto simp: run_execute split: sum.splits)

lemma create_assignment_ok:
  assumes quiet: "quiet_ok w" and run: "create_assignment i v n b bc ec w = (Inr j, w')"
  shows "\<exists>a r now. attempt_at (committed w) i = Some a \<and> assignments (committed w') = assignments (committed w) @ [r] \<and>
      asg_id r = j \<and> asg_attempt_id r = i \<and> asg_work_unit_id r = att_work_unit_id a \<and> asg_worker_id r = v \<and>
      asg_status r = Asg_created \<and> asg_capacity_node_id r = Some n \<and> asg_backend_id r = Some b \<and>
      asg_lease_token_hash r = None \<and> asg_lease_version r = 0 \<and>
      asg_effective_constraints r = canonical (JObj (case ec of None \<Rightarrow> [] | Some c \<Rightarrow> c)) \<and>
      execution_attempts (committed w')
        = update_row att_id i (\<lambda>r. r\<lparr>att_status := Att_assigned\<rparr>) (execution_attempts (committed w)) \<and>
      work_units (committed w') = update_row wu_id (att_work_unit_id a)
        (\<lambda>u. u\<lparr>wu_status := WU_assigned, wu_updated_at := now\<rparr>) (work_units (committed w)) \<and>
      route_plans (committed w') = route_plans (committed w) \<and>
      policy_decisions (committed w') = policy_decisions (committed w) \<and> runs (committed w') = runs (committed w) \<and>
      events_added [''work_unit.assigned'', ''assignment.created''] (committed w) (committed w')"
proof -
  have cur: "current w = committed w" "idle w" using quiet by (simp_all add: quiet_ok_iff idle_def)
  obtain a where a: "attempt_at (committed w) i = Some a"
    using run cur by (auto simp: create_assignment_def bnd_ok_iff attempt_by_id_ok_iff)
  show ?thesis
    using run cur a
    apply (clarsimp simp: create_assignment_def Let_def bnd_ok_iff seq_ok_iff attempt_by_id_ok_iff transaction_ok_iff
       update_statement_run execute_ok_iff insert_assignment_def insert_row_Inr simp del: canonical.simps)
    apply (drule update_work_unit_status_ok, simp)
    apply (drule emit_ok)
    apply (auto simp: commit_def events_added_def simp del: canonical.simps)
    done
qed

lemma candidate_worker_ok: "candidate_worker_id c = Inr v \<Longrightarrow> dget (cand_worker_selector c) ''worker_id'' = Some (JStr v)"
  by (auto simp: candidate_worker_id_def split: option.splits json.splits if_splits)

lemma schedule_approved_ok:
  assumes quiet: "quiet_ok w" and run: "schedule_approved wu plan c d w = (Inr s, w')"
  obtains v i j w1 where "candidate_worker_id c = Inr v"
    "create_attempt (wun_work_unit_id wu) (plan_route_plan_id plan) (dec_policy_decision_id d) Att_created ''attempt.created'' w
       = (Inr i, w1)"
    "create_assignment i v (cand_capacity_node_id c) (cand_backend_id c) (Some (cand_backend_class c))
       (Some (assignment_constraints wu plan c d)) w1 = (Inr j, w')"
    "quiet_ok w1" "quiet_ok w'"
    "s = \<lparr>sw_run_id = wun_run_id wu, sw_work_unit_id = wun_work_unit_id wu, sw_route_plan_id = plan_route_plan_id plan,
          sw_policy_decision_id = dec_policy_decision_id d, sw_attempt_id = i, sw_assignment_id = j,
          sw_worker_id = v, sw_capacity_node_id = cand_capacity_node_id c, sw_backend_id = cand_backend_id c,
          sw_backend_class = cand_backend_class c, sw_verifier_recipe_id = plan_verifier_recipe_id plan\<rparr>"
proof -
  obtain v i j w1 where v: "candidate_worker_id c = Inr v"
    and att: "create_attempt (wun_work_unit_id wu) (plan_route_plan_id plan) (dec_policy_decision_id d) Att_created ''attempt.created'' w
       = (Inr i, w1)"
    and asg: "create_assignment i v (cand_capacity_node_id c) (cand_backend_id c) (Some (cand_backend_class c))
       (Some (assignment_constraints wu plan c d)) w1 = (Inr j, w')"
    and s: "s = \<lparr>sw_run_id = wun_run_id wu, sw_work_unit_id = wun_work_unit_id wu, sw_route_plan_id = plan_route_plan_id plan,
          sw_policy_decision_id = dec_policy_decision_id d, sw_attempt_id = i, sw_assignment_id = j,
          sw_worker_id = v, sw_capacity_node_id = cand_capacity_node_id c, sw_backend_id = cand_backend_id c,
          sw_backend_class = cand_backend_class c, sw_verifier_recipe_id = plan_verifier_recipe_id plan\<rparr>"
    using run by (auto simp: schedule_approved_def bnd_ok_iff)
  have quiet1: "quiet_ok w1" by (rule keepsD [OF keeps_quiet_create_attempt quiet att])
  show ?thesis by (rule that [OF v att asg quiet1 keepsD [OF keeps_quiet_create_assignment quiet1 asg] s])
qed

text \<open>The rows of a scheduled work unit.\<close>

definition scheduled_for :: "work_unit \<Rightarrow> route_plan \<Rightarrow> route_candidate \<Rightarrow> policy_decision \<Rightarrow> submitted_work_unit \<Rightarrow> tables \<Rightarrow> tables \<Rightarrow> bool" where
  "scheduled_for wu plan c d s t t' \<longleftrightarrow> (\<exists>a b now.
     execution_attempts t' = execution_attempts t @ [a] \<and> assignments t' = assignments t @ [b] \<and>
     att_id a = sw_attempt_id s \<and> att_status a = Att_assigned \<and> att_work_unit_id a = wun_work_unit_id wu \<and>
     att_route_plan_id a = plan_route_plan_id plan \<and> att_policy_decision_id a = dec_policy_decision_id d \<and>
     asg_id b = sw_assignment_id s \<and> asg_attempt_id b = sw_attempt_id s \<and> asg_work_unit_id b = wun_work_unit_id wu \<and>
     asg_status b = Asg_created \<and> asg_lease_token_hash b = None \<and> asg_lease_version b = 0 \<and>
     dget (cand_worker_selector c) ''worker_id'' = Some (JStr (asg_worker_id b)) \<and> sw_worker_id s = asg_worker_id b \<and>
     asg_capacity_node_id b = Some (cand_capacity_node_id c) \<and> asg_backend_id b = Some (cand_backend_id c) \<and>
     asg_effective_constraints b = canonical (JObj (assignment_constraints wu plan c d)) \<and>
     work_units t' = update_row wu_id (wun_work_unit_id wu) (\<lambda>u. u\<lparr>wu_status := WU_assigned, wu_updated_at := now\<rparr>) (work_units t) \<and>
     route_plans t' = route_plans t \<and> policy_decisions t' = policy_decisions t \<and> runs t' = runs t)"

lemma events_added_trans: "events_added xs t u \<Longrightarrow> events_added ys u v \<Longrightarrow> events_added (xs @ ys) t v"
  by (force simp: events_added_def)

lemma update_row_snoc [simp]:
  "attempt_at t i = None \<Longrightarrow> update_row att_id i f (execution_attempts t @ [a])
     = execution_attempts t @ [if att_id a = i then f a else a]"
  by (auto simp: update_row_def find_row_None_iff intro!: map_idI)

lemma schedule_approved_schedules:
  assumes "quiet_ok w" and "schedule_approved wu plan c d w = (Inr s, w')"
  shows "quiet_ok w' \<and> scheduled_for wu plan c d s (committed w) (committed w') \<and>
    events_added [''attempt.created'', ''work_unit.assigned'', ''assignment.created''] (committed w) (committed w')"
proof -
  obtain v i j w1 where v: "candidate_worker_id c = Inr v"
    and att: "create_attempt (wun_work_unit_id wu) (plan_route_plan_id plan) (dec_policy_decision_id d) Att_created
        ''attempt.created'' w = (Inr i, w1)"
    and asg: "create_assignment i v (cand_capacity_node_id c) (cand_backend_id c) (Some (cand_backend_class c))
        (Some (assignment_constraints wu plan c d)) w1 = (Inr j, w')"
    and quiet: "quiet_ok w1" "quiet_ok w'" and s: "sw_attempt_id s = i" "sw_assignment_id s = j" "sw_worker_id s = v"
    using schedule_approved_ok [OF assms] by (metis submitted_work_unit.select_convs)
  obtain a where a: "execution_attempts (committed w1) = execution_attempts (committed w) @ [a]" "att_id a = i"
      "att_work_unit_id a = wun_work_unit_id wu" "att_route_plan_id a = plan_route_plan_id plan"
      "att_policy_decision_id a = dec_policy_decision_id d" "attempt_at (committed w) i = None"
      "assignments (committed w1) = assignments (committed w)"
      "events_added [''attempt.created''] (committed w) (committed w1)"
    using create_attempt_ok [OF assms(1) att] by blast
  then have at: "attempt_at (committed w1) i = Some a" by (simp add: find_row_append)
  note frame = create_attempt_frame [OF assms(1) att]
  obtain r now where r: "assignments (committed w') = assignments (committed w1) @ [r]" "asg_id r = j" "asg_attempt_id r = i"
      "asg_work_unit_id r = wun_work_unit_id wu" "asg_worker_id r = v" "asg_status r = Asg_created"
      "asg_capacity_node_id r = Some (cand_capacity_node_id c)" "asg_backend_id r = Some (cand_backend_id c)"
      "asg_lease_token_hash r = None" "asg_lease_version r = 0"
      "asg_effective_constraints r = canonical (JObj (assignment_constraints wu plan c d))"
      "execution_attempts (committed w')
        = update_row att_id i (\<lambda>r. r\<lparr>att_status := Att_assigned\<rparr>) (execution_attempts (committed w1))"
      "work_units (committed w') = update_row wu_id (wun_work_unit_id wu)
        (\<lambda>u. u\<lparr>wu_status := WU_assigned, wu_updated_at := now\<rparr>) (work_units (committed w1))"
      "route_plans (committed w') = route_plans (committed w1)" "policy_decisions (committed w') = policy_decisions (committed w1)"
      "runs (committed w') = runs (committed w1)"
      "events_added [''work_unit.assigned'', ''assignment.created''] (committed w1) (committed w')"
    using create_assignment_ok [OF quiet(1) asg] at a(3) by auto
  have "scheduled_for wu plan c d s (committed w) (committed w')"
    unfolding scheduled_for_def
    using a r s frame candidate_worker_ok [OF v]
    by (intro exI [of _ "a\<lparr>att_status := Att_assigned\<rparr>"] exI [of _ r] exI [of _ now]) (simp del: canonical.simps)
  then show ?thesis using quiet(2) events_added_trans [OF a(8) r(17)] by simp
qed

section \<open>Default deny\<close>

lemma atomicD: "atomic m \<Longrightarrow> idle w \<Longrightarrow> m w = (Inl e, w') \<Longrightarrow> committed w' = committed w"
  unfolding atomic_def by blast

lemma schedule_approved_outcome:
  assumes w: "settled (waiting c0) w" and app: "decided ''approved'' (dec_policy_decision_id d) (committed w)"
    and run: "schedule_approved wu plan c d w = (r, w')"
  shows "quiet_ok w' \<and> scheduled_under_approval c0 (committed w') \<and> (\<forall>e. r = Inl e \<longrightarrow> assignments (committed w') = assignments c0)"
proof -
  have quiet: "quiet_ok w" and same: "execution_attempts (committed w) = execution_attempts c0" "assignments (committed w) = assignments c0"
    using w by (simp_all add: settled_def waiting_def quiet_inv_def)
  show ?thesis
  proof (cases r)
    case (Inr s)
    note sched = schedule_approved_schedules [OF quiet run [unfolded Inr]]
    obtain a b where ab: "execution_attempts (committed w') = execution_attempts (committed w) @ [a]"
        "assignments (committed w') = assignments (committed w) @ [b]" "asg_attempt_id b = att_id a"
        "att_policy_decision_id a = dec_policy_decision_id d" "asg_status b = Asg_created"
        "policy_decisions (committed w') = policy_decisions (committed w)"
      using sched unfolding scheduled_for_def by (elim conjE exE) (rule that; simp)
    have "decided ''approved'' (att_policy_decision_id a) (committed w')" using app by (simp add: ab(4,6) decided_def)
    then show ?thesis
      using conjunct1 [OF sched] Inr by (simp add: scheduled_under_approval_def ab(1-3,5) same)
  next
    case (Inl e)
    have none: ?thesis if "committed w' = committed w" "quiet_ok w'"
      using that same by (simp add: scheduled_under_approval_def)
    show ?thesis
    proof (cases "candidate_worker_id c")
      case (Inl x)
      then show ?thesis using run quiet none by (simp add: schedule_approved_def run_bnd)
    next
      case v: (Inr v)
      obtain q u where att: "create_attempt (wun_work_unit_id wu) (plan_route_plan_id plan) (dec_policy_decision_id d) Att_created
          ''attempt.created'' w = (q, u)" by fastforce
      have qu: "quiet_ok u" by (rule keepsD [OF keeps_quiet_create_attempt quiet att])
      show ?thesis
      proof (cases q)
        case (Inl x)
        then have "w' = u" using run v att by (simp add: schedule_approved_def run_bnd)
        moreover have "committed u = committed w"
          using atomicD [OF atomic_create_attempt _ att [unfolded Inl]] quiet by (simp add: quiet_ok_iff)
        ultimately show ?thesis using none qu by simp
      next
        case (Inr i)
        obtain p z where asg: "create_assignment i v (cand_capacity_node_id c) (cand_backend_id c) (Some (cand_backend_class c))
            (Some (assignment_constraints wu plan c d)) u = (p, z)" by fastforce
        have z: "quiet_ok z" by (rule keepsD [OF keeps_quiet_create_assignment qu asg])
        obtain y where y: "p = Inl y" "w' = z"
          using run v att asg Inr \<open>r = Inl e\<close> by (cases p) (auto simp: schedule_approved_def run_bnd)
        have cz: "committed w' = committed u"
          using atomicD [OF atomic_create_assignment _ asg [unfolded y(1)]] qu y(2) by (simp add: quiet_ok_iff)
        obtain a where a: "execution_attempts (committed u) = execution_attempts (committed w) @ [a]"
            "att_policy_decision_id a = dec_policy_decision_id d" "assignments (committed u) = assignments (committed w)"
          using create_attempt_ok [OF quiet att [unfolded Inr]] by blast
        have pd: "policy_decisions (committed u) = policy_decisions (committed w)"
          using create_attempt_frame [OF quiet att [unfolded Inr]] by simp
        have t: "execution_attempts (committed w') = execution_attempts c0 @ [a]" "assignments (committed w') = assignments c0"
          "decided ''approved'' (att_policy_decision_id a) (committed w')"
          using app by (simp_all add: cz a same decided_def pd)
        have "quiet_ok w'" using z y(2) by simp
        then show ?thesis using t by (simp add: scheduled_under_approval_def)
      qed
    qed
  qed
qed

definition default_denied :: "tables \<Rightarrow> 'a result \<Rightarrow> world \<Rightarrow> bool" where
  "default_denied c r w \<longleftrightarrow> quiet_ok w \<and> scheduled_under_approval c (committed w) \<and>
     (\<forall>e. r = Inl e \<longrightarrow> assignments (committed w) = assignments c)"

lemma waiting_denied: "settled (waiting c) w \<Longrightarrow> default_denied c (Inl e) w"
  by (auto simp: default_denied_def settled_def waiting_def quiet_inv_def scheduled_under_approval_def)

lemma store_and_schedule_outcome:
  "ends (settled (waiting c0)) (seq (store_policy_decision d)
     (if dec_decision d \<noteq> ''approved'' then raise e else schedule_approved wu plan c d)) (default_denied c0)"
  unfolding ends_def
proof (intro allI impI)
  fix w r w'
  assume w: "settled (waiting c0) w" and run: "seq (store_policy_decision d)
     (if dec_decision d \<noteq> ''approved'' then raise e else schedule_approved wu plan c d) w = (r, w')"
  obtain q u where st: "store_policy_decision d w = (q, u)" by fastforce
  have u: "settled (waiting c0) u" by (rule keepsD [OF keeps_waiting_steps(3) w st])
  show "default_denied c0 r w'"
  proof (cases q)
    case (Inl x)
    then have "r = Inl x" "w' = u" using run st by (simp_all add: run_seq)
    then show ?thesis using waiting_denied [OF u] by simp
  next
    case (Inr y)
    have idle: "idle w" using w by (simp add: settled_def)
    obtain t ev where t: "upsert_policy_decision d (committed w) = Inr t" "committed u = t\<lparr>event_outbox := event_outbox t @ [ev]\<rparr>"
      using store_policy_decision_ok [OF idle st [unfolded Inr]] by blast
    have app: "decided (dec_decision d) (dec_policy_decision_id d) (committed u)"
      using decided_upsert [OF t(1)] t(2) by (simp add: decided_def)
    show ?thesis
    proof (cases "dec_decision d = ''approved''")
      case True
      then have "schedule_approved wu plan c d u = (r, w')" using run st Inr by (simp add: run_seq)
      then show ?thesis
        using schedule_approved_outcome [OF u app [unfolded True]] by (simp add: default_denied_def)
    next
      case False
      then have "r = Inl e" "w' = u" using run st Inr by (simp_all add: run_seq)
      then show ?thesis using waiting_denied [OF u] by simp
    qed
  qed
qed

lemma keeps_environment: "keeps (settled J) (gets f)" "keeps (settled J) (select q)" "keeps (settled J) (of_result r)"
  by (intro keeps_intro)+

lemma ends_denied:
  "keeps (settled (waiting c)) m \<Longrightarrow> (\<And>x. ends (settled (waiting c)) (f x) (default_denied c)) \<Longrightarrow>
     ends (settled (waiting c)) (bnd m f) (default_denied c)"
  "keeps (settled (waiting c)) m \<Longrightarrow> ends (settled (waiting c)) n (default_denied c) \<Longrightarrow>
     ends (settled (waiting c)) (seq m n) (default_denied c)"
  "ends (settled (waiting c)) (raise e) (default_denied c)"
  by (rule ends_bnd ends_seq ends_raise; simp add: waiting_denied)+

lemma submission_outcome:
  "ends (settled (waiting c)) (submit_demo_work_unit he cfg task_type inline_input dir) (default_denied c)"
proof -
  have "ends (settled (waiting c)) (decide_and_schedule he cfg wu plan) (default_denied c)" for wu plan
    unfolding decide_and_schedule_def
    by (intro ends_denied store_and_schedule_outcome keeps_environment keeps_settled_draws)
  then show ?thesis
    unfolding submit_demo_work_unit_def Let_def
    by (cases "dget supported_demo_tasks task_type")
      (simp_all only: option.case, (intro ends_denied keeps_environment keeps_settled_draws keeps_waiting_steps keeps_plan_route)+)
qed

section \<open>What a submission leaves\<close>

text \<open>Time moves on: the platform stays, identifiers are only drawn.\<close>

definition since :: "platform \<Rightarrow> nat \<Rightarrow> world \<Rightarrow> bool" where
  "since p n w \<longleftrightarrow> plat w = p \<and> n \<le> uuid_draws w"

lemma keeps_since_transaction: "keeps (since p n) m \<Longrightarrow> keeps (since p n) (transaction m)"
  unfolding keeps_def
proof (intro allI impI)
  fix w
  assume m: "\<forall>s. since p n s \<longrightarrow> since p n (snd (m s))" and w: "since p n w"
  obtain r t where t: "m (w\<lparr>in_tx := True\<rparr>) = (r, t)" by fastforce
  have "since p n t" using m [rule_format, of "w\<lparr>in_tx := True\<rparr>"] w t by (simp add: since_def)
  then show "since p n (snd (transaction m w))"
    using w t by (cases r) (simp_all add: transaction_def begin_immediate_def run_bnd since_def commit_def rollback_def)
qed

lemma keeps_since [keeps_intro]:
  "keeps (since p n) draw_uuid" "keeps (since p n) utc_text_now" "keeps (since p n) (execute f)"
  by (auto simp: keeps_def since_def run_execute split: sum.splits)

lemma keeps_since_event:
  "keeps (since p n) (bnd (outbox_event src ty subj bod run wu att asg) (\<lambda>e. seq (enqueue_event e) (ret ())))"
  unfolding outbox_event_def enqueue_event_def by (intro keeps_intro)

lemma keeps_since_steps:
  "keeps (since p n) (persist_run_and_work_unit wu phase)" "keeps (since p n) (store_route_plan plan)"
  "keeps (since p n) (plan_route env svc request False)"
proof -
  show "keeps (since p n) (persist_run_and_work_unit wu phase)"
    unfolding persist_run_and_work_unit_def host_event_def
    by (intro keeps_since_transaction keeps_seq keeps_since_event keeps_since)
  show "keeps (since p n) (store_route_plan plan)"
    unfolding store_route_plan_def change_with_event_def
    by (intro keeps_since_transaction keeps_seq keeps_since_event keeps_since)
  show "keeps (since p n) (plan_route env svc request False)"
    unfolding plan_route_def by (intro keeps_bnd keeps_seq keeps_since keeps_of_result) (simp_all add: keeps_ret)
qed

lemma insert_work_unit_ok:
  "insert_work_unit r t = Inr t' \<Longrightarrow> t' = t\<lparr>work_units := work_units t @ [r]\<rparr> \<and> \<not> has_row wu_id (work_units t) (wu_id r)"
  by (auto simp: insert_work_unit_def insert_row_Inr has_row_def)

lemma insert_run_ok:
  "insert_run r t = Inr t' \<Longrightarrow> t' = t\<lparr>runs := runs t @ [r]\<rparr> \<and> \<not> has_row rn_id (runs t) (rn_id r)"
  by (auto simp: insert_run_def insert_row_Inr has_row_def)

lemma host_event_ok:
  "host_event src ty subj bod run wu w = (Inr x, w') \<Longrightarrow>
     \<exists>r. ev_type r = ty \<and> current w' = (current w)\<lparr>event_outbox := event_outbox (current w) @ [r]\<rparr>"
  unfolding host_event_def by (drule log_event_ok) blast

lemma persist_run_and_work_unit_ok:
  assumes "idle w" and "persist_run_and_work_unit wu phase w = (Inr x, w')"
  shows "\<exists>run. rn_id run = wun_run_id wu \<and> runs (committed w') = runs (committed w) @ [run] \<and>
    work_units (committed w') = work_units (committed w) @ [work_unit_row_of wu] \<and>
    \<not> has_row wu_id (work_units (committed w)) (wun_work_unit_id wu) \<and>
    events_added [''run.created'', ''work_unit.created''] (committed w) (committed w')"
proof -
  have cur: "current w = committed w" using assms(1) by (simp add: idle_def)
  show ?thesis
    using assms cur
    apply (clarsimp simp: persist_run_and_work_unit_def transaction_ok_iff seq_ok_iff execute_ok_iff simp del: canonical.simps)
    apply (drule host_event_ok)+
    apply (drule insert_run_ok, drule insert_work_unit_ok)
    apply (auto simp: commit_def events_added_def work_unit_row_of_def simp del: canonical.simps)
    done
qed

lemma store_route_plan_ok:
  assumes "idle w" and "store_route_plan plan w = (Inr x, w')"
  shows "has_row rp_id (route_plans (committed w')) (plan_route_plan_id plan) \<and> runs (committed w') = runs (committed w) \<and>
    work_units (committed w') = work_units (committed w) \<and>
    events_added [''route_plan.created''] (committed w) (committed w')"
proof -
  obtain t r where t: "upsert_route_plan plan (committed w) = Inr t" "ev_type r = ''route_plan.created''"
      "committed w' = t\<lparr>event_outbox := event_outbox t @ [r]\<rparr>"
    using change_with_event_ok [OF assms(1) assms(2) [unfolded store_route_plan_def]] by (auto simp: event_of_def)
  have "rp_id (route_plan_row_of plan) = plan_route_plan_id plan" by (simp add: route_plan_row_of_def)
  then show ?thesis
    using t by (auto simp: upsert_route_plan_def has_row_find find_row_upsert events_added_def)
qed

text \<open>The plan and the decision behind a scheduled work unit.\<close>

definition routed_and_approved ::
  "host_environment \<Rightarrow> platform \<Rightarrow> loaded_config \<Rightarrow> string \<Rightarrow> work_unit \<Rightarrow> route_plan \<Rightarrow> route_candidate \<Rightarrow> policy_decision \<Rightarrow> bool" where
  "routed_and_approved he p cfg rb_dir wu plan c d \<longleftrightarrow>
     (\<exists>svc v v'. router_service_from_dirs (on_platform he p) (cfg_root cfg) rb_dir None = Inr svc \<and>
        plan_route (on_platform he p) svc (dump_work_unit wu) False v = (Inr plan, v')) \<and>
     selected_candidate_of plan = Inr c \<and>
     (\<exists>t now. evaluate_demo_policy he p cfg t now wu plan c = Inr d) \<and> dec_decision d = ''approved''"

lemma keeps_committed: "keeps (settled (\<lambda>t. t = committed w)) m \<Longrightarrow> idle w \<Longrightarrow> m w = (r, w') \<Longrightarrow> idle w' \<and> committed w' = committed w"
  by (drule keepsD [where s = w]) (auto simp: settled_def)

lemma demo_work_unit_ok:
  "demo_work_unit task run_id work_unit_id task_type inline_input now = Inr wu \<Longrightarrow>
     wun_run_id wu = run_id \<and> wun_work_unit_id wu = work_unit_id \<and> wun_task_type wu = task_type \<and>
     wun_task_level wu = dt_task_level task \<and> wun_inline_input wu = inline_input"
  by (auto simp: demo_work_unit_def)

lemma decide_and_schedule_ok:
  assumes "quiet_ok w" and "settled (waiting c0) w" and "decide_and_schedule he cfg wu plan w = (Inr s, w')"
  obtains c d t now v where "selected_candidate_of plan = Inr c"
    "evaluate_demo_policy he (plat w) cfg t now wu plan c = Inr d" "dec_decision d = ''approved''"
    "quiet_ok v" "schedule_approved wu plan c d v = (Inr s, w')" "decided ''approved'' (dec_policy_decision_id d) (committed v)"
    "runs (committed v) = runs (committed w)" "work_units (committed v) = work_units (committed w)"
    "route_plans (committed v) = route_plans (committed w)"
    "execution_attempts (committed v) = execution_attempts (committed w)" "assignments (committed v) = assignments (committed w)"
    "events_added [''policy_decision.created''] (committed w) (committed v)"
proof -
  let ?w = "w\<lparr>clock_draws := Suc (clock_draws w)\<rparr>"
  let ?now = "utc_text (utc_clock (plat w) (clock_draws w))"
  obtain c d v where c: "selected_candidate_of plan = Inr c"
    and d: "evaluate_demo_policy he (plat w) cfg (current w) ?now wu plan c = Inr d"
    and st: "store_policy_decision d ?w = (Inr (), v)"
    and rest: "(if dec_decision d \<noteq> ''approved'' then raise (ValueError (wun_task_type wu @ '' WorkUnit denied by policy''))
      else schedule_approved wu plan c d) v = (Inr s, w')"
    using assms(3) by (auto simp: decide_and_schedule_def bnd_ok_iff seq_ok_iff)
  have app: "dec_decision d = ''approved''" and sch: "schedule_approved wu plan c d v = (Inr s, w')"
    using rest by (auto split: if_splits)
  have w: "idle ?w" "settled (waiting c0) ?w" using assms(2) by (simp_all add: settled_def)
  have v: "settled (waiting c0) v" by (rule keepsD [OF keeps_waiting_steps(3) w(2) st])
  obtain t r where t: "upsert_policy_decision d (committed w) = Inr t" "ev_type r = ''policy_decision.created''"
      "committed v = t\<lparr>event_outbox := event_outbox t @ [r]\<rparr>"
    using store_policy_decision_ok [OF w(1) st] by auto
  have "decided ''approved'' (dec_policy_decision_id d) (committed v)"
    using decided_upsert [OF t(1)] t(3) app by (simp add: decided_def)
  moreover have "quiet_ok v" using v by (simp add: settled_def waiting_def quiet_inv_def)
  moreover have "runs (committed v) = runs (committed w)" "work_units (committed v) = work_units (committed w)"
    "route_plans (committed v) = route_plans (committed w)"
    "execution_attempts (committed v) = execution_attempts (committed w)" "assignments (committed v) = assignments (committed w)"
    "events_added [''policy_decision.created''] (committed w) (committed v)"
    using t by (auto simp: upsert_policy_decision_def events_added_def)
  ultimately show ?thesis using that c d app sch by blast
qed

lemma submit_demo_work_unit_ok:
  assumes "quiet_ok w" and run: "submit_demo_work_unit he cfg task_type inline_input dir w = (Inr s, w')"
  obtains task wu svc plan u v x y where "dget supported_demo_tasks task_type = Some task"
    "wun_task_type wu = task_type" "wun_task_level wu = dt_task_level task" "wun_inline_input wu = inline_input"
    "idle u" "committed u = committed w" "persist_run_and_work_unit wu (dt_phase task) u = (Inr (), v)"
    "router_service_from_dirs (on_platform he (plat w)) (cfg_root cfg) (routebook_root_of cfg dir) None = Inr svc"
    "plan_route (on_platform he (plat w)) svc (dump_work_unit wu) False v = (Inr plan, x)" "idle v" "idle x"
    "committed x = committed v" "store_route_plan plan x = (Inr (), y)" "plat y = plat w"
    "settled (waiting (committed w)) y" "decide_and_schedule he cfg wu plan y = (Inr s, w')"
proof -
  let ?u = "w\<lparr>clock_draws := Suc (clock_draws w), uuid_draws := Suc (Suc (uuid_draws w))\<rparr>"
  have idle: "idle ?u" "settled (waiting (committed w)) ?u" "since (plat w) (uuid_draws w) ?u"
    using assms(1) by (simp_all add: quiet_inv_def idle_def settled_def waiting_def since_def)
  obtain task where task: "dget supported_demo_tasks task_type = Some task"
    using run by (cases "dget supported_demo_tasks task_type") (auto simp: submit_demo_work_unit_def raise_def)
  obtain run_id work_unit_id now wu svc plan v x y where wu: "demo_work_unit task run_id work_unit_id task_type inline_input now = Inr wu"
    and p: "persist_run_and_work_unit wu (dt_phase task) ?u = (Inr (), v)"
    and svc: "router_service_from_dirs (on_platform he (plat v)) (cfg_root cfg) (routebook_root_of cfg dir) None = Inr svc"
    and plan: "plan_route (on_platform he (plat v)) svc (dump_work_unit wu) False v = (Inr plan, x)"
    and st: "store_route_plan plan x = (Inr (), y)" and last: "decide_and_schedule he cfg wu plan y = (Inr s, w')"
    using run by (auto simp: submit_demo_work_unit_def task Let_def bnd_ok_iff seq_ok_iff)
  have pv: "plat v = plat w" and pxy: "plat y = plat w"
    using keepsD [OF keeps_since_steps(1) idle(3) p] keepsD [OF keeps_since_steps(2) keepsD [OF
        keeps_since_steps(3) keepsD [OF keeps_since_steps(1) idle(3) p] plan] st]
    by (simp_all add: since_def)
  have v: "settled (waiting (committed w)) v" by (rule keepsD [OF keeps_waiting_steps(1) idle(2) p])
  then have x: "idle x" "committed x = committed v" "settled (waiting (committed w)) x"
    using keeps_committed [OF keeps_plan_route _ plan] keepsD [OF keeps_plan_route v plan] by (simp_all add: settled_def)
  have y: "settled (waiting (committed w)) y" by (rule keepsD [OF keeps_waiting_steps(2) x(3) st])
  have "idle v" using v by (simp add: settled_def)
  then show ?thesis
    using that [OF task _ _ _ idle(1) _ p svc [unfolded pv] plan [unfolded pv] _ x(1,2) st pxy y last] demo_work_unit_ok [OF wu]
    by simp
qed

section \<open>When a submission returns\<close>

lemma change_with_event_returns:
  assumes idle: "idle w" and fresh: "fresh_ids w" and f: "f (committed w) = Inr t" "event_outbox t = event_outbox (committed w)"
  shows "\<exists>w'. change_with_event f (outbox_event src ty subj bod run wu att asg) w = (Inr (), w') \<and> fresh_ids w'"
proof -
  let ?w = "w\<lparr>in_tx := True, current := t\<rparr>"
  have "fresh_ids ?w" using fresh f(2) idle by (simp add: fresh_ids_def idle_def)
  from logsD [OF logs_event this] obtain u where
    u: "bnd (outbox_event src ty subj bod run wu att asg) (\<lambda>e. seq (enqueue_event e) (ret ())) ?w = (Inr (), u)" "fresh_ids u"
    by metis
  have "seq (execute f) (bnd (outbox_event src ty subj bod run wu att asg) (\<lambda>e. seq (enqueue_event e) (ret ()))) (w\<lparr>in_tx := True\<rparr>)
      = (Inr (), u)"
    using u(1) f(1) idle by (simp add: run_seq run_execute idle_def)
  then have "change_with_event f (outbox_event src ty subj bod run wu att asg) w = (Inr (), commit u)"
    unfolding change_with_event_def by (rule transaction_succeeds [OF idle])
  moreover have "fresh_ids (commit u)" using u(2) by (simp add: fresh_ids_def commit_def)
  ultimately show ?thesis by blast
qed

lemma host_event_returns:
  assumes "fresh_ids w"
  obtains w' r where "host_event src ty subj bod run wu w = (Inr (), w')" "fresh_ids w'"
    "current w' = (current w)\<lparr>event_outbox := event_outbox (current w) @ [r]\<rparr>"
  using logsD [OF logs_event assms] unfolding host_event_def by metis

lemma persist_run_and_work_unit_returns:
  assumes idle: "idle w" and fresh: "fresh_ids w" and new: "\<not> has_row rn_id (runs (committed w)) (wun_run_id wu)"
    "\<not> has_row wu_id (work_units (committed w)) (wun_work_unit_id wu)"
  shows "\<exists>w'. persist_run_and_work_unit wu phase w = (Inr (), w') \<and> fresh_ids w'"
proof -
  let ?row = "\<lparr>rn_id = wun_run_id wu, rn_status = ''submitted'', rn_body = canonical (run_body_of wu phase),
    rn_created_at = wun_created_at wu, rn_updated_at = wun_created_at wu\<rparr>"
  let ?t1 = "(committed w)\<lparr>runs := runs (committed w) @ [?row]\<rparr>"
  let ?t2 = "?t1\<lparr>work_units := work_units (committed w) @ [work_unit_row_of wu]\<rparr>"
  have ids: "wu_id (work_unit_row_of wu) = wun_work_unit_id wu" "wu_run_id (work_unit_row_of wu) = wun_run_id wu"
    by (simp_all add: work_unit_row_of_def)
  have 1: "insert_run ?row (committed w) = Inr ?t1"
    using new(1) by (simp add: insert_run_def insert_row_def has_row_def del: canonical.simps)
  have 2: "insert_work_unit (work_unit_row_of wu) ?t1 = Inr ?t2"
    using new(2) ids by (simp add: insert_work_unit_def insert_row_def has_row_def fk_check_def del: canonical.simps)
  let ?w = "w\<lparr>in_tx := True, current := ?t2\<rparr>"
  have "fresh_ids ?w" using fresh idle by (simp add: fresh_ids_def idle_def del: canonical.simps)
  then obtain u where u: "host_event ''tokenbank.host'' ''run.created'' (''runs/'' @ wun_run_id wu) (run_body_of wu phase)
      (Some (wun_run_id wu)) None ?w = (Inr (), u)" "fresh_ids u"
    by (rule host_event_returns)
  obtain v where v: "host_event ''tokenbank.host'' ''work_unit.created'' (''work_units/'' @ wun_work_unit_id wu)
      (JObj (dump_work_unit wu)) (Some (wun_run_id wu)) (Some (wun_work_unit_id wu)) u = (Inr (), v)" "fresh_ids v"
    by (rule host_event_returns [OF u(2)])
  have "persist_run_and_work_unit wu phase w = (Inr (), commit v)"
    unfolding persist_run_and_work_unit_def
    by (rule transaction_succeeds [OF idle])
      (use idle 1 2 u(1) v(1) in \<open>simp add: run_seq run_execute idle_def del: canonical.simps\<close>)
  moreover have "fresh_ids (commit v)" using v(2) by (simp add: fresh_ids_def commit_def)
  ultimately show ?thesis by blast
qed

lemma create_assignment_succeeds:
  assumes quiet: "quiet_ok w" and fresh: "fresh_ids w" and a: "attempt_at (committed w) i = Some a"
    and id: "\<not> has_row asg_id (assignments (committed w)) (''asg_'' @ uuid4_hex (plat w) (uuid_draws w))"
  shows "\<exists>j w'. create_assignment i v n b bc ec w = (Inr j, w')"
proof -
  have cur: "current w = committed w" "idle w" and ok: "sched_ok (committed w)" using quiet by (simp_all add: quiet_ok_iff idle_def)
  have refs: "has_row att_id (execution_attempts (committed w)) i" "has_row wu_id (work_units (committed w)) (att_work_unit_id a)"
    using a ok by (auto simp: has_row_find sched_ok_def refs_ok_def dest!: find_row_SomeD)
  let ?j = "''asg_'' @ uuid4_hex (plat w) (uuid_draws w)"
  let ?now = "utc_text (utc_clock (plat w) (clock_draws w))"
  define constraints where "constraints = JObj (case ec of None \<Rightarrow> [] | Some c \<Rightarrow> c)"
  define bod where "bod = JObj [(''assignment_id'', JStr ?j), (''attempt_id'', JStr i),
    (''work_unit_id'', JStr (att_work_unit_id a)), (''worker_id'', JStr v), (''capacity_node_id'', JStr n), (''backend_id'', JStr b),
    (''backend_class'', str_opt bc), (''status'', JStr ''created''), (''lease_version'', JInt 0),
    (''effective_constraints'', constraints), (''assigned_at'', JStr ?now)]"
  define row where "row = \<lparr>asg_id = ?j, asg_attempt_id = i, asg_work_unit_id = att_work_unit_id a, asg_worker_id = v,
    asg_status = Asg_created, asg_body = canonical bod, asg_created_at = ?now,
    asg_capacity_node_id = Some n, asg_backend_id = Some b,
    asg_lease_token_hash = None, asg_lease_token_prefix = None, asg_lease_version = 0,
    asg_effective_constraints = canonical constraints, asg_assigned_at = Some ?now,
    asg_lease_expires_at = None, asg_accepted_at = None, asg_completed_at = None, asg_updated_at = Some ?now\<rparr>"
  let ?s = "w\<lparr>uuid_draws := Suc (uuid_draws w), clock_draws := Suc (clock_draws w), in_tx := True\<rparr>"
  let ?t1 = "(committed w)\<lparr>assignments := assignments (committed w) @ [row]\<rparr>"
  let ?t2 = "?t1\<lparr>execution_attempts := update_row att_id i (\<lambda>r. r\<lparr>att_status := Att_assigned\<rparr>) (execution_attempts (committed w))\<rparr>"
  have key: "asg_id row = ?j" "asg_attempt_id row = i" "asg_work_unit_id row = att_work_unit_id a" by (simp_all add: row_def)
  have ins: "insert_assignment row (committed w) = Inr ?t1"
    using id refs key by (simp add: insert_assignment_def insert_row_def fk_check_def has_row_def)
  have "fresh_ids (?s\<lparr>current := ?t2\<rparr>)" "work_unit_at (current (?s\<lparr>current := ?t2\<rparr>)) (att_work_unit_id a) \<noteq> None"
    using fresh cur refs(2) by (simp_all add: fresh_ids_def has_row_find)
  then obtain s3 where s3: "update_work_unit_status (att_work_unit_id a) WU_assigned ''scheduler'' (Some ''work_unit.assigned'')
      (?s\<lparr>current := ?t2\<rparr>) = (Inr (), s3)" "fresh_ids s3"
    using update_work_unit_status_succeeds by metis
  obtain s4 where s4: "emit ''assignment.created'' (''assignments/'' @ ?j) bod (Some (att_work_unit_id a)) (Some i) (Some ?j) s3
      = (Inr (), s4)"
    using logsD [OF logs_emit s3(2)] by metis
  show ?thesis
    using a cur ins s3(1) s4 unfolding row_def bod_def constraints_def
    by (simp add: create_assignment_def attempt_by_id_def Let_def run_bnd run_seq transaction_def begin_immediate_def idle_def
        run_execute update_statement_run del: canonical.simps)
qed

text \<open>No identifier still to be drawn ends the identifier of a stored run, work unit, attempt or assignment.\<close>

definition unclaimed :: "world \<Rightarrow> bool" where
  "unclaimed w \<longleftrightarrow> (let t = committed w in
     \<forall>i \<in> set (map rn_id (runs t) @ map wu_id (work_units t) @ map att_id (execution_attempts t) @ map asg_id (assignments t)).
       \<forall>k \<ge> uuid_draws w. \<not> ends_with (uuid4_hex (plat w) k) i)"

lemma unclaimedD:
  assumes "unclaimed w" and "uuid_draws w \<le> k"
  shows "\<not> has_row rn_id (runs (committed w)) (pre @ uuid4_hex (plat w) k)"
    "\<not> has_row wu_id (work_units (committed w)) (pre @ uuid4_hex (plat w) k)"
    "attempt_at (committed w) (pre @ uuid4_hex (plat w) k) = None"
    "\<not> has_row asg_id (assignments (committed w)) (pre @ uuid4_hex (plat w) k)"
proof -
  let ?i = "pre @ uuid4_hex (plat w) k"
  have suffix: "ends_with (uuid4_hex (plat w) k) ?i" by (auto simp: ends_with_iff)
  have "\<forall>i \<in> set (map rn_id (runs (committed w)) @ map wu_id (work_units (committed w)) @ map att_id (execution_attempts (committed w))
      @ map asg_id (assignments (committed w))). \<not> ends_with (uuid4_hex (plat w) k) i"
    using assms by (simp only: unclaimed_def Let_def) blast
  then have "?i \<notin> rn_id ` set (runs (committed w))" "?i \<notin> wu_id ` set (work_units (committed w))"
    "?i \<notin> att_id ` set (execution_attempts (committed w))" "?i \<notin> asg_id ` set (assignments (committed w))"
    using suffix by (metis Un_iff set_append set_map)+
  then show "\<not> has_row rn_id (runs (committed w)) ?i" "\<not> has_row wu_id (work_units (committed w)) ?i"
    "attempt_at (committed w) ?i = None" "\<not> has_row asg_id (assignments (committed w)) ?i"
    by (simp_all only: has_row_def find_row_None_iff not_False_eq_True)
qed

text \<open>
  The input builds a work unit, the router plans it at any time, and the policy approves the selected candidate of the
  plan at any time, for a worker the candidate names; plan and decision carry the identifiers of what they are about.
\<close>

definition planned_and_approved ::
  "host_environment \<Rightarrow> platform \<Rightarrow> loaded_config \<Rightarrow> tables \<Rightarrow> router_service \<Rightarrow> work_unit \<Rightarrow> string \<Rightarrow> string \<Rightarrow> bool" where
  "planned_and_approved he p cfg t svc wu now now' \<longleftrightarrow> (\<exists>plan c d v.
     bind_result (validated_route_plan (env_repr (he_route he)) (svc_routebook svc) (svc_backend_resolver svc) (dump_work_unit wu) now)
        (\<lambda>plan. scored_selection (on_platform he p) svc (dump_work_unit wu) (plan_task_level plan) plan) = Inr plan \<and>
     plan_work_unit_id plan = wun_work_unit_id wu \<and>
     selected_candidate_of plan = Inr c \<and> candidate_worker_id c = Inr v \<and>
     evaluate_demo_policy he p cfg t now' wu plan c = Inr d \<and> dec_decision d = ''approved'' \<and>
     dec_work_unit_id d = wun_work_unit_id wu \<and> dec_route_plan_id d = plan_route_plan_id plan)"

definition approvable :: "host_environment \<Rightarrow> loaded_config \<Rightarrow> string \<Rightarrow> fields \<Rightarrow> string option \<Rightarrow> world \<Rightarrow> bool" where
  "approvable he cfg task_type inline_input dir w \<longleftrightarrow> (\<exists>task wu svc.
     dget supported_demo_tasks task_type = Some task \<and>
     demo_work_unit task (dt_run_prefix task @ ''_'' @ uuid4_hex (plat w) (uuid_draws w))
       (dt_work_unit_prefix task @ ''_'' @ uuid4_hex (plat w) (Suc (uuid_draws w))) task_type inline_input
       (utc_text (utc_clock (plat w) (clock_draws w))) = Inr wu \<and>
     router_service_from_dirs (on_platform he (plat w)) (cfg_root cfg) (routebook_root_of cfg dir) None = Inr svc \<and>
     (\<forall>m n. planned_and_approved he (plat w) cfg (committed w) svc wu (utc_text (utc_clock (plat w) m)) (utc_text (utc_clock (plat w) n))))"

lemma evaluate_demo_policy_manifests:
  "worker_manifests t = worker_manifests t' \<Longrightarrow>
     evaluate_demo_policy he p cfg t now wu plan c = evaluate_demo_policy he p cfg t' now wu plan c"
  by (simp add: evaluate_demo_policy_def demo_worker_manifest_def stored_worker_manifests_def)

lemma schedule_approved_returns:
  assumes quiet: "quiet_ok w" and fresh: "fresh_ids w" and v: "candidate_worker_id c = Inr v"
    and refs: "has_row wu_id (work_units (committed w)) (wun_work_unit_id wu)"
      "has_row rp_id (route_plans (committed w)) (plan_route_plan_id plan)"
      "has_row pd_id (policy_decisions (committed w)) (dec_policy_decision_id d)"
    and new: "\<And>k. uuid_draws w \<le> k \<Longrightarrow> attempt_at (committed w) (''att_'' @ uuid4_hex (plat w) k) = None"
      "\<And>k. uuid_draws w \<le> k \<Longrightarrow> \<not> has_row asg_id (assignments (committed w)) (''asg_'' @ uuid4_hex (plat w) k)"
  shows "\<exists>s w'. schedule_approved wu plan c d w = (Inr s, w')"
proof -
  obtain i u where i: "create_attempt (wun_work_unit_id wu) (plan_route_plan_id plan) (dec_policy_decision_id d) Att_created
      ''attempt.created'' w = (Inr i, u)" "fresh_ids u"
    using create_attempt_succeeds [OF quiet fresh new(1) refs] by blast
  obtain a where a: "execution_attempts (committed u) = execution_attempts (committed w) @ [a]" "att_id a = i"
      "attempt_at (committed w) i = None" "assignments (committed u) = assignments (committed w)" "plat u = plat w"
    using create_attempt_ok [OF quiet i(1)] by blast
  have at: "attempt_at (committed u) i = Some a" using a(1-3) by (simp add: find_row_append)
  have qu: "quiet_ok u" by (rule keepsD [OF keeps_quiet_create_attempt quiet i(1)])
  have "keeps (since (plat w) (uuid_draws w)) (create_attempt wu' rp pd st ty)" for wu' rp pd st ty
    unfolding create_attempt_def Let_def emit_def
    by (intro keeps_bnd keeps_seq keeps_since keeps_since_transaction keeps_since_event keeps_select keeps_ret)
  from keepsD [OF this _ i(1)] have "uuid_draws w \<le> uuid_draws u" by (simp add: since_def)
  then have "\<not> has_row asg_id (assignments (committed u)) (''asg_'' @ uuid4_hex (plat u) (uuid_draws u))"
    using new(2) a(4,5) by simp
  from create_assignment_succeeds [OF qu i(2) at this] obtain j x where
    "create_assignment i v (cand_capacity_node_id c) (cand_backend_id c) (Some (cand_backend_class c))
       (Some (assignment_constraints wu plan c d)) u = (Inr j, x)" by blast
  then show ?thesis using i(1) v by (simp add: schedule_approved_def run_bnd)
qed

lemma store_policy_decision_returns:
  assumes "idle w" and "fresh_ids w" and "has_row wu_id (work_units (committed w)) (dec_work_unit_id d)"
    and "has_row rp_id (route_plans (committed w)) (dec_route_plan_id d)"
  shows "\<exists>w'. store_policy_decision d w = (Inr (), w') \<and> fresh_ids w'"
proof -
  obtain t where "upsert_policy_decision d (committed w) = Inr t" "event_outbox t = event_outbox (committed w)"
    using assms(3,4) by (simp add: upsert_policy_decision_def fk_check_def)
  then show ?thesis unfolding store_policy_decision_def by (rule change_with_event_returns [OF assms(1,2)])
qed

lemma store_route_plan_returns:
  assumes "idle w" and "fresh_ids w" and "has_row wu_id (work_units (committed w)) (plan_work_unit_id plan)"
  shows "\<exists>w'. store_route_plan plan w = (Inr (), w') \<and> fresh_ids w'"
proof -
  obtain t where "upsert_route_plan plan (committed w) = Inr t" "event_outbox t = event_outbox (committed w)"
    using assms(3) by (simp add: upsert_route_plan_def fk_check_def)
  then show ?thesis unfolding store_route_plan_def by (rule change_with_event_returns [OF assms(1,2)])
qed

lemma keeps_since_decision: "keeps (since p n) (store_policy_decision d)"
  unfolding store_policy_decision_def change_with_event_def
  by (intro keeps_since_transaction keeps_seq keeps_since_event keeps_since)

lemma decide_and_schedule_returns:
  assumes w: "settled (waiting c0) w" and fresh: "fresh_ids w" and c: "selected_candidate_of plan = Inr c"
    "candidate_worker_id c = Inr v"
    and d: "evaluate_demo_policy he (plat w) cfg (current w) (utc_text (utc_clock (plat w) (clock_draws w))) wu plan c = Inr d"
      "dec_decision d = ''approved''" "dec_work_unit_id d = wun_work_unit_id wu" "dec_route_plan_id d = plan_route_plan_id plan"
    and refs: "has_row wu_id (work_units (committed w)) (wun_work_unit_id wu)"
      "has_row rp_id (route_plans (committed w)) (plan_route_plan_id plan)"
    and new: "\<And>k. uuid_draws w \<le> k \<Longrightarrow> attempt_at c0 (''att_'' @ uuid4_hex (plat w) k) = None"
      "\<And>k. uuid_draws w \<le> k \<Longrightarrow> \<not> has_row asg_id (assignments c0) (''asg_'' @ uuid4_hex (plat w) k)"
  shows "\<exists>s w'. decide_and_schedule he cfg wu plan w = (Inr s, w')"
proof -
  let ?w = "w\<lparr>clock_draws := Suc (clock_draws w)\<rparr>"
  have w': "idle ?w" "settled (waiting c0) ?w" "since (plat w) (uuid_draws w) ?w"
    using w by (simp_all add: settled_def since_def)
  obtain u where u: "store_policy_decision d ?w = (Inr (), u)" "fresh_ids u"
    using store_policy_decision_returns [OF w'(1), of d] fresh refs d(3,4) by auto
  have su: "settled (waiting c0) u" by (rule keepsD [OF keeps_waiting_steps(3) w'(2) u(1)])
  have pu: "plat u = plat w" "uuid_draws w \<le> uuid_draws u"
    using keepsD [OF keeps_since_decision w'(3) u(1)] by (simp_all add: since_def)
  obtain t r where t: "upsert_policy_decision d (committed w) = Inr t" "committed u = t\<lparr>event_outbox := event_outbox t @ [r]\<rparr>"
    using store_policy_decision_ok [OF w'(1) u(1)] by auto
  have "has_row pd_id (policy_decisions (committed u)) (dec_policy_decision_id d)"
    using decided_upsert [OF t(1)] t(2) by (simp add: decided_def)
  moreover have "work_units (committed u) = work_units (committed w)" "route_plans (committed u) = route_plans (committed w)"
    using t by (auto simp: upsert_policy_decision_def)
  moreover have "quiet_ok u" "execution_attempts (committed u) = execution_attempts c0" "assignments (committed u) = assignments c0"
    using su by (simp_all add: settled_def waiting_def quiet_inv_def)
  ultimately obtain s x where "schedule_approved wu plan c d u = (Inr s, x)"
    using schedule_approved_returns [of u c v wu plan d] u(2) c(2) refs new pu by auto
  then have "decide_and_schedule he cfg wu plan w = (Inr s, x)"
    using c(1) d(1,2) u(1) by (simp add: decide_and_schedule_def run_bnd run_seq)
  then show ?thesis by blast
qed

lemma submission_returns:
  assumes quiet: "quiet_ok w" and fresh: "fresh_ids w" and new: "unclaimed w"
    and ready: "approvable he cfg task_type inline_input dir w"
  shows "\<exists>s w'. submit_demo_work_unit he cfg task_type inline_input dir w = (Inr s, w')"
proof -
  let ?k = "uuid_draws w"
  obtain task wu svc where task: "dget supported_demo_tasks task_type = Some task"
    and wu: "demo_work_unit task (dt_run_prefix task @ ''_'' @ uuid4_hex (plat w) ?k)
       (dt_work_unit_prefix task @ ''_'' @ uuid4_hex (plat w) (Suc ?k)) task_type inline_input
       (utc_text (utc_clock (plat w) (clock_draws w))) = Inr wu"
    and svc: "router_service_from_dirs (on_platform he (plat w)) (cfg_root cfg) (routebook_root_of cfg dir) None = Inr svc"
    and planned: "\<And>m n. planned_and_approved he (plat w) cfg (committed w) svc wu (utc_text (utc_clock (plat w) m)) (utc_text (utc_clock (plat w) n))"
    using ready unfolding approvable_def by auto
  let ?u = "w\<lparr>clock_draws := Suc (clock_draws w), uuid_draws := Suc (Suc ?k)\<rparr>"
  have u: "idle ?u" "fresh_ids ?u" "settled (waiting (committed w)) ?u" "since (plat w) ?k ?u"
    using quiet fresh by (auto simp: quiet_inv_def settled_def waiting_def since_def idle_def fresh_ids_def)
  note ids = demo_work_unit_ok [OF wu]
  have "\<not> has_row rn_id (runs (committed w)) (wun_run_id wu)"
    using unclaimedD(1) [OF new, of ?k "dt_run_prefix task @ ''_''"] ids by simp
  moreover have "\<not> has_row wu_id (work_units (committed w)) (wun_work_unit_id wu)"
    using unclaimedD(2) [OF new, of "Suc ?k" "dt_work_unit_prefix task @ ''_''"] ids by simp
  ultimately obtain v where v: "persist_run_and_work_unit wu (dt_phase task) ?u = (Inr (), v)" "fresh_ids v"
    using persist_run_and_work_unit_returns [OF u(1,2), of wu "dt_phase task"] by auto
  have sv: "settled (waiting (committed w)) v" "since (plat w) ?k v"
    using keepsD [OF keeps_waiting_steps(1) u(3) v(1)] keepsD [OF keeps_since_steps(1) u(4) v(1)] by simp_all
  have wuv: "has_row wu_id (work_units (committed v)) (wun_work_unit_id wu)"
    using persist_run_and_work_unit_ok [OF u(1) v(1)] by (auto simp: has_row_def work_unit_row_of_def)
  obtain plan c d vid where p: "bind_result (validated_route_plan (env_repr (he_route he)) (svc_routebook svc)
        (svc_backend_resolver svc) (dump_work_unit wu) (utc_text (utc_clock (plat w) (clock_draws v))))
        (\<lambda>plan. scored_selection (on_platform he (plat w)) svc (dump_work_unit wu) (plan_task_level plan) plan) = Inr plan"
      and pid: "plan_work_unit_id plan = wun_work_unit_id wu"
    using planned unfolding planned_and_approved_def by blast
  have pv: "plat v = plat w" using sv(2) by (simp add: since_def)
  let ?x = "v\<lparr>clock_draws := Suc (clock_draws v)\<rparr>"
  have plan: "plan_route (on_platform he (plat w)) svc (dump_work_unit wu) False v = (Inr plan, ?x)"
  proof -
    obtain draft where "validated_route_plan (env_repr (he_route he)) (svc_routebook svc) (svc_backend_resolver svc) (dump_work_unit wu)
        (utc_text (utc_clock (plat w) (clock_draws v))) = Inr draft"
      "scored_selection (on_platform he (plat w)) svc (dump_work_unit wu) (plan_task_level draft) draft = Inr plan"
      using p by auto
    moreover have "env_repr (on_platform he (plat w)) = env_repr (he_route he)" by (simp add: on_platform_def)
    ultimately show ?thesis using pv by (simp add: plan_route_def run_bnd run_seq)
  qed
  have x: "idle ?x" "fresh_ids ?x" "settled (waiting (committed w)) ?x" "since (plat w) ?k ?x"
    using sv v(2) by (simp_all add: settled_def since_def)
  obtain y where y: "store_route_plan plan ?x = (Inr (), y)" "fresh_ids y"
    using store_route_plan_returns [OF x(1,2), of plan] wuv pid by auto
  have sy: "settled (waiting (committed w)) y" "since (plat w) ?k y"
    using keepsD [OF keeps_waiting_steps(2) x(3) y(1)] keepsD [OF keeps_since_steps(2) x(4) y(1)] by simp_all
  have py: "plat y = plat w" "?k \<le> uuid_draws y" using sy(2) by (simp_all add: since_def)
  have stored: "has_row rp_id (route_plans (committed y)) (plan_route_plan_id plan)"
      "has_row wu_id (work_units (committed y)) (wun_work_unit_id wu)"
    using store_route_plan_ok [OF x(1) y(1)] wuv by simp_all
  have manifests: "worker_manifests (current y) = worker_manifests (committed w)"
    using sy(1) by (simp add: settled_def idle_def waiting_def)
  let ?now = "utc_text (utc_clock (plat w) (clock_draws y))"
  obtain c d vid where c: "selected_candidate_of plan = Inr c" "candidate_worker_id c = Inr vid"
      and d: "evaluate_demo_policy he (plat w) cfg (committed w) ?now wu plan c = Inr d" "dec_decision d = ''approved''"
        "dec_work_unit_id d = wun_work_unit_id wu" "dec_route_plan_id d = plan_route_plan_id plan"
    using planned [of "clock_draws v" "clock_draws y"] p unfolding planned_and_approved_def by auto
  have "\<exists>s w'. decide_and_schedule he cfg wu plan y = (Inr s, w')"
  proof (rule decide_and_schedule_returns [OF sy(1) y(2) c])
    show "evaluate_demo_policy he (plat y) cfg (current y) (utc_text (utc_clock (plat y) (clock_draws y))) wu plan c = Inr d"
      using d(1) evaluate_demo_policy_manifests [OF manifests] by (simp add: py)
    show "attempt_at (committed w) (''att_'' @ uuid4_hex (plat y) k) = None"
      "\<not> has_row asg_id (assignments (committed w)) (''asg_'' @ uuid4_hex (plat y) k)" if "uuid_draws y \<le> k" for k
      using unclaimedD(3) [OF new, of k "''att_''"] unclaimedD(4) [OF new, of k "''asg_''"] that py by simp_all
  qed (use d stored in auto)
  then show ?thesis
    using task wu v(1) svc plan y(1) pv
    by (simp add: submit_demo_work_unit_def Let_def run_bnd run_seq)
qed

end
