(* ===== verification/Host_Properties.thy ===== *)
theory Host_Properties
  imports Host_Proofs
begin

text \<open>
  What a submission promises: nothing is scheduled unless a stored decision approves it, a submission that returns leaves a
  work unit that is ready for its worker, and an approvable one returns. The demo submission runs the whole path once on a
  small configuration and routebook.
\<close>

section \<open>A demo submission\<close>

definition demo_yaml :: "string \<Rightarrow> json option" where
  "demo_yaml name =
     (if name = ''task_types.yaml'' then Some (JObj [(''task_types'', JList [JObj [(''task_type'', JStr ''dedup''),
         (''default_task_level'', JStr ''L1'')]])])
      else if name = ''backend_classes.yaml'' then Some (JObj [(''candidate_rules'', JList [JObj [(''rule_id'', JStr ''r1''),
         (''task_type'', JStr ''dedup''), (''backend_class'', JStr ''local_tool''), (''backend_id'', JStr ''b''), (''priority'', JInt 1)]])])
      else if name = ''verifier_mapping.yaml'' then Some (JObj [(''verifier_mapping'', JObj [(''dedup'', JStr ''v'')])])
      else if name = ''forbidden_routes.yaml'' then Some (JObj [(''forbidden_routes'', JObj [(''forbidden_path_fragments'',
         JList [JStr ''/v1/responses''])])])
      else if name = ''backend_policy.yaml'' then Some (JObj [(''backend_policy'', JObj [(''allowed_backend_ids'', JList [JStr ''b'']),
         (''allowed_backend_classes'', JList [JStr ''local_tool''])])])
      else if name = ''backend_registry.yaml'' then Some (JObj [(''backend_registry'', JObj [(''backends'', JList [JObj
         [(''backend_id'', JStr ''b''), (''backend_class'', JStr ''local_tool''), (''capacity_node_id'', JStr ''capnode:b''),
          (''execution_location'', JStr ''local_machine''), (''manifest_hash'', JStr ''m'')]])])])
      else if name = ''capacity_registry.yaml'' then Some (JObj [(''capacity_registry'', JObj [(''worker_manifests'',
         JList [JObj [(''worker_id'', JStr ''wrk_1''), (''backend_ids'', JList [JStr ''b''])]])])])
      else if name \<in> {''task_levels.yaml'', ''fallback_rules.yaml'', ''policy_hints.yaml'', ''provider_policy.yaml'',
         ''data_policy.yaml'', ''sandbox_profile.yaml'', ''egress_policy.yaml'', ''redaction_policy.yaml'', ''runtime.yaml''} then Some (JObj [])
      else None)"

definition demo_environment :: host_environment where
  "demo_environment =
     \<lparr>he_route = sample_environment\<lparr>env_backend := (\<lambda>_. Inr (sample_backend ''b'' ''local_tool'' ''local_machine'')),
         env_worker := (\<lambda>_. Inr (sample_worker ''wrk_1'' [''b''] [''local_tool''])),
         env_files := \<lparr>rf_yaml = (\<lambda>_. demo_yaml), rf_pricing = (\<lambda>_. []), rf_exists = (\<lambda>_. False)\<rparr>\<rparr>,
      he_worker_json = (\<lambda>_. Inl (ValueError [])), he_recipe = (\<lambda>_. Inl (ValueError [])), he_schema = (\<lambda>_ _. None), he_envelope = (\<lambda>_. Inl (ValueError [])), he_summary = Inr,
      he_work_unit = (\<lambda>_. Inl (ValueError [])), he_route_plan = (\<lambda>_. Inl (ValueError [])), he_policy_decision = (\<lambda>_. Inl (ValueError []))\<rparr>"

definition loaded_demo_config :: loaded_config where
  "loaded_demo_config =
     \<lparr>cfg_root = ''packs/config'', cfg_documents =
        map (\<lambda>stem. (stem, case demo_yaml (stem @ ''.yaml'') of Some (JObj d) \<Rightarrow> d | _ \<Rightarrow> [])) required_config_files
          @ [(''pricing'', [(''documents'', JList [])])],
      cfg_content_hashes = map (\<lambda>stem. (stem @ ''.yaml'', ''h'')) required_config_files\<rparr>"

definition demo_resolver :: resolver where
  "demo_resolver = make_resolver [sample_backend ''b'' ''local_tool'' ''local_machine'']
     [sample_worker ''wrk_1'' [''b''] [''local_tool'']] [''b''] [''local_tool'']"

definition demo_routebook :: loaded_routebook where
  "demo_routebook =
     \<lparr>rb_root = ''packs/routebook'', rb_documents =
        map (\<lambda>stem. (stem, case demo_yaml (stem @ ''.yaml'') of Some (JObj d) \<Rightarrow> d | _ \<Rightarrow> [])) required_routebook_files,
      rb_content_hashes = map (\<lambda>stem. (stem @ ''.yaml'', ''h'')) required_routebook_files\<rparr>"

lemma demo_config_loaded: "load_config_dir (plat empty_world) ''packs/config'' demo_yaml [] = Inr loaded_demo_config"
  by code_simp

lemma demo_resolver_loaded:
  "resolver_from_config (\<lambda>_. []) (\<lambda>_. Inr (sample_backend ''b'' ''local_tool'' ''local_machine''))
     (\<lambda>_. Inr (sample_worker ''wrk_1'' [''b''] [''local_tool''])) loaded_demo_config = Inr demo_resolver"
  by code_simp

lemma demo_routebook_loaded: "load_routebook_dir (plat empty_world) ''packs/routebook'' demo_yaml = Inr demo_routebook"
  by code_simp

abbreviation demo_now :: string where
  "demo_now \<equiv> ''2026-01-01T00:00:00Z''"

definition demo_unit :: work_unit where
  "demo_unit = (case demo_work_unit \<lparr>dt_phase = ''VS1a'', dt_run_prefix = ''run_vs1a'', dt_work_unit_prefix = ''wu_vs1a'',
        dt_task_level = ''L1'', dt_verifier_recipe_id = ''dedup_v0''\<rparr> ''run_vs1a_'' ''wu_vs1a_u'' ''dedup'' [(''items'', JList [])] demo_now of Inr wu \<Rightarrow> wu | Inl e \<Rightarrow> sample_work_unit [])"

lemma demo_approved:
  "case validated_route_plan (\<lambda>_. []) demo_routebook demo_resolver (dump_work_unit demo_unit) demo_now of
     Inl e \<Rightarrow> False
   | Inr plan \<Rightarrow> plan_work_unit_id plan = ''wu_vs1a_u'' \<and>
      (case selected_candidate_of plan of Inl e \<Rightarrow> False
       | Inr c \<Rightarrow> candidate_worker_id c = Inr ''wrk_1'' \<and>
          (case evaluate_demo_policy demo_environment (plat empty_world) loaded_demo_config empty_tables demo_now demo_unit plan c of
             Inl e \<Rightarrow> False
           | Inr d \<Rightarrow> dec_decision d = ''approved'' \<and> dec_work_unit_id d = ''wu_vs1a_u'' \<and> dec_route_plan_id d = plan_route_plan_id plan))"
  by code_simp

lemma demo_paths: "routebook_root_of loaded_demo_config None = ''packs/routebook''"
  "path_join (path_parent (cfg_root loaded_demo_config)) ''packs/base-routing/routebook'' = ''packs/packs/base-routing/routebook''"
  by code_simp+

definition demo_service :: router_service where
  "demo_service = \<lparr>svc_routebook = demo_routebook, svc_backend_resolver = demo_resolver, svc_routebook_v1 = None,
     svc_loaded_config_root = Some ''packs/config''\<rparr>"

lemma demo_service_loaded:
  "router_service_from_dirs (on_platform demo_environment (plat empty_world)) (cfg_root loaded_demo_config)
     (routebook_root_of loaded_demo_config None) None = Inr demo_service"
proof -
  have "cfg_root loaded_demo_config = ''packs/config''" by (simp add: loaded_demo_config_def)
  then show ?thesis
    using demo_config_loaded demo_routebook_loaded demo_resolver_loaded
    by (simp add: router_service_from_dirs_def demo_paths(1) Let_def on_platform_def demo_environment_def sample_environment_def
        demo_service_def)
qed

lemma demo_planned_and_approved:
  "planned_and_approved demo_environment (plat empty_world) loaded_demo_config empty_tables demo_service demo_unit demo_now demo_now"
proof -
  have "wun_work_unit_id demo_unit = ''wu_vs1a_u''" by code_simp
  moreover have "scored_selection env demo_service request level plan = Inr plan" for env request level plan
    by (simp add: scored_selection_def demo_service_def)
  moreover have "env_repr (he_route demo_environment) = (\<lambda>_. [])" "svc_routebook demo_service = demo_routebook"
    "svc_backend_resolver demo_service = demo_resolver"
    by (simp_all add: demo_environment_def sample_environment_def demo_service_def)
  ultimately show ?thesis
    using demo_approved unfolding planned_and_approved_def by (auto split: sum.splits)
qed

lemma demo_start: "quiet_ok empty_world" "fresh_ids empty_world" "unclaimed empty_world"
proof -
  show "quiet_ok empty_world"
    by (simp add: quiet_ok_iff sched_ok_def refs_ok_def attempts_numbered_def leases_ok_def outbox_ok_def empty_tables_def pk_unique_def)
  show "fresh_ids empty_world" by (auto simp: fresh_ids_def empty_tables_def empty_world_def intro!: injI)
  show "unclaimed empty_world" by (simp add: unclaimed_def empty_tables_def)
qed

lemma demo_approvable: "approvable demo_environment loaded_demo_config ''dedup'' [(''items'', JList [])] None empty_world"
proof -
  obtain task where task: "dget supported_demo_tasks ''dedup'' = Some task" "task = \<lparr>dt_phase = ''VS1a'', dt_run_prefix = ''run_vs1a'',
      dt_work_unit_prefix = ''wu_vs1a'', dt_task_level = ''L1'', dt_verifier_recipe_id = ''dedup_v0''\<rparr>"
    by (simp add: supported_demo_tasks_def)
  have now: "utc_text (utc_clock (plat empty_world) n) = demo_now" for n by (simp add: empty_world_def) code_simp
  have ids: "uuid4_hex (plat empty_world) (uuid_draws empty_world) = []" "uuid4_hex (plat empty_world) (Suc (uuid_draws empty_world)) = ''u''"
    by (simp_all add: empty_world_def)
  have wu: "demo_work_unit task ''run_vs1a_'' ''wu_vs1a_u'' ''dedup'' [(''items'', JList [])] demo_now = Inr demo_unit"
    unfolding task(2) by code_simp
  show ?thesis
    unfolding approvable_def
    by (intro exI [of _ task] exI [of _ demo_unit] exI [of _ demo_service])
      (simp add: task(1) demo_service_loaded demo_planned_and_approved now ids, simp add: task(2) wu [unfolded task(2)])
qed

lemma demo_submitted:
  "\<exists>s w'. submit_demo_work_unit demo_environment loaded_demo_config ''dedup'' [(''items'', JList [])] None empty_world = (Inr s, w')"
  by (rule submission_returns [OF demo_start demo_approvable])

section \<open>Properties\<close>

text \<open>C12. Submission is default deny. Whatever a submission does, return or raise at any of its steps, it leaves the
  scheduler's invariant intact and schedules nothing that no stored decision approves: the attempts it adds refer to a
  policy decision whose stored rows all say approved, every assignment it adds is in created status and belongs to one of
  those attempts, older attempts and assignments stay as they were, and a submission that raises adds no assignment.\<close>

theorem submission_default_deny:
  assumes "quiet_ok w" and "submit_demo_work_unit he cfg task_type inline_input dir w = (r, w')"
  shows "quiet_ok w' \<and> scheduled_under_approval (committed w) (committed w') \<and>
    (\<forall>e. r = Inl e \<longrightarrow> assignments (committed w') = assignments (committed w))"
proof -
  have "settled (waiting (committed w)) w" using assms(1) by (simp add: settled_def waiting_def quiet_inv_def)
  then show ?thesis
    using submission_outcome [of "committed w" he cfg task_type inline_input dir] assms(2)
    by (simp add: ends_def default_denied_def)
qed

theorem submission_default_deny_witness:
  "\<exists>s w'. submit_demo_work_unit demo_environment loaded_demo_config ''dedup'' [(''items'', JList [])] None empty_world = (Inr s, w') \<and>
     scheduled_under_approval empty_tables (committed w')"
proof -
  obtain s w' where run: "submit_demo_work_unit demo_environment loaded_demo_config ''dedup'' [(''items'', JList [])] None empty_world
      = (Inr s, w')" using demo_submitted by blast
  then show ?thesis using submission_default_deny [OF demo_start(1) run] by auto
qed

text \<open>What a submission that returns has stored.\<close>

lemma submission_schedules:
  assumes "quiet_ok w" and "submit_demo_work_unit he cfg task_type inline_input dir w = (Inr s, w')"
  shows "\<exists>task wu plan c d run t.
    dget supported_demo_tasks task_type = Some task \<and> wun_task_type wu = task_type \<and>
    wun_task_level wu = dt_task_level task \<and> wun_inline_input wu = inline_input \<and>
    routed_and_approved he (plat w) cfg (routebook_root_of cfg dir) wu plan c d \<and>
    runs (committed w') = runs (committed w) @ [run] \<and> rn_id run = wun_run_id wu \<and>
    map_option wu_status (work_unit_at (committed w') (wun_work_unit_id wu)) = Some WU_assigned \<and>
    has_row rp_id (route_plans (committed w')) (plan_route_plan_id plan) \<and>
    decided ''approved'' (dec_policy_decision_id d) (committed w') \<and>
    execution_attempts t = execution_attempts (committed w) \<and> assignments t = assignments (committed w) \<and>
    scheduled_for wu plan c d s t (committed w') \<and>
    events_added [''run.created'', ''work_unit.created'', ''route_plan.created'', ''policy_decision.created'',
      ''attempt.created'', ''work_unit.assigned'', ''assignment.created''] (committed w) (committed w')"
proof -
  obtain task wu svc plan u v x y where task: "dget supported_demo_tasks task_type = Some task"
    and wu: "wun_task_type wu = task_type" "wun_task_level wu = dt_task_level task" "wun_inline_input wu = inline_input"
    and u: "idle u" "committed u = committed w" and p: "persist_run_and_work_unit wu (dt_phase task) u = (Inr (), v)"
    and svc: "router_service_from_dirs (on_platform he (plat w)) (cfg_root cfg) (routebook_root_of cfg dir) None = Inr svc"
    and plan: "plan_route (on_platform he (plat w)) svc (dump_work_unit wu) False v = (Inr plan, x)"
    and x: "idle x" "committed x = committed v" and st: "store_route_plan plan x = (Inr (), y)" and py: "plat y = plat w"
    and y: "settled (waiting (committed w)) y" and last: "decide_and_schedule he cfg wu plan y = (Inr s, w')"
    by (rule submit_demo_work_unit_ok [OF assms])
  obtain run where run: "rn_id run = wun_run_id wu" "runs (committed v) = runs (committed w) @ [run]"
      "work_units (committed v) = work_units (committed w) @ [work_unit_row_of wu]"
      "\<not> has_row wu_id (work_units (committed w)) (wun_work_unit_id wu)"
      "events_added [''run.created'', ''work_unit.created''] (committed w) (committed v)"
    using persist_run_and_work_unit_ok [OF u(1) p] u(2) by auto
  note rp = store_route_plan_ok [OF x(1) st, unfolded x(2)]
  have qy: "quiet_ok y" and ty: "execution_attempts (committed y) = execution_attempts (committed w)"
      "assignments (committed y) = assignments (committed w)"
    using y by (simp_all add: settled_def waiting_def quiet_inv_def)
  obtain c d t now z where c: "selected_candidate_of plan = Inr c" "evaluate_demo_policy he (plat y) cfg t now wu plan c = Inr d"
      "dec_decision d = ''approved''" and z: "quiet_ok z" "schedule_approved wu plan c d z = (Inr s, w')"
      "decided ''approved'' (dec_policy_decision_id d) (committed z)"
    and tz: "runs (committed z) = runs (committed y)" "work_units (committed z) = work_units (committed y)"
      "route_plans (committed z) = route_plans (committed y)"
      "execution_attempts (committed z) = execution_attempts (committed y)" "assignments (committed z) = assignments (committed y)"
      "events_added [''policy_decision.created''] (committed y) (committed z)"
    by (rule decide_and_schedule_ok [OF qy y last])
  note sched = schedule_approved_schedules [OF z(1,2)]
  obtain later where rows: "work_units (committed w') = update_row wu_id (wun_work_unit_id wu)
        (\<lambda>u. u\<lparr>wu_status := WU_assigned, wu_updated_at := later\<rparr>) (work_units (committed z))"
      "route_plans (committed w') = route_plans (committed z)" "policy_decisions (committed w') = policy_decisions (committed z)"
      "runs (committed w') = runs (committed z)"
    using sched unfolding scheduled_for_def by (elim conjE exE) (rule that; assumption)
  have id: "wu_id (work_unit_row_of wu) = wun_work_unit_id wu" by (simp add: work_unit_row_of_def)
  have unit: "map_option wu_status (work_unit_at (committed w') (wun_work_unit_id wu)) = Some WU_assigned"
    using run(3,4) rp id by (simp add: rows(1) tz(2) find_row_update find_row_append has_row_find)
  have routed: "routed_and_approved he (plat w) cfg (routebook_root_of cfg dir) wu plan c d"
    unfolding routed_and_approved_def using svc plan c py by auto
  have plans: "has_row rp_id (route_plans (committed w')) (plan_route_plan_id plan)" using rp by (simp add: rows(2) tz(3))
  have runs: "runs (committed w') = runs (committed w) @ [run]" using rp run(2) by (simp add: rows(4) tz(1))
  have app: "decided ''approved'' (dec_policy_decision_id d) (committed w')" using z(3) by (simp add: decided_def rows(3))
  have events: "events_added [''run.created'', ''work_unit.created'', ''route_plan.created'', ''policy_decision.created'',
      ''attempt.created'', ''work_unit.assigned'', ''assignment.created''] (committed w) (committed w')"
    using events_added_trans [OF run(5) events_added_trans [OF conjunct2 [OF conjunct2 [OF conjunct2 [OF rp]]]
        events_added_trans [OF tz(6) conjunct2 [OF conjunct2 [OF sched]]]]] by simp
  show ?thesis
    by (intro exI [of _ task] exI [of _ wu] exI [of _ plan] exI [of _ c] exI [of _ d] exI [of _ run] exI [of _ "committed z"]
        conjI task wu routed runs run(1) unit plans app events conjunct1 [OF conjunct2 [OF sched]] trans [OF tz(4) ty(1)]
        trans [OF tz(5) ty(2)])
qed

text \<open>C13. A submission that returns leaves a scheduled work unit. The run, the work unit and the plan are stored; the
  plan is what the route planner returned for the work unit, the decision is the policy's verdict on the plan's selected
  candidate and it is approved; one attempt refers to plan and decision and is assigned, one assignment in created status
  without a lease hands the attempt to the worker the candidate names, on the candidate's node and backend, with the
  task's input and the policy's allowlists as its constraints; the work unit is assigned; and the seven events are logged
  in the order of the steps.\<close>

theorem submitted_work_is_scheduled:
  assumes "quiet_ok w" and "submit_demo_work_unit he cfg task_type inline_input dir w = (Inr s, w')"
  shows "\<exists>task wu plan c d run t.
    dget supported_demo_tasks task_type = Some task \<and> wun_task_type wu = task_type \<and>
    wun_task_level wu = dt_task_level task \<and> wun_inline_input wu = inline_input \<and>
    routed_and_approved he (plat w) cfg (routebook_root_of cfg dir) wu plan c d \<and>
    runs (committed w') = runs (committed w) @ [run] \<and> rn_id run = wun_run_id wu \<and>
    map_option wu_status (work_unit_at (committed w') (wun_work_unit_id wu)) = Some WU_assigned \<and>
    has_row rp_id (route_plans (committed w')) (plan_route_plan_id plan) \<and>
    decided ''approved'' (dec_policy_decision_id d) (committed w') \<and>
    execution_attempts t = execution_attempts (committed w) \<and> assignments t = assignments (committed w) \<and>
    scheduled_for wu plan c d s t (committed w') \<and>
    events_added [''run.created'', ''work_unit.created'', ''route_plan.created'', ''policy_decision.created'',
      ''attempt.created'', ''work_unit.assigned'', ''assignment.created''] (committed w) (committed w')"
  by (rule submission_schedules [OF assms])

theorem submitted_work_is_scheduled_witness:
  "\<exists>s w'. submit_demo_work_unit demo_environment loaded_demo_config ''dedup'' [(''items'', JList [])] None empty_world = (Inr s, w') \<and>
     (\<exists>b. assignments (committed w') = [b] \<and> asg_status b = Asg_created \<and> sw_worker_id s = asg_worker_id b)"
proof -
  obtain s w' where run: "submit_demo_work_unit demo_environment loaded_demo_config ''dedup'' [(''items'', JList [])] None empty_world
      = (Inr s, w')" using demo_submitted by blast
  obtain wu plan c d t where "assignments t = assignments empty_tables" "scheduled_for wu plan c d s t (committed w')"
    using submitted_work_is_scheduled [OF demo_start(1) run] by auto
  then show ?thesis using run by (auto simp: scheduled_for_def empty_tables_def)
qed

text \<open>C14. An approvable submission returns and its work is scheduled. On a quiet database with fresh identifiers, when the
  input builds a work unit, the configuration and routebook load, and at whatever times they run the router plans the work
  unit and the policy approves the selected candidate for a worker it names, the submission returns its identifiers, so no
  database step of it fails, and the run, the work unit, the plan, the approved decision, one attempt and one assignment in
  created status for the worker of the candidate are stored and the seven events logged.\<close>

theorem approvable_submission_returns:
  assumes quiet: "quiet_ok w" and fresh: "fresh_ids w" and new: "unclaimed w"
    and ready: "approvable he cfg task_type inline_input dir w"
  shows "\<exists>s w' task wu plan c d run t. submit_demo_work_unit he cfg task_type inline_input dir w = (Inr s, w') \<and>
    dget supported_demo_tasks task_type = Some task \<and> wun_task_type wu = task_type \<and>
    wun_task_level wu = dt_task_level task \<and> wun_inline_input wu = inline_input \<and>
    routed_and_approved he (plat w) cfg (routebook_root_of cfg dir) wu plan c d \<and>
    runs (committed w') = runs (committed w) @ [run] \<and> rn_id run = wun_run_id wu \<and>
    map_option wu_status (work_unit_at (committed w') (wun_work_unit_id wu)) = Some WU_assigned \<and>
    has_row rp_id (route_plans (committed w')) (plan_route_plan_id plan) \<and>
    decided ''approved'' (dec_policy_decision_id d) (committed w') \<and>
    execution_attempts t = execution_attempts (committed w) \<and> assignments t = assignments (committed w) \<and>
    scheduled_for wu plan c d s t (committed w') \<and>
    events_added [''run.created'', ''work_unit.created'', ''route_plan.created'', ''policy_decision.created'',
      ''attempt.created'', ''work_unit.assigned'', ''assignment.created''] (committed w) (committed w')"
proof -
  obtain s w' where run: "submit_demo_work_unit he cfg task_type inline_input dir w = (Inr s, w')"
    using submission_returns [OF assms] by blast
  show ?thesis
    by (rule exI [of _ s], rule exI [of _ w']) (use run submission_schedules [OF quiet run] in \<open>simp only: simp_thms ex_simps\<close>)
qed

theorem approvable_submission_returns_witness:
  "\<exists>s w' b. submit_demo_work_unit demo_environment loaded_demo_config ''dedup'' [(''items'', JList [])] None empty_world = (Inr s, w') \<and>
     assignments (committed w') = [b] \<and> asg_status b = Asg_created"
proof -
  have none: "assignments (committed empty_world) = []" by (simp add: empty_world_def empty_tables_def)
  show ?thesis
    using approvable_submission_returns [OF demo_start demo_approvable] none by (auto simp: scheduled_for_def)
qed

end
