(* ===== verification/Host_Results.thy ===== *)
theory Host_Results
  imports Host Floats
begin

text \<open>
  The results side of \<open>src/tokenbank/host/url_check.py\<close>: a stored result of a demo task is verified, the report with its
  checks and a summary for the client are stored, and the client reads the summary.
\<close>

section \<open>Summaries\<close>

text \<open>\<open>f"{x:.2f}"\<close> of a number: its value rounded to two decimals, ties to even.\<close>

definition fixed2 :: "rat \<Rightarrow> string" where
  "fixed2 q =
     (let n = half_even (\<bar>q\<bar> * 100) in
      (if q < 0 then ''-'' else []) @ show_int (n div 100) @ ''.'' @ pad 2 (nat (n mod 100)))"

text \<open>\<open>isinstance(v, int)\<close> holds of booleans.\<close>

fun json_integer :: "json \<Rightarrow> bool" where
  "json_integer (JInt i) = True"
| "json_integer (JBool b) = True"
| "json_integer v = False"

fun py_len :: "json \<Rightarrow> nat result" where
  "py_len (JList xs) = Inr (length xs)"
| "py_len (JObj kvs) = Inr (length kvs)"
| "py_len (JStr s) = Inr (length s)"
| "py_len v = Inl (TypeError ''object has no len()'')"

fun non_empty_text :: "json \<Rightarrow> bool" where
  "non_empty_text (JStr s) \<longleftrightarrow> s \<noteq> []"
| "non_empty_text v \<longleftrightarrow> False"

fun text_or_empty :: "json \<Rightarrow> string" where
  "text_or_empty (JStr s) = s"
| "text_or_empty v = []"

definition webpage_summary :: "fields \<Rightarrow> fields \<Rightarrow> string" where
  "webpage_summary out extracted =
     (let title = get_null extracted ''title''; url = or_json (get_null extracted ''url'') (get_null out ''url'') in
      if non_empty_text title then ''webpage_extraction accepted '' @ text_or_empty title
      else if non_empty_text url then ''webpage_extraction accepted '' @ text_or_empty url
      else ''webpage_extraction accepted extracted content'')"

definition url_summary :: "fields \<Rightarrow> string" where
  "url_summary out =
     (let url = or_json (get_null out ''url'') (get_null out ''final_url'') in
      case url of
        JStr u \<Rightarrow> if get_null out ''ok'' = JBool True then ''url_check accepted '' @ u
                  else ''url_check completed with warnings for '' @ u
      | _ \<Rightarrow> ''url_check completed'')"

definition result_summary :: "(json \<Rightarrow> string) \<Rightarrow> fields \<Rightarrow> string result" where
  "result_summary repr out =
     (case get_null out ''claims'' of
        JList (c # cs) \<Rightarrow> Inr (''claim_extraction accepted '' @ show_int (int (length (c # cs))) @ '' claim(s)'')
      | _ \<Rightarrow>
     (case (get_null out ''label'', json_number (get_null out ''confidence'')) of
        (JStr label, Some confidence) \<Rightarrow> Inr (''topic_classification accepted '' @ label @ '' at '' @ fixed2 confidence)
      | _ \<Rightarrow>
     (case get_null out ''extracted'' of
        JObj extracted \<Rightarrow> Inr (webpage_summary out extracted)
      | _ \<Rightarrow>
     if dget out ''unique_items'' \<noteq> None \<and> json_integer (get_null out ''duplicate_count'')
     then bind_result (py_len (get_null out ''unique_items'')) (\<lambda>unique_count.
          Inr (''dedup accepted '' @ show_int (int unique_count) @ '' unique items with '' @
               py_str repr (get_null out ''duplicate_count'') @ '' duplicates''))
     else Inr (url_summary out))))"

definition summary_status :: "result_envelope \<Rightarrow> verifier_report \<Rightarrow> string" where
  "summary_status e r =
     (if vr_recommendation r = ''quarantine'' \<or> env_status e = Res_quarantined then ''quarantined''
      else if vr_recommendation r \<in> {''accept'', ''accept_with_warning''} then ''succeeded''
      else ''failed'')"

definition default_backend_class :: "string \<Rightarrow> string" where
  "default_backend_class task_type =
     (if task_type \<in> {''topic_classification'', ''claim_extraction''} then ''api_model_gateway''
      else if task_type = ''webpage_extraction'' then ''browser_fetch''
      else if task_type = ''dedup'' then ''local_script'' else ''local_tool'')"

definition default_backend_id :: "string \<Rightarrow> string" where
  "default_backend_id task_type =
     (if task_type = ''claim_extraction'' then ''backend:claim_extraction:api_gateway:v0''
      else if task_type = ''topic_classification'' then ''backend:topic_classification:api_gateway:v0''
      else if task_type = ''webpage_extraction'' then ''backend:webpage_extraction:browser_fetch:v0''
      else if task_type = ''dedup'' then ''backend:dedup:local_script:v0'' else ''backend:url_check:v0'')"

definition or_text :: "string option \<Rightarrow> string \<Rightarrow> string" where
  "or_text v dflt = (case v of None \<Rightarrow> dflt | Some s \<Rightarrow> if s = [] then dflt else s)"

record host_cost_summary =
  hc_estimated_cost_micros :: int
  hc_actual_cost_micros :: int
  hc_cost_source :: string
  hc_cost_confidence :: string
  hc_local_zero_cost_caveat :: "string option"
  hc_verifier_passed :: bool
  hc_quality_status :: string
  hc_audit_status :: string
  hc_caveats :: "string list"

record host_result_summary =
  hs_work_unit_id :: string
  hs_run_id :: string
  hs_status :: string
  hs_task_type :: string
  hs_task_level :: string
  hs_verifier_status :: verifier_status
  hs_verifier_recommendation :: string
  hs_result_summary :: string
  hs_duration_ms :: "int option"
  hs_backend_class :: string
  hs_backend_id :: string
  hs_worker_id :: string
  hs_capacity_node_id :: string
  hs_cost_summary :: host_cost_summary
  hs_warnings :: "string list"
  hs_caveats :: "string list"
  hs_quarantine_status :: string
  hs_trace_ref :: string
  hs_generated_at :: string

fun verifier_status_text :: "verifier_status \<Rightarrow> string" where
  "verifier_status_text VS_passed = ''passed''"
| "verifier_status_text VS_failed = ''failed''"
| "verifier_status_text VS_needs_review = ''needs_review''"
| "verifier_status_text VS_skipped = ''skipped''"

definition build_cost_summary :: "result_envelope \<Rightarrow> verifier_report \<Rightarrow> string list \<Rightarrow> string list \<Rightarrow> host_cost_summary" where
  "build_cost_summary e r warnings caveats =
     \<lparr>hc_estimated_cost_micros = env_cost_estimate_micros e, hc_actual_cost_micros = env_actual_cost_micros e,
      hc_cost_source = env_cost_source e, hc_cost_confidence = env_cost_confidence e,
      hc_local_zero_cost_caveat = (case caveats of [] \<Rightarrow> None | c # _ \<Rightarrow> Some c),
      hc_verifier_passed = (vr_status r \<in> {VS_passed, VS_needs_review}),
      hc_quality_status = (if vr_status r = VS_passed then ''passed'' else if vr_status r = VS_needs_review then ''needs_review'' else ''failed''),
      hc_audit_status = (if vr_recommendation r = ''quarantine'' then ''quarantined'' else if warnings \<noteq> [] then ''warning'' else ''clean''),
      hc_caveats = caveats\<rparr>"

definition build_host_summary ::
  "(json \<Rightarrow> string) \<Rightarrow> string \<Rightarrow> work_unit \<Rightarrow> result_envelope \<Rightarrow> verifier_report \<Rightarrow> host_result_summary result" where
  "build_host_summary repr now wu e r =
     (let warnings = map (\<lambda>c. strip (vc_message c)) (filter (\<lambda>c. vc_status c = VS_needs_review) (vr_checks r));
          caveats = (if env_cost_source e = ''zero_internal_phase0''
            then [''Phase 0 local '' @ wun_task_type wu @ '' uses zero_internal_phase0 cost accounting.''] else []) in
      bind_result (result_summary repr (env_output e)) (\<lambda>text.
      Inr \<lparr>hs_work_unit_id = wun_work_unit_id wu, hs_run_id = wun_run_id wu, hs_status = summary_status e r,
           hs_task_type = wun_task_type wu, hs_task_level = wun_task_level wu, hs_verifier_status = vr_status r,
           hs_verifier_recommendation = vr_recommendation r, hs_result_summary = strip text,
           hs_duration_ms = env_duration_ms e,
           hs_backend_class = or_text (env_backend_class e) (default_backend_class (wun_task_type wu)),
           hs_backend_id = or_text (env_backend_id e) (default_backend_id (wun_task_type wu)),
           hs_worker_id = or_text (env_worker_id e) ''unknown_worker'',
           hs_capacity_node_id = or_text (env_capacity_node_id e) ''unknown_capacity_node'',
           hs_cost_summary = build_cost_summary e r warnings caveats, hs_warnings = warnings, hs_caveats = caveats,
           hs_quarantine_status = (if vr_recommendation r = ''quarantine'' then ''quarantined'' else ''none''),
           hs_trace_ref = env_result_envelope_id e, hs_generated_at = now\<rparr>))"

section \<open>Storing reports and summaries\<close>

definition dump_verifier_check :: "verifier_check_result \<Rightarrow> json" where
  "dump_verifier_check c = JObj
     [schema_version, (''name'', JStr (vc_name c)), (''status'', JStr (verifier_status_text (vc_status c))),
      (''message'', JStr (vc_message c)), (''observed_hash'', str_opt (vc_observed_hash c)), (''metadata'', JObj (vc_metadata c))]"

definition dump_verifier_report :: "verifier_report \<Rightarrow> json" where
  "dump_verifier_report r = JObj
     [schema_version, (''verifier_report_id'', JStr (vr_verifier_report_id r)), (''work_unit_id'', JStr (vr_work_unit_id r)),
      (''result_envelope_id'', JStr (vr_result_envelope_id r)), (''verifier_recipe_id'', JStr (vr_verifier_recipe_id r)),
      (''status'', JStr (verifier_status_text (vr_status r))), (''recommendation'', JStr (vr_recommendation r)),
      (''checks'', JList (map dump_verifier_check (vr_checks r))), (''output_hash'', JStr (vr_output_hash r)),
      (''result_hash'', JStr (vr_result_hash r)), (''metadata'', JObj (vr_metadata r)), (''created_at'', JStr (vr_created_at r))]"

definition dump_cost_summary :: "host_cost_summary \<Rightarrow> json" where
  "dump_cost_summary c = JObj
     [schema_version, (''estimated_cost_micros'', JInt (hc_estimated_cost_micros c)),
      (''actual_cost_micros'', JInt (hc_actual_cost_micros c)), (''cost_source'', JStr (hc_cost_source c)),
      (''cost_confidence'', JStr (hc_cost_confidence c)), (''baseline_mode'', JStr ''none''), (''baseline_cost_micros'', JNull),
      (''saving_ratio_bps'', JNull), (''primary_model_fallback_used'', JBool False),
      (''primary_model_fallback_cost_micros'', JInt 0), (''local_zero_cost_caveat'', str_opt (hc_local_zero_cost_caveat c)),
      (''verifier_passed'', JBool (hc_verifier_passed c)), (''quality_status'', JStr (hc_quality_status c)),
      (''audit_status'', JStr (hc_audit_status c)), (''caveats'', JList (map JStr (hc_caveats c)))]"

definition dump_host_summary :: "host_result_summary \<Rightarrow> json" where
  "dump_host_summary s = JObj
     [schema_version, (''work_unit_id'', JStr (hs_work_unit_id s)), (''run_id'', JStr (hs_run_id s)),
      (''status'', JStr (hs_status s)), (''task_type'', JStr (hs_task_type s)), (''task_level'', JStr (hs_task_level s)),
      (''verifier_status'', JStr (verifier_status_text (hs_verifier_status s))),
      (''verifier_recommendation'', JStr (hs_verifier_recommendation s)), (''result_summary'', JStr (hs_result_summary s)),
      (''artifact_refs'', JList []), (''duration_ms'', int_opt (hs_duration_ms s)),
      (''backend_class'', JStr (hs_backend_class s)), (''backend_id'', JStr (hs_backend_id s)),
      (''worker_id'', JStr (hs_worker_id s)), (''capacity_node_id'', JStr (hs_capacity_node_id s)),
      (''cost_summary'', dump_cost_summary (hs_cost_summary s)), (''warnings'', JList (map JStr (hs_warnings s))),
      (''caveats'', JList (map JStr (hs_caveats s))), (''fallback_used'', JBool False),
      (''quarantine_status'', JStr (hs_quarantine_status s)), (''retry_count'', JInt 0),
      (''trace_ref'', JStr (hs_trace_ref s)), (''generated_at'', JStr (hs_generated_at s))]"

definition upsert_verifier_report :: "verifier_report \<Rightarrow> tables \<Rightarrow> tables result" where
  "upsert_verifier_report r t =
     fk_check (has_row vrr_id (verifier_reports t) (vr_verifier_report_id r) \<or>
         has_row wu_id (work_units t) (vr_work_unit_id r) \<and> has_row res_id (result_envelopes t) (vr_result_envelope_id r))
       (t\<lparr>verifier_reports := upsert_row vrr_id
          (\<lambda>old. old\<lparr>vrr_status := verifier_status_text (vr_status r), vrr_recommendation := vr_recommendation r,
                    vrr_body := canonical (dump_verifier_report r)\<rparr>)
          \<lparr>vrr_id = vr_verifier_report_id r, vrr_work_unit_id = vr_work_unit_id r, vrr_result_envelope_id = vr_result_envelope_id r,
           vrr_status = verifier_status_text (vr_status r), vrr_recommendation = vr_recommendation r,
           vrr_body = canonical (dump_verifier_report r), vrr_created_at = vr_created_at r\<rparr>
          (verifier_reports t)\<rparr>)"

definition check_result_id :: "platform \<Rightarrow> verifier_report \<Rightarrow> nat \<Rightarrow> verifier_check_result \<Rightarrow> string" where
  "check_result_id p r i c =
     ''vcr_'' @ take 24 (canonical_json_hash (sha256 p) (float_repr p)
       (JObj [(''verifier_report_id'', JStr (vr_verifier_report_id r)), (''index'', JInt (int i)), (''name'', JStr (vc_name c))]))"

definition upsert_check_result :: "string \<Rightarrow> verifier_report \<Rightarrow> verifier_check_result \<Rightarrow> tables \<Rightarrow> tables result" where
  "upsert_check_result i r c t =
     fk_check (has_row vcr_id (verifier_check_results t) i \<or> has_row vrr_id (verifier_reports t) (vr_verifier_report_id r))
       (t\<lparr>verifier_check_results := upsert_row vcr_id
          (\<lambda>old. old\<lparr>vcr_status := verifier_status_text (vc_status c), vcr_body := canonical (dump_verifier_check c)\<rparr>)
          \<lparr>vcr_id = i, vcr_verifier_report_id = vr_verifier_report_id r, vcr_status = verifier_status_text (vc_status c),
           vcr_body = canonical (dump_verifier_check c), vcr_created_at = vr_created_at r\<rparr>
          (verifier_check_results t)\<rparr>)"

definition persist_verifier_report :: "verifier_report \<Rightarrow> unit op" where
  "persist_verifier_report r =
     bnd (gets plat) (\<lambda>p.
     transaction
       (seq (execute (upsert_verifier_report r))
       (seq (for_each (\<lambda>(i, c). execute (upsert_check_result (check_result_id p r i c) r c)) (enumerate 0 (vr_checks r)))
       (host_event ''tokenbank.verifier'' ''verifier_report.created'' (''verifier_reports/'' @ vr_verifier_report_id r)
          (dump_verifier_report r) None (Some (vr_work_unit_id r))))))"

definition summary_id :: "platform \<Rightarrow> host_result_summary \<Rightarrow> string" where
  "summary_id p s =
     ''hrs_'' @ take 24 (canonical_json_hash (sha256 p) (float_repr p)
       (JObj [(''work_unit_id'', JStr (hs_work_unit_id s)), (''trace_ref'', JStr (hs_trace_ref s)),
              (''recommendation'', JStr (hs_verifier_recommendation s))]))"

definition upsert_host_summary :: "string \<Rightarrow> host_result_summary \<Rightarrow> tables \<Rightarrow> tables result" where
  "upsert_host_summary i s t =
     fk_check (has_row hsr_id (host_result_summaries t) i \<or> has_row wu_id (work_units t) (hs_work_unit_id s))
       (t\<lparr>host_result_summaries := upsert_row hsr_id (\<lambda>old. old\<lparr>hsr_body := canonical (dump_host_summary s)\<rparr>)
          \<lparr>hsr_id = i, hsr_work_unit_id = hs_work_unit_id s, hsr_run_id = hs_run_id s,
           hsr_body = canonical (dump_host_summary s), hsr_created_at = hs_generated_at s\<rparr>
          (host_result_summaries t)\<rparr>)"

definition persist_host_result_summary :: "host_result_summary \<Rightarrow> unit op" where
  "persist_host_result_summary s =
     bnd (gets (\<lambda>w. summary_id (plat w) s)) (\<lambda>i.
     change_with_event (upsert_host_summary i s)
       (outbox_event ''tokenbank.host'' ''host_result_summary.created'' (''host_result_summaries/'' @ i)
          (dump_host_summary s) (Some (hs_run_id s)) (Some (hs_work_unit_id s)) None None))"

section \<open>Finalizing a result\<close>

definition load_supported_context ::
  "host_environment \<Rightarrow> tables \<Rightarrow> string \<Rightarrow> (work_unit \<times> route_plan \<times> fields) option result" where
  "load_supported_context he t work_unit_id =
     (case (find_row wu_id (work_units t) work_unit_id,
            newest rp_created_at (filter (\<lambda>r. rp_work_unit_id r = work_unit_id) (route_plans t)),
            newest pd_created_at (filter (\<lambda>r. pd_work_unit_id r = work_unit_id) (policy_decisions t))) of
        (Some wu, Some plan, Some decision) \<Rightarrow>
          let payload = json_fields (wu_body wu); plan_payload = json_fields (rp_body plan); task_type = get_null payload ''task_type'' in
          if \<not> hashable task_type then Inl (TypeError ''unhashable type'')
          else (case task_type of
              JStr ty \<Rightarrow>
                (case dget supported_demo_tasks ty of
                   None \<Rightarrow> Inr None
                 | Some task \<Rightarrow>
                     if get_null plan_payload ''verifier_recipe_id'' \<noteq> JStr (dt_verifier_recipe_id task) then Inr None
                     else bind_result (he_work_unit he payload) (\<lambda>work_unit.
                          bind_result (he_route_plan he plan_payload) (\<lambda>route_plan.
                          bind_result (he_policy_decision he (json_fields (pd_body decision))) (\<lambda>policy.
                          Inr (Some (work_unit, route_plan, policy))))))
            | _ \<Rightarrow> Inr None)
      | _ \<Rightarrow> Inr None)"

text \<open>An envelope that does not validate ends the finalization without a result.\<close>

fun value_error_as_none :: "'a result \<Rightarrow> 'a option result" where
  "value_error_as_none (Inr x) = Inr (Some x)"
| "value_error_as_none (Inl (ValueError m)) = Inr None"
| "value_error_as_none (Inl e) = Inl e"

definition verify_and_summarize ::
  "host_environment \<Rightarrow> result_envelope \<Rightarrow> work_unit \<times> route_plan \<times> fields \<Rightarrow> (verifier_report \<times> host_result_summary) op" where
  "verify_and_summarize he e = (\<lambda>(wu, plan, policy).
     bnd (gets plat) (\<lambda>p. let repr = env_repr (he_route he) in
     bnd (of_result (he_recipe he (plan_verifier_recipe_id plan))) (\<lambda>recipe.
     bnd utc_text_now (\<lambda>now.
     bnd (of_result (run_verifier p repr (he_schema he) now recipe e (Some (dump_work_unit wu)) (Some policy))) (\<lambda>r.
     seq (persist_verifier_report r)
     (bnd utc_text_now (\<lambda>generated.
     bnd (of_result (build_host_summary repr generated wu e r)) (\<lambda>s.
     seq (persist_host_result_summary s) (ret (r, s))))))))))"

definition finalize_url_check_result ::
  "host_environment \<Rightarrow> string \<Rightarrow> (verifier_report \<times> host_result_summary) option op" where
  "finalize_url_check_result he result_envelope_id =
     bnd (select (\<lambda>t. find_row res_id (result_envelopes t) result_envelope_id)) (\<lambda>row.
     case row of
       None \<Rightarrow> ret None
     | Some r \<Rightarrow>
         bnd (of_result (value_error_as_none (he_envelope he (res_body r)))) (\<lambda>envelope.
         case envelope of
           None \<Rightarrow> ret None
         | Some e \<Rightarrow>
             bnd (bnd (select (\<lambda>t. load_supported_context he t (env_work_unit_id e))) of_result) (\<lambda>context.
             case context of
               None \<Rightarrow> ret None
             | Some c \<Rightarrow> bnd (verify_and_summarize he e c) (\<lambda>x. ret (Some x)))))"

text \<open>A stored summary comes back as its document, once the model has taken it; without one, the newest result
  is finalized, and the summary made of it is validated again.\<close>

definition get_host_result_summary :: "host_environment \<Rightarrow> string \<Rightarrow> json option op" where
  "get_host_result_summary he work_unit_id =
     bnd (select (\<lambda>t. newest hsr_created_at (filter (\<lambda>r. hsr_work_unit_id r = work_unit_id) (host_result_summaries t)))) (\<lambda>stored.
     case stored of
       Some r \<Rightarrow> of_result (bind_result (he_summary he (hsr_body r)) (\<lambda>v. Inr (Some v)))
     | None \<Rightarrow>
         bnd (select (\<lambda>t. newest res_created_at (filter (\<lambda>r. res_work_unit_id r = work_unit_id) (result_envelopes t)))) (\<lambda>latest.
         case latest of
           None \<Rightarrow> ret None
         | Some r \<Rightarrow> bnd (finalize_url_check_result he (res_id r)) (\<lambda>x.
             case x of
               None \<Rightarrow> ret None
             | Some (_, s) \<Rightarrow> of_result (bind_result (he_summary he (dump_host_summary s)) (\<lambda>v. Inr (Some v))))))"

definition get_work_unit_status :: "string \<Rightarrow> work_unit_row option op" where
  "get_work_unit_status work_unit_id = select (\<lambda>t. find_row wu_id (work_units t) work_unit_id)"

end
