(* ===== verification/Host_Summary.thy ===== *)
theory Host_Summary
  imports Host_Results Host_Proofs
begin

text \<open>
  What the client is told about a result: the stored report is the verifier's, the summary's verdict is the report's, and
  finalizing a result changes nothing of the scheduler.
\<close>

section \<open>The statements of a finalization\<close>

definition results_only :: "tables \<Rightarrow> tables \<Rightarrow> bool" where
  "results_only t t' \<longleftrightarrow> work_units t' = work_units t \<and> execution_attempts t' = execution_attempts t \<and>
     assignments t' = assignments t \<and> result_envelopes t' = result_envelopes t \<and> result_quarantine t' = result_quarantine t \<and>
     policy_decisions t' = policy_decisions t \<and> route_plans t' = route_plans t \<and> runs t' = runs t"

lemma results_only_trans: "results_only t u \<Longrightarrow> results_only u v \<Longrightarrow> results_only t v"
  by (simp add: results_only_def)

lemma upsert_check_ok: "upsert_check_result i r c t = Inr t' \<Longrightarrow> \<exists>rows. t' = t\<lparr>verifier_check_results := rows\<rparr>"
  unfolding upsert_check_result_def fk_check_Inr by blast

lemma upsert_checks_ok:
  "for_each (\<lambda>(i, c). execute (upsert_check_result (f i c) r c)) ics w = (Inr x, w') \<Longrightarrow>
     plat w' = plat w \<and> (\<exists>rows. current w' = (current w)\<lparr>verifier_check_results := rows\<rparr>)"
proof (induction ics arbitrary: w)
  case Nil
  then show ?case by (auto intro: exI [of _ "verifier_check_results (current w)"])
next
  case (Cons ic ics)
  obtain u y where u: "execute (upsert_check_result (f (fst ic) (snd ic)) r (snd ic)) w = (Inr y, u)"
    and rest: "for_each (\<lambda>(i, c). execute (upsert_check_result (f i c) r c)) ics u = (Inr x, w')"
    using Cons.prems by (cases ic) (auto simp: seq_ok_iff)
  obtain rows where rows: "current u = (current w)\<lparr>verifier_check_results := rows\<rparr>" "plat u = plat w"
    using u upsert_check_ok by (fastforce simp: execute_ok_iff)
  show ?case using Cons.IH [OF rest] rows by auto
qed

lemma persist_verifier_report_ok:
  assumes "idle w" and "persist_verifier_report r w = (Inr x, w')"
  shows "idle w' \<and> results_only (committed w) (committed w') \<and> host_result_summaries (committed w') = host_result_summaries (committed w) \<and>
    (\<exists>v. find_row vrr_id (verifier_reports (committed w')) (vr_verifier_report_id r) = Some v \<and>
       vrr_status v = verifier_status_text (vr_status r) \<and> vrr_recommendation v = vr_recommendation r \<and>
       vrr_body v = canonical (dump_verifier_report r)) \<and>
    events_added [''verifier_report.created''] (committed w) (committed w')"
proof -
  let ?checks = "for_each (\<lambda>(i, c). execute (upsert_check_result (check_result_id (plat w) r i c) r c)) (enumerate 0 (vr_checks r))"
  have cur: "current w = committed w" using assms(1) by (simp add: idle_def)
  obtain t u v y z where t: "upsert_verifier_report r (committed w) = Inr t"
    and u: "?checks (w\<lparr>in_tx := True, current := t\<rparr>) = (Inr y, u)"
    and v: "host_event ''tokenbank.verifier'' ''verifier_report.created'' (''verifier_reports/'' @ vr_verifier_report_id r)
      (dump_verifier_report r) None (Some (vr_work_unit_id r)) u = (Inr z, v)" "w' = commit v"
    using assms cur by (auto simp: persist_verifier_report_def bnd_ok_iff transaction_ok_iff seq_ok_iff execute_ok_iff)
  obtain rows where rows: "current u = t\<lparr>verifier_check_results := rows\<rparr>" using upsert_checks_ok [OF u] by auto
  obtain e where e: "ev_type e = ''verifier_report.created''" "current v = (current u)\<lparr>event_outbox := event_outbox (current u) @ [e]\<rparr>"
    using host_event_ok [OF v(1)] by blast
  have "\<exists>row. find_row vrr_id (verifier_reports t) (vr_verifier_report_id r) = Some row \<and>
       vrr_status row = verifier_status_text (vr_status r) \<and> vrr_recommendation row = vr_recommendation r \<and>
       vrr_body row = canonical (dump_verifier_report r)"
    using t by (auto simp: upsert_verifier_report_def find_row_upsert simp del: canonical.simps split: option.splits)
  moreover have "results_only (committed w) t \<and> host_result_summaries t = host_result_summaries (committed w) \<and>
      event_outbox t = event_outbox (committed w)"
    using t by (auto simp: upsert_verifier_report_def results_only_def simp del: canonical.simps)
  ultimately show ?thesis
    using rows e v(2) by (auto simp: commit_def idle_def results_only_def events_added_def)
qed

lemma keeps_since_report: "keeps (since p n) (persist_verifier_report r)"
  unfolding persist_verifier_report_def host_event_def
  by (intro keeps_bnd keeps_gets keeps_since_transaction keeps_seq keeps_since keeps_since_event keeps_for_each)
    (simp add: case_prod_beta keeps_since)

lemma persist_host_result_summary_ok:
  assumes "idle w" and "persist_host_result_summary s w = (Inr x, w')"
  shows "idle w' \<and> results_only (committed w) (committed w') \<and> verifier_reports (committed w') = verifier_reports (committed w) \<and>
    (\<exists>h. find_row hsr_id (host_result_summaries (committed w')) (summary_id (plat w) s) = Some h \<and>
       hsr_body h = canonical (dump_host_summary s)) \<and>
    events_added [''host_result_summary.created''] (committed w) (committed w')"
proof -
  obtain t r where t: "upsert_host_summary (summary_id (plat w) s) s (committed w) = Inr t"
      "ev_type r = ''host_result_summary.created''" "committed w' = t\<lparr>event_outbox := event_outbox t @ [r]\<rparr>" "idle w'"
    using change_with_event_ok [OF assms(1)] assms(2) by (fastforce simp: persist_host_result_summary_def bnd_ok_iff event_of_def)
  then show ?thesis
    by (auto simp: upsert_host_summary_def find_row_upsert results_only_def events_added_def simp del: canonical.simps
        split: option.splits)
qed

section \<open>The verdict\<close>

lemma summary_status_succeeded:
  "summary_status e r = ''succeeded'' \<longleftrightarrow>
     vr_recommendation r \<in> {''accept'', ''accept_with_warning''} \<and> env_status e \<noteq> Res_quarantined"
  by (auto simp: summary_status_def)

lemma build_host_summary_ok:
  "build_host_summary repr now wu e r = Inr s \<Longrightarrow>
     hs_status s = summary_status e r \<and> hs_verifier_recommendation s = vr_recommendation r \<and>
     hs_verifier_status s = vr_status r \<and> hs_work_unit_id s = wun_work_unit_id wu"
  by (auto simp: build_host_summary_def Let_def)

lemma verify_and_summarize_ok:
  assumes "idle w" and "verify_and_summarize he e (wu, plan, policy) w = (Inr (r, s), w')"
  obtains recipe now generated v u where "he_recipe he (plan_verifier_recipe_id plan) = Inr recipe"
    "run_verifier (plat w) (env_repr (he_route he)) (he_schema he) now recipe e (Some (dump_work_unit wu)) (Some policy) = Inr r"
    "persist_verifier_report r v = (Inr (), u)" "idle v" "committed v = committed w" "plat v = plat w"
    "build_host_summary (env_repr (he_route he)) generated wu e r = Inr s"
    "persist_host_result_summary s (u\<lparr>clock_draws := Suc (clock_draws u)\<rparr>) = (Inr (), w')"
proof -
  have "idle (w\<lparr>clock_draws := Suc (clock_draws w)\<rparr>)" using assms(1) by simp
  then show ?thesis
    using assms(2) that [of _ _ "w\<lparr>clock_draws := Suc (clock_draws w)\<rparr>"]
    by (auto simp: verify_and_summarize_def Let_def bnd_ok_iff seq_ok_iff)
qed

lemma finalize_ok:
  assumes "finalize_url_check_result he i w = (Inr (Some (r, s)), w')"
  obtains row e wu plan policy where "find_row res_id (result_envelopes (current w)) i = Some row" "he_envelope he (res_body row) = Inr e"
    "load_supported_context he (current w) (env_work_unit_id e) = Inr (Some (wu, plan, policy))"
    "verify_and_summarize he e (wu, plan, policy) w = (Inr (r, s), w')"
proof -
  obtain row where row: "find_row res_id (result_envelopes (current w)) i = Some row"
    using assms by (auto simp: finalize_url_check_result_def bnd_ok_iff split: option.splits)
  obtain e where e: "he_envelope he (res_body row) = Inr e"
    using assms row by (cases "he_envelope he (res_body row)" rule: value_error_as_none.cases)
      (auto simp: finalize_url_check_result_def bnd_ok_iff)
  obtain c where c: "load_supported_context he (current w) (env_work_unit_id e) = Inr (Some c)"
    and v: "verify_and_summarize he e c w = (Inr (r, s), w')"
    using assms row e by (auto simp: finalize_url_check_result_def bnd_ok_iff split: option.splits)
  show ?thesis using that [OF row e] c v by (cases c) auto
qed

section \<open>When a finalization returns\<close>

lemma upsert_checks_return:
  "has_row vrr_id (verifier_reports (current w)) (vr_verifier_report_id r) \<Longrightarrow> fresh_ids w \<Longrightarrow>
     \<exists>w'. for_each (\<lambda>(i, c). execute (upsert_check_result (f i c) r c)) ics w = (Inr (), w') \<and> fresh_ids w'"
proof (induction ics arbitrary: w)
  case (Cons ic ics)
  obtain t where t: "upsert_check_result (f (fst ic) (snd ic)) r (snd ic) (current w) = Inr t"
    using Cons.prems(1) unfolding upsert_check_result_def fk_check_def by auto
  obtain rows where rows: "t = (current w)\<lparr>verifier_check_results := rows\<rparr>" using upsert_check_ok [OF t] by blast
  let ?u = "w\<lparr>in_tx := True, current := t\<rparr>"
  have "has_row vrr_id (verifier_reports (current ?u)) (vr_verifier_report_id r)" "fresh_ids ?u"
    using Cons.prems rows by (simp_all add: fresh_ids_def)
  from Cons.IH [OF this] show ?case using t by (cases ic) (simp add: run_seq run_execute)
qed simp

lemma persist_verifier_report_returns:
  assumes idle: "idle w" and fresh: "fresh_ids w" and refs: "has_row wu_id (work_units (committed w)) (vr_work_unit_id r)"
    "has_row res_id (result_envelopes (committed w)) (vr_result_envelope_id r)"
  shows "\<exists>w'. persist_verifier_report r w = (Inr (), w') \<and> fresh_ids w'"
proof -
  let ?checks = "for_each (\<lambda>(i, c). execute (upsert_check_result (check_result_id (plat w) r i c) r c)) (enumerate 0 (vr_checks r))"
  obtain t where t: "upsert_verifier_report r (committed w) = Inr t" using refs unfolding upsert_verifier_report_def fk_check_def by auto
  have new: "has_row vrr_id (verifier_reports t) (vr_verifier_report_id r)" "event_outbox t = event_outbox (committed w)"
    using t by (auto simp: upsert_verifier_report_def has_row_find find_row_upsert simp del: canonical.simps)
  let ?w = "w\<lparr>in_tx := True, current := t\<rparr>"
  have "fresh_ids ?w" using fresh idle new(2) by (simp add: fresh_ids_def idle_def)
  then obtain u where u: "?checks ?w = (Inr (), u)" "fresh_ids u" using upsert_checks_return [of ?w r] new(1) by auto
  obtain v where v: "host_event ''tokenbank.verifier'' ''verifier_report.created'' (''verifier_reports/'' @ vr_verifier_report_id r)
      (dump_verifier_report r) None (Some (vr_work_unit_id r)) u = (Inr (), v)" "fresh_ids v"
    by (rule host_event_returns [OF u(2)])
  have "transaction (seq (execute (upsert_verifier_report r)) (seq ?checks
       (host_event ''tokenbank.verifier'' ''verifier_report.created'' (''verifier_reports/'' @ vr_verifier_report_id r)
          (dump_verifier_report r) None (Some (vr_work_unit_id r))))) w = (Inr (), commit v)"
    by (rule transaction_succeeds [OF idle]) (use idle t u(1) v(1) in \<open>simp add: run_seq run_execute idle_def\<close>)
  moreover have "fresh_ids (commit v)" using v(2) by (simp add: fresh_ids_def commit_def)
  ultimately show ?thesis by (simp add: persist_verifier_report_def run_bnd)
qed

lemma finalize_returns:
  assumes idle: "idle w" and fresh: "fresh_ids w" and row: "find_row res_id (result_envelopes (committed w)) i = Some row"
    and e: "he_envelope he (res_body row) = Inr e"
    and ctx: "load_supported_context he (committed w) (env_work_unit_id e) = Inr (Some (wu, plan, policy))"
    and recipe: "he_recipe he (plan_verifier_recipe_id plan) = Inr recipe"
    and report: "run_verifier (plat w) (env_repr (he_route he)) (he_schema he) (utc_text (utc_clock (plat w) (clock_draws w))) recipe e
      (Some (dump_work_unit wu)) (Some policy) = Inr r"
    and said: "result_summary (env_repr (he_route he)) (env_output e) = Inr line"
    and refs: "has_row wu_id (work_units (committed w)) (vr_work_unit_id r)" "has_row wu_id (work_units (committed w)) (wun_work_unit_id wu)"
      "has_row res_id (result_envelopes (committed w)) (vr_result_envelope_id r)"
  shows "\<exists>s w'. finalize_url_check_result he i w = (Inr (Some (r, s)), w')"
proof -
  let ?w = "w\<lparr>clock_draws := Suc (clock_draws w)\<rparr>"
  have w: "idle ?w" "fresh_ids ?w" using idle fresh by simp_all
  obtain u where u: "persist_verifier_report r ?w = (Inr (), u)" "fresh_ids u"
    using persist_verifier_report_returns [OF w, of r] refs by auto
  note stored = persist_verifier_report_ok [OF w(1) u(1)]
  obtain s where s: "build_host_summary (env_repr (he_route he)) (utc_text (utc_clock (plat u) (clock_draws u))) wu e r = Inr s"
    using said by (simp add: build_host_summary_def Let_def)
  let ?u = "u\<lparr>clock_draws := Suc (clock_draws u)\<rparr>"
  obtain t where t: "upsert_host_summary (summary_id (plat u) s) s (committed ?u) = Inr t" "event_outbox t = event_outbox (committed ?u)"
    using stored refs(2) build_host_summary_ok [OF s] by (simp add: upsert_host_summary_def fk_check_def results_only_def)
  have iu: "idle ?u" "fresh_ids ?u" using stored u(2) by simp_all
  obtain v where v: "change_with_event (upsert_host_summary (summary_id (plat u) s) s)
      (outbox_event ''tokenbank.host'' ''host_result_summary.created'' (''host_result_summaries/'' @ summary_id (plat u) s)
         (dump_host_summary s) (Some (hs_run_id s)) (Some (hs_work_unit_id s)) None None) ?u = (Inr (), v)"
    using change_with_event_returns [OF iu, where f = "upsert_host_summary (summary_id (plat u) s) s", OF t] by metis
  then have "persist_host_result_summary s ?u = (Inr (), v)" by (simp add: persist_host_result_summary_def run_bnd)
  then have "verify_and_summarize he e (wu, plan, policy) w = (Inr (r, s), v)"
    using recipe report u(1) s by (simp add: verify_and_summarize_def Let_def run_bnd run_seq)
  then show ?thesis
    using row e ctx idle by (simp add: finalize_url_check_result_def run_bnd idle_def)
qed

section \<open>Properties\<close>

text \<open>C19. The client is told the verifier's verdict, and only that. When a result is finalized, the report is what the
  verifier computes from the stored envelope, the work unit, the recipe of the route plan and the policy decision; the summary
  says succeeded exactly when the recommendation is accept or accept_with_warning and the envelope is not quarantined; the
  report's row and the summary's row hold the two documents; the two events are logged in that order; and no work unit,
  attempt, assignment, result, plan or decision changes.\<close>

theorem finalized_summary_is_verdict:
  assumes "idle w" and "finalize_url_check_result he i w = (Inr (Some (r, s)), w')"
  shows "\<exists>row e wu plan policy recipe now.
    find_row res_id (result_envelopes (committed w)) i = Some row \<and> he_envelope he (res_body row) = Inr e \<and>
    load_supported_context he (committed w) (env_work_unit_id e) = Inr (Some (wu, plan, policy)) \<and>
    he_recipe he (plan_verifier_recipe_id plan) = Inr recipe \<and>
    run_verifier (plat w) (env_repr (he_route he)) (he_schema he) now recipe e (Some (dump_work_unit wu)) (Some policy) = Inr r \<and>
    (hs_status s = ''succeeded'' \<longleftrightarrow>
       vr_recommendation r \<in> {''accept'', ''accept_with_warning''} \<and> env_status e \<noteq> Res_quarantined) \<and>
    hs_verifier_recommendation s = vr_recommendation r \<and> hs_verifier_status s = vr_status r \<and>
    (\<exists>v. find_row vrr_id (verifier_reports (committed w')) (vr_verifier_report_id r) = Some v \<and>
       vrr_recommendation v = vr_recommendation r \<and> vrr_body v = canonical (dump_verifier_report r)) \<and>
    (\<exists>h. find_row hsr_id (host_result_summaries (committed w')) (summary_id (plat w) s) = Some h \<and>
       hsr_body h = canonical (dump_host_summary s)) \<and>
    events_added [''verifier_report.created'', ''host_result_summary.created''] (committed w) (committed w') \<and>
    results_only (committed w) (committed w')"
proof -
  have cur: "current w = committed w" using assms(1) by (simp add: idle_def)
  obtain row e wu plan policy where row: "find_row res_id (result_envelopes (committed w)) i = Some row"
      "he_envelope he (res_body row) = Inr e" "load_supported_context he (committed w) (env_work_unit_id e) = Inr (Some (wu, plan, policy))"
    and run: "verify_and_summarize he e (wu, plan, policy) w = (Inr (r, s), w')"
    using finalize_ok [OF assms(2)] unfolding cur by metis
  obtain recipe now generated v u where recipe: "he_recipe he (plan_verifier_recipe_id plan) = Inr recipe"
    and report: "run_verifier (plat w) (env_repr (he_route he)) (he_schema he) now recipe e (Some (dump_work_unit wu)) (Some policy) = Inr r"
    and p: "persist_verifier_report r v = (Inr (), u)" and v: "idle v" "committed v = committed w" "plat v = plat w"
    and sum: "build_host_summary (env_repr (he_route he)) generated wu e r = Inr s"
    and q: "persist_host_result_summary s (u\<lparr>clock_draws := Suc (clock_draws u)\<rparr>) = (Inr (), w')"
    by (rule verify_and_summarize_ok [OF assms(1) run])
  note stored = persist_verifier_report_ok [OF v(1) p, unfolded v(2)]
  have u: "idle (u\<lparr>clock_draws := Suc (clock_draws u)\<rparr>)" using stored by simp
  note told = persist_host_result_summary_ok [OF u q, simplified]
  have "plat u = plat w" using keepsD [OF keeps_since_report, of "plat w" 0 v] p v(3) by (simp add: since_def)
  note verdict = build_host_summary_ok [OF sum]
  have events: "events_added [''verifier_report.created'', ''host_result_summary.created''] (committed w) (committed w')"
    using stored told events_added_trans [of "[''verifier_report.created'']" "committed w" "committed u"] by simp
  have only: "results_only (committed w) (committed w')"
    using stored told results_only_trans [of "committed w" "committed u" "committed w'"] by simp
  have vrow: "\<exists>v. find_row vrr_id (verifier_reports (committed w')) (vr_verifier_report_id r) = Some v \<and>
       vrr_recommendation v = vr_recommendation r \<and> vrr_body v = canonical (dump_verifier_report r)"
    using stored told by auto
  have hrow: "\<exists>h. find_row hsr_id (host_result_summaries (committed w')) (summary_id (plat w) s) = Some h \<and>
       hsr_body h = canonical (dump_host_summary s)"
    using told by (simp only: \<open>plat u = plat w\<close>)
  have status: "hs_status s = ''succeeded'' \<longleftrightarrow>
      vr_recommendation r \<in> {''accept'', ''accept_with_warning''} \<and> env_status e \<noteq> Res_quarantined"
    using verdict summary_status_succeeded by simp
  show ?thesis
    using row recipe report status vrow hrow events only verdict
    by (intro exI [of _ row] exI [of _ e] exI [of _ wu] exI [of _ plan] exI [of _ policy] exI [of _ recipe] exI [of _ now])
      (simp del: canonical.simps)
qed

definition told_environment :: host_environment where
  "told_environment =
     \<lparr>he_route = sample_environment, he_worker_json = (\<lambda>_. Inl (ValueError [])), he_recipe = (\<lambda>_. Inr dedup_recipe),
      he_schema = (\<lambda>_ _. None), he_envelope = (\<lambda>_. Inr (sample_envelope clean_output)), he_summary = Inr,
      he_work_unit = (\<lambda>_. Inr ((sample_work_unit [])\<lparr>wun_work_unit_id := ''wu''\<rparr>)),
      he_route_plan = (\<lambda>_. Inr (sample_plan [sample_candidate ''r1'' 1])),
      he_policy_decision = (\<lambda>_. Inr [(''work_unit_id'', JStr ''wu''), (''decision'', JStr ''approved'')])\<rparr>"

definition told_tables :: tables where
  "told_tables = empty_tables
     \<lparr>work_units := [\<lparr>wu_id = ''wu'', wu_run_id = ''run'', wu_status = WU_running, wu_task_type = ''dedup'', wu_task_level = ''L1'',
        wu_body = JObj [(''task_type'', JStr ''dedup'')], wu_created_at = ''t'', wu_updated_at = ''t''\<rparr>],
      route_plans := [\<lparr>rp_id = ''rp'', rp_work_unit_id = ''wu'', rp_status = ''planned'',
        rp_body = JObj [(''verifier_recipe_id'', JStr ''dedup_v0'')], rp_created_at = ''t''\<rparr>],
      policy_decisions := [\<lparr>pd_id = ''pd'', pd_work_unit_id = ''wu'', pd_route_plan_id = ''rp'', pd_decision = ''approved'',
        pd_body = JObj [], pd_created_at = ''t''\<rparr>],
      result_envelopes := [\<lparr>res_id = ''res'', res_work_unit_id = ''wu'', res_attempt_id = ''att'', res_assignment_id = ''asg'',
        res_status = Res_succeeded, res_output_hash = ''h'', res_result_hash = ''h'', res_body = JObj [], res_created_at = ''t''\<rparr>]\<rparr>"

definition told_world :: world where
  "told_world = empty_world\<lparr>committed := told_tables, current := told_tables\<rparr>"

lemma told_selectors:
  "committed told_world = told_tables" "current told_world = told_tables" "idle told_world" "plat told_world = plat empty_world"
  "clock_draws told_world = 0"
  by (simp_all add: told_world_def idle_def empty_world_def)

abbreviation told_unit :: work_unit where
  "told_unit \<equiv> (sample_work_unit [])\<lparr>wun_work_unit_id := ''wu''\<rparr>"

lemma told_report:
  "case run_verifier (plat empty_world) (\<lambda>_. []) (\<lambda>_ _. None) ''2026-01-01T00:00:00Z'' dedup_recipe (sample_envelope clean_output)
      (Some (dump_work_unit told_unit)) (Some [(''work_unit_id'', JStr ''wu''), (''decision'', JStr ''approved'')]) of
     Inl e \<Rightarrow> False
   | Inr r \<Rightarrow> vr_recommendation r = ''accept'' \<and> vr_work_unit_id r = ''wu'' \<and> vr_result_envelope_id r = ''res''"
  by code_simp

lemma told_context:
  "load_supported_context told_environment told_tables ''wu'' = Inr (Some (told_unit, sample_plan [sample_candidate ''r1'' 1],
     [(''work_unit_id'', JStr ''wu''), (''decision'', JStr ''approved'')]))"
  by code_simp

lemma told_finalized: "\<exists>r s w'. finalize_url_check_result told_environment ''res'' told_world = (Inr (Some (r, s)), w') \<and>
   vr_recommendation r = ''accept''"
proof -
  let ?policy = "[(''work_unit_id'', JStr ''wu''), (''decision'', JStr ''approved'')]"
  have he: "he_envelope told_environment v = Inr (sample_envelope clean_output)" "he_recipe told_environment i = Inr dedup_recipe"
    "he_schema told_environment = (\<lambda>_ _. None)" "env_repr (he_route told_environment) = (\<lambda>_. [])" for v i
    by (simp_all add: told_environment_def sample_environment_def)
  have e: "env_work_unit_id (sample_envelope clean_output) = ''wu''" by (simp add: sample_envelope_def)
  have now: "utc_text (utc_clock (plat empty_world) 0) = ''2026-01-01T00:00:00Z''" by (simp add: empty_world_def) code_simp
  have fresh: "fresh_ids told_world"
    by (auto simp: fresh_ids_def told_world_def told_tables_def empty_tables_def empty_world_def intro!: injI)
  obtain row where row: "find_row res_id (result_envelopes told_tables) ''res'' = Some row"
    by (simp add: told_tables_def find_row_def)
  obtain line where line: "result_summary (\<lambda>_. []) (env_output (sample_envelope clean_output)) = Inr line"
    by (simp add: result_summary_def sample_envelope_def get_null_def dget_or_def)
  have refs: "has_row wu_id (work_units told_tables) ''wu''" "has_row res_id (result_envelopes told_tables) ''res''"
    by (simp_all add: told_tables_def has_row_def)
  obtain r where r: "run_verifier (plat empty_world) (\<lambda>_. []) (\<lambda>_ _. None) ''2026-01-01T00:00:00Z'' dedup_recipe
      (sample_envelope clean_output) (Some (dump_work_unit told_unit)) (Some ?policy) = Inr r"
    "vr_recommendation r = ''accept''" "vr_work_unit_id r = ''wu''" "vr_result_envelope_id r = ''res''"
    using told_report by (auto split: sum.splits)
  have "\<exists>s w'. finalize_url_check_result told_environment ''res'' told_world = (Inr (Some (r, s)), w')"
    by (rule finalize_returns [where row = row and e = "sample_envelope clean_output" and wu = told_unit and
        plan = "sample_plan [sample_candidate ''r1'' 1]" and policy = ?policy and recipe = dedup_recipe and line = line])
      (use fresh row line refs r told_context in \<open>simp_all add: told_selectors he now e\<close>)
  then show ?thesis using r(2) by blast
qed

theorem finalized_summary_is_verdict_witness:
  "\<exists>r s w'. finalize_url_check_result told_environment ''res'' told_world = (Inr (Some (r, s)), w') \<and> hs_status s = ''succeeded''"
proof -
  obtain r s w' where run: "finalize_url_check_result told_environment ''res'' told_world = (Inr (Some (r, s)), w')"
    and acc: "vr_recommendation r = ''accept''"
    using told_finalized by blast
  obtain row :: result_row and e where "he_envelope told_environment (res_body row) = Inr e" "hs_status s = ''succeeded'' \<longleftrightarrow>
       vr_recommendation r \<in> {''accept'', ''accept_with_warning''} \<and> env_status e \<noteq> Res_quarantined"
    using finalized_summary_is_verdict [OF told_selectors(3) run] by blast
  then show ?thesis using run acc by (auto simp: told_environment_def sample_envelope_def)
qed

end
