(* ===== verification/Adapters.thy ===== *)
theory Adapters
  imports Verifier Floats
begin

text \<open>
  The backend adapters (\<open>src/tokenbank/backends/adapter.py\<close>, \<open>errors.py\<close>, \<open>usage.py\<close>, \<open>structured_output.py\<close>,
  \<open>local_tool.py\<close>, \<open>local_script.py\<close>, \<open>browser_fetch.py\<close>, \<open>local_model.py\<close>, \<open>api_model_gateway.py\<close>,
  \<open>primary_model_gateway.py\<close>): each turns an execution context into a result envelope.

  An adapter reads the clock only; its state is the number of readings. What the adapters call in \<open>urllib.parse\<close>,
  \<open>posixpath\<close>, \<open>ipaddress\<close> and \<open>html.parser\<close> is one argument, \<open>web_library\<close>: the parser hands its events to the
  handlers below.
\<close>

section \<open>Text\<close>

text \<open>The characters \<open>str.split()\<close> and \<open>str.strip()\<close> treat as whitespace.\<close>

definition py_space :: "char \<Rightarrow> bool" where
  "py_space c \<longleftrightarrow> blank c \<or> c \<in> {CHR 0x1C, CHR 0x1D, CHR 0x1E, CHR 0x1F, CHR 0x85, CHR 0xA0}"

fun split_words :: "string \<Rightarrow> string \<Rightarrow> string list" where
  "split_words cur [] = (if cur = [] then [] else [rev cur])"
| "split_words cur (c # s) =
     (if py_space c then (if cur = [] then split_words [] s else rev cur # split_words [] s)
      else split_words (c # cur) s)"

definition py_split :: "string \<Rightarrow> string list" where
  "py_split s = split_words [] s"

definition squeeze :: "string \<Rightarrow> string" where
  "squeeze s = join '' '' (py_split s)"

definition rstrip_of :: "string \<Rightarrow> string \<Rightarrow> string" where
  "rstrip_of cs s = rev (dropWhile (\<lambda>c. c \<in> set cs) (rev s))"

definition strip_of :: "string \<Rightarrow> string \<Rightarrow> string" where
  "strip_of cs s = rstrip_of cs (dropWhile (\<lambda>c. c \<in> set cs) s)"

text \<open>\<open>s.split(sep, 1)[0]\<close>\<close>

fun before :: "string \<Rightarrow> string \<Rightarrow> string" where
  "before sep [] = []"
| "before sep (c # s) = (if starts_with sep (c # s) then [] else c # before sep s)"

definition is_upper :: "char \<Rightarrow> bool" where
  "is_upper c \<longleftrightarrow> CHR ''A'' \<le> c \<and> c \<le> CHR ''Z''"

definition text_at :: "fields \<Rightarrow> string \<Rightarrow> string option" where
  "text_at d k = (case dget d k of Some (JStr s) \<Rightarrow> Some s | _ \<Rightarrow> None)"

definition given_text :: "fields \<Rightarrow> string \<Rightarrow> string option" where
  "given_text d k = (case text_at d k of None \<Rightarrow> None | Some s \<Rightarrow> if s = [] then None else Some s)"

section \<open>Contexts, readings of the clock\<close>

record execution_context =
  xc_work_unit_id :: string
  xc_run_id :: string
  xc_attempt_id :: string
  xc_assignment_id :: string
  xc_backend_id :: string
  xc_backend_class :: string
  xc_task_type :: string
  xc_input_payload :: fields
  xc_effective_constraints :: fields
  xc_provider_id :: "string option"
  xc_model_id :: "string option"
  xc_worker_id :: "string option"
  xc_capacity_node_id :: "string option"
  xc_provider_token :: "string option"

type_synonym 'a timed = "(nat, 'a) prog"

definition reading :: "platform \<Rightarrow> datetime timed" where
  "reading p = (\<lambda>n. (Inr (utc_clock p n), Suc n))"

text \<open>Microseconds since the first day of the calendar.\<close>

definition days_before_year :: "nat \<Rightarrow> nat" where
  "days_before_year y = (let z = y - 1 in z * 365 + z div 4 - z div 100 + z div 400)"

definition instant_us :: "datetime \<Rightarrow> int" where
  "instant_us d = int (days_before_year (year d) + sum_list (map (days_in_month (year d)) [1..<month d]) + day d) * day_us
     + int (us_of_day d)"

text \<open>\<open>max(0, int((b - a).total_seconds() * 1000))\<close>, in binary64\<close>

definition duration_ms :: "datetime \<Rightarrow> datetime \<Rightarrow> int" where
  "duration_ms a b =
     (let ms = fmul (fdiv (of_int (instant_us b - instant_us a)) 1000000) 1000 in
      if ms \<le> 0 then 0 else \<lfloor>ms\<rfloor>)"

section \<open>Errors and usage\<close>

definition backend_secret_value_markers :: "string list" where
  "backend_secret_value_markers = [''Bearer '', ''sk-'', ''tbk_'', ''TOKENBANK_'']"

definition backend_secret_key_fragments :: "string list" where
  "backend_secret_key_fragments = [''credential'', ''secret'', ''token'']"

fun redact_backend_value :: "json \<Rightarrow> json" where
  "redact_backend_value (JObj kvs) = JObj (map (\<lambda>(k, v). (k,
     if list_ex (\<lambda>f. occurs_in f (lower k)) backend_secret_key_fragments then JStr ''[REDACTED_SECRET]'' else redact_backend_value v)) kvs)"
| "redact_backend_value (JList xs) = JList (map redact_backend_value xs)"
| "redact_backend_value (JStr s) =
     (if list_ex (\<lambda>m. occurs_in m s) backend_secret_value_markers then JStr ''[REDACTED_SECRET]'' else JStr s)"
| "redact_backend_value v = v"

fun object_fields :: "json \<Rightarrow> fields" where
  "object_fields (JObj kvs) = kvs"
| "object_fields v = []"

definition normalize_backend_error ::
  "platform \<Rightarrow> string \<Rightarrow> string \<Rightarrow> bool \<Rightarrow> bool \<Rightarrow> fields \<Rightarrow> backend_error timed" where
  "normalize_backend_error p code message retryable fallbackable details =
     (let redacted = redact_backend_value (JObj details) in
      bnd (of_result (reject_forbidden_keys redacted ''$.redacted_details'')) (\<lambda>_.
      bnd (reading p) (\<lambda>now.
      ret \<lparr>be_error_code = code, be_error_message = message, be_retryable = retryable, be_fallbackable = fallbackable,
           be_redacted_details = object_fields redacted, be_occurred_at = utc_text now\<rparr>)))"

definition make_usage_record ::
  "platform \<Rightarrow> execution_context \<Rightarrow> int \<Rightarrow> int \<Rightarrow> string \<Rightarrow> string \<Rightarrow> usage_record timed" where
  "make_usage_record p c estimated actual src confidence =
     (let h = canonical_json_hash (sha256 p) (float_repr p)
        (JObj [(''work_unit_id'', JStr (xc_work_unit_id c)), (''attempt_id'', JStr (xc_attempt_id c)),
               (''backend_id'', JStr (xc_backend_id c)), (''input_units'', JInt 0), (''output_units'', JInt 0),
               (''estimated_cost_micros'', JInt estimated), (''actual_cost_micros'', JInt actual),
               (''cost_source'', JStr src), (''cost_confidence'', JStr confidence)]) in
      bnd (of_result (non_empty_str (xc_work_unit_id c))) (\<lambda>wu.
      bnd (of_result (non_empty_str (xc_attempt_id c))) (\<lambda>att.
      bnd (of_result (non_empty_str (xc_backend_id c))) (\<lambda>bid.
      bnd (reading p) (\<lambda>now.
      ret \<lparr>ur_usage_record_id = ''usage_'' @ take 24 h, ur_work_unit_id = wu, ur_attempt_id = att, ur_backend_id = bid,
           ur_input_units = 0, ur_output_units = 0, ur_estimated_cost_micros = estimated,
           ur_actual_cost_micros = actual, ur_cost_source = src, ur_cost_confidence = confidence,
           ur_recorded_at = utc_text now\<rparr>)))))"

section \<open>The envelope\<close>

definition known_backend_classes :: "string list" where
  "known_backend_classes =
     [''api_model_gateway'', ''browser_fetch'', ''local_model'', ''local_script'', ''local_tool'', ''primary_model_gateway'']"

definition backend_class_or_none :: "string \<Rightarrow> string option" where
  "backend_class_or_none v = (if v \<in> set known_backend_classes then Some v else None)"

definition aggregate_cost_metadata :: "usage_record list \<Rightarrow> string \<times> string" where
  "aggregate_cost_metadata records =
     (case records of
        [] \<Rightarrow> (''not_applicable'', ''not_applicable'')
      | r # rs \<Rightarrow> if list_ex (\<lambda>x. ur_cost_source x \<noteq> ur_cost_source r) (r # rs) then (''estimated'', ''low'')
                  else (ur_cost_source r, ur_cost_confidence r))"

record envelope_parts =
  ep_output :: fields
  ep_status :: result_status
  ep_errors :: "backend_error list"
  ep_redacted_logs :: "string list"
  ep_provider_id :: "string option"
  ep_model_id :: "string option"

definition result_payload :: "execution_context \<Rightarrow> string \<Rightarrow> result_status \<Rightarrow> usage_record list \<Rightarrow> backend_error list \<Rightarrow> json" where
  "result_payload c out_hash st records errors = JObj
     [(''work_unit_id'', JStr (xc_work_unit_id c)), (''attempt_id'', JStr (xc_attempt_id c)),
      (''assignment_id'', JStr (xc_assignment_id c)), (''backend_id'', JStr (xc_backend_id c)),
      (''backend_class'', JStr (xc_backend_class c)), (''output_hash'', JStr out_hash),
      (''status'', JStr (result_status_text st)),
      (''usage_record_ids'', JList (map (\<lambda>r. JStr (ur_usage_record_id r)) records)),
      (''error_codes'', JList (map (\<lambda>e. JStr (be_error_code e)) errors))]"

definition build_result_envelope ::
  "platform \<Rightarrow> execution_context \<Rightarrow> envelope_parts \<Rightarrow> usage_record list \<Rightarrow> datetime \<Rightarrow> result_envelope timed" where
  "build_result_envelope p c parts records started_at =
     bnd (reading p) (\<lambda>completed_at.
     let out_hash = output_hash (sha256 p) (float_repr p) (JObj (ep_output parts));
         payload = result_payload c out_hash (ep_status parts) records (ep_errors parts);
         costs = aggregate_cost_metadata records in
     bnd (of_result (reject_forbidden_keys (JObj (ep_output parts)) ''$.output'')) (\<lambda>_.
     bnd (of_result (non_empty_str (xc_work_unit_id c))) (\<lambda>wu.
     bnd (of_result (non_empty_str (xc_run_id c))) (\<lambda>run.
     bnd (of_result (non_empty_str (xc_attempt_id c))) (\<lambda>att.
     bnd (of_result (non_empty_str (xc_assignment_id c))) (\<lambda>asg.
     bnd (of_result (non_empty_str (xc_backend_id c))) (\<lambda>bid.
     ret \<lparr>env_result_envelope_id = ''res_'' @ take 24 (canonical_json_hash (sha256 p) (float_repr p) payload),
          env_work_unit_id = wu, env_run_id = run, env_attempt_id = att, env_assignment_id = asg,
          env_status = ep_status parts, env_backend_id = Some bid,
          env_backend_class = backend_class_or_none (xc_backend_class c),
          env_provider_id = map_option strip (case ep_provider_id parts of None \<Rightarrow> xc_provider_id c | Some i \<Rightarrow> Some i),
          env_model_id = map_option strip (case ep_model_id parts of None \<Rightarrow> xc_model_id c | Some i \<Rightarrow> Some i),
          env_worker_id = map_option strip (xc_worker_id c), env_capacity_node_id = map_option strip (xc_capacity_node_id c),
          env_output = ep_output parts, env_output_hash = out_hash,
          env_result_hash = result_hash (sha256 p) (float_repr p) payload, env_artifact_refs = [],
          env_usage_records = records, env_cost_estimate_micros = sum_list (map ur_estimated_cost_micros records),
          env_actual_cost_micros = sum_list (map ur_actual_cost_micros records),
          env_cost_source = fst costs, env_cost_confidence = snd costs, env_redacted_logs = map strip (ep_redacted_logs parts),
          env_errors = ep_errors parts, env_backend_error = (case ep_errors parts of [] \<Rightarrow> None | e # _ \<Rightarrow> Some e),
          env_started_at = Some (utc_text started_at), env_completed_at = utc_text completed_at,
          env_duration_ms = Some (duration_ms started_at completed_at)\<rparr>)))))))"

definition success :: "fields \<Rightarrow> string list \<Rightarrow> envelope_parts" where
  "success out logs = \<lparr>ep_output = out, ep_status = Res_succeeded, ep_errors = [], ep_redacted_logs = logs,
     ep_provider_id = None, ep_model_id = None\<rparr>"

definition failure :: "string \<Rightarrow> backend_error \<Rightarrow> string list \<Rightarrow> envelope_parts" where
  "failure reason e logs = \<lparr>ep_output = [(''ok'', JBool False), (''reason'', JStr reason)], ep_status = Res_failed,
     ep_errors = [e], ep_redacted_logs = logs, ep_provider_id = None, ep_model_id = None\<rparr>"

section \<open>Local script\<close>

text \<open>Exact deduplication by canonical hash, in the order of the items.\<close>

fun dedup_items :: "(json \<Rightarrow> string) \<Rightarrow> json list \<Rightarrow> string list \<Rightarrow> json list \<times> nat" where
  "dedup_items h [] seen = ([], 0)"
| "dedup_items h (x # xs) seen =
     (if h x \<in> set seen then (let (u, n) = dedup_items h xs seen in (u, n + 1))
      else (let (u, n) = dedup_items h xs (h x # seen) in (x # u, n)))"

definition dedup_output :: "platform \<Rightarrow> json list \<Rightarrow> fields" where
  "dedup_output p items =
     (let (unique, duplicates) = dedup_items (canonical_json_hash (sha256 p) (float_repr p)) items [] in
      [(''ok'', JBool True), (''tool'', JStr ''dedup''), (''unique_items'', JList unique),
       (''duplicate_count'', JInt (int duplicates)), (''local_script_scaffold'', JBool True)])"

definition script_denied :: "fields \<Rightarrow> bool result" where
  "script_denied constraints =
     bind_result (py_iter (dget_or (JList []) constraints ''allowed_script_hashes'')) (\<lambda>allowed.
     if \<not> list_all hashable allowed then Inl (TypeError ''unhashable type'')
     else let h = get_null constraints ''script_hash'' in
       if \<not> truthy h then Inr False
       else if \<not> hashable h then Inl (TypeError ''unhashable type'')
       else Inr (\<not> list_ex (py_eq h) allowed))"

definition local_script_execute :: "platform \<Rightarrow> execution_context \<Rightarrow> result_envelope timed" where
  "local_script_execute p c =
     bnd (reading p) (\<lambda>started_at.
     bnd (make_usage_record p c 0 0 ''zero_internal_phase0'' ''high'') (\<lambda>usage.
     bnd (of_result (script_denied (xc_effective_constraints c))) (\<lambda>denied.
     if denied then
       bnd (normalize_backend_error p ''local_script.hash_not_allowed'' ''local_script scaffold denied unlisted script hash'' False False
              [(''script_hash'', get_null (xc_effective_constraints c) ''script_hash'')]) (\<lambda>e.
       build_result_envelope p c (failure ''script_hash_not_allowed'' e [''dedup local_script hash allowlist denied execution''])
         [usage] started_at)
     else (case dget_or (JList []) (xc_input_payload c) ''items'' of
         JList items \<Rightarrow>
           build_result_envelope p c (success (dedup_output p items) [''dedup local_script scaffold completed'']) [usage] started_at
       | _ \<Rightarrow>
           bnd (normalize_backend_error p ''local_script.bad_input'' ''dedup expects an items list'' False False []) (\<lambda>e.
           build_result_envelope p c (failure ''items_must_be_list'' e []) [usage] started_at)))))"

section \<open>Local model, unsupported classes\<close>

definition local_model_execute :: "platform \<Rightarrow> execution_context \<Rightarrow> result_envelope timed" where
  "local_model_execute p c =
     bnd (reading p) (\<lambda>started_at.
     bnd (make_usage_record p c 0 0 ''zero_internal_phase0'' ''low'') (\<lambda>usage.
     bnd (normalize_backend_error p ''local_model.not_configured'' ''local_model backend scaffold is not configured in WP9''
            False True []) (\<lambda>e.
     build_result_envelope p c (failure ''local_model_not_configured'' e []) [usage] started_at)))"

definition unsupported_execute :: "platform \<Rightarrow> execution_context \<Rightarrow> result_envelope timed" where
  "unsupported_execute p c =
     bnd (reading p) (\<lambda>started_at.
     bnd (normalize_backend_error p ''backend.unsupported'' (''unsupported backend_class: '' @ xc_backend_class c) False True
            [(''backend_id'', JStr (xc_backend_id c))]) (\<lambda>e.
     bnd (make_usage_record p c 0 0 ''not_applicable'' ''not_applicable'') (\<lambda>usage.
     build_result_envelope p c (failure ''unsupported_backend'' e []) [usage] started_at)))"

section \<open>Model gateways\<close>

definition gateway_boundary_error :: "platform \<Rightarrow> execution_context \<Rightarrow> backend_error option timed" where
  "gateway_boundary_error p c =
     (if xc_worker_id c \<noteq> Some control_plane_gateway_worker_id then
        bnd (normalize_backend_error p ''api_model_gateway.worker_direct_denied''
               ''API model gateway must run through control-plane gateway'' False False
               [(''worker_id'', str_opt (xc_worker_id c))]) (\<lambda>e. ret (Some e))
      else if xc_capacity_node_id c \<noteq> Some (''capnode:worker:'' @ control_plane_gateway_worker_id) then
        bnd (normalize_backend_error p ''api_model_gateway.capacity_node_denied''
               ''API model gateway capacity node must be control-plane gateway'' False False
               [(''capacity_node_id'', str_opt (xc_capacity_node_id c))]) (\<lambda>e. ret (Some e))
      else ret None)"

definition validate_structured_output :: "fields \<Rightarrow> bool" where
  "validate_structured_output out \<longleftrightarrow> dget out ''structured_output'' \<noteq> None"

definition repair_structured_output_stub :: "fields \<Rightarrow> fields" where
  "repair_structured_output_stub out =
     (if validate_structured_output out then out
      else [(''structured_output'', JObj out), (''repair_applied'', JBool True)])"

definition default_topic_labels :: "string list" where
  "default_topic_labels = [''engineering'', ''finance'', ''policy'', ''science'', ''general'']"

definition default_claim_types :: "string list" where
  "default_claim_types = [''factual'', ''metric'', ''policy'', ''product'', ''other'']"

fun text_value :: "json \<Rightarrow> string option" where
  "text_value (JStr s) = Some s"
| "text_value v = None"

definition texts_at :: "fields \<Rightarrow> string \<Rightarrow> string list" where
  "texts_at d k = (case get_null d k of JList xs \<Rightarrow> List.map_filter text_value xs | _ \<Rightarrow> [])"

definition topic_allowed_labels :: "fields \<Rightarrow> string list" where
  "topic_allowed_labels payload =
     (let labels = filter (\<lambda>s. s \<noteq> []) (texts_at payload ''allowed_labels'') in
      if labels \<noteq> [] then labels else default_topic_labels)"

definition topic_keywords :: "(string \<times> string list) list" where
  "topic_keywords =
     [(''engineering'', [''api'', ''code'', ''software'', ''database'', ''worker'']),
      (''finance'', [''cost'', ''revenue'', ''budget'', ''price'', ''market'']),
      (''policy'', [''policy'', ''regulation'', ''compliance'', ''governance'']),
      (''science'', [''research'', ''experiment'', ''paper'', ''science'', ''evidence''])]"

definition mentions :: "string list \<Rightarrow> string \<Rightarrow> bool" where
  "mentions ws s \<longleftrightarrow> list_ex (\<lambda>w. occurs_in w s) ws"

definition classify_topic_stub :: "(json \<Rightarrow> string) \<Rightarrow> fields \<Rightarrow> fields" where
  "classify_topic_stub repr payload =
     (let labels = topic_allowed_labels payload;
          t = lower (py_str repr (or_json (or_json (get_null payload ''text'') (get_null payload ''content'')) (JStr [])));
          (selected, confidence) = (case find (\<lambda>(label, ws). label \<in> set labels \<and> mentions ws t) topic_keywords of
              Some (label, ws) \<Rightarrow> (label, fl (88 / 100))
            | None \<Rightarrow> (hd labels, fl (72 / 100))) in
      [(''ok'', JBool True), (''label'', JStr selected), (''confidence'', JFloat confidence),
       (''allowed_labels'', JList (map JStr labels)), (''gateway'', JStr ''api_model_gateway''),
       (''provider_call_executed'', JBool False), (''control_plane_only'', JBool True), (''deterministic_stub'', JBool True)])"

definition claim_source_of :: "json \<Rightarrow> (string \<times> string) option" where
  "claim_source_of source =
     (case source of
        JObj d \<Rightarrow>
          (case (or_json (get_null d ''source_id'') (get_null d ''id''), or_json (get_null d ''text'') (get_null d ''content'')) of
             (JStr i, JStr t) \<Rightarrow> if i = [] then None else Some (i, t)
           | _ \<Rightarrow> None)
      | _ \<Rightarrow> None)"

definition claim_source :: "fields \<Rightarrow> string \<times> string" where
  "claim_source payload =
     (case List.map_filter claim_source_of (case get_null payload ''sources'' of JList xs \<Rightarrow> xs | _ \<Rightarrow> []) of
        s # _ \<Rightarrow> s
      | [] \<Rightarrow> (case given_text payload ''source_id'' of None \<Rightarrow> ''src_claim_1'' | Some i \<Rightarrow> i,
               case or_json (get_null payload ''text'') (get_null payload ''content'') of
                 JStr t \<Rightarrow> if t = [] then ''No claim text provided.'' else t
               | _ \<Rightarrow> ''No claim text provided.''))"

definition claim_allowed_types :: "fields \<Rightarrow> string list" where
  "claim_allowed_types payload =
     (let types = filter (\<lambda>s. s \<in> set default_claim_types) (texts_at payload ''allowed_claim_types'') in
      if types \<noteq> [] then types else default_claim_types)"

definition claim_type_of :: "string \<Rightarrow> string list \<Rightarrow> string" where
  "claim_type_of t allowed =
     (let s = lower t;
          preferred = (if mentions [''cost'', ''revenue'', ''price'', ''budget''] s then ''metric''
            else if mentions [''policy'', ''regulation'', ''compliance''] s then ''policy''
            else if mentions [''product'', ''api'', ''gateway'', ''model''] s then ''product'' else ''factual'') in
      if preferred \<in> set allowed then preferred else hd allowed)"

definition first_sentence :: "string \<Rightarrow> string" where
  "first_sentence t =
     (let stripped = squeeze t in
      if stripped = [] then ''No claim text provided.''
      else rstrip_of ''.!?'' (case find (\<lambda>sep. occurs_in sep stripped) [''. '', ''! '', ''? ''] of
          Some sep \<Rightarrow> before sep stripped
        | None \<Rightarrow> stripped) @ ''.'')"

definition claim_entity :: "fields \<Rightarrow> string \<Rightarrow> string" where
  "claim_entity payload claim_text =
     (case given_text payload ''entity'' of
        Some e \<Rightarrow> e
      | None \<Rightarrow>
          (case find (\<lambda>w. w \<noteq> [] \<and> is_upper (hd w) \<and> lower w \<notin> {''the'', ''a'', ''an''})
                  (py_split (filter (\<lambda>c. c \<noteq> CHR ''.'') claim_text)) of
             Some w \<Rightarrow> strip_of '',;:'' w
           | None \<Rightarrow> ''TokenBank''))"

definition extract_claims_stub :: "fields \<Rightarrow> fields" where
  "extract_claims_stub payload =
     (let (source_id, t) = claim_source payload; types = claim_allowed_types payload; claim_text = first_sentence t in
      [(''ok'', JBool True),
       (''claims'', JList [JObj
          [(''claim_text'', JStr claim_text), (''entity'', JStr (claim_entity payload claim_text)),
           (''claim_type'', JStr (claim_type_of t types)), (''confidence'', JFloat (fl (86 / 100))),
           (''source_post_refs'', JList [JStr source_id]), (''evidence_hint'', JStr claim_text)]]),
       (''source_ids'', JList [JStr source_id]), (''allowed_claim_types'', JList (map JStr types)),
       (''gateway'', JStr ''api_model_gateway''), (''provider_call_executed'', JBool False),
       (''control_plane_only'', JBool True), (''deterministic_stub'', JBool True)])"

definition or_default :: "string option \<Rightarrow> string \<Rightarrow> string" where
  "or_default v d = (case v of None \<Rightarrow> d | Some s \<Rightarrow> if s = [] then d else s)"

definition on_gateway :: "execution_context \<Rightarrow> envelope_parts \<Rightarrow> envelope_parts" where
  "on_gateway c parts = parts\<lparr>ep_provider_id := xc_provider_id c, ep_model_id := xc_model_id c\<rparr>"

definition credentials_missing ::
  "platform \<Rightarrow> execution_context \<Rightarrow> string \<Rightarrow> string \<Rightarrow> usage_record \<Rightarrow> datetime \<Rightarrow> result_envelope timed" where
  "credentials_missing p c gateway message usage started_at =
     bnd (normalize_backend_error p (gateway @ ''.credentials_missing'') message False True
            [(''provider_id'', JStr (or_default (xc_provider_id c) ''default''))]) (\<lambda>e.
     build_result_envelope p c (on_gateway c (failure ''credentials_missing'' e [gateway @ '' credential lookup failed'']))
       [usage] started_at)"

definition scaffold_output :: "string \<Rightarrow> fields \<Rightarrow> fields" where
  "scaffold_output gateway extra = repair_structured_output_stub
     ([(''ok'', JBool True), (''gateway'', JStr gateway), (''structured_output'', JObj []),
       (''provider_call_executed'', JBool False), (''control_plane_only'', JBool True)] @ extra)"

definition api_model_gateway_execute :: "platform \<Rightarrow> (json \<Rightarrow> string) \<Rightarrow> execution_context \<Rightarrow> result_envelope timed" where
  "api_model_gateway_execute p repr c =
     bnd (reading p) (\<lambda>started_at.
     bnd (make_usage_record p c 1000 0 ''estimated'' ''low'') (\<lambda>usage.
     bnd (gateway_boundary_error p c) (\<lambda>boundary.
     case boundary of
       Some e \<Rightarrow> build_result_envelope p c (on_gateway c (failure (be_error_code e) e [])) [usage] started_at
     | None \<Rightarrow>
         if xc_task_type c = ''topic_classification'' then
           build_result_envelope p c
             ((success (classify_topic_stub repr (xc_input_payload c))
                 [''api_model_gateway deterministic topic stub completed on control plane''])
               \<lparr>ep_provider_id := xc_provider_id c, ep_model_id := Some (or_default (xc_model_id c) ''model:p0_topic_stub'')\<rparr>)
             [usage] started_at
         else if xc_task_type c = ''claim_extraction'' then
           build_result_envelope p c
             ((success (extract_claims_stub (xc_input_payload c))
                 [''api_model_gateway deterministic claim stub completed on control plane''])
               \<lparr>ep_provider_id := xc_provider_id c, ep_model_id := Some (or_default (xc_model_id c) ''model:p0_claim_stub'')\<rparr>)
             [usage] started_at
         else if or_default (xc_provider_token c) [] = [] then
           credentials_missing p c ''api_model_gateway'' ''API model gateway provider credential is not configured'' usage started_at
         else build_result_envelope p c
           (on_gateway c (success (scaffold_output ''api_model_gateway'' []) [''api_model_gateway scaffold completed on control plane'']))
           [usage] started_at)))"

definition primary_model_gateway_execute :: "platform \<Rightarrow> execution_context \<Rightarrow> result_envelope timed" where
  "primary_model_gateway_execute p c =
     bnd (reading p) (\<lambda>started_at.
     bnd (make_usage_record p c 1000 0 ''estimated'' ''low'') (\<lambda>usage.
     bnd (gateway_boundary_error p c) (\<lambda>boundary.
     case boundary of
       Some e \<Rightarrow> build_result_envelope p c (on_gateway c (failure (be_error_code e) e [])) [usage] started_at
     | None \<Rightarrow>
         if or_default (xc_provider_token c) [] = [] then
           credentials_missing p c ''primary_model_gateway'' ''Primary model gateway provider credential is not configured''
             usage started_at
         else build_result_envelope p c
           (on_gateway c (success (scaffold_output ''primary_model_gateway'' [(''fallback_path'', JBool True)])
              [''primary_model_gateway scaffold completed on control plane'']))
           [usage] started_at)))"

section \<open>URLs and pages\<close>

record url_parts =
  up_scheme :: string
  up_netloc :: string
  up_path :: string
  up_query :: string
  up_hostname :: "string option"
  up_port :: "int option result"

datatype html_event = Start_tag string | End_tag string | Data string

record ip_kind =
  ip_is_private :: bool
  ip_is_loopback :: bool
  ip_is_link_local :: bool
  ip_is_reserved :: bool

text \<open>\<open>lib_ip_address\<close> is None when \<open>ipaddress.ip_address\<close> raises ValueError.\<close>

record web_library =
  lib_urlsplit :: "string \<Rightarrow> url_parts result"
  lib_normpath :: "string \<Rightarrow> string"
  lib_quote :: "string \<Rightarrow> string"
  lib_parse_qsl :: "string \<Rightarrow> (string \<times> string) list result"
  lib_urlencode :: "(string \<times> string) list \<Rightarrow> string"
  lib_urlunsplit :: "string \<Rightarrow> string \<Rightarrow> string \<Rightarrow> string \<Rightarrow> string"
  lib_ip_address :: "string \<Rightarrow> ip_kind option"
  lib_html_events :: "string \<Rightarrow> html_event list"

definition py_strip :: "string \<Rightarrow> string" where
  "py_strip s = rev (dropWhile py_space (rev (dropWhile py_space s)))"

definition pair_key :: "string \<times> string \<Rightarrow> string list" where
  "pair_key kv = [fst kv, snd kv]"

definition canonical_url :: "web_library \<Rightarrow> string \<Rightarrow> string result" where
  "canonical_url lib url =
     bind_result (lib_urlsplit lib (py_strip url)) (\<lambda>parts.
     bind_result (up_port parts) (\<lambda>port.
     let scheme = lower (up_scheme parts);
         hostname = (case up_hostname parts of None \<Rightarrow> [] | Some h \<Rightarrow> lower h);
         netloc = (case port of None \<Rightarrow> hostname
           | Some n \<Rightarrow> if scheme = ''http'' \<and> n = 80 \<or> scheme = ''https'' \<and> n = 443 then hostname
                       else hostname @ '':'' @ show_int n);
         raw_path = (if up_path parts = [] then ''/'' else up_path parts);
         normal = lib_normpath lib raw_path;
         slashed = (if ends_with ''/'' raw_path \<and> \<not> ends_with ''/'' normal then normal @ ''/'' else normal);
         path = lib_quote lib (if starts_with ''/'' slashed then slashed else ''/'' @ slashed) in
     bind_result (lib_parse_qsl lib (up_query parts)) (\<lambda>pairs.
     Inr (lib_urlunsplit lib scheme netloc path (lib_urlencode lib (sort_key pair_key pairs))))))"

lemma get_null_size: "size (get_null d k) < size (JObj d)"
proof (cases "dget d k")
  case None
  then show ?thesis by (simp add: get_null_def dget_or_def)
next
  case (Some v)
  then have "(k, v) \<in> set d" by (rule dget_in_set)
  then show ?thesis using Some json_size_field [of k v d] by (simp add: get_null_def dget_or_def)
qed

text \<open>\<open>_extract_url\<close> over one payload; it descends into nested objects.\<close>

function extract_url :: "json \<Rightarrow> string option" where
  "extract_url (JObj d) =
     (case text_at d ''url'' of
        Some u \<Rightarrow> Some u
      | None \<Rightarrow> (case text_at d ''target_url'' of
          Some u \<Rightarrow> Some u
        | None \<Rightarrow> (case extract_url (get_null d ''input'') of
            Some u \<Rightarrow> Some u
          | None \<Rightarrow> (case extract_url (get_null d ''inline_input'') of
              Some u \<Rightarrow> Some u
            | None \<Rightarrow> extract_url (get_null d ''body'')))))"
| "extract_url JNull = None" | "extract_url (JBool b) = None" | "extract_url (JInt i) = None"
| "extract_url (JFloat q) = None" | "extract_url (JStr s) = None" | "extract_url (JList xs) = None"
  by pat_completeness auto

termination
  by (relation "measure size") (simp_all add: get_null_size [simplified])

definition extract_url_from :: "fields list \<Rightarrow> string option" where
  "extract_url_from payloads = (case List.map_filter (\<lambda>d. extract_url (JObj d)) payloads of [] \<Rightarrow> None | u # _ \<Rightarrow> Some u)"

definition is_http_url :: "web_library \<Rightarrow> string option \<Rightarrow> bool result" where
  "is_http_url lib url =
     (case url of
        None \<Rightarrow> Inr False
      | Some u \<Rightarrow> if u = [] then Inr False
          else bind_result (lib_urlsplit lib u) (\<lambda>parts.
               Inr (up_scheme parts \<in> {''http'', ''https''} \<and> up_netloc parts \<noteq> [])))"

definition url_output :: "string \<Rightarrow> url_parts \<Rightarrow> fields" where
  "url_output normalized parts =
     [(''ok'', JBool True), (''tool'', JStr ''url_check''), (''url'', JStr normalized), (''scheme'', JStr (up_scheme parts)),
      (''host'', str_opt (up_hostname parts)), (''network_checked'', JBool False), (''local_tool_stub'', JBool True),
      (''phase0_local_stub'', JBool True)]"

definition local_tool_execute :: "platform \<Rightarrow> web_library \<Rightarrow> execution_context \<Rightarrow> result_envelope timed" where
  "local_tool_execute p lib c =
     (let url = extract_url_from [xc_input_payload c, xc_effective_constraints c] in
      bnd (reading p) (\<lambda>started_at.
      bnd (make_usage_record p c 0 0 ''zero_internal_phase0'' ''high'') (\<lambda>usage.
      bnd (of_result (is_http_url lib url)) (\<lambda>ok.
      if \<not> ok then
        bnd (normalize_backend_error p ''local_tool.bad_input'' ''url_check requires an explicit http or https URL'' False False
               [(''task_type'', JStr (xc_task_type c))]) (\<lambda>e.
        build_result_envelope p c (failure ''invalid_url'' e [''url_check rejected invalid input'']) [usage] started_at)
      else
        bnd (of_result (canonical_url lib (the url))) (\<lambda>normalized.
        bnd (of_result (lib_urlsplit lib normalized)) (\<lambda>parts.
        build_result_envelope p c (success (url_output normalized parts) [''url_check completed without external provider call''])
          [usage] started_at))))))"

definition is_private_or_local_host :: "web_library \<Rightarrow> string \<Rightarrow> bool" where
  "is_private_or_local_host lib host \<longleftrightarrow>
     lower host \<in> {''localhost'', ''localhost.localdomain''} \<or>
     (case lib_ip_address lib (lower host) of
        None \<Rightarrow> False
      | Some a \<Rightarrow> ip_is_private a \<or> ip_is_loopback a \<or> ip_is_link_local a \<or> ip_is_reserved a)"

text \<open>The refusals of the browser, in the order of the code: code, message, fallbackable and details.\<close>

definition browser_refusal ::
  "web_library \<Rightarrow> execution_context \<Rightarrow> string option \<Rightarrow> (string \<times> string \<times> bool \<times> fields) option result" where
  "browser_refusal lib c url =
     (case url of
        None \<Rightarrow> Inr (Some (''browser_fetch.bad_input'', ''browser_fetch requires an explicit URL'', False, []))
      | Some u \<Rightarrow>
          if u = [] then Inr (Some (''browser_fetch.bad_input'', ''browser_fetch requires an explicit URL'', False, []))
          else bind_result (lib_urlsplit lib u) (\<lambda>parts.
            if up_scheme parts \<notin> {''http'', ''https''} \<or> up_netloc parts = [] then
              Inr (Some (''browser_fetch.bad_input'', ''browser_fetch requires http or https URL'', False, []))
            else if is_private_or_local_host lib (case up_hostname parts of None \<Rightarrow> [] | Some h \<Rightarrow> h) then
              Inr (Some (''browser_fetch.private_ip_denied'', ''browser_fetch denied private or local host'', True,
                [(''host'', str_opt (up_hostname parts))]))
            else (case text_at (xc_input_payload c) ''redirect_url'' of
                Some r \<Rightarrow>
                  if r \<noteq> u then bind_result (lib_urlsplit lib r) (\<lambda>rp.
                    Inr (Some (''browser_fetch.redirect_denied'', ''browser_fetch denied redirect in P0 scaffold'', True,
                      [(''redirect_host'', str_opt (up_hostname rp))])))
                  else Inr None
              | None \<Rightarrow> Inr None)))"

record page =
  pg_in_title :: bool
  pg_title_parts :: "string list"
  pg_text_parts :: "string list"

fun handle_html :: "page \<Rightarrow> html_event \<Rightarrow> page" where
  "handle_html pg (Start_tag t) = (if lower t = ''title'' then pg\<lparr>pg_in_title := True\<rparr> else pg)"
| "handle_html pg (End_tag t) = (if lower t = ''title'' then pg\<lparr>pg_in_title := False\<rparr> else pg)"
| "handle_html pg (Data s) =
     (let cleaned = squeeze s in
      if cleaned = [] then pg
      else if pg_in_title pg then pg\<lparr>pg_title_parts := pg_title_parts pg @ [cleaned]\<rparr>
      else pg\<lparr>pg_text_parts := pg_text_parts pg @ [cleaned]\<rparr>)"

definition parse_page :: "web_library \<Rightarrow> string \<Rightarrow> page" where
  "parse_page lib html =
     foldl handle_html \<lparr>pg_in_title = False, pg_title_parts = [], pg_text_parts = []\<rparr> (lib_html_events lib html)"

definition put_text :: "string \<Rightarrow> string \<Rightarrow> fields \<Rightarrow> fields" where
  "put_text k v d = (if v = [] then d else dput k (JStr v) d)"

definition prompt_injection_markers :: "string list" where
  "prompt_injection_markers =
     [''ignore previous instructions'', ''ignore all previous instructions'', ''system prompt'', ''developer message'',
      ''reveal your instructions'']"

definition extracted_page :: "web_library \<Rightarrow> fields \<Rightarrow> string \<Rightarrow> fields" where
  "extracted_page lib payload url =
     (let start = [(''url'', JStr url), (''source'', JStr ''explicit_static_input''), (''untrusted_content'', JBool True)];
          body = (case given_text payload ''html'' of
              Some html \<Rightarrow> let pg = parse_page lib html in
                put_text ''text_preview'' (take 500 (py_strip (join '' '' (pg_text_parts pg))))
                  (put_text ''title'' (py_strip (join '' '' (pg_title_parts pg))) start)
            | None \<Rightarrow> (case given_text payload ''text'' of
                Some t \<Rightarrow> dput ''text_preview'' (JStr (take 500 (squeeze t))) start
              | None \<Rightarrow> start)) in
      case given_text payload ''title'' of None \<Rightarrow> body | Some t \<Rightarrow> dput ''title'' (JStr (take 200 (squeeze t))) body)"

definition page_source :: "fields \<Rightarrow> string" where
  "page_source payload =
     (case text_at payload ''html'' of Some h \<Rightarrow> h | None \<Rightarrow> (case text_at payload ''text'' of Some t \<Rightarrow> t | None \<Rightarrow> []))"

definition page_output :: "web_library \<Rightarrow> fields \<Rightarrow> string \<Rightarrow> fields" where
  "page_output lib payload url =
     [(''ok'', JBool True), (''tool'', JStr ''webpage_extraction''), (''url'', JStr url),
      (''extracted'', JObj (extracted_page lib payload url)),
      (''prompt_injection_detected'', JBool (mentions prompt_injection_markers (lower (page_source payload)))),
      (''fetched'', JBool False), (''untrusted_content'', JBool True), (''browser_fetch_scaffold'', JBool True)]"

definition browser_fetch_execute :: "platform \<Rightarrow> web_library \<Rightarrow> execution_context \<Rightarrow> result_envelope timed" where
  "browser_fetch_execute p lib c =
     (let url = extract_url_from [xc_input_payload c, xc_effective_constraints c] in
      bnd (reading p) (\<lambda>started_at.
      bnd (make_usage_record p c 0 0 ''zero_internal_phase0'' ''medium'') (\<lambda>usage.
      bnd (of_result (browser_refusal lib c url)) (\<lambda>refusal.
      case refusal of
        Some (code, message, fallbackable, details) \<Rightarrow>
          bnd (normalize_backend_error p code message False fallbackable details) (\<lambda>e.
          build_result_envelope p c (failure code e [''browser_fetch denied by egress policy'']) [usage] started_at)
      | None \<Rightarrow>
          bnd (of_result (canonical_url lib (case url of None \<Rightarrow> [] | Some u \<Rightarrow> u))) (\<lambda>normalized.
          build_result_envelope p c (success (page_output lib (xc_input_payload c) normalized)
              [''browser_fetch scaffold produced untrusted content tag'']) [usage] started_at)))))"

section \<open>Dispatch\<close>

definition adapter_execute :: "platform \<Rightarrow> (json \<Rightarrow> string) \<Rightarrow> web_library \<Rightarrow> string \<Rightarrow> execution_context \<Rightarrow> result_envelope timed" where
  "adapter_execute p repr lib backend_class c =
     (if backend_class = ''api_model_gateway'' then api_model_gateway_execute p repr c
      else if backend_class = ''browser_fetch'' then browser_fetch_execute p lib c
      else if backend_class = ''local_model'' then local_model_execute p c
      else if backend_class = ''local_script'' then local_script_execute p c
      else if backend_class = ''local_tool'' then local_tool_execute p lib c
      else if backend_class = ''primary_model_gateway'' then primary_model_gateway_execute p c
      else unsupported_execute p c)"

end
