(* ===== verification/Adapter_Properties.thy ===== *)
theory Adapter_Properties
  imports Adapters Verifier_Runner "HOL-Library.Sublist"
begin

text \<open>
  What the backend adapters (\<open>Adapters\<close>) promise: well-typed envelopes whose hashes verify, outputs that pass the
  deterministic checks of their task, errors without secrets, model gateways only on the control plane, and exact
  deduplication.
\<close>

section \<open>Deduplication\<close>

lemma dedup_items_spec:
  "dedup_items h xs seen = (u, n) \<Longrightarrow>
     map h u = rev (remdups (rev (filter (\<lambda>x. x \<notin> set seen) (map h xs)))) \<and> length u + n = length xs \<and> subseq u xs"
proof (induction xs arbitrary: seen u n)
  case (Cons x xs)
  show ?case
  proof (cases "h x \<in> set seen")
    case True
    then obtain m where "dedup_items h xs seen = (u, m)" "n = m + 1"
      using Cons.prems by (auto split: prod.splits)
    then show ?thesis using Cons.IH [of seen u m] True by auto
  next
    case False
    then obtain v where v: "dedup_items h xs (h x # seen) = (v, n)" "u = x # v"
      using Cons.prems by (auto split: prod.splits)
    have 1: "remdups (zs @ [y]) = remdups (filter (\<lambda>z. z \<noteq> y) zs) @ [y]" for zs and y :: string
      by (induction zs) auto
    have "filter (\<lambda>z. z \<noteq> h x) (rev (filter (\<lambda>z. z \<notin> set seen) (map h xs)))
        = rev (filter (\<lambda>z. z \<notin> set (h x # seen)) (map h xs))"
      by (simp add: rev_filter conj_commute)
    then show ?thesis using Cons.IH [OF v(1)] v(2) False by (simp add: 1)
  qed
qed auto

section \<open>Redaction\<close>

definition no_marker :: "string \<Rightarrow> bool" where
  "no_marker s \<longleftrightarrow> \<not> list_ex (\<lambda>m. occurs_in m s) backend_secret_value_markers"

lemma redacted_text [simp]: "no_marker ''[REDACTED_SECRET]''"
  by code_simp

lemma redact_backend_no_marker: "list_all no_marker (all_strings (redact_backend_value v))"
proof (induction v rule: json_induct)
  case (Obj kvs)
  then show ?case by (auto simp: list_all_iff split: if_splits)
next
  case (Str s)
  then show ?case by (simp add: no_marker_def [of s])
qed (auto simp: list_all_iff)

section \<open>What an adapter hands to the envelope\<close>

definition cost_sources :: "string list" where
  "cost_sources = [''measured'', ''estimated'', ''policy_default'', ''zero_internal_phase0'', ''not_applicable'']"

definition cost_confidences :: "string list" where
  "cost_confidences = [''low'', ''medium'', ''high'', ''not_applicable'']"

definition usage_wf :: "usage_record \<Rightarrow> bool" where
  "usage_wf u \<longleftrightarrow> ur_usage_record_id u \<noteq> [] \<and> ur_work_unit_id u \<noteq> [] \<and> ur_attempt_id u \<noteq> [] \<and> ur_backend_id u \<noteq> [] \<and>
     0 \<le> ur_input_units u \<and> 0 \<le> ur_output_units u \<and> 0 \<le> ur_estimated_cost_micros u \<and> 0 \<le> ur_actual_cost_micros u \<and>
     ur_cost_source u \<in> set cost_sources \<and> ur_cost_confidence u \<in> set cost_confidences"

definition error_wf :: "backend_error \<Rightarrow> bool" where
  "error_wf e \<longleftrightarrow> be_error_code e \<noteq> [] \<and> be_error_message e \<noteq> [] \<and> keys_allowed (JObj (be_redacted_details e)) \<and>
     list_all no_marker (all_strings (JObj (be_redacted_details e)))"

definition parts_wf :: "envelope_parts \<Rightarrow> bool" where
  "parts_wf q \<longleftrightarrow>
     (if ep_status q = Res_succeeded then ep_errors q = []
      else ep_status q = Res_failed \<and> (\<exists>e reason. ep_errors q = [e] \<and> error_wf e \<and>
        ep_output q = [(''ok'', JBool False), (''reason'', JStr reason)]))"

lemma parts_wf_simps [simp]:
  "parts_wf (success out logs)" "parts_wf (failure reason e logs) \<longleftrightarrow> error_wf e"
  "parts_wf (on_gateway c q) = parts_wf q" "parts_wf (q\<lparr>ep_provider_id := i, ep_model_id := j\<rparr>) = parts_wf q"
  by (simp_all add: parts_wf_def success_def failure_def on_gateway_def)

lemma reading_run [simp]: "reading p n = (Inr (utc_clock p n), Suc n)"
  by (simp add: reading_def)

lemma usage_ok:
  "make_usage_record p c est act src conf n = (Inr u, n') \<Longrightarrow> 0 \<le> est \<Longrightarrow> 0 \<le> act \<Longrightarrow> src \<in> set cost_sources \<Longrightarrow>
     conf \<in> set cost_confidences \<Longrightarrow> usage_wf u"
  by (auto simp: make_usage_record_def Let_def bnd_ok_iff usage_wf_def non_empty_str_def split: if_splits)

lemma object_redact [simp]: "JObj (object_fields (redact_backend_value (JObj d))) = redact_backend_value (JObj d)"
  by simp

lemma error_ok:
  assumes "normalize_backend_error p code message retryable fallbackable details n = (Inr e, n')" and "code \<noteq> []" and "message \<noteq> []"
  shows "error_wf e \<and> be_error_code e = code"
proof -
  obtain now where e: "e = \<lparr>be_error_code = code, be_error_message = message, be_retryable = retryable,
      be_fallbackable = fallbackable, be_redacted_details = object_fields (redact_backend_value (JObj details)),
      be_occurred_at = utc_text now\<rparr>"
    and k: "reject_forbidden_keys (redact_backend_value (JObj details)) ''$.redacted_details'' = Inr ()"
    using assms(1) by (auto simp: normalize_backend_error_def Let_def bnd_ok_iff simp del: redact_backend_value.simps)
  show ?thesis
    using assms(2,3) k redact_backend_no_marker [of "JObj details"] reject_forbidden_keys_iff(1)
    by (simp add: e error_wf_def object_redact del: redact_backend_value.simps object_fields.simps)
qed

definition prepared :: "platform \<Rightarrow> execution_context \<Rightarrow> result_envelope \<Rightarrow> nat \<Rightarrow> (envelope_parts \<Rightarrow> bool) \<Rightarrow> bool" where
  "prepared p c e n' Q \<longleftrightarrow> (\<exists>parts usage started n. build_result_envelope p c parts [usage] started n = (Inr e, n') \<and>
     usage_wf usage \<and> parts_wf parts \<and> (ep_status parts = Res_succeeded \<longrightarrow> Q parts))"

lemma preparedI:
  "build_result_envelope p c parts [usage] started n = (Inr e, n') \<Longrightarrow> usage_wf usage \<Longrightarrow> parts_wf parts \<Longrightarrow>
     (ep_status parts = Res_succeeded \<Longrightarrow> Q parts) \<Longrightarrow> prepared p c e n' Q"
  unfolding prepared_def by blast

section \<open>Each adapter prepares its envelope\<close>

lemma prepared_failure:
  "normalize_backend_error p code message retryable fallbackable details k = (Inr err, k') \<Longrightarrow>
     build_result_envelope p c (failure reason err logs) [usage] started n = (Inr e, n') \<Longrightarrow> usage_wf usage \<Longrightarrow> code \<noteq> [] \<Longrightarrow>
     message \<noteq> [] \<Longrightarrow> prepared p c e n' Q"
  by (erule preparedI) (auto simp: failure_def parts_wf_def dest: error_ok)

lemma prepared_gateway_failure:
  "normalize_backend_error p code message retryable fallbackable details k = (Inr err, k') \<Longrightarrow>
     build_result_envelope p c (on_gateway c (failure reason err logs)) [usage] started n = (Inr e, n') \<Longrightarrow> usage_wf usage \<Longrightarrow>
     code \<noteq> [] \<Longrightarrow> message \<noteq> [] \<Longrightarrow> prepared p c e n' Q"
  by (erule preparedI) (auto simp: failure_def parts_wf_def on_gateway_def dest: error_ok)

lemma prepared_success:
  "build_result_envelope p c parts [usage] started n = (Inr e, n') \<Longrightarrow> usage_wf usage \<Longrightarrow>
     ep_status parts = Res_succeeded \<Longrightarrow> ep_errors parts = [] \<Longrightarrow> Q parts \<Longrightarrow> prepared p c e n' Q"
  by (erule preparedI) (auto simp: parts_wf_def)

lemma bndE:
  assumes "bnd m f n = (Inr y, n')"
  obtains x n1 where "m n = (Inr x, n1)" and "f x n1 = (Inr y, n')"
  using assms by (auto simp: bnd_ok_iff)

lemma usage_made:
  "make_usage_record p c 0 0 ''zero_internal_phase0'' ''high'' n = (Inr u, n') \<Longrightarrow> usage_wf u"
  "make_usage_record p c 0 0 ''zero_internal_phase0'' ''medium'' n = (Inr u, n') \<Longrightarrow> usage_wf u"
  "make_usage_record p c 0 0 ''zero_internal_phase0'' ''low'' n = (Inr u, n') \<Longrightarrow> usage_wf u"
  "make_usage_record p c 0 0 ''not_applicable'' ''not_applicable'' n = (Inr u, n') \<Longrightarrow> usage_wf u"
  "make_usage_record p c 1000 0 ''estimated'' ''low'' n = (Inr u, n') \<Longrightarrow> usage_wf u"
  by (erule usage_ok; simp add: cost_sources_def cost_confidences_def)+

lemma success_parts [simp]:
  "ep_status (success out logs) = Res_succeeded" "ep_errors (success out logs) = []" "ep_output (success out logs) = out"
  "ep_status (on_gateway c q) = ep_status q" "ep_errors (on_gateway c q) = ep_errors q" "ep_output (on_gateway c q) = ep_output q"
  by (simp_all add: success_def on_gateway_def)

lemma local_script_prepared:
  assumes "local_script_execute p c n = (Inr e, n')"
  shows "prepared p c e n' (\<lambda>q. dedup (ep_output q) = [passed_check ''dedup_exact'' [] []])"
proof -
  have "dedup (dedup_output p items) = [passed_check ''dedup_exact'' [] []]" for items
    by (simp add: dedup_output_def dedup_def truthy_at_def dget_or_def has_key_def split: prod.splits)
  then show ?thesis
    using assms unfolding local_script_execute_def
    by (elim bndE) (drule usage_made, simp split: if_splits json.splits,
      auto elim!: bndE elim: prepared_failure prepared_success)
qed

lemma local_tool_prepared:
  assumes "local_tool_execute p lib c n = (Inr e, n')"
  shows "prepared p c e n' (\<lambda>q. url_check (ep_output q) = [passed_check ''url_status'' ''url_check output marked ok'' []])"
proof -
  have "url_check (url_output normalized parts) = [passed_check ''url_status'' ''url_check output marked ok'' []]"
    for normalized parts
    by (simp add: url_output_def url_check_def truthy_at_def dget_or_def)
  then show ?thesis
    using assms unfolding local_tool_execute_def Let_def
    by (elim bndE) (drule usage_made, simp split: if_splits, auto elim!: bndE elim: prepared_failure prepared_success)
qed

lemma local_model_prepared:
  assumes "local_model_execute p c n = (Inr e, n')"
  shows "prepared p c e n' (\<lambda>q. False)"
  using assms unfolding local_model_execute_def
  by (elim bndE) (drule usage_made, auto elim: prepared_failure)

lemma unsupported_prepared:
  assumes "unsupported_execute p c n = (Inr e, n')"
  shows "prepared p c e n' (\<lambda>q. False)"
  using assms unfolding unsupported_execute_def
  by (elim bndE) (drule usage_made, auto elim: prepared_failure)

lemma failed_names_simps [simp]:
  "failed_names [] = []" "failed_names (cs @ ds) = failed_names cs @ failed_names ds"
  "failed_names (passed_check n m d # cs) = failed_names cs" "failed_names (warning_check n m # cs) = failed_names cs"
  by (simp_all add: failed_names_def check_defs)

lemma browser_refusal_named:
  assumes "browser_refusal lib c url = Inr (Some (code, message, fallbackable, details))"
  shows "code \<noteq> [] \<and> message \<noteq> []"
proof (cases url)
  case (Some u)
  show ?thesis
  proof (cases "u = []")
    case False
    then obtain parts where "lib_urlsplit lib u = Inr parts"
      using assms Some by (cases "lib_urlsplit lib u") (simp_all add: browser_refusal_def)
    then show ?thesis
      using assms Some False by (cases "text_at (xc_input_payload c) ''redirect_url''")
        (auto simp: browser_refusal_def split: if_split_asm)
  qed (use assms Some in \<open>auto simp: browser_refusal_def\<close>)
qed (use assms in \<open>auto simp: browser_refusal_def\<close>)

lemma dput_Cons: "d \<noteq> [] \<Longrightarrow> dput k v d \<noteq> []"
  by (cases d) (auto split: if_splits)

lemma extracted_page_not_empty: "extracted_page lib payload url \<noteq> []"
  by (simp add: extracted_page_def Let_def put_text_def dput_Cons split: option.split)

lemma browser_fetch_prepared:
  assumes "browser_fetch_execute p lib c n = (Inr e, n')"
  shows "prepared p c e n' (\<lambda>q. failed_names (webpage_extraction (ep_output q)) = [])"
proof -
  have "failed_names (webpage_extraction (page_output lib payload url)) = []" for payload url
    using extracted_page_not_empty [of lib payload url]
    by (cases "extracted_page lib payload url") (simp_all add: page_output_def webpage_extraction_def dget_or_def)
  then show ?thesis
    using assms unfolding browser_fetch_execute_def Let_def
    by (elim bndE) (drule usage_made, simp split: option.splits, auto elim!: bndE dest!: browser_refusal_named
        elim: prepared_failure prepared_success)
qed

section \<open>The gateways\<close>

definition on_control_plane :: "execution_context \<Rightarrow> bool" where
  "on_control_plane c \<longleftrightarrow> xc_worker_id c = Some control_plane_gateway_worker_id \<and>
     xc_capacity_node_id c = Some (''capnode:worker:'' @ control_plane_gateway_worker_id)"

lemma gateway_boundary:
  "gateway_boundary_error p c n = (Inr None, n') \<Longrightarrow> on_control_plane c"
  "gateway_boundary_error p c n = (Inr (Some err), n') \<Longrightarrow> error_wf err \<and> be_error_code err \<noteq> []"
  by (auto simp: gateway_boundary_error_def on_control_plane_def bnd_ok_iff split: if_splits dest!: error_ok)

lemma topic_confident: "confidence_in_range (JFloat (fl (88 / 100)))" "confidence_in_range (JFloat (fl (72 / 100)))"
  "low_confidence_limit \<le> fl (88 / 100)" "low_confidence_limit \<le> fl (72 / 100)"
  "confidence_in_range (JFloat (fl (86 / 100)))"
  by code_simp+

lemma topic_label_listed: "topic_allowed_labels payload \<noteq> []"
  by (simp add: topic_allowed_labels_def Let_def default_topic_labels_def)

lemma list_ex_JStr: "list_ex (py_eq (JStr s)) (map JStr ls) \<longleftrightarrow> s \<in> set ls"
  by (induction ls) auto

lemma find_SomeD: "find P xs = Some x \<Longrightarrow> P x \<and> x \<in> set xs"
  by (induction xs) (auto split: if_splits)

lemma classify_topic_passes: "failed_names (topic_classification (classify_topic_stub repr payload)) = []"
proof -
  let ?ls = "topic_allowed_labels payload"
  have 1: "failed_names (topic_classification
      [(''ok'', JBool True), (''label'', JStr l), (''confidence'', JFloat q), (''allowed_labels'', JList (map JStr ?ls)),
       (''gateway'', JStr ''api_model_gateway''), (''provider_call_executed'', JBool False),
       (''control_plane_only'', JBool True), (''deterministic_stub'', JBool True)]) = []"
    if "l \<in> set ?ls" "q = fl (88 / 100) \<or> q = fl (72 / 100)" for l q
    using that topic_confident by (auto simp: topic_classification_def dget_or_def list_ex_JStr)
  show ?thesis
    unfolding classify_topic_stub_def Let_def
    by (auto split: option.split prod.split intro!: 1 simp: topic_label_listed dest!: find_SomeD)
qed

lemma claim_types_listed: "claim_allowed_types payload \<noteq> [] \<and> set (claim_allowed_types payload) \<subseteq> set allowed_claim_types_const"
  by (auto simp: claim_allowed_types_def Let_def default_claim_types_def allowed_claim_types_const_def)

lemma claim_type_listed: "claim_type_of t types \<in> set types" if "types \<noteq> []"
  using that by (simp add: claim_type_of_def Let_def)

lemma nonempty_strings_JStr: "nonempty_strings (map JStr ss) = filter (\<lambda>s. s \<noteq> []) ss"
  by (induction ss) (auto simp: nonempty_strings_def)

lemma claim_source_named: "fst (claim_source payload) \<noteq> []"
proof -
  have named: "fst s \<noteq> []" if "claim_source_of source = Some s" for source s
    using that by (auto simp: claim_source_of_def split: json.splits if_splits)
  show ?thesis
  proof (cases "List.map_filter claim_source_of (case get_null payload ''sources'' of JList xs \<Rightarrow> xs | _ \<Rightarrow> [])")
    case Nil
    then show ?thesis by (auto simp: claim_source_def given_text_def split: option.splits if_splits)
  next
    case (Cons s ss)
    then have "s \<in> set (List.map_filter claim_source_of (case get_null payload ''sources'' of JList xs \<Rightarrow> xs | _ \<Rightarrow> []))"
      by simp
    then show ?thesis using Cons named by (auto simp: claim_source_def List.map_filter_def)
  qed
qed

lemma first_sentence_named: "first_sentence t \<noteq> []"
  by (simp add: first_sentence_def Let_def)

lemma strip_of_keeps: "c \<notin> set cs \<Longrightarrow> strip_of cs (c # w) \<noteq> []"
  by (auto simp: strip_of_def rstrip_of_def dropWhile_eq_Nil_conv)

lemma claim_entity_named: "claim_entity payload t \<noteq> []"
proof (cases "given_text payload ''entity''")
  case None
  have "strip_of '',;:'' w \<noteq> []" if "w \<noteq> []" "is_upper (hd w)" for w
  proof -
    have "hd w \<notin> set '',;:''" using that(2) by (auto simp: is_upper_def less_eq_char_def)
    then show ?thesis using strip_of_keeps [of "hd w" "'',;:''" "tl w"] that(1) by simp
  qed
  then show ?thesis using None by (auto simp: claim_entity_def split: option.split dest!: find_SomeD)
next
  case (Some e)
  then show ?thesis by (auto simp: claim_entity_def given_text_def split: option.splits if_splits)
qed

lemma claim_output_fields:
  assumes "claim_source payload = (i, t)"
  shows "dget_or JNull (extract_claims_stub payload) ''allowed_claim_types'' = JList (map JStr (claim_allowed_types payload))"
    and "dget_or JNull (extract_claims_stub payload) ''source_ids'' = JList [JStr i]"
    and "dget_or JNull (extract_claims_stub payload) ''claims'' = JList [JObj
          [(''claim_text'', JStr (first_sentence t)), (''entity'', JStr (claim_entity payload (first_sentence t))),
           (''claim_type'', JStr (claim_type_of t (claim_allowed_types payload))), (''confidence'', JFloat (fl (86 / 100))),
           (''source_post_refs'', JList [JStr i]), (''evidence_hint'', JStr (first_sentence t))]]"
  by (simp_all add: extract_claims_stub_def assms Let_def dget_or_def)

lemma claim_types_kept:
  "allowed_claim_types (extract_claims_stub payload) = claim_allowed_types payload"
proof -
  obtain i t where s: "claim_source payload = (i, t)" by (cases "claim_source payload")
  have no_empty_type: "[] \<notin> set allowed_claim_types_const"
    by (simp add: allowed_claim_types_const_def)
  have "filter (\<lambda>s. s \<in> set allowed_claim_types_const) (filter (\<lambda>s. s \<noteq> []) (claim_allowed_types payload))
      = claim_allowed_types payload"
    using claim_types_listed [of payload] no_empty_type by (auto intro!: filter_True simp del: list.set)
  then show ?thesis
    using claim_types_listed [of payload]
    by (simp only: allowed_claim_types_def claim_output_fields [OF s] json.case nonempty_strings_JStr Let_def) simp
qed

lemma extract_claims_passes: "failed_names (claim_extraction (extract_claims_stub payload)) = []"
proof -
  obtain i t where s: "claim_source payload = (i, t)" "i \<noteq> []"
    using claim_source_named [of payload] by (cases "claim_source payload") simp
  let ?claim = "[(''claim_text'', JStr (first_sentence t)), (''entity'', JStr (claim_entity payload (first_sentence t))),
           (''claim_type'', JStr (claim_type_of t (claim_allowed_types payload))), (''confidence'', JFloat (fl (86 / 100))),
           (''source_post_refs'', JList [JStr i]), (''evidence_hint'', JStr (first_sentence t))]"
  have "claim_type_of t (claim_allowed_types payload) \<in> set (claim_allowed_types payload)"
    using claim_types_listed claim_type_listed by blast
  moreover have "claim_source_refs ?claim = [i]" "claim_source_ids (extract_claims_stub payload) = [i]"
    using s(2) by (simp_all add: claim_source_refs_def claim_source_ids_def claim_output_fields [OF s(1)] nonempty_strings_def)
      (simp add: dget_or_def nonempty_strings_def)
  ultimately have "check_claim (extract_claims_stub payload) (JObj ?claim) = []"
    by (simp add: claim_types_kept first_sentence_named claim_entity_named is_nonempty_str_def truthy_at_def dget_or_def
        topic_confident [simplified] or_json_def list_ex_iff source_refs_allowed_def)
  then show ?thesis
    by (simp only: claim_extraction_def claim_output_fields [OF s(1)] json.case list.case list.map concat.simps append_Nil2 Let_def) simp
qed

lemma prepared_boundary:
  "gateway_boundary_error p c k = (Inr (Some err), k') \<Longrightarrow>
     build_result_envelope p c (on_gateway c (failure (be_error_code err) err [])) [usage] started n = (Inr e, n') \<Longrightarrow>
     usage_wf usage \<Longrightarrow> prepared p c e n' Q"
  by (erule preparedI) (auto dest!: gateway_boundary(2) simp: failure_def on_gateway_def parts_wf_def)

lemma prepared_named_model:
  "build_result_envelope p c ((success out logs)\<lparr>ep_provider_id := i, ep_model_id := j\<rparr>) [usage] started n = (Inr e, n') \<Longrightarrow>
     usage_wf usage \<Longrightarrow> Q ((success out logs)\<lparr>ep_provider_id := i, ep_model_id := j\<rparr>) \<Longrightarrow> prepared p c e n' Q"
  by (erule prepared_success) simp_all

definition gateway_ok :: "execution_context \<Rightarrow> envelope_parts \<Rightarrow> bool" where
  "gateway_ok c q \<longleftrightarrow> on_control_plane c \<and>
    (xc_task_type c = ''topic_classification'' \<longrightarrow> failed_names (topic_classification (ep_output q)) = []) \<and>
    (xc_task_type c = ''claim_extraction'' \<longrightarrow> failed_names (claim_extraction (ep_output q)) = [])"

lemma gateway_ok_cases:
  "on_control_plane c \<Longrightarrow> xc_task_type c = ''topic_classification'' \<Longrightarrow>
     gateway_ok c ((success (classify_topic_stub repr d) logs)\<lparr>ep_provider_id := i, ep_model_id := j\<rparr>)"
  "on_control_plane c \<Longrightarrow> xc_task_type c = ''claim_extraction'' \<Longrightarrow>
     gateway_ok c ((success (extract_claims_stub d) logs)\<lparr>ep_provider_id := i, ep_model_id := j\<rparr>)"
  "on_control_plane c \<Longrightarrow> xc_task_type c \<noteq> ''topic_classification'' \<Longrightarrow> xc_task_type c \<noteq> ''claim_extraction'' \<Longrightarrow> gateway_ok c q"
  by (auto simp: gateway_ok_def classify_topic_passes extract_claims_passes)

lemma api_model_gateway_prepared:
  assumes "api_model_gateway_execute p repr c n = (Inr e, n')"
  shows "prepared p c e n' (gateway_ok c)"
  using assms unfolding api_model_gateway_execute_def
  by (elim bndE) (drule usage_made, auto split: if_splits option.splits simp: credentials_missing_def elim!: bndE
      dest!: gateway_boundary(1) intro: gateway_ok_cases elim: prepared_boundary prepared_gateway_failure prepared_success prepared_named_model)

lemma primary_model_gateway_prepared:
  assumes "primary_model_gateway_execute p c n = (Inr e, n')"
  shows "prepared p c e n' (\<lambda>q. on_control_plane c)"
  using assms unfolding primary_model_gateway_execute_def
  by (elim bndE) (drule usage_made, auto simp: credentials_missing_def split: if_splits option.splits elim!: bndE
      dest!: gateway_boundary(1) elim: prepared_boundary prepared_gateway_failure prepared_success)

section \<open>The envelope of an adapter\<close>

text \<open>The verifier recipe of the task an adapter serves.\<close>

definition adapter_recipe :: "string \<Rightarrow> string \<Rightarrow> string option" where
  "adapter_recipe backend_class task_type =
     (if backend_class = ''local_script'' then Some ''dedup_v0''
      else if backend_class = ''local_tool'' then Some ''url_check_v0''
      else if backend_class = ''browser_fetch'' then Some ''webpage_extraction_v0''
      else if backend_class = ''api_model_gateway'' \<and> task_type = ''topic_classification'' then Some ''topic_classification_v0''
      else if backend_class = ''api_model_gateway'' \<and> task_type = ''claim_extraction'' then Some ''claim_extraction_v0''
      else None)"

definition gateway_classes :: "string list" where
  "gateway_classes = [''api_model_gateway'', ''primary_model_gateway'']"

definition adapter_promise :: "string \<Rightarrow> execution_context \<Rightarrow> fields \<Rightarrow> bool" where
  "adapter_promise cls c out \<longleftrightarrow> (cls \<in> set gateway_classes \<longrightarrow> on_control_plane c) \<and>
     (\<forall>r e. adapter_recipe cls (xc_task_type c) = Some r \<longrightarrow> env_output e = out \<longrightarrow>
        failed_names (run_task_specific_checks r e) = [])"

lemma prepared_weaken: "prepared p c e n' Q \<Longrightarrow> (\<And>q. Q q \<Longrightarrow> R q) \<Longrightarrow> prepared p c e n' R"
  unfolding prepared_def by blast

lemmas promise_defs = adapter_promise_def gateway_classes_def adapter_recipe_def run_task_specific_checks_def

lemma adapter_prepared:
  assumes "adapter_execute p repr lib cls c n = (Inr e, n')"
  shows "prepared p c e n' (\<lambda>q. adapter_promise cls c (ep_output q))"
proof -
  consider (api) "cls = ''api_model_gateway''" | (browser) "cls = ''browser_fetch''" | (model) "cls = ''local_model''"
    | (script) "cls = ''local_script''" | (tool) "cls = ''local_tool''" | (primary) "cls = ''primary_model_gateway''"
    | (other) "cls \<notin> set known_backend_classes"
    by (auto simp: known_backend_classes_def)
  then show ?thesis
  proof cases
    case api
    then have "api_model_gateway_execute p repr c n = (Inr e, n')" using assms by (simp add: adapter_execute_def)
    then show ?thesis using api by (auto intro!: prepared_weaken [OF api_model_gateway_prepared] simp: gateway_ok_def promise_defs)
  next
    case browser
    then have "browser_fetch_execute p lib c n = (Inr e, n')" using assms by (simp add: adapter_execute_def)
    then show ?thesis using browser by (auto intro!: prepared_weaken [OF browser_fetch_prepared] simp: promise_defs)
  next
    case model
    then have "local_model_execute p c n = (Inr e, n')" using assms by (simp add: adapter_execute_def)
    then show ?thesis by (auto intro!: prepared_weaken [OF local_model_prepared])
  next
    case script
    then have "local_script_execute p c n = (Inr e, n')" using assms by (simp add: adapter_execute_def)
    then show ?thesis using script by (auto intro!: prepared_weaken [OF local_script_prepared] simp: promise_defs)
  next
    case tool
    then have "local_tool_execute p lib c n = (Inr e, n')" using assms by (simp add: adapter_execute_def)
    then show ?thesis using tool by (auto intro!: prepared_weaken [OF local_tool_prepared] simp: promise_defs)
  next
    case primary
    then have "primary_model_gateway_execute p c n = (Inr e, n')" using assms by (simp add: adapter_execute_def)
    then show ?thesis using primary by (auto intro!: prepared_weaken [OF primary_model_gateway_prepared] simp: promise_defs)
  next
    case other
    then have "unsupported_execute p c n = (Inr e, n')" using assms by (simp add: adapter_execute_def known_backend_classes_def)
    then show ?thesis by (auto intro!: prepared_weaken [OF unsupported_prepared])
  qed
qed

definition envelope_wf :: "result_envelope \<Rightarrow> bool" where
  "envelope_wf e \<longleftrightarrow>
     env_result_envelope_id e \<noteq> [] \<and> env_work_unit_id e \<noteq> [] \<and> env_run_id e \<noteq> [] \<and> env_attempt_id e \<noteq> [] \<and>
     env_assignment_id e \<noteq> [] \<and> (\<exists>b. env_backend_id e = Some b \<and> b \<noteq> []) \<and>
     (\<forall>k. env_backend_class e = Some k \<longrightarrow> k \<in> set known_backend_classes) \<and>
     (env_status e = Res_succeeded \<and> env_errors e = [] \<and> env_backend_error e = None \<or>
      env_status e = Res_failed \<and> (\<exists>err. error_wf err \<and> env_errors e = [err] \<and> env_backend_error e = Some err)) \<and>
     keys_allowed (JObj (env_output e)) \<and> list_all usage_wf (env_usage_records e) \<and>
     0 \<le> env_cost_estimate_micros e \<and> 0 \<le> env_actual_cost_micros e \<and> env_cost_source e \<in> set cost_sources \<and>
     env_cost_confidence e \<in> set cost_confidences \<and> (\<exists>d. env_duration_ms e = Some d \<and> 0 \<le> d)"

lemma duration_nonneg: "0 \<le> duration_ms a b"
  by (simp add: duration_ms_def Let_def)

lemma built_fields:
  assumes "build_result_envelope p c q us started n = (Inr e, n')"
  shows "env_output e = ep_output q" "env_status e = ep_status q" "env_errors e = ep_errors q" "env_usage_records e = us"
    "env_backend_error e = (case ep_errors q of [] \<Rightarrow> None | err # _ \<Rightarrow> Some err)"
    "env_backend_class e = backend_class_or_none (xc_backend_class c)" "env_result_envelope_id e \<noteq> []"
    "non_empty_str (xc_work_unit_id c) = Inr (env_work_unit_id e)" "non_empty_str (xc_run_id c) = Inr (env_run_id e)"
    "non_empty_str (xc_attempt_id c) = Inr (env_attempt_id e)" "non_empty_str (xc_assignment_id c) = Inr (env_assignment_id e)"
    "\<exists>b. non_empty_str (xc_backend_id c) = Inr b \<and> env_backend_id e = Some b"
    "env_cost_estimate_micros e = sum_list (map ur_estimated_cost_micros us)"
    "env_actual_cost_micros e = sum_list (map ur_actual_cost_micros us)"
    "(env_cost_source e, env_cost_confidence e) = aggregate_cost_metadata us" "keys_allowed (JObj (env_output e))"
    "\<exists>d. env_duration_ms e = Some d \<and> 0 \<le> d"
    "env_output_hash e = output_hash (sha256 p) (float_repr p) (JObj (ep_output q))"
    "env_result_hash e = result_hash (sha256 p) (float_repr p)
       (result_payload c (env_output_hash e) (ep_status q) us (ep_errors q))"
  using assms duration_nonneg by (auto simp: build_result_envelope_def Let_def bnd_ok_iff reject_forbidden_keys_iff)

lemma named: "non_empty_str s = Inr t \<Longrightarrow> t \<noteq> []"
  by (auto simp: non_empty_str_def split: if_splits)

lemma built_wf:
  assumes b: "build_result_envelope p c q [u] started n = (Inr e, n')" and u: "usage_wf u" and q: "parts_wf q"
  shows "envelope_wf e"
proof -
  have "env_status e = Res_succeeded \<and> env_errors e = [] \<and> env_backend_error e = None \<or>
      env_status e = Res_failed \<and> (\<exists>err. error_wf err \<and> env_errors e = [err] \<and> env_backend_error e = Some err)"
    using q built_fields(2,3,5) [OF b] by (auto simp: parts_wf_def split: if_splits)
  moreover have "env_cost_source e \<in> set cost_sources \<and> env_cost_confidence e \<in> set cost_confidences"
    using u built_fields(15) [OF b] by (simp add: aggregate_cost_metadata_def usage_wf_def)
  ultimately show ?thesis
    using built_fields(4,6-14,16,17) [OF b] u
    by (auto simp: envelope_wf_def usage_wf_def backend_class_or_none_def dest: named split: if_splits)
qed

section \<open>Properties\<close>

text \<open>The deduplication is exact: the items it keeps are the first occurrence of every canonical hash, in their
order, and the reported count is the number of the items it drops.\<close>

theorem dedup_keeps_first_occurrences:
  "\<exists>u d. dget (dedup_output p items) ''unique_items'' = Some (JList u) \<and>
     dget (dedup_output p items) ''duplicate_count'' = Some (JInt (int d)) \<and> subseq u items \<and> length u + d = length items \<and>
     map (canonical_json_hash (sha256 p) (float_repr p)) u
       = rev (remdups (rev (map (canonical_json_hash (sha256 p) (float_repr p)) items)))"
proof -
  obtain u d where d: "dedup_items (canonical_json_hash (sha256 p) (float_repr p)) items [] = (u, d)"
    by (cases "dedup_items (canonical_json_hash (sha256 p) (float_repr p)) items []")
  then show ?thesis using dedup_items_spec [OF d] by (simp add: dedup_output_def)
qed

text \<open>C21. Whatever adapter runs, whatever the context holds, an envelope it returns is well typed: its identifiers are not
empty, its backend class is a known one or absent, its output holds no forbidden key, its usage records and costs are not
negative and carry a declared source and confidence, its duration is not negative, and it has failed exactly when it
carries one error, whose redacted details hold no secret marker in any text. Nothing is said of the message of the error: that of
the adapter for unknown classes repeats the class it was given.\<close>

theorem adapter_envelope_well_typed:
  assumes "adapter_execute p repr lib backend_class c n = (Inr e, n')"
  shows "envelope_wf e"
  using adapter_prepared [OF assms] built_wf by (auto simp: prepared_def)

definition plain_ids :: "execution_context \<Rightarrow> bool" where
  "plain_ids c \<longleftrightarrow> list_all (\<lambda>s. strip s = s) [xc_work_unit_id c, xc_attempt_id c, xc_assignment_id c, xc_backend_id c]"

lemma non_empty_plain: "non_empty_str s = Inr t \<Longrightarrow> strip s = s \<Longrightarrow> t = s"
  by (auto simp: non_empty_str_def split: if_splits)

lemma built_hashes:
  assumes b: "build_result_envelope p c q us started n = (Inr e, n')" and c: "plain_ids c" "xc_backend_class c \<in> set known_backend_classes"
  shows "expected_envelope_result_hash p e = env_result_hash e"
proof -
  have "env_work_unit_id e = xc_work_unit_id c" "env_attempt_id e = xc_attempt_id c" "env_assignment_id e = xc_assignment_id c"
    "env_backend_id e = Some (xc_backend_id c)"
    using built_fields(8,10-12) [OF b] c(1) by (auto simp: plain_ids_def dest: non_empty_plain)
  then show ?thesis
    using built_fields(2-4,6,19) [OF b] c(2)
    by (simp add: expected_envelope_result_hash_def result_payload_def backend_class_or_none_def)
qed

text \<open>C20. What an adapter returns verifies. When the assignment names a known backend class and its identifiers carry no
padding, the verifier finds every required identifier of the envelope and both its hashes, and if the adapter reports a
success on a task it serves, the deterministic check of that task fails on nothing.\<close>

theorem adapter_results_verify:
  assumes "adapter_execute p repr lib backend_class c n = (Inr e, n')" and "xc_backend_class c \<in> set known_backend_classes"
    and "plain_ids c" and "\<And>s. sha256 p s \<noteq> []"
  shows "failed_names (check_envelope_integrity e @ check_hashes p e) = [] \<and>
    (env_status e = Res_succeeded \<longrightarrow> adapter_recipe backend_class (xc_task_type c) = Some recipe \<longrightarrow>
      failed_names (run_task_specific_checks recipe e) = [])"
proof -
  obtain q u st m where b: "build_result_envelope p c q [u] st m = (Inr e, n')" and u: "usage_wf u" and q: "parts_wf q"
    and ok: "ep_status q = Res_succeeded \<longrightarrow> adapter_promise backend_class c (ep_output q)"
    using adapter_prepared [OF assms(1)] unfolding prepared_def by blast
  have "envelope_wf e" using b u q by (rule built_wf)
  moreover have "env_output_hash e = output_hash (sha256 p) (float_repr p) (JObj (env_output e))"
    "env_output_hash e \<noteq> []"
    using built_fields(1,18) [OF b] assms(4) by (simp_all add: output_hash_def canonical_json_hash_def)
  ultimately have "failed_names (check_envelope_integrity e @ check_hashes p e) = []"
    using built_hashes [OF b assms(3,2)]
    by (simp add: envelope_wf_def check_envelope_integrity_def check_hashes_def del: One_nat_def)
  moreover have "failed_names (run_task_specific_checks recipe e) = []"
    if "env_status e = Res_succeeded" "adapter_recipe backend_class (xc_task_type c) = Some recipe"
    using that ok built_fields(1,2) [OF b] by (auto simp: adapter_promise_def)
  ultimately show ?thesis by blast
qed

text \<open>A model gateway works on the control plane only: when the adapter of a gateway class reports a success, the
context named the gateway's own worker and its own capacity node.\<close>

theorem gateways_stay_on_the_control_plane:
  assumes "adapter_execute p repr lib backend_class c n = (Inr e, n')" and "backend_class \<in> set gateway_classes"
    and "env_status e = Res_succeeded"
  shows "xc_worker_id c = Some control_plane_gateway_worker_id \<and>
    xc_capacity_node_id c = Some (''capnode:worker:'' @ control_plane_gateway_worker_id)"
proof -
  obtain q us st m where "build_result_envelope p c q us st m = (Inr e, n')"
    and ok: "ep_status q = Res_succeeded \<longrightarrow> adapter_promise backend_class c (ep_output q)"
    using adapter_prepared [OF assms(1)] unfolding prepared_def by blast
  then show ?thesis using built_fields(2) assms(2,3) by (fastforce simp: adapter_promise_def on_control_plane_def)
qed

section \<open>Samples\<close>

definition demo_context :: "string \<Rightarrow> string \<Rightarrow> fields \<Rightarrow> execution_context" where
  "demo_context cls task payload =
     \<lparr>xc_work_unit_id = ''wu_1'', xc_run_id = ''run_1'', xc_attempt_id = ''att_1'', xc_assignment_id = ''asg_1'',
      xc_backend_id = ''backend_1'', xc_backend_class = cls, xc_task_type = task, xc_input_payload = payload,
      xc_effective_constraints = [], xc_provider_id = None, xc_model_id = None,
      xc_worker_id = Some control_plane_gateway_worker_id,
      xc_capacity_node_id = Some (''capnode:worker:'' @ control_plane_gateway_worker_id), xc_provider_token = None\<rparr>"

text \<open>A library whose functions refuse or return their argument; the two samples below call none of them.\<close>

definition idle_library :: web_library where
  "idle_library =
     \<lparr>lib_urlsplit = (\<lambda>_. Inl (ValueError [])), lib_normpath = id, lib_quote = id, lib_parse_qsl = (\<lambda>_. Inl (ValueError [])),
      lib_urlencode = (\<lambda>_. []), lib_urlunsplit = (\<lambda>_ _ _ _. []), lib_ip_address = (\<lambda>_. None), lib_html_events = (\<lambda>_. [])\<rparr>"

lemma demo_selectors:
  "non_empty_str (xc_work_unit_id (demo_context cls task d)) = Inr ''wu_1''"
  "non_empty_str (xc_run_id (demo_context cls task d)) = Inr ''run_1''"
  "non_empty_str (xc_attempt_id (demo_context cls task d)) = Inr ''att_1''"
  "non_empty_str (xc_assignment_id (demo_context cls task d)) = Inr ''asg_1''"
  "non_empty_str (xc_backend_id (demo_context cls task d)) = Inr ''backend_1''"
  "xc_input_payload (demo_context cls task d) = d" "xc_task_type (demo_context cls task d) = task"
  "xc_backend_class (demo_context cls task d) = cls" "xc_effective_constraints (demo_context cls task d) = []"
  "on_control_plane (demo_context cls task d)" "plain_ids (demo_context cls task d)"
  by (simp_all add: demo_context_def on_control_plane_def plain_ids_def) (code_simp+)

lemma demo_usage: "\<exists>u. make_usage_record p (demo_context cls task d) est act src conf n = (Inr u, Suc n)"
  by (simp add: make_usage_record_def Let_def bnd_def demo_selectors)

lemma demo_envelope:
  assumes "keys_allowed (JObj (ep_output q))" and "ep_status q = s" and "c = demo_context cls task d"
  shows "\<exists>e. build_result_envelope p c q us started n = (Inr e, Suc n) \<and> env_status e = s"
proof -
  have "reject_forbidden_keys (JObj (ep_output q)) ''$.output'' = Inr ()"
    using assms(1) by (simp only: reject_forbidden_keys_iff(1))
  then show ?thesis
    by (simp add: assms(2,3) build_result_envelope_def Let_def bnd_ok_iff demo_selectors del: reject_forbidden_keys.simps)
qed

definition dedup_context :: execution_context where
  "dedup_context = demo_context ''local_script'' ''dedup'' [(''items'', JList [JInt 1, JInt 2, JInt 1])]"

definition topic_context :: execution_context where
  "topic_context = demo_context ''api_model_gateway'' ''topic_classification'' [(''text'', JStr ''the budget'')]"

lemma sample_keys:
  "list_all (\<lambda>k. \<not> forbidden_key k) [''ok'', ''tool'', ''unique_items'', ''duplicate_count'', ''local_script_scaffold'',
     ''label'', ''confidence'', ''allowed_labels'', ''gateway'', ''provider_call_executed'', ''control_plane_only'',
     ''deterministic_stub'']"
  by code_simp

lemma sample_outputs:
  "keys_allowed (JObj (dedup_output p [JInt 1, JInt 2, JInt 1]))" "keys_allowed (JObj (classify_topic_stub repr d))"
  using sample_keys by (auto simp: dedup_output_def classify_topic_stub_def Let_def split: prod.split)

lemma boundary_kept: "on_control_plane c \<Longrightarrow> gateway_boundary_error p c = ret None"
  by (simp add: gateway_boundary_error_def on_control_plane_def)

lemma dedup_sample:
  "\<exists>e n'. adapter_execute p repr lib ''local_script'' dedup_context 0 = (Inr e, n') \<and> env_status e = Res_succeeded"
proof -
  let ?q = "success (dedup_output p [JInt 1, JInt 2, JInt 1]) [''dedup local_script scaffold completed'']"
  obtain u where u: "make_usage_record p dedup_context 0 0 ''zero_internal_phase0'' ''high'' (Suc 0) = (Inr u, Suc (Suc 0))"
    using demo_usage unfolding dedup_context_def by blast
  have "\<exists>e. build_result_envelope p dedup_context ?q [u] (utc_clock p 0) (Suc (Suc 0)) = (Inr e, Suc (Suc (Suc 0))) \<and>
      env_status e = Res_succeeded"
    by (rule demo_envelope [OF _ _ dedup_context_def]) (simp_all add: sample_outputs del: keys_allowed.simps)
  then obtain e where e: "build_result_envelope p dedup_context ?q [u] (utc_clock p 0) (Suc (Suc 0)) = (Inr e, Suc (Suc (Suc 0)))"
    "env_status e = Res_succeeded" by blast
  have "script_denied (xc_effective_constraints dedup_context) = Inr False"
    by (simp add: dedup_context_def demo_selectors script_denied_def dget_or_def get_null_def)
  moreover have "dget_or (JList []) (xc_input_payload dedup_context) ''items'' = JList [JInt 1, JInt 2, JInt 1]"
    by (simp add: dedup_context_def demo_selectors dget_or_def)
  ultimately show ?thesis using u e by (simp add: adapter_execute_def local_script_execute_def bnd_def)
qed

lemma topic_sample:
  "\<exists>e n'. adapter_execute p repr lib ''api_model_gateway'' topic_context 0 = (Inr e, n') \<and> env_status e = Res_succeeded"
proof -
  let ?q = "(success (classify_topic_stub repr (xc_input_payload topic_context))
      [''api_model_gateway deterministic topic stub completed on control plane''])
    \<lparr>ep_provider_id := xc_provider_id topic_context, ep_model_id := Some (or_default (xc_model_id topic_context) ''model:p0_topic_stub'')\<rparr>"
  obtain u where u: "make_usage_record p topic_context 1000 0 ''estimated'' ''low'' (Suc 0) = (Inr u, Suc (Suc 0))"
    using demo_usage unfolding topic_context_def by blast
  have "\<exists>e. build_result_envelope p topic_context ?q [u] (utc_clock p 0) (Suc (Suc 0)) = (Inr e, Suc (Suc (Suc 0))) \<and>
      env_status e = Res_succeeded"
    by (rule demo_envelope [OF _ _ topic_context_def]) (simp_all add: sample_outputs del: keys_allowed.simps)
  then obtain e where e: "build_result_envelope p topic_context ?q [u] (utc_clock p 0) (Suc (Suc 0)) = (Inr e, Suc (Suc (Suc 0)))"
    "env_status e = Res_succeeded" by blast
  have "gateway_boundary_error p topic_context = ret None" "xc_task_type topic_context = ''topic_classification''"
    using demo_selectors by (simp_all add: topic_context_def boundary_kept)
  then show ?thesis using u e by (simp add: adapter_execute_def api_model_gateway_execute_def bnd_def)
qed

theorem adapter_envelope_well_typed_witness:
  "\<exists>e n'. adapter_execute plain_platform (\<lambda>_. []) idle_library ''local_script'' dedup_context 0 = (Inr e, n') \<and> envelope_wf e"
  using dedup_sample adapter_envelope_well_typed by blast

theorem adapter_results_verify_witness:
  "\<exists>e n'. adapter_execute plain_platform (\<lambda>_. []) idle_library ''local_script'' dedup_context 0 = (Inr e, n') \<and>
     env_status e = Res_succeeded \<and> failed_names (check_envelope_integrity e @ check_hashes plain_platform e) = [] \<and>
     failed_names (run_task_specific_checks ''dedup_v0'' e) = []"
proof -
  obtain e n' where e: "adapter_execute plain_platform (\<lambda>_. []) idle_library ''local_script'' dedup_context 0 = (Inr e, n')"
    "env_status e = Res_succeeded" using dedup_sample by blast
  have "xc_backend_class dedup_context \<in> set known_backend_classes" "plain_ids dedup_context" "\<And>s. sha256 plain_platform s \<noteq> []"
    "adapter_recipe ''local_script'' (xc_task_type dedup_context) = Some ''dedup_v0''"
    by (simp_all add: dedup_context_def demo_selectors known_backend_classes_def plain_platform_def adapter_recipe_def)
  then show ?thesis using adapter_results_verify [OF e(1)] e by blast
qed

theorem gateways_stay_on_the_control_plane_witness:
  "\<exists>e n'. adapter_execute plain_platform (\<lambda>_. []) idle_library ''api_model_gateway'' topic_context 0 = (Inr e, n') \<and>
     env_status e = Res_succeeded \<and> xc_worker_id topic_context = Some control_plane_gateway_worker_id"
proof -
  have "''api_model_gateway'' \<in> set gateway_classes" by (simp add: gateway_classes_def)
  then show ?thesis using topic_sample gateways_stay_on_the_control_plane by blast
qed

text \<open>The envelope of an unsupported class hashes the class it then drops: unless the two payloads collide, the verifier
finds a mismatch and quarantines a result that only failed.\<close>

lemma unsupported_result_hash:
  assumes "unsupported_execute p c n = (Inr e, n')" and "xc_backend_class c \<notin> set known_backend_classes"
  shows "env_backend_class e = None \<and> (\<exists>us errs. env_result_hash e = result_hash (sha256 p) (float_repr p)
    (result_payload c (env_output_hash e) Res_failed us errs))"
proof -
  obtain q us st m where b: "build_result_envelope p c q us st m = (Inr e, n')" and q: "parts_wf q" "ep_status q \<noteq> Res_succeeded"
    using unsupported_prepared [OF assms(1)] unfolding prepared_def by blast
  then have "ep_status q = Res_failed" by (simp add: parts_wf_def split: if_splits)
  then show ?thesis using built_fields(6,19) [OF b] assms(2) by (auto simp: backend_class_or_none_def)
qed

end
