(* ===== verification/Gateway.thy ===== *)
theory Gateway
  imports Host_Results Adapters
begin

text \<open>
  The control-plane gateway: \<open>execute_control_plane_gateway_assignment_once\<close> of \<open>src/tokenbank/host/url_check.py\<close>, which
  polls for an assignment of a model gateway, leases it, executes the adapter in the same process, submits the envelope and
  finalizes the result.
\<close>

text \<open>An adapter draws from the clock of the process.\<close>

definition on_clock :: "(platform \<Rightarrow> 'a timed) \<Rightarrow> 'a op" where
  "on_clock m = (\<lambda>w. case m (plat w) (clock_draws w) of (r, n) \<Rightarrow> (r, w\<lparr>clock_draws := n\<rparr>))"

definition assignment_by_id :: "string \<Rightarrow> polled_assignment option op" where
  "assignment_by_id assignment_id =
     bnd (select (\<lambda>t. find_row asg_id (assignments t) assignment_id)) (\<lambda>row.
     ret (map_option (\<lambda>a.
       \<lparr>po_row = a, po_body = decode_json_object (asg_body a),
        po_effective_constraints = decode_json_object (asg_effective_constraints a), po_backend_class = None\<rparr>) row))"

definition assignment_backend_class :: "(json \<Rightarrow> string) \<Rightarrow> polled_assignment \<Rightarrow> string" where
  "assignment_backend_class repr a =
     (case text_at (po_body a) ''backend_class'' of
        Some s \<Rightarrow> s
      | None \<Rightarrow> (case text_at (po_effective_constraints a) ''backend_class'' of
          Some s \<Rightarrow> s
        | None \<Rightarrow>
            if occurs_in ''api_gateway'' (case asg_backend_id (po_row a) of None \<Rightarrow> [] | Some b \<Rightarrow> b) then ''api_model_gateway''
            else py_str repr (or_json (case po_backend_class a of None \<Rightarrow> JNull | Some v \<Rightarrow> v) (JStr []))))"

definition gateway_model_id :: "string \<Rightarrow> string" where
  "gateway_model_id task_type =
     (if task_type = ''claim_extraction'' then ''model:p0_claim_stub'' else ''model:p0_topic_stub'')"

definition gateway_execution_context :: "(json \<Rightarrow> string) \<Rightarrow> polled_assignment \<Rightarrow> execution_context" where
  "gateway_execution_context repr a =
     (let constraints = po_effective_constraints a; bod = po_body a; row = po_row a;
          task_type = py_str repr (or_json (get_null constraints ''task_type'') (get_null bod ''task_type'')) in
      \<lparr>xc_work_unit_id = asg_work_unit_id row,
       xc_run_id = py_str repr (or_json (get_null constraints ''run_id'') (get_null bod ''run_id'')),
       xc_attempt_id = asg_attempt_id row, xc_assignment_id = asg_id row,
       xc_backend_id = py_str repr (str_opt (asg_backend_id row)), xc_backend_class = assignment_backend_class repr a,
       xc_task_type = task_type, xc_input_payload = json_fields (get_null constraints ''input''),
       xc_effective_constraints = constraints, xc_provider_id = Some ''provider:p0_deterministic_stub'',
       xc_model_id = Some (gateway_model_id task_type), xc_worker_id = Some control_plane_gateway_worker_id,
       xc_capacity_node_id = Some (''capnode:worker:'' @ control_plane_gateway_worker_id), xc_provider_token = None\<rparr>)"

record gateway_run =
  gr_assignment_id :: string
  gr_result :: submitted_result
  gr_finalized :: "(verifier_report \<times> host_result_summary) option"

definition run_gateway_assignment ::
  "host_environment \<Rightarrow> web_library \<Rightarrow> polled_assignment \<Rightarrow> string \<Rightarrow> gateway_run op" where
  "run_gateway_assignment he lib a cls =
     (let i = asg_id (po_row a); repr = env_repr (he_route he) in
      bnd (accept_assignment i control_plane_gateway_worker_id 0 default_lease_duration_ms) (\<lambda>accepted.
      bnd (assignment_by_id i) (\<lambda>refreshed.
      case refreshed of
        None \<Rightarrow> raise (KeyError (''assignment not found: '' @ i))
      | Some b \<Rightarrow>
          bnd (on_clock (\<lambda>p. adapter_execute p repr lib cls (gateway_execution_context repr b))) (\<lambda>e.
          bnd (progress_assignment i control_plane_gateway_worker_id (Some (al_lease_token accepted)) (al_lease_version accepted)
                 default_lease_duration_ms) (\<lambda>_.
          bnd (submit_result (he_envelope he) i control_plane_gateway_worker_id (Some (al_lease_token accepted)) None
                 (JObj (env_output e)) (Dto_envelope e)) (\<lambda>res.
          bnd (finalize_url_check_result he (sr_result_envelope_id res)) (\<lambda>finalized.
          ret \<lparr>gr_assignment_id = i, gr_result = res, gr_finalized = finalized\<rparr>)))))))"

definition execute_gateway_assignment_once ::
  "host_environment \<Rightarrow> web_library \<Rightarrow> string option \<Rightarrow> gateway_run option op" where
  "execute_gateway_assignment_once he lib assignment_id =
     bnd (case assignment_id of
            Some i \<Rightarrow> assignment_by_id i
          | None \<Rightarrow> poll_next_assignment control_plane_gateway_worker_id) (\<lambda>found.
     case found of
       None \<Rightarrow> ret None
     | Some a \<Rightarrow>
         if asg_worker_id (po_row a) \<noteq> control_plane_gateway_worker_id
         then raise (PermissionError ''control-plane gateway can only execute own assignment'')
         else (let cls = assignment_backend_class (env_repr (he_route he)) a in
           if cls \<notin> {''api_model_gateway'', ''primary_model_gateway''}
           then raise (ValueError ''control-plane gateway run-once only supports model gateway backends'')
           else bnd (run_gateway_assignment he lib a cls) (\<lambda>r. ret (Some r))))"

end
