(* ===== verification/Worker.thy ===== *)
theory Worker
  imports Adapters Router
begin

text \<open>
  The worker process (\<open>src/tokenbank/worker/\<close>): its configuration (\<open>config.py\<close>), the log that hides secrets (\<open>logs.py\<close>),
  the sandbox of an assignment (\<open>sandbox.py\<close>), the spool of results the control plane did not take (\<open>spool.py\<close>), the HTTP
  client (\<open>poller.py\<close>, \<open>heartbeat.py\<close>), the executor (\<open>executor.py\<close>) and the daemon (\<open>daemon.py\<close>).

  The HTTP library is one argument, \<open>transport\<close>: a request and the state of the other side give an answer and a new state.
  An exception of the library is an \<open>OSError\<close> here (the worker catches neither); an attribute that a value does not have is
  a \<open>TypeError\<close>. Files are kept by name with their text; \<open>json.loads\<close>, the monotonic clock and the arrival of signals are
  arguments too.
\<close>

section \<open>The log\<close>

text \<open>\<open>re.sub(r"(prefix)tail", r"\1[REDACTED_SECRET]", text)\<close>, for alternatives of which at most one matches anywhere.\<close>

fun first_match :: "(pattern \<times> pattern) list \<Rightarrow> string \<Rightarrow> (nat \<times> nat) option" where
  "first_match [] s = None"
| "first_match ((a, b) # ps) s =
     (case match_at a s of
        None \<Rightarrow> first_match ps s
      | Some n \<Rightarrow> (case match_at b (drop n s) of None \<Rightarrow> first_match ps s | Some m \<Rightarrow> Some (n, m)))"

function re_sub_tail :: "(pattern \<times> pattern) list \<Rightarrow> string \<Rightarrow> string" where
  "re_sub_tail ps [] = []"
| "re_sub_tail ps (c # s) =
     (case first_match ps (c # s) of
        None \<Rightarrow> c # re_sub_tail ps s
      | Some (n, m) \<Rightarrow> take n (c # s) @ ''[REDACTED_SECRET]'' @ re_sub_tail ps (drop (n + m - 1) s))"
  by pat_completeness auto
termination
  by (relation "measure (\<lambda>(ps, s). length s)") auto

definition non_space :: pattern where
  "non_space = [Many1 (\<lambda>c. \<not> space_char c)]"

definition lease_token_pattern :: pattern where
  "lease_token_pattern = literal ''tbk_l_'' @ [Many1 word_dash_char]"

text \<open>The three expressions of \<open>WORKER_SECRET_PATTERNS[1:]\<close>; the optional character of the last one makes two alternatives.\<close>

definition worker_secret_patterns :: "(pattern \<times> pattern) list list" where
  "worker_secret_patterns =
     [[(literal_nocase ''authorization:'' @ [Many0 space_char] @ literal_nocase ''bearer'' @ [Many1 space_char], non_space)],
      [(literal_nocase ''worker_token:'' @ [Many0 space_char], non_space)],
      [(literal_nocase ''api'' @ literal_nocase ''key'' @ [Many0 space_char, One (\<lambda>c. c \<in> set '':=''), Many0 space_char], non_space),
       (literal_nocase ''api'' @ [One (\<lambda>c. c \<in> set ''_-'')] @ literal_nocase ''key''
          @ [Many0 space_char, One (\<lambda>c. c \<in> set '':=''), Many0 space_char], non_space)]]"

definition redact_worker_log :: "string \<Rightarrow> string" where
  "redact_worker_log s =
     fold re_sub_tail worker_secret_patterns (re_sub lease_token_pattern ''[REDACTED_LEASE_TOKEN]'' (redact_token_prefixes s))"

definition unredacted_token_patterns :: "pattern list" where
  "unredacted_token_patterns = default_token_prefix_patterns @ [lease_token_pattern]"

definition contains_unredacted_worker_secret :: "string \<Rightarrow> bool" where
  "contains_unredacted_worker_secret s \<longleftrightarrow> list_ex (\<lambda>p. re_search p s) unredacted_token_patterns"

section \<open>Configuration, environment and state\<close>

record worker_config =
  wc_worker_id :: string
  wc_worker_token :: string
  wc_capabilities :: "string list"
  wc_backend_ids :: "string list"
  wc_backend_classes :: "string list"
  wc_allowed_task_types :: "string list"
  wc_allowed_data_labels :: "string list"
  wc_allowed_privacy_levels :: "string list"
  wc_sandbox_root :: string
  wc_spool_dir :: string
  wc_heartbeat_interval_seconds :: rat

definition texts :: "string list \<Rightarrow> json" where
  "texts ss = JList (map JStr ss)"

definition manifest_payload :: "worker_config \<Rightarrow> json" where
  "manifest_payload c = JObj
     [(''worker_id'', JStr (wc_worker_id c)), (''identity'', JStr (wc_worker_id c)),
      (''capabilities'', texts (wc_capabilities c)), (''allowed_task_types'', texts (wc_allowed_task_types c)),
      (''allowed_data_labels'', texts (wc_allowed_data_labels c)),
      (''allowed_privacy_levels'', texts (wc_allowed_privacy_levels c)),
      (''execution_location'', JStr ''windows_worker''), (''trust_level'', JStr ''trusted_private''),
      (''backend_ids'', texts (wc_backend_ids c)), (''backend_classes'', texts (wc_backend_classes c)),
      (''health_status'', JStr ''healthy'')]"

record http_request =
  rq_method :: string
  rq_path :: string
  rq_authorization :: string
  rq_json :: "json option"

text \<open>An answer carries its status code, its text and the document \<open>response.json()\<close> finds in it, if any.\<close>

datatype http_answer = Unreachable string | Answer int string "json option"

type_synonym 's transport = "http_request \<Rightarrow> 's \<Rightarrow> http_answer \<times> 's"

record 's worker_environment =
  we_config :: worker_config
  we_transport :: "'s transport"
  we_platform :: platform
  we_repr :: "json \<Rightarrow> string"
  we_library :: web_library
  we_json_loads :: "string \<Rightarrow> json option"
  we_monotonic :: "nat \<Rightarrow> rat"
  we_signal :: "nat \<Rightarrow> int option"

record 's worker =
  wk_server :: 's
  wk_spool :: "(string \<times> string) list"
  wk_outputs :: "(string \<times> string) list"
  wk_dirs :: "string list"
  wk_log :: "string list"
  wk_registered :: bool
  wk_shutdown_requested :: bool
  wk_last_heartbeat :: rat
  wk_clock_readings :: nat
  wk_ticks :: nat

type_synonym ('s, 'a) work = "('s worker, 'a) prog"

definition write_log :: "string \<Rightarrow> ('s, unit) work" where
  "write_log message =
     (let redacted = redact_worker_log message in
      seq (require (\<not> contains_unredacted_worker_secret redacted) (ValueError ''worker log still contains a secret-like token''))
      (modify (\<lambda>w. w\<lparr>wk_log := wk_log w @ [redacted]\<rparr>)))"

section \<open>The sandbox\<close>

record assignment_sandbox =
  sb_root :: string
  sb_input_dir :: string
  sb_output_dir :: string
  sb_tmp_dir :: string
  sb_log_dir :: string

definition sandbox_root :: "worker_config \<Rightarrow> string" where
  "sandbox_root c = wc_sandbox_root c @ ''/'' @ wc_worker_id c"

definition mkdir :: "string \<Rightarrow> ('s, unit) work" where
  "mkdir d = modify (\<lambda>w. if d \<in> set (wk_dirs w) then w else w\<lparr>wk_dirs := wk_dirs w @ [d]\<rparr>)"

definition ensure_root :: "worker_config \<Rightarrow> ('s, unit) work" where
  "ensure_root c = mkdir (sandbox_root c)"

definition sandbox_of :: "worker_config \<Rightarrow> string \<Rightarrow> assignment_sandbox" where
  "sandbox_of c assignment_id =
     (let root = sandbox_root c @ ''/assignments/'' @ assignment_id in
      \<lparr>sb_root = root, sb_input_dir = root @ ''/input'', sb_output_dir = root @ ''/output'', sb_tmp_dir = root @ ''/tmp'',
       sb_log_dir = root @ ''/logs''\<rparr>)"

definition create_sandbox :: "worker_config \<Rightarrow> string \<Rightarrow> ('s, assignment_sandbox) work" where
  "create_sandbox c assignment_id =
     (let s = sandbox_of c assignment_id in
      seq (ensure_root c)
      (seq (for_each mkdir [sb_input_dir s, sb_output_dir s, sb_tmp_dir s, sb_log_dir s]) (ret s)))"

definition ensure_worker_dirs :: "worker_config \<Rightarrow> ('s, string list) work" where
  "ensure_worker_dirs c = seq (ensure_root c) (seq (mkdir (wc_spool_dir c)) (ret [sandbox_root c, wc_spool_dir c]))"

section \<open>The spool\<close>

record spool_entry =
  se_spool_id :: string
  se_status :: string
  se_assignment_id :: string
  se_worker_id :: string
  se_lease_token_hash :: string
  se_output :: fields

definition dump_spool_entry :: "spool_entry \<Rightarrow> json" where
  "dump_spool_entry e = JObj
     [(''spool_id'', JStr (se_spool_id e)), (''status'', JStr (se_status e)), (''assignment_id'', JStr (se_assignment_id e)),
      (''worker_id'', JStr (se_worker_id e)), (''lease_token_hash'', JStr (se_lease_token_hash e)),
      (''output'', JObj (se_output e))]"

text \<open>\<open>model_validate\<close> of \<open>CompletedSpoolEntry\<close>: text fields take text only, and \<open>status\<close> has a default.\<close>

definition spool_text :: "fields \<Rightarrow> string \<Rightarrow> string result" where
  "spool_text d k = (case dget d k of Some (JStr s) \<Rightarrow> Inr s | _ \<Rightarrow> Inl (ValueError (''validation error: '' @ k)))"

fun spool_entry_of :: "json \<Rightarrow> spool_entry result" where
  "spool_entry_of (JObj d) =
     bind_result (spool_text d ''spool_id'') (\<lambda>spool_id.
     bind_result (if has_key d ''status'' then spool_text d ''status'' else Inr ''completed'') (\<lambda>st.
     bind_result (spool_text d ''assignment_id'') (\<lambda>assignment_id.
     bind_result (spool_text d ''worker_id'') (\<lambda>worker_id.
     bind_result (spool_text d ''lease_token_hash'') (\<lambda>h.
     case dget d ''output'' of
       Some (JObj out) \<Rightarrow> Inr \<lparr>se_spool_id = spool_id, se_status = st, se_assignment_id = assignment_id,
         se_worker_id = worker_id, se_lease_token_hash = h, se_output = out\<rparr>
     | _ \<Rightarrow> Inl (ValueError ''validation error: output''))))))"
| "spool_entry_of v = Inl (ValueError ''validation error'')"

definition spool_name :: "string \<Rightarrow> string" where
  "spool_name assignment_id = ''spool_'' @ assignment_id @ ''.json''"

definition completed_entry :: "'s worker_environment \<Rightarrow> string \<Rightarrow> string \<Rightarrow> string \<Rightarrow> fields \<Rightarrow> spool_entry" where
  "completed_entry E assignment_id worker_id lease_token out =
     \<lparr>se_spool_id = ''spool_'' @ assignment_id, se_status = ''completed'', se_assignment_id = assignment_id,
      se_worker_id = worker_id, se_lease_token_hash = assignment_lease_token_hash (sha256 (we_platform E)) lease_token,
      se_output = out\<rparr>"

text \<open>The text is written to a temporary file that then takes the place of the target.\<close>

definition write_completed :: "'s worker_environment \<Rightarrow> string \<Rightarrow> string \<Rightarrow> json \<Rightarrow> fields \<Rightarrow> ('s, unit) work" where
  "write_completed E assignment_id worker_id lease_token out =
     (case lease_token of
        JStr token \<Rightarrow>
          modify (\<lambda>w. w\<lparr>wk_spool := dput (spool_name assignment_id)
            (canonical_json_dumps (float_repr (we_platform E))
              (dump_spool_entry (completed_entry E assignment_id worker_id token out))) (wk_spool w)\<rparr>)
      | _ \<Rightarrow> raise (TypeError ''object has no attribute encode''))"

definition read_entry :: "'s worker_environment \<Rightarrow> string \<times> string \<Rightarrow> (string \<times> spool_entry) result" where
  "read_entry E = (\<lambda>(name, content).
     case we_json_loads E content of
       None \<Rightarrow> Inl (ValueError ''invalid JSON'')
     | Some v \<Rightarrow> bind_result (spool_entry_of v) (\<lambda>e. Inr (name, e)))"

definition json_files :: "(string \<times> string) list \<Rightarrow> (string \<times> string) list" where
  "json_files fs = sort_key fst (filter (\<lambda>(name, _). ends_with ''.json'' name) fs)"

definition completed_entries :: "'s worker_environment \<Rightarrow> (string \<times> string) list \<Rightarrow> (string \<times> spool_entry) list result" where
  "completed_entries E fs =
     bind_result (map_result (read_entry E) (json_files fs)) (\<lambda>es. Inr (filter (\<lambda>(_, e). se_status e = ''completed'') es))"

definition remove_file :: "string \<Rightarrow> ('s, unit) work" where
  "remove_file name = modify (\<lambda>w. w\<lparr>wk_spool := filter (\<lambda>(k, _). k \<noteq> name) (wk_spool w)\<rparr>)"

section \<open>The client of the control plane\<close>

definition http_request_of :: "'s worker_environment \<Rightarrow> string \<Rightarrow> string \<Rightarrow> json option \<Rightarrow> http_request" where
  "http_request_of E verb path payload =
     \<lparr>rq_method = verb, rq_path = path, rq_authorization = ''Bearer '' @ wc_worker_token (we_config E), rq_json = payload\<rparr>"

definition request :: "'s worker_environment \<Rightarrow> string \<Rightarrow> string \<Rightarrow> json option \<Rightarrow> ('s, json) work" where
  "request E verb path payload = (\<lambda>w.
     case we_transport E (http_request_of E verb path payload) (wk_server w) of
       (answer, s) \<Rightarrow>
         (case answer of
            Unreachable m \<Rightarrow> Inl (OSError m)
          | Answer code body document \<Rightarrow>
              if 400 \<le> code then Inl (ControlPlaneRequestError body)
              else (case document of None \<Rightarrow> Inl (ValueError ''invalid JSON'') | Some v \<Rightarrow> Inr v),
          w\<lparr>wk_server := s\<rparr>))"

text \<open>\<open>v.get(key)\<close> and \<open>v[key]\<close> on a document that may not be an object\<close>

definition document_get :: "json \<Rightarrow> string \<Rightarrow> json result" where
  "document_get v k = (case v of JObj d \<Rightarrow> Inr (get_null d k) | _ \<Rightarrow> Inl (TypeError ''object has no attribute get''))"

definition document_item :: "json \<Rightarrow> string \<Rightarrow> json result" where
  "document_item v k = (case v of JObj d \<Rightarrow> item d k | _ \<Rightarrow> Inl (TypeError ''object is not subscriptable by text''))"

definition register_worker :: "'s worker_environment \<Rightarrow> json \<Rightarrow> ('s, json) work" where
  "register_worker E payload = request E ''POST'' ''/v0/workers/register'' (Some payload)"

definition heartbeat :: "'s worker_environment \<Rightarrow> string \<Rightarrow> ('s, json) work" where
  "heartbeat E worker_id = request E ''POST'' (''/v0/workers/'' @ worker_id @ ''/heartbeat'') None"

definition client_poll_assignment :: "'s worker_environment \<Rightarrow> string \<Rightarrow> ('s, json) work" where
  "client_poll_assignment E worker_id =
     bnd (request E ''GET'' (''/v0/workers/'' @ worker_id @ ''/assignments/next'') None) (\<lambda>response.
     of_result (document_get response ''assignment''))"

definition client_accept_assignment :: "'s worker_environment \<Rightarrow> string \<Rightarrow> string \<Rightarrow> ('s, json) work" where
  "client_accept_assignment E assignment_id worker_id =
     request E ''POST'' (''/v0/assignments/'' @ assignment_id @ ''/accept'') (Some (JObj [(''worker_id'', JStr worker_id)]))"

definition client_progress_assignment :: "'s worker_environment \<Rightarrow> string \<Rightarrow> string \<Rightarrow> json \<Rightarrow> int \<Rightarrow> ('s, json) work" where
  "client_progress_assignment E assignment_id worker_id lease_token expected_lease_version =
     request E ''POST'' (''/v0/assignments/'' @ assignment_id @ ''/progress'')
       (Some (JObj [(''worker_id'', JStr worker_id), (''lease_token'', lease_token),
                    (''expected_lease_version'', JInt expected_lease_version)]))"

definition submit_payload :: "string \<Rightarrow> fields \<Rightarrow> json \<Rightarrow> string option \<Rightarrow> json option \<Rightarrow> json" where
  "submit_payload worker_id out lease_token lease_token_hash_value envelope = JObj
     ([(''worker_id'', JStr worker_id), (''output'', JObj out)] @
      (case envelope of None \<Rightarrow> [] | Some v \<Rightarrow> [(''result_envelope'', v)]) @
      (case lease_token_hash_value of Some h \<Rightarrow> [(''lease_token_hash'', JStr h)] | None \<Rightarrow> [(''lease_token'', lease_token)]))"

definition client_submit_result ::
  "'s worker_environment \<Rightarrow> string \<Rightarrow> string \<Rightarrow> fields \<Rightarrow> json \<Rightarrow> string option \<Rightarrow> json option \<Rightarrow> ('s, json) work" where
  "client_submit_result E assignment_id worker_id out lease_token lease_token_hash_value envelope =
     request E ''POST'' (''/v0/assignments/'' @ assignment_id @ ''/result'')
       (Some (submit_payload worker_id out lease_token lease_token_hash_value envelope))"

section \<open>The executor\<close>

definition worker_forbidden_backend_classes :: "string list" where
  "worker_forbidden_backend_classes =
     [''account_pool'', ''api_model_gateway'', ''credential_broker'', ''external_seller'', ''oauth_proxy'',
      ''primary_model_gateway'']"

definition coerce_dict :: "'s worker_environment \<Rightarrow> json \<Rightarrow> fields" where
  "coerce_dict E v =
     (case v of
        JObj d \<Rightarrow> d
      | JStr s \<Rightarrow> if s = [] then [] else (case we_json_loads E s of Some (JObj d) \<Rightarrow> d | _ \<Rightarrow> [])
      | _ \<Rightarrow> [])"

function find_url :: "json \<Rightarrow> string option" where
  "find_url (JObj d) =
     (case text_at d ''url'' of
        Some u \<Rightarrow> Some u
      | None \<Rightarrow> (case text_at d ''target_url'' of
          Some u \<Rightarrow> Some u
        | None \<Rightarrow> (case find_url (get_null d ''input'') of
            Some u \<Rightarrow> Some u
          | None \<Rightarrow> (case find_url (get_null d ''body'') of
              Some u \<Rightarrow> Some u
            | None \<Rightarrow> find_url (get_null d ''effective_constraints'')))))"
| "find_url JNull = None" | "find_url (JBool b) = None" | "find_url (JInt i) = None"
| "find_url (JFloat q) = None" | "find_url (JStr s) = None" | "find_url (JList xs) = None"
  by pat_completeness auto
termination
  by (relation "measure size") (simp_all add: get_null_size [simplified])

definition assignment_url :: "'s worker_environment \<Rightarrow> fields \<Rightarrow> string option" where
  "assignment_url E a =
     (case (case get_null a ''body'' of JObj b \<Rightarrow> text_at b ''url'' | _ \<Rightarrow> None) of
        Some u \<Rightarrow> Some u
      | None \<Rightarrow>
          (case List.map_filter (\<lambda>k. find_url (JObj (coerce_dict E (get_null a k))))
                  [''effective_constraints'', ''effective_constraints_json'', ''body_json''] of
             [] \<Rightarrow> None
           | u # _ \<Rightarrow> Some u))"

fun split_at_colons :: "string \<Rightarrow> string \<Rightarrow> string list" where
  "split_at_colons cur [] = [rev cur]"
| "split_at_colons cur (c # s) =
     (if c = CHR '':'' then rev cur # split_at_colons [] s else split_at_colons (c # cur) s)"

definition is_forbidden_backend :: "string \<Rightarrow> string \<Rightarrow> bool" where
  "is_forbidden_backend backend_id backend_class \<longleftrightarrow>
     list_ex (\<lambda>v. v \<in> set worker_forbidden_backend_classes) (backend_class # split_at_colons [] backend_id)"

definition backend_class_from_id :: "string \<Rightarrow> string" where
  "backend_class_from_id backend_id =
     (if occurs_in ''url_check'' backend_id then ''local_tool''
      else if occurs_in ''local_script'' backend_id \<or> occurs_in ''dedup'' backend_id then ''local_script''
      else if occurs_in ''browser_fetch'' backend_id then ''browser_fetch''
      else ''local_tool'')"

definition worker_backend_id :: "'s worker_environment \<Rightarrow> fields \<Rightarrow> string" where
  "worker_backend_id E a = py_str (we_repr E) (or_json (get_null a ''backend_id'') (JStr []))"

definition worker_backend_class :: "'s worker_environment \<Rightarrow> fields \<Rightarrow> string" where
  "worker_backend_class E a =
     (let bod = coerce_dict E (get_null a ''body''); constraints = coerce_dict E (get_null a ''effective_constraints'') in
      py_str (we_repr E)
        (or_json (or_json (or_json (get_null a ''backend_class'') (get_null bod ''backend_class''))
           (get_null constraints ''backend_class'')) (JStr (backend_class_from_id (worker_backend_id E a)))))"

definition worker_execution_context :: "'s worker_environment \<Rightarrow> fields \<Rightarrow> execution_context result" where
  "worker_execution_context E a =
     (let repr = we_repr E; bod = coerce_dict E (get_null a ''body'');
          constraints = coerce_dict E (get_null a ''effective_constraints'');
          given = coerce_dict E (or_json (or_json (get_null bod ''input'') (get_null constraints ''input''))
            (get_null constraints ''inline_input''));
          payload = (if given \<noteq> [] then given
            else (case assignment_url E a of None \<Rightarrow> [] | Some u \<Rightarrow> if u = [] then [] else [(''url'', JStr u)]));
          cls = worker_backend_class E a in
      bind_result (item a ''work_unit_id'') (\<lambda>work_unit_id.
      bind_result (item a ''attempt_id'') (\<lambda>attempt_id.
      bind_result (item a ''assignment_id'') (\<lambda>assignment_id.
      bind_result (item a ''worker_id'') (\<lambda>worker_id.
      Inr \<lparr>xc_work_unit_id = py_str repr work_unit_id,
           xc_run_id = py_str repr (or_json (or_json (get_null bod ''run_id'') (get_null constraints ''run_id''))
             (JStr ''run_worker_local'')),
           xc_attempt_id = py_str repr attempt_id, xc_assignment_id = py_str repr assignment_id,
           xc_backend_id = worker_backend_id E a, xc_backend_class = (if cls = [] then ''local_tool'' else cls),
           xc_task_type = py_str repr (or_json (or_json (get_null bod ''task_type'') (get_null constraints ''task_type''))
             (JStr ''url_check'')),
           xc_input_payload = payload, xc_effective_constraints = constraints, xc_provider_id = None, xc_model_id = None,
           xc_worker_id = Some (py_str repr worker_id),
           xc_capacity_node_id = Some (py_str repr (or_json (get_null a ''capacity_node_id'') (JStr []))),
           xc_provider_token = None\<rparr>)))))"

text \<open>An adapter reads the clock of the worker.\<close>

definition on_worker_clock :: "'a timed \<Rightarrow> ('s, 'a) work" where
  "on_worker_clock m = (\<lambda>w. case m (wk_clock_readings w) of (r, n) \<Rightarrow> (r, w\<lparr>wk_clock_readings := n\<rparr>))"

definition execute_envelope :: "'s worker_environment \<Rightarrow> fields \<Rightarrow> assignment_sandbox \<Rightarrow> ('s, result_envelope) work" where
  "execute_envelope E a sandbox =
     (let cls = worker_backend_class E a in
      seq (require (\<not> is_forbidden_backend (worker_backend_id E a) cls)
             (PermissionError ''worker cannot call API model providers directly''))
      (bnd (of_result (worker_execution_context E a)) (\<lambda>c.
       bnd (on_worker_clock (adapter_execute (we_platform E) (we_repr E) (we_library E) cls c)) (\<lambda>e.
       seq (modify (\<lambda>w. w\<lparr>wk_outputs := dput (sb_output_dir sandbox @ ''/result.json'')
              (canonical_json_dumps (float_repr (we_platform E)) (JObj (env_output e))) (wk_outputs w)\<rparr>))
       (ret e)))))"

definition execute_output :: "'s worker_environment \<Rightarrow> fields \<Rightarrow> assignment_sandbox \<Rightarrow> ('s, fields) work" where
  "execute_output E a sandbox = bnd (execute_envelope E a sandbox) (\<lambda>e. ret (env_output e))"

section \<open>The daemon\<close>

definition receive_signal :: "'s worker_environment \<Rightarrow> nat \<Rightarrow> ('s, unit) work" where
  "receive_signal E i =
     (case we_signal E i of
        None \<Rightarrow> ret ()
      | Some signum \<Rightarrow>
          seq (write_log (''shutdown signal received: '' @ show_int signum)) (modify (\<lambda>w. w\<lparr>wk_shutdown_requested := True\<rparr>)))"

definition register :: "'s worker_environment \<Rightarrow> ('s, json) work" where
  "register E =
     seq (ensure_root (we_config E))
     (bnd (register_worker E (manifest_payload (we_config E))) (\<lambda>response.
      seq (modify (\<lambda>w. w\<lparr>wk_registered := True\<rparr>))
      (seq (write_log (''worker registered: '' @ wc_worker_id (we_config E))) (ret response))))"

definition monotonic :: "'s worker_environment \<Rightarrow> ('s, rat) work" where
  "monotonic E = (\<lambda>w. (Inr (we_monotonic E (wk_ticks w)), w\<lparr>wk_ticks := Suc (wk_ticks w)\<rparr>))"

definition heartbeat_once :: "'s worker_environment \<Rightarrow> ('s, json) work" where
  "heartbeat_once E =
     bnd (heartbeat E (wc_worker_id (we_config E))) (\<lambda>response.
     bnd (monotonic E) (\<lambda>now.
     seq (modify (\<lambda>w. w\<lparr>wk_last_heartbeat := now\<rparr>))
     (seq (write_log (''worker heartbeat: '' @ wc_worker_id (we_config E))) (ret response))))"

definition replay_entry :: "'s worker_environment \<Rightarrow> string \<times> spool_entry \<Rightarrow> ('s, unit) work" where
  "replay_entry E = (\<lambda>(name, e).
     bnd (client_submit_result E (se_assignment_id e) (se_worker_id e) (se_output e) JNull (Some (se_lease_token_hash e)) None) (\<lambda>_.
     seq (remove_file name) (write_log (''spooled result submitted: '' @ se_assignment_id e))))"

definition replay_completed_spool :: "'s worker_environment \<Rightarrow> ('s, nat) work" where
  "replay_completed_spool E =
     bnd (bnd (gets (\<lambda>w. completed_entries E (wk_spool w))) of_result) (\<lambda>entries.
     seq (for_each (replay_entry E) entries) (ret (length entries)))"

definition poll_assignment :: "'s worker_environment \<Rightarrow> ('s, fields option) work" where
  "poll_assignment E =
     bnd (client_poll_assignment E (wc_worker_id (we_config E))) (\<lambda>v.
     case v of
       JNull \<Rightarrow> ret None
     | JObj a \<Rightarrow>
         if get_null a ''worker_id'' \<noteq> JStr (wc_worker_id (we_config E))
         then raise (PermissionError ''worker received assignment for a different worker_id'')
         else ret (Some a)
     | _ \<Rightarrow> raise (TypeError ''object has no attribute get''))"

text \<open>The submission of a result, which is spooled when the control plane answers with an error.\<close>

definition deliver_result :: "'s worker_environment \<Rightarrow> string \<Rightarrow> json \<Rightarrow> result_envelope \<Rightarrow> ('s, json) work" where
  "deliver_result E assignment_id lease_token e =
     (let worker_id = wc_worker_id (we_config E) in
      (\<lambda>w. case client_submit_result E assignment_id worker_id (env_output e) lease_token None (Some (JObj (dump_envelope e))) w of
        (Inl (ControlPlaneRequestError m), w1) \<Rightarrow>
          seq (write_completed E assignment_id worker_id lease_token (env_output e))
          (seq (write_log (''result submit failed; completed output spooled: '' @ assignment_id))
          (raise (ControlPlaneRequestError m))) w1
      | outcome \<Rightarrow> outcome))"

definition handle_assignment :: "'s worker_environment \<Rightarrow> fields \<Rightarrow> ('s, json) work" where
  "handle_assignment E a =
     (let c = we_config E in
      bnd (of_result (item a ''assignment_id'')) (\<lambda>given. let assignment_id = py_str (we_repr E) given in
      bnd (client_accept_assignment E assignment_id (wc_worker_id c)) (\<lambda>accepted.
      bnd (create_sandbox c assignment_id) (\<lambda>sandbox.
      bnd (execute_envelope E a sandbox) (\<lambda>e.
      bnd (of_result (document_item accepted ''lease_token'')) (\<lambda>lease_token.
      bnd (of_result (bind_result (document_item accepted ''lease_version'') py_int)) (\<lambda>version.
      bnd (client_progress_assignment E assignment_id (wc_worker_id c) lease_token version) (\<lambda>progressed.
      bnd (deliver_result E assignment_id lease_token e) (\<lambda>res.
      bnd (of_result (document_item progressed ''lease_version'')) (\<lambda>v.
      seq (write_log (''assignment completed: '' @ assignment_id @ '' lease_version='' @ py_str (we_repr E) v))
      (ret res)))))))))))"

record run_summary =
  rs_status :: string
  rs_worker_id :: string
  rs_assignment_id :: "json option"
  rs_result :: "json option"
  rs_spooled_submitted :: nat

definition register_if_needed :: "'s worker_environment \<Rightarrow> ('s, unit) work" where
  "register_if_needed E = bnd (gets wk_registered) (\<lambda>b. if b then ret () else seq (register E) (ret ()))"

definition run_once :: "'s worker_environment \<Rightarrow> ('s, run_summary) work" where
  "run_once E =
     (let worker_id = wc_worker_id (we_config E) in
      seq (register_if_needed E)
      (bnd (replay_completed_spool E) (\<lambda>spooled.
       seq (heartbeat_once E)
       (bnd (poll_assignment E) (\<lambda>polled.
        case polled of
          None \<Rightarrow> ret \<lparr>rs_status = ''idle'', rs_worker_id = worker_id, rs_assignment_id = None, rs_result = None,
                     rs_spooled_submitted = spooled\<rparr>
        | Some a \<Rightarrow>
            bnd (handle_assignment E a) (\<lambda>res.
            bnd (of_result (item a ''assignment_id'')) (\<lambda>i.
            ret \<lparr>rs_status = ''completed'', rs_worker_id = worker_id, rs_assignment_id = Some i, rs_result = Some res,
                 rs_spooled_submitted = spooled\<rparr>)))))))"

text \<open>One turn of the loop; the worker that registers in the loop replays its spool first.\<close>

definition run_iteration :: "'s worker_environment \<Rightarrow> ('s, unit) work" where
  "run_iteration E =
     seq (bnd (gets wk_registered) (\<lambda>b. if b then ret () else seq (register E) (seq (replay_completed_spool E) (ret ()))))
     (bnd (monotonic E) (\<lambda>now.
      seq (bnd (gets wk_last_heartbeat) (\<lambda>last.
        if wc_heartbeat_interval_seconds (we_config E) \<le> now - last then seq (heartbeat_once E) (ret ()) else ret ()))
      (bnd (poll_assignment E) (\<lambda>polled.
       case polled of None \<Rightarrow> ret () | Some a \<Rightarrow> seq (handle_assignment E a) (ret ())))))"

definition iterations_done :: "int option \<Rightarrow> nat \<Rightarrow> bool" where
  "iterations_done max_iterations i \<longleftrightarrow> (case max_iterations of None \<Rightarrow> False | Some m \<Rightarrow> m \<le> int i)"

text \<open>The loop may run for ever, which is the value None. A signal is seen at the head of the loop.\<close>

partial_function (option) worker_run ::
  "'s worker_environment \<Rightarrow> int option \<Rightarrow> nat \<Rightarrow> 's worker \<Rightarrow> (unit result \<times> 's worker) option" where
  "worker_run E max_iterations i w =
     (case receive_signal E i w of
        (Inl e, w1) \<Rightarrow> Some (Inl e, w1)
      | (Inr _, w1) \<Rightarrow>
          if wk_shutdown_requested w1 \<or> iterations_done max_iterations i then Some (Inr (), w1)
          else (case run_iteration E w1 of
              (Inl e, w2) \<Rightarrow> Some (Inl e, w2)
            | (Inr _, w2) \<Rightarrow> worker_run E max_iterations (Suc i) w2))"

definition run_worker_from_config ::
  "'s worker_environment \<Rightarrow> bool \<Rightarrow> int option \<Rightarrow> 's worker \<Rightarrow> (run_summary option result \<times> 's worker) option" where
  "run_worker_from_config E once max_iterations w =
     (if once then Some (bnd (run_once E) (\<lambda>r. ret (Some r)) w)
      else (case worker_run E max_iterations 0 w of
          None \<Rightarrow> None
        | Some (r, w') \<Rightarrow> Some (bind_result r (\<lambda>_. Inr None), w')))"

end
