(* ===== verification/Worker_Properties.thy ===== *)
theory Worker_Properties
  imports Worker Adapter_Properties
begin

text \<open>
  What the worker (\<open>Worker\<close>) promises, whatever the control plane answers: its log never holds a token, it never runs a model
  gateway, its loop returns when it is bounded or signalled, a result that is refused stays in the spool, and a spool that
  is accepted is delivered in order.
\<close>

section \<open>Redacted log lines\<close>

text \<open>Replacing the tail of a match keeps the text before it and cannot make a new word.\<close>

context bracketed_redactor
begin

lemma starts_with_take: "starts_with w (take n s) \<Longrightarrow> starts_with w s"
  by (metis append_assoc append_take_drop_id starts_with_iff)

lemma occurs_in_take: "occurs_in w (take n s) \<Longrightarrow> occurs_in w s"
  by (metis append_Nil append_take_drop_id occurs_in_append)

lemma starts_with_sub_tail:
  "core = ''REDACTED_SECRET'' \<Longrightarrow> plain w \<Longrightarrow> starts_with w (re_sub_tail ps s) \<Longrightarrow> starts_with w s"
proof (induction ps s arbitrary: w rule: re_sub_tail.induct)
  case (2 ps c s)
  show ?case
  proof (cases "first_match ps (c # s)")
    case None
    then show ?thesis using "2.prems" "2.IH"(1) [OF None] by (cases w) (auto simp: plain_def)
  next
    case (Some nm)
    obtain n m where nm: "nm = (n, m)" by fastforce
    have "starts_with w (take n (c # s) @ CHR ''['' # core @ CHR '']'' # re_sub_tail ps (drop (n + m - 1) s))"
      using "2.prems" Some nm by simp
    then have "starts_with w (take n (c # s))" using "2.prems"(2) starts_with_split by (auto simp: plain_def)
    then show ?thesis by (rule starts_with_take)
  qed
qed simp

lemma occurs_in_sub_tail:
  "core = ''REDACTED_SECRET'' \<Longrightarrow> plain w \<Longrightarrow> w \<noteq> [] \<Longrightarrow> occurs_in w (re_sub_tail ps s) \<Longrightarrow> occurs_in w core \<or> occurs_in w s"
proof (induction ps s rule: re_sub_tail.induct)
  case (2 ps c s)
  show ?case
  proof (cases "first_match ps (c # s)")
    case None
    then consider "starts_with w (re_sub_tail ps (c # s))" | "occurs_in w (re_sub_tail ps s)" using "2.prems" by auto
    then show ?thesis
      using starts_with_sub_tail [OF "2.prems"(1,2), of ps "c # s"] "2.IH"(1) [OF None] "2.prems" by cases auto
  next
    case (Some nm)
    obtain n m where nm: "nm = (n, m)" by fastforce
    let ?rest = "re_sub_tail ps (drop (n + m - 1) s)"
    have "occurs_in w (take n (c # s) @ CHR ''['' # core @ CHR '']'' # ?rest)" using "2.prems" Some nm by simp
    then have "occurs_in w (take n (c # s)) \<or> occurs_in w core \<or> occurs_in w ?rest"
      using "2.prems"(2) occurs_in_split by (metis plain_def)
    then show ?thesis
      using occurs_in_take "2.IH"(2) [OF Some nm [symmetric]] "2.prems" occurs_in_drop by metis
  qed
qed simp

lemma sub_tail_keeps_absent:
  assumes "core = ''REDACTED_SECRET''" and "q \<in> set patterns" and "\<not> re_search q s"
  shows "\<not> re_search q (re_sub_tail ps s)"
  using assms occurs_in_sub_tail [OF assms(1)] word_shape word_not_in_core re_search_iff pattern_deterministic by metis

end

lemma worker_patterns:
  "p \<in> set unredacted_token_patterns \<Longrightarrow> deterministic p" "p \<in> set unredacted_token_patterns \<Longrightarrow> avoids_brackets p"
  "p \<in> set unredacted_token_patterns \<Longrightarrow> \<not> nullable p"
  by (auto simp: unredacted_token_patterns_def lease_token_pattern_def default_token_prefix_patterns_def deterministic_literal
      nullable_literal avoids_brackets_def char_class_defs)

lemmas worker_pattern_facts = worker_patterns plain_def unredacted_token_patterns_def lease_token_pattern_def
  default_token_prefix_patterns_def char_class_defs

interpretation worker_token: bracketed_redactor unredacted_token_patterns "''REDACTED_TOKEN''"
  by unfold_locales (auto simp: worker_pattern_facts)

interpretation worker_lease: bracketed_redactor unredacted_token_patterns "''REDACTED_LEASE_TOKEN''"
  by unfold_locales (auto simp: worker_pattern_facts)

interpretation worker_secret: bracketed_redactor unredacted_token_patterns "''REDACTED_SECRET''"
  by unfold_locales (auto simp: worker_pattern_facts)

lemma redacted_line_clean: "\<not> contains_unredacted_worker_secret (redact_worker_log s)"
proof -
  let ?t = "redact_token_prefixes s" and ?lease = "re_sub lease_token_pattern ''[REDACTED_LEASE_TOKEN]''"
  have "\<forall>q \<in> set default_token_prefix_patterns. \<not> re_search q ?t"
    using worker_token.sub_all_removes [of default_token_prefix_patterns "{}" s]
    by (simp add: redact_token_prefixes_def unredacted_token_patterns_def subset_insertI)
  then have "\<not> re_search q (?lease ?t)" if "q \<in> set unredacted_token_patterns" for q
    using that worker_lease.sub_keeps_absent [of q ?t lease_token_pattern] worker_lease.sub_removes [of lease_token_pattern ?t]
    by (auto simp: unredacted_token_patterns_def)
  moreover have "\<not> re_search q (fold re_sub_tail pss t)" if "\<not> re_search q t" "q \<in> set unredacted_token_patterns" for q pss t
    using that worker_secret.sub_tail_keeps_absent by (induction pss arbitrary: t) auto
  ultimately show ?thesis by (auto simp: contains_unredacted_worker_secret_def redact_worker_log_def list_ex_iff)
qed

lemma write_log_run: "write_log m w = (Inr (), w\<lparr>wk_log := wk_log w @ [redact_worker_log m]\<rparr>)"
  by (simp add: write_log_def Let_def run_simps redacted_line_clean)

section \<open>The log\<close>

definition log_clean :: "'s worker \<Rightarrow> bool" where
  "log_clean w \<longleftrightarrow> list_all (\<lambda>l. \<not> contains_unredacted_worker_secret l) (wk_log w)"

section \<open>Invariants of a worker\<close>

lemma keeps_catch:
  assumes "keeps I m" and "\<And>e. keeps I (h e)"
  shows "keeps I (\<lambda>w. case m w of (Inl (ControlPlaneRequestError e), w1) \<Rightarrow> h e w1 | outcome \<Rightarrow> outcome)"
  using assms by (fastforce simp: keeps_def split: prod.split sum.split py_error.split)

text \<open>A predicate of the log and of the state of the control plane that a written line and a request keep is kept by everything
  a worker does.\<close>

locale worker_invariant =
  fixes E :: "'s worker_environment" and I :: "'s worker \<Rightarrow> bool"
  assumes log_kept: "keeps I (write_log m)"
    and request_kept: "keeps I (request E verb path payload)"
    and frame: "I w \<Longrightarrow> wk_log w' = wk_log w \<Longrightarrow> wk_server w' = wk_server w \<Longrightarrow> I w'"
begin

lemma modify_kept: "(\<And>w. wk_log (f w) = wk_log w \<and> wk_server (f w) = wk_server w) \<Longrightarrow> keeps I (modify f)"
  unfolding keeps_def by (metis frame run_modify snd_conv)

lemma frames_kept:
  "keeps I (mkdir d)" "keeps I (remove_file name)" "keeps I (monotonic E)"
  "keeps I (modify (\<lambda>w. w\<lparr>wk_registered := b\<rparr>))" "keeps I (modify (\<lambda>w. w\<lparr>wk_last_heartbeat := q\<rparr>))"
  "keeps I (modify (\<lambda>w. w\<lparr>wk_shutdown_requested := b\<rparr>))" "keeps I (modify (\<lambda>w. w\<lparr>wk_outputs := f w\<rparr>))"
  "keeps I (write_completed E i v tok out)" "keeps I (on_worker_clock m)"
proof -
  show "keeps I (mkdir d)" "keeps I (remove_file name)" unfolding mkdir_def remove_file_def by (rule modify_kept, simp)+
  show "keeps I (monotonic E)"
    unfolding keeps_def by (auto simp: monotonic_def intro: frame)
  show "keeps I (write_completed E i v tok out)"
    unfolding write_completed_def by (cases tok) (auto intro!: keeps_intro modify_kept)
  show "keeps I (on_worker_clock m)"
    unfolding keeps_def by (auto simp: on_worker_clock_def intro: frame split: prod.split)
qed (rule modify_kept, simp)+

lemmas kept_intro = keeps_intro log_kept request_kept frames_kept

lemma client_kept:
  "keeps I (register_worker E payload)" "keeps I (heartbeat E i)" "keeps I (client_poll_assignment E i)"
  "keeps I (client_accept_assignment E i v)" "keeps I (client_progress_assignment E i v tok n)"
  "keeps I (client_submit_result E i v out tok th env)"
  unfolding register_worker_def heartbeat_def client_poll_assignment_def client_accept_assignment_def
    client_progress_assignment_def client_submit_result_def
  by (intro kept_intro)+

lemma steps_kept:
  "keeps I (ensure_root c)" "keeps I (create_sandbox c i)" "keeps I (execute_envelope E a s)"
  "keeps I (register E)" "keeps I (heartbeat_once E)" "keeps I (receive_signal E n)"
  unfolding ensure_root_def create_sandbox_def execute_envelope_def register_def heartbeat_once_def receive_signal_def Let_def
  by (intro kept_intro client_kept)+

lemma replay_kept: "keeps I (replay_completed_spool E)"
  unfolding replay_completed_spool_def replay_entry_def by (intro kept_intro) (auto intro!: kept_intro client_kept)

lemma poll_kept: "keeps I (poll_assignment E)"
  unfolding poll_assignment_def by (intro kept_intro client_kept) (auto intro!: kept_intro split: json.split)

lemma handle_kept: "keeps I (handle_assignment E a)"
proof -
  have "keeps I (deliver_result E i tok e)" for i tok e
    unfolding deliver_result_def Let_def by (intro keeps_catch kept_intro client_kept)
  then show ?thesis unfolding handle_assignment_def Let_def by (intro kept_intro client_kept steps_kept)
qed

lemma run_once_kept: "keeps I (run_once E)"
  unfolding run_once_def register_if_needed_def Let_def
  by (intro kept_intro steps_kept replay_kept poll_kept handle_kept)

lemma iteration_kept: "keeps I (run_iteration E)"
  unfolding run_iteration_def by (intro kept_intro steps_kept replay_kept poll_kept handle_kept)

lemma loop_kept:
  assumes "worker_run E k i w = Some y" and "I w"
  shows "I (snd y)"
proof -
  have "E = E \<longrightarrow> I w \<longrightarrow> I (snd y)"
  proof (rule worker_run.raw_induct [where P = "\<lambda>F k i w y. F = E \<longrightarrow> I w \<longrightarrow> I (snd y)", OF _ assms(1)], intro impI)
    fix run F k i y and w :: "'s worker"
    assume IH: "\<And>F k i w y. run F k i w = Some y \<Longrightarrow> F = E \<longrightarrow> I w \<longrightarrow> I (snd y)" and F: "F = E" and w: "I w"
      and step: "(case receive_signal F i w of
          (Inl e, w1) \<Rightarrow> Some (Inl e, w1)
        | (Inr _, w1) \<Rightarrow>
            if wk_shutdown_requested w1 \<or> iterations_done k i then Some (Inr (), w1)
            else (case run_iteration F w1 of (Inl e, w2) \<Rightarrow> Some (Inl e, w2) | (Inr _, w2) \<Rightarrow> run F k (Suc i) w2)) = Some y"
    obtain q w1 where signal: "receive_signal E i w = (q, w1)" by fastforce
    obtain r w2 where turn: "run_iteration E w1 = (r, w2)" by fastforce
    have "I w1" "I w2" using keepsD [OF steps_kept(6) w signal] keepsD [OF iteration_kept _ turn] by simp_all
    then show "I (snd y)"
      using step IH [of E k "Suc i" w2 y] by (auto simp: F signal turn split: sum.splits if_splits)
  qed
  then show ?thesis using assms(2) by simp
qed

lemma worker_kept:
  assumes "run_worker_from_config E once k w = Some (r, w')" and "I w"
  shows "I w'"
proof (cases once)
  case True
  have "keeps I (bnd (run_once E) (\<lambda>r. ret (Some r)))" by (intro keeps_intro run_once_kept)
  then show ?thesis using assms True keepsD by (fastforce simp: run_worker_from_config_def)
next
  case False
  then obtain r1 where "worker_run E k 0 w = Some (r1, w')"
    using assms(1) by (auto simp: run_worker_from_config_def split: option.splits prod.splits)
  then show ?thesis using loop_kept [of k 0 w "(r1, w')"] assms(2) by simp
qed

end

interpretation worker_log: worker_invariant E log_clean for E
proof
  show "keeps log_clean (write_log m)" for m :: string
    by (auto simp: keeps_def write_log_def Let_def run_simps log_clean_def)
  show "keeps log_clean (request E verb path payload)" for verb path payload
    by (auto simp: keeps_def log_clean_def request_def split: prod.splits)
qed (simp add: log_clean_def)

section \<open>The loop\<close>

lemma signal_stops: "we_signal E i = Some n \<Longrightarrow> receive_signal E i w = (Inr x, w1) \<Longrightarrow> wk_shutdown_requested w1"
  by (auto simp: receive_signal_def seq_ok_iff)

lemma worker_run_step:
  "(\<exists>y. worker_run E k i w = Some y) \<longleftrightarrow>
     (\<forall>w1 w2. receive_signal E i w = (Inr (), w1) \<longrightarrow> \<not> wk_shutdown_requested w1 \<longrightarrow> \<not> iterations_done k i \<longrightarrow>
       run_iteration E w1 = (Inr (), w2) \<longrightarrow> (\<exists>y. worker_run E k (Suc i) w2 = Some y))"
  by (subst worker_run.simps) (auto split: prod.splits sum.splits)

lemma worker_run_ends_at:
  assumes "\<And>w w1. receive_signal E n w = (Inr (), w1) \<Longrightarrow> wk_shutdown_requested w1 \<or> iterations_done k n" and "i \<le> n"
  shows "\<exists>y. worker_run E k i w = Some y"
  using assms(2)
proof (induction i arbitrary: w rule: inc_induct)
  case base
  then show ?case using assms(1) by (subst worker_run_step) blast
next
  case (step i)
  then show ?case by (subst worker_run_step) blast
qed

section \<open>The spool\<close>

definition submit_request :: "'s worker_environment \<Rightarrow> string \<Rightarrow> json \<Rightarrow> http_request" where
  "submit_request E assignment_id payload =
     http_request_of E ''POST'' (''/v0/assignments/'' @ assignment_id @ ''/result'') (Some payload)"

definition replay_request :: "'s worker_environment \<Rightarrow> spool_entry \<Rightarrow> http_request" where
  "replay_request E e = submit_request E (se_assignment_id e)
     (submit_payload (se_worker_id e) (se_output e) JNull (Some (se_lease_token_hash e)) None)"

text \<open>The other side takes a request, in whatever state it is.\<close>

definition takes :: "'s worker_environment \<Rightarrow> http_request \<Rightarrow> bool" where
  "takes E rq \<longleftrightarrow> (\<forall>s. \<exists>code body v t. we_transport E rq s = (Answer code body (Some v), t) \<and> code < 400)"

lemma replay_entry_run:
  assumes "takes E (replay_request E e)"
  shows "\<exists>w'. replay_entry E (name, e) w = (Inr (), w') \<and>
     wk_server w' = snd (we_transport E (replay_request E e) (wk_server w)) \<and>
     wk_spool w' = filter (\<lambda>(k, _). k \<noteq> name) (wk_spool w)"
proof -
  obtain code body v t where a: "we_transport E (replay_request E e) (wk_server w) = (Answer code body (Some v), t)" "code < 400"
    using assms unfolding takes_def by blast
  then have "client_submit_result E (se_assignment_id e) (se_worker_id e) (se_output e) JNull (Some (se_lease_token_hash e)) None w
      = (Inr v, w\<lparr>wk_server := t\<rparr>)"
    by (simp add: client_submit_result_def request_def replay_request_def submit_request_def)
  then show ?thesis using a by (simp add: replay_entry_def run_simps remove_file_def write_log_run)
qed

lemma replay_all_run:
  assumes "\<forall>(name, e) \<in> set es. takes E (replay_request E e)"
  shows "\<exists>w'. for_each (replay_entry E) es w = (Inr (), w') \<and>
     wk_server w' = fold (\<lambda>(_, e) s. snd (we_transport E (replay_request E e) s)) es (wk_server w) \<and>
     wk_spool w' = filter (\<lambda>(k, _). k \<notin> fst ` set es) (wk_spool w)"
  using assms
proof (induction es arbitrary: w)
  case (Cons p es)
  obtain name e where p: "p = (name, e)" by fastforce
  obtain w1 where w1: "replay_entry E (name, e) w = (Inr (), w1)"
    "wk_server w1 = snd (we_transport E (replay_request E e) (wk_server w))"
    "wk_spool w1 = filter (\<lambda>(k, _). k \<noteq> name) (wk_spool w)"
    using replay_entry_run [of E e name w] Cons.prems p by auto
  obtain w2 where w2: "for_each (replay_entry E) es w1 = (Inr (), w2)"
    "wk_server w2 = fold (\<lambda>(_, e) s. snd (we_transport E (replay_request E e) s)) es (wk_server w1)"
    "wk_spool w2 = filter (\<lambda>(k, _). k \<notin> fst ` set es) (wk_spool w1)"
    using Cons.IH [of w1] Cons.prems by auto
  have "wk_spool w2 = filter (\<lambda>(k, _). k \<notin> fst ` set (p # es)) (wk_spool w)"
    by (simp add: w2(3) w1(3) p case_prod_unfold conj_commute)
  then show ?case using w1 w2 by (simp add: p run_simps)
qed simp

definition stored_entry :: "'s worker_environment \<Rightarrow> spool_entry \<Rightarrow> string" where
  "stored_entry E e = canonical_json_dumps (float_repr (we_platform E)) (dump_spool_entry e)"

text \<open>The entry \<open>json.loads\<close> gives back: its output has the fields of every object sorted.\<close>

definition sorted_output :: "spool_entry \<Rightarrow> spool_entry" where
  "sorted_output e = e\<lparr>se_output := object_fields (canonical (JObj (se_output e)))\<rparr>"

lemma spool_entry_round_trip: "spool_entry_of (canonical (dump_spool_entry e)) = Inr (sorted_output e)"
  by (simp add: dump_spool_entry_def sort_key_def spool_text_def has_key_def sorted_output_def)

lemma spool_name_json: "ends_with ''.json'' (spool_name i)"
  by (simp add: spool_name_def ends_with_iff)

lemma deliver_refused:
  assumes "we_transport E (submit_request E i (submit_payload (wc_worker_id (we_config E)) (env_output e) (JStr tok) None
      (Some (JObj (dump_envelope e))))) (wk_server w) = (Answer code body document, s)" and "400 \<le> code"
  shows "deliver_result E i (JStr tok) e w = (Inl (ControlPlaneRequestError body),
     w\<lparr>wk_server := s, wk_spool := dput (spool_name i)
          (stored_entry E (completed_entry E i (wc_worker_id (we_config E)) tok (env_output e))) (wk_spool w),
        wk_log := wk_log w @ [redact_worker_log (''result submit failed; completed output spooled: '' @ i)]\<rparr>)"
  using assms by (simp add: deliver_result_def client_submit_result_def request_def submit_request_def Let_def write_completed_def
      stored_entry_def run_simps write_log_run)

lemma on_worker_clock_ok:
  "on_worker_clock m w = (Inr x, w') \<longleftrightarrow> (\<exists>n. m (wk_clock_readings w) = (Inr x, n) \<and> w' = w\<lparr>wk_clock_readings := n\<rparr>)"
  by (auto simp: on_worker_clock_def split: prod.splits)

lemma executed_envelope:
  assumes "execute_envelope E a sandbox w = (Inr e, w')"
  shows "worker_backend_class E a \<notin> set worker_forbidden_backend_classes \<and>
    set (split_at_colons [] (worker_backend_id E a)) \<inter> set worker_forbidden_backend_classes = {} \<and>
    envelope_wf e \<and> env_backend_class e \<notin> Some ` set gateway_classes \<and>
    dget (wk_outputs w') (sb_output_dir sandbox @ ''/result.json'')
      = Some (canonical_json_dumps (float_repr (we_platform E)) (JObj (env_output e)))"
proof -
  let ?cls = "worker_backend_class E a"
  obtain c n n' where allowed: "\<not> is_forbidden_backend (worker_backend_id E a) ?cls"
    and c: "worker_execution_context E a = Inr c"
    and run: "adapter_execute (we_platform E) (we_repr E) (we_library E) ?cls c n = (Inr e, n')"
    and out: "wk_outputs w' = dput (sb_output_dir sandbox @ ''/result.json'')
      (canonical_json_dumps (float_repr (we_platform E)) (JObj (env_output e))) (wk_outputs w)"
    using assms by (auto simp: execute_envelope_def Let_def bnd_ok_iff seq_ok_iff on_worker_clock_ok
        simp del: canonical_json_dumps.simps split: if_splits)
  obtain q us st m where built: "build_result_envelope (we_platform E) c q [us] st m = (Inr e, n')" "usage_wf us" "parts_wf q"
    using adapter_prepared [OF run] unfolding prepared_def by blast
  have "xc_backend_class c = (if ?cls = [] then ''local_tool'' else ?cls)"
    using c by (auto simp: worker_execution_context_def Let_def)
  moreover have "?cls \<notin> set gateway_classes"
    using allowed by (auto simp: is_forbidden_backend_def worker_forbidden_backend_classes_def gateway_classes_def)
  ultimately have "env_backend_class e \<notin> Some ` set gateway_classes"
    using built_fields(6) [OF built(1)] by (auto simp: backend_class_or_none_def gateway_classes_def split: if_splits)
  then show ?thesis
    using allowed out built_wf [OF built] by (auto simp: is_forbidden_backend_def list_ex_iff)
qed

section \<open>Properties\<close>

text \<open>C25. The loop of the worker returns when the number of its iterations is bounded or a signal arrives at some turn,
whatever the control plane answers.\<close>

theorem worker_loop_returns:
  assumes "once \<or> (\<exists>m. max_iterations = Some m) \<or> (\<exists>n. we_signal E n \<noteq> None)"
  shows "\<exists>r w'. run_worker_from_config E once max_iterations w = Some (r, w')"
proof -
  have "\<exists>y. worker_run E max_iterations 0 w = Some y" if loop: "\<not> once"
  proof -
    consider m where "max_iterations = Some m" | n signum where "we_signal E n = Some signum"
      using assms loop by auto
    then show ?thesis
    proof cases
      case 1
      show ?thesis by (rule worker_run_ends_at [where n = "nat m"]) (simp_all add: 1 iterations_done_def)
    next
      case 2
      show ?thesis by (rule worker_run_ends_at [where n = n]) (auto intro: signal_stops [OF 2])
    qed
  qed
  then show ?thesis by (auto simp: run_worker_from_config_def split: prod.splits)
qed

text \<open>C24. The log of the worker never holds a token. Every line that is written is redacted, the check that follows the
redaction never refuses a line, and whatever the worker does, no line of its log matches a token expression.\<close>

theorem worker_log_holds_no_token:
  assumes "run_worker_from_config E once max_iterations w = Some (r, w')" and "log_clean w"
  shows "log_clean w' \<and> write_log m w' = (Inr (), w'\<lparr>wk_log := wk_log w' @ [redact_worker_log m]\<rparr>)"
  using worker_log.worker_kept [OF assms] by (simp add: write_log_run)

text \<open>C22. A spool that the control plane takes is delivered: every completed entry is submitted once, in the order of the file
names, its file is removed, the other files stay, and the count of the deliveries is returned.\<close>

theorem spool_is_delivered:
  assumes "completed_entries E (wk_spool w) = Inr es" and "\<forall>(name, e) \<in> set es. takes E (replay_request E e)"
  shows "\<exists>w'. replay_completed_spool E w = (Inr (length es), w') \<and>
     wk_server w' = fold (\<lambda>(_, e) s. snd (we_transport E (replay_request E e) s)) es (wk_server w) \<and>
     wk_spool w' = filter (\<lambda>(k, _). k \<notin> fst ` set es) (wk_spool w)"
proof -
  obtain w' where "for_each (replay_entry E) es w = (Inr (), w')"
    "wk_server w' = fold (\<lambda>(_, e) s. snd (we_transport E (replay_request E e) s)) es (wk_server w)"
    "wk_spool w' = filter (\<lambda>(k, _). k \<notin> fst ` set es) (wk_spool w)"
    using replay_all_run [OF assms(2)] by blast
  then show ?thesis using assms(1) by (auto simp: replay_completed_spool_def run_simps)
qed

text \<open>C23. A refused result is not lost. When the control plane answers a submission with an error, the error is raised and
the spool holds an entry for the assignment; if \<open>json.loads\<close> reads back the text that was written, with the fields of its
objects sorted, the entry is among those a replay submits, with the hash of the lease token in place of the token and with
an output of the same hash.\<close>

theorem refused_result_is_spooled:
  assumes "we_transport E (submit_request E i (submit_payload (wc_worker_id (we_config E)) (env_output e) (JStr tok) None
      (Some (JObj (dump_envelope e))))) (wk_server w) = (Answer code body document, s)" and "400 \<le> code"
    and entry: "entry = completed_entry E i (wc_worker_id (we_config E)) tok (env_output e)"
    and loads: "we_json_loads E (stored_entry E entry) = Some (canonical (dump_spool_entry entry))"
  shows "\<exists>w'. deliver_result E i (JStr tok) e w = (Inl (ControlPlaneRequestError body), w') \<and>
     (\<forall>es. completed_entries E (wk_spool w') = Inr es \<longrightarrow> (spool_name i, sorted_output entry) \<in> set es) \<and>
     se_lease_token_hash (sorted_output entry) = assignment_lease_token_hash (sha256 (we_platform E)) tok \<and>
     output_hash sha fr (JObj (se_output (sorted_output entry))) = output_hash sha fr (JObj (env_output e))"
proof -
  let ?fs = "dput (spool_name i) (stored_entry E entry) (wk_spool w)"
  have read: "read_entry E (spool_name i, stored_entry E entry) = Inr (spool_name i, sorted_output entry)"
    by (simp add: read_entry_def loads spool_entry_round_trip)
  have "(spool_name i, sorted_output entry) \<in> set es" if es: "completed_entries E ?fs = Inr es" for es
  proof -
    have "(spool_name i, stored_entry E entry) \<in> set (json_files ?fs)"
      using dget_in_set [of ?fs "spool_name i"] by (simp add: json_files_def spool_name_json)
    moreover obtain all where all: "map_result (read_entry E) (json_files ?fs) = Inr all"
      "es = filter (\<lambda>(_, e). se_status e = ''completed'') all"
      using es by (auto simp: completed_entries_def)
    ultimately have "(spool_name i, sorted_output entry) \<in> set all"
      using read map_result_all2 [OF all(1)] by (auto simp: list_all2_conv_all_nth in_set_conv_nth) (metis Inr_inject)
    then show ?thesis using all(2) by (simp add: sorted_output_def entry completed_entry_def)
  qed
  moreover have "output_hash sha fr (JObj (se_output (sorted_output entry))) = output_hash sha fr (JObj (env_output e))"
    using dumps_canonical [of fr "JObj (env_output e)"]
    by (simp add: output_hash_def canonical_json_hash_def sorted_output_def entry completed_entry_def sort_key_def)
  ultimately show ?thesis
    using deliver_refused [OF assms(1,2)] by (simp add: entry sorted_output_def completed_entry_def)
qed

text \<open>The worker runs no model gateway. An assignment whose backend class is forbidden, or whose backend identifier names a
forbidden class in one of its parts, is refused; what the executor does run gives a well-typed envelope of no gateway class,
and its output is the result file of the sandbox.\<close>

theorem worker_runs_no_gateway:
  assumes "execute_envelope E a sandbox w = (Inr e, w')"
  shows "worker_backend_class E a \<notin> set worker_forbidden_backend_classes \<and>
    set (split_at_colons [] (worker_backend_id E a)) \<inter> set worker_forbidden_backend_classes = {} \<and>
    envelope_wf e \<and> env_backend_class e \<notin> Some ` set gateway_classes \<and>
    dget (wk_outputs w') (sb_output_dir sandbox @ ''/result.json'')
      = Some (canonical_json_dumps (float_repr (we_platform E)) (JObj (env_output e)))"
  by (rule executed_envelope [OF assms])

section \<open>Samples\<close>

definition sample_environment ::
  "'s transport \<Rightarrow> (string \<Rightarrow> json option) \<Rightarrow> 's worker_environment" where
  "sample_environment transport loads =
     \<lparr>we_config = \<lparr>wc_worker_id = ''wrk_1'', wc_worker_token = ''tbk_w_x'', wc_capabilities = [''url_check''],
        wc_backend_ids = [], wc_backend_classes = [''local_tool''], wc_allowed_task_types = [''url_check''],
        wc_allowed_data_labels = [''public_url''], wc_allowed_privacy_levels = [''private''], wc_sandbox_root = ''sandbox'',
        wc_spool_dir = ''spool'', wc_heartbeat_interval_seconds = 10\<rparr>,
      we_transport = transport, we_platform = plain_platform, we_repr = (\<lambda>_. []), we_library = idle_library,
      we_json_loads = loads, we_monotonic = (\<lambda>n. of_nat n), we_signal = (\<lambda>_. None)\<rparr>"

definition taking :: "nat transport" where
  "taking rq n = (Answer 200 ''{}'' (Some (JObj [])), Suc n)"

definition refusing :: "nat transport" where
  "refusing rq n = (Answer 503 ''no'' None, Suc n)"

definition new_worker :: "(string \<times> string) list \<Rightarrow> nat worker" where
  "new_worker spool =
     \<lparr>wk_server = 0, wk_spool = spool, wk_outputs = [], wk_dirs = [], wk_log = [], wk_registered = False,
      wk_shutdown_requested = False, wk_last_heartbeat = 0, wk_clock_readings = 0, wk_ticks = 0\<rparr>"

definition sample_entry :: spool_entry where
  "sample_entry = completed_entry (sample_environment taking (\<lambda>_. None)) ''asg_1'' ''wrk_1'' ''tbk_l_x'' [(''ok'', JBool True)]"

theorem worker_loop_returns_witness:
  "\<exists>r w'. run_worker_from_config (sample_environment refusing (\<lambda>_. None)) False (Some 3) (new_worker []) = Some (r, w')"
  by (rule worker_loop_returns) simp

theorem worker_log_holds_no_token_witness:
  "\<exists>r w'. run_worker_from_config (sample_environment taking (\<lambda>_. None)) True None (new_worker []) = Some (r, w') \<and> log_clean w'"
proof -
  obtain r w' where run: "run_worker_from_config (sample_environment taking (\<lambda>_. None)) True None (new_worker []) = Some (r, w')"
    by (cases "bnd (run_once (sample_environment taking (\<lambda>_. None))) (\<lambda>r. ret (Some r)) (new_worker [])")
      (simp add: run_worker_from_config_def)
  have "log_clean (new_worker [])" by (simp add: log_clean_def new_worker_def)
  then show ?thesis using worker_log_holds_no_token [OF run] run by blast
qed

theorem spool_is_delivered_witness:
  "\<exists>w'. replay_completed_spool (sample_environment taking (\<lambda>_. Some (dump_spool_entry sample_entry)))
       (new_worker [(''note.txt'', []), (spool_name ''asg_1'', [])]) = (Inr 1, w') \<and> wk_spool w' = [(''note.txt'', [])]"
proof -
  let ?E = "sample_environment taking (\<lambda>_. Some (dump_spool_entry sample_entry))"
  let ?w = "new_worker [(''note.txt'', []), (spool_name ''asg_1'', [])]"
  have read: "spool_entry_of (dump_spool_entry sample_entry) = Inr sample_entry" "se_status sample_entry = ''completed''"
    by (simp_all add: dump_spool_entry_def spool_text_def has_key_def sample_entry_def completed_entry_def)
  have "json_files (wk_spool ?w) = [(spool_name ''asg_1'', [])]"
    using spool_name_json by (simp add: json_files_def new_worker_def sort_key_def ends_with_def)
  then have es: "completed_entries ?E (wk_spool ?w) = Inr [(spool_name ''asg_1'', sample_entry)]"
    using read by (simp add: completed_entries_def read_entry_def sample_environment_def)
  have "takes ?E rq" for rq by (simp add: takes_def sample_environment_def taking_def)
  then have "\<forall>(name, e) \<in> set [(spool_name ''asg_1'', sample_entry)]. takes ?E (replay_request ?E e)" by simp
  from spool_is_delivered [OF es this] show ?thesis by (auto simp: new_worker_def spool_name_def)
qed

definition refusing_environment :: "nat worker_environment" where
  "refusing_environment = sample_environment refusing (\<lambda>_. Some (canonical (dump_spool_entry
     (completed_entry (sample_environment refusing (\<lambda>_. None)) ''asg_1'' ''wrk_1'' ''tbk_l_x'' clean_output))))"

theorem refused_result_is_spooled_witness:
  "\<exists>w'. deliver_result refusing_environment ''asg_1'' (JStr ''tbk_l_x'') (sample_envelope clean_output) (new_worker [])
       = (Inl (ControlPlaneRequestError ''no''), w') \<and> map fst (wk_spool w') = [spool_name ''asg_1'']"
proof -
  let ?E = refusing_environment and ?e = "sample_envelope clean_output"
  have loads: "we_json_loads ?E s = Some (canonical (dump_spool_entry
      (completed_entry ?E ''asg_1'' (wc_worker_id (we_config ?E)) ''tbk_l_x'' (env_output ?e))))" for s
    by (simp add: refusing_environment_def sample_environment_def completed_entry_def sample_selectors)
  have refused: "we_transport ?E rq (wk_server (new_worker [])) = (Answer 503 ''no'' None, 1)" for rq
    by (simp add: refusing_environment_def sample_environment_def refusing_def new_worker_def)
  have code: "400 \<le> (503 :: int)" by simp
  obtain w' where w': "deliver_result ?E ''asg_1'' (JStr ''tbk_l_x'') ?e (new_worker []) = (Inl (ControlPlaneRequestError ''no''), w')"
    using refused_result_is_spooled [OF refused code refl loads] by blast
  then show ?thesis using deliver_refused [OF refused code] by (auto simp: new_worker_def)
qed

definition model_assignment :: fields where
  "model_assignment = [(''assignment_id'', JStr ''asg_1''), (''work_unit_id'', JStr ''wu_1''), (''attempt_id'', JStr ''att_1''),
     (''worker_id'', JStr ''wrk_1''), (''backend_id'', JStr ''backend:dedup:v0''), (''backend_class'', JStr ''local_model'')]"

lemma local_model_returns:
  assumes "list_all (\<lambda>s. \<exists>t. non_empty_str s = Inr t)
    [xc_work_unit_id c, xc_run_id c, xc_attempt_id c, xc_assignment_id c, xc_backend_id c]"
  shows "\<exists>e n'. local_model_execute p c n = (Inr e, n')"
proof -
  have keys: "reject_forbidden_keys (JObj [(''ok'', JBool False), (''reason'', JStr s)]) path = Inr ()" for s path
    using sample_keys by (simp add: reject_forbidden_keys_iff) code_simp
  show ?thesis
    using assms
    by (auto simp: local_model_execute_def make_usage_record_def normalize_backend_error_def build_result_envelope_def Let_def
        bnd_ok_iff failure_def keys simp del: reject_forbidden_keys.simps(1))
      (auto simp: bnd_ok_iff)
qed

abbreviation plain_environment :: "nat worker_environment" where
  "plain_environment \<equiv> sample_environment taking (\<lambda>_. None)"

lemma model_assignment_class:
  "worker_backend_class plain_environment model_assignment = ''local_model''"
  "worker_backend_id plain_environment model_assignment = ''backend:dedup:v0''"
  by (simp_all add: worker_backend_class_def worker_backend_id_def model_assignment_def get_null_def dget_or_def or_json_def Let_def)

lemma model_assignment_context:
  "\<exists>c. worker_execution_context plain_environment model_assignment = Inr c \<and> list_all (\<lambda>s. \<exists>t. non_empty_str s = Inr t)
    [xc_work_unit_id c, xc_run_id c, xc_attempt_id c, xc_assignment_id c, xc_backend_id c]"
proof -
  have ids: "list_all (\<lambda>s. isl (non_empty_str s) = False) [''wu_1'', ''run_worker_local'', ''att_1'', ''asg_1'', ''backend:dedup:v0'']"
    by code_simp
  have "\<exists>c. worker_execution_context plain_environment model_assignment = Inr c \<and> xc_work_unit_id c = ''wu_1'' \<and>
      xc_run_id c = ''run_worker_local'' \<and> xc_attempt_id c = ''att_1'' \<and> xc_assignment_id c = ''asg_1'' \<and>
      xc_backend_id c = ''backend:dedup:v0''"
    by (simp add: worker_execution_context_def Let_def model_assignment_class)
      (simp add: model_assignment_def get_null_def dget_or_def coerce_dict_def or_json_def)
  moreover have "\<exists>t. non_empty_str s = Inr t" if "isl (non_empty_str s) = False" for s
    using that by (cases "non_empty_str s") auto
  ultimately show ?thesis using ids by auto
qed

lemma model_assignment_runs:
  "\<exists>e w'. execute_envelope plain_environment model_assignment sandbox (new_worker []) = (Inr e, w')"
proof -
  obtain c where c: "worker_execution_context plain_environment model_assignment = Inr c"
    "list_all (\<lambda>s. \<exists>t. non_empty_str s = Inr t) [xc_work_unit_id c, xc_run_id c, xc_attempt_id c, xc_assignment_id c, xc_backend_id c]"
    using model_assignment_context by blast
  obtain e n' where e: "local_model_execute plain_platform c 0 = (Inr e, n')" using local_model_returns [OF c(2)] by blast
  have "adapter_execute (we_platform plain_environment) (we_repr plain_environment) (we_library plain_environment) ''local_model'' c
      (wk_clock_readings (new_worker [])) = (Inr e, n')"
    using e by (simp add: adapter_execute_def sample_environment_def new_worker_def)
  moreover have "\<not> is_forbidden_backend ''backend:dedup:v0'' ''local_model''" by code_simp
  ultimately show ?thesis
    using c(1) by (simp add: execute_envelope_def model_assignment_class run_simps on_worker_clock_def)
qed

theorem worker_runs_no_gateway_witness:
  "\<exists>e w'. execute_envelope plain_environment model_assignment (sandbox_of (we_config plain_environment) ''asg_1'') (new_worker [])
     = (Inr e, w') \<and> envelope_wf e \<and> env_backend_class e \<notin> Some ` set gateway_classes"
  using model_assignment_runs [of "sandbox_of (we_config plain_environment) ''asg_1''"] worker_runs_no_gateway by blast

end
