(* ===== verification/Endpoints.thy ===== *)
theory Endpoints
  imports Host_Results Worker
begin

text \<open>
  The HTTP application (\<open>src/tokenbank/app/\<close>): bearer tokens and their kinds (\<open>security.py\<close>), registration of workers and the
  rebuild of the capacity table (\<open>bootstrap.py\<close>), the route tables and handlers of the routers (\<open>app/routers/\<close>) and the
  start of the application (\<open>lifespan.py\<close>). Requests are served one after another on the one connection of the application.
  The two routes of the dashboard are left out. What FastAPI answers to a request that no route takes, or whose body has not
  the declared shape, is an argument (\<open>sv_framework\<close>), and so is the text of a JSON answer (\<open>sv_render\<close>).
\<close>

section \<open>Replies\<close>

text \<open>A handler replies with a document or refuses with a status code, which is what \<open>HTTPException\<close> becomes; any other
  exception stays one.\<close>

datatype reply = Reply json | Refused nat string

section \<open>Tokens\<close>

datatype token_kind = Host_token | Worker_token | Internal_token

fun token_prefix :: "token_kind \<Rightarrow> string" where
  "token_prefix Host_token = ''tbk_h_''"
| "token_prefix Worker_token = ''tbk_w_''"
| "token_prefix Internal_token = ''tbk_i_''"

record auth_context =
  ac_token_kind :: token_kind
  ac_token_prefix :: string

text \<open>\<open>s.partition(c)\<close> without the separator; the text after it is empty when it does not occur.\<close>

definition partition_at :: "char \<Rightarrow> string \<Rightarrow> string \<times> string" where
  "partition_at c s = (takeWhile (\<lambda>x. x \<noteq> c) s, tl (dropWhile (\<lambda>x. x \<noteq> c) s))"

definition extract_bearer_token :: "string \<Rightarrow> reply + string" where
  "extract_bearer_token authorization =
     (case partition_at (CHR '' '') authorization of (scheme, token) \<Rightarrow>
        if lower scheme \<noteq> ''bearer'' \<or> token = [] then Inl (Refused 401 ''missing_bearer_token'') else Inr token)"

definition require_token_kind :: "string \<Rightarrow> token_kind \<Rightarrow> reply + auth_context" where
  "require_token_kind authorization kind =
     (case extract_bearer_token authorization of
        Inl r \<Rightarrow> Inl r
      | Inr token \<Rightarrow>
          if \<not> starts_with (token_prefix kind) token then Inl (Refused 403 ''wrong_token_kind'')
          else Inr \<lparr>ac_token_kind = kind, ac_token_prefix = take (min (length token) (length (token_prefix kind) + 8)) token\<rparr>)"

section \<open>Routes\<close>

datatype endpoint =
    Health
  | Host_capabilities
  | Submit_work_unit
  | Work_unit_status string
  | Work_unit_result string
  | Cancel_work_unit string
  | Estimate_route
  | Get_artifact string
  | Report_summary string
  | List_capacity_nodes
  | Capacity_health
  | Inspect_capacity_node string
  | Rebuild_capacity_registry
  | Register_worker
  | Worker_heartbeat string
  | Next_assignment string
  | Accept_assignment string
  | Reject_assignment string
  | Assignment_progress string
  | Assignment_result string
  | Router_plan
  | Scheduler_tick
  | Policy_evaluate
  | Model_gateway_execute
  | Reports_generate
  | Verifier_run

text \<open>A route is a method, the segments of its path (None is a parameter, which matches a segment that is not empty) and the
  endpoint it names.\<close>

type_synonym route = "string \<times> string option list \<times> (string \<Rightarrow> endpoint)"

definition host_routes :: "route list" where
  "host_routes =
     [(''GET'', map Some [''v0'', ''host'', ''capabilities''], \<lambda>_. Host_capabilities),
      (''POST'', map Some [''v0'', ''host'', ''work-units''], \<lambda>_. Submit_work_unit),
      (''GET'', map Some [''v0'', ''host'', ''work-units''] @ [None, Some ''status''], Work_unit_status),
      (''GET'', map Some [''v0'', ''host'', ''work-units''] @ [None, Some ''result''], Work_unit_result),
      (''POST'', map Some [''v0'', ''host'', ''work-units''] @ [None, Some ''cancel''], Cancel_work_unit),
      (''POST'', map Some [''v0'', ''host'', ''routes'', ''estimate''], \<lambda>_. Estimate_route),
      (''GET'', map Some [''v0'', ''host'', ''artifacts''] @ [None], Get_artifact),
      (''GET'', map Some [''v0'', ''host'', ''reports''] @ [None, Some ''summary''], Report_summary)]"

definition capacity_routes :: "route list" where
  "capacity_routes =
     [(''GET'', map Some [''v0'', ''capacity'', ''nodes''], \<lambda>_. List_capacity_nodes),
      (''GET'', map Some [''v0'', ''capacity'', ''health''], \<lambda>_. Capacity_health),
      (''GET'', map Some [''v0'', ''capacity'', ''nodes''] @ [None], Inspect_capacity_node),
      (''POST'', map Some [''internal'', ''capacity'', ''rebuild-registry''], \<lambda>_. Rebuild_capacity_registry)]"

definition worker_routes :: "route list" where
  "worker_routes =
     [(''POST'', map Some [''v0'', ''workers'', ''register''], \<lambda>_. Register_worker),
      (''POST'', map Some [''v0'', ''workers''] @ [None, Some ''heartbeat''], Worker_heartbeat),
      (''GET'', map Some [''v0'', ''workers''] @ [None, Some ''assignments'', Some ''next''], Next_assignment)]"

definition assignment_routes :: "route list" where
  "assignment_routes =
     [(''POST'', map Some [''v0'', ''assignments''] @ [None, Some ''accept''], Accept_assignment),
      (''POST'', map Some [''v0'', ''assignments''] @ [None, Some ''reject''], Reject_assignment),
      (''POST'', map Some [''v0'', ''assignments''] @ [None, Some ''progress''], Assignment_progress),
      (''POST'', map Some [''v0'', ''assignments''] @ [None, Some ''result''], Assignment_result)]"

definition router_routes :: "route list" where
  "router_routes =
     [(''POST'', map Some [''internal'', ''router'', ''plan''], \<lambda>_. Router_plan),
      (''POST'', map Some [''internal'', ''scheduler'', ''tick''], \<lambda>_. Scheduler_tick)]"

definition policy_routes :: "route list" where
  "policy_routes =
     [(''POST'', map Some [''internal'', ''policy'', ''evaluate''], \<lambda>_. Policy_evaluate),
      (''POST'', map Some [''internal'', ''model-gateway'', ''execute''], \<lambda>_. Model_gateway_execute),
      (''POST'', map Some [''internal'', ''reports'', ''generate''], \<lambda>_. Reports_generate)]"

definition verifier_routes :: "route list" where
  "verifier_routes = [(''POST'', map Some [''internal'', ''verifier'', ''run''], \<lambda>_. Verifier_run)]"

definition routes :: "route list" where
  "routes = [(''GET'', [Some ''health''], \<lambda>_. Health)] @ host_routes @ capacity_routes @ worker_routes @ assignment_routes
     @ router_routes @ policy_routes @ verifier_routes"

fun split_path :: "string \<Rightarrow> string \<Rightarrow> string list" where
  "split_path acc [] = [rev acc]"
| "split_path acc (c # s) = (if c = CHR ''/'' then rev acc # split_path [] s else split_path (c # acc) s)"

fun match_segments :: "string option list \<Rightarrow> string list \<Rightarrow> string \<Rightarrow> string option" where
  "match_segments [] [] p = Some p"
| "match_segments (Some s # ps) (x # xs) p = (if s = x then match_segments ps xs p else None)"
| "match_segments (None # ps) (x # xs) p = (if x = [] then None else match_segments ps xs x)"
| "match_segments ps xs p = None"

fun first_route :: "route list \<Rightarrow> string \<Rightarrow> string list \<Rightarrow> endpoint option" where
  "first_route [] verb segments = None"
| "first_route ((m, ps, ep) # rs) verb segments =
     (case (if m = verb then match_segments ps segments [] else None) of
        Some p \<Rightarrow> Some (ep p)
      | None \<Rightarrow> first_route rs verb segments)"

definition endpoint_of :: "string \<Rightarrow> string \<Rightarrow> endpoint option" where
  "endpoint_of verb path =
     (case split_path [] path of
        lead # segments \<Rightarrow> if lead = [] then first_route routes verb segments else None
      | [] \<Rightarrow> None)"

text \<open>The dependencies of the routers.\<close>

fun required_token :: "endpoint \<Rightarrow> token_kind option" where
  "required_token Health = None"
| "required_token Host_capabilities = Some Host_token"
| "required_token Submit_work_unit = Some Host_token"
| "required_token (Work_unit_status i) = Some Host_token"
| "required_token (Work_unit_result i) = Some Host_token"
| "required_token (Cancel_work_unit i) = Some Host_token"
| "required_token Estimate_route = Some Host_token"
| "required_token (Get_artifact i) = Some Host_token"
| "required_token (Report_summary i) = Some Host_token"
| "required_token List_capacity_nodes = Some Host_token"
| "required_token Capacity_health = Some Host_token"
| "required_token (Inspect_capacity_node i) = Some Host_token"
| "required_token Rebuild_capacity_registry = Some Internal_token"
| "required_token Register_worker = Some Worker_token"
| "required_token (Worker_heartbeat i) = Some Worker_token"
| "required_token (Next_assignment i) = Some Worker_token"
| "required_token (Accept_assignment i) = Some Worker_token"
| "required_token (Reject_assignment i) = Some Worker_token"
| "required_token (Assignment_progress i) = Some Worker_token"
| "required_token (Assignment_result i) = Some Worker_token"
| "required_token Router_plan = Some Internal_token"
| "required_token Scheduler_tick = Some Internal_token"
| "required_token Policy_evaluate = Some Internal_token"
| "required_token Model_gateway_execute = Some Internal_token"
| "required_token Reports_generate = Some Internal_token"
| "required_token Verifier_run = Some Internal_token"

text \<open>The declared body: an object, an object or nothing, or no body at all.\<close>

datatype body_shape = Object_body | Optional_body | No_body

fun declared_body :: "endpoint \<Rightarrow> body_shape" where
  "declared_body Submit_work_unit = Object_body"
| "declared_body Register_worker = Object_body"
| "declared_body (Accept_assignment i) = Object_body"
| "declared_body (Reject_assignment i) = Object_body"
| "declared_body (Assignment_progress i) = Object_body"
| "declared_body (Assignment_result i) = Object_body"
| "declared_body Estimate_route = Optional_body"
| "declared_body Router_plan = Optional_body"
| "declared_body ep = No_body"

text \<open>The argument \<open>payload\<close> of a handler, None inside for a body that is left out, None outside for one of another shape.\<close>

fun payload_of :: "body_shape \<Rightarrow> json option \<Rightarrow> fields option option" where
  "payload_of No_body b = Some None"
| "payload_of Object_body (Some (JObj d)) = Some (Some d)"
| "payload_of Object_body b = None"
| "payload_of Optional_body None = Some None"
| "payload_of Optional_body (Some JNull) = Some None"
| "payload_of Optional_body (Some (JObj d)) = Some (Some d)"
| "payload_of Optional_body b = None"

section \<open>Errors\<close>

record server_environment =
  sv_host :: host_environment
  sv_config :: loaded_config
  sv_render :: "json \<Rightarrow> string"
  sv_framework :: "http_request \<Rightarrow> http_answer"

abbreviation sv_repr :: "server_environment \<Rightarrow> json \<Rightarrow> string" where
  "sv_repr sv \<equiv> env_repr (he_route (sv_host sv))"

text \<open>\<open>str(exc)\<close>; a KeyError shows the representation of its key.\<close>

fun error_text :: "(json \<Rightarrow> string) \<Rightarrow> py_error \<Rightarrow> string" where
  "error_text repr (KeyError m) = repr (JStr m)"
| "error_text repr (PermissionError m) = m"
| "error_text repr (LeaseConflictError m) = m"
| "error_text repr (ValueError m) = m"
| "error_text repr (TypeError m) = m"
| "error_text repr (IndexError m) = m"
| "error_text repr (OverflowError m) = m"
| "error_text repr (IntegrityError m) = m"
| "error_text repr (OperationalError m) = m"
| "error_text repr (FileNotFoundError m) = m"
| "error_text repr (OSError m) = m"
| "error_text repr (RuntimeError m) = m"
| "error_text repr (RoutePlanValidationError m) = m"
| "error_text repr (BackendResolutionError m) = m"
| "error_text repr (CapacityRegistryValidationError m) = m"
| "error_text repr (ControlPlaneRequestError m) = m"
| "error_text repr (HostAdapterInputError m) = m"

fun is_value_error :: "py_error \<Rightarrow> bool" where
  "is_value_error (ValueError m) \<longleftrightarrow> True"
| "is_value_error (RoutePlanValidationError m) \<longleftrightarrow> True"
| "is_value_error (BackendResolutionError m) \<longleftrightarrow> True"
| "is_value_error (CapacityRegistryValidationError m) \<longleftrightarrow> True"
| "is_value_error (HostAdapterInputError m) \<longleftrightarrow> True"
| "is_value_error e \<longleftrightarrow> False"

fun is_key_error :: "py_error \<Rightarrow> bool" where
  "is_key_error (KeyError m) \<longleftrightarrow> True"
| "is_key_error e \<longleftrightarrow> False"

fun is_permission_error :: "py_error \<Rightarrow> bool" where
  "is_permission_error (PermissionError m) \<longleftrightarrow> True"
| "is_permission_error e \<longleftrightarrow> False"

fun is_lease_conflict :: "py_error \<Rightarrow> bool" where
  "is_lease_conflict (LeaseConflictError m) \<longleftrightarrow> True"
| "is_lease_conflict e \<longleftrightarrow> False"

definition map_error :: "(py_error \<Rightarrow> py_error) \<Rightarrow> 'a op \<Rightarrow> 'a op" where
  "map_error f m = (\<lambda>w. case m w of (Inl e, w') \<Rightarrow> (Inl (f e), w') | (Inr x, w') \<Rightarrow> (Inr x, w'))"

text \<open>\<open>try: ... except (...) as exc: raise HTTPException(code, detail={"error": str(exc)})\<close>\<close>

definition or_http :: "nat \<Rightarrow> (py_error \<Rightarrow> bool) \<Rightarrow> (json \<Rightarrow> string) \<Rightarrow> json op \<Rightarrow> reply op" where
  "or_http code caught repr m = (\<lambda>w. case m w of
     (Inl e, w') \<Rightarrow> (if caught e then Inr (Refused code (error_text repr e)) else Inl e, w')
   | (Inr v, w') \<Rightarrow> (Inr (Reply v), w'))"

definition answered :: "json op \<Rightarrow> reply op" where
  "answered m = bnd m (\<lambda>v. ret (Reply v))"

definition not_implemented :: "string \<Rightarrow> fields" where
  "not_implemented component =
     [(''status'', JStr ''not_implemented''), (''component'', JStr component),
      (''reason'', JStr ''Downstream WP5+ runtime module is not implemented yet.'')]"

section \<open>Workers and capacity\<close>

definition registration_payload :: "fields \<Rightarrow> fields result" where
  "registration_payload payload =
     bind_result (item payload ''worker_id'') (\<lambda>worker_id.
     let task_types = dget_or (JList []) payload ''allowed_task_types'' in
     Inr [(''worker_id'', worker_id), (''identity'', dget_or worker_id payload ''identity''),
          (''capabilities'', dget_or task_types payload ''capabilities''), (''allowed_task_types'', task_types),
          (''allowed_data_labels'', dget_or (JList [JStr ''public_url'']) payload ''allowed_data_labels''),
          (''allowed_privacy_levels'', dget_or (JList [JStr ''private'']) payload ''allowed_privacy_levels''),
          (''execution_location'', dget_or (JStr ''windows_worker'') payload ''execution_location''),
          (''trust_level'', dget_or (JStr ''trusted_private'') payload ''trust_level''),
          (''backend_ids'', dget_or (JList []) payload ''backend_ids''),
          (''backend_classes'', dget_or (JList [JStr ''local_tool'']) payload ''backend_classes''),
          (''health_status'', dget_or (JStr ''healthy'') payload ''health_status'')])"

text \<open>The statement opens a transaction, which the commit closes.\<close>

definition store_worker_manifest :: "worker_manifest \<Rightarrow> string \<Rightarrow> string \<Rightarrow> unit op" where
  "store_worker_manifest m hash now =
     seq (execute (\<lambda>t. Inr (t\<lparr>worker_manifests := upsert_row wm_worker_id
            (\<lambda>old. old\<lparr>wm_manifest_hash := hash, wm_body := canonical (dump_worker_manifest m), wm_updated_at := now\<rparr>)
            \<lparr>wm_worker_id = wkm_worker_id m, wm_manifest_hash = hash, wm_body = canonical (dump_worker_manifest m),
             wm_created_at = now, wm_updated_at = now\<rparr> (worker_manifests t)\<rparr>)))
     (modify commit)"

text \<open>The two timestamps of a manifest come from the clock when it is made.\<close>

definition upsert_worker_manifest :: "server_environment \<Rightarrow> fields \<Rightarrow> worker_manifest op" where
  "upsert_worker_manifest sv payload =
     bnd (of_result (registration_payload payload)) (\<lambda>arguments.
     bnd (gets (\<lambda>w. canonical_json_hash (sha256 (plat w)) (float_repr (plat w)) (JObj arguments))) (\<lambda>hash.
     bnd (of_result (env_worker (he_route (sv_host sv)) (arguments @ [(''manifest_hash'', JStr hash)]))) (\<lambda>made.
     bnd utc_text_now (\<lambda>created.
     bnd utc_text_now (\<lambda>updated. let m = made\<lparr>wkm_created_at := created, wkm_updated_at := updated\<rparr> in
     bnd utc_text_now (\<lambda>now.
     seq (store_worker_manifest m hash now) (ret m)))))))"

definition rebuild_capacity_projection :: "host_environment \<Rightarrow> loaded_config \<Rightarrow> nat op" where
  "rebuild_capacity_projection he cfg =
     (let env = he_route he in
      bnd (of_result (worker_manifests_from_config (env_worker env) cfg)) (\<lambda>configured.
      bnd (bnd (select (stored_worker_manifests he)) of_result) (\<lambda>stored.
      bnd (of_result (load_backend_manifests (env_repr env) (env_backend env) cfg)) (\<lambda>backends.
      bnd (rebuild_capacity_nodes (he_worker_json he) (\<lambda>_. Inl (TypeError []))
             (map (\<lambda>(_, m). Dto m) (by_key wkm_worker_id (configured @ stored))) (map Dto backends)) (\<lambda>nodes.
      ret (length nodes))))))"

definition serve_registration :: "server_environment \<Rightarrow> fields \<Rightarrow> json op" where
  "serve_registration sv payload =
     bnd (upsert_worker_manifest sv payload) (\<lambda>m.
     bnd (rebuild_capacity_projection (sv_host sv) (sv_config sv)) (\<lambda>n.
     ret (JObj [(''status'', JStr ''ok''), (''worker_id'', JStr (wkm_worker_id m)),
                (''manifest_hash'', str_opt (wkm_manifest_hash m)),
                (''capacity_node_id'', JStr (''capnode:worker:'' @ wkm_worker_id m)),
                (''capacity_node_count'', JInt (int n))])))"

definition serve_heartbeat :: "string \<Rightarrow> json op" where
  "serve_heartbeat worker_id =
     seq (record_worker_heartbeat worker_id ''healthy'')
     (ret (JObj [(''status'', JStr ''ok''), (''worker_id'', JStr worker_id)]))"

text \<open>A polled assignment as a document: the columns of the table in their order, then what the scheduler adds.\<close>

definition assignment_document :: "(rat \<Rightarrow> string) \<Rightarrow> polled_assignment \<Rightarrow> json" where
  "assignment_document fr p =
     (let a = po_row p in JObj
       [(''assignment_id'', JStr (asg_id a)), (''attempt_id'', JStr (asg_attempt_id a)),
        (''work_unit_id'', JStr (asg_work_unit_id a)), (''worker_id'', JStr (asg_worker_id a)),
        (''status'', JStr (assignment_status_text (asg_status a))), (''body_json'', JStr (canonical_json_dumps fr (asg_body a))),
        (''created_at'', JStr (asg_created_at a)), (''capacity_node_id'', str_opt (asg_capacity_node_id a)),
        (''backend_id'', str_opt (asg_backend_id a)), (''lease_token_hash'', str_opt (asg_lease_token_hash a)),
        (''lease_token_prefix'', str_opt (asg_lease_token_prefix a)), (''lease_version'', JInt (asg_lease_version a)),
        (''effective_constraints_json'', JStr (canonical_json_dumps fr (asg_effective_constraints a))),
        (''assigned_at'', str_opt (asg_assigned_at a)), (''lease_expires_at'', str_opt (asg_lease_expires_at a)),
        (''accepted_at'', str_opt (asg_accepted_at a)), (''completed_at'', str_opt (asg_completed_at a)),
        (''updated_at'', str_opt (asg_updated_at a)), (''body'', JObj (po_body p)),
        (''effective_constraints'', JObj (po_effective_constraints p)),
        (''backend_class'', case po_backend_class p of None \<Rightarrow> JNull | Some v \<Rightarrow> v)])"

definition serve_next_assignment :: "string \<Rightarrow> json op" where
  "serve_next_assignment worker_id =
     bnd (poll_next_assignment worker_id) (\<lambda>polled.
     bnd (gets (\<lambda>w. float_repr (plat w))) (\<lambda>fr.
     ret (JObj [(''status'', JStr ''ok''),
                (''assignment'', case polled of None \<Rightarrow> JNull | Some p \<Rightarrow> assignment_document fr p)])))"

definition serve_capacity_health :: "json op" where
  "serve_capacity_health =
     bnd (select capacity_nodes) (\<lambda>rows.
     ret (JObj [(''status'', JStr ''ok''),
       (''counts'', JObj (map (\<lambda>s. (s, JInt (int (length (filter (\<lambda>r. cn_status r = s) rows)))))
          (sort (remdups (map cn_status rows)))))]))"

definition serve_capacity_node :: "string \<Rightarrow> reply op" where
  "serve_capacity_node capacity_node_id =
     bnd (select (\<lambda>t. find_row cn_id (capacity_nodes t) capacity_node_id)) (\<lambda>row.
     case row of
       None \<Rightarrow> ret (Refused 404 ''capacity_node_not_found'')
     | Some r \<Rightarrow> ret (Reply (JObj [(''status'', JStr ''ok''), (''node'', cn_body r)])))"

section \<open>Assignments\<close>

text \<open>A document that is not a text is different from the worker of every row.\<close>

definition worker_argument :: "string \<Rightarrow> json \<Rightarrow> string op" where
  "worker_argument assignment_id v =
     (case v of
        JStr s \<Rightarrow> ret s
      | _ \<Rightarrow> select (\<lambda>t. case find_row asg_id (assignments t) assignment_id of
               None \<Rightarrow> [] | Some a \<Rightarrow> asg_worker_id a @ ''?''))"

text \<open>SQLite refuses an integer of more than 64 bits where the statement compares it.\<close>

definition version_conflict :: py_error where
  "version_conflict = LeaseConflictError ''assignment lease_version conflict''"

definition bound_version :: "int \<Rightarrow> 'a op \<Rightarrow> 'a op" where
  "bound_version n = map_error (\<lambda>e.
     if e = version_conflict \<and> \<not> (- (2 ^ 63) \<le> n \<and> n < 2 ^ 63)
     then OverflowError ''Python int too large to convert to SQLite INTEGER'' else e)"

text \<open>The hash of a token that is not a text raises, once the row has a hash to compare it with.\<close>

definition with_token :: "string \<Rightarrow> string \<Rightarrow> json \<Rightarrow> (string option \<Rightarrow> 'a op) \<Rightarrow> 'a op" where
  "with_token assignment_id worker_id v m =
     (case v of
        JStr s \<Rightarrow> m (Some s)
      | _ \<Rightarrow>
          if \<not> truthy v then m None
          else bnd (assignment_for_worker assignment_id worker_id) (\<lambda>a.
               if asg_lease_token_hash a = None \<or> asg_lease_token_hash a = Some []
               then raise (PermissionError ''invalid assignment lease token'')
               else raise (TypeError ''object has no attribute encode'')))"

definition assignment_conflict :: "py_error \<Rightarrow> bool" where
  "assignment_conflict e \<longleftrightarrow> is_key_error e \<or> is_permission_error e \<or> is_lease_conflict e"

definition serve_accept :: "server_environment \<Rightarrow> string \<Rightarrow> fields \<Rightarrow> reply op" where
  "serve_accept sv assignment_id payload = or_http 409 assignment_conflict (sv_repr sv)
     (bnd (of_result (item payload ''worker_id'')) (\<lambda>v.
      bnd (of_result (py_int (dget_or (JInt 0) payload ''expected_lease_version''))) (\<lambda>n.
      bnd (worker_argument assignment_id v) (\<lambda>worker_id.
      bnd (bound_version n (accept_assignment assignment_id worker_id n default_lease_duration_ms)) (\<lambda>l.
      ret (JObj [(''assignment_id'', JStr (al_assignment_id l)), (''lease_token'', JStr (al_lease_token l)),
                 (''lease_version'', JInt (al_lease_version l)), (''lease_expires_at'', JStr (al_lease_expires_at l))]))))))"

definition serve_reject :: "server_environment \<Rightarrow> string \<Rightarrow> fields \<Rightarrow> reply op" where
  "serve_reject sv assignment_id payload = or_http 409 (\<lambda>e. is_key_error e \<or> is_permission_error e) (sv_repr sv)
     (bnd (of_result (item payload ''worker_id'')) (\<lambda>v.
      bnd (worker_argument assignment_id v) (\<lambda>worker_id.
      seq (reject_assignment assignment_id worker_id)
      (ret (JObj [(''assignment_id'', JStr assignment_id), (''status'', JStr ''rejected'')])))))"

definition serve_progress :: "server_environment \<Rightarrow> string \<Rightarrow> fields \<Rightarrow> reply op" where
  "serve_progress sv assignment_id payload = or_http 409 assignment_conflict (sv_repr sv)
     (bnd (of_result (item payload ''worker_id'')) (\<lambda>v.
      bnd (of_result (item payload ''lease_token'')) (\<lambda>token.
      bnd (of_result (bind_result (item payload ''expected_lease_version'') py_int)) (\<lambda>n.
      bnd (worker_argument assignment_id v) (\<lambda>worker_id.
      bnd (with_token assignment_id worker_id token (\<lambda>tok.
             bound_version n (progress_assignment assignment_id worker_id tok n default_lease_duration_ms))) (\<lambda>l.
      ret (JObj [(''assignment_id'', JStr (pl_assignment_id l)), (''status'', JStr ''running''),
                 (''lease_version'', JInt (pl_lease_version l)), (''lease_expires_at'', JStr (pl_lease_expires_at l))])))))))"

definition result_document :: "submitted_result \<Rightarrow> (verifier_report \<times> host_result_summary) option \<Rightarrow> json" where
  "result_document r finalized = JObj
     ([(''status'', JStr (result_status_text (sr_status r))), (''result_envelope_id'', JStr (sr_result_envelope_id r)),
       (''output_hash'', JStr (sr_output_hash r)), (''result_hash'', JStr (sr_result_hash r))] @
      (case finalized of
         None \<Rightarrow> []
       | Some (report, s) \<Rightarrow> [(''verifier_report'', dump_verifier_report report), (''host_result_summary'', dump_host_summary s)]))"

definition submit_payload_result :: "server_environment \<Rightarrow> string \<Rightarrow> string \<Rightarrow> fields \<Rightarrow> submitted_result op" where
  "submit_payload_result sv assignment_id worker_id payload =
     (let out = dget_or (JObj []) payload ''output'';
          envelope = (case get_null payload ''result_envelope'' of JNull \<Rightarrow> No_envelope | v \<Rightarrow> Raw_envelope v);
          submit = (\<lambda>tok th. submit_result (he_envelope (sv_host sv)) assignment_id worker_id tok th out envelope) in
      case get_null payload ''lease_token_hash'' of
        JNull \<Rightarrow> with_token assignment_id worker_id (get_null payload ''lease_token'') (\<lambda>tok. submit tok None)
      | JStr h \<Rightarrow> submit None (Some h)
      | _ \<Rightarrow> submit None (Some []))"

definition serve_result :: "server_environment \<Rightarrow> string \<Rightarrow> fields \<Rightarrow> reply op" where
  "serve_result sv assignment_id payload =
     or_http 409 (\<lambda>e. is_key_error e \<or> is_permission_error e \<or> is_value_error e) (sv_repr sv)
     (bnd (of_result (item payload ''worker_id'')) (\<lambda>v.
      bnd (worker_argument assignment_id v) (\<lambda>worker_id.
      bnd (submit_payload_result sv assignment_id worker_id payload) (\<lambda>r.
      bnd (finalize_url_check_result (sv_host sv) (sr_result_envelope_id r)) (\<lambda>finalized.
      ret (result_document r finalized))))))"

section \<open>Host\<close>

definition serve_capabilities :: "json op" where
  "serve_capabilities =
     bnd (select (\<lambda>t. map cn_id (sort_key cn_id (capacity_nodes t)))) (\<lambda>ids.
     ret (JObj [(''status'', JStr ''ok''), (''capability_count'', JInt (int (length ids))), (''capacity_node_ids'', str_list ids)]))"

definition submitted_document :: "submitted_work_unit \<Rightarrow> json" where
  "submitted_document s = JObj
     [(''status'', JStr ''submitted''), (''run_id'', JStr (sw_run_id s)), (''work_unit_id'', JStr (sw_work_unit_id s)),
      (''route_plan_id'', JStr (sw_route_plan_id s)), (''policy_decision_id'', JStr (sw_policy_decision_id s)),
      (''attempt_id'', JStr (sw_attempt_id s)), (''assignment_id'', JStr (sw_assignment_id s)),
      (''worker_id'', JStr (sw_worker_id s)), (''capacity_node_id'', JStr (sw_capacity_node_id s)),
      (''backend_id'', JStr (sw_backend_id s)), (''backend_class'', JStr (sw_backend_class s)),
      (''verifier_recipe_id'', JStr (sw_verifier_recipe_id s))]"

text \<open>\<open>payload.get(key) or inline_input.get(key)\<close>\<close>

definition payload_or_inline :: "fields \<Rightarrow> fields \<Rightarrow> string \<Rightarrow> json" where
  "payload_or_inline payload inline k = or_json (get_null payload k) (get_null inline k)"

definition required_text :: "string \<Rightarrow> json \<Rightarrow> string result" where
  "required_text message v = (case v of JStr s \<Rightarrow> if s = [] then Inl (ValueError message) else Inr s | _ \<Rightarrow> Inl (ValueError message))"

fun text_or_none :: "json \<Rightarrow> string option" where
  "text_or_none (JStr s) = Some s"
| "text_or_none v = None"

fun optional_text_list :: "string \<Rightarrow> json \<Rightarrow> string list option result" where
  "optional_text_list message JNull = Inr None"
| "optional_text_list message (JList xs) =
     (if \<forall>x \<in> set xs. non_empty_text x then Inr (Some (map text_or_empty xs)) else Inl (ValueError message))"
| "optional_text_list message v = Inl (ValueError message)"

definition submit_text_task :: "server_environment \<Rightarrow> string \<Rightarrow> (string \<Rightarrow> json) \<Rightarrow> submitted_work_unit op" where
  "submit_text_task sv task_type given =
     (let he = sv_host sv; cfg = sv_config sv in
      bnd (of_result (required_text (task_type @ '' requires text'') (given ''text''))) (\<lambda>body.
      if task_type = ''topic_classification''
      then bnd (of_result (optional_text_list ''topic_classification allowed_labels must be a string list'' (given ''allowed_labels'')))
             (\<lambda>labels. submit_topic_classification_work_unit he cfg body labels None)
      else bnd (of_result (optional_text_list ''claim_extraction allowed_claim_types must be a string list''
             (given ''allowed_claim_types''))) (\<lambda>claim_types.
           submit_claim_extraction_work_unit he cfg body
             (if non_empty_text (given ''source_id'') then text_or_empty (given ''source_id'') else ''src_claim_1'')
             (text_or_none (given ''entity'')) claim_types None)))"

definition submit_payload_task :: "server_environment \<Rightarrow> string \<Rightarrow> (string \<Rightarrow> json) \<Rightarrow> submitted_work_unit op" where
  "submit_payload_task sv task_type given =
     (let he = sv_host sv; cfg = sv_config sv in
      if task_type = ''url_check''
      then bnd (of_result (required_text ''url_check requires url'' (given ''url'')))
             (\<lambda>url. submit_url_check_work_unit he cfg url None)
      else if task_type = ''dedup''
      then (case given ''items'' of
              JList items \<Rightarrow> submit_dedup_work_unit he cfg items None
            | _ \<Rightarrow> raise (ValueError ''dedup requires items list''))
      else if task_type \<in> {''topic_classification'', ''claim_extraction''} then submit_text_task sv task_type given
      else bnd (of_result (required_text ''webpage_extraction requires url'' (given ''url''))) (\<lambda>url.
           submit_webpage_extraction_work_unit he cfg url (text_or_none (given ''html'')) (text_or_none (given ''text''))
             (text_or_none (given ''title'')) None))"

text \<open>A task type that is a list or an object cannot be looked up in a set.\<close>

definition serve_submission :: "server_environment \<Rightarrow> fields \<Rightarrow> reply op" where
  "serve_submission sv payload =
     (case get_null payload ''task_type'' of
        JList xs \<Rightarrow> raise (TypeError ''unhashable type'')
      | JObj d \<Rightarrow> raise (TypeError ''unhashable type'')
      | JStr task_type \<Rightarrow>
          if task_type \<in> {''url_check'', ''dedup'', ''webpage_extraction'', ''topic_classification'', ''claim_extraction''}
          then or_http 400 is_value_error (sv_repr sv)
                 (bnd (submit_payload_task sv task_type (payload_or_inline payload (json_fields (get_null payload ''inline_input''))))
                   (\<lambda>s. ret (submitted_document s)))
          else ret (Reply (JObj (not_implemented ''host.work_units.submit.unsupported_demo_task'')))
      | _ \<Rightarrow> ret (Reply (JObj (not_implemented ''host.work_units.submit.unsupported_demo_task''))))"

definition serve_work_unit_status :: "string \<Rightarrow> reply op" where
  "serve_work_unit_status work_unit_id =
     bnd (get_work_unit_status work_unit_id) (\<lambda>row.
     bnd (gets (\<lambda>w. float_repr (plat w))) (\<lambda>fr.
     case row of
       None \<Rightarrow> ret (Refused 404 ''work_unit_not_found'')
     | Some u \<Rightarrow> ret (Reply (JObj [(''status'', JStr ''ok''), (''work_unit'', JObj
         [(''work_unit_id'', JStr (wu_id u)), (''run_id'', JStr (wu_run_id u)),
          (''status'', JStr (work_unit_status_text (wu_status u))), (''task_type'', JStr (wu_task_type u)),
          (''task_level'', JStr (wu_task_level u)), (''body_json'', JStr (canonical_json_dumps fr (wu_body u)))])]))))"

definition summary_document :: "string \<Rightarrow> string \<Rightarrow> json option \<Rightarrow> json" where
  "summary_document key i s = JObj
     [(''status'', JStr (if s = None then ''pending'' else ''ok'')), (key, JStr i),
      (''host_result_summary'', case s of None \<Rightarrow> JNull | Some v \<Rightarrow> v)]"

definition serve_work_unit_result :: "server_environment \<Rightarrow> string \<Rightarrow> json op" where
  "serve_work_unit_result sv work_unit_id =
     bnd (get_host_result_summary (sv_host sv) work_unit_id) (\<lambda>s. ret (summary_document ''work_unit_id'' work_unit_id s))"

definition serve_report_summary :: "string \<Rightarrow> json op" where
  "serve_report_summary run_id =
     bnd (select (\<lambda>t. newest hsr_created_at (filter (\<lambda>r. hsr_run_id r = run_id) (host_result_summaries t)))) (\<lambda>row.
     ret (summary_document ''run_id'' run_id (map_option hsr_body row)))"

section \<open>Internal\<close>

definition serve_plan :: "server_environment \<Rightarrow> fields option \<Rightarrow> reply op" where
  "serve_plan sv payload =
     (case payload of
        None \<Rightarrow> ret (Reply (JObj [(''status'', JStr ''ok''), (''route_plan'', JNull), (''message'', JStr ''work_unit payload required'')]))
      | Some d \<Rightarrow>
          let cfg = sv_config sv in
          or_http 400 (\<lambda>e. is_key_error e \<or> is_value_error e) (sv_repr sv)
          (bnd (gets (\<lambda>w. on_platform (sv_host sv) (plat w))) (\<lambda>env.
           bnd (of_result (router_service_from_dirs env (cfg_root cfg) (routebook_root_of cfg None) None)) (\<lambda>svc.
           bnd (of_result (bind_result (item d ''work_unit'') as_dict)) (\<lambda>work_unit.
           bnd (plan_route env svc work_unit True) (\<lambda>plan.
           ret (JObj [(''status'', JStr ''ok''), (''route_plan'', dump_route_plan plan)])))))))"

definition serve_tick :: "json op" where
  "serve_tick =
     bnd sweep_expired_leases (\<lambda>n. ret (JObj [(''status'', JStr ''ok''), (''expired_assignments'', JInt (int n))]))"

definition serve_rebuild :: "server_environment \<Rightarrow> json op" where
  "serve_rebuild sv =
     bnd (rebuild_capacity_projection (sv_host sv) (sv_config sv)) (\<lambda>n.
     ret (JObj [(''status'', JStr ''ok''), (''capacity_node_count'', JInt (int n))]))"

section \<open>The application\<close>

definition health :: json where
  "health = JObj [(''status'', JStr ''ok''), (''product'', JStr ''TokenBank''), (''phase'', JStr ''Private Agent Capacity Network'')]"

definition given_payload :: "fields option \<Rightarrow> fields" where
  "given_payload p = (case p of None \<Rightarrow> [] | Some d \<Rightarrow> d)"

fun run_endpoint :: "server_environment \<Rightarrow> endpoint \<Rightarrow> fields option \<Rightarrow> reply op" where
  "run_endpoint sv Health p = ret (Reply health)"
| "run_endpoint sv Host_capabilities p = answered serve_capabilities"
| "run_endpoint sv Submit_work_unit p = serve_submission sv (given_payload p)"
| "run_endpoint sv (Work_unit_status i) p = serve_work_unit_status i"
| "run_endpoint sv (Work_unit_result i) p = answered (serve_work_unit_result sv i)"
| "run_endpoint sv (Cancel_work_unit i) p =
     ret (Reply (JObj (not_implemented ''host.work_units.cancel'' @ [(''work_unit_id'', JStr i)])))"
| "run_endpoint sv Estimate_route p = ret (Reply (JObj (not_implemented ''host.routes.estimate'')))"
| "run_endpoint sv (Get_artifact i) p =
     ret (Reply (JObj (not_implemented ''host.artifacts.get'' @ [(''artifact_ref_id'', JStr i)])))"
| "run_endpoint sv (Report_summary i) p = answered (serve_report_summary i)"
| "run_endpoint sv List_capacity_nodes p =
     bnd discover_capacity_nodes (\<lambda>nodes. ret (Reply (JObj [(''status'', JStr ''ok''), (''nodes'', JList nodes)])))"
| "run_endpoint sv Capacity_health p = answered serve_capacity_health"
| "run_endpoint sv (Inspect_capacity_node i) p = serve_capacity_node i"
| "run_endpoint sv Rebuild_capacity_registry p = answered (serve_rebuild sv)"
| "run_endpoint sv Register_worker p = answered (serve_registration sv (given_payload p))"
| "run_endpoint sv (Worker_heartbeat i) p = answered (serve_heartbeat i)"
| "run_endpoint sv (Next_assignment i) p = answered (serve_next_assignment i)"
| "run_endpoint sv (Accept_assignment i) p = serve_accept sv i (given_payload p)"
| "run_endpoint sv (Reject_assignment i) p = serve_reject sv i (given_payload p)"
| "run_endpoint sv (Assignment_progress i) p = serve_progress sv i (given_payload p)"
| "run_endpoint sv (Assignment_result i) p = serve_result sv i (given_payload p)"
| "run_endpoint sv Router_plan p = serve_plan sv p"
| "run_endpoint sv Scheduler_tick p = answered serve_tick"
| "run_endpoint sv Policy_evaluate p = ret (Reply (JObj (not_implemented ''internal.policy.evaluate'')))"
| "run_endpoint sv Model_gateway_execute p = ret (Reply (JObj (not_implemented ''internal.model_gateway.execute'')))"
| "run_endpoint sv Reports_generate p = ret (Reply (JObj (not_implemented ''internal.reports.generate'')))"
| "run_endpoint sv Verifier_run p = ret (Reply (JObj (not_implemented ''internal.verifier.run'')))"

text \<open>An exception that no handler turns into an answer is a plain 500.\<close>

fun answer_of :: "server_environment \<Rightarrow> reply result \<Rightarrow> http_answer" where
  "answer_of sv (Inr (Reply v)) = Answer 200 (sv_render sv v) (Some v)"
| "answer_of sv (Inr (Refused code m)) =
     (let d = JObj [(''detail'', JObj [(''error'', JStr m)])] in Answer (int code) (sv_render sv d) (Some d))"
| "answer_of sv (Inl e) = Answer 500 ''Internal Server Error'' None"

definition authorize :: "endpoint \<Rightarrow> string \<Rightarrow> reply option" where
  "authorize ep authorization =
     (case required_token ep of
        None \<Rightarrow> None
      | Some kind \<Rightarrow> (case require_token_kind authorization kind of Inl r \<Rightarrow> Some r | Inr _ \<Rightarrow> None))"

text \<open>The token is checked before the body.\<close>

definition serve :: "server_environment \<Rightarrow> http_request \<Rightarrow> world \<Rightarrow> http_answer \<times> world" where
  "serve sv rq w =
     (case endpoint_of (rq_method rq) (rq_path rq) of
        None \<Rightarrow> (sv_framework sv rq, w)
      | Some ep \<Rightarrow>
          (case authorize ep (rq_authorization rq) of
             Some r \<Rightarrow> (answer_of sv (Inr r), w)
           | None \<Rightarrow>
               (case payload_of (declared_body ep) (rq_json rq) of
                  None \<Rightarrow> (sv_framework sv rq, w)
                | Some p \<Rightarrow> (case run_endpoint sv ep p w of (r, w') \<Rightarrow> (answer_of sv r, w')))))"

text \<open>The start of the application: an inconsistent configuration ends it, a consistent one fills the capacity table.\<close>

definition issue_text :: "validation_issue \<Rightarrow> string" where
  "issue_text i = iss_code i @ '': '' @ iss_message i"

definition start_application :: "host_environment \<Rightarrow> string \<Rightarrow> (loaded_config \<times> nat) op" where
  "start_application he config_dir =
     bnd (gets (\<lambda>w. on_platform he (plat w))) (\<lambda>env.
     bnd (of_result (load_config_dir (env_platform env) config_dir (rf_yaml (env_files env) config_dir)
            (rf_pricing (env_files env) config_dir))) (\<lambda>cfg.
     bnd (of_result (validate_loaded_config (env_repr env) (env_backend env) cfg)) (\<lambda>v.
     seq (require (val_ok v) (RuntimeError (''TokenBank config validation failed: '' @ join ''; '' (map issue_text (val_issues v)))))
     (bnd (rebuild_capacity_projection he cfg) (\<lambda>n. ret (cfg, n))))))"

end
