(* ===== verification/Endpoint_Properties.thy ===== *)
theory Endpoint_Properties
  imports Endpoints Host_Properties Host_Summary Scheduler_Properties Worker_Properties
begin

text \<open>
  What the HTTP application promises: a request without its token changes nothing, a served request keeps the invariant of
  the scheduler, a refused request of a worker has no effect, and a worker that runs against the application leaves what it
  completed in the database. One request breaks the rule: a plan for a work unit that is not stored leaves the connection in a
  transaction, and no later write succeeds.
\<close>

section \<open>Tokens\<close>

lemma partition_at_found: "dropWhile (\<lambda>x. x \<noteq> c) s = y # rest \<Longrightarrow> s = takeWhile (\<lambda>x. x \<noteq> c) s @ c # rest"
  by (metis (mono_tags) dropWhile_eq_Cons_conv takeWhile_dropWhile_id)

lemma extract_bearer_token_ok:
  "extract_bearer_token authorization = Inr token \<Longrightarrow>
     \<exists>scheme. lower scheme = ''bearer'' \<and> token \<noteq> [] \<and> authorization = scheme @ '' '' @ token"
proof -
  assume ok: "extract_bearer_token authorization = Inr token"
  let ?rest = "dropWhile (\<lambda>x. x \<noteq> CHR '' '') authorization"
  have t: "lower (takeWhile (\<lambda>x. x \<noteq> CHR '' '') authorization) = ''bearer''" "token = tl ?rest" "token \<noteq> []"
    using ok by (auto simp: extract_bearer_token_def partition_at_def split: if_splits)
  then obtain y where "?rest = y # token" by (cases ?rest) auto
  then show ?thesis using partition_at_found [of "CHR '' ''" authorization y token] t by auto
qed

lemma require_token_kind_ok:
  "require_token_kind authorization kind = Inr c \<Longrightarrow>
     \<exists>scheme rest. lower scheme = ''bearer'' \<and> authorization = scheme @ '' '' @ token_prefix kind @ rest"
  using extract_bearer_token_ok by (fastforce simp: require_token_kind_def starts_with_iff split: sum.splits if_splits)

lemma require_token_kind_refuses:
  "require_token_kind authorization kind = Inl r \<Longrightarrow>
     r = Refused 401 ''missing_bearer_token'' \<or> r = Refused 403 ''wrong_token_kind''"
  by (auto simp: require_token_kind_def extract_bearer_token_def split: sum.splits prod.splits if_splits)

lemma required_token_none: "required_token ep = None \<longleftrightarrow> ep = Health"
  by (cases ep) simp_all

section \<open>Operations that keep a predicate\<close>

lemma run_map_error:
  "map_error f m w = (case m w of (Inl e, w') \<Rightarrow> (Inl (f e), w') | (Inr x, w') \<Rightarrow> (Inr x, w'))"
  by (simp add: map_error_def)

lemma map_error_run:
  assumes "map_error f m w = (r, w')"
  obtains e where "m w = (Inl e, w')" "r = Inl (f e)" | x where "m w = (Inr x, w')" "r = Inr x"
  using assms that by (cases "m w"; cases "fst (m w)") (auto simp: run_map_error)

lemma keeps_map_error: "keeps I m \<Longrightarrow> keeps I (map_error f m)"
  unfolding keeps_def
proof (intro allI impI)
  fix w
  assume m: "\<forall>s. I s \<longrightarrow> I (snd (m s))" and w: "I w"
  obtain r u where u: "map_error f m w = (r, u)" by fastforce
  then have "snd (m w) = u" by (rule map_error_run) simp_all
  then show "I (snd (map_error f m w))" using m w u by auto
qed

lemma or_http_run:
  assumes "or_http code caught repr m w = (r, w')"
  obtains e where "m w = (Inl e, w')" "r = (if caught e then Inr (Refused code (error_text repr e)) else Inl e)"
  | v where "m w = (Inr v, w')" "r = Inr (Reply v)"
  using assms that by (cases "m w"; cases "fst (m w)") (auto simp: or_http_def)

lemma keeps_or_http: "keeps I m \<Longrightarrow> keeps I (or_http code caught repr m)"
  unfolding keeps_def
proof (intro allI impI)
  fix w
  assume m: "\<forall>s. I s \<longrightarrow> I (snd (m s))" and w: "I w"
  obtain r u where u: "or_http code caught repr m w = (r, u)" by fastforce
  then have "snd (m w) = u" by (rule or_http_run) simp_all
  then show "I (snd (or_http code caught repr m w))" using m w u by auto
qed

lemma keeps_answered [keeps_intro]: "keeps I m \<Longrightarrow> keeps I (answered m)"
  unfolding answered_def by (intro keeps_intro)

lemma answered_run: "answered m w = (r, w') \<longleftrightarrow> (\<exists>q. m w = (q, w') \<and> r = map_sum id Reply q)"
  unfolding answered_def by (rule bnd_ret_run)

lemma keeps_bound_version: "keeps I m \<Longrightarrow> keeps I (bound_version n m)"
  by (simp add: bound_version_def keeps_map_error)

lemma keeps_worker_argument [keeps_intro]: "keeps I (worker_argument i v)"
  by (cases v) (simp_all add: worker_argument_def keeps_def)

lemma keeps_with_token: "(\<And>tok. keeps I (m tok)) \<Longrightarrow> keeps I (with_token i v tok m)"
  by (cases tok) (auto simp: with_token_def intro!: keeps_intro)

lemmas keeps_wrappers = keeps_or_http keeps_bound_version keeps_worker_argument keeps_with_token keeps_ret keeps_raise keeps_gets
  keeps_of_result keeps_select keeps_bnd keeps_seq

section \<open>Every request keeps the invariant\<close>

abbreviation invariant :: "tables \<Rightarrow> bool" where
  "invariant \<equiv> sched_inv {}"

lemma keeps_quiet_waiting: "(\<And>c. keeps (settled (waiting c)) m) \<Longrightarrow> keeps quiet_ok m"
  unfolding keeps_def by (metis (no_types, lifting) quiet_settled settled_def waiting_def)

lemma keeps_quiet_submission: "keeps quiet_ok (submit_demo_work_unit he cfg task_type inline_input dir)"
  unfolding keeps_def
proof (intro allI impI)
  fix w
  assume "quiet_ok w"
  then have "settled (waiting (committed w)) w" by (simp add: quiet_settled settled_def waiting_def)
  then show "quiet_ok (snd (submit_demo_work_unit he cfg task_type inline_input dir w))"
    using submission_outcome [of "committed w" he cfg task_type inline_input dir] unfolding ends_def default_denied_def
    by (metis prod.collapse)
qed

lemmas submission_defs = submit_url_check_work_unit_def submit_dedup_work_unit_def submit_webpage_extraction_work_unit_def
  submit_topic_classification_work_unit_def submit_claim_extraction_work_unit_def

lemma keeps_quiet_payload_task: "keeps quiet_ok (submit_payload_task sv task_type given)"
proof -
  have "keeps quiet_ok (submit_text_task sv task_type given)"
    unfolding submit_text_task_def submission_defs Let_def by (intro keeps_intro keeps_quiet_submission)
  moreover have "keeps quiet_ok (case given ''items'' of
      JList items \<Rightarrow> submit_dedup_work_unit (sv_host sv) (sv_config sv) items None
    | _ \<Rightarrow> raise (ValueError ''dedup requires items list''))"
    unfolding submission_defs by (auto split: json.split intro!: keeps_intro keeps_quiet_submission)
  ultimately show ?thesis
    unfolding submit_payload_task_def submit_url_check_work_unit_def submit_webpage_extraction_work_unit_def Let_def
    by (intro keeps_intro keeps_quiet_submission)
qed

lemma invariant_frame [simp]:
  "invariant (t\<lparr>verifier_reports := a\<rparr>) = invariant t" "invariant (t\<lparr>verifier_check_results := b\<rparr>) = invariant t"
  "invariant (t\<lparr>host_result_summaries := d\<rparr>) = invariant t" "invariant (t\<lparr>capacity_nodes := e\<rparr>) = invariant t"
  "invariant (t\<lparr>capacity_node_health_snapshots := f\<rparr>) = invariant t" "invariant (t\<lparr>worker_manifests := g\<rparr>) = invariant t"
  by (simp_all add: waiting_defs)

lemma waiting_results:
  "upsert_verifier_report r t = Inr t' \<Longrightarrow> waiting c t \<Longrightarrow> waiting c t'"
  "upsert_check_result i r k t = Inr t' \<Longrightarrow> waiting c t \<Longrightarrow> waiting c t'"
  "upsert_host_summary i s t = Inr t' \<Longrightarrow> waiting c t \<Longrightarrow> waiting c t'"
  unfolding upsert_verifier_report_def upsert_check_result_def upsert_host_summary_def fk_check_Inr
  by (auto simp: waiting_def)

lemma keeps_waiting_results:
  "keeps (settled (waiting c)) (persist_verifier_report r)" "keeps (settled (waiting c)) (persist_host_result_summary s)"
proof -
  have "keeps (on_current (waiting c)) (execute (upsert_verifier_report r))"
    "keeps (on_current (waiting c)) (execute (upsert_check_result i r k))" for i k
    by (rule keeps_execute_current; use waiting_results in blast)+
  then show "keeps (settled (waiting c)) (persist_verifier_report r)"
    unfolding persist_verifier_report_def
    by (auto intro!: keeps_bnd keeps_gets keeps_settled_transaction keeps_seq keeps_for_each keeps_waiting_host_event
        keeps_execute_durable split: prod.splits)
  show "keeps (settled (waiting c)) (persist_host_result_summary s)"
    unfolding persist_host_result_summary_def
    by (intro keeps_bnd keeps_gets keeps_waiting_change) (rule waiting_results(3))
qed

lemma keeps_waiting_finalize: "keeps (settled (waiting c)) (finalize_url_check_result he i)"
proof -
  have "keeps (settled (waiting c)) (verify_and_summarize he e k)" for e k
    unfolding verify_and_summarize_def Let_def
    by (cases k) (auto intro!: keeps_wrappers keeps_settled_draws keeps_waiting_results)
  then show ?thesis unfolding finalize_url_check_result_def by (auto intro!: keeps_wrappers keeps_option)
qed

lemma keeps_quiet_summary: "keeps quiet_ok (get_host_result_summary he i)"
  by (rule keeps_quiet_waiting)
    (auto simp: get_host_result_summary_def intro!: keeps_wrappers keeps_option keeps_waiting_finalize)

lemma keeps_projections [keeps_intro]:
  "keeps (settled J) (project_worker_manifest m)" "keeps (settled J) (project_backend_manifest b)"
  unfolding project_worker_manifest_def manifest_hash_of_def project_backend_manifest_def Let_def
  by (auto intro!: keeps_intro split: option.splits list.splits)

lemma keeps_invariant_nodes [keeps_intro]:
  "keeps (on_current invariant) (delete_other_nodes ids)" "keeps (on_current invariant) (upsert_capacity_node n)"
  "keeps (on_current invariant) (insert_health_snapshot n)"
  unfolding delete_other_nodes_def upsert_capacity_node_def insert_health_snapshot_def
  by (intro keeps_intro keeps_execute_current; auto)+

lemma keeps_durable_nodes [keeps_intro]:
  "keeps (durable_is c) (delete_other_nodes ids)" "keeps (durable_is c) (upsert_capacity_node n)"
  "keeps (durable_is c) (insert_health_snapshot n)"
  unfolding delete_other_nodes_def upsert_capacity_node_def insert_health_snapshot_def by (intro keeps_intro)+

definition capacity_free :: "(tables \<Rightarrow> bool) \<Rightarrow> bool" where
  "capacity_free J \<longleftrightarrow>
     (\<forall>t x. J (t\<lparr>capacity_nodes := x\<rparr>) = J t) \<and> (\<forall>t x. J (t\<lparr>capacity_node_health_snapshots := x\<rparr>) = J t)"

lemma keeps_frame_rebuild:
  assumes "capacity_free J"
  shows "keeps (settled J) (rebuild_capacity_projection he cfg)"
proof -
  note frame = assms [unfolded capacity_free_def]
  have nodes: "keeps (on_current J) (delete_other_nodes ids)" "keeps (on_current J) (upsert_capacity_node n)"
    "keeps (on_current J) (insert_health_snapshot n)" for ids n
    unfolding delete_other_nodes_def upsert_capacity_node_def insert_health_snapshot_def
    by (intro keeps_intro keeps_execute_current; auto simp: frame)+
  have "keeps (settled J) (rebuild_capacity_nodes f g ws bs)" for f g ws bs
    unfolding rebuild_capacity_nodes_def Let_def
    by (intro keeps_bnd keeps_seq keeps_of_result keeps_map_op keeps_projections keeps_settled_transaction keeps_for_each nodes
        keeps_durable_nodes keeps_ret)
  then show ?thesis unfolding rebuild_capacity_projection_def Let_def
    by (intro keeps_bnd keeps_of_result keeps_select keeps_ret)
qed

lemma keeps_quiet_rebuild: "keeps quiet_ok (rebuild_capacity_projection he cfg)"
  unfolding quiet_settled by (rule keeps_frame_rebuild) (simp add: capacity_free_def)

lemma keeps_quiet_registration: "keeps quiet_ok (upsert_worker_manifest sv payload)"
proof -
  have "keeps quiet_ok (store_worker_manifest m hash now)" for m hash now
    by (auto simp: keeps_def store_worker_manifest_def run_simps quiet_inv_def idle_def commit_def)
  moreover have "keeps quiet_ok utc_text_now" unfolding quiet_settled by (intro keeps_intro)
  ultimately show ?thesis unfolding upsert_worker_manifest_def Let_def by (intro keeps_intro)
qed

lemma keeps_quiet_payload_result: "keeps quiet_ok (submit_payload_result sv i v payload)"
  unfolding submit_payload_result_def Let_def
  by (auto intro!: keeps_with_token keeps_quiet_submit split: json.splits)

lemma keeps_quiet_handlers:
  "keeps quiet_ok (serve_registration sv payload)" "keeps quiet_ok (serve_rebuild sv)" "keeps quiet_ok (serve_heartbeat i)"
  "keeps quiet_ok (serve_next_assignment i)" "keeps quiet_ok (serve_accept sv i payload)"
  "keeps quiet_ok (serve_reject sv i payload)" "keeps quiet_ok (serve_progress sv i payload)"
  "keeps quiet_ok (serve_result sv i payload)" "keeps quiet_ok (serve_work_unit_result sv i)"
  unfolding serve_registration_def serve_rebuild_def serve_heartbeat_def serve_next_assignment_def serve_accept_def
    serve_reject_def serve_progress_def serve_result_def serve_work_unit_result_def
  by (intro keeps_wrappers keeps_quiet_registration keeps_quiet_rebuild keeps_quiet_operations keeps_quiet_payload_result
      keeps_quiet_summary keeps_quiet_waiting [OF keeps_waiting_finalize])+

lemma keeps_quiet_serve_submission: "keeps quiet_ok (serve_submission sv payload)"
  unfolding serve_submission_def
  by (auto intro!: keeps_wrappers keeps_quiet_payload_task split: json.split)

lemma keeps_views [keeps_intro]:
  "keeps I serve_capabilities" "keeps I (serve_work_unit_status i)" "keeps I (serve_report_summary i)"
  "keeps I serve_capacity_health" "keeps I (serve_capacity_node i)" "keeps I discover_capacity_nodes"
  unfolding serve_capabilities_def serve_work_unit_status_def serve_report_summary_def serve_capacity_health_def
    serve_capacity_node_def discover_capacity_nodes_def get_work_unit_status_def
  by (auto intro!: keeps_intro)

text \<open>The two handlers that change the database outside \<open>transaction\<close>.\<close>

definition commits_last :: "endpoint \<Rightarrow> bool" where
  "commits_last ep \<longleftrightarrow> ep = Router_plan \<or> ep = Scheduler_tick"

lemma keeps_quiet_endpoint: "\<not> commits_last ep \<Longrightarrow> keeps quiet_ok (run_endpoint sv ep p)"
  by (cases ep) (auto simp: commits_last_def intro!: keeps_quiet_handlers keeps_quiet_serve_submission keeps_intro)

lemma quiet_clock: "quiet_ok w \<Longrightarrow> quiet_ok (w\<lparr>clock_draws := n\<rparr>)"
  by (simp add: quiet_inv_def idle_def)

lemma persist_upserts: "persist_route_plan plan = seq (execute (upsert_route_plan plan)) (modify commit)"
  by (simp add: persist_route_plan_def upsert_route_plan_def [abs_def])

lemma persist_route_plan_quiet:
  assumes w: "quiet_ok w" and run: "persist_route_plan plan w = (r, w')"
  shows "quiet_ok w' \<or> (\<exists>m. r = Inl (IntegrityError m))"
proof (cases "upsert_route_plan plan (committed w)")
  case (Inl e)
  then have "\<exists>m. e = IntegrityError m" by (auto simp: upsert_route_plan_def fk_check_def split: if_splits)
  then show ?thesis using w run Inl by (auto simp: persist_upserts run_simps quiet_inv_def idle_def)
next
  case (Inr t)
  have "waiting (committed w) (committed w)" using w by (simp add: quiet_inv_def waiting_def)
  then have "waiting (committed w) t" by (rule waiting_upsert_route_plan [OF Inr])
  then show ?thesis
    using w run Inr by (auto simp: persist_upserts run_simps quiet_inv_def idle_def commit_def waiting_def)
qed

lemma plan_route_quiet:
  assumes w: "quiet_ok w" and run: "plan_route env svc wu True w = (r, w')"
  shows "quiet_ok w' \<or> (\<exists>m. r = Inl (IntegrityError m))"
proof -
  let ?u = "w\<lparr>clock_draws := Suc (clock_draws w)\<rparr>"
  have u: "quiet_ok ?u" by (rule quiet_clock [OF w])
  consider "w' = ?u" | plan q where "persist_route_plan plan ?u = (q, w')" "r = map_sum id (\<lambda>_. plan) q"
    using run by (auto simp: plan_route_def run_simps split: sum.splits prod.splits)
  then show ?thesis
  proof cases
    case 1
    then show ?thesis using u by simp
  next
    case 2
    then show ?thesis using persist_route_plan_quiet [OF u 2(1)] by auto
  qed
qed

lemma insert_event_error: "insert_event r t = Inl e \<Longrightarrow> \<exists>m. e = IntegrityError m"
  by (auto simp: insert_event_def insert_row_def bind_result_Inl_iff split: if_splits)

lemma expire_assignment_error: "expire_assignment a w = (Inl e, w') \<Longrightarrow> \<exists>m. e = IntegrityError m"
  using insert_event_error
  by (fastforce simp: expire_assignment_def enqueue_event_def outbox_event_def run_simps split: sum.splits prod.splits)

lemma sweep_error_kind: "sweep_expired_leases w = (Inl e, w') \<Longrightarrow> \<exists>m. e = IntegrityError m"
proof -
  have "for_each expire_assignment rows v = (Inl e, v') \<Longrightarrow> \<exists>m. e = IntegrityError m" for rows v v'
    by (induction rows arbitrary: v) (auto simp: seq_error_iff dest: expire_assignment_error)
  then show "sweep_expired_leases w = (Inl e, w') \<Longrightarrow> \<exists>m. e = IntegrityError m"
    by (auto simp: sweep_expired_leases_def bnd_error_iff seq_error_iff)
qed

lemma commits_last_quiet:
  assumes "commits_last ep" and w: "quiet_ok w" and run: "run_endpoint sv ep p w = (r, w')"
    and answered: "answer_of sv r \<noteq> Answer 500 ''Internal Server Error'' None"
  shows "quiet_ok w'"
proof (cases ep)
  case Router_plan
  then have run: "serve_plan sv p w = (r, w')" using run by simp
  show ?thesis
  proof (cases p)
    case None
    then show ?thesis using run w by (simp add: serve_plan_def)
  next
    case (Some d)
    let ?env = "on_platform (sv_host sv) (plat w)"
    let ?caught = "\<lambda>e. is_key_error e \<or> is_value_error e"
    let ?body = "bnd (gets (\<lambda>w. on_platform (sv_host sv) (plat w))) (\<lambda>env.
           bnd (of_result (router_service_from_dirs env (cfg_root (sv_config sv)) (routebook_root_of (sv_config sv) None) None)) (\<lambda>svc.
           bnd (of_result (bind_result (item d ''work_unit'') as_dict)) (\<lambda>work_unit.
           bnd (plan_route env svc work_unit True) (\<lambda>plan.
           ret (JObj [(''status'', JStr ''ok''), (''route_plan'', dump_route_plan plan)])))))"
    have "or_http 400 ?caught (sv_repr sv) ?body w = (r, w')" using run Some by (simp add: serve_plan_def Let_def)
    moreover have "quiet_ok u \<or> (\<exists>m. q = Inl (IntegrityError m))" if "?body w = (q, u)" for q u
      using that w plan_route_quiet [OF w]
      by (auto simp: run_simps split: sum.splits prod.splits) (metis sum.distinct(1) sum.inject(1))+
    ultimately show ?thesis
      using answered by (auto elim!: or_http_run split: if_splits)
  qed
next
  case Scheduler_tick
  then have run: "answered serve_tick w = (r, w')" using run by simp
  then obtain n where "sweep_expired_leases w = (Inr n, w')"
    using answered by (auto simp: answered_run serve_tick_def run_simps dest!: sweep_error_kind split: sum.splits prod.splits)
  then show ?thesis by (rule sweep_keeps_quiet [OF w])
qed (use assms(1) in \<open>simp_all add: commits_last_def\<close>)

lemma serve_cases:
  assumes "serve sv rq w = (answer, w')"
  obtains "w' = w"
  | ep p r where "endpoint_of (rq_method rq) (rq_path rq) = Some ep" "authorize ep (rq_authorization rq) = None"
      "payload_of (declared_body ep) (rq_json rq) = Some p" "run_endpoint sv ep p w = (r, w')" "answer = answer_of sv r"
proof -
  consider "w' = w" | ep p where "endpoint_of (rq_method rq) (rq_path rq) = Some ep"
    "authorize ep (rq_authorization rq) = None" "payload_of (declared_body ep) (rq_json rq) = Some p"
    using assms by (auto simp: serve_def split: option.splits)
  then show thesis
  proof cases
    case 1
    then show ?thesis by (rule that(1))
  next
    case 2
    then show ?thesis using assms that(2) [OF 2] by (auto simp: serve_def split: prod.splits)
  qed
qed

section \<open>Requests behind an open transaction\<close>

lemma blocked_map_error:
  assumes "blocked m"
  shows "blocked (map_error f m)"
  unfolding blocked_def
proof (intro allI impI)
  fix w r w'
  assume w: "in_tx w" and run: "map_error f m w = (r, w')"
  show "\<not> (\<exists>x. r = Inr x) \<and> in_tx w' \<and> committed w' = committed w"
    using run by (rule map_error_run) (blast dest: blockedD [OF assms w])+
qed

lemma blocked_bound_version: "blocked m \<Longrightarrow> blocked (bound_version n m)"
  by (simp add: bound_version_def blocked_map_error)

text \<open>The same for a handler, which may still refuse.\<close>

definition unanswered :: "reply op \<Rightarrow> bool" where
  "unanswered m \<longleftrightarrow> (\<forall>w r w'. in_tx w \<longrightarrow> m w = (r, w') \<longrightarrow>
     (\<forall>v. r \<noteq> Inr (Reply v)) \<and> in_tx w' \<and> committed w' = committed w)"

lemma unanswered_or_http: "blocked m \<Longrightarrow> unanswered (or_http code caught repr m)"
  unfolding unanswered_def by (auto elim!: or_http_run dest: blockedD split: if_splits)

lemma unanswered_answered: "blocked m \<Longrightarrow> unanswered (answered m)"
  unfolding unanswered_def answered_run by (auto dest: blockedD)

lemma blocked_submission: "blocked (submit_demo_work_unit he cfg task_type inline_input dir)"
proof -
  have "blocked (persist_run_and_work_unit wu phase)" for wu phase
    unfolding persist_run_and_work_unit_def by (rule blocked_transaction)
  then show ?thesis
    unfolding submit_demo_work_unit_def Let_def
    by (cases "dget supported_demo_tasks task_type")
      (simp_all only: option.case blocked_raise, intro blocked_later blocked_seq(2) keeps_intro)
qed

text \<open>The requests with which a worker takes, extends and ends its work.\<close>

fun work_request :: "endpoint \<Rightarrow> bool" where
  "work_request (Worker_heartbeat i) \<longleftrightarrow> True"
| "work_request (Accept_assignment i) \<longleftrightarrow> True"
| "work_request (Reject_assignment i) \<longleftrightarrow> True"
| "work_request (Assignment_progress i) \<longleftrightarrow> True"
| "work_request (Assignment_result i) \<longleftrightarrow> True"
| "work_request ep \<longleftrightarrow> False"

lemma blocked_with_token: "(\<And>tok. blocked (m tok)) \<Longrightarrow> blocked (with_token i v tok m)"
  by (cases tok) (auto simp: with_token_def intro!: blocked_later blocked_raise keeps_intro)

lemma blocked_payload_result: "blocked (submit_payload_result sv i v payload)"
  unfolding submit_payload_result_def Let_def
  by (auto intro!: blocked_with_token blocked_operations split: json.splits)

lemmas blocked_arguments = unanswered_or_http blocked_later [OF keeps_of_result] blocked_later [OF keeps_worker_argument]

lemma unanswered_work_handlers:
  "unanswered (answered (serve_heartbeat i))" "unanswered (serve_accept sv i payload)" "unanswered (serve_reject sv i payload)"
  "unanswered (serve_progress sv i payload)" "unanswered (serve_result sv i payload)"
proof -
  show "unanswered (answered (serve_heartbeat i))"
    unfolding serve_heartbeat_def by (intro unanswered_answered blocked_seq(2) [OF blocked_operations(1)])
  show "unanswered (serve_accept sv i payload)" unfolding serve_accept_def
    by (intro blocked_arguments blocked_now [OF blocked_bound_version] blocked_operations)
  show "unanswered (serve_reject sv i payload)" unfolding serve_reject_def
    by (intro blocked_arguments blocked_seq(2) [OF blocked_operations(3)])
  show "unanswered (serve_progress sv i payload)" unfolding serve_progress_def
    by (intro blocked_arguments blocked_now [OF blocked_with_token] blocked_bound_version blocked_operations)
  show "unanswered (serve_result sv i payload)" unfolding serve_result_def
    by (intro blocked_arguments blocked_now [OF blocked_payload_result])
qed

lemma unanswered_work_request: "work_request ep \<Longrightarrow> unanswered (run_endpoint sv ep p)"
  by (cases ep) (simp_all add: unanswered_work_handlers)

lemma plan_route_refused:
  assumes "idle w" and "plan_route env svc wu False w = (Inr plan, w1)"
    and "\<not> has_row rp_id (route_plans (committed w)) (plan_route_plan_id plan)"
    and "\<not> has_row wu_id (work_units (committed w)) (plan_work_unit_id plan)"
  shows "plan_route env svc wu True w = (Inl (IntegrityError ''FOREIGN KEY constraint failed''), w1\<lparr>in_tx := True\<rparr>) \<and>
    committed w1 = committed w \<and> current w1 = committed w"
  using assms by (auto simp: plan_route_def persist_route_plan_def run_simps fk_check_def idle_def split: sum.splits)

section \<open>Refused requests\<close>

lemma atomic_map_error:
  assumes "atomic m"
  shows "atomic (map_error f m)"
  unfolding atomic_def
proof (intro allI impI)
  fix w r w'
  assume w: "idle w" and run: "map_error f m w = (r, w')"
  show "idle w' \<and> (\<forall>e. r = Inl e \<longrightarrow> committed w' = committed w)"
    using run by (rule map_error_run) (use assms w in \<open>unfold atomic_def, blast\<close>)+
qed

lemma atomic_bound_version: "atomic m \<Longrightarrow> atomic (bound_version n m)"
  by (simp add: bound_version_def atomic_map_error)

lemma atomic_raised: "atomic m \<Longrightarrow> idle w \<Longrightarrow> m w = (Inl e, w') \<Longrightarrow> idle w' \<and> committed w' = committed w"
  unfolding atomic_def by blast

text \<open>A handler that does not reply has no effect.\<close>

definition refuses_cleanly :: "reply op \<Rightarrow> bool" where
  "refuses_cleanly m \<longleftrightarrow> (\<forall>w r w'. idle w \<longrightarrow> m w = (r, w') \<longrightarrow> (\<forall>v. r \<noteq> Inr (Reply v)) \<longrightarrow>
     idle w' \<and> committed w' = committed w)"

lemma refuses_or_http: "atomic m \<Longrightarrow> refuses_cleanly (or_http code caught repr m)"
  unfolding refuses_cleanly_def by (auto elim!: or_http_run dest: atomic_raised split: if_splits)

lemma refuses_answered: "atomic m \<Longrightarrow> refuses_cleanly (answered m)"
  unfolding refuses_cleanly_def answered_run by (auto dest: atomic_raised) (metis atomic_raised obj_sumE map_sum.simps(2))+

lemmas atomic_arguments = refuses_or_http atomic_bnd [OF keeps_of_result] atomic_bnd [OF keeps_worker_argument]

lemma atomic_with_token: "(\<And>tok. atomic (m tok)) \<Longrightarrow> atomic (with_token i v tok m)"
proof -
  assume m: "\<And>tok. atomic (m tok)"
  have "atomic (bnd (assignment_for_worker i v) (\<lambda>a. if p a then raise d else raise e))" for p d e
    by (rule atomic_read) (intro keeps_intro)
  then show ?thesis using m by (cases tok) (auto simp: with_token_def)
qed

lemma atomic_payload_result: "atomic (submit_payload_result sv i v payload)"
  unfolding submit_payload_result_def Let_def
  by (auto intro!: atomic_with_token atomic_submit split: json.splits)

lemma refusing_handlers:
  "refuses_cleanly (answered (serve_heartbeat i))" "refuses_cleanly (answered (serve_next_assignment i))"
  "refuses_cleanly (serve_accept sv i payload)" "refuses_cleanly (serve_reject sv i payload)"
  "refuses_cleanly (serve_progress sv i payload)"
proof -
  show "refuses_cleanly (answered (serve_heartbeat i))" unfolding serve_heartbeat_def
    by (intro refuses_answered atomic_seq_ret [OF atomic_heartbeat])
  have "atomic (serve_next_assignment i)" unfolding serve_next_assignment_def poll_next_assignment_def
    by (rule atomic_read) (intro keeps_intro)
  then show "refuses_cleanly (answered (serve_next_assignment i))" by (rule refuses_answered)
  show "refuses_cleanly (serve_accept sv i payload)" unfolding serve_accept_def
    by (intro atomic_arguments atomic_bnd_ret [OF atomic_bound_version] atomic_accept)
  show "refuses_cleanly (serve_reject sv i payload)" unfolding serve_reject_def
    by (intro atomic_arguments atomic_seq_ret [OF atomic_reject])
  show "refuses_cleanly (serve_progress sv i payload)" unfolding serve_progress_def
    by (intro atomic_arguments atomic_bnd_ret [OF atomic_with_token] atomic_bound_version atomic_progress)
qed

text \<open>A result is stored first and finalized then, so an error of the finalization is answered after the result is committed.\<close>

definition report_free :: "(tables \<Rightarrow> bool) \<Rightarrow> bool" where
  "report_free J \<longleftrightarrow> (\<forall>t x. J (t\<lparr>event_outbox := x\<rparr>) = J t) \<and> (\<forall>t x. J (t\<lparr>verifier_reports := x\<rparr>) = J t) \<and>
     (\<forall>t x. J (t\<lparr>verifier_check_results := x\<rparr>) = J t) \<and> (\<forall>t x. J (t\<lparr>host_result_summaries := x\<rparr>) = J t)"

lemma keeps_frame_finalize:
  assumes free: "report_free J"
  shows "keeps (settled J) (finalize_url_check_result he i)"
proof -
  note frame = free [unfolded report_free_def]
  have ev: "keeps (on_current J) (bnd (outbox_event src ty subj bod run wu att asg) (\<lambda>e. seq (enqueue_event e) (ret ())))"
    for src ty subj bod run wu att asg
  proof -
    have "keeps (on_current J) (execute (insert_event r))" for r
      by (rule keeps_execute_current) (auto simp: insert_event_def frame split: if_splits)
    then show ?thesis unfolding enqueue_event_def by (intro keeps_intro)
  qed
  have host: "keeps (on_current J) (host_event src ty subj body run wu)" for src ty subj body run wu
    unfolding host_event_def by (rule ev)
  have up: "keeps (on_current J) (execute (upsert_verifier_report r))" "keeps (on_current J) (execute (upsert_check_result j r k))"
    "keeps (on_current J) (execute (upsert_host_summary j s))" for r j k s
    unfolding upsert_verifier_report_def upsert_check_result_def upsert_host_summary_def
    by (rule keeps_execute_current; unfold fk_check_Inr; auto simp: frame)+
  have "keeps (settled J) (persist_verifier_report r)" for r
    unfolding persist_verifier_report_def
    by (auto intro!: keeps_bnd keeps_gets keeps_settled_transaction keeps_seq keeps_for_each up
        host keeps_waiting_host_event(2) keeps_execute_durable split: prod.splits)
  moreover have "keeps (settled J) (persist_host_result_summary s)" for s
    unfolding persist_host_result_summary_def change_with_event_def
    by (intro keeps_bnd keeps_gets keeps_settled_transaction keeps_seq up ev; intro keeps_intro)
  ultimately have "keeps (settled J) (verify_and_summarize he e k)" for e k
    unfolding verify_and_summarize_def Let_def by (cases k) (auto intro!: keeps_wrappers keeps_settled_draws)
  then show ?thesis unfolding finalize_url_check_result_def by (auto intro!: keeps_wrappers keeps_option)
qed

lemma keeps_results_finalize: "keeps (settled (\<lambda>t. result_envelopes t = c)) (finalize_url_check_result he i)"
  by (rule keeps_frame_finalize) (simp add: report_free_def)

lemma result_refused:
  assumes w: "idle w" and run: "serve_result sv i payload w = (r, w')" and refused: "\<And>v. r \<noteq> Inr (Reply v)"
  shows "idle w' \<and> (committed w' = committed w \<or>
     (\<exists>v s u. submit_payload_result sv i v payload w = (Inr s, u) \<and> result_envelopes (committed w') = result_envelopes (committed u)))"
proof -
  let ?body = "bnd (of_result (item payload ''worker_id'')) (\<lambda>v. bnd (worker_argument i v) (\<lambda>worker_id.
      bnd (submit_payload_result sv i worker_id payload) (\<lambda>r.
      bnd (finalize_url_check_result (sv_host sv) (sr_result_envelope_id r)) (\<lambda>finalized. ret (result_document r finalized)))))"
  obtain e where "?body w = (Inl e, w')"
    using run refused unfolding serve_result_def by (auto elim!: or_http_run split: if_splits)
  moreover have args: "worker_argument i v w = (q, u) \<Longrightarrow> u = w" for v q u
    by (auto simp: worker_argument_def select_def split: json.splits)
  ultimately consider "w' = w" | v e1 where "submit_payload_result sv i v payload w = (Inl e1, w')"
    | v s u q where "submit_payload_result sv i v payload w = (Inr s, u)"
      "finalize_url_check_result (sv_host sv) (sr_result_envelope_id s) u = (q, w')"
    by (auto simp: run_simps dest: args split: prod.splits sum.splits)
  then show ?thesis
  proof cases
    case 1
    then show ?thesis using w by simp
  next
    case 2
    then show ?thesis using w atomic_raised [OF atomic_payload_result] by blast
  next
    case 3
    then have "idle u" using w atomic_payload_result unfolding atomic_def by blast
    then show ?thesis
      using keepsD [OF keeps_results_finalize [of "result_envelopes (committed u)"] _ 3(2)] 3(1) by (auto simp: settled_def)
  qed
qed

section \<open>Properties\<close>

text \<open>C9. A request without its token changes nothing. Every route but the health check asks for a bearer token of one kind; a
request whose header does not carry a token with the prefix of that kind is answered 401 or 403 and leaves the database, the
connection and the sources of identifiers as they were.\<close>

theorem unauthorised_request_refused:
  assumes "endpoint_of (rq_method rq) (rq_path rq) = Some ep" and "ep \<noteq> Health"
    and "\<And>kind scheme rest. required_token ep = Some kind \<Longrightarrow> lower scheme = ''bearer'' \<Longrightarrow>
      rq_authorization rq \<noteq> scheme @ '' '' @ token_prefix kind @ rest"
  shows "\<exists>code m. serve sv rq w = (answer_of sv (Inr (Refused code m)), w) \<and> code \<in> {401, 403}"
proof -
  obtain kind where kind: "required_token ep = Some kind"
    using assms(2) required_token_none by blast
  then have "\<nexists>c. require_token_kind (rq_authorization rq) kind = Inr c"
    using require_token_kind_ok assms(3) by blast
  then obtain r where r: "require_token_kind (rq_authorization rq) kind = Inl r"
    by (cases "require_token_kind (rq_authorization rq) kind") auto
  then show ?thesis
    using require_token_kind_refuses [OF r] assms(1) kind by (auto simp: serve_def authorize_def simp del: answer_of.simps)
qed

text \<open>C7. A served request keeps the invariant. Whatever the request is, a database whose tables satisfy the invariant of the
scheduler satisfies it afterwards and no transaction stays open; of the two handlers that write outside a transaction this is
said only when they do not end in a plain 500.\<close>

theorem served_request_keeps_invariant:
  assumes "quiet_ok w" and "serve sv rq w = (answer, w')"
    and "endpoint_of (rq_method rq) (rq_path rq) \<in> {Some Router_plan, Some Scheduler_tick} \<Longrightarrow>
      answer \<noteq> Answer 500 ''Internal Server Error'' None"
  shows "quiet_ok w'"
  using assms(2)
proof (cases rule: serve_cases)
  case 1
  then show ?thesis using assms(1) by simp
next
  case (2 ep p r)
  show ?thesis
  proof (cases "commits_last ep")
    case True
    then have "answer_of sv r \<noteq> Answer 500 ''Internal Server Error'' None"
      using 2(1,5) assms(3) by (auto simp: commits_last_def)
    then show ?thesis by (rule commits_last_quiet [OF True assms(1) 2(4)])
  next
    case False
    then show ?thesis using keepsD [OF keeps_quiet_endpoint [OF False] assms(1) 2(4)] by simp
  qed
qed

text \<open>C8. A refused request of a worker has no effect. A heartbeat, a poll, an acceptance, a rejection or a progress report that
is refused or ends in an exception leaves the committed tables as they were and no transaction open; a result does so too, or it
was stored first and its finalization raised.\<close>

theorem refused_work_request_changes_nothing:
  assumes "idle w" and "run_endpoint sv ep p w = (r, w')" and "\<forall>v. r \<noteq> Inr (Reply v)"
    and "work_request ep \<or> (\<exists>i. ep = Next_assignment i)"
  shows "idle w' \<and> (committed w' = committed w \<or>
    (\<exists>i v s u. ep = Assignment_result i \<and> submit_payload_result sv i v (given_payload p) w = (Inr s, u) \<and>
       result_envelopes (committed w') = result_envelopes (committed u)))"
proof (cases "\<exists>i. ep = Assignment_result i")
  case True
  then show ?thesis using result_refused [OF assms(1), of sv _ "given_payload p" r w'] assms(2,3) by auto
next
  case False
  then have "refuses_cleanly (run_endpoint sv ep p)" using assms(4) by (cases ep) (simp_all add: refusing_handlers)
  then show ?thesis using assms(1-3) unfolding refuses_cleanly_def by blast
qed

lemma quiet_sweep:
  assumes "list_all (\<lambda>a. asg_status a \<notin> {Asg_accepted, Asg_running}) (assignments (current w))"
  shows "\<exists>u. sweep_expired_leases w = (Inr 0, u) \<and> idle u"
proof -
  have "filter (lease_expired now) (assignments (current w)) = []" for now
    using assms by (auto simp: filter_empty_conv lease_expired_def list_all_iff)
  then show ?thesis by (simp add: sweep_expired_leases_def run_simps commit_def idle_def)
qed

text \<open>C10. A plan for an unknown work unit blocks the requests of the workers and the submissions. The plan is made, its row
is refused because the work unit is not stored, the exception is answered with a plain 500, and the implicit transaction of
the statement stays open: while it does, every heartbeat, acceptance, rejection, progress, result or submission is refused or
raises, commits nothing and leaves the transaction open. The requests that write without beginning a transaction are not
blocked, and their commit ends it: when no lease is held, a tick of the scheduler is answered and leaves the connection
idle.\<close>

theorem refused_plan_blocks_writes:
  assumes "idle w"
    and "router_service_from_dirs (on_platform (sv_host sv) (plat w)) (cfg_root (sv_config sv))
      (routebook_root_of (sv_config sv) None) None = Inr svc"
    and "plan_route (on_platform (sv_host sv) (plat w)) svc wu False w = (Inr plan, w1)"
    and "\<not> has_row rp_id (route_plans (committed w)) (plan_route_plan_id plan)"
    and "\<not> has_row wu_id (work_units (committed w)) (plan_work_unit_id plan)"
  shows "\<exists>w'. run_endpoint sv Router_plan (Some [(''work_unit'', JObj wu)]) w
      = (Inl (IntegrityError ''FOREIGN KEY constraint failed''), w') \<and> in_tx w' \<and> committed w' = committed w \<and>
    (\<forall>ep p r u. work_request ep \<longrightarrow> run_endpoint sv ep p w' = (r, u) \<longrightarrow>
       (\<forall>v. r \<noteq> Inr (Reply v)) \<and> in_tx u \<and> committed u = committed w) \<and>
    (\<forall>task_type given dir r u. submit_demo_work_unit (sv_host sv) (sv_config sv) task_type given dir w' = (r, u) \<longrightarrow>
       (\<exists>e. r = Inl e) \<and> in_tx u \<and> committed u = committed w) \<and>
    (list_all (\<lambda>a. asg_status a \<notin> {Asg_accepted, Asg_running}) (assignments (committed w)) \<longrightarrow>
       (\<exists>v u. run_endpoint sv Scheduler_tick None w' = (Inr (Reply v), u) \<and> idle u))"
proof -
  let ?w = "w1\<lparr>in_tx := True\<rparr>"
  note refused = plan_route_refused [OF assms(1,3,4,5)]
  have "run_endpoint sv Router_plan (Some [(''work_unit'', JObj wu)]) w
      = (Inl (IntegrityError ''FOREIGN KEY constraint failed''), ?w)"
    using assms(2) refused by (simp add: serve_plan_def Let_def or_http_def run_simps)
  moreover have w: "committed ?w = committed w" "in_tx ?w" "current ?w = committed w" using refused by simp_all
  moreover have "\<exists>v u. run_endpoint sv Scheduler_tick None ?w = (Inr (Reply v), u) \<and> idle u"
    if "list_all (\<lambda>a. asg_status a \<notin> {Asg_accepted, Asg_running}) (assignments (committed w))"
    using quiet_sweep [of ?w] that w(3) by (auto simp: answered_run serve_tick_def run_simps)
  moreover have "(\<forall>v. r \<noteq> Inr (Reply v)) \<and> in_tx u \<and> committed u = committed w"
    if "work_request ep" "run_endpoint sv ep p ?w = (r, u)" for ep p r u
    using unanswered_work_request that w unfolding unanswered_def by metis
  moreover have "(\<exists>e. r = Inl e) \<and> in_tx u \<and> committed u = committed w"
    if "submit_demo_work_unit (sv_host sv) (sv_config sv) task_type given dir ?w = (r, u)" for task_type given dir r u
    using blockedD [OF blocked_submission w(2) that] w(1) by (cases r) auto
  ultimately show ?thesis by blast
qed

section \<open>Samples\<close>

definition demo_server :: server_environment where
  "demo_server = \<lparr>sv_host = demo_environment, sv_config = loaded_demo_config, sv_render = (\<lambda>_. []),
     sv_framework = (\<lambda>_. Answer 404 [] None)\<rparr>"

definition sample_request :: "string \<Rightarrow> string \<Rightarrow> string \<Rightarrow> json option \<Rightarrow> http_request" where
  "sample_request verb path authorization body =
     \<lparr>rq_method = verb, rq_path = path, rq_authorization = authorization, rq_json = body\<rparr>"

theorem unauthorised_request_refused_witness:
  "\<exists>code m. serve demo_server (sample_request ''POST'' ''/v0/assignments/open/accept'' [] (Some (JObj []))) empty_world
     = (answer_of demo_server (Inr (Refused code m)), empty_world) \<and> code \<in> {401, 403}"
proof (rule unauthorised_request_refused [where ep = "Accept_assignment ''open''"])
  have "endpoint_of ''POST'' ''/v0/assignments/open/accept'' = Some (Accept_assignment ''open'')" by code_simp
  then show "endpoint_of (rq_method (sample_request ''POST'' ''/v0/assignments/open/accept'' [] (Some (JObj []))))
      (rq_path (sample_request ''POST'' ''/v0/assignments/open/accept'' [] (Some (JObj [])))) = Some (Accept_assignment ''open'')"
    by (simp add: sample_request_def)
qed (simp_all add: sample_request_def)

theorem served_request_keeps_invariant_witness:
  "\<exists>answer w'. serve demo_server (sample_request ''POST'' ''/v0/workers/wrk_1/heartbeat'' ''Bearer tbk_w_1'' None) empty_world
     = (answer, w') \<and> quiet_ok w'"
proof -
  let ?rq = "sample_request ''POST'' ''/v0/workers/wrk_1/heartbeat'' ''Bearer tbk_w_1'' None"
  obtain answer w' where run: "serve demo_server ?rq empty_world = (answer, w')" by fastforce
  have "endpoint_of ''POST'' ''/v0/workers/wrk_1/heartbeat'' = Some (Worker_heartbeat ''wrk_1'')" by code_simp
  then have "endpoint_of (rq_method ?rq) (rq_path ?rq) \<notin> {Some Router_plan, Some Scheduler_tick}"
    by (simp add: sample_request_def)
  then have "quiet_ok w'" using served_request_keeps_invariant [OF demo_start(1) run] by blast
  then show ?thesis using run by blast
qed

theorem refused_work_request_changes_nothing_witness:
  "\<exists>w'. run_endpoint demo_server (Accept_assignment ''open'') (Some [(''worker_id'', JStr ''wrk_1'')]) empty_world
     = (Inr (Refused 409 []), w') \<and> idle w' \<and> committed w' = committed empty_world"
proof -
  have run: "run_endpoint demo_server (Accept_assignment ''open'') (Some [(''worker_id'', JStr ''wrk_1'')]) empty_world
      = (Inr (Refused 409 []), empty_world)"
    by (simp add: serve_accept_def given_payload_def worker_argument_def dget_or_def or_http_def bound_version_def run_map_error
        accept_assignment_def assignment_for_worker_def run_simps empty_tables_def find_row_def assignment_conflict_def
        demo_server_def demo_environment_def Route_Service.sample_environment_def)
  show ?thesis using refused_work_request_changes_nothing [OF empty_world_simps(1) run] run by auto
qed

theorem refused_plan_blocks_writes_witness:
  "\<exists>w'. run_endpoint demo_server Router_plan (Some [(''work_unit'', JObj (dump_work_unit demo_unit))]) empty_world
      = (Inl (IntegrityError ''FOREIGN KEY constraint failed''), w') \<and> in_tx w' \<and> committed w' = empty_tables"
proof -
  have now: "utc_text (utc_clock (plat empty_world) n) = demo_now" for n by (simp add: empty_world_def) code_simp
  have svc: "router_service_from_dirs (on_platform (sv_host demo_server) (plat empty_world)) (cfg_root (sv_config demo_server))
      (routebook_root_of (sv_config demo_server) None) None = Inr demo_service"
    using demo_service_loaded by (simp add: demo_server_def)
  obtain plan where plan: "validated_route_plan (\<lambda>_. []) demo_routebook demo_resolver (dump_work_unit demo_unit) demo_now = Inr plan"
    using demo_approved by (auto split: sum.splits)
  have scored: "scored_selection env demo_service request level p = Inr p" for env request level p
    by (simp add: scored_selection_def demo_service_def)
  have run: "plan_route (on_platform (sv_host demo_server) (plat empty_world)) demo_service (dump_work_unit demo_unit) False empty_world
      = (Inr plan, empty_world\<lparr>clock_draws := Suc (clock_draws empty_world)\<rparr>)"
    using plan scored by (simp add: plan_route_def run_simps now demo_server_def demo_environment_def
        Route_Service.sample_environment_def on_platform_def demo_service_def)
  show ?thesis
    using refused_plan_blocks_writes [OF empty_world_simps(1) svc run] by (auto simp: has_row_def empty_tables_def)
qed

end
