(* ===== verification/Minted.thy ===== *)
theory Minted
  imports Scheduler_Properties
begin

text \<open>
  Identifiers that stay new: an operation that draws the identifiers of its events keeps the next ones unused, and keeps what
  its other statements keep of the tables. A sequence of operations of the scheduler that each return is built on it.
\<close>

definition minted :: "(tables \<Rightarrow> bool) \<Rightarrow> platform \<Rightarrow> world \<Rightarrow> bool" where
  "minted P p w \<longleftrightarrow> plat w = p \<and> inj (uuid4_hex p) \<and> P (current w) \<and> P (committed w) \<and>
     (\<forall>k r. uuid_draws w \<le> k \<longrightarrow> r \<in> set (event_outbox (current w)) \<union> set (event_outbox (committed w)) \<longrightarrow>
        ev_id r \<noteq> ''evt_'' @ uuid4_hex p k)"

lemma minted_fresh: "minted P p w \<Longrightarrow> fresh_ids w"
  by (auto simp: minted_def fresh_ids_def)

lemma minted_weaken: "minted P p w \<Longrightarrow> (\<And>t. P t \<Longrightarrow> Q t) \<Longrightarrow> minted Q p w"
  by (auto simp: minted_def)

definition outbox_free :: "(tables \<Rightarrow> bool) \<Rightarrow> bool" where
  "outbox_free P \<longleftrightarrow> (\<forall>t es. P (t\<lparr>event_outbox := es\<rparr>) = P t)"

lemma keeps_minted_draws [keeps_intro]:
  "keeps (minted P p) draw_uuid" "keeps (minted P p) draw_token" "keeps (minted P p) utc_now"
  "keeps (minted P p) utc_text_now" "keeps (minted P p) new_lease_token" "keeps (minted P p) (lease_expiry ms)"
proof -
  show draws: "keeps (minted P p) draw_uuid" "keeps (minted P p) draw_token" "keeps (minted P p) utc_now"
    by (auto simp: keeps_def minted_def)
  show "keeps (minted P p) utc_text_now" "keeps (minted P p) new_lease_token" "keeps (minted P p) (lease_expiry ms)"
    unfolding utc_text_now_def new_lease_token_def lease_expiry_def by (intro keeps_intro draws)+
qed

lemma keeps_minted_execute:
  assumes "\<And>t t'. f t = Inr t' \<Longrightarrow> P t \<Longrightarrow> P t'" and "\<And>t t'. f t = Inr t' \<Longrightarrow> event_outbox t' = event_outbox t"
  shows "keeps (minted P p) (execute f)"
  using assms by (auto simp: keeps_def minted_def run_execute split: sum.splits)

lemma keeps_minted_transaction: "keeps (minted P p) m \<Longrightarrow> keeps (minted P p) (transaction m)"
  unfolding keeps_def
proof (intro allI impI)
  fix w
  assume m: "\<forall>s. minted P p s \<longrightarrow> minted P p (snd (m s))" and w: "minted P p w"
  show "minted P p (snd (transaction m w))"
  proof (cases "in_tx w")
    case False
    have "minted P p (w\<lparr>in_tx := True\<rparr>)" using w by (simp add: minted_def)
    then have "minted P p (snd (m (w\<lparr>in_tx := True\<rparr>)))" using m by blast
    then show ?thesis
      using False by (auto simp: transaction_def begin_immediate_def run_bnd minted_def commit_def rollback_def
          split: prod.splits sum.splits)
  qed (use w in \<open>simp add: transaction_def begin_immediate_def run_bnd\<close>)
qed

lemma keeps_minted_event:
  assumes "outbox_free P"
  shows "keeps (minted P p) (bnd (outbox_event src ty subj bod run wu att asg) (\<lambda>e. seq (enqueue_event e) (ret ())))"
  unfolding keeps_def
proof (intro allI impI)
  fix w :: world
  let ?m = "bnd (outbox_event src ty subj bod run wu att asg) (\<lambda>e. seq (enqueue_event e) (ret ()))"
  let ?e = "\<lparr>in_source = src, in_type = ty, in_subject = subj, in_body = bod, in_run_id = run, in_work_unit_id = wu,
    in_attempt_id = att, in_assignment_id = asg, in_trace_id = uuid4_hex (plat w) (uuid_draws w), in_span_id = None,
    in_event_id = ''evt_'' @ uuid4_hex (plat w) (Suc (uuid_draws w))\<rparr>"
  let ?r = "event_row_of ?e (next_sequence (current w)) (utc_text (utc_clock (plat w) (clock_draws w)))"
  let ?u = "w\<lparr>uuid_draws := Suc (Suc (uuid_draws w)), clock_draws := Suc (clock_draws w), in_tx := True\<rparr>"
  assume w: "minted P p w"
  have "snd (?m w) = ?u \<or> snd (?m w) = ?u\<lparr>current := (current w)\<lparr>event_outbox := event_outbox (current w) @ [?r]\<rparr>\<rparr>"
    by (auto simp: outbox_event_def enqueue_event_def run_bnd run_seq run_execute insert_event_def insert_row_def split: if_splits)
  moreover have "minted P p ?u" using w by (auto simp: minted_def)
  moreover have "minted P p (?u\<lparr>current := (current w)\<lparr>event_outbox := event_outbox (current w) @ [?r]\<rparr>\<rparr>)"
    using w assms by (auto simp: minted_def outbox_free_def event_row_of_def inj_eq)
  ultimately show "minted P p (snd (?m w))" by metis
qed

lemma keeps_minted_emit: "outbox_free P \<Longrightarrow> keeps (minted P p) (emit ty subj bod wu att asg)"
  unfolding emit_def by (rule keeps_minted_event)

text \<open>A predicate that the bookkeeping of an assignment keeps.\<close>

definition lease_free :: "(tables \<Rightarrow> bool) \<Rightarrow> bool" where
  "lease_free P \<longleftrightarrow> outbox_free P \<and>
     (\<forall>t xs. P (t\<lparr>assignments := xs\<rparr>) = P t) \<and> (\<forall>t xs. P (t\<lparr>execution_attempts := xs\<rparr>) = P t) \<and>
     (\<forall>t i s n. P t \<longrightarrow> P (t\<lparr>work_units := update_row wu_id i (\<lambda>u. u\<lparr>wu_status := s, wu_updated_at := n\<rparr>) (work_units t)\<rparr>))"

lemma keeps_minted_statements:
  assumes "lease_free P"
  shows "keeps (minted P p) (update_attempt i f)" "keeps (minted P p) (update_assignment i g)"
    "keeps (minted P p) (conditional_assignment_update i v st x h pre ac c)"
    "keeps (minted P p) (update_work_unit_status i s actor ty)"
proof -
  note free = assms [unfolded lease_free_def] and event = keeps_minted_event [OF conjunct1 [OF assms [unfolded lease_free_def]]]
  show "keeps (minted P p) (update_attempt i f)" "keeps (minted P p) (update_assignment i g)"
    unfolding update_attempt_def update_assignment_def by (rule keeps_minted_execute; use free in auto)+
  show "keeps (minted P p) (conditional_assignment_update i v st x h pre ac c)"
    unfolding conditional_assignment_update_def
    by (auto intro!: keeps_intro keeps_option keeps_minted_execute simp: free)
  show "keeps (minted P p) (update_work_unit_status i s actor ty)"
    unfolding update_work_unit_status_def
    by (auto intro!: keeps_intro keeps_option keeps_minted_execute event simp: free)
qed

lemmas keeps_minted_rules = keeps_minted_transaction keeps_minted_emit keeps_minted_statements

lemma keeps_minted_leases:
  assumes "lease_free P"
  shows "keeps (minted P p) (accept_assignment i v e ms)" "keeps (minted P p) (progress_assignment i v tok e ms)"
proof -
  have "outbox_free P" using assms by (simp add: lease_free_def)
  then show "keeps (minted P p) (accept_assignment i v e ms)" "keeps (minted P p) (progress_assignment i v tok e ms)"
    unfolding accept_assignment_def progress_assignment_def lease_token_hash_def assignment_for_worker_def
    using assms by (auto intro!: keeps_intro keeps_option keeps_minted_rules)
qed

lemma keeps_minted_heartbeat:
  assumes "outbox_free P" and "\<And>t xs. P (t\<lparr>worker_health_snapshots := xs\<rparr>) = P t"
  shows "keeps (minted P p) (record_worker_heartbeat v st)"
proof -
  have "keeps (minted P p) (execute (insert_worker_health r))" for r
    by (rule keeps_minted_execute)
      (auto simp: insert_worker_health_def fk_check_Inr bind_result_Inr_iff assms(2))
  then show ?thesis
    unfolding record_worker_heartbeat_def Let_def using assms(1) by (intro keeps_intro keeps_minted_rules)
qed

lemma keeps_minted_submit:
  assumes "lease_free P" and "\<And>t xs. P (t\<lparr>result_envelopes := xs\<rparr>) = P t" and "\<And>t xs. P (t\<lparr>result_quarantine := xs\<rparr>) = P t"
  shows "keeps (minted P p) (submit_result validate i v tok th out given)"
proof -
  have free: "outbox_free P" using assms(1) by (simp add: lease_free_def)
  have "keeps (minted P p) (execute (insert_result r))" "keeps (minted P p) (execute (insert_quarantine q))" for r q
    by (rule keeps_minted_execute;
        auto simp: insert_result_def insert_quarantine_def fk_check_Inr bind_result_Inr_iff assms(2,3))+
  then show ?thesis
    unfolding submit_result_def quarantine_late_result_def complete_assignment_def result_from_output_def attempt_by_id_def
      assignment_for_worker_def Let_def
    using assms(1) free
    by (auto intro!: keeps_intro keeps_option keeps_minted_rules split: option.splits)
qed

section \<open>A heartbeat returns\<close>

lemma heartbeat_succeeds:
  assumes "quiet_ok w" and "fresh_ids w" and "has_row wm_worker_id (worker_manifests (committed w)) v"
    and "find_row whs_id (worker_health_snapshots (committed w)) (''whs_'' @ uuid4_hex (plat w) (uuid_draws w)) = None"
  shows "\<exists>w'. record_worker_heartbeat v st w = (Inr (), w')"
proof -
  have cur: "current w = committed w" "idle w" using assms(1) by (simp_all add: quiet_ok_iff idle_def)
  define row where "row = \<lparr>whs_id = ''whs_'' @ uuid4_hex (plat w) (uuid_draws w), whs_worker_id = v, whs_status = st,
    whs_body = canonical (JObj [(''worker_id'', JStr v), (''status'', JStr st)]),
    whs_captured_at = utc_text (utc_clock (plat w) (clock_draws w))\<rparr>"
  let ?w = "w\<lparr>clock_draws := Suc (clock_draws w), uuid_draws := Suc (uuid_draws w), in_tx := True,
    current := (committed w)\<lparr>worker_health_snapshots := worker_health_snapshots (committed w) @ [row]\<rparr>\<rparr>"
  have ins: "insert_worker_health row (committed w)
      = Inr ((committed w)\<lparr>worker_health_snapshots := worker_health_snapshots (committed w) @ [row]\<rparr>)"
    using assms(3,4) by (auto simp: insert_worker_health_def insert_row_def row_def fk_check_def find_row_None_iff)
  have "fresh_ids ?w" using assms(2) cur by (auto simp: fresh_ids_def)
  then obtain w' where "emit ''worker.heartbeat'' (''workers/'' @ v) (JObj [(''worker_id'', JStr v), (''status'', JStr st)])
      None None None ?w = (Inr (), w')"
    using logsD [OF logs_emit] by metis
  then show ?thesis
    using cur ins by (simp add: record_worker_heartbeat_def run_bnd run_seq run_execute transaction_def begin_immediate_def
        idle_def row_def)
qed

end
