(* ===== verification/Envelope_Reader.thy ===== *)
theory Envelope_Reader
  imports Models
begin

text \<open>
  Reading a result envelope back from its document (\<open>src/tokenbank/models/result_envelope.py\<close>): the types of the
  fields only, so that a document which \<open>dump_envelope\<close> wrote gives the envelope it was written of. The
  application takes the validator of envelopes as a parameter; this reader is the one its samples run with.
\<close>

section \<open>Entries\<close>

fun entry :: "json \<Rightarrow> string \<Rightarrow> json option" where
  "entry (JObj d) k = dget d k"
| "entry v k = None"

fun the_text :: "json option \<Rightarrow> string option" where
  "the_text (Some (JStr s)) = Some s"
| "the_text v = None"

fun the_int :: "json option \<Rightarrow> int option" where
  "the_int (Some (JInt n)) = Some n"
| "the_int v = None"

fun the_bool :: "json option \<Rightarrow> bool option" where
  "the_bool (Some (JBool b)) = Some b"
| "the_bool v = None"

fun the_fields :: "json option \<Rightarrow> fields option" where
  "the_fields (Some (JObj d)) = Some d"
| "the_fields v = None"

fun the_status :: "json option \<Rightarrow> result_status option" where
  "the_status (Some (JStr s)) =
     find (\<lambda>st. result_status_text st = s) [Res_succeeded, Res_failed, Res_quarantined]"
| "the_status v = None"

fun optional :: "(json option \<Rightarrow> 'a option) \<Rightarrow> json option \<Rightarrow> 'a option option" where
  "optional f (Some JNull) = Some None"
| "optional f v = map_option Some (f v)"

fun the_list :: "(json option \<Rightarrow> 'a option) \<Rightarrow> json option \<Rightarrow> 'a list option" where
  "the_list f (Some (JList xs)) = those (map (\<lambda>x. f (Some x)) xs)"
| "the_list f v = None"

lemma those_read: "(\<And>x. f (g x) = Some x) \<Longrightarrow> those (map (\<lambda>v. f v) (map g xs)) = Some xs"
  by (induction xs) auto

lemma the_list_read: "(\<And>x. f (Some (g x)) = Some x) \<Longrightarrow> the_list f (Some (JList (map g xs))) = Some xs"
  by (simp add: those_read [where f = "\<lambda>v. f (Some v)", simplified])

lemma optional_text: "optional the_text (Some (str_opt x)) = Some x"
  by (cases x) simp_all

lemma optional_int: "optional the_int (Some (int_opt x)) = Some x"
  by (cases x) simp_all

lemma status_read: "the_status (Some (JStr (result_status_text st))) = Some st"
  by (cases st) simp_all

section \<open>Documents\<close>

definition read_artifact_ref :: "json option \<Rightarrow> artifact_ref option" where
  "read_artifact_ref given = Option.bind given (\<lambda>v.
     Option.bind (the_text (entry v ''artifact_id'')) (\<lambda>artifact_id.
     Option.bind (the_text (entry v ''uri'')) (\<lambda>uri.
     Option.bind (the_text (entry v ''media_type'')) (\<lambda>media_type.
     Option.bind (the_text (entry v ''artifact_hash'')) (\<lambda>artifact_hash.
     Option.bind (the_fields (entry v ''metadata'')) (\<lambda>metadata.
     Some \<lparr>ar_artifact_id = artifact_id, ar_uri = uri, ar_media_type = media_type, ar_artifact_hash =
          artifact_hash, ar_metadata = metadata\<rparr>))))))"

definition read_usage_record :: "json option \<Rightarrow> usage_record option" where
  "read_usage_record given = Option.bind given (\<lambda>v.
     Option.bind (the_text (entry v ''usage_record_id'')) (\<lambda>usage_record_id.
     Option.bind (the_text (entry v ''work_unit_id'')) (\<lambda>work_unit_id.
     Option.bind (the_text (entry v ''attempt_id'')) (\<lambda>attempt_id.
     Option.bind (the_text (entry v ''backend_id'')) (\<lambda>backend_id.
     Option.bind (the_int (entry v ''input_units'')) (\<lambda>input_units.
     Option.bind (the_int (entry v ''output_units'')) (\<lambda>output_units.
     Option.bind (the_int (entry v ''estimated_cost_micros'')) (\<lambda>estimated_cost_micros.
     Option.bind (the_int (entry v ''actual_cost_micros'')) (\<lambda>actual_cost_micros.
     Option.bind (the_text (entry v ''cost_source'')) (\<lambda>cost_source.
     Option.bind (the_text (entry v ''cost_confidence'')) (\<lambda>cost_confidence.
     Option.bind (the_text (entry v ''recorded_at'')) (\<lambda>recorded_at.
     Some \<lparr>ur_usage_record_id = usage_record_id, ur_work_unit_id = work_unit_id, ur_attempt_id = attempt_id,
          ur_backend_id = backend_id, ur_input_units = input_units, ur_output_units = output_units,
          ur_estimated_cost_micros = estimated_cost_micros, ur_actual_cost_micros = actual_cost_micros,
          ur_cost_source = cost_source, ur_cost_confidence = cost_confidence, ur_recorded_at = recorded_at\<rparr>))))))))))))"

definition read_backend_error :: "json option \<Rightarrow> backend_error option" where
  "read_backend_error given = Option.bind given (\<lambda>v.
     Option.bind (the_text (entry v ''error_code'')) (\<lambda>error_code.
     Option.bind (the_text (entry v ''error_message'')) (\<lambda>error_message.
     Option.bind (the_bool (entry v ''retryable'')) (\<lambda>retryable.
     Option.bind (the_bool (entry v ''fallbackable'')) (\<lambda>fallbackable.
     Option.bind (the_fields (entry v ''redacted_details'')) (\<lambda>redacted_details.
     Option.bind (the_text (entry v ''occurred_at'')) (\<lambda>occurred_at.
     Some \<lparr>be_error_code = error_code, be_error_message = error_message, be_retryable = retryable,
          be_fallbackable = fallbackable, be_redacted_details = redacted_details, be_occurred_at = occurred_at\<rparr>)))))))"

definition read_envelope_fields :: "json option \<Rightarrow> result_envelope option" where
  "read_envelope_fields given = Option.bind given (\<lambda>v.
     Option.bind (the_text (entry v ''result_envelope_id'')) (\<lambda>result_envelope_id.
     Option.bind (the_text (entry v ''work_unit_id'')) (\<lambda>work_unit_id.
     Option.bind (the_text (entry v ''run_id'')) (\<lambda>run_id.
     Option.bind (the_text (entry v ''attempt_id'')) (\<lambda>attempt_id.
     Option.bind (the_text (entry v ''assignment_id'')) (\<lambda>assignment_id.
     Option.bind (the_status (entry v ''status'')) (\<lambda>status.
     Option.bind (optional the_text (entry v ''backend_id'')) (\<lambda>backend_id.
     Option.bind (optional the_text (entry v ''backend_class'')) (\<lambda>backend_class.
     Option.bind (optional the_text (entry v ''provider_id'')) (\<lambda>provider_id.
     Option.bind (optional the_text (entry v ''model_id'')) (\<lambda>model_id.
     Option.bind (optional the_text (entry v ''worker_id'')) (\<lambda>worker_id.
     Option.bind (optional the_text (entry v ''capacity_node_id'')) (\<lambda>capacity_node_id.
     Option.bind (the_fields (entry v ''output'')) (\<lambda>output.
     Option.bind (the_text (entry v ''output_hash'')) (\<lambda>output_hash.
     Option.bind (the_text (entry v ''result_hash'')) (\<lambda>result_hash.
     Option.bind (the_list read_artifact_ref (entry v ''artifact_refs'')) (\<lambda>artifact_refs.
     Option.bind (the_list read_usage_record (entry v ''usage_records'')) (\<lambda>usage_records.
     Option.bind (the_int (entry v ''cost_estimate_micros'')) (\<lambda>cost_estimate_micros.
     Option.bind (the_int (entry v ''actual_cost_micros'')) (\<lambda>actual_cost_micros.
     Option.bind (the_text (entry v ''cost_source'')) (\<lambda>cost_source.
     Option.bind (the_text (entry v ''cost_confidence'')) (\<lambda>cost_confidence.
     Option.bind (the_list the_text (entry v ''redacted_logs'')) (\<lambda>redacted_logs.
     Option.bind (the_list read_backend_error (entry v ''errors'')) (\<lambda>errors.
     Option.bind (optional read_backend_error (entry v ''backend_error'')) (\<lambda>backend_error.
     Option.bind (optional the_text (entry v ''started_at'')) (\<lambda>started_at.
     Option.bind (the_text (entry v ''completed_at'')) (\<lambda>completed_at.
     Option.bind (optional the_int (entry v ''duration_ms'')) (\<lambda>duration_ms.
     Some \<lparr>env_result_envelope_id = result_envelope_id, env_work_unit_id = work_unit_id, env_run_id = run_id,
          env_attempt_id = attempt_id, env_assignment_id = assignment_id, env_status = status, env_backend_id
          = backend_id, env_backend_class = backend_class, env_provider_id = provider_id, env_model_id =
          model_id, env_worker_id = worker_id, env_capacity_node_id = capacity_node_id, env_output = output,
          env_output_hash = output_hash, env_result_hash = result_hash, env_artifact_refs = artifact_refs,
          env_usage_records = usage_records, env_cost_estimate_micros = cost_estimate_micros,
          env_actual_cost_micros = actual_cost_micros, env_cost_source = cost_source, env_cost_confidence =
          cost_confidence, env_redacted_logs = redacted_logs, env_errors = errors, env_backend_error =
          backend_error, env_started_at = started_at, env_completed_at = completed_at, env_duration_ms =
          duration_ms\<rparr>))))))))))))))))))))))))))))"

definition read_envelope :: "json \<Rightarrow> result_envelope result" where
  "read_envelope v = (case read_envelope_fields (Some v) of None \<Rightarrow> Inl (ValueError ''result envelope'') | Some e \<Rightarrow> Inr e)"

section \<open>The round trip\<close>

lemma parts_read:
  "read_artifact_ref (Some (dump_artifact_ref a)) = Some a"
  "read_usage_record (Some (dump_usage_record u)) = Some u"
  "read_backend_error (Some (dump_backend_error b)) = Some b"
  by (simp_all add: read_artifact_ref_def dump_artifact_ref_def read_usage_record_def dump_usage_record_def
      read_backend_error_def dump_backend_error_def)

lemma optional_error: "optional read_backend_error (Some (json_of_option dump_backend_error x)) = Some x"
proof (cases x)
  case (Some b)
  have "\<exists>d. dump_backend_error b = JObj d" by (simp add: dump_backend_error_def)
  then show ?thesis using Some parts_read(3) [of b] by auto
qed simp

lemma envelope_read: "read_envelope (JObj (dump_envelope e)) = Inr e"
proof -
  note lists = the_list_read [where f = read_artifact_ref and g = dump_artifact_ref, OF parts_read(1)]
    the_list_read [where f = read_usage_record and g = dump_usage_record, OF parts_read(2)]
    the_list_read [where f = read_backend_error and g = dump_backend_error, OF parts_read(3)]
    the_list_read [where f = the_text and g = JStr, OF the_text.simps(1)]
  show ?thesis
    by (simp add: read_envelope_def read_envelope_fields_def dump_envelope_def lists optional_text optional_int
        optional_error status_read del: the_list.simps optional.simps the_status.simps)
qed

lemma read_envelope_error: "read_envelope v = Inl err \<Longrightarrow> err = ValueError ''result envelope''"
  by (auto simp: read_envelope_def split: option.splits)

end
