(* ===== verification/Turn_Sample.thy ===== *)
theory Turn_Sample
  imports Endpoint_Properties Minted Envelope_Reader
begin

text \<open>
  A worker and an application that complete one turn: the control plane holds one assignment for the worker, whose backend
  class is the local model, and each request of the turn is answered. It shows that the daemon's good path exists.
\<close>

section \<open>The control plane\<close>

definition turn_assignment :: assignment_row where
  "turn_assignment = (sample_assignment ''open'' ''new'' Asg_created 0 None None)
     \<lparr>asg_body := JObj [(''backend_class'', JStr ''local_model'')], asg_backend_id := Some ''b''\<rparr>"

definition turn_tables :: tables where
  "turn_tables = sample_tables
     \<lparr>assignments := [turn_assignment],
      worker_manifests := [\<lparr>wm_worker_id = ''wrk_1'', wm_manifest_hash = ''h'', wm_body = JObj [], wm_created_at = ''t'', wm_updated_at = ''t''\<rparr>]\<rparr>"

definition turn_world :: world where
  "turn_world = sample_world\<lparr>committed := turn_tables, current := turn_tables\<rparr>"

definition turn_envelope :: "result_envelope \<Rightarrow> bool" where
  "turn_envelope e \<longleftrightarrow> env_work_unit_id e = ''wu_1'' \<and> env_attempt_id e = ''new'' \<and> env_assignment_id e = ''open'' \<and>
     env_worker_id e = Some ''wrk_1''"

definition turn_server :: server_environment where
  "turn_server = demo_server\<lparr>sv_host := demo_environment\<lparr>he_envelope := read_envelope\<rparr>\<rparr>"

definition turn_environment :: "world worker_environment" where
  "turn_environment = Worker_Properties.sample_environment (serve turn_server) (\<lambda>_. None)"

definition turn_worker :: "world worker" where
  "turn_worker =
     \<lparr>wk_server = turn_world, wk_spool = [], wk_outputs = [], wk_dirs = [], wk_log = [], wk_registered = True,
      wk_shutdown_requested = False, wk_last_heartbeat = 0, wk_clock_readings = 0, wk_ticks = 0\<rparr>"

text \<open>What the turn relies on: nothing was submitted, the work units have no body, the worker is registered.\<close>

definition bodiless :: "tables \<Rightarrow> bool" where
  "bodiless t \<longleftrightarrow> (\<forall>u \<in> set (work_units t). wu_body u = JNull)"

definition nothing_submitted :: "tables \<Rightarrow> bool" where
  "nothing_submitted t \<longleftrightarrow> bodiless t \<and> result_envelopes t = [] \<and> result_quarantine t = []"

definition turn_ready :: "(tables \<Rightarrow> bool) \<Rightarrow> world \<Rightarrow> bool" where
  "turn_ready P w \<longleftrightarrow> quiet_ok w \<and> minted P sample_platform w"

lemma bodiless_free: "lease_free bodiless" "lease_free nothing_submitted"
  by (auto simp: lease_free_def outbox_free_def nothing_submitted_def bodiless_def update_row_def)

lemma turn_start: "turn_ready (\<lambda>t. nothing_submitted t \<and> assignments t = [turn_assignment]) turn_world"
  by (simp add: turn_ready_def minted_def turn_world_def turn_tables_def sample_defs nothing_submitted_def bodiless_def
      sample_platform_def inj_def quiet_ok_iff idle_def sched_ok_def refs_ok_def pk_unique_def has_row_def
      attempts_numbered_def leases_ok_def lease_ok_def outbox_ok_def turn_assignment_def)

lemma turn_ready_fresh: "turn_ready P w \<Longrightarrow> fresh_ids w" "turn_ready P w \<Longrightarrow> plat w = sample_platform"
  "turn_ready P w \<Longrightarrow> P (committed w)" "turn_ready P w \<Longrightarrow> quiet_ok w" "turn_ready P w \<Longrightarrow> current w = committed w"
  by (auto simp: turn_ready_def minted_def quiet_ok_iff idle_def minted_fresh)

lemma turn_readyD:
  assumes "turn_ready P w" and "m w = (r, w')" and "keeps quiet_ok m" and "keeps (minted P sample_platform) m"
  shows "turn_ready P w'"
  using assms(1) keepsD [OF assms(3) _ assms(2)] keepsD [OF assms(4) _ assms(2)] by (simp add: turn_ready_def)

lemma lease_time: "turn_ready P w \<Longrightarrow> add_milliseconds (utc_clock (plat w) n) default_lease_duration_ms
   = Inr \<lparr>year = 2026, month = 1, day = 1, hour = 0, minute = 0, second = 30, microsecond = 1\<rparr>"
  by (simp add: turn_ready_fresh(2) sample_platform_def add_milliseconds_def us_of_day_def with_us_of_day_def)

section \<open>The requests of a turn\<close>

lemma heartbeat_answered:
  assumes w: "turn_ready (\<lambda>t. nothing_submitted t \<and> assignments t = [turn_assignment]) w"
    and "worker_manifests (committed w) = worker_manifests turn_tables" "worker_health_snapshots (committed w) = []"
  shows "\<exists>v w'. run_endpoint turn_server (Worker_heartbeat ''wrk_1'') None w = (Inr (Reply v), w') \<and>
    turn_ready (\<lambda>t. nothing_submitted t \<and> assignments t = [turn_assignment]) w'"
proof -
  let ?P = "\<lambda>t. nothing_submitted t \<and> assignments t = [turn_assignment]"
  obtain w' where run: "record_worker_heartbeat ''wrk_1'' ''healthy'' w = (Inr (), w')"
    using heartbeat_succeeds [of w "''wrk_1''" "''healthy''"] turn_ready_fresh [OF w] assms(2,3)
    by (auto simp: turn_tables_def has_row_def find_row_def)
  have "keeps (minted ?P sample_platform) (record_worker_heartbeat ''wrk_1'' ''healthy'')"
    by (rule keeps_minted_heartbeat) (auto simp: outbox_free_def nothing_submitted_def bodiless_def)
  then have "turn_ready ?P w'" by (rule turn_readyD [OF w run keeps_quiet_heartbeat])
  then show ?thesis using run by (simp add: answered_run serve_heartbeat_def run_seq)
qed

definition turn_document :: fields where
  "turn_document = json_fields (assignment_document (float_repr sample_platform)
     \<lparr>po_row = turn_assignment, po_body = [(''backend_class'', JStr ''local_model'')], po_effective_constraints = [],
      po_backend_class = Some (JStr ''local_model'')\<rparr>)"

lemma poll_answered:
  assumes "turn_ready (\<lambda>t. nothing_submitted t \<and> assignments t = [turn_assignment]) w"
  shows "run_endpoint turn_server (Next_assignment ''wrk_1'') None w
    = (Inr (Reply (JObj [(''status'', JStr ''ok''), (''assignment'', JObj turn_document)])), w)"
proof -
  have "assignments (current w) = [turn_assignment]" using turn_ready_fresh [OF assms] by simp
  then have "poll_next_assignment ''wrk_1'' w = (Inr (Some \<lparr>po_row = turn_assignment,
      po_body = [(''backend_class'', JStr ''local_model'')], po_effective_constraints = [],
      po_backend_class = Some (JStr ''local_model'')\<rparr>), w)"
    by (simp add: poll_next_assignment_def run_simps turn_assignment_def sample_assignment_def first_by_def)
  then show ?thesis
    by (simp add: answered_run serve_next_assignment_def run_simps turn_ready_fresh(2) [OF assms] turn_document_def
        assignment_document_def Let_def)
qed

lemma accept_answered:
  assumes w: "turn_ready (\<lambda>t. nothing_submitted t \<and> assignments t = [turn_assignment]) w"
  shows "\<exists>d raw w' a. run_endpoint turn_server (Accept_assignment ''open'') (Some [(''worker_id'', JStr ''wrk_1'')]) w
      = (Inr (Reply (JObj d)), w') \<and> item d ''lease_token'' = Inr (JStr raw) \<and> item d ''lease_version'' = Inr (JInt 1) \<and>
    turn_ready nothing_submitted w' \<and> raw \<noteq> [] \<and> assignment_at (committed w') ''open'' = Some a \<and>
    asg_links a = asg_links turn_assignment \<and> asg_lease_version a = 1 \<and>
    asg_lease_token_hash a = Some (assignment_lease_token_hash (sha256 sample_platform) raw)"
proof -
  note ready = turn_ready_fresh [OF w]
  have row: "assignment_at (committed w) ''open'' = Some turn_assignment"
    using ready(3) by (simp add: find_row_def turn_assignment_def sample_assignment_def)
  obtain l w' where run: "accept_assignment ''open'' ''wrk_1'' 0 default_lease_duration_ms w = (Inr l, w')"
    using accept_succeeds [OF ready(4,1) row, of "''wrk_1''" 0, OF _ _ _ lease_time [OF w]]
    by (auto simp: turn_assignment_def sample_assignment_def)
  have raw: "al_lease_token l \<noteq> []"
    using run by (auto simp: accept_assignment_def bnd_ok_iff seq_ok_iff new_lease_token_def)
  have "turn_ready nothing_submitted w'"
    by (rule turn_readyD [OF _ run keeps_quiet_accept keeps_minted_leases(1) [OF bodiless_free(2)]])
      (use w minted_weaken in \<open>auto simp: turn_ready_def\<close>)
  moreover obtain a where "assignment_at (committed w') ''open'' = Some a" "asg_links a = asg_links turn_assignment"
      "asg_lease_version a = 1" "al_lease_version l = 1"
      "asg_lease_token_hash a = Some (assignment_lease_token_hash (sha256 sample_platform) (al_lease_token l))"
    using accept_ok [OF ready(4) run] row ready(2) by auto
  moreover have "run_endpoint turn_server (Accept_assignment ''open'') (Some [(''worker_id'', JStr ''wrk_1'')]) w
      = (Inr (Reply (JObj [(''assignment_id'', JStr (al_assignment_id l)), (''lease_token'', JStr (al_lease_token l)),
                 (''lease_version'', JInt (al_lease_version l)), (''lease_expires_at'', JStr (al_lease_expires_at l))])), w')"
    using run by (simp add: serve_accept_def given_payload_def worker_argument_def dget_or_def or_http_def bound_version_def
        run_map_error run_simps)
  ultimately show ?thesis using raw by (intro exI conjI) (assumption | simp)+
qed

text \<open>A lease that was just taken, in a control plane that holds no result.\<close>

definition leased :: "string \<Rightarrow> world \<Rightarrow> int \<Rightarrow> assignment_row \<Rightarrow> bool" where
  "leased raw w v a \<longleftrightarrow> turn_ready nothing_submitted w \<and> raw \<noteq> [] \<and> assignment_at (committed w) ''open'' = Some a \<and>
     asg_links a = asg_links turn_assignment \<and> asg_lease_version a = v \<and>
     asg_lease_token_hash a = Some (assignment_lease_token_hash (sha256 sample_platform) raw)"

lemma leased_worker: "leased raw w v a \<Longrightarrow> asg_worker_id a = ''wrk_1''"
  by (auto simp: leased_def asg_links_def turn_assignment_def sample_assignment_def)

lemma sample_lease_hash: "assignment_lease_token_hash (sha256 sample_platform) raw \<noteq> []"
  by (simp add: sample_platform_def assignment_lease_token_hash_def)

lemma progress_answered:
  assumes l: "leased raw w 1 a"
  shows "\<exists>d w' b. run_endpoint turn_server (Assignment_progress ''open'')
      (Some [(''worker_id'', JStr ''wrk_1''), (''lease_token'', JStr raw), (''expected_lease_version'', JInt 1)]) w
      = (Inr (Reply (JObj d)), w') \<and> item d ''lease_version'' = Inr (JInt 2) \<and> leased raw w' 2 b"
proof -
  have w: "turn_ready nothing_submitted w" and a: "assignment_at (committed w) ''open'' = Some a" "asg_lease_version a = 1"
    "asg_lease_token_hash a = Some (assignment_lease_token_hash (sha256 (plat w)) raw)" "raw \<noteq> []"
    "asg_links a = asg_links turn_assignment"
    using l turn_ready_fresh(2) by (auto simp: leased_def)
  note ready = turn_ready_fresh [OF w]
  obtain p w' where run: "progress_assignment ''open'' ''wrk_1'' (Some raw) 1 default_lease_duration_ms w = (Inr p, w')"
    using progress_succeeds [OF ready(4,1) a(1) leased_worker [OF l] a(2,3,4) _ lease_time [OF w]] sample_lease_hash ready(2) by auto
  have "turn_ready nothing_submitted w'"
    by (rule turn_readyD [OF w run keeps_quiet_progress keeps_minted_leases(2) [OF bodiless_free(2)]])
  moreover obtain b where "assignment_at (committed w') ''open'' = Some b" "asg_lease_version b = 2" "pl_lease_version p = 2"
      "asg_lease_token_hash b = asg_lease_token_hash a"
    using progress_ok [OF ready(4) run] a by auto
  moreover have "asg_links b = asg_links a"
  proof -
    have "run_command no_envelopes (Progress_assignment ''open'' ''wrk_1'' (Some raw) 1 default_lease_duration_ms) w = (Inr (), w')"
      using run by (simp add: discard_def run_simps)
    from later_assignment [OF ready(4) reach_one [OF this] a(1)] show ?thesis
      using calculation(2) by (auto simp: assignment_grows_def)
  qed
  moreover have "run_endpoint turn_server (Assignment_progress ''open'')
      (Some [(''worker_id'', JStr ''wrk_1''), (''lease_token'', JStr raw), (''expected_lease_version'', JInt 1)]) w
      = (Inr (Reply (JObj [(''assignment_id'', JStr (pl_assignment_id p)), (''status'', JStr ''running''),
                 (''lease_version'', JInt (pl_lease_version p)), (''lease_expires_at'', JStr (pl_lease_expires_at p))])), w')"
    using run by (simp add: serve_progress_def given_payload_def worker_argument_def or_http_def bound_version_def with_token_def
        run_map_error run_simps)
  ultimately show ?thesis
    using a ready(2) by (intro exI conjI) (assumption | simp add: leased_def)+
qed

lemma result_answered:
  assumes l: "leased raw w 2 a" and envelope: "turn_envelope e"
  shows "\<exists>v w'. run_endpoint turn_server (Assignment_result ''open'')
      (Some (json_fields (submit_payload ''wrk_1'' out (JStr raw) None (Some (JObj (dump_envelope e)))))) w = (Inr (Reply v), w')"
proof -
  have w: "turn_ready nothing_submitted w" and a: "assignment_at (committed w) ''open'' = Some a"
    "asg_lease_token_hash a = Some (assignment_lease_token_hash (sha256 (plat w)) raw)" "raw \<noteq> []"
    "asg_links a = asg_links turn_assignment"
    using l turn_ready_fresh(2) by (auto simp: leased_def)
  note ready = turn_ready_fresh [OF w]
  let ?he = "sv_host turn_server"
  let ?d = "JObj (dump_envelope e)"
  have he: "he_envelope ?he = read_envelope" by (simp add: turn_server_def demo_server_def)
  have e: "validate_result_envelope_for_assignment e a = Inr ()"
    using a(4) envelope by (simp add: validate_result_envelope_for_assignment_def turn_envelope_def asg_links_def
        turn_assignment_def sample_assignment_def)
  have given: "he_envelope ?he ?d = Inr e" by (simp add: he envelope_read)
  obtain s u where run: "submit_result (he_envelope ?he) ''open'' ''wrk_1'' (Some raw) None (JObj out) (Raw_envelope ?d) w
      = (Inr s, u)"
    using submit_envelope_succeeds [where validate = "he_envelope ?he" and given = ?d and out = "JObj out",
        OF ready(4,1) a(1) leased_worker [OF l] a(2,3) _ given e] sample_lease_hash ready(2,3)
    by (auto simp: nothing_submitted_def find_row_def)
  have kept: "keeps (minted bodiless sample_platform)
      (submit_result (he_envelope ?he) ''open'' ''wrk_1'' (Some raw) None (JObj out) (Raw_envelope ?d))"
    by (rule keeps_minted_submit [OF bodiless_free(1)]) (auto simp: bodiless_def)
  have u: "turn_ready bodiless u"
    by (rule turn_readyD [OF _ run keeps_quiet_submit kept])
      (use w in \<open>auto simp: turn_ready_def nothing_submitted_def intro: minted_weaken\<close>)
  have unsupported: "load_supported_context ?he (current u) i = Inr None" for i
  proof -
    have "find_row wu_id (work_units (current u)) i = Some wu \<Longrightarrow> wu_body wu = JNull" for wu
      using turn_ready_fresh(3,5) [OF u] by (auto simp: bodiless_def dest: find_row_SomeD)
    then show ?thesis
      by (auto simp: load_supported_context_def get_null_def dget_or_def Let_def split: option.splits)
  qed
  have "finalize_url_check_result ?he (sr_result_envelope_id s) u = (Inr None, u)"
    by (auto simp: finalize_url_check_result_def run_simps he unsupported split: option.splits sum.splits
        dest!: read_envelope_error elim!: value_error_as_none.elims)
  then show ?thesis
    using run by (simp add: serve_result_def submit_payload_def given_payload_def worker_argument_def or_http_def run_simps
        submit_payload_result_def get_null_def dget_or_def with_token_def)
qed

section \<open>The turn\<close>

lemma request_reply:
  assumes "we_transport E = serve sv" and "starts_with ''tbk_w_'' (wc_worker_token (we_config E))"
    and "endpoint_of verb path = Some ep" and "required_token ep = Some Worker_token"
    and "payload_of (declared_body ep) payload = Some p" and "run_endpoint sv ep p (wk_server w) = (Inr (Reply v), s)"
  shows "request E verb path payload w = (Inr v, w\<lparr>wk_server := s\<rparr>)"
proof -
  obtain rest where rest: "wc_worker_token (we_config E) = ''tbk_w_'' @ rest" using assms(2) by (auto simp: starts_with_iff)
  have bearer: "lower ''Bearer'' = ''bearer''" by code_simp
  have "authorize ep (''Bearer '' @ wc_worker_token (we_config E)) = None"
    using assms(4) bearer by (simp add: authorize_def require_token_kind_def extract_bearer_token_def partition_at_def rest)
  then show ?thesis
    using assms by (simp add: request_def http_request_of_def serve_def)
qed

lemma turn_environment_simps:
  "we_transport turn_environment = serve turn_server" "wc_worker_token (we_config turn_environment) = ''tbk_w_x''"
  "wc_worker_id (we_config turn_environment) = ''wrk_1''" "we_repr turn_environment = (\<lambda>_. [])"
  "we_platform turn_environment = plain_platform" "we_library turn_environment = idle_library"
  "starts_with ''tbk_w_'' (wc_worker_token (we_config turn_environment))"
  by (simp_all add: turn_environment_def Worker_Properties.sample_environment_def starts_with_iff)

lemma turn_paths:
  "endpoint_of ''POST'' ''/v0/workers/wrk_1/heartbeat'' = Some (Worker_heartbeat ''wrk_1'')"
  "endpoint_of ''GET'' ''/v0/workers/wrk_1/assignments/next'' = Some (Next_assignment ''wrk_1'')"
  "endpoint_of ''POST'' ''/v0/assignments/open/accept'' = Some (Accept_assignment ''open'')"
  "endpoint_of ''POST'' ''/v0/assignments/open/progress'' = Some (Assignment_progress ''open'')"
  "endpoint_of ''POST'' ''/v0/assignments/open/result'' = Some (Assignment_result ''open'')"
  by code_simp+

lemmas turn_reply = request_reply [OF turn_environment_simps(1,7)]

lemma turn_document_items:
  "item turn_document ''assignment_id'' = Inr (JStr ''open'')" "get_null turn_document ''worker_id'' = JStr ''wrk_1''"
  "worker_backend_class turn_environment turn_document = ''local_model''" "worker_backend_id turn_environment turn_document = ''b''"
  by (simp_all add: turn_document_def assignment_document_def Let_def turn_assignment_def sample_assignment_def get_null_def
      worker_backend_class_def worker_backend_id_def turn_environment_simps dget_or_def or_json_def)

lemma turn_context:
  "\<exists>c. worker_execution_context turn_environment turn_document = Inr c \<and> list_all (\<lambda>s. \<exists>t. non_empty_str s = Inr t)
    [xc_work_unit_id c, xc_run_id c, xc_attempt_id c, xc_assignment_id c, xc_backend_id c] \<and>
    xc_work_unit_id c = ''wu_1'' \<and> xc_attempt_id c = ''new'' \<and> xc_assignment_id c = ''open'' \<and> xc_worker_id c = Some ''wrk_1''"
proof -
  have ids: "list_all (\<lambda>s. isl (non_empty_str s) = False) [''wu_1'', ''run_worker_local'', ''new'', ''open'', ''b'']"
    by code_simp
  have "\<exists>c. worker_execution_context turn_environment turn_document = Inr c \<and> xc_work_unit_id c = ''wu_1'' \<and>
      xc_run_id c = ''run_worker_local'' \<and> xc_attempt_id c = ''new'' \<and> xc_assignment_id c = ''open'' \<and> xc_backend_id c = ''b''
      \<and> xc_worker_id c = Some ''wrk_1''"
    by (simp add: worker_execution_context_def Let_def turn_document_items)
      (simp add: turn_document_def assignment_document_def Let_def turn_assignment_def sample_assignment_def get_null_def
        dget_or_def coerce_dict_def or_json_def turn_environment_simps)
  moreover have "\<exists>t. non_empty_str s = Inr t" if "isl (non_empty_str s) = False" for s
    using that by (cases "non_empty_str s") auto
  ultimately show ?thesis using ids by auto
qed

lemma turn_executes:
  "\<exists>e w'. execute_envelope turn_environment turn_document sandbox w = (Inr e, w') \<and> wk_server w' = wk_server w \<and> turn_envelope e"
proof -
  obtain c where c: "worker_execution_context turn_environment turn_document = Inr c"
    "list_all (\<lambda>s. \<exists>t. non_empty_str s = Inr t) [xc_work_unit_id c, xc_run_id c, xc_attempt_id c, xc_assignment_id c, xc_backend_id c]"
    "xc_work_unit_id c = ''wu_1''" "xc_attempt_id c = ''new''" "xc_assignment_id c = ''open''" "xc_worker_id c = Some ''wrk_1''"
    using turn_context by blast
  have "\<not> is_forbidden_backend ''b'' ''local_model''" by code_simp
  moreover obtain e n where e: "local_model_execute plain_platform c (wk_clock_readings w) = (Inr e, n)"
    using local_model_returns [OF c(2)] by blast
  moreover have "turn_envelope e"
  proof -
    have run: "adapter_execute plain_platform (\<lambda>_. []) idle_library ''local_model'' c (wk_clock_readings w) = (Inr e, n)"
      using e by (simp add: adapter_execute_def)
    obtain q us st m where built: "build_result_envelope plain_platform c q [us] st m = (Inr e, n)"
      using adapter_prepared [OF run] unfolding prepared_def by blast
    have worker: "env_worker_id e = map_option strip (xc_worker_id c)"
      using built by (auto simp: build_result_envelope_def Let_def bnd_ok_iff)
    have "non_empty_str ''wu_1'' = Inr ''wu_1''" "non_empty_str ''new'' = Inr ''new''" "non_empty_str ''open'' = Inr ''open''"
      "strip ''wrk_1'' = ''wrk_1''"
      by code_simp+
    then show ?thesis
      using built_fields(8,10,11) [OF built] worker c(3-6) by (simp add: turn_envelope_def)
  qed
  ultimately show ?thesis
    using c(1) by (auto simp: execute_envelope_def turn_document_items run_simps on_worker_clock_def adapter_execute_def
        turn_environment_simps)
qed

text \<open>The requests as the client makes them, on a worker whose server is at the state of the hypothesis.\<close>

lemma turn_begins:
  "\<exists>w'. seq (register_if_needed turn_environment) (bnd (replay_completed_spool turn_environment) (\<lambda>n.
      seq (heartbeat_once turn_environment) (bnd (poll_assignment turn_environment) (\<lambda>p. ret (n, p))))) turn_worker
      = (Inr (0, Some turn_document), w') \<and>
    turn_ready (\<lambda>t. nothing_submitted t \<and> assignments t = [turn_assignment]) (wk_server w')"
proof -
  let ?P = "\<lambda>t. nothing_submitted t \<and> assignments t = [turn_assignment]"
  obtain v s where beat: "run_endpoint turn_server (Worker_heartbeat ''wrk_1'') None turn_world = (Inr (Reply v), s)" "turn_ready ?P s"
    using heartbeat_answered [OF turn_start] by (auto simp: turn_world_def turn_tables_def sample_tables_def)
  have hb: "heartbeat turn_environment ''wrk_1'' turn_worker = (Inr v, turn_worker\<lparr>wk_server := s\<rparr>)"
  proof -
    have "wk_server turn_worker = turn_world" by (simp add: turn_worker_def)
    from turn_reply [OF turn_paths(1) _ _ beat(1) [folded this]] show ?thesis unfolding heartbeat_def by simp
  qed
  define w1 where "w1 = (turn_worker\<lparr>wk_server := s\<rparr>)
    \<lparr>wk_ticks := 1, wk_last_heartbeat := we_monotonic turn_environment 0,
     wk_log := [redact_worker_log (''worker heartbeat: wrk_1'')]\<rparr>"
  have once: "heartbeat_once turn_environment turn_worker = (Inr v, w1)"
    using hb by (simp add: heartbeat_once_def run_simps turn_environment_simps monotonic_def write_log_run turn_worker_def w1_def)
  have "client_poll_assignment turn_environment ''wrk_1'' w1 = (Inr (JObj turn_document), w1)"
  proof -
    have "request turn_environment ''GET'' ''/v0/workers/wrk_1/assignments/next'' None w1
        = (Inr (JObj [(''status'', JStr ''ok''), (''assignment'', JObj turn_document)]), w1\<lparr>wk_server := s\<rparr>)"
      by (rule turn_reply [OF turn_paths(2), where p = None]) (use poll_answered [OF beat(2)] in \<open>simp_all add: w1_def\<close>)
    moreover have "w1\<lparr>wk_server := s\<rparr> = w1" by (simp add: w1_def)
    ultimately show ?thesis
      by (simp add: client_poll_assignment_def run_simps document_get_def get_null_def dget_or_def)
  qed
  then have "poll_assignment turn_environment w1 = (Inr (Some turn_document), w1)"
    by (simp add: poll_assignment_def run_simps turn_environment_simps turn_document_items)
  moreover have "completed_entries turn_environment [] = Inr []"
    by (simp add: completed_entries_def json_files_def)
  moreover have "wk_server w1 = s" "wk_registered turn_worker" "wk_spool turn_worker = []"
    by (simp_all add: w1_def turn_worker_def)
  ultimately show ?thesis
    using once beat(2) by (simp add: register_if_needed_def replay_completed_spool_def run_simps)
qed

lemma sandbox_created:
  fixes w :: "'s worker"
  obtains s w' where "create_sandbox c i w = (Inr s, w')" "wk_server w' = wk_server w"
proof -
  obtain f where f: "\<And>d (v :: 's worker). mkdir d v = (Inr (), f d v)" "\<And>d v. wk_server (f d v) = wk_server v"
    by (rule that [of "\<lambda>d v. if d \<in> set (wk_dirs v) then v else v\<lparr>wk_dirs := wk_dirs v @ [d]\<rparr>"])
      (simp_all add: mkdir_def run_simps)
  have "create_sandbox c i w = (Inr (sandbox_of c i), f (sb_log_dir (sandbox_of c i)) (f (sb_tmp_dir (sandbox_of c i))
      (f (sb_output_dir (sandbox_of c i)) (f (sb_input_dir (sandbox_of c i)) (f (sandbox_root c) w)))))"
    by (simp add: create_sandbox_def Let_def ensure_root_def f run_simps)
  then show thesis by (rule that) (simp add: f)
qed

lemma turn_handles:
  assumes w: "turn_ready (\<lambda>t. nothing_submitted t \<and> assignments t = [turn_assignment]) (wk_server w)"
  shows "\<exists>x w'. handle_assignment turn_environment turn_document w = (Inr x, w')"
proof -
  obtain d raw s a where acc: "run_endpoint turn_server (Accept_assignment ''open'') (Some [(''worker_id'', JStr ''wrk_1'')]) (wk_server w)
      = (Inr (Reply (JObj d)), s)" "item d ''lease_token'' = Inr (JStr raw)" "item d ''lease_version'' = Inr (JInt 1)"
    "leased raw s 1 a"
    using accept_answered [OF w] unfolding leased_def by blast
  have accept: "client_accept_assignment turn_environment ''open'' ''wrk_1'' w = (Inr (JObj d), w\<lparr>wk_server := s\<rparr>)"
    unfolding client_accept_assignment_def
    using turn_reply [OF turn_paths(3) _ _ acc(1)] by simp
  obtain sandbox w1 where box: "create_sandbox (we_config turn_environment) ''open'' (w\<lparr>wk_server := s\<rparr>) = (Inr sandbox, w1)" "wk_server w1 = s"
    using sandbox_created [of "we_config turn_environment" "''open''" "w\<lparr>wk_server := s\<rparr>"] by auto
  obtain e w2 where ex: "execute_envelope turn_environment turn_document sandbox w1 = (Inr e, w2)" "wk_server w2 = s"
    "turn_envelope e"
    using turn_executes [of sandbox w1] box(2) by auto
  obtain d' s' b where prog: "run_endpoint turn_server (Assignment_progress ''open'')
      (Some [(''worker_id'', JStr ''wrk_1''), (''lease_token'', JStr raw), (''expected_lease_version'', JInt 1)]) s
      = (Inr (Reply (JObj d')), s')" "item d' ''lease_version'' = Inr (JInt 2)" "leased raw s' 2 b"
    using progress_answered [OF acc(4)] by blast
  have progress: "client_progress_assignment turn_environment ''open'' ''wrk_1'' (JStr raw) 1 w2 = (Inr (JObj d'), w2\<lparr>wk_server := s'\<rparr>)"
    unfolding client_progress_assignment_def
    using turn_reply [OF turn_paths(4) _ _ prog(1) [folded ex(2)]] by simp
  obtain v s3 where res: "run_endpoint turn_server (Assignment_result ''open'')
      (Some (json_fields (submit_payload ''wrk_1'' (env_output e) (JStr raw) None (Some (JObj (dump_envelope e)))))) s' = (Inr (Reply v), s3)"
    using result_answered [OF prog(3) ex(3)] by blast
  have result: "client_submit_result turn_environment ''open'' ''wrk_1'' (env_output e) (JStr raw) None (Some (JObj (dump_envelope e)))
      (w2\<lparr>wk_server := s'\<rparr>) = (Inr v, w2\<lparr>wk_server := s3\<rparr>)"
    unfolding client_submit_result_def
    using turn_reply [OF turn_paths(5), of _ _ "w2\<lparr>wk_server := s'\<rparr>"] res by (simp add: submit_payload_def)
  show ?thesis
    using accept box(1) ex(1) progress result acc(2,3) prog(2)
    by (simp add: handle_assignment_def Let_def run_simps turn_document_items turn_environment_simps document_item_def
        deliver_result_def write_log_run del: item.simps)
qed

lemma turn_completes: "\<exists>s w'. run_once turn_environment turn_worker = (Inr s, w') \<and> rs_status s = ''completed''"
proof -
  obtain w1 where w1: "seq (register_if_needed turn_environment) (bnd (replay_completed_spool turn_environment) (\<lambda>n.
      seq (heartbeat_once turn_environment) (bnd (poll_assignment turn_environment) (\<lambda>p. ret (n, p))))) turn_worker
      = (Inr (0, Some turn_document), w1)"
    "turn_ready (\<lambda>t. nothing_submitted t \<and> assignments t = [turn_assignment]) (wk_server w1)"
    using turn_begins by blast
  obtain x w2 where "handle_assignment turn_environment turn_document w1 = (Inr x, w2)" using turn_handles [OF w1(2)] by blast
  then have "run_once turn_environment turn_worker
      = (Inr \<lparr>rs_status = ''completed'', rs_worker_id = ''wrk_1'', rs_assignment_id = Some (JStr ''open''), rs_result = Some x,
          rs_spooled_submitted = 0\<rparr>, w2)"
    using w1(1) by (auto simp: run_once_def Let_def bnd_ok_iff seq_ok_iff turn_document_items turn_environment_simps simp del: item.simps)
  then show ?thesis by auto
qed

end
