(* ===== verification/Composition.thy ===== *)
theory Composition
  imports Turn_Sample
begin

text \<open>
  The worker and the HTTP application together: the transport of the worker is the application's \<open>serve\<close>, so a run of the
  daemon (\<open>src/tokenbank/worker/daemon.py\<close>) is a run of the handlers (\<open>src/tokenbank/app/routers/\<close>) on the database.
\<close>

section \<open>A worker of the application\<close>

text \<open>The worker holds a worker token and its requests reach the application as they are.\<close>

definition serving :: "server_environment \<Rightarrow> world worker_environment \<Rightarrow> bool" where
  "serving sv E \<longleftrightarrow> we_transport E = serve sv \<and> starts_with ''tbk_w_'' (wc_worker_token (we_config E))"

lemma bearer_header: "extract_bearer_token (''Bearer '' @ t) = (if t = [] then Inl (Refused 401 ''missing_bearer_token'') else Inr t)"
proof -
  have "lower ''Bearer'' = ''bearer''" by code_simp
  then show ?thesis by (simp add: extract_bearer_token_def partition_at_def)
qed

lemma worker_authorized: "starts_with ''tbk_w_'' t \<Longrightarrow> authorize ep (''Bearer '' @ t) = None \<Longrightarrow>
    required_token ep = Some Worker_token \<or> ep = Health"
proof -
  assume t: "starts_with ''tbk_w_'' t" and a: "authorize ep (''Bearer '' @ t) = None"
  obtain rest where rest: "t = ''tbk_w_'' @ rest" using t by (auto simp: starts_with_iff)
  show ?thesis
  proof (cases "required_token ep")
    case None
    then show ?thesis by (simp add: required_token_none)
  next
    case (Some kind)
    have h: "extract_bearer_token (''Bearer '' @ t) = Inr t" unfolding bearer_header by (simp add: rest)
    show ?thesis
      using a [unfolded authorize_def require_token_kind_def h] Some by (cases kind) (simp_all add: rest)
  qed
qed

lemma serve_worker_quiet:
  assumes token: "starts_with ''tbk_w_'' t" and rq: "rq_authorization rq = ''Bearer '' @ t" and w: "quiet_ok w"
  shows "quiet_ok (snd (serve sv rq w))"
proof (cases "serve sv rq w" rule: prod.exhaust)
  case (Pair answer w')
  then have run: "serve sv rq w = (answer, w')" by simp
  then show ?thesis
  proof (cases rule: serve_cases)
    case 1
    then show ?thesis using w Pair by simp
  next
    case (2 ep p r)
    have "\<not> commits_last ep"
      using worker_authorized [OF token, of ep] 2(2) rq by (auto simp: commits_last_def)
    then show ?thesis using keepsD [OF keeps_quiet_endpoint w 2(4)] Pair by simp
  qed
qed

abbreviation server_quiet :: "world worker \<Rightarrow> bool" where
  "server_quiet w \<equiv> quiet_ok (wk_server w)"

lemma worker_of_application: "serving sv E \<Longrightarrow> worker_invariant E server_quiet"
proof
  assume E: "serving sv E"
  show "keeps server_quiet (write_log m)" for m by (simp add: keeps_def write_log_run)
  show "keeps server_quiet (request E verb path payload)" for verb path payload
    unfolding keeps_def
  proof (intro allI impI)
    fix w
    assume w: "server_quiet w"
    let ?rq = "http_request_of E verb path payload"
    have "quiet_ok (snd (serve sv ?rq (wk_server w)))"
      by (rule serve_worker_quiet [of "wc_worker_token (we_config E)"])
        (use E w in \<open>simp_all add: serving_def http_request_of_def\<close>)
    then show "server_quiet (snd (request E verb path payload w))"
      using E by (auto simp: request_def serving_def split: prod.splits)
  qed
qed simp

section \<open>Routes of a worker\<close>

lemma split_path_append: "split_path acc (s @ CHR ''/'' # t) = split_path acc s @ split_path [] t"
  by (induction s arbitrary: acc) auto

lemma split_path_plain: "CHR ''/'' \<notin> set s \<Longrightarrow> split_path acc s = [rev acc @ s]"
  by (induction s arbitrary: acc) auto

lemma split_path_not_empty [simp]: "split_path acc s \<noteq> []"
  by (induction s arbitrary: acc) auto

lemma split_path_one: "split_path [] s = [x] \<Longrightarrow> x = s"
proof (cases "CHR ''/'' \<in> set s")
  case True
  then obtain a b where "s = a @ CHR ''/'' # b" by (auto simp: in_set_conv_decomp)
  then show "split_path [] s = [x] \<Longrightarrow> x = s" by (auto simp: split_path_append append_eq_Cons_conv)
next
  case False
  then show "split_path [] s = [x] \<Longrightarrow> x = s" by (simp add: split_path_plain)
qed

lemma assignment_path:
  "split_path [] (''/v0/assignments/'' @ i @ ''/result'') = [] # ''v0'' # ''assignments'' # split_path [] i @ [''result'']"
  using split_path_append [of "[]" i "''result''"] by simp

lemma result_route:
  assumes "endpoint_of ''POST'' (''/v0/assignments/'' @ i @ ''/result'') = Some ep"
  shows "ep = Assignment_result i"
proof -
  obtain x xs where xs: "split_path [] i = x # xs" using split_path_not_empty by (metis neq_Nil_conv)
  have route: "first_route routes ''POST'' (''v0'' # ''assignments'' # x # xs @ [''result'']) = Some ep"
    using assms unfolding endpoint_of_def assignment_path xs by simp
  show ?thesis
  proof (cases xs)
    case Nil
    then have "x = i" using split_path_one xs by simp
    then show ?thesis
      using route Nil by (simp add: routes_def host_routes_def capacity_routes_def worker_routes_def assignment_routes_def
          router_routes_def policy_routes_def verifier_routes_def split: if_splits)
  next
    case (Cons y ys)
    then show ?thesis
      using route by (cases ys) (simp_all add: routes_def host_routes_def capacity_routes_def worker_routes_def
          assignment_routes_def router_routes_def policy_routes_def verifier_routes_def split: if_splits)
  qed
qed

section \<open>A result on its way\<close>

text \<open>What FastAPI answers on its own is an error.\<close>

definition framework_refuses :: "server_environment \<Rightarrow> bool" where
  "framework_refuses sv \<longleftrightarrow> (\<forall>rq. \<exists>code body document. sv_framework sv rq = Answer code body document \<and> 400 \<le> code)"

lemma served_result:
  assumes E: "serving sv E" and fw: "framework_refuses sv"
    and run: "client_submit_result E i v out tok th env w = (Inr x, w')"
  shows "\<exists>reply_doc. serve_result sv i (json_fields (submit_payload v out tok th env)) (wk_server w) = (Inr (Reply reply_doc), wk_server w') \<and>
    w' = w\<lparr>wk_server := wk_server w'\<rparr>"
proof -
  let ?payload = "submit_payload v out tok th env" and ?path = "''/v0/assignments/'' @ i @ ''/result''"
  let ?rq = "http_request_of E ''POST'' ?path (Some ?payload)"
  have rq: "rq_method ?rq = ''POST''" "rq_path ?rq = ?path" "rq_json ?rq = Some ?payload"
    by (simp_all add: http_request_of_def)
  obtain code body document s where s: "serve sv ?rq (wk_server w) = (Answer code body document, s)" "code < 400" "w' = w\<lparr>wk_server := s\<rparr>"
    using run E unfolding client_submit_result_def request_def serving_def
    by (auto split: prod.splits http_answer.splits if_splits option.splits)
  have framework: "sv_framework sv ?rq \<noteq> Answer code body document"
    using fw s(2) unfolding framework_refuses_def by (metis http_answer.inject(2) not_less)
  obtain ep where ep: "endpoint_of ''POST'' ?path = Some ep"
    using s(1) framework unfolding serve_def rq by (cases "endpoint_of ''POST'' ?path") auto
  then have ep_result: "ep = Assignment_result i" by (rule result_route)
  have "authorize ep (rq_authorization ?rq) = None"
  proof (cases "authorize ep (rq_authorization ?rq)")
    case (Some r)
    then have "r = Refused 401 ''missing_bearer_token'' \<or> r = Refused 403 ''wrong_token_kind''"
      using require_token_kind_refuses by (auto simp: authorize_def split: option.splits sum.splits)
    then show ?thesis using s(1,2) ep Some unfolding serve_def rq by (auto simp: Let_def)
  qed
  then have "(case serve_result sv i (json_fields ?payload) (wk_server w) of (r, u) \<Rightarrow> (answer_of sv r, u))
      = (Answer code body document, s)"
    using s(1) ep ep_result unfolding serve_def rq by (simp add: submit_payload_def given_payload_def)
  then obtain r where r: "serve_result sv i (json_fields ?payload) (wk_server w) = (r, s)" "answer_of sv r = Answer code body document"
    by (auto split: prod.splits)
  moreover obtain reply_doc where "r = Inr (Reply reply_doc)"
    using r(1,2) s(2) unfolding serve_result_def
    by (auto elim!: or_http_run simp: Let_def split: if_splits)
  ultimately show ?thesis using s(3) by auto
qed

lemma served_result_stored:
  assumes w: "quiet_ok w"
    and run: "serve_result sv i (json_fields (submit_payload v out tok None (Some (JObj (dump_envelope e))))) w = (Inr (Reply reply_doc), w')"
  shows "\<exists>a r f. assignment_at (committed w') i = Some a \<and> asg_worker_id a = v \<and> asg_status a \<in> {Asg_completed, Asg_quarantined} \<and>
    he_envelope (sv_host sv) (JObj (dump_envelope e)) = Inr f \<and>
    r \<in> set (result_envelopes (committed w')) \<and> res_assignment_id r = i \<and> res_id r = env_result_envelope_id f \<and>
    res_status r \<in> {env_status f, Res_quarantined} \<and>
    res_output_hash r = env_output_hash f \<and> res_result_hash r = env_result_hash f"
proof -
  let ?payload = "json_fields (submit_payload v out tok None (Some (JObj (dump_envelope e))))"
  have item: "item ?payload ''worker_id'' = Inr (JStr v)" by (simp add: submit_payload_def)
  have arg: "worker_argument i (JStr v) = ret v" by (simp add: worker_argument_def)
  obtain s u z where s: "submit_payload_result sv i v ?payload w = (Inr s, u)"
    and fin: "finalize_url_check_result (sv_host sv) (sr_result_envelope_id s) u = (Inr z, w')"
    using run unfolding serve_result_def by (auto elim!: or_http_run simp: item arg bnd_ok_iff simp del: item.simps split: if_splits)
  have "submit_payload_result sv i v ?payload =
      with_token i v tok (\<lambda>tk. submit_result (he_envelope (sv_host sv)) i v tk None (JObj out) (Raw_envelope (JObj (dump_envelope e))))"
    by (simp add: submit_payload_result_def submit_payload_def get_null_def dget_or_def)
  then obtain tk where sub: "submit_result (he_envelope (sv_host sv)) i v tk None (JObj out) (Raw_envelope (JObj (dump_envelope e))) w
      = (Inr s, u)"
    using s by (cases tok) (auto simp: with_token_def bnd_ok_iff split: if_splits)
  obtain f where f: "he_envelope (sv_host sv) (JObj (dump_envelope e)) = Inr f" "sr_result_envelope_id s = env_result_envelope_id f"
    "sr_output_hash s = env_output_hash f" "sr_result_hash s = env_result_hash f"
    "sr_status s \<in> {env_status f, Res_quarantined}"
    using sub by (auto simp: submit_result_def bnd_ok_iff seq_ok_iff result_from_envelope_def)
  obtain a0 late r where r: "submission_checked (he_envelope (sv_host sv)) i v tk None (JObj out)
        (Raw_envelope (JObj (dump_envelope e))) w a0 late"
    "result_envelopes (committed u) = result_envelopes (committed w) @ [r]" "res_id r = sr_result_envelope_id s"
    "res_assignment_id r = i" "res_output_hash r = sr_output_hash s" "res_result_hash r = sr_result_hash s"
    "res_status r = sr_status s"
    "map_option asg_status (assignment_at (committed u) i) \<in> {Some Asg_quarantined, Some Asg_completed}"
    using submit_ok [OF w sub] by (auto split: if_splits)
  have u: "quiet_ok u" using keepsD [OF keeps_quiet_submit w sub] by simp
  obtain a where a: "assignment_at (committed u) i = Some a" "assignment_grows a0 a"
  proof -
    have "run_command (he_envelope (sv_host sv))
        (Submit_result i v tk None (JObj out) (Raw_envelope (JObj (dump_envelope e)))) w = (Inr (), u)"
      using sub by (simp add: discard_def run_simps)
    then show ?thesis
      using later_assignment [OF w reach_one] r(1) that unfolding submission_checked_def by blast
  qed
  have same: "assignments (committed w') = assignments (committed u)" "result_envelopes (committed w') = result_envelopes (committed u)"
  proof -
    have "settled (waiting (committed u)) u" using u by (simp add: quiet_settled settled_def waiting_def)
    then show "assignments (committed w') = assignments (committed u)"
      using keepsD [OF keeps_waiting_finalize _ fin] by (auto simp: settled_def waiting_def)
    show "result_envelopes (committed w') = result_envelopes (committed u)"
      using keepsD [OF keeps_results_finalize [of "result_envelopes (committed u)"] _ fin] u by (simp add: settled_def quiet_inv_def)
  qed
  have "asg_worker_id a = v" using a(2) r(1) by (auto simp: assignment_grows_def asg_links_def submission_checked_def)
  then show ?thesis using a(1) r(2-8) f same by (intro exI [of _ a] exI [of _ r] exI [of _ f]) auto
qed

lemma request_frame: "request E verb path payload w = (r, w') \<Longrightarrow> w' = w\<lparr>wk_server := wk_server w'\<rparr>"
  by (auto simp: request_def split: prod.splits)

lemma client_frames:
  "client_accept_assignment E i v w = (r, w') \<Longrightarrow> w' = w\<lparr>wk_server := wk_server w'\<rparr>"
  "client_progress_assignment E i v tok n w = (r, w') \<Longrightarrow> w' = w\<lparr>wk_server := wk_server w'\<rparr>"
  unfolding client_accept_assignment_def client_progress_assignment_def by (erule request_frame)+

lemma deliver_ok:
  "deliver_result E i tok e w = (Inr x, w') \<Longrightarrow>
     client_submit_result E i (wc_worker_id (we_config E)) (env_output e) tok None (Some (JObj (dump_envelope e))) w = (Inr x, w')"
  by (auto simp: deliver_result_def Let_def seq_ok_iff split: prod.splits sum.splits py_error.splits)

text \<open>What the handling of an assignment comes to, up to the submission of its result.\<close>

lemma handle_ok:
  assumes inv: "worker_invariant E I" and w: "I w" and item: "item a ''assignment_id'' = Inr given"
    and run: "handle_assignment E a w = (Inr x, w')"
  obtains e tok w1 w2 w3 w4 where
    "execute_envelope E a (sandbox_of (we_config E) (py_str (we_repr E) given)) w1 = (Inr e, w2)" "I w3" "wk_outputs w3 = wk_outputs w2"
    "client_submit_result E (py_str (we_repr E) given) (wc_worker_id (we_config E)) (env_output e) tok None
       (Some (JObj (dump_envelope e))) w3 = (Inr x, w4)"
    "wk_server w' = wk_server w4" "wk_outputs w' = wk_outputs w4"
proof -
  let ?i = "py_str (we_repr E) given" and ?v = "wc_worker_id (we_config E)"
  obtain accepted u1 sandbox w1 e w2 tok n progressed w3 w4 where
    steps: "client_accept_assignment E ?i ?v w = (Inr accepted, u1)" "create_sandbox (we_config E) ?i u1 = (Inr sandbox, w1)"
      "execute_envelope E a sandbox w1 = (Inr e, w2)"
      "client_progress_assignment E ?i ?v tok n w2 = (Inr progressed, w3)" "deliver_result E ?i tok e w3 = (Inr x, w4)"
    and last: "\<exists>m y. write_log m w4 = (Inr y, w')"
    using run by (auto simp: handle_assignment_def Let_def item bnd_ok_iff seq_ok_iff simp del: item.simps) blast
  have sandbox: "sandbox = sandbox_of (we_config E) ?i"
    using steps(2) by (auto simp: create_sandbox_def Let_def seq_ok_iff)
  note kept = worker_invariant.client_kept [OF inv] worker_invariant.steps_kept [OF inv]
  have "I w3"
    using keepsD [OF kept(4) w steps(1)] keepsD [OF kept(8) _ steps(2)] keepsD [OF kept(9) _ steps(3)] keepsD [OF kept(5) _ steps(4)]
    by blast
  moreover have "wk_outputs w3 = wk_outputs w2" using client_frames(2) [OF steps(4)] by (metis worker.select_convs worker.surjective worker.update_convs(1))
  ultimately show thesis
    using that [of w1 e w2 w3 tok w4] steps(3) sandbox deliver_ok [OF steps(5)] last by (auto simp: write_log_run)
qed

section \<open>Properties\<close>

text \<open>C11. A worker keeps the invariant of the control plane. However long the daemon runs against the application, whatever it
finds in its spool and whatever its executor does, the tables of the application satisfy the invariant of the scheduler
afterwards and no transaction is open.\<close>

theorem worker_keeps_control_plane:
  assumes "serving sv E" and "run_worker_from_config E once max_iterations w = Some (r, w')" and "quiet_ok (wk_server w)"
  shows "quiet_ok (wk_server w')"
  by (rule worker_invariant.worker_kept [OF worker_of_application [OF assms(1)] assms(2,3)])

text \<open>The validator of the application gives back the envelopes that the executor of the worker computes: validating
  the document of a model gives that model.\<close>

definition reads_back :: "server_environment \<Rightarrow> world worker_environment \<Rightarrow> bool" where
  "reads_back sv E \<longleftrightarrow> (\<forall>a sandbox w e w'. execute_envelope E a sandbox w = (Inr e, w') \<longrightarrow>
     he_envelope (sv_host sv) (JObj (dump_envelope e)) = Inr e)"

text \<open>C6. What the worker completes is stored. Let the validator of the application give back the envelopes that the
executor of the worker computes. When one turn of the daemon against the application ends as completed, the envelope that
the executor computed is well typed, its output is in the result file of the sandbox, the assignment belongs to the worker
and is completed or quarantined, and the application has stored a result of that assignment with the identifier, the output
hash and the result hash of that envelope, whose status is that of the envelope or quarantined.\<close>

theorem completed_run_is_stored:
  assumes E: "serving sv E" and fw: "framework_refuses sv" and reads: "reads_back sv E" and w: "quiet_ok (wk_server w)"
    and run: "run_once E w = (Inr s, w')" and status: "rs_status s = ''completed''"
  shows "\<exists>given d a r e v v'. rs_assignment_id s = Some given \<and>
    execute_envelope E d (sandbox_of (we_config E) (py_str (we_repr E) given)) v = (Inr e, v') \<and> envelope_wf e \<and>
    dget (wk_outputs w') (sb_output_dir (sandbox_of (we_config E) (py_str (we_repr E) given)) @ ''/result.json'')
      = Some (canonical_json_dumps (float_repr (we_platform E)) (JObj (env_output e))) \<and>
    assignment_at (committed (wk_server w')) (py_str (we_repr E) given) = Some a \<and>
    asg_worker_id a = wc_worker_id (we_config E) \<and> asg_status a \<in> {Asg_completed, Asg_quarantined} \<and>
    r \<in> set (result_envelopes (committed (wk_server w'))) \<and> res_assignment_id r = py_str (we_repr E) given \<and>
    res_id r = env_result_envelope_id e \<and> res_status r \<in> {env_status e, Res_quarantined} \<and>
    res_output_hash r = env_output_hash e \<and> res_result_hash r = env_result_hash e"
proof -
  note inv = worker_of_application [OF E]
  obtain n a w1 x given where a: "(seq (register_if_needed E) (bnd (replay_completed_spool E) (\<lambda>n.
        seq (heartbeat_once E) (bnd (poll_assignment E) (\<lambda>p. ret (n, p)))))) w = (Inr (n, Some a), w1)"
    "handle_assignment E a w1 = (Inr x, w')" "item a ''assignment_id'' = Inr given" "rs_assignment_id s = Some given"
    using run status by (auto simp: run_once_def Let_def bnd_ok_iff seq_ok_iff simp del: item.simps split: option.splits)
  have kept: "keeps server_quiet (seq (register_if_needed E) (bnd (replay_completed_spool E) (\<lambda>n.
        seq (heartbeat_once E) (bnd (poll_assignment E) (\<lambda>p. ret (n, p))))))"
    unfolding register_if_needed_def
    by (intro keeps_intro worker_invariant.steps_kept [OF inv] worker_invariant.replay_kept [OF inv] worker_invariant.poll_kept [OF inv])
  have w1: "server_quiet w1" by (rule keepsD [OF kept w a(1)])
  show ?thesis
  proof (rule handle_ok [OF inv w1 a(3,2)])
    fix e tok v1 v2 v3 v4
    assume ex: "execute_envelope E a (sandbox_of (we_config E) (py_str (we_repr E) given)) v1 = (Inr e, v2)"
      and v3: "server_quiet v3" "wk_outputs v3 = wk_outputs v2"
      and sub: "client_submit_result E (py_str (we_repr E) given) (wc_worker_id (we_config E)) (env_output e) tok None
         (Some (JObj (dump_envelope e))) v3 = (Inr x, v4)"
      and v4: "wk_server w' = wk_server v4" "wk_outputs w' = wk_outputs v4"
    note ran = executed_envelope [OF ex]
    obtain reply_doc where "serve_result sv (py_str (we_repr E) given) (json_fields (submit_payload (wc_worker_id (we_config E))
        (env_output e) tok None (Some (JObj (dump_envelope e))))) (wk_server v3) = (Inr (Reply reply_doc), wk_server v4)"
      "v4 = v3\<lparr>wk_server := wk_server v4\<rparr>"
      using served_result [OF E fw sub] by blast
    then have stored: "wk_outputs v4 = wk_outputs v3" "\<exists>a r f. assignment_at (committed (wk_server v4)) (py_str (we_repr E) given) = Some a \<and>
        asg_worker_id a = wc_worker_id (we_config E) \<and> asg_status a \<in> {Asg_completed, Asg_quarantined} \<and>
        he_envelope (sv_host sv) (JObj (dump_envelope e)) = Inr f \<and>
        r \<in> set (result_envelopes (committed (wk_server v4))) \<and> res_assignment_id r = py_str (we_repr E) given \<and>
        res_id r = env_result_envelope_id f \<and> res_status r \<in> {env_status f, Res_quarantined} \<and> res_output_hash r = env_output_hash f \<and> res_result_hash r = env_result_hash f"
      using served_result_stored [OF v3(1)] by (metis worker.select_convs worker.surjective worker.update_convs(1), blast)
    have "he_envelope (sv_host sv) (JObj (dump_envelope e)) = Inr e"
      using reads ex unfolding reads_back_def by blast
    then obtain b r where b: "assignment_at (committed (wk_server w')) (py_str (we_repr E) given) = Some b"
        "asg_worker_id b = wc_worker_id (we_config E)" "asg_status b \<in> {Asg_completed, Asg_quarantined}"
        "r \<in> set (result_envelopes (committed (wk_server w')))" "res_assignment_id r = py_str (we_repr E) given"
        "res_id r = env_result_envelope_id e" "res_status r \<in> {env_status e, Res_quarantined}"
        "res_output_hash r = env_output_hash e" "res_result_hash r = env_result_hash e"
      using stored(2) v4(1) by auto
    show ?thesis
      by (rule exI [of _ given], rule exI [of _ a], rule exI [of _ b], rule exI [of _ r], rule exI [of _ e],
          rule exI [of _ v1], rule exI [of _ v2])
        (use a(4) ran ex v3(2) v4(2) stored(1) b in \<open>simp del: canonical_json_dumps.simps\<close>)
  qed
qed

section \<open>Samples\<close>

lemma turn_serves: "serving turn_server turn_environment" "framework_refuses turn_server"
  "reads_back turn_server turn_environment" "quiet_ok (wk_server turn_worker)"
  using turn_environment_simps turn_ready_fresh(4) [OF turn_start]
  by (simp_all add: serving_def framework_refuses_def reads_back_def turn_server_def demo_server_def turn_worker_def envelope_read)

theorem worker_keeps_control_plane_witness:
  "\<exists>r w'. run_worker_from_config turn_environment True None turn_worker = Some (r, w') \<and> quiet_ok (wk_server w')"
proof -
  obtain r w' where run: "run_worker_from_config turn_environment True None turn_worker = Some (r, w')"
    by (cases "bnd (run_once turn_environment) (\<lambda>r. ret (Some r)) turn_worker") (simp add: run_worker_from_config_def)
  then show ?thesis using worker_keeps_control_plane [OF turn_serves(1) run turn_serves(4)] by blast
qed

theorem completed_run_is_stored_witness:
  "\<exists>s w' i a r. run_once turn_environment turn_worker = (Inr s, w') \<and> rs_status s = ''completed'' \<and>
    assignment_at (committed (wk_server w')) i = Some a \<and> asg_status a \<in> {Asg_completed, Asg_quarantined} \<and>
    r \<in> set (result_envelopes (committed (wk_server w'))) \<and> res_assignment_id r = i"
proof -
  obtain s w' where run: "run_once turn_environment turn_worker = (Inr s, w')" "rs_status s = ''completed''"
    using turn_completes by blast
  show ?thesis using completed_run_is_stored [OF turn_serves run] run by blast
qed

end
