(* ===== verification/Ingress.thy ===== *)
theory Ingress
  imports Endpoint_Properties
begin

text \<open>
  The client side of the host protocol (\<open>src/tokenbank/host_adapter/\<close>): the guard against credentials and model-proxy
  requests and the normal form of a request (\<open>normalizer.py\<close>), the answers (\<open>summaries.py\<close>) and the commands of
  \<open>HostAdapterCore\<close> that submit work and read its state (\<open>core.py\<close>). A command opens its own connection, so it starts from the
  committed tables and what it leaves uncommitted is lost when the connection closes; the tables exist.
\<close>

section \<open>The guard\<close>

definition credential_key_fragments :: "string list" where
  "credential_key_fragments =
     [''api_key'', ''apikey'', ''oauth'', ''cookie'', ''credential'', ''provider_secret'', ''provider_token'', ''access_token'',
      ''refresh_token'', ''bearer'']"

definition model_proxy_task_types :: "string list" where
  "model_proxy_task_types =
     [''chat_completion'', ''chat_completions'', ''completion'', ''completions'', ''response'', ''responses'', ''model_proxy'']"

definition model_proxy_field_keys :: "string list" where
  "model_proxy_field_keys = [''messages'', ''model'', ''prompt'', ''temperature'', ''top_p'', ''max_tokens'', ''stream'']"

definition underscored :: "string \<Rightarrow> string" where
  "underscored k = replace_char CHR ''-'' CHR ''_'' (lower k)"

definition credential_key :: "string \<Rightarrow> bool" where
  "credential_key k \<longleftrightarrow> (\<exists>f \<in> set credential_key_fragments. occurs_in f (underscored k))"

definition credentials_refused :: py_error where
  "credentials_refused =
     HostAdapterInputError ''HostAdapter input must not include credentials, OAuth, cookies, or provider secrets''"

fun reject_forbidden_host_input :: "json \<Rightarrow> unit result"
  and reject_host_fields :: "fields \<Rightarrow> unit result"
  and reject_host_items :: "json list \<Rightarrow> unit result" where
  "reject_forbidden_host_input (JObj kvs) = reject_host_fields kvs"
| "reject_forbidden_host_input (JList xs) = reject_host_items xs"
| "reject_forbidden_host_input v = Inr ()"
| "reject_host_fields [] = Inr ()"
| "reject_host_fields ((k, v) # kvs) =
     (if credential_key k then Inl credentials_refused
      else bind_result (reject_forbidden_host_input v) (\<lambda>_. reject_host_fields kvs))"
| "reject_host_items [] = Inr ()"
| "reject_host_items (x # xs) = bind_result (reject_forbidden_host_input x) (\<lambda>_. reject_host_items xs)"

definition validate_host_payload :: "json \<Rightarrow> unit result" where
  "validate_host_payload v = reject_forbidden_host_input v"

definition reject_model_proxy_shape :: "fields \<Rightarrow> unit result" where
  "reject_model_proxy_shape payload =
     (if set (map (\<lambda>(k, _). underscored k) payload) \<inter> set model_proxy_field_keys \<noteq> {}
      then Inl (HostAdapterInputError ''HostAdapter submit creates Work Units; it is not a model proxy'') else Inr ())"

section \<open>The normal form\<close>

record normalized_request =
  nr_task_type :: string
  nr_inline_input :: fields

definition normalized_task_type :: "string option \<Rightarrow> json \<Rightarrow> string result" where
  "normalized_task_type task_type payload =
     (case task_type of
        Some s \<Rightarrow> Inr (py_strip s)
      | None \<Rightarrow>
          (case payload of
             JObj d \<Rightarrow> (case get_null d ''task_type'' of
                JStr s \<Rightarrow> Inr (py_strip s)
              | _ \<Rightarrow> Inl (HostAdapterInputError ''task_type is required''))
           | _ \<Rightarrow> Inl (HostAdapterInputError ''task_type is required'')))"

text \<open>\<open>merged = dict(given); merged.update(others)\<close>\<close>

definition updated :: "fields \<Rightarrow> fields \<Rightarrow> fields" where
  "updated given others = fold (\<lambda>(k, v). dput k v) others given"

definition without :: "string list \<Rightarrow> fields \<Rightarrow> fields" where
  "without ks d = filter (\<lambda>(k, _). k \<notin> set ks) d"

definition coerce_payload_dict :: "string \<Rightarrow> json \<Rightarrow> fields" where
  "coerce_payload_dict task_type payload =
     (case payload of
        JObj d \<Rightarrow>
          (case get_null d ''inline_input'' of
             JObj given \<Rightarrow> updated given (without [''inline_input'', ''task_type''] d)
           | _ \<Rightarrow>
               (case get_null d ''input'' of
                  JObj given \<Rightarrow> updated given (without [''input'', ''task_type''] d)
                | _ \<Rightarrow> without [''task_type'', ''wait''] d))
      | JList xs \<Rightarrow> if task_type = ''dedup'' then [(''items'', JList xs)] else []
      | _ \<Rightarrow> [])"

definition required_string :: "fields \<Rightarrow> string \<Rightarrow> string result" where
  "required_string payload k =
     (case get_null payload k of
        JStr s \<Rightarrow> if s = [] then Inl (HostAdapterInputError (k @ '' is required'')) else Inr s
      | _ \<Rightarrow> Inl (HostAdapterInputError (k @ '' is required'')))"

definition optional_string :: "fields \<Rightarrow> string \<Rightarrow> string option result" where
  "optional_string payload k =
     (case get_null payload k of
        JNull \<Rightarrow> Inr None
      | JStr s \<Rightarrow> if s = [] then Inl (HostAdapterInputError (k @ '' must be a non-empty string'')) else Inr (Some s)
      | _ \<Rightarrow> Inl (HostAdapterInputError (k @ '' must be a non-empty string'')))"

definition optional_string_list :: "fields \<Rightarrow> string \<Rightarrow> json list option result" where
  "optional_string_list payload k =
     (case get_null payload k of
        JNull \<Rightarrow> Inr None
      | JList xs \<Rightarrow>
          if \<forall>x \<in> set xs. non_empty_text x then Inr (Some xs)
          else Inl (HostAdapterInputError (k @ '' must be a JSON string array''))
      | _ \<Rightarrow> Inl (HostAdapterInputError (k @ '' must be a JSON string array'')))"

definition given_field :: "string \<Rightarrow> json option \<Rightarrow> fields" where
  "given_field k v = (case v of None \<Rightarrow> [] | Some x \<Rightarrow> [(k, x)])"

definition text_field :: "fields \<Rightarrow> string \<Rightarrow> fields" where
  "text_field payload k = (case get_null payload k of JStr s \<Rightarrow> [(k, JStr s)] | _ \<Rightarrow> [])"

definition normalize_inline_input :: "string \<Rightarrow> fields \<Rightarrow> fields result" where
  "normalize_inline_input task_type payload =
     (if task_type = ''url_check''
      then bind_result (required_string payload ''url'') (\<lambda>url. Inr [(''url'', JStr url)])
      else if task_type = ''dedup''
      then (case get_null payload ''items'' of
              JList xs \<Rightarrow> Inr [(''items'', JList xs)]
            | _ \<Rightarrow> Inl (HostAdapterInputError ''dedup requires items as a JSON array''))
      else if task_type = ''webpage_extraction''
      then bind_result (required_string payload ''url'') (\<lambda>url.
           Inr ((''url'', JStr url) # text_field payload ''html'' @ text_field payload ''text'' @ text_field payload ''title''))
      else if task_type = ''topic_classification''
      then bind_result (required_string payload ''text'') (\<lambda>body.
           bind_result (optional_string_list payload ''allowed_labels'') (\<lambda>labels.
           Inr ((''text'', JStr body) # given_field ''allowed_labels'' (map_option JList labels))))
      else if task_type = ''claim_extraction''
      then bind_result (required_string payload ''text'') (\<lambda>body.
           bind_result (optional_string payload ''source_id'') (\<lambda>given. let source_id = (case given of None \<Rightarrow> ''src_claim_1'' | Some s \<Rightarrow> s) in
           bind_result (optional_string payload ''entity'') (\<lambda>entity.
           bind_result (optional_string_list payload ''allowed_claim_types'') (\<lambda>claim_types.
           Inr ([(''text'', JStr body), (''source_id'', JStr source_id),
                 (''sources'', JList [JObj [(''source_id'', JStr source_id), (''text'', JStr body)]])] @
                given_field ''entity'' (map_option JStr entity) @
                given_field ''allowed_claim_types'' (map_option JList claim_types))))))
      else Inl (HostAdapterInputError (''unsupported task_type: '' @ task_type)))"

definition normalize_submit_request :: "string option \<Rightarrow> json \<Rightarrow> normalized_request result" where
  "normalize_submit_request task_type payload =
     bind_result (normalized_task_type task_type payload) (\<lambda>ty.
     if ty \<in> set model_proxy_task_types
     then Inl (HostAdapterInputError ''HostAdapter accepts Work Units, not model proxy requests'')
     else if \<not> has_key supported_demo_tasks ty then Inl (HostAdapterInputError (''unsupported task_type: '' @ ty))
     else let d = coerce_payload_dict ty payload in
          bind_result (reject_forbidden_host_input (JObj d)) (\<lambda>_.
          bind_result (reject_model_proxy_shape d) (\<lambda>_.
          bind_result (normalize_inline_input ty d) (\<lambda>given.
          Inr \<lparr>nr_task_type = ty, nr_inline_input = given\<rparr>))))"

section \<open>The commands of the adapter\<close>

record host_adapter =
  ha_config_dir :: string
  ha_routebook_dir :: "string option"

definition adapter_routebook_root :: "host_adapter \<Rightarrow> loaded_config \<Rightarrow> string" where
  "adapter_routebook_root ha cfg =
     (case ha_routebook_dir ha of Some d \<Rightarrow> d | None \<Rightarrow> path_join (path_parent (cfg_root cfg)) ''routebook'')"

fun optional_str_list :: "json \<Rightarrow> string list option" where
  "optional_str_list (JList xs) = (if \<forall>x \<in> set xs. text_or_none x \<noteq> None then Some (map text_or_empty xs) else None)"
| "optional_str_list v = None"

definition submit_normalized_request ::
  "(json \<Rightarrow> string) \<Rightarrow> host_environment \<Rightarrow> loaded_config \<Rightarrow> string \<Rightarrow> normalized_request \<Rightarrow> submitted_work_unit op" where
  "submit_normalized_request repr he cfg directory r =
     (let given = nr_inline_input r; the_text = (\<lambda>k. bind_result (item given k) (\<lambda>v. Inr (py_str repr v)));
          text_at = (\<lambda>k. text_or_none (get_null given k)) in
      if nr_task_type r = ''url_check''
      then bnd (of_result (the_text ''url'')) (\<lambda>url. submit_url_check_work_unit he cfg url (Some directory))
      else if nr_task_type r = ''dedup''
      then bnd (of_result (item given ''items'')) (\<lambda>v.
           case v of
             JList xs \<Rightarrow> submit_dedup_work_unit he cfg xs (Some directory)
           | _ \<Rightarrow> raise (TypeError ''object is not a list''))
      else if nr_task_type r = ''webpage_extraction''
      then bnd (of_result (the_text ''url'')) (\<lambda>url.
           submit_webpage_extraction_work_unit he cfg url (text_at ''html'') (text_at ''text'') (text_at ''title'') (Some directory))
      else if nr_task_type r = ''topic_classification''
      then bnd (of_result (the_text ''text'')) (\<lambda>body.
           submit_topic_classification_work_unit he cfg body (optional_str_list (get_null given ''allowed_labels'')) (Some directory))
      else if nr_task_type r = ''claim_extraction''
      then bnd (of_result (the_text ''text'')) (\<lambda>body. bnd (of_result (the_text ''source_id'')) (\<lambda>source_id.
           submit_claim_extraction_work_unit he cfg body source_id (text_at ''entity'')
             (optional_str_list (get_null given ''allowed_claim_types'')) (Some directory)))
      else raise (HostAdapterInputError (''unsupported task_type: '' @ nr_task_type r)))"

text \<open>A connection of its own, closed at the end.\<close>

definition on_connection :: "'a op \<Rightarrow> 'a op" where
  "on_connection m = (\<lambda>w. case m (rollback w) of (r, w') \<Rightarrow> (r, rollback w'))"

definition control_plane_context :: "host_environment \<Rightarrow> host_adapter \<Rightarrow> (loaded_config \<Rightarrow> 'a op) \<Rightarrow> 'a op" where
  "control_plane_context he ha m =
     bnd (gets (\<lambda>w. on_platform he (plat w))) (\<lambda>env.
     bnd (of_result (load_config_dir (env_platform env) (ha_config_dir ha) (rf_yaml (env_files env) (ha_config_dir ha))
            (rf_pricing (env_files env) (ha_config_dir ha)))) (\<lambda>cfg.
     on_connection (seq (rebuild_capacity_projection he cfg) (m cfg))))"

definition submit_work_unit ::
  "host_environment \<Rightarrow> host_adapter \<Rightarrow> string option \<Rightarrow> json \<Rightarrow> bool \<Rightarrow> json op" where
  "submit_work_unit he ha task_type payload wait =
     bnd (of_result (normalize_submit_request task_type payload)) (\<lambda>r.
     bnd (control_plane_context he ha (\<lambda>cfg.
            submit_normalized_request (env_repr (he_route he)) he cfg (adapter_routebook_root ha cfg) r)) (\<lambda>s.
     ret (JObj (json_fields (submitted_document s) @
       (if wait then [(''wait_status'', JStr ''not_supported_in_phase0_stub_without_worker_or_gateway_runner'')] else [])))))"

definition work_unit_columns :: "work_unit_row \<Rightarrow> fields" where
  "work_unit_columns u =
     [(''work_unit_id'', JStr (wu_id u)), (''run_id'', JStr (wu_run_id u)), (''status'', JStr (work_unit_status_text (wu_status u))),
      (''task_type'', JStr (wu_task_type u)), (''task_level'', JStr (wu_task_level u))]"

definition adapter_work_unit_status :: "host_environment \<Rightarrow> host_adapter \<Rightarrow> string \<Rightarrow> fields op" where
  "adapter_work_unit_status he ha work_unit_id =
     bnd (control_plane_context he ha (\<lambda>_. get_work_unit_status work_unit_id)) (\<lambda>row.
     ret (case row of
            None \<Rightarrow> [(''status'', JStr ''not_found''), (''work_unit_id'', JStr work_unit_id)]
          | Some u \<Rightarrow> [(''status'', JStr ''ok''), (''work_unit_id'', JStr work_unit_id), (''work_unit'', JObj (work_unit_columns u))]))"

definition host_result_response :: "string \<Rightarrow> json option \<Rightarrow> bool \<Rightarrow> json" where
  "host_result_response work_unit_id summary work_unit_exists = JObj
     [(''status'', JStr (if \<not> work_unit_exists then ''not_found'' else if summary = None then ''pending'' else ''ok'')),
      (''work_unit_id'', JStr work_unit_id),
      (''host_result_summary'', case summary of Some s \<Rightarrow> if work_unit_exists then s else JNull | None \<Rightarrow> JNull)]"

definition adapter_work_unit_result :: "host_environment \<Rightarrow> host_adapter \<Rightarrow> string \<Rightarrow> json op" where
  "adapter_work_unit_result he ha work_unit_id =
     bnd (control_plane_context he ha (\<lambda>_.
            bnd (get_work_unit_status work_unit_id) (\<lambda>row.
            bnd (get_host_result_summary he work_unit_id) (\<lambda>s. ret (row \<noteq> None, s))))) (\<lambda>(known, s).
     ret (host_result_response work_unit_id s known))"

definition terminal_work_unit_statuses :: "string list" where
  "terminal_work_unit_statuses = [''succeeded'', ''failed'', ''quarantined'', ''cancelled'']"

definition cancel_work_unit :: "host_environment \<Rightarrow> host_adapter \<Rightarrow> string \<Rightarrow> fields op" where
  "cancel_work_unit he ha work_unit_id =
     bnd (adapter_work_unit_status he ha work_unit_id) (\<lambda>answer.
     if get_null answer ''status'' = JStr ''not_found'' then ret answer
     else let st = get_null (json_fields (get_null answer ''work_unit'')) ''status'' in
       ret (if st \<in> JStr ` set terminal_work_unit_statuses
            then [(''status'', JStr ''already_terminal''), (''work_unit_id'', JStr work_unit_id), (''work_unit_status'', st)]
            else [(''status'', JStr ''not_implemented''), (''work_unit_id'', JStr work_unit_id),
                  (''reason'', JStr ''cancel_not_implemented_in_phase0_stub'')]))"

definition adapter_run_status :: "host_environment \<Rightarrow> host_adapter \<Rightarrow> string \<Rightarrow> json op" where
  "adapter_run_status he ha run_id =
     bnd (control_plane_context he ha (\<lambda>_. select (\<lambda>t. find_row rn_id (runs t) run_id))) (\<lambda>row.
     ret (JObj (case row of
            None \<Rightarrow> [(''status'', JStr ''not_found''), (''run_id'', JStr run_id)]
          | Some r \<Rightarrow> [(''status'', JStr ''ok''), (''run'', JObj [(''run_id'', JStr (rn_id r)), (''status'', JStr (rn_status r)),
              (''created_at'', JStr (rn_created_at r)), (''updated_at'', JStr (rn_updated_at r))])])))"

section \<open>Keys of a document\<close>

text \<open>All keys of the objects in a document, at any depth.\<close>

fun keys_of :: "json \<Rightarrow> string set" where
  "keys_of (JObj kvs) = (\<Union>(k, v) \<in> set kvs. insert k (keys_of v))"
| "keys_of (JList xs) = (\<Union>x \<in> set xs. keys_of x)"
| "keys_of v = {}"

lemma guard_exact:
  "reject_forbidden_host_input v = Inr () \<longleftrightarrow> (\<forall>k \<in> keys_of v. \<not> credential_key k)"
  "reject_host_fields kvs = Inr () \<longleftrightarrow> (\<forall>k \<in> keys_of (JObj kvs). \<not> credential_key k)"
  "reject_host_items xs = Inr () \<longleftrightarrow> (\<forall>k \<in> keys_of (JList xs). \<not> credential_key k)"
  by (induction v and kvs and xs rule: reject_forbidden_host_input_reject_host_fields_reject_host_items.induct)
    (auto simp: credentials_refused_def bind_result_Inr_iff)

lemma proxy_exact:
  "reject_model_proxy_shape d = Inr () \<longleftrightarrow> (\<forall>k \<in> fst ` set d. underscored k \<notin> set model_proxy_field_keys)"
proof -
  have "set (map (\<lambda>(k, _). underscored k) d) = underscored ` fst ` set d" by force
  then show ?thesis by (auto simp: reject_model_proxy_shape_def)
qed

lemma keys_of_value: "get_null d k = v \<Longrightarrow> keys_of v \<subseteq> keys_of (JObj d)"
proof -
  assume v: "get_null d k = v"
  show ?thesis
  proof (cases "dget d k")
    case None
    then show ?thesis using v by (auto simp: get_null_def dget_or_def)
  next
    case (Some x)
    then show ?thesis using v dget_in_set [of d k x] by (auto simp: get_null_def dget_or_def)
  qed
qed

lemma credential_keys_plain:
  "\<forall>k \<in> set [''url'', ''items'', ''html'', ''text'', ''title'', ''allowed_labels'', ''source_id'', ''sources'', ''entity'', ''allowed_claim_types''].
     \<not> credential_key k"
  by code_simp

lemma proxy_keys_plain:
  "\<forall>k \<in> set [''url'', ''items'', ''html'', ''text'', ''title'', ''allowed_labels'', ''source_id'', ''sources'', ''entity'', ''allowed_claim_types''].
     underscored k \<notin> set model_proxy_field_keys"
  by code_simp

section \<open>Normal requests\<close>

definition request_fields :: "string \<Rightarrow> string list" where
  "request_fields task_type =
     (if task_type = ''url_check'' then [''url'']
      else if task_type = ''dedup'' then [''items'']
      else if task_type = ''webpage_extraction'' then [''url'', ''html'', ''text'', ''title'']
      else if task_type = ''topic_classification'' then [''text'', ''allowed_labels'']
      else [''text'', ''source_id'', ''sources'', ''entity'', ''allowed_claim_types''])"

lemma non_empty_list_keys: "\<forall>x \<in> set xs. non_empty_text x \<Longrightarrow> keys_of (JList xs) = {}"
proof -
  have "non_empty_text x \<Longrightarrow> keys_of x = {}" for x by (cases x) auto
  then show "\<forall>x \<in> set xs. non_empty_text x \<Longrightarrow> keys_of (JList xs) = {}" by auto
qed

lemma required_stringD: "required_string d k = Inr s \<Longrightarrow> get_null d k = JStr s \<and> s \<noteq> []"
  by (auto simp: required_string_def split: json.splits if_splits)

lemma optional_stringD:
  "optional_string d k = Inr v \<Longrightarrow> (v = None \<and> get_null d k = JNull) \<or> (\<exists>s. v = Some s \<and> get_null d k = JStr s \<and> s \<noteq> [])"
  by (auto simp: optional_string_def split: json.splits if_splits)

lemma optional_string_listD:
  "optional_string_list d k = Inr v \<Longrightarrow>
     (v = None \<and> get_null d k = JNull) \<or> (\<exists>xs. v = Some xs \<and> get_null d k = JList xs \<and> (\<forall>x \<in> set xs. non_empty_text x))"
  by (auto simp: optional_string_list_def split: json.splits if_splits)

lemma text_field_cases: "text_field d k = [] \<or> (\<exists>s. text_field d k = [(k, JStr s)])"
  by (auto simp: text_field_def split: json.splits)

text \<open>The fields of a normal request come from the payload or are made of its texts.\<close>

definition well_formed_fields :: "string \<Rightarrow> fields \<Rightarrow> fields \<Rightarrow> bool" where
  "well_formed_fields ty d given \<longleftrightarrow> fst ` set given \<subseteq> set (request_fields ty) \<and> distinct (map fst given) \<and>
     keys_of (JObj given) \<subseteq> keys_of (JObj d) \<union> set (request_fields ty)"

lemma well_formed_dedup: "normalize_inline_input ''dedup'' d = Inr given \<Longrightarrow> well_formed_fields ''dedup'' d given"
proof -
  assume "normalize_inline_input ''dedup'' d = Inr given"
  then obtain xs where xs: "get_null d ''items'' = JList xs" "given = [(''items'', JList xs)]"
    by (auto simp: normalize_inline_input_def split: json.splits)
  then show ?thesis using keys_of_value [OF xs(1)] by (auto simp: well_formed_fields_def request_fields_def)
qed

lemma well_formed_webpage:
  "normalize_inline_input ''webpage_extraction'' d = Inr given \<Longrightarrow> well_formed_fields ''webpage_extraction'' d given"
  using text_field_cases [of d "''html''"] text_field_cases [of d "''text''"] text_field_cases [of d "''title''"]
  by (elim disjE exE) (simp_all add: normalize_inline_input_def bind_result_Inr_iff, auto simp: well_formed_fields_def request_fields_def)

lemma well_formed_topic:
  "normalize_inline_input ''topic_classification'' d = Inr given \<Longrightarrow> well_formed_fields ''topic_classification'' d given"
  using non_empty_list_keys
  by (auto simp: normalize_inline_input_def bind_result_Inr_iff given_field_def well_formed_fields_def request_fields_def
      dest!: optional_string_listD)

lemma well_formed_claim:
  "normalize_inline_input ''claim_extraction'' d = Inr given \<Longrightarrow> well_formed_fields ''claim_extraction'' d given"
  using non_empty_list_keys
  by (auto simp: normalize_inline_input_def bind_result_Inr_iff given_field_def well_formed_fields_def request_fields_def Let_def
      dest!: optional_string_listD optional_stringD)

lemma normalized_fields: "normalize_inline_input ty d = Inr given \<Longrightarrow> well_formed_fields ty d given"
proof -
  assume n: "normalize_inline_input ty d = Inr given"
  then consider "ty = ''url_check''" | "ty = ''dedup''" | "ty = ''webpage_extraction''" | "ty = ''topic_classification''" | "ty = ''claim_extraction''"
    by (auto simp: normalize_inline_input_def split: if_splits)
  then show ?thesis
  proof cases
    case 1
    then show ?thesis
      using n by (auto simp: normalize_inline_input_def bind_result_Inr_iff well_formed_fields_def request_fields_def)
  qed (use n well_formed_dedup well_formed_webpage well_formed_topic well_formed_claim in blast)+
qed

section \<open>The normal form is a fixed point\<close>

lemma field_access:
  "s \<noteq> [] \<Longrightarrow> required_string ((k, JStr s) # d) k = Inr s" "a \<noteq> k \<Longrightarrow> required_string ((a, v) # d) k = required_string d k"
  "s \<noteq> [] \<Longrightarrow> optional_string ((k, JStr s) # d) k = Inr (Some s)" "a \<noteq> k \<Longrightarrow> optional_string ((a, v) # d) k = optional_string d k"
  "optional_string [] k = Inr None"
  "Ball (set xs) non_empty_text \<Longrightarrow> optional_string_list ((k, JList xs) # d) k = Inr (Some xs)"
  "a \<noteq> k \<Longrightarrow> optional_string_list ((a, v) # d) k = optional_string_list d k" "optional_string_list [] k = Inr None"
  "text_field ((k, JStr s) # d) k = [(k, JStr s)]" "a \<noteq> k \<Longrightarrow> text_field ((a, v) # d) k = text_field d k" "text_field [] k = []"
  by (simp_all add: required_string_def optional_string_def optional_string_list_def text_field_def get_null_def dget_or_def)

lemma normalize_inline_simps:
  "normalize_inline_input ''url_check'' d = bind_result (required_string d ''url'') (\<lambda>url. Inr [(''url'', JStr url)])"
  "normalize_inline_input ''webpage_extraction'' d = bind_result (required_string d ''url'') (\<lambda>url.
     Inr ((''url'', JStr url) # text_field d ''html'' @ text_field d ''text'' @ text_field d ''title''))"
  "normalize_inline_input ''topic_classification'' d = bind_result (required_string d ''text'') (\<lambda>body.
     bind_result (optional_string_list d ''allowed_labels'') (\<lambda>labels.
     Inr ((''text'', JStr body) # given_field ''allowed_labels'' (map_option JList labels))))"
  by (simp_all add: normalize_inline_input_def)

lemma fixed_url: "normalize_inline_input ''url_check'' d = Inr given \<Longrightarrow> normalize_inline_input ''url_check'' given = Inr given"
  by (auto simp: normalize_inline_simps bind_result_Inr_iff field_access dest!: required_stringD)

lemma fixed_dedup: "normalize_inline_input ''dedup'' d = Inr given \<Longrightarrow> normalize_inline_input ''dedup'' given = Inr given"
  by (auto simp: normalize_inline_input_def get_null_def dget_or_def split: json.splits)

lemma fixed_webpage:
  "normalize_inline_input ''webpage_extraction'' d = Inr given \<Longrightarrow> normalize_inline_input ''webpage_extraction'' given = Inr given"
proof -
  assume "normalize_inline_input ''webpage_extraction'' d = Inr given"
  then obtain url where url: "url \<noteq> []"
    "given = (''url'', JStr url) # text_field d ''html'' @ text_field d ''text'' @ text_field d ''title''"
    by (auto simp: normalize_inline_simps bind_result_Inr_iff dest!: required_stringD)
  show ?thesis
    using url text_field_cases [of d "''html''"] text_field_cases [of d "''text''"] text_field_cases [of d "''title''"]
    by (elim disjE exE) (simp_all add: normalize_inline_simps field_access)
qed

lemma fixed_topic:
  "normalize_inline_input ''topic_classification'' d = Inr given \<Longrightarrow> normalize_inline_input ''topic_classification'' given = Inr given"
  by (auto simp: normalize_inline_simps bind_result_Inr_iff given_field_def field_access dest!: required_stringD optional_string_listD)

lemma fixed_claim:
  assumes "normalize_inline_input ''claim_extraction'' d = Inr given"
  shows "normalize_inline_input ''claim_extraction'' given = Inr given"
proof -
  obtain body source_id entity claim_types where given: "body \<noteq> []" "source_id \<noteq> []"
    "given = [(''text'', JStr body), (''source_id'', JStr source_id),
        (''sources'', JList [JObj [(''source_id'', JStr source_id), (''text'', JStr body)]])] @
      given_field ''entity'' (map_option JStr entity) @ given_field ''allowed_claim_types'' (map_option JList claim_types)"
    "\<And>s. entity = Some s \<Longrightarrow> s \<noteq> []" "\<And>xs. claim_types = Some xs \<Longrightarrow> Ball (set xs) non_empty_text"
  proof -
    obtain body given_id entity claim_types where n: "required_string d ''text'' = Inr body" "optional_string d ''source_id'' = Inr given_id"
      "optional_string d ''entity'' = Inr entity" "optional_string_list d ''allowed_claim_types'' = Inr claim_types"
      "given = [(''text'', JStr body), (''source_id'', JStr (case given_id of None \<Rightarrow> ''src_claim_1'' | Some s \<Rightarrow> s)),
          (''sources'', JList [JObj [(''source_id'', JStr (case given_id of None \<Rightarrow> ''src_claim_1'' | Some s \<Rightarrow> s)), (''text'', JStr body)]])] @
        given_field ''entity'' (map_option JStr entity) @ given_field ''allowed_claim_types'' (map_option JList claim_types)"
      using assms by (auto simp: normalize_inline_input_def bind_result_Inr_iff Let_def)
    have source: "(case given_id of None \<Rightarrow> ''src_claim_1'' | Some s \<Rightarrow> s) \<noteq> []" using optional_stringD [OF n(2)] by auto
    show thesis
      by (rule that [OF _ source n(5)])
        (use required_stringD [OF n(1)] optional_stringD [OF n(3)] optional_string_listD [OF n(4)] in auto)
  qed
  have n: "normalize_inline_input ''claim_extraction'' given =
      bind_result (required_string given ''text'') (\<lambda>body.
      bind_result (optional_string given ''source_id'') (\<lambda>i. let source_id = (case i of None \<Rightarrow> ''src_claim_1'' | Some s \<Rightarrow> s) in
      bind_result (optional_string given ''entity'') (\<lambda>entity.
      bind_result (optional_string_list given ''allowed_claim_types'') (\<lambda>claim_types.
      Inr ([(''text'', JStr body), (''source_id'', JStr source_id),
            (''sources'', JList [JObj [(''source_id'', JStr source_id), (''text'', JStr body)]])] @
           given_field ''entity'' (map_option JStr entity) @ given_field ''allowed_claim_types'' (map_option JList claim_types))))))"
    by (simp add: normalize_inline_input_def)
  show ?thesis
    unfolding n using given by (cases entity; cases claim_types) (simp_all add: given_field_def field_access Let_def)
qed

lemma supported_task_cases:
  assumes "has_key supported_demo_tasks ty"
  obtains "ty = ''url_check''" | "ty = ''dedup''" | "ty = ''webpage_extraction''" | "ty = ''topic_classification''"
    | "ty = ''claim_extraction''"
  using assms by (auto simp: has_key_def supported_demo_tasks_def split: if_splits)

lemma normalized_fixed: "has_key supported_demo_tasks ty \<Longrightarrow> normalize_inline_input ty d = Inr given \<Longrightarrow> normalize_inline_input ty given = Inr given"
  by (erule supported_task_cases) (simp_all add: fixed_url fixed_dedup fixed_webpage fixed_topic fixed_claim)

lemma supported_task_plain:
  "has_key supported_demo_tasks ty \<Longrightarrow> py_strip ty = ty \<and> ty \<notin> set model_proxy_task_types"
proof -
  have "\<forall>ty \<in> set [''url_check'', ''dedup'', ''webpage_extraction'', ''topic_classification'', ''claim_extraction''].
      py_strip ty = ty \<and> ty \<notin> set model_proxy_task_types"
    by code_simp
  then show "has_key supported_demo_tasks ty \<Longrightarrow> py_strip ty = ty \<and> ty \<notin> set model_proxy_task_types"
    by (elim supported_task_cases) simp_all
qed

lemma request_fields_plain:
  "k \<in> set (request_fields ty) \<Longrightarrow> \<not> credential_key k \<and> underscored k \<notin> set model_proxy_field_keys \<and>
     k \<notin> {''inline_input'', ''input'', ''task_type'', ''wait''}"
  using credential_keys_plain proxy_keys_plain by (auto simp: request_fields_def split: if_splits)

lemma plain_payload:
  assumes "fst ` set d \<inter> {''inline_input'', ''input'', ''task_type'', ''wait''} = {}"
  shows "coerce_payload_dict ty (JObj d) = d"
proof -
  have "dget d k = None" if "k \<in> {''inline_input'', ''input''}" for k
    using assms that dget_in_set [of d k] by (cases "dget d k") force+
  then have "get_null d ''inline_input'' = JNull" "get_null d ''input'' = JNull" by (simp_all add: get_null_def dget_or_def)
  moreover have "without [''task_type'', ''wait''] d = d"
    using assms by (force simp: without_def filter_id_conv)
  ultimately show ?thesis by (simp add: coerce_payload_dict_def)
qed

lemma normalized_request:
  assumes "normalize_submit_request task_type payload = Inr r"
  obtains d where "has_key supported_demo_tasks (nr_task_type r)" "reject_forbidden_host_input (JObj d) = Inr ()"
    "normalize_inline_input (nr_task_type r) d = Inr (nr_inline_input r)"
  using assms by (auto simp: normalize_submit_request_def bind_result_Inr_iff Let_def split: if_splits)

section \<open>The two ways in\<close>

lemma default_directory:
  "submit_demo_work_unit he cfg ty given (Some (path_join (path_parent (cfg_root cfg)) ''routebook'')) = submit_demo_work_unit he cfg ty given None"
proof -
  have "path_join d ''routebook'' \<noteq> []" for d by (simp add: path_join_def)
  then have "routebook_root_of cfg (Some (path_join (path_parent (cfg_root cfg)) ''routebook'')) = routebook_root_of cfg None"
    by (simp add: routebook_root_of_def Let_def)
  then show ?thesis by (simp only: submit_demo_work_unit_def)
qed

lemma posted_field:
  assumes "k \<notin> {''task_type'', ''inline_input''}"
  shows "payload_or_inline [(''task_type'', v), (''inline_input'', JObj given)] given k = get_null given k"
  using assms by (simp add: payload_or_inline_def or_json_def get_null_def dget_or_def)

lemma item_of_get: "get_null d k = v \<Longrightarrow> v \<noteq> JNull \<Longrightarrow> item d k = Inr v"
  by (auto simp: get_null_def dget_or_def split: option.splits)

lemma optional_lists_agree:
  "optional_string_list d k = Inr v \<Longrightarrow>
     optional_text_list message (get_null d k) = Inr (optional_str_list (get_null d k))"
proof -
  have "non_empty_text x \<Longrightarrow> text_or_none x \<noteq> None" for x by (cases x) auto
  then show "optional_string_list d k = Inr v \<Longrightarrow> ?thesis" by (auto dest!: optional_string_listD)
qed

lemma same_submission:
  assumes "has_key supported_demo_tasks ty" and fixed: "normalize_inline_input ty given = Inr given"
  shows "submit_payload_task sv ty (payload_or_inline [(''task_type'', JStr ty), (''inline_input'', JObj given)] given) =
    submit_normalized_request (sv_repr sv) (sv_host sv) (sv_config sv)
      (path_join (path_parent (cfg_root (sv_config sv))) ''routebook'') \<lparr>nr_task_type = ty, nr_inline_input = given\<rparr>"
  using assms(1)
proof (cases rule: supported_task_cases)
  case 1
  then obtain url where "get_null given ''url'' = JStr url" "url \<noteq> []"
    using fixed by (auto simp: normalize_inline_simps bind_result_Inr_iff dest!: required_stringD)
  then show ?thesis
    using 1 item_of_get [of given "''url''"]
    by (simp add: fun_eq_iff submit_payload_task_def submit_normalized_request_def Let_def posted_field required_text_def run_simps
        submit_url_check_work_unit_def default_directory del: item.simps)
next
  case 2
  then obtain xs where "get_null given ''items'' = JList xs"
    using fixed by (auto simp: normalize_inline_input_def split: json.splits)
  then show ?thesis
    using 2 item_of_get [of given "''items''"]
    by (simp add: fun_eq_iff submit_payload_task_def submit_normalized_request_def Let_def posted_field run_simps
        submit_dedup_work_unit_def default_directory del: item.simps)
next
  case 3
  then obtain url where "get_null given ''url'' = JStr url" "url \<noteq> []"
    using fixed by (auto simp: normalize_inline_simps bind_result_Inr_iff dest!: required_stringD)
  then show ?thesis
    using 3 item_of_get [of given "''url''"]
    by (simp add: fun_eq_iff submit_payload_task_def submit_normalized_request_def Let_def posted_field required_text_def run_simps
        submit_webpage_extraction_work_unit_def default_directory del: item.simps)
next
  case 4
  then obtain body labels where "get_null given ''text'' = JStr body" "body \<noteq> []"
    "optional_string_list given ''allowed_labels'' = Inr labels"
    using fixed by (auto simp: normalize_inline_simps bind_result_Inr_iff dest!: required_stringD)
  then show ?thesis
    using 4 item_of_get [of given "''text''"] optional_lists_agree
    by (simp add: fun_eq_iff submit_payload_task_def submit_text_task_def submit_normalized_request_def Let_def posted_field
        required_text_def run_simps submit_topic_classification_work_unit_def default_directory del: item.simps)
next
  case 5
  then obtain body source_id claim_types where body: "get_null given ''text'' = JStr body" "body \<noteq> []"
    and source: "get_null given ''source_id'' = JStr source_id"
    and types: "optional_string_list given ''allowed_claim_types'' = Inr claim_types"
    using fixed by (auto simp: normalize_inline_input_def bind_result_Inr_iff Let_def get_null_def dget_or_def dest!: required_stringD)
  have "source_id \<noteq> []"
    using 5 fixed source by (auto simp: normalize_inline_input_def bind_result_Inr_iff Let_def optional_string_def)
  then show ?thesis
    using 5 body source item_of_get [of given "''text''"] item_of_get [of given "''source_id''"] optional_lists_agree [OF types]
    by (simp add: fun_eq_iff submit_payload_task_def submit_text_task_def submit_normalized_request_def Let_def posted_field
        required_text_def run_simps submit_claim_extraction_work_unit_def default_directory del: item.simps)
qed

section \<open>Properties\<close>

text \<open>The guard sees the payload after its inline input was merged into it, so a value of the inline input that a field of
the payload replaces is not looked at: here a credential goes by in a note that is dropped.\<close>

lemma replaced_input_unchecked:
  "normalize_submit_request (Some ''url_check'') (JObj
     [(''inline_input'', JObj [(''url'', JStr ''u''), (''note'', JObj [(''api_key'', JStr ''k'')])]), (''note'', JNull)])
   = Inr \<lparr>nr_task_type = ''url_check'', nr_inline_input = [(''url'', JStr ''u'')]\<rparr>"
  by code_simp

text \<open>C15. What the adapter passes on is clean and normal. A normalized request has a supported task type, which is the one given or the
one in the payload, and only the fields of that task, each once; no object in it, at any depth, has a key that names a credential;
to normalize it again changes nothing. The payload as the adapter merges it, with the fields of its inline input or input
object under its own fields, names no credential in any key at any depth and has no field of a model request.\<close>

theorem adapter_request_clean:
  assumes "normalize_submit_request task_type payload = Inr r"
  shows "has_key supported_demo_tasks (nr_task_type r) \<and>
    fst ` set (nr_inline_input r) \<subseteq> set (request_fields (nr_task_type r)) \<and> distinct (map fst (nr_inline_input r)) \<and>
    (\<forall>k \<in> keys_of (JObj (nr_inline_input r)). \<not> credential_key k) \<and>
    normalize_submit_request (Some (nr_task_type r)) (JObj (nr_inline_input r)) = Inr r \<and>
    normalized_task_type task_type payload = Inr (nr_task_type r) \<and>
    (\<forall>k \<in> keys_of (JObj (coerce_payload_dict (nr_task_type r) payload)). \<not> credential_key k) \<and>
    (\<forall>k \<in> fst ` set (coerce_payload_dict (nr_task_type r) payload). underscored k \<notin> set model_proxy_field_keys)"
proof -
  let ?ty = "nr_task_type r" and ?given = "nr_inline_input r"
  obtain d where d: "has_key supported_demo_tasks ?ty" "\<forall>k \<in> keys_of (JObj d). \<not> credential_key k"
    "normalize_inline_input ?ty d = Inr ?given"
    using normalized_request [OF assms] guard_exact(1) by metis
  have wf: "well_formed_fields ?ty d ?given" by (rule normalized_fields [OF d(3)])
  then have plain: "\<forall>k \<in> keys_of (JObj ?given). \<not> credential_key k"
    using d(2) request_fields_plain unfolding well_formed_fields_def by blast
  have keys: "k \<in> fst ` set ?given \<Longrightarrow> k \<in> set (request_fields ?ty)" for k
    using wf unfolding well_formed_fields_def by blast
  have "coerce_payload_dict ?ty (JObj ?given) = ?given"
    by (rule plain_payload) (use keys request_fields_plain in blast)
  moreover have "reject_model_proxy_shape ?given = Inr ()"
    using keys request_fields_plain by (auto simp: proxy_exact)
  ultimately have "normalize_submit_request (Some ?ty) (JObj ?given) = Inr r"
    using d(1) supported_task_plain [OF d(1)] plain normalized_fixed [OF d(1,3)] guard_exact(1) [of "JObj ?given"]
    by (simp add: normalize_submit_request_def normalized_task_type_def Let_def)
  moreover have "normalized_task_type task_type payload = Inr ?ty"
    "\<forall>k \<in> keys_of (JObj (coerce_payload_dict ?ty payload)). \<not> credential_key k"
    "\<forall>k \<in> fst ` set (coerce_payload_dict ?ty payload). underscored k \<notin> set model_proxy_field_keys"
    using assms by (auto simp: normalize_submit_request_def Let_def bind_result_Inr_iff guard_exact(2) proxy_exact
        split: if_splits)
  ultimately show ?thesis using d(1) wf plain unfolding well_formed_fields_def by blast
qed

text \<open>C16. The two ways in agree. A request that the adapter normalizes, posted to the endpoint of the application as its task type and
inline input, runs the same submission as the adapter's own: the same row is written, the same answer comes back, and the same
errors are refused.\<close>

theorem adapter_and_endpoint_agree:
  assumes "normalize_submit_request task_type payload = Inr r" and "ha_routebook_dir ha = None"
  shows "serve_submission sv [(''task_type'', JStr (nr_task_type r)), (''inline_input'', JObj (nr_inline_input r))] =
    or_http 400 is_value_error (sv_repr sv)
      (bnd (submit_normalized_request (sv_repr sv) (sv_host sv) (sv_config sv) (adapter_routebook_root ha (sv_config sv)) r)
        (\<lambda>s. ret (submitted_document s)))"
proof -
  let ?ty = "nr_task_type r" and ?given = "nr_inline_input r"
  obtain d where d: "has_key supported_demo_tasks ?ty" "normalize_inline_input ?ty d = Inr ?given"
    using normalized_request [OF assms(1)] by metis
  have "?ty \<in> {''url_check'', ''dedup'', ''webpage_extraction'', ''topic_classification'', ''claim_extraction''}"
    using d(1) by (cases rule: supported_task_cases) simp_all
  moreover have r: "\<lparr>nr_task_type = ?ty, nr_inline_input = ?given\<rparr> = r" by simp
  ultimately show ?thesis
    using same_submission [OF d(1) normalized_fixed [OF d], of sv, unfolded r] assms(2)
    by (simp add: serve_submission_def adapter_routebook_root_def get_null_def dget_or_def)
qed

section \<open>Samples\<close>

definition sample_payload :: json where
  "sample_payload = JObj [(''task_type'', JStr '' dedup ''), (''input'', JObj [(''items'', JList [JInt 1, JInt 1])]), (''note'', JInt 2)]"

lemma sample_normalized:
  "normalize_submit_request None sample_payload
     = Inr \<lparr>nr_task_type = ''dedup'', nr_inline_input = [(''items'', JList [JInt 1, JInt 1])]\<rparr>"
  by code_simp

theorem adapter_request_clean_witness:
  "\<exists>r. normalize_submit_request None sample_payload = Inr r \<and> normalize_submit_request (Some (nr_task_type r)) (JObj (nr_inline_input r)) = Inr r"
  using adapter_request_clean [OF sample_normalized] sample_normalized by blast

theorem adapter_and_endpoint_agree_witness:
  "serve_submission demo_server [(''task_type'', JStr ''dedup''), (''inline_input'', JObj [(''items'', JList [JInt 1, JInt 1])])] =
    or_http 400 is_value_error (sv_repr demo_server)
      (bnd (submit_normalized_request (sv_repr demo_server) (sv_host demo_server) (sv_config demo_server)
          (adapter_routebook_root \<lparr>ha_config_dir = ''config'', ha_routebook_dir = None\<rparr> (sv_config demo_server))
          \<lparr>nr_task_type = ''dedup'', nr_inline_input = [(''items'', JList [JInt 1, JInt 1])]\<rparr>)
        (\<lambda>s. ret (submitted_document s)))"
  using adapter_and_endpoint_agree [OF sample_normalized, of "\<lparr>ha_config_dir = ''config'', ha_routebook_dir = None\<rparr>" demo_server]
  by simp

end
