(* ===== verification/Metrics.thy ===== *)
theory Metrics
  imports Endpoints Ledger
begin

text \<open>
  The cost and quality report (\<open>src/tokenbank/observability/\<close>): the rows of a run joined from the tables (\<open>sql_queries.py\<close>), the
  cost of a result and the summary for the host (\<open>cost_accounting.py\<close>), the baseline (\<open>baseline.py\<close>), totals and breakdowns
  (\<open>metrics.py\<close>), what identifies a report (\<open>reproducibility.py\<close>) and the report itself (\<open>report_generator.py\<close>).
  \<open>baseline_run_records\<close> is a table no operation writes; its rows are an argument, newest first. \<open>json.dumps\<close> and \<open>json.loads\<close>,
  between which the text of a report is redacted, are arguments too.
\<close>

section \<open>Rows\<close>

text \<open>A row of the report: the columns of the query by name, and the documents decoded from its text columns.\<close>

record report_row =
  row_columns :: fields
  row_assignment_body :: fields
  row_effective_constraints :: fields
  row_result_body :: fields
  row_verifier_body :: fields
  row_capacity_body :: fields

text \<open>\<open>LEFT JOIN\<close>: a row without a partner stays, with no partner.\<close>

definition left_join :: "('b \<Rightarrow> bool) \<Rightarrow> 'b list \<Rightarrow> 'b option list" where
  "left_join on xs = (case filter on xs of [] \<Rightarrow> [None] | ys \<Rightarrow> map Some ys)"

definition opt_column :: "('a \<Rightarrow> json) \<Rightarrow> 'a option \<Rightarrow> json" where
  "opt_column f x = (case x of None \<Rightarrow> JNull | Some r \<Rightarrow> f r)"

definition body_of :: "('a \<Rightarrow> json) \<Rightarrow> 'a option \<Rightarrow> fields" where
  "body_of f x = (case x of None \<Rightarrow> [] | Some r \<Rightarrow> decode_json_object (f r))"

type_synonym joined_row =
  "work_unit_row \<times> assignment_row option \<times> result_row option \<times> verifier_report_row option \<times> capacity_node_row option"

definition decode_result_row :: "joined_row \<Rightarrow> report_row" where
  "decode_result_row = (\<lambda>(wu, a, re, vr, cn).
     \<lparr>row_columns =
        [(''run_id'', JStr (wu_run_id wu)), (''work_unit_id'', JStr (wu_id wu)), (''task_type'', JStr (wu_task_type wu)),
         (''task_level'', JStr (wu_task_level wu)), (''work_unit_status'', JStr (work_unit_status_text (wu_status wu))),
         (''assignment_id'', opt_column (\<lambda>a. JStr (asg_id a)) a), (''attempt_id'', opt_column (\<lambda>a. JStr (asg_attempt_id a)) a),
         (''worker_id'', opt_column (\<lambda>a. JStr (asg_worker_id a)) a),
         (''capacity_node_id'', opt_column (\<lambda>a. str_opt (asg_capacity_node_id a)) a),
         (''assignment_backend_id'', opt_column (\<lambda>a. str_opt (asg_backend_id a)) a),
         (''assignment_status'', opt_column (\<lambda>a. JStr (assignment_status_text (asg_status a))) a),
         (''result_envelope_id'', opt_column (\<lambda>r. JStr (res_id r)) re),
         (''result_status'', opt_column (\<lambda>r. JStr (result_status_text (res_status r))) re),
         (''output_hash'', opt_column (\<lambda>r. JStr (res_output_hash r)) re), (''result_hash'', opt_column (\<lambda>r. JStr (res_result_hash r)) re),
         (''result_created_at'', opt_column (\<lambda>r. JStr (res_created_at r)) re),
         (''verifier_report_id'', opt_column (\<lambda>v. JStr (vrr_id v)) vr), (''verifier_status'', opt_column (\<lambda>v. JStr (vrr_status v)) vr),
         (''recommendation'', opt_column (\<lambda>v. JStr (vrr_recommendation v)) vr),
         (''capacity_backend_class'', opt_column (\<lambda>n. str_opt (cn_backend_class n)) cn),
         (''capacity_node_type'', opt_column (\<lambda>n. JStr (cn_node_type n)) cn), (''capacity_status'', opt_column (\<lambda>n. JStr (cn_status n)) cn)],
      row_assignment_body = body_of asg_body a, row_effective_constraints = body_of asg_effective_constraints a,
      row_result_body = body_of res_body re, row_verifier_body = body_of vrr_body vr,
      row_capacity_body = body_of cn_body cn\<rparr>)"

definition joined_rows_for_run :: "tables \<Rightarrow> string \<Rightarrow> joined_row list" where
  "joined_rows_for_run t run_id = concat (map (\<lambda>wu.
     concat (map (\<lambda>a.
       concat (map (\<lambda>re.
         concat (map (\<lambda>vr.
           map (\<lambda>cn. (wu, a, re, vr, cn))
             (left_join (\<lambda>n. a \<noteq> None \<and> asg_capacity_node_id (the a) = Some (cn_id n)) (capacity_nodes t)))
           (left_join (\<lambda>v. re \<noteq> None \<and> vrr_result_envelope_id v = res_id (the re)) (verifier_reports t))))
         (left_join (\<lambda>r. a \<noteq> None \<and> res_assignment_id r = asg_id (the a)) (result_envelopes t))))
       (left_join (\<lambda>a. asg_work_unit_id a = wu_id wu) (assignments t))))
     (filter (\<lambda>wu. wu_run_id wu = run_id) (work_units t)))"

definition result_rows_for_run :: "tables \<Rightarrow> string \<Rightarrow> report_row list" where
  "result_rows_for_run t run_id =
     map decode_result_row (sort_key (\<lambda>(wu, a, re, vr, cn). (wu_created_at wu, map_option asg_created_at a, map_option res_created_at re))
       (joined_rows_for_run t run_id))"

definition work_unit_ids_for_run :: "tables \<Rightarrow> string \<Rightarrow> string list" where
  "work_unit_ids_for_run t run_id =
     map wu_id (sort_key (\<lambda>u. (wu_created_at u, wu_id u)) (filter (\<lambda>u. wu_run_id u = run_id) (work_units t)))"

definition count_into :: "'k \<Rightarrow> int \<Rightarrow> ('k \<times> int) list \<Rightarrow> ('k \<times> int) list" where
  "count_into k n d = dput k (dget_or 0 d k + n) d"

fun event_status_text :: "event_status \<Rightarrow> string" where
  "event_status_text Ev_pending = ''pending''"
| "event_status_text Ev_written = ''written''"
| "event_status_text Ev_failed = ''failed''"

definition event_groups :: "tables \<Rightarrow> string \<Rightarrow> ((string \<times> string) \<times> int) list" where
  "event_groups t run_id =
     (let ids = work_unit_ids_for_run t run_id;
          key = (\<lambda>e. (ev_type e, event_status_text (ev_status e)));
          es = filter (\<lambda>e. ev_run_id e = Some run_id \<or> ev_work_unit_id e \<in> Some ` set ids) (event_outbox t) in
      map (\<lambda>k. (k, int (length (filter (\<lambda>e. key e = k) es)))) (sort (remdups (map key es))))"

definition event_summary_for_run :: "tables \<Rightarrow> string \<Rightarrow> fields" where
  "event_summary_for_run t run_id =
     (let groups = event_groups t run_id;
          by_type = fold (\<lambda>((ty, st), n). count_into ty n) groups [];
          by_status = fold (\<lambda>((ty, st), n). count_into st n) groups [] in
      [(''event_count'', JInt (sum_list (map snd groups))), (''by_type'', JObj (map (\<lambda>(k, n). (k, JInt n)) by_type)),
       (''by_status'', JObj (map (\<lambda>(k, n). (k, JInt n)) by_status)), (''source'', JStr ''event_outbox'')])"

section \<open>Cost\<close>

definition effective_cost_micros :: "fields \<Rightarrow> int" where
  "effective_cost_micros result_body =
     (let actual = non_negative_int (get_null result_body ''actual_cost_micros'') in
      if 0 < actual then actual else non_negative_int (get_null result_body ''cost_estimate_micros''))"

definition local_zero_cost_caveat :: string where
  "local_zero_cost_caveat = ''Phase 0 local backend uses zero_internal_phase0 cost accounting.''"

definition cost_caveats :: "fields \<Rightarrow> string list" where
  "cost_caveats result_body =
     (let source = get_null result_body ''cost_source'' in
      (if source = JStr ''zero_internal_phase0'' then [local_zero_cost_caveat] else []) @
      (if source = JStr ''estimated'' then [''Cost is estimated_only; no measured provider charge exists.''] else []) @
      (if source = JStr ''policy_default'' then [''Cost comes from policy_default config, not measurement.''] else []))"

definition is_primary_model_fallback :: "(json \<Rightarrow> string) \<Rightarrow> fields \<Rightarrow> bool" where
  "is_primary_model_fallback repr result_body \<longleftrightarrow>
     get_null result_body ''backend_class'' = JStr ''primary_model_gateway'' \<or>
     occurs_in ''primary_gateway'' (py_str repr (or_json (get_null result_body ''backend_id'') (JStr [])))"

definition primary_model_fallback_cost :: "(json \<Rightarrow> string) \<Rightarrow> report_row list \<Rightarrow> int" where
  "primary_model_fallback_cost repr rows =
     sum_list (map (\<lambda>r. effective_cost_micros (row_result_body r)) (filter (\<lambda>r. is_primary_model_fallback repr (row_result_body r)) rows))"

definition quality_status :: "string \<Rightarrow> string" where
  "quality_status verifier_status =
     (if verifier_status \<in> {''passed'', ''needs_review'', ''failed''} then verifier_status else ''unknown'')"

definition audit_status :: "string \<Rightarrow> string \<Rightarrow> string" where
  "audit_status advice verifier_status =
     (if advice = ''quarantine'' then ''quarantined''
      else if verifier_status = ''needs_review'' then ''warning''
      else if verifier_status = ''passed'' then ''clean''
      else if verifier_status = ''failed'' then ''warning'' else ''unknown'')"

record cost_quality_summary =
  cqs_estimated_cost_micros :: int
  cqs_actual_cost_micros :: int
  cqs_cost_source :: string
  cqs_cost_confidence :: string
  cqs_baseline_mode :: string
  cqs_baseline_cost_micros :: "int option"
  cqs_saving_ratio_bps :: "int option"
  cqs_primary_model_fallback_used :: bool
  cqs_primary_model_fallback_cost_micros :: int
  cqs_local_zero_cost_caveat :: "string option"
  cqs_verifier_passed :: bool
  cqs_quality_status :: string
  cqs_audit_status :: string
  cqs_caveats :: "string list"

text \<open>The fields that the class restricts: counts are not negative, source and confidence are of the listed texts.\<close>

definition checked_summary :: "cost_quality_summary \<Rightarrow> cost_quality_summary result" where
  "checked_summary s =
     (if cqs_cost_source s \<in> {''measured'', ''estimated'', ''policy_default'', ''zero_internal_phase0'', ''not_applicable''} \<and>
         cqs_cost_confidence s \<in> {''low'', ''medium'', ''high'', ''not_applicable''} \<and>
         (\<forall>n \<in> set_option (cqs_baseline_cost_micros s) \<union> set_option (cqs_saving_ratio_bps s). 0 \<le> n)
      then Inr s else Inl (ValueError ''validation error for HostCostQualitySummary''))"

definition host_cost_quality_summary ::
  "(json \<Rightarrow> string) \<Rightarrow> fields \<Rightarrow> fields \<Rightarrow> string \<Rightarrow> int option \<Rightarrow> int option \<Rightarrow> cost_quality_summary result" where
  "host_cost_quality_summary repr result_body verifier_body baseline_mode baseline_cost saving_ratio =
     (let shown = (\<lambda>d k dflt. py_str repr (or_json (get_null d k) (JStr dflt)));
          source = shown result_body ''cost_source'' ''not_applicable''; st = shown verifier_body ''status'' ''unknown'';
          fallback = is_primary_model_fallback repr result_body in
      checked_summary
        \<lparr>cqs_estimated_cost_micros = non_negative_int (get_null result_body ''cost_estimate_micros''),
         cqs_actual_cost_micros = non_negative_int (get_null result_body ''actual_cost_micros''),
         cqs_cost_source = source, cqs_cost_confidence = shown result_body ''cost_confidence'' ''not_applicable'',
         cqs_baseline_mode = baseline_mode, cqs_baseline_cost_micros = baseline_cost, cqs_saving_ratio_bps = saving_ratio,
         cqs_primary_model_fallback_used = fallback,
         cqs_primary_model_fallback_cost_micros = (if fallback then effective_cost_micros result_body else 0),
         cqs_local_zero_cost_caveat = (if source = ''zero_internal_phase0'' then Some local_zero_cost_caveat else None),
         cqs_verifier_passed = (st \<in> {''passed'', ''needs_review''}), cqs_quality_status = quality_status st,
         cqs_audit_status = audit_status (shown verifier_body ''recommendation'' []) st,
         cqs_caveats = cost_caveats result_body @
           (if baseline_mode = ''none'' then [''baseline_mode=none; no savings claim is generated.''] else [])\<rparr>)"

section \<open>Totals and breakdowns\<close>

abbreviation col :: "report_row \<Rightarrow> string \<Rightarrow> json" where
  "col r k \<equiv> get_null (row_columns r) k"

definition row_recommendation :: "(json \<Rightarrow> string) \<Rightarrow> report_row \<Rightarrow> string" where
  "row_recommendation repr r =
     py_str repr (or_json (or_json (col r ''recommendation'') (get_null (row_verifier_body r) ''recommendation'')) (JStr []))"

definition row_verifier_status :: "(json \<Rightarrow> string) \<Rightarrow> report_row \<Rightarrow> string" where
  "row_verifier_status repr r = py_str repr (or_json (col r ''verifier_status'') (get_null (row_verifier_body r) ''status''))"

datatype bucket = Success | Warning | Failure | Quarantine

definition bucket_of :: "(json \<Rightarrow> string) \<Rightarrow> report_row \<Rightarrow> bucket" where
  "bucket_of repr r =
     (let st = get_null (row_result_body r) ''status''; rec = row_recommendation repr r; ver = row_verifier_status repr r in
      if st = JStr ''quarantined'' \<or> rec = ''quarantine'' then Quarantine
      else if st = JStr ''failed'' then Failure
      else if rec = ''accept_with_warning'' \<or> ver = ''needs_review'' then Warning
      else if rec = ''accept'' \<and> ver = ''passed'' then Success
      else Failure)"

definition backend_failed :: "report_row \<Rightarrow> bool" where
  "backend_failed r \<longleftrightarrow>
     get_null (row_result_body r) ''status'' = JStr ''failed'' \<or> truthy (get_null (row_result_body r) ''errors'')"

definition verifier_failed :: "(json \<Rightarrow> string) \<Rightarrow> report_row \<Rightarrow> bool" where
  "verifier_failed repr r \<longleftrightarrow> row_recommendation repr r \<noteq> ''quarantine'' \<and> row_verifier_status repr r = ''failed''"

definition row_duration_ms :: "report_row \<Rightarrow> int" where
  "row_duration_ms r = non_negative_int (get_null (row_result_body r) ''duration_ms'')"

record summary =
  sum_work_unit_count :: int
  sum_success_count :: int
  sum_warning_count :: int
  sum_failure_count :: int
  sum_quarantine_count :: int
  sum_backend_failure_count :: int
  sum_verifier_failure_count :: int
  sum_duration_ms :: int
  sum_cost_micros :: int
  sum_estimated_cost_micros :: int
  sum_actual_cost_micros :: int

definition count_rows :: "('a \<Rightarrow> bool) \<Rightarrow> 'a list \<Rightarrow> int" where
  "count_rows p xs = sum_list (map (\<lambda>x. if p x then 1 else 0) xs)"

definition summary_for_rows :: "(json \<Rightarrow> string) \<Rightarrow> report_row list \<Rightarrow> summary" where
  "summary_for_rows repr rows =
     (let amount = (\<lambda>k r. non_negative_int (get_null (row_result_body r) k)) in
      \<lparr>sum_work_unit_count = int (length (remdups (filter truthy (map (\<lambda>r. col r ''work_unit_id'') rows)))),
       sum_success_count = count_rows (\<lambda>r. bucket_of repr r = Success) rows,
       sum_warning_count = count_rows (\<lambda>r. bucket_of repr r = Warning) rows,
       sum_failure_count = count_rows (\<lambda>r. bucket_of repr r = Failure) rows,
       sum_quarantine_count = count_rows (\<lambda>r. bucket_of repr r = Quarantine) rows,
       sum_backend_failure_count = count_rows backend_failed rows,
       sum_verifier_failure_count = count_rows (verifier_failed repr) rows,
       sum_duration_ms = sum_list (map row_duration_ms rows),
       sum_cost_micros = sum_list (map (\<lambda>r. effective_cost_micros (row_result_body r)) rows),
       sum_estimated_cost_micros = sum_list (map (amount ''cost_estimate_micros'') rows),
       sum_actual_cost_micros = sum_list (map (amount ''actual_cost_micros'') rows)\<rparr>)"

definition first_backend_class :: "fields \<Rightarrow> json" where
  "first_backend_class capacity_body =
     (case get_null capacity_body ''backend_classes'' of
        JList (JStr s # _) \<Rightarrow> JStr s
      | _ \<Rightarrow> JNull)"

definition row_backend_class :: "(json \<Rightarrow> string) \<Rightarrow> report_row \<Rightarrow> string" where
  "row_backend_class repr r =
     py_str repr (or_json (or_json (or_json (or_json (get_null (row_result_body r) ''backend_class'')
       (get_null (row_assignment_body r) ''backend_class'')) (col r ''capacity_backend_class''))
       (first_backend_class (row_capacity_body r))) (JStr ''unknown_backend_class''))"

definition group_value :: "(json \<Rightarrow> string) \<Rightarrow> string \<Rightarrow> report_row \<Rightarrow> string" where
  "group_value repr key r =
     (if key = ''backend_class'' then row_backend_class repr r
      else let v = col r key;
               v = (if v = JNull \<and> key = ''worker_id'' then get_null (row_result_body r) ''worker_id'' else v) in
           py_str repr (or_json v (JStr (''unknown_'' @ key))))"

text \<open>The rows of each key in their order, by the sorted keys.\<close>

definition grouped :: "('a \<Rightarrow> 'k :: linorder) \<Rightarrow> 'a list \<Rightarrow> ('k \<times> 'a list) list" where
  "grouped key rows = map (\<lambda>k. (k, filter (\<lambda>r. key r = k) rows)) (sort (remdups (map key rows)))"

definition summarize_by_key :: "(json \<Rightarrow> string) \<Rightarrow> report_row list \<Rightarrow> string \<Rightarrow> (string \<times> summary) list" where
  "summarize_by_key repr rows key = map (\<lambda>(k, rs). (k, summary_for_rows repr rs)) (grouped (group_value repr key) rows)"

definition capacity_key :: "(json \<Rightarrow> string) \<Rightarrow> report_row \<Rightarrow> string \<times> string" where
  "capacity_key repr r =
     (py_str repr (or_json (col r ''capacity_node_id'') (JStr ''unknown_capacity_node'')), row_backend_class repr r)"

definition capacity_node_summaries :: "(json \<Rightarrow> string) \<Rightarrow> report_row list \<Rightarrow> ((string \<times> string) \<times> summary) list" where
  "capacity_node_summaries repr rows = map (\<lambda>(k, rs). (k, summary_for_rows repr rs))
     (grouped (capacity_key repr) rows)"

definition summary_fields :: "summary \<Rightarrow> fields" where
  "summary_fields s =
     [(''work_unit_count'', JInt (sum_work_unit_count s)), (''success_count'', JInt (sum_success_count s)),
      (''warning_count'', JInt (sum_warning_count s)), (''failure_count'', JInt (sum_failure_count s)),
      (''quarantine_count'', JInt (sum_quarantine_count s)), (''backend_failure_count'', JInt (sum_backend_failure_count s)),
      (''verifier_failure_count'', JInt (sum_verifier_failure_count s)), (''duration_ms'', JInt (sum_duration_ms s)),
      (''cost_micros'', JInt (sum_cost_micros s)), (''estimated_cost_micros'', JInt (sum_estimated_cost_micros s)),
      (''actual_cost_micros'', JInt (sum_actual_cost_micros s))]"

definition by_key_documents :: "string \<Rightarrow> (string \<times> summary) list \<Rightarrow> json" where
  "by_key_documents output_key groups = JList (map (\<lambda>(k, s). JObj ((output_key, JStr k) # summary_fields s)) groups)"

definition capacity_documents :: "((string \<times> string) \<times> summary) list \<Rightarrow> json" where
  "capacity_documents groups = JList (map (\<lambda>((node, cls), s).
     JObj ([(''capacity_node_id'', JStr node), (''backend_class'', JStr cls)] @ summary_fields s)) groups)"

definition backend_task_worker_summaries :: "(json \<Rightarrow> string) \<Rightarrow> report_row list \<Rightarrow> fields" where
  "backend_task_worker_summaries repr rows =
     [(''by_task_type'', by_key_documents ''task_type'' (summarize_by_key repr rows ''task_type'')),
      (''by_backend_class'', by_key_documents ''backend_class'' (summarize_by_key repr rows ''backend_class'')),
      (''by_worker'', by_key_documents ''worker_id'' (summarize_by_key repr rows ''worker_id'')),
      (''by_capacity_node'', capacity_documents (capacity_node_summaries repr rows))]"

section \<open>The baseline\<close>

record baseline =
  bl_mode :: string
  bl_cost_micros :: "int option"
  bl_caveats :: "string list"

text \<open>\<open>int(n / d)\<close>: the quotient is rounded to a float, which may not be finite, and cut towards zero.\<close>

definition int_of_quotient :: "int \<Rightarrow> int \<Rightarrow> int result" where
  "int_of_quotient n d =
     (let q = fl (of_int n / of_int d) in
      if 2 ^ 1024 \<le> \<bar>q\<bar> then Inl (OverflowError ''integer division result too large for a float'')
      else Inr (if q < 0 then - \<lfloor>- q\<rfloor> else \<lfloor>q\<rfloor>))"

definition saving_ratio :: "int \<Rightarrow> int \<Rightarrow> int result" where
  "saving_ratio baseline_cost observed = int_of_quotient ((baseline_cost - observed) * 10000) baseline_cost"

definition saving_ratio_bps :: "baseline \<Rightarrow> int \<Rightarrow> int option result" where
  "saving_ratio_bps b observed =
     (case bl_cost_micros b of
        None \<Rightarrow> Inr None
      | Some c \<Rightarrow> if bl_mode b = ''none'' \<or> c = 0 then Inr None else bind_result (saving_ratio c observed) (\<lambda>n. Inr (Some n)))"

definition normalize_baseline_mode :: "string \<Rightarrow> string result" where
  "normalize_baseline_mode v =
     (if v \<in> {''measured'', ''estimated'', ''none''} then Inr v
      else Inl (ValueError ''baseline_mode must be measured, estimated, or none''))"

text \<open>The rows of \<open>baseline_run_records\<close> with their documents, None where the text is not JSON; a document that is not an object
  has no attribute \<open>get\<close>, and a truth value is an integer.\<close>

type_synonym baseline_rows = "(string \<times> json option) list"

definition measured_baseline_cost :: "baseline_rows \<Rightarrow> string \<Rightarrow> int option result" where
  "measured_baseline_cost records run_id =
     (case filter (\<lambda>(i, _). i = run_id) records of
        (_, Some (JObj d)) # _ \<Rightarrow>
          Inr (case get_null d ''baseline_cost_micros'' of
                 JInt n \<Rightarrow> if 0 \<le> n then Some n else None
               | JBool b \<Rightarrow> Some (if b then 1 else 0)
               | _ \<Rightarrow> None)
      | (_, Some _) # _ \<Rightarrow> Inl (TypeError ''object has no attribute get'')
      | _ \<Rightarrow> Inr None)"

definition resolve_baseline :: "baseline_rows \<Rightarrow> string \<Rightarrow> string \<Rightarrow> int \<Rightarrow> baseline result" where
  "resolve_baseline records run_id baseline_mode estimated =
     bind_result (normalize_baseline_mode baseline_mode) (\<lambda>mode.
     if mode = ''none''
     then Inr \<lparr>bl_mode = mode, bl_cost_micros = None, bl_caveats = [''baseline_mode=none; no savings claim is generated.'']\<rparr>
     else if mode = ''estimated''
     then Inr \<lparr>bl_mode = mode, bl_cost_micros = Some (max 0 estimated),
               bl_caveats = [''baseline_mode=estimated; savings are estimated only.'']\<rparr>
     else bind_result (measured_baseline_cost records run_id) (\<lambda>measured.
       Inr \<lparr>bl_mode = mode, bl_cost_micros = measured,
            bl_caveats = (if measured = None then [''baseline_mode=measured but no measured baseline was found.''] else [])\<rparr>))"

section \<open>The report\<close>

definition reproducibility_metadata :: "platform \<Rightarrow> string \<Rightarrow> string \<Rightarrow> report_row list \<Rightarrow> fields \<Rightarrow> fields" where
  "reproducibility_metadata p now run_id rows event_summary =
     (let refs = JList (map (\<lambda>r. JObj (map (\<lambda>k. (k, col r k))
            [''work_unit_id'', ''attempt_id'', ''assignment_id'', ''result_envelope_id'', ''verifier_report_id'', ''output_hash'',
             ''result_hash''])) rows) in
      [(''metadata_only'', JBool True), (''generated_at'', JStr now),
       (''source_tables'', str_list [''work_units'', ''assignments'', ''result_envelopes'', ''verifier_reports'', ''event_outbox'']),
       (''object_refs'', refs),
       (''reproducibility_hash'', JStr (canonical_json_hash (sha256 p) (float_repr p) (JObj
          [(''run_id'', JStr run_id), (''object_refs'', refs),
           (''event_count'', dget_or (JInt 0) event_summary ''event_count'')])))])"

definition completed_rows :: "report_row list \<Rightarrow> report_row list" where
  "completed_rows rows = filter (\<lambda>r. truthy (col r ''result_envelope_id'') \<and> truthy (col r ''verifier_report_id'')) rows"

definition add_new :: "string \<Rightarrow> string list \<Rightarrow> string list" where
  "add_new c cs = (if c \<in> set cs then cs else cs @ [c])"

definition report_caveats :: "report_row list \<Rightarrow> string list \<Rightarrow> string list" where
  "report_caveats rows baseline_caveats =
     (let caveats = fold (\<lambda>r. fold add_new (cost_caveats (row_result_body r))) rows baseline_caveats in
      if \<exists>r \<in> set rows. get_null (row_result_body r) ''cost_source'' = JStr ''estimated''
      then add_new ''estimated_only cost fields are reported separately from measured cost.'' caveats else caveats)"

definition report_id :: "platform \<Rightarrow> string \<Rightarrow> report_row list \<Rightarrow> string \<Rightarrow> string" where
  "report_id p run_id rows baseline_mode =
     ''cqr_'' @ take 24 (canonical_json_hash (sha256 p) (float_repr p) (JObj
       [(''run_id'', JStr run_id), (''baseline_mode'', JStr baseline_mode),
        (''result_envelope_ids'', JList (filter truthy (map (\<lambda>r. col r ''result_envelope_id'') rows)))]))"

text \<open>A ratio of the row's own, against the baseline of the run.\<close>

definition row_saving_ratio :: "string \<Rightarrow> int option \<Rightarrow> int \<Rightarrow> int option result" where
  "row_saving_ratio baseline_mode baseline_cost cost =
     (case baseline_cost of
        None \<Rightarrow> Inr None
      | Some c \<Rightarrow> if baseline_mode = ''none'' \<or> c = 0 then Inr None else bind_result (saving_ratio c cost) (\<lambda>n. Inr (Some n)))"

definition dump_cost_quality_summary :: "cost_quality_summary \<Rightarrow> json" where
  "dump_cost_quality_summary s = JObj
     [schema_version, (''estimated_cost_micros'', JInt (cqs_estimated_cost_micros s)),
      (''actual_cost_micros'', JInt (cqs_actual_cost_micros s)), (''cost_source'', JStr (cqs_cost_source s)),
      (''cost_confidence'', JStr (cqs_cost_confidence s)), (''baseline_mode'', JStr (cqs_baseline_mode s)),
      (''baseline_cost_micros'', int_opt (cqs_baseline_cost_micros s)), (''saving_ratio_bps'', int_opt (cqs_saving_ratio_bps s)),
      (''primary_model_fallback_used'', JBool (cqs_primary_model_fallback_used s)),
      (''primary_model_fallback_cost_micros'', JInt (cqs_primary_model_fallback_cost_micros s)),
      (''local_zero_cost_caveat'', str_opt (cqs_local_zero_cost_caveat s)), (''verifier_passed'', JBool (cqs_verifier_passed s)),
      (''quality_status'', JStr (cqs_quality_status s)), (''audit_status'', JStr (cqs_audit_status s)),
      (''caveats'', str_list (cqs_caveats s))]"

definition report_host_summary :: "(json \<Rightarrow> string) \<Rightarrow> string \<Rightarrow> int option \<Rightarrow> report_row \<Rightarrow> json result" where
  "report_host_summary repr baseline_mode baseline_cost r =
     (let b = row_result_body r in
      bind_result (row_saving_ratio baseline_mode baseline_cost (effective_cost_micros b)) (\<lambda>ratio.
      bind_result (host_cost_quality_summary repr b (row_verifier_body r) baseline_mode baseline_cost ratio) (\<lambda>s.
      Inr (JObj [(''work_unit_id'', col r ''work_unit_id''), (''task_type'', col r ''task_type''),
        (''backend_class'', get_null b ''backend_class''), (''backend_id'', get_null b ''backend_id''),
        (''worker_id'', or_json (get_null b ''worker_id'') (col r ''worker_id'')),
        (''capacity_node_id'', or_json (get_null b ''capacity_node_id'') (col r ''capacity_node_id'')),
        (''verifier_status'', col r ''verifier_status''), (''verifier_recommendation'', col r ''recommendation''),
        (''result_envelope_id'', col r ''result_envelope_id''), (''output_hash'', col r ''output_hash''),
        (''result_hash'', col r ''result_hash''), (''cost_summary'', dump_cost_quality_summary s)]))))"

text \<open>\<open>_redact_secret_like\<close> after \<open>redact_token_prefixes\<close>, on the text of the report.\<close>

definition redacted_report_text :: "string \<Rightarrow> string" where
  "redacted_report_text s =
     re_sub_tail [(literal_nocase ''bearer'' @ [Many1 space_char], [Many1 bearer_char])]
       (re_sub (literal ''sk-'' @ [Many1 word_dash_char]) ''[REDACTED_SECRET]'' (redact_token_prefixes s))"

record report_environment =
  rp_repr :: "json \<Rightarrow> string"
  rp_dumps :: "json \<Rightarrow> string"
  rp_loads :: "string \<Rightarrow> json result"
  rp_baselines :: baseline_rows

definition redact_report :: "report_environment \<Rightarrow> fields \<Rightarrow> json result" where
  "redact_report e report = rp_loads e (redacted_report_text (rp_dumps e (JObj report)))"

definition cost_quality_report ::
  "report_environment \<Rightarrow> platform \<Rightarrow> string \<Rightarrow> string \<Rightarrow> tables \<Rightarrow> string \<Rightarrow> string \<Rightarrow> fields result" where
  "cost_quality_report e p generated_at reproduced_at t run_id baseline_mode =
     (let repr = rp_repr e; rows = completed_rows (result_rows_for_run t run_id);
          estimated = sum_list (map (\<lambda>r. non_negative_int (get_null (row_result_body r) ''cost_estimate_micros'')) rows) in
      bind_result (resolve_baseline (rp_baselines e) run_id baseline_mode estimated) (\<lambda>b.
      let totals = summary_for_rows repr rows in
      bind_result (saving_ratio_bps b (sum_cost_micros totals)) (\<lambda>ratio.
      bind_result (map_result (report_host_summary repr (bl_mode b) (bl_cost_micros b)) rows) (\<lambda>summaries.
      let event_summary = event_summary_for_run t run_id in
      Inr [(''report_type'', JStr ''cost_quality_report''), (''cost_quality_report_id'', JStr (report_id p run_id rows (bl_mode b))),
           (''run_id'', JStr run_id), (''generated_at'', JStr generated_at),
           (''baseline'', JObj [(''baseline_mode'', JStr (bl_mode b)), (''baseline_cost_micros'', int_opt (bl_cost_micros b)),
              (''saving_ratio_bps'', int_opt ratio), (''saving_claimed'', JBool (ratio \<noteq> None)), (''caveats'', str_list (bl_caveats b))]),
           (''totals'', JObj (summary_fields totals @
              [(''primary_model_fallback_cost_micros'', JInt (primary_model_fallback_cost repr rows))])),
           (''host_cost_quality_summaries'', JList summaries),
           (''capacity_node_summaries'', capacity_documents (capacity_node_summaries repr rows)),
           (''summaries'', JObj (backend_task_worker_summaries repr rows)), (''event_summary'', JObj event_summary),
           (''reproducibility'', JObj (reproducibility_metadata p reproduced_at run_id rows event_summary)),
           (''caveats'', str_list (report_caveats rows (bl_caveats b)))]))))"

definition generate_cost_quality_report :: "report_environment \<Rightarrow> string \<Rightarrow> string \<Rightarrow> json op" where
  "generate_cost_quality_report e run_id baseline_mode =
     bnd (select (\<lambda>t. t)) (\<lambda>t. bnd (gets plat) (\<lambda>p.
     bnd utc_text_now (\<lambda>generated_at. bnd utc_text_now (\<lambda>reproduced_at.
     bnd (of_result (cost_quality_report e p generated_at reproduced_at t run_id baseline_mode)) (\<lambda>report.
     of_result (redact_report e report))))))"

definition generate_capacity_report :: "report_environment \<Rightarrow> string \<Rightarrow> json op" where
  "generate_capacity_report e run_id =
     bnd (select (\<lambda>t. t)) (\<lambda>t. bnd utc_text_now (\<lambda>generated_at.
     of_result (redact_report e
       [(''report_type'', JStr ''capacity_performance_report''), (''run_id'', JStr run_id), (''generated_at'', JStr generated_at),
        (''capacity_node_summaries'', capacity_documents (capacity_node_summaries (rp_repr e)
           (completed_rows (result_rows_for_run t run_id)))),
        (''event_summary'', JObj (event_summary_for_run t run_id))])))"

section \<open>Breakdowns\<close>

lemma grouped_keys: "map fst (grouped key rows) = sort (remdups (map key rows))"
  by (simp add: grouped_def comp_def)

lemma grouped_sorted: "sorted_wrt (<) (map fst (grouped key rows))"
  unfolding grouped_keys by (simp add: strict_sorted_iff)

lemma sum_over_keys:
  fixes f :: "'a \<Rightarrow> 'b :: comm_monoid_add"
  shows "distinct ks \<Longrightarrow> key ` set rows \<subseteq> set ks \<Longrightarrow>
    sum_list (map (\<lambda>k. sum_list (map f (filter (\<lambda>r. key r = k) rows))) ks) = sum_list (map f rows)"
proof (induction rows)
  case (Cons r rows)
  have "sum_list (map (\<lambda>k. (if key r = k then f r else 0) + sum_list (map f (filter (\<lambda>r. key r = k) rows))) ks) =
      sum_list (map (\<lambda>k. if key r = k then f r else 0) ks) + sum_list (map f rows)"
    using Cons by (simp add: sum_list_addf)
  moreover have "sum_list (map (\<lambda>k. if key r = k then f r else 0) ks) = f r"
    using Cons.prems by (simp add: sum_list_distinct_conv_sum_set sum.delta)
  moreover have "sum_list (map f (filter (\<lambda>r. key r = k) (r # rows))) =
      (if key r = k then f r else 0) + sum_list (map f (filter (\<lambda>r. key r = k) rows))" for k
    by simp
  ultimately show ?case by (simp only: list.map sum_list.Cons)
qed (simp add: sum_list_0)

lemma grouped_sum:
  fixes f :: "'a \<Rightarrow> 'b :: comm_monoid_add"
  shows "sum_list (map (\<lambda>(k, rs). sum_list (map f rs)) (grouped key rows)) = sum_list (map f rows)"
  using sum_over_keys [of "sort (remdups (map key rows))" key rows f] by (simp add: grouped_def comp_def)

lemma grouped_image: "(\<Union>(k, rs) \<in> set (grouped key rows). f ` set rs) = f ` set rows"
  by (auto simp: grouped_def)

text \<open>The measures of a summary that add up.\<close>

definition additive_measures :: "(summary \<Rightarrow> int) list" where
  "additive_measures = [sum_success_count, sum_warning_count, sum_failure_count, sum_quarantine_count, sum_backend_failure_count,
     sum_verifier_failure_count, sum_duration_ms, sum_cost_micros, sum_estimated_cost_micros, sum_actual_cost_micros]"

definition breakdown :: "(json \<Rightarrow> string) \<Rightarrow> (report_row \<Rightarrow> 'k :: linorder) \<Rightarrow> report_row list \<Rightarrow> ('k \<times> summary) list" where
  "breakdown repr key rows = map (\<lambda>(k, rs). (k, summary_for_rows repr rs)) (grouped key rows)"

lemma breakdown_measures:
  "map (\<lambda>m. sum_list (map (\<lambda>(k, s). m s) (breakdown repr key rows))) additive_measures =
   map (\<lambda>m. m (summary_for_rows repr rows)) additive_measures"
  by (simp add: additive_measures_def breakdown_def summary_for_rows_def Let_def count_rows_def comp_def case_prod_unfold)
    (simp add: grouped_sum [unfolded case_prod_unfold])

lemma buckets_partition:
  "sum_success_count (summary_for_rows repr rows) + sum_warning_count (summary_for_rows repr rows) +
   sum_failure_count (summary_for_rows repr rows) + sum_quarantine_count (summary_for_rows repr rows) = int (length rows)"
proof -
  have "(if b = Success then 1 else 0) + (if b = Warning then 1 else 0) + (if b = Failure then 1 else 0) +
      (if b = Quarantine then 1 else 0) = (1 :: int)" for b
    by (cases b) simp_all
  then have "count_rows (\<lambda>r. bucket_of repr r = Success) rows + count_rows (\<lambda>r. bucket_of repr r = Warning) rows +
      count_rows (\<lambda>r. bucket_of repr r = Failure) rows + count_rows (\<lambda>r. bucket_of repr r = Quarantine) rows = int (length rows)"
    by (induction rows) (simp_all add: count_rows_def algebra_simps)
  then show ?thesis by (simp add: summary_for_rows_def Let_def)
qed

lemma work_units_counted:
  "sum_work_unit_count (summary_for_rows repr rows) \<le> sum_list (map (\<lambda>(k, s). sum_work_unit_count s) (breakdown repr key rows))"
proof -
  let ?ids = "\<lambda>rs. set (filter truthy (map (\<lambda>r. col r ''work_unit_id'') rs))"
  have size: "sum_work_unit_count (summary_for_rows repr rs) = int (card (?ids rs))" for rs
    by (simp only: summary_for_rows_def Let_def summary.select_convs length_remdups_card_conv)
  have counted: "int (sum_list (map (\<lambda>(k, rs). card (?ids rs)) gs)) =
      sum_list (map (\<lambda>(k, s). sum_work_unit_count s) (map (\<lambda>(k, rs). (k, summary_for_rows repr rs)) gs))"
    for gs :: "('k \<times> report_row list) list"
    by (induction gs) (auto simp: size)
  have "?ids rows = (\<Union>(k, rs) \<in> set (grouped key rows). ?ids rs)" by (auto simp: grouped_def)
  moreover have "card (\<Union>(k, rs) \<in> set gs. ?ids rs) \<le> sum_list (map (\<lambda>(k, rs). card (?ids rs)) gs)" for gs :: "('k \<times> report_row list) list"
  proof (induction gs)
    case (Cons g gs)
    obtain k rs where g: "g = (k, rs)" by fastforce
    have "card (\<Union>(k, rs) \<in> set (g # gs). ?ids rs) \<le> card (?ids rs) + card (\<Union>(k, rs) \<in> set gs. ?ids rs)"
      using card_Un_le [of "?ids rs" "\<Union>(k, rs) \<in> set gs. ?ids rs"] by (simp add: g)
    then show ?case using Cons by (simp add: g)
  qed simp
  ultimately have "card (?ids rows) \<le> sum_list (map (\<lambda>(k, rs). card (?ids rs)) (grouped key rows))" by simp
  then have "int (card (?ids rows)) \<le> int (sum_list (map (\<lambda>(k, rs). card (?ids rs)) (grouped key rows)))" by simp
  also have "\<dots> = sum_list (map (\<lambda>(k, s). sum_work_unit_count s) (breakdown repr key rows))"
    unfolding breakdown_def by (rule counted)
  finally show ?thesis by (simp add: size)
qed

section \<open>Properties\<close>

lemma summarize_by_key_breakdown: "summarize_by_key repr rows key = breakdown repr (group_value repr key) rows"
  by (simp add: summarize_by_key_def breakdown_def)

lemma capacity_breakdown: "capacity_node_summaries repr rows = breakdown repr (capacity_key repr) rows"
  by (simp add: capacity_node_summaries_def breakdown_def)

definition accounts_for :: "('k :: linorder \<times> summary) list \<Rightarrow> summary \<Rightarrow> bool" where
  "accounts_for groups whole \<longleftrightarrow>
     sorted_wrt (<) (map fst groups) \<and>
     map (\<lambda>m. sum_list (map (\<lambda>(k, s). m s) groups)) additive_measures = map (\<lambda>m. m whole) additive_measures \<and>
     sum_work_unit_count whole \<le> sum_list (map (\<lambda>(k, s). sum_work_unit_count s) groups)"

lemma breakdown_accounts: "accounts_for (breakdown repr key rows) (summary_for_rows repr rows)"
proof -
  have "map fst (breakdown repr key rows) = map fst (grouped key rows)"
    by (simp add: breakdown_def comp_def case_prod_unfold)
  then show ?thesis
    unfolding accounts_for_def by (intro conjI breakdown_measures work_units_counted) (simp only: grouped_sorted)
qed

text \<open>The breakdowns of a report account for its totals: the groups of every breakdown (by any column, and by capacity node and
backend class) appear once each in the order of their keys, every count, duration and cost of the totals is the sum over the groups,
the work units of the totals are at most those of the groups together (a work unit may be in two of them), and each row of the report
is in exactly one of the buckets success, warning, failure and quarantine.\<close>

theorem breakdowns_account_for_totals:
  "accounts_for (summarize_by_key repr rows key) (summary_for_rows repr rows) \<and>
   accounts_for (capacity_node_summaries repr rows) (summary_for_rows repr rows) \<and>
   sum_success_count (summary_for_rows repr rows) + sum_warning_count (summary_for_rows repr rows) +
     sum_failure_count (summary_for_rows repr rows) + sum_quarantine_count (summary_for_rows repr rows) = int (length rows)"
  unfolding summarize_by_key_breakdown capacity_breakdown by (simp add: breakdown_accounts buckets_partition)

lemma quotient_below: "n \<le> - d \<Longrightarrow> 0 < d \<Longrightarrow> int_of_quotient n d = Inr q \<Longrightarrow> q \<le> - 1"
proof -
  assume n: "n \<le> - d" and d: "0 < d" and q: "int_of_quotient n d = Inr q"
  have "(of_int n :: rat) / of_int d \<le> - 1" using n d by (simp add: divide_le_eq flip: of_int_minus)
  then have "fl (of_int n / of_int d) \<le> fl (of_int (- 1))" using fl_mono by simp
  also have "\<dots> = - 1" using fl_small_int [of "- 1"] by simp
  finally have "fl (of_int n / of_int d) \<le> - 1" .
  with q show "q \<le> - 1" by (auto simp: int_of_quotient_def Let_def le_floor_iff split: if_splits)
qed

lemma overrun_ratio: "0 < c \<Longrightarrow> c \<le> (cost - c) * 10000 \<Longrightarrow> saving_ratio c cost = Inr q \<Longrightarrow> q < 0"
  using quotient_below [of "(c - cost) * 10000" c q] by (simp add: saving_ratio_def algebra_simps)

lemma negative_ratio_refused: "n < 0 \<Longrightarrow> host_cost_quality_summary repr b v mode c (Some n) \<noteq> Inr s"
  by (simp add: host_cost_quality_summary_def checked_summary_def Let_def)

lemma overrun_row_refused:
  "0 < c \<Longrightarrow> mode \<noteq> ''none'' \<Longrightarrow> c \<le> (effective_cost_micros (row_result_body r) - c) * 10000 \<Longrightarrow>
   report_host_summary repr mode (Some c) r \<noteq> Inr j"
  using overrun_ratio negative_ratio_refused
  by (fastforce simp: report_host_summary_def row_saving_ratio_def Let_def)

lemma resolved_mode: "resolve_baseline records run_id mode n = Inr b \<Longrightarrow> bl_cost_micros b = Some c \<Longrightarrow> bl_mode b \<noteq> ''none''"
  by (auto simp: resolve_baseline_def split: if_splits)

lemma no_report_for_overrun:
  assumes "resolve_baseline (rp_baselines e) run_id mode
      (sum_list (map (\<lambda>r. non_negative_int (get_null (row_result_body r) ''cost_estimate_micros''))
        (completed_rows (result_rows_for_run t run_id)))) = Inr b"
    and "bl_cost_micros b = Some c" and "0 < c"
    and "r \<in> set (completed_rows (result_rows_for_run t run_id))"
    and "c \<le> (effective_cost_micros (row_result_body r) - c) * 10000"
  shows "cost_quality_report e p generated reproduced t run_id mode \<noteq> Inr d"
proof
  assume "cost_quality_report e p generated reproduced t run_id mode = Inr d"
  then obtain ss where "map_result (report_host_summary (rp_repr e) (bl_mode b) (Some c)) (completed_rows (result_rows_for_run t run_id)) = Inr ss"
    using assms(1,2) by (auto simp: cost_quality_report_def Let_def)
  then have "\<exists>j. report_host_summary (rp_repr e) (bl_mode b) (Some c) r = Inr j"
    using assms(4) by (auto dest!: map_result_all2 simp: list_all2_conv_all_nth in_set_conv_nth)
  then show False using overrun_row_refused [OF assms(3) resolved_mode [OF assms(1,2)] assms(5)] by blast
qed

text \<open>C39. A run that cost more than its baseline has no cost and quality report: when the baseline is positive and a completed result of
the run cost more than it (by at least one basis point of the baseline), the saving ratio of that row is negative, which the summary for
the host does not allow, and generating the report raises.\<close>

theorem overrun_has_no_report:
  assumes "resolve_baseline (rp_baselines e) run_id mode
      (sum_list (map (\<lambda>r. non_negative_int (get_null (row_result_body r) ''cost_estimate_micros''))
        (completed_rows (result_rows_for_run (current w) run_id)))) = Inr b"
    and "bl_cost_micros b = Some c" and "0 < c"
    and "r \<in> set (completed_rows (result_rows_for_run (current w) run_id))"
    and "c \<le> (effective_cost_micros (row_result_body r) - c) * 10000"
  shows "\<exists>err w'. generate_cost_quality_report e run_id mode w = (Inl err, w') \<and> current w' = current w"
proof -
  have "\<exists>err. cost_quality_report e p generated reproduced (current w) run_id mode = Inl err" for p generated reproduced
    using no_report_for_overrun [OF assms] by (metis obj_sumE)
  then obtain err where "cost_quality_report e (plat w) (utc_text (utc_clock (plat w) (clock_draws w)))
      (utc_text (utc_clock (plat w) (Suc (clock_draws w)))) (current w) run_id mode = Inl err" by blast
  then show ?thesis by (simp add: generate_cost_quality_report_def run_bnd)
qed

text \<open>A run with one completed result, which was estimated at 1 and cost 5.\<close>

definition overrun_tables :: tables where
  "overrun_tables = empty_tables\<lparr>
     work_units := [\<lparr>wu_id = ''wu_1'', wu_run_id = ''run_1'', wu_status = WU_succeeded, wu_task_type = ''dedup'', wu_task_level = ''L1'',
       wu_body = JObj [], wu_created_at = ''t'', wu_updated_at = ''t''\<rparr>],
     assignments := [\<lparr>asg_id = ''asg_1'', asg_attempt_id = ''att_1'', asg_work_unit_id = ''wu_1'', asg_worker_id = ''wrk_1'',
       asg_status = Asg_completed, asg_body = JObj [], asg_created_at = ''t'', asg_capacity_node_id = None, asg_backend_id = None,
       asg_lease_token_hash = None, asg_lease_token_prefix = None, asg_lease_version = 0, asg_effective_constraints = JNull,
       asg_assigned_at = None, asg_lease_expires_at = None, asg_accepted_at = None, asg_completed_at = None, asg_updated_at = None\<rparr>],
     result_envelopes := [\<lparr>res_id = ''res_1'', res_work_unit_id = ''wu_1'', res_attempt_id = ''att_1'', res_assignment_id = ''asg_1'',
       res_status = Res_succeeded, res_output_hash = ''oh'', res_result_hash = ''rh'',
       res_body = JObj [(''cost_estimate_micros'', JInt 1), (''actual_cost_micros'', JInt 5)], res_created_at = ''t''\<rparr>],
     verifier_reports := [\<lparr>vrr_id = ''vr_1'', vrr_work_unit_id = ''wu_1'', vrr_result_envelope_id = ''res_1'', vrr_status = ''passed'',
       vrr_recommendation = ''accept'', vrr_body = JObj [], vrr_created_at = ''t''\<rparr>]\<rparr>"

lemma overrun_rows:
  "\<exists>r. completed_rows (result_rows_for_run overrun_tables ''run_1'') = [r] \<and>
     row_result_body r = [(''cost_estimate_micros'', JInt 1), (''actual_cost_micros'', JInt 5)]"
  by (simp add: overrun_tables_def empty_tables_def result_rows_for_run_def joined_rows_for_run_def left_join_def decode_result_row_def
      completed_rows_def opt_column_def body_of_def get_null_def dget_or_def)

theorem overrun_has_no_report_witness:
  "\<exists>err w'. generate_cost_quality_report
     \<lparr>rp_repr = (\<lambda>_. []), rp_dumps = (\<lambda>_. []), rp_loads = (\<lambda>_. Inr JNull), rp_baselines = []\<rparr> ''run_1'' ''estimated''
     (empty_world\<lparr>committed := overrun_tables, current := overrun_tables\<rparr>) = (Inl err, w') \<and> current w' = overrun_tables"
proof -
  obtain r where r: "completed_rows (result_rows_for_run overrun_tables ''run_1'') = [r]"
      "row_result_body r = [(''cost_estimate_micros'', JInt 1), (''actual_cost_micros'', JInt 5)]"
    using overrun_rows by blast
  show ?thesis
    using overrun_has_no_report [of
        "\<lparr>rp_repr = (\<lambda>_. []), rp_dumps = (\<lambda>_. []), rp_loads = (\<lambda>_. Inr JNull), rp_baselines = []\<rparr>" "''run_1''" "''estimated''"
        "empty_world\<lparr>committed := overrun_tables, current := overrun_tables\<rparr>" _ 1 r]
    by (simp add: r resolve_baseline_def normalize_baseline_mode_def effective_cost_micros_def Let_def get_null_def dget_or_def)
qed

end
