(* ===== verification/Explainer.thy ===== *)
theory Explainer
  imports Host
begin

text \<open>
  Explanations of a route (\<open>src/tokenbank/router/route_explainer.py\<close>): the documents of the profiles, of the analysis and of
  the scoring (\<open>model_dump\<close> of \<open>models/task_analysis.py\<close>, \<open>task_profile.py\<close>, \<open>capacity_profile.py\<close>, \<open>route_decision.py\<close>), the
  trace of the decision and \<open>RouteExplainer\<close>. A hash is never empty and identifiers of validated objects need no second check.
\<close>

section \<open>Documents\<close>

definition float_opt :: "rat option \<Rightarrow> json" where
  "float_opt = json_of_option JFloat"

definition dump_input_shape :: "input_shape \<Rightarrow> json" where
  "dump_input_shape s = JObj
     [schema_version, (''explicit_refs_count'', JInt (int (is_explicit_refs_count s))),
      (''explicit_urls_count'', JInt (int (is_explicit_urls_count s))), (''file_refs_count'', JInt (int (is_file_refs_count s))),
      (''inline_chars'', JInt (int (is_inline_chars s))), (''inline_bytes'', JInt (int (is_inline_bytes s))),
      (''json_depth'', JInt (int (is_json_depth s))), (''list_items_count'', JInt (int (is_list_items_count s))),
      (''workspace_scan_requested'', JBool (is_workspace_scan_requested s))]"

definition dump_token_estimate :: "token_estimate \<Rightarrow> json" where
  "dump_token_estimate e = JObj
     [schema_version, (''tokenizer_profile_id'', JStr (te_tokenizer_profile_id e)),
      (''estimated_input_tokens'', JInt (te_input_tokens e)), (''estimated_output_tokens'', JInt (te_output_tokens e)),
      (''estimated_total_tokens'', JInt (te_total_tokens e)), (''confidence'', JFloat (te_confidence e)),
      (''method'', JStr (te_method e))]"

definition dump_cost_estimate :: "cost_estimate \<Rightarrow> json" where
  "dump_cost_estimate c = JObj
     [schema_version, (''cost_profile_id'', JStr (co_cost_profile_id c)), (''min_cost_micros'', JInt (co_min_cost_micros c)),
      (''expected_cost_micros'', JInt (co_expected_cost_micros c)), (''max_cost_micros'', JInt (co_max_cost_micros c)),
      (''confidence'', JFloat (co_confidence c)), (''cost_source'', JStr (co_cost_source c))]"

definition dump_privacy_scan :: "privacy_scan \<Rightarrow> json" where
  "dump_privacy_scan s = JObj
     [schema_version, (''raw_secret_detected'', JBool (ps_raw_secret_detected s)),
      (''possible_secret_detected'', JBool (ps_possible_secret_detected s)),
      (''private_data_detected'', JBool (ps_private_data_detected s)), (''remote_eligible'', JBool (ps_remote_eligible s)),
      (''matched_signal_counts'', JObj (map (\<lambda>(k, n). (k, JInt (int n))) (ps_matched_signal_counts s))),
      (''reason_codes'', str_list (ps_reason_codes s))]"

definition dump_complexity :: "complexity_estimate \<Rightarrow> json" where
  "dump_complexity c = JObj
     [schema_version, (''difficulty'', JStr (ce_difficulty c)), (''estimated_attempts'', JFloat (ce_estimated_attempts c)),
      (''requires_strong_reasoning'', JBool (ce_requires_strong_reasoning c)),
      (''requires_long_context'', JBool (ce_requires_long_context c)), (''requires_tools'', JBool (ce_requires_tools c)),
      (''reason_codes'', str_list (ce_reason_codes c))]"

definition dump_task_analysis :: "task_analysis_report \<Rightarrow> json" where
  "dump_task_analysis r = JObj
     [schema_version, (''task_analysis_id'', JStr (tar_task_analysis_id r)), (''work_unit_id'', JStr (tar_work_unit_id r)),
      (''source'', JStr (tar_source r)), (''routebook_id'', JStr (tar_routebook_id r)),
      (''routebook_version'', JStr (tar_routebook_version r)), (''task_type'', JStr (tar_task_type r)),
      (''input_shape'', dump_input_shape (tar_input_shape r)), (''token_estimate'', dump_token_estimate (tar_token_estimate r)),
      (''cost_estimate'', dump_cost_estimate (tar_cost_estimate r)), (''privacy_scan'', dump_privacy_scan (tar_privacy_scan r)),
      (''complexity'', dump_complexity (tar_complexity r)), (''effective_task_level'', JStr (tar_effective_task_level r)),
      (''effective_privacy_level'', JStr (tar_effective_privacy_level r)),
      (''preflight_decision'', JStr (tar_preflight_decision r)), (''confidence'', JFloat (tar_confidence r)),
      (''reason_codes'', str_list (tar_reason_codes r))]"

definition dump_required_capability :: "required_capability \<Rightarrow> json" where
  "dump_required_capability c = JObj
     [schema_version, (''capability'', JStr (rc_capability c)), (''min_score'', JFloat (rc_min_score c)),
      (''importance'', JStr (rc_importance c))]"

definition dump_task_profile :: "task_profile \<Rightarrow> json" where
  "dump_task_profile t = JObj
     [schema_version, (''task_profile_id'', JStr (tp_task_profile_id t)), (''work_unit_id'', JStr (tp_work_unit_id t)),
      (''routebook_id'', JStr (tp_routebook_id t)), (''routebook_version'', JStr (tp_routebook_version t)),
      (''source'', JStr (tp_source t)), (''task_family'', JStr (tp_task_family t)), (''task_type'', JStr (tp_task_type t)),
      (''difficulty'', JStr (tp_difficulty t)), (''risk_level'', JStr (tp_risk_level t)),
      (''privacy_level'', JStr (tp_privacy_level t)), (''context_size'', JStr (tp_context_size t)),
      (''latency_preference'', JStr (tp_latency_preference t)), (''cost_preference'', JStr (tp_cost_preference t)),
      (''required_capabilities'', JList (map dump_required_capability (tp_required_capabilities t))),
      (''forbidden_capabilities'', str_list (tp_forbidden_capabilities t)), (''requires_tools'', str_list (tp_requires_tools t)),
      (''requires_verifier_recipe_id'', JBool (tp_requires_verifier_recipe_id t)),
      (''success_criteria'', str_list (tp_success_criteria t)),
      (''ambiguity'', JObj [schema_version, (''status'', JStr (tp_ambiguity_status t)), (''unresolved_questions'', JList [])]),
      (''confidence'', JFloat (tp_confidence t)), (''profile_reason_codes'', str_list (tp_profile_reason_codes t))]"

definition dump_model_profile :: "model_profile \<Rightarrow> json" where
  "dump_model_profile m = JObj
     [schema_version, (''provider_id'', JStr (mp_provider_id m)), (''model_id'', JStr (mp_model_id m)),
      (''model_tier'', JStr (mp_model_tier m)), (''context_window_class'', JStr (mp_context_window_class m)),
      (''supports_structured_output'', JBool (mp_supports_structured_output m)),
      (''supports_tool_calling'', JBool (mp_supports_tool_calling m)),
      (''wire_quirks_profile_id'', str_opt (mp_wire_quirks_profile_id m))]"

definition dump_capacity_profile :: "capacity_profile \<Rightarrow> json" where
  "dump_capacity_profile c = JObj
     [schema_version, (''capacity_profile_id'', JStr (cpr_capacity_profile_id c)),
      (''capacity_node_id'', JStr (cpr_capacity_node_id c)), (''backend_id'', JStr (cpr_backend_id c)),
      (''backend_class'', JStr (cpr_backend_class c)), (''ownership_scope'', JStr (cpr_ownership_scope c)),
      (''execution_boundary'', JStr (cpr_execution_boundary c)), (''availability_state'', JStr (cpr_availability_state c)),
      (''model_profile'', json_of_option dump_model_profile (cpr_model_profile c)),
      (''capabilities'', JObj (map (\<lambda>(k, x). (k, JObj [schema_version, (''score'', JFloat (cap_score x)),
         (''evidence'', JStr (cap_evidence x))])) (cpr_capabilities c))),
      (''cost'', JObj [schema_version, (''estimated_cost_micros'', JInt (cpr_estimated_cost_micros c)),
         (''cost_tier'', JStr (cpr_cost_tier c))]),
      (''latency'', JObj [schema_version, (''p50_ms'', int_opt (cpr_p50_ms c)), (''p95_ms'', int_opt (cpr_p95_ms c))]),
      (''quality_memory'', JObj [schema_version, (''verifier_pass_rate'', float_opt (qm_verifier_pass_rate (cpr_quality_memory c))),
         (''accepted_result_rate'', float_opt (qm_accepted_result_rate (cpr_quality_memory c))),
         (''sample_size'', JInt (qm_sample_size (cpr_quality_memory c)))]),
      (''verified_for'', JList (map (\<lambda>v. JObj [schema_version, (''task_type'', JStr (vft_task_type v)),
         (''verifier_recipe_id'', JStr (vft_verifier_recipe_id v)), (''status'', JStr (vft_status v))]) (cpr_verified_for c)))]"

definition component_fields :: "components \<Rightarrow> fields" where
  "component_fields w =
     [(''capability_fit'', JFloat (w_capability w)), (''policy_fit'', JFloat (w_policy w)), (''quality_fit'', JFloat (w_quality w)),
      (''cost_fit'', JFloat (w_cost w)), (''latency_fit'', JFloat (w_latency w)), (''trust_fit'', JFloat (w_trust w))]"

definition dump_candidate_score :: "candidate_score \<Rightarrow> json" where
  "dump_candidate_score s = JObj
     [schema_version, (''total'', JFloat (cs_total s)), (''capability_fit'', JFloat (cs_capability_fit s)),
      (''policy_fit'', JFloat (cs_policy_fit s)), (''quality_fit'', JFloat (cs_quality_fit s)), (''cost_fit'', JFloat (cs_cost_fit s)),
      (''latency_fit'', JFloat (cs_latency_fit s)), (''trust_fit'', JFloat (cs_trust_fit s)),
      (''uncertainty_penalty'', JFloat (cs_uncertainty_penalty s))]"

definition dump_score_trace :: "candidate_score_trace \<Rightarrow> json" where
  "dump_score_trace s = JObj
     [schema_version, (''candidate_id'', JStr (tr_candidate_id s)), (''score'', dump_candidate_score (tr_score s)),
      (''rank'', json_of_option (\<lambda>n. JInt (int n)) (tr_rank s)), (''hard_filter_decision'', JStr (pass_if (tr_passed s))),
      (''hard_filter_results'', JObj (map (\<lambda>(k, v). (k, JStr v)) (tr_hard_filter_results s))),
      (''weighted_components'', JObj (component_fields (tr_weighted_components s))),
      (''reason_codes'', str_list (tr_reason_codes s))]"

definition dump_rejected :: "rejected_candidate \<Rightarrow> json" where
  "dump_rejected r = JObj
     [schema_version, (''candidate_id'', JStr (rj_candidate_id r)), (''reason_codes'', str_list (rj_reason_codes r))]"

definition dump_scoring_report :: "route_scoring_report \<Rightarrow> json" where
  "dump_scoring_report r = JObj
     [schema_version, (''route_scoring_id'', JStr (rsr_route_scoring_id r)), (''route_plan_id'', JStr (rsr_route_plan_id r)),
      (''work_unit_id'', JStr (rsr_work_unit_id r)), (''routebook_id'', JStr (rsr_routebook_id r)),
      (''routebook_version'', JStr (rsr_routebook_version r)), (''scorer_id'', JStr (rsr_scorer_id r)),
      (''scorer_version'', JStr (rsr_scorer_version r)),
      (''baseline_selected_candidate_id'', JStr (rsr_baseline_selected_candidate_id r)),
      (''selected_candidate_id'', JStr (rsr_selected_candidate_id r)), (''selection_status'', JStr (rsr_selection_status r)),
      (''score_weights'', JObj (component_fields (rsr_score_weights r))),
      (''candidate_scores'', JList (map dump_score_trace (rsr_candidate_scores r))),
      (''rejected_candidates'', JList (map dump_rejected (rsr_rejected_candidates r))),
      (''reason_codes'', str_list (rsr_reason_codes r))]"

section \<open>The trace of a decision\<close>

record route_decision_trace =
  rdt_route_decision_id :: string
  rdt_route_plan_id :: string
  rdt_work_unit_id :: string
  rdt_routebook_id :: string
  rdt_routebook_version :: string
  rdt_task_analysis_hash :: "string option"
  rdt_task_profile_hash :: string
  rdt_capacity_snapshot_hash :: string
  rdt_selected_candidate_id :: string
  rdt_candidate_scores :: "candidate_score_trace list"
  rdt_rejected_candidates :: "rejected_candidate list"
  rdt_estimate_summary :: fields
  rdt_reason_codes :: "string list"
  rdt_rule_ids :: "string list"
  rdt_user_summary :: string

definition dump_decision_trace :: "route_decision_trace \<Rightarrow> json" where
  "dump_decision_trace t = JObj
     [schema_version, (''route_decision_id'', JStr (rdt_route_decision_id t)), (''route_plan_id'', JStr (rdt_route_plan_id t)),
      (''work_unit_id'', JStr (rdt_work_unit_id t)), (''routebook_id'', JStr (rdt_routebook_id t)),
      (''routebook_version'', JStr (rdt_routebook_version t)), (''task_analysis_hash'', str_opt (rdt_task_analysis_hash t)),
      (''task_profile_hash'', JStr (rdt_task_profile_hash t)), (''capacity_snapshot_hash'', JStr (rdt_capacity_snapshot_hash t)),
      (''selected_candidate_id'', JStr (rdt_selected_candidate_id t)),
      (''candidate_scores'', JList (map dump_score_trace (rdt_candidate_scores t))),
      (''rejected_candidates'', JList (map dump_rejected (rdt_rejected_candidates t))),
      (''estimate_summary'', JObj (rdt_estimate_summary t)), (''reason_codes'', str_list (rdt_reason_codes t)),
      (''rule_ids'', str_list (rdt_rule_ids t)), (''user_summary'', JStr (rdt_user_summary t))]"

definition make_decision_trace :: "route_decision_trace \<Rightarrow> route_decision_trace result" where
  "make_decision_trace t =
     bind_result (non_empty_str (rdt_routebook_id t)) (\<lambda>rid.
     bind_result (non_empty_str (rdt_routebook_version t)) (\<lambda>ver.
     bind_result (map_result non_empty_str (rdt_rule_ids t)) (\<lambda>rules.
     Inr (t\<lparr>rdt_routebook_id := rid, rdt_routebook_version := ver, rdt_rule_ids := rules\<rparr>))))"

definition estimate_summary :: "task_analysis_report option \<Rightarrow> fields" where
  "estimate_summary report =
     (case report of
        None \<Rightarrow> []
      | Some r \<Rightarrow>
          [(''task_analysis_id'', JStr (tar_task_analysis_id r)),
           (''estimated_input_tokens'', JInt (te_input_tokens (tar_token_estimate r))),
           (''estimated_output_tokens'', JInt (te_output_tokens (tar_token_estimate r))),
           (''estimated_total_tokens'', JInt (te_total_tokens (tar_token_estimate r))),
           (''expected_cost_micros'', JInt (co_expected_cost_micros (tar_cost_estimate r))),
           (''effective_task_level'', JStr (tar_effective_task_level r)),
           (''effective_privacy_level'', JStr (tar_effective_privacy_level r)),
           (''preflight_decision'', JStr (tar_preflight_decision r)), (''confidence'', JFloat (tar_confidence r))])"

record route_explainer =
  rx_routebook :: loaded_routebook
  rx_routebook_v1 :: loaded_routebook_v1
  rx_backend_registry :: backend_registry

definition route_explainer_from_dirs :: "route_environment \<Rightarrow> string \<Rightarrow> string \<Rightarrow> string \<Rightarrow> route_explainer result" where
  "route_explainer_from_dirs env config_dir routebook_dir routebook_v1_dir =
     (let p = env_platform env; files = env_files env in
      bind_result (load_config_dir p config_dir (rf_yaml files config_dir) (rf_pricing files config_dir)) (\<lambda>cfg.
      bind_result (load_routebook_dir p routebook_dir (rf_yaml files routebook_dir)) (\<lambda>rb.
      bind_result (load_routebook_v1_dir p routebook_v1_dir (rf_yaml files routebook_v1_dir)) (\<lambda>v1.
      bind_result (load_backend_manifests (env_repr env) (env_backend env) cfg) (\<lambda>reg.
      Inr \<lparr>rx_routebook = rb, rx_routebook_v1 = v1, rx_backend_registry = reg\<rparr>)))))"

definition decision_trace ::
  "platform \<Rightarrow> (json \<Rightarrow> string) \<Rightarrow> route_explainer \<Rightarrow> work_unit \<Rightarrow> route_plan \<Rightarrow> task_profile \<Rightarrow> capacity_profile list
   \<Rightarrow> task_analysis_report option \<Rightarrow> route_scoring_report option \<Rightarrow> route_decision_trace result" where
  "decision_trace p repr x wu plan t profiles report scoring =
     (let hash = canonical_json_hash (sha256 p) (float_repr p) in
      bind_result (v1_routebook_id repr (rx_routebook_v1 x)) (\<lambda>rid.
      bind_result (v1_version repr (rx_routebook_v1 x)) (\<lambda>ver.
      bind_result (v1_scoring (rx_routebook_v1 x)) (\<lambda>sc.
      bind_result (item sc ''scorer_id'') (\<lambda>scorer.
      bind_result (item sc ''version'') (\<lambda>scorer_version.
      make_decision_trace
        \<lparr>rdt_route_decision_id = ''rd_'' @ plan_route_plan_id plan, rdt_route_plan_id = plan_route_plan_id plan,
         rdt_work_unit_id = wun_work_unit_id wu, rdt_routebook_id = rid, rdt_routebook_version = ver,
         rdt_task_analysis_hash = map_option (\<lambda>r. hash (dump_task_analysis r)) report,
         rdt_task_profile_hash = hash (dump_task_profile t),
         rdt_capacity_snapshot_hash = hash (JList (map dump_capacity_profile profiles)),
         rdt_selected_candidate_id = (case scoring of None \<Rightarrow> plan_selected_candidate_id plan | Some s \<Rightarrow> rsr_selected_candidate_id s),
         rdt_candidate_scores = (case scoring of None \<Rightarrow> [] | Some s \<Rightarrow> rsr_candidate_scores s),
         rdt_rejected_candidates = (case scoring of None \<Rightarrow> [] | Some s \<Rightarrow> rsr_rejected_candidates s),
         rdt_estimate_summary = estimate_summary report,
         rdt_reason_codes = (if scoring \<noteq> None
           then [''host_model_profiler_only'', ''wp_rb3_route_scorer_applied'', ''selected_by_scored_routebook_candidate'']
           else [''host_model_profiler_only'', ''phase0_route_selection_unchanged'', ''selected_by_existing_routebook_priority'']),
         rdt_rule_ids = [''routebook:'' @ rid @ ''@'' @ ver,
             ''route_scorer:'' @ py_str repr scorer @ ''@'' @ py_str repr scorer_version,
             ''ontology:task_type_defaults:'' @ wun_task_type wu, ''verifier_mapping:'' @ plan_verifier_recipe_id plan] @
           map (\<lambda>c. ''candidate_rule:'' @ cand_route_candidate_id c) (plan_candidates plan),
         rdt_user_summary = ''TokenBank treated the host model as a profiler and used Core RouteScorer hard filters plus weighted '' @
           ''scoring to rank private capacity. The scorer does not execute work, bypass policy, or call provider models.''\<rparr>))))))"

section \<open>Explanations\<close>

record explanation =
  ex_task_profile :: task_profile
  ex_capacity_profiles :: "capacity_profile list"
  ex_decision_trace :: route_decision_trace
  ex_scoring_report :: "route_scoring_report option"
  ex_analysis_report :: "task_analysis_report option"

definition explain ::
  "route_environment \<Rightarrow> route_explainer \<Rightarrow> work_unit \<Rightarrow> route_plan \<Rightarrow> task_analysis_report option \<Rightarrow> explanation result" where
  "explain env x wu plan report =
     (let repr = env_repr env in
      bind_result (task_profile_of repr (rx_routebook x) (rx_routebook_v1 x) wu plan) (\<lambda>t.
      bind_result (capacity_profiles_for_candidates (rx_backend_registry x) (plan_candidates plan)) (\<lambda>profiles.
      bind_result (case report of
          None \<Rightarrow> Inr None
        | Some r \<Rightarrow> bind_result (score (env_fsum env) repr (rx_routebook x) (rx_routebook_v1 x) (rx_backend_registry x) wu plan t profiles r)
            (\<lambda>s. Inr (Some s))) (\<lambda>scoring.
      bind_result (decision_trace (env_platform env) repr x wu plan t profiles report scoring) (\<lambda>trace.
      Inr \<lparr>ex_task_profile = t, ex_capacity_profiles = profiles, ex_decision_trace = trace, ex_scoring_report = scoring,
           ex_analysis_report = report\<rparr>)))))"

definition explanation_fields :: "platform \<Rightarrow> explanation \<Rightarrow> fields" where
  "explanation_fields p e =
     (let hash = canonical_json_hash (sha256 p) (float_repr p) in
      [(''task_profile'', dump_task_profile (ex_task_profile e)),
       (''capacity_profiles'', JList (map dump_capacity_profile (ex_capacity_profiles e))),
       (''route_decision_trace'', dump_decision_trace (ex_decision_trace e))] @
      (case ex_scoring_report e of
         None \<Rightarrow> []
       | Some s \<Rightarrow> [(''route_scoring_report'', dump_scoring_report s), (''route_scoring_hash'', JStr (hash (dump_scoring_report s)))]) @
      (case ex_analysis_report e of
         None \<Rightarrow> []
       | Some r \<Rightarrow> [(''task_analysis_report'', dump_task_analysis r), (''task_analysis_hash'', JStr (hash (dump_task_analysis r)))]))"

end
