(* ===== verification/Commands.thy ===== *)
theory Commands
  imports Ingress Metrics Explainer Receipts
begin

text \<open>
  The remaining commands of the host adapter (\<open>src/tokenbank/host_adapter/core.py\<close>, \<open>summaries.py\<close>): capabilities, the estimate,
  explanation, score and analysis of a route that is not scheduled, the excerpt of the routebook, and the commands over the
  accounts, the ledger, the receipts and the reports. \<open>RouteScoringReport.model_validate\<close> of a dumped report is the report.
\<close>

section \<open>Routes that are not scheduled\<close>

definition estimate_work_unit :: "normalized_request \<Rightarrow> work_unit op" where
  "estimate_work_unit r =
     (let ty = nr_task_type r in
      bnd (of_result (case dget supported_demo_tasks ty of None \<Rightarrow> Inl (KeyError ty) | Some task \<Rightarrow>
             demo_work_unit task (''run_estimate_'' @ ty) (''wu_estimate_'' @ ty) ty (nr_inline_input r) [])) (\<lambda>wu.
      bnd utc_text_now (\<lambda>created. bnd utc_text_now (\<lambda>changed.
      ret (wu\<lparr>wun_created_at := created, wun_updated_at := changed\<rparr>)))))"

record planned_request =
  pr_request :: normalized_request
  pr_config :: loaded_config
  pr_work_unit :: work_unit
  pr_plan :: route_plan
  pr_analysis :: task_analysis_report

definition environment_now :: "host_environment \<Rightarrow> route_environment op" where
  "environment_now he = gets (\<lambda>w. on_platform he (plat w))"

text \<open>What the four commands begin with.\<close>

definition plan_and_analyze ::
  "host_environment \<Rightarrow> host_adapter \<Rightarrow> string \<Rightarrow> string option \<Rightarrow> json \<Rightarrow> planned_request op" where
  "plan_and_analyze he ha v1_dir task_type payload =
     bnd (of_result (normalize_submit_request task_type payload)) (\<lambda>r.
     bnd (environment_now he) (\<lambda>env.
     bnd (of_result (load_config_dir (env_platform env) (ha_config_dir ha) (rf_yaml (env_files env) (ha_config_dir ha))
            (rf_pricing (env_files env) (ha_config_dir ha)))) (\<lambda>cfg.
     bnd (estimate_work_unit r) (\<lambda>wu.
     bnd (of_result (router_service_from_dirs env (cfg_root cfg) (adapter_routebook_root ha cfg) None)) (\<lambda>svc.
     bnd (plan_route env svc (dump_work_unit wu) False) (\<lambda>plan.
     bnd (of_result (task_analyzer_from_dirs env (cfg_root cfg) v1_dir)) (\<lambda>(v1, analyzer_cfg).
     bnd (of_result (analyze (env_platform env) (env_repr env) v1 analyzer_cfg wu (Some plan))) (\<lambda>report.
     ret \<lparr>pr_request = r, pr_config = cfg, pr_work_unit = wu, pr_plan = plan, pr_analysis = report\<rparr>))))))))"

definition explained_plan ::
  "host_environment \<Rightarrow> host_adapter \<Rightarrow> string \<Rightarrow> string option \<Rightarrow> json \<Rightarrow> (planned_request \<times> route_plan \<times> explanation) op" where
  "explained_plan he ha v1_dir task_type payload =
     bnd (plan_and_analyze he ha v1_dir task_type payload) (\<lambda>q.
     bnd (environment_now he) (\<lambda>env.
     bnd (of_result (bind_result (route_explainer_from_dirs env (cfg_root (pr_config q)) (adapter_routebook_root ha (pr_config q)) v1_dir)
            (\<lambda>x. explain env x (pr_work_unit q) (pr_plan q) (Some (pr_analysis q))))) (\<lambda>e.
     ret (q, case ex_scoring_report e of None \<Rightarrow> pr_plan q | Some s \<Rightarrow> apply_scored_selection (pr_plan q) s, e))))"

definition explain_route :: "host_environment \<Rightarrow> host_adapter \<Rightarrow> string \<Rightarrow> string option \<Rightarrow> json \<Rightarrow> fields op" where
  "explain_route he ha v1_dir task_type payload =
     bnd (explained_plan he ha v1_dir task_type payload) (\<lambda>(q, plan, e). bnd (gets plat) (\<lambda>p.
     ret ([(''status'', JStr ''ok''), (''task_type'', JStr (nr_task_type (pr_request q))), (''route_plan'', dump_route_plan plan)] @
       explanation_fields p e)))"

definition score_route :: "host_environment \<Rightarrow> host_adapter \<Rightarrow> string \<Rightarrow> string option \<Rightarrow> json \<Rightarrow> fields op" where
  "score_route he ha v1_dir task_type payload =
     bnd (explain_route he ha v1_dir task_type payload) (\<lambda>d.
     bnd (of_result (map_result (\<lambda>k. bind_result (item d k) (\<lambda>v. Inr (k, v)))
            [''task_type'', ''route_plan'', ''task_profile'', ''capacity_profiles'', ''task_analysis_report'', ''task_analysis_hash'',
             ''route_scoring_report'', ''route_scoring_hash''])) (\<lambda>kvs.
     ret ((''status'', JStr ''ok'') # kvs)))"

definition analyze_route :: "host_environment \<Rightarrow> host_adapter \<Rightarrow> string \<Rightarrow> string option \<Rightarrow> json \<Rightarrow> fields op" where
  "analyze_route he ha v1_dir task_type payload =
     bnd (plan_and_analyze he ha v1_dir task_type payload) (\<lambda>q. bnd (hash_json (dump_task_analysis (pr_analysis q))) (\<lambda>h.
     ret [(''status'', JStr ''ok''), (''task_type'', JStr (nr_task_type (pr_request q))),
          (''task_analysis_report'', dump_task_analysis (pr_analysis q)), (''task_analysis_hash'', JStr h)]))"

definition estimate_route :: "host_environment \<Rightarrow> host_adapter \<Rightarrow> string \<Rightarrow> string option \<Rightarrow> json \<Rightarrow> fields op" where
  "estimate_route he ha v1_dir task_type payload =
     bnd (explained_plan he ha v1_dir task_type payload) (\<lambda>(q, plan, e).
     bnd (environment_now he) (\<lambda>env.
     bnd (of_result (selected_candidate_of plan)) (\<lambda>c.
     bnd (of_result (bind_result (load_backend_manifests (env_repr env) (env_backend env) (pr_config q))
            (\<lambda>reg. registry_get reg (cand_backend_id c)))) (\<lambda>b.
     bnd (hash_json (dump_task_analysis (pr_analysis q))) (\<lambda>h.
     let d = explanation_fields (env_platform env) e in
     ret [(''status'', JStr ''ok''), (''task_type'', JStr (nr_task_type (pr_request q))), (''route_plan'', dump_route_plan plan),
          (''selected_candidate'', dump_route_candidate c), (''route_scoring_report'', get_null d ''route_scoring_report''),
          (''route_scoring_hash'', get_null d ''route_scoring_hash''),
          (''task_analysis_report'', dump_task_analysis (pr_analysis q)), (''task_analysis_hash'', JStr h),
          (''estimated_cost_micros'', JInt (if cand_estimated_cost_micros c \<noteq> 0 then cand_estimated_cost_micros c
             else cm_estimated_cost_micros (bm_cost_model b))),
          (''cost_source'', JStr (cm_cost_source (bm_cost_model b))),
          (''verifier_recipe_id'', JStr (plan_verifier_recipe_id plan))])))))"

section \<open>The routebook and the capacity\<close>

definition fallback_rules :: "loaded_routebook \<Rightarrow> json list result" where
  "fallback_rules rb = bind_result (rb_view (JList []) rb ''fallback_rules'' ''fallback_rules'') as_list"

definition routebook_excerpt :: "loaded_routebook \<Rightarrow> string option \<Rightarrow> fields result" where
  "routebook_excerpt rb task_type =
     (let hashes = JObj (map (\<lambda>(k, h). (k, JStr h)) (rb_content_hashes rb));
          rules_for = (\<lambda>ty rules. JList (map JObj (filter (\<lambda>r. get_null r ''task_type'' = JStr ty) rules))) in
      case task_type of
        None \<Rightarrow>
          bind_result (bind_result (rb_view (JList []) rb ''task_types'' ''task_types'') as_list) (\<lambda>types.
          bind_result (bind_result (rb_view (JObj []) rb ''verifier_mapping'' ''verifier_mapping'') as_dict) (\<lambda>mapping.
          bind_result (bind_result (rb_view (JObj []) rb ''policy_hints'' ''policy_hints'') as_dict) (\<lambda>hints.
          Inr [(''status'', JStr ''ok''), (''task_types'', JList types), (''verifier_mapping'', JObj mapping),
               (''policy_hints'', JObj hints), (''content_hashes'', hashes)])))
      | Some ty \<Rightarrow>
          bind_result (task_type_entry rb ty) (\<lambda>entry.
          bind_result (candidate_rules rb) (\<lambda>candidates.
          bind_result (bind_result (fallback_rules rb) (map_result as_dict)) (\<lambda>fallbacks.
          bind_result (bind_result (rb_view (JObj []) rb ''policy_hints'' ''policy_hints'') as_dict) (\<lambda>hints.
          bind_result (bind_result (rb_view (JObj []) rb ''verifier_mapping'' ''verifier_mapping'') as_dict) (\<lambda>mapping.
          Inr [(''status'', JStr ''ok''), (''task_type'', JStr ty), (''task_type_entry'', JObj entry),
               (''candidate_rules'', rules_for ty candidates), (''fallback_rules'', rules_for ty fallbacks),
               (''policy_hints'', dget_or (JList []) hints ty), (''verifier_recipe_id'', get_null mapping ty),
               (''content_hashes'', hashes)]))))))"

definition get_routebook_excerpt :: "host_environment \<Rightarrow> host_adapter \<Rightarrow> string option \<Rightarrow> fields op" where
  "get_routebook_excerpt he ha task_type =
     bnd (environment_now he) (\<lambda>env.
     let p = env_platform env; files = env_files env in
     bnd (of_result (load_config_dir p (ha_config_dir ha) (rf_yaml files (ha_config_dir ha)) (rf_pricing files (ha_config_dir ha)))) (\<lambda>cfg.
     of_result (let dir = adapter_routebook_root ha cfg in
       bind_result (load_routebook_dir p dir (rf_yaml files dir)) (\<lambda>rb. routebook_excerpt rb task_type))))"

definition list_capabilities :: "host_environment \<Rightarrow> host_adapter \<Rightarrow> fields op" where
  "list_capabilities he ha =
     bnd (control_plane_context he ha (\<lambda>_. discover_capacity_nodes)) (\<lambda>nodes.
     ret [(''status'', JStr ''ok''), (''product'', JStr ''TokenBank''), (''capacity_network'', JStr ''Private Agent Capacity Network''),
          (''supported_task_types'', str_list (sort (map fst supported_demo_tasks))),
          (''capacity_node_count'', JInt (int (length nodes))), (''capacity_nodes'', JList nodes),
          (''when_to_use'', str_list
             [''Submit schema-bound Work Units to private local or control-plane capacity.'',
              ''Route verifiable subtasks such as url_check, dedup, webpage_extraction, topic_classification, and claim_extraction.'']),
          (''when_not_to_use'', str_list
             [''Do not use as a model proxy or final-answer writer.'',
              ''Do not pass credentials, OAuth tokens, cookies, or API keys.'',
              ''Do not ask it to scan a workspace or read arbitrary files.'']),
          (''caveats'', str_list
             [''Phase 0 MCP is a narrow stdio stub.'', ''External provider calls are not executed by this adapter.'',
              ''Local zero-cost accounting uses zero_internal_phase0 caveats.''])])"

section \<open>Accounts, ledger, receipts and reports\<close>

definition get_artifact :: "string \<Rightarrow> fields" where
  "get_artifact artifact_ref_id =
     [(''status'', JStr ''not_implemented''), (''artifact_ref_id'', JStr artifact_ref_id),
      (''reason'', JStr ''redacted_artifact_reading_deferred'')]"

definition get_cost_quality_summary :: "report_environment \<Rightarrow> host_environment \<Rightarrow> host_adapter \<Rightarrow> string \<Rightarrow> json op" where
  "get_cost_quality_summary rep he ha run_id =
     control_plane_context he ha (\<lambda>_. generate_cost_quality_report rep run_id ''none'')"

text \<open>\<open>{"status": "ok", **result}\<close>\<close>

definition ok_with :: "json \<Rightarrow> fields" where
  "ok_with document = updated [(''status'', JStr ''ok'')] (json_fields document)"

definition ok_list :: "string \<Rightarrow> string \<Rightarrow> json list \<Rightarrow> fields" where
  "ok_list count_key key xs = [(''status'', JStr ''ok''), (count_key, JInt (int (length xs))), (key, JList xs)]"

definition list_account_snapshots :: "host_environment \<Rightarrow> host_adapter \<Rightarrow> string option \<Rightarrow> string option \<Rightarrow> fields op" where
  "list_account_snapshots he ha provider status =
     bnd (control_plane_context he ha (\<lambda>_. list_snapshots provider status)) (\<lambda>xs. ret (ok_list ''snapshot_count'' ''snapshots'' xs))"

definition upsert_manual_account_snapshot ::
  "host_environment \<Rightarrow> host_adapter \<Rightarrow> string \<Rightarrow> string \<Rightarrow> string option \<Rightarrow> string \<Rightarrow> string \<Rightarrow> int option \<Rightarrow> int option
   \<Rightarrow> int option \<Rightarrow> int option \<Rightarrow> int option \<Rightarrow> string list option \<Rightarrow> fields op" where
  "upsert_manual_account_snapshot he ha provider label secret_ref status balance_source available spend budget rpm tpm models =
     bnd (build_manual_account_snapshot provider label secret_ref status balance_source available spend budget rpm tpm models)
       (\<lambda>snapshot.
     bnd (control_plane_context he ha (\<lambda>_. upsert_account_snapshot snapshot)) (\<lambda>d. ret (ok_with d)))"

definition refresh_account_snapshots :: "host_environment \<Rightarrow> host_adapter \<Rightarrow> json op" where
  "refresh_account_snapshots he ha = control_plane_context he ha (\<lambda>_. refresh_local)"

definition record_usage_ledger_entry ::
  "host_environment \<Rightarrow> host_adapter \<Rightarrow> string \<Rightarrow> string \<Rightarrow> string option \<Rightarrow> fields op" where
  "record_usage_ledger_entry he ha v1_dir work_unit_id account_snapshot_id =
     bnd (control_plane_context he ha (\<lambda>_. record_for_work_unit (env_repr (he_route he)) (rf_yaml (env_files (he_route he)) v1_dir)
            work_unit_id account_snapshot_id v1_dir)) (\<lambda>d. ret (ok_with d))"

definition list_usage_ledger_entries :: "host_environment \<Rightarrow> host_adapter \<Rightarrow> string option \<Rightarrow> string option \<Rightarrow> fields op" where
  "list_usage_ledger_entries he ha work_unit_id run_id =
     bnd (control_plane_context he ha (\<lambda>_. list_entries work_unit_id run_id)) (\<lambda>xs. ret (ok_list ''entry_count'' ''entries'' xs))"

definition create_audit_receipt ::
  "host_environment \<Rightarrow> host_adapter \<Rightarrow> string \<Rightarrow> string \<Rightarrow> string option \<Rightarrow> string option \<Rightarrow> fields op" where
  "create_audit_receipt he ha v1_dir work_unit_id usage_ledger_entry_id account_snapshot_id =
     bnd (control_plane_context he ha (\<lambda>_. create_for_work_unit (env_repr (he_route he)) (rf_yaml (env_files (he_route he)) v1_dir)
            work_unit_id usage_ledger_entry_id account_snapshot_id v1_dir)) (\<lambda>d. ret (ok_with d))"

definition list_audit_receipts :: "host_environment \<Rightarrow> host_adapter \<Rightarrow> string option \<Rightarrow> string option \<Rightarrow> fields op" where
  "list_audit_receipts he ha work_unit_id run_id =
     bnd (control_plane_context he ha (\<lambda>_. list_receipts work_unit_id run_id)) (\<lambda>xs. ret (ok_list ''receipt_count'' ''receipts'' xs))"

text \<open>The text of the file is decoded first.\<close>

definition submit_from_file ::
  "(string \<Rightarrow> json result) \<Rightarrow> (string \<Rightarrow> string result) \<Rightarrow> host_environment \<Rightarrow> host_adapter \<Rightarrow> string option \<Rightarrow> string \<Rightarrow> bool \<Rightarrow> json op"
  where
  "submit_from_file loads read_text he ha task_type path wait =
     bnd (of_result (bind_result (read_text path) loads)) (\<lambda>payload. submit_work_unit he ha task_type payload wait)"

end
