(* ===== verification/Mcp.thy ===== *)
theory Mcp
  imports Commands
begin

text \<open>
  The stdio server of the host adapter (\<open>src/tokenbank/host_adapter/mcp_server.py\<close>): the definitions of its tools, a call of a tool,
  the answer to one JSON-RPC request and the loop over the lines of the input. Here too: what a request may change, and that the
  answers come in the order of the requests. \<open>json.loads\<close> is an argument; the process serves one request after another.
\<close>

section \<open>Tools\<close>

record mcp_server =
  mcp_host :: host_environment
  mcp_core :: host_adapter
  mcp_loads :: "string \<Rightarrow> json result"

definition mcp_tool_names :: "string list" where
  "mcp_tool_names =
     [''tokenbank_list_capabilities'', ''tokenbank_estimate'', ''tokenbank_submit'', ''tokenbank_get_result'', ''tokenbank_cancel'',
      ''tokenbank_get_routebook_excerpt'', ''tokenbank_get_route_explanation'', ''tokenbank_get_task_analysis'',
      ''tokenbank_get_route_score'']"

definition tool :: "string \<Rightarrow> string \<Rightarrow> json \<Rightarrow> json \<Rightarrow> json" where
  "tool name description input_schema output_schema = JObj
     [(''name'', JStr name), (''description'', JStr description), (''inputSchema'', input_schema), (''outputSchema'', output_schema)]"

definition task_schema_properties :: fields where
  "task_schema_properties =
     [(''task_type'', JObj [(''type'', JStr ''string''),
         (''enum'', str_list [''url_check'', ''dedup'', ''webpage_extraction'', ''topic_classification'', ''claim_extraction''])]),
      (''input'', JObj [(''type'', JStr ''object''), (''description'', JStr ''Explicit Work Unit input object.'')])]"

definition closed_schema :: "fields \<Rightarrow> string list \<Rightarrow> json" where
  "closed_schema properties required = JObj
     [(''type'', JStr ''object''), (''properties'', JObj properties), (''required'', str_list required),
      (''additionalProperties'', JBool False)]"

definition task_input_schema :: "fields \<Rightarrow> json" where
  "task_input_schema others = closed_schema (task_schema_properties @ others) [''task_type'', ''input'']"

definition work_unit_id_schema :: json where
  "work_unit_id_schema = closed_schema
     [(''work_unit_id'', JObj [(''type'', JStr ''string''), (''description'', JStr ''TokenBank Work Unit id.'')])] [''work_unit_id'']"

definition tool_definitions :: "json list" where
  "tool_definitions =
     (let any_object = JObj [(''type'', JStr ''object'')] in
      [tool ''tokenbank_list_capabilities'' ''List Private Agent Capacity Network capabilities and caveats.''
         (JObj [(''type'', JStr ''object''), (''properties'', JObj [])]) any_object,
       tool ''tokenbank_estimate'' ''Estimate a schema-bound Work Unit route without scheduling.'' (task_input_schema []) any_object,
       tool ''tokenbank_submit'' ''Submit a schema-bound Work Unit through HostAdapterCore.''
         (task_input_schema [(''wait'', JObj [(''type'', JStr ''boolean''),
            (''description'', JStr ''P0 accepts but does not execute directly.''), (''default'', JBool False)])]) any_object,
       tool ''tokenbank_get_result'' ''Return HostResultSummary for a Work Unit when available.'' work_unit_id_schema any_object,
       tool ''tokenbank_cancel'' ''Return P0 cancel status for a Work Unit.'' work_unit_id_schema any_object,
       tool ''tokenbank_get_routebook_excerpt'' ''Return a bounded routebook excerpt for supported task types.''
         (JObj [(''type'', JStr ''object''),
            (''properties'', JObj [(''task_type'', JObj [(''type'', JStr ''string''), (''description'', JStr ''Optional supported task type.'')])]),
            (''additionalProperties'', JBool False)]) any_object,
       tool ''tokenbank_get_route_explanation'' ''Return a bounded Routebook V1 explanation without scheduling.''
         (task_input_schema []) any_object,
       tool ''tokenbank_get_task_analysis'' ''Return deterministic TaskAnalysisReport without scheduling.''
         (task_input_schema []) any_object,
       tool ''tokenbank_get_route_score'' ''Return WP-RB3 RouteScoringReport without scheduling.'' (task_input_schema []) any_object])"

definition optional_task_type :: "fields \<Rightarrow> string option" where
  "optional_task_type args = text_or_none (get_null args ''task_type'')"

definition input_payload :: "fields \<Rightarrow> json" where
  "input_payload args = (case get_null args ''input'' of JObj d \<Rightarrow> JObj d | JList xs \<Rightarrow> JList xs | _ \<Rightarrow> JNull)"

definition required_work_unit_id :: "fields \<Rightarrow> string result" where
  "required_work_unit_id args = required_text ''work_unit_id is required'' (get_null args ''work_unit_id'')"

text \<open>The commands of the server use the routebook of the package in the working directory.\<close>

definition default_v1_dir :: string where
  "default_v1_dir = ''packs/base-routing/routebook''"

definition call_tool :: "mcp_server \<Rightarrow> string \<Rightarrow> fields \<Rightarrow> json op" where
  "call_tool m name args =
     (let he = mcp_host m; core = mcp_core m; ty = optional_task_type args; given = input_payload args;
          doc = (\<lambda>cmd. bnd cmd (\<lambda>d. ret (JObj d))) in
      if name \<notin> set mcp_tool_names then raise (ValueError (''unknown MCP tool: '' @ name))
      else if name = ''tokenbank_list_capabilities'' then doc (list_capabilities he core)
      else if name = ''tokenbank_estimate'' then doc (estimate_route he core default_v1_dir ty given)
      else if name = ''tokenbank_submit'' then submit_work_unit he core ty given (truthy (get_null args ''wait''))
      else if name = ''tokenbank_get_result''
      then bnd (of_result (required_work_unit_id args)) (\<lambda>i. adapter_work_unit_result he core i)
      else if name = ''tokenbank_cancel'' then bnd (of_result (required_work_unit_id args)) (\<lambda>i. doc (cancel_work_unit he core i))
      else if name = ''tokenbank_get_route_explanation'' then doc (explain_route he core default_v1_dir ty given)
      else if name = ''tokenbank_get_task_analysis'' then doc (analyze_route he core default_v1_dir ty given)
      else if name = ''tokenbank_get_route_score'' then doc (score_route he core default_v1_dir ty given)
      else doc (get_routebook_excerpt he core ty))"

section \<open>Requests\<close>

definition rpc_result :: "json \<Rightarrow> json \<Rightarrow> json" where
  "rpc_result request_id outcome = JObj [(''jsonrpc'', JStr ''2.0''), (''id'', request_id), (''result'', outcome)]"

definition rpc_error :: "json \<Rightarrow> int \<Rightarrow> string \<Rightarrow> json" where
  "rpc_error request_id code message = JObj
     [(''jsonrpc'', JStr ''2.0''), (''id'', request_id), (''error'', JObj [(''code'', JInt code), (''message'', JStr message)])]"

definition server_info :: json where
  "server_info = JObj
     [(''protocolVersion'', JStr ''2024-11-05''),
      (''serverInfo'', JObj [(''name'', JStr ''tokenbank''), (''version'', JStr ''0.1.0'')]),
      (''capabilities'', JObj [(''tools'', JObj [])])]"

definition notification :: "fields \<Rightarrow> bool" where
  "notification req \<longleftrightarrow> (case get_null req ''method'' of JStr s \<Rightarrow> starts_with ''notifications/'' s | _ \<Rightarrow> False)"

definition called_tool :: "fields \<Rightarrow> (string \<times> fields) result" where
  "called_tool req =
     (case get_null req ''params'' of
        JObj params \<Rightarrow>
          (case get_null params ''name'' of
             JStr name \<Rightarrow>
               (case get_null params ''arguments'' of
                  JNull \<Rightarrow> Inr (name, [])
                | JObj args \<Rightarrow> Inr (name, args)
                | _ \<Rightarrow> Inl (ValueError ''tools/call arguments must be an object''))
           | _ \<Rightarrow> Inl (ValueError ''tools/call name is required''))
      | _ \<Rightarrow> Inl (ValueError ''tools/call params must be an object''))"

definition tool_answer :: "(rat \<Rightarrow> string) \<Rightarrow> json \<Rightarrow> json" where
  "tool_answer frepr structured = JObj
     [(''content'', JList [JObj [(''type'', JStr ''text''), (''text'', JStr (canonical_json_dumps frepr structured))]]),
      (''structuredContent'', structured), (''isError'', JBool False)]"

text \<open>The block under \<open>try\<close>; the verb of a request that is a list or an object cannot be looked up in a set.\<close>

definition answer_request :: "mcp_server \<Rightarrow> fields \<Rightarrow> json op" where
  "answer_request m req =
     (let request_id = get_null req ''id'' in
      case get_null req ''method'' of
        JStr verb \<Rightarrow>
          if verb = ''initialize'' then ret (rpc_result request_id server_info)
          else if verb = ''tools/list'' then ret (rpc_result request_id (JObj [(''tools'', JList tool_definitions)]))
          else if verb = ''tools/call''
          then bnd (of_result (called_tool req)) (\<lambda>(name, args). bnd (call_tool m name args) (\<lambda>structured.
               bnd (gets plat) (\<lambda>p. ret (rpc_result request_id (tool_answer (float_repr p) structured)))))
          else if verb \<in> {''resources/list'', ''resources/read''}
          then ret (rpc_error request_id (-32601) ''MCP resources are not exposed by the Phase 0 stub'')
          else ret (rpc_error request_id (-32601) ''method not found'')
      | JList _ \<Rightarrow> raise (TypeError (''unhashable type: '' @ [CHR 0x27] @ ''list'' @ [CHR 0x27]))
      | JObj _ \<Rightarrow> raise (TypeError (''unhashable type: '' @ [CHR 0x27] @ ''dict'' @ [CHR 0x27]))
      | _ \<Rightarrow> ret (rpc_error request_id (-32601) ''method not found''))"

definition handle_request :: "mcp_server \<Rightarrow> fields \<Rightarrow> json option op" where
  "handle_request m req =
     (if notification req then ret None
      else (\<lambda>w. case answer_request m req w of
          (Inl e, w') \<Rightarrow> (Inr (Some (rpc_error (get_null req ''id'') (-32000) (error_text (env_repr (he_route (mcp_host m))) e))), w')
        | (Inr v, w') \<Rightarrow> (Inr (Some v), w')))"

text \<open>The lines written so far, and the exception that ended the loop.\<close>

fun serve_lines :: "mcp_server \<Rightarrow> string list \<Rightarrow> (string list \<times> py_error option) op" where
  "serve_lines m [] = ret ([], None)"
| "serve_lines m (line # rest) =
     (let s = py_strip line in
      if s = [] then serve_lines m rest
      else case mcp_loads m s of
          Inl e \<Rightarrow> ret ([], Some e)
        | Inr (JObj req) \<Rightarrow>
            bnd (handle_request m req) (\<lambda>response. bnd (gets plat) (\<lambda>p. bnd (serve_lines m rest) (\<lambda>(out, ended).
            ret ((case response of None \<Rightarrow> [] | Some v \<Rightarrow> [canonical_json_dumps (float_repr p) v @ [CHR 0x0A]]) @ out, ended))))
        | Inr _ \<Rightarrow> ret ([], Some (TypeError ''object has no attribute get'')))"

section \<open>What a request may change\<close>

lemma keeps_frame_summary: "report_free J \<Longrightarrow> keeps (settled J) (get_host_result_summary he i)"
  by (auto simp: get_host_result_summary_def intro!: keeps_wrappers keeps_option keeps_frame_finalize)

lemma keeps_on_connection:
  assumes "keeps (settled J) m"
  shows "keeps (settled J) (on_connection m)"
proof -
  have rolled: "settled J (rollback w)" if "settled J w" for w
    using that by (simp add: settled_def rollback_def idle_def)
  show ?thesis
    unfolding keeps_def
  proof (intro allI impI)
    fix w assume "settled J w"
    then have "settled J (snd (m (rollback w)))" using assms rolled by (simp add: keeps_def)
    then show "settled J (snd (on_connection m w))" using rolled by (cases "m (rollback w)") (simp add: on_connection_def)
  qed
qed

lemma keeps_context:
  "capacity_free J \<Longrightarrow> (\<And>cfg. keeps (settled J) (m cfg)) \<Longrightarrow> keeps (settled J) (control_plane_context he ha m)"
  unfolding control_plane_context_def
  by (intro keeps_bnd keeps_gets keeps_of_result keeps_on_connection keeps_seq keeps_frame_rebuild)

lemma keeps_planning [keeps_intro]:
  "keeps (settled J) (environment_now he)" "keeps (settled J) (estimate_work_unit r)" "keeps (settled J) (hash_json v)"
  "keeps (settled J) (plan_route env svc d False)"
  unfolding environment_now_def estimate_work_unit_def hash_json_def plan_route_def Let_def
  by (auto intro!: keeps_wrappers keeps_settled_draws)

lemma keeps_plan_and_analyze [keeps_intro]: "keeps (settled J) (plan_and_analyze he ha v1_dir ty given)"
  unfolding plan_and_analyze_def by (auto intro!: keeps_wrappers keeps_planning)

lemma keeps_explained_plan [keeps_intro]: "keeps (settled J) (explained_plan he ha v1_dir ty given)"
  unfolding explained_plan_def by (intro keeps_wrappers keeps_planning keeps_plan_and_analyze)

lemma keeps_route_commands:
  "keeps (settled J) (explain_route he ha v1_dir ty given)" "keeps (settled J) (score_route he ha v1_dir ty given)"
  "keeps (settled J) (analyze_route he ha v1_dir ty given)" "keeps (settled J) (estimate_route he ha v1_dir ty given)"
  "keeps (settled J) (get_routebook_excerpt he ha task_type)"
  unfolding score_route_def explain_route_def analyze_route_def estimate_route_def get_routebook_excerpt_def Let_def
  by (auto intro!: keeps_wrappers keeps_planning keeps_plan_and_analyze keeps_explained_plan)

lemma keeps_status_commands:
  assumes "capacity_free J"
  shows "keeps (settled J) (list_capabilities he ha)" "keeps (settled J) (adapter_work_unit_status he ha i)"
    "keeps (settled J) (cancel_work_unit he ha i)"
proof -
  have status: "keeps (settled J) (adapter_work_unit_status he ha j)" for j
    unfolding adapter_work_unit_status_def get_work_unit_status_def
    by (intro keeps_bnd keeps_context [OF assms] keeps_ret keeps_select)
  show "keeps (settled J) (list_capabilities he ha)"
    unfolding list_capabilities_def by (intro keeps_bnd keeps_context [OF assms] keeps_ret keeps_views)
  show "keeps (settled J) (cancel_work_unit he ha i)"
    unfolding cancel_work_unit_def Let_def by (auto intro!: keeps_wrappers status)
  show "keeps (settled J) (adapter_work_unit_status he ha i)" by (rule status)
qed

lemma keeps_result_command:
  assumes "capacity_free J" and "\<And>i. keeps (settled J) (get_host_result_summary he i)"
  shows "keeps (settled J) (adapter_work_unit_result he ha i)"
  unfolding adapter_work_unit_result_def get_work_unit_status_def case_prod_unfold
  by (intro keeps_bnd keeps_context [OF assms(1)] keeps_ret keeps_select assms(2))

lemma keeps_result_bnd: "(\<And>x. r = Inr x \<Longrightarrow> keeps I (f x)) \<Longrightarrow> keeps I (bnd (of_result r) f)"
  by (cases r) (auto simp: keeps_def run_bnd)

lemma keeps_cond: "(b \<Longrightarrow> keeps I m) \<Longrightarrow> (\<not> b \<Longrightarrow> keeps I n) \<Longrightarrow> keeps I (if b then m else n)"
  by simp

lemma keeps_handle_request:
  assumes free: "capacity_free J" and summary: "\<And>i. keeps (settled J) (get_host_result_summary (mcp_host m) i)"
    and submit: "\<And>args ty given wait. get_null req ''method'' = JStr ''tools/call'' \<Longrightarrow>
      called_tool req = Inr (''tokenbank_submit'', args) \<Longrightarrow> keeps (settled J) (submit_work_unit (mcp_host m) (mcp_core m) ty given wait)"
  shows "keeps (settled J) (handle_request m req)"
proof -
  have called: "keeps (settled J) (call_tool m name args)"
    if verb: "get_null req ''method'' = JStr ''tools/call''" and tool: "called_tool req = Inr (name, args)" for name args
  proof (cases "name = ''tokenbank_submit''")
    case True
    then show ?thesis using submit verb tool by (simp add: call_tool_def mcp_tool_names_def)
  next
    case False
    then show ?thesis
      unfolding call_tool_def Let_def
      by (intro keeps_cond keeps_bnd keeps_ret keeps_raise keeps_of_result keeps_route_commands keeps_status_commands [OF free]
          keeps_result_command [OF free summary]) simp_all
  qed
  have "keeps (settled J) (answer_request m req)"
  proof (cases "get_null req ''method''")
    case (JStr verb)
    have "keeps (settled J) (bnd (of_result (called_tool req)) (\<lambda>(name, args). bnd (call_tool m name args) (\<lambda>structured.
        bnd (gets plat) (\<lambda>p. ret (rpc_result (get_null req ''id'') (tool_answer (float_repr p) structured))))))"
      if "verb = ''tools/call''"
      using called that JStr unfolding case_prod_unfold
      by (intro keeps_result_bnd keeps_bnd keeps_ret keeps_gets) simp
    then show ?thesis
      unfolding answer_request_def Let_def JStr json.case by (intro keeps_cond keeps_ret)
  qed (auto simp: answer_request_def intro: keeps_ret keeps_raise)
  then show ?thesis
    unfolding handle_request_def keeps_def by (auto split: prod.splits sum.splits)
qed

lemma keeps_quiet_adapter_submission: "keeps (settled invariant) (submit_work_unit he ha ty given wait)"
proof -
  have submission: "keeps (settled invariant) (submit_demo_work_unit he cfg task d dir)" for cfg task d dir
    using keeps_quiet_submission by (simp add: quiet_settled)
  have "keeps (settled invariant) (submit_normalized_request repr he cfg dir r)" for repr cfg dir r
    unfolding submit_normalized_request_def Let_def submission_defs
    by (intro keeps_cond keeps_bnd keeps_of_result keeps_raise submission)
      (auto split: json.split intro!: keeps_wrappers submission)
  moreover have "capacity_free invariant" by (simp add: capacity_free_def)
  ultimately show ?thesis unfolding submit_work_unit_def by (intro keeps_bnd keeps_of_result keeps_context keeps_ret)
qed

text \<open>The tables of the scheduling of work.\<close>

definition schedule_of where
  "schedule_of t = (runs t, work_units t, route_plans t, policy_decisions t, execution_attempts t, assignments t, result_envelopes t)"

definition submits :: "fields \<Rightarrow> bool" where
  "submits req \<longleftrightarrow> get_null req ''method'' = JStr ''tools/call'' \<and> (\<exists>args. called_tool req = Inr (''tokenbank_submit'', args))"

text \<open>C17. What a request to the stdio server may change: whatever the request is, when the database holds the invariant of the
scheduler and no transaction is open, the same is so after the request, and only a call of \<open>tokenbank_submit\<close> changes a run, a work
unit, a route plan, a policy decision, an attempt, an assignment or a result. In particular, estimating, explaining, scoring
and analyzing a route schedules nothing.\<close>

theorem mcp_schedules_only_on_submit:
  assumes quiet: "quiet_ok w" and run: "handle_request m req w = (r, w')"
  shows "quiet_ok w' \<and> (\<not> submits req \<longrightarrow> schedule_of (committed w') = schedule_of (committed w))"
proof (intro conjI impI)
  have "keeps quiet_ok (handle_request m req)"
    unfolding quiet_settled using keeps_quiet_summary keeps_quiet_adapter_submission
    by (intro keeps_handle_request) (simp_all add: capacity_free_def quiet_settled)
  then show "quiet_ok w'" using quiet run by (rule keepsD)
next
  let ?J = "\<lambda>t. schedule_of t = schedule_of (committed w)"
  assume "\<not> submits req"
  then have "keeps (settled ?J) (handle_request m req)"
    by (intro keeps_handle_request keeps_frame_summary) (auto simp: capacity_free_def report_free_def schedule_of_def submits_def)
  moreover have "settled ?J w" using quiet by (simp add: quiet_settled settled_def)
  ultimately have "settled ?J w'" using run by (rule keepsD)
  then show "schedule_of (committed w') = schedule_of (committed w)" by (simp add: settled_def)
qed

section \<open>Every request is answered\<close>

definition answers :: "fields \<Rightarrow> json \<Rightarrow> bool" where
  "answers req v \<longleftrightarrow>
     (\<exists>body. v = JObj [(''jsonrpc'', JStr ''2.0''), (''id'', get_null req ''id''), body] \<and> fst body \<in> {''result'', ''error''})"

lemma rpc_answers: "answers req (rpc_result (get_null req ''id'') v)" "answers req (rpc_error (get_null req ''id'') c e)"
  by (simp_all add: answers_def rpc_result_def rpc_error_def)

definition returns :: "('a \<Rightarrow> bool) \<Rightarrow> 'a op \<Rightarrow> bool" where
  "returns P m \<longleftrightarrow> (\<forall>w v w'. m w = (Inr v, w') \<longrightarrow> P v)"

lemma returns_intro:
  "P v \<Longrightarrow> returns P (ret v)" "returns P (raise e)" "(\<And>x. returns P (f x)) \<Longrightarrow> returns P (bnd g f)"
  "(b \<Longrightarrow> returns P m) \<Longrightarrow> (\<not> b \<Longrightarrow> returns P n) \<Longrightarrow> returns P (if b then m else n)"
  by (auto simp: returns_def ret_def raise_def bnd_ok_iff)

lemma returns_answer: "returns (answers req) (answer_request m req)"
proof (cases "get_null req ''method''")
  case (JStr verb)
  then show ?thesis
    unfolding answer_request_def Let_def case_prod_unfold JStr json.case by (intro returns_intro rpc_answers)
qed (simp_all add: answer_request_def returns_intro rpc_answers)

lemma handle_request_answers:
  "\<exists>response w'. handle_request m req w = (Inr response, w') \<and>
     (case response of None \<Rightarrow> notification req | Some v \<Rightarrow> \<not> notification req \<and> answers req v)"
proof (cases "answer_request m req w")
  case (Pair r w')
  then show ?thesis
    using returns_answer [of req m] by (cases r) (auto simp: handle_request_def returns_def rpc_answers ret_def)
qed

definition answer_line :: "fields \<Rightarrow> string \<Rightarrow> bool" where
  "answer_line req line \<longleftrightarrow> (\<exists>frepr v. answers req v \<and> line = canonical_json_dumps frepr v @ [CHR 0x0A])"

definition requests_of :: "mcp_server \<Rightarrow> string list \<Rightarrow> json list result" where
  "requests_of m lines = map_result (mcp_loads m) (filter (\<lambda>s. s \<noteq> []) (map py_strip lines))"

definition written_before :: "string list \<Rightarrow> ((string list \<times> py_error option) result \<times> world) \<Rightarrow> (string list \<times> py_error option) result \<times> world" where
  "written_before out = (\<lambda>(r, w). (map_sum id (\<lambda>(rest, ended). (out @ rest, ended)) r, w))"

lemma serve_one:
  assumes "py_strip line \<noteq> []" and "mcp_loads m (py_strip line) = Inr (JObj req)"
  shows "\<exists>out w'. list_all2 answer_line (filter (\<lambda>q. \<not> notification q) [req]) out \<and>
    (\<forall>rest. serve_lines m (line # rest) w = written_before out (serve_lines m rest w'))"
proof -
  obtain response u where step: "handle_request m req w = (Inr response, u)"
    "case response of None \<Rightarrow> notification req | Some v \<Rightarrow> \<not> notification req \<and> answers req v"
    using handle_request_answers by blast
  let ?out = "case response of None \<Rightarrow> [] | Some v \<Rightarrow> [canonical_json_dumps (float_repr (plat u)) v @ [CHR 0x0A]]"
  have "serve_lines m (line # rest) w = written_before ?out (serve_lines m rest u)" for rest
    using assms step(1)
    by (cases "serve_lines m rest u") (auto simp: run_bnd written_before_def ret_def split: sum.splits prod.splits)
  moreover have "list_all2 answer_line (filter (\<lambda>q. \<not> notification q) [req]) ?out"
    using step(2) by (auto simp: answer_line_def split: option.splits)
  ultimately show ?thesis by blast
qed

lemma written_twice: "written_before xs (written_before ys r) = written_before (xs @ ys) r"
  by (cases r; cases "fst r") (auto simp: written_before_def)

lemma serve_good:
  "requests_of m lines = Inr (map JObj reqs) \<Longrightarrow>
   \<exists>out w'. list_all2 answer_line (filter (\<lambda>q. \<not> notification q) reqs) out \<and>
     (\<forall>rest. serve_lines m (lines @ rest) w = written_before out (serve_lines m rest w'))"
proof (induction lines arbitrary: reqs w)
  case Nil
  have "written_before [] r = r" for r by (cases r; cases "fst r") (auto simp: written_before_def)
  with Nil show ?case by (auto simp: requests_of_def)
next
  case (Cons line lines)
  show ?case
  proof (cases "py_strip line = []")
    case True
    then show ?thesis using Cons by (simp add: requests_of_def)
  next
    case False
    then obtain req more where loads: "mcp_loads m (py_strip line) = Inr (JObj req)"
      and more: "requests_of m lines = Inr (map JObj more)" and reqs: "reqs = req # more"
      using Cons.prems by (auto simp: requests_of_def map_eq_Cons_conv Cons_eq_map_conv)
    obtain out1 u where one: "list_all2 answer_line (filter (\<lambda>q. \<not> notification q) [req]) out1"
      "\<And>rest. serve_lines m (line # rest) w = written_before out1 (serve_lines m rest u)"
      using serve_one [OF False loads] by blast
    obtain out2 w' where two: "list_all2 answer_line (filter (\<lambda>q. \<not> notification q) more) out2"
      "\<And>rest. serve_lines m (lines @ rest) u = written_before out2 (serve_lines m rest w')"
      using Cons.IH [OF more] by blast
    have "list_all2 answer_line (filter (\<lambda>q. \<not> notification q) reqs) (out1 @ out2)"
      using list_all2_appendI [OF one(1) two(1)] by (simp add: reqs split: if_splits)
    moreover have "serve_lines m ((line # lines) @ rest) w = written_before (out1 @ out2) (serve_lines m rest w')" for rest
      using one(2) [of "lines @ rest"] two(2) by (simp add: written_twice del: serve_lines.simps)
    ultimately show ?thesis by blast
  qed
qed

text \<open>C18. The stdio server answers in order and stops at the first malformed line: when the lines of the input that are not blank
are JSON objects, the server writes exactly one line for each request that is not a notification, in the order of the requests, with the
identifier of its request and either a result or an error, and ends with the input. When a line that is not JSON follows, the server ends
there with the exception of the parser: that line is not answered, nor is any line behind it.\<close>

theorem mcp_server_answers_in_order:
  assumes "requests_of m lines = Inr (map JObj reqs)"
  shows "\<exists>out w'. serve_lines m lines w = (Inr (out, None), w') \<and>
    list_all2 answer_line (filter (\<lambda>q. \<not> notification q) reqs) out \<and>
    (\<forall>bad rest e. py_strip bad \<noteq> [] \<and> mcp_loads m (py_strip bad) = Inl e \<longrightarrow>
       serve_lines m (lines @ bad # rest) w = (Inr (out, Some e), w'))"
proof -
  obtain out w' where good: "list_all2 answer_line (filter (\<lambda>q. \<not> notification q) reqs) out"
    "\<And>rest. serve_lines m (lines @ rest) w = written_before out (serve_lines m rest w')"
    using serve_good [OF assms] by blast
  from good(2) [of "[]"] have "serve_lines m lines w = (Inr (out, None), w')"
    by (simp add: written_before_def ret_def)
  moreover have "serve_lines m (lines @ bad # rest) w = (Inr (out, Some e), w')"
    if "py_strip bad \<noteq> []" "mcp_loads m (py_strip bad) = Inl e" for bad rest e
    using good(2) [of "bad # rest"] that by (simp add: written_before_def ret_def)
  ultimately show ?thesis using good(1) by blast
qed

section \<open>The server on a sample\<close>

definition sample_loads :: "string \<Rightarrow> json result" where
  "sample_loads s =
     (if s = ''list'' then Inr (JObj [(''id'', JInt 1), (''method'', JStr ''tools/list'')])
      else if s = ''note'' then Inr (JObj [(''method'', JStr ''notifications/initialized'')])
      else Inl (ValueError ''Expecting value''))"

definition sample_mcp :: mcp_server where
  "sample_mcp = \<lparr>mcp_host = demo_environment, mcp_core = \<lparr>ha_config_dir = ''config'', ha_routebook_dir = None\<rparr>, mcp_loads = sample_loads\<rparr>"

definition result_request :: fields where
  "result_request = [(''id'', JInt 2), (''method'', JStr ''tools/call''), (''params'', JObj
     [(''name'', JStr ''tokenbank_get_result''), (''arguments'', JObj [(''work_unit_id'', JStr ''wu_1'')])])]"

theorem mcp_schedules_only_on_submit_witness:
  "\<exists>r w'. handle_request sample_mcp result_request empty_world = (r, w') \<and> quiet_ok w' \<and>
     schedule_of (committed w') = schedule_of (committed empty_world)"
proof -
  obtain r w' where run: "handle_request sample_mcp result_request empty_world = (r, w')" by fastforce
  have "\<not> submits result_request"
    by (simp add: submits_def result_request_def called_tool_def get_null_def dget_or_def)
  then show ?thesis using mcp_schedules_only_on_submit [OF demo_start(1) run] run by blast
qed

theorem mcp_server_answers_in_order_witness:
  "\<exists>out w'. serve_lines sample_mcp [''note'', '' '', ''list'', ''{'', ''list''] empty_world = (Inr (out, Some (ValueError ''Expecting value'')), w') \<and>
     list_all2 answer_line [[(''id'', JInt 1), (''method'', JStr ''tools/list'')]] out"
proof -
  have strips: "py_strip ''note'' = ''note''" "py_strip '' '' = []" "py_strip ''list'' = ''list''" "py_strip ''{'' = ''{''"
    by code_simp+
  let ?reqs = "[[(''method'', JStr ''notifications/initialized'')], [(''id'', JInt 1), (''method'', JStr ''tools/list'')]]"
  have parsed: "requests_of sample_mcp [''note'', '' '', ''list''] = Inr (map JObj ?reqs)"
    by (simp add: requests_of_def strips sample_mcp_def sample_loads_def)
  have "filter (\<lambda>q. \<not> notification q) ?reqs = [[(''id'', JInt 1), (''method'', JStr ''tools/list'')]]"
    by (simp add: notification_def get_null_def dget_or_def)
  moreover have "mcp_loads sample_mcp (py_strip ''{'') = Inl (ValueError ''Expecting value'')"
    by (simp add: strips sample_mcp_def sample_loads_def)
  ultimately show ?thesis
    using mcp_server_answers_in_order [OF parsed, of empty_world] strips by fastforce
qed

end
