(* ===== verification/Report_Totals.thy ===== *)
theory Report_Totals
  imports Metrics
begin

text \<open>
  What the figures of a report say of the tables (\<open>src/tokenbank/observability/sql_queries.py\<close>, \<open>metrics.py\<close>): the completed rows of
  a run are its verified results, each with each of its verifier reports, and the totals are sums over them.
\<close>

section \<open>Sums over joins\<close>

lemma sum_list_exchange:
  fixes f :: "'a \<Rightarrow> 'b \<Rightarrow> 'c :: comm_monoid_add"
  shows "(\<Sum>x\<leftarrow>xs. \<Sum>y\<leftarrow>ys. f x y) = (\<Sum>y\<leftarrow>ys. \<Sum>x\<leftarrow>xs. f x y)"
  by (induction xs) (simp_all add: sum_list_addf)

lemma sum_list_same: "(\<And>x. x \<in> set xs \<Longrightarrow> f x = g x) \<Longrightarrow> (\<Sum>x\<leftarrow>xs. f x) = (\<Sum>x\<leftarrow>xs. g x)"
  by (simp cong: map_cong)

lemma sum_list_if:
  fixes f :: "'a \<Rightarrow> 'c :: comm_monoid_add"
  shows "(\<Sum>x\<leftarrow>xs. if b then f x else 0) = (if b then \<Sum>x\<leftarrow>xs. f x else 0)"
  by simp

lemma sum_at_key:
  fixes f :: "'r \<Rightarrow> 'c :: comm_monoid_add"
  shows "pk_unique key rows \<Longrightarrow> (\<Sum>r\<leftarrow>rows. if key r = k then f r else 0) = (case find_row key rows k of None \<Rightarrow> 0 | Some r \<Rightarrow> f r)"
proof (induction rows)
  case (Cons r rows)
  have rest: "pk_unique key rows" using Cons.prems by (simp add: pk_unique_def)
  show ?case
  proof (cases "key r = k")
    case True
    then have "find_row key rows k = None" using Cons.prems by (auto simp: find_row_None_iff pk_unique_def)
    then show ?thesis using Cons.IH [OF rest] True by (simp add: find_row_def)
  next
    case False
    then show ?thesis using Cons.IH [OF rest] by (simp add: find_row_def)
  qed
qed (simp add: find_row_def)

lemma sum_concat:
  fixes f :: "'a \<Rightarrow> 'c :: comm_monoid_add"
  shows "(\<Sum>x\<leftarrow>concat (map g xs). f x) = (\<Sum>y\<leftarrow>xs. \<Sum>x\<leftarrow>g y. f x)"
  by (induction xs) simp_all

lemma sum_left_join:
  fixes f :: "'b option \<Rightarrow> 'c :: comm_monoid_add"
  assumes "f None = 0"
  shows "(\<Sum>y\<leftarrow>left_join on xs. f y) = (\<Sum>x\<leftarrow>xs. if on x then f (Some x) else 0)"
proof (cases "filter on xs")
  case Nil
  then have "(\<Sum>x\<leftarrow>xs. if on x then f (Some x) else 0) = 0" using sum_list_map_filter' [of "\<lambda>x. f (Some x)" on xs] by simp
  then show ?thesis using Nil assms by (simp add: left_join_def)
next
  case (Cons y ys)
  then have "left_join on xs = map Some (filter on xs)" by (simp add: left_join_def)
  then show ?thesis by (simp add: comp_def sum_list_map_filter')
qed

lemma left_join_single: "length (filter on xs) \<le> 1 \<Longrightarrow> \<exists>y. left_join on xs = [y]"
  by (cases "filter on xs") (auto simp: left_join_def)

lemma at_most_one_key: "pk_unique key rows \<Longrightarrow> length (filter (\<lambda>r. key r = k) rows) \<le> 1"
  by (induction rows) (auto simp: pk_unique_def image_iff filter_empty_conv)

section \<open>The verified results of a run\<close>

text \<open>The work unit of a result is that of its assignment.\<close>

definition result_unit :: "tables \<Rightarrow> result_row \<Rightarrow> work_unit_row option" where
  "result_unit t re = (case find_row asg_id (assignments t) (res_assignment_id re) of
     None \<Rightarrow> None | Some a \<Rightarrow> find_row wu_id (work_units t) (asg_work_unit_id a))"

type_synonym verified_result = "work_unit_row \<times> result_row \<times> verifier_report_row"

definition verified_results :: "tables \<Rightarrow> string \<Rightarrow> verified_result list" where
  "verified_results t run_id = concat (map (\<lambda>re.
     case result_unit t re of
       None \<Rightarrow> []
     | Some wu \<Rightarrow> if wu_run_id wu = run_id
         then map (\<lambda>vr. (wu, re, vr)) (filter (\<lambda>v. vrr_result_envelope_id v = res_id re) (verifier_reports t)) else [])
     (result_envelopes t))"

definition joined_complete :: "joined_row \<Rightarrow> bool" where
  "joined_complete = (\<lambda>(wu, a, re, vr, cn). (\<exists>r. re = Some r \<and> res_id r \<noteq> []) \<and> (\<exists>v. vr = Some v \<and> vrr_id v \<noteq> []))"

definition joined_result :: "joined_row \<Rightarrow> verified_result" where
  "joined_result = (\<lambda>(wu, a, re, vr, cn). (wu, the re, the vr))"

text \<open>A table in which the joins of the report are along keys.\<close>

definition keyed_for_reports :: "tables \<Rightarrow> bool" where
  "keyed_for_reports t \<longleftrightarrow> pk_unique wu_id (work_units t) \<and> pk_unique asg_id (assignments t) \<and>
     pk_unique cn_id (capacity_nodes t) \<and> list_all (\<lambda>u. wu_id u \<noteq> []) (work_units t) \<and> list_all (\<lambda>r. res_id r \<noteq> []) (result_envelopes t) \<and>
     list_all (\<lambda>v. vrr_id v \<noteq> [] \<and> vrr_recommendation v \<noteq> [] \<and> vrr_status v \<noteq> []) (verifier_reports t)"

lemma at_most_one_node:
  assumes "pk_unique cn_id nodes"
  shows "length (filter (\<lambda>n. a \<noteq> None \<and> asg_capacity_node_id (the a) = Some (cn_id n)) nodes) \<le> 1"
proof (cases "a = None \<or> asg_capacity_node_id (the a) = None")
  case False
  then obtain k where k: "a \<noteq> None" "asg_capacity_node_id (the a) = Some k" by blast
  then have "filter (\<lambda>n. a \<noteq> None \<and> asg_capacity_node_id (the a) = Some (cn_id n)) nodes = filter (\<lambda>n. cn_id n = k) nodes"
    by (intro filter_cong) auto
  then show ?thesis using at_most_one_key [OF assms, of k] by simp
qed auto

text \<open>The rows of the report as nested sums: only a result with a report counts.\<close>

lemma joined_sum:
  fixes f :: "verified_result \<Rightarrow> 'c :: comm_monoid_add"
  assumes keyed: "keyed_for_reports t"
  shows "(\<Sum>j\<leftarrow>joined_rows_for_run t run_id. if joined_complete j then f (joined_result j) else 0) =
    (\<Sum>wu\<leftarrow>work_units t. if wu_run_id wu = run_id then
       (\<Sum>a\<leftarrow>assignments t. if asg_work_unit_id a = wu_id wu then
          (\<Sum>re\<leftarrow>result_envelopes t. if res_assignment_id re = asg_id a then
             (\<Sum>vr\<leftarrow>verifier_reports t. if vrr_result_envelope_id vr = res_id re then f (wu, re, vr) else 0) else 0) else 0) else 0)"
    (is "?lhs = ?rhs")
proof -
  define g where "g j = (if joined_complete j then f (joined_result j) else 0)" for j
  define V where "V wu a re = (\<Sum>vr\<leftarrow>left_join (\<lambda>v. re \<noteq> None \<and> vrr_result_envelope_id v = res_id (the re)) (verifier_reports t).
    g (wu, a, re, vr, None))" for wu a re
  define R where "R wu a = (\<Sum>re\<leftarrow>left_join (\<lambda>r. a \<noteq> None \<and> res_assignment_id r = asg_id (the a)) (result_envelopes t). V wu a re)" for wu a
  have node: "(\<Sum>cn\<leftarrow>left_join (\<lambda>n. a \<noteq> None \<and> asg_capacity_node_id (the a) = Some (cn_id n)) (capacity_nodes t).
      g (wu, a, re, vr, cn)) = g (wu, a, re, vr, None)" for wu a re vr
  proof -
    have "length (filter (\<lambda>n. a \<noteq> None \<and> asg_capacity_node_id (the a) = Some (cn_id n)) (capacity_nodes t)) \<le> 1"
      using keyed by (intro at_most_one_node) (simp add: keyed_for_reports_def)
    then obtain y where "left_join (\<lambda>n. a \<noteq> None \<and> asg_capacity_node_id (the a) = Some (cn_id n)) (capacity_nodes t) = [y]"
      using left_join_single by blast
    moreover have "g (wu, a, re, vr, y) = g (wu, a, re, vr, None)"
      by (auto simp: g_def joined_complete_def joined_result_def)
    ultimately show ?thesis by (simp only: list.map sum_list.Cons sum_list.Nil add_0_right)
  qed
  have gvr: "g (wu, a, re, None, cn) = 0" "g (wu, a, None, vr, cn) = 0" for wu a re vr cn
    by (simp_all add: g_def joined_complete_def)
  have V: "V wu a (Some re) = (\<Sum>vr\<leftarrow>verifier_reports t. if vrr_result_envelope_id vr = res_id re then f (wu, re, vr) else 0)"
    if "re \<in> set (result_envelopes t)" for wu a re
  proof -
    have "g (wu, a, Some re, Some vr, None) = f (wu, re, vr)" if "vr \<in> set (verifier_reports t)" for vr
      using keyed that \<open>re \<in> set (result_envelopes t)\<close>
      by (simp add: g_def joined_complete_def joined_result_def keyed_for_reports_def list_all_iff)
    then show ?thesis
      unfolding V_def by (subst sum_left_join) (auto simp: gvr intro!: sum_list_same)
  qed
  have V0: "V wu a None = 0" for wu a by (simp add: V_def gvr)
  have R: "R wu (Some a) = (\<Sum>re\<leftarrow>result_envelopes t. if res_assignment_id re = asg_id a then
      (\<Sum>vr\<leftarrow>verifier_reports t. if vrr_result_envelope_id vr = res_id re then f (wu, re, vr) else 0) else 0)" for wu a
    unfolding R_def by (subst sum_left_join) (auto simp: V V0 intro!: sum_list_same)
  have R0: "R wu None = 0" for wu by (simp add: R_def left_join_def V0)
  have "?lhs = (\<Sum>wu\<leftarrow>filter (\<lambda>wu. wu_run_id wu = run_id) (work_units t).
      \<Sum>a\<leftarrow>left_join (\<lambda>a. asg_work_unit_id a = wu_id wu) (assignments t). R wu a)"
    unfolding joined_rows_for_run_def g_def [symmetric] R_def V_def
    by (simp only: sum_concat map_map comp_def node)
  also have "\<dots> = ?rhs"
    by (auto simp: sum_left_join R R0 sum_list_map_filter' intro!: sum_list_same)
  finally show ?thesis .
qed

text \<open>The same sums by the result: its assignment and work unit are unique.\<close>

lemma verified_sum:
  fixes f :: "verified_result \<Rightarrow> 'c :: comm_monoid_add"
  assumes keyed: "keyed_for_reports t"
  shows "(\<Sum>wu\<leftarrow>work_units t. if wu_run_id wu = run_id then
       (\<Sum>a\<leftarrow>assignments t. if asg_work_unit_id a = wu_id wu then
          (\<Sum>re\<leftarrow>result_envelopes t. if res_assignment_id re = asg_id a then
             (\<Sum>vr\<leftarrow>verifier_reports t. if vrr_result_envelope_id vr = res_id re then f (wu, re, vr) else 0) else 0) else 0) else 0) =
    (\<Sum>v\<leftarrow>verified_results t run_id. f v)" (is "?lhs = ?rhs")
proof -
  define h where "h wu re = (\<Sum>vr\<leftarrow>verifier_reports t. if vrr_result_envelope_id vr = res_id re then f (wu, re, vr) else 0)" for wu re
  have pk: "pk_unique wu_id (work_units t)" "pk_unique asg_id (assignments t)" using keyed by (simp_all add: keyed_for_reports_def)
  have "?lhs = (\<Sum>wu\<leftarrow>work_units t. \<Sum>a\<leftarrow>assignments t. \<Sum>re\<leftarrow>result_envelopes t.
      if wu_run_id wu = run_id \<and> asg_work_unit_id a = wu_id wu \<and> res_assignment_id re = asg_id a then h wu re else 0)"
    unfolding h_def [symmetric] sum_list_if [symmetric]
    by (intro arg_cong [where f = sum_list] map_cong refl) simp
  also have "\<dots> = (\<Sum>re\<leftarrow>result_envelopes t. \<Sum>a\<leftarrow>assignments t. \<Sum>wu\<leftarrow>work_units t.
      if wu_run_id wu = run_id \<and> asg_work_unit_id a = wu_id wu \<and> res_assignment_id re = asg_id a then h wu re else 0)"
    by (simp only: sum_list_exchange [where xs = "work_units t"] sum_list_exchange [where xs = "assignments t" and ys = "result_envelopes t"])
  also have "\<dots> = (\<Sum>re\<leftarrow>result_envelopes t. \<Sum>v\<leftarrow>(case result_unit t re of
       None \<Rightarrow> []
     | Some wu \<Rightarrow> if wu_run_id wu = run_id
         then map (\<lambda>vr. (wu, re, vr)) (filter (\<lambda>v. vrr_result_envelope_id v = res_id re) (verifier_reports t)) else []). f v)"
  proof (rule sum_list_same)
    fix re
    have "(\<Sum>a\<leftarrow>assignments t. \<Sum>wu\<leftarrow>work_units t.
        if wu_run_id wu = run_id \<and> asg_work_unit_id a = wu_id wu \<and> res_assignment_id re = asg_id a then h wu re else 0) =
      (\<Sum>a\<leftarrow>assignments t. if asg_id a = res_assignment_id re then
        (\<Sum>wu\<leftarrow>work_units t. if wu_id wu = asg_work_unit_id a then (if wu_run_id wu = run_id then h wu re else 0) else 0) else 0)"
      unfolding sum_list_if [symmetric] by (intro sum_list_same) auto
    also have "\<dots> = (case result_unit t re of None \<Rightarrow> 0 | Some wu \<Rightarrow> if wu_run_id wu = run_id then h wu re else 0)"
      by (simp only: sum_at_key [OF pk(1)] sum_at_key [OF pk(2)] result_unit_def) (simp split: option.split)
    also have "\<dots> = (\<Sum>v\<leftarrow>(case result_unit t re of
       None \<Rightarrow> []
     | Some wu \<Rightarrow> if wu_run_id wu = run_id
         then map (\<lambda>vr. (wu, re, vr)) (filter (\<lambda>v. vrr_result_envelope_id v = res_id re) (verifier_reports t)) else []). f v)"
      by (simp add: h_def comp_def sum_list_map_filter' split: option.split)
    finally show "(\<Sum>a\<leftarrow>assignments t. \<Sum>wu\<leftarrow>work_units t.
        if wu_run_id wu = run_id \<and> asg_work_unit_id a = wu_id wu \<and> res_assignment_id re = asg_id a then h wu re else 0) =
      (\<Sum>v\<leftarrow>(case result_unit t re of
       None \<Rightarrow> []
     | Some wu \<Rightarrow> if wu_run_id wu = run_id
         then map (\<lambda>vr. (wu, re, vr)) (filter (\<lambda>v. vrr_result_envelope_id v = res_id re) (verifier_reports t)) else []). f v)" .
  qed
  also have "\<dots> = ?rhs" unfolding verified_results_def sum_concat ..
  finally show ?thesis .
qed

lemma mset_as_sum: "mset xs = (\<Sum>x\<leftarrow>xs. {#x#})"
  by (induction xs) simp_all

lemma completed_joined:
  assumes "keyed_for_reports t"
  shows "mset (map joined_result (filter joined_complete (joined_rows_for_run t run_id))) = mset (verified_results t run_id)"
proof -
  have "mset (map joined_result (filter joined_complete js)) = (\<Sum>j\<leftarrow>js. if joined_complete j then {#joined_result j#} else 0)" for js
    by (induction js) simp_all
  also note joined_sum [OF assms, where run_id = run_id and f = "\<lambda>v. {#v#}"]
  also note verified_sum [OF assms, where run_id = run_id and f = "\<lambda>v. {#v#}"]
  finally show ?thesis unfolding mset_as_sum [of "verified_results t run_id"] .
qed

section \<open>The rows of a report\<close>

lemma completed_row: "truthy (col (decode_result_row j) ''result_envelope_id'') \<and> truthy (col (decode_result_row j) ''verifier_report_id'') \<longleftrightarrow>
    joined_complete j"
  by (cases j) (auto simp: decode_result_row_def joined_complete_def get_null_def dget_or_def opt_column_def split: option.splits)

lemma completed_rows_joined:
  "mset (completed_rows (result_rows_for_run t run_id)) =
     image_mset decode_result_row (mset (filter joined_complete (joined_rows_for_run t run_id)))"
  by (simp add: completed_rows_def result_rows_for_run_def filter_map comp_def completed_row)

lemma verified_iff:
  "(wu, re, vr) \<in> set (verified_results t run_id) \<longleftrightarrow> re \<in> set (result_envelopes t) \<and> result_unit t re = Some wu \<and>
     wu_run_id wu = run_id \<and> vr \<in> set (verifier_reports t) \<and> vrr_result_envelope_id vr = res_id re"
  by (auto simp: verified_results_def split: option.splits if_splits intro!: bexI [of _ re])

lemma verified_keyed:
  assumes "keyed_for_reports t" and "(wu, re, vr) \<in> set (verified_results t run_id)"
  shows "vrr_recommendation vr \<noteq> [] \<and> vrr_status vr \<noteq> [] \<and> wu_id wu \<noteq> []"
  using assms by (auto simp: verified_iff keyed_for_reports_def result_unit_def list_all_iff dest!: find_row_SomeD split: option.splits)

lemma joined_verified:
  assumes "keyed_for_reports t" and "j \<in> set (joined_rows_for_run t run_id)" and "joined_complete j"
  shows "joined_result j \<in> set (verified_results t run_id)"
proof -
  have "joined_result j \<in># mset (map joined_result (filter joined_complete (joined_rows_for_run t run_id)))" using assms(2,3) by simp
  then show ?thesis unfolding completed_joined [OF assms(1)] by simp
qed

text \<open>What a complete row shows is what its result and its report hold.\<close>

definition row_shows :: "(json \<Rightarrow> string) \<Rightarrow> report_row \<Rightarrow> verified_result \<Rightarrow> bool" where
  "row_shows repr = (\<lambda>r (wu, re, vr). row_result_body r = decode_json_object (res_body re) \<and>
     row_recommendation repr r = vrr_recommendation vr \<and> row_verifier_status repr r = vrr_status vr \<and>
     col r ''work_unit_id'' = JStr (wu_id wu))"

lemma complete_row_shows:
  assumes "keyed_for_reports t" and "j \<in> set (joined_rows_for_run t run_id)" and "joined_complete j"
  shows "row_shows repr (decode_result_row j) (joined_result j)"
proof -
  obtain wu a re vr cn where j: "j = (wu, a, Some re, Some vr, cn)" using assms(3) by (cases j) (auto simp: joined_complete_def)
  have "(wu, re, vr) \<in> set (verified_results t run_id)" using joined_verified [OF assms] by (simp add: j joined_result_def)
  from verified_keyed [OF assms(1) this] show ?thesis
    by (simp add: j row_shows_def joined_result_def decode_result_row_def row_recommendation_def row_verifier_status_def
        get_null_def dget_or_def opt_column_def body_of_def or_json_def)
qed

text \<open>So a measure of the rows is a measure of the verified results.\<close>

lemma sum_as_mset: "(\<Sum>x\<leftarrow>xs. f x) = sum_mset (image_mset f (mset xs))"
  by (induction xs) simp_all

lemma row_measure:
  fixes f :: "report_row \<Rightarrow> int"
  assumes keyed: "keyed_for_reports t" and same: "\<And>r v. row_shows repr r v \<Longrightarrow> f r = g v"
  shows "(\<Sum>r\<leftarrow>completed_rows (result_rows_for_run t run_id). f r) = (\<Sum>v\<leftarrow>verified_results t run_id. g v)"
proof -
  let ?js = "filter joined_complete (joined_rows_for_run t run_id)"
  have "(\<Sum>r\<leftarrow>completed_rows (result_rows_for_run t run_id). f r) = (\<Sum>j\<leftarrow>?js. f (decode_result_row j))"
    unfolding sum_as_mset completed_rows_joined by (simp add: image_mset.compositionality comp_def)
  also have "\<dots> = (\<Sum>j\<leftarrow>?js. g (joined_result j))"
    by (rule sum_list_same, rule same, rule complete_row_shows [OF keyed]) auto
  also have "\<dots> = sum_mset (image_mset g (mset (map joined_result ?js)))"
    unfolding sum_as_mset by (simp add: image_mset.compositionality comp_def)
  also have "\<dots> = (\<Sum>v\<leftarrow>verified_results t run_id. g v)"
    unfolding completed_joined [OF keyed] sum_as_mset ..
  finally show ?thesis .
qed

section \<open>Totals\<close>

abbreviation result_body :: "result_row \<Rightarrow> fields" where
  "result_body re \<equiv> decode_json_object (res_body re)"

abbreviation result_amount :: "string \<Rightarrow> result_row \<Rightarrow> int" where
  "result_amount k re \<equiv> non_negative_int (get_null (result_body re) k)"

definition quarantined_result :: "verified_result \<Rightarrow> bool" where
  "quarantined_result = (\<lambda>(wu, re, vr).
     get_null (result_body re) ''status'' = JStr ''quarantined'' \<or> vrr_recommendation vr = ''quarantine'')"

definition failed_result :: "verified_result \<Rightarrow> bool" where
  "failed_result = (\<lambda>(wu, re, vr). get_null (result_body re) ''status'' = JStr ''failed'')"

definition warned_result :: "verified_result \<Rightarrow> bool" where
  "warned_result = (\<lambda>(wu, re, vr). vrr_recommendation vr = ''accept_with_warning'' \<or> vrr_status vr = ''needs_review'')"

definition passed_result :: "verified_result \<Rightarrow> bool" where
  "passed_result = (\<lambda>(wu, re, vr). vrr_recommendation vr = ''accept'' \<and> vrr_status vr = ''passed'')"

lemma count_filter: "(\<Sum>x\<leftarrow>xs. if p x then 1 else (0 :: int)) = int (length (filter p xs))"
  by (induction xs) simp_all

lemma row_count:
  assumes "keyed_for_reports t" and "\<And>r v. row_shows repr r v \<Longrightarrow> p r = q v"
  shows "count_rows p (completed_rows (result_rows_for_run t run_id)) = int (length (filter q (verified_results t run_id)))"
  unfolding count_rows_def count_filter [symmetric] by (rule row_measure [OF assms(1), where repr = repr]) (simp add: assms(2))

lemma work_units_of_rows:
  assumes keyed: "keyed_for_reports t"
  shows "set (filter truthy (map (\<lambda>r. col r ''work_unit_id'') (completed_rows (result_rows_for_run t run_id)))) =
    (\<lambda>(wu, re, vr). JStr (wu_id wu)) ` set (verified_results t run_id)"
proof -
  let ?js = "filter joined_complete (joined_rows_for_run t run_id)" and ?unit = "\<lambda>(wu, re, vr). JStr (wu_id wu)"
  have "set (completed_rows (result_rows_for_run t run_id)) = decode_result_row ` set ?js"
    using arg_cong [OF completed_rows_joined, of set_mset t run_id] by simp
  then have "(\<lambda>r. col r ''work_unit_id'') ` set (completed_rows (result_rows_for_run t run_id)) =
      (\<lambda>j. col (decode_result_row j) ''work_unit_id'') ` set ?js"
    by (simp add: image_image)
  also have "\<dots> = (\<lambda>j. ?unit (joined_result j)) ` set ?js"
  proof (rule image_cong [OF refl])
    show "col (decode_result_row j) ''work_unit_id'' = ?unit (joined_result j)" if "j \<in> set ?js" for j
      using complete_row_shows [OF keyed, of j run_id] that by (auto simp: row_shows_def split: prod.splits)
  qed
  also have "\<dots> = ?unit ` joined_result ` set ?js" by (simp only: image_image)
  also have "joined_result ` set ?js = set (verified_results t run_id)"
    using arg_cong [OF completed_joined [OF keyed], of set_mset run_id] by simp
  finally have "set (map (\<lambda>r. col r ''work_unit_id'') (completed_rows (result_rows_for_run t run_id))) = ?unit ` set (verified_results t run_id)"
    by (simp only: set_map)
  moreover have "truthy (?unit v)" if "v \<in> set (verified_results t run_id)" for v
    using verified_keyed [OF keyed] that by (cases v) auto
  ultimately show ?thesis by auto
qed

text \<open>C38. The totals of a report tell what is stored. Let the tables of the join have unique keys and let no identifier, verdict or
recommendation in them be empty. Then the report counts, over the verified results of the run (each stored result whose assignment
is of a work unit of the run, once with each of its verifier reports): as quarantined those whose document says so or which the
verifier sent to quarantine, and never as anything else; as warnings those of the others that did not fail and that the verifier
accepted with a warning or left for review; as successes those that it passed and accepted; as failures the rest. Cost, the two
declared amounts and the duration are the sums over the documents of these results, and the work units are those they belong to,
each once. In every breakdown (by a column, and by capacity node and backend class) each group appears once in the order of
the keys and every one of these figures but the work units is the sum over the groups; a work unit may be in two groups.\<close>

theorem report_totals_tell_results:
  assumes keyed: "keyed_for_reports t"
    and rows: "rows = completed_rows (result_rows_for_run t run_id)" and totals: "totals = summary_for_rows repr rows"
    and told: "told = verified_results t run_id"
  shows "sum_quarantine_count totals = int (length (filter quarantined_result told)) \<and>
    sum_warning_count totals =
      int (length (filter (\<lambda>v. \<not> quarantined_result v \<and> \<not> failed_result v \<and> warned_result v) told)) \<and>
    sum_success_count totals = int (length (filter (\<lambda>v. \<not> quarantined_result v \<and> \<not> failed_result v \<and> passed_result v) told)) \<and>
    sum_success_count totals + sum_warning_count totals + sum_failure_count totals + sum_quarantine_count totals = int (length told) \<and>
    sum_cost_micros totals = (\<Sum>(wu, re, vr)\<leftarrow>told. effective_cost_micros (result_body re)) \<and>
    sum_estimated_cost_micros totals = (\<Sum>(wu, re, vr)\<leftarrow>told. result_amount ''cost_estimate_micros'' re) \<and>
    sum_actual_cost_micros totals = (\<Sum>(wu, re, vr)\<leftarrow>told. result_amount ''actual_cost_micros'' re) \<and>
    sum_duration_ms totals = (\<Sum>(wu, re, vr)\<leftarrow>told. result_amount ''duration_ms'' re) \<and>
    sum_work_unit_count totals = int (card ((\<lambda>(wu, re, vr). wu_id wu) ` set told)) \<and>
    accounts_for (summarize_by_key repr rows key) totals \<and> accounts_for (capacity_node_summaries repr rows) totals"
proof -
  have bucket: "(bucket_of repr r = Quarantine) = quarantined_result v"
    "(bucket_of repr r = Warning) = (\<not> quarantined_result v \<and> \<not> failed_result v \<and> warned_result v)"
    "(bucket_of repr r = Success) = (\<not> quarantined_result v \<and> \<not> failed_result v \<and> passed_result v)"
    if "row_shows repr r v" for r v
    using that by (auto simp: row_shows_def bucket_of_def Let_def quarantined_result_def failed_result_def warned_result_def
        passed_result_def split: prod.splits)
  note counts = bucket [THEN row_count [OF keyed, where repr = repr and run_id = run_id]]
  note measure = row_measure [OF keyed, where repr = repr and run_id = run_id]
  have sums: "(\<Sum>r\<leftarrow>rows. effective_cost_micros (row_result_body r)) = (\<Sum>(wu, re, vr)\<leftarrow>told. effective_cost_micros (result_body re))"
    "(\<Sum>r\<leftarrow>rows. non_negative_int (get_null (row_result_body r) k)) = (\<Sum>(wu, re, vr)\<leftarrow>told. result_amount k re)" for k
    unfolding rows told by (rule measure; auto simp: row_shows_def)+
  have size: "int (length rows) = int (length told)"
    using measure [of "\<lambda>_. 1" "\<lambda>_. 1"] by (simp add: rows told sum_list_triv)
  have "sum_work_unit_count totals = int (card (set (filter truthy (map (\<lambda>r. col r ''work_unit_id'') rows))))"
    by (simp add: totals summary_for_rows_def Let_def length_remdups_card_conv)
  also have "set (filter truthy (map (\<lambda>r. col r ''work_unit_id'') rows)) = JStr ` (\<lambda>(wu, re, vr). wu_id wu) ` set told"
    unfolding rows told work_units_of_rows [OF keyed] by (simp add: image_image case_prod_unfold)
  also have "card \<dots> = card ((\<lambda>(wu, re, vr). wu_id wu) ` set told)" by (rule card_image) (simp add: inj_on_def)
  finally have units: "sum_work_unit_count totals = int (card ((\<lambda>(wu, re, vr). wu_id wu) ` set told))" .
  have fields: "sum_quarantine_count totals = count_rows (\<lambda>r. bucket_of repr r = Quarantine) rows"
    "sum_warning_count totals = count_rows (\<lambda>r. bucket_of repr r = Warning) rows"
    "sum_success_count totals = count_rows (\<lambda>r. bucket_of repr r = Success) rows"
    "sum_cost_micros totals = (\<Sum>r\<leftarrow>rows. effective_cost_micros (row_result_body r))"
    "sum_estimated_cost_micros totals = (\<Sum>r\<leftarrow>rows. non_negative_int (get_null (row_result_body r) ''cost_estimate_micros''))"
    "sum_actual_cost_micros totals = (\<Sum>r\<leftarrow>rows. non_negative_int (get_null (row_result_body r) ''actual_cost_micros''))"
    "sum_duration_ms totals = (\<Sum>r\<leftarrow>rows. non_negative_int (get_null (row_result_body r) ''duration_ms''))"
    by (simp_all add: totals summary_for_rows_def Let_def row_duration_ms_def [abs_def])
  have whole: "sum_success_count totals + sum_warning_count totals + sum_failure_count totals + sum_quarantine_count totals
      = int (length told)"
    using buckets_partition [of repr rows] size by (simp only: totals)
  show ?thesis
    by (intro conjI whole units; (simp only: fields counts [folded rows told] sums)?)
      (simp_all only: totals summarize_by_key_breakdown capacity_breakdown breakdown_accounts)
qed

theorem report_totals_tell_results_witness:
  "sum_success_count (summary_for_rows (\<lambda>_. []) (completed_rows (result_rows_for_run overrun_tables ''run_1''))) = 1 \<and>
   sum_cost_micros (summary_for_rows (\<lambda>_. []) (completed_rows (result_rows_for_run overrun_tables ''run_1''))) = 5"
proof -
  have keyed: "keyed_for_reports overrun_tables"
    by (simp add: keyed_for_reports_def overrun_tables_def empty_tables_def pk_unique_def)
  obtain wu re vr where told: "verified_results overrun_tables ''run_1'' = [(wu, re, vr)]"
    "res_body re = JObj [(''cost_estimate_micros'', JInt 1), (''actual_cost_micros'', JInt 5)]"
    "vrr_recommendation vr = ''accept''" "vrr_status vr = ''passed''"
    by (simp add: verified_results_def overrun_tables_def empty_tables_def result_unit_def find_row_def)
  show ?thesis
    using report_totals_tell_results [OF keyed refl refl refl, where run_id = "''run_1''" and repr = "\<lambda>_. []"]
    by (simp add: told quarantined_result_def failed_result_def passed_result_def effective_cost_micros_def Let_def
        get_null_def dget_or_def)
qed

end
