(* ===== verification/Spec2Isabelle.thy ===== *)
theory Spec2Isabelle
  imports Scheduler_Properties Receipts Routebook_Validator Host_Properties Host_Summary Adapter_Properties Gateway Worker_Properties
    Composition Mcp Report_Totals
begin

text \<open>
  A verification development for TokenBank, a control plane that plans, schedules, verifies and accounts for small
  units of work executed on private capacity. Python sources are under \<open>src/tokenbank/\<close>.

  A client submits a work unit. The router (\<open>router/\<close>, \<open>routebook/\<close>, \<open>backends/\<close>, \<open>capacity/\<close>) plans a route: candidates of
  the routebook's rules, resolved to a registered backend and a worker, validated against the routebook's guardrails and
  re-selected by a scorer. The policy engine (\<open>policy/\<close>) approves or denies the plan. The scheduler (\<open>scheduler/\<close>) creates an
  execution attempt and an assignment, leases the assignment to a worker that polls for it, extends, expires and retries the
  lease, and takes in the result. The verifier (\<open>verifier/\<close>) checks the result and recommends. The usage ledger
  (\<open>ledger/\<close>) and the audit receipts (\<open>audit/\<close>) record what was accepted, each entry sealed by a hash and each receipt chained to an
  earlier one. Every change of the database is written with an event of the outbox (\<open>events/\<close>) in one transaction (\<open>db/\<close>);
  secrets are redacted from events and outputs (\<open>core/redaction.py\<close>).

  \<^bold>\<open>Foundations.\<close> \<open>Prelude\<close>: Python values that the code exchanges (\<open>json\<close>), exceptions as values of a sum type
  (\<open>py_error + 'a\<close>, \<open>bind_result\<close>), operations as state passing with an error (\<open>bnd\<close>, \<open>seq\<close>, \<open>raise\<close>), dictionaries as
  association lists in insertion order (\<open>dget\<close>, \<open>dput\<close>). \<open>Timestamps\<close>: UTC times, their text and its order
  (\<open>scheduler/lease.py\<close>). \<open>Floats\<close>: binary64 numbers as rationals with rounding to nearest, ties to even, and \<open>round(x, 4)\<close>.
  \<open>Canonical\<close>: canonical JSON and the hashes over it (\<open>core/canonical.py\<close>). \<open>Redaction\<close>: the secret expressions as regular
  expressions over strings, substitution and the redaction of documents (\<open>core/redaction.py\<close>). \<open>Models\<close>: the data transfer
  objects and the guard on their keys (\<open>models/\<close>).

  \<^bold>\<open>Database.\<close> \<open>Database\<close>: the tables of \<open>db/migrations\<close> as lists of records with primary and foreign keys; locale
  \<open>row_store\<close> states the contract of a keyed table and is interpreted on five of them. \<open>Transactions\<close>: statements, BEGIN
  IMMEDIATE, commit and rollback, fresh identifiers and clocks; locale \<open>atomic_scope\<close> states all-or-nothing. \<open>Outbox\<close>:
  sequence numbers, enqueueing, marking and the flush (\<open>events/\<close>).

  \<^bold>\<open>Scheduling.\<close> \<open>Lease\<close> (\<open>lease.py\<close>, \<open>lifecycle.py\<close>, \<open>retry_fallback.py\<close>) and \<open>Scheduler\<close> (\<open>scheduler.py\<close>, \<open>sweeper.py\<close>)
  hold the operations; \<open>Scheduler_Proofs\<close> the invariant of the tables, \<open>Scheduler_Machine\<close> the step relation whose steps are
  the public operations and the runs of the sweeper, whether they return or raise (a sweep that raises leaves its statements in
  an open transaction, behind which every operation raises until a sweep commits), \<open>Scheduler_Behaviour\<close> what each branch does, \<open>Scheduler_Liveness\<close> when an operation succeeds, and
  \<open>Scheduler_Properties\<close> the properties of the whole.

  \<^bold>\<open>Planning.\<close> \<open>Policy\<close> (\<open>policy/\<close>), \<open>Capacity\<close> (\<open>capacity/\<close>), \<open>Backends\<close> (\<open>backends/registry.py\<close>, \<open>resolver.py\<close>), \<open>Routebook\<close> and
  \<open>Routebook_Validator\<close> (\<open>routebook/\<close>), \<open>Config\<close> (\<open>config_runtime/\<close>), \<open>Router\<close> (candidates, normal form, guardrails, storing of
  plans), \<open>Privacy\<close> (\<open>router/privacy_preflight.py\<close>), \<open>Task_Analysis\<close> (\<open>task_analyzer.py\<close>, \<open>token_estimator.py\<close>), \<open>Profiles\<close>
  (\<open>capacity_profiles.py\<close>, \<open>task_profiler.py\<close>), \<open>Scoring\<close> (\<open>route_scorer.py\<close>) and \<open>Route_Service\<close> (\<open>service.py\<close>).

  \<^bold>\<open>Verification and accounting.\<close> \<open>Verifier\<close> and \<open>Verifier_Runner\<close> (\<open>verifier/\<close>), \<open>Accounts\<close> (\<open>accounts/\<close>), \<open>Ledger\<close> with
  \<open>Ledger_Sample\<close> (\<open>ledger/\<close>), \<open>Receipts\<close> (\<open>audit/\<close>).

  \<^bold>\<open>Host commands.\<close> \<open>Host\<close> (submission of the five demonstration tasks) and \<open>Host_Results\<close> (finalization, summaries and status)
  model \<open>host/url_check.py\<close>; \<open>Host_Proofs\<close> says what each part of a submission stores, \<open>Host_Properties\<close> that nothing is
  scheduled without an approval and when a submission succeeds, \<open>Host_Summary\<close> that a summary carries the verdict of the
  verifier. \<open>Gateway\<close> is the command that runs one assignment on the control plane.

  \<^bold>\<open>Execution.\<close> \<open>Adapters\<close> (\<open>backends/\<close>): one definition per adapter, the envelope, error and usage builders; \<open>Adapter_Properties\<close>
  shows that their envelopes are well typed and pass the checks of the verifier. \<open>Worker\<close> (\<open>worker/\<close>): the daemon, its client,
  executor, spool, sandbox and log, over an arbitrary control plane; \<open>Worker_Properties\<close> shows that results are not lost, that
  the log holds no token, that no model gateway runs on a worker and when the loop ends.

  \<^bold>\<open>Application.\<close> \<open>Endpoints\<close> (\<open>app/\<close>): the bearer tokens, the route tables and handlers of the routers, registration of workers
  and the start, with an exception as a refusal or a plain 500; \<open>Endpoint_Properties\<close> shows that a request keeps the invariant
  of the scheduler, that a refused one has no effect, and the one request that breaks this. \<open>Composition\<close> puts the worker and the
  application together: the transport of the worker is \<open>serve\<close>, and what a turn completes is in the database. \<open>Minted\<close> says
  which operations keep new identifiers unused, \<open>Envelope_Reader\<close> reads the document of an envelope back and \<open>Turn_Sample\<close>
  runs one turn of a concrete worker and application with it. Requests
  are served one after another, on the one connection that the application has.

  \<^bold>\<open>Host adapter and reports.\<close> \<open>Ingress\<close> (\<open>host_adapter/\<close>): what a host may ask for, the normal form of its request and the commands
  that submit, inspect and cancel work; it shows that a normalized request names no credential and starts the submission that
  the endpoint of the application starts. \<open>Explainer\<close> (\<open>router/route_explainer.py\<close>): the documents of the profiles, the analysis
  and the scores, and the trace of a decision. \<open>Commands\<close> (\<open>host_adapter/core.py\<close>): the estimate, explanation, score and analysis of
  a route that is not scheduled, and the commands over accounts, ledger, receipts and reports. \<open>Mcp\<close> (\<open>host_adapter/mcp_server.py\<close>):
  the tools, the answer to a JSON-RPC request and the loop over the input; it shows that only a submission schedules work and that
  requests are answered in order until the first malformed line. \<open>Metrics\<close> (\<open>observability/\<close>): the rows of a run, costs, baselines,
  breakdowns and the reports; it shows that every breakdown accounts for the totals and that a run with a result which costs more
  than its positive baseline has no report. \<open>Report_Totals\<close> shows that the totals are counts and sums over the verified results of
  the run as they are stored.

  \<^bold>\<open>State and operations.\<close> A database operation of the code is a function from \<open>world\<close> to a result and a \<open>world\<close>: the committed
  tables, the tables that the connection sees, whether a transaction is open, and the draws from the clock, from
  \<open>uuid.uuid4()\<close> and from \<open>secrets\<close>. An operation of the worker is one from \<open>worker\<close>: the state of the server it talks to, the
  files of the spool and of the sandboxes, the log and the flags of the daemon. A raise is an \<open>Inl\<close>. A pure function of the
  code is a HOL function, fallible ones return a result. Loops of the code are structural recursions or have a proved
  measure; there is no fuel. The recursions with a measure are the substitution of regular expressions (the rest of the
  text), \<open>bits\<close> (the number) and the scans over documents (their size). The loop of the worker may run for ever: \<open>worker_run\<close>
  is a \<open>partial_function (option)\<close> with the value None in that case, and a property says when it returns.

  \<^bold>\<open>Parameters.\<close> SHA-256, the text of a float, the clock, the random sources, \<open>repr\<close> of a container, YAML parsing, JSON schema
  validation, \<open>model_validate\<close> of pydantic where it converts documents, \<open>json.loads\<close>, \<open>json.dumps\<close> where its text is
  redacted, the rows of \<open>baseline_run_records\<close> (no operation writes them), the HTTP library (\<open>transport\<close>), the URL,
  HTML and address functions the adapters call (\<open>web_library\<close>), signals, what FastAPI
  answers by itself (\<open>sv_framework\<close>), the text of a JSON answer (\<open>sv_render\<close>), and the sum of a list of floats are arguments of the
  definitions that use them. A property that needs more of one says so in a hypothesis: injectivity of the draws from
  \<open>uuid.uuid4()\<close>, for instance.

  \<^bold>\<open>Not modelled.\<close> The texts of pydantic's error messages. Locks between database connections and requests that overlap in time:
  each process has one connection. Command line, HTML views and the demo (\<open>cli/\<close>, \<open>dashboard/\<close> with its two routes, \<open>demo/\<close>,
  \<open>schemas/\<close>): they call the modelled operations, and their own effects are files, processes and sockets.
\<close>

end
